(* ===== verification/Prelude.thy ===== *)
theory Prelude
  imports Main "HOL-Library.AList" "HOL-Library.Char_ord" "HOL-Library.List_Lexorder"
begin

section \<open>Shared vocabulary of the models\<close>

text \<open>
  What every component of the development uses: the Python values the services pass around,
  ordered dictionaries, operations that read and write a state and may raise, the rules that
  carry invariants through such operations, and two interfaces (keyed stores and status
  machines) that several components provide.

  A Python exception does not undo the writes made before it, so an operation returns the
  state on the error path too: \<open>state \<Rightarrow> (error + value) \<times> state\<close>.
\<close>

subsection \<open>Names for the types of the services\<close>

text \<open>
  \<^item> \<open>uuid\<close>: what \<^verbatim>\<open>uuid.uuid4()\<close> returns. The code only compares identifiers, so they are
    numbers, drawn from a counter kept in the state (\<open>uuid_next\<close>): every draw is new.
  \<^item> \<open>instant\<close>: a UTC \<^verbatim>\<open>datetime\<close>, in microseconds; \<^verbatim>\<open>timedelta\<close> arithmetic is \<open>int\<close> arithmetic.
    An operation that reads the clock takes the reading as its argument \<open>now\<close>.
  \<^item> \<open>dict\<close>: a Python dictionary keeps the order of first insertion, which \<^verbatim>\<open>values()\<close> exposes:
    an association list, updated in place or at its end (\<^const>\<open>AList.update\<close>).
\<close>

type_synonym uuid = nat
type_synonym instant = int
type_synonym ('k, 'v) dict = "('k \<times> 'v) list"

definition seconds :: "int \<Rightarrow> int" where
  "seconds n = n * 1000000"

definition minutes :: "int \<Rightarrow> int" where
  "minutes n = seconds (60 * n)"

definition hours :: "int \<Rightarrow> int" where
  "hours n = minutes (60 * n)"

text \<open>Values of dynamic type: audit payloads, view dictionaries, decoded JSON.\<close>

datatype pyval =
    PyNone
  | PyBool bool
  | PyInt int
  | PyStr string
  | PyUuid uuid
  | PyTime instant
  | PyList "pyval list"
  | PyDict "(string \<times> pyval) list"

definition py_opt :: "('a \<Rightarrow> pyval) \<Rightarrow> 'a option \<Rightarrow> pyval" where
  "py_opt f v = (case v of None \<Rightarrow> PyNone | Some x \<Rightarrow> f x)"

subsection \<open>Strings\<close>

text \<open>
  A string is the list of its code points below 256. \<open>py_strip\<close> is \<^verbatim>\<open>str.strip()\<close>, which drops
  the code points for which \<^verbatim>\<open>str.isspace\<close> holds; \<open>py_lower\<close> is \<^verbatim>\<open>str.lower()\<close> on that range
  (ASCII and Latin-1 capitals, except the multiplication sign).
\<close>

definition py_isspace :: "char \<Rightarrow> bool" where
  "py_isspace c \<longleftrightarrow>
     (let n = of_char c :: nat in 9 \<le> n \<and> n \<le> 13 \<or> 28 \<le> n \<and> n \<le> 32 \<or> n = 133 \<or> n = 160)"

definition py_strip :: "string \<Rightarrow> string" where
  "py_strip s = rev (dropWhile py_isspace (rev (dropWhile py_isspace s)))"

definition py_lower_char :: "char \<Rightarrow> char" where
  "py_lower_char c =
     (let n = of_char c :: nat in
      if 65 \<le> n \<and> n \<le> 90 \<or> 192 \<le> n \<and> n \<le> 222 \<and> n \<noteq> 215 then char_of (n + 32) else c)"

definition py_lower :: "string \<Rightarrow> string" where
  "py_lower s = map py_lower_char s"

definition starts_with :: "string \<Rightarrow> string \<Rightarrow> bool" where
  "starts_with s p \<longleftrightarrow> take (length p) s = p"

text \<open>\<^verbatim>\<open>str(n)\<close> of an integer.\<close>

fun nat_str :: "nat \<Rightarrow> string" where
  "nat_str n = (if n < 10 then [char_of (48 + n)] else nat_str (n div 10) @ [char_of (48 + n mod 10)])"

declare nat_str.simps [simp del]

definition int_str :: "int \<Rightarrow> string" where
  "int_str n = (if n < 0 then ''-'' @ nat_str (nat (- n)) else nat_str (nat n))"

text \<open>The falsy test of \<^verbatim>\<open>str | None\<close> and the \<^verbatim>\<open>x or y\<close> idiom.\<close>

definition truthy :: "string option \<Rightarrow> bool" where
  "truthy v \<longleftrightarrow> (case v of None \<Rightarrow> False | Some s \<Rightarrow> s \<noteq> [])"

definition or_else :: "string option \<Rightarrow> string option \<Rightarrow> string option" where
  "or_else v w = (if truthy v then v else w)"

definition or_str :: "string option \<Rightarrow> string \<Rightarrow> string" where
  "or_str v w = (if truthy v then the v else w)"

lemma dropWhile_none: "xs = [] \<or> \<not> P (hd xs) \<Longrightarrow> dropWhile P xs = xs"
  by (cases xs) auto

lemma dropWhile_rev_hd:
  assumes "xs = [] \<or> \<not> P (hd xs)"
  shows "rev (dropWhile P (rev xs)) = [] \<or> \<not> P (hd (rev (dropWhile P (rev xs))))"
proof (cases "dropWhile P (rev xs) = []")
  case False
  obtain zs where zs: "rev xs = zs @ dropWhile P (rev xs)"
    by (metis takeWhile_dropWhile_id)
  then have "xs = rev (dropWhile P (rev xs)) @ rev zs"
    by (metis rev_append rev_rev_ident)
  with False have "hd xs = hd (rev (dropWhile P (rev xs)))" and "xs \<noteq> []"
    by (metis hd_append2 rev_is_Nil_conv, auto)
  with assms show ?thesis by simp
qed simp

lemma py_strip_idem [simp]: "py_strip (py_strip s) = py_strip s"
proof -
  let ?a = "dropWhile py_isspace s"
  have "?a = [] \<or> \<not> py_isspace (hd ?a)" by (metis hd_dropWhile)
  then have "dropWhile py_isspace (py_strip s) = py_strip s"
    unfolding py_strip_def by (intro dropWhile_none dropWhile_rev_hd)
  then show ?thesis
    by (subst py_strip_def) (simp add: py_strip_def dropWhile_idem)
qed

lemma truthy_simps [simp]: "\<not> truthy None" "truthy (Some s) \<longleftrightarrow> s \<noteq> []"
  by (simp_all add: truthy_def)

subsection \<open>Dictionaries\<close>

text \<open>\<^verbatim>\<open>d.get(k)\<close>, \<^verbatim>\<open>d[k] = v\<close>, \<^verbatim>\<open>del d[k]\<close>, \<^verbatim>\<open>d.values()\<close>.\<close>

definition dict_get :: "('k, 'v) dict \<Rightarrow> 'k \<Rightarrow> 'v option" where
  "dict_get d k = map_of d k"

definition dict_set :: "'k \<Rightarrow> 'v \<Rightarrow> ('k, 'v) dict \<Rightarrow> ('k, 'v) dict" where
  "dict_set k v d = AList.update k v d"

definition dict_del :: "'k \<Rightarrow> ('k, 'v) dict \<Rightarrow> ('k, 'v) dict" where
  "dict_del k d = AList.delete k d"

definition dict_values :: "('k, 'v) dict \<Rightarrow> 'v list" where
  "dict_values d = map snd d"

definition dict_map_values :: "('v \<Rightarrow> 'w) \<Rightarrow> ('k, 'v) dict \<Rightarrow> ('k, 'w) dict" where
  "dict_map_values f d = map (\<lambda>(k, v). (k, f v)) d"

definition dict_ok :: "('k, 'v) dict \<Rightarrow> bool" where
  "dict_ok d \<longleftrightarrow> distinct (map fst d)"

lemma dict_get_Nil [simp]: "dict_get [] k = None"
  by (simp add: dict_get_def)

lemma dict_get_Cons [simp]:
  "dict_get ((k, v) # d) k' = (if k' = k then Some v else dict_get d k')"
  by (simp add: dict_get_def)

lemma dict_get_set [simp]:
  "dict_get (dict_set k v d) k' = (if k' = k then Some v else dict_get d k')"
  by (simp add: dict_get_def dict_set_def update_conv')

lemma dict_get_del [simp]:
  "dict_get (dict_del k d) k' = (if k' = k then None else dict_get d k')"
  by (simp add: dict_get_def dict_del_def delete_conv')

lemma dict_get_map_values [simp]:
  "dict_get (dict_map_values f d) k = map_option f (dict_get d k)"
  by (induction d) (auto simp: dict_map_values_def)

lemma dict_ok_Nil [simp]: "dict_ok []"
  by (simp add: dict_ok_def)

lemma dict_ok_set [simp]: "dict_ok d \<Longrightarrow> dict_ok (dict_set k v d)"
  by (simp add: dict_ok_def dict_set_def distinct_update)

lemma dict_ok_del [simp]: "dict_ok d \<Longrightarrow> dict_ok (dict_del k d)"
  by (simp add: dict_ok_def dict_del_def distinct_delete)

lemma dict_map_values_keys [simp]: "map fst (dict_map_values f d) = map fst d"
  by (induction d) (auto simp: dict_map_values_def)

lemma dict_ok_map_values [simp]: "dict_ok (dict_map_values f d) = dict_ok d"
  by (simp add: dict_ok_def)

lemma dict_get_values: "dict_get d k = Some v \<Longrightarrow> v \<in> set (dict_values d)"
  by (force simp: dict_get_def dict_values_def dest: map_of_SomeD)

lemma dict_values_get:
  assumes "dict_ok d" and "v \<in> set (dict_values d)"
  obtains k where "dict_get d k = Some v"
  using assms by (auto simp: dict_ok_def dict_values_def dict_get_def)

lemma dict_items_get: "dict_ok d \<Longrightarrow> (k, v) \<in> set d \<longleftrightarrow> dict_get d k = Some v"
  by (simp add: dict_ok_def dict_get_def)

lemma dict_set_new: "dict_get d k = None \<Longrightarrow> dict_set k v d = d @ [(k, v)]"
  unfolding dict_get_def dict_set_def
  by (induction d) (auto split: if_splits)

lemma dict_set_Cons:
  "dict_set k v ((k', v') # d) = (if k' = k then (k, v) # d else (k', v') # dict_set k v d)"
  by (simp add: dict_set_def)

text \<open>Sums over the values of a dictionary, when one entry is overwritten or added.\<close>

lemma sum_dict_update:
  fixes f :: "'v \<Rightarrow> int"
  shows "dict_get d k = Some old \<Longrightarrow>
    (\<Sum>x\<leftarrow>dict_values (dict_set k v d). f x) = (\<Sum>x\<leftarrow>dict_values d. f x) - f old + f v"
  by (induction d) (auto simp: dict_values_def dict_set_Cons split: if_splits)

lemma sum_dict_new:
  fixes f :: "'v \<Rightarrow> int"
  shows "dict_get d k = None \<Longrightarrow>
    (\<Sum>x\<leftarrow>dict_values (dict_set k v d). f x) = (\<Sum>x\<leftarrow>dict_values d. f x) + f v"
  by (simp add: dict_set_new dict_values_def)

subsection \<open>Operations that may raise\<close>

text \<open>
  \<open>ret\<close> returns, \<open>throw\<close> raises, \<open>bindE\<close> runs one operation and then another on its result
  unless the first one raised, \<open>require c e\<close> is \<^verbatim>\<open>if not c: raise e\<close>, \<open>when_op\<close> is an \<^verbatim>\<open>if\<close> without
  \<^verbatim>\<open>else\<close>, \<open>of_sum\<close> returns or raises a
  computed result, \<open>for_each\<close> is a \<^verbatim>\<open>for\<close> loop over a list (an exception ends it), \<open>catch_op\<close> is
  \<^verbatim>\<open>try/except\<close>, and \<open>zoom\<close> runs an operation of a part of the state.
\<close>

type_synonym ('s, 'e, 'a) op = "'s \<Rightarrow> ('e + 'a) \<times> 's"

named_theorems run \<open>evaluation of operations on a state\<close>
named_theorems evolve \<open>rules for relations kept by every operation\<close>

definition ret :: "'a \<Rightarrow> ('s, 'e, 'a) op" where
  [run]: "ret x s = (Inr x, s)"

definition throw :: "'e \<Rightarrow> ('s, 'e, 'a) op" where
  [run]: "throw e s = (Inl e, s)"

definition bindE :: "('s, 'e, 'a) op \<Rightarrow> ('a \<Rightarrow> ('s, 'e, 'b) op) \<Rightarrow> ('s, 'e, 'b) op" where
  [run]: "bindE m f s =
    (case m s of (r, t) \<Rightarrow> (case r of Inl e \<Rightarrow> (Inl e, t) | Inr x \<Rightarrow> f x t))"

definition gets :: "('s \<Rightarrow> 'a) \<Rightarrow> ('s, 'e, 'a) op" where
  [run]: "gets f s = (Inr (f s), s)"

definition modify :: "('s \<Rightarrow> 's) \<Rightarrow> ('s, 'e, unit) op" where
  [run]: "modify f s = (Inr (), f s)"

definition require :: "bool \<Rightarrow> 'e \<Rightarrow> ('s, 'e, unit) op" where
  [run]: "require c e s = (if c then Inr () else Inl e, s)"

definition when_op :: "bool \<Rightarrow> ('s, 'e, unit) op \<Rightarrow> ('s, 'e, unit) op" where
  [run]: "when_op c m s = (if c then m s else (Inr (), s))"

definition of_option :: "'e \<Rightarrow> 'a option \<Rightarrow> ('s, 'e, 'a) op" where
  [run]: "of_option e v s = (case v of None \<Rightarrow> (Inl e, s) | Some x \<Rightarrow> (Inr x, s))"

definition catch_op :: "('s, 'e, 'a) op \<Rightarrow> ('e \<Rightarrow> ('s, 'f, 'a) op) \<Rightarrow> ('s, 'f, 'a) op" where
  [run]: "catch_op m h s =
    (case m s of (r, t) \<Rightarrow> (case r of Inl e \<Rightarrow> h e t | Inr x \<Rightarrow> (Inr x, t)))"

definition zoom ::
  "('s \<Rightarrow> 't) \<Rightarrow> ('t \<Rightarrow> 's \<Rightarrow> 's) \<Rightarrow> ('e \<Rightarrow> 'f) \<Rightarrow> ('t, 'e, 'a) op \<Rightarrow> ('s, 'f, 'a) op" where
  [run]: "zoom get put err m s =
    (case m (get s) of (r, t) \<Rightarrow>
       (case r of Inl e \<Rightarrow> (Inl (err e), put t s) | Inr x \<Rightarrow> (Inr x, put t s)))"

definition of_sum :: "'e + 'a \<Rightarrow> ('s, 'e, 'a) op" where
  [run]: "of_sum r s = (r, s)"

fun for_each :: "('a \<Rightarrow> ('s, 'e, unit) op) \<Rightarrow> 'a list \<Rightarrow> ('s, 'e, unit) op" where
  "for_each f [] = ret ()"
| "for_each f (x # xs) = bindE (f x) (\<lambda>_. for_each f xs)"

lemma bindE_Inr:
  "bindE m f s = (Inr y, t) \<longleftrightarrow> (\<exists>x u. m s = (Inr x, u) \<and> f x u = (Inr y, t))"
  by (auto simp: bindE_def split: prod.splits sum.splits)

lemma bindE_Inl:
  "bindE m f s = (Inl e, t) \<longleftrightarrow>
     m s = (Inl e, t) \<or> (\<exists>x u. m s = (Inr x, u) \<and> f x u = (Inl e, t))"
  by (auto simp: bindE_def split: prod.splits sum.splits)

lemma run_Inr_iff:
  "ret x s = (Inr y, t) \<longleftrightarrow> y = x \<and> t = s"
  "throw e s = (Inr z, t) \<longleftrightarrow> False"
  "gets g s = (Inr w, t) \<longleftrightarrow> w = g s \<and> t = s"
  "modify h s = (Inr u, t) \<longleftrightarrow> t = h s"
  "require c e s = (Inr u, t) \<longleftrightarrow> c \<and> t = s"
  "of_option e v s = (Inr z, t) \<longleftrightarrow> v = Some z \<and> t = s"
  "of_sum q s = (Inr z, t) \<longleftrightarrow> q = Inr z \<and> t = s"
  by (auto simp: run split: option.splits)

lemma run_Inl_iff:
  "ret x s = (Inl e, t) \<longleftrightarrow> False"
  "throw e s = (Inl e', t) \<longleftrightarrow> e' = e \<and> t = s"
  "gets g s = (Inl e, t) \<longleftrightarrow> False"
  "modify h s = (Inl e, t) \<longleftrightarrow> False"
  "require c e s = (Inl e', t) \<longleftrightarrow> \<not> c \<and> e' = e \<and> t = s"
  "of_option e v s = (Inl e', t) \<longleftrightarrow> v = None \<and> e' = e \<and> t = s"
  "of_sum q s = (Inl e', t) \<longleftrightarrow> q = Inl e' \<and> t = s"
  by (auto simp: run split: option.splits)

lemma rethrow_Inr: "catch_op m (\<lambda>e. throw (h e)) s = (Inr x, t) \<longleftrightarrow> m s = (Inr x, t)"
  by (auto simp: catch_op_def throw_def split: prod.splits sum.splits)

lemmas op_success = bindE_Inr run_Inr_iff

lemma for_each_Inr_Cons:
  "for_each f (x # xs) s = (Inr y, t) \<longleftrightarrow>
     (\<exists>u. f x s = (Inr (), u) \<and> for_each f xs u = (Inr y, t))"
  by (simp add: bindE_Inr)

subsection \<open>What every run of an operation keeps\<close>

text \<open>
  \<open>evolves R m\<close>: from every state the operation \<open>m\<close>, raising or not, ends in a state that \<open>R\<close>
  relates to the first. For a reflexive and transitive \<open>R\<close> this is compositional. An invariant
  \<open>P\<close> is the relation \<open>keeps P\<close>.
\<close>

definition evolves :: "('s \<Rightarrow> 's \<Rightarrow> bool) \<Rightarrow> ('s, 'e, 'a) op \<Rightarrow> bool" where
  "evolves R m \<longleftrightarrow> (\<forall>s. R s (snd (m s)))"

definition keeps :: "('s \<Rightarrow> bool) \<Rightarrow> 's \<Rightarrow> 's \<Rightarrow> bool" where
  "keeps P s t \<longleftrightarrow> (P s \<longrightarrow> P t)"

lemma evolvesD: "evolves R m \<Longrightarrow> m s = (r, t) \<Longrightarrow> R s t"
  unfolding evolves_def by (metis snd_conv)

lemma evolvesI: "(\<And>s r t. m s = (r, t) \<Longrightarrow> R s t) \<Longrightarrow> evolves R m"
  unfolding evolves_def by (metis prod.collapse)

lemma evolves_keeps: "evolves (keeps P) m \<Longrightarrow> P s \<Longrightarrow> m s = (r, t) \<Longrightarrow> P t"
  by (drule (1) evolvesD) (simp add: keeps_def)

lemma evolves_if [evolve]: "evolves R m \<Longrightarrow> evolves R n \<Longrightarrow> evolves R (if c then m else n)"
  by simp

lemma evolves_case_option [evolve]:
  "evolves R m \<Longrightarrow> (\<And>x. evolves R (f x)) \<Longrightarrow> evolves R (case v of None \<Rightarrow> m | Some x \<Rightarrow> f x)"
  by (cases v) auto

lemma evolves_let [evolve]: "(\<And>x. evolves R (f x)) \<Longrightarrow> evolves R (let x = v in f x)"
  by simp

lemma evolves_case_prod [evolve]: "(\<And>x y. evolves R (f x y)) \<Longrightarrow> evolves R (case v of (x, y) \<Rightarrow> f x y)"
  by (cases v) auto

locale evolution =
  fixes R :: "'s \<Rightarrow> 's \<Rightarrow> bool"
  assumes refl: "R s s"
    and trans: "R s t \<Longrightarrow> R t u \<Longrightarrow> R s u"
begin

lemma ret: "evolves R (ret x)"
  by (simp add: evolves_def run refl)

lemma throw: "evolves R (throw e)"
  by (simp add: evolves_def run refl)

lemma gets: "evolves R (gets f)"
  by (simp add: evolves_def run refl)

lemma require: "evolves R (require c e)"
  by (simp add: evolves_def run refl)

lemma of_option: "evolves R (of_option e v)"
  by (simp add: evolves_def run refl split: option.splits)

lemma of_sum: "evolves R (of_sum r)"
  by (simp add: evolves_def run refl)

lemma modify: "(\<And>s. R s (f s)) \<Longrightarrow> evolves R (modify f)"
  by (simp add: evolves_def run)

lemma when_op: "evolves R m \<Longrightarrow> evolves R (when_op c m)"
  by (simp add: evolves_def run refl)

lemma bindE:
  assumes "evolves R m" and "\<And>x. evolves R (f x)"
  shows "evolves R (bindE m f)"
proof (rule evolvesI)
  fix s r t
  assume run: "Prelude.bindE m f s = (r, t)"
  obtain q u where m: "m s = (q, u)" by fastforce
  with assms(1) have su: "R s u" by (rule evolvesD)
  show "R s t"
  proof (cases q)
    case (Inl e)
    with run m su show ?thesis by (simp add: bindE_def)
  next
    case (Inr x)
    with run m have "f x u = (r, t)" by (simp add: bindE_def)
    with assms(2) have "R u t" by (rule evolvesD)
    with su show ?thesis by (rule trans)
  qed
qed

lemma catch_op:
  assumes "evolves R m" and "\<And>e. evolves R (h e)"
  shows "evolves R (catch_op m h)"
proof (rule evolvesI)
  fix s r t
  assume run: "Prelude.catch_op m h s = (r, t)"
  obtain q u where m: "m s = (q, u)" by fastforce
  with assms(1) have su: "R s u" by (rule evolvesD)
  show "R s t"
  proof (cases q)
    case (Inr x)
    with run m su show ?thesis by (simp add: catch_op_def)
  next
    case (Inl e)
    with run m have "h e u = (r, t)" by (simp add: catch_op_def)
    with assms(2) have "R u t" by (rule evolvesD)
    with su show ?thesis by (rule trans)
  qed
qed

lemma for_each: "(\<And>x. evolves R (f x)) \<Longrightarrow> evolves R (for_each f xs)"
  by (induction xs) (simp_all add: local.ret local.bindE)

lemmas rules = ret throw gets require of_option of_sum when_op bindE catch_op for_each

end

subsection \<open>Runs from one state\<close>

text \<open>
  \<open>goes R m s\<close>: the run of \<open>m\<close> from \<open>s\<close> ends in a state that \<open>R\<close> relates to \<open>s\<close>. Where an operation
  writes back a record it has read, this keeps what is known of the record.
\<close>

definition goes :: "('s \<Rightarrow> 's \<Rightarrow> bool) \<Rightarrow> ('s, 'e, 'a) op \<Rightarrow> 's \<Rightarrow> bool" where
  "goes R m s \<longleftrightarrow> R s (snd (m s))"

lemma evolves_goes: "evolves R m \<Longrightarrow> goes R m s"
  by (simp add: evolves_def goes_def)

lemma goes_evolves: "(\<And>s. goes R m s) \<Longrightarrow> evolves R m"
  by (simp add: evolves_def goes_def)

lemma goes_gets: "goes R (f (g s)) s \<Longrightarrow> goes R (bindE (gets g) f) s"
  by (simp add: goes_def run)

lemma goes_if: "(c \<Longrightarrow> goes R m s) \<Longrightarrow> (\<not> c \<Longrightarrow> goes R n s) \<Longrightarrow> goes R (if c then m else n) s"
  by simp

lemma goes_let: "(\<And>x. x = v \<Longrightarrow> goes R (f x) s) \<Longrightarrow> goes R (let x = v in f x) s"
  by simp

lemma goes_case_option:
  "(v = None \<Longrightarrow> goes R m s) \<Longrightarrow> (\<And>x. v = Some x \<Longrightarrow> goes R (f x) s) \<Longrightarrow>
     goes R (case v of None \<Rightarrow> m | Some x \<Rightarrow> f x) s"
  by (cases v) auto

lemma goes_zoom:
  "(\<And>t. snd (m (get s)) = t \<Longrightarrow> R s (put t s)) \<Longrightarrow> goes R (zoom get put err m) s"
  by (auto simp: goes_def zoom_def split: prod.splits sum.splits)

context evolution
begin

lemma goes_require: "(c \<Longrightarrow> goes R (f ()) s) \<Longrightarrow> goes R (Prelude.bindE (Prelude.require c e) f) s"
  by (auto simp: goes_def run refl)

lemma goes_of_option:
  "(\<And>x. v = Some x \<Longrightarrow> goes R (f x) s) \<Longrightarrow> goes R (Prelude.bindE (Prelude.of_option e v) f) s"
  by (auto simp: goes_def run refl split: option.splits)

lemma goes_of_sum:
  "(\<And>x. v = Inr x \<Longrightarrow> goes R (f x) s) \<Longrightarrow> goes R (Prelude.bindE (Prelude.of_sum v) f) s"
  by (auto simp: goes_def run refl split: sum.splits)

lemma goes_bindE:
  assumes "goes R m s" and "\<And>x t. m s = (Inr x, t) \<Longrightarrow> goes R (f x) t"
  shows "goes R (Prelude.bindE m f) s"
  using assms by (auto simp: goes_def bindE_def split: prod.splits sum.splits intro: trans)

lemma goes_then: "goes R m s \<Longrightarrow> (\<And>x. evolves R (f x)) \<Longrightarrow> goes R (Prelude.bindE m f) s"
  by (rule goes_bindE) (auto intro: evolves_goes)

lemma goes_ret: "goes R (Prelude.ret x) s"
  by (simp add: goes_def run refl)

lemma goes_throw: "goes R (Prelude.throw e) s"
  by (simp add: goes_def run refl)

lemma goes_rethrow:
  "goes R m s \<Longrightarrow> goes R (Prelude.catch_op m (\<lambda>e. Prelude.throw (h e))) s"
  by (auto simp: goes_def run split: prod.splits sum.splits)

lemma goes_when: "(c \<Longrightarrow> goes R m s) \<Longrightarrow> goes R (Prelude.when_op c m) s"
  by (auto simp: goes_def run refl)

text \<open>A loop whose remaining items satisfy a condition that every round keeps.\<close>

lemma goes_for_each:
  assumes "Q xs s"
    and "\<And>x ys t. Q (x # ys) t \<Longrightarrow> goes R (f x) t \<and> (\<forall>u. f x t = (Inr (), u) \<longrightarrow> Q ys u)"
  shows "goes R (Prelude.for_each f xs) s"
  using assms(1)
proof (induction xs arbitrary: s)
  case Nil
  show ?case by (simp add: goes_ret)
next
  case (Cons x xs)
  with assms(2) have "goes R (f x) s" and "\<And>u. f x s = (Inr (), u) \<Longrightarrow> Q xs u" by blast+
  with Cons.IH show ?case by (auto intro: goes_bindE)
qed

lemmas goes_rules = goes_gets goes_require goes_of_option goes_of_sum goes_if goes_let
  goes_case_option goes_rethrow goes_ret goes_throw goes_when

end

interpretation keeping: evolution "keeps P" for P
  by unfold_locales (auto simp: keeps_def)

lemmas keeps_rules [evolve] = keeping.rules

end
