(* ===== verification/Pricing.thy ===== *)
theory Pricing
  imports Prelude "HOL-Library.Product_Lexorder"
begin

section \<open>Versioned rates and quotes\<close>

text \<open>
  \<^verbatim>\<open>services/billing-service/app/domain/pricing/models.py\<close> and \<^verbatim>\<open>quote.py\<close>: the rate rows of a
  price version, the usage of a request, basis-point rounding, row conflicts, row selection and
  the quote of a request. Amounts are Python integers, hence \<open>int\<close>.
\<close>

subsection \<open>Data\<close>

datatype price_status = P_draft | P_previewed | P_approved | P_published | P_superseded

record rate_row =
  rr_provider :: string
  rr_dimension :: string
  rr_rate_minor_units :: int
  rr_unit :: string
  rr_currency :: string
  rr_protocol :: string
  rr_model :: string
  rr_endpoint_id :: string
  rr_region :: string
  rr_valid_from :: "string option"
  rr_valid_to :: "string option"

definition new_rate_row :: "string \<Rightarrow> string \<Rightarrow> int \<Rightarrow> rate_row" where
  "new_rate_row provider dimension rate =
     \<lparr>rr_provider = provider, rr_dimension = dimension, rr_rate_minor_units = rate,
      rr_unit = ''token'', rr_currency = ''USD'', rr_protocol = [], rr_model = ''*'',
      rr_endpoint_id = ''*'', rr_region = ''*'', rr_valid_from = None, rr_valid_to = None\<rparr>"

definition rate_row_key :: "rate_row \<Rightarrow> string \<times> string \<times> string \<times> string \<times> string" where
  "rate_row_key r =
     (rr_provider r, rr_model r, rr_endpoint_id r, rr_dimension r, rr_region r)"

record rate_version =
  version_id :: string
  buyer_multiplier_bps :: int
  seller_quote_min_bps :: int
  seller_quote_max_bps :: int
  rows :: "rate_row list"
  rv_status :: price_status
  scale :: int
  rv_currency :: string

definition new_rate_version :: "string \<Rightarrow> int \<Rightarrow> int \<Rightarrow> int \<Rightarrow> rate_row list \<Rightarrow> rate_version" where
  "new_rate_version vid buyer smin smax rs =
     \<lparr>version_id = vid, buyer_multiplier_bps = buyer, seller_quote_min_bps = smin,
      seller_quote_max_bps = smax, rows = rs, rv_status = P_draft, scale = 6,
      rv_currency = ''USD''\<rparr>"

fun price_status_str :: "price_status \<Rightarrow> string" where
  "price_status_str P_draft = ''draft''"
| "price_status_str P_previewed = ''previewed''"
| "price_status_str P_approved = ''approved''"
| "price_status_str P_published = ''published''"
| "price_status_str P_superseded = ''superseded''"

definition seller_view :: "rate_version \<Rightarrow> int \<Rightarrow> (string \<times> pyval) list" where
  "seller_view v seller_bps =
     [(''rate_version'', PyStr (version_id v)),
      (''status'', PyStr (price_status_str (rv_status v))),
      (''seller_quote_min_bps'', PyInt (seller_quote_min_bps v)),
      (''seller_quote_max_bps'', PyInt (seller_quote_max_bps v)),
      (''own_multiplier_bps'', PyInt seller_bps),
      (''currency'', PyStr (rv_currency v)),
      (''scale'', PyInt (scale v))]"

definition buyer_view :: "rate_version \<Rightarrow> (string \<times> pyval) list" where
  "buyer_view v =
     [(''rate_version'', PyStr (version_id v)),
      (''status'', PyStr (price_status_str (rv_status v))),
      (''buyer_multiplier_bps'', PyInt (buyer_multiplier_bps v)),
      (''currency'', PyStr (rv_currency v)),
      (''scale'', PyInt (scale v))]"

definition rate_row_dict :: "rate_row \<Rightarrow> pyval" where
  "rate_row_dict r = PyDict
     [(''provider'', PyStr (rr_provider r)), (''dimension'', PyStr (rr_dimension r)),
      (''rate_minor_units'', PyInt (rr_rate_minor_units r)), (''unit'', PyStr (rr_unit r)),
      (''currency'', PyStr (rr_currency r)), (''protocol'', PyStr (rr_protocol r)),
      (''model'', PyStr (rr_model r)), (''endpoint_id'', PyStr (rr_endpoint_id r)),
      (''region'', PyStr (rr_region r)), (''valid_from'', py_opt PyStr (rr_valid_from r)),
      (''valid_to'', py_opt PyStr (rr_valid_to r))]"

definition admin_view :: "rate_version \<Rightarrow> (string \<times> pyval) list" where
  "admin_view v =
     [(''rate_version'', PyStr (version_id v)),
      (''status'', PyStr (price_status_str (rv_status v))),
      (''buyer_multiplier_bps'', PyInt (buyer_multiplier_bps v)),
      (''seller_quote_min_bps'', PyInt (seller_quote_min_bps v)),
      (''seller_quote_max_bps'', PyInt (seller_quote_max_bps v)),
      (''rows'', PyList (map rate_row_dict (rows v))),
      (''currency'', PyStr (rv_currency v)),
      (''scale'', PyInt (scale v))]"

record seller_quote =
  sq_seller_id :: string
  sq_rate_version :: string
  sq_multiplier_bps :: int

record price_lock =
  pl_request_id :: string
  pl_rate_version :: string
  pl_buyer_bps :: int
  pl_seller_bps :: int

record usage_input =
  input_tokens :: "int option"
  output_tokens :: "int option"
  total_tokens :: "int option"
  cache_read_tokens :: "int option"
  cache_write_tokens :: "int option"
  reasoning_tokens :: "int option"
  image_units :: "int option"
  audio_ms :: "int option"
  duration_ms :: "int option"

definition usage_fields :: "usage_input \<Rightarrow> (string \<times> int option) list" where
  "usage_fields u =
     [(''input_tokens'', input_tokens u), (''output_tokens'', output_tokens u),
      (''total_tokens'', total_tokens u), (''cache_read_tokens'', cache_read_tokens u),
      (''cache_write_tokens'', cache_write_tokens u),
      (''reasoning_tokens'', reasoning_tokens u), (''image_units'', image_units u),
      (''audio_ms'', audio_ms u), (''duration_ms'', duration_ms u)]"

definition usage_as_map :: "usage_input \<Rightarrow> (string, int) dict" where
  "usage_as_map u =
     List.map_filter (\<lambda>(name, val). map_option (Pair name) val) (usage_fields u)"

record quote_result =
  q_status :: string
  q_base_minor :: "int option"
  q_buyer_debit :: "int option"
  q_seller_earning :: "int option"
  q_spread :: "int option"
  q_usage_base_minor :: "int option"
  q_variance_minor :: "int option"
  q_unresolved_reason :: "string option"

subsection \<open>Rounding in basis points\<close>

datatype py_error = ValueError

definition bps :: int where
  "bps = 10000"

definition mul_bps :: "int \<Rightarrow> int \<Rightarrow> py_error + int" where
  "mul_bps amount b =
     (if amount < 0 \<or> b < 0 then Inl ValueError
      else Inr ((amount * b + bps div 2) div bps))"

subsection \<open>Conflicting rows\<close>

text \<open>
  A missing or empty bound is the empty string at the start and the sentinel U+FFFF at the end;
  every string of code points below the sentinel is less than it.
\<close>

definition window_start :: "rate_row \<Rightarrow> string" where
  "window_start r = or_str (rr_valid_from r) []"

definition before_window_end :: "string \<Rightarrow> rate_row \<Rightarrow> bool" where
  "before_window_end t r \<longleftrightarrow> (if truthy (rr_valid_to r) then t < the (rr_valid_to r) else True)"

definition windows_overlap :: "rate_row \<Rightarrow> rate_row \<Rightarrow> bool" where
  "windows_overlap a b \<longleftrightarrow>
     before_window_end (window_start a) b \<and> before_window_end (window_start b) a"

datatype pricing_code =
    PC_conflict | PC_not_found | PC_quote_out_of_bounds | PC_invalid_status | PC_immutable
  | PC_no_published | PC_no_quote | PC_invalid_bounds | PC_negative_spread
  | PC_unit_conflict | PC_overlap

fun row_conflicts_with :: "rate_row \<Rightarrow> rate_row list \<Rightarrow> pricing_code option" where
  "row_conflicts_with a [] = None"
| "row_conflicts_with a (b # bs) =
     (if rate_row_key a \<noteq> rate_row_key b then row_conflicts_with a bs
      else if \<not> windows_overlap a b then row_conflicts_with a bs
      else if rr_unit a \<noteq> rr_unit b \<or> rr_currency a \<noteq> rr_currency b
        then Some PC_unit_conflict
      else Some PC_overlap)"

fun row_conflicts :: "rate_row list \<Rightarrow> pricing_code option" where
  "row_conflicts [] = None"
| "row_conflicts (a # rest) =
     (case row_conflicts_with a rest of Some c \<Rightarrow> Some c | None \<Rightarrow> row_conflicts rest)"

subsection \<open>Quotes\<close>

definition row_score :: "rate_row \<Rightarrow> int \<times> int" where
  "row_score r =
     (if rr_endpoint_id r \<in> {[], ''*''} then 0 else 1, if rr_model r \<in> {[], ''*''} then 0 else 1)"

text \<open>
  \<^verbatim>\<open>sort(key=score, reverse=True)\<close> is stable and descending: the stable ascending sort on the
  negated score.
\<close>

definition best_row :: "rate_version \<Rightarrow> string \<Rightarrow> rate_row option" where
  "best_row v dimension =
     (let candidates = filter (\<lambda>r. rr_dimension r = dimension) (rows v) in
      case sort_key (\<lambda>r. (- fst (row_score r), - snd (row_score r))) candidates of
        [] \<Rightarrow> None
      | r # _ \<Rightarrow> Some r)"

fun usage_base_loop ::
  "rate_version \<Rightarrow> (string, int) dict \<Rightarrow> int \<Rightarrow> bool \<Rightarrow> int option" where
  "usage_base_loop v [] acc matched_any = (if \<not> matched_any then None else Some acc)"
| "usage_base_loop v ((dim, count) # rest) acc matched_any =
     (if dim = ''total_tokens'' then usage_base_loop v rest acc matched_any
      else case best_row v dim of
             None \<Rightarrow> (if count \<noteq> 0 then None else usage_base_loop v rest acc matched_any)
           | Some row \<Rightarrow>
               usage_base_loop v rest (acc + count * rr_rate_minor_units row) True)"

definition usage_base :: "usage_input \<Rightarrow> rate_version \<Rightarrow> int option" where
  "usage_base u v =
     (if usage_as_map u = [] then None else usage_base_loop v (usage_as_map u) 0 False)"

definition unresolved_quote :: "int option \<Rightarrow> string \<Rightarrow> quote_result" where
  "unresolved_quote ub reason =
     \<lparr>q_status = ''unresolved'', q_base_minor = None, q_buyer_debit = None,
      q_seller_earning = None, q_spread = None, q_usage_base_minor = ub,
      q_variance_minor = None, q_unresolved_reason = Some reason\<rparr>"

definition quote ::
  "usage_input \<Rightarrow> rate_version \<Rightarrow> price_lock \<Rightarrow> int option \<Rightarrow> quote_result" where
  "quote u v lk reported_minor =
     (let ub = usage_base u v;
          choice = (case reported_minor of
                      Some x \<Rightarrow> Some (x, ''reported'')
                    | None \<Rightarrow> (case ub of Some x \<Rightarrow> Some (x, ''rated'') | None \<Rightarrow> None))
      in case choice of
           None \<Rightarrow> unresolved_quote ub ''missing_rate''
         | Some (base, status) \<Rightarrow>
             (case (mul_bps base (pl_buyer_bps lk), mul_bps base (pl_seller_bps lk)) of
                (Inr debit, Inr earn) \<Rightarrow>
                  \<lparr>q_status = status, q_base_minor = Some base, q_buyer_debit = Some debit,
                   q_seller_earning = Some earn, q_spread = Some (debit - earn),
                   q_usage_base_minor = ub,
                   q_variance_minor =
                     (case (reported_minor, ub) of
                        (Some rep, Some b) \<Rightarrow> Some (b - rep) | _ \<Rightarrow> None),
                   q_unresolved_reason = None\<rparr>
              | _ \<Rightarrow> unresolved_quote None ''overflow''))"

subsection \<open>Rounding\<close>

lemma mul_bps_Inr_iff:
  "mul_bps a b = Inr r \<longleftrightarrow> 0 \<le> a \<and> 0 \<le> b \<and> r = (a * b + 5000) div 10000"
  by (auto simp: mul_bps_def bps_def)

lemma mul_bps_nonneg: "mul_bps a b = Inr r \<Longrightarrow> 0 \<le> r"
  by (auto simp: mul_bps_Inr_iff pos_imp_zdiv_nonneg_iff)

lemma mul_bps_mono:
  "mul_bps a b = Inr r \<Longrightarrow> mul_bps a' b' = Inr r' \<Longrightarrow> a \<le> a' \<Longrightarrow> b \<le> b' \<Longrightarrow> r \<le> r'"
  by (auto simp: mul_bps_Inr_iff intro!: zdiv_mono1 mult_mono)

text \<open>Basis-point multiplication rounds to the nearest integer, halves up: the
  result times 10000 is within half a unit of the exact product, on the closed side above and the
  open side below.\<close>

theorem mul_bps_rounds_half_up:
  assumes "mul_bps amount b = Inr r"
  shows "amount * b - 5000 < 10000 * r \<and> 10000 * r \<le> amount * b + 5000"
proof -
  have r: "r = (amount * b + 5000) div 10000" using assms by (simp add: mul_bps_Inr_iff)
  show ?thesis unfolding r by linarith
qed

theorem mul_bps_rounds_half_up_witness:
  "(7::int) * 12500 - 5000 < 10000 * 9 \<and> 10000 * 9 \<le> (7::int) * 12500 + 5000"
  by (rule mul_bps_rounds_half_up [of 7 12500 9]) (simp add: mul_bps_def bps_def)

subsection \<open>Conflicts and validity windows\<close>

text \<open>\<open>in_effect t r\<close>: the half-open window of the row contains the time stamp \<open>t\<close>.\<close>

definition in_effect :: "string \<Rightarrow> rate_row \<Rightarrow> bool" where
  "in_effect t r \<longleftrightarrow> window_start r \<le> t \<and> before_window_end t r"

definition clashing :: "rate_row \<Rightarrow> rate_row \<Rightarrow> bool" where
  "clashing a b \<longleftrightarrow> rate_row_key a = rate_row_key b \<and> windows_overlap a b"

lemma before_window_end_mono: "before_window_end t r \<Longrightarrow> s \<le> t \<Longrightarrow> before_window_end s r"
  by (auto simp: before_window_end_def split: if_splits)

lemma in_effect_overlap: "in_effect t a \<Longrightarrow> in_effect t b \<Longrightarrow> windows_overlap a b"
  unfolding in_effect_def windows_overlap_def by (meson before_window_end_mono)

lemma overlap_in_effect:
  assumes "windows_overlap a b" and "before_window_end (window_start a) a"
    and "before_window_end (window_start b) b"
  shows "\<exists>t. in_effect t a \<and> in_effect t b"
proof (cases "window_start a \<le> window_start b")
  case True
  with assms show ?thesis unfolding in_effect_def windows_overlap_def by blast
next
  case False
  then have "window_start b \<le> window_start a" by simp
  with assms show ?thesis unfolding in_effect_def windows_overlap_def by blast
qed

lemma row_conflicts_with_None:
  "row_conflicts_with a bs = None \<longleftrightarrow> (\<forall>b\<in>set bs. \<not> clashing a b)"
  by (induction bs) (auto simp: clashing_def)

lemma row_conflicts_None:
  "row_conflicts rs = None \<longleftrightarrow> sorted_wrt (\<lambda>a b. \<not> clashing a b) rs"
proof (induction rs)
  case (Cons a rs)
  then show ?case
    using row_conflicts_with_None [of a rs] by (cases "row_conflicts_with a rs") auto
qed simp

lemma row_conflicts_codes:
  "row_conflicts rs = Some c \<Longrightarrow> c = PC_unit_conflict \<or> c = PC_overlap"
proof (induction rs)
  case (Cons a rs)
  have "row_conflicts_with a bs = Some d \<Longrightarrow> d = PC_unit_conflict \<or> d = PC_overlap" for bs d
    by (induction bs) (auto split: if_splits)
  with Cons show ?case by (auto split: option.splits)
qed simp

text \<open>For rows whose own windows are not empty, the pairwise check accepts a row
  list exactly when at every time at most one row per key is in effect: the accepted price
  versions are the unambiguous ones.\<close>

theorem row_conflicts_unambiguous:
  assumes "\<forall>r\<in>set rs. before_window_end (window_start r) r"
  shows "row_conflicts rs = None \<longleftrightarrow>
    (\<forall>t i j. i < j \<longrightarrow> j < length rs \<longrightarrow> in_effect t (rs ! i) \<longrightarrow> in_effect t (rs ! j) \<longrightarrow>
       rate_row_key (rs ! i) \<noteq> rate_row_key (rs ! j))"
  unfolding row_conflicts_None sorted_wrt_iff_nth_less clashing_def
  using assms by (meson in_effect_overlap nth_mem order_less_trans overlap_in_effect)

definition row_a :: rate_row where
  "row_a = (new_rate_row ''p'' ''input_tokens'' 3)\<lparr>rr_valid_to := Some ''2026-06''\<rparr>"

definition row_b :: rate_row where
  "row_b = (new_rate_row ''p'' ''input_tokens'' 4)\<lparr>rr_valid_from := Some ''2026-06''\<rparr>"

lemmas row_defs = row_a_def row_b_def new_rate_row_def window_start_def before_window_end_def
  windows_overlap_def rate_row_key_def or_str_def

lemma row_ab_accepted: "row_conflicts [row_a, row_b] = None"
  by (simp add: row_defs)

theorem row_conflicts_unambiguous_witness:
  "\<not> (in_effect ''2026-06'' row_a \<and> in_effect ''2026-06'' row_b)"
proof -
  have "\<forall>r\<in>set [row_a, row_b]. before_window_end (window_start r) r" by (simp add: row_defs)
  from row_conflicts_unambiguous [OF this, THEN iffD1, OF row_ab_accepted, rule_format,
      of 0 1 "''2026-06''"]
  show ?thesis by (auto simp: row_a_def row_b_def new_rate_row_def rate_row_key_def)
qed

subsection \<open>What a quote promises\<close>

definition priced_amount :: "rate_version \<Rightarrow> string \<times> int \<Rightarrow> int option" where
  "priced_amount v dc =
     (if fst dc = ''total_tokens'' then Some 0
      else case best_row v (fst dc) of
             None \<Rightarrow> (if snd dc = 0 then Some 0 else None)
           | Some row \<Rightarrow> Some (snd dc * rr_rate_minor_units row))"

definition has_rate :: "rate_version \<Rightarrow> string \<times> int \<Rightarrow> bool" where
  "has_rate v dc \<longleftrightarrow> fst dc \<noteq> ''total_tokens'' \<and> best_row v (fst dc) \<noteq> None"

lemma usage_base_loop_Cons:
  "usage_base_loop v (dc # dims) acc m =
     (case priced_amount v dc of
        None \<Rightarrow> None
      | Some x \<Rightarrow> usage_base_loop v dims (acc + x) (m \<or> has_rate v dc))"
  by (cases dc) (simp add: priced_amount_def has_rate_def split: option.split)

lemma usage_base_loop_spec:
  "usage_base_loop v dims acc m =
     (if (\<exists>dc\<in>set dims. priced_amount v dc = None) \<or> \<not> m \<and> \<not> (\<exists>dc\<in>set dims. has_rate v dc)
      then None else Some (acc + (\<Sum>dc\<leftarrow>dims. the (priced_amount v dc))))"
proof (induction dims arbitrary: acc m)
  case (Cons dc dims)
  then show ?case
    by (cases "priced_amount v dc") (auto simp: usage_base_loop_Cons simp del: usage_base_loop.simps)
qed simp

lemma best_row_Some:
  assumes "best_row v dim = Some r"
  shows "r \<in> set (rows v)" and "rr_dimension r = dim"
    and "\<forall>x\<in>set (rows v). rr_dimension x = dim \<longrightarrow> row_score x \<le> row_score r"
proof -
  let ?k = "\<lambda>r. (- fst (row_score r), - snd (row_score r))"
  let ?cs = "filter (\<lambda>r. rr_dimension r = dim) (rows v)"
  obtain rest where s: "sort_key ?k ?cs = r # rest"
    using assms by (auto simp: best_row_def Let_def split: list.splits)
  then have mem: "set (r # rest) = set ?cs" by (metis set_sort)
  then have "r \<in> set ?cs" by auto
  then show "r \<in> set (rows v)" and "rr_dimension r = dim" by auto
  have "sorted (map ?k (r # rest))" by (metis s sorted_sort_key)
  then have "\<forall>x\<in>set (r # rest). ?k r \<le> ?k x" by auto
  then show "\<forall>x\<in>set (rows v). rr_dimension x = dim \<longrightarrow> row_score x \<le> row_score r"
    unfolding mem by (auto simp: less_eq_prod_def)
qed

lemma best_row_None: "best_row v dim = None \<longleftrightarrow> (\<forall>r\<in>set (rows v). rr_dimension r \<noteq> dim)"
proof -
  let ?k = "\<lambda>r. (- fst (row_score r), - snd (row_score r))"
  let ?cs = "filter (\<lambda>r. rr_dimension r = dim) (rows v)"
  have "best_row v dim = None \<longleftrightarrow> sort_key ?k ?cs = []"
    by (simp add: best_row_def Let_def split: list.splits)
  also have "\<dots> \<longleftrightarrow> ?cs = []" by (simp only: length_0_conv [symmetric] length_sort)
  finally show ?thesis by (simp add: filter_empty_conv)
qed

text \<open>The rated base of a request is the sum of count times rate over its usage
  dimensions (the derived total apart), each at its best row; it is missing exactly when a
  dimension with a non-zero count has no row or no dimension has one. A missing price is never
  replaced by zero.\<close>

theorem usage_base_spec:
  "usage_base u v =
     (let dims = usage_as_map u in
      if None \<in> set (map (priced_amount v) dims) \<or> filter (has_rate v) dims = [] then None
      else Some (\<Sum>dc\<leftarrow>dims. the (priced_amount v dc)))"
proof -
  have "None \<in> set (map (priced_amount v) dims) \<longleftrightarrow> (\<exists>dc\<in>set dims. priced_amount v dc = None)"
    for dims by force
  then show ?thesis by (auto simp: usage_base_def usage_base_loop_spec Let_def filter_empty_conv)
qed

text \<open>C32 (safety). A quote is all or nothing: either it is unresolved and carries no amount at all,
  or its debit and earning are the rounded products of one base with the two locked multipliers,
  non-negative, and the debit is the earning plus the spread.\<close>

theorem quote_all_or_nothing:
  "let q = quote u v lk reported in
     (q_status q = ''unresolved'' \<and> q_base_minor q = None \<and> q_buyer_debit q = None \<and>
      q_seller_earning q = None \<and> q_spread q = None \<and> q_unresolved_reason q \<noteq> None)
   \<or> (\<exists>base debit earn. q_base_minor q = Some base \<and>
        base = (case reported of Some x \<Rightarrow> x | None \<Rightarrow> the (usage_base u v)) \<and>
        q_status q = (if reported = None then ''rated'' else ''reported'') \<and>
        mul_bps base (pl_buyer_bps lk) = Inr debit \<and> mul_bps base (pl_seller_bps lk) = Inr earn \<and>
        q_buyer_debit q = Some debit \<and> q_seller_earning q = Some earn \<and>
        q_spread q = Some (debit - earn) \<and> 0 \<le> debit \<and> 0 \<le> earn \<and>
        q_unresolved_reason q = None)"
  by (cases reported; cases "usage_base u v")
    (auto simp: quote_def unresolved_quote_def Let_def dest: mul_bps_nonneg split: sum.splits)

lemma quote_spread_nonneg:
  assumes "q_buyer_debit (quote u v lk reported) = Some d"
    and "q_seller_earning (quote u v lk reported) = Some e"
    and "q_spread (quote u v lk reported) = Some p"
    and "pl_seller_bps lk \<le> pl_buyer_bps lk"
  shows "d = e + p \<and> 0 \<le> d \<and> 0 \<le> e \<and> 0 \<le> p"
  using quote_all_or_nothing [of u v lk reported] assms
  by (auto simp: Let_def dest: mul_bps_mono)

end
