(* ===== verification/Interfaces.thy ===== *)
theory Interfaces
  imports Prelude
begin

section \<open>Interfaces the components share\<close>

text \<open>
  Three contracts that several components provide and whose consequences are proved once:
  \<open>keyed_store\<close> (a repository that returns what was last written under a key), \<open>cas_store\<close>
  (a repository whose writes name the version they expect), and \<open>status_machine\<close> (a status
  field moved along a fixed set of edges). Each component's theory interprets the contracts it
  provides on its own definitions.
\<close>

definition all_stored :: "('s \<Rightarrow> 'k \<Rightarrow> 'v option) \<Rightarrow> ('k \<Rightarrow> 'v \<Rightarrow> bool) \<Rightarrow> 's \<Rightarrow> bool" where
  "all_stored get P s \<longleftrightarrow> (\<forall>k v. get s k = Some v \<longrightarrow> P k v)"

lemma all_storedD: "all_stored get P s \<Longrightarrow> get s k = Some v \<Longrightarrow> P k v"
  by (simp add: all_stored_def)

lemma all_stored_mono:
  "all_stored get P s \<Longrightarrow> (\<And>k v. P k v \<Longrightarrow> Q k v) \<Longrightarrow> all_stored get Q s"
  by (auto simp: all_stored_def)

text \<open>Every entry is kept, and develops as \<open>rel\<close> allows.\<close>

definition entries_grow ::
  "('s \<Rightarrow> 'k \<Rightarrow> 'v option) \<Rightarrow> ('v \<Rightarrow> 'v \<Rightarrow> bool) \<Rightarrow> 's \<Rightarrow> 's \<Rightarrow> bool" where
  "entries_grow get rel s t \<longleftrightarrow>
     (\<forall>k v. get s k = Some v \<longrightarrow> (\<exists>w. get t k = Some w \<and> rel v w))"

lemma entries_growD:
  "entries_grow get rel s t \<Longrightarrow> get s k = Some v \<Longrightarrow> \<exists>w. get t k = Some w \<and> rel v w"
  by (simp add: entries_grow_def)

lemma entries_grow_refl: "reflp rel \<Longrightarrow> entries_grow get rel s s"
  by (simp add: entries_grow_def reflp_def)

lemma entries_grow_trans:
  "transp rel \<Longrightarrow> entries_grow get rel s t \<Longrightarrow> entries_grow get rel t u \<Longrightarrow> entries_grow get rel s u"
  unfolding entries_grow_def transp_def by metis

text \<open>No two entries under different keys clash.\<close>

definition no_clash :: "('s \<Rightarrow> 'k \<Rightarrow> 'v option) \<Rightarrow> ('v \<Rightarrow> 'v \<Rightarrow> bool) \<Rightarrow> 's \<Rightarrow> bool" where
  "no_clash get clash s \<longleftrightarrow>
     (\<forall>p q a b. get s p = Some a \<longrightarrow> get s q = Some b \<longrightarrow> clash a b \<longrightarrow> p = q)"

lemma no_clashD: "no_clash get clash s \<Longrightarrow> get s p = Some a \<Longrightarrow> get s q = Some b \<Longrightarrow> clash a b \<Longrightarrow> p = q"
  by (simp add: no_clash_def)

subsection \<open>Repositories\<close>

locale keyed_store =
  fixes get :: "'s \<Rightarrow> 'k \<Rightarrow> 'v option"
    and put :: "'k \<Rightarrow> 'v \<Rightarrow> 's \<Rightarrow> 's"
  assumes get_put: "get (put k v s) k' = (if k' = k then Some v else get s k')"
begin

lemma get_put_same: "get (put k v s) k = Some v"
  by (simp add: get_put)

lemma get_put_other: "k' \<noteq> k \<Longrightarrow> get (put k v s) k' = get s k'"
  by (simp add: get_put)

lemma all_stored_put:
  "all_stored get P s \<Longrightarrow> P k v \<Longrightarrow> all_stored get P (put k v s)"
  by (auto simp: all_stored_def get_put)

lemma entries_grow_put:
  "reflp rel \<Longrightarrow> (\<And>w. get s k = Some w \<Longrightarrow> rel w v) \<Longrightarrow> entries_grow get rel s (put k v s)"
  by (simp add: entries_grow_def get_put reflp_def)

lemma no_clash_put:
  assumes old: "no_clash get clash s" and sym: "symp clash"
    and free: "\<And>q b. get s q = Some b \<Longrightarrow> q \<noteq> k \<Longrightarrow> \<not> clash v b"
  shows "no_clash get clash (put k v s)"
  unfolding no_clash_def get_put
proof (intro allI impI)
  fix p q a b
  assume a: "(if p = k then Some v else get s p) = Some a"
    and b: "(if q = k then Some v else get s q) = Some b" and clash: "clash a b"
  show "p = q"
  proof (rule ccontr)
    assume "p \<noteq> q"
    then consider "p = k" "q \<noteq> k" | "q = k" "p \<noteq> k" | "p \<noteq> k" "q \<noteq> k" by blast
    then show False
    proof cases
      case 1
      with a b clash free[of q b] show False by simp
    next
      case 2
      with a b clash free[of p a] sym show False by (simp add: sympD)
    next
      case 3
      with a b clash old \<open>p \<noteq> q\<close> show False by (auto dest: no_clashD)
    qed
  qed
qed

lemma put_frame:
  "get s k = Some w \<Longrightarrow> f w = f v \<Longrightarrow> map_option f (get (put k v s) k') = map_option f (get s k')"
  by (simp add: get_put)

lemma known_grows: "get s k' \<noteq> None \<Longrightarrow> get (put k v s) k' \<noteq> None"
  by (simp add: get_put)

end

text \<open>
  A compare-and-set repository. \<open>stamp\<close> is what a write compares: it succeeds exactly when the
  record under the key still carries the expected stamp.
\<close>

locale cas_store =
  fixes get :: "'s \<Rightarrow> 'k \<Rightarrow> 'v option"
    and cas :: "'k \<Rightarrow> 'c \<Rightarrow> 'v \<Rightarrow> 's \<Rightarrow> 's option"
    and stamp :: "'v \<Rightarrow> 'c"
    and merge :: "'k \<Rightarrow> 'v \<Rightarrow> 'v \<Rightarrow> 'v"
  assumes cas_hit: "get s k = Some w \<Longrightarrow> stamp w = c \<Longrightarrow>
      \<exists>t. cas k c v s = Some t \<and> (\<forall>k'. get t k' = (if k' = k then Some (merge k w v) else get s k'))"
    and cas_miss: "get s k = Some w \<Longrightarrow> stamp w \<noteq> c \<Longrightarrow> cas k c v s = None"
    and cas_absent: "get s k = None \<Longrightarrow> cas k c v s = None"
    and stamp_merge: "stamp (merge k w v) = stamp v"
begin

lemma cas_Some_iff: "(\<exists>t. cas k c v s = Some t) \<longleftrightarrow> (\<exists>w. get s k = Some w \<and> stamp w = c)"
  by (metis cas_absent cas_hit cas_miss not_None_eq)

lemma cas_get: "cas k c v s = Some t \<Longrightarrow> get s k = Some w \<Longrightarrow> get t k = Some (merge k w v)"
  by (metis cas_hit cas_miss option.distinct(1) option.inject)

lemma cas_other: "cas k c v s = Some t \<Longrightarrow> k' \<noteq> k \<Longrightarrow> get t k' = get s k'"
  by (metis cas_absent cas_hit cas_miss not_None_eq option.inject)

text \<open>
  No lost update: of two writers that read the same stamp, and whose writes move it, the second
  is refused, whichever comes first.
\<close>

lemma second_writer_refused:
  assumes first: "cas k c v s = Some t" and moved: "stamp v \<noteq> c"
  shows "cas k c v' t = None"
proof -
  from first obtain w where "get s k = Some w"
    by (metis cas_Some_iff)
  with first have "get t k = Some (merge k w v)" by (rule cas_get)
  then show ?thesis using moved by (simp add: cas_miss stamp_merge)
qed

end

subsection \<open>Status machines\<close>

text \<open>
  \<open>allowed\<close> are the edges, \<open>final\<close> the states a record does not leave, \<open>rank\<close> a stage that no
  edge lowers.
\<close>

locale status_machine =
  fixes allowed :: "'st \<Rightarrow> 'st \<Rightarrow> bool"
    and final :: "'st \<Rightarrow> bool"
    and rank :: "'st \<Rightarrow> nat"
  assumes final_stays: "final a \<Longrightarrow> allowed a b \<Longrightarrow> b = a"
    and rank_mono: "allowed a b \<Longrightarrow> rank a \<le> rank b"
begin

lemma final_forever: "allowed\<^sup>*\<^sup>* a b \<Longrightarrow> final a \<Longrightarrow> b = a"
  by (induction rule: rtranclp_induct) (auto dest: final_stays)

lemma rank_never_drops: "allowed\<^sup>*\<^sup>* a b \<Longrightarrow> rank a \<le> rank b"
  by (induction rule: rtranclp_induct) (auto dest: rank_mono)

lemma no_way_back: "rank b < rank a \<Longrightarrow> \<not> allowed\<^sup>*\<^sup>* a b"
  using rank_never_drops by fastforce

end

end
