(* ===== verification/Registry.thy ===== *)
theory Registry
  imports Pricing Interfaces
begin

section \<open>The registry of price versions\<close>

text \<open>
  \<^verbatim>\<open>services/billing-service/app/domain/pricing/registry.py\<close>. The registry keeps the versions, the
  seller quotes, the name of the published version and one price lock per request. Every
  operation takes the registry's mutex for its whole body, so operations are atomic steps. A
  version is mutated in place in the code; here it is written back under its identifier.

  Lemmas: the relation \<open>reg_le\<close> (locks never change, a version that has been published keeps its
  content) holds across every operation, and \<open>reg_inv\<close> (identifiers, the unique published
  version, valid bounds of what was published) is invariant.
\<close>

subsection \<open>State and operations\<close>

datatype pricing_error = PricingError pricing_code | Registry_KeyError

record registry =
  versions :: "(string, rate_version) dict"
  quotes :: "(string \<times> string, seller_quote) dict"
  published :: "string option"
  price_locks :: "(string, price_lock) dict"

definition new_registry :: registry where
  "new_registry = \<lparr>versions = [], quotes = [], published = None, price_locks = []\<rparr>"

type_synonym 'a reg_op = "(registry, pricing_error, 'a) op"

definition put_version :: "string \<Rightarrow> rate_version \<Rightarrow> registry \<Rightarrow> registry" where
  "put_version vid v s = s\<lparr>versions := dict_set vid v (versions s)\<rparr>"

definition reg_create :: "rate_version \<Rightarrow> unit reg_op" where
  "reg_create v = bindE (gets (\<lambda>s. dict_get (versions s) (version_id v))) (\<lambda>old.
     bindE (require (old = None) (PricingError PC_conflict)) (\<lambda>_.
     modify (put_version (version_id v) (v\<lparr>rv_status := P_draft\<rparr>))))"

definition reg_get :: "string \<Rightarrow> rate_version reg_op" where
  "reg_get vid = bindE (gets (\<lambda>s. dict_get (versions s) vid)) (of_option (PricingError PC_not_found))"

definition require_mutable :: "string \<Rightarrow> rate_version reg_op" where
  "require_mutable vid = bindE (reg_get vid) (\<lambda>v.
     bindE (require (rv_status v \<notin> {P_published, P_superseded}) (PricingError PC_immutable)) (\<lambda>_.
     ret v))"

definition validate :: "rate_version \<Rightarrow> unit reg_op" where
  "validate v =
     bindE (require (\<not> seller_quote_min_bps v > seller_quote_max_bps v)
             (PricingError PC_invalid_bounds)) (\<lambda>_.
     bindE (require (\<not> buyer_multiplier_bps v < seller_quote_max_bps v)
             (PricingError PC_negative_spread)) (\<lambda>_.
     case row_conflicts (rows v) of None \<Rightarrow> ret () | Some c \<Rightarrow> throw (PricingError c)))"

definition add_row :: "string \<Rightarrow> rate_row \<Rightarrow> unit reg_op" where
  "add_row vid row = bindE (require_mutable vid) (\<lambda>v.
     modify (put_version vid (v\<lparr>rows := rows v @ [row]\<rparr>)))"

definition set_quote :: "seller_quote \<Rightarrow> unit reg_op" where
  "set_quote q = bindE (reg_get (sq_rate_version q)) (\<lambda>v.
     bindE (require (seller_quote_min_bps v \<le> sq_multiplier_bps q
                     \<and> sq_multiplier_bps q \<le> seller_quote_max_bps v)
             (PricingError PC_quote_out_of_bounds)) (\<lambda>_.
     modify (\<lambda>s. s\<lparr>quotes := dict_set (sq_seller_id q, sq_rate_version q) q (quotes s)\<rparr>)))"

definition preview :: "string \<Rightarrow> unit reg_op" where
  "preview vid = bindE (require_mutable vid) (\<lambda>v.
     bindE (validate v) (\<lambda>_. modify (put_version vid (v\<lparr>rv_status := P_previewed\<rparr>))))"

definition approve :: "string \<Rightarrow> unit reg_op" where
  "approve vid = bindE (require_mutable vid) (\<lambda>v.
     bindE (require (rv_status v \<in> {P_previewed, P_draft}) (PricingError PC_invalid_status)) (\<lambda>_.
     bindE (validate v) (\<lambda>_. modify (put_version vid (v\<lparr>rv_status := P_approved\<rparr>)))))"

definition supersede :: "string \<Rightarrow> unit reg_op" where
  "supersede vid = bindE (gets (\<lambda>s. dict_get (versions s) vid)) (\<lambda>found.
     bindE (of_option Registry_KeyError found) (\<lambda>old.
     modify (put_version vid (old\<lparr>rv_status := P_superseded\<rparr>))))"

definition publish :: "string \<Rightarrow> unit reg_op" where
  "publish vid = bindE (reg_get vid) (\<lambda>v.
     if rv_status v = P_published then ret ()
     else bindE (validate v) (\<lambda>_. bindE (gets published) (\<lambda>pub.
       bindE (when_op (truthy pub \<and> pub \<noteq> Some vid) (supersede (the pub))) (\<lambda>_.
       modify (\<lambda>s. (put_version vid (v\<lparr>rv_status := P_published\<rparr>) s)\<lparr>published := Some vid\<rparr>)))))"

definition delete_version :: "string \<Rightarrow> unit reg_op" where
  "delete_version vid = bindE (require_mutable vid) (\<lambda>_.
     modify (\<lambda>s. s\<lparr>versions := dict_del vid (versions s)\<rparr>))"

definition snapshot :: "string \<Rightarrow> rate_version \<Rightarrow> seller_quote \<Rightarrow> price_lock" where
  "snapshot request_id v q =
     \<lparr>pl_request_id = request_id, pl_rate_version = version_id v,
      pl_buyer_bps = buyer_multiplier_bps v, pl_seller_bps = sq_multiplier_bps q\<rparr>"

definition lock_price :: "string \<Rightarrow> string \<Rightarrow> price_lock reg_op" where
  "lock_price request_id seller_id = bindE (gets (\<lambda>s. dict_get (price_locks s) request_id)) (\<lambda>known.
     case known of
       Some l \<Rightarrow> ret l
     | None \<Rightarrow> bindE (gets published) (\<lambda>pub.
         bindE (require (truthy pub) (PricingError PC_no_published)) (\<lambda>_.
         bindE (gets (\<lambda>s. dict_get (versions s) (the pub))) (\<lambda>found.
         bindE (of_option Registry_KeyError found) (\<lambda>v.
         bindE (gets (\<lambda>s. dict_get (quotes s) (seller_id, version_id v))) (\<lambda>quoted.
         bindE (of_option (PricingError PC_no_quote) quoted) (\<lambda>q.
         let snap = snapshot request_id v q
         in bindE (modify (\<lambda>s. s\<lparr>price_locks := dict_set request_id snap (price_locks s)\<rparr>)) (\<lambda>_.
            ret snap))))))))"

text \<open>The calls a client can make, for runs of the registry.\<close>

datatype reg_call =
    Create rate_version | Add_row string rate_row | Set_quote seller_quote | Preview string
  | Approve string | Publish string | Delete_version string | Lock_price string string

fun reg_exec :: "reg_call \<Rightarrow> registry \<Rightarrow> registry" where
  "reg_exec (Create v) s = snd (reg_create v s)"
| "reg_exec (Add_row vid r) s = snd (add_row vid r s)"
| "reg_exec (Set_quote q) s = snd (set_quote q s)"
| "reg_exec (Preview vid) s = snd (preview vid s)"
| "reg_exec (Approve vid) s = snd (approve vid s)"
| "reg_exec (Publish vid) s = snd (publish vid s)"
| "reg_exec (Delete_version vid) s = snd (delete_version vid s)"
| "reg_exec (Lock_price r sel) s = snd (lock_price r sel s)"

definition reg_run :: "reg_call list \<Rightarrow> registry \<Rightarrow> registry" where
  "reg_run cs s = fold reg_exec cs s"

subsection \<open>The registry as a store\<close>

definition version_of :: "registry \<Rightarrow> string \<Rightarrow> rate_version option" where
  "version_of s vid = dict_get (versions s) vid"

interpretation versions_store: keyed_store version_of put_version
  by unfold_locales (simp add: version_of_def put_version_def)

lemma put_version_frame [simp]:
  "quotes (put_version k v s) = quotes s" "published (put_version k v s) = published s"
  "price_locks (put_version k v s) = price_locks s"
  by (simp_all add: put_version_def)

lemma version_of_update [simp]:
  "version_of (s\<lparr>published := p\<rparr>) = version_of s"
  "version_of (s\<lparr>quotes := q\<rparr>) = version_of s"
  "version_of (s\<lparr>price_locks := l\<rparr>) = version_of s"
  by (simp_all add: version_of_def fun_eq_iff)

lemma version_of_delete [simp]:
  "version_of (s\<lparr>versions := dict_del k (versions s)\<rparr>) k' = (if k' = k then None else version_of s k')"
  by (simp add: version_of_def)

lemma dict_get_versions [simp]: "dict_get (versions s) = version_of s"
  by (simp add: version_of_def fun_eq_iff)

subsection \<open>Published content never changes\<close>

definition was_published :: "rate_version \<Rightarrow> bool" where
  "was_published v \<longleftrightarrow> rv_status v \<in> {P_published, P_superseded}"

definition same_content :: "rate_version \<Rightarrow> rate_version \<Rightarrow> bool" where
  "same_content v w \<longleftrightarrow> w\<lparr>rv_status := rv_status v\<rparr> = v"

definition reg_le :: "registry \<Rightarrow> registry \<Rightarrow> bool" where
  "reg_le s t \<longleftrightarrow>
     (\<forall>r l. dict_get (price_locks s) r = Some l \<longrightarrow> dict_get (price_locks t) r = Some l) \<and>
     (\<forall>k v. version_of s k = Some v \<longrightarrow> was_published v \<longrightarrow>
        (\<exists>w. version_of t k = Some w \<and> was_published w \<and> same_content v w))"

lemma same_content_refl [simp]: "same_content v v"
  by (simp add: same_content_def)

lemma same_content_trans: "same_content u v \<Longrightarrow> same_content v w \<Longrightarrow> same_content u w"
  by (cases u; cases v; cases w) (auto simp: same_content_def)

lemma same_content_status [simp]: "same_content v (v\<lparr>rv_status := st\<rparr>)"
  by (simp add: same_content_def)

interpretation reg_growth: evolution reg_le
proof unfold_locales
  show "reg_le s s" for s by (auto simp: reg_le_def)
  show "reg_le s t \<Longrightarrow> reg_le t u \<Longrightarrow> reg_le s u" for s t u
    unfolding reg_le_def by (meson same_content_trans)
qed

lemma reg_le_put_version:
  assumes "\<And>w. version_of s k = Some w \<Longrightarrow> was_published w \<Longrightarrow> was_published v \<and> same_content w v"
  shows "reg_le s (put_version k v s)"
  using assms by (auto simp: reg_le_def versions_store.get_put)

lemma reg_le_publish:
  assumes "version_of s k = Some v"
  shows "reg_le s ((put_version k (v\<lparr>rv_status := P_published\<rparr>) s)\<lparr>published := Some k\<rparr>)"
proof -
  have "reg_le s (put_version k (v\<lparr>rv_status := P_published\<rparr>) s)"
    using assms by (intro reg_le_put_version) (auto simp: was_published_def)
  then show ?thesis by (simp add: reg_le_def)
qed

lemma reg_get_run:
  "reg_get vid s = (case version_of s vid of None \<Rightarrow> (Inl (PricingError PC_not_found), s)
                                        | Some v \<Rightarrow> (Inr v, s))"
  by (simp add: reg_get_def run)

definition valid_version :: "rate_version \<Rightarrow> bool" where
  "valid_version v \<longleftrightarrow> seller_quote_min_bps v \<le> seller_quote_max_bps v \<and>
     seller_quote_max_bps v \<le> buyer_multiplier_bps v \<and> row_conflicts (rows v) = None"

definition validation_code :: "rate_version \<Rightarrow> pricing_code" where
  "validation_code v =
     (if seller_quote_min_bps v > seller_quote_max_bps v then PC_invalid_bounds
      else if buyer_multiplier_bps v < seller_quote_max_bps v then PC_negative_spread
      else the (row_conflicts (rows v)))"

lemma validate_run:
  "validate v s = (if valid_version v then Inr () else Inl (PricingError (validation_code v)), s)"
  by (auto simp: validate_def valid_version_def validation_code_def run split: option.splits)

lemma require_mutable_run:
  "require_mutable vid s =
     (case version_of s vid of
        None \<Rightarrow> (Inl (PricingError PC_not_found), s)
      | Some v \<Rightarrow> (if was_published v then Inl (PricingError PC_immutable) else Inr v, s))"
  by (simp add: require_mutable_def reg_get_run was_published_def run split: option.split)

text \<open>Each operation either raises and leaves the registry alone, or makes one change.\<close>

lemma reg_create_exec:
  "snd (reg_create v s) =
     (if version_of s (version_id v) = None
      then put_version (version_id v) (v\<lparr>rv_status := P_draft\<rparr>) s else s)"
  by (simp add: reg_create_def run)

lemma add_row_exec:
  "snd (add_row vid row s) =
     (case version_of s vid of
        None \<Rightarrow> s
      | Some v \<Rightarrow> if was_published v then s else put_version vid (v\<lparr>rows := rows v @ [row]\<rparr>) s)"
  by (simp add: add_row_def require_mutable_run run split: option.split)

lemma set_quote_exec:
  "snd (set_quote q s) = s \<or>
   (\<exists>v. version_of s (sq_rate_version q) = Some v \<and>
      seller_quote_min_bps v \<le> sq_multiplier_bps q \<and> sq_multiplier_bps q \<le> seller_quote_max_bps v \<and>
      snd (set_quote q s) = s\<lparr>quotes := dict_set (sq_seller_id q, sq_rate_version q) q (quotes s)\<rparr>)"
  by (simp add: set_quote_def reg_get_run run split: option.split)

lemma preview_exec:
  "snd (preview vid s) =
     (case version_of s vid of
        None \<Rightarrow> s
      | Some v \<Rightarrow> if \<not> was_published v \<and> valid_version v
                 then put_version vid (v\<lparr>rv_status := P_previewed\<rparr>) s else s)"
  by (simp add: preview_def require_mutable_run validate_run run split: option.split)

lemma approve_exec:
  "snd (approve vid s) =
     (case version_of s vid of
        None \<Rightarrow> s
      | Some v \<Rightarrow> if rv_status v \<in> {P_previewed, P_draft} \<and> valid_version v
                 then put_version vid (v\<lparr>rv_status := P_approved\<rparr>) s else s)"
  by (auto simp: approve_def require_mutable_run was_published_def validate_run run
      split: option.split)

lemma delete_version_exec:
  "snd (delete_version vid s) =
     (case version_of s vid of
        None \<Rightarrow> s
      | Some v \<Rightarrow> if was_published v then s else s\<lparr>versions := dict_del vid (versions s)\<rparr>)"
  by (simp add: delete_version_def require_mutable_run run split: option.split)

definition published_state :: "string \<Rightarrow> rate_version \<Rightarrow> registry \<Rightarrow> registry" where
  "published_state vid v s = (put_version vid (v\<lparr>rv_status := P_published\<rparr>) s)\<lparr>published := Some vid\<rparr>"

lemma publish_exec:
  "snd (publish vid s) =
     (case version_of s vid of
        None \<Rightarrow> s
      | Some v \<Rightarrow>
          if rv_status v = P_published \<or> \<not> valid_version v then s
          else if truthy (published s) \<and> published s \<noteq> Some vid then
            (case version_of s (the (published s)) of
               None \<Rightarrow> s
             | Some old \<Rightarrow> published_state vid v
                   (put_version (the (published s)) (old\<lparr>rv_status := P_superseded\<rparr>) s))
          else published_state vid v s)"
  by (auto simp: publish_def supersede_def published_state_def reg_get_run validate_run run
      split: option.split)

lemma lock_price_run:
  "lock_price r sel s =
     (case dict_get (price_locks s) r of
        Some l \<Rightarrow> (Inr l, s)
      | None \<Rightarrow>
          if \<not> truthy (published s) then (Inl (PricingError PC_no_published), s)
          else (case version_of s (the (published s)) of
                  None \<Rightarrow> (Inl Registry_KeyError, s)
                | Some v \<Rightarrow> (case dict_get (quotes s) (sel, version_id v) of
                     None \<Rightarrow> (Inl (PricingError PC_no_quote), s)
                   | Some q \<Rightarrow> (Inr (snapshot r v q),
                       s\<lparr>price_locks := dict_set r (snapshot r v q) (price_locks s)\<rparr>))))"
  by (simp add: lock_price_def run Let_def split: option.split)

lemma lock_price_exec:
  "snd (lock_price r sel s) = s \<or>
   (\<exists>v q. dict_get (price_locks s) r = None \<and> version_of s (the (published s)) = Some v \<and>
      truthy (published s) \<and> dict_get (quotes s) (sel, version_id v) = Some q \<and>
      snd (lock_price r sel s) =
        s\<lparr>price_locks := dict_set r (snapshot r v q) (price_locks s)\<rparr>)"
  by (simp add: lock_price_run split: option.split)

lemma reg_le_published_state:
  "version_of s k = Some v \<Longrightarrow> reg_le s (published_state k v s)"
  unfolding published_state_def by (rule reg_le_publish)

lemma reg_le_publish_exec: "reg_le s (snd (publish vid s))"
proof -
  have "reg_le s (published_state vid v (put_version p (old\<lparr>rv_status := P_superseded\<rparr>) s))"
    if v: "version_of s vid = Some v" and old: "version_of s p = Some old" and "p \<noteq> vid" for p v old
  proof (rule reg_growth.trans)
    show "reg_le s (put_version p (old\<lparr>rv_status := P_superseded\<rparr>) s)"
      using old by (intro reg_le_put_version) (auto simp: was_published_def)
    show "reg_le (put_version p (old\<lparr>rv_status := P_superseded\<rparr>) s)
            (published_state vid v (put_version p (old\<lparr>rv_status := P_superseded\<rparr>) s))"
      using v \<open>p \<noteq> vid\<close> by (intro reg_le_published_state) (simp add: versions_store.get_put)
  qed
  moreover have "the (published s) \<noteq> vid" if "truthy (published s)" "published s \<noteq> Some vid"
    using that by (cases "published s") auto
  ultimately show ?thesis
    by (simp add: publish_exec reg_growth.refl reg_le_published_state split: option.split)
qed

lemma reg_le_exec: "reg_le s (reg_exec c s)"
proof (cases c)
  case (Create v)
  then show ?thesis by (auto simp: reg_create_exec reg_growth.refl intro: reg_le_put_version)
next
  case (Add_row vid row)
  then show ?thesis
    by (auto simp: add_row_exec reg_growth.refl intro!: reg_le_put_version split: option.split)
next
  case (Set_quote q)
  then show ?thesis using set_quote_exec [of q s] by (auto simp: reg_le_def)
next
  case (Preview vid)
  then show ?thesis
    by (auto simp: preview_exec reg_growth.refl intro!: reg_le_put_version split: option.split)
next
  case (Approve vid)
  then show ?thesis
    by (auto simp: approve_exec reg_growth.refl was_published_def intro!: reg_le_put_version
        split: option.split)
next
  case (Publish vid)
  then show ?thesis by (simp add: reg_le_publish_exec)
next
  case (Delete_version vid)
  then show ?thesis by (auto simp: delete_version_exec reg_le_def split: option.split)
next
  case (Lock_price r sel)
  then show ?thesis using lock_price_exec [of r sel s] by (auto simp: reg_le_def)
qed

lemma reg_le_run: "reg_le s (reg_run cs s)"
  by (induction cs arbitrary: s)
    (auto simp: reg_run_def reg_growth.refl intro: reg_growth.trans reg_le_exec)

text \<open>A price lock, once taken, is what every later call for that request returns,
  whatever the registry does in between (new versions, publications, quote changes, deletions),
  and the call changes nothing.\<close>

theorem lock_stable:
  assumes "lock_price r sel s = (Inr l, t)"
  shows "lock_price r sel' (reg_run cs t) = (Inr l, reg_run cs t)"
proof -
  have "dict_get (price_locks t) r = Some l"
    using assms by (auto simp: lock_price_run Let_def split: option.splits if_splits)
  then have "dict_get (price_locks (reg_run cs t)) r = Some l"
    using reg_le_run [of t cs] unfolding reg_le_def by blast
  then show ?thesis by (simp add: lock_price_run)
qed

text \<open>C33 (safety). A version that was published (and possibly superseded since) keeps its rows,
  multipliers and bounds through every sequence of calls, and cannot be deleted.\<close>

theorem published_content_frozen:
  assumes "version_of s vid = Some v" and "rv_status v \<in> {P_published, P_superseded}"
  shows "\<exists>st. st \<in> {P_published, P_superseded} \<and>
    version_of (reg_run cs s) vid = Some (v\<lparr>rv_status := st\<rparr>)"
proof -
  obtain w where w: "version_of (reg_run cs s) vid = Some w" "was_published w" "same_content v w"
    using reg_le_run [of s cs] assms unfolding reg_le_def was_published_def by blast
  then have "w = v\<lparr>rv_status := rv_status w\<rparr>"
    by (cases v; cases w) (simp add: same_content_def)
  with w show ?thesis by (auto simp: was_published_def)
qed

subsection \<open>One published version, always valid\<close>

text \<open>
  The code takes an empty identifier of the published version for \<^verbatim>\<open>None\<close>
  (\<^verbatim>\<open>if self._published\<close>), so the invariant is about runs that create named versions.
\<close>

definition names_versions :: "reg_call \<Rightarrow> bool" where
  "names_versions c = (case c of Create v \<Rightarrow> version_id v \<noteq> [] | _ \<Rightarrow> True)"

definition version_inv :: "string option \<Rightarrow> string \<Rightarrow> rate_version \<Rightarrow> bool" where
  "version_inv pub k v \<longleftrightarrow> version_id v = k \<and> k \<noteq> [] \<and> (was_published v \<longrightarrow> valid_version v) \<and>
     (rv_status v = P_published \<longleftrightarrow> pub = Some k)"

definition reg_inv :: "registry \<Rightarrow> bool" where
  "reg_inv s \<longleftrightarrow> all_stored version_of (version_inv (published s)) s \<and>
     (\<forall>p. published s = Some p \<longrightarrow> version_of s p \<noteq> None)"

lemma reg_inv_put:
  assumes "reg_inv s" and "version_inv (published s) k v"
  shows "reg_inv (put_version k v s)"
  using assms versions_store.all_stored_put [of "version_inv (published s)" s k v]
  by (auto simp: reg_inv_def versions_store.get_put)

lemma reg_inv_at: "reg_inv s \<Longrightarrow> version_of s k = Some v \<Longrightarrow> version_inv (published s) k v"
  unfolding reg_inv_def by (blast dest: all_storedD)

lemma valid_version_status [simp]: "valid_version (v\<lparr>rv_status := st\<rparr>) = valid_version v"
  by (simp add: valid_version_def)

text \<open>Publishing \<open>k\<close> in a registry where no other version is published.\<close>

lemma reg_inv_published_state:
  assumes others: "\<And>k' w. version_of s k' = Some w \<Longrightarrow> k' \<noteq> k \<Longrightarrow>
      version_inv None k' w"
    and v: "version_id v = k" "k \<noteq> []" "valid_version v"
  shows "reg_inv (published_state k v s)"
proof -
  have "version_inv (Some k) k' w" if "version_of (published_state k v s) k' = Some w" for k' w
  proof (cases "k' = k")
    case True
    with that v show ?thesis
      by (simp add: published_state_def versions_store.get_put version_inv_def) auto
  next
    case False
    with that have "version_of s k' = Some w"
      by (simp add: published_state_def versions_store.get_put)
    from others [OF this False] False show ?thesis by (simp add: version_inv_def)
  qed
  then show ?thesis
    by (simp add: reg_inv_def all_stored_def published_state_def versions_store.get_put)
qed

lemma reg_inv_publish:
  assumes inv: "reg_inv s" and v: "version_of s k = Some v" "valid_version v"
    and pub: "published s = None \<or> published s = Some k"
  shows "reg_inv (published_state k v s)"
proof (rule reg_inv_published_state)
  show "version_inv None k' w" if "version_of s k' = Some w" "k' \<noteq> k" for k' w
    using reg_inv_at [OF inv that(1)] pub that(2) by (auto simp: version_inv_def)
qed (use reg_inv_at [OF inv v(1)] v(2) in \<open>simp_all add: version_inv_def\<close>)

lemma reg_inv_republish:
  assumes inv: "reg_inv s" and v: "version_of s k = Some v" "valid_version v"
    and pub: "published s = Some p" "p \<noteq> k" and old: "version_of s p = Some old"
  shows "reg_inv (published_state k v (put_version p (old\<lparr>rv_status := P_superseded\<rparr>) s))"
proof (rule reg_inv_published_state)
  show "version_inv None k' w"
    if "version_of (put_version p (old\<lparr>rv_status := P_superseded\<rparr>) s) k' = Some w" "k' \<noteq> k" for k' w
  proof (cases "k' = p")
    case True
    with that have "w = old\<lparr>rv_status := P_superseded\<rparr>" by (simp add: versions_store.get_put)
    with True reg_inv_at [OF inv old] pub show ?thesis
      by (simp add: version_inv_def was_published_def)
  next
    case False
    with that have "version_of s k' = Some w" by (simp add: versions_store.get_put)
    with reg_inv_at [OF inv this] pub False show ?thesis by (simp add: version_inv_def)
  qed
qed (use reg_inv_at [OF inv v(1)] v(2) in \<open>simp_all add: version_inv_def\<close>)

lemma reg_inv_exec:
  assumes inv: "reg_inv s" and named: "names_versions c"
  shows "reg_inv (reg_exec c s)"
proof (cases c)
  case (Create v)
  then show ?thesis using inv named
    by (auto simp: reg_create_exec names_versions_def version_inv_def was_published_def reg_inv_def
        all_stored_def versions_store.get_put)
next
  case (Add_row vid row)
  then show ?thesis using inv
    by (auto simp: add_row_exec version_inv_def was_published_def split: option.split
        dest: reg_inv_at intro!: reg_inv_put)
next
  case (Set_quote q)
  then show ?thesis using inv set_quote_exec [of q s] by (auto simp: reg_inv_def all_stored_def)
next
  case (Preview vid)
  then show ?thesis using inv
    by (auto simp: preview_exec version_inv_def was_published_def split: option.split
        dest: reg_inv_at intro!: reg_inv_put)
next
  case (Approve vid)
  then show ?thesis using inv
    by (auto simp: approve_exec version_inv_def was_published_def split: option.split
        dest: reg_inv_at intro!: reg_inv_put)
next
  case (Publish vid)
  show ?thesis
  proof (cases "published s")
    case None
    then show ?thesis using Publish inv
      by (auto simp: publish_exec reg_inv_publish split: option.split)
  next
    case (Some p)
    then obtain old where old: "version_of s p = Some old" using inv by (auto simp: reg_inv_def)
    then have "p \<noteq> []" using reg_inv_at [OF inv] by (auto simp: version_inv_def)
    then show ?thesis using Publish inv Some old
      by (auto simp: publish_exec reg_inv_publish reg_inv_republish split: option.split)
  qed
next
  case (Delete_version vid)
  then show ?thesis using inv
    by (auto simp: delete_version_exec reg_inv_def all_stored_def version_inv_def was_published_def
        split: option.split)
next
  case (Lock_price r sel)
  then show ?thesis
    using inv lock_price_exec [of r sel s] by (auto simp: reg_inv_def all_stored_def)
qed

lemma reg_inv_new [simp]: "reg_inv new_registry"
  by (simp add: reg_inv_def all_stored_def new_registry_def version_of_def)

lemma reg_inv_run: "reg_inv s \<Longrightarrow> list_all names_versions cs \<Longrightarrow> reg_inv (reg_run cs s)"
  by (induction cs arbitrary: s) (simp_all add: reg_run_def reg_inv_exec)

text \<open>C28 (invariant). In every run of the registry from empty in which no version is created under the empty identifier,
  the version the registry names as published is the only one with that status, and every version that is or was
  published passes the publication checks: ordered quote bounds, no negative spread, no conflicting rows. With the
  empty identifier, which the code does not refuse, two versions can be published at once:
  \<open>empty_identifier_published_twice\<close>.\<close>

theorem one_valid_publication:
  assumes "list_all names_versions cs"
    and "version_of (reg_run cs new_registry) k = Some v"
  shows "(rv_status v = P_published \<longleftrightarrow> published (reg_run cs new_registry) = Some k) \<and>
    (rv_status v \<in> {P_published, P_superseded} \<longrightarrow> valid_version v)"
  using reg_inv_at [OF reg_inv_run [OF reg_inv_new assms(1)] assms(2)]
  by (simp add: version_inv_def was_published_def)

definition version_1 :: rate_version where
  "version_1 = new_rate_version ''v1'' 12000 8000 10000 [row_a, row_b]"

definition version_2 :: rate_version where
  "version_2 = new_rate_version ''v2'' 11000 8000 11000 []"

definition sample_calls :: "reg_call list" where
  "sample_calls =
     [Create version_1, Set_quote \<lparr>sq_seller_id = ''s'', sq_rate_version = ''v1'', sq_multiplier_bps = 9000\<rparr>,
      Preview ''v1'', Approve ''v1'', Publish ''v1'', Lock_price ''r1'' ''s'', Create version_2,
      Publish ''v2'']"

lemmas reg_eval = reg_create_exec set_quote_def preview_exec approve_exec publish_exec lock_price_run
  delete_version_exec reg_get_run published_state_def put_version_def version_of_def new_registry_def
  was_published_def valid_version_def snapshot_def dict_set_def dict_del_def dict_get_def

lemma sample_run:
  "reg_run sample_calls new_registry =
     \<lparr>versions = [(''v1'', version_1\<lparr>rv_status := P_superseded\<rparr>), (''v2'', version_2\<lparr>rv_status := P_published\<rparr>)],
      quotes = [((''s'', ''v1''), \<lparr>sq_seller_id = ''s'', sq_rate_version = ''v1'', sq_multiplier_bps = 9000\<rparr>)],
      published = Some ''v2'',
      price_locks = [(''r1'', \<lparr>pl_request_id = ''r1'', pl_rate_version = ''v1'', pl_buyer_bps = 12000,
                       pl_seller_bps = 9000\<rparr>)]\<rparr>"
  using row_ab_accepted
  by (simp add: reg_run_def sample_calls_def version_1_def version_2_def new_rate_version_def reg_eval run)

theorem one_valid_publication_witness:
  "published (reg_run sample_calls new_registry) \<noteq> Some ''v1'' \<and>
    valid_version (version_1\<lparr>rv_status := P_superseded\<rparr>)"
proof -
  have "list_all names_versions sample_calls"
    by (simp add: sample_calls_def names_versions_def version_1_def version_2_def new_rate_version_def)
  moreover have "version_of (reg_run sample_calls new_registry) ''v1'' = Some (version_1\<lparr>rv_status := P_superseded\<rparr>)"
    unfolding sample_run by (simp add: version_of_def dict_get_def)
  ultimately show ?thesis using one_valid_publication by fastforce
qed

text \<open>A published version with the empty identifier is not superseded by the next publication.\<close>

lemma empty_identifier_published_twice:
  "let s = reg_run [Create (new_rate_version '''' 12000 8000 10000 []), Publish '''', Create version_2, Publish ''v2''] new_registry in
     map_option rv_status (version_of s '''') = Some P_published \<and> map_option rv_status (version_of s ''v2'') = Some P_published"
  by code_simp

theorem published_content_frozen_witness:
  "\<exists>st. st \<in> {P_published, P_superseded} \<and>
    version_of (reg_run [Add_row ''v1'' row_a, Delete_version ''v1''] (reg_run sample_calls new_registry)) ''v1'' =
      Some (version_1\<lparr>rv_status := P_superseded, rv_status := st\<rparr>)"
  by (rule published_content_frozen) (unfold sample_run, simp_all add: version_of_def dict_get_def)

theorem lock_stable_witness:
  "lock_price ''r1'' ''other'' (reg_run [Publish ''v1''] (reg_run sample_calls new_registry)) =
     (Inr \<lparr>pl_request_id = ''r1'', pl_rate_version = ''v1'', pl_buyer_bps = 12000, pl_seller_bps = 9000\<rparr>,
      reg_run [Publish ''v1''] (reg_run sample_calls new_registry))"
  by (rule lock_stable [where s = "reg_run sample_calls new_registry" and sel = "''s''"])
    (unfold sample_run, simp add: lock_price_run dict_get_def)

subsection \<open>Locks never sell below cost\<close>

text \<open>
  The bounds of a version do not change while it exists, and a quote is checked against them, so
  without deletions every lock has a seller multiplier within its version's bounds.
\<close>

definition quote_within :: "registry \<Rightarrow> string \<times> string \<Rightarrow> seller_quote \<Rightarrow> bool" where
  "quote_within s k q \<longleftrightarrow> (\<exists>v. version_of s (snd k) = Some v \<and>
     seller_quote_min_bps v \<le> sq_multiplier_bps q \<and> sq_multiplier_bps q \<le> seller_quote_max_bps v)"

definition lock_bounded :: "string \<Rightarrow> price_lock \<Rightarrow> bool" where
  "lock_bounded r l \<longleftrightarrow> pl_seller_bps l \<le> pl_buyer_bps l"

definition quotes_inv :: "registry \<Rightarrow> bool" where
  "quotes_inv s \<longleftrightarrow> (\<forall>k q. dict_get (quotes s) k = Some q \<longrightarrow> quote_within s k q) \<and>
     all_stored (\<lambda>s. dict_get (price_locks s)) lock_bounded s"

text \<open>\<open>bounds_kept\<close>: every version is still there with the bounds it had.\<close>

definition bounds_kept :: "registry \<Rightarrow> registry \<Rightarrow> bool" where
  "bounds_kept s t \<longleftrightarrow> (\<forall>k v. version_of s k = Some v \<longrightarrow>
     (\<exists>w. version_of t k = Some w \<and> seller_quote_min_bps w = seller_quote_min_bps v \<and>
          seller_quote_max_bps w = seller_quote_max_bps v))"

lemma quote_within_mono: "bounds_kept s t \<Longrightarrow> quote_within s k q \<Longrightarrow> quote_within t k q"
  unfolding bounds_kept_def quote_within_def by metis

definition deletes :: "reg_call \<Rightarrow> bool" where
  "deletes c = (case c of Delete_version _ \<Rightarrow> True | _ \<Rightarrow> False)"

lemma bounds_kept_publish: "bounds_kept s (snd (publish vid s))"
  by (auto simp: publish_exec bounds_kept_def published_state_def versions_store.get_put
      split: option.split)

lemma bounds_kept_exec: "\<not> deletes c \<Longrightarrow> bounds_kept s (reg_exec c s)"
proof (cases c)
  case (Set_quote q)
  then show ?thesis using set_quote_exec [of q s] by (auto simp: bounds_kept_def)
next
  case (Lock_price r sel)
  then show ?thesis using lock_price_exec [of r sel s] by (auto simp: bounds_kept_def)
next
  case (Publish vid)
  then show ?thesis by (simp add: bounds_kept_publish)
qed (auto simp: reg_create_exec add_row_exec preview_exec approve_exec deletes_def
    bounds_kept_def versions_store.get_put split: option.split)

lemma quotes_locks_frame:
  "(\<nexists>q. c = Set_quote q) \<Longrightarrow> (\<nexists>r sel. c = Lock_price r sel) \<Longrightarrow>
     quotes (reg_exec c s) = quotes s \<and> price_locks (reg_exec c s) = price_locks s"
  by (cases c) (auto simp: reg_create_exec add_row_exec preview_exec approve_exec publish_exec
      delete_version_exec published_state_def split: option.split)

lemma quotes_inv_mono:
  "quotes_inv s \<Longrightarrow> bounds_kept s t \<Longrightarrow> quotes t = quotes s \<Longrightarrow> price_locks t = price_locks s \<Longrightarrow>
     quotes_inv t"
  by (auto simp: quotes_inv_def all_stored_def intro: quote_within_mono)

lemma quotes_inv_lock:
  assumes q: "quotes_inv s" and inv: "reg_inv s"
  shows "quotes_inv (snd (lock_price r sel s))"
  using lock_price_exec [of r sel s]
proof (elim disjE exE conjE)
  fix v qu
  assume v: "version_of s (the (published s)) = Some v" and "truthy (published s)"
    and qu: "dict_get (quotes s) (sel, version_id v) = Some qu"
    and t: "snd (lock_price r sel s) = s\<lparr>price_locks := dict_set r (snapshot r v qu) (price_locks s)\<rparr>"
  then obtain p where p: "published s = Some p" by (cases "published s") auto
  then have v: "version_of s p = Some v" using v by simp
  have vi: "version_inv (Some p) p v" using reg_inv_at [OF inv v] p by simp
  then have "quote_within s (sel, p) qu" using q qu by (auto simp: quotes_inv_def version_inv_def)
  then have "sq_multiplier_bps qu \<le> buyer_multiplier_bps v"
    using v vi by (auto simp: quote_within_def version_inv_def was_published_def valid_version_def)
  then show ?thesis
    using q unfolding t
    by (auto simp: quotes_inv_def quote_within_def all_stored_def lock_bounded_def snapshot_def)
qed (simp add: q)

lemma quotes_inv_exec:
  assumes q: "quotes_inv s" and inv: "reg_inv s" and c: "\<not> deletes c"
  shows "quotes_inv (reg_exec c s)"
proof (cases "(\<exists>q. c = Set_quote q) \<or> (\<exists>r sel. c = Lock_price r sel)")
  case False
  then show ?thesis using quotes_inv_mono [OF q bounds_kept_exec [OF c]] quotes_locks_frame by blast
next
  case True
  then show ?thesis
  proof (elim disjE exE)
    fix qu assume "c = Set_quote qu"
    then show ?thesis
      using q set_quote_exec [of qu s] by (auto simp: quotes_inv_def quote_within_def all_stored_def split: if_splits)
  next
    fix r sel assume "c = Lock_price r sel"
    then show ?thesis using quotes_inv_lock [OF q inv] by simp
  qed
qed

lemma quotes_inv_run:
  "quotes_inv s \<Longrightarrow> reg_inv s \<Longrightarrow> list_all (\<lambda>c. names_versions c \<and> \<not> deletes c) cs \<Longrightarrow>
     quotes_inv (reg_run cs s)"
  by (induction cs arbitrary: s) (simp_all add: reg_run_def reg_inv_exec quotes_inv_exec)

text \<open>In a run in which no version is deleted, every lock handed out has a seller
  multiplier at most the buyer multiplier: no locked request can be quoted at a loss.\<close>

theorem locks_never_negative:
  assumes "list_all (\<lambda>c. names_versions c \<and> \<not> deletes c) cs"
    and "lock_price r sel (reg_run cs new_registry) = (Inr l, t)"
  shows "pl_seller_bps l \<le> pl_buyer_bps l"
proof -
  let ?s = "reg_run cs new_registry"
  have "quotes_inv new_registry" by (simp add: quotes_inv_def all_stored_def new_registry_def)
  then have "quotes_inv ?s" and "reg_inv ?s"
    using assms(1) by (auto intro!: quotes_inv_run reg_inv_run simp: list_all_iff)
  then have "quotes_inv t" using quotes_inv_lock [of ?s r sel] assms(2) by simp
  moreover have "dict_get (price_locks t) r = Some l"
    using assms(2) by (auto simp: lock_price_run split: option.splits if_splits)
  ultimately show ?thesis by (auto simp: quotes_inv_def all_stored_def lock_bounded_def)
qed

theorem locks_never_negative_witness:
  "pl_seller_bps \<lparr>pl_request_id = ''r1'', pl_rate_version = ''v1'', pl_buyer_bps = 12000, pl_seller_bps = 9000\<rparr>
     \<le> pl_buyer_bps \<lparr>pl_request_id = ''r1'', pl_rate_version = ''v1'', pl_buyer_bps = 12000, pl_seller_bps = 9000\<rparr>"
  by (rule locks_never_negative [where cs = sample_calls and r = "''r1''" and sel = "''s''"])
    (simp add: sample_calls_def names_versions_def deletes_def version_1_def version_2_def
       new_rate_version_def, unfold sample_run, simp add: lock_price_run dict_get_def)

text \<open>
  Deletion is what the hypothesis excludes: \<^verbatim>\<open>delete_version\<close> leaves the quotes of the version
  behind, and a version created again under the same identifier with lower bounds is published
  and locked with the old quote.
\<close>

lemma deleted_quote_survives:
  "snd (lock_price ''r'' ''s'' (reg_run
     [Create (new_rate_version ''v'' 12000 8000 12000 []),
      Set_quote \<lparr>sq_seller_id = ''s'', sq_rate_version = ''v'', sq_multiplier_bps = 12000\<rparr>,
      Delete_version ''v'', Create (new_rate_version ''v'' 10000 8000 10000 []), Publish ''v'']
     new_registry)) = t \<Longrightarrow>
   dict_get (price_locks t) ''r'' =
     Some \<lparr>pl_request_id = ''r'', pl_rate_version = ''v'', pl_buyer_bps = 10000, pl_seller_bps = 12000\<rparr>"
  by (drule sym, hypsubst, simp add: reg_run_def new_rate_version_def reg_eval run)

end
