(* ===== verification/Ledger_Store.thy ===== *)
theory Ledger_Store
  imports Interfaces
begin

section \<open>Ledger records and the append-only store\<close>

text \<open>
  \<^verbatim>\<open>services/billing-service/app/domain/ledger/models.py\<close>, \<^verbatim>\<open>errors.py\<close> and \<^verbatim>\<open>store.py\<close>
  (\<^verbatim>\<open>MemoryLedgerStore\<close>, the store the service is wired with). The store copies records on the
  way in and out, so records are values. \<open>l_next\<close> is the counter the identifiers are drawn from.
  The human-readable message of an error is left out; its code and HTTP status are kept.
\<close>

subsection \<open>Records\<close>

datatype direction = Debit | Credit

datatype entry_status = E_reserved | E_settled | E_released | E_unresolved | E_reversed

datatype account_kind = Buyer_quota | Project_quota | Key_quota | Seller_earning | Platform_spread

datatype reservation_status = R_held | R_consumed | R_released | R_unresolved

definition unit_name :: string where
  "unit_name = ''test_quota''"

fun kind_str :: "account_kind \<Rightarrow> string" where
  "kind_str Buyer_quota = ''buyer_quota''"
| "kind_str Project_quota = ''project_quota''"
| "kind_str Key_quota = ''key_quota''"
| "kind_str Seller_earning = ''seller_earning''"
| "kind_str Platform_spread = ''platform_spread''"

definition account_id_for :: "account_kind \<Rightarrow> string \<Rightarrow> string" where
  "account_id_for kind raw = kind_str kind @ '':'' @ raw"

record entry =
  entry_id :: uuid
  e_journal_id :: uuid
  e_account_id :: string
  e_account_kind :: account_kind
  e_request_id :: string
  e_amount :: int
  e_direction :: direction
  e_status :: entry_status
  e_rate_version :: string
  e_created_at :: instant
  e_project_id :: "string option"
  e_key_id :: "string option"
  e_evidence_digest :: "string option"
  e_idempotency_key :: "string option"
  e_reverses_entry_id :: "uuid option"
  e_unit :: string

record reservation =
  reservation_id :: uuid
  r_request_id :: string
  r_idempotency_key :: string
  r_account_id :: string
  r_project_id :: string
  r_key_id :: string
  r_amount :: int
  r_remaining :: int
  r_status :: reservation_status
  r_rate_version :: string
  r_journal_id :: uuid
  r_created_at :: instant
  r_unresolved_reason :: "string option"

record balance =
  b_account_id :: string
  b_available :: int
  b_reserved :: int
  b_settled_debit :: int
  b_settled_credit :: int

record journal =
  j_journal_id :: uuid
  j_request_id :: string
  j_entry_ids :: "uuid list"

fun reservation_status_str :: "reservation_status \<Rightarrow> string" where
  "reservation_status_str R_held = ''held''"
| "reservation_status_str R_consumed = ''consumed''"
| "reservation_status_str R_released = ''released''"
| "reservation_status_str R_unresolved = ''unresolved''"

subsection \<open>Errors\<close>

datatype ledger_code =
    Insufficient_quota | Idempotency_conflict | Not_found | Immutable_entry | Unbalanced
  | Already_terminal | Validation | Unresolved_held | Step_up_required | Forbidden_role

datatype ledger_error = LedgerError ledger_code int | Ledger_KeyError string

text \<open>\<^verbatim>\<open>LedgerError(code, message)\<close> with the default status 409.\<close>

definition ledger_err :: "ledger_code \<Rightarrow> ledger_error" where
  "ledger_err c = LedgerError c 409"

subsection \<open>The store\<close>

record ledger =
  l_entries :: "entry list"
  l_reservations :: "(string, reservation) dict"
  l_by_idempotency :: "(string, string) dict"
  l_next :: uuid

type_synonym 'a ledger_op = "(ledger, ledger_error, 'a) op"

definition new_ledger :: ledger where
  "new_ledger = \<lparr>l_entries = [], l_reservations = [], l_by_idempotency = [], l_next = 0\<rparr>"

definition store_append :: "entry \<Rightarrow> unit ledger_op" where
  "store_append e = modify (\<lambda>s. s\<lparr>l_entries := l_entries s @ [e]\<rparr>)"

definition list_entries :: "ledger \<Rightarrow> entry list" where
  "list_entries s = l_entries s"

definition entries_for :: "string \<Rightarrow> ledger \<Rightarrow> entry list" where
  "entries_for account_id s = filter (\<lambda>e. e_account_id e = account_id) (l_entries s)"

definition put_reservation :: "reservation \<Rightarrow> unit ledger_op" where
  "put_reservation rec = modify (\<lambda>s.
     s\<lparr>l_reservations := dict_set (r_request_id rec) rec (l_reservations s),
       l_by_idempotency := dict_set (r_idempotency_key rec) (r_request_id rec) (l_by_idempotency s)\<rparr>)"

definition get_reservation :: "ledger \<Rightarrow> string \<Rightarrow> reservation option" where
  "get_reservation s request_id = dict_get (l_reservations s) request_id"

definition get_by_idempotency :: "ledger \<Rightarrow> string \<Rightarrow> reservation option" where
  "get_by_idempotency s key =
     (case dict_get (l_by_idempotency s) key of
        None \<Rightarrow> None
      | Some rid \<Rightarrow> dict_get (l_reservations s) rid)"

definition write_reservation :: "string \<Rightarrow> reservation \<Rightarrow> ledger \<Rightarrow> ledger" where
  "write_reservation rid rec s = s\<lparr>l_reservations := dict_set rid rec (l_reservations s)\<rparr>"

definition save_reservation :: "reservation \<Rightarrow> unit ledger_op" where
  "save_reservation rec = bindE (gets (\<lambda>s. get_reservation s (r_request_id rec))) (\<lambda>old.
     bindE (require (old \<noteq> None) (Ledger_KeyError (r_request_id rec))) (\<lambda>_.
     modify (write_reservation (r_request_id rec) rec)))"

definition store_list_reservations :: "ledger \<Rightarrow> reservation list" where
  "store_list_reservations s = dict_values (l_reservations s)"

definition store_mutate_entry :: "uuid \<Rightarrow> unit ledger_op" where
  "store_mutate_entry eid = throw (ledger_err Immutable_entry)"

definition store_delete_entry :: "uuid \<Rightarrow> unit ledger_op" where
  "store_delete_entry eid = throw (ledger_err Immutable_entry)"

text \<open>\<^verbatim>\<open>str(uuid.uuid4())\<close>.\<close>

definition new_id :: "uuid ledger_op" where
  "new_id = bindE (gets l_next) (\<lambda>n. bindE (modify (\<lambda>s. s\<lparr>l_next := Suc n\<rparr>)) (\<lambda>_. ret n))"

subsection \<open>Account identifiers\<close>

text \<open>No kind contains the separator, so an account identifier determines its kind and name.\<close>

lemma append_colon_inject:
  assumes "CHR '':'' \<notin> set u" and "CHR '':'' \<notin> set v" and "u @ '':'' @ x = v @ '':'' @ y"
  shows "u = v \<and> x = y"
proof -
  have *: "takeWhile (\<lambda>c. c \<noteq> CHR '':'') (w @ '':'' @ z) = w" if "CHR '':'' \<notin> set w" for w z
    using that by (induction w) auto
  have "u = v" using assms * by metis
  with assms(3) show ?thesis by simp
qed

lemma kind_str_inj: "kind_str k = kind_str k' \<Longrightarrow> k = k'"
  by (cases k; cases k') simp_all

lemma account_id_for_inject [simp]:
  "account_id_for k a = account_id_for k' b \<longleftrightarrow> k = k' \<and> a = b"
proof -
  have "CHR '':'' \<notin> set (kind_str k)" for k by (cases k) simp_all
  then show ?thesis
    using append_colon_inject kind_str_inj unfolding account_id_for_def by metis
qed

subsection \<open>The reservations as a store\<close>

interpretation reservations_store: keyed_store get_reservation write_reservation
  by unfold_locales (simp add: get_reservation_def write_reservation_def)

lemma write_reservation_frame [simp]:
  "l_entries (write_reservation k v s) = l_entries s"
  "l_by_idempotency (write_reservation k v s) = l_by_idempotency s"
  "l_next (write_reservation k v s) = l_next s"
  "l_reservations (write_reservation k v s) = dict_set k v (l_reservations s)"
  by (simp_all add: write_reservation_def)

lemma get_reservation_write [simp]:
  "get_reservation (write_reservation k v s) k' = (if k' = k then Some v else get_reservation s k')"
  by (rule reservations_store.get_put)

lemma get_reservation_update [simp]:
  "get_reservation (s\<lparr>l_entries := es\<rparr>) = get_reservation s"
  "get_reservation (s\<lparr>l_next := n\<rparr>) = get_reservation s"
  "get_reservation (s\<lparr>l_by_idempotency := m\<rparr>) = get_reservation s"
  by (simp_all add: get_reservation_def fun_eq_iff)

lemma save_reservation_run:
  "get_reservation s (r_request_id rec) \<noteq> None \<Longrightarrow>
     save_reservation rec s = (Inr (), write_reservation (r_request_id rec) rec s)"
  by (simp add: save_reservation_def run)

definition fresh :: "ledger \<Rightarrow> ledger" where
  "fresh s = s\<lparr>l_next := Suc (l_next s)\<rparr>"

lemma new_id_run [run]: "new_id s = (Inr (l_next s), fresh s)"
  by (simp add: new_id_def run fresh_def)

end
