(* ===== verification/Ledger.thy ===== *)
theory Ledger
  imports Ledger_Store
begin

section \<open>The ledger service\<close>

text \<open>
  \<^verbatim>\<open>services/billing-service/app/domain/ledger/service.py\<close>, the whole of \<^verbatim>\<open>LedgerService\<close>: granting
  quota, reserving, settling, releasing, marking a cost unresolved, applying a corrected amount,
  reversing, and the projections that are recomputed from the entries. The HTTP handlers that
  call it run without suspension points, and \<^verbatim>\<open>reserve\<close> and \<^verbatim>\<open>settle\<close> hold the store's lock while
  they write: each operation is one atomic step. The checks the code repeats after taking the
  lock are repeated here. An operation reads the clock once, as its argument \<open>now\<close>.
\<close>

subsection \<open>Posting\<close>

text \<open>The keyword arguments of \<^verbatim>\<open>_post\<close> other than the direction.\<close>

record posting =
  po_journal_id :: uuid
  po_request_id :: string
  po_account_id :: string
  po_kind :: account_kind
  po_amount :: int
  po_status :: entry_status
  po_rate_version :: string
  po_project_id :: "string option"
  po_key_id :: "string option"
  po_evidence_digest :: "string option"
  po_idempotency_key :: "string option"
  po_reverses_entry_id :: "uuid option"

definition posting_of ::
  "uuid \<Rightarrow> string \<Rightarrow> string \<Rightarrow> account_kind \<Rightarrow> int \<Rightarrow> entry_status \<Rightarrow> string \<Rightarrow> posting" where
  "posting_of journal request account kind amount status rate_version =
     \<lparr>po_journal_id = journal, po_request_id = request, po_account_id = account, po_kind = kind,
      po_amount = amount, po_status = status, po_rate_version = rate_version,
      po_project_id = None, po_key_id = None, po_evidence_digest = None,
      po_idempotency_key = None, po_reverses_entry_id = None\<rparr>"

definition entry_of :: "instant \<Rightarrow> direction \<Rightarrow> posting \<Rightarrow> uuid \<Rightarrow> entry" where
  "entry_of now d p eid =
     \<lparr>entry_id = eid, e_journal_id = po_journal_id p, e_account_id = po_account_id p,
      e_account_kind = po_kind p, e_request_id = po_request_id p, e_amount = po_amount p,
      e_direction = d, e_status = po_status p, e_rate_version = po_rate_version p,
      e_created_at = now, e_project_id = po_project_id p, e_key_id = po_key_id p,
      e_evidence_digest = po_evidence_digest p, e_idempotency_key = po_idempotency_key p,
      e_reverses_entry_id = po_reverses_entry_id p, e_unit = unit_name\<rparr>"

definition post :: "instant \<Rightarrow> direction \<Rightarrow> posting \<Rightarrow> unit ledger_op" where
  "post now d p = bindE (require (\<not> po_amount p < 0) (LedgerError Validation 400)) (\<lambda>_.
     bindE new_id (\<lambda>eid. store_append (entry_of now d p eid)))"

definition credit :: "instant \<Rightarrow> posting \<Rightarrow> unit ledger_op" where
  "credit now p = post now Credit p"

definition debit :: "instant \<Rightarrow> posting \<Rightarrow> unit ledger_op" where
  "debit now p = post now Debit p"

definition buyer_buckets :: "string \<Rightarrow> string \<Rightarrow> string \<Rightarrow> (string \<times> account_kind) list" where
  "buyer_buckets account_id project_id key_id =
     [(account_id_for Buyer_quota account_id, Buyer_quota),
      (account_id_for Project_quota project_id, Project_quota),
      (account_id_for Key_quota key_id, Key_quota)]"

definition require_res :: "string \<Rightarrow> reservation ledger_op" where
  "require_res request_id = bindE (gets (\<lambda>s. get_reservation s request_id))
     (of_option (LedgerError Not_found 404))"

subsection \<open>Projections\<close>

record sums =
  s_reserved :: int
  s_released :: int
  s_settled_debit :: int
  s_settled_credit :: int
  s_reversed_debit :: int
  s_reversed_credit :: int

definition no_sums :: sums where
  "no_sums = \<lparr>s_reserved = 0, s_released = 0, s_settled_debit = 0, s_settled_credit = 0,
     s_reversed_debit = 0, s_reversed_credit = 0\<rparr>"

definition add_entry :: "entry \<Rightarrow> sums \<Rightarrow> sums" where
  "add_entry e a =
     (if e_status e = E_reserved \<and> e_direction e = Debit
        then a\<lparr>s_reserved := s_reserved a + e_amount e\<rparr>
      else if e_status e = E_released \<and> e_direction e = Credit
        then a\<lparr>s_released := s_released a + e_amount e\<rparr>
      else if e_status e = E_settled \<and> e_direction e = Debit
        then a\<lparr>s_settled_debit := s_settled_debit a + e_amount e\<rparr>
      else if e_status e = E_settled \<and> e_direction e = Credit
        then a\<lparr>s_settled_credit := s_settled_credit a + e_amount e\<rparr>
      else if e_status e = E_reversed \<and> e_direction e = Debit
        then a\<lparr>s_reversed_debit := s_reversed_debit a + e_amount e\<rparr>
      else if e_status e = E_reversed \<and> e_direction e = Credit
        then a\<lparr>s_reversed_credit := s_reversed_credit a + e_amount e\<rparr>
      else a)"

definition rebuild :: "string \<Rightarrow> ledger \<Rightarrow> balance" where
  "rebuild account_id s =
     (let a = fold add_entry (entries_for account_id s) no_sums;
          outstanding = s_reserved a - s_released a
      in \<lparr>b_account_id = account_id,
          b_available = s_settled_credit a - s_settled_debit a - outstanding
                        + s_reversed_credit a - s_reversed_debit a,
          b_reserved = max 0 outstanding,
          b_settled_debit = s_settled_debit a,
          b_settled_credit = s_settled_credit a\<rparr>)"

definition projection :: "string \<Rightarrow> ledger \<Rightarrow> balance" where
  "projection account_id s = rebuild account_id s"

fun net_loop :: "string \<Rightarrow> account_kind \<Rightarrow> entry list \<Rightarrow> int \<Rightarrow> int \<Rightarrow> int \<times> int" where
  "net_loop request_id kind [] dr cr = (dr, cr)"
| "net_loop request_id kind (e # es) dr cr =
     (if e_request_id e \<noteq> request_id \<or> e_account_kind e \<noteq> kind
        then net_loop request_id kind es dr cr
      else if e_status e = E_settled \<and> e_direction e = Debit
        then net_loop request_id kind es (dr + e_amount e) cr
      else if e_status e = E_settled \<and> e_direction e = Credit
        then net_loop request_id kind es dr (cr + e_amount e)
      else if e_status e = E_reversed \<and> e_direction e = Credit
        then net_loop request_id kind es (dr - e_amount e) cr
      else if e_status e = E_reversed \<and> e_direction e = Debit
        then net_loop request_id kind es dr (cr - e_amount e)
      else net_loop request_id kind es dr cr)"

definition net_settled :: "string \<Rightarrow> account_kind \<Rightarrow> ledger \<Rightarrow> int \<times> int" where
  "net_settled request_id kind s = net_loop request_id kind (list_entries s) 0 0"

definition list_reservations :: "ledger \<Rightarrow> reservation list" where
  "list_reservations s = store_list_reservations s"

definition entries :: "ledger \<Rightarrow> entry list" where
  "entries s = list_entries s"

definition mutate_entry :: "uuid \<Rightarrow> unit ledger_op" where
  "mutate_entry eid = store_mutate_entry eid"

definition delete_entry :: "uuid \<Rightarrow> unit ledger_op" where
  "delete_entry eid = store_delete_entry eid"

definition overview_item :: "reservation \<Rightarrow> pyval" where
  "overview_item rec = PyDict
     [(''request_id'', PyStr (r_request_id rec)), (''key_id'', PyStr (r_key_id rec)),
      (''status'', PyStr (reservation_status_str (r_status rec))),
      (''amount_minor'', PyInt (r_amount rec)),
      (''reason'', py_opt PyStr (r_unresolved_reason rec)),
      (''updated_at'', PyTime (r_created_at rec))]"

fun overview_loop ::
  "string \<Rightarrow> reservation list \<Rightarrow> int \<Rightarrow> int \<Rightarrow> pyval list \<Rightarrow> int \<times> int \<times> pyval list" where
  "overview_loop project_id [] held unresolved requests = (held, unresolved, requests)"
| "overview_loop project_id (rec # recs) held unresolved requests =
     (if r_project_id rec \<noteq> project_id then overview_loop project_id recs held unresolved requests
      else overview_loop project_id recs
        (if r_status rec = R_held then held + r_amount rec else held)
        (if r_status rec = R_unresolved then unresolved + r_amount rec else unresolved)
        (requests @ [overview_item rec]))"

definition project_overview :: "string \<Rightarrow> ledger \<Rightarrow> (string \<times> pyval) list" where
  "project_overview project_id s =
     (let bal = rebuild (account_id_for Project_quota project_id) s;
          (held, unresolved, requests) = overview_loop project_id (list_reservations s) 0 0 []
      in [(''available'', PyInt (b_available bal)), (''reserved'', PyInt held),
          (''settled'', PyInt (b_settled_debit bal)), (''unresolved'', PyInt unresolved),
          (''requests'', PyList requests)])"

subsection \<open>Operations\<close>

definition seed_quota ::
  "instant \<Rightarrow> string \<Rightarrow> string \<Rightarrow> string \<Rightarrow> int \<Rightarrow> int \<Rightarrow> int \<Rightarrow> string \<Rightarrow> string \<Rightarrow> unit ledger_op" where
  "seed_quota now account_id project_id key_id account_grant project_grant key_grant request_id rate_version =
     bindE (require (\<not> min (min account_grant project_grant) key_grant < 0) (LedgerError Validation 400)) (\<lambda>_.
     bindE new_id (\<lambda>jid.
     bindE (credit now ((posting_of jid request_id (account_id_for Buyer_quota account_id) Buyer_quota
       account_grant E_settled rate_version)\<lparr>po_project_id := Some project_id, po_key_id := Some key_id\<rparr>)) (\<lambda>_.
     bindE (credit now ((posting_of jid request_id (account_id_for Project_quota project_id) Project_quota
       project_grant E_settled rate_version)\<lparr>po_project_id := Some project_id, po_key_id := Some key_id\<rparr>)) (\<lambda>_.
     credit now ((posting_of jid request_id (account_id_for Key_quota key_id) Key_quota
       key_grant E_settled rate_version)\<lparr>po_project_id := Some project_id, po_key_id := Some key_id\<rparr>)))))"

definition check_available :: "int \<Rightarrow> (string \<times> account_kind) \<Rightarrow> unit ledger_op" where
  "check_available amount b = (case b of (acc, kind) \<Rightarrow>
     bindE (gets (rebuild acc)) (\<lambda>bal.
       require (\<not> b_available bal < amount) (ledger_err Insufficient_quota)))"

definition hold_bucket ::
  "instant \<Rightarrow> uuid \<Rightarrow> string \<Rightarrow> string \<Rightarrow> string \<Rightarrow> string \<Rightarrow> int \<Rightarrow> string \<Rightarrow>
   (string \<times> account_kind) \<Rightarrow> unit ledger_op" where
  "hold_bucket now jid request_id idem project_id key_id amount rate_version b = (case b of (acc, kind) \<Rightarrow>
     debit now ((posting_of jid request_id acc kind amount E_reserved rate_version)
       \<lparr>po_project_id := Some project_id, po_key_id := Some key_id, po_idempotency_key := Some idem\<rparr>))"

definition reserve_locked ::
  "instant \<Rightarrow> string \<Rightarrow> string \<Rightarrow> string \<Rightarrow> string \<Rightarrow> string \<Rightarrow> int \<Rightarrow> string \<Rightarrow> reservation ledger_op" where
  "reserve_locked now request_id idem account_id project_id key_id amount rate_version =
     bindE (gets (\<lambda>s. get_reservation s request_id)) (\<lambda>existing.
     case existing of
       Some rec \<Rightarrow> ret rec
     | None \<Rightarrow>
         bindE (for_each (check_available amount) (buyer_buckets account_id project_id key_id)) (\<lambda>_.
         bindE new_id (\<lambda>jid.
         bindE (for_each (hold_bucket now jid request_id idem project_id key_id amount rate_version)
                  (buyer_buckets account_id project_id key_id)) (\<lambda>_.
         bindE new_id (\<lambda>rid.
         let rec = \<lparr>reservation_id = rid, r_request_id = request_id, r_idempotency_key = idem,
                    r_account_id = account_id, r_project_id = project_id, r_key_id = key_id,
                    r_amount = amount, r_remaining = amount, r_status = R_held,
                    r_rate_version = rate_version, r_journal_id = jid, r_created_at = now,
                    r_unresolved_reason = None\<rparr>
         in bindE (put_reservation rec) (\<lambda>_. ret rec))))))"

definition reserve ::
  "instant \<Rightarrow> string \<Rightarrow> string \<Rightarrow> string \<Rightarrow> string \<Rightarrow> string \<Rightarrow> int \<Rightarrow> string \<Rightarrow> reservation ledger_op" where
  "reserve now request_id idem account_id project_id key_id amount rate_version =
     bindE (require (\<not> (amount \<le> 0 \<or> request_id = [] \<or> idem = [])) (LedgerError Validation 400)) (\<lambda>_.
     bindE (gets (\<lambda>s. get_reservation s request_id)) (\<lambda>existing.
     bindE (gets (\<lambda>s. get_by_idempotency s idem)) (\<lambda>by_key.
     case existing of
       Some rec \<Rightarrow>
         bindE (require (r_idempotency_key rec = idem) (ledger_err Idempotency_conflict)) (\<lambda>_.
         bindE (require (r_amount rec = amount) (ledger_err Idempotency_conflict)) (\<lambda>_.
         ret rec))
     | None \<Rightarrow>
         (case by_key of
            Some rec \<Rightarrow>
              bindE (require (\<not> (r_request_id rec \<noteq> request_id \<or> r_amount rec \<noteq> amount))
                      (ledger_err Idempotency_conflict)) (\<lambda>_. ret rec)
          | None \<Rightarrow> reserve_locked now request_id idem account_id project_id key_id amount rate_version))))"

text \<open>The loop body of \<^verbatim>\<open>settle\<close>: release the whole hold on a bucket, then post the settled debit.\<close>

definition settle_bucket ::
  "instant \<Rightarrow> uuid \<Rightarrow> reservation \<Rightarrow> string \<Rightarrow> int \<Rightarrow> string \<Rightarrow> string \<Rightarrow>
   (string \<times> account_kind) \<Rightarrow> unit ledger_op" where
  "settle_bucket now jid rec request_id buyer_debit rate_version digest b = (case b of (acc, kind) \<Rightarrow>
     bindE (credit now ((posting_of jid request_id acc kind (r_amount rec) E_released rate_version)
       \<lparr>po_project_id := Some (r_project_id rec), po_key_id := Some (r_key_id rec),
        po_evidence_digest := Some digest\<rparr>)) (\<lambda>_.
     debit now ((posting_of jid request_id acc kind buyer_debit E_settled rate_version)
       \<lparr>po_project_id := Some (r_project_id rec), po_key_id := Some (r_key_id rec),
        po_evidence_digest := Some digest\<rparr>)))"

definition journal_entries :: "uuid \<Rightarrow> ledger \<Rightarrow> uuid list" where
  "journal_entries jid s = map entry_id (filter (\<lambda>e. e_journal_id e = jid) (list_entries s))"

definition settle ::
  "instant \<Rightarrow> string \<Rightarrow> int \<Rightarrow> int \<Rightarrow> int \<Rightarrow> string \<Rightarrow> string \<Rightarrow> string \<Rightarrow> journal ledger_op" where
  "settle now request_id buyer_debit seller_earning spread seller_id rate_version digest =
     bindE (require (buyer_debit = seller_earning + spread) (ledger_err Unbalanced)) (\<lambda>_.
     bindE (require (\<not> min (min buyer_debit seller_earning) spread < 0) (LedgerError Validation 400)) (\<lambda>_.
     bindE (require_res request_id) (\<lambda>rec0.
     if r_status rec0 = R_consumed
     then ret \<lparr>j_journal_id = r_journal_id rec0, j_request_id = request_id, j_entry_ids = []\<rparr>
     else
     bindE (require (r_status rec0 \<noteq> R_released) (ledger_err Already_terminal)) (\<lambda>_.
     bindE (require_res request_id) (\<lambda>rec.
     if r_status rec = R_consumed
     then ret \<lparr>j_journal_id = r_journal_id rec, j_request_id = request_id, j_entry_ids = []\<rparr>
     else
     bindE (require (r_status rec \<noteq> R_released) (ledger_err Already_terminal)) (\<lambda>_.
     bindE new_id (\<lambda>jid.
     bindE (for_each (settle_bucket now jid rec request_id buyer_debit rate_version digest)
              (buyer_buckets (r_account_id rec) (r_project_id rec) (r_key_id rec))) (\<lambda>_.
     bindE (credit now ((posting_of jid request_id (account_id_for Seller_earning seller_id)
              Seller_earning seller_earning E_settled rate_version)\<lparr>po_evidence_digest := Some digest\<rparr>)) (\<lambda>_.
     bindE (credit now ((posting_of jid request_id (account_id_for Platform_spread ''platform'')
              Platform_spread spread E_settled rate_version)\<lparr>po_evidence_digest := Some digest\<rparr>)) (\<lambda>_.
     bindE (save_reservation (rec\<lparr>r_status := R_consumed,
              r_remaining := max 0 (r_amount rec - buyer_debit), r_journal_id := jid,
              r_rate_version := rate_version\<rparr>)) (\<lambda>_.
     bindE (gets (journal_entries jid)) (\<lambda>ids.
     ret \<lparr>j_journal_id = jid, j_request_id = request_id, j_entry_ids = ids\<rparr>))))))))))))"

definition release_bucket ::
  "instant \<Rightarrow> uuid \<Rightarrow> reservation \<Rightarrow> string \<Rightarrow> (string \<times> account_kind) \<Rightarrow> unit ledger_op" where
  "release_bucket now jid rec request_id b = (case b of (acc, kind) \<Rightarrow>
     credit now ((posting_of jid request_id acc kind (r_amount rec) E_released (r_rate_version rec))
       \<lparr>po_project_id := Some (r_project_id rec), po_key_id := Some (r_key_id rec)\<rparr>))"

definition release :: "instant \<Rightarrow> string \<Rightarrow> reservation ledger_op" where
  "release now request_id = bindE (require_res request_id) (\<lambda>rec.
     if r_status rec = R_released then ret rec
     else bindE (require (r_status rec = R_held) (ledger_err Already_terminal)) (\<lambda>_.
     bindE new_id (\<lambda>jid.
     bindE (for_each (release_bucket now jid rec request_id)
              (buyer_buckets (r_account_id rec) (r_project_id rec) (r_key_id rec))) (\<lambda>_.
     let rec' = rec\<lparr>r_status := R_released, r_remaining := 0, r_journal_id := jid\<rparr>
     in bindE (save_reservation rec') (\<lambda>_. ret rec')))))"

definition mark_unresolved :: "string \<Rightarrow> string \<Rightarrow> reservation ledger_op" where
  "mark_unresolved request_id reason = bindE (require_res request_id) (\<lambda>rec.
     if r_status rec = R_unresolved then ret rec
     else bindE (require (r_status rec = R_held) (ledger_err Already_terminal)) (\<lambda>_.
     let rec' = rec\<lparr>r_status := R_unresolved,
                    r_unresolved_reason := Some (or_str (Some reason) ''unknown_cost'')\<rparr>
     in bindE (save_reservation rec') (\<lambda>_. ret rec')))"

subsection \<open>Corrections\<close>

text \<open>
  One leg of a correction on the buyer's buckets (settled debits when the amount grows, reversed
  credits when it shrinks) and on one of the two income accounts (posted only when positive).
\<close>

definition delta_bucket ::
  "instant \<Rightarrow> direction \<Rightarrow> entry_status \<Rightarrow> uuid \<Rightarrow> reservation \<Rightarrow> string \<Rightarrow> int \<Rightarrow> string \<Rightarrow> string \<Rightarrow>
   (string \<times> account_kind) \<Rightarrow> unit ledger_op" where
  "delta_bucket now d status jid rec request_id amount rate_version digest b = (case b of (acc, kind) \<Rightarrow>
     post now d ((posting_of jid request_id acc kind amount status rate_version)
       \<lparr>po_project_id := Some (r_project_id rec), po_key_id := Some (r_key_id rec),
        po_evidence_digest := Some digest\<rparr>))"

definition delta_income ::
  "instant \<Rightarrow> direction \<Rightarrow> entry_status \<Rightarrow> uuid \<Rightarrow> string \<Rightarrow> account_kind \<Rightarrow> string \<Rightarrow> int \<Rightarrow> string \<Rightarrow> string \<Rightarrow>
   unit ledger_op" where
  "delta_income now d status jid request_id kind owner amount rate_version digest =
     when_op (amount > 0) (post now d ((posting_of jid request_id (account_id_for kind owner) kind
       amount status rate_version)\<lparr>po_evidence_digest := Some digest\<rparr>))"

definition delta_legs ::
  "instant \<Rightarrow> uuid \<Rightarrow> reservation \<Rightarrow> string \<Rightarrow> int \<Rightarrow> int \<Rightarrow> int \<Rightarrow> string \<Rightarrow> string \<Rightarrow> string \<Rightarrow> unit ledger_op" where
  "delta_legs now jid rec request_id d_buyer d_seller d_spread seller_id rate_version digest =
     (let buckets = buyer_buckets (r_account_id rec) (r_project_id rec) (r_key_id rec) in
      if d_buyer > 0 then
        bindE (for_each (delta_bucket now Debit E_settled jid rec request_id d_buyer rate_version digest) buckets) (\<lambda>_.
        bindE (delta_income now Credit E_settled jid request_id Seller_earning seller_id d_seller rate_version digest) (\<lambda>_.
        delta_income now Credit E_settled jid request_id Platform_spread ''platform'' d_spread rate_version digest))
      else
        bindE (for_each (delta_bucket now Credit E_reversed jid rec request_id (- d_buyer) rate_version digest) buckets) (\<lambda>_.
        bindE (delta_income now Debit E_reversed jid request_id Seller_earning seller_id (- d_seller) rate_version digest) (\<lambda>_.
        delta_income now Debit E_reversed jid request_id Platform_spread ''platform'' (- d_spread) rate_version digest)))"

definition apply_delta ::
  "instant \<Rightarrow> string \<Rightarrow> int \<Rightarrow> int \<Rightarrow> int \<Rightarrow> string \<Rightarrow> string \<Rightarrow> string \<Rightarrow> journal ledger_op" where
  "apply_delta now request_id buyer_debit seller_earning spread seller_id rate_version digest =
     bindE (require (buyer_debit = seller_earning + spread) (ledger_err Unbalanced)) (\<lambda>_.
     bindE (require_res request_id) (\<lambda>rec.
     if r_status rec \<noteq> R_consumed
     then settle now request_id buyer_debit seller_earning spread seller_id rate_version digest
     else
     bindE (gets (net_settled request_id Buyer_quota)) (\<lambda>nb.
     bindE (gets (net_settled request_id Seller_earning)) (\<lambda>ns.
     bindE (gets (net_settled request_id Platform_spread)) (\<lambda>np.
     let d_buyer = buyer_debit - fst nb;
         d_seller = seller_earning - snd ns;
         d_spread = spread - snd np
     in if d_buyer = 0 \<and> d_seller = 0 \<and> d_spread = 0
        then ret \<lparr>j_journal_id = r_journal_id rec, j_request_id = request_id, j_entry_ids = []\<rparr>
        else
        bindE (require (d_buyer = d_seller + d_spread) (ledger_err Unbalanced)) (\<lambda>_.
        bindE new_id (\<lambda>jid.
        bindE (delta_legs now jid rec request_id d_buyer d_seller d_spread seller_id rate_version digest) (\<lambda>_.
        bindE (save_reservation (rec\<lparr>r_journal_id := jid\<rparr>)) (\<lambda>_.
        bindE (gets (journal_entries jid)) (\<lambda>ids.
        ret \<lparr>j_journal_id = jid, j_request_id = request_id, j_entry_ids = ids\<rparr>))))))))))"

definition opposite :: "direction \<Rightarrow> direction" where
  "opposite d = (if d = Debit then Credit else Debit)"

definition reversal_of :: "uuid \<Rightarrow> string \<Rightarrow> entry \<Rightarrow> posting" where
  "reversal_of jid request_id e =
     (posting_of jid request_id (e_account_id e) (e_account_kind e) (e_amount e) E_reversed
        (e_rate_version e))
     \<lparr>po_project_id := e_project_id e, po_key_id := e_key_id e,
      po_evidence_digest := e_evidence_digest e, po_reverses_entry_id := Some (entry_id e)\<rparr>"

definition settled_entries :: "string \<Rightarrow> ledger \<Rightarrow> entry list" where
  "settled_entries request_id s =
     filter (\<lambda>e. e_request_id e = request_id \<and> e_status e = E_settled) (list_entries s)"

definition reverse_entry :: "instant \<Rightarrow> uuid \<Rightarrow> string \<Rightarrow> entry \<Rightarrow> unit ledger_op" where
  "reverse_entry now jid request_id e =
     post now (opposite (e_direction e)) (reversal_of jid request_id e)"

definition reverse_request :: "instant \<Rightarrow> string \<Rightarrow> journal ledger_op" where
  "reverse_request now request_id = bindE (require_res request_id) (\<lambda>rec.
     bindE (require (r_status rec = R_consumed) (ledger_err Already_terminal)) (\<lambda>_.
     bindE (gets (settled_entries request_id)) (\<lambda>settled.
     bindE (require (settled \<noteq> []) (ledger_err Not_found)) (\<lambda>_.
     bindE new_id (\<lambda>jid.
     bindE (for_each (reverse_entry now jid request_id) settled) (\<lambda>_.
     bindE (save_reservation (rec\<lparr>r_status := R_released, r_remaining := 0, r_journal_id := jid\<rparr>)) (\<lambda>_.
     ret \<lparr>j_journal_id = jid, j_request_id = request_id, j_entry_ids = []\<rparr>)))))))"

subsection \<open>Runs of the ledger\<close>

datatype ledger_call =
    Seed_quota instant string string string int int int string string
  | Reserve instant string string string string string int string
  | Settle instant string int int int string string string
  | Release instant string
  | Mark_unresolved string string
  | Apply_delta instant string int int int string string string
  | Reverse_request instant string
  | Mutate_entry uuid
  | Delete_entry uuid

definition discard :: "('s, 'e, 'a) op \<Rightarrow> ('s, 'e, unit) op" where
  "discard m = bindE m (\<lambda>_. ret ())"

fun ledger_do :: "ledger_call \<Rightarrow> unit ledger_op" where
  "ledger_do (Seed_quota now a p k ga gp gk r rv) = seed_quota now a p k ga gp gk r rv"
| "ledger_do (Reserve now r i a p k m rv) = discard (reserve now r i a p k m rv)"
| "ledger_do (Settle now r b e sp sel rv dg) = discard (settle now r b e sp sel rv dg)"
| "ledger_do (Release now r) = discard (release now r)"
| "ledger_do (Mark_unresolved r reason) = discard (mark_unresolved r reason)"
| "ledger_do (Apply_delta now r b e sp sel rv dg) = discard (apply_delta now r b e sp sel rv dg)"
| "ledger_do (Reverse_request now r) = discard (reverse_request now r)"
| "ledger_do (Mutate_entry i) = mutate_entry i"
| "ledger_do (Delete_entry i) = delete_entry i"

inductive ledger_step :: "ledger \<Rightarrow> ledger_call \<Rightarrow> ledger \<Rightarrow> bool" where
  step: "ledger_do c s = (r, t) \<Longrightarrow> ledger_step s c t"

inductive ledger_reach :: "ledger \<Rightarrow> bool" where
  init: "ledger_reach new_ledger"
| later: "ledger_reach s \<Longrightarrow> ledger_step s c t \<Longrightarrow> ledger_reach t"

inductive_simps ledger_step_iff: "ledger_step s c t"

end
