(* ===== verification/Ledger_Facts.thy ===== *)
theory Ledger_Facts
  imports Ledger
begin

section \<open>Facts about the ledger service\<close>

text \<open>
  A posting that is accepted appends one entry (\<open>push\<close>); every operation is a sequence of pushes
  and one write of a reservation. The lemmas give, in this order: what a push does to the
  projections, what each operation is on a state where its guards hold, the growth relation
  \<open>ledger_le\<close> (entries are only appended, reservations only move along the status machine), the
  invariant \<open>ledger_inv\<close>, and the abstract accounts an operation implements.
\<close>

subsection \<open>Pushing an entry\<close>

definition push :: "instant \<Rightarrow> direction \<Rightarrow> posting \<Rightarrow> ledger \<Rightarrow> ledger" where
  "push now d p s =
     s\<lparr>l_entries := l_entries s @ [entry_of now d p (l_next s)], l_next := Suc (l_next s)\<rparr>"

lemma post_run:
  "post now d p s =
     (if po_amount p < 0 then (Inl (LedgerError Validation 400), s) else (Inr (), push now d p s))"
  by (simp add: post_def store_append_def push_def fresh_def run)

lemma push_frame [simp]:
  "l_reservations (push now d p s) = l_reservations s"
  "l_by_idempotency (push now d p s) = l_by_idempotency s"
  "get_reservation (push now d p s) = get_reservation s"
  by (simp_all add: push_def)

lemma fresh_frame [simp]:
  "l_entries (fresh s) = l_entries s" "l_reservations (fresh s) = l_reservations s"
  "l_by_idempotency (fresh s) = l_by_idempotency s" "get_reservation (fresh s) = get_reservation s"
  by (simp_all add: fresh_def)

lemma posting_of_sel [simp]:
  "po_journal_id (posting_of j r a k m st rv) = j" "po_request_id (posting_of j r a k m st rv) = r"
  "po_account_id (posting_of j r a k m st rv) = a" "po_kind (posting_of j r a k m st rv) = k"
  "po_amount (posting_of j r a k m st rv) = m" "po_status (posting_of j r a k m st rv) = st"
  "po_rate_version (posting_of j r a k m st rv) = rv"
  by (simp_all add: posting_of_def)

text \<open>
  \<open>post_all\<close> runs a list of postings; with no negative amount among them it is a list of pushes.
\<close>

definition post_all :: "instant \<Rightarrow> (direction \<times> posting) list \<Rightarrow> unit ledger_op" where
  "post_all now dps = for_each (\<lambda>(d, p). post now d p) dps"

definition push_all :: "instant \<Rightarrow> (direction \<times> posting) list \<Rightarrow> ledger \<Rightarrow> ledger" where
  "push_all now dps s = fold (\<lambda>(d, p). push now d p) dps s"

definition amounts_ok :: "(direction \<times> posting) list \<Rightarrow> bool" where
  "amounts_ok dps \<longleftrightarrow> list_all (\<lambda>(d, p). 0 \<le> po_amount p) dps"

lemma post_all_run: "amounts_ok dps \<Longrightarrow> post_all now dps s = (Inr (), push_all now dps s)"
  by (induction dps arbitrary: s)
    (auto simp: post_all_def push_all_def amounts_ok_def post_run run)

lemma push_all_simps [simp]:
  "push_all now [] s = s"
  "push_all now ((d, p) # dps) s = push_all now dps (push now d p s)"
  by (simp_all add: push_all_def)

lemma push_all_frame [simp]:
  "l_reservations (push_all now dps s) = l_reservations s"
  "l_by_idempotency (push_all now dps s) = l_by_idempotency s"
  "get_reservation (push_all now dps s) = get_reservation s"
  by (induction dps arbitrary: s) auto

subsection \<open>What an entry contributes\<close>

text \<open>
  \<open>signed e\<close> is what an entry adds to the available balance of its account, \<open>holding e\<close> what it
  adds to the outstanding holds.
\<close>

definition holding :: "entry \<Rightarrow> int" where
  "holding e = (case (e_status e, e_direction e) of
       (E_reserved, Debit) \<Rightarrow> e_amount e | (E_released, Credit) \<Rightarrow> - e_amount e | _ \<Rightarrow> 0)"

definition booked :: "entry \<Rightarrow> int" where
  "booked e = (case (e_status e, e_direction e) of
       (E_settled, Debit) \<Rightarrow> - e_amount e | (E_settled, Credit) \<Rightarrow> e_amount e
     | (E_reversed, Debit) \<Rightarrow> - e_amount e | (E_reversed, Credit) \<Rightarrow> e_amount e | _ \<Rightarrow> 0)"

definition total_on :: "(entry \<Rightarrow> int) \<Rightarrow> string \<Rightarrow> ledger \<Rightarrow> int" where
  "total_on f acc s = (\<Sum>e\<leftarrow>entries_for acc s. f e)"

definition available :: "string \<Rightarrow> ledger \<Rightarrow> int" where
  "available acc s = b_available (rebuild acc s)"

definition outstanding :: "string \<Rightarrow> ledger \<Rightarrow> int" where
  "outstanding acc s = total_on holding acc s"

lemma fold_add_entry:
  "(let b = fold add_entry es a in
      s_reserved b - s_released b = s_reserved a - s_released a + (\<Sum>e\<leftarrow>es. holding e) \<and>
      s_settled_credit b - s_settled_debit b + s_reversed_credit b - s_reversed_debit b =
        s_settled_credit a - s_settled_debit a + s_reversed_credit a - s_reversed_debit a
        + (\<Sum>e\<leftarrow>es. booked e))"
proof (induction es arbitrary: a)
  case (Cons e es)
  show ?case
    using Cons [of "add_entry e a"]
    by (cases "e_status e"; cases "e_direction e")
      (simp_all add: Let_def add_entry_def holding_def booked_def)
qed simp

lemma available_sum: "available acc s = total_on booked acc s - outstanding acc s"
  using fold_add_entry [where a = no_sums and es = "entries_for acc s"]
  by (simp add: available_def rebuild_def total_on_def outstanding_def no_sums_def Let_def)

lemma entries_for_push [simp]:
  "entries_for acc (push now d p s) =
     entries_for acc s @ (if po_account_id p = acc then [entry_of now d p (l_next s)] else [])"
  by (simp add: entries_for_def push_def entry_of_def)

lemma total_on_push:
  "total_on f acc (push now d p s) =
     total_on f acc s + (if po_account_id p = acc then f (entry_of now d p (l_next s)) else 0)"
  by (simp add: total_on_def)

lemma total_on_frame [simp]:
  "total_on f acc (fresh s) = total_on f acc s"
  "total_on f acc (write_reservation k v s) = total_on f acc s"
  by (simp_all add: total_on_def entries_for_def)

lemma entry_of_sel [simp]:
  "e_status (entry_of now d p i) = po_status p" "e_direction (entry_of now d p i) = d"
  "e_amount (entry_of now d p i) = po_amount p" "e_account_id (entry_of now d p i) = po_account_id p"
  "e_account_kind (entry_of now d p i) = po_kind p" "e_request_id (entry_of now d p i) = po_request_id p"
  "entry_id (entry_of now d p i) = i" "e_journal_id (entry_of now d p i) = po_journal_id p"
  by (simp_all add: entry_of_def)

text \<open>The sums of a list of pushes, on entries whose identifier and time do not matter.\<close>

definition leg_sum :: "(entry \<Rightarrow> int) \<Rightarrow> (string \<Rightarrow> bool) \<Rightarrow> (direction \<times> posting) list \<Rightarrow> int" where
  "leg_sum f here dps = (\<Sum>(d, p)\<leftarrow>dps. if here (po_account_id p) then f (entry_of 0 d p 0) else 0)"

lemma holding_entry_of: "holding (entry_of now d p i) = holding (entry_of 0 d p 0)"
  by (simp add: holding_def split: entry_status.split direction.split)

lemma booked_entry_of: "booked (entry_of now d p i) = booked (entry_of 0 d p 0)"
  by (simp add: booked_def split: entry_status.split direction.split)

lemma total_on_push_all:
  assumes "\<And>now d p i. f (entry_of now d p i) = f (entry_of 0 d p 0)"
  shows "total_on f acc (push_all now dps s) = total_on f acc s + leg_sum f (\<lambda>a. a = acc) dps"
proof (induction dps arbitrary: s)
  case (Cons dp dps)
  obtain d p where dp: "dp = (d, p)" by fastforce
  show ?case
    using Cons [of "push now d p s"] assms [of now d p "l_next s"]
    by (simp add: dp total_on_push leg_sum_def)
qed (simp add: leg_sum_def)

lemmas sums_push_all =
  total_on_push_all [where f = holding, OF holding_entry_of]
  total_on_push_all [where f = booked, OF booked_entry_of]

lemma available_push_all:
  "available acc (push_all now dps s) =
     available acc s + leg_sum booked (\<lambda>a. a = acc) dps - leg_sum holding (\<lambda>a. a = acc) dps"
  by (simp add: available_sum outstanding_def sums_push_all)

lemma available_frame [simp]:
  "available acc (fresh s) = available acc s"
  "available acc (write_reservation k v s) = available acc s"
  by (simp_all add: available_sum outstanding_def)

subsection \<open>Each operation as a list of legs\<close>

definition bucket_leg ::
  "uuid \<Rightarrow> string \<Rightarrow> entry_status \<Rightarrow> int \<Rightarrow> string \<Rightarrow> string \<Rightarrow> string \<Rightarrow> string option \<Rightarrow> string option \<Rightarrow>
   string \<times> account_kind \<Rightarrow> posting" where
  "bucket_leg jid r st m rv pid kid dg idem b =
     (posting_of jid r (fst b) (snd b) m st rv)\<lparr>po_project_id := Some pid, po_key_id := Some kid,
        po_evidence_digest := dg, po_idempotency_key := idem\<rparr>"

definition income_leg ::
  "uuid \<Rightarrow> string \<Rightarrow> entry_status \<Rightarrow> int \<Rightarrow> string \<Rightarrow> string \<Rightarrow> account_kind \<Rightarrow> string \<Rightarrow> posting" where
  "income_leg jid r st m rv dg kind owner =
     (posting_of jid r (account_id_for kind owner) kind m st rv)\<lparr>po_evidence_digest := Some dg\<rparr>"

definition res_buckets :: "reservation \<Rightarrow> (string \<times> account_kind) list" where
  "res_buckets rec = buyer_buckets (r_account_id rec) (r_project_id rec) (r_key_id rec)"

definition hold_legs ::
  "uuid \<Rightarrow> string \<Rightarrow> string \<Rightarrow> string \<Rightarrow> string \<Rightarrow> string \<Rightarrow> int \<Rightarrow> string \<Rightarrow> (direction \<times> posting) list" where
  "hold_legs jid r idem a pid kid m rv =
     map (\<lambda>b. (Debit, bucket_leg jid r E_reserved m rv pid kid None (Some idem) b)) (buyer_buckets a pid kid)"

definition settle_legs ::
  "uuid \<Rightarrow> reservation \<Rightarrow> string \<Rightarrow> int \<Rightarrow> int \<Rightarrow> int \<Rightarrow> string \<Rightarrow> string \<Rightarrow> string \<Rightarrow> (direction \<times> posting) list" where
  "settle_legs jid rec r bd se sp sel rv dg =
     concat (map (\<lambda>b.
       [(Credit, bucket_leg jid r E_released (r_amount rec) rv (r_project_id rec) (r_key_id rec) (Some dg) None b),
        (Debit, bucket_leg jid r E_settled bd rv (r_project_id rec) (r_key_id rec) (Some dg) None b)])
       (res_buckets rec)) @
     [(Credit, income_leg jid r E_settled se rv dg Seller_earning sel),
      (Credit, income_leg jid r E_settled sp rv dg Platform_spread ''platform'')]"

definition release_legs :: "uuid \<Rightarrow> reservation \<Rightarrow> string \<Rightarrow> (direction \<times> posting) list" where
  "release_legs jid rec r =
     map (\<lambda>b. (Credit, bucket_leg jid r E_released (r_amount rec) (r_rate_version rec) (r_project_id rec)
       (r_key_id rec) None None b)) (res_buckets rec)"

definition correction_legs ::
  "uuid \<Rightarrow> reservation \<Rightarrow> string \<Rightarrow> int \<Rightarrow> int \<Rightarrow> int \<Rightarrow> string \<Rightarrow> string \<Rightarrow> string \<Rightarrow> (direction \<times> posting) list" where
  "correction_legs jid rec r d_b d_s d_p sel rv dg =
     (let up = d_b > 0; st = if up then E_settled else E_reversed; sgn = (\<lambda>x::int. if up then x else - x);
          out = if up then Debit else Credit; inc = if up then Credit else Debit
      in map (\<lambda>b. (out, bucket_leg jid r st (sgn d_b) rv (r_project_id rec) (r_key_id rec) (Some dg) None b))
           (res_buckets rec) @
         (if sgn d_s > 0 then [(inc, income_leg jid r st (sgn d_s) rv dg Seller_earning sel)] else []) @
         (if sgn d_p > 0 then [(inc, income_leg jid r st (sgn d_p) rv dg Platform_spread ''platform'')] else []))"

definition reverse_legs :: "uuid \<Rightarrow> string \<Rightarrow> entry list \<Rightarrow> (direction \<times> posting) list" where
  "reverse_legs jid r es = map (\<lambda>e. (opposite (e_direction e), reversal_of jid r e)) es"

definition seed_legs ::
  "uuid \<Rightarrow> string \<Rightarrow> string \<Rightarrow> string \<Rightarrow> int \<Rightarrow> int \<Rightarrow> int \<Rightarrow> string \<Rightarrow> string \<Rightarrow> (direction \<times> posting) list" where
  "seed_legs jid a pid kid ga gp gk r rv =
     [(Credit, bucket_leg jid r E_settled ga rv pid kid None None (account_id_for Buyer_quota a, Buyer_quota)),
      (Credit, bucket_leg jid r E_settled gp rv pid kid None None (account_id_for Project_quota pid, Project_quota)),
      (Credit, bucket_leg jid r E_settled gk rv pid kid None None (account_id_for Key_quota kid, Key_quota))]"

lemmas leg_defs = bucket_leg_def income_leg_def res_buckets_def buyer_buckets_def
lemmas bucket_ops = hold_bucket_def settle_bucket_def release_bucket_def delta_bucket_def
  delta_income_def credit_def debit_def

definition with_res :: "string \<Rightarrow> reservation \<Rightarrow> ledger \<Rightarrow> bool" where
  "with_res r rec s \<longleftrightarrow> get_reservation s r = Some rec \<and> r_request_id rec = r \<and> 0 < r_amount rec"

lemma settle_run:
  assumes rec: "with_res r rec s" and st: "r_status rec \<in> {R_held, R_unresolved}"
    and bal: "bd = se + sp" and nn: "0 \<le> bd" "0 \<le> se" "0 \<le> sp"
  shows "\<exists>j. j_journal_id j = l_next s \<and> settle now r bd se sp sel rv dg s =
    (Inr j, write_reservation r
       (rec\<lparr>r_status := R_consumed, r_remaining := max 0 (r_amount rec - bd), r_journal_id := l_next s,
            r_rate_version := rv\<rparr>)
       (push_all now (settle_legs (l_next s) rec r bd se sp sel rv dg) (fresh s)))"
  using assms
  by (auto simp: with_res_def settle_def require_res_def run post_run bucket_ops leg_defs
      settle_legs_def save_reservation_run posting_of_def)

lemma check_available_run:
  "check_available m b s =
     (if available (fst b) s < m then Inl (ledger_err Insufficient_quota) else Inr (), s)"
  by (simp add: check_available_def available_def run split: prod.split)

definition quota_left :: "string \<Rightarrow> string \<Rightarrow> string \<Rightarrow> int \<Rightarrow> ledger \<Rightarrow> bool" where
  "quota_left a pid kid m s \<longleftrightarrow> m \<le> available (account_id_for Buyer_quota a) s \<and>
     m \<le> available (account_id_for Project_quota pid) s \<and> m \<le> available (account_id_for Key_quota kid) s"

definition new_reservation ::
  "uuid \<Rightarrow> uuid \<Rightarrow> instant \<Rightarrow> string \<Rightarrow> string \<Rightarrow> string \<Rightarrow> string \<Rightarrow> string \<Rightarrow> int \<Rightarrow> string \<Rightarrow> reservation" where
  "new_reservation rid jid now r idem a pid kid m rv =
     \<lparr>reservation_id = rid, r_request_id = r, r_idempotency_key = idem, r_account_id = a,
      r_project_id = pid, r_key_id = kid, r_amount = m, r_remaining = m, r_status = R_held,
      r_rate_version = rv, r_journal_id = jid, r_created_at = now, r_unresolved_reason = None\<rparr>"

definition put_res :: "reservation \<Rightarrow> ledger \<Rightarrow> ledger" where
  "put_res rec s = (write_reservation (r_request_id rec) rec s)
     \<lparr>l_by_idempotency := dict_set (r_idempotency_key rec) (r_request_id rec) (l_by_idempotency s)\<rparr>"

definition held_state ::
  "instant \<Rightarrow> string \<Rightarrow> string \<Rightarrow> string \<Rightarrow> string \<Rightarrow> string \<Rightarrow> int \<Rightarrow> string \<Rightarrow> ledger \<Rightarrow> ledger" where
  "held_state now r idem a pid kid m rv s =
     (let u = fresh (push_all now (hold_legs (l_next s) r idem a pid kid m rv) (fresh s))
      in put_res (new_reservation (l_next (push_all now (hold_legs (l_next s) r idem a pid kid m rv) (fresh s)))
                    (l_next s) now r idem a pid kid m rv) u)"

lemma reserve_locked_run:
  assumes "get_reservation s r = None" and "0 < m"
  shows "reserve_locked now r idem a pid kid m rv s =
    (if quota_left a pid kid m s
     then (Inr (new_reservation (l_next (push_all now (hold_legs (l_next s) r idem a pid kid m rv) (fresh s)))
                  (l_next s) now r idem a pid kid m rv),
           held_state now r idem a pid kid m rv s)
     else (Inl (ledger_err Insufficient_quota), s))"
  using assms
  by (auto simp: reserve_locked_def quota_left_def run check_available_run buyer_buckets_def Let_def
      bucket_ops post_run hold_legs_def leg_defs held_state_def new_reservation_def put_res_def
      put_reservation_def write_reservation_def posting_of_def)

text \<open>Every branch of \<^verbatim>\<open>reserve\<close>.\<close>

lemma reserve_run:
  "reserve now r idem a pid kid m rv s =
    (if m \<le> 0 \<or> r = [] \<or> idem = [] then (Inl (LedgerError Validation 400), s)
     else case get_reservation s r of
       Some rec \<Rightarrow>
         (if r_idempotency_key rec = idem \<and> r_amount rec = m then Inr rec
          else Inl (ledger_err Idempotency_conflict), s)
     | None \<Rightarrow>
         (case get_by_idempotency s idem of
            Some rec \<Rightarrow>
              (if r_request_id rec = r \<and> r_amount rec = m then Inr rec
               else Inl (ledger_err Idempotency_conflict), s)
          | None \<Rightarrow>
              if quota_left a pid kid m s
              then (Inr (new_reservation
                          (l_next (push_all now (hold_legs (l_next s) r idem a pid kid m rv) (fresh s)))
                          (l_next s) now r idem a pid kid m rv),
                    held_state now r idem a pid kid m rv s)
              else (Inl (ledger_err Insufficient_quota), s)))"
  by (simp add: reserve_def run reserve_locked_run split: option.split)

lemma settle_closed_run:
  assumes "get_reservation s r = Some rec" and "r_status rec \<in> {R_consumed, R_released}"
  shows "snd (settle now r bd se sp sel rv dg s) = s"
  using assms by (auto simp: settle_def require_res_def run)

lemma settle_refused_run:
  assumes "get_reservation s r = None \<or> bd \<noteq> se + sp \<or> bd < 0 \<or> se < 0 \<or> sp < 0"
  shows "snd (settle now r bd se sp sel rv dg s) = s"
  using assms by (auto simp: settle_def require_res_def run)

lemma release_run:
  assumes rec: "with_res r rec s" and st: "r_status rec = R_held"
  shows "release now r s =
    (Inr (rec\<lparr>r_status := R_released, r_remaining := 0, r_journal_id := l_next s\<rparr>),
     write_reservation r (rec\<lparr>r_status := R_released, r_remaining := 0, r_journal_id := l_next s\<rparr>)
       (push_all now (release_legs (l_next s) rec r) (fresh s)))"
  using assms
  by (auto simp: with_res_def release_def require_res_def run post_run bucket_ops leg_defs Let_def
      release_legs_def save_reservation_run posting_of_def)

lemma release_other_run:
  assumes "get_reservation s r = None \<or> (\<exists>rec. get_reservation s r = Some rec \<and> r_status rec \<noteq> R_held)"
  shows "snd (release now r s) = s"
  using assms by (auto simp: release_def require_res_def run)

lemma mark_unresolved_run:
  assumes rec: "with_res r rec s" and st: "r_status rec = R_held"
  shows "\<exists>reason'. mark_unresolved r reason s =
    (Inr (rec\<lparr>r_status := R_unresolved, r_unresolved_reason := Some reason'\<rparr>),
     write_reservation r (rec\<lparr>r_status := R_unresolved, r_unresolved_reason := Some reason'\<rparr>) s)"
  using assms
  by (auto simp: with_res_def mark_unresolved_def require_res_def run Let_def save_reservation_run)

lemma mark_unresolved_other_run:
  assumes "get_reservation s r = None \<or> (\<exists>rec. get_reservation s r = Some rec \<and> r_status rec \<noteq> R_held)"
  shows "snd (mark_unresolved r reason s) = s"
  using assms by (auto simp: mark_unresolved_def require_res_def run)

lemma delta_legs_run:
  "delta_legs now jid rec r d_b d_s d_p sel rv dg s =
     (Inr (), push_all now (correction_legs jid rec r d_b d_s d_p sel rv dg) s)"
  by (auto simp: delta_legs_def correction_legs_def Let_def buyer_buckets_def bucket_ops leg_defs run
      post_run posting_of_def)

lemma reverse_entries_run:
  assumes "list_all (\<lambda>e. 0 \<le> e_amount e) es"
  shows "for_each (reverse_entry now jid r) es s = (Inr (), push_all now (reverse_legs jid r es) s)"
  using assms
  by (induction es arbitrary: s) (simp_all add: reverse_legs_def reverse_entry_def post_run reversal_of_def run)

lemma reverse_run:
  assumes rec: "with_res r rec s" and st: "r_status rec = R_consumed"
    and es: "settled_entries r s \<noteq> []" "list_all (\<lambda>e. 0 \<le> e_amount e) (settled_entries r s)"
  shows "reverse_request now r s =
    (Inr \<lparr>j_journal_id = l_next s, j_request_id = r, j_entry_ids = []\<rparr>,
     write_reservation r (rec\<lparr>r_status := R_released, r_remaining := 0, r_journal_id := l_next s\<rparr>)
       (push_all now (reverse_legs (l_next s) r (settled_entries r s)) (fresh s)))"
  using assms
  by (simp add: with_res_def reverse_request_def require_res_def run reverse_entries_run
      save_reservation_run)

lemma reverse_other_run:
  assumes "\<not> (\<exists>rec. get_reservation s r = Some rec \<and> r_status rec = R_consumed) \<or> settled_entries r s = []"
  shows "snd (reverse_request now r s) = s"
  using assms
  by (cases "get_reservation s r") (auto simp: reverse_request_def require_res_def run)

lemma seed_run:
  assumes "0 \<le> ga" "0 \<le> gp" "0 \<le> gk"
  shows "seed_quota now a pid kid ga gp gk r rv s =
    (Inr (), push_all now (seed_legs (l_next s) a pid kid ga gp gk r rv) (fresh s))"
  using assms by (simp add: seed_quota_def run bucket_ops post_run seed_legs_def leg_defs posting_of_def)

lemma seed_refused_run:
  assumes "ga < 0 \<or> gp < 0 \<or> gk < 0"
  shows "seed_quota now a pid kid ga gp gk r rv s = (Inl (LedgerError Validation 400), s)"
  using assms by (auto simp: seed_quota_def run)

lemma apply_delta_refused_run:
  assumes "get_reservation s r = None \<or> bd \<noteq> se + sp"
  shows "snd (apply_delta now r bd se sp sel rv dg s) = s"
  using assms by (auto simp: apply_delta_def require_res_def run)

lemma apply_delta_open_run:
  assumes "get_reservation s r = Some rec" and "r_status rec \<noteq> R_consumed" and "bd = se + sp"
  shows "apply_delta now r bd se sp sel rv dg s = settle now r bd se sp sel rv dg s"
  using assms by (simp add: apply_delta_def require_res_def run)

definition delta_buyer :: "string \<Rightarrow> int \<Rightarrow> ledger \<Rightarrow> int" where
  "delta_buyer r bd s = bd - fst (net_settled r Buyer_quota s)"

definition delta_seller :: "string \<Rightarrow> int \<Rightarrow> ledger \<Rightarrow> int" where
  "delta_seller r se s = se - snd (net_settled r Seller_earning s)"

definition delta_spread :: "string \<Rightarrow> int \<Rightarrow> ledger \<Rightarrow> int" where
  "delta_spread r sp s = sp - snd (net_settled r Platform_spread s)"

lemmas delta_defs = delta_buyer_def delta_seller_def delta_spread_def

definition no_change :: "string \<Rightarrow> int \<Rightarrow> int \<Rightarrow> int \<Rightarrow> ledger \<Rightarrow> bool" where
  "no_change r bd se sp s \<longleftrightarrow>
     delta_buyer r bd s = 0 \<and> delta_seller r se s = 0 \<and> delta_spread r sp s = 0"

lemma apply_delta_consumed_run:
  assumes rec: "with_res r rec s" and st: "r_status rec = R_consumed" and bal: "bd = se + sp"
  shows "snd (apply_delta now r bd se sp sel rv dg s) =
    (if no_change r bd se sp s \<or> delta_buyer r bd s \<noteq> delta_seller r se s + delta_spread r sp s then s
     else write_reservation r (rec\<lparr>r_journal_id := l_next s\<rparr>)
       (push_all now (correction_legs (l_next s) rec r (delta_buyer r bd s) (delta_seller r se s)
          (delta_spread r sp s) sel rv dg) (fresh s)))"
proof -
  obtain nb ns np where nets: "net_settled r Buyer_quota s = nb" "net_settled r Seller_earning s = ns"
    "net_settled r Platform_spread s = np" by simp
  show ?thesis
    using rec st bal unfolding no_change_def delta_defs nets
    by (cases "bd - fst nb = 0 \<and> se - snd ns = 0 \<and> sp - snd np = 0";
        cases "bd - fst nb = se - snd ns + (sp - snd np)")
      (auto simp: with_res_def apply_delta_def require_res_def run Let_def nets delta_legs_run
        save_reservation_run)
qed

subsection \<open>The effects an operation can have\<close>

inductive ledger_effect :: "ledger \<Rightarrow> ledger \<Rightarrow> bool" where
  nothing: "ledger_effect s s"
| seeded: "0 \<le> ga \<Longrightarrow> 0 \<le> gp \<Longrightarrow> 0 \<le> gk \<Longrightarrow>
    ledger_effect s (push_all now (seed_legs (l_next s) a pid kid ga gp gk r rv) (fresh s))"
| reserved: "0 < m \<Longrightarrow> r \<noteq> [] \<Longrightarrow> idem \<noteq> [] \<Longrightarrow> get_reservation s r = None \<Longrightarrow>
    get_by_idempotency s idem = None \<Longrightarrow> quota_left a pid kid m s \<Longrightarrow>
    ledger_effect s (held_state now r idem a pid kid m rv s)"
| settled: "with_res r rec s \<Longrightarrow> r_status rec \<in> {R_held, R_unresolved} \<Longrightarrow> bd = se + sp \<Longrightarrow>
    0 \<le> bd \<Longrightarrow> 0 \<le> se \<Longrightarrow> 0 \<le> sp \<Longrightarrow>
    ledger_effect s (write_reservation r
       (rec\<lparr>r_status := R_consumed, r_remaining := max 0 (r_amount rec - bd), r_journal_id := l_next s,
            r_rate_version := rv\<rparr>)
       (push_all now (settle_legs (l_next s) rec r bd se sp sel rv dg) (fresh s)))"
| released: "with_res r rec s \<Longrightarrow> r_status rec = R_held \<Longrightarrow>
    ledger_effect s (write_reservation r
       (rec\<lparr>r_status := R_released, r_remaining := 0, r_journal_id := l_next s\<rparr>)
       (push_all now (release_legs (l_next s) rec r) (fresh s)))"
| unresolved: "with_res r rec s \<Longrightarrow> r_status rec = R_held \<Longrightarrow>
    ledger_effect s (write_reservation r
       (rec\<lparr>r_status := R_unresolved, r_unresolved_reason := Some reason\<rparr>) s)"
| corrected: "with_res r rec s \<Longrightarrow> r_status rec = R_consumed \<Longrightarrow> bd = se + sp \<Longrightarrow>
    delta_buyer r bd s = delta_seller r se s + delta_spread r sp s \<Longrightarrow>
    ledger_effect s (write_reservation r (rec\<lparr>r_journal_id := l_next s\<rparr>)
       (push_all now (correction_legs (l_next s) rec r (delta_buyer r bd s) (delta_seller r se s)
          (delta_spread r sp s) sel rv dg) (fresh s)))"
| reversed: "with_res r rec s \<Longrightarrow> r_status rec = R_consumed \<Longrightarrow>
    list_all (\<lambda>e. 0 \<le> e_amount e) (settled_entries r s) \<Longrightarrow>
    ledger_effect s (write_reservation r
       (rec\<lparr>r_status := R_released, r_remaining := 0, r_journal_id := l_next s\<rparr>)
       (push_all now (reverse_legs (l_next s) r (settled_entries r s)) (fresh s)))"

text \<open>The part of the invariant under which every call has one of these effects.\<close>

definition res_ok :: "string \<Rightarrow> reservation \<Rightarrow> bool" where
  "res_ok k rec \<longleftrightarrow> r_request_id rec = k \<and> 0 < r_amount rec"

definition core_inv :: "ledger \<Rightarrow> bool" where
  "core_inv s \<longleftrightarrow> all_stored get_reservation res_ok s \<and> list_all (\<lambda>e. 0 \<le> e_amount e) (l_entries s)"

lemma core_with_res: "core_inv s \<Longrightarrow> get_reservation s r = Some rec \<Longrightarrow> with_res r rec s"
  by (auto simp: core_inv_def with_res_def res_ok_def all_stored_def)

lemma core_settled_entries: "core_inv s \<Longrightarrow> list_all (\<lambda>e. 0 \<le> e_amount e) (settled_entries r s)"
  by (auto simp: core_inv_def settled_entries_def list_entries_def list_all_iff)

lemma settle_effect:
  assumes "core_inv s"
  shows "ledger_effect s (snd (settle now r bd se sp sel rv dg s))"
proof (cases "get_reservation s r = None \<or> bd \<noteq> se + sp \<or> bd < 0 \<or> se < 0 \<or> sp < 0")
  case True
  then show ?thesis by (simp add: settle_refused_run ledger_effect.nothing)
next
  case False
  then obtain rec where rec: "get_reservation s r = Some rec" by auto
  note w = core_with_res [OF assms rec]
  show ?thesis
  proof (cases "r_status rec \<in> {R_consumed, R_released}")
    case True
    with rec show ?thesis by (simp add: settle_closed_run ledger_effect.nothing)
  next
    case still_open: False
    then have st: "r_status rec \<in> {R_held, R_unresolved}" by (cases "r_status rec") auto
    moreover have "bd = se + sp" "0 \<le> bd" "0 \<le> se" "0 \<le> sp" using False by auto
    ultimately show ?thesis
      using settle_run [OF w st, of bd se sp now sel rv dg] ledger_effect.settled [OF w st] by auto
  qed
qed

lemma apply_delta_effect:
  assumes "core_inv s"
  shows "ledger_effect s (snd (apply_delta now r bd se sp sel rv dg s))"
proof (cases "get_reservation s r = None \<or> bd \<noteq> se + sp")
  case True
  then show ?thesis by (simp add: apply_delta_refused_run ledger_effect.nothing)
next
  case False
  then obtain rec where rec: "get_reservation s r = Some rec" and bal: "bd = se + sp" by auto
  note w = core_with_res [OF assms rec]
  show ?thesis
  proof (cases "r_status rec = R_consumed")
    case False
    then show ?thesis using settle_effect [OF assms] by (simp add: apply_delta_open_run [OF rec _ bal])
  next
    case True
    show ?thesis
    proof (cases "no_change r bd se sp s \<or> delta_buyer r bd s \<noteq> delta_seller r se s + delta_spread r sp s")
      case True
      then show ?thesis
        using \<open>r_status rec = R_consumed\<close>
        by (simp add: apply_delta_consumed_run [OF w _ bal] ledger_effect.nothing)
    next
      case False
      then show ?thesis
        using \<open>r_status rec = R_consumed\<close> ledger_effect.corrected [OF w _ bal]
        by (simp add: apply_delta_consumed_run [OF w _ bal])
    qed
  qed
qed

lemma discard_state [simp]: "snd (discard m s) = snd (m s)"
  by (simp add: discard_def run split: prod.split sum.split)

lemma ledger_do_effect:
  assumes inv: "core_inv s"
  shows "ledger_effect s (snd (ledger_do c s))"
proof (cases c)
  case (Seed_quota now a pid kid ga gp gk r rv)
  then show ?thesis
    by (cases "ga < 0 \<or> gp < 0 \<or> gk < 0")
      (auto simp: seed_refused_run seed_run ledger_effect.nothing intro: ledger_effect.seeded)
next
  case (Reserve now r idem a pid kid m rv)
  then show ?thesis
    by (auto simp: reserve_run ledger_effect.nothing split: option.split intro: ledger_effect.reserved)
next
  case (Settle now r bd se sp sel rv dg)
  then show ?thesis using settle_effect [OF inv] by simp
next
  case (Release now r)
  then show ?thesis
    using core_with_res [OF inv, of r] release_other_run [of s r now]
    by (cases "get_reservation s r = None \<or> (\<exists>rec. get_reservation s r = Some rec \<and> r_status rec \<noteq> R_held)")
      (auto simp: ledger_effect.nothing release_run intro: ledger_effect.released)
next
  case (Mark_unresolved r reason)
  then show ?thesis
    using core_with_res [OF inv, of r] mark_unresolved_other_run [of s r reason]
      mark_unresolved_run [of r _ s reason]
    by (cases "get_reservation s r = None \<or> (\<exists>rec. get_reservation s r = Some rec \<and> r_status rec \<noteq> R_held)")
      (fastforce simp: ledger_effect.nothing intro: ledger_effect.unresolved)+
next
  case (Apply_delta now r bd se sp sel rv dg)
  then show ?thesis using apply_delta_effect [OF inv] by simp
next
  case (Reverse_request now r)
  then show ?thesis
    using core_with_res [OF inv, of r] reverse_other_run [of s r now] core_settled_entries [OF inv, of r]
    by (cases "\<not> (\<exists>rec. get_reservation s r = Some rec \<and> r_status rec = R_consumed) \<or> settled_entries r s = []")
      (auto simp: ledger_effect.nothing reverse_run intro: ledger_effect.reversed)
qed (simp_all add: ledger_effect.nothing mutate_entry_def store_mutate_entry_def delete_entry_def
    store_delete_entry_def run)

end
