(* ===== verification/Ledger_Invariants.thy ===== *)
theory Ledger_Invariants
  imports Ledger_Facts
begin

section \<open>Invariants and contracts of the ledger\<close>

text \<open>
  Over the effects of \<^verbatim>\<open>LedgerService\<close> operations: the ledger only grows, reservations follow the
  status machine, the outstanding holds of an account are the amounts of its open reservations,
  failed calls change nothing, repeated calls change nothing, and the contracts of the single
  operations on the available balances.
\<close>

subsection \<open>The reservation status machine\<close>

fun res_edge :: "reservation_status \<Rightarrow> reservation_status \<Rightarrow> bool" where
  "res_edge R_held st \<longleftrightarrow> st \<noteq> R_held"
| "res_edge R_unresolved st \<longleftrightarrow> st = R_consumed"
| "res_edge R_consumed st \<longleftrightarrow> st = R_released"
| "res_edge R_released st \<longleftrightarrow> False"

fun res_rank :: "reservation_status \<Rightarrow> nat" where
  "res_rank R_held = 0"
| "res_rank R_unresolved = 1"
| "res_rank R_consumed = 2"
| "res_rank R_released = 3"

interpretation res_machine: status_machine res_edge "\<lambda>st. st = R_released" res_rank
proof unfold_locales
  show "a = R_released \<Longrightarrow> res_edge a b \<Longrightarrow> b = a" for a b by simp
  show "res_edge a b \<Longrightarrow> res_rank a \<le> res_rank b" for a b by (cases a; cases b) simp_all
qed

subsection \<open>Entries of a list of legs\<close>

fun legs_entries :: "instant \<Rightarrow> (direction \<times> posting) list \<Rightarrow> uuid \<Rightarrow> entry list" where
  "legs_entries now [] n = []"
| "legs_entries now ((d, p) # dps) n = entry_of now d p n # legs_entries now dps (Suc n)"

lemma push_all_entries:
  "l_entries (push_all now dps s) = l_entries s @ legs_entries now dps (l_next s) \<and>
   l_next (push_all now dps s) = l_next s + length dps"
proof (induction dps arbitrary: s)
  case (Cons dp dps)
  obtain d p where "dp = (d, p)" by fastforce
  then show ?case using Cons [of "push now d p s"] by (simp add: push_def)
qed simp

lemma legs_entries_ids: "map entry_id (legs_entries now dps n) = [n..<n + length dps]"
  by (induction now dps n rule: legs_entries.induct) (simp_all add: upt_conv_Cons del: upt_Suc)

lemma legs_entries_mem:
  assumes "e \<in> set (legs_entries now dps n)"
  obtains d p i where "(d, p) \<in> set dps" and "e = entry_of now d p i"
  using assms by (induction now dps n rule: legs_entries.induct) auto

lemma legs_entries_amounts:
  "amounts_ok dps \<Longrightarrow> list_all (\<lambda>e. 0 \<le> e_amount e) (legs_entries now dps n)"
  by (auto simp: amounts_ok_def list_all_iff elim!: legs_entries_mem)

subsection \<open>Legs have non-negative amounts\<close>

lemma amounts_ok_simps [simp]:
  "amounts_ok []" "amounts_ok ((d, p) # dps) \<longleftrightarrow> 0 \<le> po_amount p \<and> amounts_ok dps"
  "amounts_ok (xs @ ys) \<longleftrightarrow> amounts_ok xs \<and> amounts_ok ys"
  by (simp_all add: amounts_ok_def)

lemma leg_amount [simp]:
  "po_amount (bucket_leg jid r st m rv pid kid dg idem b) = m"
  "po_amount (income_leg jid r st m rv digest kind owner) = m"
  "po_amount (reversal_of jid r e) = e_amount e"
  by (simp_all add: bucket_leg_def income_leg_def reversal_of_def)

lemma amounts_ok_legs:
  "0 \<le> m \<Longrightarrow> amounts_ok (hold_legs jid r idem a pid kid m rv)"
  "0 \<le> r_amount rec \<Longrightarrow> 0 \<le> bd \<Longrightarrow> 0 \<le> se \<Longrightarrow> 0 \<le> sp \<Longrightarrow> amounts_ok (settle_legs jid rec r bd se sp sel rv dg)"
  "0 \<le> r_amount rec \<Longrightarrow> amounts_ok (release_legs jid rec r)"
  "amounts_ok (correction_legs jid rec r d_b d_s d_p sel rv dg)"
  "list_all (\<lambda>e. 0 \<le> e_amount e) es \<Longrightarrow> amounts_ok (reverse_legs jid r es)"
  "0 \<le> ga \<Longrightarrow> 0 \<le> gp \<Longrightarrow> 0 \<le> gk \<Longrightarrow> amounts_ok (seed_legs jid a pid kid ga gp gk r rv)"
  by (simp_all add: hold_legs_def settle_legs_def release_legs_def correction_legs_def reverse_legs_def
      seed_legs_def res_buckets_def buyer_buckets_def Let_def)
    (simp add: amounts_ok_def list_all_iff)

subsection \<open>The ledger only grows\<close>

definition res_le :: "reservation \<Rightarrow> reservation \<Rightarrow> bool" where
  "res_le v w \<longleftrightarrow> reservation_id w = reservation_id v \<and> r_request_id w = r_request_id v \<and>
     r_idempotency_key w = r_idempotency_key v \<and> r_account_id w = r_account_id v \<and>
     r_project_id w = r_project_id v \<and> r_key_id w = r_key_id v \<and> r_amount w = r_amount v \<and>
     r_created_at w = r_created_at v \<and> res_edge\<^sup>*\<^sup>* (r_status v) (r_status w)"

definition ledger_le :: "ledger \<Rightarrow> ledger \<Rightarrow> bool" where
  "ledger_le s t \<longleftrightarrow> (\<exists>new. l_entries t = l_entries s @ new) \<and> l_next s \<le> l_next t \<and>
     (\<forall>r v. get_reservation s r = Some v \<longrightarrow> (\<exists>w. get_reservation t r = Some w \<and> res_le v w))"

lemma res_le_refl [simp]: "res_le v v"
  by (simp add: res_le_def)

lemma res_edges [intro]:
  "res_edge\<^sup>*\<^sup>* R_held st" "res_edge\<^sup>*\<^sup>* R_unresolved R_consumed"
  "res_edge\<^sup>*\<^sup>* R_consumed R_released"
  by (cases st) (auto intro: r_into_rtranclp)

lemma res_le_trans: "res_le u v \<Longrightarrow> res_le v w \<Longrightarrow> res_le u w"
  by (auto simp: res_le_def intro: rtranclp_trans)

interpretation ledger_growth: evolution ledger_le
proof unfold_locales
  show "ledger_le s s" for s by (simp add: ledger_le_def)
  show "ledger_le s u" if st: "ledger_le s t" and tu: "ledger_le t u" for s t u
  proof -
    obtain xs ys where "l_entries u = l_entries s @ xs @ ys"
      using st tu unfolding ledger_le_def by (metis append_assoc)
    moreover have "l_next s \<le> l_next u" using st tu unfolding ledger_le_def by linarith
    moreover have "\<exists>w. get_reservation u r = Some w \<and> res_le v w" if "get_reservation s r = Some v" for r v
      using st tu that unfolding ledger_le_def by (meson res_le_trans)
    ultimately show ?thesis unfolding ledger_le_def by blast
  qed
qed

lemma ledger_le_push_all: "ledger_le s (push_all now dps (fresh s))"
  using push_all_entries [of now dps "fresh s"] by (auto simp: ledger_le_def fresh_def)

lemma ledger_le_write:
  assumes "ledger_le s t" and "get_reservation s r = Some v" and "res_le v w"
  shows "ledger_le s (write_reservation r w t)"
  using assms by (auto simp: ledger_le_def)

lemma ledger_le_held:
  assumes "get_reservation s r = None"
  shows "ledger_le s (held_state now r idem a pid kid m rv s)"
  using assms ledger_le_push_all [of s now "hold_legs (l_next s) r idem a pid kid m rv"]
  by (auto simp: held_state_def Let_def put_res_def new_reservation_def ledger_le_def fresh_def)

lemma with_res_get: "with_res r rec s \<Longrightarrow> get_reservation s r = Some rec"
  by (simp add: with_res_def)

lemma ledger_effect_le: "ledger_effect s t \<Longrightarrow> ledger_le s t"
proof (induction rule: ledger_effect.induct)
  case (reserved m r idem s a pid kid now rv)
  then show ?case by (simp add: ledger_le_held)
next
  case (unresolved r rec s reason)
  then show ?case
    by (auto intro!: ledger_le_write ledger_growth.refl simp: with_res_get res_le_def)
qed (auto intro!: ledger_le_write ledger_le_push_all ledger_growth.refl simp: with_res_get res_le_def)

subsection \<open>What the legs add up to\<close>

definition bucket_sum :: "(string \<Rightarrow> bool) \<Rightarrow> (string \<times> account_kind) list \<Rightarrow> int \<Rightarrow> int" where
  "bucket_sum here bs m = (\<Sum>b\<leftarrow>bs. if here (fst b) then m else 0)"

lemma leg_sum_simps [simp]:
  "leg_sum f here [] = 0"
  "leg_sum f here ((d, p) # dps) =
     (if here (po_account_id p) then f (entry_of 0 d p 0) else 0) + leg_sum f here dps"
  "leg_sum f here (xs @ ys) = leg_sum f here xs + leg_sum f here ys"
  by (simp_all add: leg_sum_def)

lemma leg_sel [simp]:
  "po_status (bucket_leg jid r st m rv pid kid dg idem b) = st"
  "po_account_id (bucket_leg jid r st m rv pid kid dg idem b) = fst b"
  "po_kind (bucket_leg jid r st m rv pid kid dg idem b) = snd b"
  "po_request_id (bucket_leg jid r st m rv pid kid dg idem b) = r"
  "po_status (income_leg jid r st m rv digest kind owner) = st"
  "po_account_id (income_leg jid r st m rv digest kind owner) = account_id_for kind owner"
  "po_kind (income_leg jid r st m rv digest kind owner) = kind"
  "po_request_id (income_leg jid r st m rv digest kind owner) = r"
  "po_status (reversal_of jid r e) = E_reversed"
  "po_account_id (reversal_of jid r e) = e_account_id e"
  "po_kind (reversal_of jid r e) = e_account_kind e"
  "po_request_id (reversal_of jid r e) = r"
  by (simp_all add: bucket_leg_def income_leg_def reversal_of_def)

lemma holding_legs:
  "leg_sum holding here (hold_legs jid r idem a pid kid m rv) = bucket_sum here (buyer_buckets a pid kid) m"
  "leg_sum holding here (settle_legs jid rec r bd se sp sel rv dg) =
     - bucket_sum here (res_buckets rec) (r_amount rec)"
  "leg_sum holding here (release_legs jid rec r) = - bucket_sum here (res_buckets rec) (r_amount rec)"
  "leg_sum holding here (correction_legs jid rec r d_b d_s d_p sel rv dg) = 0"
  "leg_sum holding here (reverse_legs jid r es) = 0"
  "leg_sum holding here (seed_legs jid a pid kid ga gp gk r rv) = 0"
  by (simp_all add: hold_legs_def settle_legs_def release_legs_def correction_legs_def seed_legs_def
      res_buckets_def buyer_buckets_def Let_def holding_def bucket_sum_def)
    (induction es, simp_all add: reverse_legs_def holding_def split: direction.splits)

lemma booked_legs:
  "leg_sum booked here (hold_legs jid r idem a pid kid m rv) = 0"
  "leg_sum booked here (settle_legs jid rec r bd se sp sel rv dg) =
     (if here (account_id_for Seller_earning sel) then se else 0)
     + (if here (account_id_for Platform_spread ''platform'') then sp else 0)
     - bucket_sum here (res_buckets rec) bd"
  "leg_sum booked here (release_legs jid rec r) = 0"
  "leg_sum booked here (seed_legs jid a pid kid ga gp gk r rv) =
     (if here (account_id_for Buyer_quota a) then ga else 0)
     + (if here (account_id_for Project_quota pid) then gp else 0)
     + (if here (account_id_for Key_quota kid) then gk else 0)"
  by (simp_all add: hold_legs_def settle_legs_def release_legs_def seed_legs_def
      res_buckets_def buyer_buckets_def Let_def booked_def bucket_sum_def)

lemma booked_reverse_legs:
  "list_all (\<lambda>e. e_status e = E_settled) es \<Longrightarrow>
   leg_sum booked here (reverse_legs jid r es) = - (\<Sum>e\<leftarrow>es. if here (e_account_id e) then booked e else 0)"
  by (induction es) (auto simp: reverse_legs_def booked_def opposite_def split: direction.splits)

subsection \<open>The invariant\<close>

definition ids_ok :: "ledger \<Rightarrow> bool" where
  "ids_ok s \<longleftrightarrow> distinct (map entry_id (l_entries s)) \<and> list_all (\<lambda>e. entry_id e < l_next s) (l_entries s)"

definition idem_ok :: "ledger \<Rightarrow> bool" where
  "idem_ok s \<longleftrightarrow>
     (\<forall>k r. dict_get (l_by_idempotency s) k = Some r \<longrightarrow>
        (\<exists>rec. get_reservation s r = Some rec \<and> r_idempotency_key rec = k)) \<and>
     (\<forall>r rec. get_reservation s r = Some rec \<longrightarrow>
        dict_get (l_by_idempotency s) (r_idempotency_key rec) = Some r)"

definition share :: "(string \<Rightarrow> bool) \<Rightarrow> reservation \<Rightarrow> int" where
  "share here rec = (if r_status rec \<in> {R_held, R_unresolved}
     then bucket_sum here (res_buckets rec) (r_amount rec) else 0)"

definition exposure :: "string \<Rightarrow> ledger \<Rightarrow> int" where
  "exposure acc s = (\<Sum>rec\<leftarrow>list_reservations s. share (\<lambda>a. a = acc) rec)"

definition holds_ok :: "ledger \<Rightarrow> bool" where
  "holds_ok s \<longleftrightarrow> (\<forall>acc. outstanding acc s = exposure acc s)"

definition ledger_inv :: "ledger \<Rightarrow> bool" where
  "ledger_inv s \<longleftrightarrow> core_inv s \<and> ids_ok s \<and> idem_ok s \<and> holds_ok s"

lemma exposure_write:
  "get_reservation s r = Some old \<Longrightarrow>
     exposure acc (write_reservation r rec s) =
       exposure acc s - share (\<lambda>a. a = acc) old + share (\<lambda>a. a = acc) rec"
  by (simp add: exposure_def list_reservations_def store_list_reservations_def get_reservation_def
      sum_dict_update)

lemma exposure_new:
  "get_reservation s r = None \<Longrightarrow>
     exposure acc (write_reservation r rec s) = exposure acc s + share (\<lambda>a. a = acc) rec"
  by (simp add: exposure_def list_reservations_def store_list_reservations_def get_reservation_def
      sum_dict_new)

lemma exposure_frame [simp]:
  "exposure acc (push_all now dps s) = exposure acc s"
  "exposure acc (fresh s) = exposure acc s"
  "exposure acc (s\<lparr>l_by_idempotency := m\<rparr>) = exposure acc s"
  by (simp_all add: exposure_def list_reservations_def store_list_reservations_def)

lemma outstanding_frame [simp]:
  "outstanding acc (fresh s) = outstanding acc s"
  "outstanding acc (write_reservation k v s) = outstanding acc s"
  "outstanding acc (s\<lparr>l_by_idempotency := m\<rparr>) = outstanding acc s"
  "outstanding acc (push_all now dps s) = outstanding acc s + leg_sum holding (\<lambda>a. a = acc) dps"
  by (simp_all add: outstanding_def sums_push_all) (simp add: total_on_def entries_for_def)

lemma inv_push:
  assumes "core_inv s" and "ids_ok s" and "amounts_ok dps"
  shows "core_inv (push_all now dps (fresh s))" and "ids_ok (push_all now dps (fresh s))"
proof -
  note es = push_all_entries [of now dps "fresh s"]
  show "core_inv (push_all now dps (fresh s))"
    using assms es legs_entries_amounts [OF assms(3)] by (auto simp: core_inv_def all_stored_def)
  have "map entry_id (l_entries (push_all now dps (fresh s))) =
      map entry_id (l_entries s) @ [Suc (l_next s)..<Suc (l_next s) + length dps]"
    using es by (simp add: legs_entries_ids fresh_def del: upt_Suc)
  moreover have "l_next (push_all now dps (fresh s)) = Suc (l_next s) + length dps"
    using es by (simp add: fresh_def)
  moreover have "distinct (map entry_id (l_entries s)) \<and> (\<forall>i\<in>set (map entry_id (l_entries s)). i < l_next s)"
    using assms(2) by (auto simp: ids_ok_def list_all_iff)
  ultimately have "distinct (map entry_id (l_entries (push_all now dps (fresh s)))) \<and>
      (\<forall>i\<in>set (map entry_id (l_entries (push_all now dps (fresh s)))).
         i < l_next (push_all now dps (fresh s)))"
    by (auto simp del: upt_Suc)
  then show "ids_ok (push_all now dps (fresh s))" by (simp add: ids_ok_def list_all_iff)
qed

lemma inv_write:
  assumes "core_inv s" and "ids_ok s" and "res_ok r rec"
  shows "core_inv (write_reservation r rec s) \<and> ids_ok (write_reservation r rec s)"
  using assms reservations_store.all_stored_put [of res_ok s r rec] by (simp add: core_inv_def ids_ok_def)

lemma idem_write:
  assumes "idem_ok s" and "get_reservation s r = Some old" and "r_idempotency_key rec = r_idempotency_key old"
    and "l_by_idempotency t = l_by_idempotency s" and "get_reservation t = get_reservation s"
  shows "idem_ok (write_reservation r rec t)"
  using assms unfolding idem_ok_def by (simp, metis option.inject)

text \<open>An effect that posts legs and moves one reservation keeps the invariant when the legs' holds
  match the change of the reservation's share.\<close>

lemma inv_post_and_move:
  assumes inv: "ledger_inv s" and rec: "with_res r old s" and ok: "amounts_ok dps"
    and same: "r_request_id new = r_request_id old" "r_amount new = r_amount old"
      "r_idempotency_key new = r_idempotency_key old"
    and holds: "\<And>acc. leg_sum holding (\<lambda>a. a = acc) dps =
      share (\<lambda>a. a = acc) new - share (\<lambda>a. a = acc) old"
  shows "ledger_inv (write_reservation r new (push_all now dps (fresh s)))"
proof -
  let ?u = "push_all now dps (fresh s)"
  have "core_inv ?u" "ids_ok ?u" using inv ok by (auto simp: ledger_inv_def intro: inv_push)
  moreover have "res_ok r new" using rec same by (simp add: with_res_def res_ok_def)
  ultimately have "core_inv (write_reservation r new ?u) \<and> ids_ok (write_reservation r new ?u)"
    by (rule inv_write)
  moreover have "idem_ok (write_reservation r new ?u)"
    using inv rec same by (intro idem_write [of s]) (auto simp: ledger_inv_def with_res_def)
  moreover have "holds_ok (write_reservation r new ?u)"
    using inv holds rec
    by (simp add: ledger_inv_def holds_ok_def with_res_def exposure_write [where old = old])
  ultimately show ?thesis by (simp add: ledger_inv_def)
qed

lemma inv_held:
  assumes inv: "ledger_inv s" and new: "get_reservation s r = None" "get_by_idempotency s idem = None"
    and m: "0 < m"
  shows "ledger_inv (held_state now r idem a pid kid m rv s)"
proof -
  let ?legs = "hold_legs (l_next s) r idem a pid kid m rv"
  let ?u = "push_all now ?legs (fresh s)"
  let ?rec = "new_reservation (l_next ?u) (l_next s) now r idem a pid kid m rv"
  have t: "held_state now r idem a pid kid m rv s = put_res ?rec (fresh ?u)"
    by (simp add: held_state_def Let_def)
  have sel: "r_request_id ?rec = r" "r_idempotency_key ?rec = idem" "r_status ?rec = R_held"
    "r_amount ?rec = m" "res_buckets ?rec = buyer_buckets a pid kid"
    by (simp_all add: new_reservation_def res_buckets_def)
  have "amounts_ok ?legs" using m by (intro amounts_ok_legs) simp
  then have "core_inv ?u" "ids_ok ?u" using inv by (auto simp: ledger_inv_def intro: inv_push)
  then have "core_inv (fresh ?u)" "ids_ok (fresh ?u)"
    by (auto simp: core_inv_def ids_ok_def fresh_def all_stored_def list_all_iff intro: less_SucI)
  then have "core_inv (write_reservation r ?rec (fresh ?u)) \<and> ids_ok (write_reservation r ?rec (fresh ?u))"
    using m sel by (intro inv_write) (auto simp: res_ok_def)
  moreover have "holds_ok (put_res ?rec (fresh ?u))"
    using inv new sel
    by (simp add: ledger_inv_def holds_ok_def put_res_def exposure_new holding_legs share_def)
  moreover have "dict_get (l_by_idempotency s) idem = None"
    using inv new(2) unfolding ledger_inv_def idem_ok_def get_by_idempotency_def get_reservation_def
    by (cases "dict_get (l_by_idempotency s) idem") fastforce+
  then have "idem_ok (put_res ?rec (fresh ?u))"
    using inv new(1) sel unfolding ledger_inv_def idem_ok_def put_res_def
    by (auto simp: sel) (metis option.distinct(1))+
  ultimately show ?thesis unfolding t ledger_inv_def
    by (simp add: put_res_def core_inv_def ids_ok_def sel all_stored_def)
qed

lemma share_closed [simp]: "r_status rec \<notin> {R_held, R_unresolved} \<Longrightarrow> share here rec = 0"
  by (simp add: share_def)

lemma share_open: "r_status rec \<in> {R_held, R_unresolved} \<Longrightarrow>
    share here rec = bucket_sum here (res_buckets rec) (r_amount rec)"
  by (simp add: share_def)

lemma with_res_amount: "with_res r rec s \<Longrightarrow> 0 \<le> r_amount rec"
  by (simp add: with_res_def)

lemma ledger_effect_inv: "ledger_effect s t \<Longrightarrow> ledger_inv s \<Longrightarrow> ledger_inv t"
proof (induction rule: ledger_effect.induct)
  case (seeded ga gp gk s now a pid kid r rv)
  then have "core_inv (push_all now (seed_legs (l_next s) a pid kid ga gp gk r rv) (fresh s))"
    "ids_ok (push_all now (seed_legs (l_next s) a pid kid ga gp gk r rv) (fresh s))"
    by (auto simp: ledger_inv_def intro!: inv_push amounts_ok_legs)
  with seeded show ?case by (simp add: ledger_inv_def idem_ok_def holds_ok_def holding_legs)
next
  case (reserved m r idem s a pid kid now rv)
  then show ?case by (simp add: inv_held)
next
  case (settled r rec s bd se sp now rv sel dg)
  then show ?case
    by (intro inv_post_and_move [where old = rec])
      (auto simp: holding_legs share_open intro!: amounts_ok_legs dest: with_res_amount)
next
  case (released r rec s now)
  then show ?case
    by (intro inv_post_and_move [where old = rec])
      (auto simp: holding_legs share_open intro!: amounts_ok_legs dest: with_res_amount)
next
  case (unresolved r rec s reason)
  let ?new = "rec\<lparr>r_status := R_unresolved, r_unresolved_reason := Some reason\<rparr>"
  have "share here ?new = share here rec" for here
    using unresolved by (simp add: share_open res_buckets_def)
  then show ?case
    using unresolved inv_write [of s r ?new] idem_write [of s r rec ?new s]
    by (auto simp: ledger_inv_def holds_ok_def with_res_def res_ok_def exposure_write [where old = rec])
next
  case (corrected r rec s bd se sp now sel rv dg)
  then show ?case
    by (intro inv_post_and_move [where old = rec]) (auto simp: holding_legs intro!: amounts_ok_legs)
next
  case (reversed r rec s now)
  then show ?case
    by (intro inv_post_and_move [where old = rec]) (auto simp: holding_legs intro!: amounts_ok_legs)
qed

lemma ledger_inv_new: "ledger_inv new_ledger"
  by (simp add: ledger_inv_def core_inv_def ids_ok_def idem_ok_def holds_ok_def new_ledger_def
      all_stored_def get_reservation_def outstanding_def total_on_def entries_for_def exposure_def
      list_reservations_def store_list_reservations_def dict_values_def)

lemma ledger_inv_core: "ledger_inv s \<Longrightarrow> core_inv s"
  by (simp add: ledger_inv_def)

lemma ledger_step_effect: "core_inv s \<Longrightarrow> ledger_step s c t \<Longrightarrow> ledger_effect s t"
  by (metis ledger_do_effect ledger_step_iff snd_conv)

lemma reach_inv: "ledger_reach s \<Longrightarrow> ledger_inv s"
proof (induction rule: ledger_reach.induct)
  case init
  show ?case by (rule ledger_inv_new)
next
  case (later s c t)
  then show ?case using ledger_step_effect ledger_inv_core ledger_effect_inv by blast
qed

definition ledger_run :: "ledger_call list \<Rightarrow> ledger \<Rightarrow> ledger" where
  "ledger_run cs s = fold (\<lambda>c s. snd (ledger_do c s)) cs s"

lemma ledger_step_do: "ledger_step s c (snd (ledger_do c s))"
  by (metis ledger_step.intros prod.collapse)

lemma reach_run: "ledger_reach s \<Longrightarrow> ledger_reach (ledger_run cs s)"
  by (induction cs arbitrary: s)
    (auto simp: ledger_run_def intro: ledger_reach.intros ledger_step_do)

lemma run_le: "ledger_reach s \<Longrightarrow> ledger_le s (ledger_run cs s)"
proof (induction cs arbitrary: s)
  case Nil
  show ?case by (simp add: ledger_run_def ledger_growth.refl)
next
  case (Cons c cs)
  let ?t = "snd (ledger_do c s)"
  have "ledger_reach ?t" using Cons.prems ledger_step_do by (rule ledger_reach.later)
  then have "ledger_le ?t (ledger_run cs ?t)" by (rule Cons.IH)
  moreover have "ledger_le s ?t"
    using reach_inv [OF Cons.prems] by (intro ledger_effect_le ledger_do_effect ledger_inv_core)
  ultimately show ?case by (metis ledger_growth.trans ledger_run_def fold_Cons o_apply)
qed

lemma ledger_reach_new: "ledger_reach (ledger_run cs new_ledger)"
  by (intro reach_run ledger_reach.init)

end
