(* ===== verification/Ledger_Books.thy ===== *)
theory Ledger_Books
  imports Ledger_Invariants
begin

section \<open>Double entry per request\<close>

text \<open>
  For every request the buyer's settled debits equal the seller's and the platform's settled
  credits, and the same for the reversals. Every operation keeps this, except a correction whose
  parts move in different directions: \<^verbatim>\<open>apply_delta\<close> then posts only some of its legs, which the
  last lemmas of the theory show on a concrete ledger.
\<close>

subsection \<open>Tallies\<close>

definition tally :: "entry_status \<Rightarrow> direction \<Rightarrow> account_kind \<Rightarrow> string \<Rightarrow> entry list \<Rightarrow> int" where
  "tally st d kind r es = (\<Sum>e\<leftarrow>es. if e_status e = st \<and> e_direction e = d \<and> e_account_kind e = kind
     \<and> e_request_id e = r then e_amount e else 0)"

definition leg_tally :: "entry_status \<Rightarrow> direction \<Rightarrow> account_kind \<Rightarrow> string \<Rightarrow> (direction \<times> posting) list \<Rightarrow> int" where
  "leg_tally st d kind r dps = (\<Sum>(d', p)\<leftarrow>dps. if po_status p = st \<and> d' = d \<and> po_kind p = kind
     \<and> po_request_id p = r then po_amount p else 0)"

definition legs_balanced :: "string \<Rightarrow> (direction \<times> posting) list \<Rightarrow> bool" where
  "legs_balanced r dps \<longleftrightarrow>
     leg_tally E_settled Debit Buyer_quota r dps =
       leg_tally E_settled Credit Seller_earning r dps + leg_tally E_settled Credit Platform_spread r dps \<and>
     leg_tally E_reversed Credit Buyer_quota r dps =
       leg_tally E_reversed Debit Seller_earning r dps + leg_tally E_reversed Debit Platform_spread r dps"

definition books_balanced :: "string \<Rightarrow> ledger \<Rightarrow> bool" where
  "books_balanced r s \<longleftrightarrow>
     tally E_settled Debit Buyer_quota r (l_entries s) =
       tally E_settled Credit Seller_earning r (l_entries s) + tally E_settled Credit Platform_spread r (l_entries s) \<and>
     tally E_reversed Credit Buyer_quota r (l_entries s) =
       tally E_reversed Debit Seller_earning r (l_entries s) + tally E_reversed Debit Platform_spread r (l_entries s)"

lemma tally_simps [simp]:
  "tally st d kind r [] = 0"
  "tally st d kind r (e # es) = (if e_status e = st \<and> e_direction e = d \<and> e_account_kind e = kind
     \<and> e_request_id e = r then e_amount e else 0) + tally st d kind r es"
  "tally st d kind r (xs @ ys) = tally st d kind r xs + tally st d kind r ys"
  by (simp_all add: tally_def)

lemma leg_tally_simps [simp]:
  "leg_tally st d kind r [] = 0"
  "leg_tally st d kind r ((d', p) # dps) = (if po_status p = st \<and> d' = d \<and> po_kind p = kind
     \<and> po_request_id p = r then po_amount p else 0) + leg_tally st d kind r dps"
  by (simp_all add: leg_tally_def)

lemma tally_legs: "tally st d kind r (legs_entries now dps n) = leg_tally st d kind r dps"
  by (induction now dps n rule: legs_entries.induct) simp_all

lemma net_loop_tally:
  "net_loop r kind es dr cr =
     (dr + tally E_settled Debit kind r es - tally E_reversed Credit kind r es,
      cr + tally E_settled Credit kind r es - tally E_reversed Debit kind r es)"
proof (induction es arbitrary: dr cr)
  case (Cons e es)
  show ?case
  proof (cases "e_request_id e = r \<and> e_account_kind e = kind")
    case True
    then show ?thesis by (cases "e_status e"; cases "e_direction e") (simp_all add: Cons.IH)
  next
    case False
    then show ?thesis by (cases "e_request_id e = r") (simp_all add: Cons.IH)
  qed
qed simp

lemma net_settled_tally:
  "net_settled r kind s =
     (tally E_settled Debit kind r (l_entries s) - tally E_reversed Credit kind r (l_entries s),
      tally E_settled Credit kind r (l_entries s) - tally E_reversed Debit kind r (l_entries s))"
  by (simp add: net_settled_def net_loop_tally list_entries_def)

lemma books_push:
  "books_balanced q s \<Longrightarrow> legs_balanced q dps \<Longrightarrow> books_balanced q (push_all now dps (fresh s))"
  using push_all_entries [of now dps "fresh s"]
  by (simp add: books_balanced_def legs_balanced_def tally_legs)

lemma books_frame [simp]:
  "books_balanced q (write_reservation k v s) = books_balanced q s"
  "books_balanced q (fresh s) = books_balanced q s"
  "books_balanced q (put_res v s) = books_balanced q s"
  by (simp_all add: books_balanced_def put_res_def)

subsection \<open>The legs of the operations\<close>

lemma settle_legs_balanced: "bd = se + sp \<Longrightarrow> legs_balanced q (settle_legs jid rec r bd se sp sel rv dg)"
  by (simp add: legs_balanced_def settle_legs_def res_buckets_def buyer_buckets_def)

lemma other_legs_balanced:
  "legs_balanced q (hold_legs jid r idem a pid kid m rv)"
  "legs_balanced q (release_legs jid rec r)"
  "legs_balanced q (seed_legs jid a pid kid ga gp gk r rv)"
  by (simp_all add: legs_balanced_def hold_legs_def release_legs_def seed_legs_def res_buckets_def
      buyer_buckets_def)

definition same_direction :: "int \<Rightarrow> int \<Rightarrow> int \<Rightarrow> bool" where
  "same_direction d_b d_s d_p \<longleftrightarrow> d_b > 0 \<and> d_s \<ge> 0 \<and> d_p \<ge> 0 \<or> d_b \<le> 0 \<and> d_s \<le> 0 \<and> d_p \<le> 0"

lemma correction_legs_balanced:
  "(r = q \<Longrightarrow> same_direction d_b d_s d_p) \<Longrightarrow> d_b = d_s + d_p \<Longrightarrow>
     legs_balanced q (correction_legs jid rec r d_b d_s d_p sel rv dg)"
  by (auto simp: same_direction_def legs_balanced_def correction_legs_def Let_def res_buckets_def
      buyer_buckets_def)

lemma opposite_inject [simp]: "opposite x = opposite y \<longleftrightarrow> x = y"
  by (cases x; cases y) (simp_all add: opposite_def)

lemma reverse_leg_tally:
  assumes "list_all (\<lambda>e. e_request_id e = r \<and> e_status e = E_settled) es"
  shows "leg_tally E_reversed (opposite d) kind r' (reverse_legs jid r es) =
      (if r' = r then tally E_settled d kind r es else 0) \<and>
    leg_tally E_settled d kind r' (reverse_legs jid r es) = 0"
  using assms by (induction es) (auto simp: reverse_legs_def)

lemma tally_settled_entries:
  "tally E_settled d kind r (settled_entries r s) = tally E_settled d kind r (l_entries s)"
proof -
  have "tally E_settled d kind r (filter (\<lambda>e. e_request_id e = r \<and> e_status e = E_settled) es) =
      tally E_settled d kind r es" for es
    by (induction es) auto
  then show ?thesis by (simp add: settled_entries_def list_entries_def)
qed

lemma reverse_legs_balanced:
  assumes "books_balanced q s"
  shows "legs_balanced q (reverse_legs jid r (settled_entries r s))"
proof -
  have es: "list_all (\<lambda>e. e_request_id e = r \<and> e_status e = E_settled) (settled_entries r s)"
    by (simp add: settled_entries_def list_all_iff)
  note t = reverse_leg_tally [OF es, of Debit] reverse_leg_tally [OF es, of Credit]
  have "opposite Debit = Credit" "opposite Credit = Debit" by (simp_all add: opposite_def)
  with t show ?thesis
    using assms by (auto simp: legs_balanced_def books_balanced_def tally_settled_entries)
qed

subsection \<open>Double entry\<close>

text \<open>\<open>one_sided q c s\<close>: if the call corrects the consumed request \<open>q\<close>, its three parts do not move in
  different directions. Calls for other requests are not restricted.\<close>

definition one_sided :: "string \<Rightarrow> ledger_call \<Rightarrow> ledger \<Rightarrow> bool" where
  "one_sided q c s = (case c of
     Apply_delta now r bd se sp sel rv dg \<Rightarrow>
       (case get_reservation s r of
          None \<Rightarrow> True
        | Some rec \<Rightarrow> r = q \<and> r_status rec = R_consumed \<longrightarrow>
            same_direction (delta_buyer r bd s) (delta_seller r se s) (delta_spread r sp s))
   | _ \<Rightarrow> True)"

lemma books_post:
  "books_balanced q s \<Longrightarrow> legs_balanced q dps \<Longrightarrow>
     books_balanced q (write_reservation k v (push_all now dps (fresh s)))"
  by (simp add: books_push)

lemma books_settle:
  assumes "core_inv s" and "books_balanced q s"
  shows "books_balanced q (snd (settle now r bd se sp sel rv dg s))"
proof (cases "get_reservation s r = None \<or> bd \<noteq> se + sp \<or> bd < 0 \<or> se < 0 \<or> sp < 0")
  case True
  then show ?thesis by (simp add: settle_refused_run assms(2))
next
  case False
  then obtain rec where rec: "get_reservation s r = Some rec" by auto
  show ?thesis
  proof (cases "r_status rec \<in> {R_consumed, R_released}")
    case True
    with rec show ?thesis by (simp add: settle_closed_run assms(2))
  next
    case still_open: False
    then have st: "r_status rec \<in> {R_held, R_unresolved}" by (cases "r_status rec") auto
    have "bd = se + sp" "0 \<le> bd" "0 \<le> se" "0 \<le> sp" using False by auto
    then show ?thesis
      using settle_run [OF core_with_res [OF assms(1) rec] st, of bd se sp now sel rv dg]
        books_post [OF assms(2) settle_legs_balanced] by auto
  qed
qed

lemma books_delta:
  assumes inv: "core_inv s" and b: "books_balanced q s"
    and one: "one_sided q (Apply_delta now r bd se sp sel rv dg) s"
  shows "books_balanced q (snd (apply_delta now r bd se sp sel rv dg s))"
proof (cases "get_reservation s r = None \<or> bd \<noteq> se + sp")
  case True
  then show ?thesis by (simp add: apply_delta_refused_run b)
next
  case False
  then obtain rec where rec: "get_reservation s r = Some rec" and bal: "bd = se + sp" by auto
  show ?thesis
  proof (cases "r_status rec = R_consumed")
    case False
    then show ?thesis using books_settle [OF inv b] by (simp add: apply_delta_open_run [OF rec _ bal])
  next
    case True
    then show ?thesis
      using one rec b apply_delta_consumed_run [OF core_with_res [OF inv rec] True bal, of now sel rv dg]
      by (auto simp: one_sided_def intro!: books_push correction_legs_balanced)
  qed
qed

lemma books_step:
  assumes inv: "core_inv s" and b: "books_balanced q s" and one: "one_sided q c s"
  shows "books_balanced q (snd (ledger_do c s))"
proof (cases c)
  case (Seed_quota now a pid kid ga gp gk r rv)
  then show ?thesis using b
    by (cases "ga < 0 \<or> gp < 0 \<or> gk < 0")
      (auto simp: seed_refused_run seed_run intro!: books_push other_legs_balanced)
next
  case (Reserve now r idem a pid kid m rv)
  then show ?thesis using b
    by (auto simp: reserve_run held_state_def Let_def split: option.split
        intro!: books_push other_legs_balanced)
next
  case (Settle now r bd se sp sel rv dg)
  then show ?thesis using books_settle [OF inv b] by simp
next
  case (Release now r)
  then show ?thesis
    using b core_with_res [OF inv, of r] release_other_run [of s r now]
    by (cases "get_reservation s r = None \<or> (\<exists>rec. get_reservation s r = Some rec \<and> r_status rec \<noteq> R_held)")
      (auto simp: release_run intro!: books_push other_legs_balanced)
next
  case (Mark_unresolved r reason)
  then show ?thesis
    using b core_with_res [OF inv, of r] mark_unresolved_other_run [of s r reason]
      mark_unresolved_run [of r _ s reason]
    by (cases "get_reservation s r = None \<or> (\<exists>rec. get_reservation s r = Some rec \<and> r_status rec \<noteq> R_held)")
      fastforce+
next
  case (Apply_delta now r bd se sp sel rv dg)
  then show ?thesis using books_delta [OF inv b] one by simp
next
  case (Reverse_request now r)
  then show ?thesis
    using b core_with_res [OF inv, of r] reverse_other_run [of s r now] core_settled_entries [OF inv, of r]
    by (cases "\<not> (\<exists>rec. get_reservation s r = Some rec \<and> r_status rec = R_consumed) \<or> settled_entries r s = []")
      (auto simp: reverse_run intro!: books_push reverse_legs_balanced)
qed (use b in \<open>simp_all add: mutate_entry_def store_mutate_entry_def delete_entry_def
    store_delete_entry_def run\<close>)

fun all_one_sided :: "string \<Rightarrow> ledger_call list \<Rightarrow> ledger \<Rightarrow> bool" where
  "all_one_sided q [] s \<longleftrightarrow> True"
| "all_one_sided q (c # cs) s \<longleftrightarrow> one_sided q c s \<and> all_one_sided q cs (snd (ledger_do c s))"

lemma ledger_run_simps [simp]:
  "ledger_run [] s = s"
  "ledger_run (c # cs) s = ledger_run cs (snd (ledger_do c s))"
  by (simp_all add: ledger_run_def)

lemma books_run:
  "ledger_reach s \<Longrightarrow> books_balanced q s \<Longrightarrow> all_one_sided q cs s \<Longrightarrow> books_balanced q (ledger_run cs s)"
proof (induction cs arbitrary: s)
  case (Cons c cs)
  have "ledger_reach (snd (ledger_do c s))"
    using Cons.prems(1) ledger_step_do by (rule ledger_reach.later)
  moreover have "books_balanced q (snd (ledger_do c s))"
    using Cons.prems books_step ledger_inv_core reach_inv by simp
  ultimately show ?case using Cons.IH Cons.prems(3) by simp
qed simp

lemma books_new: "books_balanced q new_ledger"
  by (simp add: books_balanced_def new_ledger_def)

text \<open>C24 (invariant). Double entry, request by request: after any run from the empty ledger, the net amount
  charged to the buyer for a request is the net earning of the seller plus the net spread of the platform, if
  no correction of this request in the run moved its parts in different directions, whatever the calls for
  other requests did. The code does not keep double entry through such a mixed correction:
  \<open>mixed_correction_unbalances\<close>.\<close>

theorem net_double_entry:
  assumes "all_one_sided r cs new_ledger"
  shows "fst (net_settled r Buyer_quota (ledger_run cs new_ledger)) =
    snd (net_settled r Seller_earning (ledger_run cs new_ledger)) +
    snd (net_settled r Platform_spread (ledger_run cs new_ledger))"
  using books_run [OF ledger_reach.init books_new assms]
  unfolding books_balanced_def net_settled_tally by auto

text \<open>The net amounts of a request after a correction: the buyer's always reaches its target, each
  income amount moves only when it moves in the buyer's direction.\<close>

definition posted_part :: "int \<Rightarrow> int \<Rightarrow> int" where
  "posted_part d_b d = (if d_b > 0 then max 0 d else min 0 d)"

lemma correction_nets:
  assumes s': "s' = write_reservation k v (push_all now (correction_legs jid rec r d_b d_s d_p sel rv dg) (fresh s))"
  shows "fst (net_settled r Buyer_quota s') = fst (net_settled r Buyer_quota s) + d_b"
    and "snd (net_settled r Seller_earning s') = snd (net_settled r Seller_earning s) + posted_part d_b d_s"
    and "snd (net_settled r Platform_spread s') = snd (net_settled r Platform_spread s) + posted_part d_b d_p"
  using push_all_entries [of now "correction_legs jid rec r d_b d_s d_p sel rv dg" "fresh s"]
  by (auto simp: s' net_settled_tally tally_legs correction_legs_def Let_def res_buckets_def
      buyer_buckets_def posted_part_def)

text \<open>A balanced correction of a consumed request whose parts do not move in
  different directions succeeds, and afterwards the net amounts recorded for the request are
  exactly the corrected triple.\<close>

theorem apply_delta_reaches_target:
  assumes "ledger_reach s" and "get_reservation s r = Some v" and "r_status v = R_consumed"
    and "bd = se + sp" and "books_balanced r s"
    and "same_direction (bd - fst (net_settled r Buyer_quota s)) (se - snd (net_settled r Seller_earning s))
           (sp - snd (net_settled r Platform_spread s))"
  shows "\<exists>j t. apply_delta now r bd se sp sel rv dg s = (Inr j, t) \<and>
    fst (net_settled r Buyer_quota t) = bd \<and> snd (net_settled r Seller_earning t) = se \<and>
    snd (net_settled r Platform_spread t) = sp"
proof -
  note w = core_with_res [OF ledger_inv_core [OF reach_inv [OF assms(1)]] assms(2)]
  have net: "fst (net_settled r Buyer_quota s) =
      snd (net_settled r Seller_earning s) + snd (net_settled r Platform_spread s)"
    using assms(5) unfolding books_balanced_def net_settled_tally by auto
  then have match: "delta_buyer r bd s = delta_seller r se s + delta_spread r sp s"
    using assms(4) by (simp add: delta_defs)
  obtain nb ns np where nets: "net_settled r Buyer_quota s = nb" "net_settled r Seller_earning s = ns"
    "net_settled r Platform_spread s = np" by simp
  have ok: "\<exists>j. fst (apply_delta now r bd se sp sel rv dg s) = Inr j"
    using w assms(3,4) net unfolding nets
    by (auto simp: with_res_def apply_delta_def require_res_def run Let_def nets delta_legs_run
        save_reservation_run)
  let ?t = "snd (apply_delta now r bd se sp sel rv dg s)"
  note t = apply_delta_consumed_run [OF w assms(3,4), of now sel rv dg]
  have "fst (net_settled r Buyer_quota ?t) = bd \<and> snd (net_settled r Seller_earning ?t) = se \<and>
    snd (net_settled r Platform_spread ?t) = sp"
  proof (cases "no_change r bd se sp s")
    case True
    then show ?thesis unfolding t by (simp add: no_change_def delta_defs)
  next
    case False
    with match have t': "?t = write_reservation r (v\<lparr>r_journal_id := l_next s\<rparr>)
        (push_all now (correction_legs (l_next s) v r (delta_buyer r bd s) (delta_seller r se s)
          (delta_spread r sp s) sel rv dg) (fresh s))" unfolding t by simp
    show ?thesis
      using assms(6) correction_nets [OF t']
      by (auto simp: delta_defs posted_part_def same_direction_def)
  qed
  with ok show ?thesis by (metis prod.collapse)
qed

text \<open>
  With mixed directions the correction is accepted, but the part that moves against the buyer's
  direction is not posted: the books of the request no longer balance.
\<close>

lemma mixed_correction_unbalances:
  assumes "with_res r v s" and "r_status v = R_consumed" and "bd = se + sp" and "books_balanced r s"
    and up: "fst (net_settled r Buyer_quota s) < bd" and down: "se < snd (net_settled r Seller_earning s)"
  shows "fst (net_settled r Buyer_quota (snd (apply_delta now r bd se sp sel rv dg s))) \<noteq>
    snd (net_settled r Seller_earning (snd (apply_delta now r bd se sp sel rv dg s))) +
    snd (net_settled r Platform_spread (snd (apply_delta now r bd se sp sel rv dg s)))"
proof -
  let ?t = "snd (apply_delta now r bd se sp sel rv dg s)"
  have net: "fst (net_settled r Buyer_quota s) =
      snd (net_settled r Seller_earning s) + snd (net_settled r Platform_spread s)"
    using assms(4) unfolding books_balanced_def net_settled_tally by auto
  then have "?t = write_reservation r (v\<lparr>r_journal_id := l_next s\<rparr>)
      (push_all now (correction_legs (l_next s) v r (delta_buyer r bd s) (delta_seller r se s)
        (delta_spread r sp s) sel rv dg) (fresh s))"
    using apply_delta_consumed_run [OF assms(1-3), of now sel rv dg] up assms(3)
    by (auto simp: no_change_def delta_defs)
  from correction_nets [OF this] show ?thesis
    using net up down assms(3) by (auto simp: delta_defs posted_part_def)
qed

end
