(* ===== verification/Ledger_Samples.thy ===== *)
theory Ledger_Samples
  imports Ledger_Books
begin

section \<open>A concrete ledger\<close>

text \<open>
  One request through the ledger: quota granted, 120 reserved, settled at 100 (80 to the seller,
  20 spread). The states are used to apply the theorems at concrete inputs.
\<close>

definition seeded_ledger :: ledger where
  "seeded_ledger = push_all 0 (seed_legs 0 ''a'' ''p'' ''k'' 500 400 300 ''seed'' ''v'') (fresh new_ledger)"

definition held_rec :: reservation where
  "held_rec = new_reservation 8 4 1 ''r'' ''i'' ''a'' ''p'' ''k'' 120 ''v''"

definition held_ledger :: ledger where
  "held_ledger = held_state 1 ''r'' ''i'' ''a'' ''p'' ''k'' 120 ''v'' seeded_ledger"

definition settled_rec :: reservation where
  "settled_rec = held_rec\<lparr>r_status := R_consumed, r_remaining := 20, r_journal_id := 9\<rparr>"

definition settled_ledger :: ledger where
  "settled_ledger = write_reservation ''r'' settled_rec
     (push_all 2 (settle_legs 9 held_rec ''r'' 100 80 20 ''s'' ''v'' ''d'') (fresh held_ledger))"

definition seed_call :: ledger_call where
  "seed_call = Seed_quota 0 ''a'' ''p'' ''k'' 500 400 300 ''seed'' ''v''"

definition reserve_call :: ledger_call where
  "reserve_call = Reserve 1 ''r'' ''i'' ''a'' ''p'' ''k'' 120 ''v''"

definition settle_call :: ledger_call where
  "settle_call = Settle 2 ''r'' 100 80 20 ''s'' ''v'' ''d''"

lemma l_next_push_all: "l_next (push_all now dps s) = l_next s + length dps"
  using push_all_entries by simp

lemma length_seed_legs: "length (seed_legs jid a pid kid ga gp gk r rv) = 3"
  by (simp add: seed_legs_def)

lemma length_hold_legs: "length (hold_legs jid r idem a pid kid m rv) = 3"
  by (simp add: hold_legs_def buyer_buckets_def)

lemma seeded_next: "l_next seeded_ledger = 4"
  by (simp add: seeded_ledger_def l_next_push_all length_seed_legs fresh_def new_ledger_def)

lemma held_next: "l_next held_ledger = 9"
  by (simp add: held_ledger_def held_state_def Let_def put_res_def write_reservation_def
      seeded_next l_next_push_all length_hold_legs fresh_def)

lemma seeded_run: "snd (ledger_do seed_call new_ledger) = seeded_ledger"
  by (simp add: seed_call_def seeded_ledger_def seed_run) (simp add: new_ledger_def)

lemma seeded_reservations:
  "get_reservation seeded_ledger r = None" "l_reservations seeded_ledger = []" "l_by_idempotency seeded_ledger = []"
  by (simp_all add: seeded_ledger_def new_ledger_def get_reservation_def)

lemma seeded_available:
  "available acc seeded_ledger =
     (if acc = account_id_for Buyer_quota ''a'' then 500 else 0)
     + (if acc = account_id_for Project_quota ''p'' then 400 else 0)
     + (if acc = account_id_for Key_quota ''k'' then 300 else 0)"
proof -
  have "available acc new_ledger = 0"
    by (simp add: available_sum outstanding_def total_on_def entries_for_def new_ledger_def)
  then show ?thesis by (simp add: seeded_ledger_def available_push_all holding_legs booked_legs)
qed

lemma reserve_seeded:
  "reserve 1 ''r'' ''i'' ''a'' ''p'' ''k'' 120 ''v'' seeded_ledger = (Inr held_rec, held_ledger)"
proof -
  have "quota_left ''a'' ''p'' ''k'' 120 seeded_ledger"
    by (simp add: quota_left_def seeded_available)
  then show ?thesis
    by (simp add: reserve_run seeded_reservations get_by_idempotency_def held_rec_def held_ledger_def
        seeded_next l_next_push_all length_hold_legs) (simp add: fresh_def seeded_next)
qed

lemma held_get: "get_reservation held_ledger r = (if r = ''r'' then Some held_rec else None)"
  by (simp add: held_ledger_def held_rec_def held_state_def Let_def put_res_def seeded_reservations
      seeded_next l_next_push_all length_hold_legs)
    (simp add: new_reservation_def fresh_def seeded_next)

lemma held_sel [simp]:
  "r_status held_rec = R_held" "r_request_id held_rec = ''r''" "r_amount held_rec = 120"
  "r_rate_version held_rec = ''v''" "r_idempotency_key held_rec = ''i''" "reservation_id held_rec = 8"
  by (simp_all add: held_rec_def new_reservation_def)

lemma settled_sel [simp]:
  "r_status settled_rec = R_consumed" "r_request_id settled_rec = ''r''" "r_amount settled_rec = 120"
  by (simp_all add: settled_rec_def)

lemma settled_get: "get_reservation settled_ledger r = (if r = ''r'' then Some settled_rec else None)"
  by (simp add: settled_ledger_def held_get)

lemma settle_held:
  "\<exists>j. settle 2 ''r'' 100 80 20 ''s'' ''v'' ''d'' held_ledger = (Inr j, settled_ledger)"
proof -
  have "with_res ''r'' held_rec held_ledger" by (simp add: with_res_def held_get)
  from settle_run [OF this, of 100 80 20 2 "''s''" "''v''" "''d''"]
  show ?thesis by (auto simp: held_next settled_ledger_def settled_rec_def held_rec_def new_reservation_def)
qed

lemma sample_runs:
  "ledger_run [seed_call] new_ledger = seeded_ledger"
  "ledger_run [seed_call, reserve_call] new_ledger = held_ledger"
  "ledger_run [seed_call, reserve_call, settle_call] new_ledger = settled_ledger"
  using settle_held
  by (auto simp: seeded_run reserve_call_def settle_call_def reserve_seeded)

lemma sample_reach:
  "ledger_reach seeded_ledger" "ledger_reach held_ledger" "ledger_reach settled_ledger"
  using sample_runs reach_run [OF ledger_reach.init] by metis+

lemma sample_one_sided: "all_one_sided ''r'' [seed_call, reserve_call, settle_call] new_ledger"
  by (simp add: one_sided_def seed_call_def reserve_call_def settle_call_def)

lemma settled_books: "books_balanced ''r'' settled_ledger"
  using books_run [OF ledger_reach.init books_new sample_one_sided] unfolding sample_runs .

lemma settled_with_res: "with_res ''r'' settled_rec settled_ledger"
  by (simp add: with_res_def settled_get)

lemma no_entries: "l_entries new_ledger = []"
  by (simp add: new_ledger_def)

lemma settled_nets:
  "net_settled ''r'' Buyer_quota settled_ledger = (100, 0)"
  "net_settled ''r'' Seller_earning settled_ledger = (0, 80)"
  "net_settled ''r'' Platform_spread settled_ledger = (0, 20)"
  by (simp_all add: net_settled_tally settled_ledger_def held_ledger_def held_state_def Let_def put_res_def
      push_all_entries seeded_ledger_def no_entries tally_legs)
    (simp_all add: seed_legs_def hold_legs_def settle_legs_def res_buckets_def buyer_buckets_def)

theorem net_double_entry_witness:
  "fst (net_settled ''r'' Buyer_quota (ledger_run [seed_call, reserve_call, settle_call] new_ledger)) =
    snd (net_settled ''r'' Seller_earning (ledger_run [seed_call, reserve_call, settle_call] new_ledger)) +
    snd (net_settled ''r'' Platform_spread (ledger_run [seed_call, reserve_call, settle_call] new_ledger))"
  by (rule net_double_entry [OF sample_one_sided])

theorem apply_delta_reaches_target_witness:
  "\<exists>j t. apply_delta 3 ''r'' 90 75 15 ''s'' ''v'' ''d'' settled_ledger = (Inr j, t) \<and>
    fst (net_settled ''r'' Buyer_quota t) = 90 \<and> snd (net_settled ''r'' Seller_earning t) = 75 \<and>
    snd (net_settled ''r'' Platform_spread t) = 15"
  by (rule apply_delta_reaches_target [OF sample_reach(3) with_res_get [OF settled_with_res]
        settled_sel(1) _ settled_books])
    (simp_all add: settled_nets same_direction_def)

text \<open>The mixed correction on this ledger: 110 = 70 + 40 after 100 = 80 + 20.\<close>

lemma mixed_correction_example:
  "fst (net_settled ''r'' Buyer_quota (snd (apply_delta 3 ''r'' 110 70 40 ''s'' ''v'' ''d'' settled_ledger))) \<noteq>
    snd (net_settled ''r'' Seller_earning (snd (apply_delta 3 ''r'' 110 70 40 ''s'' ''v'' ''d'' settled_ledger))) +
    snd (net_settled ''r'' Platform_spread (snd (apply_delta 3 ''r'' 110 70 40 ''s'' ''v'' ''d'' settled_ledger)))"
  by (rule mixed_correction_unbalances [OF settled_with_res settled_sel(1) _ settled_books])
    (simp_all add: settled_nets)

end
