(* ===== verification/Ledger_Contracts.thy ===== *)
theory Ledger_Contracts
  imports Ledger_Samples
begin

section \<open>What the ledger promises\<close>

text \<open>
  The statements a caller of \<^verbatim>\<open>LedgerService\<close> relies on, each from the run equations and the
  invariant: the projection of an account, append-only history, idempotent retries, admission by
  available quota, the contracts of settle, release and reverse, and double entry.
\<close>

subsection \<open>Projections\<close>

definition open_reservations :: "string \<Rightarrow> ledger \<Rightarrow> reservation list" where
  "open_reservations acc s = filter (\<lambda>rec. r_status rec \<in> {R_held, R_unresolved}
     \<and> acc \<in> set (map fst (res_buckets rec))) (list_reservations s)"

lemma bucket_sum_res: "bucket_sum (\<lambda>a. a = acc) (res_buckets rec) m =
    (if acc \<in> set (map fst (res_buckets rec)) then m else 0)"
  by (auto simp: bucket_sum_def res_buckets_def buyer_buckets_def)

lemma exposure_open: "exposure acc s = (\<Sum>rec\<leftarrow>open_reservations acc s. r_amount rec)"
proof -
  have "(\<Sum>rec\<leftarrow>rs. share (\<lambda>a. a = acc) rec) =
      (\<Sum>rec\<leftarrow>filter (\<lambda>rec. r_status rec \<in> {R_held, R_unresolved}
         \<and> acc \<in> set (map fst (res_buckets rec))) rs. r_amount rec)" for rs
    by (induction rs) (auto simp: share_def bucket_sum_res)
  then show ?thesis by (simp add: exposure_def open_reservations_def)
qed

lemma rebuild_reserved: "b_reserved (rebuild acc s) = max 0 (outstanding acc s)"
  using fold_add_entry [where a = no_sums and es = "entries_for acc s"]
  by (simp add: rebuild_def total_on_def outstanding_def no_sums_def Let_def)

lemma in_reservations:
  "core_inv s \<Longrightarrow> dict_ok (l_reservations s) \<Longrightarrow> rec \<in> set (list_reservations s) \<Longrightarrow> 0 < r_amount rec"
  unfolding list_reservations_def store_list_reservations_def
  by (elim dict_values_get) (auto simp: core_inv_def all_stored_def get_reservation_def res_ok_def)

lemma effect_dict_ok: "ledger_effect s t \<Longrightarrow> dict_ok (l_reservations s) \<Longrightarrow> dict_ok (l_reservations t)"
  by (induction rule: ledger_effect.induct) (simp_all add: held_state_def Let_def put_res_def)

lemma reach_dict_ok: "ledger_reach s \<Longrightarrow> dict_ok (l_reservations s)"
proof (induction rule: ledger_reach.induct)
  case (later s c t)
  then show ?case using effect_dict_ok ledger_step_effect ledger_inv_core reach_inv by blast
qed (simp add: new_ledger_def)

text \<open>C2 (invariant). In every reachable ledger the reserved amount recomputed from the entries of an
  account is the sum of the amounts of the reservations that are still open (held or unresolved)
  on it, and its available balance is what was booked minus that sum: no hold is lost, doubled
  or left behind by any sequence of operations.\<close>

theorem reserved_is_open_reservations:
  assumes "ledger_reach s"
  shows "b_reserved (rebuild acc s) = (\<Sum>rec\<leftarrow>open_reservations acc s. r_amount rec) \<and>
    b_available (rebuild acc s) =
      (\<Sum>e\<leftarrow>entries_for acc s. booked e) - (\<Sum>rec\<leftarrow>open_reservations acc s. r_amount rec)"
proof -
  have out: "outstanding acc s = (\<Sum>rec\<leftarrow>open_reservations acc s. r_amount rec)"
    using reach_inv [OF assms] by (simp add: ledger_inv_def holds_ok_def exposure_open)
  have "list_all (\<lambda>rec. 0 \<le> r_amount rec) (open_reservations acc s)"
    using in_reservations [of s] reach_inv [OF assms] reach_dict_ok [OF assms]
    by (auto simp: open_reservations_def list_all_iff ledger_inv_def less_imp_le)
  then have "0 \<le> (\<Sum>rec\<leftarrow>open_reservations acc s. r_amount rec)"
    by (auto simp: list_all_iff intro!: sum_list_nonneg)
  then show ?thesis
    using out available_sum [of acc s] by (simp add: rebuild_reserved available_def total_on_def)
qed

subsection \<open>History\<close>

lemma reservation_moves:
  assumes "ledger_reach s" and "get_reservation s r = Some v"
  shows "\<exists>w. get_reservation (ledger_run cs s) r = Some w \<and> res_le v w"
  using run_le [OF assms(1), of cs] assms(2) unfolding ledger_le_def by blast

text \<open>C21 (safety). The ledger is append-only: after any sequence of calls the entries are the old
  entries, unchanged and in order, followed by new ones; every reservation is still there with the
  same identity, parties and amount, and its status moved only along the status machine.\<close>

theorem ledger_append_only:
  assumes "ledger_reach s" and "get_reservation s r = Some v"
  shows "take (length (l_entries s)) (l_entries (ledger_run cs s)) = l_entries s \<and>
    (\<exists>w. get_reservation (ledger_run cs s) r = Some w \<and> reservation_id w = reservation_id v \<and>
       r_idempotency_key w = r_idempotency_key v \<and> r_amount w = r_amount v \<and>
       r_account_id w = r_account_id v \<and> r_project_id w = r_project_id v \<and> r_key_id w = r_key_id v \<and>
       res_edge\<^sup>*\<^sup>* (r_status v) (r_status w))"
  using run_le [OF assms(1), of cs] assms(2) unfolding ledger_le_def res_le_def by auto

text \<open>A released reservation stays released: no later call holds, settles, corrects or
  reverses it again.\<close>

theorem released_is_terminal:
  assumes "ledger_reach s" and "get_reservation s r = Some v" and "r_status v = R_released"
  shows "map_option r_status (get_reservation (ledger_run cs s) r) = Some R_released"
proof -
  obtain w where w: "get_reservation (ledger_run cs s) r = Some w" "res_edge\<^sup>*\<^sup>* (r_status v) (r_status w)"
    using reservation_moves [OF assms(1,2)] unfolding res_le_def by blast
  then show ?thesis using res_machine.final_forever [OF w(2)] assms(3) by simp
qed

subsection \<open>Failed and repeated calls\<close>

lemma settle_error_state:
  assumes "core_inv s" and "settle now r bd se sp sel rv dg s = (Inl e, t)"
  shows "t = s"
proof (cases "get_reservation s r = None \<or> bd \<noteq> se + sp \<or> bd < 0 \<or> se < 0 \<or> sp < 0")
  case True
  then show ?thesis using assms(2) settle_refused_run [of s r bd se sp now sel rv dg] by simp
next
  case False
  then obtain rec where rec: "get_reservation s r = Some rec" by auto
  show ?thesis
  proof (cases "r_status rec \<in> {R_consumed, R_released}")
    case True
    with rec show ?thesis using settle_closed_run [of s r rec now bd se sp sel rv dg] assms(2) by simp
  next
    case still_open: False
    then have st: "r_status rec \<in> {R_held, R_unresolved}" by (cases "r_status rec") auto
    have "bd = se + sp" "0 \<le> bd" "0 \<le> se" "0 \<le> sp" using False by auto
    then show ?thesis
      using settle_run [OF core_with_res [OF assms(1) rec] st, of bd se sp now sel rv dg] assms(2) by auto
  qed
qed

lemma apply_delta_error_state:
  assumes "core_inv s" and err: "apply_delta now r bd se sp sel rv dg s = (Inl e, t)"
  shows "t = s"
proof (cases "get_reservation s r = None \<or> bd \<noteq> se + sp")
  case True
  then show ?thesis using err apply_delta_refused_run [of s r bd se sp now sel rv dg] by simp
next
  case False
  then obtain rec where rec: "get_reservation s r = Some rec" and bal: "bd = se + sp" by auto
  show ?thesis
  proof (cases "r_status rec = R_consumed")
    case False
    then show ?thesis using err settle_error_state [OF assms(1)] by (simp add: apply_delta_open_run [OF rec _ bal])
  next
    case st: True
    note w = core_with_res [OF assms(1) rec]
    obtain nb ns np where nets: "net_settled r Buyer_quota s = nb" "net_settled r Seller_earning s = ns"
      "net_settled r Platform_spread s = np" by simp
    show ?thesis
      using err w st bal
      by (auto simp: with_res_def apply_delta_def require_res_def run Let_def nets delta_legs_run
          save_reservation_run split: if_splits)
  qed
qed

lemma discard_Inl: "discard m s = (Inl e, t) \<longleftrightarrow> m s = (Inl e, t)"
  by (auto simp: discard_def bindE_Inl run_Inl_iff)

lemma release_error_state:
  assumes "core_inv s" and err: "release now r s = (Inl e, t)"
  shows "t = s"
  using core_with_res [OF assms(1), of r] release_other_run [of s r now] err
  by (cases "get_reservation s r = None \<or> (\<exists>rec. get_reservation s r = Some rec \<and> r_status rec \<noteq> R_held)")
    (auto simp: release_run)

lemma mark_unresolved_error_state:
  assumes "core_inv s" and err: "mark_unresolved r reason s = (Inl e, t)"
  shows "t = s"
  using core_with_res [OF assms(1), of r] mark_unresolved_other_run [of s r reason]
    mark_unresolved_run [of r _ s reason] err
  by (cases "get_reservation s r = None \<or> (\<exists>rec. get_reservation s r = Some rec \<and> r_status rec \<noteq> R_held)")
    fastforce+

lemma reverse_error_state:
  assumes "core_inv s" and err: "reverse_request now r s = (Inl e, t)"
  shows "t = s"
  using core_with_res [OF assms(1), of r] reverse_other_run [of s r now] core_settled_entries [OF assms(1), of r] err
  by (cases "\<not> (\<exists>rec. get_reservation s r = Some rec \<and> r_status rec = R_consumed) \<or> settled_entries r s = []")
    (auto simp: reverse_run)

text \<open>C34 (error). A call that raises leaves the ledger exactly as it was: no operation fails after
  it has written an entry or moved a reservation.\<close>

theorem failed_call_changes_nothing:
  assumes "ledger_reach s" and "ledger_do c s = (Inl e, t)"
  shows "t = s"
proof -
  note core = ledger_inv_core [OF reach_inv [OF assms(1)]]
  show ?thesis
  proof (cases c)
    case (Seed_quota now a pid kid ga gp gk r rv)
    then show ?thesis using assms(2)
      by (cases "ga < 0 \<or> gp < 0 \<or> gk < 0") (auto simp: seed_refused_run seed_run)
  next
    case (Reserve now r idem a pid kid m rv)
    then show ?thesis using assms(2)
      by (auto simp: discard_Inl reserve_run split: option.splits if_splits)
  qed (use core assms(2) in \<open>auto simp: discard_Inl mutate_entry_def store_mutate_entry_def
      delete_entry_def store_delete_entry_def run dest: settle_error_state release_error_state
      mark_unresolved_error_state apply_delta_error_state reverse_error_state\<close>)
qed

lemma reserve_returns_stored:
  assumes "ledger_reach s" and "reserve now r idem a pid kid m rv s = (Inr v, t)"
  shows "get_reservation t r = Some v \<and> r_idempotency_key v = idem \<and> r_amount v = m \<and>
    0 < m \<and> r \<noteq> [] \<and> idem \<noteq> []"
proof (cases "get_reservation s r")
  case (Some rec)
  then show ?thesis using assms(2) by (auto simp: reserve_run split: if_splits)
next
  case None
  have "get_by_idempotency s idem = Some rec \<Longrightarrow> r_request_id rec \<noteq> r" for rec
  proof
    assume "get_by_idempotency s idem = Some rec" "r_request_id rec = r"
    then obtain r' where "get_reservation s r' = Some rec"
      by (auto simp: get_by_idempotency_def get_reservation_def split: option.splits)
    then have "r_request_id rec = r'" 
      using reach_inv [OF assms(1)] by (auto simp: ledger_inv_def core_inv_def all_stored_def res_ok_def)
    then show False using \<open>r_request_id rec = r\<close> \<open>get_reservation s r' = Some rec\<close> None by simp
  qed
  then show ?thesis using assms(2) None
    by (auto simp: reserve_run new_reservation_def held_state_def Let_def put_res_def
        split: option.splits if_splits)
qed

text \<open>C18 (safety). Reserving is idempotent for ever: once a reservation was returned, a retry with the
  same request, key and amount, after any other calls and whatever the other parameters, returns
  that reservation (as it stands then) and changes nothing: the quota is held once.\<close>

theorem reserve_retry_idempotent:
  assumes "ledger_reach s" and "reserve now r idem a pid kid m rv s = (Inr v, t)"
  shows "\<exists>w. reserve now' r idem a' pid' kid' m rv' (ledger_run cs t) = (Inr w, ledger_run cs t) \<and>
    reservation_id w = reservation_id v"
proof -
  have t: "t = snd (ledger_do (Reserve now r idem a pid kid m rv) s)" using assms(2) by simp
  have "ledger_reach t" unfolding t using assms(1) ledger_step_do by (rule ledger_reach.later)
  then obtain w where w: "get_reservation (ledger_run cs t) r = Some w" "res_le v w"
    using reservation_moves reserve_returns_stored [OF assms] by blast
  then show ?thesis
    using reserve_returns_stored [OF assms] by (auto simp: reserve_run res_le_def)
qed

subsection \<open>Admission\<close>

lemma available_held:
  "available acc (held_state now r idem a pid kid m rv s) =
     available acc s - bucket_sum (\<lambda>x. x = acc) (buyer_buckets a pid kid) m"
proof -
  have "available acc (put_res v u) = available acc u" for v u
    by (simp add: available_sum outstanding_def total_on_def entries_for_def put_res_def)
  then show ?thesis
    by (simp add: held_state_def Let_def available_push_all holding_legs booked_legs)
qed

text \<open>For a request and idempotency key not seen before and a positive amount,
  \<^verbatim>\<open>reserve\<close> succeeds exactly when the account, the project and the key each have the amount
  available. It then takes the amount from those three accounts and from no other, leaving none of
  them negative; otherwise it raises \<^verbatim>\<open>INSUFFICIENT_QUOTA\<close> and changes nothing.\<close>

theorem reserve_admission:
  assumes "get_reservation s r = None" and "get_by_idempotency s idem = None"
    and "0 < m" and "r \<noteq> []" and "idem \<noteq> []"
  shows "case reserve now r idem a pid kid m rv s of
      (Inl e, t) \<Rightarrow> e = LedgerError Insufficient_quota 409 \<and> t = s \<and>
        (\<exists>b\<in>set (buyer_buckets a pid kid). b_available (rebuild (fst b) s) < m)
    | (Inr v, t) \<Rightarrow> r_status v = R_held \<and> r_amount v = m \<and> get_reservation t r = Some v \<and>
        list_all (\<lambda>b. m \<le> b_available (rebuild (fst b) s)) (buyer_buckets a pid kid) \<and>
        (\<forall>acc. b_available (rebuild acc t) =
          b_available (rebuild acc s) - (if acc \<in> set (map fst (buyer_buckets a pid kid)) then m else 0))"
proof -
  let ?t = "held_state now r idem a pid kid m rv s"
  have sum: "bucket_sum (\<lambda>x. x = acc) (buyer_buckets a pid kid) m =
      (if acc \<in> set (map fst (buyer_buckets a pid kid)) then m else 0)" for acc
    by (auto simp: bucket_sum_def buyer_buckets_def)
  have avail: "b_available (rebuild acc ?t) = b_available (rebuild acc s)
      - (if acc \<in> set (map fst (buyer_buckets a pid kid)) then m else 0)" for acc
    using available_held [of acc now r idem a pid kid m rv s] unfolding sum available_def .
  have quota: "quota_left a pid kid m s \<longleftrightarrow>
      list_all (\<lambda>b. m \<le> b_available (rebuild (fst b) s)) (buyer_buckets a pid kid)"
    by (simp add: quota_left_def available_def buyer_buckets_def)
  show ?thesis
  proof (cases "quota_left a pid kid m s")
    case True
    have "get_reservation ?t r = Some (new_reservation
        (l_next (push_all now (hold_legs (l_next s) r idem a pid kid m rv) (fresh s)))
        (l_next s) now r idem a pid kid m rv)"
      by (simp add: held_state_def Let_def put_res_def new_reservation_def)
    then show ?thesis
      using True quota avail assms by (simp add: reserve_run) (simp add: new_reservation_def)
  next
    case False
    then show ?thesis
      using quota assms by (auto simp: reserve_run ledger_err_def list_all_iff not_le)
  qed
qed

subsection \<open>Settling, releasing, reversing\<close>

text \<open>C12 (functional). Settling an open reservation with a balanced, non-negative triple succeeds; it
  gives the hold back to the three buyer accounts, takes the actual debit from them, and adds the
  earning to the seller's account and the spread to the platform's, and nothing else moves.\<close>

theorem settle_contract:
  assumes "ledger_reach s" and "get_reservation s r = Some v" and "r_status v \<in> {R_held, R_unresolved}"
    and "bd = se + sp" and "0 \<le> se" and "0 \<le> sp"
  shows "\<exists>j t. settle now r bd se sp sel rv dg s = (Inr j, t) \<and>
    map_option r_status (get_reservation t r) = Some R_consumed \<and>
    (\<forall>acc. b_available (rebuild acc t) = b_available (rebuild acc s)
       + (if acc \<in> set (map fst (res_buckets v)) then r_amount v - bd else 0)
       + (if acc = account_id_for Seller_earning sel then se else 0)
       + (if acc = account_id_for Platform_spread ''platform'' then sp else 0))"
proof -
  let ?legs = "settle_legs (l_next s) v r bd se sp sel rv dg"
  let ?v' = "v\<lparr>r_status := R_consumed, r_remaining := max 0 (r_amount v - bd), r_journal_id := l_next s,
            r_rate_version := rv\<rparr>"
  let ?t = "write_reservation r ?v' (push_all now ?legs (fresh s))"
  have "with_res r v s" using core_with_res ledger_inv_core reach_inv assms by blast
  then obtain j where run: "settle now r bd se sp sel rv dg s = (Inr j, ?t)"
    using settle_run [of r v s bd se sp now sel rv dg] assms(3-) by auto
  have "available acc ?t = available acc s
       + (if acc \<in> set (map fst (res_buckets v)) then r_amount v - bd else 0)
       + (if acc = account_id_for Seller_earning sel then se else 0)
       + (if acc = account_id_for Platform_spread ''platform'' then sp else 0)" for acc
    by (simp add: available_push_all holding_legs booked_legs bucket_sum_res)
  with run show ?thesis by (auto simp: available_def)
qed

text \<open>Reserving and then releasing restores the available balance of every account.\<close>

theorem reserve_release_roundtrip:
  assumes "ledger_reach s" and "get_reservation s r = None" and "get_by_idempotency s idem = None"
    and "reserve now r idem a pid kid m rv s = (Inr v, t)"
  shows "\<exists>w u. release now' r t = (Inr w, u) \<and> r_status w = R_released \<and>
    (\<forall>acc. b_available (rebuild acc u) = b_available (rebuild acc s))"
proof -
  have t: "t = held_state now r idem a pid kid m rv s" and held: "r_status v = R_held"
    and b: "res_buckets v = buyer_buckets a pid kid" "r_amount v = m"
    using assms(2-) by (auto simp: reserve_run new_reservation_def res_buckets_def split: if_splits)
  have "ledger_reach t"
    using assms(1) ledger_step_do [of s "Reserve now r idem a pid kid m rv"] assms(4)
    by (metis discard_state ledger_do.simps(2) ledger_reach.later snd_conv)
  then have w: "with_res r v t"
    using reserve_returns_stored [OF assms(1,4)] core_with_res ledger_inv_core reach_inv by blast
  have "available acc (write_reservation r v' (push_all now' (release_legs (l_next t) v r) (fresh t))) =
      available acc s" for acc v'
    by (simp add: available_push_all holding_legs booked_legs b) (simp add: t available_held)
  then show ?thesis using release_run [OF w held, of now'] by (simp add: available_def)
qed

lemma settled_entries_push:
  "settled_entries r (push_all now dps s) = settled_entries r s @
     filter (\<lambda>e. e_request_id e = r \<and> e_status e = E_settled) (legs_entries now dps (l_next s))"
  using push_all_entries [of now dps s] by (simp add: settled_entries_def list_entries_def)

lemma settled_entries_frame [simp]:
  "settled_entries r (fresh s) = settled_entries r s"
  "settled_entries r (write_reservation k v s) = settled_entries r s"
  by (simp_all add: settled_entries_def list_entries_def)

definition plain_legs :: "string \<Rightarrow> (direction \<times> posting) list \<Rightarrow> bool" where
  "plain_legs r dps \<longleftrightarrow> list_all (\<lambda>(d, p). po_request_id p = r \<and> po_status p \<noteq> E_reversed) dps"

lemma booked_settled_legs:
  "plain_legs r dps \<Longrightarrow>
   (\<Sum>e\<leftarrow>filter (\<lambda>e. e_request_id e = r \<and> e_status e = E_settled) (legs_entries now dps n).
      if here (e_account_id e) then booked e else 0) = leg_sum booked here dps"
proof (induction now dps n rule: legs_entries.induct)
  case (2 now d p dps n)
  then have "(\<Sum>e\<leftarrow>filter (\<lambda>e. e_request_id e = r \<and> e_status e = E_settled) (legs_entries now dps (Suc n)).
      if here (e_account_id e) then booked e else 0) = leg_sum booked here dps"
    and p: "po_request_id p = r" "po_status p \<noteq> E_reversed"
    by (simp_all add: plain_legs_def)
  moreover have "booked (entry_of now d p n) = booked (entry_of 0 d p 0)" by (rule booked_entry_of)
  moreover have "booked (entry_of 0 d p 0) = 0" if "po_status p \<noteq> E_settled"
    using that p(2) by (cases "po_status p") (simp_all add: booked_def)
  ultimately show ?case by auto
qed simp

lemma plain_settle_legs: "plain_legs r (settle_legs jid rec r bd se sp sel rv dg)"
  by (simp add: plain_legs_def settle_legs_def res_buckets_def buyer_buckets_def)

lemma settle_posts_settled: "settled_entries r (push_all now (settle_legs jid rec r bd se sp sel rv dg) s) \<noteq> []"
  by (simp add: settled_entries_push) (simp add: settle_legs_def res_buckets_def buyer_buckets_def)

text \<open>Reversing a request right after its first settlement undoes every charge and
  credit: on each account the available balance is what it was before the settlement, plus the
  hold that the settlement had given back.\<close>

theorem settle_reverse_roundtrip:
  assumes "ledger_reach s" and "get_reservation s r = Some v" and "r_status v \<in> {R_held, R_unresolved}"
    and "settled_entries r s = []" and "settle now r bd se sp sel rv dg s = (Inr j, t)"
  shows "\<exists>j' u. reverse_request now' r t = (Inr j', u) \<and>
    (\<forall>acc. b_available (rebuild acc u) = b_available (rebuild acc s)
       + (if acc \<in> set (map fst (res_buckets v)) then r_amount v else 0))"
proof -
  let ?legs = "settle_legs (l_next s) v r bd se sp sel rv dg"
  let ?v' = "v\<lparr>r_status := R_consumed, r_remaining := max 0 (r_amount v - bd), r_journal_id := l_next s,
            r_rate_version := rv\<rparr>"
  have w: "with_res r v s" using core_with_res ledger_inv_core reach_inv assms by blast
  have "bd = se + sp \<and> 0 \<le> bd \<and> 0 \<le> se \<and> 0 \<le> sp"
    using assms(5) by (auto simp: settle_def run split: if_splits)
  then have t: "t = write_reservation r ?v' (push_all now ?legs (fresh s))"
    using settle_run [OF w assms(3), of bd se sp now sel rv dg] assms(5) by auto
  have "ledger_reach t"
    using assms(1) ledger_step_do [of s "Settle now r bd se sp sel rv dg"] assms(5)
    by (metis discard_state ledger_do.simps(3) ledger_reach.later snd_conv)
  then have core: "core_inv t" by (intro ledger_inv_core reach_inv)
  have w': "with_res r ?v' t" using w by (simp add: t with_res_def)
  let ?es = "settled_entries r t"
  have es: "(\<Sum>e\<leftarrow>?es. if e_account_id e = acc then booked e else 0) = leg_sum booked (\<lambda>a. a = acc) ?legs" for acc
    using booked_settled_legs [where here = "\<lambda>a. a = acc" and now = now and n = "Suc (l_next s)",
        OF plain_settle_legs [of r "l_next s" v bd se sp sel rv dg]]
    by (simp add: t settled_entries_push assms(4)) (simp add: fresh_def)
  have settled: "list_all (\<lambda>e. e_status e = E_settled) ?es"
    by (simp add: settled_entries_def list_all_iff)
  have ne: "?es \<noteq> []" unfolding t using settle_posts_settled by simp
  have "available acc (write_reservation r x (push_all now' (reverse_legs (l_next t) r ?es) (fresh t))) =
      available acc s + (if acc \<in> set (map fst (res_buckets v)) then r_amount v else 0)" for acc x
    by (simp add: available_push_all holding_legs booked_reverse_legs [OF settled] es)
      (simp add: t available_push_all holding_legs bucket_sum_res)
  then show ?thesis
    using reverse_run [OF w' _ ne core_settled_entries [OF core], of now'] by (simp add: available_def)
qed

text \<open>
  A reversal reverses every settled entry of the request, also the part that an earlier downward
  correction had already reversed: the buyer then ends below zero by that part.
\<close>

lemma reverse_net:
  assumes "with_res r v s" and "r_status v = R_consumed" and "settled_entries r s \<noteq> []" and "core_inv s"
  shows "fst (net_settled r Buyer_quota (snd (reverse_request now r s))) =
    - tally E_reversed Credit Buyer_quota r (l_entries s)"
proof -
  let ?es = "settled_entries r s"
  have es: "list_all (\<lambda>e. e_request_id e = r \<and> e_status e = E_settled) ?es"
    by (simp add: settled_entries_def list_all_iff)
  have "opposite Debit = Credit" by (simp add: opposite_def)
  then show ?thesis
    using reverse_run [OF assms(1-3) core_settled_entries [OF assms(4)], of now]
      reverse_leg_tally [OF es, of Debit Buyer_quota r "l_next s"]
      push_all_entries [of now "reverse_legs (l_next s) r ?es" "fresh s"]
    by (simp add: net_settled_tally tally_legs tally_settled_entries)
qed

subsection \<open>The theorems at concrete inputs\<close>

lemma settled_entries_held: "settled_entries ''r'' held_ledger = []"
proof -
  have "settled_entries r (put_res v s) = settled_entries r s" for r v s
    by (simp add: settled_entries_def list_entries_def put_res_def)
  moreover have "settled_entries r new_ledger = []" for r
    by (simp add: settled_entries_def list_entries_def new_ledger_def)
  ultimately show ?thesis
    by (simp add: held_ledger_def held_state_def Let_def seeded_ledger_def settled_entries_push)
      (simp add: hold_legs_def seed_legs_def buyer_buckets_def)
qed

lemma held_with_res: "with_res ''r'' held_rec held_ledger"
  by (simp add: with_res_def held_get)

definition released_ledger :: ledger where
  "released_ledger = snd (release 3 ''r'' held_ledger)"

lemma released_get:
  "get_reservation released_ledger ''r'' = Some (held_rec\<lparr>r_status := R_released, r_remaining := 0, r_journal_id := 9\<rparr>)"
  by (simp add: released_ledger_def release_run [OF held_with_res] held_next)

lemma released_reach: "ledger_reach released_ledger"
  using ledger_reach.later [OF sample_reach(2) ledger_step_do, of "Release 3 ''r''"]
  by (simp add: released_ledger_def)

theorem reserved_is_open_reservations_witness:
  "b_reserved (rebuild (account_id_for Key_quota ''k'') held_ledger) =
     (\<Sum>rec\<leftarrow>open_reservations (account_id_for Key_quota ''k'') held_ledger. r_amount rec) \<and>
   b_available (rebuild (account_id_for Key_quota ''k'') held_ledger) =
     (\<Sum>e\<leftarrow>entries_for (account_id_for Key_quota ''k'') held_ledger. booked e) -
     (\<Sum>rec\<leftarrow>open_reservations (account_id_for Key_quota ''k'') held_ledger. r_amount rec)"
  by (rule reserved_is_open_reservations [OF sample_reach(2)])

theorem ledger_append_only_witness:
  "take (length (l_entries held_ledger)) (l_entries (ledger_run [settle_call] held_ledger)) = l_entries held_ledger \<and>
   (\<exists>w. get_reservation (ledger_run [settle_call] held_ledger) ''r'' = Some w \<and>
      reservation_id w = reservation_id held_rec \<and> r_idempotency_key w = r_idempotency_key held_rec \<and>
      r_amount w = r_amount held_rec \<and> r_account_id w = r_account_id held_rec \<and>
      r_project_id w = r_project_id held_rec \<and> r_key_id w = r_key_id held_rec \<and>
      res_edge\<^sup>*\<^sup>* (r_status held_rec) (r_status w))"
  by (rule ledger_append_only [OF sample_reach(2) with_res_get [OF held_with_res]])

theorem released_is_terminal_witness:
  "map_option r_status (get_reservation (ledger_run [settle_call, reserve_call] released_ledger) ''r'') = Some R_released"
  by (rule released_is_terminal [OF released_reach released_get]) simp

theorem failed_call_changes_nothing_witness:
  "snd (ledger_do (Settle 3 ''r'' 100 80 30 ''s'' ''v'' ''d'') held_ledger) = held_ledger"
  by (rule failed_call_changes_nothing [OF sample_reach(2), of "Settle 3 ''r'' 100 80 30 ''s'' ''v'' ''d''"
        "ledger_err Unbalanced"])
    (simp add: settle_def discard_def run)

theorem reserve_retry_idempotent_witness:
  "\<exists>w. reserve 9 ''r'' ''i'' ''x'' ''y'' ''z'' 120 ''v2'' (ledger_run [settle_call] held_ledger) =
     (Inr w, ledger_run [settle_call] held_ledger) \<and> reservation_id w = reservation_id held_rec"
  by (rule reserve_retry_idempotent [OF sample_reach(1) reserve_seeded])

theorem reserve_admission_witness:
  "case reserve 1 ''r'' ''i'' ''a'' ''p'' ''k'' 350 ''v'' seeded_ledger of
      (Inl e, t) \<Rightarrow> e = LedgerError Insufficient_quota 409 \<and> t = seeded_ledger \<and>
        (\<exists>b\<in>set (buyer_buckets ''a'' ''p'' ''k''). b_available (rebuild (fst b) seeded_ledger) < 350)
    | (Inr v, t) \<Rightarrow> r_status v = R_held \<and> r_amount v = 350 \<and> get_reservation t ''r'' = Some v \<and>
        list_all (\<lambda>b. 350 \<le> b_available (rebuild (fst b) seeded_ledger)) (buyer_buckets ''a'' ''p'' ''k'') \<and>
        (\<forall>acc. b_available (rebuild acc t) =
          b_available (rebuild acc seeded_ledger)
            - (if acc \<in> set (map fst (buyer_buckets ''a'' ''p'' ''k'')) then 350 else 0))"
  by (rule reserve_admission)
    (simp_all add: seeded_reservations get_by_idempotency_def)

theorem settle_contract_witness:
  "\<exists>j t. settle 2 ''r'' 100 80 20 ''s'' ''v'' ''d'' held_ledger = (Inr j, t) \<and>
    map_option r_status (get_reservation t ''r'') = Some R_consumed \<and>
    (\<forall>acc. b_available (rebuild acc t) = b_available (rebuild acc held_ledger)
       + (if acc \<in> set (map fst (res_buckets held_rec)) then r_amount held_rec - 100 else 0)
       + (if acc = account_id_for Seller_earning ''s'' then 80 else 0)
       + (if acc = account_id_for Platform_spread ''platform'' then 20 else 0))"
  by (rule settle_contract [OF sample_reach(2) with_res_get [OF held_with_res]]) simp_all

theorem reserve_release_roundtrip_witness:
  "\<exists>w u. release 5 ''r'' held_ledger = (Inr w, u) \<and> r_status w = R_released \<and>
    (\<forall>acc. b_available (rebuild acc u) = b_available (rebuild acc seeded_ledger))"
  by (rule reserve_release_roundtrip [OF sample_reach(1) _ _ reserve_seeded])
    (simp_all add: seeded_reservations get_by_idempotency_def)

theorem settle_reverse_roundtrip_witness:
  "\<exists>j' u. reverse_request 7 ''r'' settled_ledger = (Inr j', u) \<and>
    (\<forall>acc. b_available (rebuild acc u) = b_available (rebuild acc held_ledger)
       + (if acc \<in> set (map fst (res_buckets held_rec)) then r_amount held_rec else 0))"
proof -
  obtain j where j: "settle 2 ''r'' 100 80 20 ''s'' ''v'' ''d'' held_ledger = (Inr j, settled_ledger)"
    using settle_held by blast
  show ?thesis
    by (rule settle_reverse_roundtrip [OF sample_reach(2) with_res_get [OF held_with_res] _
          settled_entries_held j]) simp
qed

end
