(* ===== verification/Recon.thy ===== *)
theory Recon
  imports Ledger_Contracts
begin

section \<open>Reconciliation\<close>

text \<open>
  \<^verbatim>\<open>services/billing-service/app/domain/recon/models.py\<close> and \<^verbatim>\<open>service.py\<close>: evidence events drive
  the ledger (settle, correct, or open a case while the cost is unknown), a periodic tick retries
  the cases, and finance staff reverse a request after a preview. \<open>recon\<close> holds the ledger and the
  service's own dictionaries; the constructor's options are \<open>recon_config\<close>. Identifiers come from
  the ledger's counter.
\<close>

subsection \<open>Records\<close>

datatype reason_code = MISSING_AMOUNT | MISSING_USAGE | PARSE_FAILED | ASYNC_INCOMPLETE
datatype next_action = Wait_callback | Retry | Manual_action
datatype case_status = Case_open | Case_recovered | Case_manual
datatype event_kind =
    Reported_cost | Usage_rated | Parse_failed | Async_pending | Missing_amount | Missing_usage
datatype ticket_kind = VARIANCE | ORPHAN | UNBALANCED_BOOKS

record unresolved_case =
  c_request_id :: string
  c_reason_code :: reason_code
  c_amount_exposure :: int
  c_next_action :: next_action
  c_owner :: string
  c_status :: case_status
  c_missing_evidence :: event_kind
  c_retry_at :: "instant option"
  c_sla_until :: "instant option"
  c_connection_id :: string
  c_rate_version :: string
  c_updated_at :: instant

record evidence_event =
  ev_event_id :: string
  ev_request_id :: string
  ev_kind :: event_kind
  ev_buyer_debit :: "int option"
  ev_seller_earning :: "int option"
  ev_spread :: "int option"
  ev_seller_id :: string
  ev_rate_version :: "string option"
  ev_evidence_digest :: string
  ev_connection_id :: string
  ev_computed_buyer :: "int option"

record recon_ticket =
  t_ticket_id :: uuid
  t_kind :: ticket_kind
  t_request_id :: string
  t_detail :: string
  t_created_at :: instant
  t_reported_minor :: "int option"
  t_computed_minor :: "int option"

record reverse_preview =
  pv_preview_id :: uuid
  pv_request_id :: string
  pv_original_entry_ids :: "uuid list"
  pv_net_buyer_delta :: int

record daily_report =
  dr_balanced :: bool
  dr_orphan_request_ids :: "string list"
  dr_ticket_count :: nat
  dr_open_unresolved :: nat
  dr_aggregate_matches_detail :: bool

fun reason_for_kind :: "event_kind \<Rightarrow> reason_code option" where
  "reason_for_kind Parse_failed = Some PARSE_FAILED"
| "reason_for_kind Async_pending = Some ASYNC_INCOMPLETE"
| "reason_for_kind Missing_amount = Some MISSING_AMOUNT"
| "reason_for_kind Missing_usage = Some MISSING_USAGE"
| "reason_for_kind Reported_cost = None"
| "reason_for_kind Usage_rated = None"

fun reason_str :: "reason_code \<Rightarrow> string" where
  "reason_str MISSING_AMOUNT = ''MISSING_AMOUNT''"
| "reason_str MISSING_USAGE = ''MISSING_USAGE''"
| "reason_str PARSE_FAILED = ''PARSE_FAILED''"
| "reason_str ASYNC_INCOMPLETE = ''ASYNC_INCOMPLETE''"

subsection \<open>State\<close>

record recon_config =
  rcf_threshold :: int
  rcf_sla :: int
  rcf_max :: int
  rcf_owner :: string

definition default_config :: recon_config where
  "default_config =
     \<lparr>rcf_threshold = 0, rcf_sla = hours 1, rcf_max = 50, rcf_owner = ''billing-oncall''\<rparr>"

record recon =
  rc_ledger :: ledger
  rc_seen :: "string list"
  rc_cases :: "(string, unresolved_case) dict"
  rc_tickets :: "recon_ticket list"
  rc_audits :: "(string \<times> pyval) list list"
  rc_previews :: "(uuid, reverse_preview) dict"
  rc_amounts :: "(string, int \<times> int \<times> int \<times> string) dict"
  rc_rate :: "(string, string) dict"
  rc_conn :: "(string, string) dict"

definition new_recon :: "ledger \<Rightarrow> recon" where
  "new_recon l = \<lparr>rc_ledger = l, rc_seen = [], rc_cases = [], rc_tickets = [], rc_audits = [],
     rc_previews = [], rc_amounts = [], rc_rate = [], rc_conn = []\<rparr>"

type_synonym 'a recon_op = "(recon, ledger_error, 'a) op"

definition on_ledger :: "'a ledger_op \<Rightarrow> 'a recon_op" where
  "on_ledger m = zoom rc_ledger (\<lambda>l s. s\<lparr>rc_ledger := l\<rparr>) (\<lambda>e. e) m"

definition put_case :: "unresolved_case \<Rightarrow> unit recon_op" where
  "put_case c = modify (\<lambda>s. s\<lparr>rc_cases := dict_set (c_request_id c) c (rc_cases s)\<rparr>)"

definition add_ticket :: "recon_ticket \<Rightarrow> unit recon_op" where
  "add_ticket t = modify (\<lambda>s. s\<lparr>rc_tickets := rc_tickets s @ [t]\<rparr>)"

subsection \<open>Evidence\<close>

definition open_case ::
  "recon_config \<Rightarrow> instant \<Rightarrow> evidence_event \<Rightarrow> reason_code \<Rightarrow> int \<Rightarrow> string \<Rightarrow> unresolved_case recon_op" where
  "open_case cfg now ev reason exposure_minor rate =
     bindE (on_ledger (mark_unresolved (ev_request_id ev) (reason_str reason))) (\<lambda>_.
     bindE (gets (\<lambda>s. dict_get (rc_conn s) (ev_request_id ev))) (\<lambda>conn.
     let c = \<lparr>c_request_id = ev_request_id ev, c_reason_code = reason,
              c_amount_exposure = exposure_minor, c_next_action = Wait_callback,
              c_owner = rcf_owner cfg, c_status = Case_open, c_missing_evidence = ev_kind ev,
              c_retry_at = Some (now + minutes 1), c_sla_until = Some (now + rcf_sla cfg),
              c_connection_id = or_str (Some (ev_connection_id ev)) (case conn of None \<Rightarrow> [] | Some x \<Rightarrow> x),
              c_rate_version = rate, c_updated_at = now\<rparr>
     in bindE (put_case c) (\<lambda>_. ret c)))"

definition variance_ticket ::
  "recon_config \<Rightarrow> instant \<Rightarrow> evidence_event \<Rightarrow> int \<Rightarrow> unit recon_op" where
  "variance_ticket cfg now ev buyer =
     (case ev_computed_buyer ev of
        None \<Rightarrow> ret ()
      | Some computed \<Rightarrow>
          when_op (ev_kind ev = Reported_cost \<and> \<bar>buyer - computed\<bar> > rcf_threshold cfg)
            (bindE (on_ledger new_id) (\<lambda>tid. add_ticket
              \<lparr>t_ticket_id = tid, t_kind = VARIANCE, t_request_id = ev_request_id ev,
               t_detail = ''reported vs computed'', t_created_at = now,
               t_reported_minor = Some buyer, t_computed_minor = Some computed\<rparr>)))"

definition recover_case :: "instant \<Rightarrow> string \<Rightarrow> unit recon_op" where
  "recover_case now request_id = bindE (gets (\<lambda>s. dict_get (rc_cases s) request_id)) (\<lambda>found.
     case found of
       None \<Rightarrow> ret ()
     | Some c \<Rightarrow> modify (\<lambda>s. s\<lparr>rc_cases := dict_set request_id
         (c\<lparr>c_status := Case_recovered, c_updated_at := now\<rparr>) (rc_cases s)\<rparr>))"

definition settle_or_delta ::
  "recon_config \<Rightarrow> instant \<Rightarrow> evidence_event \<Rightarrow> string \<Rightarrow> journal option recon_op" where
  "settle_or_delta cfg now ev rate =
     (case (ev_buyer_debit ev, ev_seller_earning ev, ev_spread ev) of
        (Some buyer, Some seller, Some spread) \<Rightarrow>
          bindE (variance_ticket cfg now ev buyer) (\<lambda>_.
          bindE (modify (\<lambda>s. s\<lparr>rc_amounts := dict_set (ev_request_id ev)
                   (buyer, seller, spread, ev_seller_id ev) (rc_amounts s)\<rparr>)) (\<lambda>_.
          bindE (on_ledger (require_res (ev_request_id ev))) (\<lambda>rec.
          if r_status rec = R_consumed \<and> ev_kind ev = Usage_rated then ret None
          else
          bindE (if r_status rec = R_consumed
                 then on_ledger (apply_delta now (ev_request_id ev) buyer seller spread (ev_seller_id ev)
                        rate (ev_evidence_digest ev))
                 else on_ledger (settle now (ev_request_id ev) buyer seller spread (ev_seller_id ev)
                        rate (ev_evidence_digest ev))) (\<lambda>j.
          bindE (recover_case now (ev_request_id ev)) (\<lambda>_.
          ret (Some j))))))
      | _ \<Rightarrow> ret None)"

datatype ingest_result = Opened unresolved_case | Journalled journal | Ignored

definition ingest :: "recon_config \<Rightarrow> instant \<Rightarrow> evidence_event \<Rightarrow> ingest_result recon_op" where
  "ingest cfg now ev = bindE (gets rc_seen) (\<lambda>seen.
     if ev_event_id ev \<in> set seen then ret Ignored
     else
     bindE (modify (\<lambda>s. s\<lparr>rc_seen := ev_event_id ev # rc_seen s\<rparr>)) (\<lambda>_.
     bindE (on_ledger (require_res (ev_request_id ev))) (\<lambda>rec.
     bindE (modify (\<lambda>s. s\<lparr>rc_rate := dict_set (ev_request_id ev) (r_rate_version rec) (rc_rate s)\<rparr>)) (\<lambda>_.
     bindE (when_op (ev_connection_id ev \<noteq> [])
       (modify (\<lambda>s. s\<lparr>rc_conn := dict_set (ev_request_id ev) (ev_connection_id ev) (rc_conn s)\<rparr>))) (\<lambda>_.
     case reason_for_kind (ev_kind ev) of
       Some reason \<Rightarrow>
         bindE (open_case cfg now ev reason (r_amount rec) (r_rate_version rec)) (\<lambda>c. ret (Opened c))
     | None \<Rightarrow>
         bindE (settle_or_delta cfg now ev (r_rate_version rec)) (\<lambda>j.
         ret (case j of None \<Rightarrow> Ignored | Some x \<Rightarrow> Journalled x)))))))"

subsection \<open>The periodic tick\<close>

definition settle_case :: "instant \<Rightarrow> unresolved_case \<Rightarrow> int \<times> int \<times> int \<times> string \<Rightarrow> unit recon_op" where
  "settle_case now c amounts = (case amounts of (buyer, seller, spread, sid) \<Rightarrow>
     bindE (gets (\<lambda>s. dict_get (rc_rate s) (c_request_id c))) (\<lambda>rate.
     bindE (if truthy rate then ret (the rate)
            else bindE (on_ledger (require_res (c_request_id c))) (\<lambda>rec. ret (r_rate_version rec))) (\<lambda>rv.
     bindE (on_ledger (settle now (c_request_id c) buyer seller spread sid rv [])) (\<lambda>_.
     put_case (c\<lparr>c_status := Case_recovered, c_updated_at := now\<rparr>)))))"

fun tick_loop :: "recon_config \<Rightarrow> instant \<Rightarrow> unresolved_case list \<Rightarrow> int \<Rightarrow> int recon_op" where
  "tick_loop cfg now [] processed = ret processed"
| "tick_loop cfg now (c # cs) processed =
     (if processed \<ge> rcf_max cfg then ret processed
      else if c_status c \<noteq> Case_open then tick_loop cfg now cs processed
      else if (case c_sla_until c of None \<Rightarrow> False | Some u \<Rightarrow> now \<ge> u) then
        bindE (put_case (c\<lparr>c_next_action := Manual_action, c_status := Case_manual, c_updated_at := now\<rparr>)) (\<lambda>_.
        tick_loop cfg now cs processed)
      else if (case c_retry_at c of None \<Rightarrow> False | Some u \<Rightarrow> now < u) then tick_loop cfg now cs processed
      else
        bindE (gets (\<lambda>s. dict_get (rc_amounts s) (c_request_id c))) (\<lambda>known.
        bindE (case known of
                 Some amounts \<Rightarrow> settle_case now c amounts
               | None \<Rightarrow> put_case (c\<lparr>c_next_action := Retry, c_retry_at := Some (now + minutes 5),
                                    c_updated_at := now\<rparr>)) (\<lambda>_.
        tick_loop cfg now cs (processed + 1))))"

definition tick :: "recon_config \<Rightarrow> instant \<Rightarrow> int recon_op" where
  "tick cfg now = bindE (gets (\<lambda>s. dict_values (rc_cases s))) (\<lambda>cs. tick_loop cfg now cs 0)"

definition recon_cases :: "recon \<Rightarrow> unresolved_case list" where
  "recon_cases s = dict_values (rc_cases s)"

definition recon_tickets :: "recon \<Rightarrow> recon_ticket list" where
  "recon_tickets s = rc_tickets s"

definition recon_audits :: "recon \<Rightarrow> (string \<times> pyval) list list" where
  "recon_audits s = rc_audits s"

subsection \<open>Reversing with a preview\<close>

definition preview_reverse :: "string \<Rightarrow> reverse_preview recon_op" where
  "preview_reverse request_id = bindE (on_ledger (require_res request_id)) (\<lambda>rec.
     bindE (require (r_status rec = R_consumed) (ledger_err Already_terminal)) (\<lambda>_.
     bindE (gets (\<lambda>s. map entry_id (filter (\<lambda>e. e_request_id e = request_id \<and> e_status e = E_settled)
                        (entries (rc_ledger s))))) (\<lambda>originals.
     bindE (gets (\<lambda>s. net_settled request_id Buyer_quota (rc_ledger s))) (\<lambda>net.
     bindE (on_ledger new_id) (\<lambda>pid.
     let prev = \<lparr>pv_preview_id = pid, pv_request_id = request_id, pv_original_entry_ids = originals,
                 pv_net_buyer_delta = - fst net\<rparr>
     in bindE (modify (\<lambda>s. s\<lparr>rc_previews := dict_set pid prev (rc_previews s)\<rparr>)) (\<lambda>_. ret prev))))))"

definition reverse_audit ::
  "instant \<Rightarrow> string \<Rightarrow> string \<Rightarrow> string \<Rightarrow> string \<Rightarrow> uuid \<Rightarrow> journal \<Rightarrow> (string \<times> pyval) list" where
  "reverse_audit now actor role reason request_id preview_id j =
     [(''actor'', PyStr actor), (''role'', PyStr role), (''step_up'', PyBool True),
      (''reason'', PyStr (py_strip reason)), (''request_id'', PyStr request_id),
      (''preview_id'', PyUuid preview_id), (''journal_id'', PyUuid (j_journal_id j)),
      (''at'', PyTime now)]"

definition apply_reverse ::
  "instant \<Rightarrow> string \<Rightarrow> string \<Rightarrow> string \<Rightarrow> bool \<Rightarrow> string \<Rightarrow> uuid \<Rightarrow> journal recon_op" where
  "apply_reverse now request_id actor role step_up reason preview_id =
     bindE (require (role \<in> {''admin'', ''finance''}) (LedgerError Forbidden_role 403)) (\<lambda>_.
     bindE (require step_up (LedgerError Step_up_required 409)) (\<lambda>_.
     bindE (require (py_strip reason \<noteq> []) (LedgerError Validation 400)) (\<lambda>_.
     bindE (gets (\<lambda>s. dict_get (rc_previews s) preview_id)) (\<lambda>found.
     bindE (of_option (LedgerError Validation 400) found) (\<lambda>prev.
     bindE (require (pv_request_id prev = request_id) (LedgerError Validation 400)) (\<lambda>_.
     bindE (on_ledger (reverse_request now request_id)) (\<lambda>j.
     bindE (gets (\<lambda>s. map entry_id (entries (rc_ledger s)))) (\<lambda>still.
     bindE (require (set (pv_original_entry_ids prev) \<subseteq> set still) (ledger_err Immutable_entry)) (\<lambda>_.
     bindE (modify (\<lambda>s. s\<lparr>rc_audits := rc_audits s @
              [reverse_audit now actor role reason request_id preview_id j]\<rparr>)) (\<lambda>_.
     ret j))))))))))"

subsection \<open>The daily report\<close>

definition is_orphan :: "recon \<Rightarrow> reservation \<Rightarrow> bool" where
  "is_orphan s rec \<longleftrightarrow>
     (let found = dict_get (rc_cases s) (r_request_id rec) in
      if r_status rec = R_consumed \<or> r_status rec = R_released then False
      else if r_status rec = R_unresolved \<and> found \<noteq> None then False
      else if r_status rec = R_held \<and> found = None then True
      else r_status rec = R_unresolved \<and> found = None)"

definition orphans :: "recon \<Rightarrow> string list" where
  "orphans s = map r_request_id (filter (is_orphan s) (list_reservations (rc_ledger s)))"

fun balance_loop :: "instant \<Rightarrow> reservation list \<Rightarrow> bool \<Rightarrow> bool recon_op" where
  "balance_loop now [] balanced = ret balanced"
| "balance_loop now (rec # recs) balanced =
     (if r_status rec \<noteq> R_consumed then balance_loop now recs balanced
      else
      bindE (gets (\<lambda>s. fst (net_settled (r_request_id rec) Buyer_quota (rc_ledger s)))) (\<lambda>b.
      bindE (gets (\<lambda>s. snd (net_settled (r_request_id rec) Seller_earning (rc_ledger s)))) (\<lambda>sl.
      bindE (gets (\<lambda>s. snd (net_settled (r_request_id rec) Platform_spread (rc_ledger s)))) (\<lambda>p.
      if b \<noteq> sl + p then
        bindE (on_ledger new_id) (\<lambda>tid.
        bindE (add_ticket \<lparr>t_ticket_id = tid, t_kind = UNBALANCED_BOOKS, t_request_id = r_request_id rec,
          t_detail = ''buyer='' @ int_str b @ '' seller='' @ int_str sl @ '' spread='' @ int_str p,
          t_created_at = now, t_reported_minor = None, t_computed_minor = None\<rparr>) (\<lambda>_.
        balance_loop now recs False))
      else balance_loop now recs balanced))))"

definition orphan_ticket :: "instant \<Rightarrow> string \<Rightarrow> unit recon_op" where
  "orphan_ticket now oid = bindE (on_ledger new_id) (\<lambda>tid. add_ticket
     \<lparr>t_ticket_id = tid, t_kind = ORPHAN, t_request_id = oid,
      t_detail = ''reservation without terminal state or case'', t_created_at = now,
      t_reported_minor = None, t_computed_minor = None\<rparr>)"

definition make_daily_report :: "instant \<Rightarrow> daily_report recon_op" where
  "make_daily_report now = bindE (gets orphans) (\<lambda>orphan_ids.
     bindE (gets (\<lambda>s. list_reservations (rc_ledger s))) (\<lambda>recs.
     bindE (balance_loop now recs True) (\<lambda>balanced.
     bindE (for_each (orphan_ticket now) orphan_ids) (\<lambda>_.
     bindE (gets (\<lambda>s. length (filter (\<lambda>c. c_status c \<in> {Case_open, Case_manual}) (dict_values (rc_cases s))))) (\<lambda>open_n.
     bindE (gets (\<lambda>s. length (rc_tickets s))) (\<lambda>tickets.
     ret \<lparr>dr_balanced = balanced, dr_orphan_request_ids = orphan_ids, dr_ticket_count = tickets,
          dr_open_unresolved = open_n,
          dr_aggregate_matches_detail = (balanced \<and> orphan_ids = [])\<rparr>))))))"

text \<open>Runs.\<close>

datatype recon_call =
    Ingest instant evidence_event
  | Tick instant
  | Preview_reverse string
  | Apply_reverse instant string string string bool string uuid
  | Daily_report instant
  | Ledger_call ledger_call

definition recon_do :: "recon_config \<Rightarrow> recon_call \<Rightarrow> unit recon_op" where
  "recon_do cfg c = (case c of
     Ingest now ev \<Rightarrow> discard (ingest cfg now ev)
   | Tick now \<Rightarrow> discard (tick cfg now)
   | Preview_reverse r \<Rightarrow> discard (preview_reverse r)
   | Apply_reverse now r actor role su reason pid \<Rightarrow> discard (apply_reverse now r actor role su reason pid)
   | Daily_report now \<Rightarrow> discard (make_daily_report now)
   | Ledger_call lc \<Rightarrow> on_ledger (ledger_do lc))"

definition recon_run :: "recon_config \<Rightarrow> recon_call list \<Rightarrow> recon \<Rightarrow> recon" where
  "recon_run cfg cs s = fold (\<lambda>c s. snd (recon_do cfg c s)) cs s"

end
