(* ===== verification/Recon_Facts.thy ===== *)
theory Recon_Facts
  imports Recon
begin

section \<open>Facts about reconciliation\<close>

text \<open>
  Every operation of the service grows the ledger and its own logs (\<open>recon_le\<close>, an instance of the
  evolution rules): evidence is processed once, reversals are guarded and audited, the tick is
  rate limited and leaves closed cases alone, and the daily report says exactly what the books say.
\<close>

subsection \<open>Growth\<close>

lemma ledger_inv_fresh: "ledger_inv s \<Longrightarrow> ledger_inv (fresh s)"
  by (auto simp: ledger_inv_def core_inv_def ids_ok_def idem_ok_def holds_ok_def all_stored_def
      list_all_iff fresh_def [of s] exposure_def list_reservations_def store_list_reservations_def
      outstanding_def total_on_def entries_for_def intro: less_SucI)

lemma ledger_le_fresh: "ledger_le s (fresh s)"
  by (simp add: ledger_le_def fresh_def)

definition ledger_evolves :: "ledger \<Rightarrow> ledger \<Rightarrow> bool" where
  "ledger_evolves s t \<longleftrightarrow> (ledger_inv s \<longrightarrow> ledger_inv t \<and> ledger_le s t)"

interpretation ledger_evolution: evolution ledger_evolves
  by unfold_locales (auto simp: ledger_evolves_def intro: ledger_growth.refl ledger_growth.trans)

definition recon_le :: "recon \<Rightarrow> recon \<Rightarrow> bool" where
  "recon_le s t \<longleftrightarrow> ledger_evolves (rc_ledger s) (rc_ledger t) \<and> set (rc_seen s) \<subseteq> set (rc_seen t) \<and>
     (\<exists>new. rc_audits t = rc_audits s @ new) \<and> (\<exists>new. rc_tickets t = rc_tickets s @ new)"

interpretation recon_growth: evolution recon_le
proof unfold_locales
  show "recon_le s s" for s by (simp add: recon_le_def ledger_evolution.refl)
  show "recon_le s t \<Longrightarrow> recon_le t u \<Longrightarrow> recon_le s u" for s t u
    unfolding recon_le_def by (metis append_assoc ledger_evolution.trans subset_trans)
qed

lemmas [evolve] = ledger_evolution.rules recon_growth.rules

lemma effect_evolves:
  assumes "\<And>s. core_inv s \<Longrightarrow> ledger_effect s (snd (m s))"
  shows "evolves ledger_evolves m"
  unfolding evolves_def ledger_evolves_def
  using assms ledger_effect_inv ledger_effect_le ledger_inv_core by blast

lemma ledger_do_evolves [evolve]: "evolves ledger_evolves (ledger_do c)"
  by (rule effect_evolves) (rule ledger_do_effect)

lemma discarded_evolves: "evolves R (discard m) \<Longrightarrow> evolves R m"
  by (simp add: evolves_def)

lemma ledger_ops_evolve [evolve]:
  "evolves ledger_evolves (settle now r bd se sp sel rv dg)"
  "evolves ledger_evolves (apply_delta now r bd se sp sel rv dg)"
  "evolves ledger_evolves (mark_unresolved r reason)"
  "evolves ledger_evolves (reverse_request now r)"
  using ledger_do_evolves [of "Settle now r bd se sp sel rv dg"]
    ledger_do_evolves [of "Apply_delta now r bd se sp sel rv dg"]
    ledger_do_evolves [of "Mark_unresolved r reason"] ledger_do_evolves [of "Reverse_request now r"]
  by (auto intro: discarded_evolves)

lemma new_id_evolves [evolve]: "evolves ledger_evolves new_id"
  by (auto simp: evolves_def ledger_evolves_def new_id_run ledger_inv_fresh ledger_le_fresh)

lemma require_res_evolves [evolve]: "evolves ledger_evolves (require_res r)"
  unfolding require_res_def by (intro evolve)

lemma on_ledger_evolves [evolve]: "evolves ledger_evolves m \<Longrightarrow> evolves recon_le (on_ledger m)"
  by (auto simp: evolves_def on_ledger_def run recon_le_def split: prod.splits sum.splits)
    (metis snd_conv)+

lemma recon_writes [evolve]:
  "evolves recon_le (put_case c)"
  "evolves recon_le (add_ticket tk)"
  "evolves recon_le (modify (\<lambda>s. s\<lparr>rc_amounts := am s\<rparr>))"
  "evolves recon_le (modify (\<lambda>s. s\<lparr>rc_rate := rt s\<rparr>))"
  "evolves recon_le (modify (\<lambda>s. s\<lparr>rc_conn := cn s\<rparr>))"
  "evolves recon_le (modify (\<lambda>s. s\<lparr>rc_cases := cs s\<rparr>))"
  "evolves recon_le (modify (\<lambda>s. s\<lparr>rc_previews := pv s\<rparr>))"
  "evolves recon_le (modify (\<lambda>s. s\<lparr>rc_seen := x # rc_seen s\<rparr>))"
  "evolves recon_le (modify (\<lambda>s. s\<lparr>rc_audits := rc_audits s @ new s\<rparr>))"
  by (auto simp: evolves_def put_case_def add_ticket_def run recon_le_def ledger_evolution.refl)

lemma open_case_evolves [evolve]: "evolves recon_le (open_case cfg now ev reason m rate)"
  unfolding open_case_def Let_def by (intro evolve)

lemma variance_ticket_evolves [evolve]: "evolves recon_le (variance_ticket cfg now ev b)"
  unfolding variance_ticket_def by (intro evolve)

lemma recover_case_evolves [evolve]: "evolves recon_le (recover_case now r)"
  unfolding recover_case_def by (intro evolve)

lemma settle_or_delta_evolves [evolve]: "evolves recon_le (settle_or_delta cfg now ev rate)"
  unfolding settle_or_delta_def by (intro evolve)

lemma ingest_evolves [evolve]: "evolves recon_le (ingest cfg now ev)"
  unfolding ingest_def by (intro evolve)

lemma settle_case_evolves [evolve]: "evolves recon_le (settle_case now c am)"
  unfolding settle_case_def by (intro evolve)

lemma tick_loop_evolves [evolve]: "evolves recon_le (tick_loop cfg now cs n)"
  by (induction cs arbitrary: n) (auto intro!: evolve)

lemma balance_loop_evolves [evolve]: "evolves recon_le (balance_loop now recs b)"
  by (induction recs arbitrary: b) (auto intro!: evolve)

lemma recon_do_evolves: "evolves recon_le (recon_do cfg c)"
  unfolding recon_do_def discard_def tick_def preview_reverse_def apply_reverse_def
    make_daily_report_def orphan_ticket_def Let_def
  by (cases c) (auto intro!: evolve)

lemma recon_run_le: "recon_le s (recon_run cfg cs s)"
proof (induction cs arbitrary: s)
  case Nil
  show ?case by (simp add: recon_run_def recon_growth.refl)
next
  case (Cons c cs)
  have "recon_le s (snd (recon_do cfg c s))" using recon_do_evolves by (simp add: evolves_def)
  moreover have "recon_le (snd (recon_do cfg c s)) (recon_run cfg (c # cs) s)"
    using Cons by (simp add: recon_run_def)
  ultimately show ?case by (rule recon_growth.trans)
qed

subsection \<open>Evidence is processed once\<close>

lemma ingest_marks_seen: "ev_event_id ev \<in> set (rc_seen (snd (ingest cfg now ev s)))"
proof (cases "ev_event_id ev \<in> set (rc_seen s)")
  case True
  then show ?thesis by (simp add: ingest_def run)
next
  case False
  let ?rest = "bindE (on_ledger (require_res (ev_request_id ev))) (\<lambda>rec.
     bindE (modify (\<lambda>s. s\<lparr>rc_rate := dict_set (ev_request_id ev) (r_rate_version rec) (rc_rate s)\<rparr>)) (\<lambda>_.
     bindE (when_op (ev_connection_id ev \<noteq> [])
       (modify (\<lambda>s. s\<lparr>rc_conn := dict_set (ev_request_id ev) (ev_connection_id ev) (rc_conn s)\<rparr>))) (\<lambda>_.
     case reason_for_kind (ev_kind ev) of
       Some reason \<Rightarrow>
         bindE (open_case cfg now ev reason (r_amount rec) (r_rate_version rec)) (\<lambda>c. ret (Opened c))
     | None \<Rightarrow>
         bindE (settle_or_delta cfg now ev (r_rate_version rec)) (\<lambda>j.
         ret (case j of None \<Rightarrow> Ignored | Some x \<Rightarrow> Journalled x)))))"
  have "evolves recon_le ?rest" by (intro evolve)
  then have "recon_le (s\<lparr>rc_seen := ev_event_id ev # rc_seen s\<rparr>)
      (snd (?rest (s\<lparr>rc_seen := ev_event_id ev # rc_seen s\<rparr>)))"
    by (simp add: evolves_def)
  moreover have "snd (ingest cfg now ev s) = snd (?rest (s\<lparr>rc_seen := ev_event_id ev # rc_seen s\<rparr>))"
    using False by (simp add: ingest_def bindE_def [of "gets rc_seen"] bindE_def [of "modify f" for f]
        gets_def modify_def)
  ultimately show ?thesis by (auto simp: recon_le_def)
qed

text \<open>Evidence is processed at most once: after an event was ingested, and whatever
  happens afterwards, a redelivery of the same event identifier changes nothing and returns
  nothing. (That includes an event whose first processing raised: its redelivery is dropped.)\<close>

theorem evidence_processed_once:
  assumes "ev_event_id ev' = ev_event_id ev"
  shows "ingest cfg now' ev' (recon_run cfg' cs (snd (ingest cfg now ev s))) =
    (Inr Ignored, recon_run cfg' cs (snd (ingest cfg now ev s)))"
proof -
  have "ev_event_id ev \<in> set (rc_seen (recon_run cfg' cs (snd (ingest cfg now ev s))))"
    using recon_run_le [of "snd (ingest cfg now ev s)" cfg' cs] ingest_marks_seen [of ev cfg now s]
    by (auto simp: recon_le_def)
  then show ?thesis using assms by (simp add: ingest_def run)
qed

definition sample_event :: evidence_event where
  "sample_event = \<lparr>ev_event_id = ''e1'', ev_request_id = ''r'', ev_kind = Missing_amount,
     ev_buyer_debit = None, ev_seller_earning = None, ev_spread = None, ev_seller_id = ''seller-1'',
     ev_rate_version = None, ev_evidence_digest = [], ev_connection_id = [], ev_computed_buyer = None\<rparr>"

theorem evidence_processed_once_witness:
  "ingest default_config 9 (sample_event\<lparr>ev_kind := Parse_failed\<rparr>)
     (recon_run default_config [Tick 5] (snd (ingest default_config 1 sample_event (new_recon held_ledger)))) =
   (Inr Ignored, recon_run default_config [Tick 5] (snd (ingest default_config 1 sample_event (new_recon held_ledger))))"
  by (rule evidence_processed_once) simp

text \<open>An event for a request that is not reserved yet raises and is lost for good.\<close>

lemma early_event_dropped:
  "ingest default_config 1 sample_event (new_recon seeded_ledger) =
     (Inl (LedgerError Not_found 404), (new_recon seeded_ledger)\<lparr>rc_seen := [''e1'']\<rparr>) \<and>
   ingest default_config 2 sample_event ((new_recon held_ledger)\<lparr>rc_seen := [''e1'']\<rparr>) =
     (Inr Ignored, (new_recon held_ledger)\<lparr>rc_seen := [''e1'']\<rparr>)"
  by (simp add: ingest_def run sample_event_def new_recon_def on_ledger_def require_res_def
      seeded_reservations)

subsection \<open>Reversals are guarded\<close>

text \<open>A reversal takes effect only for an admin or finance role, with a step-up check, a
  reason that is not blank and a preview taken for the same request. It then appends one audit
  record, keeps every entry that was there (the previewed originals among them), and ends the
  request as released.\<close>

theorem reverse_guarded:
  assumes "ledger_inv (rc_ledger s)" and "apply_reverse now r actor role su reason pid s = (Inr j, t)"
  shows "role \<in> {''admin'', ''finance''} \<and> su \<and> py_strip reason \<noteq> [] \<and>
    (\<exists>prev. dict_get (rc_previews s) pid = Some prev \<and> pv_request_id prev = r \<and>
       set (pv_original_entry_ids prev) \<subseteq> set (map entry_id (l_entries (rc_ledger t)))) \<and>
    rc_audits t = rc_audits s @ [reverse_audit now actor role reason r pid j] \<and>
    take (length (l_entries (rc_ledger s))) (l_entries (rc_ledger t)) = l_entries (rc_ledger s) \<and>
    map_option r_status (get_reservation (rc_ledger t) r) = Some R_released"
proof -
  obtain prev u where p: "dict_get (rc_previews s) pid = Some prev" "pv_request_id prev = r"
    and rev: "reverse_request now r (rc_ledger s) = (Inr j, u)"
    and orig: "set (pv_original_entry_ids prev) \<subseteq> set (map entry_id (l_entries u))"
    and t: "t = (s\<lparr>rc_ledger := u\<rparr>)\<lparr>rc_audits := rc_audits s @ [reverse_audit now actor role reason r pid j]\<rparr>"
    and g: "role \<in> {''admin'', ''finance''}" "su" "py_strip reason \<noteq> []"
    using assms(2)
    by (auto simp: apply_reverse_def on_ledger_def run entries_def list_entries_def
        split: if_splits option.splits prod.splits sum.splits)
  have "ledger_evolves (rc_ledger s) u"
    using rev evolvesD [OF ledger_ops_evolve(4)] by blast
  then have "ledger_le (rc_ledger s) u" using assms(1) by (simp add: ledger_evolves_def)
  then have hist: "take (length (l_entries (rc_ledger s))) (l_entries u) = l_entries (rc_ledger s)"
    by (auto simp: ledger_le_def)
  note core = ledger_inv_core [OF assms(1)]
  obtain rec where rec: "get_reservation (rc_ledger s) r = Some rec" "r_status rec = R_consumed"
    "settled_entries r (rc_ledger s) \<noteq> []"
    using rev by (auto simp: reverse_request_def require_res_def run split: option.splits if_splits)
  have "map_option r_status (get_reservation u r) = Some R_released"
    using reverse_run [OF core_with_res [OF core rec(1)] rec(2,3) core_settled_entries [OF core], of now] rev
    by auto
  then show ?thesis using g p orig hist by (simp add: t)
qed

definition sample_preview :: reverse_preview where
  "sample_preview = \<lparr>pv_preview_id = 99, pv_request_id = ''r'', pv_original_entry_ids = [],
     pv_net_buyer_delta = - 100\<rparr>"

definition previewed_recon :: recon where
  "previewed_recon = (new_recon settled_ledger)\<lparr>rc_previews := [(99, sample_preview)]\<rparr>"

lemma settled_inv: "ledger_inv settled_ledger"
  by (rule reach_inv [OF sample_reach(3)])

lemma settled_entries_settled: "settled_entries ''r'' settled_ledger \<noteq> []"
  unfolding settled_ledger_def by (simp add: settle_posts_settled)

lemma sample_reverse:
  "\<exists>j t. apply_reverse 5 ''r'' ''bob'' ''finance'' True '' fix '' 99 previewed_recon = (Inr j, t)"
proof -
  have "py_strip '' fix '' \<noteq> []" by (simp add: py_strip_def py_isspace_def)
  then show ?thesis
    using reverse_run [OF settled_with_res settled_sel(1) settled_entries_settled
        core_settled_entries [OF ledger_inv_core [OF settled_inv]], of 5]
    by (simp add: apply_reverse_def previewed_recon_def new_recon_def on_ledger_def run sample_preview_def)
qed

theorem reverse_guarded_witness:
  "\<exists>j t. apply_reverse 5 ''r'' ''bob'' ''finance'' True '' fix '' 99 previewed_recon = (Inr j, t) \<and>
    rc_audits t = rc_audits previewed_recon @ [reverse_audit 5 ''bob'' ''finance'' '' fix '' ''r'' 99 j] \<and>
    map_option r_status (get_reservation (rc_ledger t) ''r'') = Some R_released"
proof -
  obtain j t where run: "apply_reverse 5 ''r'' ''bob'' ''finance'' True '' fix '' 99 previewed_recon = (Inr j, t)"
    using sample_reverse by blast
  have "ledger_inv (rc_ledger previewed_recon)" by (simp add: previewed_recon_def new_recon_def settled_inv)
  from reverse_guarded [OF this run] run show ?thesis by blast
qed

subsection \<open>The tick\<close>

definition cases_ok :: "recon \<Rightarrow> bool" where
  "cases_ok s \<longleftrightarrow> dict_ok (rc_cases s) \<and> (\<forall>k c. dict_get (rc_cases s) k = Some c \<longrightarrow> c_request_id c = k)"

lemma on_ledger_cases [simp]: "rc_cases (snd (on_ledger m s)) = rc_cases s"
  by (simp add: on_ledger_def run split: prod.split sum.split)

lemma settle_case_cases:
  "settle_case now c am s = (Inr (), t) \<Longrightarrow>
     rc_cases t = dict_set (c_request_id c) (c\<lparr>c_status := Case_recovered, c_updated_at := now\<rparr>) (rc_cases s)"
  by (auto simp: settle_case_def put_case_def run on_ledger_def split: prod.splits sum.splits if_splits)

text \<open>What one tick may do to a case: leave it, retry it, escalate it, or recover it.\<close>

definition case_step :: "instant \<Rightarrow> unresolved_case \<Rightarrow> unresolved_case \<Rightarrow> bool" where
  "case_step now c d \<longleftrightarrow> d = c \<or> c_status c = Case_open \<and>
     (d = c\<lparr>c_next_action := Manual_action, c_status := Case_manual, c_updated_at := now\<rparr> \<and>
        (\<exists>u. c_sla_until c = Some u \<and> u \<le> now) \<or>
      d = c\<lparr>c_status := Case_recovered, c_updated_at := now\<rparr> \<or>
      d = c\<lparr>c_next_action := Retry, c_retry_at := Some (now + minutes 5), c_updated_at := now\<rparr>)"

definition cases_step :: "instant \<Rightarrow> unresolved_case list \<Rightarrow> recon \<Rightarrow> recon \<Rightarrow> bool" where
  "cases_step now cs s t \<longleftrightarrow> (\<forall>k. case dict_get (rc_cases s) k of
       None \<Rightarrow> dict_get (rc_cases t) k = None
     | Some c \<Rightarrow> (\<exists>d. dict_get (rc_cases t) k = Some d \<and> case_step now c d \<and> (c \<notin> set cs \<longrightarrow> d = c)))"

lemma cases_step_refl: "cases_step now cs s s"
  by (auto simp: cases_step_def case_step_def split: option.split)

lemma tick_one:
  assumes "dict_get (rc_cases s) (c_request_id c) = Some c" and "c_request_id d = c_request_id c"
    and "case_step now c d" and u: "rc_cases u = dict_set (c_request_id c) d (rc_cases s)"
    and cs: "distinct (map c_request_id (c # cs))"
    and later: "cases_step now cs u t"
  shows "cases_step now (c # cs) s t"
  unfolding cases_step_def
proof (intro allI)
  fix k
  have "d \<notin> set cs" using cs assms(2) imageI [of d "set cs" c_request_id] by auto
  then show "case dict_get (rc_cases s) k of
       None \<Rightarrow> dict_get (rc_cases t) k = None
     | Some c' \<Rightarrow> \<exists>d. dict_get (rc_cases t) k = Some d \<and> case_step now c' d \<and> (c' \<notin> set (c # cs) \<longrightarrow> d = c')"
    using later [unfolded cases_step_def, THEN spec, of k] assms(1,3) u
    by (cases "k = c_request_id c") (auto split: option.splits)
qed

definition current :: "unresolved_case list \<Rightarrow> recon \<Rightarrow> bool" where
  "current cs s \<longleftrightarrow> distinct (map c_request_id cs) \<and>
     (\<forall>c\<in>set cs. dict_get (rc_cases s) (c_request_id c) = Some c)"

lemma current_rest:
  assumes "current (c # cs) s" and "c_request_id d = c_request_id c"
    and u: "rc_cases u = dict_set (c_request_id c) d (rc_cases s)"
  shows "current cs u"
proof -
  have notin: "c_request_id c \<notin> c_request_id ` set cs" and dist: "distinct (map c_request_id cs)"
    and get: "\<forall>x\<in>set cs. dict_get (rc_cases s) (c_request_id x) = Some x"
    using assms(1) by (simp_all add: current_def)
  have "dict_get (rc_cases u) (c_request_id x) = Some x" if "x \<in> set cs" for x
  proof -
    have "c_request_id x \<noteq> c_request_id c" using notin that by (metis imageI)
    then show ?thesis using get that by (simp add: u)
  qed
  with dist show ?thesis by (simp add: current_def)
qed

lemma cases_step_skip:
  assumes "cases_step now cs s t"
  shows "cases_step now (c # cs) s t"
  unfolding cases_step_def
proof (intro allI)
  fix k
  show "case dict_get (rc_cases s) k of
       None \<Rightarrow> dict_get (rc_cases t) k = None
     | Some c' \<Rightarrow> \<exists>d. dict_get (rc_cases t) k = Some d \<and> case_step now c' d \<and> (c' \<notin> set (c # cs) \<longrightarrow> d = c')"
    using assms [unfolded cases_step_def, THEN spec, of k]
    by (cases "dict_get (rc_cases s) k") auto
qed

lemma tick_loop_spec:
  "tick_loop cfg now cs p s = (Inr n, t) \<Longrightarrow> current cs s \<Longrightarrow> p \<le> rcf_max cfg \<Longrightarrow>
     p \<le> n \<and> n \<le> rcf_max cfg \<and> cases_step now cs s t"
proof (induction cs arbitrary: p s)
  case Nil
  then show ?case by (simp add: run cases_step_refl)
next
  case (Cons c cs)
  have c: "dict_get (rc_cases s) (c_request_id c) = Some c" and dist: "distinct (map c_request_id (c # cs))"
    and rest: "current cs s" using Cons.prems(2) by (auto simp: current_def)
  let ?late = "case c_sla_until c of None \<Rightarrow> False | Some u \<Rightarrow> now \<ge> u"
  let ?wait = "case c_retry_at c of None \<Rightarrow> False | Some u \<Rightarrow> now < u"
  consider (full) "p \<ge> rcf_max cfg" | (skip) "p < rcf_max cfg" "c_status c \<noteq> Case_open \<or> \<not> ?late \<and> ?wait"
    | (late) "p < rcf_max cfg" "c_status c = Case_open" "?late"
    | (work) "p < rcf_max cfg" "c_status c = Case_open" "\<not> ?late" "\<not> ?wait"
    by linarith
  then show ?case
  proof cases
    case full
    then show ?thesis using Cons.prems by (simp add: run cases_step_refl)
  next
    case skip
    then have "tick_loop cfg now cs p s = (Inr n, t)" using Cons.prems(1) by (auto split: if_splits)
    with Cons.IH [OF this rest Cons.prems(3)] show ?thesis by (simp add: cases_step_skip)
  next
    case late
    let ?d = "c\<lparr>c_next_action := Manual_action, c_status := Case_manual, c_updated_at := now\<rparr>"
    let ?u = "s\<lparr>rc_cases := dict_set (c_request_id c) ?d (rc_cases s)\<rparr>"
    have go: "tick_loop cfg now cs p ?u = (Inr n, t)"
      using Cons.prems(1) late by (simp add: put_case_def run)
    have "current cs ?u" using Cons.prems(2) by (rule current_rest) simp_all
    moreover have "case_step now c ?d" using late by (auto simp: case_step_def split: option.splits)
    ultimately show ?thesis
      using Cons.IH [OF go _ Cons.prems(3)] tick_one [where c = c and d = ?d and u = ?u, OF c _ _ _ dist]
      by simp
  next
    case work
    then obtain am where am: "dict_get (rc_amounts s) (c_request_id c) = am" by simp
    obtain d u where go: "tick_loop cfg now cs (p + 1) u = (Inr n, t)"
      and u: "rc_cases u = dict_set (c_request_id c) d (rc_cases s)"
      and d: "c_request_id d = c_request_id c" "case_step now c d"
    proof (cases am)
      case None
      let ?d = "c\<lparr>c_next_action := Retry, c_retry_at := Some (now + minutes 5), c_updated_at := now\<rparr>"
      show ?thesis
        by (rule that [of "s\<lparr>rc_cases := dict_set (c_request_id c) ?d (rc_cases s)\<rparr>" ?d])
          (use Cons.prems(1) work am None in \<open>simp_all add: put_case_def run case_step_def\<close>)
    next
      case (Some x)
      then obtain v where v: "settle_case now c x s = (Inr (), v)" "tick_loop cfg now cs (p + 1) v = (Inr n, t)"
        using Cons.prems(1) work am by (auto simp: run split: prod.splits sum.splits)
      let ?d = "c\<lparr>c_status := Case_recovered, c_updated_at := now\<rparr>"
      show ?thesis
        by (rule that [of v ?d]) (use v settle_case_cases [OF v(1)] work in \<open>simp_all add: case_step_def\<close>)
    qed
    have "current cs u" using Cons.prems(2) d(1) u by (rule current_rest)
    with Cons.IH [OF go] work(1) have "p + 1 \<le> n \<and> n \<le> rcf_max cfg \<and> cases_step now cs u t" by simp
    then show ?thesis using tick_one [OF c d u dist] by simp
  qed
qed

text \<open>The cases stay keyed by their request.\<close>

lemma cases_frame:
  "(\<And>s. rc_cases (snd (m s)) = rc_cases s) \<Longrightarrow> evolves (keeps cases_ok) m"
  by (simp add: evolves_def keeps_def cases_ok_def)

lemma cases_keeps [evolve]:
  "evolves (keeps cases_ok) (on_ledger m)"
  "evolves (keeps cases_ok) (add_ticket tk)"
  "evolves (keeps cases_ok) (modify (\<lambda>s. s\<lparr>rc_amounts := am s\<rparr>))"
  "evolves (keeps cases_ok) (modify (\<lambda>s. s\<lparr>rc_rate := rt s\<rparr>))"
  "evolves (keeps cases_ok) (modify (\<lambda>s. s\<lparr>rc_conn := cn s\<rparr>))"
  "evolves (keeps cases_ok) (modify (\<lambda>s. s\<lparr>rc_previews := pv s\<rparr>))"
  "evolves (keeps cases_ok) (modify (\<lambda>s. s\<lparr>rc_seen := sn s\<rparr>))"
  "evolves (keeps cases_ok) (modify (\<lambda>s. s\<lparr>rc_audits := ad s\<rparr>))"
  by (rule cases_frame; simp add: add_ticket_def run)+

lemma put_case_keeps [evolve]: "evolves (keeps cases_ok) (put_case c)"
  by (auto simp: evolves_def keeps_def cases_ok_def put_case_def run)

lemma recover_case_keeps [evolve]: "evolves (keeps cases_ok) (recover_case now r)"
  by (auto simp: evolves_def keeps_def cases_ok_def recover_case_def run split: option.split)

lemma tick_loop_keeps [evolve]: "evolves (keeps cases_ok) (tick_loop cfg now cs n)"
  by (induction cs arbitrary: n) (auto simp: settle_case_def intro!: evolve)

lemma balance_loop_keeps [evolve]: "evolves (keeps cases_ok) (balance_loop now recs b)"
  by (induction recs arbitrary: b) (auto intro!: evolve)

lemma recon_do_keeps: "evolves (keeps cases_ok) (recon_do cfg c)"
  unfolding recon_do_def discard_def ingest_def open_case_def settle_or_delta_def variance_ticket_def
    tick_def preview_reverse_def apply_reverse_def make_daily_report_def orphan_ticket_def Let_def
  by (cases c) (auto intro!: evolve)

lemma cases_ok_run: "cases_ok (recon_run cfg cs (new_recon l))"
proof -
  have "cases_ok s \<Longrightarrow> cases_ok (recon_run cfg cs s)" for s
  proof (induction cs arbitrary: s)
    case (Cons c cs)
    have "cases_ok (snd (recon_do cfg c s))"
      using recon_do_keeps [of cfg c] Cons.prems by (simp add: evolves_def keeps_def)
    then show ?case using Cons.IH by (simp add: recon_run_def)
  qed (simp add: recon_run_def)
  moreover have "cases_ok (new_recon l)" by (simp add: cases_ok_def new_recon_def)
  ultimately show ?thesis .
qed

text \<open>A tick that completes works on at most the configured number of cases, and what it
  does to each case is one of: nothing; escalation to manual handling, only once the deadline has
  passed; recovery; or a retry scheduled five minutes later. A case that is not open is never
  touched, and none is added or dropped.\<close>

theorem tick_bounded:
  assumes "s = recon_run cfg' cs (new_recon l)" and "0 \<le> rcf_max cfg" and "tick cfg now s = (Inr n, t)"
  shows "0 \<le> n \<and> n \<le> rcf_max cfg \<and>
    (\<forall>k. rel_option (case_step now) (dict_get (rc_cases s) k) (dict_get (rc_cases t) k))"
proof -
  have ok: "cases_ok s" unfolding assms(1) by (rule cases_ok_run)
  then have "map c_request_id (dict_values (rc_cases s)) = map fst (rc_cases s)"
    by (auto simp: cases_ok_def dict_values_def dict_items_get)
  then have "current (dict_values (rc_cases s)) s"
    using ok dict_values_get [of "rc_cases s"]
    by (auto simp: current_def cases_ok_def dict_ok_def)
  then have r: "0 \<le> n \<and> n \<le> rcf_max cfg \<and> cases_step now (dict_values (rc_cases s)) s t"
    using tick_loop_spec [of cfg now "dict_values (rc_cases s)" 0 s n t] assms(2,3)
    by (simp add: tick_def run)
  have "rel_option (case_step now) (dict_get (rc_cases s) k) (dict_get (rc_cases t) k)" for k
    using r [THEN conjunct2, THEN conjunct2, unfolded cases_step_def, THEN spec, of k]
    by (auto split: option.splits)
  with r show ?thesis by simp
qed

subsection \<open>The daily report\<close>

definition request_balanced :: "ledger \<Rightarrow> string \<Rightarrow> bool" where
  "request_balanced l r \<longleftrightarrow> fst (net_settled r Buyer_quota l) =
     snd (net_settled r Seller_earning l) + snd (net_settled r Platform_spread l)"

definition unbalanced :: "ledger \<Rightarrow> reservation list \<Rightarrow> reservation list" where
  "unbalanced l recs = filter (\<lambda>rec. r_status rec = R_consumed \<and> \<not> request_balanced l (r_request_id rec)) recs"

lemma net_settled_fresh [simp]: "net_settled r k (fresh l) = net_settled r k l"
  by (simp add: net_settled_def list_entries_def)

lemma request_balanced_fresh [simp]: "request_balanced (fresh l) r = request_balanced l r"
  by (simp add: request_balanced_def)

lemma balance_loop_run:
  "\<exists>t. balance_loop now recs b s = (Inr (b \<and> unbalanced (rc_ledger s) recs = []), t) \<and>
     length (rc_tickets t) = length (rc_tickets s) + length (unbalanced (rc_ledger s) recs) \<and>
     rc_cases t = rc_cases s"
proof (induction recs arbitrary: b s)
  case Nil
  then show ?case by (simp add: run unbalanced_def)
next
  case (Cons rec recs)
  show ?case
  proof (cases "r_status rec = R_consumed \<and> \<not> request_balanced (rc_ledger s) (r_request_id rec)")
    case False
    then have "balance_loop now (rec # recs) b s = balance_loop now recs b s"
      by (auto simp: run request_balanced_def)
    moreover have "unbalanced (rc_ledger s) (rec # recs) = unbalanced (rc_ledger s) recs"
      using False by (auto simp: unbalanced_def)
    ultimately show ?thesis using Cons.IH [of b s] by (simp only:)
  next
    case True
    then obtain tk where step: "balance_loop now (rec # recs) b s = balance_loop now recs False
        (s\<lparr>rc_ledger := fresh (rc_ledger s), rc_tickets := rc_tickets s @ [tk]\<rparr>)"
      by (auto simp: run on_ledger_def add_ticket_def request_balanced_def)
    let ?u = "s\<lparr>rc_ledger := fresh (rc_ledger s), rc_tickets := rc_tickets s @ [tk]\<rparr>"
    have more: "unbalanced (rc_ledger s) (rec # recs) = rec # unbalanced (rc_ledger s) recs"
      and same: "unbalanced (rc_ledger ?u) recs = unbalanced (rc_ledger s) recs"
      using True by (simp_all add: unbalanced_def)
    show ?thesis
      using Cons.IH [of False ?u] unfolding step more same by auto
  qed
qed

lemma orphan_tickets_run:
  "\<exists>t. for_each (orphan_ticket now) ids s = (Inr (), t) \<and>
     length (rc_tickets t) = length (rc_tickets s) + length ids \<and> rc_cases t = rc_cases s"
proof (induction ids arbitrary: s)
  case (Cons i ids)
  obtain u where u: "orphan_ticket now i s = (Inr (), u)" "length (rc_tickets u) = Suc (length (rc_tickets s))"
    "rc_cases u = rc_cases s"
    by (simp add: orphan_ticket_def on_ledger_def add_ticket_def run)
  show ?case using Cons [of u] u by (auto simp: bindE_def)
qed (simp add: run)

text \<open>The daily report says exactly what the books say: it is balanced when every
  consumed request has a buyer charge equal to earning plus spread; the orphans are the open
  reservations without a case; it files one ticket per unbalanced request and per orphan.\<close>

theorem daily_report_exact:
  "\<exists>rep t. make_daily_report now s = (Inr rep, t) \<and>
    (dr_balanced rep \<longleftrightarrow> unbalanced (rc_ledger s) (list_reservations (rc_ledger s)) = []) \<and>
    dr_orphan_request_ids rep =
      map r_request_id (filter (\<lambda>rec. r_status rec \<in> {R_held, R_unresolved} \<and>
        dict_get (rc_cases s) (r_request_id rec) = None) (list_reservations (rc_ledger s))) \<and>
    dr_ticket_count rep = length (rc_tickets s) +
      length (unbalanced (rc_ledger s) (list_reservations (rc_ledger s))) +
      length (dr_orphan_request_ids rep) \<and>
    dr_open_unresolved rep =
      length (filter (\<lambda>c. c_status c \<in> {Case_open, Case_manual}) (recon_cases s)) \<and>
    (dr_aggregate_matches_detail rep \<longleftrightarrow> dr_balanced rep \<and> dr_orphan_request_ids rep = [])"
proof -
  have orph: "orphans s = map r_request_id (filter (\<lambda>rec. r_status rec \<in> {R_held, R_unresolved} \<and>
      dict_get (rc_cases s) (r_request_id rec) = None) (list_reservations (rc_ledger s)))"
  proof -
    have "is_orphan s rec \<longleftrightarrow> r_status rec \<in> {R_held, R_unresolved} \<and>
        dict_get (rc_cases s) (r_request_id rec) = None" for rec
      by (cases "r_status rec") (auto simp: is_orphan_def)
    then have "is_orphan s = (\<lambda>rec. r_status rec \<in> {R_held, R_unresolved} \<and>
        dict_get (rc_cases s) (r_request_id rec) = None)" by (rule ext)
    then show ?thesis by (simp only: orphans_def)
  qed
  obtain u where u: "balance_loop now (list_reservations (rc_ledger s)) True s =
      (Inr (unbalanced (rc_ledger s) (list_reservations (rc_ledger s)) = []), u)"
    "length (rc_tickets u) = length (rc_tickets s) + length (unbalanced (rc_ledger s) (list_reservations (rc_ledger s)))"
    "rc_cases u = rc_cases s"
    using balance_loop_run [of now "list_reservations (rc_ledger s)" True s] by auto
  obtain v where v: "for_each (orphan_ticket now) (orphans s) u = (Inr (), v)"
    "length (rc_tickets v) = length (rc_tickets u) + length (orphans s)" "rc_cases v = rc_cases s"
    using orphan_tickets_run [of now "orphans s" u] u(3) by auto
  show ?thesis
    unfolding orph [symmetric] using u v by (simp add: make_daily_report_def run recon_cases_def)
qed

definition open_recon :: recon where
  "open_recon = recon_run default_config [Ingest 1 sample_event] (new_recon held_ledger)"

lemma open_recon_cases:
  "\<exists>c. rc_cases open_recon = [(''r'', c)] \<and> c_status c = Case_open \<and> c_request_id c = ''r'' \<and>
     c_sla_until c = Some (1 + hours 1) \<and> c_retry_at c = Some (1 + minutes 1) \<and> rc_amounts open_recon = []"
  using mark_unresolved_run [OF held_with_res, of "''MISSING_AMOUNT''"]
  by (auto simp: open_recon_def recon_run_def recon_do_def discard_def ingest_def open_case_def run
      new_recon_def sample_event_def on_ledger_def require_res_def held_get Let_def put_case_def
      default_config_def dict_set_def)

lemma open_recon_tick: "\<exists>t. tick default_config (minutes 2) open_recon = (Inr 1, t)"
proof -
  obtain c where c: "rc_cases open_recon = [(''r'', c)]" "c_status c = Case_open"
    "c_request_id c = ''r''" "c_sla_until c = Some (1 + hours 1)" "c_retry_at c = Some (1 + minutes 1)"
    "rc_amounts open_recon = []" using open_recon_cases by blast
  have "\<not> minutes 2 \<ge> 1 + hours 1" "\<not> minutes 2 < 1 + minutes 1"
    by (simp_all add: minutes_def hours_def seconds_def)
  then show ?thesis
    using c by (simp add: tick_def run dict_values_def default_config_def put_case_def)
qed

theorem tick_bounded_witness:
  "\<exists>t. tick default_config (minutes 2) open_recon = (Inr 1, t) \<and>
    (\<forall>k. rel_option (case_step (minutes 2)) (dict_get (rc_cases open_recon) k) (dict_get (rc_cases t) k))"
proof -
  obtain t where t: "tick default_config (minutes 2) open_recon = (Inr 1, t)"
    using open_recon_tick by blast
  have "0 \<le> rcf_max default_config" by (simp add: default_config_def)
  from tick_bounded [OF open_recon_def this t] t show ?thesis by blast
qed

end
