(* ===== verification/Api_Base.thy ===== *)
theory Api_Base
  imports Interfaces
begin

section \<open>Vocabulary of the API service\<close>

text \<open>
  \<^verbatim>\<open>services/api-service/app/domain/authorization/workspace.py\<close> and the exceptions of the domain
  packages \<^verbatim>\<open>projects\<close>, \<^verbatim>\<open>bindings\<close>, \<^verbatim>\<open>connections\<close>, \<^verbatim>\<open>proxykeys\<close> and \<^verbatim>\<open>budget\<close>, which call each other:
  one error type holds them all. A business exception keeps its code and HTTP status; its message
  and its display data are left out. Roles, workspaces, protocols and supply modes arrive as text
  and are checked by the code, so they are strings.
\<close>

subsection \<open>Workspace lens\<close>

definition workspaces :: "string set" where
  "workspaces = {''buyer'', ''seller''}"

definition default_workspace :: "string \<Rightarrow> string" where
  "default_workspace role = (if role = ''seller'' then ''seller'' else ''buyer'')"

definition workspace_allowed :: "string \<Rightarrow> string \<Rightarrow> bool" where
  "workspace_allowed role workspace \<longleftrightarrow>
     (if workspace \<notin> workspaces then False else if role = ''both'' then True else role = workspace)"

definition effective_role :: "string \<Rightarrow> string option \<Rightarrow> string" where
  "effective_role account_role workspace =
     (case workspace of
        None \<Rightarrow> account_role
      | Some w \<Rightarrow> if \<not> workspace_allowed account_role w then []
                 else if account_role = ''both'' then w else account_role)"

text \<open>The guard the services share: \<^verbatim>\<open>_require_buyer\<close> and \<^verbatim>\<open>_require_seller\<close>.\<close>

definition acts_as :: "string \<Rightarrow> string \<Rightarrow> string option \<Rightarrow> bool" where
  "acts_as side role workspace \<longleftrightarrow>
     (case workspace of
        None \<Rightarrow> role \<in> {side, ''both''}
      | Some w \<Rightarrow> effective_role role workspace = side)"

definition protocols_known :: "string set" where
  "protocols_known = {''openai'', ''anthropic'', ''vertex''}"

definition supply_modes :: "string set" where
  "supply_modes = {''shared'', ''dedicated''}"

subsection \<open>Errors\<close>

datatype project_code =
    PJ_validation | PJ_name_conflict | PJ_mode_immutable | PJ_illegal_state_transition
  | PJ_provider_binding_required | PJ_delete_blocked | PJ_not_found | PJ_forbidden_role
  | PJ_idempotency_conflict

datatype binding_code =
    BD_validation | BD_not_found | BD_forbidden_role | BD_mode_mismatch | BD_connection_required
  | BD_price_unavailable | BD_protocol_mismatch | BD_model_not_allowed | BD_degraded | BD_required
  | BD_publish_conflict | BD_illegal_state_transition | BD_immutable_version
  | BD_buyer_confirmation_required | BD_step_up_required | BD_replace_denied

datatype connection_code =
    CN_validation | CN_not_found | CN_forbidden_role | CN_ssrf_rejected | CN_version_conflict
  | CN_illegal_state_transition | CN_mode_locked | CN_binding_active | CN_illegal_state

datatype key_code =
    PK_unauthorized | PK_unsupported_platform | PK_idempotency_conflict | PK_temporary_unavailable
  | PK_forbidden_role | PK_validation | PK_not_found | PK_illegal_state_transition
  | PK_provider_binding_required | PK_scope_exceeded

datatype budget_code = BG_hard_limit | BG_forbidden_role | BG_not_found | BG_validation

text \<open>The last constructors are the exceptions of the stores, caught (or not) by the services.\<close>

datatype api_error =
    ProjectError project_code int
  | BindingError binding_code int
  | ConnectionError connection_code int
  | ProxyKeyError key_code int
  | BudgetError budget_code int
  | NameConflict
  | PublishConflict
  | VersionConflict
  | ModeImmutable
  | SsrfError
  | KeyError
  | Api_ValueError

subsection \<open>Facts\<close>

lemma effective_role_both [simp]:
  "effective_role ''both'' (Some ''buyer'') = ''buyer''"
  "effective_role ''both'' (Some ''seller'') = ''seller''"
  by (simp_all add: effective_role_def workspace_allowed_def workspaces_def)

text \<open>No workspace lets an account act on a side its role does not include.\<close>

lemma acts_as_ceiling: "acts_as side role w \<Longrightarrow> side \<noteq> [] \<Longrightarrow> role = side \<or> role = ''both''"
  by (auto simp: acts_as_def effective_role_def workspace_allowed_def split: option.splits if_splits)

lemma acts_as_workspace: "acts_as side role (Some w) \<Longrightarrow> side \<noteq> [] \<Longrightarrow> w = side"
  by (auto simp: acts_as_def effective_role_def workspace_allowed_def split: if_splits)

end
