(* ===== verification/Market_Stores.thy ===== *)
theory Market_Stores
  imports Api_Base "HOL-Library.Word"
begin

section \<open>The stores of projects, bindings and connections\<close>

text \<open>
  The in-memory stores the services run on: \<^verbatim>\<open>projects/models.py\<close>, \<^verbatim>\<open>projects/store.py\<close>,
  \<^verbatim>\<open>bindings/models.py\<close>, \<^verbatim>\<open>bindings/store.py\<close>, \<^verbatim>\<open>connections/models.py\<close> (the dataclasses) and
  \<^verbatim>\<open>connections/store.py\<close>, all under \<^verbatim>\<open>services/api-service/app/domain\<close>. Records are copied in and
  out (\<^verbatim>\<open>deepcopy\<close>), so they are values; every store method runs under the store's lock.
\<close>

type_synonym bytes = "8 word list"

subsection \<open>Projects\<close>

datatype project_status = Pj_draft | Pj_active | Pj_suspended | Pj_archived

record protocol_state =
  pt_protocol :: string
  pt_enabled :: bool
  pt_enabled_at :: "instant option"
  pt_disabled_at :: "instant option"

record deletion_blocker =
  db_kind :: string
  db_reference_id :: string
  db_blocker_id :: "uuid option"
  db_resolved_at :: "instant option"

record project =
  pj_id :: uuid
  pj_owner :: uuid
  pj_display_name :: string
  pj_name_normalized :: string
  pj_mode :: string
  pj_status :: project_status
  pj_created_at :: instant
  pj_updated_at :: instant
  pj_archived_at :: "instant option"
  pj_deleted_at :: "instant option"
  pj_preview_opt_in :: bool
  pj_protocols :: "protocol_state list"

definition enabled_protocol_names :: "project \<Rightarrow> string list" where
  "enabled_protocol_names rec = map pt_protocol (filter pt_enabled (pj_protocols rec))"

fun project_status_str :: "project_status \<Rightarrow> string" where
  "project_status_str Pj_draft = ''draft''"
| "project_status_str Pj_active = ''active''"
| "project_status_str Pj_suspended = ''suspended''"
| "project_status_str Pj_archived = ''archived''"

record project_store =
  ps_by_id :: "(uuid, project) dict"
  ps_blockers :: "(uuid, deletion_blocker list) dict"
  ps_idem :: "(uuid \<times> string, string \<times> uuid option) dict"
  ps_audits :: "(string \<times> pyval) list list"

type_synonym 'a project_store_op = "(project_store, api_error, 'a) op"

definition same_live_name :: "project \<Rightarrow> project \<Rightarrow> bool" where
  "same_live_name rec existing \<longleftrightarrow> pj_owner existing = pj_owner rec \<and>
     pj_name_normalized existing = pj_name_normalized rec \<and> pj_deleted_at existing = None"

definition project_of :: "project_store \<Rightarrow> uuid \<Rightarrow> project option" where
  "project_of s pid = dict_get (ps_by_id s) pid"

definition write_project :: "uuid \<Rightarrow> project \<Rightarrow> project_store \<Rightarrow> project_store" where
  "write_project pid rec s = s\<lparr>ps_by_id := dict_set pid rec (ps_by_id s)\<rparr>"

definition project_create :: "project \<Rightarrow> unit project_store_op" where
  "project_create rec =
     bindE (gets (\<lambda>s. list_ex (same_live_name rec) (dict_values (ps_by_id s)))) (\<lambda>taken.
     bindE (require (\<not> taken) NameConflict) (\<lambda>_.
     modify (write_project (pj_id rec) rec)))"

definition project_list_by_owner :: "uuid \<Rightarrow> project_store \<Rightarrow> project list" where
  "project_list_by_owner owner s =
     filter (\<lambda>r. pj_owner r = owner \<and> pj_deleted_at r = None) (dict_values (ps_by_id s))"

definition project_save :: "project \<Rightarrow> unit project_store_op" where
  "project_save rec = bindE (gets (\<lambda>s. project_of s (pj_id rec))) (\<lambda>found.
     bindE (of_option KeyError found) (\<lambda>current.
     bindE (require (pj_mode rec = pj_mode current) ModeImmutable) (\<lambda>_.
     bindE (gets (\<lambda>s. list_ex (\<lambda>e. pj_id e \<noteq> pj_id rec \<and> same_live_name rec e)
                        (dict_values (ps_by_id s)))) (\<lambda>taken.
     bindE (require (pj_deleted_at rec = None \<longrightarrow> \<not> taken) NameConflict) (\<lambda>_.
     modify (write_project (pj_id rec) rec))))))"

definition project_blockers :: "uuid \<Rightarrow> project_store \<Rightarrow> deletion_blocker list" where
  "project_blockers pid s =
     filter (\<lambda>b. db_resolved_at b = None)
       (case dict_get (ps_blockers s) pid of None \<Rightarrow> [] | Some bs \<Rightarrow> bs)"

definition add_blocker :: "uuid \<Rightarrow> uuid \<Rightarrow> string \<Rightarrow> string \<Rightarrow> uuid project_store_op" where
  "add_blocker bid pid kind reference =
     bindE (modify (\<lambda>s. s\<lparr>ps_blockers := dict_set pid
       ((case dict_get (ps_blockers s) pid of None \<Rightarrow> [] | Some bs \<Rightarrow> bs) @
        [\<lparr>db_kind = kind, db_reference_id = reference, db_blocker_id = Some bid, db_resolved_at = None\<rparr>])
       (ps_blockers s)\<rparr>)) (\<lambda>_. ret bid)"

definition project_get_idempotency :: "uuid \<Rightarrow> string \<Rightarrow> project_store \<Rightarrow> (string \<times> uuid option) option" where
  "project_get_idempotency owner key s = dict_get (ps_idem s) (owner, key)"

definition project_put_idempotency ::
  "uuid \<Rightarrow> string \<Rightarrow> string \<Rightarrow> uuid option \<Rightarrow> unit project_store_op" where
  "project_put_idempotency owner key digest pid =
     modify (\<lambda>s. s\<lparr>ps_idem := dict_set (owner, key) (digest, pid) (ps_idem s)\<rparr>)"

definition project_audit ::
  "instant \<Rightarrow> uuid \<Rightarrow> uuid option \<Rightarrow> string \<Rightarrow> string \<Rightarrow> (string \<times> pyval) list \<Rightarrow> unit project_store_op" where
  "project_audit now owner pid event request_id payload =
     modify (\<lambda>s. s\<lparr>ps_audits := ps_audits s @
       [[(''owner_id'', PyUuid owner), (''project_id'', py_opt PyUuid pid),
         (''event_type'', PyStr event), (''request_id'', PyStr request_id),
         (''payload'', PyDict payload), (''created_at'', PyTime now)]]\<rparr>)"

subsection \<open>Bindings\<close>

datatype binding_status = Bs_draft | Bs_validated | Bs_active | Bs_inactive | Bs_degraded

record binding =
  bd_id :: uuid
  bd_project :: uuid
  bd_owner :: uuid
  bd_protocol :: string
  bd_supply_mode :: string
  bd_status :: binding_status
  bd_version :: int
  bd_allowed_providers :: "string list"
  bd_allowed_models :: "string list"
  bd_allowed_regions :: "string list"
  bd_connection :: "uuid option"
  bd_draining_connection :: "uuid option"
  bd_published_at :: "instant option"
  bd_created_at :: "instant option"
  bd_updated_at :: "instant option"

record binding_store =
  bs_by_id :: "(uuid, binding) dict"
  bs_audits :: "(string \<times> pyval) list list"

type_synonym 'a binding_store_op = "(binding_store, api_error, 'a) op"

definition binding_of :: "binding_store \<Rightarrow> uuid \<Rightarrow> binding option" where
  "binding_of s bid = dict_get (bs_by_id s) bid"

definition write_binding :: "uuid \<Rightarrow> binding \<Rightarrow> binding_store \<Rightarrow> binding_store" where
  "write_binding bid rec s = s\<lparr>bs_by_id := dict_set bid rec (bs_by_id s)\<rparr>"

definition rival_active :: "binding \<Rightarrow> binding \<Rightarrow> bool" where
  "rival_active rec other \<longleftrightarrow> bd_id other \<noteq> bd_id rec \<and> bd_project other = bd_project rec \<and>
     bd_protocol other = bd_protocol rec \<and> bd_status other = Bs_active"

definition rival_dedicated :: "binding \<Rightarrow> binding \<Rightarrow> bool" where
  "rival_dedicated rec other \<longleftrightarrow> bd_supply_mode rec = ''dedicated'' \<and> bd_connection rec \<noteq> None \<and>
     bd_id other \<noteq> bd_id rec \<and> bd_connection other = bd_connection rec \<and>
     bd_supply_mode other = ''dedicated'' \<and> bd_status other \<in> {Bs_active, Bs_degraded}"

definition ensure_single_active :: "binding \<Rightarrow> unit binding_store_op" where
  "ensure_single_active rec =
     bindE (gets (\<lambda>s. list_ex (\<lambda>e. rival_active rec e \<or> rival_dedicated rec e) (dict_values (bs_by_id s)))) (\<lambda>clash.
     require (\<not> clash) PublishConflict)"

definition binding_create :: "binding \<Rightarrow> unit binding_store_op" where
  "binding_create rec = bindE (when_op (bd_status rec = Bs_active) (ensure_single_active rec)) (\<lambda>_.
     modify (write_binding (bd_id rec) rec))"

definition binding_list_by_project :: "uuid \<Rightarrow> binding_store \<Rightarrow> binding list" where
  "binding_list_by_project pid s = filter (\<lambda>r. bd_project r = pid) (dict_values (bs_by_id s))"

definition binding_list_by_project_protocol :: "uuid \<Rightarrow> string \<Rightarrow> binding_store \<Rightarrow> binding list" where
  "binding_list_by_project_protocol pid protocol s =
     filter (\<lambda>r. bd_project r = pid \<and> bd_protocol r = protocol) (dict_values (bs_by_id s))"

definition binding_save :: "binding \<Rightarrow> unit binding_store_op" where
  "binding_save rec = bindE (gets (\<lambda>s. binding_of s (bd_id rec))) (\<lambda>found.
     bindE (require (found \<noteq> None) KeyError) (\<lambda>_.
     bindE (when_op (bd_status rec = Bs_active) (ensure_single_active rec)) (\<lambda>_.
     modify (write_binding (bd_id rec) rec))))"

definition retire_active :: "instant \<Rightarrow> (binding \<Rightarrow> bool) \<Rightarrow> unit binding_store_op" where
  "retire_active now P = modify (\<lambda>s. s\<lparr>bs_by_id := dict_map_values
     (\<lambda>r. if P r then r\<lparr>bd_status := Bs_inactive, bd_updated_at := Some now\<rparr> else r) (bs_by_id s)\<rparr>)"

definition deactivate_active :: "instant \<Rightarrow> uuid \<Rightarrow> string \<Rightarrow> unit binding_store_op" where
  "deactivate_active now pid protocol = retire_active now
     (\<lambda>r. bd_project r = pid \<and> bd_protocol r = protocol \<and> bd_status r = Bs_active)"

definition max_version :: "uuid \<Rightarrow> string \<Rightarrow> binding_store \<Rightarrow> int" where
  "max_version pid protocol s =
     (let versions = map bd_version (binding_list_by_project_protocol pid protocol s)
      in if versions \<noteq> [] then Max (set versions) else 0)"

definition binding_list_by_connection :: "uuid \<Rightarrow> binding_store \<Rightarrow> binding list" where
  "binding_list_by_connection cid s = filter (\<lambda>r. bd_connection r = Some cid) (dict_values (bs_by_id s))"

definition publish_atomic :: "instant \<Rightarrow> binding \<Rightarrow> unit binding_store_op" where
  "publish_atomic now rec = bindE (retire_active now (rival_active rec)) (\<lambda>_.
     bindE (gets (\<lambda>s. binding_of s (bd_id rec))) (\<lambda>found.
     bindE (require (found \<noteq> None) KeyError) (\<lambda>_.
     bindE (gets (\<lambda>s. list_ex (rival_active rec) (dict_values (bs_by_id s)))) (\<lambda>active.
     bindE (require (\<not> active) PublishConflict) (\<lambda>_.
     bindE (gets (\<lambda>s. list_ex (rival_dedicated rec) (dict_values (bs_by_id s)))) (\<lambda>dedicated.
     bindE (require (\<not> dedicated) PublishConflict) (\<lambda>_.
     modify (write_binding (bd_id rec) rec))))))))"

definition binding_audit ::
  "uuid \<Rightarrow> uuid option \<Rightarrow> uuid option \<Rightarrow> string \<Rightarrow> string \<Rightarrow> (string \<times> pyval) list \<Rightarrow> unit binding_store_op" where
  "binding_audit owner pid bid event request_id payload =
     modify (\<lambda>s. s\<lparr>bs_audits := bs_audits s @
       [[(''owner_id'', PyUuid owner), (''project_id'', py_opt PyUuid pid),
         (''binding_id'', py_opt PyUuid bid), (''event_type'', PyStr event),
         (''request_id'', PyStr request_id), (''payload'', PyDict payload)]]\<rparr>)"

subsection \<open>Connections\<close>

datatype connection_status = Cs_active | Cs_deleted

datatype lifecycle = Lc_draft | Lc_verified | Lc_listed | Lc_bound | Lc_paused | Lc_draining | Lc_retired

datatype health = H_unknown | H_healthy | H_degraded | H_unhealthy

fun connection_status_str :: "connection_status \<Rightarrow> string" where
  "connection_status_str Cs_active = ''active''"
| "connection_status_str Cs_deleted = ''deleted''"

fun lifecycle_str :: "lifecycle \<Rightarrow> string" where
  "lifecycle_str Lc_draft = ''draft''"
| "lifecycle_str Lc_verified = ''verified''"
| "lifecycle_str Lc_listed = ''listed''"
| "lifecycle_str Lc_bound = ''bound''"
| "lifecycle_str Lc_paused = ''paused''"
| "lifecycle_str Lc_draining = ''draining''"
| "lifecycle_str Lc_retired = ''retired''"

fun health_str :: "health \<Rightarrow> string" where
  "health_str H_unknown = ''unknown''"
| "health_str H_healthy = ''healthy''"
| "health_str H_degraded = ''degraded''"
| "health_str H_unhealthy = ''unhealthy''"

record capability =
  cap_protocol :: string
  cap_path_template :: string
  cap_model :: "string option"
  cap_region :: "string option"

record capability_snapshot =
  sn_connection_id :: uuid
  sn_version :: int
  sn_capabilities :: "capability list"
  sn_created_at :: instant

record connection =
  co_id :: uuid
  co_seller :: uuid
  co_provider :: string
  co_supply_mode :: string
  co_auth_type :: string
  co_base_url :: string
  co_region :: "string option"
  co_purpose :: "string option"
  co_project_number :: "string option"
  co_location :: "string option"
  co_nonce :: "bytes option"
  co_ciphertext :: "bytes option"
  co_tag :: "bytes option"
  co_key_version :: "string option"
  co_fingerprint :: string
  co_credential_version :: int
  co_status :: connection_status
  co_deleted_at :: "instant option"
  co_created_at :: "instant option"
  co_updated_at :: "instant option"
  co_health_state :: health
  co_health_reason :: "string option"
  co_health_checked_at :: "instant option"
  co_consecutive_successes :: int
  co_consecutive_failures :: int
  co_last_probe_at :: "instant option"
  co_next_probe_at :: "instant option"
  co_capability_version :: int
  co_lifecycle_state :: lifecycle

definition usable :: "connection \<Rightarrow> bool" where
  "usable rec \<longleftrightarrow> co_status rec = Cs_active \<and> co_deleted_at rec = None \<and>
     co_ciphertext rec \<noteq> None \<and> co_nonce rec \<noteq> None \<and> co_tag rec \<noteq> None"

definition connection_public :: "connection \<Rightarrow> (string \<times> pyval) list" where
  "connection_public rec =
     [(''connection_id'', PyUuid (co_id rec)), (''seller_account_id'', PyUuid (co_seller rec)),
      (''provider'', PyStr (co_provider rec)), (''supply_mode'', PyStr (co_supply_mode rec)),
      (''auth_type'', PyStr (co_auth_type rec)), (''base_url'', PyStr (co_base_url rec)),
      (''region'', py_opt PyStr (co_region rec)), (''purpose'', py_opt PyStr (co_purpose rec)),
      (''project_number'', py_opt PyStr (co_project_number rec)),
      (''location'', py_opt PyStr (co_location rec)),
      (''credential_fingerprint'', PyStr (co_fingerprint rec)),
      (''credential_version'', PyInt (co_credential_version rec)),
      (''status'', PyStr (connection_status_str (co_status rec))),
      (''health_state'', PyStr (health_str (co_health_state rec))),
      (''health_reason'', py_opt PyStr (co_health_reason rec)),
      (''capability_version'', PyInt (co_capability_version rec)),
      (''lifecycle_state'', PyStr (lifecycle_str (co_lifecycle_state rec)))]"

record connection_store =
  cs_by_id :: "(uuid, connection) dict"
  cs_audits :: "(string \<times> pyval) list list"
  cs_snapshots :: "(uuid, capability_snapshot list) dict"

type_synonym 'a connection_store_op = "(connection_store, api_error, 'a) op"

definition connection_of :: "connection_store \<Rightarrow> uuid \<Rightarrow> connection option" where
  "connection_of s cid = dict_get (cs_by_id s) cid"

definition write_connection :: "uuid \<Rightarrow> connection \<Rightarrow> connection_store \<Rightarrow> connection_store" where
  "write_connection cid rec s = s\<lparr>cs_by_id := dict_set cid rec (cs_by_id s)\<rparr>"

definition connection_create :: "connection \<Rightarrow> unit connection_store_op" where
  "connection_create rec = modify (write_connection (co_id rec) rec)"

definition connection_list_by_seller :: "uuid \<Rightarrow> connection_store \<Rightarrow> connection list" where
  "connection_list_by_seller seller s =
     filter (\<lambda>r. co_seller r = seller \<and> co_status r \<noteq> Cs_deleted) (dict_values (cs_by_id s))"

definition save_replace :: "connection \<Rightarrow> int \<Rightarrow> unit connection_store_op" where
  "save_replace rec expected = bindE (gets (\<lambda>s. connection_of s (co_id rec))) (\<lambda>found.
     bindE (of_option KeyError found) (\<lambda>cur.
     bindE (require (co_credential_version cur = expected) VersionConflict) (\<lambda>_.
     modify (write_connection (co_id rec) rec))))"

definition connection_audit ::
  "instant \<Rightarrow> uuid \<Rightarrow> uuid option \<Rightarrow> string \<Rightarrow> string \<Rightarrow> (string \<times> pyval) list \<Rightarrow> unit connection_store_op" where
  "connection_audit now seller cid event request_id payload =
     modify (\<lambda>s. s\<lparr>cs_audits := cs_audits s @
       [[(''seller_id'', PyUuid seller), (''connection_id'', py_opt PyUuid cid),
         (''event_type'', PyStr event), (''request_id'', PyStr request_id),
         (''payload'', PyDict payload), (''created_at'', PyTime now)]]\<rparr>)"

definition merge_health :: "connection \<Rightarrow> connection \<Rightarrow> instant \<Rightarrow> connection" where
  "merge_health cur rec now = cur\<lparr>co_health_state := co_health_state rec,
     co_health_reason := co_health_reason rec, co_health_checked_at := co_health_checked_at rec,
     co_consecutive_successes := co_consecutive_successes rec,
     co_consecutive_failures := co_consecutive_failures rec,
     co_last_probe_at := co_last_probe_at rec, co_next_probe_at := co_next_probe_at rec,
     co_capability_version := co_capability_version rec,
     co_updated_at := Some (case co_updated_at rec of None \<Rightarrow> now | Some u \<Rightarrow> u)\<rparr>"

definition save_health :: "instant \<Rightarrow> connection \<Rightarrow> unit connection_store_op" where
  "save_health now rec = bindE (gets (\<lambda>s. connection_of s (co_id rec))) (\<lambda>found.
     bindE (of_option KeyError found) (\<lambda>cur.
     modify (write_connection (co_id rec) (merge_health cur rec now))))"

definition list_probe_due :: "instant \<Rightarrow> int \<Rightarrow> connection_store \<Rightarrow> connection list" where
  "list_probe_due now limit s =
     (let due = filter (\<lambda>r. co_status r = Cs_active \<and> co_deleted_at r = None \<and>
            (case co_next_probe_at r of None \<Rightarrow> True | Some n \<Rightarrow> n \<le> now)) (dict_values (cs_by_id s))
      in take (nat (max 0 limit))
           (sort_key (\<lambda>r. case co_next_probe_at r of None \<Rightarrow> now | Some n \<Rightarrow> n) due))"

definition snapshots_of :: "uuid \<Rightarrow> connection_store \<Rightarrow> capability_snapshot list" where
  "snapshots_of cid s = (case dict_get (cs_snapshots s) cid of None \<Rightarrow> [] | Some rows \<Rightarrow> rows)"

definition save_snapshot :: "instant \<Rightarrow> uuid \<Rightarrow> int \<Rightarrow> capability list \<Rightarrow> unit connection_store_op" where
  "save_snapshot now cid version caps = modify (\<lambda>s. s\<lparr>cs_snapshots := dict_set cid
     (snapshots_of cid s @ [\<lparr>sn_connection_id = cid, sn_version = version, sn_capabilities = caps,
        sn_created_at = now\<rparr>]) (cs_snapshots s)\<rparr>)"

definition list_snapshots :: "uuid \<Rightarrow> connection_store \<Rightarrow> capability_snapshot list" where
  "list_snapshots cid s = snapshots_of cid s"

definition max_snapshot_version :: "uuid \<Rightarrow> connection_store \<Rightarrow> int" where
  "max_snapshot_version cid s =
     (let snaps = snapshots_of cid s
      in if snaps = [] then 0 else Max (set (map sn_version snaps)))"

definition merge_lifecycle :: "connection \<Rightarrow> connection \<Rightarrow> instant \<Rightarrow> connection" where
  "merge_lifecycle cur rec now = cur\<lparr>co_lifecycle_state := co_lifecycle_state rec,
     co_supply_mode := co_supply_mode rec,
     co_updated_at := Some (case co_updated_at rec of None \<Rightarrow> now | Some u \<Rightarrow> u)\<rparr>"

definition save_lifecycle :: "instant \<Rightarrow> connection \<Rightarrow> lifecycle \<Rightarrow> unit connection_store_op" where
  "save_lifecycle now rec expected = bindE (gets (\<lambda>s. connection_of s (co_id rec))) (\<lambda>found.
     bindE (of_option KeyError found) (\<lambda>cur.
     bindE (require (co_lifecycle_state cur = expected) VersionConflict) (\<lambda>_.
     modify (write_connection (co_id rec) (merge_lifecycle cur rec now)))))"

definition list_all_active :: "connection_store \<Rightarrow> connection list" where
  "list_all_active s =
     filter (\<lambda>r. co_status r = Cs_active \<and> co_deleted_at r = None) (dict_values (cs_by_id s))"

end
