(* ===== verification/Credentials.thy ===== *)
theory Credentials
  imports Market_Stores
begin

unbundle bit_operations_syntax

section \<open>Sealing of provider credentials\<close>

text \<open>
  \<^verbatim>\<open>sellerkeys/crypto.py\<close> (encrypt-then-MAC under a ring of keys) and \<^verbatim>\<open>sellerkeys/fingerprint.py\<close>.
  The two hash functions of the standard library are arguments (\<open>cryptolib\<close>): what is proved holds
  for every such functions, given only that SHAKE256 yields as many bytes as are asked
  (\<open>shake_ok\<close>). The random nonce of \<^verbatim>\<open>os.urandom(12)\<close> is an argument of \<open>encrypt\<close>. Text is encoded as
  UTF-8 for the code points of the model's strings, below 256.
\<close>

record cryptolib =
  shake256 :: "bytes \<Rightarrow> nat \<Rightarrow> bytes"
  hmac256 :: "bytes \<Rightarrow> bytes \<Rightarrow> bytes"
  sha256 :: "bytes \<Rightarrow> bytes"

definition shake_ok :: "cryptolib \<Rightarrow> bool" where
  "shake_ok c \<longleftrightarrow> (\<forall>seed n. length (shake256 c seed n) = n)"

subsection \<open>Text and bytes\<close>

definition utf8_char :: "char \<Rightarrow> bytes" where
  "utf8_char c = (let n = of_char c :: nat in
     if n < 128 then [word_of_nat n] else [word_of_nat (192 + n div 64), word_of_nat (128 + n mod 64)])"

definition utf8_encode :: "string \<Rightarrow> bytes" where
  "utf8_encode s = concat (map utf8_char s)"

text \<open>Strict decoding: a malformed sequence is \<^verbatim>\<open>UnicodeDecodeError\<close>, a \<^verbatim>\<open>ValueError\<close>.\<close>

fun utf8_decode :: "bytes \<Rightarrow> string option" where
  "utf8_decode [] = Some []"
| "utf8_decode [b] = (if unat b < 128 then Some [char_of (unat b)] else None)"
| "utf8_decode (b # b' # bs) =
     (if unat b < 128 then map_option (Cons (char_of (unat b))) (utf8_decode (b' # bs))
      else if (unat b = 194 \<or> unat b = 195) \<and> 128 \<le> unat b' \<and> unat b' < 192
      then map_option (Cons (char_of ((unat b - 192) * 64 + (unat b' - 128)))) (utf8_decode bs)
      else None)"

definition hex_digit :: "nat \<Rightarrow> char" where
  "hex_digit n = (if n < 10 then char_of (48 + n) else char_of (87 + n))"

definition hexdigest :: "bytes \<Rightarrow> string" where
  "hexdigest bs = concat (map (\<lambda>b. [hex_digit (unat b div 16), hex_digit (unat b mod 16)]) bs)"

subsection \<open>\<^verbatim>\<open>CredentialEncryptor\<close>\<close>

record encryptor =
  en_keys :: "(string, bytes) dict"
  en_version :: string

fun ring_add :: "(string \<times> bytes) list \<Rightarrow> (string, bytes) dict \<Rightarrow> api_error + (string, bytes) dict" where
  "ring_add [] keys = Inr keys"
| "ring_add ((ver, material) # rest) keys =
     (if length material < 32 then Inl Api_ValueError else ring_add rest (dict_set ver material keys))"

definition new_encryptor :: "bytes \<Rightarrow> string \<Rightarrow> (string \<times> bytes) list \<Rightarrow> api_error + encryptor" where
  "new_encryptor material version previous =
     (if length material < 32 then Inl Api_ValueError
      else case ring_add previous [(version, material)] of
          Inl e \<Rightarrow> Inl e
        | Inr keys \<Rightarrow> Inr \<lparr>en_keys = keys, en_version = version\<rparr>)"

definition known_versions :: "encryptor \<Rightarrow> string set" where
  "known_versions e = set (map fst (en_keys e))"

definition key_material :: "encryptor \<Rightarrow> string option \<Rightarrow> api_error + bytes" where
  "key_material e ver = (case dict_get (en_keys e) (or_str ver (en_version e)) of
       None \<Rightarrow> Inl Api_ValueError | Some key \<Rightarrow> Inr key)"

definition xor_bytes :: "bytes \<Rightarrow> bytes \<Rightarrow> bytes" where
  "xor_bytes xs ys = map (\<lambda>(x, y). x XOR y) (zip xs ys)"

type_synonym sealed = "bytes \<times> bytes \<times> bytes"

definition encrypt :: "cryptolib \<Rightarrow> encryptor \<Rightarrow> bytes \<Rightarrow> bytes \<Rightarrow> api_error + sealed" where
  "encrypt c e nonce plaintext = (case key_material e (Some (en_version e)) of
       Inl err \<Rightarrow> Inl err
     | Inr key \<Rightarrow>
         let stream = shake256 c (key @ nonce) (length plaintext);
             ciphertext = xor_bytes plaintext stream
         in Inr (nonce, ciphertext, hmac256 c key (nonce @ ciphertext)))"

definition decrypt :: "cryptolib \<Rightarrow> encryptor \<Rightarrow> sealed \<Rightarrow> string option \<Rightarrow> api_error + bytes" where
  "decrypt c e = (\<lambda>(nonce, ciphertext, tag) ver. case key_material e ver of
       Inl err \<Rightarrow> Inl err
     | Inr key \<Rightarrow>
         if hmac256 c key (nonce @ ciphertext) \<noteq> tag then Inl Api_ValueError
         else Inr (xor_bytes ciphertext (shake256 c (key @ nonce) (length ciphertext))))"

text \<open>The last two components: the version the result is sealed under, and whether it moved.\<close>

definition reencrypt ::
  "cryptolib \<Rightarrow> encryptor \<Rightarrow> bytes \<Rightarrow> sealed \<Rightarrow> string option \<Rightarrow> api_error + sealed \<times> string \<times> bool" where
  "reencrypt c e nonce old ver = (case decrypt c e old ver of
       Inl err \<Rightarrow> Inl err
     | Inr plaintext \<Rightarrow>
         if or_str ver (en_version e) = en_version e then Inr (old, en_version e, False)
         else (case encrypt c e nonce plaintext of
             Inl err \<Rightarrow> Inl err
           | Inr new \<Rightarrow> Inr (new, en_version e, True)))"

subsection \<open>Fingerprint\<close>

definition normalize_key :: "string \<Rightarrow> string" where
  "normalize_key api_key = py_strip api_key"

definition fingerprint_key :: "cryptolib \<Rightarrow> string \<Rightarrow> bytes \<Rightarrow> string \<Rightarrow> string" where
  "fingerprint_key c api_key secret platform =
     hexdigest (hmac256 c secret (utf8_encode (platform @ [CHR 0x0A] @ normalize_key api_key)))"

subsection \<open>Facts\<close>

lemma of_char_lt: "(of_char c :: nat) < 256"
  using nat_of_char_less_256 by simp

lemma unat_byte: "k < 256 \<Longrightarrow> unat (word_of_nat k :: 8 word) = k"
  by (simp add: unat_of_nat)

lemma utf8_decode_char: "utf8_decode (utf8_char c @ bs) = map_option (Cons c) (utf8_decode bs)"
proof -
  let ?n = "of_char c :: nat"
  have n: "?n < 256" by (rule of_char_lt)
  show ?thesis
  proof (cases "?n < 128")
    case True
    then have "unat (word_of_nat ?n :: 8 word) = ?n" by (intro unat_byte) simp
    with True show ?thesis by (cases bs) (simp_all add: utf8_char_def)
  next
    case False
    then have d: "?n div 64 = 2 \<or> ?n div 64 = 3" using n by linarith
    have u1: "unat (word_of_nat (192 + ?n div 64) :: 8 word) = 192 + ?n div 64"
      using d by (intro unat_byte) auto
    have m: "?n mod 64 < 64" by simp
    then have u2: "unat (word_of_nat (128 + ?n mod 64) :: 8 word) = 128 + ?n mod 64"
      by (intro unat_byte) simp
    have undo: "(192 + ?n div 64 - 192) * 64 + (128 + ?n mod 64 - 128) = ?n" by simp
    have shape: "utf8_char c @ bs = word_of_nat (192 + ?n div 64) # word_of_nat (128 + ?n mod 64) # bs"
      using False by (simp add: utf8_char_def Let_def)
    from d have "192 + ?n div 64 = 194 \<or> 192 + ?n div 64 = 195" by auto
    then show ?thesis
      unfolding shape utf8_decode.simps u1 u2 undo using m by auto
  qed
qed

lemma utf8_roundtrip: "utf8_decode (utf8_encode s) = Some s"
  by (induction s) (simp_all add: utf8_encode_def utf8_decode_char)

lemma length_xor_bytes [simp]: "length (xor_bytes xs ys) = min (length xs) (length ys)"
  by (simp add: xor_bytes_def)

lemma xor_bytes_twice:
  "length xs = length ys \<Longrightarrow> xor_bytes (xor_bytes xs ys) ys = xs"
  by (induction xs ys rule: list_induct2) (simp_all add: xor_bytes_def xor.assoc)

lemma encrypt_Inr:
  assumes "encrypt c e nonce plaintext = Inr (n, ct, tag)"
  obtains key where "key_material e (Some (en_version e)) = Inr key" "n = nonce"
    "ct = xor_bytes plaintext (shake256 c (key @ nonce) (length plaintext))"
    "tag = hmac256 c key (nonce @ ct)"
  using assms by (auto simp: encrypt_def Let_def split: sum.splits)

lemma key_material_default: "key_material e (Some (en_version e)) = key_material e None"
  by (simp add: key_material_def or_str_def)

text \<open>What is sealed opens again, under the version stored with the row or under none.\<close>

lemma encrypt_decrypt:
  assumes shake: "shake_ok c" and enc: "encrypt c e nonce plaintext = Inr sealed"
    and ver: "ver = None \<or> ver = Some (en_version e)"
  shows "decrypt c e sealed ver = Inr plaintext"
proof -
  obtain n ct tag where s: "sealed = (n, ct, tag)" by (cases sealed)
  from enc obtain key where key: "key_material e (Some (en_version e)) = Inr key" and "n = nonce"
    and ct: "ct = xor_bytes plaintext (shake256 c (key @ nonce) (length plaintext))"
    and tag: "tag = hmac256 c key (nonce @ ct)"
    unfolding s by (rule encrypt_Inr)
  from shake have "length ct = length plaintext" by (simp add: ct shake_ok_def)
  then have "xor_bytes ct (shake256 c (key @ nonce) (length ct)) = plaintext"
    using shake by (simp add: ct xor_bytes_twice shake_ok_def)
  moreover have "key_material e ver = Inr key"
    using ver key by (auto simp: key_material_default)
  ultimately show ?thesis
    by (simp add: s decrypt_def tag \<open>n = nonce\<close>)
qed

lemma decrypt_authenticates:
  "decrypt c e (n, ct, tag) ver = Inr p \<Longrightarrow>
     \<exists>key. key_material e ver = Inr key \<and> tag = hmac256 c key (n @ ct)"
  by (auto simp: decrypt_def split: sum.splits if_splits)

lemma ring_add_known:
  "ring_add previous keys = Inr ring \<Longrightarrow>
     fst ` set ring = fst ` set keys \<union> fst ` set previous"
proof (induction previous keys rule: ring_add.induct)
  case (2 ver material rest keys)
  then have "fst ` set ring = fst ` set (dict_set ver material keys) \<union> fst ` set rest"
    by (simp split: if_splits)
  then show ?case
    by (auto simp: dict_set_def dom_update)
qed simp

lemma ring_add_long:
  "ring_add previous keys = Inr ring \<Longrightarrow> (\<And>w k. dict_get keys w = Some k \<Longrightarrow> 32 \<le> length k) \<Longrightarrow>
     dict_get ring v = Some m \<Longrightarrow> 32 \<le> length m"
proof (induction previous keys rule: ring_add.induct)
  case (1 keys)
  then show ?case by simp
next
  case (2 ver material rest keys)
  then have len: "\<not> length material < 32" and rest: "ring_add rest (dict_set ver material keys) = Inr ring"
    by (simp_all split: if_splits)
  show ?case
  proof (rule 2(1)[OF len rest _ 2(4)])
    fix w k
    assume "dict_get (dict_set ver material keys) w = Some k"
    then show "32 \<le> length k" using 2(3) len by (simp split: if_splits)
  qed
qed

end
