(* ===== verification/Market.thy ===== *)
theory Market
  imports Credentials
begin

section \<open>The state of the API service\<close>

text \<open>
  \<^verbatim>\<open>app/main.py\<close> wires the services of the API service over one set of in-memory stores: the
  connection service calls the binding service, which calls the project store and the lifecycle of
  connections, and the project service asks the binding service. Here the stores are one record and
  every service operation is an operation on it. \<open>mk_next\<close> is the source of fresh identifiers. An
  operation that reads the clock does so once (\<open>now\<close>), where the code may call \<^verbatim>\<open>utcnow()\<close> several
  times in a row.
\<close>

record market =
  mk_projects :: project_store
  mk_bindings :: binding_store
  mk_connections :: connection_store
  mk_next :: uuid

type_synonym 'a market_op = "(market, api_error, 'a) op"

definition on_projects :: "'a project_store_op \<Rightarrow> 'a market_op" where
  "on_projects = zoom mk_projects (\<lambda>t m. m\<lparr>mk_projects := t\<rparr>) (\<lambda>e. e)"

definition on_bindings :: "'a binding_store_op \<Rightarrow> 'a market_op" where
  "on_bindings = zoom mk_bindings (\<lambda>t m. m\<lparr>mk_bindings := t\<rparr>) (\<lambda>e. e)"

definition on_connections :: "'a connection_store_op \<Rightarrow> 'a market_op" where
  "on_connections = zoom mk_connections (\<lambda>t m. m\<lparr>mk_connections := t\<rparr>) (\<lambda>e. e)"

definition new_uuid :: "uuid market_op" where
  "new_uuid = bindE (gets mk_next) (\<lambda>i. bindE (modify (\<lambda>m. m\<lparr>mk_next := i + 1\<rparr>)) (\<lambda>_. ret i))"

definition the_project :: "uuid \<Rightarrow> market \<Rightarrow> project option" where
  "the_project pid m = project_of (mk_projects m) pid"

definition the_binding :: "uuid \<Rightarrow> market \<Rightarrow> binding option" where
  "the_binding bid m = binding_of (mk_bindings m) bid"

definition the_connection :: "uuid \<Rightarrow> market \<Rightarrow> connection option" where
  "the_connection cid m = connection_of (mk_connections m) cid"

definition empty_market :: market where
  "empty_market = \<lparr>mk_projects = \<lparr>ps_by_id = [], ps_blockers = [], ps_idem = [], ps_audits = []\<rparr>,
     mk_bindings = \<lparr>bs_by_id = [], bs_audits = []\<rparr>,
     mk_connections = \<lparr>cs_by_id = [], cs_audits = [], cs_snapshots = []\<rparr>, mk_next = 0\<rparr>"

subsection \<open>Stores inside the state\<close>

lemma on_store_Inr:
  "on_projects a m = (Inr x, n) \<longleftrightarrow> (\<exists>t. a (mk_projects m) = (Inr x, t) \<and> n = m\<lparr>mk_projects := t\<rparr>)"
  "on_bindings b m = (Inr y, n) \<longleftrightarrow> (\<exists>t. b (mk_bindings m) = (Inr y, t) \<and> n = m\<lparr>mk_bindings := t\<rparr>)"
  "on_connections c m = (Inr z, n) \<longleftrightarrow>
     (\<exists>t. c (mk_connections m) = (Inr z, t) \<and> n = m\<lparr>mk_connections := t\<rparr>)"
  by (auto simp: on_projects_def on_bindings_def on_connections_def zoom_def
      split: prod.splits sum.splits)

lemma new_uuid_run [run]: "new_uuid m = (Inr (mk_next m), m\<lparr>mk_next := mk_next m + 1\<rparr>)"
  by (simp add: new_uuid_def run)

lemma evolves_on_projects:
  assumes "\<And>m t. R (mk_projects m) t \<Longrightarrow> Q m (m\<lparr>mk_projects := t\<rparr>)" and "evolves R a"
  shows "evolves Q (on_projects a)"
  using assms by (auto simp: evolves_def on_projects_def zoom_def split: prod.splits sum.splits)
    (metis snd_conv)+

lemma evolves_on_bindings:
  assumes "\<And>m t. R (mk_bindings m) t \<Longrightarrow> Q m (m\<lparr>mk_bindings := t\<rparr>)" and "evolves R a"
  shows "evolves Q (on_bindings a)"
  using assms by (auto simp: evolves_def on_bindings_def zoom_def split: prod.splits sum.splits)
    (metis snd_conv)+

lemma evolves_on_connections:
  assumes "\<And>m t. R (mk_connections m) t \<Longrightarrow> Q m (m\<lparr>mk_connections := t\<rparr>)" and "evolves R a"
  shows "evolves Q (on_connections a)"
  using assms by (auto simp: evolves_def on_connections_def zoom_def split: prod.splits sum.splits)
    (metis snd_conv)+

end
