(* ===== verification/Egress.thy ===== *)
theory Egress
  imports Api_Base
begin

section \<open>SSRF guards of provider base URLs\<close>

text \<open>
  \<^verbatim>\<open>connections/ssrf.py\<close>. URL and address parsing (\<^verbatim>\<open>urllib.parse\<close>, \<^verbatim>\<open>ipaddress\<close>) and name resolution
  are arguments: \<open>urlparse\<close> and \<open>ip_address\<close> give \<^verbatim>\<open>None\<close> where Python raises \<^verbatim>\<open>ValueError\<close>, the
  resolver gives \<^verbatim>\<open>None\<close> where it raises \<^verbatim>\<open>OSError\<close>. \<^verbatim>\<open>parsed.port\<close> is a property that may raise, so
  it is \<open>None\<close> for \<^verbatim>\<open>ValueError\<close> and \<open>Some None\<close> for no port. A fetcher returns a status, the headers in
  their order and a body.
\<close>

record url_parts =
  up_scheme :: string
  up_username :: "string option"
  up_password :: "string option"
  up_hostname :: "string option"
  up_port :: "int option option"

record ip_flags =
  ip_loopback :: bool
  ip_private :: bool
  ip_link_local :: bool
  ip_multicast :: bool
  ip_reserved :: bool
  ip_unspecified :: bool

record netlib =
  nl_urlparse :: "string \<Rightarrow> url_parts option"
  nl_urljoin :: "string \<Rightarrow> string \<Rightarrow> string"
  nl_ip_address :: "string \<Rightarrow> ip_flags option"

type_synonym resolver = "string \<Rightarrow> int \<Rightarrow> string list option"
type_synonym fetched = "int \<times> (string \<times> string) list \<times> string"

definition metadata_hosts :: "string set" where
  "metadata_hosts = {''metadata.google.internal'', ''metadata'', ''169.254.169.254'', ''localhost'',
     ''localhost.localdomain'', ''ip6-localhost''}"

definition official_base :: "string \<Rightarrow> string" where
  "official_base provider =
     (if provider = ''openai'' then ''https://api.openai.com''
      else if provider = ''anthropic'' then ''https://api.anthropic.com''
      else ''https://aiplatform.googleapis.com'')"

definition blocked_ip :: "ip_flags \<Rightarrow> bool" where
  "blocked_ip ip \<longleftrightarrow> ip_loopback ip \<or> ip_private ip \<or> ip_link_local ip \<or> ip_multicast ip \<or>
     ip_reserved ip \<or> ip_unspecified ip"

fun check_addresses :: "netlib \<Rightarrow> string list \<Rightarrow> api_error + unit" where
  "check_addresses lib [] = Inr ()"
| "check_addresses lib (addr # rest) = (case nl_ip_address lib addr of
      None \<Rightarrow> Inl Api_ValueError
    | Some ip \<Rightarrow> if blocked_ip ip then Inl SsrfError else check_addresses lib rest)"

definition resolve_checked :: "netlib \<Rightarrow> resolver \<Rightarrow> string \<Rightarrow> int option option \<Rightarrow> api_error + unit" where
  "resolve_checked lib resolver host port = (case port of
       None \<Rightarrow> Inl Api_ValueError
     | Some p \<Rightarrow>
         (case resolver host (case p of None \<Rightarrow> 443 | Some n \<Rightarrow> if n = 0 then 443 else n) of
            None \<Rightarrow> Inl SsrfError
          | Some addrs \<Rightarrow> if addrs = [] then Inl SsrfError else check_addresses lib addrs))"

definition url_host :: "url_parts \<Rightarrow> string" where
  "url_host parsed = py_lower (or_str (up_hostname parsed) [])"

definition validate_base_url :: "netlib \<Rightarrow> resolver \<Rightarrow> bool \<Rightarrow> string \<Rightarrow> api_error + string" where
  "validate_base_url lib resolver skip_resolve url = (case nl_urlparse lib (py_strip url) of
       None \<Rightarrow> Inl Api_ValueError
     | Some parsed \<Rightarrow>
         let host = url_host parsed in
         if up_scheme parsed \<noteq> ''https'' then Inl SsrfError
         else if truthy (up_username parsed) \<or> truthy (up_password parsed) then Inl SsrfError
         else if host = [] \<or> host \<in> metadata_hosts then Inl SsrfError
         else if (case nl_ip_address lib host of None \<Rightarrow> False | Some ip \<Rightarrow> blocked_ip ip) then Inl SsrfError
         else if skip_resolve then Inr url
         else (case resolve_checked lib resolver host (up_port parsed) of
             Inl e \<Rightarrow> Inl e
           | Inr _ \<Rightarrow> Inr url))"

text \<open>Never returns normally.\<close>

definition reject_redirect :: "netlib \<Rightarrow> resolver \<Rightarrow> string \<Rightarrow> api_error" where
  "reject_redirect lib resolver location =
     (if location = [] then SsrfError
      else if starts_with location ''/'' then SsrfError
      else case validate_base_url lib resolver False location of Inl e \<Rightarrow> e | Inr _ \<Rightarrow> SsrfError)"

fun location_header :: "(string \<times> string) list \<Rightarrow> string" where
  "location_header [] = []"
| "location_header ((key, val) # rest) =
     (if py_lower key = ''location'' then val else location_header rest)"

definition guarded_fetch ::
  "netlib \<Rightarrow> resolver \<Rightarrow> (string \<Rightarrow> api_error + fetched) \<Rightarrow> string \<Rightarrow> api_error + fetched" where
  "guarded_fetch lib resolver fetch url = (case validate_base_url lib resolver False url of
       Inl e \<Rightarrow> Inl e
     | Inr _ \<Rightarrow> (case fetch url of
           Inl e \<Rightarrow> Inl e
         | Inr (status, headers, body) \<Rightarrow>
             let loc = location_header headers in
             if 300 \<le> status \<and> status < 400 \<or> loc \<noteq> []
             then Inl (reject_redirect lib resolver (if loc \<noteq> [] then nl_urljoin lib url loc else url))
             else Inr (status, headers, body)))"

subsection \<open>Facts\<close>

text \<open>What a host a request may be sent to satisfies.\<close>

definition public_target :: "netlib \<Rightarrow> resolver \<Rightarrow> url_parts \<Rightarrow> bool" where
  "public_target lib resolver parsed \<longleftrightarrow>
     up_scheme parsed = ''https'' \<and> \<not> truthy (up_username parsed) \<and> \<not> truthy (up_password parsed) \<and>
     url_host parsed \<noteq> [] \<and> url_host parsed \<notin> metadata_hosts \<and>
     (\<forall>ip. nl_ip_address lib (url_host parsed) = Some ip \<longrightarrow> \<not> blocked_ip ip) \<and>
     (\<exists>port addrs. resolver (url_host parsed) port = Some addrs \<and> addrs \<noteq> [] \<and>
        (\<forall>a \<in> set addrs. \<exists>ip. nl_ip_address lib a = Some ip \<and> \<not> blocked_ip ip))"

lemma check_addresses_Inr:
  "check_addresses lib addrs = Inr () \<longleftrightarrow>
     (\<forall>a \<in> set addrs. \<exists>ip. nl_ip_address lib a = Some ip \<and> \<not> blocked_ip ip)"
  by (induction addrs) (auto split: option.splits)

lemma resolve_checked_Inr:
  "resolve_checked lib resolver host port = Inr () \<Longrightarrow>
     \<exists>p addrs. resolver host p = Some addrs \<and> addrs \<noteq> [] \<and>
       (\<forall>a \<in> set addrs. \<exists>ip. nl_ip_address lib a = Some ip \<and> \<not> blocked_ip ip)"
  by (auto simp: resolve_checked_def check_addresses_Inr split: option.splits if_splits)

lemma validate_base_url_Inr:
  assumes "validate_base_url lib resolver False url = Inr u"
  shows "u = url \<and> (\<exists>parsed. nl_urlparse lib (py_strip url) = Some parsed \<and> public_target lib resolver parsed)"
proof -
  from assms obtain parsed where p: "nl_urlparse lib (py_strip url) = Some parsed"
    by (auto simp: validate_base_url_def split: option.splits)
  with assms have checks: "up_scheme parsed = ''https''" "\<not> truthy (up_username parsed)"
      "\<not> truthy (up_password parsed)" "url_host parsed \<noteq> []" "url_host parsed \<notin> metadata_hosts"
      "\<forall>ip. nl_ip_address lib (url_host parsed) = Some ip \<longrightarrow> \<not> blocked_ip ip"
      "resolve_checked lib resolver (url_host parsed) (up_port parsed) = Inr ()" and u: "u = url"
    by (auto simp: validate_base_url_def Let_def split: if_splits option.splits sum.splits)
  from checks(7) have "\<exists>p addrs. resolver (url_host parsed) p = Some addrs \<and> addrs \<noteq> [] \<and>
       (\<forall>a \<in> set addrs. \<exists>ip. nl_ip_address lib a = Some ip \<and> \<not> blocked_ip ip)"
    by (rule resolve_checked_Inr)
  with p checks u show ?thesis by (auto simp: public_target_def)
qed

lemma guarded_fetch_Inr:
  assumes "guarded_fetch lib resolver fetch url = Inr (status, headers, body)"
  shows "validate_base_url lib resolver False url = Inr url \<and> fetch url = Inr (status, headers, body) \<and>
    \<not> (300 \<le> status \<and> status < 400) \<and> location_header headers = []"
proof -
  from assms obtain u where v: "validate_base_url lib resolver False url = Inr u"
    by (auto simp: guarded_fetch_def split: sum.splits)
  then have "u = url" by (blast dest: validate_base_url_Inr)
  with assms v show ?thesis
    by (auto simp: guarded_fetch_def Let_def split: sum.splits prod.splits if_splits)
qed

end
