(* ===== verification/Connections.thy ===== *)
theory Connections
  imports Market Egress
begin

section \<open>Provider connections: credentials and lifecycle\<close>

text \<open>
  \<^verbatim>\<open>connections/service.py\<close> and \<^verbatim>\<open>connections/lifecycle.py\<close> (\<^verbatim>\<open>ConnectionService.delete\<close>, which calls
  the binding service, is in theory \<open>Bindings\<close>). The service's collaborators, fixed when it is
  built, are the record \<open>connection_env\<close>; the nonce of an encryption is an argument.
\<close>

record connection_env =
  ce_crypto :: cryptolib
  ce_enc :: encryptor
  ce_fingerprint :: bytes
  ce_net :: netlib
  ce_resolver :: resolver

record caller =
  ca_id :: uuid
  ca_role :: string
  ca_workspace :: "string option"

record connection_fact =
  cf_connection_id :: uuid
  cf_provider :: string
  cf_supply_mode :: string
  cf_usable :: bool
  cf_lifecycle_state :: lifecycle
  cf_admits_new :: bool

subsection \<open>Lifecycle rules\<close>

definition live :: "lifecycle set" where
  "live = {Lc_listed, Lc_bound}"

definition mode_open :: "lifecycle set" where
  "mode_open = {Lc_draft, Lc_verified}"

fun lifecycle_allowed :: "lifecycle \<Rightarrow> lifecycle \<Rightarrow> bool" where
  "lifecycle_allowed Lc_draft b = (b \<in> {Lc_verified, Lc_retired})"
| "lifecycle_allowed Lc_verified b = (b \<in> {Lc_listed, Lc_retired})"
| "lifecycle_allowed Lc_listed b = (b \<in> {Lc_bound, Lc_paused, Lc_draining})"
| "lifecycle_allowed Lc_bound b = (b \<in> {Lc_paused, Lc_draining, Lc_listed})"
| "lifecycle_allowed Lc_paused b = (b \<in> {Lc_listed, Lc_bound, Lc_draining, Lc_retired})"
| "lifecycle_allowed Lc_draining b = (b = Lc_retired)"
| "lifecycle_allowed Lc_retired b = False"

definition transition :: "lifecycle \<Rightarrow> lifecycle \<Rightarrow> api_error + lifecycle" where
  "transition current target =
     (if current = target then Inr current
      else if \<not> lifecycle_allowed current target
      then Inl (ConnectionError CN_illegal_state_transition 409)
      else Inr target)"

definition admits_new :: "connection \<Rightarrow> bool" where
  "admits_new rec \<longleftrightarrow> usable rec \<and> co_lifecycle_state rec \<in> live \<and> co_health_state rec = H_healthy \<and>
     co_capability_version rec > 0"

subsection \<open>\<^verbatim>\<open>ConnectionService\<close>\<close>

definition require_seller :: "caller \<Rightarrow> unit market_op" where
  "require_seller c = require (acts_as ''seller'' (ca_role c) (ca_workspace c))
     (ConnectionError CN_forbidden_role 403)"

definition owned_connection :: "uuid \<Rightarrow> uuid \<Rightarrow> connection market_op" where
  "owned_connection cid seller = bindE (gets (the_connection cid)) (\<lambda>found.
     of_option (ConnectionError CN_not_found 404)
       (case found of
          None \<Rightarrow> None
        | Some rec \<Rightarrow> if co_seller rec \<noteq> seller \<or> co_status rec = Cs_deleted then None else Some rec))"

definition get_connection :: "uuid \<Rightarrow> caller \<Rightarrow> connection market_op" where
  "get_connection cid c = bindE (require_seller c) (\<lambda>_. owned_connection cid (ca_id c))"

definition list_my_connections :: "caller \<Rightarrow> connection list market_op" where
  "list_my_connections c = bindE (require_seller c) (\<lambda>_.
     gets (\<lambda>m. connection_list_by_seller (ca_id c) (mk_connections m)))"

definition get_fact :: "uuid \<Rightarrow> market \<Rightarrow> connection_fact option" where
  "get_fact cid m = (case the_connection cid m of
       None \<Rightarrow> None
     | Some rec \<Rightarrow>
         if \<not> usable rec then None
         else Some \<lparr>cf_connection_id = co_id rec, cf_provider = co_provider rec,
           cf_supply_mode = co_supply_mode rec, cf_usable = True,
           cf_lifecycle_state = co_lifecycle_state rec, cf_admits_new = admits_new rec\<rparr>)"

record connection_form =
  fo_provider :: string
  fo_supply_mode :: string
  fo_secret :: string
  fo_region :: "string option"
  fo_purpose :: "string option"
  fo_base_url :: "string option"
  fo_project_number :: "string option"
  fo_location :: "string option"

definition ssrf_as_connection_error :: "api_error \<Rightarrow> api_error" where
  "ssrf_as_connection_error e = (if e = SsrfError then ConnectionError CN_ssrf_rejected 400 else e)"

definition check_form :: "connection_env \<Rightarrow> connection_form \<Rightarrow> string \<Rightarrow> string market_op" where
  "check_form env f secret =
     bindE (require (fo_provider f \<in> protocols_known \<and> fo_supply_mode f \<in> supply_modes)
              (ConnectionError CN_validation 400)) (\<lambda>_.
     bindE (require (secret \<noteq> []) (ConnectionError CN_validation 400)) (\<lambda>_.
     bindE (require (fo_provider f = ''vertex'' \<longrightarrow> truthy (fo_project_number f) \<and> truthy (fo_location f))
              (ConnectionError CN_validation 400)) (\<lambda>_.
     let url = py_strip (or_str (fo_base_url f) (official_base (fo_provider f))) in
     catch_op (of_sum (validate_base_url (ce_net env) (ce_resolver env) (fo_base_url f = None) url))
       (\<lambda>e. throw (ssrf_as_connection_error e)))))"

definition fresh_connection ::
  "connection_env \<Rightarrow> instant \<Rightarrow> uuid \<Rightarrow> uuid \<Rightarrow> connection_form \<Rightarrow> string \<Rightarrow> string \<Rightarrow> sealed \<Rightarrow> connection" where
  "fresh_connection env now cid seller f secret url = (\<lambda>(nonce, ct, tag).
     \<lparr>co_id = cid, co_seller = seller, co_provider = fo_provider f,
      co_supply_mode = fo_supply_mode f,
      co_auth_type = (if fo_provider f = ''vertex'' then ''service_account'' else ''api_key''),
      co_base_url = url, co_region = or_else (fo_region f) (fo_location f), co_purpose = fo_purpose f,
      co_project_number = fo_project_number f, co_location = fo_location f,
      co_nonce = Some nonce, co_ciphertext = Some ct, co_tag = Some tag,
      co_key_version = Some (en_version (ce_enc env)),
      co_fingerprint = fingerprint_key (ce_crypto env) secret (ce_fingerprint env) (fo_provider f),
      co_credential_version = 1, co_status = Cs_active, co_deleted_at = None,
      co_created_at = Some now, co_updated_at = Some now, co_health_state = H_unknown,
      co_health_reason = None, co_health_checked_at = None, co_consecutive_successes = 0,
      co_consecutive_failures = 0, co_last_probe_at = None, co_next_probe_at = None,
      co_capability_version = 0, co_lifecycle_state = Lc_draft\<rparr>)"

definition create_connection ::
  "connection_env \<Rightarrow> instant \<Rightarrow> bytes \<Rightarrow> caller \<Rightarrow> connection_form \<Rightarrow> string \<Rightarrow> connection market_op" where
  "create_connection env now nonce c f request_id =
     bindE (require_seller c) (\<lambda>_.
     let secret = py_strip (fo_secret f) in
     bindE (check_form env f secret) (\<lambda>url.
     bindE (of_sum (encrypt (ce_crypto env) (ce_enc env) nonce (utf8_encode secret))) (\<lambda>sealed.
     bindE new_uuid (\<lambda>cid.
     let rec = fresh_connection env now cid (ca_id c) f secret url sealed in
     bindE (on_connections (connection_create rec)) (\<lambda>_.
     bindE (on_connections (connection_audit now (ca_id c) (Some cid) ''connection.created'' request_id
       [(''provider'', PyStr (fo_provider f)), (''fingerprint'', PyStr (co_fingerprint rec))])) (\<lambda>_.
     ret rec))))))"

definition replaced_connection ::
  "connection_env \<Rightarrow> instant \<Rightarrow> connection \<Rightarrow> string \<Rightarrow> int \<Rightarrow> sealed \<Rightarrow> connection" where
  "replaced_connection env now rec secret expected = (\<lambda>(nonce, ct, tag).
     rec\<lparr>co_nonce := Some nonce, co_ciphertext := Some ct, co_tag := Some tag,
       co_key_version := Some (en_version (ce_enc env)),
       co_fingerprint := fingerprint_key (ce_crypto env) secret (ce_fingerprint env) (co_provider rec),
       co_credential_version := expected + 1, co_updated_at := Some now\<rparr>)"

definition save_as_service :: "connection \<Rightarrow> int \<Rightarrow> unit market_op" where
  "save_as_service rec expected = catch_op (on_connections (save_replace rec expected))
     (\<lambda>e. throw (if e = VersionConflict then ConnectionError CN_version_conflict 409
                 else if e = KeyError then ConnectionError CN_not_found 404 else e))"

definition replace_credential ::
  "connection_env \<Rightarrow> instant \<Rightarrow> bytes \<Rightarrow> uuid \<Rightarrow> caller \<Rightarrow> string \<Rightarrow> int \<Rightarrow>
     string option \<Rightarrow> string option \<Rightarrow> string \<Rightarrow> connection market_op" where
  "replace_credential env now nonce cid c new_secret expected project_number location request_id =
     bindE (require_seller c) (\<lambda>_.
     bindE (owned_connection cid (ca_id c)) (\<lambda>found.
     let secret = py_strip new_secret in
     bindE (require (secret \<noteq> []) (ConnectionError CN_validation 400)) (\<lambda>_.
     let rec = (if co_provider found = ''vertex''
                then found\<lparr>co_project_number := or_else project_number (co_project_number found),
                           co_location := or_else location (co_location found)\<rparr>
                else found) in
     bindE (require (co_provider rec = ''vertex'' \<longrightarrow>
                       truthy (co_project_number rec) \<and> truthy (co_location rec))
              (ConnectionError CN_validation 400)) (\<lambda>_.
     bindE (of_sum (encrypt (ce_crypto env) (ce_enc env) nonce (utf8_encode secret))) (\<lambda>sealed.
     let new = replaced_connection env now rec secret expected sealed in
     bindE (save_as_service new expected) (\<lambda>_.
     bindE (on_connections (connection_audit now (ca_id c) (Some cid) ''connection.credential_replaced''
       request_id [(''version'', PyInt (co_credential_version new))])) (\<lambda>_.
     ret new)))))))"

definition unwrap ::
  "connection_env \<Rightarrow> instant \<Rightarrow> uuid \<Rightarrow> string \<Rightarrow> string \<Rightarrow> uuid option \<Rightarrow> string market_op" where
  "unwrap env now cid purpose request_id actor =
     bindE (require (purpose \<in> {''proxy'', ''verify''}) (ConnectionError CN_validation 400)) (\<lambda>_.
     bindE (gets (the_connection cid)) (\<lambda>found.
     bindE (of_option (ConnectionError CN_not_found 404) found) (\<lambda>rec.
     bindE (require (usable rec) (ConnectionError CN_not_found 404)) (\<lambda>_.
     bindE (require (actor = None \<or> actor = Some (co_seller rec)) (ConnectionError CN_not_found 404)) (\<lambda>_.
     bindE (catch_op (of_sum (decrypt (ce_crypto env) (ce_enc env)
              (case co_nonce rec of None \<Rightarrow> [] | Some n \<Rightarrow> n,
               case co_ciphertext rec of None \<Rightarrow> [] | Some ct \<Rightarrow> ct,
               case co_tag rec of None \<Rightarrow> [] | Some t \<Rightarrow> t) (co_key_version rec)))
            (\<lambda>e. throw (ConnectionError CN_not_found 404))) (\<lambda>plain.
     bindE (on_connections (connection_audit now (co_seller rec) (Some cid) ''connection.unwrapped''
       request_id [(''purpose'', PyStr purpose)])) (\<lambda>_.
     of_option Api_ValueError (utf8_decode plain))))))))"

end
