(* ===== verification/Lifecycle.thy ===== *)
theory Lifecycle
  imports Connections
begin

section \<open>Lifecycle and health of provider connections\<close>

text \<open>
  \<^verbatim>\<open>connections/lifecycle.py\<close> (\<^verbatim>\<open>LifecycleService\<close>, with the binding store as its dependency lookup,
  as \<^verbatim>\<open>main.py\<close> wires it) and \<^verbatim>\<open>connections/health.py\<close>. A blocker is its code and its detail.
\<close>

subsection \<open>\<^verbatim>\<open>LifecycleService\<close>\<close>

type_synonym blocker = "connection_code \<times> pyval"

definition binding_blockers :: "uuid \<Rightarrow> market \<Rightarrow> blocker list" where
  "binding_blockers cid m =
     (let active = filter (\<lambda>r. bd_status r \<in> {Bs_active, Bs_degraded})
                     (binding_list_by_connection cid (mk_bindings m))
      in if active = [] then [] else [(CN_binding_active, PyUuid (bd_id (hd active)))])"

definition persist :: "instant \<Rightarrow> connection \<Rightarrow> lifecycle \<Rightarrow> string \<Rightarrow> connection market_op" where
  "persist now changed expected request_id =
     (let rec = changed\<lparr>co_updated_at := Some now\<rparr> in
      bindE (catch_op (on_connections (save_lifecycle now rec expected))
        (\<lambda>e. throw (if e = VersionConflict then ConnectionError CN_version_conflict 409 else e))) (\<lambda>_.
      bindE (on_connections (connection_audit now (co_seller rec) (Some (co_id rec)) ''connection.lifecycle''
        request_id [(''lifecycle_state'', PyStr (lifecycle_str (co_lifecycle_state rec))),
                    (''supply_mode'', PyStr (co_supply_mode rec))])) (\<lambda>_.
      ret rec)))"

text \<open>The last lines of every operation: move the record, then persist it.\<close>

definition move_to :: "instant \<Rightarrow> connection \<Rightarrow> lifecycle \<Rightarrow> string \<Rightarrow> connection market_op" where
  "move_to now rec target request_id =
     bindE (of_sum (transition (co_lifecycle_state rec) target)) (\<lambda>reached.
     persist now (rec\<lparr>co_lifecycle_state := reached\<rparr>) (co_lifecycle_state rec) request_id)"

definition mark_verified :: "instant \<Rightarrow> connection \<Rightarrow> string \<Rightarrow> connection market_op" where
  "mark_verified now rec request_id =
     (if co_lifecycle_state rec \<noteq> Lc_draft then ret rec else move_to now rec Lc_verified request_id)"

definition set_mode :: "instant \<Rightarrow> uuid \<Rightarrow> caller \<Rightarrow> string \<Rightarrow> string \<Rightarrow> connection market_op" where
  "set_mode now cid c supply_mode request_id =
     bindE (get_connection cid c) (\<lambda>rec.
     bindE (require (co_lifecycle_state rec \<in> mode_open) (ConnectionError CN_mode_locked 409)) (\<lambda>_.
     bindE (require (supply_mode \<in> {''shared'', ''dedicated''}) (ConnectionError CN_validation 400)) (\<lambda>_.
     persist now (rec\<lparr>co_supply_mode := supply_mode\<rparr>) (co_lifecycle_state rec) request_id)))"

definition list_supply :: "instant \<Rightarrow> uuid \<Rightarrow> caller \<Rightarrow> string \<Rightarrow> connection market_op" where
  "list_supply now cid c request_id =
     bindE (get_connection cid c) (\<lambda>rec.
     bindE (require (co_lifecycle_state rec = Lc_verified)
              (ConnectionError CN_illegal_state_transition 409)) (\<lambda>_.
     bindE (require (\<not> (co_health_state rec \<noteq> H_healthy \<or> co_capability_version rec < 1))
              (ConnectionError CN_illegal_state_transition 409)) (\<lambda>_.
     move_to now rec Lc_listed request_id)))"

definition pause :: "instant \<Rightarrow> uuid \<Rightarrow> caller \<Rightarrow> string \<Rightarrow> connection market_op" where
  "pause now cid c request_id =
     bindE (get_connection cid c) (\<lambda>rec. move_to now rec Lc_paused request_id)"

text \<open>The first choice of the target in the code is overwritten by the second.\<close>

definition resume :: "instant \<Rightarrow> uuid \<Rightarrow> caller \<Rightarrow> string \<Rightarrow> connection market_op" where
  "resume now cid c request_id =
     bindE (get_connection cid c) (\<lambda>rec.
     bindE (gets (binding_blockers cid)) (\<lambda>deps.
     move_to now rec
       (if co_supply_mode rec = ''dedicated'' \<and> list_ex (\<lambda>b. fst b = CN_binding_active) deps
        then Lc_bound else Lc_listed) request_id))"

definition drain :: "instant \<Rightarrow> uuid \<Rightarrow> caller \<Rightarrow> string \<Rightarrow> connection market_op" where
  "drain now cid c request_id =
     bindE (get_connection cid c) (\<lambda>rec. move_to now rec Lc_draining request_id)"

definition retire :: "instant \<Rightarrow> uuid \<Rightarrow> caller \<Rightarrow> string \<Rightarrow> connection market_op" where
  "retire now cid c request_id =
     bindE (get_connection cid c) (\<lambda>rec.
     bindE (gets (binding_blockers cid)) (\<lambda>blockers.
     if blockers \<noteq> [] then throw (ConnectionError (fst (hd blockers)) 409)
     else move_to now rec Lc_retired request_id))"

definition ensure_deletable :: "uuid \<Rightarrow> unit market_op" where
  "ensure_deletable cid = bindE (gets (the_connection cid)) (\<lambda>found. case found of
       None \<Rightarrow> ret ()
     | Some rec \<Rightarrow>
         if co_lifecycle_state rec \<in> live \<union> {Lc_paused, Lc_draining}
         then bindE (gets (binding_blockers cid)) (\<lambda>found_blockers.
              let blockers = (if found_blockers \<noteq> [] then found_blockers
                   else [(CN_illegal_state, PyStr (lifecycle_str (co_lifecycle_state rec)))])
              in throw (ConnectionError (fst (hd blockers)) 409))
         else ret ())"

text \<open>Called by the binding service; they do nothing when the move does not apply.\<close>

definition mark_bound :: "instant \<Rightarrow> uuid \<Rightarrow> string \<Rightarrow> unit market_op" where
  "mark_bound now cid request_id = bindE (gets (the_connection cid)) (\<lambda>found. case found of
       None \<Rightarrow> ret ()
     | Some rec \<Rightarrow>
         if co_supply_mode rec \<noteq> ''dedicated'' then ret ()
         else when_op (co_lifecycle_state rec = Lc_listed)
                (bindE (move_to now rec Lc_bound request_id) (\<lambda>_. ret ())))"

definition mark_draining :: "instant \<Rightarrow> uuid \<Rightarrow> string \<Rightarrow> unit market_op" where
  "mark_draining now cid request_id = bindE (gets (the_connection cid)) (\<lambda>found. case found of
       None \<Rightarrow> ret ()
     | Some rec \<Rightarrow>
         if co_lifecycle_state rec \<notin> {Lc_bound, Lc_listed, Lc_paused} then ret ()
         else bindE (move_to now rec Lc_draining request_id) (\<lambda>_. ret ()))"

definition mark_unbound :: "instant \<Rightarrow> uuid \<Rightarrow> string \<Rightarrow> unit market_op" where
  "mark_unbound now cid request_id = bindE (gets (the_connection cid)) (\<lambda>found. case found of
       None \<Rightarrow> ret ()
     | Some rec \<Rightarrow>
         if co_lifecycle_state rec \<noteq> Lc_bound then ret ()
         else bindE (move_to now rec Lc_listed request_id) (\<lambda>_. ret ()))"

definition list_routable :: "string \<Rightarrow> market \<Rightarrow> connection list" where
  "list_routable supply_mode m =
     (if supply_mode \<notin> {''shared'', ''dedicated''} then []
      else filter (\<lambda>rec. co_supply_mode rec = supply_mode \<and> admits_new rec)
             (list_all_active (mk_connections m)))"

subsection \<open>Catalog and health rules\<close>

record catalog_record =
  cr_provider :: string
  cr_stability :: string
  cr_tags :: "string list"
  cr_path :: "string option"

record discovered =
  dv_path_template :: "string option"
  dv_endpoint :: "string option"
  dv_protocol :: "string option"
  dv_model :: "string option"
  dv_region :: "string option"

text \<open>\<open>None\<close> stands for a catalog that cannot be loaded (\<^verbatim>\<open>CatalogError\<close>).\<close>

definition stable_record :: "string \<Rightarrow> catalog_record \<Rightarrow> bool" where
  "stable_record provider r \<longleftrightarrow> cr_provider r = provider \<and> cr_stability r = ''stable'' \<and>
     ''control_plane'' \<notin> set (cr_tags r)"

definition catalog_stable_paths :: "string \<Rightarrow> catalog_record list option \<Rightarrow> string set" where
  "catalog_stable_paths provider catalog = (case catalog of
       None \<Rightarrow> {}
     | Some records \<Rightarrow> set (map (the \<circ> cr_path)
         (filter (\<lambda>r. stable_record provider r \<and> truthy (cr_path r)) records)))"

definition discovered_path :: "discovered \<Rightarrow> string" where
  "discovered_path item = or_str (or_else (dv_path_template item) (dv_endpoint item)) []"

definition intersect_catalog ::
  "string \<Rightarrow> discovered list \<Rightarrow> catalog_record list option \<Rightarrow> capability list" where
  "intersect_catalog provider found catalog =
     (let allowed = catalog_stable_paths provider catalog in
      map (\<lambda>item. \<lparr>cap_protocol = or_str (dv_protocol item) provider,
             cap_path_template = discovered_path item, cap_model = dv_model item,
             cap_region = dv_region item\<rparr>)
        (filter (\<lambda>item. discovered_path item \<in> allowed) found))"

definition success_threshold :: int where
  "success_threshold = 2"

definition fail_threshold :: int where
  "fail_threshold = 3"

definition auth_fail :: "string set" where
  "auth_fail = {''invalid_credential'', ''forbidden'', ''region_mismatch''}"

definition apply_health :: "bool \<Rightarrow> instant \<Rightarrow> string \<Rightarrow> connection \<Rightarrow> connection" where
  "apply_health immediate now category old =
     (let rec = old\<lparr>co_health_reason := Some category, co_health_checked_at := Some now,
                    co_last_probe_at := Some now\<rparr>;
          state = co_health_state rec
      in if category = ''ok'' then
           (let successes = co_consecutive_successes rec + 1 in
            rec\<lparr>co_consecutive_successes := successes, co_consecutive_failures := 0,
                co_health_state := (if immediate \<or> successes \<ge> success_threshold then H_healthy
                                    else if state = H_unhealthy then H_degraded else state)\<rparr>)
         else if category = ''rate_limited'' then
           rec\<lparr>co_consecutive_successes := 0, co_health_state := H_degraded\<rparr>
         else if category \<in> auth_fail then
           rec\<lparr>co_consecutive_successes := 0,
               co_consecutive_failures := co_consecutive_failures rec + 1,
               co_health_state := H_unhealthy\<rparr>
         else if category = ''unavailable'' then
           rec\<lparr>co_health_state := (if state \<noteq> H_healthy then H_unknown else state),
               co_health_reason := Some ''unavailable''\<rparr>
         else
           (let failures = co_consecutive_failures rec + 1 in
            rec\<lparr>co_consecutive_successes := 0, co_consecutive_failures := failures,
                co_health_state := (if immediate \<or> failures \<ge> fail_threshold then H_unhealthy
                                    else if state = H_healthy then H_degraded else state)\<rparr>))"

text \<open>
  The random part of the delay (\<^verbatim>\<open>random.uniform(0, jitter_s)\<close>, at most fifteen seconds) is an
  argument, in microseconds.
\<close>

definition schedule_next :: "instant \<Rightarrow> int \<Rightarrow> connection \<Rightarrow> connection" where
  "schedule_next now jitter rec = rec\<lparr>co_next_probe_at := Some (now + seconds 60 + jitter)\<rparr>"

subsection \<open>\<^verbatim>\<open>HealthService\<close>\<close>

record probe_outcome =
  po_category :: string
  po_discovered :: "discovered list"
  po_quota_hint :: "string option"
  po_detail :: string

definition fail_closed_probe :: "connection \<Rightarrow> string \<Rightarrow> string \<Rightarrow> probe_outcome" where
  "fail_closed_probe rec secret request_id =
     \<lparr>po_category = ''unavailable'', po_discovered = [], po_quota_hint = None,
      po_detail = ''probe_unavailable''\<rparr>"

text \<open>
  What the health service is built with: the vendor probe, the probe budget, the catalog, and the
  replacement of secret-looking text (\<^verbatim>\<open>_SECRET_RE.sub\<close>).
\<close>

record health_env =
  he_conn :: connection_env
  he_probe :: "connection \<Rightarrow> string \<Rightarrow> string \<Rightarrow> probe_outcome"
  he_budget :: int
  he_catalog :: "catalog_record list option"
  he_sub :: "string \<Rightarrow> string"

definition redact_detail :: "(string \<Rightarrow> string) \<Rightarrow> string \<Rightarrow> string" where
  "redact_detail sub txt = sub (take 240 txt)"

record health_fact =
  hf_connection_id :: uuid
  hf_health_state :: health
  hf_reason :: "string option"
  hf_checked_at :: "instant option"
  hf_capability_version :: int
  hf_routable :: bool
  hf_lifecycle_state :: lifecycle
  hf_admits_new :: bool

record verify_result =
  vr_connection :: connection
  vr_category :: string
  vr_capabilities :: "capability list"
  vr_detail :: string

text \<open>Storing what an \<^verbatim>\<open>ok\<close> probe discovered, as the next version of the capabilities.\<close>

definition store_capabilities ::
  "instant \<Rightarrow> connection \<Rightarrow> capability list \<Rightarrow> connection market_op" where
  "store_capabilities now rec caps =
     bindE (gets (\<lambda>m. max_snapshot_version (co_id rec) (mk_connections m) + 1)) (\<lambda>ver.
     bindE (on_connections (save_snapshot now (co_id rec) ver caps)) (\<lambda>_.
     ret (rec\<lparr>co_capability_version := ver\<rparr>)))"

definition verify ::
  "health_env \<Rightarrow> instant \<Rightarrow> int \<Rightarrow> uuid \<Rightarrow> caller \<Rightarrow> bool \<Rightarrow> string \<Rightarrow> verify_result market_op" where
  "verify env now jitter cid c immediate request_id =
     bindE (get_connection cid c) (\<lambda>found.
     bindE (unwrap (he_conn env) now cid ''verify'' request_id (Some (ca_id c))) (\<lambda>secret.
     let outcome = he_probe env found secret request_id;
         ok = (po_category outcome = ''ok'');
         checked = schedule_next now jitter (apply_health immediate now (po_category outcome) found);
         caps = (if ok then intersect_catalog (co_provider found) (po_discovered outcome) (he_catalog env)
                 else [])
     in bindE (if ok then store_capabilities now checked caps else ret checked) (\<lambda>versioned.
     let rec = versioned\<lparr>co_updated_at := Some now\<rparr> in
     bindE (on_connections (save_health now rec)) (\<lambda>_.
     bindE (if ok \<and> co_lifecycle_state rec = Lc_draft
            then bindE (on_connections (save_lifecycle now (rec\<lparr>co_lifecycle_state := Lc_verified\<rparr>) Lc_draft))
                   (\<lambda>_. ret (rec\<lparr>co_lifecycle_state := Lc_verified\<rparr>))
            else ret rec) (\<lambda>final.
     let detail = redact_detail (he_sub env) (po_detail outcome) in
     bindE (on_connections (connection_audit now (ca_id c) (Some cid) ''connection.verified'' request_id
       [(''category'', PyStr (po_category outcome)),
        (''health_state'', PyStr (health_str (co_health_state final))),
        (''source'', PyStr (if immediate then ''manual'' else ''scheduled'')),
        (''detail'', PyStr detail)])) (\<lambda>_.
     ret \<lparr>vr_connection = final, vr_category = po_category outcome, vr_capabilities = caps,
          vr_detail = detail\<rparr>))))))"

definition list_my_snapshots :: "uuid \<Rightarrow> caller \<Rightarrow> capability_snapshot list market_op" where
  "list_my_snapshots cid c = bindE (get_connection cid c) (\<lambda>rec.
     gets (\<lambda>m. list_snapshots (co_id rec) (mk_connections m)))"

definition health_fact_of :: "uuid \<Rightarrow> market \<Rightarrow> health_fact option" where
  "health_fact_of cid m = (case the_connection cid m of
       None \<Rightarrow> None
     | Some rec \<Rightarrow>
         if co_status rec = Cs_deleted then None
         else Some \<lparr>hf_connection_id = co_id rec, hf_health_state = co_health_state rec,
           hf_reason = co_health_reason rec, hf_checked_at = co_health_checked_at rec,
           hf_capability_version = co_capability_version rec,
           hf_routable = (co_health_state rec = H_healthy \<and> co_capability_version rec > 0),
           hf_lifecycle_state = co_lifecycle_state rec, hf_admits_new = admits_new rec\<rparr>)"

definition public_health :: "uuid \<Rightarrow> caller \<Rightarrow> (string \<times> pyval) list market_op" where
  "public_health cid c =
     bindE (get_connection cid c) (\<lambda>rec.
     bindE (gets (health_fact_of (co_id rec))) (\<lambda>found.
     bindE (of_option (ConnectionError CN_not_found 404) found) (\<lambda>fact.
     ret [(''connection_id'', PyUuid (hf_connection_id fact)),
          (''health_state'', PyStr (health_str (hf_health_state fact))),
          (''reason'', py_opt PyStr (hf_reason fact)),
          (''checked_at'', py_opt PyTime (hf_checked_at fact)),
          (''capability_version'', PyInt (hf_capability_version fact)),
          (''routable'', PyBool (hf_routable fact)),
          (''lifecycle_state'', PyStr (lifecycle_str (hf_lifecycle_state fact))),
          (''admits_new'', PyBool (hf_admits_new fact))])))"

text \<open>\<open>jitters\<close> gives the random delay drawn for a connection.\<close>

definition probe_one ::
  "health_env \<Rightarrow> instant \<Rightarrow> (uuid \<Rightarrow> int) \<Rightarrow> connection \<Rightarrow> unit market_op" where
  "probe_one env stamp jitters rec =
     catch_op
       (bindE (verify env stamp (jitters (co_id rec)) (co_id rec)
          \<lparr>ca_id = co_seller rec, ca_role = ''seller'', ca_workspace = Some ''seller''\<rparr> False
          (''sched-'' @ nat_str (co_id rec))) (\<lambda>_. ret ()))
       (\<lambda>e. case e of
            ConnectionError code status \<Rightarrow>
              on_connections (save_health stamp (schedule_next stamp (jitters (co_id rec)) rec))
          | _ \<Rightarrow> throw e)"

definition health_tick :: "health_env \<Rightarrow> instant \<Rightarrow> (uuid \<Rightarrow> int) \<Rightarrow> int market_op" where
  "health_tick env stamp jitters =
     (let budget = max 1 (he_budget env) in
      bindE (gets (\<lambda>m. take (nat budget) (list_probe_due stamp budget (mk_connections m)))) (\<lambda>due.
      bindE (for_each (probe_one env stamp jitters) due) (\<lambda>_.
      ret (int (length due)))))"

end
