(* ===== verification/Bindings.thy ===== *)
theory Bindings
  imports Lifecycle
begin

section \<open>Provider bindings\<close>

text \<open>
  \<^verbatim>\<open>bindings/service.py\<close>, \<^verbatim>\<open>bindings/ports.py\<close> and \<^verbatim>\<open>ConnectionService.delete\<close>. Connections are looked
  up and marked through the connection service (\<^verbatim>\<open>ServiceConnectionLookup\<close>), as \<^verbatim>\<open>main.py\<close> wires it.
  The price port is an argument; \<open>catalog_price\<close> is the one the service uses.
\<close>

definition non_migrating :: "string list" where
  "non_migrating = [''files'', ''batches'', ''caches'', ''fine_tuning'', ''operations'']"

definition idle_lifecycles :: "lifecycle set" where
  "idle_lifecycles = {Lc_listed, Lc_verified}"

definition published :: "binding_status set" where
  "published = {Bs_active, Bs_inactive, Bs_degraded}"

definition catalog_price :: "catalog_record list option \<Rightarrow> string \<Rightarrow> bool" where
  "catalog_price catalog protocol = (case catalog of
       None \<Rightarrow> False | Some records \<Rightarrow> list_ex (stable_record protocol) records)"

definition sdk_hints :: "(string, (string \<times> string) list) dict" where
  "sdk_hints = map (\<lambda>(p, auth). (p, [(''protocol'', p), (''base_url'', ''/v1''), (''auth_scheme'', auth),
       (''protocol_version'', ''v1'')]))
     [(''openai'', ''bearer''), (''anthropic'', ''x-api-key''), (''vertex'', ''bearer'')]"

subsection \<open>Guards\<close>

definition require_buyer :: "caller \<Rightarrow> api_error \<Rightarrow> unit market_op" where
  "require_buyer c err = require (acts_as ''buyer'' (ca_role c) (ca_workspace c)) err"

definition binding_buyer :: "caller \<Rightarrow> unit market_op" where
  "binding_buyer c = require_buyer c (BindingError BD_forbidden_role 403)"

definition live_project :: "uuid \<Rightarrow> uuid \<Rightarrow> market \<Rightarrow> project option" where
  "live_project pid owner m = (case the_project pid m of
       None \<Rightarrow> None
     | Some rec \<Rightarrow> if pj_owner rec \<noteq> owner \<or> pj_deleted_at rec \<noteq> None then None else Some rec)"

definition binding_project :: "uuid \<Rightarrow> uuid \<Rightarrow> project market_op" where
  "binding_project pid owner = bindE (gets (live_project pid owner)) (\<lambda>found.
     of_option (BindingError BD_not_found 404) found)"

definition owned_binding :: "uuid \<Rightarrow> uuid \<Rightarrow> binding market_op" where
  "owned_binding bid owner = bindE (gets (the_binding bid)) (\<lambda>found.
     of_option (BindingError BD_not_found 404)
       (case found of None \<Rightarrow> None | Some rec \<Rightarrow> if bd_owner rec \<noteq> owner then None else Some rec))"

definition has_enabled_binding :: "uuid \<Rightarrow> uuid \<Rightarrow> string \<Rightarrow> market \<Rightarrow> bool" where
  "has_enabled_binding owner pid protocol m =
     list_ex (\<lambda>rec. bd_owner rec = owner \<and> bd_status rec \<in> {Bs_active, Bs_degraded})
       (binding_list_by_project_protocol pid protocol (mk_bindings m))"

definition require_connection :: "uuid option \<Rightarrow> string \<Rightarrow> bool \<Rightarrow> unit market_op" where
  "require_connection connection protocol idle = (case connection of
       None \<Rightarrow> throw (BindingError BD_connection_required 409)
     | Some cid \<Rightarrow> bindE (gets (get_fact cid)) (\<lambda>found. case found of
           None \<Rightarrow> throw (BindingError BD_connection_required 409)
         | Some known \<Rightarrow>
             bindE (require (cf_usable known \<and> cf_supply_mode known = ''dedicated'' \<and> cf_provider known = protocol)
                      (BindingError BD_connection_required 409)) (\<lambda>_.
             require (idle \<longrightarrow> cf_lifecycle_state known \<in> idle_lifecycles)
               (BindingError BD_connection_required 409))))"

definition assert_publishable :: "(string \<Rightarrow> bool) \<Rightarrow> binding \<Rightarrow> unit market_op" where
  "assert_publishable prices rec =
     (if bd_supply_mode rec = ''shared'' then
        bindE (require (bd_allowed_models rec \<noteq> []) (BindingError BD_validation 400)) (\<lambda>_.
        require (prices (bd_protocol rec)) (BindingError BD_price_unavailable 409))
      else require_connection (bd_connection rec) (bd_protocol rec) False)"

subsection \<open>Creating, validating and publishing\<close>

record binding_form =
  bf_project :: uuid
  bf_protocol :: string
  bf_supply_mode :: string
  bf_allowed_providers :: "string list"
  bf_allowed_models :: "string list"
  bf_allowed_regions :: "string list"
  bf_connection :: "uuid option"

text \<open>An absent list and an empty one are treated alike by the code.\<close>

definition form_providers :: "binding_form \<Rightarrow> string list" where
  "form_providers f = (if bf_allowed_providers f = [] then [bf_protocol f] else bf_allowed_providers f)"

definition draft_binding :: "instant \<Rightarrow> uuid \<Rightarrow> uuid \<Rightarrow> binding_form \<Rightarrow> binding" where
  "draft_binding now bid owner f =
     \<lparr>bd_id = bid, bd_project = bf_project f, bd_owner = owner, bd_protocol = bf_protocol f,
      bd_supply_mode = bf_supply_mode f, bd_status = Bs_draft, bd_version = 0,
      bd_allowed_providers = form_providers f, bd_allowed_models = bf_allowed_models f,
      bd_allowed_regions = bf_allowed_regions f,
      bd_connection = (if bf_supply_mode f = ''dedicated'' then bf_connection f else None),
      bd_draining_connection = None, bd_published_at = None, bd_created_at = Some now,
      bd_updated_at = Some now\<rparr>"

definition create_binding :: "instant \<Rightarrow> caller \<Rightarrow> binding_form \<Rightarrow> binding market_op" where
  "create_binding now c f =
     bindE (binding_buyer c) (\<lambda>_.
     bindE (require (bf_protocol f \<in> protocols_known \<and> bf_supply_mode f \<in> supply_modes)
              (BindingError BD_validation 400)) (\<lambda>_.
     bindE (binding_project (bf_project f) (ca_id c)) (\<lambda>project.
     bindE (require (pj_status project \<noteq> Pj_archived) (BindingError BD_illegal_state_transition 409)) (\<lambda>_.
     bindE (require (bf_supply_mode f = pj_mode project) (BindingError BD_mode_mismatch 409)) (\<lambda>_.
     bindE (require (\<not> list_ex (\<lambda>p. p \<noteq> bf_protocol f \<or> p \<notin> protocols_known) (form_providers f))
              (BindingError BD_protocol_mismatch 409)) (\<lambda>_.
     bindE (require (\<not> (bf_supply_mode f = ''shared'' \<and> bf_allowed_models f = []))
              (BindingError BD_validation 400)) (\<lambda>_.
     bindE (when_op (bf_supply_mode f = ''dedicated'')
              (require_connection (bf_connection f) (bf_protocol f) False)) (\<lambda>_.
     bindE new_uuid (\<lambda>bid.
     let rec = draft_binding now bid (ca_id c) f in
     bindE (on_bindings (binding_create rec)) (\<lambda>_. ret rec))))))))))"

definition validate_binding ::
  "(string \<Rightarrow> bool) \<Rightarrow> instant \<Rightarrow> uuid \<Rightarrow> caller \<Rightarrow> binding market_op" where
  "validate_binding prices now bid c =
     bindE (binding_buyer c) (\<lambda>_.
     bindE (owned_binding bid (ca_id c)) (\<lambda>found.
     bindE (require (bd_status found \<in> {Bs_draft, Bs_validated})
              (BindingError BD_illegal_state_transition 409)) (\<lambda>_.
     bindE (assert_publishable prices found) (\<lambda>_.
     let rec = found\<lparr>bd_status := Bs_validated, bd_updated_at := Some now\<rparr> in
     bindE (on_bindings (binding_save rec)) (\<lambda>_. ret rec)))))"

definition publish_binding ::
  "(string \<Rightarrow> bool) \<Rightarrow> instant \<Rightarrow> uuid \<Rightarrow> caller \<Rightarrow> string \<Rightarrow> binding market_op" where
  "publish_binding prices now bid c request_id =
     bindE (binding_buyer c) (\<lambda>_.
     bindE (owned_binding bid (ca_id c)) (\<lambda>found.
     bindE (require (bd_status found \<notin> published) (BindingError BD_immutable_version 409)) (\<lambda>_.
     bindE (binding_project (bd_project found) (ca_id c)) (\<lambda>project.
     bindE (require (bd_supply_mode found = pj_mode project) (BindingError BD_mode_mismatch 409)) (\<lambda>_.
     bindE (assert_publishable prices found) (\<lambda>_.
     bindE (gets (\<lambda>m. max_version (bd_project found) (bd_protocol found) (mk_bindings m) + 1)) (\<lambda>version.
     let rec = found\<lparr>bd_version := version, bd_status := Bs_active, bd_published_at := Some now,
                     bd_updated_at := Some now\<rparr> in
     bindE (catch_op (on_bindings (publish_atomic now rec))
       (\<lambda>e. throw (if e = PublishConflict then BindingError BD_publish_conflict 409 else e))) (\<lambda>_.
     bindE (on_bindings (binding_audit (ca_id c) (Some (bd_project rec)) (Some (bd_id rec))
       ''binding.published'' request_id
       [(''protocol'', PyStr (bd_protocol rec)), (''version'', PyInt version)])) (\<lambda>_.
     bindE (case bd_connection rec of
              Some cid \<Rightarrow> when_op (bd_supply_mode rec = ''dedicated'') (mark_bound now cid request_id)
            | None \<Rightarrow> ret ()) (\<lambda>_.
     ret rec))))))))))"

definition deactivate_binding :: "instant \<Rightarrow> uuid \<Rightarrow> caller \<Rightarrow> string \<Rightarrow> binding market_op" where
  "deactivate_binding now bid c request_id =
     bindE (binding_buyer c) (\<lambda>_.
     bindE (owned_binding bid (ca_id c)) (\<lambda>found.
     bindE (require (bd_status found \<in> {Bs_active, Bs_degraded})
              (BindingError BD_illegal_state_transition 409)) (\<lambda>_.
     let rec = found\<lparr>bd_status := Bs_inactive, bd_updated_at := Some now\<rparr> in
     bindE (on_bindings (binding_save rec)) (\<lambda>_.
     bindE (case bd_connection rec of
              Some cid \<Rightarrow> when_op (bd_supply_mode rec = ''dedicated'') (mark_unbound now cid request_id)
            | None \<Rightarrow> ret ()) (\<lambda>_.
     ret rec)))))"

subsection \<open>Reading\<close>

definition list_my_bindings :: "uuid \<Rightarrow> caller \<Rightarrow> binding list market_op" where
  "list_my_bindings pid c =
     bindE (binding_buyer c) (\<lambda>_.
     bindE (binding_project pid (ca_id c)) (\<lambda>_.
     gets (\<lambda>m. binding_list_by_project pid (mk_bindings m))))"

definition get_binding :: "uuid \<Rightarrow> caller \<Rightarrow> binding market_op" where
  "get_binding bid c = bindE (binding_buyer c) (\<lambda>_. owned_binding bid (ca_id c))"

definition sdk_hint :: "uuid \<Rightarrow> caller \<Rightarrow> (string \<times> string) list market_op" where
  "sdk_hint bid c = bindE (get_binding bid c) (\<lambda>rec.
     of_option KeyError (dict_get sdk_hints (bd_protocol rec)))"

text \<open>The first of the records with the greatest version: the stable sort, newest first.\<close>

definition newest_first :: "binding list \<Rightarrow> binding list" where
  "newest_first found = sort_key (\<lambda>r. - bd_version r) found"

definition active_binding :: "uuid \<Rightarrow> string \<Rightarrow> caller \<Rightarrow> binding market_op" where
  "active_binding pid protocol c =
     bindE (binding_buyer c) (\<lambda>_.
     bindE (binding_project pid (ca_id c)) (\<lambda>_.
     bindE (gets (\<lambda>m. filter (\<lambda>r. bd_status r \<in> {Bs_active, Bs_degraded})
                        (binding_list_by_project_protocol pid protocol (mk_bindings m)))) (\<lambda>found.
     bindE (require (found \<noteq> []) (BindingError BD_not_found 404)) (\<lambda>_.
     ret (hd (newest_first found))))))"

record ticket =
  tk_binding_id :: uuid
  tk_version :: int
  tk_protocol :: string
  tk_supply_mode :: string

definition admit ::
  "uuid \<Rightarrow> string \<Rightarrow> string \<Rightarrow> string option \<Rightarrow> caller \<Rightarrow> ticket market_op" where
  "admit pid protocol provider model c =
     bindE (binding_buyer c) (\<lambda>_.
     bindE (binding_project pid (ca_id c)) (\<lambda>_.
     bindE (require (protocol \<in> protocols_known \<and> provider \<in> protocols_known)
              (BindingError BD_validation 400)) (\<lambda>_.
     bindE (require (provider = protocol) (BindingError BD_protocol_mismatch 409)) (\<lambda>_.
     bindE (catch_op (active_binding pid protocol c)
       (\<lambda>e. throw (case e of BindingError BD_not_found _ \<Rightarrow> BindingError BD_required 409 | _ \<Rightarrow> e))) (\<lambda>rec.
     bindE (require (bd_status rec \<noteq> Bs_degraded) (BindingError BD_degraded 409)) (\<lambda>_.
     bindE (require (bd_protocol rec = protocol) (BindingError BD_protocol_mismatch 409)) (\<lambda>_.
     bindE (require (\<not> (bd_supply_mode rec = ''shared'' \<and> truthy model \<and> bd_allowed_models rec \<noteq> [] \<and>
                         the model \<notin> set (bd_allowed_models rec)))
              (BindingError BD_model_not_allowed 409)) (\<lambda>_.
     ret \<lparr>tk_binding_id = bd_id rec, tk_version = bd_version rec, tk_protocol = bd_protocol rec,
          tk_supply_mode = bd_supply_mode rec\<rparr>))))))))"

subsection \<open>Replacing the connection of a dedicated binding\<close>

record preview =
  pv_old_connection :: "uuid option"
  pv_non_migrating :: "string list"
  pv_migrates :: bool

definition replace_preview :: "uuid \<Rightarrow> caller \<Rightarrow> preview market_op" where
  "replace_preview bid c =
     bindE (binding_buyer c) (\<lambda>_.
     bindE (owned_binding bid (ca_id c)) (\<lambda>rec.
     bindE (require (bd_supply_mode rec = ''dedicated'') (BindingError BD_replace_denied 409)) (\<lambda>_.
     ret \<lparr>pv_old_connection = bd_connection rec, pv_non_migrating = non_migrating,
          pv_migrates = False\<rparr>)))"

definition replace_guards :: "binding \<Rightarrow> uuid \<Rightarrow> bool \<Rightarrow> string \<Rightarrow> bool \<Rightarrow> unit market_op" where
  "replace_guards rec new_connection buyer_confirmed reason step_up =
     bindE (require (bd_supply_mode rec = ''dedicated'') (BindingError BD_replace_denied 409)) (\<lambda>_.
     bindE (require (bd_status rec \<in> {Bs_active, Bs_degraded})
              (BindingError BD_illegal_state_transition 409)) (\<lambda>_.
     bindE (require buyer_confirmed (BindingError BD_buyer_confirmation_required 409)) (\<lambda>_.
     bindE (require step_up (BindingError BD_step_up_required 409)) (\<lambda>_.
     bindE (require (py_strip reason \<noteq> []) (BindingError BD_validation 400)) (\<lambda>_.
     bindE (require (bd_connection rec \<noteq> Some new_connection) (BindingError BD_validation 400)) (\<lambda>_.
     require_connection (Some new_connection) (bd_protocol rec) True))))))"

definition replace_binding ::
  "instant \<Rightarrow> uuid \<Rightarrow> caller \<Rightarrow> uuid \<Rightarrow> bool \<Rightarrow> string \<Rightarrow> bool \<Rightarrow> string \<Rightarrow> binding market_op" where
  "replace_binding now bid c new_connection buyer_confirmed reason step_up request_id =
     bindE (binding_buyer c) (\<lambda>_.
     bindE (owned_binding bid (ca_id c)) (\<lambda>found.
     bindE (replace_guards found new_connection buyer_confirmed reason step_up) (\<lambda>_.
     let old = bd_connection found;
         rec = found\<lparr>bd_draining_connection := old, bd_connection := Some new_connection,
                     bd_status := Bs_active, bd_version := bd_version found + 1,
                     bd_updated_at := Some now\<rparr> in
     bindE (on_bindings (binding_save rec)) (\<lambda>_.
     bindE (case old of Some cid \<Rightarrow> mark_draining now cid request_id | None \<Rightarrow> ret ()) (\<lambda>_.
     bindE (mark_bound now new_connection request_id) (\<lambda>_.
     bindE (on_bindings (binding_audit (ca_id c) (Some (bd_project rec)) (Some (bd_id rec))
       ''binding.replaced'' request_id
       [(''actor'', PyUuid (ca_id c)), (''buyer_confirmed'', PyBool True), (''step_up'', PyBool True),
        (''reason'', PyStr (py_strip reason)), (''before_connection_id'', py_opt PyUuid old),
        (''after_connection_id'', PyUuid new_connection)])) (\<lambda>_.
     ret rec)))))))"

subsection \<open>Losing a connection\<close>

definition degrade_one :: "instant \<Rightarrow> uuid \<Rightarrow> string \<Rightarrow> binding \<Rightarrow> unit market_op" where
  "degrade_one now cid request_id found =
     (if bd_status found \<noteq> Bs_active \<or> bd_supply_mode found \<noteq> ''dedicated'' then ret ()
      else
        let rec = found\<lparr>bd_status := Bs_degraded, bd_updated_at := Some now\<rparr> in
        bindE (on_bindings (binding_save rec)) (\<lambda>_.
        on_bindings (binding_audit (bd_owner rec) (Some (bd_project rec)) (Some (bd_id rec))
          ''binding.degraded'' request_id [(''connection_id'', PyUuid cid)])))"

definition degrade_for_connection :: "instant \<Rightarrow> uuid \<Rightarrow> string \<Rightarrow> int market_op" where
  "degrade_for_connection now cid request_id =
     bindE (gets (\<lambda>m. binding_list_by_connection cid (mk_bindings m))) (\<lambda>rows.
     bindE (for_each (degrade_one now cid request_id) rows) (\<lambda>_.
     ret (int (length (filter (\<lambda>r. bd_status r = Bs_active \<and> bd_supply_mode r = ''dedicated'') rows)))))"

definition delete_connection :: "instant \<Rightarrow> uuid \<Rightarrow> caller \<Rightarrow> string \<Rightarrow> unit market_op" where
  "delete_connection now cid c request_id =
     bindE (require_seller c) (\<lambda>_.
     bindE (owned_connection cid (ca_id c)) (\<lambda>found.
     let rec = found\<lparr>co_status := Cs_deleted, co_deleted_at := Some now, co_updated_at := Some now,
                     co_nonce := None, co_ciphertext := None, co_tag := None, co_key_version := None\<rparr> in
     bindE (catch_op (on_connections (save_replace rec (co_credential_version rec)))
       (\<lambda>e. throw (if e = KeyError then ConnectionError CN_not_found 404 else e))) (\<lambda>_.
     bindE (on_connections (connection_audit now (ca_id c) (Some cid) ''connection.deleted'' request_id
       [(''fingerprint'', PyStr (co_fingerprint rec))])) (\<lambda>_.
     bindE (degrade_for_connection now cid request_id) (\<lambda>_.
     ret ())))))"

end
