(* ===== verification/Projects.thy ===== *)
theory Projects
  imports Bindings
begin

section \<open>Buyer projects\<close>

text \<open>
  \<^verbatim>\<open>projects/service.py\<close>, \<^verbatim>\<open>projects/state.py\<close> and \<^verbatim>\<open>projects/admission.py\<close>. The binding lookup of the
  service is the binding service. The idempotency digest is the SHA-256 of the request, an argument
  (\<open>cryptolib\<close>).
\<close>

definition next_status :: "project_status \<Rightarrow> string \<Rightarrow> project_status option" where
  "next_status current action =
     (if current = Pj_draft \<and> action = ''activate'' then Some Pj_active
      else if current = Pj_draft \<and> action = ''archive'' then Some Pj_archived
      else if current = Pj_active \<and> action = ''suspend'' then Some Pj_suspended
      else if current = Pj_active \<and> action = ''archive'' then Some Pj_archived
      else if current = Pj_suspended \<and> action = ''activate'' then Some Pj_active
      else if current = Pj_suspended \<and> action = ''archive'' then Some Pj_archived
      else None)"

definition allows_new_proxy :: "project \<Rightarrow> bool" where
  "allows_new_proxy rec \<longleftrightarrow> pj_deleted_at rec = None \<and> pj_status rec = Pj_active"

definition blocker_kinds :: "string set" where
  "blocker_kinds = {''key'', ''in_flight_task'', ''unsettled_ledger''}"

definition normalize_name :: "string \<Rightarrow> string" where
  "normalize_name display_name = py_lower (py_strip display_name)"

fun join_with :: "string \<Rightarrow> string list \<Rightarrow> string" where
  "join_with sep [] = []"
| "join_with sep [x] = x"
| "join_with sep (x # xs) = x @ sep @ join_with sep xs"

definition request_digest :: "cryptolib \<Rightarrow> string \<Rightarrow> string \<Rightarrow> string list \<Rightarrow> string" where
  "request_digest lib display_name mode protocols =
     hexdigest (sha256 lib (utf8_encode
       (join_with ''|'' (normalize_name display_name # mode # sort protocols))))"

subsection \<open>Guards\<close>

definition project_buyer :: "caller \<Rightarrow> unit market_op" where
  "project_buyer c = require_buyer c (ProjectError PJ_forbidden_role 403)"

definition owned_project :: "uuid \<Rightarrow> uuid \<Rightarrow> project market_op" where
  "owned_project pid owner = bindE (gets (live_project pid owner)) (\<lambda>found.
     of_option (ProjectError PJ_not_found 404) found)"

definition validate_name :: "string \<Rightarrow> api_error + string" where
  "validate_name display_name =
     (let name = py_strip display_name in
      if name = [] \<or> length name > 128 then Inl (ProjectError PJ_validation 400) else Inr name)"

fun protocols_loop :: "string list \<Rightarrow> string list \<Rightarrow> api_error + string list" where
  "protocols_loop [] seen = (if seen = [] then Inl (ProjectError PJ_validation 400) else Inr seen)"
| "protocols_loop (p # ps) seen =
     (if p \<notin> protocols_known then Inl (ProjectError PJ_validation 400)
      else protocols_loop ps (if p \<in> set seen then seen else seen @ [p]))"

definition validate_protocols :: "string list \<Rightarrow> api_error + string list" where
  "validate_protocols protocols = protocols_loop protocols []"

subsection \<open>Creating\<close>

record project_form =
  pf_display_name :: string
  pf_mode :: string
  pf_protocols :: "string list"
  pf_idempotency_key :: "string option"
  pf_preview_opt_in :: bool

text \<open>The earlier project of the same idempotency key, if its request is the same.\<close>

definition project_replay :: "uuid \<Rightarrow> string option \<Rightarrow> string \<Rightarrow> project option market_op" where
  "project_replay owner key digest =
     (if \<not> truthy key then ret None
      else bindE (gets (\<lambda>m. project_get_idempotency owner (the key) (mk_projects m))) (\<lambda>existing.
        case existing of
          None \<Rightarrow> ret None
        | Some (prev_digest, prev_id) \<Rightarrow>
            bindE (require (prev_digest = digest) (ProjectError PJ_idempotency_conflict 409)) (\<lambda>_.
            case prev_id of None \<Rightarrow> ret None | Some pid \<Rightarrow> gets (the_project pid))))"

definition new_project :: "instant \<Rightarrow> uuid \<Rightarrow> uuid \<Rightarrow> string \<Rightarrow> string list \<Rightarrow> project_form \<Rightarrow> project" where
  "new_project now pid owner name protos f =
     \<lparr>pj_id = pid, pj_owner = owner, pj_display_name = name, pj_name_normalized = normalize_name name,
      pj_mode = pf_mode f, pj_status = Pj_draft, pj_created_at = now, pj_updated_at = now,
      pj_archived_at = None, pj_deleted_at = None, pj_preview_opt_in = pf_preview_opt_in f,
      pj_protocols = map (\<lambda>p. \<lparr>pt_protocol = p, pt_enabled = True, pt_enabled_at = Some now,
                                pt_disabled_at = None\<rparr>) protos\<rparr>"

definition name_conflict_error :: "api_error \<Rightarrow> api_error" where
  "name_conflict_error e = (if e = NameConflict then ProjectError PJ_name_conflict 409 else e)"

definition create_project ::
  "cryptolib \<Rightarrow> instant \<Rightarrow> caller \<Rightarrow> project_form \<Rightarrow> string \<Rightarrow> project market_op" where
  "create_project lib now c f request_id =
     bindE (project_buyer c) (\<lambda>_.
     bindE (of_sum (validate_name (pf_display_name f))) (\<lambda>name.
     bindE (require (pf_mode f \<in> supply_modes) (ProjectError PJ_validation 400)) (\<lambda>_.
     bindE (of_sum (validate_protocols (pf_protocols f))) (\<lambda>protos.
     let digest = request_digest lib name (pf_mode f) protos in
     bindE (project_replay (ca_id c) (pf_idempotency_key f) digest) (\<lambda>replayed.
     case replayed of
       Some rec \<Rightarrow> ret rec
     | None \<Rightarrow>
         bindE new_uuid (\<lambda>pid.
         let rec = new_project now pid (ca_id c) name protos f in
         bindE (catch_op (on_projects (project_create rec)) (\<lambda>e. throw (name_conflict_error e))) (\<lambda>_.
         bindE (when_op (truthy (pf_idempotency_key f))
                  (on_projects (project_put_idempotency (ca_id c) (the (pf_idempotency_key f)) digest
                     (Some pid)))) (\<lambda>_.
         bindE (on_projects (project_audit now (ca_id c) (Some pid) ''project.created'' request_id
           [(''mode'', PyStr (pf_mode f)), (''status'', PyStr (project_status_str (pj_status rec)))])) (\<lambda>_.
         ret rec)))))))))"

subsection \<open>Reading and changing\<close>

definition get_project :: "uuid \<Rightarrow> caller \<Rightarrow> project market_op" where
  "get_project pid c = bindE (project_buyer c) (\<lambda>_. owned_project pid (ca_id c))"

definition list_my_projects :: "caller \<Rightarrow> project list market_op" where
  "list_my_projects c = bindE (project_buyer c) (\<lambda>_.
     gets (\<lambda>m. sort_key (\<lambda>r. - pj_created_at r) (project_list_by_owner (ca_id c) (mk_projects m))))"

definition project_event ::
  "instant \<Rightarrow> caller \<Rightarrow> uuid \<Rightarrow> string \<Rightarrow> string \<Rightarrow> (string \<times> pyval) list \<Rightarrow> unit market_op" where
  "project_event now c pid event request_id payload =
     on_projects (project_audit now (ca_id c) (Some pid) event request_id payload)"

definition rename_project :: "instant \<Rightarrow> uuid \<Rightarrow> caller \<Rightarrow> string \<Rightarrow> string \<Rightarrow> project market_op" where
  "rename_project now pid c display_name request_id =
     bindE (get_project pid c) (\<lambda>found.
     bindE (of_sum (validate_name display_name)) (\<lambda>name.
     let rec = found\<lparr>pj_display_name := name, pj_name_normalized := normalize_name name,
                     pj_updated_at := now\<rparr> in
     bindE (catch_op (on_projects (project_save rec))
       (\<lambda>e. throw (if e = ModeImmutable then ProjectError PJ_mode_immutable 400
                   else name_conflict_error e))) (\<lambda>_.
     bindE (project_event now c pid ''project.renamed'' request_id []) (\<lambda>_.
     ret rec))))"

definition set_preview_opt_in :: "instant \<Rightarrow> uuid \<Rightarrow> caller \<Rightarrow> bool \<Rightarrow> string \<Rightarrow> project market_op" where
  "set_preview_opt_in now pid c opt_in request_id =
     bindE (get_project pid c) (\<lambda>found.
     let rec = found\<lparr>pj_preview_opt_in := opt_in, pj_updated_at := now\<rparr> in
     bindE (on_projects (project_save rec)) (\<lambda>_.
     bindE (project_event now c pid ''project.preview_opt_in'' request_id
       [(''preview_opt_in'', PyBool opt_in)]) (\<lambda>_.
     ret rec)))"

definition reject_mode_change :: "unit market_op" where
  "reject_mode_change = throw (ProjectError PJ_mode_immutable 400)"

definition transition_event :: "string \<Rightarrow> string" where
  "transition_event action =
     (if action = ''archive'' then ''project.archived''
      else if action \<noteq> ''activate'' then ''project.'' @ action @ ''d'' else ''project.activated'')"

definition transition_project :: "instant \<Rightarrow> uuid \<Rightarrow> caller \<Rightarrow> string \<Rightarrow> string \<Rightarrow> project market_op" where
  "transition_project now pid c action request_id =
     bindE (get_project pid c) (\<lambda>found.
     bindE (of_option (ProjectError PJ_illegal_state_transition 409)
              (next_status (pj_status found) action)) (\<lambda>target.
     let rec = found\<lparr>pj_status := target, pj_updated_at := now,
                     pj_archived_at := (if action = ''archive'' then Some now else pj_archived_at found)\<rparr> in
     bindE (on_projects (project_save rec)) (\<lambda>_.
     bindE (project_event now c pid (transition_event action) request_id
       [(''status'', PyStr (project_status_str target))]) (\<lambda>_.
     ret rec))))"

definition admission :: "uuid \<Rightarrow> caller \<Rightarrow> (bool \<times> project_status) market_op" where
  "admission pid c = bindE (get_project pid c) (\<lambda>rec. ret (allows_new_proxy rec, pj_status rec))"

subsection \<open>Protocols\<close>

fun protocol_row :: "string \<Rightarrow> protocol_state list \<Rightarrow> protocol_state option" where
  "protocol_row protocol [] = None"
| "protocol_row protocol (p # ps) = (if pt_protocol p = protocol then Some p else protocol_row protocol ps)"

fun update_first :: "string \<Rightarrow> (protocol_state \<Rightarrow> protocol_state) \<Rightarrow> protocol_state list \<Rightarrow> protocol_state list" where
  "update_first protocol f [] = []"
| "update_first protocol f (p # ps) =
     (if pt_protocol p = protocol then f p # ps else p # update_first protocol f ps)"

definition enabled_rows :: "instant \<Rightarrow> string \<Rightarrow> protocol_state list \<Rightarrow> protocol_state list" where
  "enabled_rows now protocol rows = (case protocol_row protocol rows of
       None \<Rightarrow> rows @ [\<lparr>pt_protocol = protocol, pt_enabled = True, pt_enabled_at = Some now,
                         pt_disabled_at = None\<rparr>]
     | Some _ \<Rightarrow> update_first protocol
         (\<lambda>p. p\<lparr>pt_enabled := True, pt_enabled_at := Some now, pt_disabled_at := None\<rparr>) rows)"

definition enable_protocol :: "instant \<Rightarrow> uuid \<Rightarrow> caller \<Rightarrow> string \<Rightarrow> string \<Rightarrow> project market_op" where
  "enable_protocol now pid c protocol request_id =
     bindE (project_buyer c) (\<lambda>_.
     bindE (require (protocol \<in> protocols_known) (ProjectError PJ_validation 400)) (\<lambda>_.
     bindE (owned_project pid (ca_id c)) (\<lambda>found.
     bindE (require (pj_status found \<noteq> Pj_archived) (ProjectError PJ_illegal_state_transition 409)) (\<lambda>_.
     if (case protocol_row protocol (pj_protocols found) of None \<Rightarrow> False | Some p \<Rightarrow> pt_enabled p)
     then ret found
     else
       bindE (gets (has_enabled_binding (ca_id c) pid protocol)) (\<lambda>bound.
       bindE (when_op (\<not> bound)
         (bindE (project_event now c pid ''project.protocol_enable_denied'' request_id
            [(''protocol'', PyStr protocol)]) (\<lambda>_.
          throw (ProjectError PJ_provider_binding_required 409)))) (\<lambda>_.
       let rec = found\<lparr>pj_protocols := enabled_rows now protocol (pj_protocols found),
                       pj_updated_at := now\<rparr> in
       bindE (on_projects (project_save rec)) (\<lambda>_. ret rec)))))))"

definition disable_protocol :: "instant \<Rightarrow> uuid \<Rightarrow> caller \<Rightarrow> string \<Rightarrow> string \<Rightarrow> project market_op" where
  "disable_protocol now pid c protocol request_id =
     bindE (project_buyer c) (\<lambda>_.
     bindE (require (protocol \<in> protocols_known) (ProjectError PJ_validation 400)) (\<lambda>_.
     bindE (owned_project pid (ca_id c)) (\<lambda>found.
     bindE (of_option (ProjectError PJ_not_found 404)
              (protocol_row protocol (pj_protocols found))) (\<lambda>current.
     let rec = (if pt_enabled current
                then found\<lparr>pj_protocols := update_first protocol
                       (\<lambda>p. p\<lparr>pt_enabled := False, pt_disabled_at := Some now\<rparr>) (pj_protocols found),
                     pj_updated_at := now\<rparr>
                else found) in
     bindE (when_op (pt_enabled current) (on_projects (project_save rec))) (\<lambda>_.
     bindE (project_event now c pid ''project.protocol_disabled'' request_id
       [(''protocol'', PyStr protocol)]) (\<lambda>_.
     ret rec))))))"

subsection \<open>Deleting\<close>

definition blocking :: "uuid \<Rightarrow> market \<Rightarrow> deletion_blocker list" where
  "blocking pid m = filter (\<lambda>b. db_kind b \<in> blocker_kinds) (project_blockers pid (mk_projects m))"

definition delete_project :: "instant \<Rightarrow> uuid \<Rightarrow> caller \<Rightarrow> string \<Rightarrow> unit market_op" where
  "delete_project now pid c request_id =
     bindE (get_project pid c) (\<lambda>found.
     bindE (gets (blocking pid)) (\<lambda>blockers.
     if blockers \<noteq> [] then
       bindE (project_event now c pid ''project.delete_blocked'' request_id
         [(''blockers'', PyList (map (\<lambda>b. PyDict [(''kind'', PyStr (db_kind b)),
            (''reference_id'', PyStr (db_reference_id b))]) blockers))]) (\<lambda>_.
       throw (ProjectError PJ_delete_blocked 409))
     else
       let rec = found\<lparr>pj_deleted_at := Some now, pj_updated_at := now\<rparr> in
       bindE (on_projects (project_save rec)) (\<lambda>_.
       project_event now c pid ''project.deleted'' request_id [])))"

end
