(* ===== verification/Market_Growth.thy ===== *)
theory Market_Growth
  imports Projects
begin

section \<open>What the stores of the API service keep\<close>

text \<open>
  For each store: its well-formedness (\<open>_ok\<close>), how a record may develop (\<open>_becomes\<close>), and that the
  writes of the store respect both. The stores are keyed stores, the statuses of projects and the
  lifecycle of connections are status machines, and the two compare-and-set writes of the connection
  store are a compare-and-set repository.
\<close>

interpretation projects_store: keyed_store project_of write_project
  by unfold_locales (simp add: project_of_def write_project_def)

interpretation bindings_store: keyed_store binding_of write_binding
  by unfold_locales (simp add: binding_of_def write_binding_def)

interpretation connections_store: keyed_store connection_of write_connection
  by unfold_locales (simp add: connection_of_def write_connection_def)

lemmas store_get_put = projects_store.get_put bindings_store.get_put connections_store.get_put

subsection \<open>Status machines\<close>

definition project_moves :: "project_status \<Rightarrow> project_status \<Rightarrow> bool" where
  "project_moves a b \<longleftrightarrow> (\<exists>action. next_status a action = Some b)"

fun project_stage :: "project_status \<Rightarrow> nat" where
  "project_stage Pj_draft = 0"
| "project_stage Pj_active = 1"
| "project_stage Pj_suspended = 1"
| "project_stage Pj_archived = 2"

interpretation project_machine: status_machine project_moves "\<lambda>s. s = Pj_archived" project_stage
  by unfold_locales (auto simp: project_moves_def next_status_def split: if_splits)

fun lifecycle_stage :: "lifecycle \<Rightarrow> nat" where
  "lifecycle_stage Lc_draft = 0"
| "lifecycle_stage Lc_verified = 1"
| "lifecycle_stage Lc_listed = 2"
| "lifecycle_stage Lc_bound = 2"
| "lifecycle_stage Lc_paused = 2"
| "lifecycle_stage Lc_draining = 3"
| "lifecycle_stage Lc_retired = 4"

interpretation supply_machine: status_machine lifecycle_allowed "\<lambda>s. s = Lc_retired" lifecycle_stage
proof unfold_locales
  fix a b
  show "a = Lc_retired \<Longrightarrow> lifecycle_allowed a b \<Longrightarrow> b = a" by simp
  show "lifecycle_allowed a b \<Longrightarrow> lifecycle_stage a \<le> lifecycle_stage b" by (cases a) auto
qed

lemma transition_Inr:
  "transition a b = Inr c \<Longrightarrow> c = b \<and> lifecycle_allowed\<^sup>*\<^sup>* a c"
  by (auto simp: transition_def split: if_splits)

subsection \<open>Compare and set\<close>

definition run_unit :: "('s, 'e, unit) op \<Rightarrow> 's \<Rightarrow> 's option" where
  "run_unit m s = (case m s of (Inl e, t) \<Rightarrow> None | (Inr u, t) \<Rightarrow> Some t)"

definition cas_credential :: "uuid \<Rightarrow> int \<Rightarrow> connection \<Rightarrow> connection_store \<Rightarrow> connection_store option" where
  "cas_credential cid expected rec s = run_unit (save_replace (rec\<lparr>co_id := cid\<rparr>) expected) s"

definition cas_lifecycle ::
  "instant \<Rightarrow> uuid \<Rightarrow> lifecycle \<Rightarrow> connection \<Rightarrow> connection_store \<Rightarrow> connection_store option" where
  "cas_lifecycle now cid expected rec s = run_unit (save_lifecycle now (rec\<lparr>co_id := cid\<rparr>) expected) s"

lemma save_replace_hit:
  "connection_of s (co_id rec) = Some cur \<Longrightarrow> co_credential_version cur = expected \<Longrightarrow>
     save_replace rec expected s = (Inr (), write_connection (co_id rec) rec s)"
  by (simp add: save_replace_def run)

lemma save_lifecycle_hit:
  "connection_of s (co_id rec) = Some cur \<Longrightarrow> co_lifecycle_state cur = expected \<Longrightarrow>
     save_lifecycle now rec expected s =
       (Inr (), write_connection (co_id rec) (merge_lifecycle cur rec now) s)"
  by (simp add: save_lifecycle_def run)

interpretation credential_cas: cas_store connection_of cas_credential co_credential_version
  "\<lambda>cid cur rec. rec\<lparr>co_id := cid\<rparr>"
  by unfold_locales
    (auto simp: cas_credential_def run_unit_def save_replace_def run store_get_put)

interpretation lifecycle_cas: cas_store connection_of "cas_lifecycle now" co_lifecycle_state
  "\<lambda>cid cur rec. merge_lifecycle cur rec now" for now
  by unfold_locales
    (auto simp: cas_lifecycle_def run_unit_def save_lifecycle_def run store_get_put merge_lifecycle_def)

subsection \<open>Projects\<close>

definition project_becomes :: "project \<Rightarrow> project \<Rightarrow> bool" where
  "project_becomes a b \<longleftrightarrow> pj_id b = pj_id a \<and> pj_owner b = pj_owner a \<and> pj_mode b = pj_mode a \<and>
     pj_created_at b = pj_created_at a \<and> project_moves\<^sup>*\<^sup>* (pj_status a) (pj_status b) \<and>
     (pj_deleted_at a \<noteq> None \<longrightarrow> b = a)"

definition same_name :: "project \<Rightarrow> project \<Rightarrow> bool" where
  "same_name a b \<longleftrightarrow> pj_deleted_at a = None \<and> pj_deleted_at b = None \<and> pj_owner a = pj_owner b \<and>
     pj_name_normalized a = pj_name_normalized b"

definition projects_ok :: "uuid \<Rightarrow> project_store \<Rightarrow> bool" where
  "projects_ok n s \<longleftrightarrow> dict_ok (ps_by_id s) \<and> all_stored project_of (\<lambda>pid a. pj_id a = pid \<and> pid < n) s \<and>
     no_clash project_of same_name s"

definition projects_grow :: "project_store \<Rightarrow> project_store \<Rightarrow> bool" where
  "projects_grow s t \<longleftrightarrow> entries_grow project_of project_becomes s t \<and>
     (\<exists>new. ps_audits t = ps_audits s @ new)"

lemma project_becomes_refl [simp]: "project_becomes a a"
  by (simp add: project_becomes_def)

lemma project_becomes_order: "reflp project_becomes" "transp project_becomes"
  by (auto simp: reflp_def transp_def project_becomes_def)

lemma projects_grow_refl [simp]: "projects_grow s s"
  by (simp add: projects_grow_def entries_grow_refl project_becomes_order)

lemma projects_grow_trans: "projects_grow s t \<Longrightarrow> projects_grow t u \<Longrightarrow> projects_grow s u"
  unfolding projects_grow_def using entries_grow_trans[OF project_becomes_order(2)] by fastforce

lemma projects_ok_write:
  assumes ok: "projects_ok n s" and n: "pj_id rec < n"
    and free: "pj_deleted_at rec = None \<Longrightarrow>
      \<not> list_ex (\<lambda>e. pj_id e \<noteq> pj_id rec \<and> same_live_name rec e) (dict_values (ps_by_id s))"
  shows "projects_ok n (write_project (pj_id rec) rec s)"
proof -
  have "no_clash project_of same_name (write_project (pj_id rec) rec s)"
  proof (rule projects_store.no_clash_put)
    show "no_clash project_of same_name s" using ok by (simp add: projects_ok_def)
    show "symp same_name" by (auto simp: symp_def same_name_def)
    fix q b
    assume b: "project_of s q = Some b" and q: "q \<noteq> pj_id rec"
    have "b \<in> set (dict_values (ps_by_id s))" using b by (simp add: project_of_def dict_get_values)
    moreover have "pj_id b = q" using ok b by (auto simp: projects_ok_def dest: all_storedD)
    moreover have "pj_deleted_at rec = None \<Longrightarrow> pj_id b \<noteq> pj_id rec \<Longrightarrow> \<not> same_live_name rec b"
      using free calculation(1) by (auto simp: list_ex_iff)
    ultimately show "\<not> same_name rec b"
      using q by (auto simp: same_live_name_def same_name_def)
  qed
  with ok n show ?thesis
    by (auto simp: projects_ok_def write_project_def
        intro!: projects_store.all_stored_put[unfolded write_project_def])
qed

lemma projects_grow_write:
  assumes "\<And>cur. project_of s (pj_id rec) = Some cur \<Longrightarrow> project_becomes cur rec"
  shows "projects_grow s (write_project (pj_id rec) rec s)"
  using projects_store.entries_grow_put[OF project_becomes_order(1), of s "pj_id rec" rec] assms
  by (simp add: projects_grow_def write_project_def)

definition projects_evolve :: "uuid \<Rightarrow> project_store \<Rightarrow> project_store \<Rightarrow> bool" where
  "projects_evolve n s t \<longleftrightarrow> (projects_ok n s \<longrightarrow> projects_ok n t \<and> projects_grow s t)"

interpretation projects_growth: evolution "projects_evolve n" for n
  by unfold_locales (auto simp: projects_evolve_def intro: projects_grow_trans)

text \<open>
  Creating under a fresh identifier, and saving a record that develops the stored one, both keep
  the store well formed.
\<close>

lemma project_create_goes:
  assumes fresh: "project_of s (pj_id rec) = None" and n: "pj_id rec < n"
  shows "goes (projects_evolve n) (project_create rec) s"
  unfolding project_create_def
  apply (intro projects_growth.goes_rules)
  unfolding goes_def modify_def projects_evolve_def snd_conv
  using projects_ok_write[OF _ n] projects_grow_write[of s rec] fresh
  by (auto simp: list_ex_iff)

lemma project_save_goes:
  assumes "\<And>cur. project_of s (pj_id rec) = Some cur \<Longrightarrow> project_becomes cur rec"
  shows "goes (projects_evolve n) (project_save rec) s"
  unfolding project_save_def
  apply (intro projects_growth.goes_rules)
  subgoal for cur
    unfolding goes_def modify_def projects_evolve_def snd_conv
    using assms projects_ok_write[of n s rec] projects_grow_write[of s rec]
    by (auto simp: projects_ok_def dest: all_storedD)
  done

lemma project_notes_evolve:
  "evolves (projects_evolve n) (project_audit now owner pid event rq payload)"
  "evolves (projects_evolve n) (project_put_idempotency owner' key digest pid')"
  "evolves (projects_evolve n) (add_blocker bid bpid kind reference)"
proof -
  have same: "projects_evolve n s t"
    if "ps_by_id t = ps_by_id s" "\<exists>new. ps_audits t = ps_audits s @ new" for s t
  proof -
    have "project_of t = project_of s" using that(1) by (simp add: fun_eq_iff project_of_def)
    then show ?thesis using that
      by (auto simp: projects_evolve_def projects_ok_def projects_grow_def no_clash_def
          all_stored_def entries_grow_def)
  qed
  show "evolves (projects_evolve n) (project_audit now owner pid event rq payload)"
    unfolding project_audit_def by (intro projects_growth.rules projects_growth.modify same) simp_all
  show "evolves (projects_evolve n) (project_put_idempotency owner' key digest pid')"
    unfolding project_put_idempotency_def by (intro projects_growth.rules projects_growth.modify same) simp_all
  show "evolves (projects_evolve n) (add_blocker bid bpid kind reference)"
    unfolding add_blocker_def by (intro projects_growth.rules projects_growth.modify same) simp_all
qed

subsection \<open>Bindings\<close>

definition binding_becomes :: "binding \<Rightarrow> binding \<Rightarrow> bool" where
  "binding_becomes a b \<longleftrightarrow> bd_id b = bd_id a \<and> bd_project b = bd_project a \<and> bd_owner b = bd_owner a \<and>
     bd_protocol b = bd_protocol a \<and> bd_supply_mode b = bd_supply_mode a \<and>
     bd_version a \<le> bd_version b \<and> (bd_status a \<in> published \<longrightarrow> bd_status b \<in> published)"

definition serves :: "binding \<Rightarrow> bool" where
  "serves b \<longleftrightarrow> bd_status b \<in> {Bs_active, Bs_degraded}"

text \<open>Two active bindings of a project and protocol; two bindings on one dedicated connection.\<close>

definition both_active :: "binding \<Rightarrow> binding \<Rightarrow> bool" where
  "both_active a b \<longleftrightarrow> bd_status a = Bs_active \<and> bd_status b = Bs_active \<and>
     bd_project a = bd_project b \<and> bd_protocol a = bd_protocol b"

definition both_dedicated :: "binding \<Rightarrow> binding \<Rightarrow> bool" where
  "both_dedicated a b \<longleftrightarrow> bd_supply_mode a = ''dedicated'' \<and> bd_supply_mode b = ''dedicated'' \<and>
     bd_connection a = bd_connection b \<and> serves a \<and> serves b"

text \<open>Exactly the dedicated bindings name a connection.\<close>

definition targeted :: "binding \<Rightarrow> bool" where
  "targeted b \<longleftrightarrow> (bd_connection b \<noteq> None \<longleftrightarrow> bd_supply_mode b = ''dedicated'')"

lemma targeted_update [simp]:
  "targeted (bd_status_update f1 b) = targeted b"
  "targeted (bd_version_update f2 b) = targeted b"
  "targeted (bd_updated_at_update f3 b) = targeted b"
  "targeted (bd_published_at_update f4 b) = targeted b"
  "targeted (bd_draining_connection_update f5 b) = targeted b"
  by (simp_all add: targeted_def)

definition binding_shape :: "uuid \<Rightarrow> uuid \<Rightarrow> binding \<Rightarrow> bool" where
  "binding_shape n bid b \<longleftrightarrow> bd_id b = bid \<and> bid < n \<and> targeted b"

definition bindings_ok :: "uuid \<Rightarrow> binding_store \<Rightarrow> bool" where
  "bindings_ok n s \<longleftrightarrow> dict_ok (bs_by_id s) \<and> all_stored binding_of (binding_shape n) s \<and>
     no_clash binding_of both_active s \<and> no_clash binding_of both_dedicated s"

definition bindings_grow :: "binding_store \<Rightarrow> binding_store \<Rightarrow> bool" where
  "bindings_grow s t \<longleftrightarrow> entries_grow binding_of binding_becomes s t \<and>
     (\<exists>new. bs_audits t = bs_audits s @ new)"

definition bindings_evolve :: "uuid \<Rightarrow> binding_store \<Rightarrow> binding_store \<Rightarrow> bool" where
  "bindings_evolve n s t \<longleftrightarrow> (bindings_ok n s \<longrightarrow> bindings_ok n t \<and> bindings_grow s t)"

lemma binding_becomes_order: "reflp binding_becomes" "transp binding_becomes"
  by (auto simp: reflp_def transp_def binding_becomes_def)

lemma bindings_grow_refl [simp]: "bindings_grow s s"
  by (simp add: bindings_grow_def entries_grow_refl binding_becomes_order)

lemma bindings_grow_trans: "bindings_grow s t \<Longrightarrow> bindings_grow t u \<Longrightarrow> bindings_grow s u"
  unfolding bindings_grow_def using entries_grow_trans[OF binding_becomes_order(2)] by fastforce

interpretation bindings_growth: evolution "bindings_evolve n" for n
  by unfold_locales (auto simp: bindings_evolve_def intro: bindings_grow_trans)

definition no_rival :: "binding \<Rightarrow> binding_store \<Rightarrow> bool" where
  "no_rival rec s \<longleftrightarrow> (\<forall>q b. binding_of s q = Some b \<longrightarrow>
     (bd_status rec = Bs_active \<longrightarrow> \<not> rival_active rec b) \<and> (serves rec \<longrightarrow> \<not> rival_dedicated rec b))"

lemma no_rival_values:
  "list_ex (\<lambda>e. rival_active rec e \<or> rival_dedicated rec e) (dict_values (bs_by_id s)) = False \<Longrightarrow>
     no_rival rec s"
  by (auto simp: no_rival_def list_ex_iff binding_of_def dest: dict_get_values)

lemma bindings_ok_write:
  assumes ok: "bindings_ok n s" and shape: "binding_shape n (bd_id rec) rec" and free: "no_rival rec s"
  shows "bindings_ok n (write_binding (bd_id rec) rec s)"
proof -
  have ids: "bd_id b = q" if "binding_of s q = Some b" for q b
    using ok that by (auto simp: bindings_ok_def binding_shape_def dest: all_storedD)
  have "no_clash binding_of both_active (write_binding (bd_id rec) rec s)"
  proof (rule bindings_store.no_clash_put)
    show "no_clash binding_of both_active s" using ok by (simp add: bindings_ok_def)
    show "symp both_active" by (auto simp: symp_def both_active_def)
    fix q b
    assume b: "binding_of s q = Some b" and q: "q \<noteq> bd_id rec"
    have "bd_status rec = Bs_active \<Longrightarrow> \<not> rival_active rec b"
      using free b by (simp add: no_rival_def)
    then show "\<not> both_active rec b"
      using q ids[OF b] by (auto simp: both_active_def rival_active_def)
  qed
  moreover have "no_clash binding_of both_dedicated (write_binding (bd_id rec) rec s)"
  proof (rule bindings_store.no_clash_put)
    show "no_clash binding_of both_dedicated s" using ok by (simp add: bindings_ok_def)
    show "symp both_dedicated" by (auto simp: symp_def both_dedicated_def)
    fix q b
    assume b: "binding_of s q = Some b" and q: "q \<noteq> bd_id rec"
    show "\<not> both_dedicated rec b"
    proof
      assume clash: "both_dedicated rec b"
      then have "rival_dedicated rec b"
        using q ids[OF b] shape
        by (auto simp: both_dedicated_def rival_dedicated_def binding_shape_def serves_def targeted_def)
      with free b clash show False by (auto simp: no_rival_def both_dedicated_def)
    qed
  qed
  moreover have "all_stored binding_of (binding_shape n) (write_binding (bd_id rec) rec s)"
    using ok shape by (auto simp: bindings_ok_def intro: bindings_store.all_stored_put)
  ultimately show ?thesis
    using ok by (simp add: bindings_ok_def write_binding_def)
qed

lemma bindings_evolve_write:
  assumes "binding_shape n (bd_id rec) rec" and "bindings_ok n s \<Longrightarrow> no_rival rec s"
    and "\<And>cur. binding_of s (bd_id rec) = Some cur \<Longrightarrow> binding_becomes cur rec"
  shows "bindings_evolve n s (write_binding (bd_id rec) rec s)"
  using bindings_ok_write[OF _ assms(1)] assms
    bindings_store.entries_grow_put[OF binding_becomes_order(1), of s "bd_id rec" rec]
  by (auto simp: bindings_evolve_def bindings_grow_def write_binding_def)

lemma goes_ensure:
  assumes "no_rival rec s \<Longrightarrow> goes (bindings_evolve n) (f ()) s"
  shows "goes (bindings_evolve n) (bindE (ensure_single_active rec) f) s"
  using assms no_rival_values[of rec s] bindings_growth.refl
  by (auto simp: goes_def ensure_single_active_def run)

text \<open>Saving a record that develops the stored one; the store itself checks the active ones.\<close>

lemma binding_save_goes:
  assumes upd: "\<And>cur. binding_of s (bd_id rec) = Some cur \<Longrightarrow> binding_becomes cur rec \<and>
      targeted rec \<and>
      (bd_status rec = Bs_degraded \<longrightarrow> serves cur \<and> bd_connection rec = bd_connection cur)"
  shows "goes (bindings_evolve n) (binding_save rec) s"
proof (cases "bindings_ok n s \<and> (\<exists>cur. binding_of s (bd_id rec) = Some cur)")
  case False
  then show ?thesis
    by (auto simp: binding_save_def goes_def run bindings_evolve_def)
next
  case True
  then obtain cur where ok: "bindings_ok n s" and cur: "binding_of s (bd_id rec) = Some cur" by blast
  have shape: "binding_shape n (bd_id rec) rec"
    using ok cur upd[OF cur] by (auto simp: bindings_ok_def binding_shape_def dest: all_storedD)
  have wrote: "bindings_evolve n s (write_binding (bd_id rec) rec s)" if "no_rival rec s"
    by (rule bindings_evolve_write[OF shape that]) (use upd in blast)
  show ?thesis
  proof (cases "bd_status rec = Bs_active")
    case True
    then show ?thesis
      using cur wrote no_rival_values[of rec s] bindings_growth.refl[of n s]
      by (auto simp: binding_save_def goes_def run ensure_single_active_def)
  next
    case False
    have "no_rival rec s"
    proof (cases "bd_status rec = Bs_degraded")
      case True
      with upd[OF cur] have cur': "serves cur" "bd_connection cur = bd_connection rec"
          "bd_supply_mode cur = bd_supply_mode rec"
        by (auto simp: binding_becomes_def)
      have ids: "bd_id b = q" if "binding_of s q = Some b" for q b
        using ok that by (auto simp: bindings_ok_def binding_shape_def dest: all_storedD)
      have "\<not> rival_dedicated rec b" if "binding_of s q = Some b" for q b
      proof
        assume rival: "rival_dedicated rec b"
        then have "q = bd_id rec"
          using no_clashD[of binding_of both_dedicated s q b "bd_id rec" cur] ok that cur cur'
          by (auto simp: rival_dedicated_def serves_def bindings_ok_def both_dedicated_def)
        with rival ids[OF that] show False by (simp add: rival_dedicated_def)
      qed
      with False show ?thesis by (simp add: no_rival_def)
    qed (use False in \<open>simp add: no_rival_def serves_def\<close>)
    with False cur wrote show ?thesis by (auto simp: binding_save_def goes_def run)
  qed
qed

lemma binding_create_goes:
  assumes "binding_of s (bd_id rec) = None" and "binding_shape n (bd_id rec) rec"
    and "bd_status rec = Bs_draft"
  shows "goes (bindings_evolve n) (binding_create rec) s"
  using assms bindings_evolve_write[of n rec s]
  by (auto simp: binding_create_def goes_def run no_rival_def serves_def)

lemma binding_audit_evolves: "evolves (bindings_evolve n) (binding_audit owner pid bid event rq payload)"
  unfolding binding_audit_def
  by (intro bindings_growth.modify)
    (auto simp: bindings_evolve_def bindings_ok_def bindings_grow_def no_clash_def
      all_stored_def entries_grow_def binding_of_def binding_becomes_def)

text \<open>Retiring the active bindings of a predicate; publishing in their place.\<close>

definition retired :: "instant \<Rightarrow> (binding \<Rightarrow> bool) \<Rightarrow> binding \<Rightarrow> binding" where
  "retired now P r = (if P r then r\<lparr>bd_status := Bs_inactive, bd_updated_at := Some now\<rparr> else r)"

definition retire_in :: "instant \<Rightarrow> (binding \<Rightarrow> bool) \<Rightarrow> binding_store \<Rightarrow> binding_store" where
  "retire_in now P s = s\<lparr>bs_by_id := dict_map_values (retired now P) (bs_by_id s)\<rparr>"

lemma retire_active_run [run]: "retire_active now P s = (Inr (), retire_in now P s)"
  by (simp add: retire_active_def run retire_in_def retired_def[abs_def])

lemma binding_of_retire_in [simp]:
  "binding_of (retire_in now P s) q = map_option (retired now P) (binding_of s q)"
  by (simp add: binding_of_def retire_in_def)

lemma retired_simps [simp]:
  "bd_id (retired now P b) = bd_id b" "bd_project (retired now P b) = bd_project b"
  "bd_protocol (retired now P b) = bd_protocol b" "bd_supply_mode (retired now P b) = bd_supply_mode b"
  "bd_connection (retired now P b) = bd_connection b" "bd_owner (retired now P b) = bd_owner b"
  "bd_version (retired now P b) = bd_version b"
  "bd_status (retired now P b) = (if P b then Bs_inactive else bd_status b)"
  by (simp_all add: retired_def)

lemma retire_in_evolves:
  assumes "\<And>b. P b \<Longrightarrow> bd_status b = Bs_active"
  shows "bindings_evolve n s (retire_in now P s)"
proof -
  let ?t = "retire_in now P s"
  have act: "both_active a b" if "both_active (retired now P a) (retired now P b)" for a b
    using that by (auto simp: both_active_def split: if_splits)
  have ded: "both_dedicated a b" if "both_dedicated (retired now P a) (retired now P b)" for a b
    using that by (auto simp: both_dedicated_def serves_def split: if_splits)
  have becomes: "binding_becomes b (retired now P b)" for b
    using assms[of b] by (simp add: binding_becomes_def published_def)
  have grow: "bindings_grow s ?t"
    using becomes by (simp add: bindings_grow_def entries_grow_def) (simp add: retire_in_def)
  have "bindings_ok n ?t" if ok: "bindings_ok n s"
  proof -
    have "no_clash binding_of both_active ?t" "no_clash binding_of both_dedicated ?t"
      using ok act ded unfolding bindings_ok_def no_clash_def by fastforce+
    moreover have "all_stored binding_of (binding_shape n) ?t"
    proof (unfold all_stored_def, intro allI impI)
      fix q b
      assume "binding_of ?t q = Some b"
      then obtain a where "binding_of s q = Some a" and b: "b = retired now P a" by auto
      with ok have "binding_shape n q a" by (auto simp: bindings_ok_def dest: all_storedD)
      then show "binding_shape n q b" by (simp add: binding_shape_def targeted_def b)
    qed
    moreover have "dict_ok (bs_by_id ?t)" using ok by (simp add: bindings_ok_def retire_in_def)
    ultimately show ?thesis by (simp add: bindings_ok_def)
  qed
  with grow show ?thesis by (simp add: bindings_evolve_def)
qed

lemma publish_atomic_goes:
  assumes upd: "\<And>cur. binding_of s (bd_id rec) = Some cur \<Longrightarrow> binding_becomes cur rec \<and>
      targeted rec"
  shows "goes (bindings_evolve n) (publish_atomic now rec) s"
proof -
  let ?t = "retire_in now (rival_active rec) s"
  have retire: "bindings_evolve n s ?t"
    by (rule retire_in_evolves) (simp add: rival_active_def)
  have wrote: "bindings_evolve n ?t (write_binding (bd_id rec) rec ?t)"
    if found: "binding_of s (bd_id rec) \<noteq> None" and free: "no_rival rec ?t"
  proof (cases "bindings_ok n ?t")
    case True
    from found obtain cur where cur: "binding_of s (bd_id rec) = Some cur" by blast
    then have kept: "binding_of ?t (bd_id rec) = Some (retired now (rival_active rec) cur)" by simp
    from True have "all_stored binding_of (binding_shape n) ?t" by (simp add: bindings_ok_def)
    from all_storedD[OF this kept]
    have shape: "binding_shape n (bd_id rec) (retired now (rival_active rec) cur)" .
    then have "bd_id cur = bd_id rec" by (simp add: binding_shape_def)
    then have same: "retired now (rival_active rec) cur = cur"
      by (simp add: retired_def rival_active_def)
    show ?thesis
      by (rule bindings_evolve_write[OF _ free])
        (use shape same kept upd[OF cur] in \<open>auto simp: binding_shape_def\<close>)
  qed (simp add: bindings_evolve_def)
  show ?thesis
    using retire wrote no_rival_values[of rec ?t]
    by (auto simp: publish_atomic_def goes_def run list_ex_iff intro: bindings_growth.trans)
qed

lemma max_version_ge:
  "dict_ok (bs_by_id s) \<Longrightarrow> binding_of s bid = Some b \<Longrightarrow>
     bd_version b \<le> max_version (bd_project b) (bd_protocol b) s"
  by (auto simp: max_version_def Let_def binding_list_by_project_protocol_def binding_of_def
      filter_empty_conv dest!: dict_get_values)

subsection \<open>Connections\<close>

definition connection_becomes :: "connection \<Rightarrow> connection \<Rightarrow> bool" where
  "connection_becomes a b \<longleftrightarrow> co_id b = co_id a \<and> co_seller b = co_seller a \<and>
     co_provider b = co_provider a \<and> co_auth_type b = co_auth_type a \<and>
     lifecycle_allowed\<^sup>*\<^sup>* (co_lifecycle_state a) (co_lifecycle_state b) \<and>
     co_credential_version a \<le> co_credential_version b \<and>
     (co_status a = Cs_deleted \<longrightarrow> co_status b = Cs_deleted)"

text \<open>A deleted connection holds nothing of its credential.\<close>

definition erased :: "connection \<Rightarrow> bool" where
  "erased b \<longleftrightarrow> co_deleted_at b \<noteq> None \<and> co_nonce b = None \<and> co_ciphertext b = None \<and> co_tag b = None \<and>
     co_key_version b = None"

definition connection_shape :: "uuid \<Rightarrow> uuid \<Rightarrow> connection \<Rightarrow> bool" where
  "connection_shape n cid b \<longleftrightarrow> co_id b = cid \<and> cid < n \<and> (co_status b = Cs_deleted \<longrightarrow> erased b)"

definition connections_ok :: "uuid \<Rightarrow> connection_store \<Rightarrow> bool" where
  "connections_ok n s \<longleftrightarrow> dict_ok (cs_by_id s) \<and> all_stored connection_of (connection_shape n) s"

definition connections_grow :: "connection_store \<Rightarrow> connection_store \<Rightarrow> bool" where
  "connections_grow s t \<longleftrightarrow> entries_grow connection_of connection_becomes s t \<and>
     (\<exists>new. cs_audits t = cs_audits s @ new) \<and>
     (\<forall>cid. \<exists>new. snapshots_of cid t = snapshots_of cid s @ new)"

definition connections_evolve :: "uuid \<Rightarrow> connection_store \<Rightarrow> connection_store \<Rightarrow> bool" where
  "connections_evolve n s t \<longleftrightarrow> (connections_ok n s \<longrightarrow> connections_ok n t \<and> connections_grow s t)"

lemma connection_becomes_order: "reflp connection_becomes" "transp connection_becomes"
  by (auto simp: reflp_def transp_def connection_becomes_def)

lemma connections_grow_refl [simp]: "connections_grow s s"
  by (simp add: connections_grow_def entries_grow_refl connection_becomes_order)

lemma connections_grow_trans: "connections_grow s t \<Longrightarrow> connections_grow t u \<Longrightarrow> connections_grow s u"
  unfolding connections_grow_def using entries_grow_trans[OF connection_becomes_order(2)]
  by (metis append.assoc)

interpretation connections_growth: evolution "connections_evolve n" for n
  by unfold_locales (auto simp: connections_evolve_def intro: connections_grow_trans)

lemma connections_evolve_write:
  assumes "connections_ok n s \<Longrightarrow> connection_shape n (co_id rec) rec"
    and "\<And>cur. connection_of s (co_id rec) = Some cur \<Longrightarrow> connection_becomes cur rec"
  shows "connections_evolve n s (write_connection (co_id rec) rec s)"
proof -
  have "entries_grow connection_of connection_becomes s (write_connection (co_id rec) rec s)"
    by (rule connections_store.entries_grow_put[OF connection_becomes_order(1) assms(2)])
  then show ?thesis
    using assms(1)
    by (auto simp: connections_evolve_def connections_ok_def connections_grow_def write_connection_def
        snapshots_of_def intro!: connections_store.all_stored_put[unfolded write_connection_def])
qed

lemma save_replace_goes:
  assumes upd: "\<And>cur. connection_of s (co_id rec) = Some cur \<Longrightarrow>
      co_credential_version cur = expected \<Longrightarrow> connection_becomes cur rec \<and> (co_status rec = Cs_deleted \<longrightarrow> erased rec)"
  shows "goes (connections_evolve n) (save_replace rec expected) s"
  unfolding save_replace_def
  apply (intro connections_growth.goes_rules)
  subgoal for cur
    unfolding goes_def modify_def snd_conv
    by (rule connections_evolve_write)
      (use upd in \<open>auto simp: connections_ok_def connection_shape_def dest: all_storedD\<close>)
  done

text \<open>The other writes take only some fields of the record they are given.\<close>

lemma save_health_evolves: "evolves (connections_evolve n) (save_health now rec)"
proof (rule goes_evolves)
  fix s
  have "connections_evolve n s (write_connection (co_id rec) (merge_health cur rec now) s)"
    if cur: "connection_of s (co_id rec) = Some cur" for cur
  proof (cases "connections_ok n s")
    case True
    then have shape: "connection_shape n (co_id rec) cur"
      using cur by (auto simp: connections_ok_def dest: all_storedD)
    then have "co_id (merge_health cur rec now) = co_id rec"
      by (simp add: merge_health_def connection_shape_def)
    moreover have "connections_evolve n s
        (write_connection (co_id (merge_health cur rec now)) (merge_health cur rec now) s)"
      by (rule connections_evolve_write)
        (use shape cur calculation in \<open>auto simp: connection_shape_def erased_def merge_health_def connection_becomes_def\<close>)
    ultimately show ?thesis by simp
  qed (simp add: connections_evolve_def)
  then show "goes (connections_evolve n) (save_health now rec) s"
    by (auto simp: save_health_def goes_def run connections_growth.refl split: option.splits)
qed

lemma save_lifecycle_evolves:
  assumes path: "lifecycle_allowed\<^sup>*\<^sup>* expected (co_lifecycle_state rec)"
  shows "evolves (connections_evolve n) (save_lifecycle now rec expected)"
proof (rule goes_evolves)
  fix s
  have "connections_evolve n s (write_connection (co_id rec) (merge_lifecycle cur rec now) s)"
    if cur: "connection_of s (co_id rec) = Some cur" and hit: "co_lifecycle_state cur = expected" for cur
  proof (cases "connections_ok n s")
    case True
    then have shape: "connection_shape n (co_id rec) cur"
      using cur by (auto simp: connections_ok_def dest: all_storedD)
    then have "co_id (merge_lifecycle cur rec now) = co_id rec"
      by (simp add: merge_lifecycle_def connection_shape_def)
    moreover have "connections_evolve n s
        (write_connection (co_id (merge_lifecycle cur rec now)) (merge_lifecycle cur rec now) s)"
      by (rule connections_evolve_write)
        (use shape cur hit path calculation in
          \<open>auto simp: connection_shape_def erased_def merge_lifecycle_def connection_becomes_def\<close>)
    ultimately show ?thesis by simp
  qed (simp add: connections_evolve_def)
  then show "goes (connections_evolve n) (save_lifecycle now rec expected) s"
    by (auto simp: save_lifecycle_def goes_def run connections_growth.refl split: option.splits)
qed

lemma connection_create_goes:
  assumes "connection_of s (co_id rec) = None" and "co_id rec < n" and "co_status rec \<noteq> Cs_deleted"
  shows "goes (connections_evolve n) (connection_create rec) s"
  unfolding connection_create_def goes_def modify_def snd_conv
  by (rule connections_evolve_write) (use assms in \<open>auto simp: connection_shape_def\<close>)

lemma connection_notes_evolve:
  "evolves (connections_evolve n) (connection_audit now seller cid event rq payload)"
  "evolves (connections_evolve n) (save_snapshot now' cid' version caps)"
proof -
  have same: "connections_evolve n s t"
    if "cs_by_id t = cs_by_id s" "\<exists>new. cs_audits t = cs_audits s @ new"
      "\<forall>cid. \<exists>new. snapshots_of cid t = snapshots_of cid s @ new" for s t
  proof -
    have "connection_of t = connection_of s" using that(1) by (simp add: fun_eq_iff connection_of_def)
    then show ?thesis using that
      by (auto simp: connections_evolve_def connections_ok_def connections_grow_def all_stored_def
          entries_grow_def connection_becomes_def)
  qed
  show "evolves (connections_evolve n) (connection_audit now seller cid event rq payload)"
    unfolding connection_audit_def
    by (intro connections_growth.modify same) (simp_all add: snapshots_of_def)
  show "evolves (connections_evolve n) (save_snapshot now' cid' version caps)"
    unfolding save_snapshot_def
    by (intro connections_growth.modify same) (simp_all add: snapshots_of_def)
qed

end
