(* ===== verification/Market_Steps.thy ===== *)
theory Market_Steps
  imports Market_Growth
begin

section \<open>Runs of the API service\<close>

text \<open>
  The invariant of the whole state (\<open>market_inv\<close>: every store well formed, every binding in the mode of
  its project), how the state develops (\<open>market_grows\<close>), and that every service operation, raising or
  not, respects both. \<open>market_call\<close> lists the operations a client can start; \<open>market_step\<close> is one call.
\<close>

definition agrees :: "market \<Rightarrow> binding \<Rightarrow> bool" where
  "agrees m b \<longleftrightarrow> (\<exists>p. the_project (bd_project b) m = Some p \<and> pj_mode p = bd_supply_mode b \<and>
     pj_owner p = bd_owner b)"

definition market_inv :: "market \<Rightarrow> bool" where
  "market_inv m \<longleftrightarrow> projects_ok (mk_next m) (mk_projects m) \<and> bindings_ok (mk_next m) (mk_bindings m) \<and>
     connections_ok (mk_next m) (mk_connections m) \<and>
     (\<forall>bid b. the_binding bid m = Some b \<longrightarrow> agrees m b)"

definition market_grows :: "market \<Rightarrow> market \<Rightarrow> bool" where
  "market_grows m n \<longleftrightarrow> projects_grow (mk_projects m) (mk_projects n) \<and>
     bindings_grow (mk_bindings m) (mk_bindings n) \<and>
     connections_grow (mk_connections m) (mk_connections n) \<and> mk_next m \<le> mk_next n"

definition market_evolves :: "market \<Rightarrow> market \<Rightarrow> bool" where
  "market_evolves m n \<longleftrightarrow> (market_inv m \<longrightarrow> market_inv n \<and> market_grows m n)"

lemma market_grows_refl [simp]: "market_grows m m"
  by (simp add: market_grows_def)

lemma market_grows_trans: "market_grows m n \<Longrightarrow> market_grows n k \<Longrightarrow> market_grows m k"
  unfolding market_grows_def
  by (meson bindings_grow_trans connections_grow_trans le_trans projects_grow_trans)

interpretation market_growth: evolution market_evolves
  by unfold_locales (auto simp: market_evolves_def intro: market_grows_trans)

lemma empty_market_inv: "market_inv empty_market"
  by (simp add: market_inv_def empty_market_def projects_ok_def bindings_ok_def connections_ok_def
      all_stored_def no_clash_def project_of_def binding_of_def connection_of_def the_binding_def)

subsection \<open>From the stores to the state\<close>

lemma later_ids:
  "projects_ok n s \<Longrightarrow> n \<le> n' \<Longrightarrow> projects_ok n' s"
  "bindings_ok n t \<Longrightarrow> n \<le> n' \<Longrightarrow> bindings_ok n' t"
  "connections_ok n u \<Longrightarrow> n \<le> n' \<Longrightarrow> connections_ok n' u"
  by (auto simp: projects_ok_def bindings_ok_def connections_ok_def binding_shape_def connection_shape_def
      elim: all_stored_mono)

lemma new_uuid_evolves: "evolves market_evolves new_uuid"
  by (auto simp: evolves_def run market_evolves_def market_inv_def market_grows_def agrees_def the_project_def
      the_binding_def elim: later_ids)

lemma goes_on_projects:
  assumes "goes (projects_evolve (mk_next m)) a (mk_projects m)"
  shows "goes market_evolves (on_projects a) m"
  unfolding on_projects_def
proof (rule goes_zoom)
  fix t
  assume "snd (a (mk_projects m)) = t"
  with assms have t: "projects_evolve (mk_next m) (mk_projects m) t" by (simp add: goes_def)
  have "agrees (m\<lparr>mk_projects := t\<rparr>) b" if "projects_grow (mk_projects m) t" "agrees m b" for b
  proof -
    from that(2) obtain p where p: "project_of (mk_projects m) (bd_project b) = Some p"
        "pj_mode p = bd_supply_mode b" "pj_owner p = bd_owner b"
      by (auto simp: agrees_def the_project_def)
    with that(1) obtain q where "project_of t (bd_project b) = Some q" "project_becomes p q"
      unfolding projects_grow_def by (blast dest: entries_growD)
    with p show ?thesis by (auto simp: agrees_def the_project_def project_becomes_def)
  qed
  with t show "market_evolves m (m\<lparr>mk_projects := t\<rparr>)"
    by (simp add: market_evolves_def market_inv_def market_grows_def projects_evolve_def the_binding_def)
qed

lemma goes_on_connections:
  assumes "goes (connections_evolve (mk_next m)) a (mk_connections m)"
  shows "goes market_evolves (on_connections a) m"
  unfolding on_connections_def
  by (rule goes_zoom)
    (use assms in \<open>auto simp: goes_def market_evolves_def market_inv_def market_grows_def
      connections_evolve_def the_binding_def agrees_def the_project_def\<close>)

text \<open>An operation of the binding store that adds no entry, or adds one that agrees.\<close>

definition adds_agreeing :: "market \<Rightarrow> 'a binding_store_op \<Rightarrow> bool" where
  "adds_agreeing m a \<longleftrightarrow> (\<forall>bid b. binding_of (mk_bindings m) bid = None \<longrightarrow>
     binding_of (snd (a (mk_bindings m))) bid = Some b \<longrightarrow> agrees m b)"

lemma goes_on_bindings:
  assumes "goes (bindings_evolve (mk_next m)) a (mk_bindings m)" and "adds_agreeing m a"
  shows "goes market_evolves (on_bindings a) m"
  unfolding on_bindings_def
proof (rule goes_zoom)
  fix t
  assume t': "snd (a (mk_bindings m)) = t"
  with assms(1) have t: "bindings_evolve (mk_next m) (mk_bindings m) t" by (simp add: goes_def)
  have "agrees (m\<lparr>mk_bindings := t\<rparr>) b"
    if inv: "market_inv m" and b: "binding_of t bid = Some b" for bid b
  proof (cases "binding_of (mk_bindings m) bid")
    case None
    with assms(2) t' b have "agrees m b" by (simp add: adds_agreeing_def)
    then show ?thesis by (simp add: agrees_def the_project_def)
  next
    case (Some a)
    then have "agrees m a" using inv by (simp add: market_inv_def the_binding_def)
    moreover have "bindings_grow (mk_bindings m) t"
      using t inv by (simp add: bindings_evolve_def market_inv_def)
    with Some b have "binding_becomes a b"
      unfolding bindings_grow_def by (force dest: entries_growD)
    ultimately show ?thesis by (auto simp: agrees_def the_project_def binding_becomes_def)
  qed
  with t show "market_evolves m (m\<lparr>mk_bindings := t\<rparr>)"
    by (auto simp: market_evolves_def market_inv_def market_grows_def bindings_evolve_def the_binding_def
        agrees_def the_project_def)
qed

lemma binding_save_result:
  "snd (binding_save rec s) = s \<or>
     binding_of s (bd_id rec) \<noteq> None \<and> snd (binding_save rec s) = write_binding (bd_id rec) rec s"
  by (simp add: binding_save_def run ensure_single_active_def)

lemma publish_atomic_result:
  "snd (publish_atomic now rec s) = retire_in now (rival_active rec) s \<or>
     binding_of s (bd_id rec) \<noteq> None \<and>
     snd (publish_atomic now rec s) = write_binding (bd_id rec) rec (retire_in now (rival_active rec) s)"
  by (simp add: publish_atomic_def run)

lemma adds_nothing:
  "adds_agreeing m (binding_save rec)"
  "adds_agreeing m (publish_atomic now rec)"
  "adds_agreeing m (binding_audit owner pid bid event rq payload)"
proof -
  show "adds_agreeing m (binding_save rec)"
    using binding_save_result[of rec "mk_bindings m"]
    by (auto simp: adds_agreeing_def store_get_put split: if_splits)
  show "adds_agreeing m (publish_atomic now rec)"
    using publish_atomic_result[of now rec "mk_bindings m"]
    by (auto simp: adds_agreeing_def store_get_put split: if_splits)
  show "adds_agreeing m (binding_audit owner pid bid event rq payload)"
    by (simp add: adds_agreeing_def binding_audit_def run binding_of_def)
qed

lemma notes_evolve:
  "evolves market_evolves (on_projects (project_audit now owner pid event rq payload))"
  "evolves market_evolves (on_projects (project_put_idempotency owner key digest pid'))"
  "evolves market_evolves (on_projects (add_blocker bid bpid kind reference))"
  "evolves market_evolves (on_bindings (binding_audit owner pid xbid event rq payload))"
  "evolves market_evolves (on_connections (connection_audit now owner cid event rq payload))"
  "evolves market_evolves (on_connections (save_snapshot now sid version caps))"
  "evolves market_evolves (on_connections (save_health now rec))"
  by (rule goes_evolves, rule goes_on_projects goes_on_bindings goes_on_connections,
      (rule evolves_goes)?, rule project_notes_evolve binding_audit_evolves connection_notes_evolve
        save_health_evolves, (rule adds_nothing)?)+

lemma save_lifecycle_step:
  "lifecycle_allowed\<^sup>*\<^sup>* expected (co_lifecycle_state rec) \<Longrightarrow>
     evolves market_evolves (on_connections (save_lifecycle now rec expected))"
  by (rule goes_evolves, rule goes_on_connections, rule evolves_goes, rule save_lifecycle_evolves)

lemmas market_rules = market_growth.rules evolve notes_evolve new_uuid_evolves

subsection \<open>Connections\<close>

lemma persist_evolves:
  "lifecycle_allowed\<^sup>*\<^sup>* expected (co_lifecycle_state changed) \<Longrightarrow>
     evolves market_evolves (persist now changed expected rq)"
  unfolding persist_def Let_def
  by (intro market_rules save_lifecycle_step) simp_all

lemma move_to_evolves: "evolves market_evolves (move_to now rec target rq)"
proof (rule goes_evolves)
  fix m
  show "goes market_evolves (move_to now rec target rq) m"
    unfolding move_to_def
    by (rule market_growth.goes_of_sum, rule evolves_goes, rule persist_evolves)
      (auto dest: transition_Inr)
qed

lemma reads_evolve:
  "evolves market_evolves (require_seller c)"
  "evolves market_evolves (owned_connection cid seller)"
  "evolves market_evolves (get_connection cid c)"
  "evolves market_evolves (binding_buyer c)"
  "evolves market_evolves (project_buyer c)"
  "evolves market_evolves (binding_project pid owner)"
  "evolves market_evolves (owned_binding bid owner)"
  "evolves market_evolves (owned_project pid owner)"
  "evolves market_evolves (get_project pid c)"
  unfolding require_seller_def owned_connection_def get_connection_def binding_buyer_def project_buyer_def
    require_buyer_def binding_project_def owned_binding_def owned_project_def get_project_def
  by (intro market_rules)+

lemma require_connection_evolves: "evolves market_evolves (require_connection connection protocol idle)"
  unfolding require_connection_def by (intro market_rules)

lemma lifecycle_evolves:
  "evolves market_evolves (mark_verified now rec rq)"
  "evolves market_evolves (set_mode now cid c mode rq)"
  "evolves market_evolves (list_supply now cid c rq)"
  "evolves market_evolves (pause now cid c rq)"
  "evolves market_evolves (resume now cid c rq)"
  "evolves market_evolves (drain now cid c rq)"
  "evolves market_evolves (retire now cid c rq)"
  "evolves market_evolves (ensure_deletable cid)"
  "evolves market_evolves (mark_bound now cid rq)"
  "evolves market_evolves (mark_draining now cid rq)"
  "evolves market_evolves (mark_unbound now cid rq)"
  unfolding mark_verified_def set_mode_def list_supply_def pause_def resume_def drain_def retire_def
    ensure_deletable_def mark_bound_def mark_draining_def mark_unbound_def Let_def
  by ((intro market_rules reads_evolve move_to_evolves); (rule persist_evolves)?; simp)+

lemma unwrap_evolves: "evolves market_evolves (unwrap env now cid purpose rq actor)"
  unfolding unwrap_def by (intro market_rules)

lemma verify_evolves: "evolves market_evolves (verify env now jitter cid c immediate rq)"
  unfolding verify_def store_capabilities_def Let_def
  by (intro market_rules reads_evolve unwrap_evolves save_lifecycle_step) auto

lemma health_tick_evolves: "evolves market_evolves (health_tick env stamp jitters)"
proof -
  have "evolves market_evolves (case e of ConnectionError code status \<Rightarrow>
      on_connections (save_health stamp rec) | _ \<Rightarrow> throw e)" for e rec
    by (cases e) (auto intro: market_rules)
  then show ?thesis
    unfolding health_tick_def probe_one_def Let_def
    by (intro market_rules verify_evolves) 
qed

lemma fresh_ids:
  assumes inv: "market_inv m"
  shows "project_of (mk_projects m) (mk_next m) = None"
    and "binding_of (mk_bindings m) (mk_next m) = None"
    and "connection_of (mk_connections m) (mk_next m) = None"
proof -
  show "project_of (mk_projects m) (mk_next m) = None"
  proof (rule ccontr)
    assume "project_of (mk_projects m) (mk_next m) \<noteq> None"
    with inv show False by (auto simp: market_inv_def projects_ok_def dest: all_storedD)
  qed
  show "binding_of (mk_bindings m) (mk_next m) = None"
  proof (rule ccontr)
    assume "binding_of (mk_bindings m) (mk_next m) \<noteq> None"
    with inv show False by (auto simp: market_inv_def bindings_ok_def binding_shape_def dest: all_storedD)
  qed
  show "connection_of (mk_connections m) (mk_next m) = None"
  proof (rule ccontr)
    assume "connection_of (mk_connections m) (mk_next m) \<noteq> None"
    with inv show False
      by (auto simp: market_inv_def connections_ok_def connection_shape_def dest: all_storedD)
  qed
qed

lemma goes_new_uuid:
  assumes "market_inv m \<Longrightarrow> goes market_evolves (f (mk_next m)) (m\<lparr>mk_next := mk_next m + 1\<rparr>)"
  shows "goes market_evolves (bindE new_uuid f) m"
proof (cases "market_inv m")
  case True
  show ?thesis
    by (rule market_growth.goes_bindE)
      (use assms[OF True] in \<open>auto simp: run intro: evolves_goes new_uuid_evolves\<close>)
qed (simp add: goes_def market_evolves_def)

lemma goes_inv: "(market_inv m \<Longrightarrow> goes market_evolves a m) \<Longrightarrow> goes market_evolves a m"
  by (auto simp: goes_def market_evolves_def)

lemma reads_keep_state:
  "require_seller c m = (r1, n) \<Longrightarrow> n = m"
  "owned_connection cid seller m = (r2, n) \<Longrightarrow> n = m"
  "binding_buyer c m = (r3, n) \<Longrightarrow> n = m"
  "project_buyer c m = (r4, n) \<Longrightarrow> n = m"
  "require_connection conn protocol idle m = (r5, n) \<Longrightarrow> n = m"
  by (auto simp: require_seller_def owned_connection_def binding_buyer_def project_buyer_def require_buyer_def
      require_connection_def run split: if_splits option.splits)

lemma require_connection_Some: "require_connection con p idle m = (Inr u, n) \<Longrightarrow> con \<noteq> None"
  by (cases con) (simp_all add: require_connection_def throw_def)

lemma assert_publishable_keeps: "assert_publishable prices rec m = (r, n) \<Longrightarrow> n = m"
  by (auto simp: assert_publishable_def run split: if_splits dest: reads_keep_state)

lemma check_form_keeps: "check_form env f secret m = (r, n) \<Longrightarrow> n = m"
  by (auto simp: check_form_def Let_def run split: if_splits sum.splits)

text \<open>Reading a record and going on with it, in the same state.\<close>

lemma goes_seller:
  "goes market_evolves (f ()) m \<Longrightarrow> goes market_evolves (bindE (require_seller c) f) m"
  by (rule market_growth.goes_bindE) (auto intro: evolves_goes reads_evolve dest: reads_keep_state)

lemma goes_buyer:
  "goes market_evolves (f ()) m \<Longrightarrow> goes market_evolves (bindE (binding_buyer c) f) m"
  "goes market_evolves (f ()) m \<Longrightarrow> goes market_evolves (bindE (project_buyer c) f) m"
  by (rule market_growth.goes_bindE, auto intro: evolves_goes reads_evolve dest: reads_keep_state)+

lemma goes_owned_connection:
  "(\<And>rec. the_connection cid m = Some rec \<Longrightarrow> co_seller rec = seller \<Longrightarrow> co_status rec \<noteq> Cs_deleted \<Longrightarrow>
      goes market_evolves (f rec) m) \<Longrightarrow> goes market_evolves (bindE (owned_connection cid seller) f) m"
  by (rule market_growth.goes_bindE[OF evolves_goes[OF reads_evolve(2)]])
    (auto simp: owned_connection_def op_success split: option.splits if_splits)

lemma goes_owned_binding:
  "(\<And>rec. the_binding bid m = Some rec \<Longrightarrow> bd_owner rec = owner \<Longrightarrow>
      goes market_evolves (f rec) m) \<Longrightarrow> goes market_evolves (bindE (owned_binding bid owner) f) m"
  by (rule market_growth.goes_bindE[OF evolves_goes[OF reads_evolve(7)]])
    (auto simp: owned_binding_def op_success split: option.splits if_splits)

lemma live_projectD:
  "live_project pid owner m = Some rec \<longleftrightarrow>
     the_project pid m = Some rec \<and> pj_owner rec = owner \<and> pj_deleted_at rec = None"
  by (auto simp: live_project_def split: option.splits if_splits)

lemma goes_live_project:
  "(\<And>rec. live_project pid owner m = Some rec \<Longrightarrow> goes market_evolves (f rec) m) \<Longrightarrow>
     goes market_evolves (bindE (binding_project pid owner) f) m"
  "(\<And>rec. live_project pid owner m = Some rec \<Longrightarrow> goes market_evolves (f rec) m) \<Longrightarrow>
     goes market_evolves (bindE (owned_project pid owner) f) m"
  by (rule market_growth.goes_bindE[OF evolves_goes[OF reads_evolve(6)]],
      auto simp: binding_project_def op_success,
      rule market_growth.goes_bindE[OF evolves_goes[OF reads_evolve(8)]],
      auto simp: owned_project_def op_success)

lemma goes_get_project:
  "(\<And>rec. live_project pid (ca_id c) m = Some rec \<Longrightarrow> goes market_evolves (f rec) m) \<Longrightarrow>
     goes market_evolves (bindE (get_project pid c) f) m"
  by (rule market_growth.goes_bindE[OF evolves_goes[OF reads_evolve(9)]])
    (auto simp: get_project_def owned_project_def op_success dest: reads_keep_state)

lemma replaced_becomes:
  "co_credential_version found = expected \<Longrightarrow> co_id rec = co_id found \<Longrightarrow>
     co_seller rec = co_seller found \<Longrightarrow> co_provider rec = co_provider found \<Longrightarrow>
     co_auth_type rec = co_auth_type found \<Longrightarrow> co_lifecycle_state rec = co_lifecycle_state found \<Longrightarrow>
     co_status rec = co_status found \<Longrightarrow>
     connection_becomes found (replaced_connection env now rec secret expected sealed)"
  by (cases sealed) (simp add: connection_becomes_def replaced_connection_def)

lemma replaced_simps [simp]:
  "co_id (replaced_connection env now rec secret expected sealed) = co_id rec"
  "co_status (replaced_connection env now rec secret expected sealed) = co_status rec"
  by (cases sealed; simp add: replaced_connection_def)+

lemma save_replace_market:
  assumes "market_inv m \<Longrightarrow> the_connection (co_id rec) m = Some cur" and
    "co_credential_version cur = expected \<Longrightarrow> connection_becomes cur rec" and
    "co_status rec = Cs_deleted \<Longrightarrow> erased rec"
  shows "goes market_evolves (on_connections (save_replace rec expected)) m"
  by (rule goes_inv, rule goes_on_connections, rule save_replace_goes)
    (use assms in \<open>auto simp: the_connection_def\<close>)

lemma connection_key: "market_inv m \<Longrightarrow> the_connection cid m = Some rec \<Longrightarrow> co_id rec = cid"
  by (auto simp: market_inv_def connections_ok_def connection_shape_def the_connection_def dest: all_storedD)

lemma binding_key: "market_inv m \<Longrightarrow> the_binding bid m = Some rec \<Longrightarrow> bd_id rec = bid"
  by (auto simp: market_inv_def bindings_ok_def binding_shape_def the_binding_def dest: all_storedD)

lemma project_key: "market_inv m \<Longrightarrow> the_project pid m = Some rec \<Longrightarrow> pj_id rec = pid"
  by (auto simp: market_inv_def projects_ok_def the_project_def dest: all_storedD)

lemma create_connection_evolves: "evolves market_evolves (create_connection env now nonce c f rq)"
proof (rule goes_evolves)
  fix m
  have new: "co_id (fresh_connection env now cid seller f secret url sealed) = cid"
    "co_status (fresh_connection env now cid seller f secret url sealed) = Cs_active" for cid seller secret url sealed
    by (cases sealed; simp add: fresh_connection_def)+
  have form: "goes market_evolves (bindE (check_form env f secret) g) m"
    if "\<And>url. goes market_evolves (g url) m" for secret and g :: "string \<Rightarrow> connection market_op"
    using that market_growth.refl
    by (auto simp: goes_def bindE_def split: prod.splits sum.splits dest: check_form_keeps)
  show "goes market_evolves (create_connection env now nonce c f rq) m"
    unfolding create_connection_def Let_def
    apply (intro goes_seller form market_growth.goes_of_sum goes_new_uuid)
    apply (rule market_growth.goes_then)
     apply (rule goes_on_connections, rule connection_create_goes)
       apply (simp_all add: new fresh_ids)
    apply (intro market_rules)
    done
qed

lemma save_as_service_goes:
  "goes market_evolves (on_connections (save_replace rec expected)) m \<Longrightarrow>
     goes market_evolves (save_as_service rec expected) m"
  unfolding save_as_service_def by (rule market_growth.goes_rethrow)

lemma replace_credential_evolves:
  "evolves market_evolves (replace_credential env now nonce cid c secret expected pn loc rq)"
proof (rule goes_evolves)
  fix m
  show "goes market_evolves (replace_credential env now nonce cid c secret expected pn loc rq) m"
    unfolding replace_credential_def Let_def
    apply (intro goes_seller goes_owned_connection market_growth.goes_require market_growth.goes_of_sum
        market_growth.goes_then save_as_service_goes market_rules)
    subgoal for rec
      by (rule save_replace_market[where cur = rec])
        (auto dest: connection_key intro!: replaced_becomes)
    done
qed

subsection \<open>Bindings\<close>

lemma binding_save_market:
  assumes "market_inv m \<Longrightarrow> the_binding (bd_id rec) m = Some cur" and "binding_becomes cur rec"
    and "market_inv m \<Longrightarrow> targeted rec"
    and "bd_status rec = Bs_degraded \<Longrightarrow> serves cur \<and> bd_connection rec = bd_connection cur"
  shows "goes market_evolves (on_bindings (binding_save rec)) m"
proof (rule goes_inv, rule goes_on_bindings)
  assume inv: "market_inv m"
  show "goes (bindings_evolve (mk_next m)) (binding_save rec) (mk_bindings m)"
    by (rule binding_save_goes) (use assms inv in \<open>auto simp: the_binding_def\<close>)
qed (rule adds_nothing)

lemma binding_shaped:
  "market_inv m \<Longrightarrow> the_binding bid m = Some rec \<Longrightarrow>
     targeted rec"
  by (auto simp: market_inv_def bindings_ok_def binding_shape_def the_binding_def dest: all_storedD)

lemma goes_publishable:
  "goes market_evolves (f ()) m \<Longrightarrow> goes market_evolves (bindE (assert_publishable prices rec) f) m"
  using market_growth.refl
  by (auto simp: goes_def bindE_def split: prod.splits sum.splits dest: assert_publishable_keeps)

lemma binding_create_market:
  assumes "market_inv m \<Longrightarrow> binding_of (mk_bindings m) (bd_id rec) = None" and "bd_id rec < mk_next m"
    and "targeted rec" and "bd_status rec = Bs_draft"
    and "agrees m rec"
  shows "goes market_evolves (on_bindings (binding_create rec)) m"
proof (rule goes_inv, rule goes_on_bindings)
  assume inv: "market_inv m"
  show "goes (bindings_evolve (mk_next m)) (binding_create rec) (mk_bindings m)"
    by (rule binding_create_goes) (use assms inv in \<open>auto simp: binding_shape_def\<close>)
  show "adds_agreeing m (binding_create rec)"
    using assms(4,5) by (auto simp: adds_agreeing_def binding_create_def run store_get_put split: if_splits)
qed

lemma create_binding_evolves: "evolves market_evolves (create_binding now c f)"
proof (rule goes_evolves)
  fix m
  have conn: "goes market_evolves (bindE (when_op d (require_connection con p False)) g) m"
    if g: "(d \<Longrightarrow> con \<noteq> None) \<Longrightarrow> goes market_evolves (g ()) m" for d con p and g :: "unit \<Rightarrow> binding market_op"
  proof (rule market_growth.goes_bindE)
    show "goes market_evolves (when_op d (require_connection con p False)) m"
      by (intro evolves_goes market_rules require_connection_evolves)
    fix x t
    assume "when_op d (require_connection con p False) m = (Inr x, t)"
    then have "t = m" and "d \<Longrightarrow> con \<noteq> None"
      by (auto simp: when_op_def dest: reads_keep_state require_connection_Some split: if_splits)
    with g show "goes market_evolves (g x) t" by simp
  qed
  show "goes market_evolves (create_binding now c f) m"
    unfolding create_binding_def Let_def
    apply (intro goes_buyer goes_live_project market_growth.goes_require conn goes_new_uuid)
    subgoal for project
      by (rule market_growth.goes_then, rule binding_create_market)
        (auto simp: draft_binding_def targeted_def fresh_ids agrees_def the_project_def live_projectD intro: market_rules)
    done
qed

lemma validate_binding_evolves: "evolves market_evolves (validate_binding prices now bid c)"
proof (rule goes_evolves)
  fix m
  show "goes market_evolves (validate_binding prices now bid c) m"
    unfolding validate_binding_def Let_def
    apply (intro goes_buyer goes_owned_binding market_growth.goes_require goes_publishable)
    subgoal for rec
      by (rule market_growth.goes_then, rule binding_save_market[where cur = rec])
        (auto simp: binding_becomes_def binding_key binding_shaped published_def intro: market_rules
          dest: binding_shaped)
    done
qed

lemma publish_atomic_market:
  assumes "market_inv m \<Longrightarrow> the_binding (bd_id rec) m = Some cur" and "market_inv m \<Longrightarrow> binding_becomes cur rec"
    and "market_inv m \<Longrightarrow> targeted rec"
  shows "goes market_evolves (on_bindings (publish_atomic now rec)) m"
proof (rule goes_inv, rule goes_on_bindings)
  assume inv: "market_inv m"
  show "goes (bindings_evolve (mk_next m)) (publish_atomic now rec) (mk_bindings m)"
    by (rule publish_atomic_goes) (use assms inv in \<open>auto simp: the_binding_def\<close>)
qed (rule adds_nothing)

lemma publish_binding_evolves: "evolves market_evolves (publish_binding prices now bid c rq)"
proof (rule goes_evolves)
  fix m
  have newer: "bd_version rec \<le> max_version (bd_project rec) (bd_protocol rec) (mk_bindings m) + 1"
    if "market_inv m" "the_binding bid m = Some rec" for rec
    using that max_version_ge[of "mk_bindings m" bid rec]
    by (auto simp: market_inv_def bindings_ok_def the_binding_def)
  show "goes market_evolves (publish_binding prices now bid c rq) m"
    unfolding publish_binding_def Let_def
    apply (intro goes_buyer goes_owned_binding market_growth.goes_require goes_live_project goes_publishable
        goes_gets)
    subgoal for rec project
      apply (rule market_growth.goes_then, rule market_growth.goes_rethrow)
       apply (rule publish_atomic_market[where cur = rec])
         apply (auto simp: binding_becomes_def published_def binding_key dest: newer binding_shaped)
      apply (intro market_rules lifecycle_evolves)
      done
    done
qed

lemma deactivate_binding_evolves: "evolves market_evolves (deactivate_binding now bid c rq)"
proof (rule goes_evolves)
  fix m
  show "goes market_evolves (deactivate_binding now bid c rq) m"
    unfolding deactivate_binding_def Let_def
    apply (intro goes_buyer goes_owned_binding market_growth.goes_require)
    subgoal for rec
      apply (rule market_growth.goes_then, rule binding_save_market[where cur = rec])
         apply (auto simp: binding_becomes_def binding_key published_def dest: binding_shaped
          intro: market_rules lifecycle_evolves)
      done
    done
qed

lemma goes_replace_guards:
  assumes "bd_supply_mode rec = ''dedicated'' \<Longrightarrow> goes market_evolves (f ()) m"
  shows "goes market_evolves (bindE (replace_guards rec new yes reason step_up) f) m"
proof (rule market_growth.goes_bindE)
  show "goes market_evolves (replace_guards rec new yes reason step_up) m"
    unfolding replace_guards_def by (intro evolves_goes market_rules require_connection_evolves)
  fix x t
  assume "replace_guards rec new yes reason step_up m = (Inr x, t)"
  then show "goes market_evolves (f x) t"
    using assms by (auto simp: replace_guards_def op_success dest: reads_keep_state)
qed

lemma replace_binding_evolves:
  "evolves market_evolves (replace_binding now bid c new yes reason step_up rq)"
proof (rule goes_evolves)
  fix m
  show "goes market_evolves (replace_binding now bid c new yes reason step_up rq) m"
    unfolding replace_binding_def Let_def
    apply (intro goes_buyer goes_owned_binding goes_replace_guards)
    subgoal for rec
      apply (rule market_growth.goes_then, rule binding_save_market[where cur = rec])
         apply (auto simp: binding_becomes_def binding_key published_def targeted_def
          intro!: market_rules lifecycle_evolves)
      done
    done
qed

lemma rows_current:
  assumes inv: "market_inv m"
  shows "distinct (map bd_id (binding_list_by_connection cid (mk_bindings m)))"
    and "\<forall>r \<in> set (binding_list_by_connection cid (mk_bindings m)). the_binding (bd_id r) m = Some r"
proof -
  let ?d = "bs_by_id (mk_bindings m)"
  have ok: "dict_ok ?d" and ids: "\<And>k r. dict_get ?d k = Some r \<Longrightarrow> bd_id r = k"
    using inv by (auto simp: market_inv_def bindings_ok_def binding_shape_def all_stored_def binding_of_def)
  have "map bd_id (dict_values ?d) = map fst ?d"
    using ok ids by (auto simp: dict_values_def dict_items_get[OF ok, symmetric])
  then have "distinct (map bd_id (dict_values ?d))" using ok by (simp add: dict_ok_def)
  then show "distinct (map bd_id (binding_list_by_connection cid (mk_bindings m)))"
    by (simp add: binding_list_by_connection_def distinct_map_filter)
  show "\<forall>r \<in> set (binding_list_by_connection cid (mk_bindings m)). the_binding (bd_id r) m = Some r"
    using ids
    by (auto simp: binding_list_by_connection_def the_binding_def binding_of_def elim!: dict_values_get[OF ok])
qed

definition pending_rows :: "binding list \<Rightarrow> market \<Rightarrow> bool" where
  "pending_rows rows m \<longleftrightarrow> distinct (map bd_id rows) \<and>
     (\<forall>r \<in> set rows. the_binding (bd_id r) m = Some r \<and> targeted r)"

lemma degrade_one_others:
  assumes "degrade_one now cid rq r m = (x, n)" and "q \<noteq> bd_id r"
  shows "the_binding q n = the_binding q m"
proof -
  have audit: "the_binding q k' = the_binding q k"
    if "on_bindings (binding_audit owner pid bid event rq' payload) k = (y, k')" for owner pid bid event rq' payload k k' y
    using that by (auto simp: on_bindings_def zoom_def binding_audit_def run the_binding_def binding_of_def)
  have save: "the_binding q k = the_binding q m"
    if "on_bindings (binding_save rec) m = (y, k)" "bd_id rec = bd_id r" for rec y k
    using that assms(2) binding_save_result[of rec "mk_bindings m"]
    by (auto simp: on_bindings_def zoom_def the_binding_def store_get_put split: prod.splits sum.splits)
  show ?thesis
    using assms(1) unfolding degrade_one_def Let_def
    by (auto simp: bindE_def ret_def split: if_splits prod.splits sum.splits dest!: audit save)
qed

lemma degrade_one_goes:
  assumes "pending_rows (r # rows) m"
  shows "goes market_evolves (degrade_one now cid rq r) m"
    and "degrade_one now cid rq r m = (Inr (), n) \<Longrightarrow> pending_rows rows n"
proof -
  show "goes market_evolves (degrade_one now cid rq r) m"
    unfolding degrade_one_def Let_def
    apply (intro goes_if market_growth.goes_ret)
    apply (rule market_growth.goes_then, rule binding_save_market[where cur = r])
    using assms
        apply (auto simp: pending_rows_def binding_becomes_def published_def serves_def intro: market_rules)
    done
  assume "degrade_one now cid rq r m = (Inr (), n)"
  then have "the_binding q n = the_binding q m" if "q \<noteq> bd_id r" for q
    using that by (rule degrade_one_others)
  moreover have "bd_id x \<noteq> bd_id r" if "x \<in> set rows" for x
    using assms that by (force simp: pending_rows_def)
  ultimately show "pending_rows rows n"
    using assms by (simp add: pending_rows_def)
qed

lemma degrade_for_connection_evolves: "evolves market_evolves (degrade_for_connection now cid rq)"
proof (rule goes_evolves, rule goes_inv)
  fix m
  assume inv: "market_inv m"
  have "pending_rows (binding_list_by_connection cid (mk_bindings m)) m"
    using rows_current[OF inv, of cid] binding_shaped[OF inv] unfolding pending_rows_def by blast
  then have "goes market_evolves (for_each (degrade_one now cid rq) (binding_list_by_connection cid (mk_bindings m))) m"
    by (rule market_growth.goes_for_each) (auto intro: degrade_one_goes)
  then show "goes market_evolves (degrade_for_connection now cid rq) m"
    unfolding degrade_for_connection_def
    by (intro goes_gets market_growth.goes_then market_rules)
qed

lemma delete_connection_evolves: "evolves market_evolves (delete_connection now cid c rq)"
proof (rule goes_evolves)
  fix m
  show "goes market_evolves (delete_connection now cid c rq) m"
    unfolding delete_connection_def Let_def
    apply (intro goes_seller goes_owned_connection market_growth.goes_then market_growth.goes_rethrow
        market_rules degrade_for_connection_evolves)
    subgoal for rec
      by (rule save_replace_market[where cur = rec])
        (auto dest: connection_key simp: connection_becomes_def erased_def)
    done
qed

subsection \<open>Projects\<close>

lemma project_save_market:
  assumes "market_inv m \<Longrightarrow> the_project (pj_id rec) m = Some cur" and "project_becomes cur rec"
  shows "goes market_evolves (on_projects (project_save rec)) m"
  by (rule goes_inv, rule goes_on_projects, rule project_save_goes)
    (use assms in \<open>auto simp: the_project_def\<close>)

lemma project_event_evolves: "evolves market_evolves (project_event now c pid event rq payload)"
  unfolding project_event_def by (rule notes_evolve)

lemma create_project_evolves: "evolves market_evolves (create_project lib now c f rq)"
proof (rule goes_evolves)
  fix m
  have replay: "goes market_evolves (bindE (project_replay owner key digest) g) m"
    if "\<And>r. goes market_evolves (g r) m" for owner key digest and g :: "project option \<Rightarrow> project market_op"
    using that market_growth.refl
    by (auto simp: goes_def bindE_def project_replay_def run split: prod.splits sum.splits option.splits)
  have new: "pj_id (new_project now pid owner name protos f) = pid" for pid owner name protos
    by (simp add: new_project_def)
  show "goes market_evolves (create_project lib now c f rq) m"
    unfolding create_project_def Let_def
    apply (intro goes_buyer market_growth.goes_of_sum market_growth.goes_require replay
        goes_case_option market_growth.goes_ret goes_new_uuid)
    apply (rule market_growth.goes_then, rule market_growth.goes_rethrow)
     apply (rule goes_on_projects, rule project_create_goes)
      apply (simp_all add: new fresh_ids)
    apply (intro market_rules)
    done
qed

lemma project_changes_evolve:
  "evolves market_evolves (rename_project now pid c name rq)"
  "evolves market_evolves (set_preview_opt_in now pid c opt_in rq)"
  "evolves market_evolves (transition_project now pid c action rq)"
  "evolves market_evolves (disable_protocol now pid c protocol rq)"
  "evolves market_evolves (delete_project now pid c rq)"
proof -
  have step: "project_moves\<^sup>*\<^sup>* a b" if "next_status a action = Some b" for a b
    using that by (intro r_into_rtranclp) (auto simp: project_moves_def)
  note close = binding_key live_projectD project_key project_becomes_def
  show "evolves market_evolves (rename_project now pid c name rq)"
    unfolding rename_project_def Let_def
    apply (rule goes_evolves, intro goes_get_project market_growth.goes_of_sum market_growth.goes_then
        market_growth.goes_rethrow market_rules project_event_evolves)
    subgoal for m rec name
      by (rule project_save_market[where cur = rec]) (auto simp: close)
    done
  show "evolves market_evolves (set_preview_opt_in now pid c opt_in rq)"
    unfolding set_preview_opt_in_def Let_def
    apply (rule goes_evolves, intro goes_get_project market_growth.goes_then market_rules project_event_evolves)
    subgoal for m rec
      by (rule project_save_market[where cur = rec]) (auto simp: close)
    done
  show "evolves market_evolves (transition_project now pid c action rq)"
    unfolding transition_project_def Let_def
    apply (rule goes_evolves, intro goes_get_project market_growth.goes_of_option market_growth.goes_then
        market_rules project_event_evolves)
    subgoal for m rec target
      by (rule project_save_market[where cur = rec]) (auto simp: close intro: step)
    done
  show "evolves market_evolves (disable_protocol now pid c protocol rq)"
    unfolding disable_protocol_def Let_def
    apply (rule goes_evolves, intro goes_buyer goes_live_project market_growth.goes_require
        market_growth.goes_of_option market_growth.goes_then market_growth.goes_when market_rules
        project_event_evolves)
    subgoal for m rec row
      by (rule project_save_market[where cur = rec]) (auto simp: close)
    done
  show "evolves market_evolves (delete_project now pid c rq)"
    unfolding delete_project_def Let_def
    apply (rule goes_evolves, intro goes_get_project goes_gets goes_if)
     apply (intro evolves_goes market_rules project_event_evolves)
    apply (intro market_growth.goes_then market_rules project_event_evolves)
    subgoal for m rec
      by (rule project_save_market[where cur = rec]) (auto simp: close)
    done
qed

lemma enable_protocol_evolves: "evolves market_evolves (enable_protocol now pid c protocol rq)"
proof (rule goes_evolves)
  fix m
  have denied: "goes market_evolves (bindE (when_op b (bindE (project_event now c pid e rq p) (\<lambda>_. throw x))) g) m"
    if "goes market_evolves (g ()) m" for b e p x and g :: "unit \<Rightarrow> project market_op"
  proof (rule market_growth.goes_bindE)
    show "goes market_evolves (when_op b (bindE (project_event now c pid e rq p) (\<lambda>_. throw x))) m"
      by (intro evolves_goes market_rules project_event_evolves)
    fix y t
    assume "when_op b (bindE (project_event now c pid e rq p) (\<lambda>_. throw x)) m = (Inr y, t)"
    then have "t = m" by (auto simp: when_op_def op_success split: if_splits)
    with that show "goes market_evolves (g y) t" by simp
  qed
  show "goes market_evolves (enable_protocol now pid c protocol rq) m"
    unfolding enable_protocol_def Let_def
    apply (intro goes_buyer market_growth.goes_require goes_live_project goes_if market_growth.goes_ret
        goes_gets denied market_growth.goes_then market_rules)
    subgoal for rec
      by (rule project_save_market[where cur = rec])
        (auto simp: live_projectD project_key project_becomes_def)
    done
qed

subsection \<open>Calls\<close>

record api_env =
  ae_health :: health_env
  ae_prices :: "string \<Rightarrow> bool"

datatype market_call =
    Create_connection bytes caller connection_form
  | Replace_credential bytes uuid caller string int "string option" "string option"
  | Unwrap uuid string "uuid option"
  | Delete_connection uuid caller
  | Set_mode uuid caller string
  | List_supply uuid caller
  | Pause uuid caller
  | Resume uuid caller
  | Drain uuid caller
  | Retire uuid caller
  | Verify int uuid caller bool
  | Health_tick "uuid \<Rightarrow> int"
  | Create_binding caller binding_form
  | Validate_binding uuid caller
  | Publish_binding uuid caller
  | Deactivate_binding uuid caller
  | Replace_binding uuid caller uuid bool string bool
  | Create_project caller project_form
  | Rename_project uuid caller string
  | Set_preview uuid caller bool
  | Transition_project uuid caller string
  | Enable_protocol uuid caller string
  | Disable_protocol uuid caller string
  | Delete_project uuid caller
  | Add_blocker uuid string string

definition done_op :: "'a market_op \<Rightarrow> unit market_op" where
  "done_op a = bindE a (\<lambda>_. ret ())"

fun market_do :: "api_env \<Rightarrow> instant \<Rightarrow> string \<Rightarrow> market_call \<Rightarrow> unit market_op" where
  "market_do e now rq (Create_connection nonce c f) =
     done_op (create_connection (he_conn (ae_health e)) now nonce c f rq)"
| "market_do e now rq (Replace_credential nonce cid c secret expected pn loc) =
     done_op (replace_credential (he_conn (ae_health e)) now nonce cid c secret expected pn loc rq)"
| "market_do e now rq (Unwrap cid purpose actor) =
     done_op (unwrap (he_conn (ae_health e)) now cid purpose rq actor)"
| "market_do e now rq (Delete_connection cid c) = delete_connection now cid c rq"
| "market_do e now rq (Set_mode cid c mode) = done_op (set_mode now cid c mode rq)"
| "market_do e now rq (List_supply cid c) = done_op (list_supply now cid c rq)"
| "market_do e now rq (Pause cid c) = done_op (pause now cid c rq)"
| "market_do e now rq (Resume cid c) = done_op (resume now cid c rq)"
| "market_do e now rq (Drain cid c) = done_op (drain now cid c rq)"
| "market_do e now rq (Retire cid c) = done_op (retire now cid c rq)"
| "market_do e now rq (Verify jitter cid c immediate) =
     done_op (verify (ae_health e) now jitter cid c immediate rq)"
| "market_do e now rq (Health_tick jitters) = done_op (health_tick (ae_health e) now jitters)"
| "market_do e now rq (Create_binding c f) = done_op (create_binding now c f)"
| "market_do e now rq (Validate_binding bid c) = done_op (validate_binding (ae_prices e) now bid c)"
| "market_do e now rq (Publish_binding bid c) = done_op (publish_binding (ae_prices e) now bid c rq)"
| "market_do e now rq (Deactivate_binding bid c) = done_op (deactivate_binding now bid c rq)"
| "market_do e now rq (Replace_binding bid c new yes reason step_up) =
     done_op (replace_binding now bid c new yes reason step_up rq)"
| "market_do e now rq (Create_project c f) =
     done_op (create_project (ce_crypto (he_conn (ae_health e))) now c f rq)"
| "market_do e now rq (Rename_project pid c name) = done_op (rename_project now pid c name rq)"
| "market_do e now rq (Set_preview pid c opt_in) = done_op (set_preview_opt_in now pid c opt_in rq)"
| "market_do e now rq (Transition_project pid c action) = done_op (transition_project now pid c action rq)"
| "market_do e now rq (Enable_protocol pid c protocol) = done_op (enable_protocol now pid c protocol rq)"
| "market_do e now rq (Disable_protocol pid c protocol) = done_op (disable_protocol now pid c protocol rq)"
| "market_do e now rq (Delete_project pid c) = delete_project now pid c rq"
| "market_do e now rq (Add_blocker pid kind reference) =
     done_op (bindE new_uuid (\<lambda>bid. on_projects (add_blocker bid pid kind reference)))"

text \<open>One call, whether it returns or raises.\<close>

inductive market_step :: "api_env \<Rightarrow> market \<Rightarrow> market \<Rightarrow> bool" for e where
  call: "market_do e now rq request m = (r, n) \<Longrightarrow> market_step e m n"

inductive_simps market_step_iff: "market_step e m n"

definition market_reach :: "api_env \<Rightarrow> market \<Rightarrow> bool" where
  "market_reach e m \<longleftrightarrow> (market_step e)\<^sup>*\<^sup>* empty_market m"

lemma market_do_evolves: "evolves market_evolves (market_do e now rq request)"
  by (cases request)
    (simp_all add: done_op_def, (intro market_rules create_connection_evolves replace_credential_evolves
      unwrap_evolves delete_connection_evolves lifecycle_evolves verify_evolves health_tick_evolves
      create_binding_evolves validate_binding_evolves publish_binding_evolves deactivate_binding_evolves
      replace_binding_evolves create_project_evolves project_changes_evolve enable_protocol_evolves)+)

lemma market_step_evolves: "market_step e m n \<Longrightarrow> market_evolves m n"
  by (auto simp: market_step_iff dest: evolvesD[OF market_do_evolves])

lemma market_steps_evolve: "(market_step e)\<^sup>*\<^sup>* m n \<Longrightarrow> market_evolves m n"
  by (induction rule: rtranclp_induct)
    (auto intro: market_growth.refl market_growth.trans dest: market_step_evolves)

lemma market_reach_inv: "market_reach e m \<Longrightarrow> market_inv m"
  using market_steps_evolve empty_market_inv by (fastforce simp: market_reach_def market_evolves_def)

end
