(* ===== verification/Market_Samples.thy ===== *)
theory Market_Samples
  imports Market_Steps
begin

section \<open>A concrete market\<close>

text \<open>
  A seller, a buyer, one dedicated connection, one project and one binding on it, built by the calls a
  client would make: the inputs on which the properties of the API service are evaluated.
\<close>

fun run_calls :: "api_env \<Rightarrow> (instant \<times> string \<times> market_call) list \<Rightarrow> market \<Rightarrow> market" where
  "run_calls e [] m = m"
| "run_calls e ((now, rq, request) # rest) m = run_calls e rest (snd (market_do e now rq request m))"

lemma run_calls_steps: "(market_step e)\<^sup>*\<^sup>* m (run_calls e calls m)"
proof (induction calls arbitrary: m)
  case (Cons c calls)
  obtain now rq request where c: "c = (now, rq, request)" by (cases c)
  have "market_step e m (snd (market_do e now rq request m))"
    by (rule market_step.call) (rule prod.collapse[symmetric])
  with Cons show ?case by (simp add: c converse_rtranclp_into_rtranclp)
qed simp

lemma run_calls_reach: "market_reach e (run_calls e calls empty_market)"
  by (simp add: market_reach_def run_calls_steps)

lemma run_calls_append: "run_calls e (xs @ ys) m = run_calls e ys (run_calls e xs m)"
  by (induction xs arbitrary: m) auto

definition demo_lib :: cryptolib where
  "demo_lib = \<lparr>shake256 = \<lambda>seed n. replicate n 3, hmac256 = \<lambda>k m. take 2 m, sha256 = \<lambda>m. take 1 m\<rparr>"

definition demo_net :: netlib where
  "demo_net = \<lparr>nl_urlparse = \<lambda>u. Some \<lparr>up_scheme = ''https'', up_username = None, up_password = None,
      up_hostname = Some ''api'', up_port = Some None\<rparr>,
    nl_urljoin = \<lambda>u l. l, nl_ip_address = \<lambda>h. if h = ''9'' then Some \<lparr>ip_loopback = False, ip_private = False,
      ip_link_local = False, ip_multicast = False, ip_reserved = False, ip_unspecified = False\<rparr> else None\<rparr>"

definition demo_conn_env :: connection_env where
  "demo_conn_env = \<lparr>ce_crypto = demo_lib,
     ce_enc = \<lparr>en_keys = [(''v1'', replicate 32 7)], en_version = ''v1''\<rparr>,
     ce_fingerprint = [1], ce_net = demo_net, ce_resolver = \<lambda>h p. Some [''9'']\<rparr>"

definition demo_env :: api_env where
  "demo_env = \<lparr>ae_health = \<lparr>he_conn = demo_conn_env,
       he_probe = \<lambda>rec secret rq. \<lparr>po_category = ''ok'', po_discovered = [], po_quota_hint = None, po_detail = []\<rparr>,
       he_budget = 8, he_catalog = Some [], he_sub = \<lambda>s. s\<rparr>,
     ae_prices = \<lambda>p. True\<rparr>"

definition demo_seller :: caller where
  "demo_seller = \<lparr>ca_id = 1, ca_role = ''seller'', ca_workspace = None\<rparr>"

definition demo_buyer :: caller where
  "demo_buyer = \<lparr>ca_id = 2, ca_role = ''buyer'', ca_workspace = None\<rparr>"

definition demo_form :: connection_form where
  "demo_form = \<lparr>fo_provider = ''openai'', fo_supply_mode = ''dedicated'', fo_secret = ''sk'', fo_region = None,
     fo_purpose = None, fo_base_url = None, fo_project_number = None, fo_location = None\<rparr>"

definition demo_project :: project_form where
  "demo_project = \<lparr>pf_display_name = ''p'', pf_mode = ''dedicated'', pf_protocols = [''openai''],
     pf_idempotency_key = Some ''k'', pf_preview_opt_in = False\<rparr>"

definition demo_binding :: binding_form where
  "demo_binding = \<lparr>bf_project = 1, bf_protocol = ''openai'', bf_supply_mode = ''dedicated'',
     bf_allowed_providers = [], bf_allowed_models = [], bf_allowed_regions = [], bf_connection = Some 0\<rparr>"

text \<open>Connection 0, project 1 and binding 2, not yet published; then published.\<close>

definition drafted :: market where
  "drafted = run_calls demo_env
     [(1, ''a'', Create_connection [9] demo_seller demo_form),
      (2, ''b'', Create_project demo_buyer demo_project),
      (3, ''c'', Create_binding demo_buyer demo_binding),
      (4, ''d'', Verify 0 0 demo_seller True),
      (5, ''e'', List_supply 0 demo_seller)] empty_market"

definition trading :: market where
  "trading = run_calls demo_env [(6, ''f'', Publish_binding 2 demo_buyer)] drafted"

text \<open>The connection deleted under the active binding.\<close>

definition closed :: market where
  "closed = run_calls demo_env [(7, ''g'', Delete_connection 0 demo_seller)] trading"

lemma demo_reach:
  "market_reach demo_env drafted" "market_reach demo_env trading" "market_reach demo_env closed"
  unfolding closed_def trading_def drafted_def by (simp_all only: run_calls_append[symmetric] run_calls_reach)

lemma demo_steps:
  "(market_step demo_env)\<^sup>*\<^sup>* drafted trading" "(market_step demo_env)\<^sup>*\<^sup>* trading closed"
  "(market_step demo_env)\<^sup>*\<^sup>* drafted closed"
proof -
  show "(market_step demo_env)\<^sup>*\<^sup>* drafted trading" unfolding trading_def by (rule run_calls_steps)
  moreover show "(market_step demo_env)\<^sup>*\<^sup>* trading closed" unfolding closed_def by (rule run_calls_steps)
  ultimately show "(market_step demo_env)\<^sup>*\<^sup>* drafted closed" by (rule rtranclp_trans)
qed

text \<open>What the runs contain, evaluated.\<close>

lemma demo_connection:
  "map_option co_lifecycle_state (the_connection 0 drafted) = Some Lc_listed"
  "map_option co_lifecycle_state (the_connection 0 trading) = Some Lc_bound"
  "map_option co_status (the_connection 0 closed) = Some Cs_deleted"
  "map_option co_seller (the_connection 0 drafted) = Some 1"
  by code_simp+

lemma demo_binding_status:
  "map_option bd_status (the_binding 2 drafted) = Some Bs_draft"
  "map_option bd_status (the_binding 2 trading) = Some Bs_active"
  "map_option bd_status (the_binding 2 closed) = Some Bs_degraded"
  by code_simp+

lemma demo_project_facts:
  "map_option pj_status (the_project 1 drafted) = Some Pj_draft"
  "map_option pj_owner (the_project 1 drafted) = Some 2"
  by code_simp+

lemma demo_values:
  obtains a b d where "the_connection 0 drafted = Some a" "co_lifecycle_state a = Lc_listed" "co_seller a = 1"
    "the_connection 0 trading = Some b" "co_lifecycle_state b = Lc_bound"
    "the_connection 0 closed = Some d" "co_status d = Cs_deleted"
  using demo_connection by (auto simp: map_option_eq_Some)

definition demo_row :: connection where
  "demo_row = fresh_connection demo_conn_env 0 5 1 demo_form ''sk'' ''u'' ([9], [1, 2], [3])"

end
