(* ===== verification/Market_Contracts.thy ===== *)
theory Market_Contracts
  imports Market_Samples
begin

section \<open>What the API service guarantees\<close>

text \<open>
  The properties of connections, bindings and projects: what holds in every state a sequence of calls
  reaches, what no call undoes, and what the single operations do.
\<close>

subsection \<open>Histories\<close>

lemma market_history:
  assumes "market_reach e m" and "(market_step e)\<^sup>*\<^sup>* m n"
  shows "market_inv n" and "market_grows m n"
  using market_steps_evolve[OF assms(2)] market_reach_inv[OF assms(1)]
  by (auto simp: market_evolves_def)

lemma connection_history:
  assumes "market_reach e m" and "(market_step e)\<^sup>*\<^sup>* m n" and "the_connection cid m = Some a"
  obtains b where "the_connection cid n = Some b" "connection_becomes a b" "connection_shape (mk_next n) cid b"
proof -
  from market_history[OF assms(1,2)] assms(3)
  obtain b where b: "connection_of (mk_connections n) cid = Some b" "connection_becomes a b"
    by (auto simp: market_grows_def connections_grow_def the_connection_def dest: entries_growD)
  moreover have "connection_shape (mk_next n) cid b"
    using market_history(1)[OF assms(1,2)] b(1)
    by (auto simp: market_inv_def connections_ok_def dest: all_storedD)
  ultimately show thesis using that by (simp add: the_connection_def)
qed

lemma project_history:
  assumes "market_reach e m" and "(market_step e)\<^sup>*\<^sup>* m n" and "the_project pid m = Some a"
  obtains b where "the_project pid n = Some b" "project_becomes a b"
  using market_history(2)[OF assms(1,2)] assms(3)
  by (auto simp: market_grows_def projects_grow_def the_project_def dest: entries_growD)

lemma binding_history:
  assumes "market_reach e m" and "(market_step e)\<^sup>*\<^sup>* m n" and "the_binding bid m = Some a"
  obtains b where "the_binding bid n = Some b" "binding_becomes a b"
  using market_history(2)[OF assms(1,2)] assms(3)
  by (auto simp: market_grows_def bindings_grow_def the_binding_def dest: entries_growD)

lemma erased_not_usable: "erased b \<Longrightarrow> \<not> usable b"
  by (simp add: erased_def usable_def)

text \<open>C13 (safety). Once a connection exists, no sequence of calls changes its seller, provider or
  authentication type, moves its lifecycle outside the allowed edges (so never back to an earlier stage,
  and never out of retired), or lowers its credential version; and once it is deleted it stays deleted,
  holds nothing of its credential, and cannot be unwrapped or looked up by bindings.\<close>

theorem connections_only_forward:
  assumes "market_reach e m" and "(market_step e)\<^sup>*\<^sup>* m n" and "the_connection cid m = Some a"
  shows "\<exists>b. the_connection cid n = Some b \<and> co_seller b = co_seller a \<and> co_provider b = co_provider a \<and>
      co_auth_type b = co_auth_type a \<and>
      lifecycle_allowed\<^sup>*\<^sup>* (co_lifecycle_state a) (co_lifecycle_state b) \<and>
      lifecycle_stage (co_lifecycle_state a) \<le> lifecycle_stage (co_lifecycle_state b) \<and>
      co_credential_version a \<le> co_credential_version b \<and>
      (co_lifecycle_state a = Lc_retired \<longrightarrow> co_lifecycle_state b = Lc_retired) \<and>
      (co_status a = Cs_deleted \<longrightarrow> co_status b = Cs_deleted \<and> erased b \<and> get_fact cid n = None \<and>
         (\<forall>env now rq actor. unwrap env now cid ''proxy'' rq actor n =
            (Inl (ConnectionError CN_not_found 404), n)))"
proof -
  from connection_history[OF assms] obtain b where b: "the_connection cid n = Some b"
    and rel: "connection_becomes a b" and shape: "connection_shape (mk_next n) cid b" .
  have gone: "get_fact cid n = None \<and> (\<forall>env now rq actor. unwrap env now cid ''proxy'' rq actor n =
      (Inl (ConnectionError CN_not_found 404), n))" if "erased b"
    using b erased_not_usable[OF that] by (simp add: get_fact_def unwrap_def run)
  from rel have path: "lifecycle_allowed\<^sup>*\<^sup>* (co_lifecycle_state a) (co_lifecycle_state b)"
    by (simp add: connection_becomes_def)
  with supply_machine.rank_never_drops[OF path] supply_machine.final_forever[OF path]
  show ?thesis
    using b rel shape gone by (auto simp: connection_becomes_def connection_shape_def)
qed

theorem connections_only_forward_witness:
  "(\<exists>a b. the_connection 0 drafted = Some a \<and> the_connection 0 closed = Some b \<and> co_seller b = co_seller a \<and>
      lifecycle_allowed\<^sup>*\<^sup>* Lc_listed (co_lifecycle_state b)) \<and>
   unwrap demo_conn_env 9 0 ''proxy'' [] None closed = (Inl (ConnectionError CN_not_found 404), closed)"
proof -
  obtain a d where a: "the_connection 0 drafted = Some a" "co_lifecycle_state a = Lc_listed"
    and d: "the_connection 0 closed = Some d" "co_status d = Cs_deleted" by (rule demo_values)
  from connections_only_forward[OF demo_reach(1) demo_steps(3) a(1)] a d
  have "co_seller d = co_seller a \<and> lifecycle_allowed\<^sup>*\<^sup>* Lc_listed (co_lifecycle_state d)" by simp
  moreover from connections_only_forward[OF demo_reach(3) rtranclp.rtrancl_refl d(1)] d
  have "unwrap demo_conn_env 9 0 ''proxy'' [] None closed = (Inl (ConnectionError CN_not_found 404), closed)"
    by simp
  ultimately show ?thesis using a d by blast
qed

text \<open>Projects: no sequence of calls changes the owner or the supply mode of a project, an
  archived project stays archived, and a deleted one is never changed again.\<close>

theorem projects_only_forward:
  assumes "market_reach e m" and "(market_step e)\<^sup>*\<^sup>* m n" and "the_project pid m = Some a"
  shows "\<exists>b. the_project pid n = Some b \<and> pj_owner b = pj_owner a \<and> pj_mode b = pj_mode a \<and>
      project_stage (pj_status a) \<le> project_stage (pj_status b) \<and>
      (pj_status a = Pj_archived \<longrightarrow> pj_status b = Pj_archived) \<and>
      (pj_deleted_at a \<noteq> None \<longrightarrow> b = a)"
proof -
  from project_history[OF assms] obtain b where b: "the_project pid n = Some b" and rel: "project_becomes a b" .
  then have path: "project_moves\<^sup>*\<^sup>* (pj_status a) (pj_status b)" by (simp add: project_becomes_def)
  from project_machine.rank_never_drops[OF path] project_machine.final_forever[OF path] b rel
  show ?thesis by (auto simp: project_becomes_def)
qed

theorem projects_only_forward_witness:
  "\<exists>a b. the_project 1 drafted = Some a \<and> the_project 1 closed = Some b \<and> pj_owner b = 2 \<and> pj_mode b = pj_mode a"
proof -
  obtain a where a: "the_project 1 drafted = Some a" "pj_owner a = 2"
    using demo_project_facts by (auto simp: map_option_eq_Some)
  from projects_only_forward[OF demo_reach(1) demo_steps(3) a(1)] a show ?thesis by auto
qed

text \<open>C9 (invariant). In every reachable state: no project and protocol have two active bindings, no
  dedicated connection serves two bindings, every binding has the owner and the supply mode of its project
  (a binding never serves from the other pool), the dedicated bindings are those that name a connection,
  and no account has two live projects of the same name.\<close>

theorem reachable_state_consistent:
  assumes "market_reach e m"
  shows "(\<forall>p q a b. the_binding p m = Some a \<and> the_binding q m = Some b \<and> p \<noteq> q \<longrightarrow>
      \<not> (bd_status a = Bs_active \<and> bd_status b = Bs_active \<and> bd_project a = bd_project b \<and>
         bd_protocol a = bd_protocol b) \<and>
      \<not> (bd_supply_mode a = ''dedicated'' \<and> bd_supply_mode b = ''dedicated'' \<and>
         bd_connection a = bd_connection b \<and> serves a \<and> serves b)) \<and>
    (\<forall>bid b. the_binding bid m = Some b \<longrightarrow>
      (\<exists>p. the_project (bd_project b) m = Some p \<and> pj_mode p = bd_supply_mode b \<and> pj_owner p = bd_owner b) \<and>
      (bd_connection b \<noteq> None \<longleftrightarrow> bd_supply_mode b = ''dedicated'')) \<and>
    (\<forall>p q a b. the_project p m = Some a \<and> the_project q m = Some b \<and> pj_deleted_at a = None \<and>
      pj_deleted_at b = None \<and> pj_owner a = pj_owner b \<and>
      pj_name_normalized a = pj_name_normalized b \<longrightarrow> p = q)"
proof (intro conjI)
  from assms have inv: "market_inv m" by (rule market_reach_inv)
  then have b: "no_clash binding_of both_active (mk_bindings m)" "no_clash binding_of both_dedicated (mk_bindings m)"
    and p: "no_clash project_of same_name (mk_projects m)"
    by (auto simp: market_inv_def bindings_ok_def projects_ok_def)
  show "\<forall>p q a b. the_binding p m = Some a \<and> the_binding q m = Some b \<and> p \<noteq> q \<longrightarrow>
      \<not> (bd_status a = Bs_active \<and> bd_status b = Bs_active \<and> bd_project a = bd_project b \<and>
         bd_protocol a = bd_protocol b) \<and>
      \<not> (bd_supply_mode a = ''dedicated'' \<and> bd_supply_mode b = ''dedicated'' \<and>
         bd_connection a = bd_connection b \<and> serves a \<and> serves b)"
    using no_clashD[OF b(1)] no_clashD[OF b(2)]
    unfolding the_binding_def both_active_def both_dedicated_def by blast
  show "\<forall>bid b. the_binding bid m = Some b \<longrightarrow>
      (\<exists>p. the_project (bd_project b) m = Some p \<and> pj_mode p = bd_supply_mode b \<and> pj_owner p = bd_owner b) \<and>
      (bd_connection b \<noteq> None \<longleftrightarrow> bd_supply_mode b = ''dedicated'')"
    using inv binding_shaped[OF inv] by (auto simp: market_inv_def agrees_def targeted_def)
  show "\<forall>p q a b. the_project p m = Some a \<and> the_project q m = Some b \<and> pj_deleted_at a = None \<and>
      pj_deleted_at b = None \<and> pj_owner a = pj_owner b \<and>
      pj_name_normalized a = pj_name_normalized b \<longrightarrow> p = q"
    using no_clashD[OF p] unfolding the_project_def same_name_def by blast
qed

theorem reachable_state_consistent_witness:
  "\<exists>b p. the_binding 2 trading = Some b \<and> bd_status b = Bs_active \<and> bd_connection b \<noteq> None \<and>
     the_project (bd_project b) trading = Some p \<and> pj_mode p = ''dedicated''"
proof -
  have "map_option (\<lambda>b. (bd_status b, bd_supply_mode b)) (the_binding 2 trading) = Some (Bs_active, ''dedicated'')"
    by code_simp
  then obtain b where b: "the_binding 2 trading = Some b" "bd_status b = Bs_active" "bd_supply_mode b = ''dedicated''"
    by (auto simp: map_option_eq_Some)
  with reachable_state_consistent[OF demo_reach(2)] show ?thesis by fastforce
qed

lemma cas_refused:
  "cas_credential cid c v t = None \<Longrightarrow> connection_of t cid \<noteq> None \<Longrightarrow> co_id v = cid \<Longrightarrow>
     save_replace v c t = (Inl VersionConflict, t)"
  "cas_lifecycle now cid l w t = None \<Longrightarrow> connection_of t cid \<noteq> None \<Longrightarrow> co_id w = cid \<Longrightarrow>
     save_lifecycle now w l t = (Inl VersionConflict, t)"
  by (auto simp: cas_credential_def cas_lifecycle_def run_unit_def save_replace_def save_lifecycle_def run
      split: if_splits)

text \<open>No lost update: when two writers have read the same credential version, or the same
  lifecycle state, of a connection and the first write moves it, the second write is refused and changes
  nothing.\<close>

theorem no_lost_update:
  "(save_replace v expected s = (Inr (), t) \<and> co_credential_version v \<noteq> expected \<and> co_id v' = co_id v \<longrightarrow>
      save_replace v' expected t = (Inl VersionConflict, t)) \<and>
   (save_lifecycle now w before s = (Inr (), u) \<and> co_lifecycle_state w \<noteq> before \<and> co_id w' = co_id w \<longrightarrow>
      save_lifecycle now' w' before u = (Inl VersionConflict, u))"
proof (intro conjI impI; elim conjE)
  assume first: "save_replace v expected s = (Inr (), t)" and moved: "co_credential_version v \<noteq> expected"
    and same: "co_id v' = co_id v"
  have won: "cas_credential (co_id v) expected v s = Some t" using first by (simp add: cas_credential_def run_unit_def)
  then have "connection_of t (co_id v) \<noteq> None"
    using credential_cas.cas_Some_iff credential_cas.cas_get by (metis option.distinct(1))
  with credential_cas.second_writer_refused[OF won moved] same
  show "save_replace v' expected t = (Inl VersionConflict, t)" by (intro cas_refused(1)) auto
next
  assume first: "save_lifecycle now w before s = (Inr (), u)" and moved: "co_lifecycle_state w \<noteq> before"
    and same: "co_id w' = co_id w"
  have won: "cas_lifecycle now (co_id w) before w s = Some u" using first by (simp add: cas_lifecycle_def run_unit_def)
  then have known: "connection_of u (co_id w) \<noteq> None"
    using lifecycle_cas.cas_Some_iff lifecycle_cas.cas_get by (metis option.distinct(1))
  have "cas_lifecycle now' (co_id w) before w' u = None"
    using first moved by (auto simp: cas_lifecycle_def run_unit_def save_lifecycle_def bindE_Inr run_Inr_iff)
      (simp add: run store_get_put merge_lifecycle_def)
  with known same show "save_lifecycle now' w' before u = (Inl VersionConflict, u)"
    by (intro cas_refused(2)) auto
qed

theorem no_lost_update_witness:
  "save_replace (demo_row\<lparr>co_credential_version := 7\<rparr>) 1
      \<lparr>cs_by_id = [(5, demo_row\<lparr>co_credential_version := 2\<rparr>)], cs_audits = [], cs_snapshots = []\<rparr> =
    (Inl VersionConflict, \<lparr>cs_by_id = [(5, demo_row\<lparr>co_credential_version := 2\<rparr>)], cs_audits = [], cs_snapshots = []\<rparr>)"
  using no_lost_update[where v = "demo_row\<lparr>co_credential_version := 2\<rparr>" and v' = "demo_row\<lparr>co_credential_version := 7\<rparr>"
      and expected = 1 and s = "\<lparr>cs_by_id = [(5, demo_row)], cs_audits = [], cs_snapshots = []\<rparr>"
      and t = "\<lparr>cs_by_id = [(5, demo_row\<lparr>co_credential_version := 2\<rparr>)], cs_audits = [], cs_snapshots = []\<rparr>"]
  by (simp add: save_replace_def run connection_of_def write_connection_def dict_set_Cons demo_row_def fresh_connection_def)

end
