(* ===== verification/Market_Effects.thy ===== *)
theory Market_Effects
  imports Market_Contracts
begin

section \<open>What the operations of the API service do\<close>

text \<open>
  Tenant isolation of the seller's calls, admission, publishing, the loss of a connection, health,
  sealing and the base URL guard: the effect of single operations.
\<close>

subsection \<open>Tenant isolation\<close>

text \<open>The calls a seller makes on a connection of theirs.\<close>

fun seller_call :: "market_call \<Rightarrow> (uuid \<times> caller) option" where
  "seller_call (Replace_credential nonce cid c secret expected pn loc) = Some (cid, c)"
| "seller_call (Delete_connection cid c) = Some (cid, c)"
| "seller_call (Set_mode cid c mode) = Some (cid, c)"
| "seller_call (List_supply cid c) = Some (cid, c)"
| "seller_call (Pause cid c) = Some (cid, c)"
| "seller_call (Resume cid c) = Some (cid, c)"
| "seller_call (Drain cid c) = Some (cid, c)"
| "seller_call (Retire cid c) = Some (cid, c)"
| "seller_call (Verify jitter cid c immediate) = Some (cid, c)"
| "seller_call request = None"

definition owns :: "caller \<Rightarrow> uuid \<Rightarrow> market \<Rightarrow> bool" where
  "owns c cid m \<longleftrightarrow> acts_as ''seller'' (ca_role c) (ca_workspace c) \<and>
     (case the_connection cid m of None \<Rightarrow> False
      | Some rec \<Rightarrow> co_seller rec = ca_id c \<and> co_status rec \<noteq> Cs_deleted)"

definition refused :: "'a market_op \<Rightarrow> market \<Rightarrow> bool" where
  "refused a m \<longleftrightarrow> (\<exists>code status. a m = (Inl (ConnectionError code status), m))"

lemma refused_bind: "refused a m \<Longrightarrow> refused (bindE a f) m"
  by (auto simp: refused_def bindE_def)

lemma get_connection_refused: "\<not> owns c cid m \<Longrightarrow> refused (get_connection cid c) m"
  by (auto simp: owns_def refused_def get_connection_def require_seller_def owned_connection_def run
      split: option.splits)

lemma get_connection_split:
  "bindE (require_seller c) (\<lambda>_. bindE (owned_connection cid (ca_id c)) f) = bindE (get_connection cid c) f"
  by (simp add: fun_eq_iff get_connection_def bindE_def split: prod.split sum.split)

text \<open>Tenant isolation: a seller call on a connection the caller does not own, or whose
  role and workspace are not the seller's, is refused with a connection error and changes nothing at all.\<close>

theorem foreign_seller_refused:
  assumes call: "seller_call request = Some (cid, c)" and foreign: "\<not> owns c cid m"
  shows "\<exists>code status. market_do e now rq request m = (Inl (ConnectionError code status), m)"
proof -
  have "refused (market_do e now rq request) m"
    using call get_connection_refused[OF foreign]
    by (cases request)
      (auto simp: done_op_def replace_credential_def delete_connection_def set_mode_def list_supply_def pause_def
        resume_def drain_def retire_def verify_def get_connection_split intro!: refused_bind)
  then show ?thesis by (simp add: refused_def)
qed

theorem foreign_seller_refused_witness:
  "\<exists>code status. market_do demo_env 8 [] (Pause 0 demo_buyer) trading = (Inl (ConnectionError code status), trading)"
  by (rule foreign_seller_refused[where cid = 0 and c = demo_buyer])
    (simp_all add: owns_def acts_as_def demo_buyer_def)

subsection \<open>Admission\<close>

lemma hd_newest:
  assumes "found \<noteq> []"
  shows "hd (newest_first found) \<in> set found \<and> (\<forall>r \<in> set found. bd_version r \<le> bd_version (hd (newest_first found)))"
proof -
  let ?s = "newest_first found"
  have set: "set ?s = set found" by (simp add: newest_first_def)
  with assms have "?s \<noteq> []" by auto
  then obtain x xs where s: "?s = x # xs" by (cases ?s) auto
  have "sorted (map (\<lambda>r. - bd_version r) ?s)" by (simp add: newest_first_def)
  then have "\<forall>r \<in> set xs. bd_version r \<le> bd_version x" by (simp add: s)
  with s set show ?thesis by auto
qed

definition serving :: "uuid \<Rightarrow> string \<Rightarrow> market \<Rightarrow> binding list" where
  "serving pid protocol m = filter (\<lambda>r. bd_status r \<in> {Bs_active, Bs_degraded})
     (binding_list_by_project_protocol pid protocol (mk_bindings m))"

lemma active_binding_Inr:
  "active_binding pid protocol c m = (Inr rec, n) \<longleftrightarrow>
     acts_as ''buyer'' (ca_role c) (ca_workspace c) \<and> live_project pid (ca_id c) m \<noteq> None \<and>
     serving pid protocol m \<noteq> [] \<and> rec = hd (newest_first (serving pid protocol m)) \<and> n = m"
  by (auto simp: active_binding_def binding_buyer_def require_buyer_def binding_project_def serving_def
      bindE_Inr run_Inr_iff)

lemma admit_Inr:
  "admit pid protocol provider model c m = (Inr tk, n) \<longleftrightarrow>
     (\<exists>rec. active_binding pid protocol c m = (Inr rec, n) \<and> protocol \<in> protocols_known \<and>
        provider = protocol \<and> bd_status rec \<noteq> Bs_degraded \<and> bd_protocol rec = protocol \<and>
        \<not> (bd_supply_mode rec = ''shared'' \<and> truthy model \<and> bd_allowed_models rec \<noteq> [] \<and>
           the model \<notin> set (bd_allowed_models rec)) \<and>
        tk = \<lparr>tk_binding_id = bd_id rec, tk_version = bd_version rec, tk_protocol = bd_protocol rec,
              tk_supply_mode = bd_supply_mode rec\<rparr>)"
  unfolding admit_def bindE_Inr run_Inr_iff rethrow_Inr
  by (auto simp: active_binding_def bindE_Inr run_Inr_iff binding_buyer_def require_buyer_def binding_project_def)

lemma serving_iff:
  assumes "market_inv m"
  shows "b \<in> set (serving pid protocol m) \<longleftrightarrow>
    the_binding (bd_id b) m = Some b \<and> bd_project b = pid \<and> bd_protocol b = protocol \<and> serves b"
proof -
  have ok: "dict_ok (bs_by_id (mk_bindings m))" using assms by (simp add: market_inv_def bindings_ok_def)
  show ?thesis
    using binding_key[OF assms]
    by (auto simp: serving_def binding_list_by_project_protocol_def serves_def the_binding_def binding_of_def
        intro: dict_get_values elim!: dict_values_get[OF ok])
qed

text \<open>C19 (safety). Admission never falls back: a request is admitted only for the buyer's live project,
  only when provider and protocol agree, and only by the serving binding of the greatest version, which
  must be active (a degraded one refuses), of the project's supply mode, and allow the model.\<close>

theorem admit_only_active:
  assumes reach: "market_reach e m" and admitted: "admit pid protocol provider model c m = (Inr tk, n)"
  shows "n = m \<and> acts_as ''buyer'' (ca_role c) (ca_workspace c) \<and> provider = protocol \<and>
    (\<exists>p b. the_project pid m = Some p \<and> pj_owner p = ca_id c \<and> pj_deleted_at p = None \<and>
       the_binding (tk_binding_id tk) m = Some b \<and> bd_project b = pid \<and> bd_protocol b = protocol \<and>
       bd_status b = Bs_active \<and> bd_supply_mode b = pj_mode p \<and> tk_supply_mode tk = pj_mode p \<and>
       tk_version tk = bd_version b \<and>
       (\<forall>bid b'. the_binding bid m = Some b' \<and> bd_project b' = pid \<and> bd_protocol b' = protocol \<and> serves b' \<longrightarrow>
          bd_version b' \<le> bd_version b) \<and>
       (bd_supply_mode b = ''shared'' \<and> truthy model \<and> bd_allowed_models b \<noteq> [] \<longrightarrow>
          the model \<in> set (bd_allowed_models b)))"
proof -
  from reach have inv: "market_inv m" by (rule market_reach_inv)
  let ?b = "hd (newest_first (serving pid protocol m))"
  from admitted have act: "active_binding pid protocol c m = (Inr ?b, n)" and c: "provider = protocol"
    and ok: "bd_status ?b \<noteq> Bs_degraded" "\<not> (bd_supply_mode ?b = ''shared'' \<and> truthy model \<and>
        bd_allowed_models ?b \<noteq> [] \<and> the model \<notin> set (bd_allowed_models ?b))"
    and tk: "tk = \<lparr>tk_binding_id = bd_id ?b, tk_version = bd_version ?b, tk_protocol = bd_protocol ?b,
        tk_supply_mode = bd_supply_mode ?b\<rparr>"
    unfolding admit_Inr active_binding_Inr by blast+
  from act obtain p where buyer: "acts_as ''buyer'' (ca_role c) (ca_workspace c)" and n: "n = m"
    and p: "live_project pid (ca_id c) m = Some p" and some: "serving pid protocol m \<noteq> []"
    unfolding active_binding_Inr by blast
  from hd_newest[OF some] have b: "?b \<in> set (serving pid protocol m)"
    and newest: "\<forall>r \<in> set (serving pid protocol m). bd_version r \<le> bd_version ?b" by auto
  from b have stored: "the_binding (bd_id ?b) m = Some ?b" "bd_project ?b = pid" "bd_protocol ?b = protocol"
      "serves ?b"
    by (auto simp: serving_iff[OF inv])
  have mode: "bd_supply_mode ?b = pj_mode p"
    using inv stored p by (force simp: market_inv_def agrees_def live_projectD)
  have later: "bd_version b' \<le> bd_version ?b"
    if "the_binding bid m = Some b'" "bd_project b' = pid" "bd_protocol b' = protocol" "serves b'" for bid b'
    using newest that binding_key[OF inv that(1)] by (auto simp: serving_iff[OF inv])
  show ?thesis
    using c buyer p n tk stored mode later ok by (auto simp: live_projectD serves_def)
qed

theorem admit_only_active_witness:
  "\<exists>tk n b. admit 1 ''openai'' ''openai'' None demo_buyer trading = (Inr tk, n) \<and> n = trading \<and>
     the_binding (tk_binding_id tk) trading = Some b \<and> bd_status b = Bs_active"
proof -
  have "(case fst (admit 1 ''openai'' ''openai'' None demo_buyer trading) of Inl e \<Rightarrow> False | Inr tk \<Rightarrow> tk_binding_id tk = 2)"
    by code_simp
  then obtain tk n where tk: "admit 1 ''openai'' ''openai'' None demo_buyer trading = (Inr tk, n)"
    by (cases "admit 1 ''openai'' ''openai'' None demo_buyer trading") (auto split: sum.splits)
  from admit_only_active[OF demo_reach(2) tk] tk show ?thesis by blast
qed

subsection \<open>Losing a connection\<close>

definition degraded :: "instant \<Rightarrow> binding \<Rightarrow> binding" where
  "degraded now r = (if bd_status r = Bs_active \<and> bd_supply_mode r = ''dedicated''
     then r\<lparr>bd_status := Bs_degraded, bd_updated_at := Some now\<rparr> else r)"

lemma degrade_one_run:
  assumes "the_binding (bd_id r) m = Some r"
  shows "\<exists>n. degrade_one now cid rq r m = (Inr (), n) \<and> the_binding (bd_id r) n = Some (degraded now r) \<and>
    mk_connections n = mk_connections m"
  using assms
  by (auto simp: degrade_one_def degraded_def Let_def on_bindings_def zoom_def bindE_def binding_save_def
      binding_audit_def run the_binding_def store_get_put binding_of_def[of "bs_audits_update f s" for f s]
      simp flip: binding_of_def split: prod.splits sum.splits)

lemma degrade_loop:
  assumes "pending_rows rows m"
  shows "\<exists>n. for_each (degrade_one now cid rq) rows m = (Inr (), n) \<and> mk_connections n = mk_connections m \<and>
    (\<forall>r \<in> set rows. the_binding (bd_id r) n = Some (degraded now r)) \<and>
    (\<forall>q. q \<notin> bd_id ` set rows \<longrightarrow> the_binding q n = the_binding q m)"
  using assms
proof (induction rows arbitrary: m)
  case Nil
  then show ?case by (simp add: ret_def)
next
  case (Cons r rows)
  then have r: "the_binding (bd_id r) m = Some r" and new: "bd_id r \<notin> bd_id ` set rows"
    by (auto simp: pending_rows_def)
  from degrade_one_run[OF r] obtain k where k: "degrade_one now cid rq r m = (Inr (), k)"
      "the_binding (bd_id r) k = Some (degraded now r)" "mk_connections k = mk_connections m" by blast
  have "pending_rows rows k" using Cons.prems k(1) by (rule degrade_one_goes(2))
  from Cons.IH[OF this] obtain n where n: "for_each (degrade_one now cid rq) rows k = (Inr (), n)"
      "mk_connections n = mk_connections k" "\<forall>r \<in> set rows. the_binding (bd_id r) n = Some (degraded now r)"
      "\<forall>q. q \<notin> bd_id ` set rows \<longrightarrow> the_binding q n = the_binding q k" by blast
  have "for_each (degrade_one now cid rq) (r # rows) m = (Inr (), n)"
    using k(1) n(1) by (simp add: bindE_def)
  moreover have "the_binding q n = the_binding q m" if "q \<notin> bd_id ` set (r # rows)" for q
    using n(4) that degrade_one_others[OF k(1), of q] by simp
  moreover have "the_binding (bd_id r) n = Some (degraded now r)"
    using n(4) new k(2) by simp
  ultimately show ?case using n k(3) by auto
qed

lemma listed_rows:
  assumes "market_inv m"
  shows "pending_rows (binding_list_by_connection cid (mk_bindings m)) m"
    and "the_binding q m = Some b \<Longrightarrow>
      b \<in> set (binding_list_by_connection cid (mk_bindings m)) \<longleftrightarrow> bd_connection b = Some cid"
  using rows_current[OF assms, of cid] binding_shaped[OF assms]
  by (auto simp: pending_rows_def binding_list_by_connection_def the_binding_def binding_of_def
      dest: dict_get_values)

lemma degrade_effect:
  assumes inv: "market_inv m" and b: "the_binding q m = Some b"
  obtains k n where "degrade_for_connection now cid rq m = (Inr k, n)" "mk_connections n = mk_connections m"
    "the_binding q n = Some (if bd_connection b = Some cid then degraded now b else b)"
proof -
  let ?rows = "binding_list_by_connection cid (mk_bindings m)"
  from degrade_loop[OF listed_rows(1)[OF inv, of cid], of now cid rq] obtain n
    where n: "for_each (degrade_one now cid rq) ?rows m = (Inr (), n)" "mk_connections n = mk_connections m"
      "\<forall>r \<in> set ?rows. the_binding (bd_id r) n = Some (degraded now r)"
      "\<forall>q. q \<notin> bd_id ` set ?rows \<longrightarrow> the_binding q n = the_binding q m" by blast
  have own: "bd_id b = q" using inv b by (rule binding_key)
  have "q \<notin> bd_id ` set ?rows" if "bd_connection b \<noteq> Some cid"
  proof
    assume "q \<in> bd_id ` set ?rows"
    then obtain r where r: "r \<in> set ?rows" "bd_id r = q" by auto
    with rows_current(2)[OF inv, of cid] b have "r = b" by auto
    with r(1) that listed_rows(2)[OF inv b, of cid] show False by simp
  qed
  then have "the_binding q n = Some (if bd_connection b = Some cid then degraded now b else b)"
    using n(3,4) own b listed_rows(2)[OF inv b, of cid] by auto
  with n(1,2) show thesis
    by (intro that[of _ n]) (auto simp: degrade_for_connection_def run)
qed

text \<open>Deleting a connection: the record stays, marked deleted and with its credential
  erased; every active dedicated binding on it becomes degraded (so admission refuses) and keeps its
  supply mode and its connection, and no other binding changes.\<close>

theorem delete_connection_effect:
  assumes reach: "market_reach e m" and deleted: "delete_connection now cid c rq m = (Inr (), n)"
  shows "(\<exists>a b. the_connection cid m = Some a \<and> co_seller a = ca_id c \<and> the_connection cid n = Some b \<and>
      co_status b = Cs_deleted \<and> erased b \<and> co_fingerprint b = co_fingerprint a) \<and>
    (\<forall>q b. the_binding q m = Some b \<longrightarrow>
      the_binding q n = Some (if bd_connection b = Some cid then degraded now b else b))"
proof -
  from reach have inv: "market_inv m" by (rule market_reach_inv)
  let ?del = "\<lambda>a. a\<lparr>co_status := Cs_deleted, co_deleted_at := Some now, co_updated_at := Some now,
                     co_nonce := None, co_ciphertext := None, co_tag := None, co_key_version := None\<rparr>"
  from deleted obtain a k1 k2 d where a: "the_connection cid m = Some a" "co_seller a = ca_id c"
    and k1: "on_connections (save_replace (?del a) (co_credential_version a)) m = (Inr (), k1)"
    and k2: "on_connections (connection_audit now (ca_id c) (Some cid) ''connection.deleted'' rq
        [(''fingerprint'', PyStr (co_fingerprint a))]) k1 = (Inr (), k2)"
    and d: "degrade_for_connection now cid rq k2 = (Inr d, n)"
    by (auto simp: delete_connection_def Let_def bindE_Inr run_Inr_iff rethrow_Inr require_seller_def
        owned_connection_def split: option.splits if_splits)
  have id: "co_id a = cid" using inv a(1) by (rule connection_key)
  from k1 k2 have binds: "the_binding q k2 = the_binding q m" for q
    by (auto simp: on_store_Inr the_binding_def)
  from k1 id have "the_connection cid k1 = Some (?del a)"
    by (auto simp: on_store_Inr save_replace_def op_success the_connection_def store_get_put)
  with k2 have gone: "the_connection cid k2 = Some (?del a)"
    by (auto simp: on_store_Inr connection_audit_def op_success the_connection_def connection_of_def)
  have "goes market_evolves (on_connections (save_replace (?del a) (co_credential_version a))) m"
    by (rule save_replace_market[where cur = a]) (use a id in \<open>auto simp: connection_becomes_def erased_def\<close>)
  with k1 have "market_evolves m k1" by (simp add: goes_def)
  moreover have "market_evolves k1 k2" using notes_evolve(5) k2 by (rule evolvesD)
  ultimately have inv2: "market_inv k2" using inv by (simp add: market_evolves_def)
  have "the_connection cid n = the_connection cid k2"
  proof -
    from degrade_loop[OF listed_rows(1)[OF inv2, of cid], of now cid rq] d
    have "mk_connections n = mk_connections k2"
      by (auto simp: degrade_for_connection_def run)
    then show ?thesis by (simp add: the_connection_def)
  qed
  moreover have "the_binding q n = Some (if bd_connection b = Some cid then degraded now b else b)"
    if b: "the_binding q m = Some b" for q b
  proof -
    from b binds have "the_binding q k2 = Some b" by simp
    from degrade_effect[OF inv2 this] obtain k n' where "degrade_for_connection now cid rq k2 = (Inr k, n')"
      and "the_binding q n' = Some (if bd_connection b = Some cid then degraded now b else b)" by metis
    with d show ?thesis by simp
  qed
  ultimately show ?thesis using a gone by (auto simp: erased_def)
qed

theorem delete_connection_effect_witness:
  "\<exists>b d. the_binding 2 trading = Some b \<and> the_binding 2 closed = Some d \<and> d = degraded 7 b \<and> bd_status d = Bs_degraded"
proof -
  have "isl (fst (delete_connection 7 0 demo_seller ''g'' trading)) = False" by code_simp
  then have run: "delete_connection 7 0 demo_seller ''g'' trading = (Inr (), closed)"
    by (cases "delete_connection 7 0 demo_seller ''g'' trading")
      (auto simp: closed_def isl_def split: sum.splits, metis old.sum.exhaust unit.exhaust)
  have "map_option (\<lambda>b. (bd_status b, bd_supply_mode b, bd_connection b)) (the_binding 2 trading) =
      Some (Bs_active, ''dedicated'', Some 0)" by code_simp
  then obtain b where b: "the_binding 2 trading = Some b" "bd_status b = Bs_active" "bd_supply_mode b = ''dedicated''"
      "bd_connection b = Some 0"
    by (auto simp: map_option_eq_Some)
  from delete_connection_effect[OF demo_reach(2) run] b show ?thesis by (auto simp: degraded_def)
qed

subsection \<open>Publishing\<close>

text \<open>Operations on connections leave bindings and projects alone.\<close>

definition same_demand :: "market \<Rightarrow> market \<Rightarrow> bool" where
  "same_demand m n \<longleftrightarrow> mk_bindings n = mk_bindings m \<and> mk_projects n = mk_projects m"

interpretation supply_only: evolution same_demand
  by unfold_locales (auto simp: same_demand_def)

lemma on_connections_supply_only: "evolves same_demand (on_connections a)"
  by (auto simp: evolves_def on_connections_def zoom_def same_demand_def split: prod.splits sum.splits)

lemma move_to_supply_only: "evolves same_demand (move_to now rec target rq)"
  unfolding move_to_def persist_def Let_def
  by (intro supply_only.rules evolve on_connections_supply_only)

lemma mark_bound_supply_only: "evolves same_demand (mark_bound now cid rq)"
  unfolding mark_bound_def by (intro supply_only.rules evolve move_to_supply_only)

lemma publish_atomic_Inr:
  "publish_atomic now rec s = (Inr u, t) \<Longrightarrow>
     t = write_binding (bd_id rec) rec (retire_in now (rival_active rec) s)"
  unfolding publish_atomic_def bindE_Inr run_Inr_iff retire_active_run by auto

text \<open>Publishing: the binding becomes active with a version above every version its
  project and protocol ever had, the binding that was active before becomes inactive, and every other
  binding stays as it was.\<close>

theorem publish_effect:
  assumes reach: "market_reach e m" and pub: "publish_binding prices now bid c rq m = (Inr rec, n)"
  shows "the_binding bid n = Some rec \<and> bd_status rec = Bs_active \<and>
    (\<exists>old. the_binding bid m = Some old \<and> bd_status old \<notin> published \<and> bd_connection rec = bd_connection old \<and>
       bd_supply_mode rec = bd_supply_mode old) \<and>
    (\<forall>q b. the_binding q m = Some b \<and> bd_project b = bd_project rec \<and> bd_protocol b = bd_protocol rec \<longrightarrow>
       bd_version b < bd_version rec) \<and>
    (\<forall>q b. the_binding q m = Some b \<and> q \<noteq> bid \<longrightarrow>
       the_binding q n = Some (retired now (rival_active rec) b))"
proof -
  from reach have inv: "market_inv m" by (rule market_reach_inv)
  from pub obtain old v k1 k2 where old: "the_binding bid m = Some old" "bd_status old \<notin> published"
    and v: "v = max_version (bd_project old) (bd_protocol old) (mk_bindings m) + 1"
    and rec: "rec = old\<lparr>bd_version := v, bd_status := Bs_active, bd_published_at := Some now,
                       bd_updated_at := Some now\<rparr>"
    and k1: "on_bindings (publish_atomic now rec) m = (Inr (), k1)"
    and k2: "on_bindings (binding_audit (ca_id c) (Some (bd_project rec)) (Some (bd_id rec)) ''binding.published''
        rq [(''protocol'', PyStr (bd_protocol rec)), (''version'', PyInt v)]) k1 = (Inr (), k2)"
    and last: "(case bd_connection rec of
              Some cid \<Rightarrow> when_op (bd_supply_mode rec = ''dedicated'') (mark_bound now cid rq)
            | None \<Rightarrow> ret ()) k2 = (Inr (), n)"
    by (auto simp: publish_binding_def Let_def bindE_Inr run_Inr_iff rethrow_Inr binding_buyer_def
        require_buyer_def owned_binding_def binding_project_def split: option.splits if_splits
        dest!: assert_publishable_keeps)
  have id: "bd_id rec = bid" using binding_key[OF inv old(1)] by (simp add: rec)
  have "evolves same_demand (case bd_connection rec of
              Some cid \<Rightarrow> when_op (bd_supply_mode rec = ''dedicated'') (mark_bound now cid rq)
            | None \<Rightarrow> ret ())"
    by (intro supply_only.rules evolve mark_bound_supply_only)
  from evolvesD[OF this last] have n: "mk_bindings n = mk_bindings k2" by (simp add: same_demand_def)
  from k1 have "mk_bindings k1 = write_binding bid rec (retire_in now (rival_active rec) (mk_bindings m))"
    by (auto simp: on_store_Inr id dest!: publish_atomic_Inr)
  with k2 n have after: "the_binding q n = (if q = bid then Some rec
      else map_option (retired now (rival_active rec)) (the_binding q m))" for q
    by (auto simp: on_store_Inr binding_audit_def op_success the_binding_def store_get_put
        binding_of_def[of "bs_audits_update f s" for f s] simp flip: binding_of_def)
  have "bd_version b < bd_version rec"
    if "the_binding q m = Some b" "bd_project b = bd_project rec" "bd_protocol b = bd_protocol rec" for q b
    using that inv max_version_ge[of "mk_bindings m" q b]
    by (auto simp: rec v market_inv_def bindings_ok_def the_binding_def)
  with after old show ?thesis by (auto simp: rec)
qed

theorem publish_effect_witness:
  "\<exists>rec n. publish_binding (ae_prices demo_env) 6 2 demo_buyer ''f'' drafted = (Inr rec, n) \<and>
     the_binding 2 n = Some rec \<and> bd_status rec = Bs_active"
proof -
  have "isl (fst (publish_binding (ae_prices demo_env) 6 2 demo_buyer ''f'' drafted)) = False" by code_simp
  then obtain rec n where pub: "publish_binding (ae_prices demo_env) 6 2 demo_buyer ''f'' drafted = (Inr rec, n)"
    by (cases "publish_binding (ae_prices demo_env) 6 2 demo_buyer ''f'' drafted") (auto simp: isl_def, metis sum.exhaust)
  from publish_effect[OF demo_reach(1) pub] pub show ?thesis by blast
qed

subsection \<open>Health\<close>

text \<open>The streaks the hysteresis counts, read off the probe results themselves, newest first.\<close>

fun ok_streak :: "string list \<Rightarrow> int" where
  "ok_streak [] = 0"
| "ok_streak (cat # older) =
     (if cat = ''ok'' then ok_streak older + 1 else if cat = ''unavailable'' then ok_streak older else 0)"

fun fail_streak :: "string list \<Rightarrow> int" where
  "fail_streak [] = 0"
| "fail_streak (cat # older) =
     (if cat = ''ok'' then 0 else if cat = ''rate_limited'' \<or> cat = ''unavailable'' then fail_streak older
      else fail_streak older + 1)"

fun probed :: "(instant \<times> string) list \<Rightarrow> connection \<Rightarrow> connection" where
  "probed [] rec = rec"
| "probed ((now, cat) # older) rec = apply_health False now cat (probed older rec)"

lemma probed_counters:
  assumes "co_consecutive_successes rec = 0" and "co_consecutive_failures rec = 0"
  shows "co_consecutive_successes (probed ps rec) = ok_streak (map snd ps)"
    and "co_consecutive_failures (probed ps rec) = fail_streak (map snd ps)"
  using assms by (induction ps) (auto simp: apply_health_def Let_def auth_fail_def)

text \<open>Health hysteresis: the counters of a connection probed on schedule are the streaks
  of its probe results; it becomes healthy only on a success that makes at least two in a row, unhealthy
  only on a rejected credential or on a failure that makes at least three, an unavailable probe never
  changes a healthy connection, and no success leaves it unhealthy.\<close>

theorem health_hysteresis:
  assumes start: "co_consecutive_successes rec = 0" "co_consecutive_failures rec = 0"
    and r: "r = probed older rec" and r': "r' = probed ((now, cat) # older) rec"
  shows "co_consecutive_successes r' = ok_streak (cat # map snd older) \<and>
    co_consecutive_failures r' = fail_streak (cat # map snd older) \<and>
    (co_health_state r \<noteq> H_healthy \<and> co_health_state r' = H_healthy \<longrightarrow>
       cat = ''ok'' \<and> ok_streak (cat # map snd older) \<ge> 2) \<and>
    (co_health_state r \<noteq> H_unhealthy \<and> co_health_state r' = H_unhealthy \<longrightarrow>
       cat \<in> auth_fail \<or> fail_streak (cat # map snd older) \<ge> 3) \<and>
    (cat = ''unavailable'' \<and> co_health_state r = H_healthy \<longrightarrow> co_health_state r' = H_healthy) \<and>
    (cat = ''ok'' \<longrightarrow> co_health_state r' \<noteq> H_unhealthy)"
  using probed_counters[OF start, of older] probed_counters[OF start, of "(now, cat) # older"]
  by (auto simp: r r' apply_health_def Let_def success_threshold_def fail_threshold_def auth_fail_def
      split: if_splits)

theorem health_hysteresis_witness:
  "co_health_state (probed [(2, ''ok''), (1, ''ok'')] demo_row) = H_healthy \<and>
   co_consecutive_successes (probed [(2, ''ok''), (1, ''ok'')] demo_row) = 2"
  using health_hysteresis[of demo_row "probed [(1, ''ok'')] demo_row" "[(1, ''ok'')]" "probed [(2, ''ok''), (1, ''ok'')] demo_row" 2 "''ok''"]
  by (simp add: demo_row_def fresh_connection_def apply_health_def success_threshold_def)

subsection \<open>Sealing and the base URL guard\<close>

text \<open>C25 (roundtrip). What a connection is created with is what unwrapping it returns: the stripped
  secret, through UTF-8, encryption under the current key of the ring and the stored nonce and tag.\<close>

theorem created_secret_unwraps:
  assumes shake: "shake_ok (ce_crypto env)"
    and created: "create_connection env now nonce c f rq m = (Inr rec, n)"
  shows "fst (unwrap env now' (co_id rec) ''proxy'' rq' None n) = Inr (py_strip (fo_secret f)) \<and>
    fst (unwrap env now' (co_id rec) ''verify'' rq' (Some (ca_id c)) n) = Inr (py_strip (fo_secret f)) \<and>
    (\<forall>other. other \<noteq> ca_id c \<longrightarrow> unwrap env now' (co_id rec) ''verify'' rq' (Some other) n =
       (Inl (ConnectionError CN_not_found 404), n))"
proof -
  let ?secret = "py_strip (fo_secret f)"
  from created obtain url sealed cid where
    enc: "encrypt (ce_crypto env) (ce_enc env) nonce (utf8_encode ?secret) = Inr sealed"
    and rec: "rec = fresh_connection env now cid (ca_id c) f ?secret url sealed"
    and stored: "the_connection (co_id rec) n = Some rec"
    by (auto simp: create_connection_def Let_def bindE_Inr run_Inr_iff on_store_Inr connection_create_def
        connection_audit_def op_success the_connection_def store_get_put
        connection_of_def[of "cs_audits_update g s" for g s] simp flip: connection_of_def)
  obtain nn ct tag where s: "sealed = (nn, ct, tag)" by (cases sealed)
  have dec: "decrypt (ce_crypto env) (ce_enc env) (nn, ct, tag) (Some (en_version (ce_enc env))) =
      Inr (utf8_encode ?secret)"
    using encrypt_decrypt[OF shake enc] s by simp
  have fields: "co_nonce rec = Some nn" "co_ciphertext rec = Some ct" "co_tag rec = Some tag"
      "co_key_version rec = Some (en_version (ce_enc env))" "usable rec" "co_seller rec = ca_id c"
    by (simp_all add: rec s fresh_connection_def usable_def)
  show ?thesis
    using stored
    by (auto simp: unwrap_def run fields dec on_connections_def zoom_def connection_audit_def utf8_roundtrip)
qed

theorem created_secret_unwraps_witness:
  "\<exists>rec n. create_connection demo_conn_env 1 [9] demo_seller demo_form ''a'' empty_market = (Inr rec, n) \<and>
     fst (unwrap demo_conn_env 2 (co_id rec) ''proxy'' ''b'' None n) = Inr ''sk''"
proof -
  have "isl (fst (create_connection demo_conn_env 1 [9] demo_seller demo_form ''a'' empty_market)) = False" by code_simp
  then obtain rec n where created: "create_connection demo_conn_env 1 [9] demo_seller demo_form ''a'' empty_market = (Inr rec, n)"
    by (cases "create_connection demo_conn_env 1 [9] demo_seller demo_form ''a'' empty_market") (auto simp: isl_def, metis sum.exhaust)
  have "shake_ok (ce_crypto demo_conn_env)" by (simp add: shake_ok_def demo_conn_env_def demo_lib_def)
  from created_secret_unwraps[OF this created] created show ?thesis
    by (auto simp: demo_form_def py_strip_def py_isspace_def)
qed

text \<open>Decryption is authenticated and rotation keeps the plaintext: nothing decrypts under a
  tag other than the one its key computes, and what is re-encrypted for the current key opens to the same
  bytes.\<close>

theorem sealed_authentic:
  assumes shake: "shake_ok c"
  shows "(decrypt c e (n, ct, tag) ver = Inr p \<and> tag' \<noteq> tag \<longrightarrow>
      decrypt c e (n, ct, tag') ver = Inl Api_ValueError) \<and>
    (reencrypt c e nonce old ver = Inr (new, ver', moved) \<longrightarrow>
      ver' = en_version e \<and> (\<exists>p. decrypt c e old ver = Inr p \<and> decrypt c e new (Some ver') = Inr p))"
proof (intro conjI impI; (elim conjE)?)
  assume "decrypt c e (n, ct, tag) ver = Inr p" and "tag' \<noteq> tag"
  then show "decrypt c e (n, ct, tag') ver = Inl Api_ValueError"
    by (auto simp: decrypt_def split: sum.splits if_splits)
next
  assume re: "reencrypt c e nonce old ver = Inr (new, ver', moved)"
  then show "ver' = en_version e"
    by (auto simp: reencrypt_def split: sum.splits if_splits)
  show "\<exists>p. decrypt c e old ver = Inr p \<and> decrypt c e new (Some ver') = Inr p"
  proof (cases "or_str ver (en_version e) = en_version e")
    case True
    have "key_material e ver = key_material e (Some (en_version e))"
      using True by (simp add: key_material_def or_str_def)
    then have "decrypt c e old ver = decrypt c e old (Some (en_version e))"
      by (cases old) (simp add: decrypt_def)
    with re True show ?thesis
      by (auto simp: reencrypt_def split: sum.splits)
  next
    case False
    with re obtain p where "decrypt c e old ver = Inr p" "encrypt c e nonce p = Inr new" "ver' = en_version e"
      by (auto simp: reencrypt_def split: sum.splits)
    with encrypt_decrypt[OF shake] show ?thesis by blast
  qed
qed

theorem sealed_authentic_witness:
  "decrypt demo_lib (ce_enc demo_conn_env) ([9], [112, 104], [1]) None = Inl Api_ValueError"
  using sealed_authentic[of demo_lib "ce_enc demo_conn_env" "[9]" "[112, 104]" "[9, 112]" None "[115, 107]" "[1]"]
  by (simp add: shake_ok_def demo_lib_def demo_conn_env_def decrypt_def key_material_def or_str_def xor_bytes_def)

text \<open>C35 (safety). SSRF guard: a guarded fetch returns only when the URL is HTTPS without credentials, its
  host is not a metadata or local name, neither the host literal nor any address it resolves to is in a
  blocked range, and the response is no redirect; a redirect always raises.\<close>

theorem fetch_only_public:
  "(guarded_fetch lib resolver fetch url = Inr (status, headers, body) \<longrightarrow>
      (\<exists>parsed. nl_urlparse lib (py_strip url) = Some parsed \<and> public_target lib resolver parsed) \<and>
      fetch url = Inr (status, headers, body) \<and> \<not> (300 \<le> status \<and> status < 400) \<and>
      location_header headers = []) \<and>
   (validate_base_url lib resolver False url = Inr url \<and> fetch url = Inr (status, headers, body) \<and>
      (300 \<le> status \<and> status < 400 \<or> location_header headers \<noteq> []) \<longrightarrow>
      (\<exists>err. guarded_fetch lib resolver fetch url = Inl err))"
proof (intro conjI impI; (elim conjE)?)
  assume "guarded_fetch lib resolver fetch url = Inr (status, headers, body)"
  then have got: "validate_base_url lib resolver False url = Inr url \<and> fetch url = Inr (status, headers, body) \<and>
      \<not> (300 \<le> status \<and> status < 400) \<and> location_header headers = []"
    by (rule guarded_fetch_Inr)
  then show "fetch url = Inr (status, headers, body)" "location_header headers = []"
      "\<not> (300 \<le> status \<and> status < 400)"
    and "\<exists>parsed. nl_urlparse lib (py_strip url) = Some parsed \<and> public_target lib resolver parsed"
    using validate_base_url_Inr by blast+
next
  assume "validate_base_url lib resolver False url = Inr url" and "fetch url = Inr (status, headers, body)"
    and "300 \<le> status \<and> status < 400 \<or> location_header headers \<noteq> []"
  then show "\<exists>err. guarded_fetch lib resolver fetch url = Inl err"
    by (simp add: guarded_fetch_def Let_def)
qed

theorem fetch_only_public_witness:
  "(\<exists>parsed. nl_urlparse demo_net ''u'' = Some parsed \<and> public_target demo_net (ce_resolver demo_conn_env) parsed) \<and>
   (\<exists>err. guarded_fetch demo_net (ce_resolver demo_conn_env) (\<lambda>u. Inr (302, [], ''x'')) ''u'' = Inl err)"
proof -
  have valid: "validate_base_url demo_net (ce_resolver demo_conn_env) False ''u'' = Inr ''u''" by code_simp
  have strip: "py_strip ''u'' = ''u''" by code_simp
  have "guarded_fetch demo_net (ce_resolver demo_conn_env) (\<lambda>u. Inr (200, [], ''x'')) ''u'' = Inr (200, [], ''x'')"
    using valid by (simp add: guarded_fetch_def)
  with valid fetch_only_public[of demo_net "ce_resolver demo_conn_env" "\<lambda>u. Inr (200, [], ''x'')" "''u''" 200 "[]" "''x''"]
    fetch_only_public[of demo_net "ce_resolver demo_conn_env" "\<lambda>u. Inr (302, [], ''x'')" "''u''" 302 "[]" "''x''"]
  show ?thesis by (simp add: strip)
qed

subsection \<open>Winding a connection down\<close>

lemma move_to_run:
  assumes rec: "the_connection (co_id rec) m = Some rec" and ok: "lifecycle_allowed (co_lifecycle_state rec) target"
  shows "\<exists>rec' n. move_to now rec target rq m = (Inr rec', n) \<and> mk_bindings n = mk_bindings m \<and>
    the_connection (co_id rec) n = Some (rec\<lparr>co_lifecycle_state := target, co_updated_at := Some now\<rparr>)"
proof -
  have "transition (co_lifecycle_state rec) target = Inr target"
    using ok by (simp add: transition_def)
  with rec show ?thesis
    by (simp add: move_to_def persist_def Let_def run on_connections_def zoom_def save_lifecycle_def
        connection_audit_def the_connection_def merge_lifecycle_def store_get_put
        connection_of_def[of "cs_audits_update g s" for g s] flip: connection_of_def)
qed

lemma owner_gets:
  "owns c cid m \<Longrightarrow> the_connection cid m = Some rec \<Longrightarrow> get_connection cid c m = (Inr rec, m)"
  by (simp add: owns_def get_connection_def require_seller_def owned_connection_def run)

text \<open>Two of the seller's calls, made at the same time under the same request.\<close>

lemma drain_do:
  assumes own: "owns c cid m" and rec: "the_connection cid m = Some rec" "co_id rec = cid"
    and ok: "lifecycle_allowed (co_lifecycle_state rec) Lc_draining"
  shows "\<exists>n. market_do e now rq (Drain cid c) m = (Inr (), n) \<and> owns c cid n \<and> binding_blockers cid n = binding_blockers cid m \<and>
    the_connection cid n = Some (rec\<lparr>co_lifecycle_state := Lc_draining, co_updated_at := Some now\<rparr>)"
proof -
  from rec have "the_connection (co_id rec) m = Some rec" by simp
  from move_to_run[OF this ok, of now rq] obtain rec' n where n: "move_to now rec Lc_draining rq m = (Inr rec', n)"
    "mk_bindings n = mk_bindings m"
    "the_connection cid n = Some (rec\<lparr>co_lifecycle_state := Lc_draining, co_updated_at := Some now\<rparr>)"
    unfolding rec(2) by blast
  have "market_do e now rq (Drain cid c) m = (Inr (), n)"
    using n(1) owner_gets[OF own rec(1)] by (simp add: done_op_def drain_def run)
  with n own rec(1) show ?thesis by (simp add: owns_def binding_blockers_def)
qed

lemma retire_do:
  assumes own: "owns c cid m" and rec: "the_connection cid m = Some rec" "co_id rec = cid"
    and free: "binding_blockers cid m = []" and ok: "lifecycle_allowed (co_lifecycle_state rec) Lc_retired"
  shows "\<exists>n. market_do e now rq (Retire cid c) m = (Inr (), n) \<and>
    the_connection cid n = Some (rec\<lparr>co_lifecycle_state := Lc_retired, co_updated_at := Some now\<rparr>)"
proof -
  from rec have "the_connection (co_id rec) m = Some rec" by simp
  from move_to_run[OF this ok, of now rq] obtain rec' n where n: "move_to now rec Lc_retired rq m = (Inr rec', n)"
    "the_connection cid n = Some (rec\<lparr>co_lifecycle_state := Lc_retired, co_updated_at := Some now\<rparr>)"
    unfolding rec(2) by blast
  have "market_do e now rq (Retire cid c) m = (Inr (), n)"
    using n(1) owner_gets[OF own rec(1)] free by (simp add: done_op_def retire_def run)
  with n(2) show ?thesis by blast
qed

fun all_succeed :: "api_env \<Rightarrow> instant \<Rightarrow> string \<Rightarrow> market_call list \<Rightarrow> market \<Rightarrow> bool" where
  "all_succeed e now rq [] m \<longleftrightarrow> True"
| "all_succeed e now rq (k # ks) m \<longleftrightarrow> (case market_do e now rq k m of (r, n) \<Rightarrow> r = Inr () \<and> all_succeed e now rq ks n)"

text \<open>C36 (liveness). A connection can always be wound down: in every reachable state, as soon as no serving binding points
  at it, at most two calls of its own seller, \<^emph>\<open>drain\<close> and then \<^emph>\<open>retire\<close>, take it to \<^emph>\<open>retired\<close>, at any time, and each of
  them succeeds.\<close>

theorem connection_can_retire:
  assumes reach: "market_reach e m" and own: "owns c cid m" and free: "binding_blockers cid m = []"
  shows "\<exists>calls \<in> {[], [Retire cid c], [Drain cid c, Retire cid c]}. all_succeed e now rq calls m \<and>
    (\<exists>b. the_connection cid (run_calls e (map (\<lambda>k. (now, rq, k)) calls) m) = Some b \<and> co_lifecycle_state b = Lc_retired)"
proof -
  from own obtain rec where rec: "the_connection cid m = Some rec"
    by (auto simp: owns_def split: option.splits)
  have id: "co_id rec = cid" using connection_key[OF market_reach_inv[OF reach] rec] .
  consider "co_lifecycle_state rec = Lc_retired" | "lifecycle_allowed (co_lifecycle_state rec) Lc_retired"
    | "lifecycle_allowed (co_lifecycle_state rec) Lc_draining" by (cases "co_lifecycle_state rec") auto
  then show ?thesis
  proof cases
    case 1
    with rec show ?thesis by simp
  next
    case 2
    from retire_do[OF own rec id free 2, of e now rq] show ?thesis by fastforce
  next
    case 3
    from drain_do[OF own rec id this, of e now rq] obtain n where n: "market_do e now rq (Drain cid c) m = (Inr (), n)"
      "owns c cid n" "binding_blockers cid n = []"
      "the_connection cid n = Some (rec\<lparr>co_lifecycle_state := Lc_draining, co_updated_at := Some now\<rparr>)" using free by auto
    from retire_do[OF n(2,4) _ n(3), of e now rq] id n(1) show ?thesis by fastforce
  qed
qed

theorem connection_can_retire_witness:
  "\<exists>calls \<in> {[], [Retire 0 demo_seller], [Drain 0 demo_seller, Retire 0 demo_seller]}.
     all_succeed demo_env 9 ''w'' calls drafted \<and>
     (\<exists>b. the_connection 0 (run_calls demo_env (map (\<lambda>k. (9, ''w'', k)) calls) drafted) = Some b \<and> co_lifecycle_state b = Lc_retired)"
proof -
  have "owns demo_seller 0 drafted" "binding_blockers 0 drafted = []" by code_simp+
  from connection_can_retire[OF demo_reach(1) this, of 9 "''w''"] show ?thesis by blast
qed

subsection \<open>Projects\<close>

text \<open>Deleting a project: while a key, a task or an unsettled ledger entry blocks it the call
  fails, leaves every project as it was and writes one audit entry; otherwise the project is marked deleted
  and is gone for its owner and everyone else.\<close>

theorem delete_project_guard:
  assumes reach: "market_reach e m" and p: "live_project pid (ca_id c) m = Some p"
    and buyer: "acts_as ''buyer'' (ca_role c) (ca_workspace c)"
  shows "(blocking pid m \<noteq> [] \<longrightarrow> (\<exists>n entry. delete_project now pid c rq m =
        (Inl (ProjectError PJ_delete_blocked 409), n) \<and> (\<forall>q. the_project q n = the_project q m) \<and>
        ps_audits (mk_projects n) = ps_audits (mk_projects m) @ [entry])) \<and>
    (blocking pid m = [] \<longrightarrow> (\<exists>n. delete_project now pid c rq m = (Inr (), n) \<and>
        the_project pid n = Some (p\<lparr>pj_deleted_at := Some now, pj_updated_at := now\<rparr>) \<and>
        (\<forall>owner. live_project pid owner n = None) \<and> (\<forall>q. q \<noteq> pid \<longrightarrow> the_project q n = the_project q m)))"
proof -
  have got: "get_project pid c m = (Inr p, m)"
    using p buyer by (simp add: get_project_def project_buyer_def require_buyer_def owned_project_def run)
  have stored: "the_project pid m = Some p" using p by (simp add: live_projectD)
  then have id: "pj_id p = pid" using market_reach_inv[OF reach] by (auto intro: project_key)
  have one: "project_event now c pid ev rq pl m = (Inr (), m\<lparr>mk_projects := (mk_projects m)\<lparr>ps_audits :=
      ps_audits (mk_projects m) @ [[(''owner_id'', PyUuid (ca_id c)), (''project_id'', py_opt PyUuid (Some pid)),
         (''event_type'', PyStr ev), (''request_id'', PyStr rq), (''payload'', PyDict pl),
         (''created_at'', PyTime now)]]\<rparr>\<rparr>)" for ev pl m
    by (simp add: project_event_def on_projects_def zoom_def project_audit_def run)
  have lookup: "project_of (s\<lparr>ps_audits := l\<rparr>) = project_of s" for s l
    by (simp add: fun_eq_iff project_of_def)
  have saved: "on_projects (project_save (p\<lparr>pj_deleted_at := Some now, pj_updated_at := now\<rparr>)) m =
      (Inr (), m\<lparr>mk_projects := write_project pid (p\<lparr>pj_deleted_at := Some now, pj_updated_at := now\<rparr>)
                  (mk_projects m)\<rparr>)"
    using stored id by (simp add: on_projects_def zoom_def project_save_def run the_project_def)
  show ?thesis
    using got
    by (auto simp: delete_project_def Let_def run one saved the_project_def lookup store_get_put live_project_def)
qed

theorem delete_project_guard_witness:
  "\<exists>n. delete_project 9 1 demo_buyer ''h'' drafted = (Inr (), n) \<and> live_project 1 2 n = None"
proof -
  have "map_option pj_owner (live_project 1 2 drafted) = Some 2" "blocking 1 drafted = []" by code_simp+
  then obtain p where "live_project 1 (ca_id demo_buyer) drafted = Some p"
    by (auto simp: demo_buyer_def)
  moreover have "acts_as ''buyer'' (ca_role demo_buyer) (ca_workspace demo_buyer)"
    by (simp add: acts_as_def demo_buyer_def)
  ultimately have "blocking 1 drafted = [] \<longrightarrow> (\<exists>n. delete_project 9 1 demo_buyer ''h'' drafted = (Inr (), n) \<and>
        (\<forall>owner. live_project 1 owner n = None))"
    using delete_project_guard[OF demo_reach(1)] by blast
  with \<open>blocking 1 drafted = []\<close> show ?thesis by blast
qed

text \<open>Creating is idempotent: repeating a create call that succeeded under an idempotency
  key returns the same project and changes nothing; the same key with another request is refused.\<close>

theorem create_project_idempotent:
  assumes first: "create_project lib now c f rq m = (Inr rec, n)"
    and key: "truthy (pf_idempotency_key f)" and fresh: "project_get_idempotency (ca_id c) (the (pf_idempotency_key f)) (mk_projects m) = None"
  shows "create_project lib now' c f rq' n = (Inr rec, n) \<and>
    (\<forall>g. pf_idempotency_key g = pf_idempotency_key f \<and> pf_mode g \<in> supply_modes \<and>
       (\<exists>name ps. validate_name (pf_display_name g) = Inr name \<and> validate_protocols (pf_protocols g) = Inr ps \<and>
          request_digest lib name (pf_mode g) ps \<noteq>
            request_digest lib (pj_display_name rec) (pf_mode f) (map pt_protocol (pj_protocols rec))) \<longrightarrow>
       create_project lib now' c g rq' n = (Inl (ProjectError PJ_idempotency_conflict 409), n))"
proof -
  have replay: "project_replay (ca_id c) (pf_idempotency_key f) d m = (Inr None, m)" for d
    using key fresh by (simp add: project_replay_def run)
  let ?d = "\<lambda>name ps. request_digest lib name (pf_mode f) ps"
  from first obtain name ps where buyer: "acts_as ''buyer'' (ca_role c) (ca_workspace c)"
    and name: "validate_name (pf_display_name f) = Inr name" and mode: "pf_mode f \<in> supply_modes"
    and ps: "validate_protocols (pf_protocols f) = Inr ps"
    and rec: "rec = new_project now (mk_next m) (ca_id c) name ps f"
    and idem: "project_get_idempotency (ca_id c) (the (pf_idempotency_key f)) (mk_projects n) =
        Some (?d name ps, Some (mk_next m))"
    and stored: "the_project (mk_next m) n = Some rec"
    using key
    by (auto simp: create_project_def Let_def bindE_Inr run_Inr_iff rethrow_Inr replay new_uuid_run when_op_def
        project_buyer_def require_buyer_def on_store_Inr project_create_def project_put_idempotency_def
        project_audit_def project_get_idempotency_def the_project_def project_of_def write_project_def new_project_def)
  have dig: "pj_display_name rec = name" "map pt_protocol (pj_protocols rec) = ps"
    by (simp_all add: rec new_project_def comp_def)
  show ?thesis
  proof (intro conjI allI impI)
    show "create_project lib now' c f rq' n = (Inr rec, n)"
      using buyer name mode ps key idem stored
      by (simp add: create_project_def Let_def run project_buyer_def require_buyer_def project_replay_def)
  next
    fix g :: project_form
    assume "pf_idempotency_key g = pf_idempotency_key f \<and> pf_mode g \<in> supply_modes \<and>
       (\<exists>name ps. validate_name (pf_display_name g) = Inr name \<and> validate_protocols (pf_protocols g) = Inr ps \<and>
          request_digest lib name (pf_mode g) ps \<noteq>
            request_digest lib (pj_display_name rec) (pf_mode f) (map pt_protocol (pj_protocols rec)))"
    then show "create_project lib now' c g rq' n = (Inl (ProjectError PJ_idempotency_conflict 409), n)"
      using buyer key idem dig
      by (auto simp: create_project_def Let_def run project_buyer_def require_buyer_def project_replay_def)
  qed
qed

theorem create_project_idempotent_witness:
  "\<exists>rec n. create_project demo_lib 1 demo_buyer demo_project ''a'' empty_market = (Inr rec, n) \<and>
     create_project demo_lib 2 demo_buyer demo_project ''b'' n = (Inr rec, n)"
proof -
  have "isl (fst (create_project demo_lib 1 demo_buyer demo_project ''a'' empty_market)) = False" by code_simp
  then obtain rec n where created: "create_project demo_lib 1 demo_buyer demo_project ''a'' empty_market = (Inr rec, n)"
    by (cases "create_project demo_lib 1 demo_buyer demo_project ''a'' empty_market") (auto simp: isl_def, metis sum.exhaust)
  from create_project_idempotent[OF this] created show ?thesis
    by (auto simp: demo_project_def project_get_idempotency_def empty_market_def)
qed

section \<open>Observations on the API service\<close>

text \<open>
  Behaviour of the code that the model brings out and that its comments, its tests or its other
  operations do not intend, each as a fact of the model (general, or evaluated on a run of calls).
\<close>

text \<open>A failed publication has already retired the binding that was active.\<close>

lemma publish_conflict_retires:
  "binding_of s (bd_id rec) \<noteq> None \<Longrightarrow>
     list_ex (rival_dedicated rec) (dict_values (bs_by_id (retire_in now (rival_active rec) s))) \<Longrightarrow>
     publish_atomic now rec s = (Inl PublishConflict, retire_in now (rival_active rec) s)"
  by (auto simp: publish_atomic_def run)

text \<open>The event of a suspension is misspelt.\<close>

lemma suspend_event: "transition_event ''suspend'' = ''project.suspendd''"
  by (simp add: transition_event_def)

text \<open>A binding of an archived project can still be published.\<close>

lemma archived_project_published:
  "map_option pj_status (the_project 1 (run_calls demo_env
      [(6, [], Transition_project 1 demo_buyer ''archive''), (7, [], Publish_binding 2 demo_buyer)] drafted)) = Some Pj_archived"
  "map_option bd_status (the_binding 2 (run_calls demo_env
      [(6, [], Transition_project 1 demo_buyer ''archive''), (7, [], Publish_binding 2 demo_buyer)] drafted)) = Some Bs_active"
  by code_simp+

text \<open>A binding can be published on a retired connection.\<close>

lemma retired_connection_published:
  "map_option co_lifecycle_state (the_connection 0 (run_calls demo_env
      [(6, [], Drain 0 demo_seller), (7, [], Retire 0 demo_seller), (8, [], Publish_binding 2 demo_buyer)] drafted)) =
    Some Lc_retired"
  "map_option bd_status (the_binding 2 (run_calls demo_env
      [(6, [], Drain 0 demo_seller), (7, [], Retire 0 demo_seller), (8, [], Publish_binding 2 demo_buyer)] drafted)) =
    Some Bs_active"
  by code_simp+

definition on_connection :: "uuid \<Rightarrow> binding_form" where
  "on_connection cid = demo_binding\<lparr>bf_connection := Some cid\<rparr>"

definition shadowed :: market where
  "shadowed = run_calls demo_env
     [(10, [], Create_connection [9] demo_seller demo_form), (11, [], Create_connection [9] demo_seller demo_form),
      (12, [], Create_connection [9] demo_seller demo_form),
      (13, [], Verify 0 5 demo_seller True), (14, [], List_supply 5 demo_seller),
      (15, [], Create_binding demo_buyer (on_connection 3)), (16, [], Publish_binding 6 demo_buyer),
      (17, [], Delete_connection 3 demo_seller),
      (18, [], Create_binding demo_buyer (on_connection 4)), (19, [], Publish_binding 7 demo_buyer),
      (20, [], Delete_connection 4 demo_seller),
      (21, [], Replace_binding 2 demo_buyer 5 True ''r'' True)] closed"

definition standing :: "uuid \<Rightarrow> market \<Rightarrow> (binding_status \<times> int) option" where
  "standing bid m = map_option (\<lambda>b. (bd_status b, bd_version b)) (the_binding bid m)"

definition shadow_report :: "market \<Rightarrow> (binding_status \<times> int) option list \<times> (api_error + ticket)" where
  "shadow_report m = (map (\<lambda>bid. standing bid m) [2, 6, 7],
     fst (admit 1 ''openai'' ''openai'' None demo_buyer m))"

text \<open>
  After a replacement an active binding (version 2) stands beside a degraded one of a greater version (3)
  and one of the same version; the active one is not consulted and admission refuses.
\<close>

lemma degraded_shadows_active:
  "shadow_report shadowed =
     ([Some (Bs_active, 2), Some (Bs_degraded, 2), Some (Bs_degraded, 3)], Inl (BindingError BD_degraded 409))"
  by code_simp

end
