(* ===== verification/Proxy_Keys.thy ===== *)
theory Proxy_Keys
  imports Projects
begin

section \<open>Proxy keys\<close>

text \<open>
  \<^verbatim>\<open>proxykeys/service.py\<close> (the key record, \<^verbatim>\<open>MemoryProxyStore\<close>, \<^verbatim>\<open>ProxyKeyService\<close>) and
  \<^verbatim>\<open>domain/owners.py\<close>. The store's two dictionaries hold the same key objects, and the service changes
  an object it has looked up in place: an object is identified by its key identifier, so \<open>ks_by_hash\<close>
  maps a hash to the identifier and \<open>ks_by_id\<close> to the record. The random bytes of a secret and the
  parsing of IP networks and addresses are arguments.
\<close>

subsection \<open>Owners\<close>

record owner_state =
  os_status :: string
  os_role :: string
  os_is_deleted :: bool

definition owner_can_use_proxy_keys :: "string \<Rightarrow> string \<Rightarrow> bool \<Rightarrow> bool" where
  "owner_can_use_proxy_keys status role is_deleted \<longleftrightarrow>
     \<not> is_deleted \<and> status = ''active'' \<and> role \<in> {''buyer'', ''both''}"

definition owner_can_route_seller_keys :: "string \<Rightarrow> string \<Rightarrow> bool \<Rightarrow> bool" where
  "owner_can_route_seller_keys status role is_deleted \<longleftrightarrow>
     \<not> is_deleted \<and> status = ''active'' \<and> role \<in> {''seller'', ''both''}"

definition owner_state_allows_proxy :: "owner_state option \<Rightarrow> bool" where
  "owner_state_allows_proxy owner \<longleftrightarrow> (case owner of
       None \<Rightarrow> False
     | Some x \<Rightarrow> owner_can_use_proxy_keys (os_status x) (os_role x) (os_is_deleted x))"

definition owner_state_allows_seller :: "owner_state option \<Rightarrow> bool" where
  "owner_state_allows_seller owner \<longleftrightarrow> (case owner of
       None \<Rightarrow> False
     | Some x \<Rightarrow> owner_can_route_seller_keys (os_status x) (os_role x) (os_is_deleted x))"

subsection \<open>Keys and their store\<close>

datatype key_status = Ks_active | Ks_disabled | Ks_revoked

record issued_key =
  ik_id :: uuid
  ik_buyer :: uuid
  ik_platform :: string
  ik_secret_once :: "string option"
  ik_status :: key_status
  ik_masked_suffix :: string
  ik_masked_prefix :: string
  ik_name :: "string option"
  ik_replayed :: bool
  ik_project :: "uuid option"
  ik_protocols :: "string list"
  ik_allowed_models :: "string list"
  ik_allowed_cidrs :: "string list"
  ik_quota_period :: "string option"
  ik_quota_limit :: "int option"
  ik_expires_at :: "instant option"
  ik_secret_hash :: "string option"

record key_store =
  ks_by_hash :: "(string, uuid) dict"
  ks_by_id :: "(uuid, issued_key) dict"
  ks_idem :: "(uuid \<times> string, string \<times> uuid option) dict"
  ks_hashes :: "(uuid, string) dict"
  ks_owners :: "(uuid, owner_state) dict"
  ks_quota :: "(uuid \<times> instant, int) dict"

type_synonym 'a key_op = "(key_store, api_error, 'a) op"

definition set_owner :: "uuid \<Rightarrow> string \<Rightarrow> string \<Rightarrow> bool \<Rightarrow> unit key_op" where
  "set_owner user status role is_deleted = modify (\<lambda>s. s\<lparr>ks_owners := dict_set user
     \<lparr>os_status = status, os_role = role, os_is_deleted = is_deleted\<rparr> (ks_owners s)\<rparr>)"

definition key_of :: "key_store \<Rightarrow> uuid \<Rightarrow> issued_key option" where
  "key_of s kid = dict_get (ks_by_id s) kid"

definition write_key :: "uuid \<Rightarrow> issued_key \<Rightarrow> key_store \<Rightarrow> key_store" where
  "write_key kid rec s = s\<lparr>ks_by_id := dict_set kid rec (ks_by_id s)\<rparr>"

definition get_by_hash :: "string \<Rightarrow> key_store \<Rightarrow> issued_key option" where
  "get_by_hash h s = (case dict_get (ks_by_hash s) h of
       None \<Rightarrow> None
     | Some kid \<Rightarrow> (case key_of s kid of
         None \<Rightarrow> None
       | Some rec \<Rightarrow> if owner_state_allows_proxy (dict_get (ks_owners s) (ik_buyer rec)) then Some rec else None))"

definition insert_key :: "issued_key \<Rightarrow> string \<Rightarrow> unit key_op" where
  "insert_key rec h = modify (\<lambda>s.
     let stored = rec\<lparr>ik_secret_hash := Some h, ik_secret_once := None\<rparr>;
         t = write_key (ik_id rec) stored s
     in t\<lparr>ks_by_hash := dict_set h (ik_id rec) (ks_by_hash s),
          ks_hashes := dict_set (ik_id rec) h (ks_hashes s),
          ks_owners := (if dict_get (ks_owners s) (ik_buyer rec) = None
             then dict_set (ik_buyer rec) \<lparr>os_status = ''active'', os_role = ''buyer'', os_is_deleted = False\<rparr>
                    (ks_owners s)
             else ks_owners s)\<rparr>)"

definition save_key :: "issued_key \<Rightarrow> unit key_op" where
  "save_key rec = modify (\<lambda>s.
     let t = write_key (ik_id rec) rec s in
     case dict_get (ks_hashes s) (ik_id rec) of
       None \<Rightarrow> t
     | Some h \<Rightarrow> if h = [] then t else t\<lparr>ks_by_hash := dict_set h (ik_id rec) (ks_by_hash s)\<rparr>)"

definition list_by_buyer :: "uuid \<Rightarrow> key_store \<Rightarrow> issued_key list" where
  "list_by_buyer buyer s = filter (\<lambda>r. ik_buyer r = buyer) (dict_values (ks_by_id s))"

definition key_get_idempotency :: "uuid \<Rightarrow> string \<Rightarrow> key_store \<Rightarrow> (string \<times> uuid option) option" where
  "key_get_idempotency actor key s = dict_get (ks_idem s) (actor, key)"

definition key_put_idempotency :: "string \<Rightarrow> uuid \<Rightarrow> string \<Rightarrow> uuid option \<Rightarrow> unit key_op" where
  "key_put_idempotency key buyer digest kid =
     modify (\<lambda>s. s\<lparr>ks_idem := dict_set (buyer, key) (digest, kid) (ks_idem s)\<rparr>)"

definition list_by_project :: "uuid \<Rightarrow> key_store \<Rightarrow> issued_key list" where
  "list_by_project pid s = filter (\<lambda>r. ik_project r = Some pid) (dict_values (ks_by_id s))"

definition replace_hash :: "issued_key \<Rightarrow> string \<Rightarrow> unit key_op" where
  "replace_hash rec h = modify (\<lambda>s.
     let persisted = rec\<lparr>ik_secret_hash := Some h, ik_secret_once := None\<rparr>;
         cleared = (case dict_get (ks_hashes s) (ik_id rec) of
                      None \<Rightarrow> ks_by_hash s
                    | Some old \<Rightarrow> if old = [] then ks_by_hash s else dict_del old (ks_by_hash s))
     in (write_key (ik_id rec) persisted s)
          \<lparr>ks_hashes := dict_set (ik_id rec) h (ks_hashes s),
           ks_by_hash := dict_set h (ik_id rec) cleared\<rparr>)"

definition consume_quota :: "uuid \<Rightarrow> instant \<Rightarrow> int \<Rightarrow> bool key_op" where
  "consume_quota kid period_start limit =
     bindE (gets (\<lambda>s. case dict_get (ks_quota s) (kid, period_start) of None \<Rightarrow> 0 | Some n \<Rightarrow> n)) (\<lambda>cur.
     if cur \<ge> limit then ret False
     else bindE (modify (\<lambda>s. s\<lparr>ks_quota := dict_set (kid, period_start) (cur + 1) (ks_quota s)\<rparr>)) (\<lambda>_.
          ret True))"

definition stored_hash :: "uuid \<Rightarrow> key_store \<Rightarrow> string option" where
  "stored_hash kid s = dict_get (ks_hashes s) kid"

subsection \<open>Secrets\<close>

text \<open>What the service is built with, and the IP functions of the standard library.\<close>

record key_env =
  ke_crypto :: cryptolib
  ke_pepper :: bytes
  ke_network :: "string \<Rightarrow> bool"
  ke_address :: "string \<Rightarrow> bool"
  ke_within :: "string \<Rightarrow> string \<Rightarrow> bool"

definition hash_proxy_secret :: "key_env \<Rightarrow> string \<Rightarrow> string" where
  "hash_proxy_secret env secret = hexdigest (hmac256 (ke_crypto env) (ke_pepper env) (utf8_encode secret))"

definition generate_proxy_secret :: "bytes \<Rightarrow> string" where
  "generate_proxy_secret random = ''tmk-'' @ hexdigest random"

definition mask :: "string \<Rightarrow> string" where
  "mask secret = (if length secret < 8 then ''****'' else drop (length secret - 4) secret)"

definition digest_text :: "key_env \<Rightarrow> string \<Rightarrow> string" where
  "digest_text env t = hexdigest (sha256 (ke_crypto env) (utf8_encode t))"

subsection \<open>Authorization\<close>

definition digest_ok :: "string \<Rightarrow> issued_key option \<Rightarrow> key_store \<Rightarrow> bool" where
  "digest_ok computed found s = (case found of
       None \<Rightarrow> False
     | Some rec \<Rightarrow>
         let dummy = replicate 64 (CHR ''0'');
             stored = (case ik_secret_hash rec of None \<Rightarrow> stored_hash (ik_id rec) s | Some h \<Rightarrow> Some h);
             left = (if length computed = 64 then computed else dummy);
             right = (case stored of None \<Rightarrow> dummy | Some h \<Rightarrow> if h \<noteq> [] \<and> length h = 64 then h else dummy)
         in left = right \<and> stored = Some computed)"

text \<open>
  The day of the month of a day number (days since 1970-01-01), by the arithmetic of the proleptic
  Gregorian calendar that \<^verbatim>\<open>datetime\<close> implements.
\<close>

definition day_of_month :: "int \<Rightarrow> int" where
  "day_of_month days =
     (let z = days + 719468;
          doe = z mod 146097;
          yoe = (doe - doe div 1460 + doe div 36524 - doe div 146096) div 365;
          doy = doe - (365 * yoe + yoe div 4 - yoe div 100);
          mp = (5 * doy + 2) div 153
      in doy - (153 * mp + 2) div 5 + 1)"

definition period_start :: "instant \<Rightarrow> string \<Rightarrow> instant" where
  "period_start now period =
     (let day = hours 24; days = now div day in
      if period = ''month'' then (days - (day_of_month days - 1)) * day else days * day)"

definition ip_allowed :: "key_env \<Rightarrow> issued_key \<Rightarrow> string option \<Rightarrow> bool" where
  "ip_allowed env rec client_ip =
     (if ik_allowed_cidrs rec = [] then True
      else case client_ip of
          None \<Rightarrow> False
        | Some ip \<Rightarrow> ip \<noteq> [] \<and> ke_address env ip \<and>
            list_ex (\<lambda>raw. ke_network env raw \<and> ke_within env ip raw) (ik_allowed_cidrs rec))"

text \<open>A request: the protocol, the model and the client address it names.\<close>

record key_request =
  kr_protocol :: "string option"
  kr_model :: "string option"
  kr_client_ip :: "string option"

definition in_scope :: "key_env \<Rightarrow> instant \<Rightarrow> key_request \<Rightarrow> issued_key \<Rightarrow> bool" where
  "in_scope env now q rec \<longleftrightarrow>
     ik_status rec = Ks_active \<and>
     (case ik_expires_at rec of None \<Rightarrow> True | Some t \<Rightarrow> \<not> now \<ge> t) \<and>
     (ik_protocols rec \<noteq> [] \<longrightarrow> (case kr_protocol q of None \<Rightarrow> False | Some p \<Rightarrow> p \<in> set (ik_protocols rec))) \<and>
     (ik_allowed_models rec \<noteq> [] \<longrightarrow>
        (case kr_model q of None \<Rightarrow> False | Some x \<Rightarrow> x \<in> set (ik_allowed_models rec))) \<and>
     ip_allowed env rec (kr_client_ip q)"

definition scope_ok :: "key_env \<Rightarrow> instant \<Rightarrow> key_request \<Rightarrow> issued_key \<Rightarrow> bool key_op" where
  "scope_ok env now q rec =
     (if \<not> in_scope env now q rec then ret False
      else case (ik_quota_limit rec, ik_quota_period rec) of
          (Some limit, Some period) \<Rightarrow>
            if period = [] then ret True
            else consume_quota (ik_id rec) (period_start now period) limit
        | _ \<Rightarrow> ret True)"

definition authorize_hash :: "key_env \<Rightarrow> instant \<Rightarrow> key_request \<Rightarrow> string \<Rightarrow> issued_key option key_op" where
  "authorize_hash env now q h =
     bindE (gets (get_by_hash h)) (\<lambda>found.
     bindE (gets (digest_ok h found)) (\<lambda>matched.
     if \<not> matched then ret None
     else bindE (scope_ok env now q (the found)) (\<lambda>scoped.
       if \<not> scoped then ret None
       else bindE (gets (get_by_hash h)) (\<lambda>again.
         ret (if again = None then None else Some (the found))))))"

definition authorize :: "key_env \<Rightarrow> instant \<Rightarrow> key_request \<Rightarrow> string \<Rightarrow> issued_key option key_op" where
  "authorize env now q secret =
     (if \<not> starts_with secret ''tmk-'' \<or> length secret < 4 + 32 then ret None
      else authorize_hash env now q (hash_proxy_secret env secret))"

definition lookup_runtime :: "string \<Rightarrow> key_store \<Rightarrow> issued_key option" where
  "lookup_runtime h s = (case get_by_hash h s of
       None \<Rightarrow> None | Some rec \<Rightarrow> if ik_status rec \<noteq> Ks_active then None else Some rec)"

subsection \<open>Issuing and managing keys\<close>

text \<open>The service runs over the stores of projects and bindings and over its own.\<close>

record desk =
  dk_market :: market
  dk_keys :: key_store

type_synonym 'a desk_op = "(desk, api_error, 'a) op"

definition on_keys :: "'a key_op \<Rightarrow> 'a desk_op" where
  "on_keys = zoom dk_keys (\<lambda>t d. d\<lparr>dk_keys := t\<rparr>) (\<lambda>e. e)"

definition on_market :: "'a market_op \<Rightarrow> 'a desk_op" where
  "on_market = zoom dk_market (\<lambda>t d. d\<lparr>dk_market := t\<rparr>) (\<lambda>e. e)"

definition key_role :: "string \<Rightarrow> api_error \<Rightarrow> unit desk_op" where
  "key_role role err = require (role \<in> {''buyer'', ''both''}) err"

text \<open>
  The replay of an idempotent request: the record found is marked replayed in place and returned.
\<close>

definition key_replay :: "uuid \<Rightarrow> string option \<Rightarrow> string \<Rightarrow> issued_key option desk_op" where
  "key_replay buyer key digest =
     (if \<not> truthy key then ret None
      else bindE (gets (\<lambda>d. key_get_idempotency buyer (the key) (dk_keys d))) (\<lambda>existing.
        case existing of
          None \<Rightarrow> ret None
        | Some (prev_digest, prev_id) \<Rightarrow>
            bindE (require (prev_digest = digest) (ProxyKeyError PK_idempotency_conflict 409)) (\<lambda>_.
            bindE (of_option (ProxyKeyError PK_temporary_unavailable 503) prev_id) (\<lambda>kid.
            bindE (gets (\<lambda>d. key_of (dk_keys d) kid)) (\<lambda>found.
            bindE (of_option (ProxyKeyError PK_temporary_unavailable 503) found) (\<lambda>rec.
            let changed = rec\<lparr>ik_secret_once := None, ik_replayed := True\<rparr> in
            bindE (on_keys (modify (write_key (ik_id rec) changed))) (\<lambda>_. ret (Some changed))))))))"

definition store_new_key ::
  "key_env \<Rightarrow> string option \<Rightarrow> string \<Rightarrow> string \<Rightarrow> issued_key \<Rightarrow> issued_key desk_op" where
  "store_new_key env key digest secret rec =
     bindE (on_keys (insert_key rec (hash_proxy_secret env secret))) (\<lambda>_.
     bindE (when_op (truthy key)
       (on_keys (key_put_idempotency (the key) (ik_buyer rec) digest (Some (ik_id rec))))) (\<lambda>_.
     ret (rec\<lparr>ik_secret_hash := Some (hash_proxy_secret env secret)\<rparr>)))"

definition platform_key :: "uuid \<Rightarrow> uuid \<Rightarrow> string \<Rightarrow> string option \<Rightarrow> string \<Rightarrow> issued_key" where
  "platform_key kid buyer platform name secret =
     \<lparr>ik_id = kid, ik_buyer = buyer, ik_platform = platform, ik_secret_once = Some secret,
      ik_status = Ks_active, ik_masked_suffix = mask secret, ik_masked_prefix = ''tmk-'', ik_name = name,
      ik_replayed = False, ik_project = None, ik_protocols = [], ik_allowed_models = [],
      ik_allowed_cidrs = [], ik_quota_period = None, ik_quota_limit = None, ik_expires_at = None,
      ik_secret_hash = None\<rparr>"

definition issue ::
  "key_env \<Rightarrow> bytes \<Rightarrow> uuid \<Rightarrow> string \<Rightarrow> string option \<Rightarrow> string \<Rightarrow> string option \<Rightarrow> issued_key desk_op" where
  "issue env random buyer platform name role key =
     bindE (key_role role (ProxyKeyError PK_unauthorized 403)) (\<lambda>_.
     bindE (require (platform = ''volcano'') (ProxyKeyError PK_unsupported_platform 400)) (\<lambda>_.
     let digest = digest_text env (platform @ ''|'' @ or_str name []) in
     bindE (key_replay buyer key digest) (\<lambda>replayed. case replayed of
       Some rec \<Rightarrow> ret rec
     | None \<Rightarrow> bindE (on_market new_uuid) (\<lambda>kid.
         let secret = generate_proxy_secret random in
         store_new_key env key digest secret (platform_key kid buyer platform name secret)))))"

record scope_form =
  sf_protocols :: "string list"
  sf_name :: "string option"
  sf_models :: "string list"
  sf_cidrs :: "string list"
  sf_quota_period :: "string option"
  sf_quota_limit :: "int option"
  sf_expires_at :: "instant option"

definition valid_scope :: "key_env \<Rightarrow> scope_form \<Rightarrow> bool" where
  "valid_scope env f \<longleftrightarrow>
     sf_protocols f \<noteq> [] \<and> set (sf_protocols f) \<subseteq> protocols_known \<and>
     list_all (ke_network env) (sf_cidrs f) \<and>
     (sf_quota_period f = None \<longleftrightarrow> sf_quota_limit f = None) \<and>
     (case sf_quota_limit f of None \<Rightarrow> True | Some n \<Rightarrow> \<not> n < 1) \<and>
     (case sf_quota_period f of None \<Rightarrow> True | Some p \<Rightarrow> p \<in> {''day'', ''month''})"

definition require_project :: "uuid \<Rightarrow> uuid \<Rightarrow> project desk_op" where
  "require_project pid buyer =
     bindE (gets (\<lambda>d. live_project pid buyer (dk_market d))) (\<lambda>found.
     bindE (of_option (ProxyKeyError PK_not_found 404) found) (\<lambda>rec.
     bindE (require (pj_status rec \<noteq> Pj_archived) (ProxyKeyError PK_illegal_state_transition 409)) (\<lambda>_.
     ret rec)))"

definition buyer_caller :: "uuid \<Rightarrow> caller" where
  "buyer_caller buyer = \<lparr>ca_id = buyer, ca_role = ''buyer'', ca_workspace = Some ''buyer''\<rparr>"

definition binding_models :: "uuid \<Rightarrow> uuid \<Rightarrow> string \<Rightarrow> market \<Rightarrow> string list" where
  "binding_models pid buyer protocol m = (case fst (active_binding pid protocol (buyer_caller buyer) m) of
       Inl e \<Rightarrow> [] | Inr rec \<Rightarrow> bd_allowed_models rec)"

definition check_binding :: "uuid \<Rightarrow> uuid \<Rightarrow> string list \<Rightarrow> string \<Rightarrow> unit desk_op" where
  "check_binding pid buyer models protocol =
     bindE (gets (\<lambda>d. has_enabled_binding buyer pid protocol (dk_market d))) (\<lambda>bound.
     bindE (require bound (ProxyKeyError PK_provider_binding_required 409)) (\<lambda>_.
     bindE (gets (\<lambda>d. binding_models pid buyer protocol (dk_market d))) (\<lambda>allowed.
     require (\<not> (models \<noteq> [] \<and> allowed \<noteq> [] \<and> list_ex (\<lambda>x. x \<notin> set allowed) models))
       (ProxyKeyError PK_scope_exceeded 409))))"

definition assert_binding_subset :: "uuid \<Rightarrow> uuid \<Rightarrow> string list \<Rightarrow> string list \<Rightarrow> unit desk_op" where
  "assert_binding_subset pid buyer protocols models = for_each (check_binding pid buyer models) protocols"

definition project_key :: "uuid \<Rightarrow> uuid \<Rightarrow> uuid \<Rightarrow> scope_form \<Rightarrow> string \<Rightarrow> issued_key" where
  "project_key kid buyer pid f secret =
     (platform_key kid buyer ''project'' (sf_name f) secret)
       \<lparr>ik_project := Some pid, ik_protocols := sf_protocols f, ik_allowed_models := sf_models f,
        ik_allowed_cidrs := sf_cidrs f, ik_quota_period := sf_quota_period f,
        ik_quota_limit := sf_quota_limit f, ik_expires_at := sf_expires_at f\<rparr>"

definition issue_for_project ::
  "key_env \<Rightarrow> bytes \<Rightarrow> uuid \<Rightarrow> uuid \<Rightarrow> scope_form \<Rightarrow> string \<Rightarrow> string option \<Rightarrow> string option \<Rightarrow> issued_key desk_op" where
  "issue_for_project env random buyer pid f role workspace key =
     bindE (require (role \<in> {''buyer'', ''both''} \<and> (workspace = None \<or> workspace = Some ''buyer''))
              (ProxyKeyError PK_forbidden_role 403)) (\<lambda>_.
     bindE (require (valid_scope env f) (ProxyKeyError PK_validation 400)) (\<lambda>_.
     bindE (require_project pid buyer) (\<lambda>project.
     bindE (assert_binding_subset pid buyer (sf_protocols f) (sf_models f)) (\<lambda>_.
     let digest = digest_text env (nat_str pid @ ''|'' @ join_with '','' (sf_protocols f) @ ''|'' @
                     or_str (sf_name f) []) in
     bindE (key_replay buyer key digest) (\<lambda>replayed. case replayed of
       Some rec \<Rightarrow> ret rec
     | None \<Rightarrow> bindE (on_market new_uuid) (\<lambda>kid.
         let secret = generate_proxy_secret random in
         store_new_key env key digest secret (project_key kid buyer (pj_id project) f secret)))))))"

definition owned_key :: "uuid \<Rightarrow> uuid \<Rightarrow> uuid \<Rightarrow> issued_key desk_op" where
  "owned_key kid buyer pid =
     bindE (gets (\<lambda>d. key_of (dk_keys d) kid)) (\<lambda>found.
     bindE (of_option (ProxyKeyError PK_not_found 404) found) (\<lambda>rec.
     bindE (require (ik_buyer rec = buyer \<and> ik_project rec = Some pid) (ProxyKeyError PK_not_found 404)) (\<lambda>_.
     ret rec)))"

definition rotate_key :: "key_env \<Rightarrow> bytes \<Rightarrow> uuid \<Rightarrow> uuid \<Rightarrow> uuid \<Rightarrow> string \<Rightarrow> issued_key desk_op" where
  "rotate_key env random kid buyer pid role =
     bindE (key_role role (ProxyKeyError PK_forbidden_role 403)) (\<lambda>_.
     bindE (owned_key kid buyer pid) (\<lambda>found.
     bindE (require (ik_status found \<noteq> Ks_revoked) (ProxyKeyError PK_not_found 404)) (\<lambda>_.
     let secret = generate_proxy_secret random;
         rec = found\<lparr>ik_secret_once := Some secret, ik_masked_suffix := mask secret,
                     ik_replayed := False, ik_status := Ks_active\<rparr> in
     bindE (on_keys (replace_hash rec (hash_proxy_secret env secret))) (\<lambda>_.
     ret (rec\<lparr>ik_secret_hash := Some (hash_proxy_secret env secret)\<rparr>)))))"

definition keep_as :: "key_status \<Rightarrow> issued_key \<Rightarrow> issued_key desk_op" where
  "keep_as status found =
     (let rec = found\<lparr>ik_status := status, ik_secret_once := None\<rparr> in
      bindE (on_keys (save_key rec)) (\<lambda>_. ret rec))"

definition revoke_key :: "uuid \<Rightarrow> uuid \<Rightarrow> string \<Rightarrow> issued_key desk_op" where
  "revoke_key kid buyer role =
     bindE (key_role role (ProxyKeyError PK_unauthorized 403)) (\<lambda>_.
     bindE (gets (\<lambda>d. key_of (dk_keys d) kid)) (\<lambda>found.
     bindE (of_option (ProxyKeyError PK_not_found 404) found) (\<lambda>rec.
     bindE (require (ik_buyer rec = buyer) (ProxyKeyError PK_not_found 404)) (\<lambda>_.
     keep_as Ks_revoked rec))))"

definition list_mine_keys :: "uuid \<Rightarrow> string \<Rightarrow> issued_key list desk_op" where
  "list_mine_keys buyer role = bindE (key_role role (ProxyKeyError PK_unauthorized 403)) (\<lambda>_.
     gets (\<lambda>d. list_by_buyer buyer (dk_keys d)))"

definition disable_key :: "uuid \<Rightarrow> uuid \<Rightarrow> uuid \<Rightarrow> issued_key desk_op" where
  "disable_key kid buyer pid = bindE (owned_key kid buyer pid) (\<lambda>rec.
     bindE (require (ik_status rec \<noteq> Ks_revoked) (ProxyKeyError PK_not_found 404)) (\<lambda>_.
     keep_as Ks_disabled rec))"

definition enable_key :: "uuid \<Rightarrow> uuid \<Rightarrow> uuid \<Rightarrow> issued_key desk_op" where
  "enable_key kid buyer pid = bindE (owned_key kid buyer pid) (\<lambda>rec.
     bindE (require (ik_status rec \<noteq> Ks_revoked) (ProxyKeyError PK_illegal_state_transition 409)) (\<lambda>_.
     keep_as Ks_active rec))"

definition revoke_project_key :: "uuid \<Rightarrow> uuid \<Rightarrow> uuid \<Rightarrow> issued_key desk_op" where
  "revoke_project_key kid buyer pid = bindE (owned_key kid buyer pid) (keep_as Ks_revoked)"

definition list_project_keys :: "uuid \<Rightarrow> uuid \<Rightarrow> string \<Rightarrow> issued_key list desk_op" where
  "list_project_keys buyer pid role =
     bindE (key_role role (ProxyKeyError PK_forbidden_role 403)) (\<lambda>_.
     bindE (require_project pid buyer) (\<lambda>_.
     gets (\<lambda>d. filter (\<lambda>r. ik_buyer r = buyer) (list_by_project pid (dk_keys d)))))"

end
