(* ===== verification/Budget.thy ===== *)
theory Budget
  imports Proxy_Keys
begin

section \<open>Test-quota budgets\<close>

text \<open>
  \<^verbatim>\<open>budget/service.py\<close> and \<^verbatim>\<open>budget/ports.py\<close>. The service keeps a policy per project and key and the
  amounts it has admitted (\<open>tl_pending\<close>), and reads the ledger through a view that another process
  fills (\<^verbatim>\<open>MemoryLedgerView.put\<close>). Projects are keyed by \<^verbatim>\<open>str(project_id)\<close>, an injective text of the
  identifier, so by the identifier here. \<^verbatim>\<open>admit\<close> runs under the service's lock.
\<close>

record usage_row =
  ur_request :: string
  ur_key :: string
  ur_status :: string
  ur_amount :: int
  ur_reason :: "string option"
  ur_protocol :: "string option"

record quota_view =
  qv_available :: int
  qv_reserved :: int
  qv_settled :: int
  qv_unresolved :: int
  qv_requests :: "usage_row list"

record budget_policy =
  bp_project :: uuid
  bp_hard :: int
  bp_soft :: int
  bp_key :: "string option"

record till =
  tl_desk :: desk
  tl_views :: "(uuid, quota_view) dict"
  tl_policies :: "(uuid \<times> string option, budget_policy) dict"
  tl_pending :: "(uuid, int) dict"

type_synonym 'a till_op = "(till, api_error, 'a) op"

definition ledger_put :: "uuid \<Rightarrow> quota_view \<Rightarrow> unit till_op" where
  "ledger_put pid view = modify (\<lambda>s. s\<lparr>tl_views := dict_set pid view (tl_views s)\<rparr>)"

definition ledger_overview :: "uuid \<Rightarrow> till \<Rightarrow> quota_view" where
  "ledger_overview pid s = (case dict_get (tl_views s) pid of
       None \<Rightarrow> \<lparr>qv_available = 0, qv_reserved = 0, qv_settled = 0, qv_unresolved = 0, qv_requests = []\<rparr>
     | Some view \<Rightarrow> view)"

definition budget_buyer :: "caller \<Rightarrow> unit till_op" where
  "budget_buyer c = require (acts_as ''buyer'' (ca_role c) (ca_workspace c))
     (BudgetError BG_forbidden_role 403)"

definition budget_owned :: "uuid \<Rightarrow> uuid \<Rightarrow> unit till_op" where
  "budget_owned pid owner =
     bindE (gets (\<lambda>s. fst (owned_project pid owner (dk_market (tl_desk s))))) (\<lambda>found.
     bindE (of_sum found) (\<lambda>_. ret ()))"

definition policy_for :: "uuid \<Rightarrow> string option \<Rightarrow> till \<Rightarrow> budget_policy option" where
  "policy_for pid key s =
     (if truthy key \<and> dict_get (tl_policies s) (pid, key) \<noteq> None then dict_get (tl_policies s) (pid, key)
      else dict_get (tl_policies s) (pid, None))"

definition pending_of :: "uuid \<Rightarrow> till \<Rightarrow> int" where
  "pending_of pid s = (case dict_get (tl_pending s) pid of None \<Rightarrow> 0 | Some n \<Rightarrow> n)"

definition put_policy ::
  "uuid \<Rightarrow> caller \<Rightarrow> int \<Rightarrow> int \<Rightarrow> string option \<Rightarrow> budget_policy till_op" where
  "put_policy pid c hard soft key =
     bindE (budget_buyer c) (\<lambda>_.
     bindE (budget_owned pid (ca_id c)) (\<lambda>_.
     bindE (require (\<not> (hard < 0 \<or> soft < 0 \<or> soft > hard)) (BudgetError BG_validation 400)) (\<lambda>_.
     let pol = \<lparr>bp_project = pid, bp_hard = hard, bp_soft = soft, bp_key = key\<rparr> in
     bindE (modify (\<lambda>s. s\<lparr>tl_policies := dict_set (pid, key) pol (tl_policies s)\<rparr>)) (\<lambda>_. ret pol))))"

record budget_overview =
  bo_view :: quota_view
  bo_hard :: "int option"
  bo_soft :: "int option"
  bo_used :: int
  bo_warning :: bool

definition overview :: "uuid \<Rightarrow> caller \<Rightarrow> string option \<Rightarrow> budget_overview till_op" where
  "overview pid c key =
     bindE (budget_buyer c) (\<lambda>_.
     bindE (budget_owned pid (ca_id c)) (\<lambda>_.
     bindE (gets (ledger_overview pid)) (\<lambda>view.
     bindE (gets (policy_for pid key)) (\<lambda>pol.
     ret \<lparr>bo_view = view, bo_hard = map_option bp_hard pol, bo_soft = map_option bp_soft pol,
          bo_used = qv_reserved view + qv_settled view + qv_unresolved view,
          bo_warning = (case pol of None \<Rightarrow> False | Some p \<Rightarrow> qv_available view \<le> bp_soft p)\<rparr>))))"

text \<open>
  The room for a new reservation: what the ledger has left and, under a policy, what its hard limit
  leaves, both after the amounts admitted so far.
\<close>

definition room_for :: "uuid \<Rightarrow> string option \<Rightarrow> till \<Rightarrow> int" where
  "room_for pid key s =
     (let view = ledger_overview pid s;
          pending = pending_of pid s;
          booked = qv_reserved view + qv_settled view + qv_unresolved view + pending;
          ledger_room = qv_available view - pending;
          hard_room = (case policy_for pid key s of None \<Rightarrow> ledger_room | Some p \<Rightarrow> bp_hard p - booked)
      in min ledger_room hard_room)"

text \<open>The result: the admitted amount, and whether the soft limit is reached.\<close>

definition budget_admit :: "uuid \<Rightarrow> caller \<Rightarrow> int \<Rightarrow> string option \<Rightarrow> (int \<times> bool) till_op" where
  "budget_admit pid c amount key =
     bindE (budget_buyer c) (\<lambda>_.
     bindE (budget_owned pid (ca_id c)) (\<lambda>_.
     bindE (require (\<not> amount \<le> 0) (BudgetError BG_validation 400)) (\<lambda>_.
     bindE (gets (policy_for pid key)) (\<lambda>pol.
     bindE (gets (room_for pid key)) (\<lambda>room.
     bindE (require (\<not> amount > room) (BudgetError BG_hard_limit 409)) (\<lambda>_.
     bindE (modify (\<lambda>s. s\<lparr>tl_pending := dict_set pid (pending_of pid s + amount) (tl_pending s)\<rparr>)) (\<lambda>_.
     ret (amount, case pol of None \<Rightarrow> False | Some p \<Rightarrow> room - amount \<le> bp_soft p))))))))"

definition usage :: "uuid \<Rightarrow> caller \<Rightarrow> string option \<Rightarrow> string option \<Rightarrow> usage_row list till_op" where
  "usage pid c key status =
     bindE (budget_buyer c) (\<lambda>_.
     bindE (budget_owned pid (ca_id c)) (\<lambda>_.
     gets (\<lambda>s. filter (\<lambda>row. \<not> (truthy key \<and> Some (ur_key row) \<noteq> key) \<and>
                         \<not> (truthy status \<and> Some (ur_status row) \<noteq> status))
                 (qv_requests (ledger_overview pid s)))))"

definition checklist :: "string list" where
  "checklist = [''binding'', ''key'', ''sample'', ''result'']"

definition guide_done :: "uuid \<Rightarrow> uuid \<Rightarrow> till \<Rightarrow> string \<Rightarrow> bool" where
  "guide_done pid owner s step =
     (let binding = list_ex (\<lambda>p. has_enabled_binding owner pid p (dk_market (tl_desk s)))
            [''openai'', ''anthropic'', ''vertex''];
          key = list_ex (\<lambda>k. ik_project k = Some pid) (list_by_buyer owner (dk_keys (tl_desk s)));
          view = ledger_overview pid s;
          result = (qv_settled view > 0 \<or> list_ex (\<lambda>r. ur_status r = ''consumed'') (qv_requests view))
      in if step = ''binding'' then binding else if step = ''key'' then key
         else if step = ''sample'' then binding \<and> key else result)"

definition guide :: "uuid \<Rightarrow> caller \<Rightarrow> (string \<times> bool) list till_op" where
  "guide pid c =
     bindE (budget_buyer c) (\<lambda>_.
     bindE (budget_owned pid (ca_id c)) (\<lambda>_.
     gets (\<lambda>s. map (\<lambda>step. (step, guide_done pid (ca_id c) s step)) checklist)))"

subsection \<open>Calls and runs\<close>

text \<open>A client's calls to the service. The ledger view is filled by others.\<close>

datatype budget_call =
    Put_policy uuid caller int int "string option"
  | Overview uuid caller "string option"
  | Budget_admit uuid caller int "string option"
  | Usage uuid caller "string option" "string option"
  | Guide uuid caller

text \<open>A call returns the amount it admits, which is zero for the other calls.\<close>

fun budget_do :: "budget_call \<Rightarrow> int till_op" where
  "budget_do (Put_policy pid c hard soft key) = bindE (put_policy pid c hard soft key) (\<lambda>_. ret 0)"
| "budget_do (Overview pid c key) = bindE (overview pid c key) (\<lambda>_. ret 0)"
| "budget_do (Budget_admit pid c amount key) = bindE (budget_admit pid c amount key) (\<lambda>x. ret (fst x))"
| "budget_do (Usage pid c key status) = bindE (usage pid c key status) (\<lambda>_. ret 0)"
| "budget_do (Guide pid c) = bindE (guide pid c) (\<lambda>_. ret 0)"

fun call_project :: "budget_call \<Rightarrow> uuid" where
  "call_project (Put_policy pid c hard soft key) = pid"
| "call_project (Overview pid c key) = pid"
| "call_project (Budget_admit pid c amount key) = pid"
| "call_project (Usage pid c key status) = pid"
| "call_project (Guide pid c) = pid"

text \<open>A run of calls: the total it admits for a project (refused calls admit nothing), and the end state.\<close>

fun budget_run :: "uuid \<Rightarrow> budget_call list \<Rightarrow> till \<Rightarrow> int \<times> till" where
  "budget_run pid [] s = (0, s)"
| "budget_run pid (call # calls) s =
     (case budget_do call s of (r, t) \<Rightarrow>
        (case budget_run pid calls t of (rest, u) \<Rightarrow>
           ((case r of Inl e \<Rightarrow> 0 | Inr n \<Rightarrow> if call_project call = pid then n else 0) + rest, u)))"

subsection \<open>Facts\<close>

definition may_buy :: "uuid \<Rightarrow> caller \<Rightarrow> till \<Rightarrow> bool" where
  "may_buy pid c s \<longleftrightarrow> acts_as ''buyer'' (ca_role c) (ca_workspace c) \<and>
     live_project pid (ca_id c) (dk_market (tl_desk s)) \<noteq> None"

lemma budget_guard:
  "budget_buyer c s = (if acts_as ''buyer'' (ca_role c) (ca_workspace c) then Inr ()
     else Inl (BudgetError BG_forbidden_role 403), s)"
  "budget_owned pid owner s = (if live_project pid owner (dk_market (tl_desk s)) \<noteq> None then Inr ()
     else Inl (ProjectError PJ_not_found 404), s)"
  by (auto simp: budget_buyer_def budget_owned_def owned_project_def run split: option.splits)

lemmas budget_defs = put_policy_def overview_def budget_admit_def usage_def guide_def

text \<open>Only an admission writes the pending amounts, and no call writes the ledger view.\<close>

lemma budget_do_frame:
  assumes "budget_do call s = (r, t)"
  shows "tl_views t = tl_views s \<and> tl_desk t = tl_desk s \<and>
    (case r of Inl e \<Rightarrow> t = s
     | Inr n \<Rightarrow> 0 \<le> n \<and> (n = 0 \<or> (\<exists>key. n \<le> room_for (call_project call) key s)) \<and>
         (\<forall>pid. pending_of pid t = pending_of pid s + (if call_project call = pid then n else 0)))"
  using assms
  by (cases call)
    (auto simp: budget_defs budget_guard run Let_def pending_of_def not_less
      split: if_splits prod.splits option.splits)

lemma room_frame:
  "tl_views t = tl_views s \<Longrightarrow> ledger_overview pid t = ledger_overview pid s"
  by (simp add: ledger_overview_def)

lemma room_within_ledger: "room_for pid key s \<le> qv_available (ledger_overview pid s) - pending_of pid s"
  by (simp add: room_for_def Let_def)

lemma budget_run_bound:
  "budget_run pid calls s = (got, t) \<Longrightarrow>
     0 \<le> got \<and> pending_of pid t = pending_of pid s + got \<and> tl_views t = tl_views s \<and>
     (got = 0 \<or> pending_of pid t \<le> qv_available (ledger_overview pid s))"
proof (induction calls arbitrary: s got)
  case (Cons call calls)
  obtain r u where do: "budget_do call s = (r, u)" by fastforce
  obtain rest where rest: "budget_run pid calls u = (rest, t)"
    using Cons.prems do by (auto split: prod.splits)
  define n where "n = (case r of Inl e \<Rightarrow> 0 | Inr n \<Rightarrow> if call_project call = pid then n else 0)"
  have got: "got = n + rest" using Cons.prems do rest by (simp add: n_def)
  have step: "0 \<le> n \<and> (n = 0 \<or> (\<exists>key. n \<le> room_for pid key s)) \<and> tl_views u = tl_views s \<and>
      pending_of pid u = pending_of pid s + n"
    using budget_do_frame[OF do] by (auto simp: n_def split: sum.splits)
  with room_within_ledger have here: "n = 0 \<or> pending_of pid u \<le> qv_available (ledger_overview pid s)"
    by (smt (verit, best))
  from Cons.IH[OF rest] step room_frame[of u s pid] here show ?case
    unfolding got by (elim conjE disjE) simp_all
qed simp

text \<open>The hard limit, over a run that reads one policy.\<close>

definition booked :: "uuid \<Rightarrow> till \<Rightarrow> int" where
  "booked pid s = (let view = ledger_overview pid s
     in qv_reserved view + qv_settled view + qv_unresolved view + pending_of pid s)"

fun reads_policy :: "uuid \<Rightarrow> string option \<Rightarrow> budget_call \<Rightarrow> bool" where
  "reads_policy pid key (Put_policy pid' c hard soft key') = False"
| "reads_policy pid key (Budget_admit pid' c amount key') = (pid' = pid \<longrightarrow> key' = key)"
| "reads_policy pid key call = True"

lemma budget_do_policy:
  assumes "budget_do call s = (r, t)" and "reads_policy pid key call" and "policy_for pid key s = Some p"
  shows "policy_for pid key t = Some p \<and>
    (case r of Inl e \<Rightarrow> True
     | Inr n \<Rightarrow> call_project call \<noteq> pid \<or> n = 0 \<or> booked pid s + n \<le> bp_hard p)"
proof (cases call)
  case (Budget_admit pid' c amount key')
  have "n \<le> room_for pid key s \<Longrightarrow> booked pid s + n \<le> bp_hard p" for n
    using assms(3) by (simp add: room_for_def booked_def Let_def)
  with assms Budget_admit show ?thesis
    by (auto simp: budget_defs budget_guard run Let_def not_less policy_for_def split: if_splits)
qed (use assms in \<open>auto simp: budget_defs budget_guard run Let_def split: if_splits\<close>)

lemma budget_run_hard:
  "budget_run pid calls s = (got, t) \<Longrightarrow> list_all (reads_policy pid key) calls \<Longrightarrow>
     policy_for pid key s = Some p \<Longrightarrow> got = 0 \<or> booked pid t \<le> bp_hard p"
proof (induction calls arbitrary: s got)
  case (Cons call calls)
  obtain r u where do: "budget_do call s = (r, u)" by fastforce
  obtain rest where rest: "budget_run pid calls u = (rest, t)"
    using Cons.prems do by (auto split: prod.splits)
  define n where "n = (case r of Inl e \<Rightarrow> 0 | Inr n \<Rightarrow> if call_project call = pid then n else 0)"
  have got: "got = n + rest" using Cons.prems do rest by (simp add: n_def)
  have pol: "policy_for pid key u = Some p" "n = 0 \<or> booked pid s + n \<le> bp_hard p"
    using budget_do_policy[OF do, of pid key p] Cons.prems by (auto simp: n_def split: sum.splits)
  have "booked pid u = booked pid s + n" and "0 \<le> n"
    using budget_do_frame[OF do] by (auto simp: booked_def Let_def ledger_overview_def n_def split: sum.splits)
  moreover have "booked pid t = booked pid u + rest"
    using budget_run_bound[OF rest] by (auto simp: booked_def Let_def ledger_overview_def)
  moreover have "rest = 0 \<or> booked pid t \<le> bp_hard p"
    using Cons.IH[OF rest] Cons.prems pol by simp
  ultimately show ?case using pol(2) got by auto
qed simp

end
