(* ===== verification/Desk_Steps.thy ===== *)
theory Desk_Steps
  imports Budget Market_Samples
begin

section \<open>Runs of the key service\<close>

text \<open>
  What the key store keeps (\<open>keys_ok\<close>), how a key may develop (\<open>key_becomes\<close>), that every operation of
  the key service respects both, and runs of calls to the key service and to the services it reads
  (\<open>desk_step\<close>).
\<close>

interpretation keys_store: keyed_store key_of write_key
  by unfold_locales (simp add: key_of_def write_key_def)

definition key_moves :: "key_status \<Rightarrow> key_status \<Rightarrow> bool" where
  "key_moves a b \<longleftrightarrow> a = Ks_revoked \<longrightarrow> b = Ks_revoked"

interpretation key_machine: status_machine key_moves "\<lambda>s. s = Ks_revoked" "\<lambda>s. if s = Ks_revoked then 1 else 0"
  by unfold_locales (auto simp: key_moves_def)

text \<open>The scope and the owner of a key are fixed; its status, secret and display data move.\<close>

definition key_becomes :: "issued_key \<Rightarrow> issued_key \<Rightarrow> bool" where
  "key_becomes a b \<longleftrightarrow> ik_id b = ik_id a \<and> ik_buyer b = ik_buyer a \<and> ik_project b = ik_project a \<and>
     ik_protocols b = ik_protocols a \<and> ik_allowed_models b = ik_allowed_models a \<and>
     ik_allowed_cidrs b = ik_allowed_cidrs a \<and> ik_quota_period b = ik_quota_period a \<and>
     ik_quota_limit b = ik_quota_limit a \<and> ik_expires_at b = ik_expires_at a \<and>
     key_moves (ik_status a) (ik_status b)"

lemma key_becomes_order: "reflp key_becomes" "transp key_becomes"
  by (auto simp: reflp_def transp_def key_becomes_def key_moves_def)

definition used :: "key_store \<Rightarrow> uuid \<Rightarrow> instant \<Rightarrow> int" where
  "used s kid start = (case dict_get (ks_quota s) (kid, start) of None \<Rightarrow> 0 | Some n \<Rightarrow> n)"

definition within_limit :: "key_store \<Rightarrow> uuid \<times> instant \<Rightarrow> int \<Rightarrow> bool" where
  "within_limit s e n \<longleftrightarrow> 0 \<le> n \<and> (\<exists>rec limit. key_of s (fst e) = Some rec \<and> ik_quota_limit rec = Some limit \<and> n \<le> limit)"

definition keys_ok :: "uuid \<Rightarrow> key_store \<Rightarrow> bool" where
  "keys_ok n s \<longleftrightarrow> all_stored key_of (\<lambda>kid rec. ik_id rec = kid \<and> kid < n) s \<and>
     all_stored (\<lambda>s. dict_get (ks_quota s)) (within_limit s) s"

definition keys_grow :: "key_store \<Rightarrow> key_store \<Rightarrow> bool" where
  "keys_grow s t \<longleftrightarrow> entries_grow key_of key_becomes s t \<and> (\<forall>kid start. used s kid start \<le> used t kid start)"

definition desk_inv :: "desk \<Rightarrow> bool" where
  "desk_inv d \<longleftrightarrow> market_inv (dk_market d) \<and> keys_ok (mk_next (dk_market d)) (dk_keys d)"

definition desk_evolves :: "desk \<Rightarrow> desk \<Rightarrow> bool" where
  "desk_evolves d e \<longleftrightarrow> (desk_inv d \<longrightarrow>
     desk_inv e \<and> market_grows (dk_market d) (dk_market e) \<and> keys_grow (dk_keys d) (dk_keys e))"

lemma keys_grow_refl [simp]: "keys_grow s s"
  by (simp add: keys_grow_def entries_grow_refl key_becomes_order)

lemma keys_grow_trans: "keys_grow s t \<Longrightarrow> keys_grow t u \<Longrightarrow> keys_grow s u"
  unfolding keys_grow_def by (meson entries_grow_trans key_becomes_order(2) order_trans)

interpretation desk_growth: evolution desk_evolves
  by unfold_locales (auto simp: desk_evolves_def intro: keys_grow_trans market_grows_trans)

subsection \<open>Writes of the key store\<close>

definition keys_evolve :: "uuid \<Rightarrow> key_store \<Rightarrow> key_store \<Rightarrow> bool" where
  "keys_evolve n s t \<longleftrightarrow> (keys_ok n s \<longrightarrow> keys_ok n t \<and> keys_grow s t)"

interpretation key_growth: evolution "keys_evolve n" for n
  by unfold_locales (auto simp: keys_evolve_def intro: keys_grow_trans)

lemma goes_on_keys:
  assumes "desk_inv d \<Longrightarrow> goes (keys_evolve (mk_next (dk_market d))) a (dk_keys d)"
  shows "goes desk_evolves (on_keys a) d"
  unfolding on_keys_def
  by (rule goes_zoom) (use assms in \<open>auto simp: goes_def keys_evolve_def desk_evolves_def desk_inv_def\<close>)

lemma goes_on_market:
  assumes "goes market_evolves a (dk_market d)"
  shows "goes desk_evolves (on_market a) d"
  unfolding on_market_def
proof (rule goes_zoom)
  fix m
  assume "snd (a (dk_market d)) = m"
  with assms have "market_evolves (dk_market d) m" by (simp add: goes_def)
  then show "desk_evolves d (d\<lparr>dk_market := m\<rparr>)"
    by (auto simp: desk_evolves_def desk_inv_def market_evolves_def market_grows_def keys_ok_def
        elim: all_stored_mono)
qed

text \<open>A store with the same quota counters, in which one key is written.\<close>

lemma key_written:
  assumes old: "\<And>a. key_of s kid = Some a \<Longrightarrow> key_becomes a rec"
    and rec: "ik_id rec = kid" "kid < n"
    and t: "\<And>k. key_of t k = (if k = kid then Some rec else key_of s k)" "ks_quota t = ks_quota s"
  shows "keys_evolve n s t"
proof -
  have "within_limit t e m" if "within_limit s e m" for e m
    using that old by (fastforce simp: within_limit_def t key_becomes_def)
  with rec show ?thesis
    using old key_becomes_order(1)
    by (auto simp: keys_evolve_def keys_ok_def all_stored_def keys_grow_def entries_grow_def t used_def reflp_def)
qed

lemma key_of_simps [simp]:
  "key_of (s\<lparr>ks_by_hash := h\<rparr>) = key_of s" "key_of (s\<lparr>ks_idem := i\<rparr>) = key_of s"
  "key_of (s\<lparr>ks_hashes := hs\<rparr>) = key_of s" "key_of (s\<lparr>ks_owners := ow\<rparr>) = key_of s"
  "key_of (s\<lparr>ks_quota := q\<rparr>) = key_of s"
  by (simp_all add: key_of_def fun_eq_iff)

lemma write_key_quota [simp]: "ks_quota (write_key kid rec s) = ks_quota s"
  by (simp add: write_key_def)

lemma notes_same:
  "key_of t = key_of s \<Longrightarrow> ks_quota t = ks_quota s \<Longrightarrow> keys_evolve n s t"
  by (auto simp: keys_evolve_def keys_ok_def keys_grow_def all_stored_def within_limit_def used_def
      entries_grow_def key_becomes_order(1)[unfolded reflp_def])

lemma key_notes_evolve:
  "evolves (keys_evolve n) (set_owner user status role del)"
  "evolves (keys_evolve n) (key_put_idempotency key buyer digest kid)"
  by (simp_all add: evolves_def set_owner_def key_put_idempotency_def run notes_same)

text \<open>Rewriting a key that was read.\<close>

lemma rewritten_goes:
  assumes "key_of s kid = Some a" and "key_becomes a rec"
  shows "k = ik_id rec \<Longrightarrow> goes (keys_evolve n) (modify (write_key k rec)) s"
    and "goes (keys_evolve n) (save_key rec) s"
    and "goes (keys_evolve n) (replace_hash rec h) s"
proof -
  have step: "keys_evolve n s t" if t: "\<And>k. key_of t k = (if k = ik_id rec then Some rec' else key_of s k)"
      "ks_quota t = ks_quota s" and rec': "ik_id rec' = ik_id rec" "key_becomes a rec'" for t rec'
  proof (cases "keys_ok n s")
    case True
    with assms(1) have kid: "ik_id a = kid" "kid < n" by (auto simp: keys_ok_def dest: all_storedD)
    with assms have "ik_id rec = kid" by (simp add: key_becomes_def)
    with t rec' kid assms(1) show ?thesis by (intro key_written) auto
  qed (simp add: keys_evolve_def)
  have hashed: "key_becomes a (rec\<lparr>ik_secret_hash := Some h, ik_secret_once := None\<rparr>)"
    using assms(2) by (simp add: key_becomes_def)
  show "k = ik_id rec \<Longrightarrow> goes (keys_evolve n) (modify (write_key k rec)) s"
    unfolding goes_def modify_def snd_conv by (rule step[where rec' = rec]) (simp_all add: keys_store.get_put assms(2))
  show "goes (keys_evolve n) (save_key rec) s"
    unfolding goes_def save_key_def modify_def snd_conv Let_def
    by (rule step[where rec' = rec]) (auto simp: keys_store.get_put assms(2) split: option.splits)
  show "goes (keys_evolve n) (replace_hash rec h) s"
    unfolding goes_def replace_hash_def modify_def snd_conv Let_def
    by (rule step[where rec' = "rec\<lparr>ik_secret_hash := Some h, ik_secret_once := None\<rparr>"])
      (simp_all add: keys_store.get_put hashed)
qed

lemma insert_key_goes:
  assumes "key_of s (ik_id rec) = None" and "ik_id rec < n"
  shows "goes (keys_evolve n) (insert_key rec h) s"
  unfolding goes_def insert_key_def modify_def snd_conv Let_def
  by (rule key_written[where rec = "rec\<lparr>ik_secret_hash := Some h, ik_secret_once := None\<rparr>"])
    (use assms in \<open>simp_all add: keys_store.get_put\<close>)

text \<open>A quota counter moves only below the limit it is compared with.\<close>

lemma consume_quota_run:
  "consume_quota kid start limit s =
     (if used s kid start \<ge> limit then (Inr False, s)
      else (Inr True, s\<lparr>ks_quota := dict_set (kid, start) (used s kid start + 1) (ks_quota s)\<rparr>))"
  by (simp add: consume_quota_def used_def run)

lemma used_after:
  "used (s\<lparr>ks_quota := dict_set (kid, start) n (ks_quota s)\<rparr>) kid' start' =
     (if kid' = kid \<and> start' = start then n else used s kid' start')"
  by (simp add: used_def)

lemma used_nonneg: "keys_ok n s \<Longrightarrow> 0 \<le> used s kid start"
  by (auto simp: keys_ok_def used_def within_limit_def dest: all_storedD split: option.splits)

lemma consume_quota_goes:
  assumes "key_of s kid = Some rec" and "ik_quota_limit rec = Some limit"
  shows "goes (keys_evolve n) (consume_quota kid start limit) s"
  using assms used_nonneg[of n s kid start]
  by (auto simp: goes_def consume_quota_run keys_evolve_def keys_ok_def keys_grow_def all_stored_def
      within_limit_def used_after entries_grow_def key_becomes_order(1)[unfolded reflp_def])

subsection \<open>Operations\<close>

lemmas desk_rules = desk_growth.rules evolve

lemma key_notes_desk:
  "evolves desk_evolves (on_keys (set_owner user status role del))"
  "evolves desk_evolves (on_keys (key_put_idempotency key buyer digest kid))"
  by (rule goes_evolves, rule goes_on_keys, rule evolves_goes, rule key_notes_evolve)+

lemma check_binding_evolves: "evolves desk_evolves (check_binding pid buyer models protocol)"
  unfolding check_binding_def by (intro desk_rules)

lemma key_reads_evolve:
  "evolves desk_evolves (key_role role e)"
  "evolves desk_evolves (require_project pid buyer)"
  "evolves desk_evolves (assert_binding_subset pid buyer protocols models)"
  "evolves desk_evolves (owned_key kid buyer pid)"
  "evolves desk_evolves (list_mine_keys buyer role)"
  "evolves desk_evolves (list_project_keys buyer pid role)"
  unfolding key_role_def require_project_def assert_binding_subset_def owned_key_def
    list_mine_keys_def list_project_keys_def
  by (intro desk_rules check_binding_evolves)+

lemma goes_owned_key:
  "(\<And>rec. key_of (dk_keys d) kid = Some rec \<Longrightarrow> goes desk_evolves (f rec) d) \<Longrightarrow>
     goes desk_evolves (bindE (owned_key kid buyer pid) f) d"
  by (rule desk_growth.goes_bindE[OF evolves_goes[OF key_reads_evolve(4)]])
    (auto simp: owned_key_def op_success)

lemma rewritten_desk:
  assumes "key_of (dk_keys d) kid = Some a" and "key_becomes a rec"
  shows "k = ik_id rec \<Longrightarrow> goes desk_evolves (on_keys (modify (write_key k rec))) d"
    and "goes desk_evolves (on_keys (save_key rec)) d"
    and "goes desk_evolves (on_keys (replace_hash rec h)) d"
  by (rule goes_on_keys, rule rewritten_goes[OF assms], assumption?)+

lemma keep_as_goes:
  "key_of (dk_keys d) kid = Some a \<Longrightarrow> key_moves (ik_status a) status \<Longrightarrow> goes desk_evolves (keep_as status a) d"
  unfolding keep_as_def Let_def
  by (intro desk_growth.goes_then rewritten_desk(2)[where a = a] desk_rules) (auto simp: key_becomes_def)

lemma key_replay_evolves: "evolves desk_evolves (key_replay buyer key digest)"
proof (rule goes_evolves)
  fix d
  show "goes desk_evolves (key_replay buyer key digest) d"
    unfolding key_replay_def Let_def
    apply (intro desk_growth.goes_rules; (simp split: prod.splits)?)
    apply (intro allI impI)
    apply (intro desk_growth.goes_rules desk_growth.goes_then desk_rules; simp?)
    subgoal for x digest kid y rec
      by (rule rewritten_desk(1)[where a = rec]) (auto simp: key_becomes_def key_moves_def)
    done
qed

lemma fresh_key:
  "desk_inv d \<Longrightarrow> key_of (dk_keys d) (mk_next (dk_market d)) = None"
proof (rule ccontr)
  assume "desk_inv d" and "key_of (dk_keys d) (mk_next (dk_market d)) \<noteq> None"
  then show False by (auto simp: desk_inv_def keys_ok_def dest: all_storedD)
qed

text \<open>A new identifier is not in the store, so inserting a key under it overwrites nothing.\<close>

lemma goes_store_new:
  "goes desk_evolves (bindE (on_market new_uuid) (\<lambda>kid.
     store_new_key env key digest secret (r kid))) d"
  if "\<And>kid. ik_id (r kid) = kid"
proof (cases "desk_inv d")
  case True
  let ?kid = "mk_next (dk_market d)"
  have insert: "goes desk_evolves (on_keys (insert_key (r ?kid) h))
      (d\<lparr>dk_market := dk_market d\<lparr>mk_next := ?kid + 1\<rparr>\<rparr>)" for h
    by (rule goes_on_keys, rule insert_key_goes) (simp_all add: that fresh_key[OF True])
  have drawn: "on_market new_uuid d = (Inr ?kid, d\<lparr>dk_market := dk_market d\<lparr>mk_next := ?kid + 1\<rparr>\<rparr>)"
    by (simp add: on_market_def run)
  show ?thesis
    by (rule desk_growth.goes_bindE[OF goes_on_market[OF evolves_goes[OF new_uuid_evolves]]])
      (auto simp: drawn store_new_key_def intro!: desk_growth.goes_then insert[simplified] desk_rules key_notes_desk)
qed (simp add: goes_def desk_evolves_def)

lemma key_operations_evolve:
  "evolves desk_evolves (issue env random buyer platform name role key)"
  "evolves desk_evolves (issue_for_project env random buyer pid f role workspace key)"
  "evolves desk_evolves (rotate_key env random kid buyer pid role)"
  "evolves desk_evolves (revoke_key kid buyer role)"
  "evolves desk_evolves (disable_key kid buyer pid)"
  "evolves desk_evolves (enable_key kid buyer pid)"
  "evolves desk_evolves (revoke_project_key kid buyer pid)"
proof -
  have new: "evolves desk_evolves (bindE (on_market new_uuid) (\<lambda>kid. store_new_key env key digest secret (r kid)))"
    if "\<And>kid. ik_id (r kid) = kid" for digest secret r
    using that by (intro goes_evolves goes_store_new)
  show "evolves desk_evolves (issue env random buyer platform name role key)"
    unfolding issue_def Let_def
    by (intro desk_rules key_reads_evolve key_replay_evolves new) (simp add: platform_key_def)
  show "evolves desk_evolves (issue_for_project env random buyer pid f role workspace key)"
    unfolding issue_for_project_def Let_def
    by (intro desk_rules key_reads_evolve key_replay_evolves new) (simp add: project_key_def platform_key_def)
  show "evolves desk_evolves (rotate_key env random kid buyer pid role)"
    unfolding rotate_key_def Let_def key_role_def
    by (rule goes_evolves, intro desk_growth.goes_require goes_owned_key desk_growth.goes_then
        rewritten_desk(3)[where kid = kid] desk_rules, assumption)
      (auto simp: key_becomes_def key_moves_def)
  show "evolves desk_evolves (revoke_key kid buyer role)"
    unfolding revoke_key_def key_role_def
    by (rule goes_evolves, intro desk_growth.goes_rules keep_as_goes[where kid = kid])
      (auto simp: key_moves_def)
  show "evolves desk_evolves (disable_key kid buyer pid)" "evolves desk_evolves (enable_key kid buyer pid)"
    "evolves desk_evolves (revoke_project_key kid buyer pid)"
    unfolding disable_key_def enable_key_def revoke_project_key_def
    by (rule goes_evolves, intro desk_growth.goes_rules goes_owned_key keep_as_goes[where kid = kid], assumption,
        simp add: key_moves_def)+
qed

text \<open>Authorization writes a quota counter at most.\<close>

lemma authorize_hash_goes:
  "goes (keys_evolve n) (authorize_hash env now q h) s"
proof (cases "keys_ok n s")
  case True
  have "goes (keys_evolve n) (scope_ok env now q rec) s" if "get_by_hash h s = Some rec" for rec
  proof -
    from that obtain kid where "key_of s kid = Some rec"
      by (auto simp: get_by_hash_def split: option.splits if_splits)
    with True have "key_of s (ik_id rec) = Some rec" by (auto simp: keys_ok_def dest: all_storedD)
    then show ?thesis
      unfolding scope_ok_def
      by (auto simp: key_growth.goes_ret intro: consume_quota_goes split: option.splits)
  qed
  then show ?thesis
    by (auto simp: goes_def authorize_hash_def run notes_same digest_ok_def split: option.splits prod.splits sum.splits)
qed (simp add: goes_def keys_evolve_def)

lemma authorize_goes: "goes (keys_evolve n) (authorize env now q secret) s"
  unfolding authorize_def by (intro key_growth.goes_rules authorize_hash_goes)

lemma authorize_evolves:
  "evolves desk_evolves (on_keys (authorize env now q secret))"
  "evolves desk_evolves (on_keys (authorize_hash env now q h))"
  by (rule goes_evolves, rule goes_on_keys, rule authorize_goes authorize_hash_goes)+

subsection \<open>What an authorization checks\<close>

text \<open>The key of a hash: found, of an owner who may use keys, and carrying this very hash.\<close>

definition hash_names :: "key_store \<Rightarrow> string \<Rightarrow> issued_key \<Rightarrow> bool" where
  "hash_names s h rec \<longleftrightarrow> get_by_hash h s = Some rec \<and>
     (case ik_secret_hash rec of None \<Rightarrow> stored_hash (ik_id rec) s | Some g \<Rightarrow> Some g) = Some h"

definition metered :: "issued_key \<Rightarrow> (int \<times> string) option" where
  "metered rec = (case (ik_quota_limit rec, ik_quota_period rec) of
       (Some limit, Some period) \<Rightarrow> if period = [] then None else Some (limit, period) | _ \<Rightarrow> None)"

definition quota_left :: "key_store \<Rightarrow> instant \<Rightarrow> issued_key \<Rightarrow> bool" where
  "quota_left s now rec \<longleftrightarrow> (case metered rec of None \<Rightarrow> True
     | Some (limit, period) \<Rightarrow> used s (ik_id rec) (period_start now period) < limit)"

definition charged :: "instant \<Rightarrow> issued_key \<Rightarrow> key_store \<Rightarrow> key_store" where
  "charged now rec s = (case metered rec of None \<Rightarrow> s
     | Some (limit, period) \<Rightarrow> let start = period_start now period in
         s\<lparr>ks_quota := dict_set (ik_id rec, start) (used s (ik_id rec) start + 1) (ks_quota s)\<rparr>)"

lemma scope_ok_run:
  "scope_ok env now q rec s =
     (if in_scope env now q rec \<and> quota_left s now rec then (Inr True, charged now rec s) else (Inr False, s))"
  by (auto simp: scope_ok_def consume_quota_run quota_left_def charged_def metered_def run Let_def
      split: option.splits)

lemma digest_ok_iff:
  "digest_ok h found s \<and> found = get_by_hash h s \<longleftrightarrow> found \<noteq> None \<and> hash_names s h (the found)"
  by (auto simp: digest_ok_def hash_names_def Let_def split: option.splits)

lemma get_by_hash_charged [simp]: "get_by_hash h (charged now rec s) = get_by_hash h s"
  by (simp add: charged_def get_by_hash_def key_of_def Let_def split: option.splits prod.splits)

lemma authorize_hash_run:
  "authorize_hash env now q h s =
     (case get_by_hash h s of
        None \<Rightarrow> (Inr None, s)
      | Some rec \<Rightarrow> if hash_names s h rec \<and> in_scope env now q rec \<and> quota_left s now rec
          then (Inr (Some rec), charged now rec s) else (Inr None, s))"
  using digest_ok_iff[of h "get_by_hash h s" s]
  by (auto simp: authorize_hash_def run scope_ok_run digest_ok_def split: option.splits)

lemma authorize_hash_granted:
  "authorize_hash env now q h s = (Inr (Some rec), t) \<longleftrightarrow>
     hash_names s h rec \<and> in_scope env now q rec \<and> quota_left s now rec \<and> t = charged now rec s"
  by (auto simp: authorize_hash_run hash_names_def split: option.splits)

lemma get_by_hash_key: "get_by_hash h s = Some rec \<Longrightarrow>
    \<exists>kid. dict_get (ks_by_hash s) h = Some kid \<and> key_of s kid = Some rec \<and>
      owner_state_allows_proxy (dict_get (ks_owners s) (ik_buyer rec))"
  by (auto simp: get_by_hash_def split: option.splits if_splits)

subsection \<open>Calls and runs\<close>

datatype desk_call =
    Set_owner uuid string string bool
  | Issue bytes uuid string "string option" string "string option"
  | Issue_for_project bytes uuid uuid scope_form string "string option" "string option"
  | Rotate bytes uuid uuid uuid string
  | Revoke uuid uuid string
  | Disable uuid uuid uuid
  | Enable uuid uuid uuid
  | Revoke_project_key uuid uuid uuid
  | Authorize key_request string
  | Authorize_hash key_request string
  | Market market_call

text \<open>A call returns the key it grants a request to, if any.\<close>

definition no_grant :: "'a desk_op \<Rightarrow> uuid option desk_op" where
  "no_grant a = bindE a (\<lambda>_. ret None)"

fun desk_do :: "key_env \<Rightarrow> api_env \<Rightarrow> instant \<Rightarrow> string \<Rightarrow> desk_call \<Rightarrow> uuid option desk_op" where
  "desk_do k e now rq (Set_owner user status role del) = no_grant (on_keys (set_owner user status role del))"
| "desk_do k e now rq (Issue random buyer platform name role key) =
     no_grant (issue k random buyer platform name role key)"
| "desk_do k e now rq (Issue_for_project random buyer pid f role workspace key) =
     no_grant (issue_for_project k random buyer pid f role workspace key)"
| "desk_do k e now rq (Rotate random kid buyer pid role) = no_grant (rotate_key k random kid buyer pid role)"
| "desk_do k e now rq (Revoke kid buyer role) = no_grant (revoke_key kid buyer role)"
| "desk_do k e now rq (Disable kid buyer pid) = no_grant (disable_key kid buyer pid)"
| "desk_do k e now rq (Enable kid buyer pid) = no_grant (enable_key kid buyer pid)"
| "desk_do k e now rq (Revoke_project_key kid buyer pid) = no_grant (revoke_project_key kid buyer pid)"
| "desk_do k e now rq (Authorize q secret) =
     bindE (on_keys (authorize k now q secret)) (\<lambda>r. ret (map_option ik_id r))"
| "desk_do k e now rq (Authorize_hash q h) =
     bindE (on_keys (authorize_hash k now q h)) (\<lambda>r. ret (map_option ik_id r))"
| "desk_do k e now rq (Market call) = no_grant (on_market (market_do e now rq call))"

type_synonym timed_call = "instant \<times> string \<times> desk_call"

fun desk_run :: "key_env \<Rightarrow> api_env \<Rightarrow> timed_call list \<Rightarrow> desk \<Rightarrow> desk" where
  "desk_run k e [] d = d"
| "desk_run k e ((now, rq, call) # calls) d = desk_run k e calls (snd (desk_do k e now rq call d))"

definition empty_desk :: desk where
  "empty_desk = \<lparr>dk_market = empty_market, dk_keys =
     \<lparr>ks_by_hash = [], ks_by_id = [], ks_idem = [], ks_hashes = [], ks_owners = [], ks_quota = []\<rparr>\<rparr>"

inductive desk_step :: "key_env \<Rightarrow> api_env \<Rightarrow> desk \<Rightarrow> desk \<Rightarrow> bool" for k e where
  call: "desk_do k e now rq request d = (r, d') \<Longrightarrow> desk_step k e d d'"

inductive_cases desk_stepE: "desk_step k e d d'"

definition desk_reach :: "key_env \<Rightarrow> api_env \<Rightarrow> desk \<Rightarrow> bool" where
  "desk_reach k e d \<longleftrightarrow> (desk_step k e)\<^sup>*\<^sup>* empty_desk d"

lemma desk_do_evolves: "evolves desk_evolves (desk_do k e now rq call)"
proof -
  have market: "evolves desk_evolves (on_market (market_do e now rq call))" for call
    by (rule goes_evolves, rule goes_on_market, rule evolves_goes, rule market_do_evolves)
  show ?thesis
    by (cases call) (simp_all add: no_grant_def,
      (intro desk_rules key_notes_desk key_operations_evolve authorize_evolves market)+)
qed

lemma desk_step_evolves: "desk_step k e d d' \<Longrightarrow> desk_evolves d d'"
  by (erule desk_stepE) (rule evolvesD[OF desk_do_evolves])

lemma desk_steps_evolve: "(desk_step k e)\<^sup>*\<^sup>* d d' \<Longrightarrow> desk_evolves d d'"
  by (induction rule: rtranclp_induct) (auto intro: desk_growth.refl desk_growth.trans dest: desk_step_evolves)

lemma empty_desk_inv: "desk_inv empty_desk"
  by (simp add: desk_inv_def empty_desk_def empty_market_inv keys_ok_def all_stored_def key_of_def)

lemma desk_reach_inv: "desk_reach k e d \<Longrightarrow> desk_inv d"
  using desk_steps_evolve empty_desk_inv by (fastforce simp: desk_reach_def desk_evolves_def)

lemma desk_run_steps: "(desk_step k e)\<^sup>*\<^sup>* d (desk_run k e calls d)"
proof (induction calls arbitrary: d)
  case (Cons c calls)
  obtain now rq request where c: "c = (now, rq, request)" by (cases c)
  have "desk_step k e d (snd (desk_do k e now rq request d))"
    by (rule desk_step.call) (rule prod.collapse[symmetric])
  with Cons show ?case by (simp add: c converse_rtranclp_into_rtranclp)
qed simp

lemma desk_run_reach: "desk_reach k e (desk_run k e calls empty_desk)"
  by (simp add: desk_reach_def desk_run_steps)

end
