(* ===== verification/Desk_Contracts.thy ===== *)
theory Desk_Contracts
  imports Desk_Steps
begin

section \<open>What the key and budget services guarantee\<close>

text \<open>Proxy keys: what an authorization rests on, that revocation is final, that quotas hold; budgets.\<close>

subsection \<open>A concrete desk\<close>

definition demo_keys :: key_env where
  "demo_keys = \<lparr>ke_crypto = \<lparr>shake256 = \<lambda>seed n. replicate n 3, hmac256 = \<lambda>k m. take 32 (m @ replicate 32 0),
       sha256 = \<lambda>m. take 1 m\<rparr>, ke_pepper = [1],
     ke_network = \<lambda>n. True, ke_address = \<lambda>a. True, ke_within = \<lambda>a n. a = n\<rparr>"

definition demo_scope :: scope_form where
  "demo_scope = \<lparr>sf_protocols = [''openai''], sf_name = None, sf_models = [], sf_cidrs = [],
     sf_quota_period = Some ''day'', sf_quota_limit = Some 2, sf_expires_at = None\<rparr>"

definition demo_request :: key_request where
  "demo_request = \<lparr>kr_protocol = Some ''openai'', kr_model = None, kr_client_ip = None\<rparr>"

definition demo_secret :: string where
  "demo_secret = generate_proxy_secret (replicate 24 5)"

text \<open>Connection 0, project 1, binding 2 and, from the buyer of the project, key 3.\<close>

definition staffed :: desk where
  "staffed = desk_run demo_keys demo_env
     [(1, ''a'', Market (Create_connection [9] demo_seller demo_form)),
      (2, ''b'', Market (Create_project demo_buyer demo_project)),
      (3, ''c'', Market (Create_binding demo_buyer demo_binding)),
      (4, ''d'', Market (Verify 0 0 demo_seller True)),
      (5, ''e'', Market (List_supply 0 demo_seller)),
      (6, ''f'', Market (Publish_binding 2 demo_buyer)),
      (7, ''g'', Issue_for_project (replicate 24 5) 2 1 demo_scope ''buyer'' None None)] empty_desk"

definition revoked_desk :: desk where
  "revoked_desk = desk_run demo_keys demo_env [(9, ''h'', Revoke 3 2 ''buyer'')] staffed"

lemma staffed_reach: "desk_reach demo_keys demo_env staffed" "desk_reach demo_keys demo_env revoked_desk"
proof -
  show "desk_reach demo_keys demo_env staffed"
    unfolding staffed_def by (rule desk_run_reach)
  then show "desk_reach demo_keys demo_env revoked_desk"
    unfolding revoked_desk_def desk_reach_def using desk_run_steps by (rule rtranclp_trans)
qed

lemma staffed_key:
  "map_option (\<lambda>r. (ik_status r, metered r, ik_buyer r)) (key_of (dk_keys staffed) 3) = Some (Ks_active, Some (2, ''day''), 2)"
  "map_option ik_status (key_of (dk_keys revoked_desk) 3) = Some Ks_revoked"
  by code_simp+

lemma staffed_authorizes:
  "map_sum id (map_option ik_id) (fst (authorize demo_keys 8 demo_request demo_secret (dk_keys staffed))) = Inr (Some 3)"
  by code_simp

lemma granted_to:
  "map_sum id (map_option ik_id) (fst x) = Inr (Some kid) \<Longrightarrow> \<exists>rec t. x = (Inr (Some rec), t) \<and> ik_id rec = kid"
  by (cases x; cases "fst x") auto

lemma staffed_rec:
  obtains rec t where "authorize demo_keys 8 demo_request demo_secret (dk_keys staffed) = (Inr (Some rec), t)"
    and "ik_id rec = 3"
  using granted_to[OF staffed_authorizes] by blast

subsection \<open>Authorization\<close>

lemma authorize_granted:
  "authorize k now q secret s = (Inr (Some rec), t) \<longleftrightarrow>
     starts_with secret ''tmk-'' \<and> 36 \<le> length secret \<and>
     authorize_hash k now q (hash_proxy_secret k secret) s = (Inr (Some rec), t)"
  by (auto simp: authorize_def run)

lemma get_by_hash_iff:
  assumes "desk_reach k e d"
  shows "get_by_hash h (dk_keys d) = Some rec \<longleftrightarrow>
    dict_get (ks_by_hash (dk_keys d)) h = Some (ik_id rec) \<and> key_of (dk_keys d) (ik_id rec) = Some rec \<and>
    owner_state_allows_proxy (dict_get (ks_owners (dk_keys d)) (ik_buyer rec))"
proof -
  have key: "ik_id r = kid" if "key_of (dk_keys d) kid = Some r" for kid r
    using desk_reach_inv[OF assms] that by (auto simp: desk_inv_def keys_ok_def dest: all_storedD)
  show ?thesis
  proof (cases "dict_get (ks_by_hash (dk_keys d)) h")
    case (Some kid)
    then show ?thesis
      using key[of kid rec] by (cases "key_of (dk_keys d) kid") (auto simp: get_by_hash_def)
  qed (simp add: get_by_hash_def)
qed

lemma owner_allowed:
  "owner_state_allows_proxy v \<longleftrightarrow> (\<exists>owner. v = Some owner \<and> \<not> os_is_deleted owner \<and>
     os_status owner = ''active'' \<and> os_role owner \<in> {''buyer'', ''both''})"
  by (cases v) (simp_all add: owner_state_allows_proxy_def owner_can_use_proxy_keys_def)

text \<open>C7 (safety). In every reachable state an authorization is granted exactly when the secret has the
  key form, its keyed hash is the one stored for the key, the key's owner is active, not deleted and a
  buyer, the key is active, not expired, and open to the protocol, the model and the client address of the
  request, and its quota for the current period is not used up; it returns the stored key and changes nothing
  but the quota counter of that key and period, which goes up by one.\<close>

theorem authorize_only_valid:
  assumes "desk_reach k e d"
  shows "authorize k now q secret (dk_keys d) = (Inr (Some rec), t) \<longleftrightarrow>
    starts_with secret ''tmk-'' \<and> 36 \<le> length secret \<and>
    dict_get (ks_by_hash (dk_keys d)) (hash_proxy_secret k secret) = Some (ik_id rec) \<and>
    key_of (dk_keys d) (ik_id rec) = Some rec \<and>
    (case ik_secret_hash rec of None \<Rightarrow> stored_hash (ik_id rec) (dk_keys d) | Some g \<Rightarrow> Some g) =
      Some (hash_proxy_secret k secret) \<and>
    (\<exists>owner. dict_get (ks_owners (dk_keys d)) (ik_buyer rec) = Some owner \<and> \<not> os_is_deleted owner \<and>
       os_status owner = ''active'' \<and> os_role owner \<in> {''buyer'', ''both''}) \<and>
    ik_status rec = Ks_active \<and> (\<forall>until. ik_expires_at rec = Some until \<longrightarrow> now < until) \<and>
    (ik_protocols rec = [] \<or> (\<exists>p. kr_protocol q = Some p \<and> p \<in> set (ik_protocols rec))) \<and>
    (ik_allowed_models rec = [] \<or> (\<exists>x. kr_model q = Some x \<and> x \<in> set (ik_allowed_models rec))) \<and>
    ip_allowed k rec (kr_client_ip q) \<and> quota_left (dk_keys d) now rec \<and> t = charged now rec (dk_keys d)"
  unfolding authorize_granted authorize_hash_granted hash_names_def get_by_hash_iff[OF assms] owner_allowed
    in_scope_def
  by (auto split: option.splits)

theorem authorize_only_valid_witness:
  "\<exists>rec t. authorize demo_keys 8 demo_request demo_secret (dk_keys staffed) = (Inr (Some rec), t) \<and>
     key_of (dk_keys staffed) 3 = Some rec \<and> ik_status rec = Ks_active"
proof -
  obtain rec t where run: "authorize demo_keys 8 demo_request demo_secret (dk_keys staffed) = (Inr (Some rec), t)"
    and "ik_id rec = 3" by (rule staffed_rec)
  with run[unfolded authorize_only_valid[OF staffed_reach(1)]] run show ?thesis by auto
qed

subsection \<open>Revocation\<close>

text \<open>C14 (safety). Once a proxy key is revoked, no sequence of calls to the key service or to the services
  it reads makes it usable again: it stays revoked, with its scope and its owner unchanged, and no secret and
  no hash authorizes a request for it or finds it at run time.\<close>

theorem revoked_key_dead:
  assumes "desk_reach k e d" and "(desk_step k e)\<^sup>*\<^sup>* d d'" and "key_of (dk_keys d) kid = Some a"
    and "ik_status a = Ks_revoked"
  shows "(\<exists>b. key_of (dk_keys d') kid = Some b \<and> ik_status b = Ks_revoked \<and> ik_buyer b = ik_buyer a \<and>
      ik_project b = ik_project a \<and> ik_protocols b = ik_protocols a \<and> ik_allowed_models b = ik_allowed_models a) \<and>
    (\<forall>now q secret rec t. authorize k now q secret (dk_keys d') = (Inr (Some rec), t) \<longrightarrow> ik_id rec \<noteq> kid) \<and>
    (\<forall>now q h rec t. authorize_hash k now q h (dk_keys d') = (Inr (Some rec), t) \<longrightarrow> ik_id rec \<noteq> kid) \<and>
    (\<forall>h rec. lookup_runtime h (dk_keys d') = Some rec \<longrightarrow> ik_id rec \<noteq> kid)"
proof -
  have reach: "desk_reach k e d'" using assms(1,2) unfolding desk_reach_def by (rule rtranclp_trans)
  from desk_steps_evolve[OF assms(2)] desk_reach_inv[OF assms(1)]
  have "entries_grow key_of key_becomes (dk_keys d) (dk_keys d')" by (simp add: desk_evolves_def keys_grow_def)
  from entries_growD[OF this assms(3)] obtain b where b: "key_of (dk_keys d') kid = Some b" "key_becomes a b" by blast
  with assms(4) have dead: "ik_status b = Ks_revoked" by (simp add: key_becomes_def key_moves_def)
  have found: "ik_id rec \<noteq> kid" if "get_by_hash h (dk_keys d') = Some rec" "ik_status rec = Ks_active" for h rec
    using that dead b(1) by (auto simp: get_by_hash_iff[OF reach])
  have hashed: "ik_id rec \<noteq> kid" if "authorize_hash k now q h (dk_keys d') = (Inr (Some rec), t)" for now q h rec t
    using that found by (auto simp: authorize_hash_granted hash_names_def in_scope_def)
  show ?thesis
  proof (intro conjI allI impI)
    show "\<exists>b. key_of (dk_keys d') kid = Some b \<and> ik_status b = Ks_revoked \<and> ik_buyer b = ik_buyer a \<and>
        ik_project b = ik_project a \<and> ik_protocols b = ik_protocols a \<and> ik_allowed_models b = ik_allowed_models a"
      using b dead by (simp add: key_becomes_def)
    show "ik_id rec \<noteq> kid" if "authorize k now q secret (dk_keys d') = (Inr (Some rec), t)" for now q secret rec t
      using that hashed unfolding authorize_granted by blast
    show "ik_id rec \<noteq> kid" if "authorize_hash k now q h (dk_keys d') = (Inr (Some rec), t)" for now q h rec t
      using that by (rule hashed)
    show "ik_id rec \<noteq> kid" if "lookup_runtime h (dk_keys d') = Some rec" for h rec
      using that found by (auto simp: lookup_runtime_def split: option.splits if_splits)
  qed
qed

theorem revoked_key_dead_witness:
  "(\<exists>b. key_of (dk_keys revoked_desk) 3 = Some b \<and> ik_status b = Ks_revoked) \<and>
   ik_id (the (get_by_hash (hash_proxy_secret demo_keys demo_secret) (dk_keys revoked_desk))) = 3 \<and>
   lookup_runtime (hash_proxy_secret demo_keys demo_secret) (dk_keys revoked_desk) = None"
proof -
  obtain b where b: "key_of (dk_keys revoked_desk) 3 = Some b" "ik_status b = Ks_revoked"
    using staffed_key(2) by (auto simp: map_option_eq_Some)
  have here: "ik_id (the (get_by_hash (hash_proxy_secret demo_keys demo_secret) (dk_keys revoked_desk))) = 3"
    by code_simp
  with revoked_key_dead[OF staffed_reach(2) rtranclp.rtrancl_refl b] b
  show ?thesis by (auto simp: lookup_runtime_def split: option.splits if_splits)
qed

subsection \<open>Rotation\<close>

text \<open>A rotation issues the key under a new secret: the result carries the secret, an
  owner who may use keys is granted requests in scope with it (while the quota lasts), the hash stored before
  the rotation no longer finds any key, and no other key changes.\<close>

theorem rotation_swaps_secret:
  assumes "desk_reach k e d" and "rotate_key k random kid buyer pid role d = (Inr rec, d')"
  shows "\<exists>secret new. ik_secret_once rec = Some secret \<and> secret = generate_proxy_secret random \<and>
    key_of (dk_keys d') kid = Some new \<and> ik_id new = kid \<and> ik_buyer new = buyer \<and> ik_secret_once new = None \<and>
    (\<forall>now q. 16 \<le> length random \<and> in_scope k now q new \<and> quota_left (dk_keys d') now new \<and>
       owner_state_allows_proxy (dict_get (ks_owners (dk_keys d')) buyer) \<longrightarrow>
       fst (authorize k now q secret (dk_keys d')) = Inr (Some new)) \<and>
    (\<forall>old. stored_hash kid (dk_keys d) = Some old \<and> old \<noteq> [] \<and> old \<noteq> hash_proxy_secret k secret \<longrightarrow>
       get_by_hash old (dk_keys d') = None) \<and>
    (\<forall>other. other \<noteq> kid \<longrightarrow> key_of (dk_keys d') other = key_of (dk_keys d) other)"
proof -
  let ?secret = "generate_proxy_secret random"
  let ?h = "hash_proxy_secret k ?secret"
  from assms(2) obtain a where a: "key_of (dk_keys d) kid = Some a" "ik_buyer a = buyer"
    and d': "d' = snd (on_keys (replace_hash (a\<lparr>ik_secret_once := Some ?secret, ik_masked_suffix := mask ?secret,
       ik_replayed := False, ik_status := Ks_active\<rparr>) ?h) d)" and rec: "ik_secret_once rec = Some ?secret"
    by (auto simp: rotate_key_def owned_key_def key_role_def op_success Let_def)
  have aid: "ik_id a = kid"
    using desk_reach_inv[OF assms(1)] a(1) by (auto simp: desk_inv_def keys_ok_def dest: all_storedD)
  define new where "new = a\<lparr>ik_secret_once := None, ik_masked_suffix := mask ?secret, ik_replayed := False,
    ik_status := Ks_active, ik_secret_hash := Some ?h\<rparr>"
  have keys: "key_of (dk_keys d') x = (if x = kid then Some new else key_of (dk_keys d) x)" for x
    by (simp add: d' on_keys_def replace_hash_def run Let_def keys_store.get_put aid new_def)
  have index: "dict_get (ks_by_hash (dk_keys d')) ?h = Some kid"
    by (simp add: d' on_keys_def replace_hash_def run Let_def aid)
  have gone: "get_by_hash old (dk_keys d') = None"
    if "stored_hash kid (dk_keys d) = Some old" "old \<noteq> []" "old \<noteq> ?h" for old
    using that by (simp add: get_by_hash_def d' on_keys_def replace_hash_def run Let_def aid stored_hash_def)
  have long: "starts_with ?secret ''tmk-'' \<and> length ?secret = 4 + 2 * length random"
    by (induction random) (simp_all add: generate_proxy_secret_def starts_with_def hexdigest_def)
  have works: "fst (authorize k now q ?secret (dk_keys d')) = Inr (Some new)"
    if "16 \<le> length random" "in_scope k now q new" "quota_left (dk_keys d') now new"
      "owner_state_allows_proxy (dict_get (ks_owners (dk_keys d')) buyer)" for now q
  proof -
    have "get_by_hash ?h (dk_keys d') = Some new"
      using that a(2) by (simp add: get_by_hash_def index keys new_def)
    then have "authorize k now q ?secret (dk_keys d') = (Inr (Some new), charged now new (dk_keys d'))"
      using that long by (simp add: authorize_granted authorize_hash_granted hash_names_def new_def)
    then show ?thesis by simp
  qed
  show ?thesis
    by (rule exI[of _ ?secret], rule exI[of _ new]) (use rec keys aid a gone works in \<open>auto simp: new_def\<close>)
qed

text \<open>The key of the concrete desk after a rotation, in scope for the concrete request.\<close>

fun ready :: "(api_error + issued_key) \<times> desk \<Rightarrow> bool" where
  "ready (Inl e, d) = False"
| "ready (Inr r, d) = (case key_of (dk_keys d) 3 of None \<Rightarrow> False | Some new \<Rightarrow>
     in_scope demo_keys 8 demo_request new \<and> quota_left (dk_keys d) 8 new \<and>
     owner_state_allows_proxy (dict_get (ks_owners (dk_keys d)) 2))"

theorem rotation_swaps_secret_witness:
  "\<exists>rec d'. rotate_key demo_keys (replicate 24 6) 3 2 1 ''buyer'' staffed = (Inr rec, d') \<and>
     (\<exists>secret new. ik_secret_once rec = Some secret \<and>
        fst (authorize demo_keys 8 demo_request secret (dk_keys d')) = Inr (Some new) \<and> ik_id new = 3) \<and>
     get_by_hash (hash_proxy_secret demo_keys demo_secret) (dk_keys d') = None"
proof -
  let ?run = "rotate_key demo_keys (replicate 24 6) 3 2 1 ''buyer'' staffed"
  have ready: "ready ?run" by code_simp
  then obtain rec d' where run: "?run = (Inr rec, d')" by (cases ?run; cases "fst ?run") simp_all
  have hash: "stored_hash 3 (dk_keys staffed) = Some (hash_proxy_secret demo_keys demo_secret)"
    "hash_proxy_secret demo_keys demo_secret \<noteq> [] \<and>
      hash_proxy_secret demo_keys demo_secret \<noteq> hash_proxy_secret demo_keys (generate_proxy_secret (replicate 24 6))"
    by code_simp+
  obtain secret new where new: "ik_secret_once rec = Some secret" "key_of (dk_keys d') 3 = Some new" "ik_id new = 3"
    and works: "16 \<le> length (replicate 24 (6 :: 8 word)) \<and> in_scope demo_keys 8 demo_request new \<and>
        quota_left (dk_keys d') 8 new \<and> owner_state_allows_proxy (dict_get (ks_owners (dk_keys d')) 2) \<longrightarrow>
      fst (authorize demo_keys 8 demo_request secret (dk_keys d')) = Inr (Some new)"
    and gone: "get_by_hash (hash_proxy_secret demo_keys demo_secret) (dk_keys d') = None"
    using rotation_swaps_secret[OF staffed_reach(1) run] hash by blast
  have "fst (authorize demo_keys 8 demo_request secret (dk_keys d')) = Inr (Some new)"
    by (rule works[rule_format]) (use ready[unfolded run] new(2) in simp)
  then show ?thesis using run new gone by blast
qed

subsection \<open>Quotas\<close>

text \<open>
  \<open>grants\<close>: how many requests a run of calls grants to a key in the quota period that begins at \<open>start\<close>.
\<close>

fun grants ::
  "key_env \<Rightarrow> api_env \<Rightarrow> uuid \<Rightarrow> string \<Rightarrow> instant \<Rightarrow> timed_call list \<Rightarrow> desk \<Rightarrow> int" where
  "grants k e kid period start [] d = 0"
| "grants k e kid period start ((now, rq, call) # calls) d =
     (case desk_do k e now rq call d of (r, d') \<Rightarrow>
        (if r = Inr (Some kid) \<and> period_start now period = start then 1 else 0) +
        grants k e kid period start calls d')"

lemma desk_do_grant:
  assumes "desk_do k e now rq call d = (Inr (Some kid), d')" and "desk_inv d"
  shows "\<exists>rec. key_of (dk_keys d) kid = Some rec \<and> dk_keys d' = charged now rec (dk_keys d)"
proof -
  have run: "\<exists>h q rec. authorize_hash k now q h (dk_keys d) = (Inr (Some rec), dk_keys d') \<and> ik_id rec = kid"
    using assms(1)
    by (cases call) (auto simp: no_grant_def op_success on_keys_def zoom_def authorize_def ret_def
        split: prod.splits sum.splits if_splits, blast+)
  then obtain h rec where "get_by_hash h (dk_keys d) = Some rec" "ik_id rec = kid"
    and "dk_keys d' = charged now rec (dk_keys d)"
    by (auto simp: authorize_hash_granted hash_names_def)
  moreover from this(1) obtain kid' where "key_of (dk_keys d) kid' = Some rec"
    by (auto dest: get_by_hash_key)
  ultimately show ?thesis
    using assms(2) by (auto simp: desk_inv_def keys_ok_def dest: all_storedD)
qed

lemma grants_counted:
  assumes "desk_inv d" and "key_of (dk_keys d) kid = Some rec" and "metered rec = Some (limit, period)"
  shows "0 \<le> grants k e kid period start calls d \<and>
    used (dk_keys d) kid start + grants k e kid period start calls d
      \<le> used (dk_keys (desk_run k e calls d)) kid start"
  using assms
proof (induction calls arbitrary: d rec)
  case (Cons c calls)
  obtain now rq call where c: "c = (now, rq, call)" by (cases c)
  obtain r d' where do: "desk_do k e now rq call d = (r, d')" by fastforce
  have evolves: "desk_inv d'" "entries_grow key_of key_becomes (dk_keys d) (dk_keys d')"
    "used (dk_keys d) kid start \<le> used (dk_keys d') kid start"
    using evolvesD[OF desk_do_evolves do] Cons.prems(1) by (auto simp: desk_evolves_def keys_grow_def)
  from entries_growD[OF evolves(2) Cons.prems(2)]
  obtain rec' where rec': "key_of (dk_keys d') kid = Some rec'" "key_becomes rec rec'" by blast
  then have "metered rec' = Some (limit, period)"
    using Cons.prems(3) by (simp add: metered_def key_becomes_def)
  note IH = Cons.IH[OF evolves(1) rec'(1) this]
  have "used (dk_keys d') kid start = used (dk_keys d) kid start + 1"
    if granted: "r = Inr (Some kid)" "period_start now period = start"
  proof -
    have "ik_id rec = kid"
      using Cons.prems(1,2) by (auto simp: desk_inv_def keys_ok_def dest: all_storedD)
    moreover obtain rec0 where "key_of (dk_keys d) kid = Some rec0" "dk_keys d' = charged now rec0 (dk_keys d)"
      using desk_do_grant[of k e now rq call d kid d'] Cons.prems(1) do granted(1) by auto
    ultimately show ?thesis
      using Cons.prems(2,3) granted(2) by (simp add: charged_def Let_def used_after)
  qed
  with IH evolves(3) do show ?case by (auto simp: c)
qed simp

text \<open>C23 (bounds). A quota holds whatever calls come between: from any reachable state, a run of calls
  grants a metered key at most its limit of requests in each quota period, counting those the period has
  already used.\<close>

theorem quota_never_exceeded:
  assumes "desk_reach k e d" and "key_of (dk_keys d) kid = Some rec" and "metered rec = Some (limit, period)"
  shows "grants k e kid period start calls d = 0 \<or>
    0 \<le> used (dk_keys d) kid start \<and>
    used (dk_keys d) kid start + grants k e kid period start calls d \<le> limit"
proof -
  let ?e = "desk_run k e calls d"
  from desk_reach_inv[OF assms(1)] have inv: "desk_inv d" .
  have later: "desk_inv ?e" "entries_grow key_of key_becomes (dk_keys d) (dk_keys ?e)"
    using desk_steps_evolve[OF desk_run_steps] inv by (auto simp: desk_evolves_def keys_grow_def)
  from entries_growD[OF later(2) assms(2)] obtain rec' where rec': "key_of (dk_keys ?e) kid = Some rec'"
    "key_becomes rec rec'" by blast
  then have limit: "ik_quota_limit rec' = Some limit"
    using assms(3) by (auto simp: metered_def key_becomes_def split: option.splits if_splits)
  have bound: "used (dk_keys ?e) kid start = 0 \<or> used (dk_keys ?e) kid start \<le> limit"
    using later(1) rec'(1) limit
    by (auto simp: desk_inv_def keys_ok_def used_def within_limit_def dest!: all_storedD split: option.splits)
  have "0 \<le> used (dk_keys d) kid start"
    using inv by (auto simp: desk_inv_def intro: used_nonneg)
  with bound grants_counted[OF inv assms(2,3), of k e start calls] show ?thesis by auto
qed

theorem quota_never_exceeded_witness:
  "grants demo_keys demo_env 3 ''day'' 0 (replicate 3 (8, ''r'', Authorize demo_request demo_secret)) staffed = 2 \<and>
   grants demo_keys demo_env 3 ''day'' 0 (replicate 3 (8, ''r'', Authorize demo_request demo_secret)) staffed \<le> 2"
proof -
  have two: "grants demo_keys demo_env 3 ''day'' 0 (replicate 3 (8, ''r'', Authorize demo_request demo_secret)) staffed = 2"
    by code_simp
  obtain rec where "key_of (dk_keys staffed) 3 = Some rec" "metered rec = Some (2, ''day'')"
    using staffed_key(1) by (auto simp: map_option_eq_Some)
  from quota_never_exceeded[OF staffed_reach(1) this, of 0 "replicate 3 (8, ''r'', Authorize demo_request demo_secret)"]
  show ?thesis using two by auto
qed

subsection \<open>Budgets\<close>

text \<open>Against a fixed ledger view, the calls of a client never over-admit: the amounts a run of
  calls admits for a project are exactly what its pending amount grows by, the pending amount stays within
  what the ledger has available, and, if the run reads one policy throughout, what is reserved, settled,
  unresolved and pending stays within the policy's hard limit. A refused call changes nothing.\<close>

theorem budget_never_overadmits:
  assumes "budget_run pid calls s = (got, t)"
  shows "0 \<le> got \<and> pending_of pid t = pending_of pid s + got \<and>
    tl_views t = tl_views s \<and> tl_desk t = tl_desk s \<and>
    (got = 0 \<or> pending_of pid t \<le> qv_available (ledger_overview pid s)) \<and>
    (\<forall>key p. list_all (reads_policy pid key) calls \<and> policy_for pid key s = Some p \<longrightarrow>
       got = 0 \<or> booked pid t \<le> bp_hard p) \<and>
    (\<forall>call e u. budget_do call s = (Inl e, u) \<longrightarrow> u = s)"
proof -
  have frame: "tl_desk t = tl_desk s"
    using assms
  proof (induction calls arbitrary: s got)
    case (Cons call calls)
    then show ?case
      using budget_do_frame[of call s] by (auto split: prod.splits)
  qed simp
  have refused: "u = s" if "budget_do call s = (Inl e, u)" for call e u
    using budget_do_frame[OF that] by simp
  show ?thesis
    using budget_run_bound[OF assms] budget_run_hard[OF assms] frame by (auto dest: refused)
qed

definition demo_till :: till where
  "demo_till = \<lparr>tl_desk = \<lparr>dk_market = drafted, dk_keys = dk_keys empty_desk\<rparr>,
     tl_views = [(1, \<lparr>qv_available = 100, qv_reserved = 0, qv_settled = 0, qv_unresolved = 0, qv_requests = []\<rparr>)],
     tl_policies = [], tl_pending = []\<rparr>"

theorem budget_never_overadmits_witness:
  "\<exists>t. budget_run 1 [Put_policy 1 demo_buyer 90 10 None, Budget_admit 1 demo_buyer 60 None,
       Budget_admit 1 demo_buyer 60 None] demo_till = (60, t) \<and>
     pending_of 1 t = 60 \<and> pending_of 1 t \<le> 100"
proof -
  let ?run = "budget_run 1 [Put_policy 1 demo_buyer 90 10 None, Budget_admit 1 demo_buyer 60 None,
       Budget_admit 1 demo_buyer 60 None] demo_till"
  have "fst ?run = 60" and start: "pending_of 1 demo_till = 0" "qv_available (ledger_overview 1 demo_till) = 100"
    by code_simp+
  then obtain t where run: "?run = (60, t)" by (cases ?run) simp
  from budget_never_overadmits[OF run] start run show ?thesis by simp
qed

text \<open>
  The pending amounts are never released: once the ledger has booked an admitted amount, it counts twice. Of
  100 available, 60 are admitted; when the ledger then shows them settled, a request for 1 of the remaining
  40 is refused.
\<close>

lemma pending_counts_twice:
  "fst (budget_run 1 [Budget_admit 1 demo_buyer 60 None] demo_till) = 60 \<and>
   fst (budget_admit 1 demo_buyer 1 None (snd (ledger_put 1
     \<lparr>qv_available = 40, qv_reserved = 0, qv_settled = 60, qv_unresolved = 0, qv_requests = []\<rparr>
     (snd (budget_run 1 [Budget_admit 1 demo_buyer 60 None] demo_till))))) = Inl (BudgetError BG_hard_limit 409)"
  by code_simp

end
