(* ===== verification/Auth_Crypto.thy ===== *)
theory Auth_Crypto
  imports Credentials Api_Base
begin

section \<open>Tokens, codes and keys of authentication\<close>

text \<open>
  \<^verbatim>\<open>app/security/\<close> (session and profile cookies, CSRF tokens, one-time codes, references), the key
  material of \<^verbatim>\<open>app/config.py\<close>, and phone numbers (\<^verbatim>\<open>users/phone.py\<close>, \<^verbatim>\<open>users/privacy.py\<close>). HMAC-SHA-256
  is an argument (\<open>cryptolib\<close>), and so are the random bytes of \<^verbatim>\<open>secrets\<close> and the Unicode normalization of
  \<^verbatim>\<open>unicodedata\<close>. A \<^verbatim>\<open>ValueError\<close> the callers do not catch is the error \<open>Auth_value_error\<close>.
\<close>

datatype auth_error = Auth_db_error | Auth_value_error | Auth_type_error | Auth_runtime_error

type_synonym 'a checked = "auth_error + 'a"

subsection \<open>Python text and bytes\<close>

definition is_ascii :: "string \<Rightarrow> bool" where
  "is_ascii s \<longleftrightarrow> list_all (\<lambda>c. (of_char c :: nat) < 128) s"

definition decimal :: "char \<Rightarrow> bool" where
  "decimal c \<longleftrightarrow> (let n = of_char c :: nat in 48 \<le> n \<and> n \<le> 57)"

text \<open>
  \<^verbatim>\<open>str.isdigit()\<close> also holds for the superscript digits, which \<^verbatim>\<open>int()\<close> refuses.
\<close>

definition py_isdigit :: "string \<Rightarrow> bool" where
  "py_isdigit s \<longleftrightarrow> s \<noteq> [] \<and> list_all (\<lambda>c. decimal c \<or> (of_char c :: nat) \<in> {178, 179, 185}) s"

definition digits_value :: "string \<Rightarrow> nat" where
  "digits_value s = foldl (\<lambda>a c. 10 * a + (of_char c - 48)) 0 s"

definition py_int :: "string \<Rightarrow> int checked" where
  "py_int s = (if s \<noteq> [] \<and> list_all decimal s then Inr (int (digits_value s)) else Inl Auth_value_error)"

text \<open>\<^verbatim>\<open>s.split(".", 1)\<close> of a text that contains a dot.\<close>

fun split_dot :: "string \<Rightarrow> (string \<times> string) option" where
  "split_dot [] = None"
| "split_dot (c # s) = (if c = CHR ''.'' then Some ([], s)
     else map_option (\<lambda>(a, b). (c # a, b)) (split_dot s))"

fun has_part :: "string \<Rightarrow> string \<Rightarrow> bool" where
  "has_part [] m = (m = [])"
| "has_part (c # s) m = (starts_with (c # s) m \<or> has_part s m)"

text \<open>Big-endian numbers.\<close>

fun be_bytes :: "nat \<Rightarrow> nat \<Rightarrow> bytes" where
  "be_bytes 0 n = []"
| "be_bytes (Suc k) n = be_bytes k (n div 256) @ [word_of_nat (n mod 256)]"

definition be_int :: "bytes \<Rightarrow> int" where
  "be_int bs = foldl (\<lambda>a b. 256 * a + uint b) 0 bs"

definition uuid_bytes :: "uuid \<Rightarrow> bytes" where
  "uuid_bytes i = be_bytes 16 i"

text \<open>\<^verbatim>\<open>base64.urlsafe_b64encode\<close> without the padding.\<close>

definition b64_char :: "int \<Rightarrow> char" where
  "b64_char n = (if n < 26 then char_of (65 + n) else if n < 52 then char_of (71 + n)
     else if n < 62 then char_of (n - 4) else if n = 62 then CHR ''-'' else CHR ''_'')"

fun b64url :: "bytes \<Rightarrow> string" where
  "b64url (a # b # c # rest) = (let n = 65536 * uint a + 256 * uint b + uint c in
     [b64_char (n div 262144), b64_char (n div 4096 mod 64), b64_char (n div 64 mod 64), b64_char (n mod 64)] @
     b64url rest)"
| "b64url [a, b] = (let n = 65536 * uint a + 256 * uint b in
     [b64_char (n div 262144), b64_char (n div 4096 mod 64), b64_char (n div 64 mod 64)])"
| "b64url [a] = (let n = 65536 * uint a in [b64_char (n div 262144), b64_char (n div 4096 mod 64)])"
| "b64url [] = []"

subsection \<open>Key material\<close>

record hmac_keys =
  hk_version :: int
  hk_current :: bytes
  hk_previous :: "bytes option"
  hk_raw :: string

definition placeholder_markers :: "string list" where
  "placeholder_markers = [''replace-me'', ''changeme'', ''todo'', ''placeholder'', ''example'']"

definition is_placeholder_key :: "string \<Rightarrow> bool" where
  "is_placeholder_key value = (if value = [] \<or> py_strip value = [] then True
     else if length (py_strip value) < 16 then True
     else list_ex (has_part (py_lower (py_strip value))) placeholder_markers)"

definition hmac_material :: "string \<Rightarrow> string \<Rightarrow> int \<Rightarrow> hmac_keys" where
  "hmac_material current previous version = \<lparr>hk_version = version,
     hk_current = (if current \<noteq> [] then utf8_encode current else []),
     hk_previous = (if previous \<noteq> [] then Some (utf8_encode previous) else None), hk_raw = current\<rparr>"

definition resolve_key :: "hmac_keys \<Rightarrow> int \<Rightarrow> bytes option" where
  "resolve_key m version =
     (if version = hk_version m then (if hk_current m = [] then None else Some (hk_current m))
      else case hk_previous m of
          None \<Rightarrow> None
        | Some previous \<Rightarrow> if version = hk_version m - 1 \<and> previous \<noteq> [] then Some previous else None)"

definition current_usable :: "hmac_keys \<Rightarrow> bool" where
  "current_usable m \<longleftrightarrow> hk_current m \<noteq> [] \<and> \<not> is_placeholder_key (hk_raw m)"

subsection \<open>Session and profile cookies\<close>

definition token_digest_bytes :: "cryptolib \<Rightarrow> bytes \<Rightarrow> bytes \<Rightarrow> bytes checked" where
  "token_digest_bytes c key raw = (if key = [] \<or> raw = [] then Inl Auth_value_error
     else Inr (hmac256 c key (utf8_encode ''session-token:v1'' @ raw)))"

definition token_digest :: "cryptolib \<Rightarrow> bytes \<Rightarrow> string \<Rightarrow> bytes checked" where
  "token_digest c key opaque = (if key = [] \<or> \<not> is_ascii opaque then Inl Auth_value_error
     else token_digest_bytes c key (utf8_encode opaque))"

definition profile_token_digest :: "cryptolib \<Rightarrow> bytes \<Rightarrow> string \<Rightarrow> bytes checked" where
  "profile_token_digest c key opaque = (if \<not> is_ascii opaque then Inl Auth_value_error
     else token_digest_bytes c key (utf8_encode ''profile-completion:v1'' @ utf8_encode opaque))"

record session_token =
  st_version :: int
  st_opaque :: string
  st_cookie :: string

definition generate_session_token :: "bytes \<Rightarrow> int \<Rightarrow> session_token checked" where
  "generate_session_token raw version = (if version < 1 then Inl Auth_value_error
     else Inr \<lparr>st_version = version, st_opaque = b64url raw,
               st_cookie = int_str version @ ''.'' @ b64url raw\<rparr>)"

definition parse_session_cookie :: "string option \<Rightarrow> (int \<times> string) option checked" where
  "parse_session_cookie cookie = (case cookie of
       None \<Rightarrow> Inr None
     | Some v \<Rightarrow> (case split_dot v of
         None \<Rightarrow> Inr None
       | Some (version_s, opaque) \<Rightarrow>
           if \<not> py_isdigit version_s \<or> opaque = [] then Inr None
           else (case py_int version_s of
               Inl e \<Rightarrow> Inl e
             | Inr version \<Rightarrow> if version < 1 \<or> list_ex py_isspace opaque then Inr None
                 else Inr (Some (version, opaque)))))"

subsection \<open>CSRF tokens\<close>

definition issue_csrf_token :: "cryptolib \<Rightarrow> bytes \<Rightarrow> int \<Rightarrow> uuid \<Rightarrow> string checked" where
  "issue_csrf_token c key version sid = (if key = [] \<or> version < 1 then Inl Auth_value_error
     else Inr (int_str version @ ''.'' @ b64url (hmac256 c key (utf8_encode ''csrf:v1'' @ uuid_bytes sid))))"

text \<open>
  The caller has resolved the key of the version. \<^verbatim>\<open>hmac.compare_digest\<close> refuses text that is not ASCII.
\<close>

definition verify_csrf_token :: "cryptolib \<Rightarrow> bytes \<Rightarrow> int \<Rightarrow> uuid \<Rightarrow> string \<Rightarrow> bool checked" where
  "verify_csrf_token c key version sid presented = (case split_dot presented of
       None \<Rightarrow> Inr False
     | Some (version_s, _) \<Rightarrow>
         if \<not> py_isdigit version_s then Inr False
         else (case py_int version_s of
             Inl e \<Rightarrow> Inl e
           | Inr n \<Rightarrow>
               if n \<noteq> version then Inr False
               else (case issue_csrf_token c key version sid of
                   Inl e \<Rightarrow> Inr False
                 | Inr expected \<Rightarrow> if is_ascii presented then Inr (expected = presented) else Inl Auth_type_error)))"

text \<open>\<open>Inr None\<close>: the version of the key is unknown.\<close>

definition csrf_for_session :: "cryptolib \<Rightarrow> hmac_keys \<Rightarrow> uuid \<Rightarrow> string option \<Rightarrow> bool option checked" where
  "csrf_for_session c mat sid presented = (case presented of
       None \<Rightarrow> Inr (Some False)
     | Some p \<Rightarrow> (case split_dot p of
         None \<Rightarrow> Inr (Some False)
       | Some (version_s, _) \<Rightarrow>
           if \<not> py_isdigit version_s then Inr (Some False)
           else (case py_int version_s of
               Inl e \<Rightarrow> Inl e
             | Inr version \<Rightarrow> (case resolve_key mat version of
                   None \<Rightarrow> Inr None
                 | Some key \<Rightarrow> map_sum id Some (verify_csrf_token c key version sid p)))))"

subsection \<open>One-time codes\<close>

definition six_digits :: "string \<Rightarrow> bool" where
  "six_digits code \<longleftrightarrow> length code = 6 \<and> is_ascii code \<and> py_isdigit code"

definition otp_modulus :: int where
  "otp_modulus = 1000000"

definition rejection_limit :: int where
  "rejection_limit = 2 ^ 32 div otp_modulus * otp_modulus"

definition pad_six :: "nat \<Rightarrow> string" where
  "pad_six n = replicate (6 - length (nat_str n)) (CHR ''0'') @ nat_str n"

fun sample_otp :: "nat \<Rightarrow> cryptolib \<Rightarrow> bytes \<Rightarrow> uuid \<Rightarrow> nat \<Rightarrow> string checked" where
  "sample_otp 0 c key cid n = Inl Auth_runtime_error"
| "sample_otp (Suc left) c key cid n =
     (let candidate = be_int (take 4 (hmac256 c key (utf8_encode ''otp-send:v1'' @ uuid_bytes cid @ be_bytes 8 n)))
      in if candidate < rejection_limit then Inr (pad_six (nat (candidate mod otp_modulus)))
         else sample_otp left c key cid (n + 1))"

definition derive_otp :: "cryptolib \<Rightarrow> bytes \<Rightarrow> uuid \<Rightarrow> string checked" where
  "derive_otp c key cid = (if key = [] then Inl Auth_value_error else sample_otp 64 c key cid 0)"

definition otp_verification_digest ::
  "cryptolib \<Rightarrow> bytes \<Rightarrow> uuid \<Rightarrow> bytes \<Rightarrow> string \<Rightarrow> bytes checked" where
  "otp_verification_digest c key cid salt code =
     (if key = [] \<or> salt = [] \<or> \<not> six_digits code then Inl Auth_value_error
      else Inr (hmac256 c key (utf8_encode ''otp-verify:v1'' @ uuid_bytes cid @ salt @ utf8_encode code)))"

definition verify_otp_digest ::
  "cryptolib \<Rightarrow> bytes \<Rightarrow> uuid \<Rightarrow> bytes \<Rightarrow> string \<Rightarrow> bytes \<Rightarrow> bool" where
  "verify_otp_digest c key cid salt code expected =
     (if expected = [] \<or> \<not> six_digits code then False
      else case otp_verification_digest c key cid salt code of
          Inl e \<Rightarrow> False | Inr actual \<Rightarrow> actual = expected)"

subsection \<open>References and phone numbers\<close>

definition keyed_ref :: "string \<Rightarrow> cryptolib \<Rightarrow> bytes \<Rightarrow> string \<Rightarrow> bytes checked" where
  "keyed_ref domain c key t = (if key = [] \<or> t = [] then Inl Auth_value_error
     else Inr (hmac256 c key (utf8_encode domain @ utf8_encode t)))"

definition phone_ref :: "cryptolib \<Rightarrow> bytes \<Rightarrow> string \<Rightarrow> bytes checked" where
  "phone_ref = keyed_ref ''phone-ref:v1''"

definition idempotency_key_digest :: "cryptolib \<Rightarrow> bytes \<Rightarrow> string \<Rightarrow> bytes checked" where
  "idempotency_key_digest = keyed_ref ''idempotency-key:v1''"

definition ip_ref :: "cryptolib \<Rightarrow> bytes \<Rightarrow> string \<Rightarrow> bytes checked" where
  "ip_ref = keyed_ref ''ip-ref:v1''"

definition client_hint :: "cryptolib \<Rightarrow> bytes \<Rightarrow> string option \<Rightarrow> string option" where
  "client_hint c key ip = (if \<not> truthy ip then None
     else case ip_ref c key (the ip) of Inl e \<Rightarrow> None | Inr r \<Rightarrow> Some (take 8 (hexdigest r)))"

definition mask_phone :: "string \<Rightarrow> string" where
  "mask_phone phone = (if length phone < 4 then ''****''
     else replicate (length phone - 4) (CHR ''*'') @ drop (length phone - 4) phone)"

text \<open>
  \<^verbatim>\<open>^1[3-9]\d{9}$\<close>, and the optional \<^verbatim>\<open>+86\<close> or \<^verbatim>\<open>86\<close> before it. The model's strings hold no full-width
  digits, so their replacement is the identity.
\<close>

definition cn_mobile :: "string \<Rightarrow> bool" where
  "cn_mobile t \<longleftrightarrow> length t = 11 \<and> list_all decimal t \<and> hd t = CHR ''1'' \<and> hd (tl t) \<notin> set ''012''"

definition strip_86 :: "string \<Rightarrow> string" where
  "strip_86 t = (let u = (if starts_with t ''+'' then drop 1 t else t) in
     if starts_with u ''86'' \<and> cn_mobile (drop 2 u) then drop 2 u else t)"

definition normalize_cn_mobile :: "(string \<Rightarrow> string) \<Rightarrow> string \<Rightarrow> string option" where
  "normalize_cn_mobile nfkc raw =
     (let t = nfkc raw in
      if py_strip t = [] then None
      else let u = strip_86 (filter (\<lambda>c. \<not> py_isspace c) t) in if cn_mobile u then Some u else None)"

end
