(* ===== verification/Auth_Store.thy ===== *)
theory Auth_Store
  imports Auth_Crypto
begin

section \<open>The authentication tables\<close>

text \<open>
  The tables of \<^verbatim>\<open>users/models.py\<close> and \<^verbatim>\<open>authentication/models.py\<close> and the queries of
  \<^verbatim>\<open>repositories/authentication.py\<close>, \<^verbatim>\<open>repositories/users.py\<close> and \<^verbatim>\<open>repositories/idempotency.py\<close>.

  A service call runs in one database session. The session sees its own writes (\<open>at_work\<close>); \<open>commit\<close> makes
  them durable (\<open>at_saved\<close>), \<open>rollback\<close> drops them, and what is not committed when the call ends is lost
  (\<open>serve\<close>). A write that is flushed is checked against the constraints the tables declare
  (\<open>constraints_ok\<close>); a violation is the database error \<open>Auth_db_error\<close>. Row locks order concurrent calls;
  here the calls are steps, one after the other. The counter of fresh identifiers is not undone by a
  rollback.
\<close>

subsection \<open>Rows\<close>

datatype user_status = Us_active | Us_suspended

record user =
  us_id :: uuid
  us_phone :: string
  us_nickname :: string
  us_role :: string
  us_status :: user_status
  us_is_deleted :: bool
  us_version :: int
  us_generation :: int

datatype challenge_state =
    Vc_pending_delivery | Vc_dispatching | Vc_delivered | Vc_consumed | Vc_locked
  | Vc_delivery_failed | Vc_superseded | Vc_expired

record challenge =
  vc_id :: uuid
  vc_user :: "uuid option"
  vc_request :: uuid
  vc_phone_ref :: bytes
  vc_phone :: "string option"
  vc_code_digest :: "bytes option"
  vc_code_salt :: "bytes option"
  vc_key_version :: int
  vc_provider_ref :: uuid
  vc_lease_owner :: "string option"
  vc_lease_until :: "instant option"
  vc_send_started_at :: "instant option"
  vc_finished_at :: "instant option"
  vc_attempts :: int
  vc_state :: challenge_state
  vc_created_at :: instant
  vc_delivered_at :: "instant option"
  vc_expires_at :: instant
  vc_consumed_at :: "instant option"
  vc_invalidated_at :: "instant option"
  vc_delete_after :: instant

record auth_session =
  se_id :: uuid
  se_user :: uuid
  se_token_digest :: bytes
  se_key_version :: int
  se_generation :: int
  se_client_hint :: "string option"
  se_workspace :: string
  se_role_snapshot :: string
  se_issued_at :: instant
  se_expires_at :: instant
  se_revoked_at :: "instant option"
  se_reason :: "string option"
  se_request_id :: string
  se_delete_after :: instant

text \<open>An idempotency row of a code request; the payload of a success names the challenge.\<close>

datatype request_state = Iv_processing | Iv_succeeded | Iv_failed

record challenge_view =
  cv_challenge :: uuid
  cv_phone_masked :: string
  cv_expires_at :: instant
  cv_resend_at :: instant

datatype request_payload = Iv_challenge challenge_view | Iv_retry_after int

record code_request =
  iv_id :: uuid
  iv_key_digest :: bytes
  iv_key_version :: int
  iv_phone_ref :: bytes
  iv_state :: request_state
  iv_http_status :: "int option"
  iv_result_code :: "string option"
  iv_payload :: "request_payload option"
  iv_created_at :: instant
  iv_completed_at :: "instant option"
  iv_replay_until :: instant
  iv_delete_after :: instant

record profile_intent =
  pc_id :: uuid
  pc_phone :: string
  pc_challenge :: uuid
  pc_token_digest :: bytes
  pc_key_version :: int
  pc_expires_at :: instant
  pc_consumed_at :: "instant option"
  pc_created_at :: instant

record registered =
  re_user :: uuid
  re_role :: string
  re_created_at :: instant
  re_phone_masked :: string

record registration =
  rg_id :: uuid
  rg_key :: string
  rg_request_hash :: string
  rg_user :: uuid
  rg_payload :: registered
  rg_created_at :: instant
  rg_expires_at :: instant

record security_event =
  sv_id :: uuid
  sv_type :: string
  sv_outcome :: string
  sv_reason :: string
  sv_request_id :: string
  sv_user :: "uuid option"
  sv_challenge :: "uuid option"
  sv_session :: "uuid option"
  sv_subject :: "bytes option"
  sv_occurred_at :: instant
  sv_delete_after :: instant

record auth_db =
  ad_users :: "(uuid, user) dict"
  ad_requests :: "(uuid, code_request) dict"
  ad_challenges :: "(uuid, challenge) dict"
  ad_intents :: "(uuid, profile_intent) dict"
  ad_sessions :: "(uuid, auth_session) dict"
  ad_registrations :: "(uuid, registration) dict"
  ad_events :: "security_event list"

subsection \<open>Constraints\<close>

definition unique_on :: "('a \<Rightarrow> bool) \<Rightarrow> ('a \<Rightarrow> 'b) \<Rightarrow> (uuid, 'a) dict \<Rightarrow> bool" where
  "unique_on p f d \<longleftrightarrow> distinct (map f (filter p (dict_values d)))"

definition known :: "(uuid, 'a) dict \<Rightarrow> uuid \<Rightarrow> bool" where
  "known d i \<longleftrightarrow> dict_get d i \<noteq> None"

definition current_state :: "challenge_state \<Rightarrow> bool" where
  "current_state s \<longleftrightarrow> s \<in> {Vc_pending_delivery, Vc_delivered}"

definition challenge_row_ok :: "challenge \<Rightarrow> bool" where
  "challenge_row_ok c \<longleftrightarrow>
     0 \<le> vc_attempts c \<and> vc_attempts c \<le> 5 \<and> vc_expires_at c > vc_created_at c \<and>
     vc_delete_after c \<ge> vc_expires_at c \<and>
     (vc_send_started_at c \<noteq> None \<longrightarrow> vc_state c \<in> {Vc_dispatching, Vc_delivered, Vc_delivery_failed}) \<and>
     (vc_state c \<in> {Vc_delivered, Vc_delivery_failed} \<longrightarrow> vc_finished_at c \<noteq> None) \<and>
     (vc_state c = Vc_delivered \<longrightarrow> vc_delivered_at c \<noteq> None) \<and>
     (vc_state c = Vc_consumed \<longrightarrow> vc_consumed_at c \<noteq> None)"

definition session_row_ok :: "auth_session \<Rightarrow> bool" where
  "session_row_ok s \<longleftrightarrow>
     se_expires_at s > se_issued_at s \<and>
     (case se_revoked_at s of None \<Rightarrow> True | Some t \<Rightarrow> t \<ge> se_issued_at s) \<and>
     (se_revoked_at s = None \<longleftrightarrow> se_reason s = None) \<and>
     (case se_reason s of None \<Rightarrow> True
      | Some r \<Rightarrow> r \<in> {''logout'', ''superseded'', ''account_disabled'', ''expired_cleanup''}) \<and>
     se_workspace s \<in> {''buyer'', ''seller''}"

definition request_row_ok :: "code_request \<Rightarrow> bool" where
  "request_row_ok r \<longleftrightarrow>
     iv_replay_until r > iv_created_at r \<and> iv_delete_after r \<ge> iv_replay_until r \<and>
     (if iv_state r = Iv_processing
      then iv_http_status r = None \<and> iv_result_code r = None \<and> iv_completed_at r = None
      else iv_http_status r \<noteq> None \<and> iv_result_code r \<noteq> None \<and> iv_completed_at r \<noteq> None)"

definition refs_ok :: "auth_db \<Rightarrow> bool" where
  "refs_ok d \<longleftrightarrow>
     list_all (\<lambda>c. known (ad_requests d) (vc_request c) \<and>
        (case vc_user c of None \<Rightarrow> True | Some u \<Rightarrow> known (ad_users d) u)) (dict_values (ad_challenges d)) \<and>
     list_all (\<lambda>p. known (ad_challenges d) (pc_challenge p)) (dict_values (ad_intents d)) \<and>
     list_all (\<lambda>s. known (ad_users d) (se_user s)) (dict_values (ad_sessions d)) \<and>
     list_all (\<lambda>r. known (ad_users d) (rg_user r)) (dict_values (ad_registrations d))"

definition constraints_ok :: "auth_db \<Rightarrow> bool" where
  "constraints_ok d \<longleftrightarrow>
     list_all challenge_row_ok (dict_values (ad_challenges d)) \<and>
     list_all session_row_ok (dict_values (ad_sessions d)) \<and>
     list_all request_row_ok (dict_values (ad_requests d)) \<and>
     list_all (\<lambda>p. pc_expires_at p > pc_created_at p) (dict_values (ad_intents d)) \<and>
     list_all (\<lambda>u. cn_mobile (us_phone u)) (dict_values (ad_users d)) \<and>
     unique_on (\<lambda>_. True) us_phone (ad_users d) \<and>
     unique_on (\<lambda>_. True) (\<lambda>r. (iv_key_version r, iv_key_digest r)) (ad_requests d) \<and>
     unique_on (\<lambda>_. True) vc_request (ad_challenges d) \<and>
     unique_on (\<lambda>_. True) vc_provider_ref (ad_challenges d) \<and>
     unique_on (\<lambda>c. current_state (vc_state c)) vc_phone_ref (ad_challenges d) \<and>
     unique_on (\<lambda>_. True) pc_token_digest (ad_intents d) \<and>
     unique_on (\<lambda>p. pc_consumed_at p = None) pc_phone (ad_intents d) \<and>
     unique_on (\<lambda>_. True) (\<lambda>s. (se_key_version s, se_token_digest s)) (ad_sessions d) \<and>
     unique_on (\<lambda>s. se_revoked_at s = None) se_user (ad_sessions d) \<and>
     unique_on (\<lambda>_. True) rg_key (ad_registrations d) \<and>
     refs_ok d"

subsection \<open>Sessions of the database\<close>

text \<open>\<^verbatim>\<open>MemoryAuthRateLimiter\<close> of \<^verbatim>\<open>app/auth_rate_limit.py\<close>, the limiter the code requests count against.\<close>

record rate_limiter =
  rl_phone_limit :: int
  rl_ip_limit :: int
  rl_fail :: bool
  rl_retry_after :: int
  rl_phone :: "(bytes, int) dict"
  rl_ip :: "(bytes, int) dict"

record auth_state =
  at_saved :: auth_db
  at_work :: auth_db
  at_next :: uuid
  at_limiter :: "rate_limiter option"

type_synonym 'a auth_op = "(auth_state, auth_error, 'a) op"

definition look :: "(auth_db \<Rightarrow> 'a) \<Rightarrow> 'a auth_op" where
  "look f = gets (\<lambda>s. f (at_work s))"

text \<open>A change of a loaded row, and a change with the flush that sends it.\<close>

definition touch :: "(auth_db \<Rightarrow> auth_db) \<Rightarrow> unit auth_op" where
  "touch f = modify (\<lambda>s. s\<lparr>at_work := f (at_work s)\<rparr>)"

definition flush :: "unit auth_op" where
  "flush = bindE (look constraints_ok) (\<lambda>ok. require ok Auth_db_error)"

definition put :: "(auth_db \<Rightarrow> auth_db) \<Rightarrow> unit auth_op" where
  "put f = bindE (touch f) (\<lambda>_. flush)"

definition commit :: "unit auth_op" where
  "commit = bindE flush (\<lambda>_. modify (\<lambda>s. s\<lparr>at_saved := at_work s\<rparr>))"

definition rollback :: "unit auth_op" where
  "rollback = modify (\<lambda>s. s\<lparr>at_work := at_saved s\<rparr>)"

definition serve :: "'a auth_op \<Rightarrow> auth_state \<Rightarrow> (auth_error + 'a) \<times> auth_state" where
  "serve m s = (case m (s\<lparr>at_work := at_saved s\<rparr>) of (r, t) \<Rightarrow> (r, t\<lparr>at_work := at_saved t\<rparr>))"

definition fresh :: "uuid auth_op" where
  "fresh = bindE (gets at_next) (\<lambda>i. bindE (modify (\<lambda>s. s\<lparr>at_next := i + 1\<rparr>)) (\<lambda>_. ret i))"

definition lift :: "'a checked \<Rightarrow> 'a auth_op" where
  "lift = of_sum"

text \<open>\<^verbatim>\<open>scalar_one_or_none()\<close>: several rows are an error.\<close>

definition sole :: "'a list \<Rightarrow> 'a option auth_op" where
  "sole rows = (case rows of [] \<Rightarrow> ret None | [r] \<Rightarrow> ret (Some r) | _ \<Rightarrow> throw Auth_db_error)"

definition rows :: "('a \<Rightarrow> bool) \<Rightarrow> (uuid, 'a) dict \<Rightarrow> 'a list" where
  "rows p d = filter p (dict_values d)"

text \<open>\<^verbatim>\<open>ORDER BY\<close>: a stable sort.\<close>

definition ordered_by :: "('a \<Rightarrow> int) \<Rightarrow> 'a list \<Rightarrow> 'a list" where
  "ordered_by f xs = sort_key f xs"

subsection \<open>Users\<close>

definition user_by_id :: "uuid \<Rightarrow> user option auth_op" where
  "user_by_id uid = look (\<lambda>d. dict_get (ad_users d) uid)"

definition user_by_phone :: "string \<Rightarrow> user option auth_op" where
  "user_by_phone phone = bindE (look (\<lambda>d. rows (\<lambda>u. us_phone u = phone) (ad_users d))) sole"

definition is_auth_eligible :: "user option \<Rightarrow> bool" where
  "is_auth_eligible u = (case u of None \<Rightarrow> False | Some x \<Rightarrow> us_status x = Us_active \<and> \<not> us_is_deleted x)"

definition save_user :: "user \<Rightarrow> auth_db \<Rightarrow> auth_db" where
  "save_user u d = d\<lparr>ad_users := dict_set (us_id u) u (ad_users d)\<rparr>"

definition create_user :: "string \<Rightarrow> string \<Rightarrow> string \<Rightarrow> user auth_op" where
  "create_user phone nickname role = bindE fresh (\<lambda>i.
     let u = \<lparr>us_id = i, us_phone = phone, us_nickname = nickname, us_role = role, us_status = Us_active,
              us_is_deleted = False, us_version = 1, us_generation = 1\<rparr> in
     bindE (put (save_user u)) (\<lambda>_. ret u))"

definition bump_generation :: "user \<Rightarrow> user auth_op" where
  "bump_generation u =
     (let current = (if us_generation u = 0 then 1 else us_generation u);
          changed = u\<lparr>us_generation := current + 1\<rparr> in
      bindE (put (save_user changed)) (\<lambda>_. ret changed))"

subsection \<open>Idempotency of code requests\<close>

definition idempotency_replay :: int where "idempotency_replay = seconds 60"
definition idempotency_buffer :: int where "idempotency_buffer = hours 22"
definition challenge_ttl :: int where "challenge_ttl = minutes 5"
definition challenge_buffer :: int where "challenge_buffer = hours 22"
definition resend_cooldown :: int where "resend_cooldown = seconds 60"
definition session_ttl :: int where "session_ttl = minutes 60"
definition session_retention :: int where "session_retention = hours (24 * 90)"
definition audit_retention :: int where "audit_retention = hours (24 * 180)"
definition profile_ttl :: int where "profile_ttl = minutes 10"
definition max_attempts :: int where "max_attempts = 5"

definition save_request :: "code_request \<Rightarrow> auth_db \<Rightarrow> auth_db" where
  "save_request r d = d\<lparr>ad_requests := dict_set (iv_id r) r (ad_requests d)\<rparr>"

definition get_request :: "bytes \<Rightarrow> int \<Rightarrow> code_request option auth_op" where
  "get_request digest version =
     bindE (look (\<lambda>d. rows (\<lambda>r. iv_key_version r = version \<and> iv_key_digest r = digest) (ad_requests d))) sole"

text \<open>\<^verbatim>\<open>INSERT ... ON CONFLICT DO NOTHING\<close>: the second component tells whether the row was inserted.\<close>

definition try_begin_idempotency ::
  "instant \<Rightarrow> bytes \<Rightarrow> int \<Rightarrow> bytes \<Rightarrow> (code_request \<times> bool) auth_op" where
  "try_begin_idempotency now digest version pref =
     bindE fresh (\<lambda>i.
     bindE (get_request digest version) (\<lambda>existing. case existing of
       Some r \<Rightarrow> ret (r, False)
     | None \<Rightarrow>
         let r = \<lparr>iv_id = i, iv_key_digest = digest, iv_key_version = version, iv_phone_ref = pref,
                  iv_state = Iv_processing, iv_http_status = None, iv_result_code = None, iv_payload = None,
                  iv_created_at = now, iv_completed_at = None, iv_replay_until = now + idempotency_replay,
                  iv_delete_after = now + idempotency_buffer\<rparr> in
         bindE (put (save_request r)) (\<lambda>_. ret (r, True))))"

definition complete_idempotency ::
  "instant \<Rightarrow> code_request \<Rightarrow> int \<Rightarrow> string \<Rightarrow> request_payload option \<Rightarrow> request_state \<Rightarrow> unit auth_op" where
  "complete_idempotency now r status code payload state =
     put (save_request (r\<lparr>iv_state := state, iv_http_status := Some status, iv_result_code := Some code,
                          iv_payload := payload, iv_completed_at := Some now\<rparr>))"

subsection \<open>Challenges\<close>

definition save_challenge :: "challenge \<Rightarrow> auth_db \<Rightarrow> auth_db" where
  "save_challenge c d = d\<lparr>ad_challenges := dict_set (vc_id c) c (ad_challenges d)\<rparr>"

definition get_challenge :: "uuid \<Rightarrow> challenge option auth_op" where
  "get_challenge cid = look (\<lambda>d. dict_get (ad_challenges d) cid)"

text \<open>Newest first.\<close>

definition latest_challenges :: "bytes \<Rightarrow> challenge list auth_op" where
  "latest_challenges pref = look (\<lambda>d. ordered_by (\<lambda>c. - vc_created_at c)
     (rows (\<lambda>c. vc_phone_ref c = pref) (ad_challenges d)))"

definition current_challenges :: "bytes \<Rightarrow> challenge list auth_op" where
  "current_challenges pref = look (\<lambda>d.
     rows (\<lambda>c. vc_phone_ref c = pref \<and> current_state (vc_state c)) (ad_challenges d))"

definition live_state :: "challenge_state \<Rightarrow> bool" where
  "live_state s \<longleftrightarrow> s \<in> {Vc_pending_delivery, Vc_dispatching, Vc_delivered}"

definition superseded_challenge :: "instant \<Rightarrow> challenge \<Rightarrow> challenge" where
  "superseded_challenge now c = c\<lparr>vc_state := Vc_superseded, vc_invalidated_at := Some now,
     vc_code_digest := None, vc_code_salt := None, vc_lease_owner := None, vc_lease_until := None,
     vc_send_started_at := None, vc_finished_at := None\<rparr>"

definition supersede_one :: "instant \<Rightarrow> challenge \<Rightarrow> auth_db \<Rightarrow> auth_db" where
  "supersede_one now c d = (if live_state (vc_state c) then save_challenge (superseded_challenge now c) d else d)"

definition supersede_challenges :: "instant \<Rightarrow> challenge list \<Rightarrow> unit auth_op" where
  "supersede_challenges now cs = bindE (touch (\<lambda>d. foldl (\<lambda>d c. supersede_one now c d) d cs)) (\<lambda>_.
     when_op (list_ex (\<lambda>c. live_state (vc_state c)) cs) flush)"

definition pending_challenge ::
  "instant \<Rightarrow> uuid \<Rightarrow> uuid option \<Rightarrow> uuid \<Rightarrow> bytes \<Rightarrow> bytes \<Rightarrow> bytes \<Rightarrow> int \<Rightarrow> uuid \<Rightarrow> string option \<Rightarrow> challenge" where
  "pending_challenge now cid uid request pref digest salt version provider phone =
     \<lparr>vc_id = cid, vc_user = uid, vc_request = request, vc_phone_ref = pref, vc_phone = phone,
      vc_code_digest = Some digest, vc_code_salt = Some salt, vc_key_version = version,
      vc_provider_ref = provider, vc_lease_owner = None, vc_lease_until = None, vc_send_started_at = None,
      vc_finished_at = None, vc_attempts = 0, vc_state = Vc_pending_delivery, vc_created_at = now,
      vc_delivered_at = None, vc_expires_at = now + challenge_ttl, vc_consumed_at = None,
      vc_invalidated_at = None, vc_delete_after = now + challenge_ttl + challenge_buffer\<rparr>"

subsection \<open>Dispatch\<close>

definition claimable :: "instant \<Rightarrow> challenge \<Rightarrow> bool" where
  "claimable now c \<longleftrightarrow> vc_state c = Vc_pending_delivery \<and>
     (case vc_lease_until c of None \<Rightarrow> True | Some t \<Rightarrow> t < now) \<and> vc_send_started_at c = None"

definition claim_pending_batch :: "instant \<Rightarrow> string \<Rightarrow> int \<Rightarrow> nat \<Rightarrow> challenge list auth_op" where
  "claim_pending_batch now owner lease batch =
     bindE (look (\<lambda>d. map (\<lambda>c. c\<lparr>vc_lease_owner := Some owner, vc_lease_until := Some (now + seconds lease)\<rparr>)
              (take batch (ordered_by vc_created_at (rows (claimable now) (ad_challenges d)))))) (\<lambda>claimed.
     bindE (touch (\<lambda>d. foldl (\<lambda>d c. save_challenge c d) d claimed)) (\<lambda>_.
     bindE (when_op (claimed \<noteq> []) flush) (\<lambda>_. ret claimed)))"

definition mark_send_started :: "instant \<Rightarrow> string \<Rightarrow> challenge \<Rightarrow> bool auth_op" where
  "mark_send_started now owner c =
     (if vc_state c \<noteq> Vc_pending_delivery \<or> vc_lease_owner c \<noteq> Some owner \<or> vc_send_started_at c \<noteq> None \<or>
         (case vc_lease_until c of None \<Rightarrow> False | Some t \<Rightarrow> t < now)
      then ret False
      else bindE (put (save_challenge (c\<lparr>vc_state := Vc_dispatching, vc_send_started_at := Some now\<rparr>))) (\<lambda>_.
        ret True))"

definition finalize_delivered :: "instant \<Rightarrow> challenge \<Rightarrow> unit auth_op" where
  "finalize_delivered now c = put (save_challenge (c\<lparr>vc_state := Vc_delivered, vc_delivered_at := Some now,
     vc_finished_at := Some now, vc_lease_owner := None, vc_lease_until := None\<rparr>))"

text \<open>Every caller passes \<^verbatim>\<open>clear_otp=True\<close>.\<close>

definition finalize_delivery_failed :: "instant \<Rightarrow> challenge \<Rightarrow> unit auth_op" where
  "finalize_delivery_failed now c = put (save_challenge (c\<lparr>vc_state := Vc_delivery_failed,
     vc_finished_at := Some now, vc_invalidated_at := Some now, vc_lease_owner := None,
     vc_lease_until := None, vc_code_digest := None, vc_code_salt := None\<rparr>))"

definition stale_dispatching :: "instant \<Rightarrow> nat \<Rightarrow> challenge list auth_op" where
  "stale_dispatching older_than n = look (\<lambda>d. take n (ordered_by (\<lambda>c. the (vc_send_started_at c))
     (rows (\<lambda>c. vc_state c = Vc_dispatching \<and>
        (case vc_send_started_at c of None \<Rightarrow> False | Some t \<Rightarrow> t < older_than)) (ad_challenges d))))"

subsection \<open>Login sessions\<close>

definition save_session :: "auth_session \<Rightarrow> auth_db \<Rightarrow> auth_db" where
  "save_session s d = d\<lparr>ad_sessions := dict_set (se_id s) s (ad_sessions d)\<rparr>"

definition revoked_session :: "instant \<Rightarrow> string \<Rightarrow> auth_session \<Rightarrow> auth_session" where
  "revoked_session at reason s = s\<lparr>se_revoked_at := Some at, se_reason := Some reason,
     se_delete_after := (if se_delete_after s < at + session_retention then at + session_retention
                         else se_delete_after s)\<rparr>"

text \<open>A session is not revoked before it was issued.\<close>

definition revoke_at :: "instant \<Rightarrow> auth_session \<Rightarrow> instant" where
  "revoke_at now s = (if now < se_issued_at s then se_issued_at s else now)"

definition revoke_unrevoked_sessions :: "instant \<Rightarrow> uuid \<Rightarrow> string \<Rightarrow> nat auth_op" where
  "revoke_unrevoked_sessions now uid reason =
     bindE (look (\<lambda>d. rows (\<lambda>s. se_user s = uid \<and> se_revoked_at s = None) (ad_sessions d))) (\<lambda>unrevoked.
     bindE (touch (\<lambda>d. foldl (\<lambda>d s. save_session (revoked_session (revoke_at now s) reason s) d) d unrevoked)) (\<lambda>_.
     bindE (when_op (unrevoked \<noteq> []) flush) (\<lambda>_. ret (length unrevoked))))"

definition new_session ::
  "instant \<Rightarrow> uuid \<Rightarrow> user \<Rightarrow> bytes \<Rightarrow> int \<Rightarrow> string \<Rightarrow> string option \<Rightarrow> auth_session" where
  "new_session now sid u digest version rq hint =
     \<lparr>se_id = sid, se_user = us_id u, se_token_digest = digest, se_key_version = version,
      se_generation = us_generation u, se_client_hint = hint, se_workspace = default_workspace (us_role u),
      se_role_snapshot = us_role u, se_issued_at = now, se_expires_at = now + session_ttl,
      se_revoked_at = None, se_reason = None, se_request_id = take 128 rq,
      se_delete_after = now + session_ttl + session_retention\<rparr>"

definition session_by_digest :: "int \<Rightarrow> bytes \<Rightarrow> auth_session option auth_op" where
  "session_by_digest version digest =
     bindE (look (\<lambda>d. rows (\<lambda>s. se_key_version s = version \<and> se_token_digest s = digest) (ad_sessions d))) sole"

definition session_with_user :: "int \<Rightarrow> bytes \<Rightarrow> (auth_session \<times> user) option auth_op" where
  "session_with_user version digest =
     bindE (session_by_digest version digest) (\<lambda>found. case found of
       None \<Rightarrow> ret None
     | Some s \<Rightarrow> bindE (user_by_id (se_user s)) (\<lambda>u. ret (map_option (\<lambda>x. (s, x)) u)))"

definition revoke_session :: "instant \<Rightarrow> auth_session \<Rightarrow> string \<Rightarrow> bool auth_op" where
  "revoke_session now s reason =
     (if se_revoked_at s \<noteq> None then ret False
      else bindE (put (save_session (revoked_session now reason s))) (\<lambda>_. ret True))"

subsection \<open>Security events and profile intents\<close>

definition security_event_row ::
  "instant \<Rightarrow> uuid \<Rightarrow> string \<Rightarrow> string \<Rightarrow> string \<Rightarrow> string \<Rightarrow> uuid option \<Rightarrow> uuid option \<Rightarrow> uuid option \<Rightarrow> bytes option \<Rightarrow>
     security_event" where
  "security_event_row now i event outcome reason rq uid cid sid subject =
     \<lparr>sv_id = i, sv_type = take 48 event, sv_outcome = take 32 outcome, sv_reason = take 64 reason,
      sv_request_id = take 128 rq, sv_user = uid, sv_challenge = cid, sv_session = sid, sv_subject = subject,
      sv_occurred_at = now, sv_delete_after = now + audit_retention\<rparr>"

definition append_event ::
  "instant \<Rightarrow> string \<Rightarrow> string \<Rightarrow> string \<Rightarrow> string \<Rightarrow> uuid option \<Rightarrow> uuid option \<Rightarrow> uuid option \<Rightarrow> bytes option \<Rightarrow>
     unit auth_op" where
  "append_event now event outcome reason rq uid cid sid subject =
     bindE fresh (\<lambda>i. put (\<lambda>d. d\<lparr>ad_events := ad_events d @
       [security_event_row now i event outcome reason rq uid cid sid subject]\<rparr>))"

definition recent_events :: "uuid \<Rightarrow> nat \<Rightarrow> security_event list auth_op" where
  "recent_events uid n = look (\<lambda>d. take n (ordered_by (\<lambda>e. - sv_occurred_at e)
     (filter (\<lambda>e. sv_user e = Some uid) (ad_events d))))"

definition save_intent :: "profile_intent \<Rightarrow> auth_db \<Rightarrow> auth_db" where
  "save_intent p d = d\<lparr>ad_intents := dict_set (pc_id p) p (ad_intents d)\<rparr>"

text \<open>Of the open intents of a phone only the new one stays open.\<close>

definition insert_profile_intent :: "instant \<Rightarrow> uuid \<Rightarrow> string \<Rightarrow> uuid \<Rightarrow> bytes \<Rightarrow> int \<Rightarrow> unit auth_op" where
  "insert_profile_intent now i phone cid digest version = put (\<lambda>d. save_intent
     \<lparr>pc_id = i, pc_phone = phone, pc_challenge = cid, pc_token_digest = digest, pc_key_version = version,
      pc_expires_at = now + profile_ttl, pc_consumed_at = None, pc_created_at = now\<rparr>
     (d\<lparr>ad_intents := dict_map_values (\<lambda>p. if pc_phone p = phone \<and> pc_consumed_at p = None
        then p\<lparr>pc_consumed_at := Some now\<rparr> else p) (ad_intents d)\<rparr>))"

definition open_intent_by_digest :: "instant \<Rightarrow> bytes \<Rightarrow> profile_intent option auth_op" where
  "open_intent_by_digest now digest =
     bindE (look (\<lambda>d. rows (\<lambda>p. pc_token_digest p = digest) (ad_intents d))) (\<lambda>found.
     bindE (sole found) (\<lambda>p. ret (case p of
       None \<Rightarrow> None
     | Some x \<Rightarrow> if pc_consumed_at x \<noteq> None \<or> pc_expires_at x \<le> now then None else Some x)))"

subsection \<open>Registrations\<close>

definition registration_ttl :: int where "registration_ttl = hours 24"

definition get_registration :: "string \<Rightarrow> registration option auth_op" where
  "get_registration key = bindE (look (\<lambda>d. rows (\<lambda>r. rg_key r = key) (ad_registrations d))) sole"

definition create_registration :: "instant \<Rightarrow> string \<Rightarrow> string \<Rightarrow> registered \<Rightarrow> unit auth_op" where
  "create_registration now key hash payload = bindE fresh (\<lambda>i. put (\<lambda>d. d\<lparr>ad_registrations :=
     dict_set i \<lparr>rg_id = i, rg_key = key, rg_request_hash = hash, rg_user = re_user payload,
       rg_payload = payload, rg_created_at = now, rg_expires_at = now + registration_ttl\<rparr>
       (ad_registrations d)\<rparr>))"

end
