(* ===== verification/Auth_Sessions.thy ===== *)
theory Auth_Sessions
  imports Auth_Store
begin

section \<open>Login sessions\<close>

text \<open>
  \<^verbatim>\<open>authentication/session_service.py\<close>: the verification of a one-time code, the check of a session
  cookie, logout, the revocation of all sessions and the switch of the workspace. A result constructor
  stands for the \<^verbatim>\<open>kind\<close> of the result, with its HTTP status, code and message, which the code derives
  from it; metrics and log events are left out. Where the code wraps a call in
  \<^verbatim>\<open>except SQLAlchemyError\<close>, a database error becomes the unavailable result; other exceptions escape.
\<close>

record auth_env =
  av_crypto :: cryptolib
  av_session :: hmac_keys
  av_otp :: hmac_keys
  av_csrf :: hmac_keys
  av_reference :: hmac_keys
  av_provider_ok :: bool
  av_nfkc :: "string \<Rightarrow> string"

record session_summary =
  ss_user :: uuid
  ss_nickname :: string
  ss_phone_masked :: string
  ss_role :: string
  ss_workspace :: string
  ss_expires_at :: instant
  ss_csrf :: string

definition session_summary_of :: "user \<Rightarrow> instant \<Rightarrow> string \<Rightarrow> string \<Rightarrow> session_summary" where
  "session_summary_of u expires csrf workspace =
     \<lparr>ss_user = us_id u, ss_nickname = us_nickname u, ss_phone_masked = mask_phone (us_phone u),
      ss_role = us_role u, ss_workspace = workspace, ss_expires_at = expires, ss_csrf = csrf\<rparr>"

text \<open>The value an operation falls back to when the database fails.\<close>

definition on_db_error :: "'a auth_op \<Rightarrow> 'a \<Rightarrow> 'a auth_op" where
  "on_db_error m x = catch_op m (\<lambda>e. case e of Auth_db_error \<Rightarrow> ret x | _ \<Rightarrow> throw e)"

definition undo :: "'a \<Rightarrow> 'a auth_op" where
  "undo x = bindE rollback (\<lambda>_. ret x)"

definition keep_result :: "'a \<Rightarrow> 'a auth_op" where
  "keep_result x = bindE commit (\<lambda>_. ret x)"

definition csrf_of :: "auth_env \<Rightarrow> uuid \<Rightarrow> string auth_op" where
  "csrf_of env sid = lift (issue_csrf_token (av_crypto env) (hk_current (av_csrf env)) (hk_version (av_csrf env)) sid)"

subsection \<open>The check of a session\<close>

text \<open>The arguments are the reason of a rejection and whether the cookie is cleared.\<close>

datatype bootstrap_result =
    Boot_ok session_summary
  | Boot_unauthenticated string bool
  | Boot_unavailable string

definition or_workspace :: "auth_session \<Rightarrow> user \<Rightarrow> string" where
  "or_workspace s u = (if se_workspace s = [] then default_workspace (us_role u) else se_workspace s)"

definition or_one :: "int \<Rightarrow> int" where
  "or_one n = (if n = 0 then 1 else n)"

text \<open>Why a session found by its token is rejected.\<close>

definition session_reject :: "instant \<Rightarrow> auth_session \<Rightarrow> user \<Rightarrow> string option" where
  "session_reject now s u =
     (if se_revoked_at s \<noteq> None then Some ''revoked''
      else if now \<ge> se_expires_at s then Some ''expired''
      else if \<not> is_auth_eligible (Some u) then Some ''account_disabled''
      else if or_one (us_generation u) \<noteq> or_one (se_generation s) then Some ''generation_mismatch''
      else None)"

definition bootstrap_inner :: "auth_env \<Rightarrow> instant \<Rightarrow> string option \<Rightarrow> bootstrap_result auth_op" where
  "bootstrap_inner env now cookie =
     (if \<not> current_usable (av_session env) \<or> \<not> current_usable (av_csrf env)
      then ret (Boot_unavailable ''key_unavailable'')
      else bindE (lift (parse_session_cookie cookie)) (\<lambda>parsed. case parsed of
        None \<Rightarrow> ret (if truthy cookie then Boot_unauthenticated ''malformed'' True
                     else Boot_unauthenticated ''missing'' False)
      | Some (version, opaque) \<Rightarrow> (case resolve_key (av_session env) version of
          None \<Rightarrow> ret (Boot_unavailable ''unknown_key_version'')
        | Some key \<Rightarrow>
            bindE (lift (token_digest (av_crypto env) key opaque)) (\<lambda>digest.
            bindE (session_with_user version digest) (\<lambda>row. case row of
              None \<Rightarrow> ret (Boot_unauthenticated ''unknown_token'' True)
            | Some (s, u) \<Rightarrow> (case session_reject now s u of
                Some reason \<Rightarrow> ret (Boot_unauthenticated reason True)
              | None \<Rightarrow> bindE (csrf_of env (se_id s)) (\<lambda>csrf.
                  ret (Boot_ok (session_summary_of u (se_expires_at s) csrf (or_workspace s u))))))))))"

definition bootstrap_session :: "auth_env \<Rightarrow> instant \<Rightarrow> string option \<Rightarrow> bootstrap_result auth_op" where
  "bootstrap_session env now cookie = on_db_error (bootstrap_inner env now cookie) (Boot_unavailable ''dependency'')"

subsection \<open>Logout\<close>

datatype logout_result =
    Logged_out | Logged_out_all | Logout_csrf_invalid | Logout_unavailable | Logout_unauthenticated

text \<open>
  The part that logout, the revocation of all sessions and the switch of the workspace share: the keys, the
  cookie and the session row it names (\<open>None\<close> where there is none).
\<close>

datatype 'a entry = No_keys | No_cookie | Unknown_key | Found 'a

definition enter :: "auth_env \<Rightarrow> string option \<Rightarrow> auth_session option entry auth_op" where
  "enter env cookie =
     (if \<not> current_usable (av_session env) \<or> \<not> current_usable (av_csrf env) then ret No_keys
      else bindE (lift (parse_session_cookie cookie)) (\<lambda>parsed. case parsed of
        None \<Rightarrow> ret No_cookie
      | Some (version, opaque) \<Rightarrow> (case resolve_key (av_session env) version of
          None \<Rightarrow> ret Unknown_key
        | Some key \<Rightarrow>
            bindE (lift (token_digest (av_crypto env) key opaque)) (\<lambda>digest.
            bindE (session_by_digest version digest) (\<lambda>s. ret (Found s))))))"

definition logout_valid ::
  "auth_env \<Rightarrow> instant \<Rightarrow> auth_session \<Rightarrow> string option \<Rightarrow> string \<Rightarrow> logout_result auth_op" where
  "logout_valid env now s presented rq =
     bindE (lift (csrf_for_session (av_crypto env) (av_csrf env) (se_id s) presented)) (\<lambda>csrf_ok. case csrf_ok of
       None \<Rightarrow> undo Logout_unavailable
     | Some ok \<Rightarrow> if \<not> ok then undo Logout_csrf_invalid
         else bindE (revoke_session now s ''logout'') (\<lambda>_.
              bindE (append_event now ''session_revoked'' ''success'' ''logout'' rq
                       (Some (se_user s)) None (Some (se_id s)) None) (\<lambda>_.
              keep_result Logged_out)))"

definition logout_inner :: "auth_env \<Rightarrow> instant \<Rightarrow> string option \<Rightarrow> string option \<Rightarrow> string \<Rightarrow> logout_result auth_op" where
  "logout_inner env now cookie presented rq =
     bindE (enter env cookie) (\<lambda>entered. case entered of
       No_keys \<Rightarrow> ret Logout_unavailable
     | No_cookie \<Rightarrow> ret Logged_out
     | Unknown_key \<Rightarrow> ret Logout_unavailable
     | Found None \<Rightarrow> undo Logged_out
     | Found (Some s) \<Rightarrow>
         if se_revoked_at s \<noteq> None \<or> now \<ge> se_expires_at s then undo Logged_out
         else logout_valid env now s presented rq)"

definition logout_session :: "auth_env \<Rightarrow> instant \<Rightarrow> string option \<Rightarrow> string option \<Rightarrow> string \<Rightarrow> logout_result auth_op" where
  "logout_session env now cookie presented rq =
     on_db_error (logout_inner env now cookie presented rq) Logout_unavailable"

definition revoke_all_inner ::
  "auth_env \<Rightarrow> instant \<Rightarrow> string option \<Rightarrow> string option \<Rightarrow> string \<Rightarrow> logout_result auth_op" where
  "revoke_all_inner env now cookie presented rq =
     bindE (enter env cookie) (\<lambda>entered. case entered of
       No_keys \<Rightarrow> ret Logout_unavailable
     | No_cookie \<Rightarrow> ret Logout_unauthenticated
     | Unknown_key \<Rightarrow> ret Logout_unavailable
     | Found None \<Rightarrow> undo Logout_unauthenticated
     | Found (Some s) \<Rightarrow>
         if se_revoked_at s \<noteq> None then undo Logout_unauthenticated
         else bindE (lift (csrf_for_session (av_crypto env) (av_csrf env) (se_id s) presented)) (\<lambda>csrf_ok.
           case csrf_ok of
             None \<Rightarrow> undo Logout_unavailable
           | Some ok \<Rightarrow> if \<not> ok then undo Logout_csrf_invalid
               else bindE (user_by_id (se_user s)) (\<lambda>found. case found of
                 None \<Rightarrow> undo Logout_unauthenticated
               | Some u \<Rightarrow>
                   bindE (bump_generation u) (\<lambda>_.
                   bindE (revoke_unrevoked_sessions now (us_id u) ''superseded'') (\<lambda>_.
                   bindE (append_event now ''session_revoked_all'' ''success'' ''logout_all'' rq
                            (Some (us_id u)) None (Some (se_id s)) None) (\<lambda>_.
                   keep_result Logged_out_all))))))"

definition revoke_all_sessions ::
  "auth_env \<Rightarrow> instant \<Rightarrow> string option \<Rightarrow> string option \<Rightarrow> string \<Rightarrow> logout_result auth_op" where
  "revoke_all_sessions env now cookie presented rq =
     on_db_error (revoke_all_inner env now cookie presented rq) Logout_unavailable"

subsection \<open>Workspace\<close>

datatype switch_result =
    Switched session_summary | Switch_unauthenticated | Switch_forbidden | Switch_csrf_invalid | Switch_unavailable

definition switch_for ::
  "auth_env \<Rightarrow> instant \<Rightarrow> auth_session \<Rightarrow> user \<Rightarrow> string \<Rightarrow> string \<Rightarrow> switch_result auth_op" where
  "switch_for env now s u target rq =
     (if \<not> workspace_allowed (us_role u) target
      then bindE (append_event now ''workspace_switch_denied'' ''rejected'' ''unauthorized_workspace'' rq
                    (Some (us_id u)) None (Some (se_id s)) None) (\<lambda>_.
           keep_result Switch_forbidden)
      else bindE (touch (save_session (s\<lparr>se_workspace := target\<rparr>))) (\<lambda>_.
           bindE (csrf_of env (se_id s)) (\<lambda>csrf.
           bindE (append_event now ''workspace_switched'' ''success'' ''switch'' rq
                    (Some (us_id u)) None (Some (se_id s)) None) (\<lambda>_.
           keep_result (Switched (session_summary_of u (se_expires_at s) csrf target))))))"

definition switch_inner ::
  "auth_env \<Rightarrow> instant \<Rightarrow> string option \<Rightarrow> string option \<Rightarrow> string \<Rightarrow> string \<Rightarrow> switch_result auth_op" where
  "switch_inner env now cookie presented target rq =
     bindE (enter env cookie) (\<lambda>entered. case entered of
       No_keys \<Rightarrow> ret Switch_unavailable
     | No_cookie \<Rightarrow> ret Switch_unauthenticated
     | Unknown_key \<Rightarrow> ret Switch_unavailable
     | Found None \<Rightarrow> undo Switch_unauthenticated
     | Found (Some s) \<Rightarrow>
         if se_revoked_at s \<noteq> None then undo Switch_unauthenticated
         else bindE (lift (csrf_for_session (av_crypto env) (av_csrf env) (se_id s) presented)) (\<lambda>csrf_ok.
           case csrf_ok of
             None \<Rightarrow> undo Switch_unavailable
           | Some ok \<Rightarrow> if \<not> ok then undo Switch_csrf_invalid
               else bindE (user_by_id (se_user s)) (\<lambda>found. case found of
                 None \<Rightarrow> undo Switch_unauthenticated
               | Some u \<Rightarrow> switch_for env now s u target rq)))"

definition switch_workspace ::
  "auth_env \<Rightarrow> instant \<Rightarrow> string option \<Rightarrow> string option \<Rightarrow> string \<Rightarrow> string \<Rightarrow> switch_result auth_op" where
  "switch_workspace env now cookie presented target rq =
     on_db_error (switch_inner env now cookie presented target rq) Switch_unavailable"

subsection \<open>Security summary\<close>

record security_view =
  sw_issued_at :: instant
  sw_expires_at :: instant
  sw_generation :: int
  sw_client_hint :: "string option"
  sw_events :: "security_event list"

datatype summary_result = Summary security_view | Summary_unauthenticated bool | Summary_unavailable

definition security_summary :: "auth_env \<Rightarrow> instant \<Rightarrow> string option \<Rightarrow> summary_result auth_op" where
  "security_summary env now cookie =
     bindE (bootstrap_session env now cookie) (\<lambda>boot. case boot of
       Boot_unauthenticated reason clear \<Rightarrow> ret (Summary_unauthenticated clear)
     | Boot_unavailable reason \<Rightarrow> ret Summary_unavailable
     | Boot_ok _ \<Rightarrow>
         bindE (lift (parse_session_cookie cookie)) (\<lambda>parsed. case parsed of
           None \<Rightarrow> ret (Summary_unauthenticated True)
         | Some (version, opaque) \<Rightarrow> (case resolve_key (av_session env) version of
             None \<Rightarrow> ret Summary_unavailable
           | Some key \<Rightarrow>
               bindE (lift (token_digest (av_crypto env) key opaque)) (\<lambda>digest.
               bindE (session_with_user version digest) (\<lambda>row. case row of
                 None \<Rightarrow> ret (Summary_unauthenticated True)
               | Some (s, u) \<Rightarrow> bindE (recent_events (us_id u) 10) (\<lambda>events.
                   ret (Summary \<lparr>sw_issued_at = se_issued_at s, sw_expires_at = se_expires_at s,
                     sw_generation = se_generation s, sw_client_hint = se_client_hint s,
                     sw_events = events\<rparr>)))))))"

subsection \<open>The verification of a code\<close>

text \<open>
  A failed verification tells how many attempts remain, or that a new code is needed (\<open>None\<close>). A verified
  code of an unknown phone leads to the completion of a profile, with the cookie of the intent.
\<close>

datatype issue_result =
    Issue_validation
  | Issue_unavailable
  | Issue_challenge_unavailable
  | Issue_challenge_expired
  | Issue_failed "int option"
  | Issue_profile string string
  | Issued session_summary string

definition expirable :: "challenge_state \<Rightarrow> bool" where
  "expirable s \<longleftrightarrow> s \<notin> {Vc_consumed, Vc_locked, Vc_superseded, Vc_expired, Vc_delivery_failed}"

definition expired_challenge :: "instant \<Rightarrow> challenge \<Rightarrow> challenge" where
  "expired_challenge now c = c\<lparr>vc_state := Vc_expired, vc_invalidated_at := Some now,
     vc_code_digest := None, vc_code_salt := None, vc_send_started_at := None\<rparr>"

definition consumed_challenge :: "instant \<Rightarrow> challenge \<Rightarrow> challenge" where
  "consumed_challenge now c = c\<lparr>vc_state := Vc_consumed, vc_consumed_at := Some now,
     vc_code_digest := None, vc_code_salt := None, vc_send_started_at := None\<rparr>"

definition failed_attempt :: "instant \<Rightarrow> challenge \<Rightarrow> challenge" where
  "failed_attempt now c =
     (let n = vc_attempts c + 1 in
      if n \<ge> max_attempts
      then c\<lparr>vc_attempts := n, vc_state := Vc_locked, vc_invalidated_at := Some now,
             vc_code_digest := None, vc_code_salt := None, vc_send_started_at := None\<rparr>
      else c\<lparr>vc_attempts := n\<rparr>)"

definition attempts_left :: "challenge \<Rightarrow> int option" where
  "attempts_left c = (if vc_attempts c \<ge> max_attempts then None else Some (max 0 (max_attempts - vc_attempts c)))"

definition is_register :: "challenge \<Rightarrow> bool" where
  "is_register c \<longleftrightarrow> vc_user c = None \<and> truthy (vc_phone c)"

definition is_decoy :: "challenge \<Rightarrow> bool" where
  "is_decoy c \<longleftrightarrow> vc_user c = None \<and> \<not> truthy (vc_phone c)"

definition reject_code :: "instant \<Rightarrow> challenge \<Rightarrow> bool \<Rightarrow> string \<Rightarrow> issue_result auth_op" where
  "reject_code now c right rq =
     (let changed = failed_attempt now c in
      bindE (touch (save_challenge changed)) (\<lambda>_.
      bindE (append_event now ''verification_failed'' ''rejected''
               (if right then ''decoy_or_ineligible'' else ''wrong_code'') rq (vc_user c) (Some (vc_id c)) None None) (\<lambda>_.
      keep_result (Issue_failed (attempts_left changed)))))"

definition issue_profile :: "auth_env \<Rightarrow> instant \<Rightarrow> bytes \<Rightarrow> challenge \<Rightarrow> string \<Rightarrow> issue_result auth_op" where
  "issue_profile env now random c rq =
     (let mat = av_session env; phone = the (vc_phone c) in
      bindE (touch (save_challenge (consumed_challenge now c))) (\<lambda>_.
      bindE (lift (generate_session_token random (hk_version mat))) (\<lambda>token.
      bindE (lift (profile_token_digest (av_crypto env) (hk_current mat) (st_opaque token))) (\<lambda>digest.
      bindE fresh (\<lambda>i.
      bindE (insert_profile_intent now i phone (vc_id c) digest (hk_version mat)) (\<lambda>_.
      bindE (append_event now ''profile_completion_issued'' ''success'' ''register_otp'' rq None (Some (vc_id c))
               None None) (\<lambda>_.
      keep_result (Issue_profile (mask_phone phone) (st_cookie token)))))))))"

text \<open>A login revokes the sessions of the user and begins a new generation.\<close>

definition log_in :: "auth_env \<Rightarrow> instant \<Rightarrow> bytes \<Rightarrow> challenge \<Rightarrow> user \<Rightarrow> string \<Rightarrow> string option \<Rightarrow> issue_result auth_op" where
  "log_in env now random c u rq ip =
     (let mat = av_session env in
      bindE (touch (save_challenge (consumed_challenge now c))) (\<lambda>_.
      bindE (revoke_unrevoked_sessions now (us_id u) ''superseded'') (\<lambda>revoked.
      bindE (bump_generation u) (\<lambda>u.
      bindE fresh (\<lambda>sid.
      bindE (lift (generate_session_token random (hk_version mat))) (\<lambda>token.
      bindE (lift (token_digest (av_crypto env) (hk_current mat) (st_opaque token))) (\<lambda>digest.
      let s = new_session now sid u digest (hk_version mat) rq
                (client_hint (av_crypto env) (hk_current (av_reference env)) ip) in
      bindE (catch_op (bindE (put (save_session s)) (\<lambda>_. ret True)) (\<lambda>e. ret False)) (\<lambda>inserted.
      if \<not> inserted then undo Issue_unavailable
      else bindE (csrf_of env sid) (\<lambda>csrf.
           bindE (append_event now ''session_issued'' ''success'' ''login'' rq (Some (us_id u)) (Some (vc_id c))
                    (Some sid) None) (\<lambda>_.
           bindE (when_op (revoked > 0) (append_event now ''session_replaced'' ''success'' ''superseded'' rq
                    (Some (us_id u)) None (Some sid) None)) (\<lambda>_.
           keep_result (Issued (session_summary_of u (se_expires_at s) csrf (se_workspace s))
             (st_cookie token)))))))))))))"

text \<open>The code is checked against the stored digest, under the key version of the challenge.\<close>

definition check_code :: "auth_env \<Rightarrow> challenge \<Rightarrow> string \<Rightarrow> bool option" where
  "check_code env c code =
     (case (resolve_key (av_otp env) (if vc_key_version c = 0 then hk_version (av_otp env) else vc_key_version c),
            vc_code_digest c, vc_code_salt c) of
        (Some key, Some digest, Some salt) \<Rightarrow>
          if digest = [] \<or> salt = [] then None
          else Some (verify_otp_digest (av_crypto env) key (vc_id c) salt code digest)
      | _ \<Rightarrow> None)"

definition verify_challenge ::
  "auth_env \<Rightarrow> instant \<Rightarrow> bytes \<Rightarrow> user option \<Rightarrow> challenge \<Rightarrow> string \<Rightarrow> string \<Rightarrow> string option \<Rightarrow> issue_result auth_op" where
  "verify_challenge env now random u c code rq ip =
     (if now \<ge> vc_expires_at c \<or> vc_state c = Vc_expired
      then (if expirable (vc_state c)
            then bindE (put (save_challenge (expired_challenge now c))) (\<lambda>_. keep_result Issue_challenge_expired)
            else undo Issue_challenge_expired)
      else if vc_state c \<noteq> Vc_delivered then undo Issue_challenge_unavailable
      else case check_code env c code of
          None \<Rightarrow> undo Issue_challenge_unavailable
        | Some ok \<Rightarrow>
            let eligible = (\<not> is_decoy c \<and> (is_register c \<or> is_auth_eligible u)) in
            if \<not> (ok \<and> eligible) then reject_code now c ok rq
            else if is_register c then issue_profile env now random c rq
            else log_in env now random c (the u) rq ip)"

definition create_session ::
  "auth_env \<Rightarrow> instant \<Rightarrow> bytes \<Rightarrow> uuid \<Rightarrow> string \<Rightarrow> string \<Rightarrow> string option \<Rightarrow> issue_result auth_op" where
  "create_session env now random cid code rq ip =
     (if \<not> six_digits code then ret Issue_validation
      else if \<not> current_usable (av_otp env) \<or> \<not> current_usable (av_session env) \<or> \<not> current_usable (av_csrf env)
      then ret Issue_unavailable
      else bindE (get_challenge cid) (\<lambda>peek. case peek of
        None \<Rightarrow> ret Issue_challenge_unavailable
      | Some p \<Rightarrow>
          bindE (case vc_user p of None \<Rightarrow> ret None | Some uid \<Rightarrow> user_by_id uid) (\<lambda>u.
          bindE (get_challenge cid) (\<lambda>found. case found of
            None \<Rightarrow> undo Issue_challenge_unavailable
          | Some c \<Rightarrow> verify_challenge env now random u c code rq ip))))"

end
