(* ===== verification/Auth_Challenges.thy ===== *)
theory Auth_Challenges
  imports Auth_Sessions
begin

section \<open>Requesting and delivering codes\<close>

text \<open>
  \<^verbatim>\<open>authentication/challenge_service.py\<close> (a code request: idempotency, rate limit, cooldown, the new
  challenge), the in-memory limiter of \<^verbatim>\<open>auth_rate_limit.py\<close>, \<^verbatim>\<open>authentication/delivery_service.py\<close> and the
  dispatcher of \<^verbatim>\<open>dispatch/auth_delivery.py\<close>. The SMS provider is an argument: what \<^verbatim>\<open>send\<close> and
  \<^verbatim>\<open>query_status\<close> report for a provider reference. A call of the dispatcher runs several database
  sessions: each one is a call of its own here (\<open>serve\<close>).
\<close>

subsection \<open>Rate limit\<close>

datatype limit_decision = Allowed | Denied int | Limiter_down

definition count_of :: "(bytes, int) dict \<Rightarrow> bytes \<Rightarrow> int" where
  "count_of d k = (case dict_get d k of None \<Rightarrow> 0 | Some n \<Rightarrow> n)"

definition check_and_increment :: "bytes \<Rightarrow> bytes \<Rightarrow> rate_limiter \<Rightarrow> limit_decision \<times> rate_limiter" where
  "check_and_increment pref iref rl =
     (if rl_fail rl then (Limiter_down, rl)
      else if count_of (rl_phone rl) pref \<ge> rl_phone_limit rl then (Denied (rl_retry_after rl), rl)
      else if count_of (rl_ip rl) iref \<ge> rl_ip_limit rl then (Denied (rl_retry_after rl), rl)
      else (Allowed, rl\<lparr>rl_phone := dict_set pref (count_of (rl_phone rl) pref + 1) (rl_phone rl),
                       rl_ip := dict_set iref (count_of (rl_ip rl) iref + 1) (rl_ip rl)\<rparr>))"

text \<open>A limiter that is not wired is a limiter that is down.\<close>

definition count_request :: "bytes \<Rightarrow> bytes \<Rightarrow> limit_decision auth_op" where
  "count_request pref iref =
     bindE (gets at_limiter) (\<lambda>limiter. case limiter of
       None \<Rightarrow> ret Limiter_down
     | Some rl \<Rightarrow> (case check_and_increment pref iref rl of
         (decision, rl') \<Rightarrow> bindE (modify (\<lambda>s. s\<lparr>at_limiter := Some rl'\<rparr>)) (\<lambda>_. ret decision)))"

subsection \<open>Code requests\<close>

text \<open>
  A new request, a reuse in the cooldown and a replay carry the public view of the challenge; the flag
  tells a request for an account that will receive no code (it is not sent to the client).
\<close>

datatype request_result =
    Request_accepted challenge_view bool
  | Request_replayed "challenge_view option"
  | Request_validation
  | Request_key_required
  | Request_key_conflict
  | Request_key_expired
  | Request_delivery_unavailable
  | Request_unavailable
  | Request_rate_limited int
  | Request_failed_before int string

definition valid_key :: "string option \<Rightarrow> string option" where
  "valid_key key = (case key of
       None \<Rightarrow> None
     | Some k \<Rightarrow> if py_strip k = [] \<or> length (py_strip k) > 64 then None else Some (py_strip k))"

definition retry_seconds :: "request_payload option \<Rightarrow> int" where
  "retry_seconds payload = (case payload of Some (Iv_retry_after n) \<Rightarrow> if n = 0 then 1 else max 1 n | _ \<Rightarrow> 1)"

definition idempotency_loser :: "instant \<Rightarrow> bytes \<Rightarrow> code_request \<Rightarrow> request_result" where
  "idempotency_loser now pref r =
     (if now \<ge> iv_replay_until r then Request_key_expired
      else if iv_phone_ref r \<noteq> pref then Request_key_conflict
      else case iv_state r of
          Iv_processing \<Rightarrow> Request_unavailable
        | Iv_failed \<Rightarrow>
            if iv_result_code r = Some ''RATE_LIMITED'' then Request_rate_limited (retry_seconds (iv_payload r))
            else Request_failed_before (case iv_http_status r of None \<Rightarrow> 503 | Some n \<Rightarrow> if n = 0 then 503 else n)
                   (or_str (iv_result_code r) ''SERVICE_UNAVAILABLE'')
        | Iv_succeeded \<Rightarrow> Request_replayed (case iv_payload r of Some (Iv_challenge v) \<Rightarrow> Some v | _ \<Rightarrow> None))"

definition apply_rate_limit :: "instant \<Rightarrow> code_request \<Rightarrow> bytes \<Rightarrow> bytes \<Rightarrow> string \<Rightarrow> request_result option auth_op" where
  "apply_rate_limit now r pref iref rq =
     bindE (count_request pref iref) (\<lambda>decision. case decision of
       Allowed \<Rightarrow> ret None
     | Limiter_down \<Rightarrow>
         bindE (complete_idempotency now r 503 ''SERVICE_UNAVAILABLE'' None Iv_failed) (\<lambda>_.
         bindE (append_event now ''challenge_rate_limited'' ''failed'' ''backend_unavailable'' rq None None None
                  (Some pref)) (\<lambda>_.
         keep_result (Some Request_unavailable)))
     | Denied n \<Rightarrow>
         let retry = max 1 (if n = 0 then 1 else n) in
         bindE (complete_idempotency now r 429 ''RATE_LIMITED'' (Some (Iv_retry_after retry)) Iv_failed) (\<lambda>_.
         bindE (append_event now ''challenge_rate_limited'' ''rejected'' ''rate_limited'' rq None None None
                  (Some pref)) (\<lambda>_.
         keep_result (Some (Request_rate_limited retry)))))"

definition view_of :: "string \<Rightarrow> challenge \<Rightarrow> challenge_view" where
  "view_of masked c = \<lparr>cv_challenge = vc_id c, cv_phone_masked = masked, cv_expires_at = vc_expires_at c,
     cv_resend_at = vc_created_at c + resend_cooldown\<rparr>"

definition eligible_id :: "user option \<Rightarrow> uuid option" where
  "eligible_id u = (if is_auth_eligible u then map_option us_id u else None)"

definition reuse_challenge ::
  "instant \<Rightarrow> code_request \<Rightarrow> bytes \<Rightarrow> user option \<Rightarrow> string \<Rightarrow> challenge \<Rightarrow> string \<Rightarrow> request_result auth_op" where
  "reuse_challenge now r pref u masked latest rq =
     bindE (complete_idempotency now r 202 ''0'' (Some (Iv_challenge (view_of masked latest))) Iv_succeeded) (\<lambda>_.
     bindE (append_event now ''challenge_requested'' ''success'' ''cooldown_reuse'' rq (eligible_id u)
              (Some (vc_id latest)) None (Some pref)) (\<lambda>_.
     keep_result (Request_accepted (view_of masked latest) (vc_user latest = None))))"

text \<open>The code is derived, hashed and dropped: the row holds its digest and salt.\<close>

definition new_challenge ::
  "auth_env \<Rightarrow> instant \<Rightarrow> bytes \<Rightarrow> code_request \<Rightarrow> bytes \<Rightarrow> user option \<Rightarrow> string \<Rightarrow> string \<Rightarrow> request_result auth_op" where
  "new_challenge env now salt r pref u phone rq =
     (let mat = av_otp env; masked = mask_phone phone in
      bindE fresh (\<lambda>cid.
      bindE fresh (\<lambda>provider.
      bindE (lift (derive_otp (av_crypto env) (hk_current mat) cid)) (\<lambda>code.
      bindE (lift (otp_verification_digest (av_crypto env) (hk_current mat) cid salt code)) (\<lambda>digest.
      let c = pending_challenge now cid (eligible_id u) (iv_id r) pref digest salt (hk_version mat) provider
                (if u = None then Some phone else None) in
      bindE (put (save_challenge c)) (\<lambda>_.
      bindE (complete_idempotency now r 202 ''0'' (Some (Iv_challenge (view_of masked c))) Iv_succeeded) (\<lambda>_.
      bindE (append_event now ''challenge_requested'' ''success''
               (if is_auth_eligible u then ''accepted'' else ''decoy'') rq (eligible_id u) (Some cid) None
               (Some pref)) (\<lambda>_.
      keep_result (Request_accepted (view_of masked c) (eligible_id u = None))))))))))"

definition winner ::
  "auth_env \<Rightarrow> instant \<Rightarrow> bytes \<Rightarrow> code_request \<Rightarrow> bytes \<Rightarrow> string \<Rightarrow> string \<Rightarrow> request_result auth_op" where
  "winner env now salt r pref phone rq =
     bindE (user_by_phone phone) (\<lambda>u.
     bindE (current_challenges pref) (\<lambda>current.
     bindE (latest_challenges pref) (\<lambda>latest.
     let reusable = (case latest of
            [] \<Rightarrow> None
          | c # _ \<Rightarrow> if now - vc_created_at c < resend_cooldown \<and> live_state (vc_state c) then Some c else None) in
     case reusable of
       Some c \<Rightarrow> reuse_challenge now r pref u (mask_phone phone) c rq
     | None \<Rightarrow>
         bindE (when_op (current \<noteq> []) (supersede_challenges now current)) (\<lambda>_.
         bindE (for_each (\<lambda>c. when_op (vc_state c = Vc_dispatching) (supersede_challenges now [c])) latest) (\<lambda>_.
         new_challenge env now salt r pref u phone rq)))))"

definition request_challenge ::
  "auth_env \<Rightarrow> instant \<Rightarrow> bytes \<Rightarrow> string \<Rightarrow> string option \<Rightarrow> string \<Rightarrow> string \<Rightarrow> request_result auth_op" where
  "request_challenge env now salt phone key rq ip =
     (case valid_key key of
        None \<Rightarrow> ret Request_key_required
      | Some k \<Rightarrow> (case normalize_cn_mobile (av_nfkc env) phone of
          None \<Rightarrow> ret Request_validation
        | Some number \<Rightarrow>
            if \<not> current_usable (av_reference env) \<or> \<not> current_usable (av_otp env) then ret Request_unavailable
            else if \<not> av_provider_ok env then ret Request_delivery_unavailable
            else
              let ref = hk_current (av_reference env); c = av_crypto env in
              bindE (lift (phone_ref c ref number)) (\<lambda>pref.
              bindE (lift (ip_ref c ref (if ip = [] then ''0.0.0.0'' else ip))) (\<lambda>iref.
              bindE (lift (idempotency_key_digest c ref k)) (\<lambda>digest.
              bindE (try_begin_idempotency now digest (hk_version (av_reference env)) pref) (\<lambda>begun.
              if \<not> snd begun then ret (idempotency_loser now pref (fst begun))
              else bindE (apply_rate_limit now (fst begun) pref iref rq) (\<lambda>limited. case limited of
                Some refused \<Rightarrow> ret refused
              | None \<Rightarrow> winner env now salt (fst begun) pref number rq)))))))"

subsection \<open>Delivery\<close>

text \<open>
  What a provider reports: accepted, or why not (\<^verbatim>\<open>rejected\<close>, \<^verbatim>\<open>unavailable\<close>, \<^verbatim>\<open>unknown\<close>, the last one also for
  an exception of the adapter).
\<close>

datatype sms_status = Sms_accepted | Sms_rejected | Sms_unavailable | Sms_unknown

definition sms_label :: "sms_status \<Rightarrow> string" where
  "sms_label s = (case s of Sms_accepted \<Rightarrow> ''accepted'' | Sms_rejected \<Rightarrow> ''rejected''
     | Sms_unavailable \<Rightarrow> ''unavailable'' | Sms_unknown \<Rightarrow> ''unknown'')"

record sms_port =
  sp_send :: "uuid \<Rightarrow> string \<Rightarrow> string \<Rightarrow> sms_status"
  sp_query :: "uuid \<Rightarrow> sms_status option"

text \<open>The final state a delivery reports, its label, and whether a message was sent.\<close>

record delivery_outcome =
  do_delivered :: bool
  do_label :: string
  do_sent :: bool

definition outcome :: "bool \<Rightarrow> string \<Rightarrow> bool \<Rightarrow> delivery_outcome" where
  "outcome delivered label sent = \<lparr>do_delivered = delivered, do_label = label, do_sent = sent\<rparr>"

definition finalize_result ::
  "instant \<Rightarrow> uuid \<Rightarrow> sms_status \<Rightarrow> string \<Rightarrow> uuid option \<Rightarrow> delivery_outcome auth_op" where
  "finalize_result now cid status rq uid =
     bindE (get_challenge cid) (\<lambda>locked. case locked of
       None \<Rightarrow> undo (outcome False ''missing'' True)
     | Some c \<Rightarrow>
         if vc_state c \<notin> {Vc_dispatching, Vc_pending_delivery}
         then undo (outcome (vc_state c \<noteq> Vc_delivery_failed) ''already_final'' True)
         else if status = Sms_accepted
         then bindE (finalize_delivered now c) (\<lambda>_.
              bindE (append_event now ''challenge_requested'' ''success'' ''delivery_accepted'' rq uid (Some cid)
                       None None) (\<lambda>_.
              keep_result (outcome True (sms_label status) True)))
         else bindE (finalize_delivery_failed now c) (\<lambda>_.
              bindE (append_event now ''delivery_failed'' ''failed'' (sms_label status) rq uid (Some cid) None None) (\<lambda>_.
              keep_result (outcome False (sms_label status) True))))"

definition fail_after_send_started :: "instant \<Rightarrow> uuid \<Rightarrow> string \<Rightarrow> string \<Rightarrow> unit auth_op" where
  "fail_after_send_started now cid rq label =
     bindE (get_challenge cid) (\<lambda>locked. case locked of
       None \<Rightarrow> ret ()
     | Some c \<Rightarrow>
         bindE (finalize_delivery_failed now c) (\<lambda>_.
         bindE (append_event now ''delivery_failed'' ''failed'' label rq None (Some cid) None None) (\<lambda>_.
         commit)))"

text \<open>Outside a transaction: the code is derived again and sent at most once.\<close>

definition send_code ::
  "auth_env \<Rightarrow> sms_port \<Rightarrow> instant \<Rightarrow> challenge \<Rightarrow> string \<Rightarrow> string \<Rightarrow> delivery_outcome auth_op" where
  "send_code env sms now c rq phone =
     (let mat = av_otp env in
      case resolve_key mat (if vc_key_version c = 0 then hk_version mat else vc_key_version c) of
        None \<Rightarrow> bindE (fail_after_send_started now (vc_id c) rq ''configuration_invalid'') (\<lambda>_.
          ret (outcome False ''configuration_invalid'' False))
      | Some key \<Rightarrow> bindE (lift (derive_otp (av_crypto env) key (vc_id c))) (\<lambda>code.
          finalize_result now (vc_id c) (sp_send sms (vc_provider_ref c) phone code) rq (vc_user c)))"

definition deliver_decoy :: "instant \<Rightarrow> challenge \<Rightarrow> string \<Rightarrow> delivery_outcome auth_op" where
  "deliver_decoy now c rq =
     bindE (get_challenge (vc_id c)) (\<lambda>locked. case locked of
       None \<Rightarrow> ret (outcome False ''skipped_state'' False)
     | Some l \<Rightarrow>
         if vc_state l \<noteq> Vc_pending_delivery then ret (outcome False ''skipped_state'' False)
         else bindE (finalize_delivered now l) (\<lambda>_.
              bindE (append_event now ''challenge_requested'' ''success'' ''decoy_delivered'' rq None (Some (vc_id c))
                       None (Some (vc_phone_ref l))) (\<lambda>_.
              keep_result (outcome True ''decoy_delivered'' False))))"

definition prepare_and_send ::
  "auth_env \<Rightarrow> sms_port \<Rightarrow> instant \<Rightarrow> challenge \<Rightarrow> string \<Rightarrow> string \<Rightarrow> string option \<Rightarrow> delivery_outcome auth_op" where
  "prepare_and_send env sms now c owner rq destination =
     (if is_decoy c then deliver_decoy now c rq
      else bindE (case vc_user c of None \<Rightarrow> ret None | Some uid \<Rightarrow> user_by_id uid) (\<lambda>u.
        bindE (get_challenge (vc_id c)) (\<lambda>locked. case locked of
          None \<Rightarrow> undo (outcome False ''missing'' False)
        | Some l \<Rightarrow>
            if vc_user c \<noteq> None \<and> \<not> is_auth_eligible u
            then bindE (finalize_delivery_failed now l) (\<lambda>_.
                 bindE (append_event now ''delivery_failed'' ''failed'' ''user_ineligible'' rq (vc_user c)
                          (Some (vc_id c)) None None) (\<lambda>_.
                 keep_result (outcome False ''user_ineligible'' False)))
            else (case destination of
              None \<Rightarrow> bindE (finalize_delivery_failed now l) (\<lambda>_.
                keep_result (outcome False ''missing_destination'' False))
            | Some phone \<Rightarrow>
                bindE (mark_send_started now owner l) (\<lambda>marked.
                if \<not> marked then undo (outcome False ''lease_lost'' False)
                else bindE commit (\<lambda>_. send_code env sms now l rq phone))))))"

definition invalidate_after_send_started ::
  "sms_port \<Rightarrow> instant \<Rightarrow> uuid \<Rightarrow> string \<Rightarrow> string \<Rightarrow> delivery_outcome auth_op" where
  "invalidate_after_send_started sms now cid rq reason =
     bindE (get_challenge cid) (\<lambda>found. case found of
       None \<Rightarrow> ret (outcome False ''missing'' False)
     | Some c \<Rightarrow>
         if sp_query sms (vc_provider_ref c) = Some Sms_accepted
         then finalize_result now cid Sms_accepted rq (vc_user c)
         else bindE (get_challenge cid) (\<lambda>locked.
           bindE (case locked of
               None \<Rightarrow> ret ()
             | Some l \<Rightarrow> when_op (vc_state l = Vc_dispatching)
                 (bindE (finalize_delivery_failed now l) (\<lambda>_.
                  bindE (append_event now ''delivery_failed'' ''failed'' reason rq None (Some cid) None None) (\<lambda>_.
                  commit)))) (\<lambda>_.
           ret (outcome False reason False))))"

subsection \<open>Dispatcher\<close>

definition dispatch_request_id :: "uuid \<Rightarrow> string" where
  "dispatch_request_id cid = ''dispatch-'' @ nat_str cid"

text \<open>Where a code goes: the phone of the user or of the registration, if its reference is the challenge's.\<close>

definition destination_of :: "auth_env \<Rightarrow> challenge \<Rightarrow> auth_db \<Rightarrow> string option" where
  "destination_of env c d =
     (let matches = (\<lambda>phone. phone_ref (av_crypto env) (hk_current (av_reference env)) phone = Inr (vc_phone_ref c)) in
      case vc_user c of
        Some uid \<Rightarrow> (case dict_get (ad_users d) uid of
            None \<Rightarrow> None | Some u \<Rightarrow> if matches (us_phone u) then Some (us_phone u) else None)
      | None \<Rightarrow> if truthy (vc_phone c) \<and> matches (the (vc_phone c)) then vc_phone c else None)"

text \<open>One claimed challenge: any exception is logged and swallowed.\<close>

definition process_inner :: "auth_env \<Rightarrow> sms_port \<Rightarrow> instant \<Rightarrow> string \<Rightarrow> challenge \<Rightarrow> unit auth_op" where
  "process_inner env sms now owner ch =
     bindE (look (destination_of env ch)) (\<lambda>destination.
     bindE (get_challenge (vc_id ch)) (\<lambda>found. case found of
       None \<Rightarrow> ret ()
     | Some c \<Rightarrow>
         let rq = dispatch_request_id (vc_id ch) in
         if vc_send_started_at c \<noteq> None
         then bindE (invalidate_after_send_started sms now (vc_id c) rq ''already_send_started'') (\<lambda>_. ret ())
         else bindE (prepare_and_send env sms now c owner rq destination) (\<lambda>_. ret ())))"

definition process_one :: "auth_env \<Rightarrow> sms_port \<Rightarrow> instant \<Rightarrow> string \<Rightarrow> challenge \<Rightarrow> unit auth_op" where
  "process_one env sms now owner ch =
     serve (catch_op (process_inner env sms now owner ch) (\<lambda>e. ret ()))"

definition claim_batch :: "instant \<Rightarrow> string \<Rightarrow> int \<Rightarrow> nat \<Rightarrow> challenge list auth_op" where
  "claim_batch now owner lease batch =
     serve (bindE (claim_pending_batch now owner lease batch) keep_result)"

definition claim_and_process ::
  "auth_env \<Rightarrow> sms_port \<Rightarrow> instant \<Rightarrow> string \<Rightarrow> int \<Rightarrow> nat \<Rightarrow> nat auth_op" where
  "claim_and_process env sms now owner lease batch =
     bindE (claim_batch now owner lease batch) (\<lambda>claimed.
     bindE (for_each (process_one env sms now owner) claimed) (\<lambda>_. ret (length claimed)))"

definition recover_stale_dispatching :: "sms_port \<Rightarrow> instant \<Rightarrow> string \<Rightarrow> int \<Rightarrow> nat auth_op" where
  "recover_stale_dispatching sms now owner lease =
     bindE (serve (bindE (stale_dispatching (now - seconds lease) 20) keep_result)) (\<lambda>stale.
     bindE (for_each (\<lambda>ch. bindE (serve (invalidate_after_send_started sms now (vc_id ch)
              (''recovery-'' @ owner) ''query_or_invalidate'')) (\<lambda>_. ret ())) stale) (\<lambda>_.
     ret (length stale)))"

end
