(* ===== verification/Auth_Profiles.thy ===== *)
theory Auth_Profiles
  imports Auth_Challenges
begin

section \<open>Registration, profiles and retention\<close>

text \<open>
  \<^verbatim>\<open>users/service.py\<close>, \<^verbatim>\<open>authentication/profile_service.py\<close> and \<^verbatim>\<open>maintenance/auth_cleanup.py\<close>. The result
  of a registration names the account it made (or replays); its field errors are the two flags of
  \<open>Register_validation\<close>.
\<close>

subsection \<open>Registration\<close>

datatype register_result =
    Registered registered
  | Register_validation bool bool
  | Register_role_invalid
  | Register_phone_taken
  | Register_account_unavailable
  | Register_key_conflict
  | Register_key_expired
  | Register_key_required

definition register_request_hash :: "cryptolib \<Rightarrow> string \<Rightarrow> string \<Rightarrow> string \<Rightarrow> string" where
  "register_request_hash c phone nickname role =
     hexdigest (sha256 c (utf8_encode (phone @ ''|'' @ nickname @ ''|'' @ role)))"

definition is_control :: "char \<Rightarrow> bool" where
  "is_control c \<longleftrightarrow> (let n = of_char c :: nat in n \<le> 31 \<or> 127 \<le> n \<and> n \<le> 159)"

definition validate_nickname :: "string \<Rightarrow> string option" where
  "validate_nickname raw = (let t = py_strip raw in
     if t = [] \<or> length t > 50 \<or> list_ex is_control t then None else Some t)"

definition account_taken :: "user \<Rightarrow> register_result" where
  "account_taken u = (if us_is_deleted u then Register_account_unavailable else Register_phone_taken)"

definition register_replay :: "instant \<Rightarrow> string \<Rightarrow> registration \<Rightarrow> register_result" where
  "register_replay now hash r =
     (if now \<ge> rg_expires_at r then Register_key_expired
      else if rg_request_hash r \<noteq> hash then Register_key_conflict
      else Registered (rg_payload r))"

definition make_account ::
  "instant \<Rightarrow> string \<Rightarrow> string \<Rightarrow> string \<Rightarrow> string \<Rightarrow> string \<Rightarrow> bool \<Rightarrow> register_result auth_op" where
  "make_account now key hash phone nickname role durable =
     bindE (create_user phone nickname role) (\<lambda>u.
     let payload = \<lparr>re_user = us_id u, re_role = role, re_created_at = now, re_phone_masked = mask_phone phone\<rparr> in
     bindE (create_registration now key hash payload) (\<lambda>_.
     bindE (when_op durable commit) (\<lambda>_. ret (Registered payload))))"

text \<open>After a constraint violation: another call has made the account or used the key.\<close>

definition register_race :: "string \<Rightarrow> string \<Rightarrow> string \<Rightarrow> register_result auth_op" where
  "register_race key hash phone =
     bindE rollback (\<lambda>_.
     bindE (user_by_phone phone) (\<lambda>raced.
     if (case raced of None \<Rightarrow> False | Some u \<Rightarrow> us_is_deleted u) then ret Register_account_unavailable
     else bindE (get_registration key) (\<lambda>r. ret (case r of
         None \<Rightarrow> Register_phone_taken
       | Some x \<Rightarrow> if rg_request_hash x = hash then Registered (rg_payload x) else Register_phone_taken))))"

definition register ::
  "auth_env \<Rightarrow> instant \<Rightarrow> string \<Rightarrow> string \<Rightarrow> string \<Rightarrow> string option \<Rightarrow> bool \<Rightarrow> register_result auth_op" where
  "register env now phone nickname role key durable =
     (case valid_key key of
        None \<Rightarrow> ret Register_key_required
      | Some k \<Rightarrow>
          if role \<notin> {''buyer'', ''seller'', ''both''} then ret Register_role_invalid
          else (case (validate_nickname nickname, normalize_cn_mobile (av_nfkc env) phone) of
              (Some nick, Some number) \<Rightarrow>
                let hash = register_request_hash (av_crypto env) number nick role in
                bindE (get_registration k) (\<lambda>existing. case existing of
                  Some r \<Rightarrow> ret (register_replay now hash r)
                | None \<Rightarrow> bindE (user_by_phone number) (\<lambda>taken. case taken of
                    Some u \<Rightarrow> ret (account_taken u)
                  | None \<Rightarrow> catch_op (make_account now k hash number nick role durable) (\<lambda>e. case e of
                        Auth_db_error \<Rightarrow> register_race k hash number | _ \<Rightarrow> throw e)))
            | (nick, number) \<Rightarrow> ret (Register_validation (nick = None) (number = None))))"

subsection \<open>Completion of a profile\<close>

datatype profile_result =
    Profile_completed session_summary string
  | Profile_unverified
  | Profile_expired
  | Profile_refused register_result
  | Profile_unavailable
  | Profile_phone_taken

definition save_intent_consumed :: "instant \<Rightarrow> profile_intent \<Rightarrow> auth_db \<Rightarrow> auth_db" where
  "save_intent_consumed now p = save_intent (p\<lparr>pc_consumed_at := Some now\<rparr>)"

definition complete_for ::
  "auth_env \<Rightarrow> instant \<Rightarrow> bytes \<Rightarrow> profile_intent \<Rightarrow> user \<Rightarrow> string \<Rightarrow> string option \<Rightarrow> profile_result auth_op" where
  "complete_for env now random p u rq ip =
     (let mat = av_session env; ref = av_reference env in
      bindE (touch (save_intent_consumed now p)) (\<lambda>_.
      bindE (bump_generation u) (\<lambda>u.
      bindE (lift (generate_session_token random (hk_version mat))) (\<lambda>token.
      bindE (lift (token_digest (av_crypto env) (hk_current mat) (st_opaque token))) (\<lambda>digest.
      bindE fresh (\<lambda>sid.
      let s = new_session now sid u digest (hk_version mat) rq
                (if current_usable ref then client_hint (av_crypto env) (hk_current ref) ip else None) in
      bindE (catch_op (bindE (put (save_session s)) (\<lambda>_. ret True)) (\<lambda>e. ret False)) (\<lambda>inserted.
      if \<not> inserted then undo Profile_unavailable
      else bindE (csrf_of env sid) (\<lambda>csrf.
           bindE (append_event now ''profile_completed'' ''success'' ''register'' rq (Some (us_id u)) None None None) (\<lambda>_.
           catch_op (keep_result (Profile_completed
               (session_summary_of u (se_expires_at s) csrf (se_workspace s)) (st_cookie token)))
             (\<lambda>e. undo Profile_phone_taken))))))))))"

definition complete_profile ::
  "auth_env \<Rightarrow> instant \<Rightarrow> bytes \<Rightarrow> string option \<Rightarrow> string \<Rightarrow> string \<Rightarrow> string option \<Rightarrow> string \<Rightarrow> string option \<Rightarrow>
     profile_result auth_op" where
  "complete_profile env now random cookie nickname role key rq ip =
     bindE (lift (parse_session_cookie cookie)) (\<lambda>parsed. case parsed of
       None \<Rightarrow> ret Profile_unverified
     | Some (version, opaque) \<Rightarrow> (case resolve_key (av_session env) version of
         None \<Rightarrow> ret Profile_unavailable
       | Some k \<Rightarrow>
           if \<not> current_usable (av_session env) \<or> \<not> current_usable (av_csrf env) then ret Profile_unavailable
           else bindE (lift (profile_token_digest (av_crypto env) k opaque)) (\<lambda>digest.
             bindE (open_intent_by_digest now digest) (\<lambda>found. case found of
               None \<Rightarrow> undo Profile_expired
             | Some p \<Rightarrow> bindE (register env now (pc_phone p) nickname role key False) (\<lambda>created. case created of
                 Registered payload \<Rightarrow>
                   bindE (user_by_id (re_user payload)) (\<lambda>found. case found of
                     None \<Rightarrow> undo Profile_unavailable
                   | Some u \<Rightarrow> complete_for env now random p u rq ip)
               | refused \<Rightarrow> undo (Profile_refused refused))))))"

subsection \<open>Retention\<close>

text \<open>
  A batch deletes the rows of one table that are due, oldest first, up to the batch size. A foreign key to
  a deleted row is an error, except that events forget it (\<^verbatim>\<open>ON DELETE SET NULL\<close>).
\<close>

datatype cleanup_table = Cl_events | Cl_sessions | Cl_challenges | Cl_requests

definition cleanup_tables :: "cleanup_table list" where
  "cleanup_tables = [Cl_events, Cl_sessions, Cl_challenges, Cl_requests]"

definition due :: "instant \<Rightarrow> ('a \<Rightarrow> instant) \<Rightarrow> nat \<Rightarrow> 'a list \<Rightarrow> 'a list" where
  "due now at batch xs = take batch (ordered_by at (filter (\<lambda>x. at x \<le> now) xs))"

definition without :: "uuid list \<Rightarrow> (uuid, 'a) dict \<Rightarrow> (uuid, 'a) dict" where
  "without ids d = filter (\<lambda>e. fst e \<notin> set ids) d"

definition forget :: "uuid list \<Rightarrow> uuid option \<Rightarrow> uuid option" where
  "forget ids v = (case v of None \<Rightarrow> None | Some i \<Rightarrow> if i \<in> set ids then None else Some i)"

definition delete_due :: "instant \<Rightarrow> nat \<Rightarrow> cleanup_table \<Rightarrow> auth_db \<Rightarrow> nat \<times> auth_db" where
  "delete_due now batch table d = (case table of
       Cl_events \<Rightarrow> (let ids = map sv_id (due now sv_delete_after batch (ad_events d)) in
         (length ids, d\<lparr>ad_events := filter (\<lambda>e. sv_id e \<notin> set ids) (ad_events d)\<rparr>))
     | Cl_sessions \<Rightarrow> (let ids = map se_id (due now se_delete_after batch (dict_values (ad_sessions d))) in
         (length ids, d\<lparr>ad_sessions := without ids (ad_sessions d),
            ad_events := map (\<lambda>e. e\<lparr>sv_session := forget ids (sv_session e)\<rparr>) (ad_events d)\<rparr>))
     | Cl_challenges \<Rightarrow> (let ids = map vc_id (due now vc_delete_after batch (dict_values (ad_challenges d))) in
         (length ids, d\<lparr>ad_challenges := without ids (ad_challenges d),
            ad_events := map (\<lambda>e. e\<lparr>sv_challenge := forget ids (sv_challenge e)\<rparr>) (ad_events d)\<rparr>))
     | Cl_requests \<Rightarrow> (let ids = map iv_id (due now iv_delete_after batch (dict_values (ad_requests d))) in
         (length ids, d\<lparr>ad_requests := without ids (ad_requests d)\<rparr>)))"

definition delete_batch :: "instant \<Rightarrow> nat \<Rightarrow> cleanup_table \<Rightarrow> nat auth_op" where
  "delete_batch now batch table =
     (if batch < 1 then ret 0
      else bindE (look (delete_due now batch table)) (\<lambda>out.
        if fst out = 0 then ret 0
        else bindE (put (\<lambda>_. snd out)) (\<lambda>_. ret (fst out))))"

text \<open>
  One round is one transaction over the tables; the time budget may end it after any table. \<open>clock\<close> gives
  the successive readings of the elapsed time, \<open>k\<close> counts them.
\<close>

fun cleanup_round ::
  "(nat \<Rightarrow> int) \<Rightarrow> int \<Rightarrow> instant \<Rightarrow> nat \<Rightarrow> cleanup_table list \<Rightarrow> nat \<Rightarrow> nat \<Rightarrow> (nat \<times> nat) auth_op" where
  "cleanup_round clock budget now batch [] deleted k = ret (deleted, k)"
| "cleanup_round clock budget now batch (t # ts) deleted k =
     (if clock k \<ge> budget then ret (deleted, k + 1)
      else bindE (delete_batch now batch t) (\<lambda>n.
           cleanup_round clock budget now batch ts (deleted + n) (k + 1)))"

text \<open>The loop: \<open>left\<close> bounds its rounds, and \<open>None\<close> is a run that used them up.\<close>

fun cleanup_loop ::
  "nat \<Rightarrow> (nat \<Rightarrow> int) \<Rightarrow> int \<Rightarrow> instant \<Rightarrow> nat \<Rightarrow> nat \<Rightarrow> nat \<Rightarrow> nat option auth_op" where
  "cleanup_loop 0 clock budget now batch acc k = ret None"
| "cleanup_loop (Suc left) clock budget now batch acc k =
     (if clock k \<ge> budget then ret (Some acc)
      else bindE (serve (bindE (cleanup_round clock budget now batch cleanup_tables 0 (k + 1)) keep_result)) (\<lambda>out.
           if fst out = 0 then ret (Some acc)
           else cleanup_loop left clock budget now batch (acc + fst out) (snd out)))"

end
