(* ===== verification/Auth_Growth.thy ===== *)
theory Auth_Growth
  imports Auth_Profiles
begin

section \<open>What the authentication tables keep\<close>

text \<open>
  How users, challenges and login sessions may develop (\<open>_becomes\<close>), the invariant of the database and of
  a transaction in progress (\<open>auth_inv\<close>), and that every service call respects both (\<open>auth_evolves\<close>).
\<close>

definition user_of :: "auth_db \<Rightarrow> uuid \<Rightarrow> user option" where
  "user_of d i = dict_get (ad_users d) i"

definition challenge_of :: "auth_db \<Rightarrow> uuid \<Rightarrow> challenge option" where
  "challenge_of d i = dict_get (ad_challenges d) i"

definition session_of :: "auth_db \<Rightarrow> uuid \<Rightarrow> auth_session option" where
  "session_of d i = dict_get (ad_sessions d) i"

definition write_user :: "uuid \<Rightarrow> user \<Rightarrow> auth_db \<Rightarrow> auth_db" where
  "write_user i u d = d\<lparr>ad_users := dict_set i u (ad_users d)\<rparr>"

definition write_challenge :: "uuid \<Rightarrow> challenge \<Rightarrow> auth_db \<Rightarrow> auth_db" where
  "write_challenge i c d = d\<lparr>ad_challenges := dict_set i c (ad_challenges d)\<rparr>"

definition write_session :: "uuid \<Rightarrow> auth_session \<Rightarrow> auth_db \<Rightarrow> auth_db" where
  "write_session i s d = d\<lparr>ad_sessions := dict_set i s (ad_sessions d)\<rparr>"

interpretation users_table: keyed_store user_of write_user
  by unfold_locales (simp add: user_of_def write_user_def)

interpretation challenges_table: keyed_store challenge_of write_challenge
  by unfold_locales (simp add: challenge_of_def write_challenge_def)

interpretation sessions_table: keyed_store session_of write_session
  by unfold_locales (simp add: session_of_def write_session_def)

lemma saves_are_writes:
  "save_user u = write_user (us_id u) u" "save_challenge c = write_challenge (vc_id c) c"
  "save_session s = write_session (se_id s) s"
  by (simp_all add: fun_eq_iff save_user_def write_user_def save_challenge_def write_challenge_def
      save_session_def write_session_def)

lemma other_tables [simp]:
  "user_of (write_challenge i c d) = user_of d" "user_of (write_session j s d) = user_of d"
  "challenge_of (write_user k u d) = challenge_of d" "challenge_of (write_session j s d) = challenge_of d"
  "session_of (write_user k u d) = session_of d" "session_of (write_challenge i c d) = session_of d"
  by (simp_all add: fun_eq_iff user_of_def challenge_of_def session_of_def write_user_def
      write_challenge_def write_session_def)

lemma written_tables [simp]:
  "ad_users (write_user i u d) = dict_set i u (ad_users d)" "ad_challenges (write_user i u d) = ad_challenges d"
  "ad_sessions (write_user i u d) = ad_sessions d"
  "ad_users (write_challenge j c d) = ad_users d" "ad_challenges (write_challenge j c d) = dict_set j c (ad_challenges d)"
  "ad_sessions (write_challenge j c d) = ad_sessions d"
  "ad_users (write_session k s d) = ad_users d" "ad_challenges (write_session k s d) = ad_challenges d"
  "ad_sessions (write_session k s d) = dict_set k s (ad_sessions d)"
  by (simp_all add: write_user_def write_challenge_def write_session_def)

lemmas table_get = users_table.get_put challenges_table.get_put sessions_table.get_put

subsection \<open>How rows develop\<close>

fun challenge_stage :: "challenge_state \<Rightarrow> nat" where
  "challenge_stage Vc_pending_delivery = 0"
| "challenge_stage Vc_dispatching = 1"
| "challenge_stage Vc_delivered = 2"
| "challenge_stage s = 3"

text \<open>
  A challenge goes forward. The states after delivery are closed; a closed challenge can still be marked
  as failed to be delivered, because the dispatcher does not look at the state before it does so.
\<close>

definition challenge_moves :: "challenge_state \<Rightarrow> challenge_state \<Rightarrow> bool" where
  "challenge_moves a b \<longleftrightarrow> a = b \<or> challenge_stage a < challenge_stage b \<or>
     challenge_stage a = 3 \<and> b = Vc_delivery_failed"

lemma challenge_stage_le: "challenge_stage s \<le> 3"
  by (cases s) simp_all

interpretation challenge_machine: status_machine challenge_moves "\<lambda>s. s = Vc_delivery_failed" challenge_stage
proof unfold_locales
  fix a b
  show "a = Vc_delivery_failed \<Longrightarrow> challenge_moves a b \<Longrightarrow> b = a"
    using challenge_stage_le[of b] by (auto simp: challenge_moves_def)
  show "challenge_moves a b \<Longrightarrow> challenge_stage a \<le> challenge_stage b"
    by (auto simp: challenge_moves_def)
qed

lemma challenge_moves_order: "challenge_moves a a" "challenge_moves a b \<Longrightarrow> challenge_moves b c \<Longrightarrow> challenge_moves a c"
  using challenge_stage_le[of b] challenge_stage_le[of c] by (auto simp: challenge_moves_def)

definition challenge_becomes :: "challenge \<Rightarrow> challenge \<Rightarrow> bool" where
  "challenge_becomes a b \<longleftrightarrow> vc_id b = vc_id a \<and> vc_user b = vc_user a \<and> vc_phone b = vc_phone a \<and>
     vc_phone_ref b = vc_phone_ref a \<and> vc_request b = vc_request a \<and> vc_provider_ref b = vc_provider_ref a \<and>
     vc_created_at b = vc_created_at a \<and> vc_expires_at b = vc_expires_at a \<and>
     vc_key_version b = vc_key_version a \<and> vc_attempts a \<le> vc_attempts b \<and>
     challenge_moves (vc_state a) (vc_state b) \<and>
     (vc_code_digest b = vc_code_digest a \<and> vc_code_salt b = vc_code_salt a \<or> vc_code_digest b = None)"

definition session_becomes :: "auth_session \<Rightarrow> auth_session \<Rightarrow> bool" where
  "session_becomes a b \<longleftrightarrow> se_id b = se_id a \<and> se_user b = se_user a \<and> se_token_digest b = se_token_digest a \<and>
     se_key_version b = se_key_version a \<and> se_generation b = se_generation a \<and>
     se_issued_at b = se_issued_at a \<and> se_expires_at b = se_expires_at a \<and>
     (se_revoked_at a \<noteq> None \<longrightarrow> se_revoked_at b = se_revoked_at a)"

definition user_becomes :: "user \<Rightarrow> user \<Rightarrow> bool" where
  "user_becomes a b \<longleftrightarrow> us_id b = us_id a \<and> us_phone b = us_phone a \<and> us_role b = us_role a \<and>
     us_status b = us_status a \<and> us_is_deleted b = us_is_deleted a \<and> us_generation a \<le> us_generation b"

lemma becomes_order:
  "reflp challenge_becomes" "transp challenge_becomes" "reflp session_becomes" "transp session_becomes"
  "reflp user_becomes" "transp user_becomes"
  unfolding reflp_def transp_def challenge_becomes_def session_becomes_def user_becomes_def
  using challenge_moves_order by (auto 0 3)

subsection \<open>The database\<close>

text \<open>Two rows of the same generation of the same user.\<close>

definition same_generation :: "auth_session \<Rightarrow> auth_session \<Rightarrow> bool" where
  "same_generation a b \<longleftrightarrow> se_user a = se_user b \<and> se_generation a = se_generation b"

definition issued_to :: "auth_db \<Rightarrow> auth_session \<Rightarrow> bool" where
  "issued_to d x \<longleftrightarrow> (\<exists>u. user_of d (se_user x) = Some u \<and> se_generation x \<le> us_generation u)"

definition db_inv :: "uuid \<Rightarrow> auth_db \<Rightarrow> bool" where
  "db_inv n d \<longleftrightarrow> dict_ok (ad_users d) \<and> dict_ok (ad_challenges d) \<and> dict_ok (ad_sessions d) \<and>
     all_stored user_of (\<lambda>i u. us_id u = i \<and> i < n \<and> 1 \<le> us_generation u) d \<and>
     all_stored challenge_of (\<lambda>i c. vc_id c = i \<and> i < n) d \<and>
     all_stored session_of (\<lambda>i s. se_id s = i \<and> i < n \<and> 1 \<le> se_generation s \<and> issued_to d s) d \<and>
     no_clash session_of same_generation d"

definition db_grows :: "auth_db \<Rightarrow> auth_db \<Rightarrow> bool" where
  "db_grows d e \<longleftrightarrow> entries_grow user_of user_becomes d e \<and> entries_grow challenge_of challenge_becomes d e \<and>
     entries_grow session_of session_becomes d e"

lemma db_grows_refl [simp]: "db_grows d d"
  by (simp add: db_grows_def entries_grow_refl becomes_order)

lemma db_grows_trans: "db_grows d e \<Longrightarrow> db_grows e f \<Longrightarrow> db_grows d f"
  unfolding db_grows_def by (meson becomes_order entries_grow_trans)

definition db_step :: "uuid \<Rightarrow> auth_db \<Rightarrow> auth_db \<Rightarrow> bool" where
  "db_step n d e \<longleftrightarrow> (db_inv n d \<longrightarrow> db_inv n e \<and> db_grows d e)"

interpretation db_growth: evolution "db_step n" for n
  by unfold_locales (auto simp: db_step_def intro: db_grows_trans)

lemma db_step_same:
  assumes "ad_users e = ad_users d" "ad_challenges e = ad_challenges d" "ad_sessions e = ad_sessions d"
  shows "db_step n d e"
proof -
  have "user_of e = user_of d" "challenge_of e = challenge_of d" "session_of e = session_of d"
    using assms by (simp_all add: fun_eq_iff user_of_def challenge_of_def session_of_def)
  then show ?thesis
    using assms becomes_order[unfolded reflp_def]
    by (simp add: db_step_def db_inv_def db_grows_def all_stored_def entries_grow_def no_clash_def issued_to_def)
qed

text \<open>A row is written: it is new, or it develops from the row it replaces.\<close>

lemma issued_to_write_user:
  "(\<And>a. user_of d i = Some a \<Longrightarrow> us_generation a \<le> us_generation u) \<Longrightarrow> issued_to d x \<Longrightarrow>
     issued_to (write_user i u d) x"
  by (force simp: issued_to_def users_table.get_put)

lemma issued_to_others [simp]:
  "issued_to (write_challenge i c d) x = issued_to d x" "issued_to (write_session j s d) x = issued_to d x"
  by (simp_all add: issued_to_def)

lemma db_step_write_user:
  assumes "us_id u = i" "i < n" "1 \<le> us_generation u" and old: "\<And>a. user_of d i = Some a \<Longrightarrow> user_becomes a u"
  shows "db_step n d (write_user i u d)"
proof -
  have "issued_to d x \<Longrightarrow> issued_to (write_user i u d) x" for x
    by (rule issued_to_write_user) (use old in \<open>auto simp: user_becomes_def\<close>)
  with assms show ?thesis
    by (auto simp: db_step_def db_inv_def db_grows_def all_stored_def entries_grow_def no_clash_def table_get
        becomes_order[unfolded reflp_def])
qed

lemma db_step_write_challenge:
  "vc_id c = j \<Longrightarrow> j < n \<Longrightarrow> (\<And>a. challenge_of d j = Some a \<Longrightarrow> challenge_becomes a c) \<Longrightarrow>
     db_step n d (write_challenge j c d)"
  by (auto simp: db_step_def db_inv_def db_grows_def all_stored_def entries_grow_def no_clash_def table_get
      becomes_order[unfolded reflp_def])

lemma db_step_write_session:
  assumes "se_id x = k" "k < n" and old: "\<And>a. session_of d k = Some a \<Longrightarrow> session_becomes a x"
    and new: "session_of d k = None \<Longrightarrow> 1 \<le> se_generation x \<and> issued_to d x \<and>
      (\<forall>i a. session_of d i = Some a \<longrightarrow> \<not> same_generation x a)"
  shows "db_step n d (write_session k x d)"
  unfolding db_step_def
proof
  assume inv: "db_inv n d"
  then have stored: "\<And>i a. session_of d i = Some a \<Longrightarrow> 1 \<le> se_generation a \<and> issued_to d a"
    and clash: "no_clash session_of same_generation d"
    by (auto simp: db_inv_def dest: all_storedD)
  have fits: "1 \<le> se_generation x \<and> issued_to d x \<and>
      (\<forall>i a. session_of d i = Some a \<longrightarrow> i \<noteq> k \<longrightarrow> \<not> same_generation x a)"
  proof (cases "session_of d k")
    case (Some a)
    with old have "session_becomes a x" by simp
    then have "se_generation x = se_generation a" "se_user x = se_user a" by (simp_all add: session_becomes_def)
    with stored[OF Some] Some clash show ?thesis
      by (auto simp: issued_to_def same_generation_def dest: no_clashD)
  qed (use new in blast)
  have "no_clash session_of same_generation (write_session k x d)"
    using fits clash by (intro sessions_table.no_clash_put) (auto simp: symp_def same_generation_def)
  with inv fits assms(1,2) old show "db_inv n (write_session k x d) \<and> db_grows d (write_session k x d)"
    by (auto simp: db_inv_def db_grows_def all_stored_def entries_grow_def table_get
        becomes_order[unfolded reflp_def])
qed

end
