(* ===== verification/Auth_Steps.thy ===== *)
theory Auth_Steps
  imports Auth_Growth
begin

section \<open>Runs of the authentication services\<close>

text \<open>
  The invariant \<open>auth_inv\<close> of the tables, and that transactions, the repository and the session service keep it.
\<close>

subsection \<open>Transactions\<close>

definition auth_inv :: "auth_state \<Rightarrow> bool" where
  "auth_inv s \<longleftrightarrow> db_inv (at_next s) (at_saved s) \<and> db_inv (at_next s) (at_work s) \<and>
     db_grows (at_saved s) (at_work s) \<and> constraints_ok (at_saved s)"

definition auth_evolves :: "auth_state \<Rightarrow> auth_state \<Rightarrow> bool" where
  "auth_evolves s t \<longleftrightarrow> (auth_inv s \<longrightarrow>
     auth_inv t \<and> db_grows (at_saved s) (at_saved t) \<and> at_next s \<le> at_next t)"

interpretation auth_growth: evolution auth_evolves
  by unfold_locales (auto simp: auth_evolves_def intro: db_grows_trans)

lemma db_inv_later: "db_inv n d \<Longrightarrow> n \<le> n' \<Longrightarrow> db_inv n' d"
  by (auto simp: db_inv_def elim!: all_stored_mono)

lemma goes_touch:
  assumes "auth_inv s \<Longrightarrow> db_step (at_next s) (at_work s) (f (at_work s))"
  shows "goes auth_evolves (touch f) s"
  using assms db_grows_trans
  by (auto simp: goes_def touch_def run auth_evolves_def auth_inv_def db_step_def)

lemma flush_evolves: "evolves auth_evolves flush"
  unfolding flush_def look_def by (intro auth_growth.rules)

lemma goes_put:
  "(auth_inv s \<Longrightarrow> db_step (at_next s) (at_work s) (f (at_work s))) \<Longrightarrow> goes auth_evolves (put f) s"
  unfolding put_def by (intro auth_growth.goes_then goes_touch flush_evolves)

lemma commit_evolves: "evolves auth_evolves commit"
  by (auto simp: evolves_def commit_def flush_def look_def run auth_evolves_def auth_inv_def)

lemma rollback_evolves: "evolves auth_evolves rollback"
  by (auto simp: evolves_def rollback_def run auth_evolves_def auth_inv_def)

lemma fresh_evolves: "evolves auth_evolves fresh"
  by (auto simp: evolves_def fresh_def run auth_evolves_def auth_inv_def intro: db_inv_later)

lemma limiter_evolves: "evolves auth_evolves (modify (\<lambda>s. s\<lparr>at_limiter := f s\<rparr>))"
  by (auto simp: evolves_def run auth_evolves_def auth_inv_def)

lemma tx_evolves:
  "evolves auth_evolves (look f)" "evolves auth_evolves (lift v)" "evolves auth_evolves (sole xs)"
  "evolves auth_evolves (undo x)" "evolves auth_evolves (keep_result x)"
  unfolding look_def lift_def sole_def undo_def keep_result_def
  by (intro auth_growth.rules rollback_evolves commit_evolves | (cases xs rule: remdups_adj.cases; simp; intro auth_growth.rules))+

lemma notes_put:
  assumes "\<And>d. ad_users (f d) = ad_users d \<and> ad_challenges (f d) = ad_challenges d \<and> ad_sessions (f d) = ad_sessions d"
  shows "evolves auth_evolves (put f)" "evolves auth_evolves (touch f)"
  by (rule goes_evolves, rule goes_put goes_touch, rule db_step_same; simp add: assms)+

text \<open>A call begins from the committed state, and what it did not commit is lost.\<close>

lemma serve_evolves:
  assumes "evolves auth_evolves m"
  shows "evolves auth_evolves (serve m)"
proof (rule evolvesI)
  fix s r t
  assume run: "serve m s = (r, t)"
  let ?s = "s\<lparr>at_work := at_saved s\<rparr>"
  obtain q u where m: "m ?s = (q, u)" by fastforce
  with run have t: "t = u\<lparr>at_work := at_saved u\<rparr>" by (simp add: serve_def)
  from evolvesD[OF assms m] show "auth_evolves s t"
    unfolding t by (auto simp: auth_evolves_def auth_inv_def)
qed

lemma on_db_error_evolves: "evolves auth_evolves m \<Longrightarrow> evolves auth_evolves (on_db_error m x)"
  unfolding on_db_error_def
proof (rule auth_growth.catch_op)
  show "evolves auth_evolves (case e of Auth_db_error \<Rightarrow> ret x | _ \<Rightarrow> throw e)" for e
    by (cases e) (auto intro: auth_growth.rules)
qed

lemmas auth_rules = auth_growth.rules evolve tx_evolves flush_evolves commit_evolves rollback_evolves fresh_evolves
  limiter_evolves on_db_error_evolves

lemma goes_look: "goes R (f (g (at_work s))) s \<Longrightarrow> goes R (bindE (look g) f) s"
  unfolding look_def by (rule goes_gets)

lemma goes_lift: "(\<And>x. v = Inr x \<Longrightarrow> goes auth_evolves (f x) s) \<Longrightarrow> goes auth_evolves (bindE (lift v) f) s"
  unfolding lift_def by (rule auth_growth.goes_of_sum)

lemma goes_sole:
  assumes "\<And>x. x \<in> set xs \<Longrightarrow> goes auth_evolves (f (Some x)) s" and "goes auth_evolves (f None) s"
  shows "goes auth_evolves (bindE (sole xs) f) s"
  using assms auth_growth.refl
  by (cases xs rule: remdups_adj.cases) (auto simp: sole_def goes_def run)

subsection \<open>Writing rows that were read\<close>

lemma db_step_rewrite:
  "challenge_of d (vc_id c) = Some a \<Longrightarrow> challenge_becomes a c \<Longrightarrow> db_step n d (save_challenge c d)"
  "session_of d (se_id x) = Some y \<Longrightarrow> session_becomes y x \<Longrightarrow> db_step n d (save_session x d)"
  "user_of d (us_id u) = Some v \<Longrightarrow> user_becomes v u \<Longrightarrow> db_step n d (save_user u d)"
proof -
  have conditional: "(db_inv n d \<Longrightarrow> db_step n d e) \<Longrightarrow> db_step n d e" for e
    by (simp add: db_step_def)
  show "db_step n d (save_challenge c d)" if "challenge_of d (vc_id c) = Some a" "challenge_becomes a c"
    unfolding saves_are_writes
    by (rule conditional, rule db_step_write_challenge) (use that in \<open>auto simp: db_inv_def dest: all_storedD\<close>)
  show "db_step n d (save_session x d)" if "session_of d (se_id x) = Some y" "session_becomes y x"
    unfolding saves_are_writes
    by (rule conditional, rule db_step_write_session) (use that in \<open>auto simp: db_inv_def dest: all_storedD\<close>)
  show "db_step n d (save_user u d)" if "user_of d (us_id u) = Some v" "user_becomes v u"
    unfolding saves_are_writes
    by (rule conditional, rule db_step_write_user)
      (use that in \<open>auto simp: db_inv_def user_becomes_def dest!: all_storedD\<close>)
qed

lemma goes_save_challenge:
  assumes "auth_inv s \<Longrightarrow> challenge_of (at_work s) (vc_id c) = Some a" and "auth_inv s \<Longrightarrow> challenge_becomes a c"
  shows "goes auth_evolves (touch (save_challenge c)) s" "goes auth_evolves (put (save_challenge c)) s"
  using assms by (auto intro: goes_touch goes_put db_step_rewrite)

lemma goes_save_session:
  assumes "auth_inv s \<Longrightarrow> session_of (at_work s) (se_id x) = Some a" and "auth_inv s \<Longrightarrow> session_becomes a x"
  shows "goes auth_evolves (touch (save_session x)) s" "goes auth_evolves (put (save_session x)) s"
  using assms by (auto intro: goes_touch goes_put db_step_rewrite)

lemma goes_save_user:
  assumes "auth_inv s \<Longrightarrow> user_of (at_work s) (us_id x) = Some a" and "auth_inv s \<Longrightarrow> user_becomes a x"
  shows "goes auth_evolves (put (save_user x)) s"
  using assms by (auto intro: goes_put db_step_rewrite)

lemma row_key:
  "auth_inv s \<Longrightarrow> challenge_of (at_work s) i = Some c \<Longrightarrow> vc_id c = i"
  "auth_inv s \<Longrightarrow> session_of (at_work s) j = Some x \<Longrightarrow> se_id x = j"
  "auth_inv s \<Longrightarrow> user_of (at_work s) k = Some u \<Longrightarrow> us_id u = k"
  by (auto simp: auth_inv_def db_inv_def dest: all_storedD)

text \<open>A row that a query returned is the row under its own identifier.\<close>

lemma queried_row:
  "auth_inv s \<Longrightarrow> c \<in> set (dict_values (ad_challenges (at_work s))) \<Longrightarrow> challenge_of (at_work s) (vc_id c) = Some c"
  "auth_inv s \<Longrightarrow> x \<in> set (dict_values (ad_sessions (at_work s))) \<Longrightarrow> session_of (at_work s) (se_id x) = Some x"
  "auth_inv s \<Longrightarrow> u \<in> set (dict_values (ad_users (at_work s))) \<Longrightarrow> user_of (at_work s) (us_id u) = Some u"
proof -
  assume inv: "auth_inv s"
  then have ok: "dict_ok (ad_challenges (at_work s))" "dict_ok (ad_sessions (at_work s))" "dict_ok (ad_users (at_work s))"
    by (auto simp: auth_inv_def db_inv_def)
  show "challenge_of (at_work s) (vc_id c) = Some c" if "c \<in> set (dict_values (ad_challenges (at_work s)))"
    using dict_values_get[OF ok(1) that] row_key(1)[OF inv, of _ c] by (metis challenge_of_def)
  show "session_of (at_work s) (se_id x) = Some x" if "x \<in> set (dict_values (ad_sessions (at_work s)))"
    using dict_values_get[OF ok(2) that] row_key(2)[OF inv, of _ x] by (metis session_of_def)
  show "user_of (at_work s) (us_id u) = Some u" if "u \<in> set (dict_values (ad_users (at_work s)))"
    using dict_values_get[OF ok(3) that] row_key(3)[OF inv, of _ u] by (metis user_of_def)
qed

text \<open>Several rows are rewritten, each under its own identifier.\<close>

lemma distinct_rows:
  assumes "auth_inv s"
  shows "distinct (map vc_id (dict_values (ad_challenges (at_work s))))"
    and "distinct (map se_id (dict_values (ad_sessions (at_work s))))"
proof -
  from assms have ok: "dict_ok (ad_challenges (at_work s))" "dict_ok (ad_sessions (at_work s))"
    by (auto simp: auth_inv_def db_inv_def)
  have "vc_id c = i" if "(i, c) \<in> set (ad_challenges (at_work s))" for i c
    using that row_key(1)[OF assms] dict_items_get[OF ok(1)] by (simp add: challenge_of_def)
  then have "map vc_id (dict_values (ad_challenges (at_work s))) = map fst (ad_challenges (at_work s))"
    by (auto simp: dict_values_def)
  with ok(1) show "distinct (map vc_id (dict_values (ad_challenges (at_work s))))" by (simp add: dict_ok_def)
  have "se_id x = i" if "(i, x) \<in> set (ad_sessions (at_work s))" for i x
    using that row_key(2)[OF assms] dict_items_get[OF ok(2)] by (simp add: session_of_def)
  then have "map se_id (dict_values (ad_sessions (at_work s))) = map fst (ad_sessions (at_work s))"
    by (auto simp: dict_values_def)
  with ok(2) show "distinct (map se_id (dict_values (ad_sessions (at_work s))))" by (simp add: dict_ok_def)
qed

lemma rewrite_challenges:
  assumes "distinct (map vc_id cs)" and "\<And>c. c \<in> set cs \<Longrightarrow> challenge_of d (vc_id c) = Some c"
    and "\<And>c. c \<in> set cs \<Longrightarrow> challenge_becomes c (g c)"
  shows "db_step n d (foldl (\<lambda>d c. save_challenge (g c) d) d cs)"
  using assms
proof (induction cs arbitrary: d)
  case (Cons c cs)
  let ?d = "save_challenge (g c) d"
  have gid: "vc_id (g c) = vc_id c" using Cons.prems(3)[of c] by (simp add: challenge_becomes_def)
  have "db_step n d ?d"
    using Cons.prems(2,3)[of c] gid by (intro db_step_rewrite) auto
  moreover have "db_step n ?d (foldl (\<lambda>d c. save_challenge (g c) d) ?d cs)"
    using Cons.prems gid by (intro Cons.IH) (auto simp: saves_are_writes table_get, metis image_eqI)
  ultimately show ?case by (auto intro: db_growth.trans)
qed (simp add: db_growth.refl)

lemma rewrite_sessions:
  assumes "distinct (map se_id xs)" and "\<And>x. x \<in> set xs \<Longrightarrow> session_of d (se_id x) = Some x"
    and "\<And>x. x \<in> set xs \<Longrightarrow> session_becomes x (g x)"
  shows "db_step n d (foldl (\<lambda>d x. save_session (g x) d) d xs)"
  using assms
proof (induction xs arbitrary: d)
  case (Cons x xs)
  let ?d = "save_session (g x) d"
  have gid: "se_id (g x) = se_id x" using Cons.prems(3)[of x] by (simp add: session_becomes_def)
  have "db_step n d ?d"
    using Cons.prems(2,3)[of x] gid by (intro db_step_rewrite) auto
  moreover have "db_step n ?d (foldl (\<lambda>d x. save_session (g x) d) ?d xs)"
    using Cons.prems gid by (intro Cons.IH) (auto simp: saves_are_writes table_get, metis image_eqI)
  ultimately show ?case by (auto intro: db_growth.trans)
qed (simp add: db_growth.refl)

subsection \<open>Repository\<close>

lemma append_event_evolves: "evolves auth_evolves (append_event now event out reason rq uid cid sid subject)"
  unfolding append_event_def by (intro auth_rules notes_put) simp

lemma request_rows_evolve:
  "evolves auth_evolves (get_request digest version)"
  "evolves auth_evolves (try_begin_idempotency now digest version pref)"
  "evolves auth_evolves (complete_idempotency now r status code payload state)"
  unfolding get_request_def try_begin_idempotency_def complete_idempotency_def Let_def
  by (intro auth_rules notes_put | simp add: save_request_def)+

lemma reads_tables:
  "evolves auth_evolves (user_by_id uid)" "evolves auth_evolves (user_by_phone phone)"
  "evolves auth_evolves (get_challenge cid)" "evolves auth_evolves (latest_challenges pref)"
  "evolves auth_evolves (current_challenges pref)" "evolves auth_evolves (session_by_digest version digest)"
  "evolves auth_evolves (session_with_user version digest)" "evolves auth_evolves (recent_events uid n)"
  "evolves auth_evolves (stale_dispatching t n)" "evolves auth_evolves (open_intent_by_digest now digest)"
  "evolves auth_evolves (get_registration key)"
  unfolding user_by_id_def user_by_phone_def get_challenge_def latest_challenges_def current_challenges_def
    session_by_digest_def session_with_user_def recent_events_def stale_dispatching_def
    open_intent_by_digest_def get_registration_def
  by (intro auth_rules)+

lemma other_rows_evolve:
  "evolves auth_evolves (insert_profile_intent now i phone cid digest version)"
  "evolves auth_evolves (create_registration now key hash payload)"
  "evolves auth_evolves (touch (save_intent_consumed now p))"
  unfolding insert_profile_intent_def create_registration_def
  by (intro auth_rules notes_put | simp add: save_intent_def save_intent_consumed_def)+

lemmas auth_repo = auth_rules append_event_evolves request_rows_evolve reads_tables other_rows_evolve

lemma becomes_changes:
  "challenge_becomes c (superseded_challenge now c)" if "live_state (vc_state c)"
  using that by (auto simp: challenge_becomes_def superseded_challenge_def challenge_moves_def live_state_def)

lemma session_revoked_becomes: "se_revoked_at x = None \<Longrightarrow> session_becomes x (revoked_session t reason x)"
  by (simp add: session_becomes_def revoked_session_def)

lemma supersede_goes:
  assumes "auth_inv s \<Longrightarrow> distinct (map vc_id cs)"
    and "\<And>c. auth_inv s \<Longrightarrow> c \<in> set cs \<Longrightarrow> live_state (vc_state c) \<Longrightarrow> challenge_of (at_work s) (vc_id c) = Some c"
  shows "goes auth_evolves (supersede_challenges now cs) s"
  unfolding supersede_challenges_def
proof (intro auth_growth.goes_then goes_touch auth_rules)
  assume inv: "auth_inv s"
  have live: "foldl (\<lambda>d c. supersede_one now c d) d cs =
      foldl (\<lambda>d c. save_challenge (superseded_challenge now c) d) d (filter (\<lambda>c. live_state (vc_state c)) cs)" for d
    by (induction cs arbitrary: d) (auto simp: supersede_one_def)
  show "db_step (at_next s) (at_work s) (foldl (\<lambda>d c. supersede_one now c d) (at_work s) cs)"
    unfolding live using assms inv
    by (intro rewrite_challenges) (auto simp: becomes_changes distinct_map_filter)
qed

text \<open>Superseding keeps the rows it does not name.\<close>

lemma supersede_others:
  "\<forall>c \<in> set cs. vc_id c \<noteq> i \<Longrightarrow>
     challenge_of (foldl (\<lambda>d c. supersede_one now c d) d cs) i = challenge_of d i"
  by (induction cs arbitrary: d) (auto simp: supersede_one_def saves_are_writes table_get superseded_challenge_def)

lemma revoke_unrevoked_evolves: "evolves auth_evolves (revoke_unrevoked_sessions now uid reason)"
proof (rule goes_evolves)
  fix s
  show "goes auth_evolves (revoke_unrevoked_sessions now uid reason) s"
    unfolding revoke_unrevoked_sessions_def
  proof (intro goes_look auth_growth.goes_then goes_touch auth_rules)
    assume inv: "auth_inv s"
    let ?xs = "rows (\<lambda>x. se_user x = uid \<and> se_revoked_at x = None) (ad_sessions (at_work s))"
    have sub: "x \<in> set ?xs \<Longrightarrow> x \<in> set (dict_values (ad_sessions (at_work s))) \<and> se_revoked_at x = None" for x
      by (auto simp: rows_def)
    show "db_step (at_next s) (at_work s) (foldl
        (\<lambda>d x. save_session (revoked_session (revoke_at now x) reason x) d) (at_work s) ?xs)"
    proof (rule rewrite_sessions)
      show "distinct (map se_id ?xs)"
        using distinct_rows(2)[OF inv] by (simp add: rows_def distinct_map_filter)
    qed (use sub queried_row(2)[OF inv] session_revoked_becomes in auto)
  qed
qed

subsection \<open>Sessions\<close>

lemma goes_when_inv: "(auth_inv s \<Longrightarrow> goes auth_evolves m s) \<Longrightarrow> goes auth_evolves m s"
  by (auto simp: goes_def auth_evolves_def)

lemma goes_catch:
  assumes "goes auth_evolves m s" and "\<And>e. evolves auth_evolves (h e)"
  shows "goes auth_evolves (catch_op m h) s"
proof -
  obtain r t where m: "m s = (r, t)" by fastforce
  with assms(1) have st: "auth_evolves s t" by (simp add: goes_def)
  show ?thesis
  proof (cases r)
    case (Inl e)
    have "auth_evolves t (snd (h e t))" using assms(2) by (simp add: evolves_def)
    with st m Inl show ?thesis by (simp add: goes_def catch_op_def auth_growth.trans[of s t])
  qed (use st m in \<open>simp add: goes_def catch_op_def\<close>)
qed

lemma goes_user:
  "(\<And>u. user_of (at_work s) uid = Some u \<Longrightarrow> goes auth_evolves (f (Some u)) s) \<Longrightarrow> goes auth_evolves (f None) s \<Longrightarrow>
     goes auth_evolves (bindE (user_by_id uid) f) s"
  unfolding user_by_id_def by (rule goes_look) (cases "user_of (at_work s) uid"; simp add: user_of_def)

lemma goes_challenge:
  "(\<And>c. challenge_of (at_work s) cid = Some c \<Longrightarrow> goes auth_evolves (f (Some c)) s) \<Longrightarrow>
     goes auth_evolves (f None) s \<Longrightarrow> goes auth_evolves (bindE (get_challenge cid) f) s"
  unfolding get_challenge_def
  by (rule goes_look) (cases "challenge_of (at_work s) cid"; simp add: challenge_of_def)

lemma sole_run: "sole xs s = (Inr x, t) \<longleftrightarrow> t = s \<and> (x = None \<and> xs = [] \<or> (\<exists>r. x = Some r \<and> xs = [r]))"
  by (cases xs rule: remdups_adj.cases) (auto simp: sole_def run)

lemma enter_evolves: "evolves auth_evolves (enter env cookie)"
  unfolding enter_def by (intro auth_repo)

text \<open>The key version and the token digest that a cookie names.\<close>

definition cookie_key :: "auth_env \<Rightarrow> string option \<Rightarrow> (int \<times> bytes) option" where
  "cookie_key env cookie = (case parse_session_cookie cookie of
       Inl e \<Rightarrow> None
     | Inr None \<Rightarrow> None
     | Inr (Some (version, opaque)) \<Rightarrow> (case resolve_key (av_session env) version of
         None \<Rightarrow> None
       | Some key \<Rightarrow> (case token_digest (av_crypto env) key opaque of
           Inl e \<Rightarrow> None | Inr digest \<Rightarrow> Some (version, digest))))"

definition named_sessions :: "int \<times> bytes \<Rightarrow> auth_db \<Rightarrow> auth_session list" where
  "named_sessions k d = rows (\<lambda>x. se_key_version x = fst k \<and> se_token_digest x = snd k) (ad_sessions d)"

lemma enter_run:
  assumes "enter env cookie s = (Inr x, t)"
  shows "t = s \<and> (\<forall>y. x = Found y \<longrightarrow> (\<exists>k. cookie_key env cookie = Some k \<and>
     named_sessions k (at_work s) = (case y of None \<Rightarrow> [] | Some r \<Rightarrow> [r])))"
proof (cases "parse_session_cookie cookie")
  case (Inl e)
  with assms show ?thesis by (auto simp: enter_def lift_def op_success split: if_splits)
next
  case (Inr parsed)
  show ?thesis
  proof (cases parsed)
    case None
    with Inr assms show ?thesis by (auto simp: enter_def lift_def op_success split: if_splits)
  next
    case (Some p)
    obtain version opaque where p: "p = (version, opaque)" by fastforce
    have parsed: "parse_session_cookie cookie = Inr (Some (version, opaque))" using Inr Some p by simp
    show ?thesis
    proof (cases "resolve_key (av_session env) version")
      case None
      with parsed assms show ?thesis by (auto simp: enter_def lift_def op_success split: if_splits)
    next
      case (Some key)
      show ?thesis
      proof (cases "token_digest (av_crypto env) key opaque")
        case (Inl e)
        with parsed Some assms show ?thesis by (auto simp: enter_def lift_def op_success split: if_splits)
      next
        case (Inr digest)
        have k: "cookie_key env cookie = Some (version, digest)" using parsed Some Inr by (simp add: cookie_key_def)
        show ?thesis
          using assms unfolding k
          by (auto simp: enter_def parsed Some Inr lift_def session_by_digest_def look_def sole_run op_success
              named_sessions_def split: if_splits)
      qed
    qed
  qed
qed

lemma named_in_rows: "named_sessions k d = [x] \<Longrightarrow> x \<in> set (dict_values (ad_sessions d))"
  unfolding named_sessions_def rows_def by (drule arg_cong[where f = set]) auto

lemma goes_enter:
  assumes "\<And>x. auth_inv s \<Longrightarrow> session_of (at_work s) (se_id x) = Some x \<Longrightarrow> goes auth_evolves (f (Found (Some x))) s"
    and "goes auth_evolves (f No_keys) s" "goes auth_evolves (f No_cookie) s"
      "goes auth_evolves (f Unknown_key) s" "goes auth_evolves (f (Found None)) s"
  shows "goes auth_evolves (bindE (enter env cookie) f) s"
proof (rule goes_when_inv, rule auth_growth.goes_bindE[OF evolves_goes[OF enter_evolves]])
  fix x t
  assume inv: "auth_inv s" and run: "enter env cookie s = (Inr x, t)"
  have "t = s" and row: "\<And>y. x = Found (Some y) \<Longrightarrow> y \<in> set (dict_values (ad_sessions (at_work s)))"
    using enter_run[OF run] named_in_rows by auto
  show "goes auth_evolves (f x) t"
  proof (cases x)
    case (Found y)
    with \<open>t = s\<close> row assms(1)[OF inv] queried_row(2)[OF inv] assms(5) show ?thesis by (cases y) auto
  qed (use \<open>t = s\<close> assms in auto)
qed

lemma csrf_of_evolves: "evolves auth_evolves (csrf_of env sid)"
  unfolding csrf_of_def by (intro auth_rules)

lemma evolves_case_entry:
  "evolves R a \<Longrightarrow> evolves R b \<Longrightarrow> evolves R c \<Longrightarrow> (\<And>x. evolves R (f x)) \<Longrightarrow>
     evolves R (case v of No_keys \<Rightarrow> a | No_cookie \<Rightarrow> b | Unknown_key \<Rightarrow> c | Found x \<Rightarrow> f x)"
  by (cases v) auto

lemma bootstrap_evolves: "evolves auth_evolves (bootstrap_session env now cookie)"
  unfolding bootstrap_session_def bootstrap_inner_def
  by (intro auth_repo csrf_of_evolves)

text \<open>What follows a check of the CSRF token.\<close>

lemma goes_csrf:
  assumes "goes auth_evolves m s"
  shows "goes auth_evolves (bindE (lift v) (\<lambda>ok. case ok of None \<Rightarrow> undo x | Some ok \<Rightarrow> if \<not> ok then undo y else m)) s"
proof (rule goes_lift)
  fix ok
  have "goes auth_evolves (undo z) s" for z :: 'a by (intro evolves_goes auth_rules)
  with assms show "goes auth_evolves (case ok of None \<Rightarrow> undo x | Some ok \<Rightarrow> if \<not> ok then undo y else m) s"
    by (cases ok) auto
qed

lemma logout_evolves: "evolves auth_evolves (logout_session env now cookie presented rq)"
  unfolding logout_session_def
proof (rule on_db_error_evolves, rule goes_evolves)
  fix s
  have revoke: "goes auth_evolves (revoke_session now x reason) s"
    if "session_of (at_work s) (se_id x) = Some x" for x reason
    unfolding revoke_session_def
    by (intro goes_if auth_growth.goes_ret auth_growth.goes_then goes_save_session(2)[where a = x] auth_rules)
      (use that in \<open>auto simp: session_revoked_becomes, simp add: revoked_session_def\<close>)
  have valid: "goes auth_evolves (logout_valid env now x presented rq) s"
    if "session_of (at_work s) (se_id x) = Some x" for x
    unfolding logout_valid_def
    by (intro goes_csrf auth_growth.goes_then revoke that auth_repo)
  show "goes auth_evolves (logout_inner env now cookie presented rq) s"
    unfolding logout_inner_def
    by (rule goes_enter) (auto intro: goes_if evolves_goes auth_rules valid)
qed

lemma bump_goes:
  "(auth_inv s \<Longrightarrow> user_of (at_work s) (us_id u) = Some u) \<Longrightarrow> goes auth_evolves (bump_generation u) s"
  unfolding bump_generation_def Let_def
  by (intro auth_growth.goes_then goes_save_user[where a = u] auth_rules) (auto simp: user_becomes_def)

lemma revoke_all_evolves: "evolves auth_evolves (revoke_all_sessions env now cookie presented rq)"
  unfolding revoke_all_sessions_def
proof (rule on_db_error_evolves, rule goes_evolves)
  fix s
  have valid: "goes auth_evolves (bindE (user_by_id uid) (\<lambda>found. case found of
       None \<Rightarrow> undo Logout_unauthenticated
     | Some u \<Rightarrow> bindE (bump_generation u) (\<lambda>_.
         bindE (revoke_unrevoked_sessions now (us_id u) ''superseded'') (\<lambda>_.
         bindE (append_event now ''session_revoked_all'' ''success'' ''logout_all'' rq
                  (Some (us_id u)) None (Some sid) None) (\<lambda>_. keep_result Logged_out_all))))) s" for uid sid
    by (rule goes_user)
      (auto intro!: auth_growth.goes_then bump_goes revoke_unrevoked_evolves auth_repo
        intro: evolves_goes tx_evolves simp: row_key)
  show "goes auth_evolves (revoke_all_inner env now cookie presented rq) s"
    unfolding revoke_all_inner_def
    by (rule goes_enter) (auto intro!: goes_csrf valid intro: evolves_goes auth_rules)
qed

lemma switch_evolves: "evolves auth_evolves (switch_workspace env now cookie presented target rq)"
  unfolding switch_workspace_def
proof (rule on_db_error_evolves, rule goes_evolves)
  fix s
  have switch: "goes auth_evolves (switch_for env now x u target rq) s"
    if "session_of (at_work s) (se_id x) = Some x" for x u
    unfolding switch_for_def
    by (intro goes_if auth_growth.goes_then goes_save_session(1)[where a = x] evolves_goes csrf_of_evolves auth_repo)
      (use that in \<open>auto simp: session_becomes_def\<close>)
  show "goes auth_evolves (switch_inner env now cookie presented target rq) s"
    unfolding switch_inner_def
    by (rule goes_enter) (auto intro!: goes_csrf goes_user switch evolves_goes[OF tx_evolves(4)] intro: evolves_goes auth_rules)
qed

end
