(* ===== verification/Auth_Runs.thy ===== *)
theory Auth_Runs
  imports Auth_Steps
begin

section \<open>Runs of logins, code requests, delivery and registration\<close>

text \<open>
  Logins, code requests, delivery, registration and profiles keep the invariant and the growth of the tables;
  \<open>auth_step\<close> and \<open>auth_reach\<close> are the calls and the states they lead to.
\<close>

subsection \<open>New rows\<close>

lemma goes_fresh:
  assumes "\<And>t. auth_inv s \<Longrightarrow> t = s\<lparr>at_next := Suc (at_next s)\<rparr> \<Longrightarrow> goes auth_evolves (f (at_next s)) t"
  shows "goes auth_evolves (bindE fresh f) s"
proof (rule goes_when_inv, rule auth_growth.goes_bindE[OF evolves_goes[OF fresh_evolves]])
  fix x t
  assume "auth_inv s" and "fresh s = (Inr x, t)"
  then show "goes auth_evolves (f x) t" using assms by (auto simp: fresh_def run)
qed

text \<open>The next identifier names no row.\<close>

lemma fresh_absent:
  assumes "auth_inv s"
  shows "user_of (at_work s) (at_next s) = None" "challenge_of (at_work s) (at_next s) = None"
    "session_of (at_work s) (at_next s) = None"
proof -
  let ?n = "at_next s" and ?d = "at_work s"
  have "all_stored user_of (\<lambda>i u. us_id u = i \<and> i < ?n \<and> 1 \<le> us_generation u) ?d"
    and "all_stored challenge_of (\<lambda>i c. vc_id c = i \<and> i < ?n) ?d"
    and "all_stored session_of (\<lambda>i x. se_id x = i \<and> i < ?n \<and> 1 \<le> se_generation x \<and> issued_to ?d x) ?d"
    using assms by (simp_all add: auth_inv_def db_inv_def)
  then show "user_of ?d ?n = None" "challenge_of ?d ?n = None" "session_of ?d ?n = None"
    unfolding all_stored_def by (metis not_None_eq less_irrefl)+
qed

lemma goes_put_new:
  "challenge_of (at_work s) (vc_id c) = None \<Longrightarrow> vc_id c < at_next s \<Longrightarrow> goes auth_evolves (put (save_challenge c)) s"
  "user_of (at_work s) (us_id u) = None \<Longrightarrow> us_id u < at_next s \<Longrightarrow> 1 \<le> us_generation u \<Longrightarrow>
     goes auth_evolves (put (save_user u)) s"
  "session_of (at_work s) (se_id x) = None \<Longrightarrow> se_id x < at_next s \<Longrightarrow> 1 \<le> se_generation x \<Longrightarrow>
     issued_to (at_work s) x \<Longrightarrow> (\<And>i a. session_of (at_work s) i = Some a \<Longrightarrow> \<not> same_generation x a) \<Longrightarrow>
     goes auth_evolves (put (save_session x)) s"
  unfolding saves_are_writes
  by (rule goes_put, rule db_step_write_challenge db_step_write_user db_step_write_session; simp)+

subsection \<open>Logins\<close>

text \<open>What an operation leaves of the users.\<close>

definition same_users :: "auth_state \<Rightarrow> auth_state \<Rightarrow> bool" where
  "same_users s t \<longleftrightarrow> user_of (at_work t) = user_of (at_work s)"

interpretation users_kept: evolution same_users
  by unfold_locales (auto simp: same_users_def)

lemma flush_keeps_users: "evolves same_users flush"
  unfolding flush_def look_def by (intro users_kept.rules)

lemma touch_keeps_users:
  "(\<And>d. user_of (f d) = user_of d) \<Longrightarrow> evolves same_users (touch f)"
  by (auto simp: evolves_def touch_def run same_users_def)

lemma saves_keep_users [simp]:
  "user_of (save_challenge c d) = user_of d" "user_of (save_session x d) = user_of d"
  "user_of (save_intent p d) = user_of d"
  by (simp_all add: saves_are_writes, simp add: fun_eq_iff user_of_def save_intent_def)

lemma foldl_keeps_users:
  "(\<And>d x. user_of (f d x) = user_of d) \<Longrightarrow> user_of (foldl f d xs) = user_of d"
  by (induction xs arbitrary: d) simp_all

lemma revoke_keeps_users: "evolves same_users (revoke_unrevoked_sessions now uid reason)"
  unfolding revoke_unrevoked_sessions_def look_def
  by (intro users_kept.rules flush_keeps_users touch_keeps_users foldl_keeps_users) simp

text \<open>After the generation of a user was raised, a new session of that generation fits.\<close>

lemma bump_run:
  "bump_generation u s = (Inr v, t) \<Longrightarrow>
     v = u\<lparr>us_generation := or_one (us_generation u) + 1\<rparr> \<and>
     t = s\<lparr>at_work := save_user v (at_work s)\<rparr>"
  by (auto simp: bump_generation_def Let_def op_success put_def touch_def flush_def look_def or_one_def split: if_splits)

lemma goes_bump:
  assumes "auth_inv s \<Longrightarrow> user_of (at_work s) (us_id u) = Some u"
    and "\<And>v t. auth_inv s \<Longrightarrow> v = u\<lparr>us_generation := us_generation u + 1\<rparr> \<Longrightarrow>
      user_of (at_work t) (us_id v) = Some v \<Longrightarrow> 1 \<le> us_generation v \<Longrightarrow>
      (\<And>i a. session_of (at_work t) i = Some a \<Longrightarrow> se_user a = us_id v \<Longrightarrow> se_generation a < us_generation v) \<Longrightarrow>
      goes auth_evolves (f v) t"
  shows "goes auth_evolves (bindE (bump_generation u) f) s"
proof (rule goes_when_inv, rule auth_growth.goes_bindE[OF bump_goes[OF assms(1)]])
  fix v t
  assume inv: "auth_inv s" and run: "bump_generation u s = (Inr v, t)"
  have u: "user_of (at_work s) (us_id u) = Some u" using assms(1) inv .
  have users: "all_stored user_of (\<lambda>i u. us_id u = i \<and> i < at_next s \<and> 1 \<le> us_generation u) (at_work s)"
    and sessions: "all_stored session_of (\<lambda>i x. se_id x = i \<and> i < at_next s \<and> 1 \<le> se_generation x \<and>
      issued_to (at_work s) x) (at_work s)"
    using inv by (simp_all add: auth_inv_def db_inv_def)
  from all_storedD[OF users u] have g: "1 \<le> us_generation u" by simp
  with bump_run[OF run] have v: "v = u\<lparr>us_generation := us_generation u + 1\<rparr>"
    and t: "t = s\<lparr>at_work := write_user (us_id u) v (at_work s)\<rparr>" by (simp_all add: or_one_def saves_are_writes)
  show "goes auth_evolves (f v) t"
  proof (rule assms(2)[OF inv v])
    fix i a
    assume "session_of (at_work t) i = Some a" "se_user a = us_id v"
    with all_storedD[OF sessions, of i a] u show "se_generation a < us_generation v"
      by (auto simp: t v issued_to_def)
  qed (use g in \<open>simp_all add: v t table_get\<close>)
qed simp

lemma goes_keeping_users:
  assumes "goes auth_evolves m s" and "evolves same_users m"
    and "\<And>x t. user_of (at_work t) = user_of (at_work s) \<Longrightarrow> goes auth_evolves (f x) t"
  shows "goes auth_evolves (bindE m f) s"
proof (rule auth_growth.goes_bindE[OF assms(1)])
  fix x t
  assume "m s = (Inr x, t)"
  with assms(2) have "same_users s t" by (rule evolvesD)
  with assms(3) show "goes auth_evolves (f x) t" by (simp add: same_users_def)
qed

lemma becomes_steps:
  "vc_state c = Vc_delivered \<Longrightarrow> challenge_becomes c (consumed_challenge now c)"
  "vc_state c = Vc_delivered \<Longrightarrow> challenge_becomes c (failed_attempt now c)"
  "expirable (vc_state c) \<Longrightarrow> challenge_becomes c (expired_challenge now c)"
  by (cases "vc_state c"; simp add: challenge_becomes_def consumed_challenge_def failed_attempt_def Let_def
      expired_challenge_def challenge_moves_def expirable_def)+

lemma step_ids [simp]:
  "vc_id (consumed_challenge now c) = vc_id c" "vc_id (failed_attempt now c) = vc_id c"
  "vc_id (expired_challenge now c) = vc_id c"
  by (simp_all add: consumed_challenge_def failed_attempt_def Let_def expired_challenge_def)

lemma goes_put_session:
  assumes "auth_inv s" and "t = s\<lparr>at_next := Suc (at_next s)\<rparr>" and "se_id x = at_next s"
    and "user_of (at_work s) (us_id u) = Some u" "1 \<le> us_generation u"
    and "\<And>i a. session_of (at_work s) i = Some a \<Longrightarrow> se_user a = us_id u \<Longrightarrow> se_generation a < us_generation u"
    and "se_user x = us_id u" "se_generation x = us_generation u"
  shows "goes auth_evolves (put (save_session x)) t"
proof (rule goes_put_new(3))
  show "session_of (at_work t) (se_id x) = None" using fresh_absent(3)[OF assms(1)] assms(2,3) by simp
  show "issued_to (at_work t) x" using assms by (simp add: issued_to_def)
  show "\<not> same_generation x a" if "session_of (at_work t) i = Some a" for i a
    using assms(2) assms(6)[of i a] that assms(7,8) by (auto simp: same_generation_def)
qed (use assms in simp_all)

lemma new_session_fields [simp]:
  "se_id (new_session now sid u digest version rq hint) = sid"
  "se_user (new_session now sid u digest version rq hint) = us_id u"
  "se_generation (new_session now sid u digest version rq hint) = us_generation u"
  by (simp_all add: new_session_def)

lemma goes_try_session:
  assumes "goes auth_evolves (put (save_session x)) s" and "\<And>r. evolves auth_evolves (f r)"
  shows "goes auth_evolves (bindE (catch_op (bindE (put (save_session x)) (\<lambda>_. ret True)) (\<lambda>e. ret False)) f) s"
  by (intro auth_growth.goes_then goes_catch assms auth_growth.ret)

lemma log_in_goes:
  assumes "auth_inv s \<Longrightarrow> challenge_of (at_work s) (vc_id c) = Some c" and "vc_state c = Vc_delivered"
    and user: "user_of (at_work s) (us_id u) = Some u"
  shows "goes auth_evolves (log_in env now random c u rq ip) s"
  unfolding log_in_def Let_def
proof (rule goes_keeping_users)
  show "goes auth_evolves (touch (save_challenge (consumed_challenge now c))) s"
    using assms(1,2) becomes_steps(1) by (intro goes_save_challenge(1)[where a = c]) auto
  show "evolves same_users (touch (save_challenge (consumed_challenge now c)))"
    by (rule touch_keeps_users) simp
qed (rule goes_keeping_users[OF evolves_goes[OF revoke_unrevoked_evolves] revoke_keeps_users], rule goes_bump,
  simp only: user, rule goes_fresh, (rule goes_lift)+, rule goes_try_session,
  rule goes_put_session, assumption+, simp_all only: new_session_fields,
  (intro auth_repo csrf_of_evolves)+)

lemma issue_profile_goes:
  assumes "auth_inv s \<Longrightarrow> challenge_of (at_work s) (vc_id c) = Some c" and "vc_state c = Vc_delivered"
  shows "goes auth_evolves (issue_profile env now random c rq) s"
  unfolding issue_profile_def Let_def
  by (intro auth_growth.goes_then goes_save_challenge(1)[where a = c] auth_repo)
    (use assms becomes_steps(1) in auto)

lemma reject_code_goes:
  assumes "auth_inv s \<Longrightarrow> challenge_of (at_work s) (vc_id c) = Some c" and "vc_state c = Vc_delivered"
  shows "goes auth_evolves (reject_code now c right rq) s"
  unfolding reject_code_def Let_def
  by (intro auth_growth.goes_then goes_save_challenge(1)[where a = c] auth_repo)
    (use assms becomes_steps(2) in auto)

lemma eligible_user: "is_auth_eligible v \<Longrightarrow> v = Some (the v)"
  by (cases v) (auto simp: is_auth_eligible_def)

lemma verify_challenge_goes:
  assumes row: "auth_inv s \<Longrightarrow> challenge_of (at_work s) (vc_id c) = Some c"
    and user: "\<And>u. v = Some u \<Longrightarrow> auth_inv s \<Longrightarrow> user_of (at_work s) (us_id u) = Some u"
  shows "goes auth_evolves (verify_challenge env now random v c code rq ip) s"
proof (rule goes_when_inv)
  assume inv: "auth_inv s"
  have login: "goes auth_evolves (log_in env now random c (the v) rq ip) s"
    if "vc_state c = Vc_delivered" "is_auth_eligible v"
    using log_in_goes[OF row that(1) user[OF eligible_user[OF that(2)] inv]] .
  show "goes auth_evolves (verify_challenge env now random v c code rq ip) s"
    unfolding verify_challenge_def Let_def
  proof (intro goes_if goes_case_option)
    show "goes auth_evolves (bindE (put (save_challenge (expired_challenge now c)))
        (\<lambda>_. keep_result Issue_challenge_expired)) s" if "expirable (vc_state c)"
      using that row becomes_steps(3)
      by (intro auth_growth.goes_then goes_save_challenge(2)[where a = c] auth_repo) auto
    show "goes auth_evolves (log_in env now random c (the v) rq ip) s"
      if "\<not> vc_state c \<noteq> Vc_delivered" "\<not> \<not> (ok \<and> \<not> is_decoy c \<and> (is_register c \<or> is_auth_eligible v))"
        "\<not> is_register c" for ok
      using login that by blast
  qed (auto intro: reject_code_goes issue_profile_goes row evolves_goes tx_evolves)
qed

lemma create_session_evolves: "evolves auth_evolves (create_session env now random cid code rq ip)"
proof (rule goes_evolves)
  fix s
  have row: "auth_inv s \<Longrightarrow> challenge_of (at_work s) (vc_id c) = Some c" if "challenge_of (at_work s) cid = Some c" for c
    using that row_key(1) by metis
  have checked: "goes auth_evolves (bindE (get_challenge cid) (\<lambda>found. case found of
        None \<Rightarrow> undo Issue_challenge_unavailable
      | Some c \<Rightarrow> verify_challenge env now random v c code rq ip)) s"
    if "\<And>u. v = Some u \<Longrightarrow> auth_inv s \<Longrightarrow> user_of (at_work s) (us_id u) = Some u" for v
    by (rule goes_challenge) (auto intro!: verify_challenge_goes row that intro: evolves_goes tx_evolves)
  have peeked: "goes auth_evolves (bindE (case vc_user p of None \<Rightarrow> ret None | Some uid \<Rightarrow> user_by_id uid) (\<lambda>u.
      bindE (get_challenge cid) (\<lambda>found. case found of
        None \<Rightarrow> undo Issue_challenge_unavailable
      | Some c \<Rightarrow> verify_challenge env now random u c code rq ip))) s" for p
  proof (cases "vc_user p")
    case None
    have "bindE (ret None) f s = f None s" for f :: "user option \<Rightarrow> issue_result auth_op"
      by (simp add: run)
    with None checked[of None] show ?thesis by (simp add: goes_def)
  next
    case (Some uid)
    have "auth_inv s \<Longrightarrow> user_of (at_work s) (us_id u) = Some u" if "user_of (at_work s) uid = Some u" for u
      using that row_key(3) by metis
    with Some show ?thesis by (auto intro!: goes_user checked)
  qed
  show "goes auth_evolves (create_session env now random cid code rq ip) s"
    unfolding create_session_def
    by (intro goes_if goes_challenge) (auto intro: peeked evolves_goes auth_rules)
qed

subsection \<open>Code requests\<close>

lemma count_request_evolves: "evolves auth_evolves (count_request pref iref)"
  unfolding count_request_def by (intro auth_rules)

lemma request_answers_evolve:
  "evolves auth_evolves (apply_rate_limit now r pref iref rq)"
  "evolves auth_evolves (reuse_challenge now r pref u masked latest rq)"
  unfolding apply_rate_limit_def reuse_challenge_def Let_def
   apply (rule auth_growth.bindE[OF count_request_evolves])
  subgoal for decision by (cases decision) (auto intro!: auth_repo)
  by (intro auth_repo)

lemma new_challenge_evolves: "evolves auth_evolves (new_challenge env now salt r pref u phone rq)"
  unfolding new_challenge_def Let_def
proof (rule goes_evolves, rule goes_fresh, rule goes_fresh, (rule goes_lift)+, rule auth_growth.goes_then)
  fix s t v code digest
  assume "auth_inv s" "t = s\<lparr>at_next := Suc (at_next s)\<rparr>" "v = t\<lparr>at_next := Suc (at_next t)\<rparr>"
  then show "goes auth_evolves (put (save_challenge (pending_challenge now (at_next s) (eligible_id u) (iv_id r)
      pref digest salt (hk_version (av_otp env)) (at_next t) (if u = None then Some phone else None)))) v"
    using fresh_absent(2)[of s] by (intro goes_put_new(1)) (auto simp: pending_challenge_def)
qed (intro auth_repo)

text \<open>Superseding the rows a query returned, and then those of them that are being dispatched.\<close>

lemma supersede_run:
  "supersede_challenges now cs s = (Inr y, t) \<Longrightarrow>
     t = s\<lparr>at_work := foldl (\<lambda>d c. supersede_one now c d) (at_work s) cs\<rparr>"
  by (auto simp: supersede_challenges_def op_success touch_def flush_def look_def when_op_def split: if_splits)

definition dispatching_rows :: "challenge list \<Rightarrow> auth_state \<Rightarrow> bool" where
  "dispatching_rows cs s \<longleftrightarrow> distinct (map vc_id cs) \<and>
     (\<forall>c \<in> set cs. vc_state c = Vc_dispatching \<longrightarrow> challenge_of (at_work s) (vc_id c) = Some c)"

lemma supersede_each_goes:
  assumes "dispatching_rows cs s"
  shows "goes auth_evolves
    (for_each (\<lambda>c. when_op (vc_state c = Vc_dispatching) (supersede_challenges now [c])) cs) s"
proof (rule auth_growth.goes_for_each[where Q = dispatching_rows])
  fix c cs t
  assume rows: "dispatching_rows (c # cs) t"
  have "goes auth_evolves (when_op (vc_state c = Vc_dispatching) (supersede_challenges now [c])) t"
    using rows by (intro auth_growth.goes_when supersede_goes) (auto simp: dispatching_rows_def)
  moreover have "dispatching_rows cs u"
    if run: "when_op (vc_state c = Vc_dispatching) (supersede_challenges now [c]) t = (Inr (), u)" for u
  proof (cases "vc_state c = Vc_dispatching")
    case True
    with run have u: "u = t\<lparr>at_work := foldl (\<lambda>d c. supersede_one now c d) (at_work t) [c]\<rparr>"
      by (intro supersede_run) (simp add: when_op_def)
    have "challenge_of (at_work u) (vc_id b) = challenge_of (at_work t) (vc_id b)" if "b \<in> set cs" for b
      unfolding u using that rows by (simp, intro supersede_others[where cs = "[c]", simplified]) (auto simp: dispatching_rows_def)
    with rows show ?thesis by (auto simp: dispatching_rows_def)
  qed (use rows run in \<open>auto simp: when_op_def dispatching_rows_def\<close>)
  ultimately show "goes auth_evolves (when_op (vc_state c = Vc_dispatching) (supersede_challenges now [c])) t \<and>
      (\<forall>u. when_op (vc_state c = Vc_dispatching) (supersede_challenges now [c]) t = (Inr (), u) \<longrightarrow>
        dispatching_rows cs u)" by blast
qed (rule assms)

lemma winner_evolves: "evolves auth_evolves (winner env now salt r pref phone rq)"
proof (rule goes_evolves, rule goes_when_inv)
  fix s
  assume inv: "auth_inv s"
  let ?rows = "dict_values (ad_challenges (at_work s))"
  let ?current = "rows (\<lambda>c. vc_phone_ref c = pref \<and> current_state (vc_state c)) (ad_challenges (at_work s))"
  let ?latest = "ordered_by (\<lambda>c. - vc_created_at c) (rows (\<lambda>c. vc_phone_ref c = pref) (ad_challenges (at_work s)))"
  have distinct: "distinct (map vc_id ?rows)" and row: "\<And>c. c \<in> set ?rows \<Longrightarrow> challenge_of (at_work s) (vc_id c) = Some c"
    using distinct_rows(1)[OF inv] queried_row(1)[OF inv] by auto
  have sub: "set ?current \<subseteq> set ?rows" "set ?latest \<subseteq> set ?rows" by (auto simp: rows_def ordered_by_def)
  have current: "goes auth_evolves (supersede_challenges now ?current) s"
    using distinct row sub(1) by (intro supersede_goes) (auto simp: rows_def distinct_map_filter)
  have inj: "inj_on vc_id (set ?rows)" using distinct by (simp add: distinct_map)
  have "distinct (map vc_id (rows (\<lambda>c. vc_phone_ref c = pref) (ad_challenges (at_work s))))"
    using distinct by (simp add: rows_def distinct_map_filter)
  then have latest: "distinct (map vc_id ?latest)" by (simp add: ordered_by_def distinct_map)
  have others: "challenge_of (foldl (\<lambda>d c. supersede_one now c d) (at_work s) ?current) (vc_id c) = Some c"
    if "c \<in> set ?latest" "vc_state c = Vc_dispatching" for c
  proof -
    have "\<forall>b \<in> set ?current. vc_id b \<noteq> vc_id c"
    proof
      fix b
      assume b: "b \<in> set ?current"
      then have "b \<noteq> c" using that(2) by (auto simp: rows_def current_state_def)
      moreover have "b \<in> set ?rows" "c \<in> set ?rows" using b that(1) sub by auto
      ultimately show "vc_id b \<noteq> vc_id c" using inj by (auto dest: inj_onD)
    qed
    then show ?thesis using row that(1) sub(2) by (subst supersede_others) auto
  qed
  have each: "dispatching_rows ?latest t"
    if "when_op (?current \<noteq> []) (supersede_challenges now ?current) s = (Inr (), t)" for t
  proof (cases "?current = []")
    case True
    with that have "t = s" by (simp add: when_op_def)
    with latest row sub(2) show ?thesis by (auto simp: dispatching_rows_def)
  next
    case False
    with that have "supersede_challenges now ?current s = (Inr (), t)" by (simp add: when_op_def)
    from supersede_run[OF this] latest others show ?thesis by (auto simp: dispatching_rows_def)
  qed
  have fresh_one: "goes auth_evolves (bindE (when_op (?current \<noteq> []) (supersede_challenges now ?current)) (\<lambda>_.
      bindE (for_each (\<lambda>c. when_op (vc_state c = Vc_dispatching) (supersede_challenges now [c])) ?latest) (\<lambda>_.
      new_challenge env now salt r pref u phone rq))) s" for u
    by (intro auth_growth.goes_bindE auth_growth.goes_when current auth_growth.goes_then supersede_each_goes
        new_challenge_evolves) (use each in simp)
  have query: "goes auth_evolves (bindE (user_by_phone phone) f) s" if "\<And>u. goes auth_evolves (f u) s" for f :: "user option \<Rightarrow> request_result auth_op"
    unfolding user_by_phone_def
  proof (rule auth_growth.goes_bindE)
    show "goes auth_evolves (bindE (look (\<lambda>d. rows (\<lambda>u. us_phone u = phone) (ad_users d))) sole) s"
      by (intro evolves_goes auth_rules)
    fix x t
    assume "bindE (look (\<lambda>d. rows (\<lambda>u. us_phone u = phone) (ad_users d))) sole s = (Inr x, t)"
    then have "t = s" by (auto simp: look_def op_success sole_run)
    with that show "goes auth_evolves (f x) t" by simp
  qed
  show "goes auth_evolves (winner env now salt r pref phone rq) s"
    unfolding winner_def current_challenges_def latest_challenges_def Let_def
    by (rule query, rule goes_look, rule goes_look, rule goes_case_option)
      (auto intro: fresh_one evolves_goes request_answers_evolve)
qed

lemma request_challenge_evolves: "evolves auth_evolves (request_challenge env now salt phone key rq ip)"
  unfolding request_challenge_def Let_def
  by (intro auth_repo request_answers_evolve winner_evolves)

subsection \<open>Delivery\<close>

lemma delivery_becomes:
  fixes s :: auth_state
  assumes row: "auth_inv s \<Longrightarrow> challenge_of (at_work s) (vc_id c) = Some c"
  shows "vc_state c \<in> {Vc_dispatching, Vc_pending_delivery} \<Longrightarrow> goes auth_evolves (finalize_delivered now c) s"
  "goes auth_evolves (finalize_delivery_failed now c) s"
  "goes auth_evolves (mark_send_started now owner c) s"
proof -
  show "goes auth_evolves (finalize_delivered now c) s" if "vc_state c \<in> {Vc_dispatching, Vc_pending_delivery}"
    unfolding finalize_delivered_def
    by (rule goes_save_challenge(2)[where a = c])
      (use row that in \<open>auto simp: challenge_becomes_def challenge_moves_def\<close>)
  show "goes auth_evolves (finalize_delivery_failed now c) s"
    unfolding finalize_delivery_failed_def
    by (rule goes_save_challenge(2)[where a = c])
      (use row in \<open>cases "vc_state c"; simp add: challenge_becomes_def challenge_moves_def\<close>)+
  show "goes auth_evolves (mark_send_started now owner c) s"
    unfolding mark_send_started_def
    by (intro goes_if auth_growth.goes_ret auth_growth.goes_then goes_save_challenge(2)[where a = c] auth_growth.ret)
      (use row in \<open>auto simp: challenge_becomes_def challenge_moves_def\<close>)
qed

lemma goes_row:
  fixes s :: auth_state
  shows "(\<And>c. (auth_inv s \<Longrightarrow> challenge_of (at_work s) (vc_id c) = Some c) \<Longrightarrow> goes auth_evolves (f (Some c)) s) \<Longrightarrow>
     goes auth_evolves (f None) s \<Longrightarrow> goes auth_evolves (bindE (get_challenge cid) f) s"
  by (rule goes_challenge) (metis row_key(1))+

lemma goes_deliver_row:
  assumes "auth_inv s \<Longrightarrow> challenge_of (at_work s) (vc_id c) = Some c"
    and "vc_state c \<in> {Vc_dispatching, Vc_pending_delivery}" and "\<And>x. evolves auth_evolves (f x)"
  shows "goes auth_evolves (bindE (finalize_delivered now c) f) s"
  using assms by (intro auth_growth.goes_then delivery_becomes(1))

lemma goes_fail_row:
  assumes "auth_inv s \<Longrightarrow> challenge_of (at_work s) (vc_id c) = Some c" and "\<And>x. evolves auth_evolves (f x)"
  shows "goes auth_evolves (bindE (finalize_delivery_failed now c) f) s"
  using assms by (intro auth_growth.goes_then delivery_becomes(2))

lemma finalize_result_evolves: "evolves auth_evolves (finalize_result now cid status rq uid)"
  unfolding finalize_result_def
  by (rule goes_evolves, rule goes_row)
    (auto intro!: goes_if goes_deliver_row goes_fail_row auth_repo intro: evolves_goes tx_evolves)

lemma send_code_evolves: "evolves auth_evolves (send_code env sms now c rq phone)"
proof -
  have "evolves auth_evolves (fail_after_send_started now cid rq label)" for cid label
    unfolding fail_after_send_started_def
    by (rule goes_evolves, rule goes_row) (auto intro!: goes_fail_row auth_repo intro: evolves_goes auth_rules)
  then show ?thesis
    unfolding send_code_def Let_def by (intro auth_repo finalize_result_evolves)
qed

lemma deliver_decoy_evolves: "evolves auth_evolves (deliver_decoy now c rq)"
  unfolding deliver_decoy_def
  by (rule goes_evolves, rule goes_row)
    (auto intro!: goes_if auth_growth.goes_then[OF delivery_becomes(1)] auth_repo intro: evolves_goes auth_rules)

lemma goes_of_user:
  assumes "\<And>u. goes auth_evolves (f u) s"
  shows "goes auth_evolves (bindE (case v of None \<Rightarrow> ret None | Some uid \<Rightarrow> user_by_id uid) f) s"
  using assms by (cases v) (auto simp: goes_def run user_by_id_def look_def)

lemma prepare_and_send_evolves: "evolves auth_evolves (prepare_and_send env sms now c owner rq destination)"
proof -
  have send: "goes auth_evolves (bindE (mark_send_started now owner l) (\<lambda>marked.
      if \<not> marked then undo (outcome False ''lease_lost'' False)
      else bindE commit (\<lambda>_. send_code env sms now l rq phone))) s"
    if "auth_inv s \<Longrightarrow> challenge_of (at_work s) (vc_id l) = Some l" for l phone s
    by (intro auth_growth.goes_then delivery_becomes(3) that auth_repo send_code_evolves)
  show ?thesis
    unfolding prepare_and_send_def
    by (rule goes_evolves, intro goes_if goes_of_user goes_row)
      (auto intro!: goes_if goes_case_option goes_fail_row send auth_repo intro: evolves_goes tx_evolves
        deliver_decoy_evolves)
qed

lemma invalidate_evolves: "evolves auth_evolves (invalidate_after_send_started sms now cid rq reason)"
proof (rule goes_evolves)
  fix s
  have "goes auth_evolves (bindE (get_challenge cid) (\<lambda>locked.
     bindE (case locked of None \<Rightarrow> ret ()
       | Some l \<Rightarrow> when_op (vc_state l = Vc_dispatching)
           (bindE (finalize_delivery_failed now l) (\<lambda>_.
            bindE (append_event now ''delivery_failed'' ''failed'' reason rq None (Some cid) None None) (\<lambda>_. commit))))
     (\<lambda>_. ret (outcome False reason False)))) s"
    by (rule goes_row) (auto intro!: auth_growth.goes_then auth_growth.goes_when goes_fail_row auth_repo
        auth_growth.goes_ret)
  then show "goes auth_evolves (invalidate_after_send_started sms now cid rq reason) s"
    unfolding invalidate_after_send_started_def
    by (intro goes_challenge) (auto intro!: goes_if intro: evolves_goes finalize_result_evolves auth_rules)
qed

lemma process_one_evolves: "evolves auth_evolves (process_one env sms now owner ch)"
  unfolding process_one_def process_inner_def Let_def
  by (intro serve_evolves auth_repo prepare_and_send_evolves invalidate_evolves)

lemma claim_pending_batch_evolves: "evolves auth_evolves (claim_pending_batch now owner lease batch)"
proof (rule goes_evolves)
  fix s :: auth_state
  let ?lease = "\<lambda>c. c\<lparr>vc_lease_owner := Some owner, vc_lease_until := Some (now + seconds lease)\<rparr>"
  let ?cs = "take batch (ordered_by vc_created_at (rows (claimable now) (ad_challenges (at_work s))))"
  have fold: "foldl (\<lambda>d c. save_challenge c d) d (map g xs) = foldl (\<lambda>d c. save_challenge (g c) d) d xs" for d g xs
    by (induction xs arbitrary: d) simp_all
  have "db_step (at_next s) (at_work s) (foldl (\<lambda>d c. save_challenge c d) (at_work s) (map ?lease ?cs))"
    if inv: "auth_inv s"
    unfolding fold
  proof (rule rewrite_challenges)
    have "distinct (map vc_id (rows (claimable now) (ad_challenges (at_work s))))"
      using distinct_rows(1)[OF inv] by (simp add: rows_def distinct_map_filter)
    then show "distinct (map vc_id ?cs)" by (simp add: ordered_by_def distinct_map inj_on_subset[OF _ set_take_subset])
    show "challenge_of (at_work s) (vc_id c) = Some c" if "c \<in> set ?cs" for c
      using that by (intro queried_row(1)[OF inv]) (auto simp: rows_def ordered_by_def dest: in_set_takeD)
  qed (simp add: challenge_becomes_def challenge_moves_def)
  then show "goes auth_evolves (claim_pending_batch now owner lease batch) s"
    unfolding claim_pending_batch_def
    by (intro goes_look auth_growth.goes_then goes_touch auth_rules)
qed

lemma dispatcher_evolves:
  "evolves auth_evolves (claim_and_process env sms now owner lease batch)"
  "evolves auth_evolves (recover_stale_dispatching sms now owner lease)"
  unfolding claim_and_process_def recover_stale_dispatching_def claim_batch_def
  by (intro auth_repo serve_evolves claim_pending_batch_evolves process_one_evolves invalidate_evolves)+

subsection \<open>Registration and profiles\<close>

lemma create_user_evolves: "evolves auth_evolves (create_user phone nickname role)"
  unfolding create_user_def Let_def
proof (rule goes_evolves, rule goes_fresh, rule auth_growth.goes_then)
  fix s t
  assume "auth_inv s" "t = s\<lparr>at_next := Suc (at_next s)\<rparr>"
  then show "goes auth_evolves (put (save_user \<lparr>us_id = at_next s, us_phone = phone, us_nickname = nickname,
      us_role = role, us_status = Us_active, us_is_deleted = False, us_version = 1, us_generation = 1\<rparr>)) t"
    using fresh_absent(1)[of s] by (intro goes_put_new(2)) auto
qed (intro auth_rules)

lemma register_evolves: "evolves auth_evolves (register env now phone nickname role key durable)"
proof -
  have made: "evolves auth_evolves (make_account now k hash number nick role durable)" for k hash number nick
    unfolding make_account_def Let_def by (intro auth_repo create_user_evolves)
  have raced: "evolves auth_evolves (register_race k hash number)" for k hash number
    unfolding register_race_def by (intro auth_repo)
  have handled: "evolves auth_evolves (case e of Auth_db_error \<Rightarrow> register_race k hash number | _ \<Rightarrow> throw e)"
    for e k hash number
    by (cases e) (auto intro: raced auth_growth.throw)
  show ?thesis
    unfolding register_def Let_def by (intro auth_repo made handled)
qed

lemma complete_for_goes:
  assumes user: "user_of (at_work s) (us_id u) = Some u"
  shows "goes auth_evolves (complete_for env now random p u rq ip) s"
  unfolding complete_for_def Let_def
proof (rule goes_keeping_users)
  show "evolves same_users (touch (save_intent_consumed now p))"
    by (rule touch_keeps_users) (simp add: save_intent_consumed_def)
qed (rule evolves_goes, rule other_rows_evolve, rule goes_bump, simp only: user, (rule goes_lift)+, rule goes_fresh,
  rule goes_try_session, rule goes_put_session, assumption+, simp_all only: new_session_fields,
  (intro auth_repo csrf_of_evolves)+)

lemma complete_profile_evolves: "evolves auth_evolves (complete_profile env now random cookie nickname role key rq ip)"
proof -
  have completed: "evolves auth_evolves (bindE (user_by_id uid) (\<lambda>found. case found of
       None \<Rightarrow> undo Profile_unavailable | Some u \<Rightarrow> complete_for env now random p u rq ip))" for uid p
  proof (rule goes_evolves, rule goes_when_inv, rule goes_user)
    fix s u
    assume "auth_inv s" "user_of (at_work s) uid = Some u"
    then have "user_of (at_work s) (us_id u) = Some u" using row_key(3) by metis
    then show "goes auth_evolves (case Some u of None \<Rightarrow> undo Profile_unavailable
        | Some u \<Rightarrow> complete_for env now random p u rq ip) s" by (simp add: complete_for_goes)
  qed (simp add: evolves_goes tx_evolves)
  have "evolves auth_evolves (case created of Registered payload \<Rightarrow> bindE (user_by_id (re_user payload)) (\<lambda>found.
       case found of None \<Rightarrow> undo Profile_unavailable | Some u \<Rightarrow> complete_for env now random p u rq ip)
     | refused \<Rightarrow> undo (Profile_refused refused))" for created p
    by (cases created) (simp_all add: completed tx_evolves)
  then show ?thesis
    unfolding complete_profile_def by (intro auth_repo register_evolves)
qed

lemma evolves_case_boot:
  "(\<And>v. evolves R (a v)) \<Longrightarrow> (\<And>reason clear. evolves R (b reason clear)) \<Longrightarrow> (\<And>reason. evolves R (c reason)) \<Longrightarrow>
     evolves R (case boot of Boot_ok v \<Rightarrow> a v | Boot_unauthenticated reason clear \<Rightarrow> b reason clear
       | Boot_unavailable reason \<Rightarrow> c reason)"
  by (cases boot) simp_all

lemma security_summary_evolves: "evolves auth_evolves (security_summary env now cookie)"
  unfolding security_summary_def by (intro auth_repo bootstrap_evolves evolves_case_boot)

subsection \<open>Calls and runs\<close>

datatype auth_call =
    Request_code bytes string "string option" string string
  | Verify_code bytes uuid string string "string option"
  | Bootstrap "string option"
  | Log_out "string option" "string option" string
  | Log_out_all "string option" "string option" string
  | Switch "string option" "string option" string string
  | Security_view "string option"
  | Register string string string "string option"
  | Complete_profile bytes "string option" string string "string option" string "string option"
  | Dispatch string int nat
  | Recover string int

datatype auth_answer =
    A_request request_result
  | A_issue issue_result
  | A_boot bootstrap_result
  | A_logout logout_result
  | A_switch switch_result
  | A_summary summary_result
  | A_register register_result
  | A_profile profile_result
  | A_count nat

definition answer :: "('a \<Rightarrow> auth_answer) \<Rightarrow> 'a auth_op \<Rightarrow> auth_answer auth_op" where
  "answer f m = bindE m (\<lambda>r. ret (f r))"

fun auth_do :: "auth_env \<Rightarrow> sms_port \<Rightarrow> instant \<Rightarrow> auth_call \<Rightarrow> auth_answer auth_op" where
  "auth_do env sms now (Request_code salt phone key rq ip) =
     answer A_request (serve (request_challenge env now salt phone key rq ip))"
| "auth_do env sms now (Verify_code random cid code rq ip) =
     answer A_issue (serve (create_session env now random cid code rq ip))"
| "auth_do env sms now (Bootstrap cookie) = answer A_boot (serve (bootstrap_session env now cookie))"
| "auth_do env sms now (Log_out cookie csrf rq) = answer A_logout (serve (logout_session env now cookie csrf rq))"
| "auth_do env sms now (Log_out_all cookie csrf rq) =
     answer A_logout (serve (revoke_all_sessions env now cookie csrf rq))"
| "auth_do env sms now (Switch cookie csrf target rq) =
     answer A_switch (serve (switch_workspace env now cookie csrf target rq))"
| "auth_do env sms now (Security_view cookie) = answer A_summary (serve (security_summary env now cookie))"
| "auth_do env sms now (Register phone nickname role key) =
     answer A_register (serve (register env now phone nickname role key True))"
| "auth_do env sms now (Complete_profile random cookie nickname role key rq ip) =
     answer A_profile (serve (complete_profile env now random cookie nickname role key rq ip))"
| "auth_do env sms now (Dispatch owner lease batch) =
     answer A_count (claim_and_process env sms now owner lease batch)"
| "auth_do env sms now (Recover owner lease) =
     answer A_count (recover_stale_dispatching sms now owner lease)"

lemma answer_evolves: "evolves auth_evolves m \<Longrightarrow> evolves auth_evolves (answer f m)"
  unfolding answer_def by (intro auth_growth.rules)

lemma auth_do_evolves: "evolves auth_evolves (auth_do env sms now call)"
  by (cases call) (auto intro!: answer_evolves serve_evolves intro: request_challenge_evolves create_session_evolves
      bootstrap_evolves logout_evolves revoke_all_evolves switch_evolves security_summary_evolves register_evolves
      complete_profile_evolves dispatcher_evolves)

text \<open>Keys and the SMS provider may change from one call to the next.\<close>

inductive auth_step :: "auth_state \<Rightarrow> auth_state \<Rightarrow> bool" where
  call: "auth_do env sms now request s = (r, t) \<Longrightarrow> auth_step s t"

inductive_cases auth_stepE: "auth_step s t"

definition empty_auth :: "rate_limiter option \<Rightarrow> auth_state" where
  "empty_auth limiter = (let d = \<lparr>ad_users = [], ad_requests = [], ad_challenges = [], ad_intents = [],
     ad_sessions = [], ad_registrations = [], ad_events = []\<rparr> in
     \<lparr>at_saved = d, at_work = d, at_next = 0, at_limiter = limiter\<rparr>)"

definition auth_reach :: "auth_state \<Rightarrow> bool" where
  "auth_reach s \<longleftrightarrow> (\<exists>limiter. auth_step\<^sup>*\<^sup>* (empty_auth limiter) s)"

type_synonym timed_auth = "auth_env \<times> sms_port \<times> instant \<times> auth_call"

text \<open>The answers of a run, and its last state.\<close>

fun auth_run :: "timed_auth list \<Rightarrow> auth_state \<Rightarrow> (auth_error + auth_answer) list \<times> auth_state" where
  "auth_run [] s = ([], s)"
| "auth_run ((env, sms, now, call) # calls) s =
     (case auth_do env sms now call s of (r, t) \<Rightarrow> (case auth_run calls t of (rs, u) \<Rightarrow> (r # rs, u)))"

lemma auth_step_evolves: "auth_step s t \<Longrightarrow> auth_evolves s t"
  by (erule auth_stepE) (rule evolvesD[OF auth_do_evolves])

lemma auth_steps_evolve: "auth_step\<^sup>*\<^sup>* s t \<Longrightarrow> auth_evolves s t"
  by (induction rule: rtranclp_induct) (auto intro: auth_growth.refl auth_growth.trans dest: auth_step_evolves)

lemma empty_auth_inv: "auth_inv (empty_auth limiter)"
  by (simp add: auth_inv_def empty_auth_def Let_def db_inv_def all_stored_def no_clash_def user_of_def challenge_of_def
      session_of_def constraints_ok_def unique_on_def dict_values_def refs_ok_def)

lemma auth_reach_inv: "auth_reach s \<Longrightarrow> auth_inv s"
  using auth_steps_evolve empty_auth_inv by (fastforce simp: auth_reach_def auth_evolves_def)

lemma auth_reach_steps: "auth_reach s \<Longrightarrow> auth_step\<^sup>*\<^sup>* s t \<Longrightarrow> auth_reach t"
  unfolding auth_reach_def by (meson rtranclp_trans)

lemma auth_run_steps: "auth_run calls s = (rs, t) \<Longrightarrow> auth_step\<^sup>*\<^sup>* s t"
proof (induction calls arbitrary: s rs)
  case (Cons c calls)
  obtain env sms now call where c: "c = (env, sms, now, call)" by (cases c)
  obtain r u where first: "auth_do env sms now call s = (r, u)" by fastforce
  obtain rs' v where rest: "auth_run calls u = (rs', v)" by fastforce
  from Cons.prems first rest have "v = t" by (simp add: c)
  with Cons.IH rest have "auth_step\<^sup>*\<^sup>* u t" by blast
  with auth_step.call[OF first] show ?case by (rule converse_rtranclp_into_rtranclp)
qed simp

end
