(* ===== verification/Auth_Samples.thy ===== *)
theory Auth_Samples
  imports Auth_Runs
begin

section \<open>A concrete login\<close>

text \<open>
  An account, code requests, their delivery and two logins, made by the calls a client would make: the inputs
  on which the properties of authentication are evaluated. The hashes of the samples return the last byte
  of their message.
\<close>

definition auth_lib :: cryptolib where
  "auth_lib = \<lparr>shake256 = \<lambda>seed n. replicate n 3, hmac256 = \<lambda>k m. [last m],
     sha256 = \<lambda>m. [last m]\<rparr>"

definition auth_key :: hmac_keys where
  "auth_key = hmac_material ''k-0123456789abcdef'' '''' 1"

definition auth_demo :: auth_env where
  "auth_demo = \<lparr>av_crypto = auth_lib, av_session = auth_key, av_otp = auth_key, av_csrf = auth_key,
     av_reference = auth_key, av_provider_ok = True, av_nfkc = \<lambda>s. s\<rparr>"

definition auth_sms :: sms_port where
  "auth_sms = \<lparr>sp_send = \<lambda>p phone code. Sms_accepted, sp_query = \<lambda>p. Some Sms_unknown\<rparr>"

definition demo_call :: "int \<Rightarrow> auth_call \<Rightarrow> timed_auth" where
  "demo_call n call = (auth_demo, auth_sms, seconds n, call)"

definition demo_phone :: string where
  "demo_phone = ''13800000001''"

definition demo_start :: auth_state where
  "demo_start = empty_auth (Some \<lparr>rl_phone_limit = 5, rl_ip_limit = 9, rl_fail = False, rl_retry_after = 30, rl_phone = [], rl_ip = []\<rparr>)"

text \<open>The evaluation of a code waits for the identifier of its challenge.\<close>

definition tries_for :: "uuid \<Rightarrow> nat" where
  "tries_for cid = (case cid of 0 \<Rightarrow> 64 | Suc _ \<Rightarrow> 64)"

lemma derive_otp_waits [code]:
  "derive_otp c key cid = (if key = [] then Inl Auth_value_error else sample_otp (tries_for cid) c key cid 0)"
  by (simp add: derive_otp_def tries_for_def split: nat.split)

subsection \<open>Two logins\<close>

text \<open>User 0 and challenge 3 for it, delivered; then session 7; then challenge 10; then session 14.\<close>

definition invite_calls :: "timed_auth list" where
  "invite_calls = [demo_call 0 (Register demo_phone ''n'' ''buyer'' (Some ''r'')),
     demo_call 1 (Request_code [7] demo_phone (Some ''k1'') ''a'' ''1.1.1.1''),
     demo_call 2 (Dispatch ''w'' 60 10)]"

definition login_call :: timed_auth where
  "login_call = demo_call 3 (Verify_code [1] 3 ''000000'' ''b'' None)"

definition invited :: auth_state where
  "invited = snd (auth_run invite_calls demo_start)"

lemma invited_value [code]: "invited = (let d = \<lparr>ad_users = [(0, \<lparr>us_id = 0,
  us_phone = ''13800000001'', us_nickname = ''n'', us_role = ''buyer'', us_status = Us_active,
  us_is_deleted = False, us_version = 1, us_generation = 1\<rparr>)], ad_requests = [(2, \<lparr>iv_id = 2,
  iv_key_digest = [49], iv_key_version = 1, iv_phone_ref = [49], iv_state = Iv_succeeded,
  iv_http_status = Some 202, iv_result_code = Some ''0'',
  iv_payload = Some (Iv_challenge \<lparr>cv_challenge = 3, cv_phone_masked = ''*******0001'',
  cv_expires_at = 301000000, cv_resend_at = 61000000\<rparr>), iv_created_at = 1000000,
  iv_completed_at = Some 1000000, iv_replay_until = 61000000, iv_delete_after = 79201000000\<rparr>)],
  ad_challenges = [(3, \<lparr>vc_id = 3, vc_user = Some 0, vc_request = 2, vc_phone_ref = [49],
  vc_phone = None, vc_code_digest = Some [48], vc_code_salt = Some [7], vc_key_version = 1, vc_provider_ref = 4,
  vc_lease_owner = None, vc_lease_until = None, vc_send_started_at = Some 2000000,
  vc_finished_at = Some 2000000, vc_attempts = 0, vc_state = Vc_delivered, vc_created_at = 1000000,
  vc_delivered_at = Some 2000000, vc_expires_at = 301000000, vc_consumed_at = None, vc_invalidated_at = None,
  vc_delete_after = 79501000000\<rparr>)], ad_intents = [], ad_sessions = [], ad_registrations = [(1,
  \<lparr>rg_id = 1, rg_key = ''r'', rg_request_hash = ''72'', rg_user = 0, rg_payload = \<lparr>re_user = 0,
  re_role = ''buyer'', re_created_at = 0, re_phone_masked = ''*******0001''\<rparr>, rg_created_at = 0,
  rg_expires_at = 86400000000\<rparr>)], ad_events = [\<lparr>sv_id = 5, sv_type = ''challenge_requested'',
  sv_outcome = ''success'', sv_reason = ''accepted'', sv_request_id = ''a'', sv_user = Some 0,
  sv_challenge = Some 3, sv_session = None, sv_subject = Some [49], sv_occurred_at = 1000000,
  sv_delete_after = 15552001000000\<rparr>, \<lparr>sv_id = 6, sv_type = ''challenge_requested'',
  sv_outcome = ''success'', sv_reason = ''delivery_accepted'', sv_request_id = ''dispatch-3'', sv_user = Some 0,
  sv_challenge = Some 3, sv_session = None, sv_subject = None, sv_occurred_at = 2000000,
  sv_delete_after = 15552002000000\<rparr>]\<rparr> in \<lparr>at_saved = d, at_work = d, at_next = 7,
  at_limiter = Some \<lparr>rl_phone_limit = 5, rl_ip_limit = 9, rl_fail = False, rl_retry_after = 30,
  rl_phone = [([49], 1)], rl_ip = [([49], 1)]\<rparr>\<rparr>)"
  by code_simp

definition signed_in :: auth_state where
  "signed_in = snd (auth_run [login_call] invited)"

lemma signed_in_value [code]: "signed_in = (let d = \<lparr>ad_users = [(0, \<lparr>us_id = 0,
  us_phone = ''13800000001'', us_nickname = ''n'', us_role = ''buyer'', us_status = Us_active,
  us_is_deleted = False, us_version = 1, us_generation = 2\<rparr>)], ad_requests = [(2, \<lparr>iv_id = 2,
  iv_key_digest = [49], iv_key_version = 1, iv_phone_ref = [49], iv_state = Iv_succeeded,
  iv_http_status = Some 202, iv_result_code = Some ''0'',
  iv_payload = Some (Iv_challenge \<lparr>cv_challenge = 3, cv_phone_masked = ''*******0001'',
  cv_expires_at = 301000000, cv_resend_at = 61000000\<rparr>), iv_created_at = 1000000,
  iv_completed_at = Some 1000000, iv_replay_until = 61000000, iv_delete_after = 79201000000\<rparr>)],
  ad_challenges = [(3, \<lparr>vc_id = 3, vc_user = Some 0, vc_request = 2, vc_phone_ref = [49],
  vc_phone = None, vc_code_digest = None, vc_code_salt = None, vc_key_version = 1, vc_provider_ref = 4,
  vc_lease_owner = None, vc_lease_until = None, vc_send_started_at = None, vc_finished_at = Some 2000000,
  vc_attempts = 0, vc_state = Vc_consumed, vc_created_at = 1000000, vc_delivered_at = Some 2000000,
  vc_expires_at = 301000000, vc_consumed_at = Some 3000000, vc_invalidated_at = None,
  vc_delete_after = 79501000000\<rparr>)], ad_intents = [], ad_sessions = [(7, \<lparr>se_id = 7, se_user = 0,
  se_token_digest = [81], se_key_version = 1, se_generation = 2, se_client_hint = None,
  se_workspace = ''buyer'', se_role_snapshot = ''buyer'', se_issued_at = 3000000, se_expires_at = 3603000000,
  se_revoked_at = None, se_reason = None, se_request_id = ''b'', se_delete_after = 7779603000000\<rparr>)],
  ad_registrations = [(1, \<lparr>rg_id = 1, rg_key = ''r'', rg_request_hash = ''72'', rg_user = 0,
  rg_payload = \<lparr>re_user = 0, re_role = ''buyer'', re_created_at = 0,
  re_phone_masked = ''*******0001''\<rparr>, rg_created_at = 0, rg_expires_at = 86400000000\<rparr>)],
  ad_events = [\<lparr>sv_id = 5, sv_type = ''challenge_requested'', sv_outcome = ''success'',
  sv_reason = ''accepted'', sv_request_id = ''a'', sv_user = Some 0, sv_challenge = Some 3, sv_session = None,
  sv_subject = Some [49], sv_occurred_at = 1000000, sv_delete_after = 15552001000000\<rparr>, \<lparr>sv_id = 6,
  sv_type = ''challenge_requested'', sv_outcome = ''success'', sv_reason = ''delivery_accepted'',
  sv_request_id = ''dispatch-3'', sv_user = Some 0, sv_challenge = Some 3, sv_session = None, sv_subject = None,
  sv_occurred_at = 2000000, sv_delete_after = 15552002000000\<rparr>, \<lparr>sv_id = 8,
  sv_type = ''session_issued'', sv_outcome = ''success'', sv_reason = ''login'', sv_request_id = ''b'',
  sv_user = Some 0, sv_challenge = Some 3, sv_session = Some 7, sv_subject = None, sv_occurred_at = 3000000,
  sv_delete_after = 15552003000000\<rparr>]\<rparr> in \<lparr>at_saved = d, at_work = d, at_next = 9,
  at_limiter = Some \<lparr>rl_phone_limit = 5, rl_ip_limit = 9, rl_fail = False, rl_retry_after = 30,
  rl_phone = [([49], 1)], rl_ip = [([49], 1)]\<rparr>\<rparr>)"
  by code_simp

definition invited_again :: auth_state where
  "invited_again = snd (auth_run [demo_call 120 (Request_code [8] demo_phone (Some ''k2'') ''c'' ''1.1.1.1''),
     demo_call 121 (Dispatch ''w'' 60 10)] signed_in)"

lemma invited_again_value [code]: "invited_again = (let d = \<lparr>ad_users = [(0, \<lparr>us_id = 0,
  us_phone = ''13800000001'', us_nickname = ''n'', us_role = ''buyer'', us_status = Us_active,
  us_is_deleted = False, us_version = 1, us_generation = 2\<rparr>)], ad_requests = [(2, \<lparr>iv_id = 2,
  iv_key_digest = [49], iv_key_version = 1, iv_phone_ref = [49], iv_state = Iv_succeeded,
  iv_http_status = Some 202, iv_result_code = Some ''0'',
  iv_payload = Some (Iv_challenge \<lparr>cv_challenge = 3, cv_phone_masked = ''*******0001'',
  cv_expires_at = 301000000, cv_resend_at = 61000000\<rparr>), iv_created_at = 1000000,
  iv_completed_at = Some 1000000, iv_replay_until = 61000000, iv_delete_after = 79201000000\<rparr>), (9,
  \<lparr>iv_id = 9, iv_key_digest = [50], iv_key_version = 1, iv_phone_ref = [49], iv_state = Iv_succeeded,
  iv_http_status = Some 202, iv_result_code = Some ''0'',
  iv_payload = Some (Iv_challenge \<lparr>cv_challenge = 10, cv_phone_masked = ''*******0001'',
  cv_expires_at = 420000000, cv_resend_at = 180000000\<rparr>), iv_created_at = 120000000,
  iv_completed_at = Some 120000000, iv_replay_until = 180000000, iv_delete_after = 79320000000\<rparr>)],
  ad_challenges = [(3, \<lparr>vc_id = 3, vc_user = Some 0, vc_request = 2, vc_phone_ref = [49],
  vc_phone = None, vc_code_digest = None, vc_code_salt = None, vc_key_version = 1, vc_provider_ref = 4,
  vc_lease_owner = None, vc_lease_until = None, vc_send_started_at = None, vc_finished_at = Some 2000000,
  vc_attempts = 0, vc_state = Vc_consumed, vc_created_at = 1000000, vc_delivered_at = Some 2000000,
  vc_expires_at = 301000000, vc_consumed_at = Some 3000000, vc_invalidated_at = None,
  vc_delete_after = 79501000000\<rparr>), (10, \<lparr>vc_id = 10, vc_user = Some 0, vc_request = 9,
  vc_phone_ref = [49], vc_phone = None, vc_code_digest = Some [48], vc_code_salt = Some [8], vc_key_version = 1,
  vc_provider_ref = 11, vc_lease_owner = None, vc_lease_until = None, vc_send_started_at = Some 121000000,
  vc_finished_at = Some 121000000, vc_attempts = 0, vc_state = Vc_delivered, vc_created_at = 120000000,
  vc_delivered_at = Some 121000000, vc_expires_at = 420000000, vc_consumed_at = None, vc_invalidated_at = None,
  vc_delete_after = 79620000000\<rparr>)], ad_intents = [], ad_sessions = [(7, \<lparr>se_id = 7, se_user = 0,
  se_token_digest = [81], se_key_version = 1, se_generation = 2, se_client_hint = None,
  se_workspace = ''buyer'', se_role_snapshot = ''buyer'', se_issued_at = 3000000, se_expires_at = 3603000000,
  se_revoked_at = None, se_reason = None, se_request_id = ''b'', se_delete_after = 7779603000000\<rparr>)],
  ad_registrations = [(1, \<lparr>rg_id = 1, rg_key = ''r'', rg_request_hash = ''72'', rg_user = 0,
  rg_payload = \<lparr>re_user = 0, re_role = ''buyer'', re_created_at = 0,
  re_phone_masked = ''*******0001''\<rparr>, rg_created_at = 0, rg_expires_at = 86400000000\<rparr>)],
  ad_events = [\<lparr>sv_id = 5, sv_type = ''challenge_requested'', sv_outcome = ''success'',
  sv_reason = ''accepted'', sv_request_id = ''a'', sv_user = Some 0, sv_challenge = Some 3, sv_session = None,
  sv_subject = Some [49], sv_occurred_at = 1000000, sv_delete_after = 15552001000000\<rparr>, \<lparr>sv_id = 6,
  sv_type = ''challenge_requested'', sv_outcome = ''success'', sv_reason = ''delivery_accepted'',
  sv_request_id = ''dispatch-3'', sv_user = Some 0, sv_challenge = Some 3, sv_session = None, sv_subject = None,
  sv_occurred_at = 2000000, sv_delete_after = 15552002000000\<rparr>, \<lparr>sv_id = 8,
  sv_type = ''session_issued'', sv_outcome = ''success'', sv_reason = ''login'', sv_request_id = ''b'',
  sv_user = Some 0, sv_challenge = Some 3, sv_session = Some 7, sv_subject = None, sv_occurred_at = 3000000,
  sv_delete_after = 15552003000000\<rparr>, \<lparr>sv_id = 12, sv_type = ''challenge_requested'',
  sv_outcome = ''success'', sv_reason = ''accepted'', sv_request_id = ''c'', sv_user = Some 0,
  sv_challenge = Some 10, sv_session = None, sv_subject = Some [49], sv_occurred_at = 120000000,
  sv_delete_after = 15552120000000\<rparr>, \<lparr>sv_id = 13, sv_type = ''challenge_requested'',
  sv_outcome = ''success'', sv_reason = ''delivery_accepted'', sv_request_id = ''dispatch-10'',
  sv_user = Some 0, sv_challenge = Some 10, sv_session = None, sv_subject = None, sv_occurred_at = 121000000,
  sv_delete_after = 15552121000000\<rparr>]\<rparr> in \<lparr>at_saved = d, at_work = d, at_next = 14,
  at_limiter = Some \<lparr>rl_phone_limit = 5, rl_ip_limit = 9, rl_fail = False, rl_retry_after = 30,
  rl_phone = [([49], 2)], rl_ip = [([49], 2)]\<rparr>\<rparr>)"
  by code_simp

definition signed_twice :: auth_state where
  "signed_twice = snd (auth_run [demo_call 122 (Verify_code [2] 10 ''000000'' ''d'' None)] invited_again)"

end
