(* ===== verification/Auth_Contracts.thy ===== *)
theory Auth_Contracts
  imports Auth_Samples
begin

section \<open>What authentication promises\<close>

text \<open>
  When a cookie is accepted, and that a session that was replaced or revoked is not accepted again, whatever
  is called later.
\<close>

subsection \<open>When a cookie is accepted\<close>

lemma serve_run: "serve m s = (r, t) \<Longrightarrow> \<exists>u. m (s\<lparr>at_work := at_saved s\<rparr>) = (r, u) \<and> t = u\<lparr>at_work := at_saved u\<rparr>"
  by (auto simp: serve_def split: prod.splits)

lemma on_db_error_Inr:
  "on_db_error m x s = (Inr r, t) \<Longrightarrow> r = x \<or> m s = (Inr r, t)"
  by (auto simp: on_db_error_def catch_op_def run split: prod.splits sum.splits auth_error.splits)

text \<open>The session that a cookie names, and what its acceptance says of it.\<close>

definition accepts :: "auth_env \<Rightarrow> instant \<Rightarrow> int \<times> bytes \<Rightarrow> auth_db \<Rightarrow> auth_session \<Rightarrow> user \<Rightarrow> bool" where
  "accepts env now k d x u \<longleftrightarrow> named_sessions k d = [x] \<and> user_of d (se_user x) = Some u \<and>
     session_reject now x u = None"

lemma paired: "Some (x, u) = map_option (Pair y) v \<longleftrightarrow> y = x \<and> v = Some u"
  by (cases v) auto

lemma session_with_user_run:
  "session_with_user version digest s = (Inr (Some (x, u)), t) \<longleftrightarrow>
     t = s \<and> named_sessions (version, digest) (at_work s) = [x] \<and> user_of (at_work s) (se_user x) = Some u"
  by (auto simp: session_with_user_def session_by_digest_def user_by_id_def look_def op_success sole_run
      named_sessions_def user_of_def paired split: option.splits)

lemma bootstrap_inner_ok:
  assumes "bootstrap_inner env now cookie s = (Inr (Boot_ok v), t)"
  shows "\<exists>k x u. cookie_key env cookie = Some k \<and> accepts env now k (at_work s) x u \<and>
    issue_csrf_token (av_crypto env) (hk_current (av_csrf env)) (hk_version (av_csrf env)) (se_id x) = Inr (ss_csrf v) \<and>
    v = session_summary_of u (se_expires_at x) (ss_csrf v) (or_workspace x u) \<and> t = s"
proof (cases "parse_session_cookie cookie")
  case (Inl e)
  with assms show ?thesis by (auto simp: bootstrap_inner_def lift_def op_success split: if_splits)
next
  case parsed: (Inr parsed)
  show ?thesis
  proof (cases parsed)
    case None
    with parsed assms show ?thesis by (auto simp: bootstrap_inner_def lift_def op_success split: if_splits)
  next
    case (Some p)
    obtain version opaque where p: "p = (version, opaque)" by fastforce
    note parsed = parsed[unfolded Some p]
    show ?thesis
    proof (cases "resolve_key (av_session env) version")
      case None
      with parsed assms show ?thesis by (auto simp: bootstrap_inner_def lift_def op_success split: if_splits)
    next
      case key: (Some key)
      show ?thesis
      proof (cases "token_digest (av_crypto env) key opaque")
        case (Inl e)
        with parsed key assms show ?thesis by (auto simp: bootstrap_inner_def lift_def op_success split: if_splits)
      next
        case (Inr digest)
        have k: "cookie_key env cookie = Some (version, digest)" using parsed key Inr by (simp add: cookie_key_def)
        from assms obtain row w where row: "session_with_user version digest s = (Inr row, w)"
          and rest: "(case row of None \<Rightarrow> ret (Boot_unauthenticated ''unknown_token'' True)
            | Some (x, u) \<Rightarrow> (case session_reject now x u of
                Some reason \<Rightarrow> ret (Boot_unauthenticated reason True)
              | None \<Rightarrow> bindE (csrf_of env (se_id x)) (\<lambda>csrf.
                  ret (Boot_ok (session_summary_of u (se_expires_at x) csrf (or_workspace x u)))))) w = (Inr (Boot_ok v), t)"
          by (auto simp: bootstrap_inner_def parsed key Inr lift_def op_success split: if_splits)
        from rest obtain x u where some: "row = Some (x, u)" by (cases row) (auto simp: op_success)
        from row[unfolded some] session_with_user_run have w: "w = s"
          and named: "named_sessions (version, digest) (at_work s) = [x]" "user_of (at_work s) (se_user x) = Some u"
          by blast+
        from rest some w named show ?thesis unfolding k
          by (auto simp: accepts_def csrf_of_def lift_def op_success session_summary_of_def split: option.splits)
      qed
    qed
  qed
qed

lemma bootstrap_ok:
  assumes "serve (bootstrap_session env now cookie) s = (Inr (Boot_ok v), t)"
  obtains k x u where "cookie_key env cookie = Some k" "accepts env now k (at_saved s) x u"
    "issue_csrf_token (av_crypto env) (hk_current (av_csrf env)) (hk_version (av_csrf env)) (se_id x) = Inr (ss_csrf v)"
    "v = session_summary_of u (se_expires_at x) (ss_csrf v) (or_workspace x u)" "t = s\<lparr>at_work := at_saved s\<rparr>"
proof -
  from serve_run[OF assms] obtain w where w: "bootstrap_session env now cookie (s\<lparr>at_work := at_saved s\<rparr>) = (Inr (Boot_ok v), w)"
    and t: "t = w\<lparr>at_work := at_saved w\<rparr>" by blast
  from w have "bootstrap_inner env now cookie (s\<lparr>at_work := at_saved s\<rparr>) = (Inr (Boot_ok v), w)"
    unfolding bootstrap_session_def by (auto dest: on_db_error_Inr)
  from bootstrap_inner_ok[OF this] t that show thesis by auto
qed

text \<open>The named row lies in the table under its identifier.\<close>

lemma named_row:
  assumes "auth_inv s" "named_sessions k (at_saved s) = [x]"
  shows "session_of (at_saved s) (se_id x) = Some x" "se_key_version x = fst k" "se_token_digest x = snd k"
proof -
  have "x \<in> set (named_sessions k (at_saved s))" using assms(2) by simp
  then show "se_key_version x = fst k" "se_token_digest x = snd k" by (auto simp: named_sessions_def rows_def)
  have "auth_inv (s\<lparr>at_work := at_saved s\<rparr>)" using assms(1) by (simp add: auth_inv_def)
  from queried_row(2)[OF this, of x] named_in_rows[OF assms(2)]
  show "session_of (at_saved s) (se_id x) = Some x" by simp
qed

lemma naming_row:
  assumes "session_of d i = Some x" "named_sessions (se_key_version x, se_token_digest x) d = [y]"
  shows "y = x"
proof -
  have "x \<in> set (named_sessions (se_key_version x, se_token_digest x) d)"
    using assms(1) by (auto simp: named_sessions_def rows_def session_of_def dest: dict_get_values)
  with assms(2) show ?thesis by simp
qed

lemma accepted_generation:
  assumes "auth_inv s" "accepts env now k (at_saved s) x u"
  shows "se_generation x = us_generation u" "us_id u = se_user x" "user_of (at_saved s) (se_user x) = Some u"
    "session_of (at_saved s) (se_id x) = Some x" "se_revoked_at x = None"
proof -
  have named: "named_sessions k (at_saved s) = [x]" and user: "user_of (at_saved s) (se_user x) = Some u"
    and reject: "session_reject now x u = None"
    using assms(2) by (simp_all add: accepts_def)
  from assms(1) have inv: "db_inv (at_next s) (at_saved s)" by (simp add: auth_inv_def)
  have row: "session_of (at_saved s) (se_id x) = Some x" by (rule named_row[OF assms(1) named])
  have "1 \<le> se_generation x" "1 \<le> us_generation u" "us_id u = se_user x"
    using inv row user by (auto simp: db_inv_def dest!: all_storedD)
  with reject row user show "se_generation x = us_generation u" "us_id u = se_user x"
    "user_of (at_saved s) (se_user x) = Some u" "session_of (at_saved s) (se_id x) = Some x" "se_revoked_at x = None"
    by (auto simp: session_reject_def or_one_def split: if_splits)
qed

lemma auth_history:
  assumes "auth_reach s" "auth_step\<^sup>*\<^sup>* s t"
  shows "auth_inv s" "auth_inv t" "db_grows (at_saved s) (at_saved t)"
proof -
  show inv: "auth_inv s" using assms(1) by (rule auth_reach_inv)
  from auth_steps_evolve[OF assms(2)] inv show "auth_inv t" "db_grows (at_saved s) (at_saved t)"
    by (simp_all add: auth_evolves_def)
qed

lemma session_kept:
  assumes "db_grows d e" "session_of d i = Some x"
  obtains y where "session_of e i = Some y" "session_becomes x y"
  using assms by (auto simp: db_grows_def dest: entries_growD)

lemma user_kept:
  assumes "db_grows d e" "user_of d i = Some x"
  obtains y where "user_of e i = Some y" "us_generation x \<le> us_generation y"
  using assms by (auto simp: db_grows_def user_becomes_def dest: entries_growD)

text \<open>C10 (safety). When a session of a user has been accepted, and later another session of the same user is
  accepted, then no cookie with the first token is ever accepted again, under whatever keys, at whatever
  time and after whatever calls: a stolen old cookie does not outlive the next login.\<close>

theorem older_session_stays_dead:
  assumes "auth_reach s"
    and first: "serve (bootstrap_session env now cookie) s = (Inr (Boot_ok v), s')"
    and "auth_step\<^sup>*\<^sup>* s t"
    and second: "serve (bootstrap_session env2 now2 cookie2) t = (Inr (Boot_ok v2), t')"
    and same_user: "ss_user v2 = ss_user v" and differ: "cookie_key env2 cookie2 \<noteq> cookie_key env cookie"
    and "auth_step\<^sup>*\<^sup>* t u" and again: "cookie_key env3 cookie3 = cookie_key env cookie"
  shows "fst (serve (bootstrap_session env3 now3 cookie3) u) \<noteq> Inr (Boot_ok w)"
proof
  assume "fst (serve (bootstrap_session env3 now3 cookie3) u) = Inr (Boot_ok w)"
  then obtain u' where third: "serve (bootstrap_session env3 now3 cookie3) u = (Inr (Boot_ok w), u')"
    by (metis prod.collapse)
  have hist: "auth_inv s" "auth_inv t" "db_grows (at_saved s) (at_saved t)" "auth_inv u" "db_grows (at_saved t) (at_saved u)"
    using auth_history[OF assms(1,3)] auth_history[OF auth_reach_steps[OF assms(1,3)] assms(7)] by auto
  from bootstrap_ok[OF first] obtain k x a where k: "cookie_key env cookie = Some k"
    and x: "accepts env now k (at_saved s) x a" and va: "ss_user v = us_id a"
    by (metis session_summary_of_def session_summary.select_convs(1))
  from bootstrap_ok[OF second] obtain k2 y b where k2: "cookie_key env2 cookie2 = Some k2"
    and y: "accepts env2 now2 k2 (at_saved t) y b" and vb: "ss_user v2 = us_id b"
    by (metis session_summary_of_def session_summary.select_convs(1))
  from bootstrap_ok[OF third] k again obtain z c where z: "accepts env3 now3 k (at_saved u) z c"
    by (metis option.inject)
  note gx = accepted_generation[OF hist(1) x] and gy = accepted_generation[OF hist(2) y]
    and gz = accepted_generation[OF hist(4) z]
  from session_kept[OF hist(3) gx(4)] obtain x2 where x2: "session_of (at_saved t) (se_id x) = Some x2"
    and bx: "session_becomes x x2" by blast
  from session_kept[OF hist(5) x2] obtain x3 where x3: "session_of (at_saved u) (se_id x) = Some x3"
    and bx3: "session_becomes x2 x3" by blast
  have kx: "k = (se_key_version x, se_token_digest x)" "k2 = (se_key_version y, se_token_digest y)"
    using named_row(2,3)[OF hist(1), of k x] named_row(2,3)[OF hist(2), of k2 y] x y
    by (simp_all add: accepts_def prod_eq_iff)
  have "k = (se_key_version x3, se_token_digest x3)" using bx bx3 kx(1) by (simp add: session_becomes_def)
  with naming_row[OF x3] z have "z = x3" by (simp add: accepts_def)
  with gz(1) bx bx3 gx(1,2) have zx: "us_generation c = se_generation x" "se_user z = se_user x"
    by (simp_all add: session_becomes_def)
  have users: "se_user y = se_user x" using same_user va vb gx(2) gy(2) by simp
  have "se_id y \<noteq> se_id x" using x2 gy(4) bx kx differ k k2 by (auto simp: session_becomes_def)
  have clash: "no_clash session_of same_generation (at_saved t)" using hist(2) by (simp add: auth_inv_def db_inv_def)
  have "se_generation y \<noteq> se_generation x"
    using no_clashD[OF clash gy(4) x2] \<open>se_id y \<noteq> se_id x\<close> bx users
    by (auto simp: same_generation_def session_becomes_def)
  moreover have "se_generation x \<le> se_generation y"
    using user_kept[OF hist(3) gx(3)] gx(1) gy(1,3) users by auto
  moreover have "us_generation b \<le> us_generation c"
    using user_kept[OF hist(5) gy(3)] gz(3) users zx(2) by auto
  ultimately show False using zx(1) gy(1) by simp
qed

text \<open>A revoked session stays revoked: no cookie that names it is accepted again.\<close>

theorem revoked_session_stays_dead:
  assumes "auth_reach s" "session_of (at_saved s) i = Some x" "se_revoked_at x \<noteq> None" "auth_step\<^sup>*\<^sup>* s t"
    and "cookie_key env cookie = Some (se_key_version x, se_token_digest x)"
  shows "fst (serve (bootstrap_session env now cookie) t) \<noteq> Inr (Boot_ok v)"
proof
  assume "fst (serve (bootstrap_session env now cookie) t) = Inr (Boot_ok v)"
  then obtain t' where run: "serve (bootstrap_session env now cookie) t = (Inr (Boot_ok v), t')"
    by (metis prod.collapse)
  note hist = auth_history[OF assms(1,4)]
  from bootstrap_ok[OF run] assms(5) obtain y u where y: "accepts env now (se_key_version x, se_token_digest x) (at_saved t) y u"
    by (metis option.inject)
  from session_kept[OF hist(3) assms(2)] obtain z where z: "session_of (at_saved t) i = Some z" "session_becomes x z" .
  with naming_row[OF z(1)] y have "y = z" by (simp add: accepts_def session_becomes_def)
  with accepted_generation(5)[OF hist(2) y] z(2) assms(3) show False by (auto simp: session_becomes_def)
qed

end
