(* ===== verification/Auth_Logins.thy ===== *)
theory Auth_Logins
  imports Auth_Contracts
begin

section \<open>What a login does\<close>

text \<open>
  A login: which challenge and code it takes, that it leaves the user one session, and that the cookie it returns
  opens that session.
\<close>

subsection \<open>Successful transactions\<close>

lemma tx_Inr:
  "look f s = (Inr x, t) \<longleftrightarrow> x = f (at_work s) \<and> t = s"
  "lift v s = (Inr y, t) \<longleftrightarrow> v = Inr y \<and> t = s"
  "touch g s = (Inr z, t) \<longleftrightarrow> t = s\<lparr>at_work := g (at_work s)\<rparr>"
  "flush s = (Inr z, t) \<longleftrightarrow> constraints_ok (at_work s) \<and> t = s"
  "put g s = (Inr z, t) \<longleftrightarrow> constraints_ok (g (at_work s)) \<and> t = s\<lparr>at_work := g (at_work s)\<rparr>"
  "commit s = (Inr z, t) \<longleftrightarrow> constraints_ok (at_work s) \<and> t = s\<lparr>at_saved := at_work s\<rparr>"
  "rollback s = (Inr z, t) \<longleftrightarrow> t = s\<lparr>at_work := at_saved s\<rparr>"
  "fresh s = (Inr i, t) \<longleftrightarrow> i = at_next s \<and> t = s\<lparr>at_next := Suc (at_next s)\<rparr>"
  "undo q s = (Inr q', t) \<longleftrightarrow> q' = q \<and> t = s\<lparr>at_work := at_saved s\<rparr>"
  "keep_result q s = (Inr q', t) \<longleftrightarrow> q' = q \<and> constraints_ok (at_work s) \<and> t = s\<lparr>at_saved := at_work s\<rparr>"
  by (auto simp: look_def lift_def touch_def flush_def put_def commit_def rollback_def fresh_def undo_def
      keep_result_def op_success)

lemma append_event_Inr:
  "append_event now event out reason rq uid cid sid subject s = (Inr z, t) \<longleftrightarrow>
     (\<exists>e. constraints_ok ((at_work s)\<lparr>ad_events := e\<rparr>) \<and>
       e = ad_events (at_work s) @ [security_event_row now (at_next s) event out reason rq uid cid sid subject] \<and>
       t = s\<lparr>at_next := Suc (at_next s), at_work := (at_work s)\<lparr>ad_events := e\<rparr>\<rparr>)"
  by (auto simp: append_event_def tx_Inr op_success)

lemma try_session_Inr:
  "catch_op (bindE (put f) (\<lambda>_. ret True)) (\<lambda>e. ret False) s = (Inr b, t) \<longleftrightarrow>
     b = constraints_ok (f (at_work s)) \<and> t = s\<lparr>at_work := f (at_work s)\<rparr>"
  by (auto simp: put_def touch_def flush_def look_def run)

lemma revoke_unrevoked_Inr:
  "revoke_unrevoked_sessions now uid reason s = (Inr n, t) \<Longrightarrow>
     at_work t = foldl (\<lambda>d x. save_session (revoked_session (revoke_at now x) reason x) d) (at_work s)
       (rows (\<lambda>x. se_user x = uid \<and> se_revoked_at x = None) (ad_sessions (at_work s))) \<and>
     at_saved t = at_saved s \<and> at_next t = at_next s"
  by (auto simp: revoke_unrevoked_sessions_def tx_Inr op_success when_op_def split: if_splits)

lemma bump_Inr:
  "bump_generation u s = (Inr v, t) \<Longrightarrow> v = u\<lparr>us_generation := or_one (us_generation u) + 1\<rparr> \<and>
     at_work t = save_user v (at_work s) \<and> at_saved t = at_saved s \<and> at_next t = at_next s"
  by (auto dest: bump_run)

lemma foldl_sessions [simp]:
  "challenge_of (foldl (\<lambda>d x. save_session (g x) d) d xs) = challenge_of d"
  "user_of (foldl (\<lambda>d x. save_session (g x) d) d xs) = user_of d"
  by (induction xs arbitrary: d) (simp_all add: saves_are_writes)

lemma events_frame [simp]:
  "challenge_of (d\<lparr>ad_events := e\<rparr>) = challenge_of d" "user_of (d\<lparr>ad_events := e\<rparr>) = user_of d"
  "session_of (d\<lparr>ad_events := e\<rparr>) = session_of d"
  by (simp_all add: fun_eq_iff challenge_of_def user_of_def session_of_def)

subsection \<open>The effect of a login\<close>

lemma log_in_Inr:
  assumes "log_in env now random c u rq ip s = (Inr (Issued v cookie), t)"
  shows "\<exists>token digest x. generate_session_token random (hk_version (av_session env)) = Inr token \<and>
    token_digest (av_crypto env) (hk_current (av_session env)) (st_opaque token) = Inr digest \<and>
    cookie = st_cookie token \<and>
    x = new_session now (at_next s) (u\<lparr>us_generation := or_one (us_generation u) + 1\<rparr>) digest
      (hk_version (av_session env)) rq (client_hint (av_crypto env) (hk_current (av_reference env)) ip) \<and>
    session_of (at_saved t) (at_next s) = Some x \<and>
    user_of (at_saved t) (us_id u) = Some (u\<lparr>us_generation := or_one (us_generation u) + 1\<rparr>) \<and>
    challenge_of (at_saved t) (vc_id c) = Some (consumed_challenge now c) \<and>
    issue_csrf_token (av_crypto env) (hk_current (av_csrf env)) (hk_version (av_csrf env)) (at_next s) = Inr (ss_csrf v) \<and>
    v = session_summary_of (u\<lparr>us_generation := or_one (us_generation u) + 1\<rparr>) (now + session_ttl) (ss_csrf v)
      (default_workspace (us_role u)) \<and> at_work t = at_saved t"
proof -
  let ?v = "u\<lparr>us_generation := or_one (us_generation u) + 1\<rparr>"
  from assms obtain n s1 s2 w where
    revoke: "revoke_unrevoked_sessions now (us_id u) ''superseded''
      (s\<lparr>at_work := save_challenge (consumed_challenge now c) (at_work s)\<rparr>) = (Inr n, s1)"
    and bump: "bump_generation u s1 = (Inr w, s2)"
    by (auto simp: log_in_def Let_def op_success tx_Inr)
  have s1: "challenge_of (at_work s1) = challenge_of (save_challenge (consumed_challenge now c) (at_work s))"
    "at_next s1 = at_next s" using revoke_unrevoked_Inr[OF revoke] by simp_all
  have w: "w = ?v" and s2: "at_work s2 = save_user ?v (at_work s1)" "at_next s2 = at_next s"
    using bump_Inr[OF bump] s1(2) by simp_all
  from assms revoke bump w show ?thesis
    by (auto simp: log_in_def Let_def op_success tx_Inr append_event_Inr try_session_Inr csrf_of_def when_op_def
        s1 s2 saves_are_writes table_get new_session_def session_summary_of_def split: if_splits)
qed

lemma reject_code_Inr:
  "reject_code now c right rq s = (Inr r, t) \<Longrightarrow> r = Issue_failed (attempts_left (failed_attempt now c)) \<and>
     challenge_of (at_saved t) (vc_id c) = Some (failed_attempt now c)"
  by (auto simp: reject_code_def Let_def op_success tx_Inr append_event_Inr saves_are_writes table_get)

lemma issue_profile_Inr:
  "issue_profile env now random c rq s = (Inr r, t) \<Longrightarrow> (\<exists>a b. r = Issue_profile a b) \<and>
     challenge_of (at_saved t) (vc_id c) = Some (consumed_challenge now c)"
  by (auto simp: issue_profile_def Let_def op_success tx_Inr append_event_Inr saves_are_writes table_get
      insert_profile_intent_def save_intent_def challenge_of_def)

lemma log_in_result:
  "log_in env now random c u rq ip s = (Inr r, t) \<Longrightarrow> r = Issue_unavailable \<or> (\<exists>v cookie. r = Issued v cookie)"
  by (auto simp: log_in_def Let_def op_success tx_Inr split: if_splits)

text \<open>Which challenge and which user a login is for.\<close>

definition code_passes :: "auth_env \<Rightarrow> instant \<Rightarrow> string \<Rightarrow> challenge \<Rightarrow> bool" where
  "code_passes env now code c \<longleftrightarrow>
     now < vc_expires_at c \<and> vc_state c = Vc_delivered \<and> check_code env c code = Some True"

lemma verify_issued:
  assumes "verify_challenge env now random user c code rq ip s = (Inr (Issued v cookie), t)"
  shows "code_passes env now code c \<and> is_auth_eligible user \<and>
    log_in env now random c (the user) rq ip s = (Inr (Issued v cookie), t)"
  using assms
  by (auto simp: verify_challenge_def Let_def op_success tx_Inr code_passes_def
      dest: reject_code_Inr issue_profile_Inr split: if_splits option.splits)

lemma user_of_challenge:
  "(case v of None \<Rightarrow> ret None | Some uid \<Rightarrow> user_by_id uid) s = (Inr x, t) \<longleftrightarrow>
     t = s \<and> x = (case v of None \<Rightarrow> None | Some uid \<Rightarrow> user_of (at_work s) uid)"
  by (auto simp: user_by_id_def tx_Inr op_success user_of_def split: option.splits)

lemma create_session_Inr:
  assumes "create_session env now random cid code rq ip s = (Inr r, t)"
    and "r \<noteq> Issue_validation" "r \<noteq> Issue_unavailable" "r \<noteq> Issue_challenge_unavailable"
  obtains c user where "challenge_of (at_work s) cid = Some c"
    and "user = (case vc_user c of None \<Rightarrow> None | Some uid \<Rightarrow> user_of (at_work s) uid)"
    and "verify_challenge env now random user c code rq ip s = (Inr r, t)"
proof -
  from assms obtain p where p: "challenge_of (at_work s) cid = Some p"
    by (auto simp: create_session_def get_challenge_def tx_Inr op_success challenge_of_def split: if_splits option.splits)
  with assms have "verify_challenge env now random (case vc_user p of None \<Rightarrow> None | Some uid \<Rightarrow> user_of (at_work s) uid)
      p code rq ip s = (Inr r, t)"
    by (auto simp: create_session_def get_challenge_def tx_Inr op_success challenge_of_def user_of_challenge
        split: if_splits)
  with p that show thesis by blast
qed

lemma create_session_issued:
  assumes "create_session env now random cid code rq ip s = (Inr (Issued v cookie), t)"
  obtains c uid u where "challenge_of (at_work s) cid = Some c" "code_passes env now code c"
    "vc_user c = Some uid" "user_of (at_work s) uid = Some u" "is_auth_eligible (Some u)"
    "log_in env now random c u rq ip s = (Inr (Issued v cookie), t)"
proof -
  from create_session_Inr[OF assms] obtain c user where c: "challenge_of (at_work s) cid = Some c"
    and user: "user = (case vc_user c of None \<Rightarrow> None | Some uid \<Rightarrow> user_of (at_work s) uid)"
    and run: "verify_challenge env now random user c code rq ip s = (Inr (Issued v cookie), t)" by auto
  note login = verify_issued[OF run]
  then obtain uid u where "vc_user c = Some uid" "user = Some u" "user_of (at_work s) uid = Some u"
    using user by (auto simp: is_auth_eligible_def split: option.splits)
  with c login that show thesis by auto
qed

subsection \<open>The cookie of a login\<close>

lemma digit_char:
  assumes "d < 10"
  shows "decimal (char_of (48 + d))" "of_char (char_of (48 + d) :: char) = (48 + d :: nat)"
    "char_of (48 + d) \<noteq> CHR ''.''"
proof -
  show *: "of_char (char_of (48 + d) :: char) = (48 + d :: nat)" using assms by simp
  show "decimal (char_of (48 + d))" using assms unfolding decimal_def Let_def * by simp
  show "char_of (48 + d) \<noteq> CHR ''.''"
  proof
    assume "char_of (48 + d) = CHR ''.''"
    then have "(48 + d :: nat) = of_char (CHR ''.'')" using * by simp
    then show False by simp
  qed
qed

lemma digits_value_snoc: "digits_value (s @ [c]) = 10 * digits_value s + (of_char c - 48)"
  by (simp add: digits_value_def)

lemma nat_str_digits:
  "nat_str n \<noteq> [] \<and> list_all decimal (nat_str n) \<and> CHR ''.'' \<notin> set (nat_str n) \<and> digits_value (nat_str n) = n"
proof (induction n rule: nat_str.induct)
  case (1 n)
  show ?case
  proof (cases "n < 10")
    case True
    then show ?thesis using digit_char[of n] by (subst nat_str.simps) (auto simp: digits_value_def nat_str.simps[of n])
  next
    case False
    note ih = 1[OF False]
    have "nat_str n = nat_str (n div 10) @ [char_of (48 + n mod 10)]" using False by (subst nat_str.simps) simp
    moreover have "n mod 10 < 10" by simp
    note d = digit_char[OF this]
    ultimately show ?thesis using ih by (simp add: digits_value_snoc d(1,2) d(3)[symmetric])
  qed
qed

lemma split_at_dot: "CHR ''.'' \<notin> set a \<Longrightarrow> split_dot (a @ CHR ''.'' # b) = Some (a, b)"
  by (induction a) auto

lemma decimal_isdigit: "s \<noteq> [] \<Longrightarrow> list_all decimal s \<Longrightarrow> py_isdigit s"
  by (auto simp: py_isdigit_def list_all_iff)

lemma parse_cookie:
  assumes "1 \<le> version" "opaque \<noteq> []" "\<not> list_ex py_isspace opaque"
  shows "parse_session_cookie (Some (int_str version @ ''.'' @ opaque)) = Inr (Some (version, opaque))"
proof -
  have v: "int_str version = nat_str (nat version)" using assms(1) by (simp add: int_str_def)
  note d = nat_str_digits[of "nat version"]
  then have "py_isdigit (nat_str (nat version))" "py_int (nat_str (nat version)) = Inr version"
    using assms(1) by (auto simp: decimal_isdigit py_int_def)
  with assms d show ?thesis by (simp add: v parse_session_cookie_def split_at_dot)
qed

lemma b64_chars:
  assumes "0 \<le> n" "n < 64"
  shows "\<not> py_isspace (b64_char n)"
proof -
  have code: "int (of_char (char_of m :: char)) = m mod 256" for m :: int
    using of_nat_of_char[of "char_of m :: char", where 'a = int] by simp
  have space: "py_isspace c \<Longrightarrow> int (of_char c) < 33 \<or> 132 < int (of_char c)" for c
    by (auto simp: py_isspace_def Let_def)
  show ?thesis using assms by (auto simp: b64_char_def code dest!: space split: if_splits)
qed

lemma byte_bound: "uint (b :: 8 word) < 256"
  using uint_bounded[of b] by simp

lemma b64url_no_space: "\<not> list_ex py_isspace (b64url bs)"
proof (induction bs rule: b64url.induct)
  case (1 a b c rest)
  have "0 \<le> uint a" "0 \<le> uint b" "0 \<le> uint c" by simp_all
  then have "0 \<le> (65536 * uint a + 256 * uint b + uint c) div 262144" by linarith
  moreover have "(65536 * uint a + 256 * uint b + uint c) div 262144 < 64"
    using byte_bound[of a] byte_bound[of b] byte_bound[of c] by linarith
  ultimately show ?case using 1 by (simp add: Let_def b64_chars)
next
  case (2 a b)
  have "0 \<le> uint a" "0 \<le> uint b" by simp_all
  then have "0 \<le> (65536 * uint a + 256 * uint b) div 262144" by linarith
  moreover have "(65536 * uint a + 256 * uint b) div 262144 < 64" using byte_bound[of a] byte_bound[of b] by linarith
  ultimately show ?case by (simp add: Let_def b64_chars)
next
  case (3 a)
  have "0 \<le> uint a" by simp
  then have "0 \<le> (65536 * uint a) div 262144" by linarith
  moreover have "(65536 * uint a) div 262144 < 64" using byte_bound[of a] by linarith
  ultimately have "\<not> py_isspace (b64_char ((65536 * uint a) div 262144))" by (rule b64_chars)
  then show ?case by (simp add: Let_def b64_chars del: div_mult_mult1_if)
qed simp

lemma issued_cookie_key:
  assumes "generate_session_token random (hk_version m) = Inr token" "m = av_session env" "current_usable m"
    and "token_digest (av_crypto env) (hk_current m) (st_opaque token) = Inr digest"
  shows "cookie_key env (Some (st_cookie token)) = Some (hk_version m, digest)"
proof -
  have version: "1 \<le> hk_version m" and token: "st_opaque token = b64url random"
    "st_cookie token = int_str (hk_version m) @ ''.'' @ b64url random"
    using assms(1) by (auto simp: generate_session_token_def split: if_splits)
  have "b64url random \<noteq> []"
    using assms(4) token(1) by (auto simp: token_digest_def token_digest_bytes_def utf8_encode_def split: if_splits)
  with version token b64url_no_space parse_cookie have
    "parse_session_cookie (Some (st_cookie token)) = Inr (Some (hk_version m, st_opaque token))" by simp
  with assms(2-4) show ?thesis
    by (simp add: cookie_key_def resolve_key_def current_usable_def)
qed

subsection \<open>Logins\<close>

text \<open>The effect of a login on the committed tables; \<open>x\<close> is the session it issues.\<close>

definition logged_in :: "auth_env \<Rightarrow> instant \<Rightarrow> auth_state \<Rightarrow> uuid \<Rightarrow> user \<Rightarrow> auth_session \<Rightarrow> auth_state \<Rightarrow> bool" where
  "logged_in env now s cid u x t \<longleftrightarrow>
     map_option vc_state (challenge_of (at_saved t) cid) = Some Vc_consumed \<and>
     user_of (at_saved t) (us_id u) = Some (u\<lparr>us_generation := us_generation u + 1\<rparr>) \<and>
     rows (\<lambda>y. se_user y = us_id u \<and> se_revoked_at y = None) (ad_sessions (at_saved t)) = [x] \<and>
     session_of (at_saved s) (se_id x) = None \<and> se_generation x = us_generation u + 1 \<and>
     se_issued_at x = now \<and> se_expires_at x = now + session_ttl \<and> se_workspace x = default_workspace (us_role u)"

lemma distinct_filter_sole:
  assumes "distinct (map f xs)" "x \<in> set xs"
  shows "filter (\<lambda>y. f y = f x) xs = [x]"
  using assms
proof (induction xs)
  case (Cons y xs)
  show ?case
  proof (cases "y = x")
    case True
    with Cons.prems have "f x \<notin> f ` set xs" by simp
    then have "filter (\<lambda>y. f y = f x) xs = []" by (metis (mono_tags, lifting) filter_False image_eqI)
    with True show ?thesis by simp
  qed (use Cons in force)
qed simp

lemma only_unrevoked:
  assumes "constraints_ok d" "session_of d i = Some x" "se_user x = uid" "se_revoked_at x = None"
  shows "rows (\<lambda>y. se_user y = uid \<and> se_revoked_at y = None) (ad_sessions d) = [x]"
proof -
  let ?open = "filter (\<lambda>y. se_revoked_at y = None) (dict_values (ad_sessions d))"
  have "distinct (map se_user ?open)" using assms(1) by (simp add: constraints_ok_def unique_on_def)
  moreover have "x \<in> set ?open" using assms(2,4) by (auto simp: session_of_def dest: dict_get_values)
  ultimately have "filter (\<lambda>y. se_user y = se_user x) ?open = [x]" by (rule distinct_filter_sole)
  then show ?thesis using assms(3) by (simp add: rows_def conj_commute)
qed

lemma only_named:
  assumes "unique_on (\<lambda>_. True) (\<lambda>s. (se_key_version s, se_token_digest s)) (ad_sessions d)" "session_of d i = Some x"
  shows "named_sessions (se_key_version x, se_token_digest x) d = [x]"
proof -
  have "x \<in> set (dict_values (ad_sessions d))" using assms(2) by (auto simp: session_of_def dest: dict_get_values)
  from distinct_filter_sole[OF _ this, of "\<lambda>s. (se_key_version s, se_token_digest s)"] assms(1)
  show ?thesis by (simp add: named_sessions_def rows_def unique_on_def)
qed

lemma login_details:
  assumes inv: "auth_inv s" and run: "serve (create_session env now random cid code rq ip) s = (Inr (Issued v cookie), t)"
  obtains c u x where "challenge_of (at_saved s) cid = Some c" "code_passes env now code c"
    "vc_user c = Some (us_id u)" "user_of (at_saved s) (us_id u) = Some u" "is_auth_eligible (Some u)"
    "logged_in env now s cid u x t" "session_of (at_saved t) (se_id x) = Some x"
    "cookie_key env (Some cookie) = Some (se_key_version x, se_token_digest x)"
    "issue_csrf_token (av_crypto env) (hk_current (av_csrf env)) (hk_version (av_csrf env)) (se_id x) = Inr (ss_csrf v)"
    "v = session_summary_of u (se_expires_at x) (ss_csrf v) (default_workspace (us_role u))"
    "at_work t = at_saved t"
proof -
  let ?s = "s\<lparr>at_work := at_saved s\<rparr>"
  have inv': "auth_inv ?s" using inv by (simp add: auth_inv_def)
  from serve_run[OF run] obtain w where w: "create_session env now random cid code rq ip ?s = (Inr (Issued v cookie), w)"
    and t: "t = w\<lparr>at_work := at_saved w\<rparr>" by blast
  from w have usable: "current_usable (av_session env)"
    by (auto simp: create_session_def op_success tx_Inr split: if_splits)
  from create_session_issued[OF w] obtain c uid u where c: "challenge_of (at_work ?s) cid = Some c" "code_passes env now code c"
    and u: "vc_user c = Some uid" "user_of (at_work ?s) uid = Some u" "is_auth_eligible (Some u)"
    and login: "log_in env now random c u rq ip ?s = (Inr (Issued v cookie), w)" by blast
  have ids: "vc_id c = cid" "us_id u = uid" using row_key(1,3)[OF inv'] c(1) u(2) by auto
  have gen: "1 \<le> us_generation u"
    using inv' u(2) by (auto simp: auth_inv_def db_inv_def dest: all_storedD)
  from log_in_Inr[OF login] gen obtain token digest x where token:
      "generate_session_token random (hk_version (av_session env)) = Inr token"
      "token_digest (av_crypto env) (hk_current (av_session env)) (st_opaque token) = Inr digest"
      "cookie = st_cookie token"
    and x: "x = new_session now (at_next s) (u\<lparr>us_generation := us_generation u + 1\<rparr>) digest
      (hk_version (av_session env)) rq (client_hint (av_crypto env) (hk_current (av_reference env)) ip)"
    and saved: "session_of (at_saved w) (at_next s) = Some x"
      "user_of (at_saved w) (us_id u) = Some (u\<lparr>us_generation := us_generation u + 1\<rparr>)"
      "challenge_of (at_saved w) (vc_id c) = Some (consumed_challenge now c)"
      "issue_csrf_token (av_crypto env) (hk_current (av_csrf env)) (hk_version (av_csrf env)) (at_next s) = Inr (ss_csrf v)"
      "v = session_summary_of (u\<lparr>us_generation := us_generation u + 1\<rparr>) (now + session_ttl) (ss_csrf v)
        (default_workspace (us_role u))"
    by (auto simp: or_one_def)
  from evolvesD[OF create_session_evolves w] inv' have "constraints_ok (at_saved w)"
    by (simp add: auth_evolves_def auth_inv_def)
  then have "rows (\<lambda>y. se_user y = us_id u \<and> se_revoked_at y = None) (ad_sessions (at_saved w)) = [x]"
    by (rule only_unrevoked[OF _ saved(1)]) (simp_all add: x new_session_def)
  then have "logged_in env now s cid u x t"
    using saved ids fresh_absent(3)[OF inv']
    by (simp add: logged_in_def t x new_session_def consumed_challenge_def)
  moreover have "cookie_key env (Some cookie) = Some (se_key_version x, se_token_digest x)"
    using issued_cookie_key[OF token(1) refl usable token(2)] token(3) by (simp add: x new_session_def)
  moreover have "v = session_summary_of u (se_expires_at x) (ss_csrf v) (default_workspace (us_role u))"
    using saved(5) by (simp add: session_summary_of_def x new_session_def)
  ultimately show thesis
    using that[of c u x] c u ids saved by (simp add: t x new_session_def)
qed

text \<open>C16 (functional). A login succeeds only with the right code for a delivered, unexpired challenge of an
  eligible user. It consumes the challenge, raises the session generation of the user by one, and leaves
  the user with exactly one unrevoked session: the new one, which lives for the session lifetime.\<close>

theorem login_replaces_sessions:
  assumes "auth_reach s" "serve (create_session env now random cid code rq ip) s = (Inr (Issued v cookie), t)"
  shows "\<exists>c u x. challenge_of (at_saved s) cid = Some c \<and> code_passes env now code c \<and> vc_user c = Some (us_id u) \<and>
    user_of (at_saved s) (us_id u) = Some u \<and> is_auth_eligible (Some u) \<and> logged_in env now s cid u x t"
  using login_details[OF auth_reach_inv[OF assms(1)] assms(2)] by blast

lemma bootstrap_forward:
  assumes "cookie_key env cookie = Some k" "accepts env now k (at_work s) x u"
    and "current_usable (av_session env)" "current_usable (av_csrf env)"
    and "issue_csrf_token (av_crypto env) (hk_current (av_csrf env)) (hk_version (av_csrf env)) (se_id x) = Inr csrf"
  shows "bootstrap_session env now cookie s =
    (Inr (Boot_ok (session_summary_of u (se_expires_at x) csrf (or_workspace x u))), s)"
proof -
  obtain version opaque key digest where parse: "parse_session_cookie cookie = Inr (Some (version, opaque))"
    and key: "resolve_key (av_session env) version = Some key"
    and digest: "token_digest (av_crypto env) key opaque = Inr digest" and k: "k = (version, digest)"
    using assms(1) by (auto simp: cookie_key_def split: sum.splits option.splits prod.splits)
  have row: "session_with_user version digest s = (Inr (Some (x, u)), s)"
    using assms(2) by (simp add: session_with_user_run k accepts_def)
  show ?thesis
    using assms(2-5)
    by (simp add: bootstrap_session_def on_db_error_def catch_op_def bootstrap_inner_def bindE_def lift_def of_sum_def
        parse key digest row accepts_def csrf_of_def ret_def)
qed

lemma cookie_opens:
  assumes "auth_reach s" "serve (create_session env now random cid code rq ip) s = (Inr (Issued v cookie), t)"
    and "later < now + session_ttl"
  shows "serve (bootstrap_session env later (Some cookie)) t = (Inr (Boot_ok v), t)"
proof -
  note inv = auth_reach_inv[OF assms(1)]
  from login_details[OF inv assms(2)] obtain c u x where eligible: "is_auth_eligible (Some u)"
    and login: "logged_in env now s cid u x t" and row: "session_of (at_saved t) (se_id x) = Some x"
    and key: "cookie_key env (Some cookie) = Some (se_key_version x, se_token_digest x)"
    and csrf: "issue_csrf_token (av_crypto env) (hk_current (av_csrf env)) (hk_version (av_csrf env)) (se_id x) = Inr (ss_csrf v)"
    and v: "v = session_summary_of u (se_expires_at x) (ss_csrf v) (default_workspace (us_role u))"
    and work: "at_work t = at_saved t" .
  let ?u = "u\<lparr>us_generation := us_generation u + 1\<rparr>"
  from login have user: "user_of (at_saved t) (us_id u) = Some ?u" and gen: "se_generation x = us_generation ?u"
    and expires: "se_expires_at x = now + session_ttl" and space: "se_workspace x = default_workspace (us_role u)"
    and "x \<in> set (rows (\<lambda>y. se_user y = us_id u \<and> se_revoked_at y = None) (ad_sessions (at_saved t)))"
    by (simp_all add: logged_in_def)
  then have mine: "se_user x = us_id u" "se_revoked_at x = None" by (simp_all add: rows_def)
  from serve_run[OF assms(2)] obtain w where w: "create_session env now random cid code rq ip (s\<lparr>at_work := at_saved s\<rparr>)
      = (Inr (Issued v cookie), w)" and t: "t = w\<lparr>at_work := at_saved w\<rparr>" by blast
  have "auth_inv t" using evolvesD[OF serve_evolves[OF create_session_evolves] assms(2)] inv by (simp add: auth_evolves_def)
  then have "unique_on (\<lambda>_. True) (\<lambda>s. (se_key_version s, se_token_digest s)) (ad_sessions (at_saved t))"
    by (simp add: auth_inv_def constraints_ok_def)
  then have "named_sessions (se_key_version x, se_token_digest x) (at_saved t) = [x]"
    using row by (intro only_named)
  moreover have "session_reject later x ?u = None"
    using mine expires assms(3) eligible gen by (simp add: session_reject_def is_auth_eligible_def)
  ultimately have accepted: "accepts env later (se_key_version x, se_token_digest x) (at_work t) x ?u"
    using user mine work by (simp add: accepts_def)
  have usable: "current_usable (av_session env)" "current_usable (av_csrf env)"
    using w by (auto simp: create_session_def op_success tx_Inr split: if_splits)
  have "or_workspace x ?u = default_workspace (us_role u)" using space by (simp add: or_workspace_def)
  moreover have "session_summary_of ?u e k ws = session_summary_of u e k ws" for e k ws
    by (simp add: session_summary_of_def)
  ultimately have "session_summary_of ?u (se_expires_at x) (ss_csrf v) (or_workspace x ?u) = v"
    using v[symmetric] by simp
  moreover have "t\<lparr>at_work := at_saved t\<rparr> = t" using work by (cases t) simp
  ultimately show ?thesis using bootstrap_forward[OF key accepted usable csrf] by (simp add: serve_def)
qed

text \<open>C26 (roundtrip). The cookie a login returns opens the session: until it expires, a check of that cookie
  returns the very summary the login returned, with its CSRF token, and changes nothing.\<close>

theorem login_cookie_opens:
  assumes "auth_reach s" "serve (create_session env now random cid code rq ip) s = (Inr (Issued v cookie), t)"
    and "later < now + session_ttl"
  shows "serve (bootstrap_session env later (Some cookie)) t = (Inr (Boot_ok v), t)"
  by (rule cookie_opens[OF assms])

end
