(* ===== verification/Auth_Guesses.thy ===== *)
theory Auth_Guesses
  imports Auth_Logins
begin

section \<open>Guessing codes\<close>

text \<open>What the answer to a call says of a challenge: a wrong code, or a code that opened it.\<close>

definition asks :: "uuid \<Rightarrow> auth_call \<Rightarrow> bool" where
  "asks cid call \<longleftrightarrow> (case call of Verify_code random i code rq ip \<Rightarrow> i = cid | _ \<Rightarrow> False)"

definition refused_code :: "auth_error + auth_answer \<Rightarrow> bool" where
  "refused_code r \<longleftrightarrow> (case r of Inr (A_issue (Issue_failed left)) \<Rightarrow> True | _ \<Rightarrow> False)"

definition opened_by_code :: "auth_error + auth_answer \<Rightarrow> bool" where
  "opened_by_code r \<longleftrightarrow> (case r of Inr (A_issue (Issued v cookie)) \<Rightarrow> True
     | Inr (A_issue (Issue_profile phone cookie)) \<Rightarrow> True | _ \<Rightarrow> False)"

definition count_answers ::
  "uuid \<Rightarrow> (auth_error + auth_answer \<Rightarrow> bool) \<Rightarrow> timed_auth list \<Rightarrow> (auth_error + auth_answer) list \<Rightarrow> nat" where
  "count_answers cid p calls answers =
     length (filter (\<lambda>((env, sms, now, call), r). asks cid call \<and> p r) (zip calls answers))"

definition attempts_of :: "auth_db \<Rightarrow> uuid \<Rightarrow> int" where
  "attempts_of d cid = (case challenge_of d cid of None \<Rightarrow> 0 | Some c \<Rightarrow> vc_attempts c)"

definition spent :: "auth_db \<Rightarrow> uuid \<Rightarrow> bool" where
  "spent d cid \<longleftrightarrow> (case challenge_of d cid of None \<Rightarrow> False | Some c \<Rightarrow> challenge_stage (vc_state c) = 3)"

lemma attempts_within:
  assumes "auth_inv s"
  shows "0 \<le> attempts_of (at_saved s) cid \<and> attempts_of (at_saved s) cid \<le> 5"
proof (cases "challenge_of (at_saved s) cid")
  case (Some c)
  then have "c \<in> set (dict_values (ad_challenges (at_saved s)))" by (auto simp: challenge_of_def dest: dict_get_values)
  with assms have "challenge_row_ok c" by (auto simp: auth_inv_def constraints_ok_def list_all_iff)
  with Some show ?thesis by (simp add: attempts_of_def challenge_row_ok_def)
qed (simp add: attempts_of_def)

lemma growth_counts:
  assumes "db_grows d e"
  shows "challenge_of d cid \<noteq> None \<Longrightarrow> attempts_of d cid \<le> attempts_of e cid" "spent d cid \<Longrightarrow> spent e cid"
proof -
  have kept: "\<exists>b. challenge_of e cid = Some b \<and> challenge_becomes a b" if "challenge_of d cid = Some a" for a
    using assms that by (auto simp: db_grows_def dest: entries_growD)
  show "challenge_of d cid \<noteq> None \<Longrightarrow> attempts_of d cid \<le> attempts_of e cid"
    using kept by (auto simp: attempts_of_def challenge_becomes_def)
  show "spent d cid \<Longrightarrow> spent e cid"
  proof -
    assume "spent d cid"
    then obtain a where a: "challenge_of d cid = Some a" "challenge_stage (vc_state a) = 3"
      by (auto simp: spent_def split: option.splits)
    from kept[OF a(1)] obtain b where "challenge_of e cid = Some b" "challenge_moves (vc_state a) (vc_state b)"
      by (auto simp: challenge_becomes_def)
    with a(2) challenge_stage_le[of "vc_state b"] show "spent e cid"
      by (auto simp: spent_def challenge_moves_def)
  qed
qed

text \<open>One call.\<close>

lemma verified_once:
  assumes inv: "auth_inv s" and run: "serve (create_session env now random cid code rq ip) s = (Inr r, t)"
  shows "(\<exists>left. r = Issue_failed left) \<Longrightarrow> attempts_of (at_saved t) cid = attempts_of (at_saved s) cid + 1"
    and "(\<exists>v cookie. r = Issued v cookie) \<or> (\<exists>a b. r = Issue_profile a b) \<Longrightarrow> \<not> spent (at_saved s) cid \<and> spent (at_saved t) cid"
proof -
  let ?s = "s\<lparr>at_work := at_saved s\<rparr>"
  have inv': "auth_inv ?s" using inv by (simp add: auth_inv_def)
  from serve_run[OF run] obtain w where w: "create_session env now random cid code rq ip ?s = (Inr r, w)"
    and t: "t = w\<lparr>at_work := at_saved w\<rparr>" by blast
  {
    assume "r \<noteq> Issue_validation" "r \<noteq> Issue_unavailable" "r \<noteq> Issue_challenge_unavailable"
    from create_session_Inr[OF w this] obtain c user where c: "challenge_of (at_work ?s) cid = Some c"
      and v: "verify_challenge env now random user c code rq ip ?s = (Inr r, w)" .
    have "vc_id c = cid" using row_key(1)[OF inv' c] .
    moreover have "challenge_of (at_saved s) cid = Some c" using c by simp
    ultimately have "\<exists>c user. challenge_of (at_saved s) cid = Some c \<and> vc_id c = cid \<and>
      verify_challenge env now random user c code rq ip ?s = (Inr r, w)" using v by blast
  }
  note verified = this
  show "attempts_of (at_saved t) cid = attempts_of (at_saved s) cid + 1" if "\<exists>left. r = Issue_failed left"
  proof -
    from that verified obtain c user where c: "challenge_of (at_saved s) cid = Some c" "vc_id c = cid"
      and v: "verify_challenge env now random user c code rq ip ?s = (Inr r, w)" by blast
    from v that obtain ok where "reject_code now c ok rq ?s = (Inr r, w)"
      by (auto simp: verify_challenge_def Let_def op_success tx_Inr
          dest: issue_profile_Inr log_in_result split: if_splits option.splits)
    from reject_code_Inr[OF this] c t show ?thesis
      by (simp add: attempts_of_def failed_attempt_def Let_def)
  qed
  show "\<not> spent (at_saved s) cid \<and> spent (at_saved t) cid"
    if won: "(\<exists>v cookie. r = Issued v cookie) \<or> (\<exists>a b. r = Issue_profile a b)"
  proof -
    from won verified obtain c user where c: "challenge_of (at_saved s) cid = Some c" "vc_id c = cid"
      and v: "verify_challenge env now random user c code rq ip ?s = (Inr r, w)" by blast
    from v won have "vc_state c = Vc_delivered" and
      "issue_profile env now random c rq ?s = (Inr r, w) \<or> log_in env now random c (the user) rq ip ?s = (Inr r, w)"
      by (auto simp: verify_challenge_def Let_def op_success tx_Inr dest: reject_code_Inr split: if_splits option.splits)
    moreover from this(2) won have "challenge_of (at_saved w) (vc_id c) = Some (consumed_challenge now c)"
      by (auto dest: issue_profile_Inr log_in_Inr log_in_result)
    ultimately show ?thesis using c t by (simp add: spent_def consumed_challenge_def)
  qed
qed

lemma answered_verification:
  assumes "auth_do env sms now call s = (Inr (A_issue r), t)" "asks cid call"
  obtains random code rq ip where "serve (create_session env now random cid code rq ip) s = (Inr r, t)"
  using assms by (cases call) (auto simp: asks_def answer_def op_success)

lemma call_counts:
  assumes inv: "auth_inv s" and run: "auth_do env sms now call s = (r, t)" and asked: "asks cid call"
  shows "refused_code r \<Longrightarrow> attempts_of (at_saved t) cid = attempts_of (at_saved s) cid + 1"
    and "opened_by_code r \<Longrightarrow> \<not> spent (at_saved s) cid \<and> spent (at_saved t) cid"
proof -
  show "attempts_of (at_saved t) cid = attempts_of (at_saved s) cid + 1" if "refused_code r"
  proof -
    from that obtain left where r: "r = Inr (A_issue (Issue_failed left))"
      by (auto simp: refused_code_def split: sum.splits auth_answer.splits issue_result.splits)
    from run asked obtain random code rq ip where "serve (create_session env now random cid code rq ip) s = (Inr (Issue_failed left), t)"
      unfolding r by (rule answered_verification)
    from verified_once(1)[OF inv this] show ?thesis by blast
  qed
  show "\<not> spent (at_saved s) cid \<and> spent (at_saved t) cid" if "opened_by_code r"
  proof -
    from that obtain i where r: "r = Inr (A_issue i)" and i: "(\<exists>v cookie. i = Issued v cookie) \<or> (\<exists>a b. i = Issue_profile a b)"
      by (auto simp: opened_by_code_def split: sum.splits auth_answer.splits issue_result.splits)
    from run asked obtain random code rq ip where "serve (create_session env now random cid code rq ip) s = (Inr i, t)"
      unfolding r by (rule answered_verification)
    from verified_once(2)[OF inv this i] show ?thesis .
  qed
qed

lemma attempts_grow:
  assumes "auth_inv s" "auth_inv t" "db_grows (at_saved s) (at_saved t)"
  shows "attempts_of (at_saved s) cid \<le> attempts_of (at_saved t) cid"
  using growth_counts(1)[OF assms(3), of cid] attempts_within[OF assms(2), of cid]
  by (cases "challenge_of (at_saved s) cid") (auto simp: attempts_of_def)

lemma count_answers_Cons:
  "count_answers cid p ((env, sms, now, call) # calls) (r # rs) =
     (if asks cid call \<and> p r then 1 else 0) + count_answers cid p calls rs"
  by (simp add: count_answers_def)

lemma answers_counted:
  assumes "auth_inv s" "auth_run calls s = (rs, t)"
  shows "auth_inv t \<and> attempts_of (at_saved s) cid + int (count_answers cid refused_code calls rs) \<le> attempts_of (at_saved t) cid \<and>
    count_answers cid opened_by_code calls rs + (if spent (at_saved s) cid then 1 else 0) \<le> (if spent (at_saved t) cid then 1 else 0)"
  using assms
proof (induction calls arbitrary: s rs)
  case (Cons c calls)
  obtain env sms now call where c: "c = (env, sms, now, call)" by (cases c)
  obtain r u where first: "auth_do env sms now call s = (r, u)" by fastforce
  obtain rs' where rest: "auth_run calls u = (rs', t)" and rs: "rs = r # rs'"
    using Cons.prems(2) first by (auto simp: c split: prod.splits)
  from evolvesD[OF auth_do_evolves first] Cons.prems(1) have u: "auth_inv u" and grows: "db_grows (at_saved s) (at_saved u)"
    by (simp_all add: auth_evolves_def)
  from Cons.IH[OF u rest] call_counts[OF Cons.prems(1) first, of cid] growth_counts(2)[OF grows, of cid]
    attempts_grow[OF Cons.prems(1) u grows, of cid]
  show ?case unfolding rs c count_answers_Cons by (auto split: if_splits)
qed (simp add: count_answers_def)

text \<open>C8 (bounds). However often a challenge is tried, with whatever codes and between whatever other calls,
  at most five tries are answered as wrong codes, and at most one try opens it: a challenge gives one
  login or one profile cookie, and no more than five guesses.\<close>

theorem guesses_bounded:
  assumes "auth_reach s" "auth_run calls s = (answers, t)"
  shows "count_answers cid refused_code calls answers \<le> 5 \<and> count_answers cid opened_by_code calls answers \<le> 1"
  using answers_counted[OF auth_reach_inv[OF assms(1)] assms(2), of cid]
    attempts_within[OF auth_reach_inv[OF assms(1)], of cid] attempts_within[of t cid]
  by (auto split: if_splits)

end
