(* ===== verification/Auth_Effects.thy ===== *)
theory Auth_Effects
  imports Auth_Guesses
begin

section \<open>What a session can do\<close>

text \<open>
  What a call with a session does: switching the workspace and logging out everywhere change only what they name,
  and a call that raises commits nothing.
\<close>

subsection \<open>The guard of a session call\<close>

text \<open>The presented token is the one issued for the session, under a key the service still knows.\<close>

definition csrf_valid :: "auth_env \<Rightarrow> uuid \<Rightarrow> string option \<Rightarrow> bool" where
  "csrf_valid env sid presented \<longleftrightarrow> (\<exists>token version key. presented = Some token \<and>
     resolve_key (av_csrf env) version = Some key \<and> issue_csrf_token (av_crypto env) key version sid = Inr token)"

lemma csrf_checked:
  "csrf_for_session (av_crypto env) (av_csrf env) sid presented = Inr (Some True) \<Longrightarrow> csrf_valid env sid presented"
  by (auto simp: csrf_for_session_def csrf_valid_def verify_csrf_token_def map_sum_def
      split: option.splits prod.splits if_splits sum.splits)

text \<open>The session a call acts for: named by the cookie, not revoked, with a valid token.\<close>

definition acts_for :: "auth_env \<Rightarrow> string option \<Rightarrow> string option \<Rightarrow> auth_db \<Rightarrow> auth_session \<Rightarrow> user \<Rightarrow> bool" where
  "acts_for env cookie presented d x u \<longleftrightarrow> (\<exists>k. cookie_key env cookie = Some k \<and> named_sessions k d = [x]) \<and>
     se_revoked_at x = None \<and> csrf_valid env (se_id x) presented \<and> user_of d (se_user x) = Some u"

lemma guarded_Inr:
  assumes "bindE (enter env cookie) (\<lambda>entered. case entered of
       No_keys \<Rightarrow> ret a | No_cookie \<Rightarrow> ret b | Unknown_key \<Rightarrow> ret c | Found None \<Rightarrow> undo d
     | Found (Some x) \<Rightarrow> if se_revoked_at x \<noteq> None then undo e
         else bindE (lift (csrf_for_session (av_crypto env) (av_csrf env) (se_id x) presented)) (\<lambda>csrf_ok.
           case csrf_ok of None \<Rightarrow> undo f
           | Some ok \<Rightarrow> if \<not> ok then undo g
               else bindE (user_by_id (se_user x)) (\<lambda>found. case found of None \<Rightarrow> undo h | Some u \<Rightarrow> act x u))) s = (Inr r, t)"
  shows "r \<in> {a, b, c, d, e, f, g, h} \<and> at_saved t = at_saved s \<or>
    (\<exists>x u. acts_for env cookie presented (at_work s) x u \<and> act x u s = (Inr r, t))"
proof -
  from assms obtain entered where entered: "enter env cookie s = (Inr entered, s)"
    and rest: "(case entered of
       No_keys \<Rightarrow> ret a | No_cookie \<Rightarrow> ret b | Unknown_key \<Rightarrow> ret c | Found None \<Rightarrow> undo d
     | Found (Some x) \<Rightarrow> if se_revoked_at x \<noteq> None then undo e
         else bindE (lift (csrf_for_session (av_crypto env) (av_csrf env) (se_id x) presented)) (\<lambda>csrf_ok.
           case csrf_ok of None \<Rightarrow> undo f
           | Some ok \<Rightarrow> if \<not> ok then undo g
               else bindE (user_by_id (se_user x)) (\<lambda>found. case found of None \<Rightarrow> undo h | Some u \<Rightarrow> act x u))) s = (Inr r, t)"
    using enter_run by (fastforce simp: bindE_Inr)
  show ?thesis
  proof (cases entered)
    case (Found y)
    show ?thesis
    proof (cases y)
      case None
      with rest Found show ?thesis by (auto simp: tx_Inr)
    next
      case (Some x)
      from enter_run[OF entered] Found Some have named: "\<exists>k. cookie_key env cookie = Some k \<and> named_sessions k (at_work s) = [x]"
        by auto
      note rest = rest[unfolded Found Some entry.case option.case]
      show ?thesis
      proof (cases "se_revoked_at x = None")
        case False
        with rest show ?thesis by (simp add: tx_Inr)
      next
        case live: True
        show ?thesis
        proof (cases "csrf_for_session (av_crypto env) (av_csrf env) (se_id x) presented")
          case (Inl err)
          with rest live show ?thesis by (simp add: tx_Inr bindE_Inr)
        next
          case (Inr checked)
          show ?thesis
          proof (cases "checked = Some True")
            case False
            with rest live Inr show ?thesis by (cases checked) (simp_all add: tx_Inr bindE_Inr)
          next
            case True
            with Inr have valid: "csrf_valid env (se_id x) presented" by (simp add: csrf_checked)
            show ?thesis
            proof (cases "user_of (at_work s) (se_user x)")
              case None
              with rest live Inr True show ?thesis by (simp add: tx_Inr bindE_Inr user_by_id_def user_of_def)
            next
              case (Some u)
              with rest live Inr True have "act x u s = (Inr r, t)"
                by (simp add: tx_Inr bindE_Inr user_by_id_def user_of_def)
              with named live valid Some show ?thesis by (auto simp: acts_for_def)
            qed
          qed
        qed
      qed
    qed
  qed (use rest in \<open>auto simp: op_success\<close>)
qed

subsection \<open>Switching the workspace\<close>

lemma switch_for_Inr:
  assumes "switch_for env now x u target rq s = (Inr r, t)"
  shows "if workspace_allowed (us_role u) target
    then (\<exists>v. r = Switched v) \<and> session_of (at_saved t) = (session_of (at_work s))(se_id x \<mapsto> x\<lparr>se_workspace := target\<rparr>) \<and>
      user_of (at_saved t) = user_of (at_work s) \<and> challenge_of (at_saved t) = challenge_of (at_work s)
    else r = Switch_forbidden \<and> session_of (at_saved t) = session_of (at_work s) \<and>
      user_of (at_saved t) = user_of (at_work s) \<and> challenge_of (at_saved t) = challenge_of (at_work s)"
  using assms
  by (auto simp: switch_for_def op_success tx_Inr append_event_Inr csrf_of_def saves_are_writes fun_eq_iff table_get)

subsection \<open>A call that raises commits nothing\<close>

definition same_saved :: "auth_state \<Rightarrow> auth_state \<Rightarrow> bool" where
  "same_saved s t \<longleftrightarrow> at_saved t = at_saved s"

interpretation saved_kept: evolution same_saved
  by unfold_locales (auto simp: same_saved_def)

text \<open>The commit is the last thing a call does.\<close>

definition commits_last :: "'a auth_op \<Rightarrow> bool" where
  "commits_last m \<longleftrightarrow> (\<forall>s e t. m s = (Inl e, t) \<longrightarrow> at_saved t = at_saved s)"

lemma tx_saved:
  "evolves same_saved (look f)" "evolves same_saved (lift v)" "evolves same_saved (touch g)" "evolves same_saved flush"
  "evolves same_saved (put g)" "evolves same_saved rollback" "evolves same_saved fresh" "evolves same_saved (sole xs)"
  "evolves same_saved (undo x)"
  unfolding look_def lift_def touch_def flush_def put_def rollback_def fresh_def undo_def sole_def
  by (intro saved_kept.rules saved_kept.modify | simp add: same_saved_def
      | (cases xs rule: remdups_adj.cases; simp; intro saved_kept.rules))+

lemmas saved_rules = saved_kept.rules evolve tx_saved

lemma operations_keep_saved:
  "evolves same_saved (append_event now event out reason rq uid cid sid subject)"
  "evolves same_saved (user_by_id i)" "evolves same_saved (enter env cookie)" "evolves same_saved (csrf_of env i)"
  "evolves same_saved (bump_generation u)" "evolves same_saved (revoke_unrevoked_sessions now i reason2)"
  "evolves same_saved (revoke_session now x reason3)"
  unfolding append_event_def user_by_id_def enter_def session_by_digest_def csrf_of_def bump_generation_def Let_def
    revoke_unrevoked_sessions_def revoke_session_def
  by (intro saved_rules)+

lemma commits_last_rules:
  "evolves same_saved m \<Longrightarrow> commits_last m"
  "commits_last (keep_result x)"
  "evolves same_saved m \<Longrightarrow> (\<And>x. commits_last (f x)) \<Longrightarrow> commits_last (bindE m f)"
  "commits_last m \<Longrightarrow> commits_last n \<Longrightarrow> commits_last (if c then m else n)"
  "commits_last m \<Longrightarrow> (\<And>x. commits_last (g x)) \<Longrightarrow> commits_last (case v of None \<Rightarrow> m | Some x \<Rightarrow> g x)"
proof -
  show "evolves same_saved m \<Longrightarrow> commits_last m"
    unfolding commits_last_def using evolvesD[of same_saved m] by (force simp: same_saved_def)
  show "commits_last (keep_result x)"
    by (auto simp: commits_last_def keep_result_def commit_def flush_def look_def bindE_Inl bindE_Inr run_Inl_iff run_Inr_iff)
  show "evolves same_saved m \<Longrightarrow> (\<And>x. commits_last (f x)) \<Longrightarrow> commits_last (bindE m f)"
    unfolding commits_last_def bindE_Inl using evolvesD[of same_saved m] by (fastforce simp: same_saved_def)
qed (auto split: option.splits)

lemma commits_last_entry:
  "commits_last a \<Longrightarrow> commits_last b \<Longrightarrow> commits_last c \<Longrightarrow> (\<And>x. commits_last (f x)) \<Longrightarrow>
     commits_last (case v of No_keys \<Rightarrow> a | No_cookie \<Rightarrow> b | Unknown_key \<Rightarrow> c | Found x \<Rightarrow> f x)"
  by (cases v) auto

lemmas commits_last_base = commits_last_rules(1)[OF tx_saved(9)] commits_last_rules(1)[OF saved_kept.ret]

lemma inner_commits_last:
  "commits_last (switch_inner env now cookie presented target rq)"
  "commits_last (revoke_all_inner env now cookie presented rq)"
  "commits_last (logout_inner env now cookie presented rq)"
  unfolding switch_inner_def switch_for_def revoke_all_inner_def logout_inner_def logout_valid_def
  by (intro commits_last_rules(2-5) commits_last_entry commits_last_base operations_keep_saved tx_saved)+

text \<open>The answer of a guarded call, and what it committed.\<close>

lemma db_error_cases:
  assumes "serve (on_db_error m x) s = (Inr r, t)" "commits_last m"
  shows "r = x \<and> at_saved t = at_saved s \<or>
    (\<exists>w. m (s\<lparr>at_work := at_saved s\<rparr>) = (Inr r, w) \<and> t = w\<lparr>at_work := at_saved w\<rparr>)"
proof -
  let ?s = "s\<lparr>at_work := at_saved s\<rparr>"
  obtain q w where q: "m ?s = (q, w)" by fastforce
  show ?thesis
  proof (cases q)
    case (Inl e)
    with q assms(2) have "at_saved w = at_saved s" by (auto simp: commits_last_def)
    with assms(1) q Inl show ?thesis by (cases e) (auto simp: serve_def on_db_error_def catch_op_def run)
  next
    case (Inr y)
    with assms(1) q show ?thesis by (auto simp: serve_def on_db_error_def catch_op_def)
  qed
qed

text \<open>A workspace switch succeeds only for a session that the cookie names, that is not revoked,
  with a CSRF token issued for that very session, and only to a workspace that the role of its user allows.
  It sets the workspace of that session and touches no other session, no user and no challenge; every
  other answer leaves all of them as they were.\<close>

theorem switch_guarded:
  assumes "auth_reach s" "serve (switch_workspace env now cookie presented target rq) s = (Inr r, t)"
  shows "(if \<exists>v. r = Switched v
     then \<exists>x u. acts_for env cookie presented (at_saved s) x u \<and> workspace_allowed (us_role u) target \<and>
       session_of (at_saved t) = (session_of (at_saved s))(se_id x \<mapsto> x\<lparr>se_workspace := target\<rparr>)
     else session_of (at_saved t) = session_of (at_saved s)) \<and>
    user_of (at_saved t) = user_of (at_saved s) \<and> challenge_of (at_saved t) = challenge_of (at_saved s)"
proof -
  let ?s = "s\<lparr>at_work := at_saved s\<rparr>"
  from db_error_cases[OF assms(2)[unfolded switch_workspace_def] inner_commits_last(1)]
  consider "r = Switch_unavailable" "at_saved t = at_saved s"
    | w where "switch_inner env now cookie presented target rq ?s = (Inr r, w)" "t = w\<lparr>at_work := at_saved w\<rparr>" by blast
  then show ?thesis
  proof cases
    case 1
    then show ?thesis by simp
  next
    case (2 w)
    from guarded_Inr[OF 2(1)[unfolded switch_inner_def]]
    consider "r \<in> {Switch_unavailable, Switch_unauthenticated, Switch_csrf_invalid}" "at_saved w = at_saved s"
      | x u where "acts_for env cookie presented (at_saved s) x u" "switch_for env now x u target rq ?s = (Inr r, w)" by auto
    then show ?thesis
    proof cases
      case 1
      then show ?thesis by (auto simp: 2(2))
    next
      case (2 x u)
      with switch_for_Inr[OF 2(2)] show ?thesis by (auto simp: \<open>t = _\<close> split: if_splits)
    qed
  qed
qed

subsection \<open>Logging out everywhere\<close>

lemma revoked_all:
  assumes "distinct (map se_id xs)" and "\<And>x. x \<in> set xs \<Longrightarrow> session_of d (se_id x) = Some x"
    and "\<And>j x. session_of d j = Some x \<Longrightarrow> se_id x = j"
  shows "session_of (foldl (\<lambda>d x. save_session (revoked_session (at x) reason x) d) d xs) i =
    (case session_of d i of None \<Rightarrow> None | Some x \<Rightarrow> Some (if x \<in> set xs then revoked_session (at x) reason x else x))"
  using assms
proof (induction xs arbitrary: d)
  case (Cons x xs)
  have id: "se_id (revoked_session (at x) reason x) = se_id x" by (simp add: revoked_session_def)
  let ?d = "save_session (revoked_session (at x) reason x) d"
  have get: "session_of ?d j = (if j = se_id x then Some (revoked_session (at x) reason x) else session_of d j)" for j
    by (simp add: saves_are_writes table_get id)
  have "session_of (foldl (\<lambda>d x. save_session (revoked_session (at x) reason x) d) ?d xs) i =
    (case session_of ?d i of None \<Rightarrow> None | Some x \<Rightarrow> Some (if x \<in> set xs then revoked_session (at x) reason x else x))"
  proof (rule Cons.IH)
    show "session_of ?d (se_id y) = Some y" if "y \<in> set xs" for y
      using that Cons.prems(1,2) get by (auto simp: image_iff)
    show "se_id y = j" if "session_of ?d j = Some y" for j y
      using that Cons.prems(3)[of j y] id by (auto simp: get split: if_splits)
  qed (use Cons.prems in simp)
  moreover have "revoked_session (at x) reason x \<notin> set xs" using Cons.prems(1) id by (force simp: image_iff)
  moreover have "session_of d (se_id x) = Some x" using Cons.prems(2) by simp
  moreover have "x = y" if "session_of d i = Some y" "y \<in> set (x # xs)" "i = se_id x" for y
    using that \<open>session_of d (se_id x) = Some x\<close> by simp
  moreover have "y \<noteq> x" if "session_of d i = Some y" "i \<noteq> se_id x" for y
    using that Cons.prems(3)[of i y] by auto
  ultimately show ?case by (auto simp: get split: option.splits)
qed (simp split: option.split)

lemma sessions_after_revocation:
  assumes inv: "auth_inv s" and s1: "at_work s1 = save_user v (at_work s)"
    and revoke: "revoke_unrevoked_sessions now uid reason s1 = (Inr n, s2)"
  shows "session_of (at_work s2) i = Some y \<Longrightarrow> se_user y = uid \<Longrightarrow> se_revoked_at y \<noteq> None"
    "session_of (at_work s) i = Some y \<Longrightarrow> se_user y \<noteq> uid \<Longrightarrow> session_of (at_work s2) i = Some y"
    "user_of (at_work s2) = (user_of (at_work s))(us_id v \<mapsto> v)"
proof -
  let ?mine = "rows (\<lambda>y. se_user y = uid \<and> se_revoked_at y = None) (ad_sessions (at_work s))"
  have tables: "session_of (save_user v (at_work s)) = session_of (at_work s)"
    "ad_sessions (save_user v (at_work s)) = ad_sessions (at_work s)"
    by (simp_all add: saves_are_writes)
  have key: "\<And>j y. session_of (at_work s) j = Some y \<Longrightarrow> se_id y = j" using row_key(2)[OF inv] by simp
  have after: "session_of (at_work s2) i = (case session_of (at_work s) i of None \<Rightarrow> None
    | Some y \<Rightarrow> Some (if y \<in> set ?mine then revoked_session (revoke_at now y) reason y else y))" for i
    unfolding conjunct1[OF revoke_unrevoked_Inr[OF revoke]] s1 tables(2)
  proof (subst revoked_all)
    show "distinct (map se_id ?mine)" using distinct_rows(2)[OF inv] by (simp add: rows_def distinct_map_filter)
    show "session_of (save_user v (at_work s)) (se_id y) = Some y" if "y \<in> set ?mine" for y
      using queried_row(2)[OF inv, of y] that by (simp add: tables rows_def)
  qed (simp_all add: tables key)
  show "se_revoked_at y \<noteq> None" if got: "session_of (at_work s2) i = Some y" and mine: "se_user y = uid"
  proof -
    from got obtain z where z: "session_of (at_work s) i = Some z"
      and y: "y = (if z \<in> set ?mine then revoked_session (revoke_at now z) reason z else z)"
      unfolding after by (auto split: option.splits)
    show ?thesis
    proof (cases "z \<in> set ?mine")
      case False
      have "z \<in> set (dict_values (ad_sessions (at_work s)))" using z by (simp add: session_of_def dict_get_values)
      moreover have "y = z" using y False by (simp only: if_False)
      ultimately show ?thesis using False mine by (simp add: rows_def)
    qed (simp add: y revoked_session_def)
  qed
  show "session_of (at_work s) i = Some y \<Longrightarrow> se_user y \<noteq> uid \<Longrightarrow> session_of (at_work s2) i = Some y"
    by (simp add: after rows_def)
  show "user_of (at_work s2) = (user_of (at_work s))(us_id v \<mapsto> v)"
    unfolding conjunct1[OF revoke_unrevoked_Inr[OF revoke]] s1 foldl_sessions(2)
    by (simp add: saves_are_writes fun_eq_iff table_get)
qed

text \<open>Logging out everywhere needs an unrevoked session named by the cookie and its CSRF token.
  It raises the session generation of the user by one and leaves the user without an unrevoked session;
  the sessions of everybody else, and every other user, are as before.\<close>

theorem logout_all_ends_sessions:
  assumes "auth_reach s" "serve (revoke_all_sessions env now cookie presented rq) s = (Inr Logged_out_all, t)"
  shows "\<exists>x u. acts_for env cookie presented (at_saved s) x u \<and>
    user_of (at_saved t) = (user_of (at_saved s))(us_id u \<mapsto> u\<lparr>us_generation := us_generation u + 1\<rparr>) \<and>
    rows (\<lambda>y. se_user y = us_id u \<and> se_revoked_at y = None) (ad_sessions (at_saved t)) = [] \<and>
    (\<forall>i y. session_of (at_saved s) i = Some y \<longrightarrow> se_user y \<noteq> us_id u \<longrightarrow> session_of (at_saved t) i = Some y)"
proof -
  let ?s = "s\<lparr>at_work := at_saved s\<rparr>"
  have inv: "auth_inv ?s" using auth_reach_inv[OF assms(1)] by (simp add: auth_inv_def)
  from db_error_cases[OF assms(2)[unfolded revoke_all_sessions_def] inner_commits_last(2)]
  obtain w where w: "revoke_all_inner env now cookie presented rq ?s = (Inr Logged_out_all, w)"
    and t: "t = w\<lparr>at_work := at_saved w\<rparr>" by auto
  let ?act = "\<lambda>x u. bindE (bump_generation u) (\<lambda>_.
    bindE (revoke_unrevoked_sessions now (us_id u) ''superseded'') (\<lambda>_.
    bindE (append_event now ''session_revoked_all'' ''success'' ''logout_all'' rq
      (Some (us_id u)) None (Some (se_id x)) None) (\<lambda>_. keep_result Logged_out_all)))"
  from guarded_Inr[where act = ?act, OF w[unfolded revoke_all_inner_def]] obtain x u where
    acts: "acts_for env cookie presented (at_saved s) x u" and act: "?act x u ?s = (Inr Logged_out_all, w)"
    by auto
  from acts have "user_of (at_work ?s) (se_user x) = Some u" by (simp add: acts_for_def)
  with row_key(3)[OF inv] have uid: "us_id u = se_user x" and user: "user_of (at_saved s) (us_id u) = Some u" by auto
  have gen: "1 \<le> us_generation u" using inv user by (auto simp: auth_inv_def db_inv_def dest: all_storedD)
  let ?v = "u\<lparr>us_generation := us_generation u + 1\<rparr>"
  from act obtain s1 s2 n where bump: "bump_generation u ?s = (Inr ?v, s1)"
    and revoke: "revoke_unrevoked_sessions now (us_id u) ''superseded'' s1 = (Inr n, s2)"
    and saved: "session_of (at_saved w) = session_of (at_work s2)" "user_of (at_saved w) = user_of (at_work s2)"
    "constraints_ok (at_saved w)"
    using bump_Inr gen by (fastforce simp: op_success tx_Inr append_event_Inr or_one_def)
  have "at_work s1 = save_user ?v (at_work ?s)" using bump_Inr[OF bump] by simp
  note after = sessions_after_revocation[OF inv this revoke]
  have row: "se_revoked_at y \<noteq> None" if "session_of (at_saved w) i = Some y" "se_user y = us_id u" for i y
    using after(1) that unfolding saved(1) by blast
  have ok: "dict_ok (ad_sessions (at_saved w))"
    using evolvesD[OF serve_evolves[OF revoke_all_evolves] assms(2)] auth_reach_inv[OF assms(1)]
    by (simp add: auth_evolves_def auth_inv_def db_inv_def t)
  have "se_revoked_at y \<noteq> None" if "y \<in> set (dict_values (ad_sessions (at_saved w)))" "se_user y = us_id u" for y
    using dict_values_get[OF ok that(1)] row[OF _ that(2)] by (metis session_of_def)
  then have none: "rows (\<lambda>y. se_user y = us_id u \<and> se_revoked_at y = None) (ad_sessions (at_saved w)) = []"
    by (auto simp: rows_def filter_empty_conv)
  have "user_of (at_saved w) = (user_of (at_saved s))(us_id u \<mapsto> ?v)"
    using after(3) unfolding saved(2) by simp
  moreover have "session_of (at_saved w) i = Some y" if "session_of (at_saved s) i = Some y" "se_user y \<noteq> us_id u" for i y
    using after(2)[of i y] that unfolding saved(1) by simp
  ultimately show ?thesis using acts none by (auto simp: t)
qed

end
