(* ===== verification/Auth_Codes.thy ===== *)
theory Auth_Codes
  imports Auth_Effects
begin

section \<open>One-time codes\<close>

text \<open>
  How a one-time code is sampled from the keyed stream: it is the first candidate below the largest multiple of a
  million, and the six digits of that candidate.
\<close>

subsection \<open>Six digits\<close>

lemma nat_str_length: "n < 10 ^ Suc k \<Longrightarrow> length (nat_str n) \<le> Suc k"
proof (induction k arbitrary: n)
  case 0
  then show ?case by (subst nat_str.simps) simp
next
  case (Suc k)
  show ?case
  proof (cases "n < 10")
    case True
    then show ?thesis by (subst nat_str.simps) simp
  next
    case False
    have "n div 10 < 10 ^ Suc k" using Suc.prems by (simp add: div_less_iff_less_mult)
    with Suc.IH False show ?thesis by (subst nat_str.simps) simp
  qed
qed

lemma pad_six_code:
  assumes "n < 1000000"
  shows "length (pad_six n) = 6" "list_all decimal (pad_six n)"
proof -
  show "length (pad_six n) = 6" using nat_str_length[of n 5] assms by (simp add: pad_six_def)
  have "decimal (CHR ''0'')" by (simp add: decimal_def)
  then show "list_all decimal (pad_six n)" using nat_str_digits[of n]
    by (auto simp: pad_six_def list_all_iff set_replicate_conv_if)
qed

lemma decimal_code: "length code = 6 \<Longrightarrow> list_all decimal code \<Longrightarrow> six_digits code"
  unfolding six_digits_def using decimal_isdigit[of code]
  by (cases code) (auto simp: is_ascii_def list_all_iff decimal_def Let_def)

text \<open>The candidates for a code: the first four bytes of the keyed hash of the challenge and a counter.\<close>

definition otp_candidate :: "cryptolib \<Rightarrow> bytes \<Rightarrow> uuid \<Rightarrow> nat \<Rightarrow> int" where
  "otp_candidate c key cid n = be_int (take 4 (hmac256 c key (utf8_encode ''otp-send:v1'' @ uuid_bytes cid @ be_bytes 8 n)))"

lemma sampled_first:
  "sample_otp left c key cid n = Inr code \<longleftrightarrow> (\<exists>i < left. otp_candidate c key cid (n + i) < rejection_limit \<and>
     (\<forall>j < i. rejection_limit \<le> otp_candidate c key cid (n + j)) \<and>
     code = pad_six (nat (otp_candidate c key cid (n + i) mod otp_modulus)))"
proof (induction left arbitrary: n)
  case (Suc left)
  let ?x = "otp_candidate c key cid"
  show ?case
  proof (cases "?x n < rejection_limit")
    case True
    then have "sample_otp (Suc left) c key cid n = Inr code \<longleftrightarrow> code = pad_six (nat (?x n mod otp_modulus))"
      by (auto simp: Let_def otp_candidate_def)
    moreover have "i = 0" if "\<forall>j < i. rejection_limit \<le> ?x (n + j)" for i
      using that[rule_format, of 0] True by (cases i) auto
    ultimately show ?thesis using True by (metis add_0_right not_less_zero zero_less_Suc)
  next
    case False
    then have "sample_otp (Suc left) c key cid n = Inr code \<longleftrightarrow> sample_otp left c key cid (Suc n) = Inr code"
      by (simp add: Let_def otp_candidate_def)
    also have "\<dots> \<longleftrightarrow> (\<exists>i < left. ?x (n + Suc i) < rejection_limit \<and> (\<forall>j < i. rejection_limit \<le> ?x (n + Suc j)) \<and>
        code = pad_six (nat (?x (n + Suc i) mod otp_modulus)))"
      unfolding Suc.IH by simp
    also have "\<dots> \<longleftrightarrow> (\<exists>i < Suc left. ?x (n + i) < rejection_limit \<and> (\<forall>j < i. rejection_limit \<le> ?x (n + j)) \<and>
        code = pad_six (nat (?x (n + i) mod otp_modulus)))"
      using False by (auto simp: Ex_less_Suc2 All_less_Suc2)
    finally show ?thesis .
  qed
qed simp

lemma mod_otp: "nat (x mod otp_modulus) < 1000000"
  by (simp add: otp_modulus_def nat_less_iff)

lemma six_digit_codes: "six_digits (pad_six (nat (x mod otp_modulus)))"
  using pad_six_code[OF mod_otp] by (intro decimal_code)

text \<open>The code of a challenge is the first of the 64 candidates of its keyed stream that is below the rejection
  limit, modulo a million in six digits; every candidate before it is at or above the limit. There is no code exactly if the
  key is empty or all 64 are.\<close>

theorem code_is_first_accepted:
  "(derive_otp c key cid = Inr code \<longleftrightarrow> key \<noteq> [] \<and> (\<exists>i < 64. otp_candidate c key cid i < rejection_limit \<and>
     (\<forall>j < i. rejection_limit \<le> otp_candidate c key cid j) \<and>
     code = pad_six (nat (otp_candidate c key cid i mod otp_modulus)) \<and> six_digits code)) \<and>
   (isl (derive_otp c key cid) \<longleftrightarrow> key = [] \<or> (\<forall>i < 64. rejection_limit \<le> otp_candidate c key cid i))"
proof
  let ?x = "otp_candidate c key cid"
  have code: "derive_otp c key cid = Inr y \<longleftrightarrow> key \<noteq> [] \<and> (\<exists>i < 64. ?x i < rejection_limit \<and>
     (\<forall>j < i. rejection_limit \<le> ?x j) \<and> y = pad_six (nat (?x i mod otp_modulus)) \<and> six_digits y)" for y
    by (auto simp: derive_otp_def sampled_first six_digit_codes)
  then show "derive_otp c key cid = Inr code \<longleftrightarrow> key \<noteq> [] \<and> (\<exists>i < 64. ?x i < rejection_limit \<and>
     (\<forall>j < i. rejection_limit \<le> ?x j) \<and> code = pad_six (nat (?x i mod otp_modulus)) \<and> six_digits code)" .
  have first: "\<exists>i < 64. ?x i < rejection_limit \<and> (\<forall>j < i. rejection_limit \<le> ?x j)" if "i < 64" "?x i < rejection_limit" for i
    using that exists_least_iff[of "\<lambda>i. ?x i < rejection_limit"] by (meson leI le_less_trans)
  have "isl (derive_otp c key cid) \<longleftrightarrow> \<not> (\<exists>y. derive_otp c key cid = Inr y)" by (cases "derive_otp c key cid") auto
  also have "\<dots> \<longleftrightarrow> key = [] \<or> \<not> (\<exists>i < 64. ?x i < rejection_limit \<and> (\<forall>j < i. rejection_limit \<le> ?x j))"
    unfolding code using six_digit_codes by blast
  also have "\<dots> \<longleftrightarrow> key = [] \<or> (\<forall>i < 64. rejection_limit \<le> ?x i)" using first by (meson leD leI)
  finally show "isl (derive_otp c key cid) \<longleftrightarrow> key = [] \<or> (\<forall>i < 64. rejection_limit \<le> ?x i)" .
qed

end
