(* ===== verification/Auth_Seats.thy ===== *)
theory Auth_Seats
  imports Auth_Codes
begin

section \<open>Sessions as seats\<close>

text \<open>
  The contract of the sessions table, without keys, digests and time: every user holds at most one seat, a
  seat that was left is used up, and only its holder is let in. The tables implement it: the seat
  of a user is the identifier of the unrevoked session, the used seats are the revoked ones.
\<close>

record seats =
  holds :: "uuid \<Rightarrow> uuid option"
  used :: "uuid set"

text \<open>A user keeps the seat, leaves it, or takes one that nobody has had.\<close>

definition seat_step :: "seats \<Rightarrow> seats \<Rightarrow> bool" where
  "seat_step a b \<longleftrightarrow> used a \<subseteq> used b \<and>
     (\<forall>u. holds b u \<noteq> holds a u \<longrightarrow>
        (\<forall>i. holds a u = Some i \<longrightarrow> i \<in> used b) \<and>
        (\<forall>j. holds b u = Some j \<longrightarrow> j \<notin> used a \<and> (\<forall>v. holds a v \<noteq> Some j)))"

definition seat_of :: "auth_db \<Rightarrow> uuid \<Rightarrow> uuid option" where
  "seat_of d u = (case rows (\<lambda>x. se_user x = u \<and> se_revoked_at x = None) (ad_sessions d) of
     [] \<Rightarrow> None | x # _ \<Rightarrow> Some (se_id x))"

definition seats_of :: "auth_db \<Rightarrow> seats" where
  "seats_of d = \<lparr>holds = seat_of d,
     used = {i. \<exists>x. session_of d i = Some x \<and> se_revoked_at x \<noteq> None}\<rparr>"

lemma one_unrevoked:
  assumes "auth_inv s" and x: "session_of (at_saved s) i = Some x" "se_revoked_at x = None"
    and y: "session_of (at_saved s) j = Some y" "se_revoked_at y = None" and same: "se_user x = se_user y"
  shows "x = y"
proof -
  let ?r = "filter (\<lambda>s. se_revoked_at s = None) (dict_values (ad_sessions (at_saved s)))"
  have "distinct (map se_user ?r)" using assms(1) by (simp add: auth_inv_def constraints_ok_def unique_on_def)
  moreover have "x \<in> set ?r" "y \<in> set ?r"
    using x y by (auto simp: session_of_def dest: dict_get_values)
  ultimately show ?thesis using same by (auto simp: distinct_map dest: inj_onD)
qed

lemma seat_of_iff:
  assumes "auth_inv s"
  shows "seat_of (at_saved s) u = Some i \<longleftrightarrow>
    (\<exists>x. session_of (at_saved s) i = Some x \<and> se_user x = u \<and> se_revoked_at x = None)"
proof
  let ?r = "rows (\<lambda>x. se_user x = u \<and> se_revoked_at x = None) (ad_sessions (at_saved s))"
  have ok: "dict_ok (ad_sessions (at_saved s))" and stored: "\<And>i x. session_of (at_saved s) i = Some x \<Longrightarrow> se_id x = i"
    using assms by (auto simp: auth_inv_def db_inv_def dest: all_storedD)
  {
    assume "seat_of (at_saved s) u = Some i"
    then obtain x xs where r: "?r = x # xs" and i: "i = se_id x" by (auto simp: seat_of_def split: list.splits)
    then have "x \<in> set ?r" by simp
    then have x: "x \<in> set (dict_values (ad_sessions (at_saved s)))" "se_user x = u" "se_revoked_at x = None"
      by (auto simp: rows_def)
    from dict_values_get[OF ok x(1)] obtain k where k: "session_of (at_saved s) k = Some x" by (auto simp: session_of_def)
    with stored[OF k] i x show "\<exists>x. session_of (at_saved s) i = Some x \<and> se_user x = u \<and> se_revoked_at x = None"
      by auto
  }
  assume "\<exists>x. session_of (at_saved s) i = Some x \<and> se_user x = u \<and> se_revoked_at x = None"
  then obtain x where x: "session_of (at_saved s) i = Some x" "se_user x = u" "se_revoked_at x = None" by blast
  then have "x \<in> set ?r" by (auto simp: session_of_def rows_def dest: dict_get_values)
  then obtain y ys where r: "?r = y # ys" by (cases ?r) auto
  then have "y \<in> set ?r" by simp
  then have y: "y \<in> set (dict_values (ad_sessions (at_saved s)))" "se_user y = u" "se_revoked_at y = None"
    by (auto simp: rows_def)
  from dict_values_get[OF ok y(1)] obtain k where k: "session_of (at_saved s) k = Some y" by (auto simp: session_of_def)
  have "y = x" using one_unrevoked[OF assms k y(3) x(1,3)] x(2) y(2) by simp
  with stored[OF x(1)] r show "seat_of (at_saved s) u = Some i" by (simp add: seat_of_def)
qed

lemma seats_step:
  assumes inv: "auth_inv s" "auth_inv t" and grows: "db_grows (at_saved s) (at_saved t)"
  shows "seat_step (seats_of (at_saved s)) (seats_of (at_saved t))"
  unfolding seat_step_def
proof (intro conjI allI impI)
  have kept: "\<exists>y. session_of (at_saved t) i = Some y \<and> session_becomes x y" if "session_of (at_saved s) i = Some x" for i x
    using grows that by (auto simp: db_grows_def dest: entries_growD)
  show "used (seats_of (at_saved s)) \<subseteq> used (seats_of (at_saved t))"
    using kept by (force simp: seats_of_def session_becomes_def)
  fix u
  assume moved: "holds (seats_of (at_saved t)) u \<noteq> holds (seats_of (at_saved s)) u"
  {
    fix i
    assume "holds (seats_of (at_saved s)) u = Some i"
    then obtain x where x: "session_of (at_saved s) i = Some x" "se_user x = u" "se_revoked_at x = None"
      by (auto simp: seats_of_def seat_of_iff[OF inv(1)])
    from kept[OF x(1)] obtain y where y: "session_of (at_saved t) i = Some y" "se_user y = u"
      using x(2) by (auto simp: session_becomes_def)
    have "se_revoked_at y \<noteq> None"
    proof
      assume "se_revoked_at y = None"
      with y have "seat_of (at_saved t) u = Some i" using seat_of_iff[OF inv(2)] by blast
      with moved \<open>holds (seats_of (at_saved s)) u = Some i\<close> show False by (simp add: seats_of_def)
    qed
    with y(1) show "i \<in> used (seats_of (at_saved t))" by (auto simp: seats_of_def)
  }
  fix j
  assume "holds (seats_of (at_saved t)) u = Some j"
  then obtain y where y: "session_of (at_saved t) j = Some y" "se_user y = u" "se_revoked_at y = None"
    by (auto simp: seats_of_def seat_of_iff[OF inv(2)])
  have new: "session_of (at_saved s) j = None"
  proof (rule ccontr)
    assume "session_of (at_saved s) j \<noteq> None"
    then obtain x where x: "session_of (at_saved s) j = Some x" by blast
    from kept[OF x] y have "se_user x = u" "se_revoked_at x = None" by (auto simp: session_becomes_def)
    with x have "seat_of (at_saved s) u = Some j" using seat_of_iff[OF inv(1)] by blast
    with moved \<open>holds (seats_of (at_saved t)) u = Some j\<close> show False by (simp add: seats_of_def)
  qed
  then show "j \<notin> used (seats_of (at_saved s))" by (simp add: seats_of_def)
  show "holds (seats_of (at_saved s)) v \<noteq> Some j" for v
    using new by (simp add: seats_of_def seat_of_iff[OF inv(1)])
qed

text \<open>C27 (refinement). The sessions table implements the seats: every call is a step of them, whatever its
  outcome, and a cookie is let in only when it names the session that its user holds.\<close>

theorem sessions_refine_seats:
  assumes "auth_reach s" "auth_step s t"
  shows "seat_step (seats_of (at_saved s)) (seats_of (at_saved t)) \<and>
    (case fst (serve (bootstrap_session env now cookie) t) of
       Inr (Boot_ok v) \<Rightarrow> \<exists>i x. holds (seats_of (at_saved t)) (ss_user v) = Some i \<and> session_of (at_saved t) i = Some x \<and>
         cookie_key env cookie = Some (se_key_version x, se_token_digest x)
     | _ \<Rightarrow> True)"
proof -
  have reach: "auth_reach t" using assms auth_reach_steps by (meson r_into_rtranclp)
  have step: "auth_inv s" "auth_inv t" "db_grows (at_saved s) (at_saved t)"
    using auth_reach_inv[OF assms(1)] auth_reach_inv[OF reach] auth_history[OF assms(1) r_into_rtranclp, of t] assms(2)
    by auto
  have "\<exists>i x. holds (seats_of (at_saved t)) (ss_user v) = Some i \<and> session_of (at_saved t) i = Some x \<and>
      cookie_key env cookie = Some (se_key_version x, se_token_digest x)"
    if "fst (serve (bootstrap_session env now cookie) t) = Inr (Boot_ok v)" for v
  proof -
    from that obtain t' where run: "serve (bootstrap_session env now cookie) t = (Inr (Boot_ok v), t')"
      by (metis prod.collapse)
    from bootstrap_ok[OF run] obtain k x u where k: "cookie_key env cookie = Some k"
      and x: "accepts env now k (at_saved t) x u" and v: "ss_user v = us_id u"
      by (metis session_summary_of_def session_summary.select_convs(1))
    from x have named: "x \<in> set (named_sessions k (at_saved t))" and u: "user_of (at_saved t) (se_user x) = Some u"
      and live: "se_revoked_at x = None" by (auto simp: accepts_def session_reject_def split: if_splits)
    from named have mem: "x \<in> set (dict_values (ad_sessions (at_saved t)))" and key: "k = (se_key_version x, se_token_digest x)"
      by (auto simp: named_sessions_def rows_def)
    have "dict_ok (ad_sessions (at_saved t))" using step(2) by (simp add: auth_inv_def db_inv_def)
    from dict_values_get[OF this mem] obtain i where i: "session_of (at_saved t) i = Some x" by (auto simp: session_of_def)
    have "us_id u = se_user x" using step(2) u by (auto simp: auth_inv_def db_inv_def dest: all_storedD)
    with v i live have "seat_of (at_saved t) (ss_user v) = Some i" using seat_of_iff[OF step(2)] by auto
    with i k key show ?thesis by (auto simp: seats_of_def)
  qed
  with seats_step[OF step] show ?thesis by (auto split: sum.split bootstrap_result.split)
qed

end
