(* ===== verification/Auth_Retention.thy ===== *)
theory Auth_Retention
  imports Auth_Seats
begin

section \<open>Retention\<close>

text \<open>
  The four tables of the cleanup: how many rows they hold, the rows that are not due, and what the keys
  of a table say.
\<close>

definition table_rows :: "auth_db \<Rightarrow> nat" where
  "table_rows d = length (ad_events d) + length (ad_sessions d) + length (ad_challenges d) + length (ad_requests d)"

definition rows_keyed :: "auth_db \<Rightarrow> bool" where
  "rows_keyed d \<longleftrightarrow> distinct (map sv_id (ad_events d)) \<and>
     dict_ok (ad_sessions d) \<and> list_all (\<lambda>(i, x). se_id x = i) (ad_sessions d) \<and>
     dict_ok (ad_challenges d) \<and> list_all (\<lambda>(i, x). vc_id x = i) (ad_challenges d) \<and>
     dict_ok (ad_requests d) \<and> list_all (\<lambda>(i, x). iv_id x = i) (ad_requests d)"

definition entries_kept :: "instant \<Rightarrow> ('v \<Rightarrow> instant) \<Rightarrow> (uuid, 'v) dict \<Rightarrow> (uuid, 'v) dict \<Rightarrow> bool" where
  "entries_kept now at d e \<longleftrightarrow> (\<forall>i x. dict_get d i = Some x \<longrightarrow> at x > now \<longrightarrow> dict_get e i = Some x)"

definition events_kept :: "instant \<Rightarrow> security_event list \<Rightarrow> security_event list \<Rightarrow> bool" where
  "events_kept now xs ys \<longleftrightarrow>
     (\<forall>x \<in> set xs. sv_delete_after x > now \<longrightarrow> (\<exists>y \<in> set ys. sv_id y = sv_id x \<and> sv_delete_after y = sv_delete_after x))"

definition undue_kept :: "instant \<Rightarrow> auth_db \<Rightarrow> auth_db \<Rightarrow> bool" where
  "undue_kept now d e \<longleftrightarrow> ad_users e = ad_users d \<and> ad_intents e = ad_intents d \<and>
     ad_registrations e = ad_registrations d \<and> events_kept now (ad_events d) (ad_events e) \<and>
     entries_kept now se_delete_after (ad_sessions d) (ad_sessions e) \<and>
     entries_kept now vc_delete_after (ad_challenges d) (ad_challenges e) \<and>
     entries_kept now iv_delete_after (ad_requests d) (ad_requests e)"

lemma kept_refl [simp]: "entries_kept now at d d" "events_kept now xs xs"
  by (auto simp: entries_kept_def events_kept_def)

lemma entries_kept_trans: "entries_kept now at d e \<Longrightarrow> entries_kept now at e f \<Longrightarrow> entries_kept now at d f"
  by (simp add: entries_kept_def)

lemma events_kept_trans: "events_kept now xs ys \<Longrightarrow> events_kept now ys zs \<Longrightarrow> events_kept now xs zs"
  unfolding events_kept_def by metis

lemma undue_kept_trans: "undue_kept now d e \<Longrightarrow> undue_kept now e f \<Longrightarrow> undue_kept now d f"
  unfolding undue_kept_def using entries_kept_trans events_kept_trans by metis

lemma events_relinked [simp]: "(\<And>x. sv_id (g x) = sv_id x \<and> sv_delete_after (g x) = sv_delete_after x) \<Longrightarrow>
    events_kept now xs (map g xs)"
  by (auto simp: events_kept_def)

subsection \<open>One table\<close>

lemma due_rows: "set (due now at batch xs) \<subseteq> {x \<in> set xs. at x \<le> now}"
  using set_take_subset by (fastforce simp: due_def ordered_by_def)

lemma due_distinct: "distinct (map f xs) \<Longrightarrow> distinct (map f (due now at batch xs))"
proof -
  assume "distinct (map f xs)"
  then have "distinct (map f (filter (\<lambda>x. at x \<le> now) xs))" by (rule distinct_map_filter)
  then have "distinct (map f (sort_key at (filter (\<lambda>x. at x \<le> now) xs)))"
    by (simp add: distinct_map)
  then have "distinct (take batch (map f (sort_key at (filter (\<lambda>x. at x \<le> now) xs))))" by (rule distinct_take)
  then show ?thesis by (simp add: due_def ordered_by_def take_map)
qed

lemma removed_rows:
  assumes "distinct (map f xs)" "set ids \<subseteq> f ` set xs" "distinct ids"
  shows "length (filter (\<lambda>x. f x \<notin> set ids) xs) + length ids = length xs"
proof -
  let ?gone = "map f (filter (\<lambda>x. f x \<in> set ids) xs)"
  have "set ?gone = set ids" using assms(2) by auto
  moreover have "distinct ?gone" using assms(1) by (rule distinct_map_filter)
  ultimately have "length ?gone = length ids" using assms(3) distinct_card by metis
  then show ?thesis using sum_length_filter_compl[of "\<lambda>x. f x \<in> set ids" xs] by simp
qed

lemma without_rows:
  assumes "dict_ok d" "list_all (\<lambda>(i, x). key x = i) d" "ids = map key (due now at batch (dict_values d))"
  shows "length (without ids d) + length ids = length d" "dict_ok (without ids d)"
    "list_all (\<lambda>(i, x). key x = i) (without ids d)"
    "entries_kept now at d (without ids d)"
proof -
  have keys: "map key (dict_values d) = map fst d" using assms(2) by (auto simp: dict_values_def list_all_iff)
  have member: "set ids \<subseteq> fst ` set d"
    unfolding assms(3) set_map[symmetric] keys[symmetric] using due_rows[of now at batch "dict_values d"] by auto
  have "distinct ids" using due_distinct[of key "dict_values d" now at batch] assms(1,3) keys by (simp add: dict_ok_def)
  with removed_rows[of fst d ids] assms(1) member show "length (without ids d) + length ids = length d"
    by (simp add: without_def dict_ok_def)
  show ok: "dict_ok (without ids d)" using assms(1) by (simp add: dict_ok_def without_def distinct_map_filter)
  show "list_all (\<lambda>(i, x). key x = i) (without ids d)" using assms(2) by (auto simp: list_all_iff without_def)
  show "entries_kept now at d (without ids d)"
    unfolding entries_kept_def
  proof (intro allI impI)
    fix i x
    assume that: "dict_get d i = Some x" "now < at x"
    from that have mem: "(i, x) \<in> set d" by (simp add: dict_items_get[OF assms(1)])
    have "i \<notin> set ids"
    proof
      assume "i \<in> set ids"
      then obtain y where y: "key y = i" "y \<in> set (dict_values d)" "at y \<le> now"
        using assms(3) due_rows[of now at batch "dict_values d"] by auto
      then obtain j where "(j, y) \<in> set d" by (auto simp: dict_values_def)
      with y(1) assms(2) have "(i, y) \<in> set d" by (auto simp: list_all_iff)
      with mem assms(1) have "y = x" by (metis dict_items_get option.inject)
      with y(3) that(2) show False by simp
    qed
    with mem have "(i, x) \<in> set (without ids d)" by (simp add: without_def)
    with ok show "dict_get (without ids d) i = Some x" by (simp add: dict_items_get)
  qed
qed

definition shrinks :: "instant \<Rightarrow> nat \<Rightarrow> auth_db \<Rightarrow> auth_db \<Rightarrow> bool" where
  "shrinks now n d e \<longleftrightarrow> table_rows e + n = table_rows d \<and> rows_keyed e \<and> undue_kept now d e"

lemma shrinks_refl: "rows_keyed d \<Longrightarrow> shrinks now 0 d d"
  by (simp add: shrinks_def undue_kept_def)

lemma shrinks_trans: "shrinks now n d e \<Longrightarrow> shrinks now m e f \<Longrightarrow> shrinks now (n + m) d f"
  unfolding shrinks_def using undue_kept_trans by auto

lemma delete_due_shrinks:
  assumes "rows_keyed d"
  shows "shrinks now (fst (delete_due now batch t d)) d (snd (delete_due now batch t d))"
proof (cases t)
  case Cl_events
  let ?ids = "map sv_id (due now sv_delete_after batch (ad_events d))"
  have sub: "set ?ids \<subseteq> sv_id ` set (ad_events d)" using due_rows[of now sv_delete_after batch "ad_events d"] by auto
  have dist: "distinct ?ids" using assms by (intro due_distinct) (simp add: rows_keyed_def)
  have "sv_id x \<notin> set ?ids" if "x \<in> set (ad_events d)" "sv_delete_after x > now" for x
  proof
    assume "sv_id x \<in> set ?ids"
    then obtain y where "sv_id y = sv_id x" "y \<in> set (ad_events d)" "sv_delete_after y \<le> now"
      using due_rows[of now sv_delete_after batch "ad_events d"] by auto
    moreover have "inj_on sv_id (set (ad_events d))" using assms by (simp add: rows_keyed_def distinct_map)
    ultimately have "y = x" using that(1) by (meson inj_onD)
    with \<open>sv_delete_after y \<le> now\<close> that(2) show False by simp
  qed
  then have "events_kept now (ad_events d) (filter (\<lambda>x. sv_id x \<notin> set ?ids) (ad_events d))"
    unfolding events_kept_def by (metis (mono_tags, lifting) filter_set mem_Collect_eq set_filter)
  with removed_rows[OF _ sub dist] assms show ?thesis
    by (simp add: Cl_events delete_due_def shrinks_def Let_def table_rows_def rows_keyed_def undue_kept_def
        distinct_map_filter)
next
  case Cl_sessions
  let ?ids = "map se_id (due now se_delete_after batch (dict_values (ad_sessions d)))"
  note gone = without_rows[where key = se_id and d = "ad_sessions d" and ids = ?ids and now = now and at = se_delete_after
      and batch = batch]
  from assms gone show ?thesis
    by (simp add: Cl_sessions delete_due_def shrinks_def Let_def table_rows_def rows_keyed_def undue_kept_def comp_def)
next
  case Cl_challenges
  let ?ids = "map vc_id (due now vc_delete_after batch (dict_values (ad_challenges d)))"
  note gone = without_rows[where key = vc_id and d = "ad_challenges d" and ids = ?ids and now = now and at = vc_delete_after
      and batch = batch]
  from assms gone show ?thesis
    by (simp add: Cl_challenges delete_due_def shrinks_def Let_def table_rows_def rows_keyed_def undue_kept_def comp_def)
next
  case Cl_requests
  let ?ids = "map iv_id (due now iv_delete_after batch (dict_values (ad_requests d)))"
  note gone = without_rows[where key = iv_id and d = "ad_requests d" and ids = ?ids and now = now and at = iv_delete_after
      and batch = batch]
  from assms gone show ?thesis
    by (simp add: Cl_requests delete_due_def shrinks_def Let_def table_rows_def rows_keyed_def undue_kept_def comp_def)
qed

subsection \<open>The loop\<close>

lemma delete_batch_shrinks:
  assumes "delete_batch now batch table s = (Inr n, t)" "rows_keyed (at_work s)"
  shows "at_saved t = at_saved s \<and> shrinks now n (at_work s) (at_work t)"
  using assms delete_due_shrinks[OF assms(2), of now batch table]
  by (auto simp: delete_batch_def op_success tx_Inr shrinks_refl split: if_splits)

lemma cleanup_round_shrinks:
  assumes "cleanup_round clock budget now batch tables deleted k s = (Inr (n, k'), t)" "rows_keyed (at_work s)"
  shows "at_saved t = at_saved s \<and> deleted \<le> n \<and> shrinks now (n - deleted) (at_work s) (at_work t)"
  using assms
proof (induction tables arbitrary: deleted k s)
  case Nil
  then show ?case by (simp add: op_success shrinks_refl)
next
  case (Cons table tables)
  show ?case
  proof (cases "clock k \<ge> budget")
    case True
    with Cons.prems show ?thesis by (simp add: op_success shrinks_refl)
  next
    case False
    with Cons.prems obtain m u where m: "delete_batch now batch table s = (Inr m, u)"
      and rest: "cleanup_round clock budget now batch tables (deleted + m) (k + 1) u = (Inr (n, k'), t)"
      by (auto simp: op_success)
    from delete_batch_shrinks[OF m Cons.prems(2)] have first: "at_saved u = at_saved s" "shrinks now m (at_work s) (at_work u)"
      by auto
    then have "rows_keyed (at_work u)" by (simp add: shrinks_def)
    from Cons.IH[OF rest this] have second: "at_saved t = at_saved u" "deleted + m \<le> n"
      "shrinks now (n - (deleted + m)) (at_work u) (at_work t)" by auto
    from shrinks_trans[OF first(2) second(3)] second(2) have "shrinks now (n - deleted) (at_work s) (at_work t)" by simp
    with first second show ?thesis by simp
  qed
qed

lemma served_round:
  assumes "serve (bindE (cleanup_round clock budget now batch cleanup_tables 0 k) keep_result) s = (Inr (m, j), u)"
    and "rows_keyed (at_saved s)"
  shows "shrinks now m (at_saved s) (at_saved u)"
proof -
  let ?round = "bindE (cleanup_round clock budget now batch cleanup_tables 0 k) keep_result"
  from serve_run[OF assms(1)] obtain w where w: "?round (s\<lparr>at_work := at_saved s\<rparr>) = (Inr (m, j), w)"
    and u: "u = w\<lparr>at_work := at_saved w\<rparr>" by blast
  from w obtain x where x: "cleanup_round clock budget now batch cleanup_tables 0 k (s\<lparr>at_work := at_saved s\<rparr>)
      = (Inr (m, j), x)" and "at_saved w = at_work x"
    by (auto simp: op_success keep_result_def tx_Inr)
  with cleanup_round_shrinks[OF x] assms(2) u show ?thesis by simp
qed

lemma cleanup_loop_shrinks:
  assumes "rows_keyed (at_saved s)" "table_rows (at_saved s) < left"
    and "cleanup_loop left clock budget now batch acc k s = (r, t)"
  shows "case r of Inl e \<Rightarrow> True | Inr v \<Rightarrow> \<exists>n. v = Some (acc + n) \<and> shrinks now n (at_saved s) (at_saved t)"
  using assms
proof (induction left arbitrary: acc k s)
  case (Suc left)
  show ?case
  proof (cases r)
    case (Inr v)
    let ?round = "bindE (cleanup_round clock budget now batch cleanup_tables 0 (k + 1)) keep_result"
    show ?thesis
    proof (cases "clock k \<ge> budget")
      case True
      with Suc.prems Inr show ?thesis by (auto simp: run intro: shrinks_refl exI[of _ 0])
    next
      case False
      with Suc.prems(3) Inr have "bindE (serve ?round) (\<lambda>out. if fst out = 0 then ret (Some acc)
          else cleanup_loop left clock budget now batch (acc + fst out) (snd out)) s = (Inr v, t)" by simp
      then obtain out u where out: "serve ?round s = (Inr out, u)"
        "(if fst out = 0 then ret (Some acc)
          else cleanup_loop left clock budget now batch (acc + fst out) (snd out)) u = (Inr v, t)"
        unfolding bindE_Inr by blast
      obtain m j where mj: "out = (m, j)" by fastforce
      note round = out(1)[unfolded mj]
        and rest = out(2)[unfolded mj fst_conv snd_conv]
      note shrunk = served_round[OF round Suc.prems(1)]
      show ?thesis
      proof (cases "m = 0")
        case True
        with rest shrunk Inr show ?thesis by (auto simp: op_success intro: exI[of _ 0])
      next
        case False
        with rest have again: "cleanup_loop left clock budget now batch (acc + m) j u = (r, t)" by (simp add: Inr)
        have "rows_keyed (at_saved u)" "table_rows (at_saved u) < left"
          using shrunk False Suc.prems(2) by (auto simp: shrinks_def)
        from Suc.IH[OF this again] Inr obtain n where n: "v = Some (acc + m + n)" "shrinks now n (at_saved u) (at_saved t)"
          by auto
        with shrinks_trans[OF shrunk n(2)] Inr show ?thesis by (auto intro: exI[of _ "m + n"])
      qed
    qed
  qed simp
qed simp

text \<open>C30 (termination). The cleanup loop ends: a loop allowed one round more than the four tables have rows
  never uses its rounds up, whatever the clock reads. What it reports is the number of rows it has
  removed, and it removes only rows that are due.\<close>

theorem cleanup_ends:
  assumes "rows_keyed (at_saved s)" "table_rows (at_saved s) < left"
    and "cleanup_loop left clock budget now batch acc k s = (r, t)"
  shows "case r of Inl e \<Rightarrow> True
    | Inr v \<Rightarrow> \<exists>n. v = Some (acc + n) \<and> table_rows (at_saved t) + n = table_rows (at_saved s) \<and>
        undue_kept now (at_saved s) (at_saved t)"
  using cleanup_loop_shrinks[OF assms] by (auto simp: shrinks_def split: sum.splits)

end
