(* ===== verification/Auth_Evidence.thy ===== *)
theory Auth_Evidence
  imports Auth_Retention
begin

section \<open>The properties on a concrete login\<close>

text \<open>
  The properties of authentication evaluated on the histories of \<^verbatim>\<open>Auth_Samples\<close>, and what these show the code to do.
\<close>

lemma login_reach: "auth_reach invited" "auth_reach signed_in" "auth_reach signed_twice"
  and login_steps: "auth_step\<^sup>*\<^sup>* signed_in signed_twice" "auth_step invited signed_in"
proof -
  have run: "auth_step\<^sup>*\<^sup>* s (snd (auth_run calls s))" for calls s
    by (rule auth_run_steps) (rule surjective_pairing)
  have start: "auth_reach demo_start" by (auto simp: auth_reach_def demo_start_def)
  from auth_reach_steps[OF start run] show invited: "auth_reach invited" by (simp add: invited_def)
  from auth_reach_steps[OF invited run] show signed: "auth_reach signed_in" by (simp add: signed_in_def)
  show steps: "auth_step\<^sup>*\<^sup>* signed_in signed_twice"
    unfolding signed_twice_def invited_again_def by (rule rtranclp_trans[OF run run])
  from auth_reach_steps[OF signed this] show "auth_reach signed_twice" .
  show "auth_step invited signed_in"
  proof -
    let ?call = "Verify_code [1] 3 ''000000'' ''b'' None"
    obtain r t where one: "auth_do auth_demo auth_sms (seconds 3) ?call invited = (r, t)" by fastforce
    then have "signed_in = t" by (simp add: signed_in_def login_call_def demo_call_def del: auth_do.simps)
    with auth_step.call[OF one] show ?thesis by simp
  qed
qed

definition let_in :: "(auth_error + bootstrap_result) \<times> auth_state \<Rightarrow> uuid option" where
  "let_in out = (case fst out of Inr (Boot_ok v) \<Rightarrow> Some (ss_user v) | _ \<Rightarrow> None)"

lemma let_in_ok: "let_in out = Some i \<Longrightarrow> \<exists>v t. out = (Inr (Boot_ok v), t) \<and> ss_user v = i"
  by (cases out) (auto simp: let_in_def split: sum.splits bootstrap_result.splits)

definition first_session :: "auth_state \<Rightarrow> (int \<times> bytes) option" where
  "first_session s = (case session_of (at_saved s) 7 of None \<Rightarrow> None
     | Some x \<Rightarrow> if se_revoked_at x = None then None else Some (se_key_version x, se_token_digest x))"

definition switched_to :: "(auth_error + switch_result) \<times> auth_state \<Rightarrow> string option" where
  "switched_to out = (case fst out of Inr (Switched v) \<Rightarrow> Some (ss_workspace v) | _ \<Rightarrow> None)"

definition logged_out_all :: "(auth_error + logout_result) \<times> auth_state \<Rightarrow> bool" where
  "logged_out_all out \<longleftrightarrow> (case fst out of Inr Logged_out_all \<Rightarrow> True | _ \<Rightarrow> False)"

text \<open>The first session while it lasts, and after it has expired (at 3603 seconds).\<close>

lemma demo_checks: "case signed_in of s \<Rightarrow>
    let_in (serve (bootstrap_session auth_demo (seconds 4) (Some ''1.AQ'')) s) = Some 0 \<and>
    switched_to (serve (switch_workspace auth_demo (seconds 5) (Some ''1.AQ'') (Some ''1.Bw'') ''buyer'' ''w'') s) = Some ''buyer'' \<and>
    logged_out_all (serve (revoke_all_sessions auth_demo (seconds 5) (Some ''1.AQ'') (Some ''1.Bw'') ''w'') s) \<and>
    rows_keyed (at_saved s) \<and> table_rows (at_saved s) < 50 \<and>
    let_in (serve (bootstrap_session auth_demo (seconds 4000) (Some ''1.AQ'')) s) = None \<and>
    switched_to (serve (switch_workspace auth_demo (seconds 4000) (Some ''1.AQ'') (Some ''1.Bw'') ''buyer'' ''w'') s) = Some ''buyer'' \<and>
    logged_out_all (serve (revoke_all_sessions auth_demo (seconds 4000) (Some ''1.AQ'') (Some ''1.Bw'') ''w'') s)"
  by code_simp

lemma demo_rechecks: "case signed_twice of s \<Rightarrow>
    let_in (serve (bootstrap_session auth_demo (seconds 123) (Some ''1.Ag'')) s) = Some 0 \<and>
    first_session s = cookie_key auth_demo (Some ''1.AQ'')"
  by code_simp

lemma demo_cookies: "cookie_key auth_demo (Some ''1.Ag'') \<noteq> cookie_key auth_demo (Some ''1.AQ'')"
  "cookie_key auth_demo (Some ''1.AQ'') \<noteq> None"
  by code_simp+

theorem older_session_stays_dead_witness:
  "\<not> (\<exists>w. fst (serve (bootstrap_session auth_demo (seconds 124) (Some ''1.AQ'')) signed_twice) = Inr (Boot_ok w))"
proof -
  from let_in_ok[OF demo_checks[THEN conjunct1]] let_in_ok[OF demo_rechecks[THEN conjunct1]]
  obtain v s' v2 t' where runs: "serve (bootstrap_session auth_demo (seconds 4) (Some ''1.AQ'')) signed_in = (Inr (Boot_ok v), s')"
    "serve (bootstrap_session auth_demo (seconds 123) (Some ''1.Ag'')) signed_twice = (Inr (Boot_ok v2), t')"
    and same: "ss_user v2 = ss_user v" by fastforce
  from older_session_stays_dead[OF login_reach(2) runs(1) login_steps(1) runs(2) same demo_cookies(1) rtranclp.rtrancl_refl refl]
  show ?thesis by blast
qed

theorem revoked_session_stays_dead_witness:
  "\<not> (\<exists>v. fst (serve (bootstrap_session auth_demo (seconds 125) (Some ''1.AQ'')) signed_twice) = Inr (Boot_ok v))"
proof -
  from demo_rechecks demo_cookies(2) obtain x where x: "session_of (at_saved signed_twice) 7 = Some x" "se_revoked_at x \<noteq> None"
    "cookie_key auth_demo (Some ''1.AQ'') = Some (se_key_version x, se_token_digest x)"
    by (auto simp: first_session_def split: option.splits if_splits)
  from revoked_session_stays_dead[OF login_reach(3) x(1,2) rtranclp.rtrancl_refl x(3)] show ?thesis by blast
qed

definition issued_cookie :: "(auth_error + issue_result) \<times> auth_state \<Rightarrow> string option" where
  "issued_cookie out = (case fst out of Inr (Issued v cookie) \<Rightarrow> Some cookie | _ \<Rightarrow> None)"

lemma issued_cookie_ok: "issued_cookie out = Some cookie \<Longrightarrow> \<exists>v. out = (Inr (Issued v cookie), snd out)"
  by (cases out) (auto simp: issued_cookie_def split: sum.splits issue_result.splits)

definition demo_login :: "(auth_error + issue_result) \<times> auth_state" where
  "demo_login = serve (create_session auth_demo (seconds 3) [1] 3 ''000000'' ''b'' None) invited"

lemma demo_login_runs: "issued_cookie demo_login = Some ''1.AQ''"
  by code_simp

theorem login_replaces_sessions_witness:
  "\<exists>c u x. challenge_of (at_saved invited) 3 = Some c \<and> code_passes auth_demo (seconds 3) ''000000'' c \<and>
     vc_user c = Some (us_id u) \<and> logged_in auth_demo (seconds 3) invited 3 u x (snd demo_login)"
proof -
  from issued_cookie_ok[OF demo_login_runs] obtain v where "demo_login = (Inr (Issued v ''1.AQ''), snd demo_login)" by blast
  from login_replaces_sessions[OF login_reach(1) this[unfolded demo_login_def]] show ?thesis
    unfolding demo_login_def by blast
qed

theorem login_cookie_opens_witness:
  "\<exists>v. serve (bootstrap_session auth_demo (seconds 3602) (Some ''1.AQ'')) (snd demo_login) = (Inr (Boot_ok v), snd demo_login)"
proof -
  from issued_cookie_ok[OF demo_login_runs] obtain v where "demo_login = (Inr (Issued v ''1.AQ''), snd demo_login)" by blast
  moreover have "seconds 3602 < seconds 3 + session_ttl" by (simp add: session_ttl_def minutes_def seconds_def)
  ultimately have "serve (bootstrap_session auth_demo (seconds 3602) (Some ''1.AQ'')) (snd demo_login)
      = (Inr (Boot_ok v), snd demo_login)"
    unfolding demo_login_def by (intro login_cookie_opens[OF login_reach(1)])
  then show ?thesis by blast
qed

text \<open>Five wrong codes are five failures; the sixth call finds the challenge locked, and so does the right code.\<close>

definition demo_guesses :: "timed_auth list" where
  "demo_guesses = replicate 6 (demo_call 3 (Verify_code [1] 3 ''111111'' ''b'' None)) @ [login_call]"

lemma demo_guesses_counted:
  "count_answers 3 refused_code demo_guesses (fst (auth_run demo_guesses invited)) = 5"
  by code_simp

theorem guesses_bounded_witness:
  "count_answers 3 opened_by_code demo_guesses (fst (auth_run demo_guesses invited)) \<le> 1 \<and>
   count_answers 3 refused_code demo_guesses (fst (auth_run demo_guesses invited)) = 5"
  using guesses_bounded[OF login_reach(1) surjective_pairing] demo_guesses_counted by blast

lemma switched_to_ok: "switched_to out = Some w \<Longrightarrow> \<exists>v. out = (Inr (Switched v), snd out)"
  by (cases out) (auto simp: switched_to_def split: sum.splits switch_result.splits)

theorem switch_guarded_witness:
  "let t = snd (serve (switch_workspace auth_demo (seconds 5) (Some ''1.AQ'') (Some ''1.Bw'') ''buyer'' ''w'') signed_in) in
     (\<exists>x u. acts_for auth_demo (Some ''1.AQ'') (Some ''1.Bw'') (at_saved signed_in) x u \<and>
       session_of (at_saved t) = (session_of (at_saved signed_in))(se_id x \<mapsto> x\<lparr>se_workspace := ''buyer''\<rparr>)) \<and>
     user_of (at_saved t) = user_of (at_saved signed_in)"
proof -
  from demo_checks obtain v where run: "serve (switch_workspace auth_demo (seconds 5) (Some ''1.AQ'') (Some ''1.Bw'') ''buyer'' ''w'') signed_in
      = (Inr (Switched v), snd (serve (switch_workspace auth_demo (seconds 5) (Some ''1.AQ'') (Some ''1.Bw'') ''buyer'' ''w'') signed_in))"
    by (meson switched_to_ok)
  from switch_guarded[OF login_reach(2) run] show ?thesis by (auto simp: Let_def)
qed

lemma logged_out_all_ok: "logged_out_all out \<Longrightarrow> out = (Inr Logged_out_all, snd out)"
  by (cases out) (auto simp: logged_out_all_def split: sum.splits logout_result.splits)

theorem logout_all_ends_sessions_witness:
  "let t = snd (serve (revoke_all_sessions auth_demo (seconds 5) (Some ''1.AQ'') (Some ''1.Bw'') ''w'') signed_in) in
     \<exists>x u. acts_for auth_demo (Some ''1.AQ'') (Some ''1.Bw'') (at_saved signed_in) x u \<and>
       rows (\<lambda>y. se_user y = us_id u \<and> se_revoked_at y = None) (ad_sessions (at_saved t)) = []"
proof -
  from demo_checks have "logged_out_all (serve (revoke_all_sessions auth_demo (seconds 5) (Some ''1.AQ'') (Some ''1.Bw'') ''w'') signed_in)"
    by meson
  from logout_all_ends_sessions[OF login_reach(2) logged_out_all_ok[OF this]] show ?thesis by (auto simp: Let_def)
qed

theorem code_is_first_accepted_witness:
  "otp_candidate auth_lib (hk_current auth_key) 3 0 < rejection_limit \<and> six_digits ''000000'' \<and> derive_otp auth_lib [] 3 \<noteq> Inr ''000000''"
proof -
  have "derive_otp auth_lib (hk_current auth_key) 3 = Inr ''000000''" "otp_candidate auth_lib (hk_current auth_key) 3 0 < rejection_limit"
    by code_simp+
  with code_is_first_accepted[of auth_lib "hk_current auth_key" 3 "''000000''"]
    code_is_first_accepted[of auth_lib "[]" 3 "''000000''"] show ?thesis by blast
qed

theorem sessions_refine_seats_witness:
  "seat_step (seats_of (at_saved invited)) (seats_of (at_saved signed_in)) \<and>
   (\<exists>i. holds (seats_of (at_saved signed_in)) 0 = Some i)"
proof -
  from let_in_ok[OF demo_checks[THEN conjunct1]] obtain v where
    "fst (serve (bootstrap_session auth_demo (seconds 4) (Some ''1.AQ'')) signed_in) = Inr (Boot_ok v)" "ss_user v = 0"
    by fastforce
  with sessions_refine_seats[OF login_reach(1) login_steps(2), where env = auth_demo and now = "seconds 4" and cookie = "Some ''1.AQ''"]
  show ?thesis by auto
qed

theorem cleanup_ends_witness:
  "case fst (cleanup_loop 50 (\<lambda>k. 0) 1 (hours 9999) 500 0 0 signed_in) of Inl e \<Rightarrow> True | Inr v \<Rightarrow> v \<noteq> None"
proof -
  have "rows_keyed (at_saved signed_in)" "table_rows (at_saved signed_in) < 50" using demo_checks by meson+
  from cleanup_ends[OF this surjective_pairing, where clock = "\<lambda>k. 0" and budget = 1 and now = "hours 9999" and batch = 500
      and acc = 0 and k = 0] show ?thesis by (auto split: sum.splits)
qed

section \<open>Findings\<close>

text \<open>
  An expired session is not let in, but it still switches the workspace and still logs its user out
  everywhere: \<^verbatim>\<open>_switch_workspace_inner\<close> and \<^verbatim>\<open>_revoke_all_sessions_inner\<close> look at the revocation only, not at
  \<^verbatim>\<open>expires_at\<close>, the status of the user or the generation.
\<close>

lemma expired_session_acts:
  "let_in (serve (bootstrap_session auth_demo (seconds 4000) (Some ''1.AQ'')) signed_in) = None"
  "switched_to (serve (switch_workspace auth_demo (seconds 4000) (Some ''1.AQ'') (Some ''1.Bw'') ''buyer'' ''w'') signed_in) = Some ''buyer''"
  "logged_out_all (serve (revoke_all_sessions auth_demo (seconds 4000) (Some ''1.AQ'') (Some ''1.Bw'') ''w'') signed_in)"
  using demo_checks by meson+

text \<open>
  \<^verbatim>\<open>'\<dots>'.isdigit()\<close> holds for the superscript digits, which \<^verbatim>\<open>int()\<close> refuses: such a cookie raises instead of being
  malformed.
\<close>

lemma superscript_cookie_raises: "parse_session_cookie (Some (CHR 0xB2 # ''.AQ'')) = Inl Auth_value_error"
  by code_simp

text \<open>
  The cleanup deletes challenges that profile intents refer to. The tables forbid it, so from a day after
  the first registration by code on, every cleanup fails at that table.
\<close>

definition demo_intent :: auth_state where
  "demo_intent = snd (auth_run [demo_call 0 (Request_code [7] demo_phone (Some ''k1'') ''a'' ''1.1.1.1''),
     demo_call 1 (Dispatch ''w'' 60 10), demo_call 2 (Verify_code [1] 1 ''000000'' ''b'' None)] demo_start)"

lemma cleanup_blocked_by_intent:
  "case demo_intent of s \<Rightarrow> map (\<lambda>p. pc_challenge p) (dict_values (ad_intents (at_saved s))) = [1] \<and>
     fst (delete_batch (hours 25) 500 Cl_challenges s) = Inl Auth_db_error"
  by code_simp

end
