(* ===== verification/Authz.thy ===== *)
theory Authz
  imports Auth_Store
begin

section \<open>Authorization\<close>

text \<open>
  \<^verbatim>\<open>services/api-service/app/domain/authorization\<close> (\<^verbatim>\<open>matrix.py\<close>, \<^verbatim>\<open>codes.py\<close>, \<^verbatim>\<open>audit.py\<close>, \<^verbatim>\<open>route_exclude.py\<close>,
  \<^verbatim>\<open>service.py\<close>, \<^verbatim>\<open>outbox_worker.py\<close>) with the repository \<^verbatim>\<open>repositories/authorization.py\<close>: who may do what to
  which resource, and the security event that goes with the decision. A repository call may raise; \<open>faults\<close>
  says which calls of a request do. Messages, metrics and log lines are left out, and so are the
  identity fields of the client that \<^verbatim>\<open>authorize\<close> takes and ignores.
\<close>

subsection \<open>Matrix\<close>

datatype action =
    Proxy_key_create | Proxy_key_revoke | Proxy_key_use
  | Seller_key_register | Seller_key_read | Seller_key_update | Seller_key_disable
  | Route_exclude_self
  | Project_create | Project_read | Project_update | Project_archive | Project_delete | Project_enable_protocol
  | Binding_create | Binding_read | Binding_publish | Binding_deactivate
  | Connection_create | Connection_read | Connection_update | Connection_delete

fun action_value :: "action \<Rightarrow> string" where
  "action_value Proxy_key_create = ''proxy_key.create''"
| "action_value Proxy_key_revoke = ''proxy_key.revoke''"
| "action_value Proxy_key_use = ''proxy_key.use''"
| "action_value Seller_key_register = ''seller_key.register''"
| "action_value Seller_key_read = ''seller_key.read''"
| "action_value Seller_key_update = ''seller_key.update''"
| "action_value Seller_key_disable = ''seller_key.disable''"
| "action_value Route_exclude_self = ''route_candidate_exclude_self''"
| "action_value Project_create = ''project.create''"
| "action_value Project_read = ''project.read''"
| "action_value Project_update = ''project.update''"
| "action_value Project_archive = ''project.archive''"
| "action_value Project_delete = ''project.delete''"
| "action_value Project_enable_protocol = ''project.enable_protocol''"
| "action_value Binding_create = ''binding.create''"
| "action_value Binding_read = ''binding.read''"
| "action_value Binding_publish = ''binding.publish''"
| "action_value Binding_deactivate = ''binding.deactivate''"
| "action_value Connection_create = ''connection.create''"
| "action_value Connection_read = ''connection.read''"
| "action_value Connection_update = ''connection.update''"
| "action_value Connection_delete = ''connection.delete''"

text \<open>\<^verbatim>\<open>all_actions()\<close> enumerates the actions; with it, statements about all actions can be evaluated.\<close>

definition all_actions :: "action list" where
  "all_actions = [Proxy_key_create, Proxy_key_revoke, Proxy_key_use,
     Seller_key_register, Seller_key_read, Seller_key_update, Seller_key_disable, Route_exclude_self,
     Project_create, Project_read, Project_update, Project_archive, Project_delete, Project_enable_protocol,
     Binding_create, Binding_read, Binding_publish, Binding_deactivate,
     Connection_create, Connection_read, Connection_update, Connection_delete]"

lemma all_actions_complete: "a \<in> set all_actions"
  by (cases a) (simp_all add: all_actions_def)

instantiation action :: enum
begin

definition enum_action :: "action list" where
  "enum_action = all_actions"

definition enum_all_action :: "(action \<Rightarrow> bool) \<Rightarrow> bool" where
  "enum_all_action P \<longleftrightarrow> list_all P all_actions"

definition enum_ex_action :: "(action \<Rightarrow> bool) \<Rightarrow> bool" where
  "enum_ex_action P \<longleftrightarrow> list_ex P all_actions"

instance
proof
  show "(UNIV :: action set) = set enum_class.enum"
    using all_actions_complete by (auto simp: enum_action_def)
  show "distinct (enum_class.enum :: action list)" by (simp add: enum_action_def all_actions_def)
qed (use all_actions_complete in \<open>auto simp: enum_all_action_def enum_ex_action_def list_all_iff list_ex_iff\<close>)

end

definition parse_action :: "string \<Rightarrow> action option" where
  "parse_action v = find (\<lambda>a. action_value a = v) all_actions"

definition buyer_actions :: "action list" where
  "buyer_actions = [Proxy_key_create, Proxy_key_revoke, Proxy_key_use, Route_exclude_self,
     Project_create, Project_read, Project_update, Project_archive, Project_delete, Project_enable_protocol,
     Binding_create, Binding_read, Binding_publish, Binding_deactivate]"

definition seller_actions :: "action list" where
  "seller_actions = [Seller_key_register, Seller_key_read, Seller_key_update, Seller_key_disable,
     Connection_create, Connection_read, Connection_update, Connection_delete]"

definition both_actions :: "action list" where
  "both_actions = [Proxy_key_create, Proxy_key_revoke, Proxy_key_use,
     Seller_key_register, Seller_key_read, Seller_key_update, Seller_key_disable, Route_exclude_self,
     Project_create, Project_read, Project_update, Project_archive, Project_delete, Project_enable_protocol,
     Binding_create, Binding_read, Binding_publish, Binding_deactivate,
     Connection_create, Connection_read, Connection_update, Connection_delete]"

definition matrix_row :: "string \<Rightarrow> action list option" where
  "matrix_row role = (if role = ''buyer'' then Some buyer_actions else if role = ''seller'' then Some seller_actions
     else if role = ''both'' then Some both_actions else None)"

definition is_action_allowed :: "string \<Rightarrow> action \<Rightarrow> bool" where
  "is_action_allowed role a = (case matrix_row role of None \<Rightarrow> False | Some allowed \<Rightarrow> a \<in> set allowed)"

definition create_actions :: "action list" where
  "create_actions = [Proxy_key_create, Seller_key_register, Connection_create]"

definition resource_type_of :: "action \<Rightarrow> string option" where
  "resource_type_of a =
     (if a \<in> {Proxy_key_create, Proxy_key_revoke, Proxy_key_use} then Some ''proxy_key''
      else if a \<in> {Seller_key_register, Seller_key_read, Seller_key_update, Seller_key_disable} then Some ''seller_key''
      else if a \<in> {Project_create, Project_read, Project_update, Project_archive, Project_delete, Project_enable_protocol}
        then Some ''project''
      else if a \<in> {Binding_create, Binding_read, Binding_publish, Binding_deactivate} then Some ''binding''
      else if a \<in> {Connection_create, Connection_read, Connection_update, Connection_delete} then Some ''connection''
      else None)"

subsection \<open>Codes\<close>

datatype authz_code =
    Az_ok | Az_unauthenticated | Az_forbidden_role | Az_account_unavailable | Az_resource_not_found
  | Az_no_route_candidate | Az_validation_error | Az_service_unavailable | Az_internal_error

datatype reason =
    Unauthenticated | Role_denied | Account_suspended | Account_deleted | Account_inactive | Not_owner
  | Resource_missing | Resource_soft_deleted | Self_route_empty | Fact_store_unavailable
  | Audit_persist_failed | Validation

fun reason_to_public :: "reason \<Rightarrow> authz_code" where
  "reason_to_public Unauthenticated = Az_unauthenticated"
| "reason_to_public Role_denied = Az_forbidden_role"
| "reason_to_public Account_suspended = Az_account_unavailable"
| "reason_to_public Account_deleted = Az_account_unavailable"
| "reason_to_public Account_inactive = Az_account_unavailable"
| "reason_to_public Not_owner = Az_resource_not_found"
| "reason_to_public Resource_missing = Az_resource_not_found"
| "reason_to_public Resource_soft_deleted = Az_resource_not_found"
| "reason_to_public Self_route_empty = Az_no_route_candidate"
| "reason_to_public Fact_store_unavailable = Az_service_unavailable"
| "reason_to_public Audit_persist_failed = Az_service_unavailable"
| "reason_to_public Validation = Az_validation_error"

fun http_status_of :: "authz_code \<Rightarrow> int" where
  "http_status_of Az_ok = 200"
| "http_status_of Az_unauthenticated = 401"
| "http_status_of Az_forbidden_role = 403"
| "http_status_of Az_account_unavailable = 403"
| "http_status_of Az_resource_not_found = 404"
| "http_status_of Az_no_route_candidate = 404"
| "http_status_of Az_validation_error = 400"
| "http_status_of Az_service_unavailable = 503"
| "http_status_of Az_internal_error = 500"

fun reason_value :: "reason \<Rightarrow> string" where
  "reason_value Unauthenticated = ''UNAUTHENTICATED''"
| "reason_value Role_denied = ''ROLE_DENIED''"
| "reason_value Account_suspended = ''ACCOUNT_SUSPENDED''"
| "reason_value Account_deleted = ''ACCOUNT_DELETED''"
| "reason_value Account_inactive = ''ACCOUNT_INACTIVE''"
| "reason_value Not_owner = ''NOT_OWNER''"
| "reason_value Resource_missing = ''RESOURCE_MISSING''"
| "reason_value Resource_soft_deleted = ''RESOURCE_SOFT_DELETED''"
| "reason_value Self_route_empty = ''SELF_ROUTE_EMPTY''"
| "reason_value Fact_store_unavailable = ''FACT_STORE_UNAVAILABLE''"
| "reason_value Audit_persist_failed = ''AUDIT_PERSIST_FAILED''"
| "reason_value Validation = ''VALIDATION''"

subsection \<open>Rows and requests\<close>

record ownership =
  ow_id :: uuid
  ow_type :: string
  ow_resource :: uuid
  ow_owner :: uuid
  ow_status :: string
  ow_version :: int
  ow_created_at :: instant
  ow_updated_at :: instant
  ow_request :: string

record authz_event =
  ez_type :: string
  ez_outcome :: string
  ez_reason :: string
  ez_action :: string
  ez_policy :: string
  ez_actor :: "uuid option"
  ez_session :: "uuid option"
  ez_resource_type :: "string option"
  ez_resource :: "uuid option"
  ez_request :: string
  ez_metadata :: "(string \<times> int) list"
  ez_delete_after :: instant

datatype outbox_state = Ob_pending | Ob_published

record outbox_row =
  ob_id :: uuid
  ob_payload :: authz_event
  ob_state :: outbox_state
  ob_available_at :: instant
  ob_event :: "uuid option"
  ob_created_at :: instant
  ob_updated_at :: instant

record authz_db =
  az_users :: "(uuid, user) dict"
  az_owned :: "(uuid, ownership) dict"
  az_events :: "(uuid, authz_event) dict"
  az_outbox :: "(uuid, outbox_row) dict"

record route_candidate =
  rc_resource :: uuid
  rc_owner :: uuid
  rc_status :: string

record authz_request =
  ar_user :: uuid
  ar_session :: "uuid option"
  ar_action :: string
  ar_request :: string
  ar_type :: "string option"
  ar_resource :: "uuid option"
  ar_candidates :: "route_candidate list"
  ar_workspace :: "string option"
  ar_apply :: bool
  ar_status :: "string option"

record authz_decision =
  ad_allowed :: bool
  ad_http :: int
  ad_code :: authz_code
  ad_reason :: "reason option"
  ad_action :: string
  ad_type :: "string option"
  ad_resource :: "uuid option"
  ad_filtered :: "route_candidate list"
  ad_excluded :: nat
  ad_view :: "(string \<times> uuid \<times> uuid \<times> string \<times> int) option"

subsection \<open>Repository\<close>

datatype repo_call = Get_user | Get_ownership | Create_row | Update_row | Insert_event | Commit

datatype authz_error = Repo_error

record authz_state =
  zs_saved :: authz_db
  zs_work :: authz_db
  zs_next :: uuid

type_synonym faults = "repo_call \<Rightarrow> bool"
type_synonym 'a authz_op = "(authz_state, authz_error, 'a) op"

definition event_row_ok :: "authz_event \<Rightarrow> bool" where
  "event_row_ok e \<longleftrightarrow> length (ez_type e) \<le> 48 \<and> length (ez_outcome e) \<le> 32 \<and> length (ez_reason e) \<le> 64 \<and>
     length (ez_action e) \<le> 64 \<and> length (ez_policy e) \<le> 32 \<and> length (ez_request e) \<le> 128 \<and>
     (case ez_resource_type e of None \<Rightarrow> True | Some t \<Rightarrow> length t \<le> 32)"

definition owned_row_ok :: "(uuid, user) dict \<Rightarrow> ownership \<Rightarrow> bool" where
  "owned_row_ok users r \<longleftrightarrow> length (ow_type r) \<le> 32 \<and> length (ow_status r) \<le> 16 \<and> length (ow_request r) \<le> 128 \<and>
     known users (ow_owner r)"

definition authz_rows_ok :: "authz_db \<Rightarrow> bool" where
  "authz_rows_ok d \<longleftrightarrow> list_all (owned_row_ok (az_users d)) (dict_values (az_owned d)) \<and>
     unique_on (\<lambda>_. True) (\<lambda>r. (ow_type r, ow_resource r)) (az_owned d) \<and>
     list_all event_row_ok (dict_values (az_events d))"

definition zs_fresh :: "uuid authz_op" where
  "zs_fresh = bindE (gets zs_next) (\<lambda>i. bindE (modify (\<lambda>s. s\<lparr>zs_next := i + 1\<rparr>)) (\<lambda>_. ret i))"

text \<open>A write with its flush.\<close>

definition zs_put :: "faults \<Rightarrow> repo_call \<Rightarrow> (authz_db \<Rightarrow> authz_db) \<Rightarrow> unit authz_op" where
  "zs_put faults k f = bindE (modify (\<lambda>s. s\<lparr>zs_work := f (zs_work s)\<rparr>)) (\<lambda>_.
     bindE (gets (\<lambda>s. authz_rows_ok (zs_work s))) (\<lambda>ok. require (ok \<and> \<not> faults k) Repo_error))"

definition zs_commit :: "faults \<Rightarrow> unit authz_op" where
  "zs_commit faults = bindE (require (\<not> faults Commit) Repo_error) (\<lambda>_. modify (\<lambda>s. s\<lparr>zs_saved := zs_work s\<rparr>))"

definition zs_rollback :: "unit authz_op" where
  "zs_rollback = modify (\<lambda>s. s\<lparr>zs_work := zs_saved s\<rparr>)"

definition zs_serve :: "'a authz_op \<Rightarrow> 'a authz_op" where
  "zs_serve m s = (case m (s\<lparr>zs_work := zs_saved s\<rparr>) of (r, t) \<Rightarrow> (r, t\<lparr>zs_work := zs_saved t\<rparr>))"

text \<open>\<^verbatim>\<open>try ... except SQLAlchemyError\<close>: \<open>None\<close> where the call raised.\<close>

definition attempt :: "'a authz_op \<Rightarrow> 'a option authz_op" where
  "attempt m = catch_op (bindE m (\<lambda>x. ret (Some x))) (\<lambda>e. ret None)"

definition get_user :: "faults \<Rightarrow> uuid \<Rightarrow> user option authz_op" where
  "get_user faults uid = bindE (require (\<not> faults Get_user) Repo_error) (\<lambda>_.
     gets (\<lambda>s. dict_get (az_users (zs_work s)) uid))"

definition owned_as :: "string \<Rightarrow> uuid \<Rightarrow> authz_db \<Rightarrow> ownership list" where
  "owned_as t r d = rows (\<lambda>x. ow_type x = t \<and> ow_resource x = r) (az_owned d)"

definition get_ownership :: "faults \<Rightarrow> string \<Rightarrow> uuid \<Rightarrow> ownership option authz_op" where
  "get_ownership faults t r = bindE (require (\<not> faults Get_ownership) Repo_error) (\<lambda>_.
     bindE (gets (\<lambda>s. owned_as t r (zs_work s))) (\<lambda>found. case found of
       [] \<Rightarrow> ret None | [x] \<Rightarrow> ret (Some x) | _ \<Rightarrow> throw Repo_error))"

definition save_owned :: "ownership \<Rightarrow> authz_db \<Rightarrow> authz_db" where
  "save_owned x d = d\<lparr>az_owned := dict_set (ow_id x) x (az_owned d)\<rparr>"

definition create_ownership ::
  "faults \<Rightarrow> instant \<Rightarrow> string \<Rightarrow> uuid option \<Rightarrow> uuid \<Rightarrow> string \<Rightarrow> ownership authz_op" where
  "create_ownership faults now t rid owner rq =
     bindE (case rid of Some r \<Rightarrow> ret r | None \<Rightarrow> zs_fresh) (\<lambda>r.
     bindE zs_fresh (\<lambda>i.
     let x = \<lparr>ow_id = i, ow_type = t, ow_resource = r, ow_owner = owner, ow_status = ''active'', ow_version = 1,
              ow_created_at = now, ow_updated_at = now, ow_request = rq\<rparr> in
     bindE (zs_put faults Create_row (save_owned x)) (\<lambda>_. ret x)))"

definition update_ownership_status :: "faults \<Rightarrow> instant \<Rightarrow> ownership \<Rightarrow> string \<Rightarrow> ownership authz_op" where
  "update_ownership_status faults now x status =
     (let y = x\<lparr>ow_status := status, ow_version := ow_version x + 1, ow_updated_at := now\<rparr> in
      bindE (zs_put faults Update_row (save_owned y)) (\<lambda>_. ret y))"

definition insert_security_event :: "faults \<Rightarrow> authz_event \<Rightarrow> uuid authz_op" where
  "insert_security_event faults e = bindE zs_fresh (\<lambda>i.
     bindE (zs_put faults Insert_event (\<lambda>d. d\<lparr>az_events := dict_set i e (az_events d)\<rparr>)) (\<lambda>_. ret i))"

subsection \<open>Audit\<close>

definition policy_version :: string where
  "policy_version = ''authz-matrix-v1''"

definition authz_retention :: int where
  "authz_retention = hours (24 * 90)"

definition requires_audit :: "bool \<Rightarrow> bool \<Rightarrow> bool" where
  "requires_audit allowed state_change = (if state_change then True else \<not> allowed)"

definition event_type_for :: "reason option \<Rightarrow> bool \<Rightarrow> string" where
  "event_type_for why state_change =
     (if state_change then ''authz.resource_state_change''
      else case why of None \<Rightarrow> ''authz.allowed''
      | Some r \<Rightarrow> (case r of Role_denied \<Rightarrow> ''authz.role_denied''
          | Account_suspended \<Rightarrow> ''authz.account_unavailable'' | Account_deleted \<Rightarrow> ''authz.account_unavailable''
          | Account_inactive \<Rightarrow> ''authz.account_unavailable'' | Not_owner \<Rightarrow> ''authz.ownership_denied''
          | Resource_missing \<Rightarrow> ''authz.ownership_denied'' | Resource_soft_deleted \<Rightarrow> ''authz.ownership_denied''
          | Self_route_empty \<Rightarrow> ''authz.self_route_blocked'' | Unauthenticated \<Rightarrow> ''authz.unauthenticated''
          | _ \<Rightarrow> ''authz.denied''))"

definition build_event ::
  "instant \<Rightarrow> authz_request \<Rightarrow> action \<Rightarrow> reason option \<Rightarrow> bool \<Rightarrow> bool \<Rightarrow> string option \<Rightarrow> uuid option \<Rightarrow>
     (string \<times> int) list \<Rightarrow> authz_event" where
  "build_event now q a why allowed state_change t r meta =
     \<lparr>ez_type = event_type_for why state_change,
      ez_outcome = (if allowed then if state_change then ''allowed_state_change'' else ''allowed'' else ''denied''),
      ez_reason = (case why of Some w \<Rightarrow> reason_value w | None \<Rightarrow> if allowed then ''ALLOWED'' else ''DENIED''),
      ez_action = action_value a, ez_policy = policy_version, ez_actor = Some (ar_user q),
      ez_session = ar_session q, ez_resource_type = t, ez_resource = r, ez_request = ar_request q,
      ez_metadata = meta, ez_delete_after = now + authz_retention\<rparr>"

subsection \<open>Route candidates\<close>

definition exclude_self_owned :: "uuid \<Rightarrow> route_candidate list \<Rightarrow> route_candidate list \<times> nat" where
  "exclude_self_owned buyer candidates = foldl (\<lambda>(kept, n) c.
     if rc_owner c = buyer \<or> rc_status c \<noteq> ''active'' then (kept, n + 1) else (kept @ [c], n)) ([], 0) candidates"

text \<open>The caller's owner and status are not believed: both are loaded by the identifier. \<^verbatim>\<open>UUID(int=0)\<close> stands for the
  owner of an unknown candidate.\<close>

fun resolve_candidates :: "faults \<Rightarrow> route_candidate list \<Rightarrow> route_candidate list authz_op" where
  "resolve_candidates faults [] = ret []"
| "resolve_candidates faults (c # cs) =
     bindE (get_ownership faults ''seller_key'' (rc_resource c)) (\<lambda>row.
     bindE (resolve_candidates faults cs) (\<lambda>rest.
     ret ((case row of
         None \<Rightarrow> \<lparr>rc_resource = rc_resource c, rc_owner = 0, rc_status = ''disabled''\<rparr>
       | Some x \<Rightarrow> \<lparr>rc_resource = ow_resource x, rc_owner = ow_owner x, rc_status = ow_status x\<rparr>) # rest)))"

subsection \<open>Decisions\<close>

definition refusal :: "reason \<Rightarrow> string \<Rightarrow> string option \<Rightarrow> uuid option \<Rightarrow> authz_decision" where
  "refusal why a t r = \<lparr>ad_allowed = False, ad_http = http_status_of (reason_to_public why),
     ad_code = reason_to_public why, ad_reason = Some why, ad_action = a, ad_type = t, ad_resource = r,
     ad_filtered = [], ad_excluded = 0, ad_view = None\<rparr>"

definition grant :: "action \<Rightarrow> string option \<Rightarrow> uuid option \<Rightarrow> authz_decision" where
  "grant a t r = \<lparr>ad_allowed = True, ad_http = 200, ad_code = Az_ok, ad_reason = None,
     ad_action = action_value a, ad_type = t, ad_resource = r, ad_filtered = [], ad_excluded = 0, ad_view = None\<rparr>"

definition resource_view :: "ownership \<Rightarrow> string \<times> uuid \<times> uuid \<times> string \<times> int" where
  "resource_view x = (ow_type x, ow_resource x, ow_owner x, ow_status x, ow_version x)"

definition grant_for :: "action \<Rightarrow> ownership \<Rightarrow> authz_decision" where
  "grant_for a x = (grant a (Some (ow_type x)) (Some (ow_resource x)))\<lparr>ad_view := Some (resource_view x)\<rparr>"

definition persist_audit :: "faults \<Rightarrow> authz_event \<Rightarrow> bool authz_op" where
  "persist_audit faults e = bindE (attempt (insert_security_event faults e)) (\<lambda>i. ret (i \<noteq> None))"

definition commit_decision :: "faults \<Rightarrow> action \<Rightarrow> authz_decision \<Rightarrow> authz_decision authz_op" where
  "commit_decision faults a d = bindE (attempt (zs_commit faults)) (\<lambda>ok. case ok of
       Some _ \<Rightarrow> ret d
     | None \<Rightarrow> bindE zs_rollback (\<lambda>_. ret (refusal Fact_store_unavailable (action_value a) None None)))"

definition audited :: "faults \<Rightarrow> action \<Rightarrow> authz_event \<Rightarrow> authz_decision \<Rightarrow> authz_decision authz_op" where
  "audited faults a e d = bindE (persist_audit faults e) (\<lambda>ok.
     if \<not> ok then bindE zs_rollback (\<lambda>_. ret (refusal Audit_persist_failed (action_value a) None None))
     else commit_decision faults a d)"

definition denied ::
  "faults \<Rightarrow> instant \<Rightarrow> authz_request \<Rightarrow> action \<Rightarrow> reason \<Rightarrow> string option \<Rightarrow> uuid option \<Rightarrow> (string \<times> int) list \<Rightarrow>
     authz_decision authz_op" where
  "denied faults now q a why t r meta =
     audited faults a (build_event now q a (Some why) False False t r meta) (refusal why (action_value a) t r)"

text \<open>\<^verbatim>\<open>require_audit=False\<close>: the database is not asked again.\<close>

definition denied_silently :: "action \<Rightarrow> reason \<Rightarrow> authz_decision authz_op" where
  "denied_silently a why = ret (refusal why (action_value a) None None)"

definition finalize_allowed ::
  "faults \<Rightarrow> instant \<Rightarrow> authz_request \<Rightarrow> action \<Rightarrow> bool \<Rightarrow> string option \<Rightarrow> uuid option \<Rightarrow> (string \<times> int) list \<Rightarrow>
     authz_decision \<Rightarrow> authz_decision authz_op" where
  "finalize_allowed faults now q a state_change t r meta d =
     (if requires_audit True state_change
      then audited faults a (build_event now q a None True state_change t r meta) d
      else commit_decision faults a d)"

definition account_reason :: "user \<Rightarrow> reason option" where
  "account_reason u = (if us_is_deleted u then Some Account_deleted
     else if us_status u = Us_suspended then Some Account_suspended
     else if us_status u \<noteq> Us_active then Some Account_inactive else None)"

definition ownership_reason :: "ownership option \<Rightarrow> uuid \<Rightarrow> reason option" where
  "ownership_reason row uid = (case row of None \<Rightarrow> Some Resource_missing
     | Some x \<Rightarrow> if ow_status x = ''soft_deleted'' then Some Resource_soft_deleted
         else if ow_owner x \<noteq> uid then Some Not_owner else None)"

subsection \<open>The service\<close>

definition authorize_route ::
  "faults \<Rightarrow> instant \<Rightarrow> authz_request \<Rightarrow> route_candidate list \<Rightarrow> authz_decision authz_op" where
  "authorize_route faults now q candidates =
     (case exclude_self_owned (ar_user q) candidates of (kept, excluded) \<Rightarrow>
        if kept = []
        then denied faults now q Route_exclude_self Self_route_empty None None
               [(''input_count'', int (length candidates)), (''excluded_count'', int excluded)]
        else finalize_allowed faults now q Route_exclude_self False None None
               [(''input_count'', int (length candidates)), (''excluded_count'', int excluded),
                (''output_count'', int (length kept))]
               ((grant Route_exclude_self None None)\<lparr>ad_filtered := kept, ad_excluded := excluded\<rparr>))"

text \<open>The type a request names, if it names one.\<close>

definition type_for :: "authz_request \<Rightarrow> action \<Rightarrow> string option" where
  "type_for q a = or_else (ar_type q) (resource_type_of a)"

definition authorize_create :: "faults \<Rightarrow> instant \<Rightarrow> authz_request \<Rightarrow> action \<Rightarrow> authz_decision authz_op" where
  "authorize_create faults now q a =
     (if \<not> ar_apply q then finalize_allowed faults now q a False (type_for q a) None [] (grant a (type_for q a) None)
      else bindE (attempt (create_ownership faults now (or_str (type_for q a) ''proxy_key'') (ar_resource q)
                             (ar_user q) (ar_request q))) (\<lambda>made. case made of
          None \<Rightarrow> bindE zs_rollback (\<lambda>_. denied_silently a Fact_store_unavailable)
        | Some x \<Rightarrow> finalize_allowed faults now q a True (Some (ow_type x)) (Some (ow_resource x)) [] (grant_for a x)))"

definition status_after :: "authz_request \<Rightarrow> action \<Rightarrow> ownership \<Rightarrow> string" where
  "status_after q a x =
     (let asked = (if a = Proxy_key_revoke then Some ''disabled''
                   else if a = Seller_key_disable then Some (or_str (ar_status q) ''disabled'') else ar_status q) in
      case asked of None \<Rightarrow> ow_status x | Some v \<Rightarrow> v)"

definition authorize_owned ::
  "faults \<Rightarrow> instant \<Rightarrow> authz_request \<Rightarrow> action \<Rightarrow> string \<Rightarrow> uuid \<Rightarrow> ownership \<Rightarrow> authz_decision authz_op" where
  "authorize_owned faults now q a t r x =
     (if a = Proxy_key_use \<and> ow_status x \<noteq> ''active'' then denied faults now q a Resource_missing (Some t) (Some r) []
      else if ar_apply q \<and> a \<in> {Proxy_key_revoke, Seller_key_disable, Seller_key_update}
      then bindE (attempt (update_ownership_status faults now x (status_after q a x))) (\<lambda>made. case made of
             None \<Rightarrow> bindE zs_rollback (\<lambda>_. denied_silently a Fact_store_unavailable)
           | Some y \<Rightarrow> finalize_allowed faults now q a True (Some (ow_type y)) (Some (ow_resource y)) [] (grant_for a y))
      else finalize_allowed faults now q a False (Some (ow_type x)) (Some (ow_resource x)) [] (grant_for a x))"

definition authorize_resource :: "faults \<Rightarrow> instant \<Rightarrow> authz_request \<Rightarrow> action \<Rightarrow> authz_decision authz_op" where
  "authorize_resource faults now q a =
     (case (type_for q a, ar_resource q) of
        (Some t, Some r) \<Rightarrow> bindE (attempt (get_ownership faults t r)) (\<lambda>found. case found of
            None \<Rightarrow> denied_silently a Fact_store_unavailable
          | Some row \<Rightarrow> (case ownership_reason row (ar_user q) of
              Some why \<Rightarrow> denied faults now q a why (Some t) (Some r) []
            | None \<Rightarrow> authorize_owned faults now q a t r (the row)))
      | _ \<Rightarrow> ret (refusal Validation (action_value a) None None))"

definition role_allows :: "authz_request \<Rightarrow> user \<Rightarrow> action \<Rightarrow> bool" where
  "role_allows q u a \<longleftrightarrow> effective_role (us_role u) (ar_workspace q) \<noteq> [] \<and>
     is_action_allowed (effective_role (us_role u) (ar_workspace q)) a"

definition authorize_user :: "faults \<Rightarrow> instant \<Rightarrow> authz_request \<Rightarrow> action \<Rightarrow> user \<Rightarrow> authz_decision authz_op" where
  "authorize_user faults now q a u =
     (case account_reason u of
        Some why \<Rightarrow> denied faults now q a why None None []
      | None \<Rightarrow>
          if \<not> role_allows q u a then denied faults now q a Role_denied (type_for q a) (ar_resource q) []
          else if a = Route_exclude_self
          then bindE (resolve_candidates faults (ar_candidates q)) (authorize_route faults now q)
          else if a \<in> set create_actions then authorize_create faults now q a
          else authorize_resource faults now q a)"

definition authorize_request :: "faults \<Rightarrow> instant \<Rightarrow> authz_request \<Rightarrow> authz_decision authz_op" where
  "authorize_request faults now q =
     (case parse_action (ar_action q) of
        None \<Rightarrow> ret (refusal Validation (ar_action q) None None)
      | Some a \<Rightarrow> bindE (attempt (get_user faults (ar_user q))) (\<lambda>found. case found of
            None \<Rightarrow> denied_silently a Fact_store_unavailable
          | Some None \<Rightarrow> denied faults now q a Account_inactive None None []
          | Some (Some u) \<Rightarrow> authorize_user faults now q a u))"

subsection \<open>Outbox\<close>

text \<open>The payload is kept as the event it becomes; the code writes it as JSON and reads it back.\<close>

definition insert_outbox :: "instant \<Rightarrow> authz_event \<Rightarrow> uuid authz_op" where
  "insert_outbox now e = bindE zs_fresh (\<lambda>i.
     bindE (modify (\<lambda>s. s\<lparr>zs_work := (zs_work s)\<lparr>az_outbox := dict_set i
       \<lparr>ob_id = i, ob_payload = e, ob_state = Ob_pending, ob_available_at = now, ob_event = None,
        ob_created_at = now, ob_updated_at = now\<rparr> (az_outbox (zs_work s))\<rparr>\<rparr>)) (\<lambda>_. ret i))"

definition pending_batch :: "instant \<Rightarrow> nat \<Rightarrow> authz_db \<Rightarrow> outbox_row list" where
  "pending_batch now n d = take n (ordered_by ob_created_at
     (rows (\<lambda>x. ob_state x = Ob_pending \<and> ob_available_at x \<le> now) (az_outbox d)))"

definition publish_row :: "faults \<Rightarrow> instant \<Rightarrow> outbox_row \<Rightarrow> unit authz_op" where
  "publish_row faults now row = bindE (insert_security_event faults (ob_payload row)) (\<lambda>i.
     modify (\<lambda>s. s\<lparr>zs_work := (zs_work s)\<lparr>az_outbox := dict_set (ob_id row)
       (row\<lparr>ob_state := Ob_published, ob_event := Some i, ob_updated_at := now\<rparr>) (az_outbox (zs_work s))\<rparr>\<rparr>))"

definition publish_pending_batch :: "faults \<Rightarrow> instant \<Rightarrow> nat \<Rightarrow> nat authz_op" where
  "publish_pending_batch faults now n = bindE (gets (\<lambda>s. pending_batch now n (zs_work s))) (\<lambda>batch.
     bindE (for_each (publish_row faults now) batch) (\<lambda>_.
     bindE (zs_commit faults) (\<lambda>_. ret (length batch))))"

end
