(* ===== verification/Authz_Contracts.thy ===== *)
theory Authz_Contracts
  imports Authz
begin

section \<open>What authorization promises\<close>

text \<open>
  Which outcomes a call of the authorization service can have, that every decision adds one event, and the reachable
  states of its tables.
\<close>

subsection \<open>Audited decisions\<close>

definition add_event :: "uuid \<Rightarrow> authz_event \<Rightarrow> authz_db \<Rightarrow> authz_db" where
  "add_event i e d = d\<lparr>az_events := dict_set i e (az_events d)\<rparr>"

text \<open>The database failed: nothing is saved, and the answer says only that the service is unavailable.\<close>

definition fails_closed :: "authz_state \<Rightarrow> action \<Rightarrow> authz_error + authz_decision \<Rightarrow> authz_state \<Rightarrow> bool" where
  "fails_closed s a r t \<longleftrightarrow> zs_saved t = zs_saved s \<and> zs_next s \<le> zs_next t \<and>
     (\<exists>why \<in> {Audit_persist_failed, Fact_store_unavailable}. r = Inr (refusal why (action_value a) None None))"

lemma attempt_run:
  "attempt m s = (r, t) \<longleftrightarrow> (\<exists>x. m s = (Inr x, t) \<and> r = Inr (Some x)) \<or> (\<exists>e. m s = (Inl e, t) \<and> r = Inr None)"
  by (auto simp: attempt_def run split: prod.splits sum.splits)

lemma put_run:
  "zs_put faults k f s = (if authz_rows_ok (f (zs_work s)) \<and> \<not> faults k then Inr () else Inl Repo_error,
     s\<lparr>zs_work := f (zs_work s)\<rparr>)"
  by (simp add: zs_put_def run)

lemma commit_decision_run:
  assumes "commit_decision faults a d s = (r, t)"
  shows "zs_next t = zs_next s \<and> (r = Inr d \<and> \<not> faults Commit \<and> zs_saved t = zs_work s \<or> fails_closed s a r t)"
  using assms by (auto simp: commit_decision_def attempt_def zs_commit_def zs_rollback_def run fails_closed_def
      split: if_splits)

lemma audited_run:
  assumes "audited faults a e d s = (r, t)"
  shows "r = Inr d \<and> zs_saved t = add_event (zs_next s) e (zs_work s) \<and> authz_rows_ok (zs_saved t) \<and> zs_next t = zs_next s + 1 \<or>
    fails_closed s a r t"
proof (cases "authz_rows_ok (add_event (zs_next s) e (zs_work s)) \<and> \<not> faults Insert_event")
  case True
  with assms commit_decision_run[of faults a d "s\<lparr>zs_next := zs_next s + 1, zs_work := add_event (zs_next s) e (zs_work s)\<rparr>" r t]
  show ?thesis
    by (auto simp: audited_def persist_audit_def attempt_def insert_security_event_def zs_fresh_def put_run run
        fails_closed_def add_event_def)
next
  case False
  with assms show ?thesis
    by (auto simp: audited_def persist_audit_def attempt_def insert_security_event_def zs_fresh_def put_run run
        zs_rollback_def fails_closed_def add_event_def split: if_splits)
qed

subsection \<open>The outcomes of a call\<close>

text \<open>
  What a call may do: refuse with an event and no other change, allow a reading call without a change,
  allow a change of one ownership row together with its event, refuse an invalid request, or fail closed.
\<close>

definition refused_with ::
  "instant \<Rightarrow> authz_request \<Rightarrow> action \<Rightarrow> authz_state \<Rightarrow> authz_error + authz_decision \<Rightarrow> authz_state \<Rightarrow> bool" where
  "refused_with now q a s r t \<longleftrightarrow> (\<exists>why rt rr meta i.
     r = Inr (refusal why (action_value a) rt rr) \<and> zs_next s \<le> i \<and> i < zs_next t \<and> why \<notin> {Audit_persist_failed, Fact_store_unavailable, Validation} \<and>
     zs_saved t = add_event i (build_event now q a (Some why) False False rt rr meta) (zs_saved s) \<and>
     authz_rows_ok (zs_saved t))"

definition permits :: "authz_request \<Rightarrow> action \<Rightarrow> authz_db \<Rightarrow> authz_decision \<Rightarrow> bool" where
  "permits q a d out \<longleftrightarrow>
     (if a = Route_exclude_self
      then ad_filtered out \<noteq> [] \<and> (\<forall>c \<in> set (ad_filtered out). rc_owner c \<noteq> ar_user q \<and> rc_status c = ''active'' \<and>
        (\<exists>x. owned_as ''seller_key'' (rc_resource c) d = [x] \<and> ow_owner x = rc_owner c \<and> ow_status x = rc_status c))
      else a \<in> set create_actions \<or> (\<exists>rt rr x. type_for q a = Some rt \<and> ar_resource q = Some rr \<and> owned_as rt rr d = [x] \<and>
        ow_owner x = ar_user q \<and> ow_status x \<noteq> ''soft_deleted'' \<and> (a = Proxy_key_use \<longrightarrow> ow_status x = ''active'')))"

definition read_only ::
  "authz_request \<Rightarrow> action \<Rightarrow> authz_state \<Rightarrow> authz_error + authz_decision \<Rightarrow> authz_state \<Rightarrow> bool" where
  "read_only q a s r t \<longleftrightarrow> (\<exists>d. r = Inr d \<and> ad_allowed d \<and> zs_saved t = zs_saved s \<and> zs_next t = zs_next s \<and> permits q a (zs_saved s) d)"

text \<open>A row is new, or develops: who owns what never changes.\<close>

definition ownership_becomes :: "ownership \<Rightarrow> ownership \<Rightarrow> bool" where
  "ownership_becomes x y \<longleftrightarrow> ow_id y = ow_id x \<and> ow_type y = ow_type x \<and> ow_resource y = ow_resource x \<and>
     ow_owner y = ow_owner x \<and> ow_created_at y = ow_created_at x \<and> ow_version x \<le> ow_version y \<and>
     (ow_status x = ''soft_deleted'' \<longrightarrow> y = x)"

definition writes_row :: "authz_request \<Rightarrow> uuid \<Rightarrow> authz_db \<Rightarrow> ownership \<Rightarrow> bool" where
  "writes_row q n d y \<longleftrightarrow> ow_owner y = ar_user q \<and>
     (ow_id y \<ge> n \<and> ow_version y = 1 \<or>
      (\<exists>x. x \<in> set (dict_values (az_owned d)) \<and> ow_owner x = ar_user q \<and> ow_status x \<noteq> ''soft_deleted'' \<and>
         ownership_becomes x y))"

definition changed_with ::
  "instant \<Rightarrow> authz_request \<Rightarrow> action \<Rightarrow> authz_state \<Rightarrow> authz_error + authz_decision \<Rightarrow> authz_state \<Rightarrow> bool" where
  "changed_with now q a s r t \<longleftrightarrow> (\<exists>d y i. r = Inr d \<and> ad_allowed d \<and> ad_view d = Some (resource_view y) \<and>
     zs_next s \<le> i \<and> i < zs_next t \<and> permits q a (zs_saved s) d \<and> writes_row q (zs_next s) (zs_saved s) y \<and>
     ow_id y < i \<and>
     zs_saved t = add_event i (build_event now q a None True True (Some (ow_type y)) (Some (ow_resource y)) [])
       (save_owned y (zs_saved s)) \<and>
     authz_rows_ok (zs_saved t))"

definition outcomes ::
  "instant \<Rightarrow> authz_request \<Rightarrow> action \<Rightarrow> authz_state \<Rightarrow> authz_error + authz_decision \<Rightarrow> authz_state \<Rightarrow> bool" where
  "outcomes now q a s r t \<longleftrightarrow> refused_with now q a s r t \<or> read_only q a s r t \<or> changed_with now q a s r t \<or>
     fails_closed s a r t \<or>
     zs_saved t = zs_saved s \<and> zs_next t = zs_next s \<and> (r = Inl Repo_error \<or> r = Inr (refusal Validation (action_value a) None None))"

lemma outcomes_cases:
  "refused_with now q a s r t \<or> fails_closed s a r t \<Longrightarrow> outcomes now q a s r t"
  "read_only q a s r t \<or> fails_closed s a r t \<Longrightarrow> outcomes now q a s r t"
  "changed_with now q a s r t \<or> fails_closed s a r t \<Longrightarrow> outcomes now q a s r t"
  by (auto simp: outcomes_def)

lemma denied_outcome:
  assumes "denied faults now q a why rt rr meta s = (r, t)" "zs_work s = zs_saved s"
    and "why \<notin> {Audit_persist_failed, Fact_store_unavailable, Validation}"
  shows "refused_with now q a s r t \<or> fails_closed s a r t"
  using audited_run[OF assms(1)[unfolded denied_def]] assms(2,3) unfolding refused_with_def
  by (metis le_refl less_add_one)

lemma reading_outcome:
  assumes "finalize_allowed faults now q a False rt rr meta d s = (r, t)" "zs_work s = zs_saved s"
    and "ad_allowed d" "permits q a (zs_saved s) d"
  shows "read_only q a s r t \<or> fails_closed s a r t"
  using commit_decision_run[of faults a d s r t] assms
  by (auto simp: finalize_allowed_def requires_audit_def read_only_def)

lemma changing_outcome:
  assumes "finalize_allowed faults now q a True (Some (ow_type y)) (Some (ow_resource y)) [] (grant_for a y) u = (r, t)"
    and "zs_work u = save_owned y (zs_saved s)" "zs_saved u = zs_saved s" "zs_next s \<le> zs_next u" "ow_id y < zs_next u"
    and "permits q a (zs_saved s) (grant_for a y)" "writes_row q (zs_next s) (zs_saved s) y"
  shows "changed_with now q a s r t \<or> fails_closed s a r t"
proof -
  have "audited faults a (build_event now q a None True True (Some (ow_type y)) (Some (ow_resource y)) [])
      (grant_for a y) u = (r, t)"
    using assms(1) by (simp add: finalize_allowed_def requires_audit_def)
  from audited_run[OF this] show ?thesis
  proof
    assume saved: "r = Inr (grant_for a y) \<and> zs_saved t = add_event (zs_next u)
        (build_event now q a None True True (Some (ow_type y)) (Some (ow_resource y)) []) (zs_work u) \<and>
      authz_rows_ok (zs_saved t) \<and> zs_next t = zs_next u + 1"
    have "zs_next u < zs_next t" using saved by simp
    moreover have "ad_allowed (grant_for a y)" "ad_view (grant_for a y) = Some (resource_view y)"
      by (simp_all add: grant_for_def grant_def)
    ultimately show ?thesis using saved assms(2,4-7) unfolding changed_with_def by metis
  qed (use assms(3,4) in \<open>simp add: fails_closed_def\<close>)
qed

subsection \<open>Candidates\<close>

lemma exclude_fold:
  "foldl (\<lambda>(kept, n) c. if rc_owner c = buyer \<or> rc_status c \<noteq> ''active'' then (kept, n + 1) else (kept @ [c], n)) (ks, m) cs =
     (ks @ filter (\<lambda>c. rc_owner c \<noteq> buyer \<and> rc_status c = ''active'') cs,
      m + length (filter (\<lambda>c. rc_owner c = buyer \<or> rc_status c \<noteq> ''active'') cs))"
  by (induction cs arbitrary: ks m) auto

lemma exclude_filters:
  "exclude_self_owned buyer cs = (filter (\<lambda>c. rc_owner c \<noteq> buyer \<and> rc_status c = ''active'') cs,
     length (filter (\<lambda>c. rc_owner c = buyer \<or> rc_status c \<noteq> ''active'') cs))"
  by (simp add: exclude_self_owned_def exclude_fold)

lemma get_ownership_run:
  "get_ownership faults rt rr s = (r, t) \<Longrightarrow> t = s \<and>
     (r = Inl Repo_error \<or> r = Inr None \<and> owned_as rt rr (zs_work s) = [] \<or>
      (\<exists>x. r = Inr (Some x) \<and> owned_as rt rr (zs_work s) = [x]))"
  by (auto simp: get_ownership_def run split: if_splits list.splits)

lemma resolve_run:
  "resolve_candidates faults cs s = (r, t) \<Longrightarrow> t = s \<and> (\<forall>ds. r = Inr ds \<longrightarrow>
     (\<forall>d \<in> set ds. rc_status d = ''active'' \<longrightarrow> (\<exists>x. owned_as ''seller_key'' (rc_resource d) (zs_work s) = [x] \<and>
        ow_owner x = rc_owner d \<and> ow_status x = rc_status d)))"
proof (induction cs arbitrary: r t)
  case (Cons c cs)
  obtain g u where g: "get_ownership faults ''seller_key'' (rc_resource c) s = (g, u)" by fastforce
  obtain q v where q: "resolve_candidates faults cs s = (q, v)" by fastforce
  note g' = get_ownership_run[OF g] and IH = Cons.IH[OF q]
  have named: "ow_resource x = rc_resource c" if "owned_as ''seller_key'' (rc_resource c) (zs_work s) = [x]" for x
  proof -
    have "x \<in> set (owned_as ''seller_key'' (rc_resource c) (zs_work s))" using that by simp
    then show ?thesis by (simp add: owned_as_def rows_def)
  qed
  from Cons.prems g g' q IH named show ?case
    by (auto simp: run split: sum.splits option.splits)
qed (simp add: run)

lemma route_outcome:
  assumes "bindE (resolve_candidates faults (ar_candidates q)) (authorize_route faults now q) s = (r, t)"
    and "zs_work s = zs_saved s"
  shows "outcomes now q Route_exclude_self s r t"
proof -
  obtain g u where g: "resolve_candidates faults (ar_candidates q) s = (g, u)" by fastforce
  note known = resolve_run[OF g]
  show ?thesis
  proof (cases g)
    case (Inl e)
    with assms(1) g known show ?thesis by (cases e) (auto simp: outcomes_def run)
  next
    case (Inr cs)
    let ?kept = "filter (\<lambda>c. rc_owner c \<noteq> ar_user q \<and> rc_status c = ''active'') cs"
    have run: "authorize_route faults now q cs s = (r, t)" using assms(1) g known Inr by (simp add: bindE_def)
    show ?thesis
    proof (cases "?kept = []")
      case True
      with run have "denied faults now q Route_exclude_self Self_route_empty None None
          [(''input_count'', int (length cs)), (''excluded_count'', int (snd (exclude_self_owned (ar_user q) cs)))] s = (r, t)"
        by (simp add: authorize_route_def exclude_filters)
      from denied_outcome[OF this assms(2)] show ?thesis by (auto simp: outcomes_def)
    next
      case False
      let ?d = "(grant Route_exclude_self None None)
        \<lparr>ad_filtered := ?kept, ad_excluded := snd (exclude_self_owned (ar_user q) cs)\<rparr>"
      have allowed: "ad_allowed ?d" by (simp add: grant_def)
      have permits: "permits q Route_exclude_self (zs_saved s) ?d"
        using known Inr False assms(2) by (fastforce simp: permits_def)
      from run False obtain meta where
        "finalize_allowed faults now q Route_exclude_self False None None meta ?d s = (r, t)"
        by (auto simp: authorize_route_def exclude_filters)
      from reading_outcome[OF this assms(2) allowed permits] show ?thesis by (auto simp: outcomes_def)
    qed
  qed
qed

subsection \<open>Creates and resources\<close>

lemma owned_row_stored:
  assumes "owned_as rt rr d = [x]"
  shows "x \<in> set (dict_values (az_owned d))" "ow_type x = rt" "ow_resource x = rr"
proof -
  have "x \<in> set (owned_as rt rr d)" using assms by simp
  then show "x \<in> set (dict_values (az_owned d))" "ow_type x = rt" "ow_resource x = rr"
    by (auto simp: owned_as_def rows_def)
qed

lemma failed_write:
  "bindE zs_rollback (\<lambda>_. denied_silently a Fact_store_unavailable) u = (r, t) \<Longrightarrow> zs_saved u = zs_saved s \<Longrightarrow>
     zs_next s \<le> zs_next u \<Longrightarrow> fails_closed s a r t"
  by (auto simp: zs_rollback_def denied_silently_def run fails_closed_def)

lemma create_run:
  assumes "create_ownership faults now rt rid owner rq s = (r, u)"
  shows "zs_saved u = zs_saved s \<and> zs_next s \<le> zs_next u \<and> (\<forall>y. r = Inr y \<longrightarrow> zs_work u = save_owned y (zs_work s) \<and>
     ow_owner y = owner \<and> zs_next s \<le> ow_id y \<and> ow_id y < zs_next u \<and> ow_version y = 1)"
  using assms by (auto simp: create_ownership_def zs_fresh_def put_run run Let_def split: option.splits if_splits)

lemma create_outcome:
  assumes "authorize_create faults now q a s = (r, t)" "zs_work s = zs_saved s" "a \<in> set create_actions"
  shows "outcomes now q a s r t"
proof (cases "ar_apply q")
  case False
  have "permits q a (zs_saved s) (grant a (type_for q a) None)" "ad_allowed (grant a (type_for q a) None)"
    using assms(3) by (auto simp: permits_def create_actions_def grant_def)
  with False assms(1) show ?thesis
    by (intro outcomes_cases(2) reading_outcome[OF _ assms(2)]) (auto simp: authorize_create_def)
next
  case True
  obtain g u where g: "create_ownership faults now (or_str (type_for q a) ''proxy_key'') (ar_resource q) (ar_user q)
      (ar_request q) s = (g, u)" by fastforce
  note made = create_run[OF g]
  show ?thesis
  proof (cases g)
    case (Inl e)
    with True assms(1) g have "bindE zs_rollback (\<lambda>_. denied_silently a Fact_store_unavailable) u = (r, t)"
      by (auto simp: authorize_create_def attempt_def run)
    from failed_write[OF this, of s] made show ?thesis by (auto simp: outcomes_def)
  next
    case (Inr y)
    with True assms(1) g have "finalize_allowed faults now q a True (Some (ow_type y)) (Some (ow_resource y)) []
        (grant_for a y) u = (r, t)" by (auto simp: authorize_create_def attempt_def run)
    moreover have "permits q a (zs_saved s) (grant_for a y)" using assms(3) by (auto simp: permits_def create_actions_def)
    moreover have "writes_row q (zs_next s) (zs_saved s) y" using made Inr by (simp add: writes_row_def)
    ultimately show ?thesis using made Inr assms(2)
      by (intro outcomes_cases(3) changing_outcome[of faults now q a y u r t s]) auto
  qed
qed

lemma update_run:
  assumes "update_ownership_status faults now x v s = (r, u)"
  shows "zs_saved u = zs_saved s \<and> zs_next u = zs_next s \<and> (\<forall>y. r = Inr y \<longrightarrow> zs_work u = save_owned y (zs_work s) \<and>
     y = x\<lparr>ow_status := v, ow_version := ow_version x + 1, ow_updated_at := now\<rparr>)"
  using assms by (auto simp: update_ownership_status_def put_run run Let_def split: if_splits)

lemma owned_outcome:
  assumes "authorize_owned faults now q a rt rr x s = (r, t)" "zs_work s = zs_saved s"
    and row: "owned_as rt rr (zs_saved s) = [x]" "ow_owner x = ar_user q" "ow_status x \<noteq> ''soft_deleted''"
    and asked: "type_for q a = Some rt" "ar_resource q = Some rr" "a \<noteq> Route_exclude_self"
    and old: "\<And>x. x \<in> set (dict_values (az_owned (zs_saved s))) \<Longrightarrow> ow_id x < zs_next s"
  shows "outcomes now q a s r t"
proof -
  consider (inactive) "a = Proxy_key_use" "ow_status x \<noteq> ''active''"
    | (change) "ar_apply q" "a \<in> {Proxy_key_revoke, Seller_key_disable, Seller_key_update}"
    | (reading) "a = Proxy_key_use \<longrightarrow> ow_status x = ''active''" "\<not> (ar_apply q \<and> a \<in> {Proxy_key_revoke, Seller_key_disable, Seller_key_update})"
    by blast
  then show ?thesis
  proof cases
    case inactive
    with assms(1) have "denied faults now q a Resource_missing (Some rt) (Some rr) [] s = (r, t)"
      by (simp add: authorize_owned_def)
    from denied_outcome[OF this assms(2)] show ?thesis by (auto simp: outcomes_def)
  next
    case reading
    have "permits q a (zs_saved s) (grant_for a x)" "ad_allowed (grant_for a x)"
      using row asked reading(1) by (auto simp: permits_def grant_for_def grant_def)
    moreover have "finalize_allowed faults now q a False (Some (ow_type x)) (Some (ow_resource x)) [] (grant_for a x) s = (r, t)"
      using assms(1) reading by (auto simp: authorize_owned_def)
    ultimately show ?thesis by (intro outcomes_cases(2) reading_outcome[OF _ assms(2)])
  next
    case change
    obtain g u where g: "update_ownership_status faults now x (status_after q a x) s = (g, u)" by fastforce
    note made = update_run[OF g]
    have step: "bindE (attempt (update_ownership_status faults now x (status_after q a x))) (\<lambda>made. case made of
             None \<Rightarrow> bindE zs_rollback (\<lambda>_. denied_silently a Fact_store_unavailable)
           | Some y \<Rightarrow> finalize_allowed faults now q a True (Some (ow_type y)) (Some (ow_resource y)) [] (grant_for a y)) s = (r, t)"
      using assms(1) change by (auto simp: authorize_owned_def)
    show ?thesis
    proof (cases g)
      case (Inl e)
      with step g have "bindE zs_rollback (\<lambda>_. denied_silently a Fact_store_unavailable) u = (r, t)"
        by (simp add: attempt_def run)
      from failed_write[OF this, of s] made show ?thesis by (auto simp: outcomes_def)
    next
      case (Inr y)
      with step g have last: "finalize_allowed faults now q a True (Some (ow_type y)) (Some (ow_resource y)) []
          (grant_for a y) u = (r, t)" by (simp add: attempt_def run)
      have permits: "permits q a (zs_saved s) (grant_for a y)" using row asked change by (auto simp: permits_def)
      have y: "y = x\<lparr>ow_status := status_after q a x, ow_version := ow_version x + 1, ow_updated_at := now\<rparr>"
        using made Inr by simp
      then have "ownership_becomes x y" using row(3) by (simp add: ownership_becomes_def)
      then have writes: "writes_row q (zs_next s) (zs_saved s) y"
        using owned_row_stored(1)[OF row(1)] row(2,3) y unfolding writes_row_def by auto
      have "ow_id y < zs_next u" using old[OF owned_row_stored(1)[OF row(1)]] y made by simp
      with made Inr assms(2) show ?thesis
        by (intro outcomes_cases(3) changing_outcome[OF last _ _ _ _ permits writes]) auto
    qed
  qed
qed

lemma resource_outcome:
  assumes "authorize_resource faults now q a s = (r, t)" "zs_work s = zs_saved s" "a \<noteq> Route_exclude_self"
    and old: "\<And>x. x \<in> set (dict_values (az_owned (zs_saved s))) \<Longrightarrow> ow_id x < zs_next s"
  shows "outcomes now q a s r t"
proof (cases "type_for q a = None \<or> ar_resource q = None")
  case True
  with assms(1) show ?thesis by (auto simp: authorize_resource_def outcomes_def run split: option.splits)
next
  case False
  then obtain rt rr where asked: "type_for q a = Some rt" "ar_resource q = Some rr" by auto
  obtain g u where g: "get_ownership faults rt rr s = (g, u)" by fastforce
  note found = get_ownership_run[OF g]
  show ?thesis
  proof (cases g)
    case (Inl e)
    with assms(1) asked g found show ?thesis
      by (auto simp: authorize_resource_def outcomes_def attempt_def denied_silently_def fails_closed_def run)
  next
    case (Inr row)
    with assms(1) asked g found have rest: "(case ownership_reason row (ar_user q) of
        Some why \<Rightarrow> denied faults now q a why (Some rt) (Some rr) []
      | None \<Rightarrow> authorize_owned faults now q a rt rr (the row)) s = (r, t)"
      by (auto simp: authorize_resource_def attempt_def run)
    show ?thesis
    proof (cases "ownership_reason row (ar_user q)")
      case (Some why)
      then have "why \<notin> {Audit_persist_failed, Fact_store_unavailable, Validation}"
        by (auto simp: ownership_reason_def split: option.splits if_splits)
      with rest Some show ?thesis by (intro outcomes_cases(1) denied_outcome[OF _ assms(2)]) auto
    next
      case None
      then obtain x where x: "row = Some x" "ow_owner x = ar_user q" "ow_status x \<noteq> ''soft_deleted''"
        by (auto simp: ownership_reason_def split: option.splits if_splits)
      with found Inr assms(2) have "owned_as rt rr (zs_saved s) = [x]" by auto
      from owned_outcome[OF _ assms(2) this x(2,3) asked assms(3) old] rest None x(1) show ?thesis by simp
    qed
  qed
qed

lemma authorize_outcomes:
  assumes "zs_serve (authorize_request faults now q) s = (r, t)" "parse_action (ar_action q) = Some a"
    and old: "\<And>x. x \<in> set (dict_values (az_owned (zs_saved s))) \<Longrightarrow> ow_id x < zs_next s"
  shows "outcomes now q a s r t \<and> zs_work t = zs_saved t \<and>
    ((\<exists>d. r = Inr d \<and> ad_allowed d) \<longrightarrow> (\<exists>u. dict_get (az_users (zs_saved s)) (ar_user q) = Some u \<and>
      account_reason u = None \<and> role_allows q u a))"
proof -
  let ?s = "s\<lparr>zs_work := zs_saved s\<rparr>"
  from assms(1) obtain w where w: "authorize_request faults now q ?s = (r, w)" and t: "t = w\<lparr>zs_work := zs_saved w\<rparr>"
    by (auto simp: zs_serve_def split: prod.splits)
  have same: "outcomes now q a ?s r w \<Longrightarrow> outcomes now q a s r t"
    by (simp add: t outcomes_def refused_with_def read_only_def changed_with_def fails_closed_def)
  have refusing: "\<not> (\<exists>d. r = Inr d \<and> ad_allowed d)" if "denied faults now q a why rt rr meta ?s = (r, w)" for why rt rr meta
    using audited_run[OF that[unfolded denied_def]] by (auto simp: fails_closed_def refusal_def)
  show ?thesis
  proof (cases "faults Get_user")
    case True
    with w assms(2) show ?thesis
      by (auto simp: authorize_request_def get_user_def attempt_def run denied_silently_def t outcomes_def fails_closed_def refusal_def)
  next
    case up: False
    show ?thesis
    proof (cases "dict_get (az_users (zs_saved s)) (ar_user q)")
      case None
      with w assms(2) up have run: "denied faults now q a Account_inactive None None [] ?s = (r, w)"
        by (simp add: authorize_request_def get_user_def attempt_def run)
      with refusing[OF run] show ?thesis using outcomes_cases(1)[OF denied_outcome[OF run]] same t by auto
    next
      case (Some u)
      with w assms(2) up have user: "authorize_user faults now q a u ?s = (r, w)"
        by (simp add: authorize_request_def get_user_def attempt_def run)
      show ?thesis
      proof (cases "account_reason u")
        case (Some why)
        with user have run: "denied faults now q a why None None [] ?s = (r, w)" by (simp add: authorize_user_def)
        from Some have "why \<notin> {Audit_persist_failed, Fact_store_unavailable, Validation}"
          by (auto simp: account_reason_def split: if_splits)
        with refusing[OF run] show ?thesis using outcomes_cases(1)[OF denied_outcome[OF run]] same t by auto
      next
        case active: None
        show ?thesis
        proof (cases "role_allows q u a")
          case False
          with user active have run: "denied faults now q a Role_denied (type_for q a) (ar_resource q) [] ?s = (r, w)"
            by (simp add: authorize_user_def)
          with refusing[OF run] show ?thesis using outcomes_cases(1)[OF denied_outcome[OF run]] same t by auto
        next
          case True
          note go = user[unfolded authorize_user_def]
          have "outcomes now q a ?s r w"
            using go active True route_outcome[where now = now and q = q and s = ?s] create_outcome[of faults now q a ?s r w]
              resource_outcome[of faults now q a ?s r w] old
            by (auto split: if_splits)
          with same Some active True t show ?thesis by simp
        qed
      qed
    qed
  qed
qed

subsection \<open>Reachable states\<close>

text \<open>
  Steps are decisions, requests put into the outbox and drained from it, and changes of the accounts by the
  services that own them, which never delete a user.
\<close>

definition add_to_outbox :: "faults \<Rightarrow> instant \<Rightarrow> authz_event \<Rightarrow> unit authz_op" where
  "add_to_outbox faults now e = bindE (insert_outbox now e) (\<lambda>_. zs_commit faults)"

inductive authz_step :: "authz_state \<Rightarrow> authz_state \<Rightarrow> bool" where
  decide: "zs_serve (authorize_request faults now q) s = (r, t) \<Longrightarrow> authz_step s t"
| enqueue: "zs_serve (add_to_outbox faults now e) s = (r, t) \<Longrightarrow> authz_step s t"
| drain: "zs_serve (publish_pending_batch faults now n) s = (r, t) \<Longrightarrow> authz_step s t"
| accounts: "(\<And>i. known (az_users (zs_saved s)) i \<Longrightarrow> known users i) \<Longrightarrow>
    authz_step s (s\<lparr>zs_saved := (zs_saved s)\<lparr>az_users := users\<rparr>\<rparr>)"

definition empty_authz :: authz_state where
  "empty_authz = (let d = \<lparr>az_users = [], az_owned = [], az_events = [], az_outbox = []\<rparr> in
     \<lparr>zs_saved = d, zs_work = d, zs_next = 0\<rparr>)"

definition authz_reach :: "authz_state \<Rightarrow> bool" where
  "authz_reach s \<longleftrightarrow> authz_step\<^sup>*\<^sup>* empty_authz s"

definition owned_of :: "authz_db \<Rightarrow> uuid \<Rightarrow> ownership option" where
  "owned_of d i = dict_get (az_owned d) i"

definition write_owned :: "uuid \<Rightarrow> ownership \<Rightarrow> authz_db \<Rightarrow> authz_db" where
  "write_owned i x d = d\<lparr>az_owned := dict_set i x (az_owned d)\<rparr>"

interpretation owned_table: keyed_store owned_of write_owned
  by unfold_locales (simp add: owned_of_def write_owned_def)

lemma written_owned [simp]:
  "az_events (write_owned i x d) = az_events d" "az_owned (write_owned i x d) = dict_set i x (az_owned d)"
  by (simp_all add: write_owned_def)

lemma save_owned_writes: "save_owned x = write_owned (ow_id x) x"
  by (simp add: fun_eq_iff save_owned_def write_owned_def)

definition authz_keyed :: "uuid \<Rightarrow> authz_db \<Rightarrow> bool" where
  "authz_keyed n d \<longleftrightarrow> dict_ok (az_owned d) \<and>
     all_stored owned_of (\<lambda>i x. ow_id x = i \<and> i < n) d \<and> (\<forall>i \<in> fst ` set (az_events d). i < n)"

definition authz_inv :: "uuid \<Rightarrow> authz_db \<Rightarrow> bool" where
  "authz_inv n d \<longleftrightarrow> authz_rows_ok d \<and> authz_keyed n d"

definition authz_grows :: "authz_db \<Rightarrow> authz_db \<Rightarrow> bool" where
  "authz_grows d e \<longleftrightarrow> entries_grow owned_of ownership_becomes d e \<and> (\<exists>es. az_events e = az_events d @ es)"

lemma ownership_becomes_order: "reflp ownership_becomes" "transp ownership_becomes"
  unfolding reflp_def transp_def ownership_becomes_def by auto

lemma authz_grows_order: "authz_grows d d" "authz_grows d e \<Longrightarrow> authz_grows e f \<Longrightarrow> authz_grows d f"
  unfolding authz_grows_def
  using ownership_becomes_order by (auto intro: entries_grow_refl entries_grow_trans)

lemma authz_rows:
  assumes "authz_keyed n d" "x \<in> set (dict_values (az_owned d))"
  shows "owned_of d (ow_id x) = Some x" "ow_id x < n"
proof -
  from assms obtain i where i: "owned_of d i = Some x"
    by (auto simp: authz_keyed_def owned_of_def elim: dict_values_get)
  with assms(1) have "ow_id x = i" "i < n" by (auto simp: authz_keyed_def dest: all_storedD)
  with i show "owned_of d (ow_id x) = Some x" "ow_id x < n" by auto
qed

lemma keyed_mono: "authz_keyed n d \<Longrightarrow> n \<le> m \<Longrightarrow> authz_keyed m d"
  unfolding authz_keyed_def all_stored_def using order_less_le_trans by blast

lemma keyed_event:
  assumes "authz_keyed n d" "n \<le> i" "i < m"
  shows "authz_keyed m (add_event i e d) \<and> authz_grows d (add_event i e d)"
proof -
  have "i \<notin> fst ` set (az_events d)" using assms(1,2) by (auto simp: authz_keyed_def)
  then have "dict_get (az_events d) i = None" by (auto simp: dict_get_def map_of_eq_None_iff)
  then have events: "az_events (add_event i e d) = az_events d @ [(i, e)]" by (simp add: add_event_def dict_set_new)
  have tables: "owned_of (add_event i e d) = owned_of d" "az_owned (add_event i e d) = az_owned d"
    by (simp_all add: fun_eq_iff owned_of_def add_event_def)
  have "authz_keyed m d" using keyed_mono[OF assms(1)] assms(2,3) by simp
  then have "authz_keyed m (add_event i e d)" using assms(3) by (simp add: authz_keyed_def events tables all_stored_def)
  moreover have "authz_grows d (add_event i e d)"
    using ownership_becomes_order(1) by (auto simp: authz_grows_def events entries_grow_def tables reflp_def)
  ultimately show ?thesis ..
qed

lemma keyed_owned:
  assumes "authz_keyed n d" "n \<le> m" "ow_id y < m" "\<And>x. owned_of d (ow_id y) = Some x \<Longrightarrow> ownership_becomes x y"
  shows "authz_keyed m (save_owned y d) \<and> authz_grows d (save_owned y d)"
proof -
  have events: "az_events (save_owned y d) = az_events d" by (simp add: save_owned_def)
  have "authz_keyed m d" using keyed_mono assms(1,2) by blast
  then have "authz_keyed m (save_owned y d)"
    using assms(3) unfolding authz_keyed_def events all_stored_def
    by (simp add: save_owned_writes owned_table.get_put)
  moreover have "authz_grows d (save_owned y d)"
    using assms(4) ownership_becomes_order(1)
    by (auto simp: authz_grows_def events entries_grow_def save_owned_writes owned_table.get_put reflp_def)
  ultimately show ?thesis ..
qed

lemma outcome_grows:
  assumes inv: "authz_inv (zs_next s) (zs_saved s)" and out: "outcomes now q a s r t"
  shows "authz_inv (zs_next t) (zs_saved t) \<and> authz_grows (zs_saved s) (zs_saved t) \<and> zs_next s \<le> zs_next t"
proof -
  from inv have keyed: "authz_keyed (zs_next s) (zs_saved s)" by (simp add: authz_inv_def)
  consider (refused) "refused_with now q a s r t" | (changed) "changed_with now q a s r t"
    | (rest) "zs_saved t = zs_saved s" "zs_next s \<le> zs_next t"
    using out by (auto simp: outcomes_def read_only_def fails_closed_def)
  then show ?thesis
  proof cases
    case refused
    then obtain i e where e: "zs_saved t = add_event i e (zs_saved s)" "authz_rows_ok (zs_saved t)" "zs_next s \<le> i" "i < zs_next t"
      unfolding refused_with_def by blast
    with keyed_event[OF keyed e(3,4)] show ?thesis by (simp add: authz_inv_def)
  next
    case changed
    then obtain y i e where y: "writes_row q (zs_next s) (zs_saved s) y" "ow_id y < i" "zs_next s \<le> i" "i < zs_next t"
      and t: "zs_saved t = add_event i e (save_owned y (zs_saved s))" "authz_rows_ok (zs_saved t)"
      unfolding changed_with_def by blast
    have old: "ownership_becomes x y" if x: "owned_of (zs_saved s) (ow_id y) = Some x" for x
    proof -
      have "ow_id y < zs_next s" using keyed x by (auto simp: authz_keyed_def dest: all_storedD)
      then obtain z where z: "z \<in> set (dict_values (az_owned (zs_saved s)))" "ownership_becomes z y"
        using y(1) by (auto simp: writes_row_def)
      from z(2) have "ow_id y = ow_id z" by (simp add: ownership_becomes_def)
      with authz_rows(1)[OF keyed z(1)] x z(2) show ?thesis by simp
    qed
    from keyed_owned[OF keyed y(3,2) old] have mid: "authz_keyed i (save_owned y (zs_saved s))"
      "authz_grows (zs_saved s) (save_owned y (zs_saved s))" by auto
    from keyed_event[OF mid(1) order.refl y(4)] t mid(2) authz_grows_order(2) y(3,4) show ?thesis
      by (auto simp: authz_inv_def)
  next
    case rest
    with inv keyed_mono[OF keyed] show ?thesis by (simp add: authz_inv_def authz_grows_order(1))
  qed
qed

lemma publish_row_run:
  assumes "publish_row faults now row s = (r, t)"
  shows "zs_saved t = zs_saved s \<and> zs_next s \<le> zs_next t \<and>
    (r = Inr () \<longrightarrow> authz_inv (zs_next s) (zs_work s) \<longrightarrow>
       authz_inv (zs_next t) (zs_work t) \<and> authz_grows (zs_work s) (zs_work t))"
proof -
  let ?d = "add_event (zs_next s) (ob_payload row) (zs_work s)"
  have keyed: "authz_keyed (Suc (zs_next s)) ?d \<and> authz_grows (zs_work s) ?d" if "authz_keyed (zs_next s) (zs_work s)"
    using keyed_event[OF that, of "zs_next s" "Suc (zs_next s)"] by simp
  have outbox: "authz_keyed n (d\<lparr>az_outbox := x\<rparr>) = authz_keyed n d" "authz_grows d (e\<lparr>az_outbox := x\<rparr>) = authz_grows d e"
    "authz_rows_ok (d\<lparr>az_outbox := x\<rparr>) = authz_rows_ok d" for n d e x
    by (simp_all add: authz_keyed_def authz_grows_def authz_rows_ok_def all_stored_def entries_grow_def owned_of_def)
  from assms keyed show ?thesis
    by (auto simp: publish_row_def insert_security_event_def zs_fresh_def put_run run add_event_def authz_inv_def outbox
        split: if_splits)
qed

lemma publish_rows_run:
  "for_each (publish_row faults now) batch s = (r, t) \<Longrightarrow> zs_saved t = zs_saved s \<and> zs_next s \<le> zs_next t \<and>
    (r = Inr () \<longrightarrow> authz_inv (zs_next s) (zs_work s) \<longrightarrow>
       authz_inv (zs_next t) (zs_work t) \<and> authz_grows (zs_work s) (zs_work t))"
proof (induction batch arbitrary: s)
  case Nil
  then show ?case by (simp add: run authz_grows_order(1))
next
  case (Cons row batch)
  obtain q u where first: "publish_row faults now row s = (q, u)" by fastforce
  note one = publish_row_run[OF first]
  show ?case
  proof (cases q)
    case (Inl e)
    with Cons.prems first one show ?thesis by (auto simp: bindE_def)
  next
    case (Inr v)
    with Cons.prems first have "for_each (publish_row faults now) batch u = (r, t)" by (simp add: bindE_def)
    from Cons.IH[OF this] one Inr show ?thesis using authz_grows_order(2) by auto
  qed
qed

lemma commit_run:
  "zs_commit faults s = (r, t) \<Longrightarrow> zs_next t = zs_next s \<and> (if r = Inr () then zs_saved t = zs_work s else zs_saved t = zs_saved s)"
  by (auto simp: zs_commit_def run split: if_splits)

lemma step_grows:
  assumes "authz_step s t" "authz_inv (zs_next s) (zs_saved s)"
  shows "authz_inv (zs_next t) (zs_saved t) \<and> authz_grows (zs_saved s) (zs_saved t)"
  using assms(1)
proof (cases rule: authz_step.cases)
  case (decide faults now q r)
  from assms(2) have "authz_keyed (zs_next s) (zs_saved s)" by (simp add: authz_inv_def)
  note old = authz_rows(2)[OF this]
  show ?thesis
  proof (cases "parse_action (ar_action q)")
    case None
    with decide assms(2) show ?thesis by (auto simp: zs_serve_def authorize_request_def run authz_grows_order(1))
  next
    case (Some a)
    with authorize_outcomes[OF decide(1) Some old] outcome_grows[OF assms(2)] show ?thesis by blast
  qed
next
  case (enqueue faults now e r)
  let ?s = "s\<lparr>zs_work := zs_saved s\<rparr>"
  from enqueue have "zs_next s \<le> zs_next t \<and> (zs_saved t = zs_saved s \<or> (\<exists>x. zs_saved t = (zs_saved s)\<lparr>az_outbox := x\<rparr>))"
    by (auto simp: zs_serve_def add_to_outbox_def insert_outbox_def zs_fresh_def zs_commit_def run split: if_splits)
  with assms(2) keyed_mono[of "zs_next s" "zs_saved s" "zs_next t"] show ?thesis
    by (auto simp: authz_inv_def authz_keyed_def authz_grows_def authz_rows_ok_def all_stored_def entries_grow_def owned_of_def
        ownership_becomes_order(1)[unfolded reflp_def])
next
  case (drain faults now n r)
  let ?s = "s\<lparr>zs_work := zs_saved s\<rparr>"
  obtain q u where rows: "for_each (publish_row faults now) (pending_batch now n (zs_saved s)) ?s = (q, u)" by fastforce
  note run_rows = publish_rows_run[OF rows]
  show ?thesis
  proof (cases q)
    case (Inl e)
    with drain rows run_rows assms(2) keyed_mono[of "zs_next s" "zs_saved s" "zs_next u"] show ?thesis
      by (auto simp: zs_serve_def publish_pending_batch_def run authz_inv_def authz_grows_order(1))
  next
    case (Inr v)
    obtain c w where c: "zs_commit faults u = (c, w)" by fastforce
    from drain rows Inr c have t: "zs_saved t = zs_saved w" "zs_next t = zs_next w"
      by (auto simp: zs_serve_def publish_pending_batch_def run split: sum.splits)
    from commit_run[OF c] t run_rows Inr assms(2) keyed_mono[of "zs_next s" "zs_saved s" "zs_next u"] show ?thesis
      by (auto simp: authz_grows_order(1) authz_inv_def split: if_splits)
  qed
next
  case (accounts users)
  have "owned_of ((zs_saved s)\<lparr>az_users := users\<rparr>) = owned_of (zs_saved s)" by (simp add: fun_eq_iff owned_of_def)
  moreover have "authz_rows_ok ((zs_saved s)\<lparr>az_users := users\<rparr>)"
    using assms(2) accounts(2) by (auto simp: authz_inv_def authz_rows_ok_def list_all_iff owned_row_ok_def)
  ultimately show ?thesis using assms(2) accounts(1)
    by (simp add: authz_inv_def authz_keyed_def authz_grows_def all_stored_def entries_grow_def
        ownership_becomes_order(1)[unfolded reflp_def])
qed

lemma steps_grow:
  "authz_step\<^sup>*\<^sup>* s t \<Longrightarrow> authz_inv (zs_next s) (zs_saved s) \<Longrightarrow>
     authz_inv (zs_next t) (zs_saved t) \<and> authz_grows (zs_saved s) (zs_saved t)"
proof (induction rule: rtranclp_induct)
  case (step t u)
  with step_grows[OF step(2)] authz_grows_order(2) show ?case by blast
qed (simp add: authz_grows_order(1))

lemma authz_reach_inv: "authz_reach s \<Longrightarrow> authz_inv (zs_next s) (zs_saved s)"
proof -
  have "authz_inv (zs_next empty_authz) (zs_saved empty_authz)"
    by (simp add: empty_authz_def Let_def authz_inv_def authz_keyed_def authz_rows_ok_def all_stored_def owned_of_def
        unique_on_def dict_values_def)
  then show "authz_reach s \<Longrightarrow> authz_inv (zs_next s) (zs_saved s)" using steps_grow by (auto simp: authz_reach_def)
qed

end
