(* ===== verification/Authz_Facts.thy ===== *)
theory Authz_Facts
  imports Authz_Contracts
begin

section \<open>Who is let through, what is recorded, what is revealed\<close>

text \<open>
  Only the entitled are allowed, decisions are recorded or refused, a missing and a foreign resource look the same;
  and a history on which these are evaluated.
\<close>

subsection \<open>Entitlement\<close>

lemma role_ceiling:
  assumes "role_allows q u a"
  shows "is_action_allowed (us_role u) a" "ar_workspace q = Some w \<Longrightarrow> is_action_allowed w a"
proof -
  let ?e = "effective_role (us_role u) (ar_workspace q)"
  have allowed: "is_action_allowed ?e a" and some: "?e \<noteq> []" using assms by (auto simp: role_allows_def)
  have sides: "?e = us_role u \<or> us_role u = ''both'' \<and> ?e \<in> {''buyer'', ''seller''}"
    using some by (auto simp: effective_role_def workspace_allowed_def workspaces_def split: option.splits if_splits)
  have both: "\<forall>r \<in> {''buyer'', ''seller''}. \<forall>b. is_action_allowed r b \<longrightarrow> is_action_allowed ''both'' b" by code_simp
  from sides show "is_action_allowed (us_role u) a"
  proof
    assume "us_role u = ''both'' \<and> ?e \<in> {''buyer'', ''seller''}"
    with both allowed show ?thesis by metis
  qed (use allowed in simp)
  show "is_action_allowed w a" if "ar_workspace q = Some w"
  proof -
    have "?e = w" using some that by (auto simp: effective_role_def workspace_allowed_def split: if_splits)
    with allowed show ?thesis by simp
  qed
qed

text \<open>C11 (safety). A request is allowed only for an active account that is not deleted, for an action that the
  role of the account includes and that the workspace of the session includes, and only on what the
  caller owns: routes through current, active keys of others, resources recorded as the caller's own and
  not deleted. What the client says of itself or of the candidates plays no part.\<close>

theorem allowed_only_entitled:
  assumes "authz_reach s" "zs_serve (authorize_request faults now q) s = (Inr d, t)" "ad_allowed d"
  shows "\<exists>a u. parse_action (ar_action q) = Some a \<and> dict_get (az_users (zs_saved s)) (ar_user q) = Some u \<and>
    us_status u = Us_active \<and> \<not> us_is_deleted u \<and> is_action_allowed (us_role u) a \<and>
    (case ar_workspace q of None \<Rightarrow> True | Some w \<Rightarrow> is_action_allowed w a) \<and> permits q a (zs_saved s) d"
proof -
  from assms(2,3) obtain a where a: "parse_action (ar_action q) = Some a"
    by (cases "parse_action (ar_action q)") (auto simp: zs_serve_def authorize_request_def run refusal_def)
  from authz_reach_inv[OF assms(1)] have keyed: "authz_keyed (zs_next s) (zs_saved s)" by (simp add: authz_inv_def)
  note out = authorize_outcomes[OF assms(2) a authz_rows(2)[OF keyed]]
  from out assms(3) obtain u where u: "dict_get (az_users (zs_saved s)) (ar_user q) = Some u" "account_reason u = None"
    "role_allows q u a" by blast
  from out assms(3) have "permits q a (zs_saved s) d"
    by (auto simp: outcomes_def refused_with_def read_only_def changed_with_def fails_closed_def refusal_def)
  moreover have "us_status u = Us_active" "\<not> us_is_deleted u"
    using u(2) by (auto simp: account_reason_def split: if_splits)
  ultimately show ?thesis using a u role_ceiling[OF u(3)] by (auto split: option.split)
qed

subsection \<open>Audit\<close>

text \<open>C22 (safety). A decision and its security event are saved together or not at all. A change of an ownership row
  comes with exactly one event for it; a refusal for a reason of the caller comes with exactly one event that
  names reason, caller and action, and changes no row; and when the event cannot be saved the call is refused
  as unavailable and saves nothing.\<close>

theorem decisions_recorded:
  assumes "authz_reach s" "zs_serve (authorize_request faults now q) s = (r, t)"
  shows "\<exists>es. az_events (zs_saved t) = az_events (zs_saved s) @ es \<and> length es \<le> 1 \<and>
    (if az_owned (zs_saved t) = az_owned (zs_saved s) then True
     else map (\<lambda>(i, e). (ez_type e, ez_actor e, ez_action e)) es =
       [(''authz.resource_state_change'', Some (ar_user q), ar_action q)]) \<and>
    (case r of Inl e \<Rightarrow> zs_saved t = zs_saved s
     | Inr d \<Rightarrow> if ad_allowed d then True
         else if ad_code d \<in> {Az_service_unavailable, Az_validation_error} then zs_saved t = zs_saved s
         else az_owned (zs_saved t) = az_owned (zs_saved s) \<and>
           map (\<lambda>(i, e). (ez_outcome e, Some (ez_reason e), ez_actor e, ez_action e)) es =
             [(''denied'', map_option reason_value (ad_reason d), Some (ar_user q), ar_action q)])"
proof (cases "parse_action (ar_action q)")
  case None
  with assms(2) show ?thesis by (auto simp: zs_serve_def authorize_request_def run refusal_def)
next
  case (Some a)
  then have named: "action_value a = ar_action q" by (auto simp: parse_action_def find_Some_iff)
  note inv = authz_reach_inv[OF assms(1)]
  from inv have keyed: "authz_keyed (zs_next s) (zs_saved s)" by (simp add: authz_inv_def)
  have added: "az_events (add_event i e d) = az_events d @ [(i, e)]"
    if "az_events d = az_events (zs_saved s)" "zs_next s \<le> i" for i e d
  proof -
    have "dict_get (az_events (zs_saved s)) i = None"
      using keyed that(2) by (auto simp: authz_keyed_def dict_get_def map_of_eq_None_iff)
    with that(1) show ?thesis by (simp add: add_event_def dict_set_new)
  qed
  from authorize_outcomes[OF assms(2) Some authz_rows(2)[OF keyed]]
  consider (refused) "refused_with now q a s r t" | (reading) "read_only q a s r t" | (changed) "changed_with now q a s r t"
    | (closed) "fails_closed s a r t"
    | (other) "zs_saved t = zs_saved s" "r = Inl Repo_error \<or> r = Inr (refusal Validation (action_value a) None None)"
    by (auto simp: outcomes_def)
  then show ?thesis
  proof cases
    case refused
    then obtain why rt rr meta i where r: "r = Inr (refusal why (action_value a) rt rr)"
      and why: "why \<notin> {Audit_persist_failed, Fact_store_unavailable, Validation}" and i: "zs_next s \<le> i"
      and t: "zs_saved t = add_event i (build_event now q a (Some why) False False rt rr meta) (zs_saved s)"
      unfolding refused_with_def by blast
    from why have "reason_to_public why \<notin> {Az_service_unavailable, Az_validation_error}" by (cases why) simp_all
    with r t added[OF refl i] named show ?thesis
      by (auto simp: refusal_def build_event_def add_event_def)
  next
    case reading
    then show ?thesis by (auto simp: read_only_def)
  next
    case changed
    then obtain d y i where r: "r = Inr d" "ad_allowed d" and i: "zs_next s \<le> i"
      and t: "zs_saved t = add_event i (build_event now q a None True True (Some (ow_type y)) (Some (ow_resource y)) [])
        (save_owned y (zs_saved s))"
      unfolding changed_with_def by blast
    have "az_events (save_owned y (zs_saved s)) = az_events (zs_saved s)" by (simp add: save_owned_def)
    from added[OF this i] r t named show ?thesis by (auto simp: build_event_def event_type_for_def save_owned_def)
  next
    case closed
    then show ?thesis by (auto simp: fails_closed_def refusal_def)
  next
    case other
    then show ?thesis by (auto simp: refusal_def)
  qed
qed

subsection \<open>Ownership is not revealed\<close>

text \<open>What a client sees of an answer.\<close>

definition public_view :: "authz_error + authz_decision \<Rightarrow> (bool \<times> int \<times> authz_code) option" where
  "public_view r = (case r of Inl e \<Rightarrow> None | Inr d \<Rightarrow> Some (ad_allowed d, ad_http d, ad_code d))"

definition none_of_yours :: "string \<Rightarrow> uuid \<Rightarrow> uuid \<Rightarrow> authz_db \<Rightarrow> bool" where
  "none_of_yours rt rr uid d \<longleftrightarrow> list_all (\<lambda>x. ow_owner x \<noteq> uid \<or> ow_status x = ''soft_deleted'') (owned_as rt rr d)"

lemma event_rows: "authz_rows_ok (add_event i e d) \<longleftrightarrow> event_row_ok e"
  if "authz_rows_ok d" "dict_get (az_events d) i = None"
  using that by (auto simp: authz_rows_ok_def add_event_def dict_set_new dict_values_def)

lemma denied_public:
  assumes "authz_inv (zs_next s) (zs_saved s)" "zs_work s = zs_saved s"
  shows "public_view (fst (denied faults now q a why rt rr meta s)) =
    (if \<not> faults Insert_event \<and> \<not> faults Commit \<and> event_row_ok (build_event now q a (Some why) False False rt rr meta)
     then Some (False, http_status_of (reason_to_public why), reason_to_public why)
     else Some (False, 503, Az_service_unavailable))"
proof -
  let ?e = "build_event now q a (Some why) False False rt rr meta"
  have "dict_get (az_events (zs_saved s)) (zs_next s) = None"
    using assms(1) by (auto simp: authz_inv_def authz_keyed_def dict_get_def map_of_eq_None_iff)
  from event_rows[OF _ this] assms have rows: "authz_rows_ok (add_event (zs_next s) ?e (zs_work s)) \<longleftrightarrow> event_row_ok ?e"
    by (simp add: authz_inv_def)
  show ?thesis
    using rows by (auto simp: denied_def audited_def persist_audit_def attempt_def insert_security_event_def zs_fresh_def
        put_run run zs_rollback_def commit_decision_def zs_commit_def public_view_def refusal_def add_event_def)
qed

lemma single_if_distinct: "distinct (replicate n x) \<Longrightarrow> n \<le> 1"
  by (cases n) (auto simp: set_replicate_conv_if split: if_splits)

text \<open>C29 (equivalence). A caller cannot find out whether a resource exists: in any two states in which the resource is
  missing, deleted or somebody else's, the same request of the same account gets the same answer.\<close>

theorem no_ownership_oracle:
  assumes reach: "authz_reach s" "authz_reach s'"
    and account: "dict_get (az_users (zs_saved s)) (ar_user q) = dict_get (az_users (zs_saved s')) (ar_user q)"
    and a: "parse_action (ar_action q) = Some a" "a \<notin> set create_actions" "a \<noteq> Route_exclude_self"
    and asked: "type_for q a = Some rt" "ar_resource q = Some rr"
    and none: "none_of_yours rt rr (ar_user q) (zs_saved s)" "none_of_yours rt rr (ar_user q) (zs_saved s')"
  shows "public_view (fst (zs_serve (authorize_request faults now q) s)) = public_view (fst (zs_serve (authorize_request faults now q) s'))"
proof -
  define missing where "missing = (if \<not> faults Insert_event \<and> \<not> faults Commit \<and>
      event_row_ok (build_event now q a (Some Not_owner) False False (Some rt) (Some rr) [])
     then Some (False, 404 :: int, Az_resource_not_found) else Some (False, 503, Az_service_unavailable))"
  have resource: "public_view (fst (authorize_resource faults now q a w)) =
      (if faults Get_ownership then Some (False, 503, Az_service_unavailable) else missing)"
    if w: "authz_inv (zs_next w) (zs_saved w)" "zs_work w = zs_saved w" "none_of_yours rt rr (ar_user q) (zs_saved w)" for w
  proof (cases "faults Get_ownership")
    case True
    with asked show ?thesis
      by (simp add: authorize_resource_def get_ownership_def attempt_def run denied_silently_def public_view_def refusal_def)
  next
    case False
    obtain g v where g: "get_ownership faults rt rr w = (g, v)" by fastforce
    have "distinct (map (\<lambda>r. (ow_type r, ow_resource r)) (dict_values (az_owned (zs_saved w))))"
      using w(1) by (simp add: authz_inv_def authz_rows_ok_def unique_on_def)
    then have "distinct (map (\<lambda>r. (ow_type r, ow_resource r)) (owned_as rt rr (zs_saved w)))"
      by (simp add: owned_as_def rows_def distinct_map_filter)
    moreover have "map (\<lambda>r. (ow_type r, ow_resource r)) (owned_as rt rr (zs_saved w)) =
        replicate (length (owned_as rt rr (zs_saved w))) (rt, rr)"
      by (rule replicate_eqI) (auto simp: owned_as_def rows_def)
    ultimately have few: "length (owned_as rt rr (zs_saved w)) \<le> 1" using single_if_distinct by metis
    then obtain row where row: "g = Inr row" "v = w" "row = None \<or> (\<exists>x. row = Some x \<and> owned_as rt rr (zs_saved w) = [x])"
      using g False w(2) by (auto simp: get_ownership_def run split: list.splits)
    then have "ownership_reason row (ar_user q) \<in> Some ` {Resource_missing, Resource_soft_deleted, Not_owner}"
      using w(3) by (auto simp: ownership_reason_def none_of_yours_def split: if_splits)
    then obtain why where why: "ownership_reason row (ar_user q) = Some why"
      "why \<in> {Resource_missing, Resource_soft_deleted, Not_owner}" by blast
    have "authorize_resource faults now q a w = denied faults now q a why (Some rt) (Some rr) [] w"
      using asked g row(1,2) why(1) by (simp add: authorize_resource_def attempt_def run)
    moreover have "event_row_ok (build_event now q a (Some why) False False (Some rt) (Some rr) []) =
        event_row_ok (build_event now q a (Some Not_owner) False False (Some rt) (Some rr) [])"
      using why(2) by (auto simp: event_row_ok_def build_event_def event_type_for_def)
    ultimately show ?thesis using why(2) denied_public[OF w(1,2)] False by (auto simp: missing_def)
  qed
  note inv = authz_reach_inv[OF reach(1)] authz_reach_inv[OF reach(2)]
  have answer: "public_view (fst (zs_serve (authorize_request faults now q) w)) =
     (if faults Get_user then Some (False, 503, Az_service_unavailable)
      else case dict_get (az_users (zs_saved w)) (ar_user q) of
          None \<Rightarrow> public_view (fst (denied faults now q a Account_inactive None None [] w'))
        | Some u \<Rightarrow> (case account_reason u of
            Some why \<Rightarrow> public_view (fst (denied faults now q a why None None [] w'))
          | None \<Rightarrow> if \<not> role_allows q u a
              then public_view (fst (denied faults now q a Role_denied (type_for q a) (ar_resource q) [] w'))
              else public_view (fst (authorize_resource faults now q a w'))))"
    if "w' = w\<lparr>zs_work := zs_saved w\<rparr>" for w w'
    using a that by (auto simp: zs_serve_def authorize_request_def get_user_def attempt_def run authorize_user_def
        denied_silently_def public_view_def refusal_def split: option.split prod.split)
  have up: "authz_inv (zs_next (w\<lparr>zs_work := zs_saved w\<rparr>)) (zs_saved (w\<lparr>zs_work := zs_saved w\<rparr>))"
    "zs_work (w\<lparr>zs_work := zs_saved w\<rparr>) = zs_saved (w\<lparr>zs_work := zs_saved w\<rparr>)"
    if "authz_inv (zs_next w) (zs_saved w)" for w using that by simp_all
  show ?thesis
    unfolding answer[OF refl] account
    using up[OF inv(1)] up[OF inv(2)] none by (simp add: denied_public resource split: option.split)
qed

subsection \<open>A concrete history\<close>

text \<open>Accounts 0 (both sides) and 1 (a buyer); account 0 registers a seller key, resource 50.\<close>

definition some_account :: "uuid \<Rightarrow> string \<Rightarrow> user" where
  "some_account i role = \<lparr>us_id = i, us_phone = ''13800000001'', us_nickname = ''n'', us_role = role,
     us_status = Us_active, us_is_deleted = False, us_version = 1, us_generation = 1\<rparr>"

definition some_request :: "uuid \<Rightarrow> string \<Rightarrow> uuid \<Rightarrow> bool \<Rightarrow> authz_request" where
  "some_request uid a rr apply_it = \<lparr>ar_user = uid, ar_session = None, ar_action = a, ar_request = ''r'', ar_type = None,
     ar_resource = Some rr, ar_candidates = [\<lparr>rc_resource = rr, rc_owner = 9, rc_status = ''any''\<rparr>],
     ar_workspace = None, ar_apply = apply_it, ar_status = None\<rparr>"

definition no_faults :: faults where
  "no_faults k = False"

definition two_accounts :: authz_state where
  "two_accounts = empty_authz\<lparr>zs_saved := (zs_saved empty_authz)
     \<lparr>az_users := [(0, some_account 0 ''both''), (1, some_account 1 ''buyer'')]\<rparr>\<rparr>"

definition one_key :: authz_state where
  "one_key = snd (zs_serve (authorize_request no_faults 0 (some_request 0 ''seller_key.register'' 50 True)) two_accounts)"

lemma authz_history: "authz_reach two_accounts" "authz_reach one_key"
proof -
  have "authz_step empty_authz two_accounts"
    unfolding two_accounts_def by (rule authz_step.accounts) (simp add: empty_authz_def Let_def known_def)
  then show two: "authz_reach two_accounts" by (auto simp: authz_reach_def)
  have "authz_step two_accounts one_key"
    unfolding one_key_def by (rule authz_step.decide[OF surjective_pairing])
  with two show "authz_reach one_key" by (auto simp: authz_reach_def intro: rtranclp.rtrancl_into_rtrancl)
qed

definition answer_of :: "authz_request \<Rightarrow> authz_state \<Rightarrow> (authz_error + authz_decision) \<times> authz_state" where
  "answer_of q s = zs_serve (authorize_request no_faults 5 q) s"

text \<open>Account 1 may route through the key of account 0; its owner may not, and may revoke it.\<close>

lemma some_answers:
  "public_view (fst (answer_of (some_request 1 ''route_candidate_exclude_self'' 50 False) one_key)) = Some (True, 200, Az_ok)"
  "public_view (fst (answer_of (some_request 0 ''route_candidate_exclude_self'' 50 False) one_key)) = Some (False, 404, Az_no_route_candidate)"
  "public_view (fst (answer_of (some_request 0 ''seller_key.disable'' 50 True) one_key)) = Some (True, 200, Az_ok)"
  "length (az_events (zs_saved one_key)) = 1"
  by code_simp+

theorem allowed_only_entitled_witness:
  "\<exists>d. permits (some_request 1 ''route_candidate_exclude_self'' 50 False) Route_exclude_self (zs_saved one_key) d"
proof -
  let ?q = "some_request 1 ''route_candidate_exclude_self'' 50 False"
  from some_answers(1) obtain d t where d: "zs_serve (authorize_request no_faults 5 ?q) one_key = (Inr d, t)" "ad_allowed d"
    by (cases "answer_of ?q one_key") (auto simp: answer_of_def public_view_def split: sum.splits)
  have "parse_action (ar_action ?q) = Some Route_exclude_self" by code_simp
  with allowed_only_entitled[OF authz_history(2) d] show ?thesis by auto
qed

theorem decisions_recorded_witness:
  "\<exists>es. az_events (zs_saved (snd (answer_of (some_request 0 ''seller_key.disable'' 50 True) one_key))) =
     az_events (zs_saved one_key) @ es \<and> length es \<le> 1"
  using decisions_recorded[OF authz_history(2) surjective_pairing] unfolding answer_of_def by blast

theorem no_ownership_oracle_witness:
  "public_view (fst (answer_of (some_request 0 ''seller_key.read'' 51 False) one_key)) =
   public_view (fst (answer_of (some_request 0 ''seller_key.read'' 51 False) two_accounts))"
proof -
  have facts: "dict_get (az_users (zs_saved one_key)) 0 = dict_get (az_users (zs_saved two_accounts)) 0"
    "parse_action ''seller_key.read'' = Some Seller_key_read" "Seller_key_read \<notin> set create_actions"
    "type_for (some_request 0 ''seller_key.read'' 51 False) Seller_key_read = Some ''seller_key''"
    "none_of_yours ''seller_key'' 51 0 (zs_saved one_key)" "none_of_yours ''seller_key'' 51 0 (zs_saved two_accounts)"
    by code_simp+
  show ?thesis
    unfolding answer_of_def
    by (rule no_ownership_oracle[OF authz_history(2,1), where a = Seller_key_read and rt = "''seller_key''" and rr = 51])
      (use facts in \<open>simp_all add: some_request_def\<close>)
qed

end
