(* ===== verification/Admin.thy ===== *)
theory Admin
  imports Prelude
begin

section \<open>Administration: identities, roles and audit\<close>

text \<open>
  \<^verbatim>\<open>services/admin-service/app/domain/admin\<close>: the administrators, their sessions and step-ups
  (\<^verbatim>\<open>service.py\<close>), what a role may do (\<^verbatim>\<open>rbac.py\<close>), the hash-chained audit log (\<^verbatim>\<open>audit.py\<close>) and the redaction
  of what it records (\<^verbatim>\<open>redact.py\<close>). The hash functions of the standard library are arguments
  (\<open>admin_lib\<close>): PBKDF2 of a secret and a salt, and the hexadecimal SHA-256 of a text. Salts and tokens are
  random; they arrive as arguments.
\<close>

subsection \<open>Roles\<close>

datatype admin_code =
    Ad_unauthorized | Ad_user_session_rejected | Ad_forbidden | Ad_step_up_required | Ad_mfa_required
  | Ad_reason_required | Ad_immutable_audit | Ad_promotion_denied | Ad_validation | Ad_patch_active_denied
  | Ad_simulate_failed | Ad_simulate_required | Ad_approval_required | Ad_wizard_cancelled | Ad_wizard_expired
  | Ad_sql_editor_denied | Ad_not_found

text \<open>An \<^verbatim>\<open>AdminError\<close> with its status, or another exception of Python, which the handlers do not catch.\<close>

datatype admin_error = AdminError admin_code int | Py_value_error | Py_key_error

definition admin_roles :: "string list" where
  "admin_roles = [''support'', ''supply_ops'', ''pricing'', ''ledger'', ''security_audit'']"

definition never_actions :: "string list" where
  "never_actions = [''credential.read'', ''ledger.edit_balance'', ''audit.delete'']"

definition high_risk :: "string list" where
  "high_risk = [''price.publish'', ''route.rollback'', ''connection.replace_dedicated'', ''user.force_logout'',
     ''ledger.reverse'', ''break_glass'']"

definition role_matrix :: "((string \<times> bool) \<times> string list) list" where
  "role_matrix =
    [((''support'', False), [''user.lookup'', ''user.force_logout'', ''audit.read'', ''project.lookup'', ''alert.read'']),
     ((''support'', True), [''user.lookup'', ''audit.read'', ''project.lookup'', ''alert.read'']),
     ((''supply_ops'', False),
       [''connection.view_health'', ''connection.replace_dedicated'', ''project.lookup'', ''alert.read'']),
     ((''supply_ops'', True), [''connection.view_health'', ''project.lookup'', ''alert.read'']),
     ((''pricing'', False), [''price.publish'', ''route.rollback'', ''price.read'', ''route.read'', ''alert.read'']),
     ((''pricing'', True), [''price.read'', ''route.read'', ''alert.read'']),
     ((''ledger'', False), [''ledger.reverse'', ''ledger.read'', ''alert.read'']),
     ((''ledger'', True), [''ledger.read'', ''alert.read'']),
     ((''security_audit'', False), [''audit.read'', ''user.force_logout'', ''user.lookup'', ''connection.view_health'',
       ''break_glass'', ''project.lookup'', ''alert.read'']),
     ((''security_audit'', True),
       [''audit.read'', ''user.lookup'', ''connection.view_health'', ''project.lookup'', ''alert.read''])]"

definition evaluate :: "string \<Rightarrow> bool \<Rightarrow> string \<Rightarrow> bool" where
  "evaluate role readonly a =
     (if a \<in> set never_actions then False
      else if role \<notin> set admin_roles then False
      else a \<in> set (case map_of role_matrix (role, readonly) of None \<Rightarrow> [] | Some allowed \<Rightarrow> allowed))"

subsection \<open>Redaction\<close>

text \<open>\<^verbatim>\<open>part in text\<close>.\<close>

fun contains :: "string \<Rightarrow> string \<Rightarrow> bool" where
  "contains [] part \<longleftrightarrow> part = []"
| "contains (c # s) part \<longleftrightarrow> starts_with (c # s) part \<or> contains s part"

definition denied_keys :: "string list" where
  "denied_keys = [''secret'', ''password'', ''token'', ''otp'', ''credential'', ''authorization'', ''cookie'', ''api_key'',
     ''apikey'']"

definition denied_key :: "string \<Rightarrow> bool" where
  "denied_key k \<longleftrightarrow> list_ex (contains (py_lower k)) denied_keys"

definition denied_text :: "string \<Rightarrow> bool" where
  "denied_text s \<longleftrightarrow> list_ex (contains (py_lower s)) [''secret'', ''token='', ''sk-'']"

fun redact :: "pyval \<Rightarrow> pyval" where
  "redact (PyDict kvs) =
     PyDict (map (\<lambda>(k, v). (k, if denied_key k then PyStr ''[redacted]'' else redact v)) kvs)"
| "redact (PyList vs) = PyList (map redact vs)"
| "redact (PyStr s) = PyStr (if denied_text s then ''[redacted]'' else s)"
| "redact v = v"

subsection \<open>The canonical text of a record\<close>

text \<open>
  \<^verbatim>\<open>json.dumps(sort_keys=True, separators=(",", ":"), default=str)\<close> of the values an audit record holds.
  Characters outside ASCII are escaped; \<open>default=str\<close> is needed for identifiers and times only, whose text
  is \<open>nat_str\<close> and \<open>int_str\<close> here.
\<close>

definition hex_char :: "nat \<Rightarrow> char" where
  "hex_char n = (if n < 10 then char_of (48 + n) else char_of (87 + n))"

definition json_char :: "char \<Rightarrow> string" where
  "json_char c = (let n = of_char c :: nat in
     if n = 34 then [CHR 0x5C, CHR 0x22] else if n = 92 then [CHR 0x5C, CHR 0x5C]
     else if n = 10 then [CHR 0x5C, CHR ''n''] else if n = 13 then [CHR 0x5C, CHR ''r'']
     else if n = 9 then [CHR 0x5C, CHR ''t''] else if n = 8 then [CHR 0x5C, CHR ''b'']
     else if n = 12 then [CHR 0x5C, CHR ''f'']
     else if n < 32 \<or> 126 < n
     then [CHR 0x5C, CHR ''u'', CHR ''0'', CHR ''0'', hex_char (n div 16), hex_char (n mod 16)]
     else [c])"

definition json_string :: "string \<Rightarrow> string" where
  "json_string s = [CHR 0x22] @ concat (map json_char s) @ [CHR 0x22]"

fun comma_sep :: "string list \<Rightarrow> string" where
  "comma_sep [] = []"
| "comma_sep [x] = x"
| "comma_sep (x # y # xs) = x @ '','' @ comma_sep (y # xs)"

fun json :: "pyval \<Rightarrow> string" where
  "json PyNone = ''null''"
| "json (PyBool b) = (if b then ''true'' else ''false'')"
| "json (PyInt n) = int_str n"
| "json (PyStr s) = json_string s"
| "json (PyUuid u) = json_string (nat_str u)"
| "json (PyTime t) = json_string (int_str t)"
| "json (PyList vs) = ''['' @ comma_sep (map json vs) @ '']''"
| "json (PyDict kvs) = ''{'' @ comma_sep (map snd (sort_key fst
     (map (\<lambda>(k, v). (k, json_string k @ '':'' @ json v)) kvs))) @ ''}''"

subsection \<open>Audit\<close>

record admin_lib =
  pbkdf2 :: "string \<Rightarrow> string \<Rightarrow> string"
  sha256hex :: "string \<Rightarrow> string"

record audit_record =
  ur_id :: uuid
  ur_actor :: uuid
  ur_role :: string
  ur_action :: string
  ur_target :: string
  ur_reason :: string
  ur_request :: string
  ur_before :: pyval
  ur_after :: pyval
  ur_result :: string
  ur_source :: string
  ur_prev :: string
  ur_hash :: string
  ur_created_at :: instant

record audit_log =
  ul_rows :: "audit_record list"
  ul_tip :: string

definition zero_hash :: string where
  "zero_hash = replicate 64 (CHR ''0'')"

definition audit_payload :: "audit_record \<Rightarrow> string \<Rightarrow> pyval" where
  "audit_payload r prev = PyDict
     [(''actor_id'', PyUuid (ur_actor r)), (''role'', PyStr (ur_role r)), (''action'', PyStr (ur_action r)),
      (''target'', PyStr (ur_target r)), (''reason'', PyStr (ur_reason r)), (''request_id'', PyStr (ur_request r)),
      (''before'', ur_before r), (''after'', ur_after r), (''result'', PyStr (ur_result r)),
      (''source'', PyStr (ur_source r)), (''prev_hash'', PyStr prev)]"

definition record_digest :: "admin_lib \<Rightarrow> string \<Rightarrow> audit_record \<Rightarrow> string" where
  "record_digest c prev r = sha256hex c (prev @ json (audit_payload r (ur_prev r)))"

text \<open>\<^verbatim>\<open>append\<close>: the fields of the record, the identifier and the time are given.\<close>

definition append_audit :: "admin_lib \<Rightarrow> audit_record \<Rightarrow> audit_log \<Rightarrow> audit_record \<times> audit_log" where
  "append_audit c r log =
     (let draft = r\<lparr>ur_before := redact (ur_before r), ur_after := redact (ur_after r), ur_prev := ul_tip log\<rparr>;
          digest = record_digest c (ul_tip log) draft; done_r = draft\<lparr>ur_hash := digest\<rparr> in
      (done_r, \<lparr>ul_rows = ul_rows log @ [done_r], ul_tip = digest\<rparr>))"

fun verify_from :: "admin_lib \<Rightarrow> string \<Rightarrow> audit_record list \<Rightarrow> bool" where
  "verify_from c prev [] \<longleftrightarrow> True"
| "verify_from c prev (r # rs) \<longleftrightarrow>
     (if ur_prev r \<noteq> prev \<or> ur_hash r \<noteq> record_digest c prev r then False else verify_from c (ur_hash r) rs)"

definition verify_chain :: "admin_lib \<Rightarrow> audit_log \<Rightarrow> bool" where
  "verify_chain c log = verify_from c zero_hash (ul_rows log)"

subsection \<open>Administrators\<close>

record admin_account =
  an_id :: uuid
  an_login :: string
  an_salt :: string
  an_digest :: string
  an_role :: string
  an_readonly :: bool
  an_mfa :: bool

record admin_session =
  am_id :: uuid
  am_admin :: uuid
  am_token_digest :: string
  am_created_at :: instant
  am_step_up_at :: "instant option"

record break_glass_case =
  gc_id :: uuid
  gc_actor :: uuid
  gc_reason :: string
  gc_alerted :: bool
  gc_opened_at :: instant
  gc_closed_at :: "instant option"
  gc_review :: string

record admin_state =
  ms_ttl :: int
  ms_admins :: "(uuid, admin_account) dict"
  ms_by_login :: "(string, uuid) dict"
  ms_sessions :: "(uuid, admin_session) dict"
  ms_tokens :: "(string, uuid) dict"
  ms_audit :: audit_log
  ms_alerts :: "string list"
  ms_cases :: "(uuid, break_glass_case) dict"
  ms_next :: uuid

type_synonym 'a admin_op = "(admin_state, admin_error, 'a) op"

definition ms_fresh :: "uuid admin_op" where
  "ms_fresh = bindE (gets ms_next) (\<lambda>i. bindE (modify (\<lambda>s. s\<lparr>ms_next := i + 1\<rparr>)) (\<lambda>_. ret i))"

definition pepper :: string where
  "pepper = ''admin-identity-v1''"

definition mfa_ok :: string where
  "mfa_ok = ''totp-ok''"

definition seed_admin ::
  "admin_lib \<Rightarrow> string \<Rightarrow> string \<Rightarrow> string \<Rightarrow> string \<Rightarrow> bool \<Rightarrow> bool \<Rightarrow> admin_account admin_op" where
  "seed_admin c salt login password role readonly mfa =
     bindE (require (role \<in> set admin_roles) (AdminError Ad_validation 400)) (\<lambda>_.
     bindE ms_fresh (\<lambda>i.
     let acc = \<lparr>an_id = i, an_login = login, an_salt = salt, an_digest = pbkdf2 c password (salt @ pepper),
                an_role = role, an_readonly = readonly, an_mfa = mfa\<rparr> in
     bindE (modify (\<lambda>s. s\<lparr>ms_admins := dict_set i acc (ms_admins s), ms_by_login := dict_set login i (ms_by_login s)\<rparr>)) (\<lambda>_.
     ret acc)))"

definition promote_user :: "uuid \<Rightarrow> string \<Rightarrow> unit admin_op" where
  "promote_user uid role = throw (AdminError Ad_promotion_denied 403)"

text \<open>\<^verbatim>\<open>d[k]\<close> where the code relies on the key: a missing key would be a \<^verbatim>\<open>KeyError\<close>.\<close>

definition lookup :: "('k, 'v) dict \<Rightarrow> 'k \<Rightarrow> 'v admin_op" where
  "lookup d k = of_option Py_key_error (dict_get d k)"

definition admin_login ::
  "admin_lib \<Rightarrow> instant \<Rightarrow> string \<Rightarrow> string \<Rightarrow> string \<Rightarrow> string \<Rightarrow> string option \<Rightarrow> (admin_session \<times> string) admin_op" where
  "admin_login c now token login password mfa_code user_cookie =
     bindE (require (\<not> truthy user_cookie) (AdminError Ad_user_session_rejected 401)) (\<lambda>_.
     bindE (gets (\<lambda>s. dict_get (ms_by_login s) login)) (\<lambda>found.
     bindE (of_option (AdminError Ad_unauthorized 401) found) (\<lambda>i.
     bindE (gets ms_admins) (\<lambda>admins. bindE (lookup admins i) (\<lambda>acc.
     bindE (require (pbkdf2 c password (an_salt acc @ pepper) = an_digest acc) (AdminError Ad_unauthorized 401)) (\<lambda>_.
     bindE (require (\<not> (an_mfa acc \<and> mfa_code \<noteq> mfa_ok)) (AdminError Ad_mfa_required 401)) (\<lambda>_.
     bindE ms_fresh (\<lambda>sid.
     let sess = \<lparr>am_id = sid, am_admin = an_id acc, am_token_digest = pbkdf2 c token pepper, am_created_at = now,
                 am_step_up_at = None\<rparr> in
     bindE (modify (\<lambda>s. s\<lparr>ms_sessions := dict_set sid sess (ms_sessions s), ms_tokens := dict_set token sid (ms_tokens s)\<rparr>)) (\<lambda>_.
     ret (sess, token))))))))))"

definition admin_logout :: "string option \<Rightarrow> unit admin_op" where
  "admin_logout token = (if \<not> truthy token then ret ()
     else bindE (gets (\<lambda>s. dict_get (ms_tokens s) (the token))) (\<lambda>sid.
       modify (\<lambda>s. s\<lparr>ms_tokens := dict_del (the token) (ms_tokens s),
         ms_sessions := (case sid of None \<Rightarrow> ms_sessions s | Some i \<Rightarrow> dict_del i (ms_sessions s))\<rparr>)))"

definition resolve_admin :: "string option \<Rightarrow> string option \<Rightarrow> admin_account admin_op" where
  "resolve_admin token user_cookie =
     bindE (require (\<not> truthy user_cookie) (AdminError Ad_user_session_rejected 401)) (\<lambda>_.
     bindE (require (truthy token) (AdminError Ad_unauthorized 401)) (\<lambda>_.
     bindE (gets (\<lambda>s. dict_get (ms_tokens s) (the token))) (\<lambda>found.
     bindE (of_option (AdminError Ad_unauthorized 401) found) (\<lambda>sid.
     bindE (gets ms_sessions) (\<lambda>sessions. bindE (lookup sessions sid) (\<lambda>sess.
     bindE (gets ms_admins) (\<lambda>admins. lookup admins (am_admin sess))))))))"

definition step_up :: "instant \<Rightarrow> string \<Rightarrow> string \<Rightarrow> unit admin_op" where
  "step_up now token mfa_code =
     bindE (resolve_admin (Some token) None) (\<lambda>acc.
     bindE (require (\<not> (an_mfa acc \<and> mfa_code \<noteq> mfa_ok)) (AdminError Ad_mfa_required 401)) (\<lambda>_.
     bindE (gets ms_tokens) (\<lambda>tokens. bindE (lookup tokens token) (\<lambda>sid.
     bindE (gets ms_sessions) (\<lambda>sessions. bindE (lookup sessions sid) (\<lambda>sess.
     modify (\<lambda>s. s\<lparr>ms_sessions := dict_set sid (sess\<lparr>am_step_up_at := Some now\<rparr>) (ms_sessions s)\<rparr>)))))))"

text \<open>What a call says of itself: the action, its target, reason and request, and the source.\<close>

record admin_call =
  al_action :: string
  al_target :: string
  al_reason :: string
  al_request :: string
  al_source :: string

definition audit_action ::
  "admin_lib \<Rightarrow> instant \<Rightarrow> admin_account \<Rightarrow> admin_call \<Rightarrow> string \<Rightarrow> pyval option \<Rightarrow> pyval option \<Rightarrow> uuid admin_op" where
  "audit_action c now acc call result bef aft =
     bindE ms_fresh (\<lambda>i. bindE (modify (\<lambda>s. s\<lparr>ms_audit := snd (append_audit c
       \<lparr>ur_id = i, ur_actor = an_id acc, ur_role = an_role acc, ur_action = al_action call, ur_target = al_target call,
        ur_reason = al_reason call, ur_request = al_request call,
        ur_before = (case bef of None \<Rightarrow> PyDict [] | Some d \<Rightarrow> d), ur_after = (case aft of None \<Rightarrow> PyDict [] | Some d \<Rightarrow> d),
        ur_result = result, ur_source = al_source call, ur_prev = [], ur_hash = [], ur_created_at = now\<rparr> (ms_audit s))\<rparr>)) (\<lambda>_.
     ret i))"

text \<open>The session that holds the token, if any, and when it stepped up.\<close>

definition stepped_at :: "string option \<Rightarrow> admin_state \<Rightarrow> instant option" where
  "stepped_at token s = (case dict_get (ms_tokens s) (case token of None \<Rightarrow> [] | Some t \<Rightarrow> t) of
     None \<Rightarrow> None
   | Some sid \<Rightarrow> (case dict_get (ms_sessions s) sid of None \<Rightarrow> None | Some sess \<Rightarrow> am_step_up_at sess))"

definition recently :: "instant \<Rightarrow> int \<Rightarrow> instant option \<Rightarrow> bool" where
  "recently now ttl stepped \<longleftrightarrow> (case stepped of None \<Rightarrow> False | Some t \<Rightarrow> \<not> now - t > ttl)"

definition ensure_action ::
  "admin_lib \<Rightarrow> instant \<Rightarrow> string option \<Rightarrow> string option \<Rightarrow> admin_call \<Rightarrow> bool \<Rightarrow> admin_account admin_op" where
  "ensure_action c now token user_cookie call audit_denial =
     bindE (resolve_admin token user_cookie) (\<lambda>acc.
     if \<not> evaluate (an_role acc) (an_readonly acc) (al_action call)
     then bindE (when_op audit_denial (bindE (audit_action c now acc call ''denied'' None None) (\<lambda>_. ret ()))) (\<lambda>_.
       throw (AdminError Ad_forbidden 403))
     else if al_action call \<in> set high_risk
     then bindE (require (an_mfa acc) (AdminError Ad_mfa_required 401)) (\<lambda>_.
       bindE (require (py_strip (al_reason call) \<noteq> []) (AdminError Ad_reason_required 400)) (\<lambda>_.
       bindE (gets (\<lambda>s. recently now (ms_ttl s) (stepped_at token s))) (\<lambda>ok.
       bindE (require ok (AdminError Ad_step_up_required 401)) (\<lambda>_. ret acc))))
     else ret acc)"

definition open_break_glass :: "instant \<Rightarrow> admin_account \<Rightarrow> string \<Rightarrow> uuid admin_op" where
  "open_break_glass now acc reason = bindE ms_fresh (\<lambda>i.
     bindE (modify (\<lambda>s. s\<lparr>ms_cases := dict_set i \<lparr>gc_id = i, gc_actor = an_id acc, gc_reason = reason, gc_alerted = True,
         gc_opened_at = now, gc_closed_at = None, gc_review = []\<rparr> (ms_cases s),
       ms_alerts := ms_alerts s @ [''break-glass opened by '' @ an_login acc]\<rparr>)) (\<lambda>_. ret i))"

text \<open>The result: the identifier of the audit record, and of the break-glass case if one was opened.\<close>

definition execute ::
  "admin_lib \<Rightarrow> instant \<Rightarrow> string option \<Rightarrow> string option \<Rightarrow> admin_call \<Rightarrow> pyval option \<Rightarrow> pyval option \<Rightarrow>
     (uuid \<times> uuid option) admin_op" where
  "execute c now token user_cookie call bef aft =
     bindE (ensure_action c now token user_cookie call True) (\<lambda>acc.
     bindE (audit_action c now acc call ''ok'' bef aft) (\<lambda>event.
     if al_action call = ''break_glass''
     then bindE (open_break_glass now acc (al_reason call)) (\<lambda>i. ret (event, Some i))
     else ret (event, None)))"

definition close_break_glass :: "instant \<Rightarrow> string \<Rightarrow> uuid \<Rightarrow> string \<Rightarrow> break_glass_case admin_op" where
  "close_break_glass now token cid review =
     bindE (resolve_admin (Some token) None) (\<lambda>acc.
     bindE (gets (\<lambda>s. dict_get (ms_cases s) cid)) (\<lambda>found.
     bindE (of_option (AdminError Ad_validation 404) found) (\<lambda>b.
     bindE (require (\<not> (an_role acc \<noteq> ''security_audit'' \<or> an_readonly acc)) (AdminError Ad_forbidden 403)) (\<lambda>_.
     let closed = b\<lparr>gc_closed_at := Some now, gc_review := review\<rparr> in
     bindE (modify (\<lambda>s. s\<lparr>ms_cases := dict_set cid closed (ms_cases s)\<rparr>)) (\<lambda>_. ret closed)))))"

definition mutate_audit :: "uuid \<Rightarrow> unit admin_op" where
  "mutate_audit i = throw (AdminError Ad_immutable_audit 409)"

definition delete_audit :: "uuid \<Rightarrow> unit admin_op" where
  "delete_audit i = throw (AdminError Ad_immutable_audit 409)"

text \<open>\<^verbatim>\<open>GET /admin/v1/audit\<close>.\<close>

definition list_audit :: "string option \<Rightarrow> string option \<Rightarrow> audit_record list admin_op" where
  "list_audit token user_cookie =
     bindE (resolve_admin token user_cookie) (\<lambda>acc.
     bindE (require (an_role acc \<in> {''security_audit'', ''support''}) (AdminError Ad_forbidden 403)) (\<lambda>_.
     gets (\<lambda>s. ul_rows (ms_audit s))))"

definition empty_admin :: admin_state where
  "empty_admin = \<lparr>ms_ttl = minutes 5, ms_admins = [], ms_by_login = [], ms_sessions = [], ms_tokens = [],
     ms_audit = \<lparr>ul_rows = [], ul_tip = zero_hash\<rparr>, ms_alerts = [], ms_cases = [], ms_next = 0\<rparr>"

end
