(* ===== verification/Ops.thy ===== *)
theory Ops
  imports Admin
begin

section \<open>Administration: configuration, wizards and the catalog\<close>

text \<open>
  \<^verbatim>\<open>services/admin-service/app/domain/ops\<close>: the price and route configuration pipeline (\<^verbatim>\<open>pipeline.py\<close>), the
  wizards of high-risk actions (\<^verbatim>\<open>wizard.py\<close>), the paged catalog (\<^verbatim>\<open>catalog.py\<close>); and the handlers of
  \<^verbatim>\<open>app/api/ops.py\<close> that put an administrator in front of them. A configuration payload is a JSON object; its
  numbers are integers here.
\<close>

subsection \<open>Configuration\<close>

type_synonym payload = "(string \<times> pyval) list"

datatype draft_status = Dr_draft | Dr_simulated | Dr_failed | Dr_approved | Dr_published

record config_draft =
  dr_id :: uuid
  dr_kind :: string
  dr_payload :: payload
  dr_status :: draft_status
  dr_active_unchanged :: bool
  dr_sim_ok :: bool
  dr_version :: int
  dr_base_version :: int
  dr_error :: string

record active_config =
  ac_version :: int
  ac_payload :: payload

record config_pipeline =
  pp_active :: "(string, active_config) dict"
  pp_history :: "(string, active_config list) dict"
  pp_drafts :: "(uuid, config_draft) dict"
  pp_next :: uuid

type_synonym 'a config_op = "(config_pipeline, admin_error, 'a) op"

definition pipeline_kinds :: "string list" where
  "pipeline_kinds = [''price'', ''route'']"

definition write_action :: "string \<Rightarrow> string option" where
  "write_action kind = (if kind = ''price'' then Some ''price.publish''
     else if kind = ''route'' then Some ''route.rollback'' else None)"

definition read_action :: "string \<Rightarrow> string option" where
  "read_action kind = (if kind = ''price'' then Some ''price.read''
     else if kind = ''route'' then Some ''route.read'' else None)"

definition new_pipeline :: config_pipeline where
  "new_pipeline = (let
       price = \<lparr>ac_version = 1, ac_payload = [(''buyer_bps'', PyInt 10000), (''seller_max_bps'', PyInt 8000)]\<rparr>;
       route = \<lparr>ac_version = 1, ac_payload =
         [(''weights'', PyDict [(''health'', PyInt 40), (''latency'', PyInt 30), (''price'', PyInt 30)])]\<rparr> in
     \<lparr>pp_active = [(''price'', price), (''route'', route)], pp_history = [(''price'', [price]), (''route'', [route])],
      pp_drafts = [], pp_next = 0\<rparr>)"

definition require_kind :: "string \<Rightarrow> unit config_op" where
  "require_kind kind = require (kind \<in> set pipeline_kinds) (AdminError Ad_validation 400)"

definition active_of :: "string \<Rightarrow> active_config config_op" where
  "active_of kind = bindE (gets (\<lambda>p. dict_get (pp_active p) kind)) (of_option Py_key_error)"

definition active :: "string \<Rightarrow> active_config config_op" where
  "active kind = bindE (require_kind kind) (\<lambda>_. active_of kind)"

definition save_draft :: "config_draft \<Rightarrow> unit config_op" where
  "save_draft d = modify (\<lambda>p. p\<lparr>pp_drafts := dict_set (dr_id d) d (pp_drafts p)\<rparr>)"

definition create_draft :: "string \<Rightarrow> payload \<Rightarrow> config_draft config_op" where
  "create_draft kind content =
     bindE (require_kind kind) (\<lambda>_.
     bindE (active_of kind) (\<lambda>cfg.
     bindE (gets pp_next) (\<lambda>i.
     let d = \<lparr>dr_id = i, dr_kind = kind, dr_payload = content, dr_status = Dr_draft, dr_active_unchanged = True,
              dr_sim_ok = False, dr_version = 0, dr_base_version = ac_version cfg, dr_error = []\<rparr> in
     bindE (modify (\<lambda>p. p\<lparr>pp_next := i + 1\<rparr>)) (\<lambda>_. bindE (save_draft d) (\<lambda>_. ret d)))))"

definition get_draft :: "uuid \<Rightarrow> config_draft config_op" where
  "get_draft i = bindE (gets (\<lambda>p. dict_get (pp_drafts p) i)) (of_option (AdminError Ad_validation 404))"

definition py_get :: "payload \<Rightarrow> string \<Rightarrow> pyval" where
  "py_get d k = (case map_of d k of None \<Rightarrow> PyNone | Some v \<Rightarrow> v)"

text \<open>\<^verbatim>\<open>int(v)\<close> of a JSON value: an integer or truth value as it is, the text of an integer; otherwise an exception.\<close>

definition digit_value :: "char \<Rightarrow> nat option" where
  "digit_value ch = (let n = of_char ch :: nat in if 48 \<le> n \<and> n \<le> 57 then Some (n - 48) else None)"

fun int_digits :: "nat \<Rightarrow> string \<Rightarrow> nat option" where
  "int_digits acc [] = Some acc"
| "int_digits acc (ch # s) =
     (case digit_value ch of
        Some n \<Rightarrow> int_digits (10 * acc + n) s
      | None \<Rightarrow> if ch = CHR ''_'' \<and> s \<noteq> [] \<and> digit_value (hd s) \<noteq> None then int_digits acc s else None)"

definition unsigned :: "string \<Rightarrow> nat option" where
  "unsigned s = (if s = [] \<or> digit_value (hd s) = None then None else int_digits 0 s)"

definition int_of_text :: "string \<Rightarrow> int option" where
  "int_of_text text = (let s = py_strip text in
     if s \<noteq> [] \<and> hd s = CHR ''-'' then map_option (\<lambda>n. - int n) (unsigned (tl s))
     else if s \<noteq> [] \<and> hd s = CHR ''+'' then map_option int (unsigned (tl s))
     else map_option int (unsigned s))"

definition int_of_value :: "pyval \<Rightarrow> int option" where
  "int_of_value v = (case v of PyInt n \<Rightarrow> Some n | PyBool b \<Rightarrow> Some (if b then 1 else 0)
     | PyStr s \<Rightarrow> int_of_text s | _ \<Rightarrow> None)"

definition get_or :: "payload \<Rightarrow> string \<Rightarrow> pyval \<Rightarrow> pyval" where
  "get_or d k v = (case map_of d k of None \<Rightarrow> v | Some w \<Rightarrow> w)"

text \<open>Why a simulation fails, if it does; \<open>Inl\<close> where \<^verbatim>\<open>int()\<close> raises.\<close>

definition simulate_ok :: "config_draft \<Rightarrow> admin_error + string option" where
  "simulate_ok d =
     (if py_get (dr_payload d) ''invalid'' = PyBool True then Inr (Some ''invalid payload'')
      else if dr_kind d = ''price''
      then (case (int_of_value (get_or (dr_payload d) ''buyer_bps'' (PyInt (- 1))),
                  int_of_value (get_or (dr_payload d) ''seller_max_bps'' (PyInt 0))) of
              (Some buyer, Some seller) \<Rightarrow>
                if buyer < 0 \<or> buyer > 10000 \<or> seller < 0 \<or> seller > 10000 then Inr (Some ''bps out of range'')
                else if buyer < seller then Inr (Some ''buyer_bps below seller_max_bps'')
                else Inr None
            | _ \<Rightarrow> Inl Py_value_error)
      else if dr_kind d = ''route'' \<and> ''weights'' \<notin> set (map fst (dr_payload d)) then Inr (Some ''missing weights'')
      else Inr None)"

definition simulate :: "uuid \<Rightarrow> string option config_op" where
  "simulate i = bindE (get_draft i) (\<lambda>d.
     bindE (of_sum (simulate_ok d)) (\<lambda>why.
     bindE (save_draft (case why of
         None \<Rightarrow> d\<lparr>dr_sim_ok := True, dr_status := Dr_simulated, dr_error := []\<rparr>
       | Some reason \<Rightarrow> d\<lparr>dr_sim_ok := False, dr_status := Dr_failed, dr_error := reason\<rparr>)) (\<lambda>_.
     ret why)))"

definition approve_draft :: "uuid \<Rightarrow> config_draft config_op" where
  "approve_draft i = bindE (get_draft i) (\<lambda>d.
     bindE (require (\<not> (\<not> dr_sim_ok d \<or> dr_status d \<notin> {Dr_simulated, Dr_approved})) (AdminError Ad_simulate_required 409)) (\<lambda>_.
     let a = d\<lparr>dr_status := Dr_approved\<rparr> in bindE (save_draft a) (\<lambda>_. ret a)))"

definition publish_config :: "uuid \<Rightarrow> active_config config_op" where
  "publish_config i = bindE (get_draft i) (\<lambda>d.
     bindE (require (\<not> (dr_status d = Dr_failed \<or> \<not> dr_sim_ok d)) (AdminError Ad_simulate_failed 409)) (\<lambda>_.
     bindE (require (dr_status d = Dr_approved) (AdminError Ad_approval_required 409)) (\<lambda>_.
     bindE (active_of (dr_kind d)) (\<lambda>current.
     let nxt = \<lparr>ac_version = ac_version current + 1, ac_payload = dr_payload d\<rparr> in
     bindE (gets (\<lambda>p. dict_get (pp_history p) (dr_kind d))) (\<lambda>found. bindE (of_option Py_key_error found) (\<lambda>past.
     bindE (modify (\<lambda>p. p\<lparr>pp_history := dict_set (dr_kind d) (past @ [nxt]) (pp_history p),
       pp_active := dict_set (dr_kind d) nxt (pp_active p)\<rparr>)) (\<lambda>_.
     bindE (save_draft (d\<lparr>dr_status := Dr_published, dr_version := ac_version nxt, dr_active_unchanged := False\<rparr>)) (\<lambda>_.
     active (dr_kind d)))))))))"

definition rollback_config :: "string \<Rightarrow> int \<Rightarrow> active_config config_op" where
  "rollback_config kind to_version =
     bindE (require_kind kind) (\<lambda>_.
     bindE (gets (\<lambda>p. dict_get (pp_history p) kind)) (\<lambda>found. bindE (of_option Py_key_error found) (\<lambda>past.
     bindE (of_option (AdminError Ad_validation 404) (find (\<lambda>x. ac_version x = to_version) past)) (\<lambda>match.
     bindE (modify (\<lambda>p. p\<lparr>pp_active := dict_set kind match (pp_active p)\<rparr>)) (\<lambda>_.
     active kind)))))"

definition patch_active :: "string \<Rightarrow> payload \<Rightarrow> unit config_op" where
  "patch_active kind content = throw (AdminError Ad_patch_active_denied 409)"

subsection \<open>Wizards\<close>

datatype wizard_status = Wz_pending | Wz_cancelled | Wz_expired | Wz_confirmed

record wizard =
  wz_id :: uuid
  wz_kind :: string
  wz_target :: string
  wz_status :: wizard_status
  wz_request :: "string option"
  wz_reason :: string
  wz_created_at :: instant
  wz_expires_at :: instant

definition wizard_ttl :: int where
  "wizard_ttl = minutes 5"

definition wizard_action :: "string \<Rightarrow> string option" where
  "wizard_action kind = (if kind = ''replace_dedicated'' then Some ''connection.replace_dedicated''
     else if kind = ''reverse'' then Some ''ledger.reverse''
     else if kind = ''force_logout'' then Some ''user.force_logout'' else None)"

text \<open>The state of the service: administrators, pipeline and wizards. Impact texts are left out.\<close>

record ops_state =
  os_admin :: admin_state
  os_config :: config_pipeline
  os_wizards :: "(uuid, wizard) dict"
  os_next :: uuid

type_synonym 'a ops_op = "(ops_state, admin_error, 'a) op"

definition on_admin :: "'a admin_op \<Rightarrow> 'a ops_op" where
  "on_admin m = zoom os_admin (\<lambda>a s. s\<lparr>os_admin := a\<rparr>) (\<lambda>e. e) m"

definition on_config :: "'a config_op \<Rightarrow> 'a ops_op" where
  "on_config m = zoom os_config (\<lambda>p s. s\<lparr>os_config := p\<rparr>) (\<lambda>e. e) m"

definition action_for_wizard :: "string \<Rightarrow> string ops_op" where
  "action_for_wizard kind = of_option (AdminError Ad_validation 400) (wizard_action kind)"

definition save_wizard :: "wizard \<Rightarrow> unit ops_op" where
  "save_wizard w = modify (\<lambda>s. s\<lparr>os_wizards := dict_set (wz_id w) w (os_wizards s)\<rparr>)"

definition start_wizard :: "instant \<Rightarrow> string \<Rightarrow> string \<Rightarrow> string \<Rightarrow> wizard ops_op" where
  "start_wizard now kind target reason =
     bindE (action_for_wizard kind) (\<lambda>_.
     bindE (gets os_next) (\<lambda>i.
     let w = \<lparr>wz_id = i, wz_kind = kind, wz_target = target, wz_status = Wz_pending, wz_request = None, wz_reason = reason,
              wz_created_at = now, wz_expires_at = now + wizard_ttl\<rparr> in
     bindE (modify (\<lambda>s. s\<lparr>os_next := i + 1\<rparr>)) (\<lambda>_. bindE (save_wizard w) (\<lambda>_. ret w))))"

definition expire_if_due :: "instant \<Rightarrow> wizard \<Rightarrow> wizard" where
  "expire_if_due now w = (if wz_status w \<noteq> Wz_pending then w
     else if now > wz_expires_at w then w\<lparr>wz_status := Wz_expired\<rparr> else w)"

definition get_wizard :: "instant \<Rightarrow> uuid \<Rightarrow> wizard ops_op" where
  "get_wizard now i = bindE (gets (\<lambda>s. dict_get (os_wizards s) i)) (\<lambda>found.
     bindE (of_option (AdminError Ad_validation 404) found) (\<lambda>w.
     let x = expire_if_due now w in bindE (save_wizard x) (\<lambda>_. ret x)))"

definition cancel_wizard :: "instant \<Rightarrow> uuid \<Rightarrow> wizard ops_op" where
  "cancel_wizard now i = bindE (get_wizard now i) (\<lambda>w.
     bindE (require (wz_status w \<noteq> Wz_confirmed) (AdminError Ad_validation 409)) (\<lambda>_.
     let x = w\<lparr>wz_status := Wz_cancelled\<rparr> in bindE (save_wizard x) (\<lambda>_. ret x)))"

definition confirm_wizard ::
  "admin_lib \<Rightarrow> instant \<Rightarrow> uuid \<Rightarrow> string option \<Rightarrow> string option \<Rightarrow> string \<Rightarrow> string \<Rightarrow> wizard ops_op" where
  "confirm_wizard c now i token user_cookie rq reason =
     bindE (get_wizard now i) (\<lambda>w.
     bindE (require (wz_status w \<noteq> Wz_cancelled) (AdminError Ad_wizard_cancelled 409)) (\<lambda>_.
     bindE (require (wz_status w \<noteq> Wz_expired) (AdminError Ad_wizard_expired 409)) (\<lambda>_.
     bindE (require (wz_status w = Wz_pending) (AdminError Ad_validation 409)) (\<lambda>_.
     bindE (action_for_wizard (wz_kind w)) (\<lambda>a.
     bindE (on_admin (execute c now token user_cookie
       \<lparr>al_action = a, al_target = wz_target w, al_reason = (if reason = [] then wz_reason w else reason),
        al_request = rq, al_source = ''127.0.0.1''\<rparr> None None)) (\<lambda>_.
     let x = w\<lparr>wz_status := Wz_confirmed, wz_request := Some rq\<rparr> in bindE (save_wizard x) (\<lambda>_. ret x)))))))"

subsection \<open>Catalog\<close>

record ops_catalog =
  ct_stale_after :: int
  ct_probes :: "(string, instant) dict"
  ct_poison :: "(string \<times> string, payload) dict"

definition catalog_kinds :: "string list" where
  "catalog_kinds = [''user'', ''session'', ''connection'', ''project'', ''price'', ''route'', ''ledger'', ''alert'', ''audit'']"

definition kind_action :: "(string \<times> string) list" where
  "kind_action = [(''user'', ''user.lookup''), (''session'', ''user.lookup''), (''connection'', ''connection.view_health''),
     (''project'', ''project.lookup''), (''price'', ''price.read''), (''route'', ''route.read''),
     (''ledger'', ''ledger.read''), (''alert'', ''alert.read''), (''audit'', ''audit.read'')]"

definition catalog_totals :: "(string \<times> int) list" where
  "catalog_totals = [(''user'', 5000), (''session'', 2000), (''connection'', 100000), (''project'', 8000), (''price'', 200),
     (''route'', 200), (''ledger'', 10000), (''alert'', 500), (''audit'', 3000)]"

definition catalog_prefix :: "(string \<times> string) list" where
  "catalog_prefix = [(''user'', ''user''), (''session'', ''sess''), (''connection'', ''conn''), (''project'', ''proj''),
     (''price'', ''price''), (''route'', ''route''), (''ledger'', ''led''), (''alert'', ''alrt''), (''audit'', ''aud'')]"

definition total_of :: "string \<Rightarrow> int" where
  "total_of kind = (case map_of catalog_totals kind of None \<Rightarrow> 0 | Some n \<Rightarrow> n)"

definition prefix_of :: "string \<Rightarrow> string" where
  "prefix_of kind = (case map_of catalog_prefix kind of None \<Rightarrow> [] | Some p \<Rightarrow> p)"

definition item_id :: "string \<Rightarrow> int \<Rightarrow> string" where
  "item_id kind index = (let digits = nat_str (nat index) in
     prefix_of kind @ ''-'' @ replicate (6 - length digits) (CHR ''0'') @ digits)"

definition parse_index :: "string \<Rightarrow> string \<Rightarrow> admin_error + int" where
  "parse_index kind item = (let p = prefix_of kind @ ''-'' in
     if \<not> starts_with item p then Inl (AdminError Ad_not_found 404)
     else case int_of_text (drop (length p) item) of
         None \<Rightarrow> Inl (AdminError Ad_not_found 404)
       | Some n \<Rightarrow> if n < 0 \<or> n \<ge> total_of kind then Inl (AdminError Ad_not_found 404) else Inr n)"

definition cursor_offset :: "string \<Rightarrow> admin_error + int" where
  "cursor_offset cursor = (if cursor = [] then Inr 0
     else case int_of_text cursor of
         None \<Rightarrow> Inl (AdminError Ad_validation 400)
       | Some n \<Rightarrow> if n < 0 then Inl (AdminError Ad_validation 400) else Inr n)"

definition secret_parts :: "string list" where
  "secret_parts = [''secret'', ''password'', ''token'', ''credential'', ''api_key'', ''apikey'', ''plaintext'',
     ''authorization'', ''cookie'']"

definition secret_key :: "string \<Rightarrow> bool" where
  "secret_key k \<longleftrightarrow> list_ex (contains (py_lower k)) secret_parts"

text \<open>\<^verbatim>\<open>_strip_secrets\<close> redacts a value, then drops the secret keys and strips what is left. Redacting again what
  is inside changes nothing (\<open>redact_idem\<close>), so the recursion need not repeat it.\<close>

fun drop_secrets :: "pyval \<Rightarrow> pyval" where
  "drop_secrets (PyDict kvs) =
     PyDict (map (\<lambda>(k, v). (k, drop_secrets v)) (filter (\<lambda>(k, v). \<not> secret_key k) kvs))"
| "drop_secrets (PyList vs) = PyList (map drop_secrets vs)"
| "drop_secrets (PyStr s) =
     PyStr (if list_ex (contains (py_lower s)) [''sk-'', ''plaintext'', ''begin private''] then ''[redacted]'' else s)"
| "drop_secrets v = v"

definition strip_secrets :: "pyval \<Rightarrow> pyval" where
  "strip_secrets v = drop_secrets (redact v)"

definition catalog_connection :: "admin_lib \<Rightarrow> instant \<Rightarrow> ops_catalog \<Rightarrow> int \<Rightarrow> string \<Rightarrow> payload" where
  "catalog_connection c now cat index item =
     (let probed = (case dict_get (ct_probes cat) item of None \<Rightarrow> now - seconds ((index mod 17) * 60) | Some t \<Rightarrow> t);
          stale = now - probed > ct_stale_after cat in
      [(''id'', PyStr item),
       (''fingerprint'', PyStr (take 16 (sha256hex c (''connection:'' @ int_str index @ '':v1'')))),
       (''capabilities'', PyList [PyStr ''chat'']),
       (''health'', PyStr (if stale then ''unknown'' else if index mod 5 = 0 then ''degraded'' else ''healthy'')),
       (''freshness'', PyStr (if stale then ''stale'' else ''live'')),
       (''protocol'', PyStr ([''openai'', ''anthropic'', ''vertex''] ! nat (index mod 3)))])"

definition live_field :: "string \<times> pyval" where
  "live_field = (''freshness'', PyStr ''live'')"

definition plain_item :: "admin_lib \<Rightarrow> instant \<Rightarrow> ops_catalog \<Rightarrow> string \<Rightarrow> int \<Rightarrow> payload" where
  "plain_item c now cat kind index =
     (let item = item_id kind index; named = (''id'', PyStr item) in
      if kind = ''connection'' then catalog_connection c now cat index item
      else if kind = ''user'' then [named, (''phone_masked'', PyStr ''*******0000''),
        (''role'', PyStr (if index mod 2 = 0 then ''buyer'' else ''seller'')), (''status'', PyStr ''active''), live_field]
      else if kind = ''session'' then [named, (''user_id'', PyStr (item_id ''user'' (index mod total_of ''user''))),
        (''status'', PyStr ''active''), live_field]
      else if kind = ''project'' then [named, (''mode'', PyStr (if index mod 2 = 0 then ''shared'' else ''dedicated'')),
        (''status'', PyStr ''active''), live_field]
      else if kind = ''price'' then [named, (''version'', PyInt 1), (''status'', PyStr ''active''), (''buyer_bps'', PyInt 10000), live_field]
      else if kind = ''route'' then [named, (''version'', PyInt 1), (''status'', PyStr ''active''), live_field]
      else if kind = ''ledger'' then [named, (''state'', PyStr (if index mod 11 = 0 then ''unresolved'' else ''settled'')),
        (''amount'', PyInt (index mod 97 + 1)), live_field]
      else if kind = ''alert'' then [named, (''severity'', PyStr (if index mod 3 \<noteq> 0 then ''info'' else ''warn'')),
        (''status'', PyStr ''open''), live_field]
      else [named, (''action'', PyStr ''audit.read''), (''result'', PyStr ''ok''), live_field])"

text \<open>\<^verbatim>\<open>{**item, **extra}\<close>.\<close>

definition merged :: "payload \<Rightarrow> payload \<Rightarrow> payload" where
  "merged d extra = foldl (\<lambda>d (k, v). dict_set k v d) d extra"

definition catalog_item :: "admin_lib \<Rightarrow> instant \<Rightarrow> ops_catalog \<Rightarrow> string \<Rightarrow> int \<Rightarrow> pyval" where
  "catalog_item c now cat kind index =
     strip_secrets (PyDict (case dict_get (ct_poison cat) (kind, item_id kind index) of
        None \<Rightarrow> plain_item c now cat kind index
      | Some extra \<Rightarrow> merged (plain_item c now cat kind index) extra))"

record ops_page =
  og_kind :: string
  og_items :: "pyval list"
  og_next :: "string option"
  og_total :: int

definition page_size :: "int \<Rightarrow> int" where
  "page_size limit = (if limit < 1 then 50 else min limit 100)"

definition search :: "admin_lib \<Rightarrow> instant \<Rightarrow> ops_catalog \<Rightarrow> string \<Rightarrow> string \<Rightarrow> pyval list" where
  "search c now cat kind q =
     (if starts_with q (prefix_of kind @ ''-'')
      then (case parse_index kind q of Inl e \<Rightarrow> [] | Inr n \<Rightarrow> [catalog_item c now cat kind n]) else [])"

definition list_page ::
  "admin_lib \<Rightarrow> instant \<Rightarrow> ops_catalog \<Rightarrow> string \<Rightarrow> string \<Rightarrow> int \<Rightarrow> string \<Rightarrow> admin_error + ops_page" where
  "list_page c now cat kind cursor limit q =
     (if map_of kind_action kind = None then Inl (AdminError Ad_validation 400)
      else if py_strip q \<noteq> []
      then (let found = search c now cat kind (py_strip q) in
        Inr \<lparr>og_kind = kind, og_items = found, og_next = None, og_total = int (length found)\<rparr>)
      else (case cursor_offset cursor of
          Inl e \<Rightarrow> Inl e
        | Inr start \<Rightarrow> (let total = total_of kind; stop = min (start + page_size limit) total in
            Inr \<lparr>og_kind = kind, og_items = map (catalog_item c now cat kind) [start..stop - 1],
              og_next = (if stop < total then Some (int_str stop) else None), og_total = total\<rparr>)))"

definition export_fields :: "string list" where
  "export_fields = [''id'', ''fingerprint'', ''capabilities'', ''health'', ''freshness'', ''protocol'']"

definition fields_of :: "pyval \<Rightarrow> payload" where
  "fields_of v = (case v of PyDict kvs \<Rightarrow> kvs | _ \<Rightarrow> [])"

definition export_item :: "admin_lib \<Rightarrow> instant \<Rightarrow> ops_catalog \<Rightarrow> string \<Rightarrow> string \<Rightarrow> admin_error + pyval" where
  "export_item c now cat kind item = (case parse_index kind item of
       Inl e \<Rightarrow> Inl e
     | Inr n \<Rightarrow> let v = catalog_item c now cat kind n in
         Inr (if kind = ''connection'' then PyDict (filter (\<lambda>(k, x). k \<in> set export_fields) (fields_of v))
              else strip_secrets v))"

subsection \<open>Handlers\<close>

definition require_action :: "string option \<Rightarrow> string option \<Rightarrow> string \<Rightarrow> admin_account ops_op" where
  "require_action token user_cookie a =
     bindE (on_admin (resolve_admin token user_cookie)) (\<lambda>acc.
     bindE (require (evaluate (an_role acc) (an_readonly acc) a) (AdminError Ad_forbidden 403)) (\<lambda>_. ret acc))"

definition action_of_kind :: "(string \<Rightarrow> string option) \<Rightarrow> string \<Rightarrow> string ops_op" where
  "action_of_kind f kind = of_option (AdminError Ad_validation 400) (f kind)"

definition create_draft_h :: "string option \<Rightarrow> string option \<Rightarrow> string \<Rightarrow> payload \<Rightarrow> config_draft ops_op" where
  "create_draft_h token user_cookie kind content =
     bindE (action_of_kind write_action kind) (\<lambda>a.
     bindE (require_action token user_cookie a) (\<lambda>_. on_config (create_draft kind content)))"

text \<open>The draft is read first; its kind says which action is asked for.\<close>

definition with_draft ::
  "(string \<Rightarrow> string option) \<Rightarrow> string option \<Rightarrow> string option \<Rightarrow> uuid \<Rightarrow> 'a config_op \<Rightarrow> 'a ops_op" where
  "with_draft f token user_cookie i m =
     bindE (on_config (get_draft i)) (\<lambda>d.
     bindE (of_option Py_key_error (f (dr_kind d))) (\<lambda>a.
     bindE (require_action token user_cookie a) (\<lambda>_. on_config m)))"

definition get_draft_h :: "string option \<Rightarrow> string option \<Rightarrow> uuid \<Rightarrow> config_draft ops_op" where
  "get_draft_h token user_cookie i =
     bindE (on_config (get_draft i)) (\<lambda>d. with_draft read_action token user_cookie i (ret d))"

definition simulate_h :: "string option \<Rightarrow> string option \<Rightarrow> uuid \<Rightarrow> string option ops_op" where
  "simulate_h token user_cookie i = with_draft write_action token user_cookie i (simulate i)"

definition approve_h :: "string option \<Rightarrow> string option \<Rightarrow> uuid \<Rightarrow> config_draft ops_op" where
  "approve_h token user_cookie i = with_draft write_action token user_cookie i (approve_draft i)"

definition config_call :: "string \<Rightarrow> string \<Rightarrow> string \<Rightarrow> string \<Rightarrow> admin_call" where
  "config_call a target reason rq =
     \<lparr>al_action = a, al_target = target, al_reason = reason, al_request = rq, al_source = ''127.0.0.1''\<rparr>"

text \<open>The clock is read by the check (\<open>t1\<close>) and again by the execution that is recorded (\<open>t2\<close>).\<close>

definition publish_draft_h ::
  "admin_lib \<Rightarrow> instant \<Rightarrow> instant \<Rightarrow> string option \<Rightarrow> string option \<Rightarrow> uuid \<Rightarrow> string \<Rightarrow> string \<Rightarrow> active_config ops_op" where
  "publish_draft_h c t1 t2 token user_cookie i reason rq =
     bindE (on_config (get_draft i)) (\<lambda>d.
     bindE (of_option Py_key_error (write_action (dr_kind d))) (\<lambda>a.
     let call = config_call a (nat_str i) reason rq in
     bindE (on_admin (ensure_action c t1 token user_cookie call True)) (\<lambda>_.
     bindE (on_config (publish_config i)) (\<lambda>published.
     bindE (on_admin (execute c t2 token user_cookie call
       (Some (PyDict [(''version'', PyInt (dr_base_version d))]))
       (Some (PyDict [(''version'', PyInt (ac_version published))])))) (\<lambda>_.
     ret published)))))"

definition rollback_h ::
  "admin_lib \<Rightarrow> instant \<Rightarrow> instant \<Rightarrow> string option \<Rightarrow> string option \<Rightarrow> string \<Rightarrow> int \<Rightarrow> string \<Rightarrow> string \<Rightarrow>
     active_config ops_op" where
  "rollback_h c t1 t2 token user_cookie kind to_version reason rq =
     bindE (action_of_kind write_action kind) (\<lambda>a.
     let call = config_call a kind reason rq in
     bindE (on_admin (ensure_action c t1 token user_cookie call True)) (\<lambda>_.
     bindE (on_config (rollback_config kind to_version)) (\<lambda>restored.
     bindE (on_admin (execute c t2 token user_cookie call None
       (Some (PyDict [(''version'', PyInt (ac_version restored))])))) (\<lambda>_.
     ret restored))))"

definition patch_active_h :: "string option \<Rightarrow> string option \<Rightarrow> unit ops_op" where
  "patch_active_h token user_cookie =
     bindE (require_action token user_cookie ''price.publish'') (\<lambda>_. on_config (patch_active ''price'' []))"

definition start_wizard_h ::
  "instant \<Rightarrow> string option \<Rightarrow> string option \<Rightarrow> string \<Rightarrow> string \<Rightarrow> string \<Rightarrow> wizard ops_op" where
  "start_wizard_h now token user_cookie kind target reason =
     bindE (action_for_wizard kind) (\<lambda>a.
     bindE (require_action token user_cookie a) (\<lambda>_. start_wizard now kind target reason))"

definition wizard_h ::
  "instant \<Rightarrow> string option \<Rightarrow> string option \<Rightarrow> uuid \<Rightarrow> (wizard \<Rightarrow> wizard ops_op) \<Rightarrow> wizard ops_op" where
  "wizard_h now token user_cookie i m =
     bindE (get_wizard now i) (\<lambda>w.
     bindE (action_for_wizard (wz_kind w)) (\<lambda>a.
     bindE (require_action token user_cookie a) (\<lambda>_. m w)))"

definition get_wizard_h :: "instant \<Rightarrow> string option \<Rightarrow> string option \<Rightarrow> uuid \<Rightarrow> wizard ops_op" where
  "get_wizard_h now token user_cookie i = wizard_h now token user_cookie i ret"

definition confirm_wizard_h ::
  "admin_lib \<Rightarrow> instant \<Rightarrow> string option \<Rightarrow> string option \<Rightarrow> uuid \<Rightarrow> string \<Rightarrow> string \<Rightarrow> wizard ops_op" where
  "confirm_wizard_h c now token user_cookie i rq reason =
     wizard_h now token user_cookie i (\<lambda>w. confirm_wizard c now i token user_cookie rq reason)"

definition cancel_wizard_h :: "instant \<Rightarrow> string option \<Rightarrow> string option \<Rightarrow> uuid \<Rightarrow> wizard ops_op" where
  "cancel_wizard_h now token user_cookie i = wizard_h now token user_cookie i (\<lambda>w. cancel_wizard now i)"

definition visible_kinds :: "string option \<Rightarrow> string option \<Rightarrow> string list ops_op" where
  "visible_kinds token user_cookie =
     bindE (require_action token user_cookie ''alert.read'') (\<lambda>acc.
     ret (filter (\<lambda>k. evaluate (an_role acc) (an_readonly acc) (the (map_of kind_action k))) catalog_kinds))"

definition read_catalog ::
  "string option \<Rightarrow> string option \<Rightarrow> string \<Rightarrow> (admin_error + 'a) \<Rightarrow> 'a ops_op" where
  "read_catalog token user_cookie kind answer =
     bindE (action_of_kind (map_of kind_action) kind) (\<lambda>a.
     bindE (require_action token user_cookie a) (\<lambda>_. of_sum answer))"

definition edit_balance_h :: "string option \<Rightarrow> string option \<Rightarrow> unit ops_op" where
  "edit_balance_h token user_cookie =
     bindE (require_action token user_cookie ''ledger.edit_balance'') (\<lambda>_. throw (AdminError Ad_forbidden 403))"

definition delete_audit_h :: "string option \<Rightarrow> string option \<Rightarrow> uuid \<Rightarrow> unit ops_op" where
  "delete_audit_h token user_cookie i =
     bindE (on_admin (resolve_admin token user_cookie)) (\<lambda>_. on_admin (delete_audit i))"

definition sql_h :: "string option \<Rightarrow> string option \<Rightarrow> unit ops_op" where
  "sql_h token user_cookie =
     bindE (on_admin (resolve_admin token user_cookie)) (\<lambda>_. throw (AdminError Ad_sql_editor_denied 403))"

end
