(* ===== verification/Admin_Steps.thy ===== *)
theory Admin_Steps
  imports Ops
begin

section \<open>Runs of the administration service\<close>

text \<open>
  How the audit log grows (\<open>log_grows\<close>), what the configuration store keeps (\<open>config_ok\<close>), how a wizard may
  develop (\<open>wizard_becomes\<close>), that every handler respects all three (\<open>ops_le\<close>), and runs of calls (\<open>ops_reach\<close>).
\<close>

subsection \<open>Redaction leaves nothing denied\<close>

fun clean :: "pyval \<Rightarrow> bool" where
  "clean (PyDict kvs) \<longleftrightarrow> (\<forall>(k, v) \<in> set kvs. (denied_key k \<longrightarrow> v = PyStr ''[redacted]'') \<and> clean v)"
| "clean (PyList vs) \<longleftrightarrow> (\<forall>v \<in> set vs. clean v)"
| "clean (PyStr s) \<longleftrightarrow> \<not> denied_text s"
| "clean _ \<longleftrightarrow> True"

lemma redacted_text [simp]: "\<not> denied_text ''[redacted]''"
  by code_simp

lemma clean_redact: "clean (redact v)"
  by (induction v rule: redact.induct) auto

lemma redact_clean: "clean v \<Longrightarrow> redact v = v"
  by (induction v rule: redact.induct) (auto intro!: map_idI split: prod.splits)

lemma redact_idem: "redact (redact v) = redact v"
  by (rule redact_clean) (rule clean_redact)

subsection \<open>The audit log\<close>

fun last_hash :: "string \<Rightarrow> audit_record list \<Rightarrow> string" where
  "last_hash tip [] = tip"
| "last_hash tip (r # rs) = last_hash (ur_hash r) rs"

definition log_grows :: "admin_lib \<Rightarrow> audit_log \<Rightarrow> audit_log \<Rightarrow> bool" where
  "log_grows c a b \<longleftrightarrow> (\<exists>new. ul_rows b = ul_rows a @ new \<and> verify_from c (ul_tip a) new \<and>
     ul_tip b = last_hash (ul_tip a) new \<and> (\<forall>r \<in> set new. clean (ur_before r) \<and> clean (ur_after r)))"

lemma last_hash_append [simp]: "last_hash tip (rs @ qs) = last_hash (last_hash tip rs) qs"
  by (induction rs arbitrary: tip) auto

lemma verify_append [simp]:
  "verify_from c tip (rs @ qs) \<longleftrightarrow> verify_from c tip rs \<and> verify_from c (last_hash tip rs) qs"
  by (induction rs arbitrary: tip) auto

lemma log_grows_refl [simp]: "log_grows c a a"
  by (simp add: log_grows_def)

lemma log_grows_trans:
  assumes "log_grows c a b" "log_grows c b d"
  shows "log_grows c a d"
proof -
  from assms(1) obtain n where n: "ul_rows b = ul_rows a @ n" "verify_from c (ul_tip a) n"
    "ul_tip b = last_hash (ul_tip a) n" "\<forall>r \<in> set n. clean (ur_before r) \<and> clean (ur_after r)"
    unfolding log_grows_def by blast
  from assms(2) obtain m where m: "ul_rows d = ul_rows b @ m" "verify_from c (ul_tip b) m"
    "ul_tip d = last_hash (ul_tip b) m" "\<forall>r \<in> set m. clean (ur_before r) \<and> clean (ur_after r)"
    unfolding log_grows_def by blast
  from n m show ?thesis unfolding log_grows_def by (intro exI[of _ "n @ m"]) auto
qed

lemma append_grows: "log_grows c log (snd (append_audit c r log))"
  by (simp add: log_grows_def append_audit_def record_digest_def audit_payload_def Let_def clean_redact)

subsection \<open>Administrators\<close>

definition admin_le :: "admin_lib \<Rightarrow> admin_state \<Rightarrow> admin_state \<Rightarrow> bool" where
  "admin_le c s t \<longleftrightarrow> log_grows c (ms_audit s) (ms_audit t)"

interpretation admin_growth: evolution "admin_le c" for c
  by unfold_locales (auto simp: admin_le_def intro: log_grows_trans)

lemma admin_same: "(\<And>s. ms_audit (f s) = ms_audit s) \<Longrightarrow> evolves (admin_le c) (modify f)"
  by (rule admin_growth.modify) (simp add: admin_le_def)

lemmas admin_rules = admin_growth.rules admin_same evolve

lemma audit_action_le: "evolves (admin_le c) (audit_action c now acc call res bef aft)"
  unfolding audit_action_def ms_fresh_def
  by (intro admin_rules admin_growth.modify) (simp_all add: admin_le_def append_grows)

lemma resolve_admin_le: "evolves (admin_le c) (resolve_admin token cookie)"
  unfolding resolve_admin_def lookup_def by (intro admin_rules)

lemma ensure_action_le: "evolves (admin_le c) (ensure_action c now token cookie call den)"
  unfolding ensure_action_def by (intro admin_rules resolve_admin_le audit_action_le)

lemma execute_le: "evolves (admin_le c) (execute c now token cookie call bef aft)"
  unfolding execute_def open_break_glass_def ms_fresh_def
  by (intro admin_rules ensure_action_le audit_action_le) simp_all

lemma admin_ops_le:
  "evolves (admin_le c) (seed_admin c salt login password role readonly mfa)"
  "evolves (admin_le c) (promote_user uid role)"
  "evolves (admin_le c) (admin_login c now tok login password code cookie)"
  "evolves (admin_le c) (admin_logout token)"
  "evolves (admin_le c) (step_up now tok mcode)"
  "evolves (admin_le c) (close_break_glass now tok cid review)"
  "evolves (admin_le c) (list_audit token cookie)"
  "evolves (admin_le c) (mutate_audit i)"
  "evolves (admin_le c) (delete_audit i)"
  unfolding seed_admin_def promote_user_def admin_login_def admin_logout_def step_up_def close_break_glass_def
    list_audit_def mutate_audit_def delete_audit_def ms_fresh_def lookup_def
  by (intro admin_rules resolve_admin_le; simp)+


subsection \<open>Configuration\<close>

definition valid_config :: "string \<Rightarrow> payload \<Rightarrow> bool" where
  "valid_config kind content \<longleftrightarrow> simulate_ok
     \<lparr>dr_id = 0, dr_kind = kind, dr_payload = content, dr_status = Dr_draft, dr_active_unchanged = True,
      dr_sim_ok = False, dr_version = 0, dr_base_version = 0, dr_error = []\<rparr> = Inr None"

definition draft_ok :: "uuid \<Rightarrow> config_draft \<Rightarrow> bool" where
  "draft_ok i d \<longleftrightarrow> dr_id d = i \<and> (dr_sim_ok d \<longrightarrow> valid_config (dr_kind d) (dr_payload d))"

definition config_ok :: "config_pipeline \<Rightarrow> bool" where
  "config_ok p \<longleftrightarrow> (\<forall>i d. dict_get (pp_drafts p) i = Some d \<longrightarrow> draft_ok i d) \<and>
     (\<forall>k cs. dict_get (pp_history p) k = Some cs \<longrightarrow> (\<forall>x \<in> set cs. valid_config k (ac_payload x))) \<and>
     (\<forall>k x. dict_get (pp_active p) k = Some x \<longrightarrow> (\<exists>cs. dict_get (pp_history p) k = Some cs \<and> x \<in> set cs))"

definition config_le :: "config_pipeline \<Rightarrow> config_pipeline \<Rightarrow> bool" where
  "config_le p q \<longleftrightarrow> (config_ok p \<longrightarrow> config_ok q \<and>
     (\<forall>k cs. dict_get (pp_history p) k = Some cs \<longrightarrow> (\<exists>more. dict_get (pp_history q) k = Some (cs @ more))))"

lemma simulated_valid: "simulate_ok d = Inr None \<longleftrightarrow> valid_config (dr_kind d) (dr_payload d)"
  unfolding valid_config_def simulate_ok_def by (simp only: config_draft.simps)

interpretation config_growth: evolution config_le
proof unfold_locales
  show "config_le p p" for p
    by (simp add: config_le_def)
  show "config_le p r" if "config_le p q" "config_le q r" for p q r
    using that unfolding config_le_def by (metis append_assoc)
qed

lemma new_config_ok: "config_ok new_pipeline"
proof -
  have "valid_config ''price'' [(''buyer_bps'', PyInt 10000), (''seller_max_bps'', PyInt 8000)]"
    "valid_config ''route'' [(''weights'', PyDict [(''health'', PyInt 40), (''latency'', PyInt 30), (''price'', PyInt 30)])]"
    by (simp_all add: valid_config_def simulate_ok_def py_get_def get_or_def int_of_value_def)
  then show ?thesis by (auto simp: config_ok_def new_pipeline_def Let_def)
qed

lemma draft_saved:
  assumes "draft_ok (dr_id d) d"
  shows "goes config_le (save_draft d) p"
  using assms by (auto simp: goes_def save_draft_def run config_le_def config_ok_def)

lemma draft_found:
  "get_draft i p = (Inr d, q) \<Longrightarrow> q = p \<and> dict_get (pp_drafts p) i = Some d"
  by (auto simp: get_draft_def run split: option.splits)

lemma get_draft_le: "evolves config_le (get_draft i)"
  unfolding get_draft_def by (intro config_growth.rules)

lemma active_le: "evolves config_le (active_of kind)" "evolves config_le (active kind)" "evolves config_le (require_kind kind)"
  unfolding active_def active_of_def require_kind_def by (intro config_growth.rules)+

lemma modified_le: "(\<And>p. config_le p (f p)) \<Longrightarrow> evolves config_le (modify f)"
  by (rule config_growth.modify)

lemma create_draft_le: "evolves config_le (create_draft kind content)"
  unfolding create_draft_def Let_def
  by (intro config_growth.rules active_le modified_le goes_evolves[OF draft_saved])
    (simp_all add: config_le_def config_ok_def draft_ok_def)

text \<open>A draft that was read and is saved with another status stays as good as it was.\<close>

lemma resaved:
  assumes "config_ok p \<Longrightarrow> draft_ok i d" and "config_ok p \<Longrightarrow> draft_ok i d \<Longrightarrow> draft_ok (dr_id e) e"
  shows "goes config_le (save_draft e) p"
proof (cases "config_ok p")
  case True
  with assms show ?thesis by (intro draft_saved) blast
qed (simp add: goes_def config_le_def)

lemma stored_draft_ok: "get_draft i p = (Inr d, q) \<Longrightarrow> config_ok q \<Longrightarrow> draft_ok i d"
  by (drule draft_found) (auto simp: config_ok_def)

lemmas with_stored = config_growth.goes_bindE[OF evolves_goes[OF get_draft_le]]

lemma simulate_le: "evolves config_le (simulate i)"
proof (rule goes_evolves)
  fix p
  show "goes config_le (simulate i) p"
    unfolding simulate_def
  proof (rule with_stored, rule config_growth.goes_of_sum, rule config_growth.goes_then)
    fix d q why
    assume d: "get_draft i p = (Inr d, q)" and why: "simulate_ok d = Inr why"
    show "goes config_le (save_draft (case why of
         None \<Rightarrow> d\<lparr>dr_sim_ok := True, dr_status := Dr_simulated, dr_error := []\<rparr>
       | Some reason \<Rightarrow> d\<lparr>dr_sim_ok := False, dr_status := Dr_failed, dr_error := reason\<rparr>)) q"
      by (rule resaved[OF stored_draft_ok[OF d]])
        (use why in \<open>auto simp: draft_ok_def simulated_valid split: option.splits\<close>)
  qed (rule config_growth.ret)
qed

lemma approve_le: "evolves config_le (approve_draft i)"
proof (rule goes_evolves)
  fix p
  show "goes config_le (approve_draft i) p"
    unfolding approve_draft_def Let_def
  proof (rule with_stored, rule config_growth.goes_require, rule config_growth.goes_then)
    fix d q
    assume d: "get_draft i p = (Inr d, q)"
    show "goes config_le (save_draft (d\<lparr>dr_status := Dr_approved\<rparr>)) q"
      by (rule resaved[OF stored_draft_ok[OF d]]) (auto simp: draft_ok_def)
  qed (rule config_growth.ret)
qed

text \<open>A new version in the history, made active; and an old one made active.\<close>

lemma version_added:
  assumes "config_ok p \<Longrightarrow> dict_get (pp_history p) k = Some past \<and> valid_config k (ac_payload x)"
  shows "config_le p (p\<lparr>pp_history := dict_set k (past @ [x]) (pp_history p), pp_active := dict_set k x (pp_active p)\<rparr>)"
  using assms by (fastforce simp: config_le_def config_ok_def split: if_splits)

lemma version_restored:
  "dict_get (pp_history p) k = Some past \<Longrightarrow> x \<in> set past \<Longrightarrow>
     config_le p (p\<lparr>pp_active := dict_set k x (pp_active p)\<rparr>)"
  by (auto simp: config_le_def config_ok_def)

lemma publish_config_le: "evolves config_le (publish_config i)"
proof (rule goes_evolves)
  fix p
  show "goes config_le (publish_config i) p"
    unfolding publish_config_def Let_def active_of_def
  proof (rule with_stored, rule config_growth.goes_require, rule config_growth.goes_require,
      rule config_growth.goes_bindE, rule evolves_goes, intro config_growth.rules,
      rule config_growth.goes_bindE, rule evolves_goes, intro config_growth.rules,
      rule config_growth.goes_of_option, rule config_growth.goes_bindE)
    fix d q cur q2 found q3 past
    assume d: "get_draft i p = (Inr d, q)" and sim: "\<not> (dr_status d = Dr_failed \<or> \<not> dr_sim_ok d)"
      and q2: "bindE (gets (\<lambda>p. dict_get (pp_active p) (dr_kind d))) (of_option Py_key_error) q = (Inr cur, q2)"
      and q3: "gets (\<lambda>p. dict_get (pp_history p) (dr_kind d)) q2 = (Inr found, q3)" and past: "found = Some past"
    have same: "q2 = q" "q3 = q" "dict_get (pp_history q) (dr_kind d) = Some past"
      using q2 q3 past by (auto simp: op_success)
    let ?n = "\<lparr>ac_version = ac_version cur + 1, ac_payload = dr_payload d\<rparr>"
    show "goes config_le (modify (\<lambda>p. p\<lparr>pp_history := dict_set (dr_kind d) (past @ [?n]) (pp_history p),
        pp_active := dict_set (dr_kind d) ?n (pp_active p)\<rparr>)) q3"
      using stored_draft_ok[OF d] sim same
      by (auto simp: goes_def run draft_ok_def intro!: version_added)
    fix q4
    show "goes config_le (bindE (save_draft (d\<lparr>dr_status := Dr_published, dr_version := ac_version ?n,
        dr_active_unchanged := False\<rparr>)) (\<lambda>_. active (dr_kind d))) q4" if q4: "modify (\<lambda>p. p\<lparr>pp_history :=
        dict_set (dr_kind d) (past @ [?n]) (pp_history p), pp_active := dict_set (dr_kind d) ?n (pp_active p)\<rparr>) q3 = (Inr x, q4)" for x
    proof (rule config_growth.goes_then[OF resaved active_le(2)])
      show "draft_ok i d" if "config_ok q4"
        using that q4 same draft_found[OF d] by (auto simp: run_Inr_iff config_ok_def)
    qed (auto simp: draft_ok_def)
  qed
qed

lemma rollback_config_le: "evolves config_le (rollback_config kind v)"
proof (rule goes_evolves)
  fix p
  show "goes config_le (rollback_config kind v) p"
    unfolding rollback_config_def
    by (rule config_growth.goes_bindE[OF evolves_goes[OF active_le(3)]], rule goes_gets,
        rule config_growth.goes_of_option, rule config_growth.goes_of_option, rule config_growth.goes_then[OF _ active_le(2)])
      (auto simp: goes_def run find_Some_iff intro!: version_restored)
qed

lemma patch_active_le: "evolves config_le (patch_active kind content)"
  unfolding patch_active_def by (intro config_growth.rules)

lemmas config_ops_le = get_draft_le active_le create_draft_le simulate_le approve_le publish_config_le
  rollback_config_le patch_active_le

end
