(* ===== verification/Ops_Steps.thy ===== *)
theory Ops_Steps
  imports Admin_Steps Interfaces
begin

section \<open>Runs of the operations console\<close>

text \<open>
  How a wizard may develop (\<open>wizard_becomes\<close>), that every handler keeps the audit log, the configuration and
  the wizards in order (\<open>ops_le\<close>), and runs of calls (\<open>ops_reach\<close>).
\<close>

subsection \<open>Wizards\<close>

definition wizard_of :: "ops_state \<Rightarrow> uuid \<Rightarrow> wizard option" where
  "wizard_of s i = dict_get (os_wizards s) i"

definition put_wizard :: "uuid \<Rightarrow> wizard \<Rightarrow> ops_state \<Rightarrow> ops_state" where
  "put_wizard i w s = s\<lparr>os_wizards := dict_set i w (os_wizards s)\<rparr>"

interpretation wizard_store: keyed_store wizard_of put_wizard
  by unfold_locales (simp add: wizard_of_def put_wizard_def)

definition wizard_moves :: "wizard_status \<Rightarrow> wizard_status \<Rightarrow> bool" where
  "wizard_moves a b \<longleftrightarrow> a = b \<or> a = Wz_pending \<or> a = Wz_expired \<and> b = Wz_cancelled"

interpretation wizard_machine: status_machine wizard_moves "\<lambda>a. a \<in> {Wz_cancelled, Wz_confirmed}"
  "\<lambda>a. case a of Wz_pending \<Rightarrow> 0 | Wz_expired \<Rightarrow> 1 | _ \<Rightarrow> 2"
  by unfold_locales (auto simp: wizard_moves_def split: wizard_status.splits)

definition wizard_becomes :: "wizard \<Rightarrow> wizard \<Rightarrow> bool" where
  "wizard_becomes a b \<longleftrightarrow> wz_id b = wz_id a \<and> wz_kind b = wz_kind a \<and> wz_target b = wz_target a \<and>
     wz_reason b = wz_reason a \<and> wz_created_at b = wz_created_at a \<and> wz_expires_at b = wz_expires_at a \<and>
     wizard_moves (wz_status a) (wz_status b) \<and> (wz_status a = Wz_confirmed \<longrightarrow> b = a)"

lemma wizard_becomes_order: "reflp wizard_becomes" "transp wizard_becomes"
  by (auto simp: reflp_def transp_def wizard_becomes_def wizard_moves_def)

definition wizards_ok :: "ops_state \<Rightarrow> bool" where
  "wizards_ok s \<longleftrightarrow> all_stored wizard_of (\<lambda>i w. wz_id w = i \<and> i < os_next s \<and> wz_expires_at w = wz_created_at w + wizard_ttl) s"

definition wizards_le :: "ops_state \<Rightarrow> ops_state \<Rightarrow> bool" where
  "wizards_le s t \<longleftrightarrow> (wizards_ok s \<longrightarrow> wizards_ok t \<and> entries_grow wizard_of wizard_becomes s t)"

lemma wizards_le_same:
  "os_wizards t = os_wizards s \<Longrightarrow> os_next t = os_next s \<Longrightarrow> wizards_le s t"
  by (auto simp: wizards_le_def wizards_ok_def all_stored_def entries_grow_def wizard_of_def
      wizard_becomes_order(1)[unfolded reflp_def])

definition ops_le :: "admin_lib \<Rightarrow> ops_state \<Rightarrow> ops_state \<Rightarrow> bool" where
  "ops_le c s t \<longleftrightarrow> admin_le c (os_admin s) (os_admin t) \<and> config_le (os_config s) (os_config t) \<and> wizards_le s t"

interpretation ops_growth: evolution "ops_le c" for c
proof unfold_locales
  show "ops_le c s s" for s
    by (simp add: ops_le_def admin_growth.refl config_growth.refl wizards_le_same)
  show "ops_le c s u" if "ops_le c s t" "ops_le c t u" for s t u
    using that unfolding ops_le_def wizards_le_def
    by (meson admin_growth.trans config_growth.trans entries_grow_trans wizard_becomes_order(2))
qed

lemma on_admin_le: "evolves (admin_le c) m \<Longrightarrow> evolves (ops_le c) (on_admin m)"
  by (rule goes_evolves, unfold on_admin_def, rule goes_zoom)
    (auto simp: evolves_def ops_le_def config_growth.refl wizards_le_same)

lemma on_config_le: "evolves config_le m \<Longrightarrow> evolves (ops_le c) (on_config m)"
  by (rule goes_evolves, unfold on_config_def, rule goes_zoom)
    (auto simp: evolves_def ops_le_def admin_growth.refl wizards_le_same)

subsection \<open>Operations on wizards\<close>

lemma wizard_written:
  assumes "wizard_of s i = Some w" and "wizard_becomes w x"
  shows "goes (ops_le c) (save_wizard x) s"
proof -
  have "wizards_le s (put_wizard (wz_id x) x s)"
    unfolding wizards_le_def
  proof (intro impI conjI)
    assume ok: "wizards_ok s"
    with assms(1) have i: "wz_id w = i" "i < os_next s" "wz_expires_at w = wz_created_at w + wizard_ttl"
      by (auto simp: wizards_ok_def dest: all_storedD)
    with assms(2) have x: "wz_id x = i" "wz_expires_at x = wz_created_at x + wizard_ttl"
      by (simp_all add: wizard_becomes_def)
    have n: "os_next (put_wizard k x s) = os_next s" for k by (simp add: put_wizard_def)
    show "wizards_ok (put_wizard (wz_id x) x s)"
      using ok i x unfolding wizards_ok_def n by (intro wizard_store.all_stored_put) auto
    show "entries_grow wizard_of wizard_becomes s (put_wizard (wz_id x) x s)"
      using assms x by (intro wizard_store.entries_grow_put wizard_becomes_order) auto
  qed
  then show ?thesis
    by (simp add: goes_def save_wizard_def run ops_le_def put_wizard_def admin_growth.refl config_growth.refl)
qed

lemma expire_becomes: "wizard_becomes w (expire_if_due now w)"
  by (auto simp: expire_if_due_def wizard_becomes_def wizard_moves_def)

lemma get_wizard_le: "evolves (ops_le c) (get_wizard now i)"
proof (rule goes_evolves)
  fix s
  show "goes (ops_le c) (get_wizard now i) s"
    unfolding get_wizard_def Let_def
    by (rule goes_gets, rule ops_growth.goes_of_option, rule ops_growth.goes_then)
      (auto intro!: wizard_written expire_becomes ops_growth.ret simp: wizard_of_def)
qed

text \<open>After a read the wizard is stored as it was returned, once its key is its identifier.\<close>

lemma wizard_got:
  assumes "get_wizard now i s = (Inr w, t)"
  obtains a where "wizard_of s i = Some a" "w = expire_if_due now a" "t = put_wizard (wz_id w) w s"
  using assms by (auto simp: get_wizard_def save_wizard_def wizard_of_def put_wizard_def op_success Let_def)

lemma got_stored: "get_wizard now i s = (Inr w, t) \<Longrightarrow> wizard_of t (wz_id w) = Some w"
  by (erule wizard_got) (simp add: wizard_store.get_put)

lemma cancel_wizard_le: "evolves (ops_le c) (cancel_wizard now i)"
proof (rule goes_evolves)
  fix s
  show "goes (ops_le c) (cancel_wizard now i) s"
    unfolding cancel_wizard_def Let_def
  proof (rule ops_growth.goes_bindE[OF evolves_goes[OF get_wizard_le]], rule ops_growth.goes_require,
      rule ops_growth.goes_then)
    fix w t
    assume "get_wizard now i s = (Inr w, t)" and "wz_status w \<noteq> Wz_confirmed"
    then show "goes (ops_le c) (save_wizard (w\<lparr>wz_status := Wz_cancelled\<rparr>)) t"
      by (intro wizard_written[OF got_stored])
        (auto simp: wizard_becomes_def wizard_moves_def intro: wizard_status.exhaust)
  qed (rule ops_growth.ret)
qed

lemma on_admin_run:
  "on_admin m s = (r, t) \<longleftrightarrow> m (os_admin s) = (r, os_admin t) \<and> t = s\<lparr>os_admin := os_admin t\<rparr>"
  by (cases "m (os_admin s)") (auto simp: on_admin_def zoom_def split: sum.splits)

lemma on_config_run:
  "on_config m s = (r, t) \<longleftrightarrow> m (os_config s) = (r, os_config t) \<and> t = s\<lparr>os_config := os_config t\<rparr>"
  by (cases "m (os_config s)") (auto simp: on_config_def zoom_def split: sum.splits)

lemma wizard_of_frame [simp]:
  "wizard_of (s\<lparr>os_admin := a\<rparr>) = wizard_of s" "wizard_of (s\<lparr>os_config := p\<rparr>) = wizard_of s"
  by (simp_all add: wizard_of_def fun_eq_iff)

lemma confirm_wizard_le: "evolves (ops_le c) (confirm_wizard c now i token cookie rq reason)"
proof (rule goes_evolves)
  fix s
  show "goes (ops_le c) (confirm_wizard c now i token cookie rq reason) s"
    unfolding confirm_wizard_def Let_def action_for_wizard_def
  proof (rule ops_growth.goes_bindE[OF evolves_goes[OF get_wizard_le]], rule ops_growth.goes_require,
      rule ops_growth.goes_require, rule ops_growth.goes_require, rule ops_growth.goes_of_option,
      rule ops_growth.goes_bindE[OF evolves_goes[OF on_admin_le[OF execute_le]]], rule ops_growth.goes_then)
    fix w t a e u
    assume w: "get_wizard now i s = (Inr w, t)" "wz_status w = Wz_pending"
      and "on_admin (execute c now token cookie \<lparr>al_action = a, al_target = wz_target w,
        al_reason = (if reason = [] then wz_reason w else reason), al_request = rq, al_source = ''127.0.0.1''\<rparr> None None) t = (Inr e, u)"
    then have "u = t\<lparr>os_admin := os_admin u\<rparr>" by (simp add: on_admin_run)
    then have "wizard_of u = wizard_of t" by (metis wizard_of_frame(1))
    with got_stored[OF w(1)] w(2) show "goes (ops_le c) (save_wizard (w\<lparr>wz_status := Wz_confirmed, wz_request := Some rq\<rparr>)) u"
      by (intro wizard_written[of u "wz_id w" w]) (auto simp: wizard_becomes_def wizard_moves_def)
  qed (rule ops_growth.ret)
qed

lemma start_wizard_le: "evolves (ops_le c) (start_wizard now kind target reason)"
proof (rule goes_evolves)
  fix s :: ops_state
  let ?w = "\<lparr>wz_id = os_next s, wz_kind = kind, wz_target = target, wz_status = Wz_pending, wz_request = None,
    wz_reason = reason, wz_created_at = now, wz_expires_at = now + wizard_ttl\<rparr>"
  let ?t = "s\<lparr>os_next := os_next s + 1, os_wizards := dict_set (os_next s) ?w (os_wizards s)\<rparr>"
  have "wizards_le s ?t"
  proof -
    have "wizard_of ?t k = (if k = os_next s then Some ?w else wizard_of s k)" for k
      by (simp add: wizard_of_def)
    then show ?thesis
      using wizard_becomes_order(1) by (auto simp: wizards_le_def wizards_ok_def all_stored_def entries_grow_def less_Suc_eq reflp_def)
  qed
  then show "goes (ops_le c) (start_wizard now kind target reason) s"
    unfolding start_wizard_def action_for_wizard_def Let_def
    by (intro ops_growth.goes_of_option)
      (simp add: goes_def save_wizard_def run ops_le_def admin_growth.refl config_growth.refl)
qed

subsection \<open>Handlers\<close>

lemmas ops_rules = ops_growth.rules evolve on_admin_le on_config_le

lemma require_action_le: "evolves (ops_le c) (require_action token cookie a)"
  unfolding require_action_def by (intro ops_rules resolve_admin_le)

lemma with_draft_le: "evolves config_le m \<Longrightarrow> evolves (ops_le c) (with_draft f token cookie i m)"
  unfolding with_draft_def by (intro ops_rules require_action_le get_draft_le)

lemma wizard_h_le: "(\<And>w. evolves (ops_le c) (m w)) \<Longrightarrow> evolves (ops_le c) (wizard_h now token cookie i m)"
  unfolding wizard_h_def action_for_wizard_def by (intro ops_rules require_action_le get_wizard_le)

lemma config_handlers_le:
  "evolves (ops_le c) (create_draft_h token cookie kind content)"
  "evolves (ops_le c) (get_draft_h token cookie i)"
  "evolves (ops_le c) (simulate_h token cookie i)"
  "evolves (ops_le c) (approve_h token cookie i)"
  "evolves (ops_le c) (patch_active_h token cookie)"
  unfolding create_draft_h_def get_draft_h_def simulate_h_def approve_h_def patch_active_h_def action_of_kind_def
  by (intro ops_rules with_draft_le config_ops_le config_growth.rules require_action_le)+

lemma publishing_le:
  "evolves (ops_le c) (publish_draft_h c t1 t2 token cookie i reason rq)"
  "evolves (ops_le c) (rollback_h c t1 t2 token cookie kind v reason rq)"
  unfolding publish_draft_h_def rollback_h_def action_of_kind_def
  by (intro ops_rules config_ops_le ensure_action_le execute_le)+

lemma wizard_handlers_le:
  "evolves (ops_le c) (start_wizard_h now token cookie kind target reason)"
  "evolves (ops_le c) (get_wizard_h now token cookie i)"
  "evolves (ops_le c) (confirm_wizard_h c now token cookie i rq reason)"
  "evolves (ops_le c) (cancel_wizard_h now token cookie i)"
  unfolding start_wizard_h_def get_wizard_h_def confirm_wizard_h_def cancel_wizard_h_def action_for_wizard_def
  by (intro ops_rules wizard_h_le start_wizard_le confirm_wizard_le cancel_wizard_le require_action_le)+

lemma other_handlers_le:
  "evolves (ops_le c) (visible_kinds token cookie)"
  "evolves (ops_le c) (read_catalog token cookie kind answer)"
  "evolves (ops_le c) (edit_balance_h token cookie)"
  "evolves (ops_le c) (delete_audit_h token cookie i)"
  "evolves (ops_le c) (sql_h token cookie)"
  unfolding visible_kinds_def read_catalog_def edit_balance_h_def delete_audit_h_def sql_h_def action_of_kind_def
  by (intro ops_rules require_action_le resolve_admin_le admin_ops_le)+

text \<open>
  A call of the service: any operation of the list. The library functions stay the same; clock readings,
  salts and tokens are arbitrary.
\<close>

inductive ops_step :: "admin_lib \<Rightarrow> ops_state \<Rightarrow> ops_state \<Rightarrow> bool" for c where
  seeded: "on_admin (seed_admin c salt login password role readonly mfa) s = (r, t) \<Longrightarrow> ops_step c s t"
| promoted: "on_admin (promote_user uid role) s = (r, t) \<Longrightarrow> ops_step c s t"
| logged_in: "on_admin (admin_login c now tok login password code cookie) s = (r, t) \<Longrightarrow> ops_step c s t"
| logged_out: "on_admin (admin_logout token) s = (r, t) \<Longrightarrow> ops_step c s t"
| stepped_up: "on_admin (step_up now tok mcode) s = (r, t) \<Longrightarrow> ops_step c s t"
| executed: "on_admin (execute c now token cookie call bef aft) s = (r, t) \<Longrightarrow> ops_step c s t"
| glass_closed: "on_admin (close_break_glass now tok cid review) s = (r, t) \<Longrightarrow> ops_step c s t"
| audit_listed: "on_admin (list_audit token cookie) s = (r, t) \<Longrightarrow> ops_step c s t"
| audit_mutated: "on_admin (mutate_audit i) s = (r, t) \<Longrightarrow> ops_step c s t"
| drafted: "create_draft_h token cookie kind content s = (r, t) \<Longrightarrow> ops_step c s t"
| draft_read: "get_draft_h token cookie i s = (r, t) \<Longrightarrow> ops_step c s t"
| simulated: "simulate_h token cookie i s = (r, t) \<Longrightarrow> ops_step c s t"
| approved: "approve_h token cookie i s = (r, t) \<Longrightarrow> ops_step c s t"
| published: "publish_draft_h c t1 t2 token cookie i reason rq s = (r, t) \<Longrightarrow> ops_step c s t"
| rolled_back: "rollback_h c t1 t2 token cookie kind v reason rq s = (r, t) \<Longrightarrow> ops_step c s t"
| patched: "patch_active_h token cookie s = (r, t) \<Longrightarrow> ops_step c s t"
| wizard_started: "start_wizard_h now token cookie kind target reason s = (r, t) \<Longrightarrow> ops_step c s t"
| wizard_read: "get_wizard_h now token cookie i s = (r, t) \<Longrightarrow> ops_step c s t"
| wizard_confirmed: "confirm_wizard_h c now token cookie i rq reason s = (r, t) \<Longrightarrow> ops_step c s t"
| wizard_cancelled: "cancel_wizard_h now token cookie i s = (r, t) \<Longrightarrow> ops_step c s t"
| kinds_listed: "visible_kinds token cookie s = (r, t) \<Longrightarrow> ops_step c s t"
| catalog_read: "read_catalog token cookie kind (answer :: admin_error + ops_page) s = (r, t) \<Longrightarrow> ops_step c s t"
| item_read: "read_catalog token cookie kind (one :: admin_error + pyval) s = (r, t) \<Longrightarrow> ops_step c s t"
| balance_edited: "edit_balance_h token cookie s = (r, t) \<Longrightarrow> ops_step c s t"
| audit_deleted: "delete_audit_h token cookie i s = (r, t) \<Longrightarrow> ops_step c s t"
| sql_run: "sql_h token cookie s = (r, t) \<Longrightarrow> ops_step c s t"

lemmas handlers_le = on_admin_le[OF execute_le] admin_ops_le[THEN on_admin_le] config_handlers_le publishing_le
  wizard_handlers_le other_handlers_le

lemma ops_step_le: "ops_step c s t \<Longrightarrow> ops_le c s t"
  by (induction rule: ops_step.induct) (drule handlers_le[THEN evolvesD, rotated]; assumption)+

inductive ops_reach :: "admin_lib \<Rightarrow> ops_state \<Rightarrow> ops_state \<Rightarrow> bool" for c s where
  here: "ops_reach c s s"
| step: "ops_reach c s t \<Longrightarrow> ops_step c t u \<Longrightarrow> ops_reach c s u"

lemma ops_reach_le: "ops_reach c s t \<Longrightarrow> ops_le c s t"
  by (induction rule: ops_reach.induct) (auto intro: ops_growth.refl ops_growth.trans ops_step_le)

definition new_ops :: ops_state where
  "new_ops = \<lparr>os_admin = empty_admin, os_config = new_pipeline, os_wizards = [], os_next = 0\<rparr>"

end
