(* ===== verification/Admin_Contracts.thy ===== *)
theory Admin_Contracts
  imports Ops_Steps
begin

section \<open>What the administration service promises\<close>

text \<open>
  Who may act on the console and what the audit log keeps: a high-risk action runs exactly for an operator
  with a fresh step-up and is recorded once, the log stays a hash chain that is only added to, and a changed record breaks it.
\<close>

subsection \<open>Who may act\<close>

text \<open>The token belongs to a session of this administrator, and no user cookie came along.\<close>

definition logged_as :: "string option \<Rightarrow> string option \<Rightarrow> admin_state \<Rightarrow> admin_account \<Rightarrow> bool" where
  "logged_as token cookie s acc \<longleftrightarrow> \<not> truthy cookie \<and> (\<exists>tok sid sess. token = Some tok \<and> tok \<noteq> [] \<and>
     dict_get (ms_tokens s) tok = Some sid \<and> dict_get (ms_sessions s) sid = Some sess \<and>
     dict_get (ms_admins s) (am_admin sess) = Some acc)"

text \<open>What the action asks for beyond that: an entitled role and, for a high risk, MFA, a reason and a fresh step-up.\<close>

definition cleared :: "instant \<Rightarrow> string option \<Rightarrow> admin_call \<Rightarrow> admin_state \<Rightarrow> admin_account \<Rightarrow> bool" where
  "cleared now token call s acc \<longleftrightarrow> evaluate (an_role acc) (an_readonly acc) (al_action call) \<and>
     (al_action call \<in> set high_risk \<longrightarrow> an_mfa acc \<and> py_strip (al_reason call) \<noteq> [] \<and>
        (\<exists>at. stepped_at token s = Some at \<and> now - at \<le> ms_ttl s))"

text \<open>One record more in the log, naming who did what, why and with which result; accounts and sessions as before.\<close>

definition records ::
  "instant \<Rightarrow> admin_account \<Rightarrow> admin_call \<Rightarrow> string \<Rightarrow> pyval option \<Rightarrow> pyval option \<Rightarrow> uuid \<Rightarrow> admin_state \<Rightarrow> admin_state \<Rightarrow> bool" where
  "records now acc call res bef aft i s t \<longleftrightarrow> (\<exists>r. ul_rows (ms_audit t) = ul_rows (ms_audit s) @ [r] \<and> ur_id r = i \<and>
       ur_actor r = an_id acc \<and> ur_role r = an_role acc \<and> ur_action r = al_action call \<and> ur_target r = al_target call \<and>
       ur_reason r = al_reason call \<and> ur_request r = al_request call \<and> ur_result r = res \<and> ur_created_at r = now \<and>
       ur_before r = redact (case bef of None \<Rightarrow> PyDict [] | Some d \<Rightarrow> d) \<and>
       ur_after r = redact (case aft of None \<Rightarrow> PyDict [] | Some d \<Rightarrow> d)) \<and>
     ms_admins t = ms_admins s \<and> ms_tokens t = ms_tokens s \<and> ms_sessions t = ms_sessions s"

lemma resolve_admin_run:
  "resolve_admin token cookie s = (r, t) \<Longrightarrow> t = s \<and> (\<forall>acc. r = Inr acc \<longleftrightarrow> logged_as token cookie s acc)"
  by (cases token) (auto simp: resolve_admin_def lookup_def run logged_as_def split: option.splits if_splits)

lemma audit_run:
  "audit_action c now acc call res bef aft s = (r, t) \<Longrightarrow> \<exists>i. r = Inr i \<and> records now acc call res bef aft i s t"
  by (auto simp: audit_action_def ms_fresh_def run records_def append_audit_def Let_def)

lemma ensure_run:
  assumes "ensure_action c now token cookie call True s = (r, t)"
  shows "case r of Inr acc \<Rightarrow> t = s \<and> logged_as token cookie s acc \<and> cleared now token call s acc
    | Inl e \<Rightarrow> (\<forall>acc. logged_as token cookie s acc \<longrightarrow> \<not> cleared now token call s acc) \<and>
        (t = s \<or> e = AdminError Ad_forbidden 403 \<and> (\<exists>acc i. logged_as token cookie s acc \<and>
           \<not> evaluate (an_role acc) (an_readonly acc) (al_action call) \<and> records now acc call ''denied'' None None i s t))"
proof -
  obtain q u where q: "resolve_admin token cookie s = (q, u)" by fastforce
  note who = resolve_admin_run[OF q]
  show ?thesis
  proof (cases q)
    case (Inl e)
    with assms q who show ?thesis by (auto simp: ensure_action_def run)
  next
    case (Inr acc)
    with who have one: "logged_as token cookie s a \<longleftrightarrow> a = acc" for a by auto
    show ?thesis
    proof (cases "evaluate (an_role acc) (an_readonly acc) (al_action call)")
      case True
      with assms q who Inr one show ?thesis
        by (auto simp: ensure_action_def run cleared_def recently_def not_less split: if_splits option.splits)
    next
      case False
      obtain p v where p: "audit_action c now acc call ''denied'' None None s = (p, v)" by fastforce
      from audit_run[OF p] obtain i where "p = Inr i" "records now acc call ''denied'' None None i s v" by blast
      with assms q who Inr one False p show ?thesis
        by (auto simp: ensure_action_def run cleared_def)
    qed
  qed
qed

lemma execute_run:
  assumes "execute c now token cookie call bef aft s = (r, t)"
  shows "case r of
      Inr (event, opened) \<Rightarrow> al_action call \<notin> set never_actions \<and> (opened \<noteq> None \<longleftrightarrow> al_action call = ''break_glass'') \<and>
        (\<exists>acc. logged_as token cookie s acc \<and> cleared now token call s acc \<and> records now acc call ''ok'' bef aft event s t)
    | Inl e \<Rightarrow> (\<forall>acc. \<not> (logged_as token cookie s acc \<and> cleared now token call s acc)) \<and>
        (t = s \<or> e = AdminError Ad_forbidden 403 \<and> (\<exists>acc i. logged_as token cookie s acc \<and>
           \<not> evaluate (an_role acc) (an_readonly acc) (al_action call) \<and> records now acc call ''denied'' None None i s t))"
proof -
  obtain q u where q: "ensure_action c now token cookie call True s = (q, u)" by fastforce
  note known = ensure_run[OF q]
  show ?thesis
  proof (cases q)
    case (Inl e)
    with assms q have "r = Inl e" "t = u" by (auto simp: execute_def run)
    with known Inl show ?thesis by simp
  next
    case (Inr acc)
    with known have u: "u = s" "logged_as token cookie s acc" "cleared now token call s acc" by simp_all
    obtain p v where p: "audit_action c now acc call ''ok'' bef aft s = (p, v)" by fastforce
    from audit_run[OF p] obtain i where i: "p = Inr i" "records now acc call ''ok'' bef aft i s v" by blast
    then have "r = Inr (i, if al_action call = ''break_glass'' then Some (ms_next v) else None)"
      "records now acc call ''ok'' bef aft i s t"
      using assms q Inr u p by (auto simp: execute_def open_break_glass_def ms_fresh_def run records_def split: if_splits)
    moreover have "al_action call \<notin> set never_actions"
      using u(3) by (simp add: cleared_def evaluate_def split: if_splits)
    ultimately show ?thesis using u by auto
  qed
qed

text \<open>C15 (safety). An administrative action is executed exactly for the administrator whose session holds the token,
  with no user session alongside, whose role is entitled to it and, if it is of high risk, with MFA, a reason and a
  step-up of that session no older than the limit; never for an action nobody may take. It leaves one redacted
  record that names the administrator, the action and the reason. If it is refused, nothing changes, except that
  a refusal for the role leaves one record of its own.\<close>

theorem high_risk_guarded:
  assumes "execute c now token cookie call bef aft s = (r, t)"
  shows "case r of
      Inr (event, opened) \<Rightarrow> al_action call \<notin> set never_actions \<and> (opened \<noteq> None \<longleftrightarrow> al_action call = ''break_glass'') \<and>
        (\<exists>acc. logged_as token cookie s acc \<and> cleared now token call s acc \<and> records now acc call ''ok'' bef aft event s t)
    | Inl e \<Rightarrow> (\<forall>acc. \<not> (logged_as token cookie s acc \<and> cleared now token call s acc)) \<and>
        (t = s \<or> e = AdminError Ad_forbidden 403 \<and> (\<exists>acc i. logged_as token cookie s acc \<and>
           \<not> evaluate (an_role acc) (an_readonly acc) (al_action call) \<and> records now acc call ''denied'' None None i s t))"
  by (rule execute_run[OF assms])

subsection \<open>The audit log\<close>

lemma reached_le:
  "ops_reach c new_ops s \<Longrightarrow> log_grows c (ms_audit empty_admin) (ms_audit (os_admin s)) \<and> config_ok (os_config s) \<and> wizards_ok s"
  by (drule ops_reach_le)
    (simp add: ops_le_def admin_le_def new_ops_def config_le_def new_config_ok wizards_le_def wizards_ok_def all_stored_def wizard_of_def)

text \<open>C17 (invariant). Whatever is called, the audit chain verifies and its tip is the hash of its last record, no
  recorded value holds a secret, and the log only grows at its end.\<close>

theorem audit_trail_intact:
  assumes "ops_reach c new_ops s" and "ops_reach c s t"
  shows "verify_chain c (ms_audit (os_admin t)) \<and>
    ul_tip (ms_audit (os_admin t)) = last_hash zero_hash (ul_rows (ms_audit (os_admin t))) \<and>
    (\<forall>r \<in> set (ul_rows (ms_audit (os_admin t))). clean (ur_before r) \<and> clean (ur_after r)) \<and>
    (\<exists>new. ul_rows (ms_audit (os_admin t)) = ul_rows (ms_audit (os_admin s)) @ new)"
proof -
  from assms(2) have later: "log_grows c (ms_audit (os_admin s)) (ms_audit (os_admin t))"
    by (auto dest!: ops_reach_le simp: ops_le_def admin_le_def)
  from log_grows_trans[OF conjunct1[OF reached_le[OF assms(1)]] later]
  have "log_grows c (ms_audit empty_admin) (ms_audit (os_admin t))" .
  with later show ?thesis
    by (auto simp: log_grows_def verify_chain_def empty_admin_def)
qed

definition hashed_text :: "audit_record \<Rightarrow> string" where
  "hashed_text r = ur_prev r @ json (audit_payload r (ur_prev r))"

lemma verified_last:
  "verify_from c tip (rs @ [r]) \<longleftrightarrow> verify_from c tip rs \<and> ur_prev r = last_hash tip rs \<and>
     ur_hash r = sha256hex c (hashed_text r)"
  by (auto simp: record_digest_def hashed_text_def)

lemma verified_lengths:
  assumes "\<And>x. length (sha256hex c x) = 64" and "verify_from c tip rs" and "length tip = 64"
  shows "length (last_hash tip rs) = 64"
  using assms(2,3) by (induction rs arbitrary: tip) (auto simp: record_digest_def assms(1) split: if_splits)

lemma same_texts:
  assumes hex: "\<forall>x. length (sha256hex c x) = 64"
  shows "verify_from c zero_hash rs \<Longrightarrow> verify_from c zero_hash qs \<Longrightarrow>
    last_hash zero_hash rs = last_hash zero_hash qs \<Longrightarrow>
    inj_on (sha256hex c) (hashed_text ` (set rs \<union> set qs)) \<Longrightarrow>
    \<forall>r \<in> set rs \<union> set qs. sha256hex c (hashed_text r) \<noteq> zero_hash \<Longrightarrow>
    map hashed_text rs = map hashed_text qs"
proof (induction rs arbitrary: qs rule: rev_induct)
  case Nil
  show ?case
  proof (cases qs rule: rev_cases)
    case (snoc ys y)
    with Nil have "ur_hash y = zero_hash" "ur_hash y = sha256hex c (hashed_text y)" by (simp_all add: verified_last del: verify_append)
    with Nil snoc show ?thesis by simp
  qed simp
next
  case (snoc r rs)
  show ?case
  proof (cases qs rule: rev_cases)
    case Nil
    with snoc.prems have "ur_hash r = zero_hash" "ur_hash r = sha256hex c (hashed_text r)" by (simp_all add: verified_last del: verify_append)
    with snoc.prems show ?thesis by simp
  next
    case q: (snoc ys y)
    have r: "verify_from c zero_hash rs" "ur_prev r = last_hash zero_hash rs" "ur_hash r = sha256hex c (hashed_text r)"
      and y: "verify_from c zero_hash ys" "ur_prev y = last_hash zero_hash ys" "ur_hash y = sha256hex c (hashed_text y)"
      using snoc.prems(1,2) q by (simp_all add: verified_last del: verify_append)
    from snoc.prems(3) q have "sha256hex c (hashed_text r) = sha256hex c (hashed_text y)" by (simp add: r(3) y(3))
    then have same: "hashed_text r = hashed_text y" by (rule inj_onD[OF snoc.prems(4)]) (auto simp: q)
    have "length zero_hash = 64" by (simp add: zero_hash_def)
    with verified_lengths[of c zero_hash rs] verified_lengths[of c zero_hash ys] hex r(1,2) y(1,2)
    have "length (ur_prev r) = length (ur_prev y)" by simp
    with same have "last_hash zero_hash rs = last_hash zero_hash ys"
      using r(2) y(2) by (auto simp: hashed_text_def)
    moreover have "inj_on (sha256hex c) (hashed_text ` (set rs \<union> set ys))"
      by (rule inj_on_subset[OF snoc.prems(4)]) (auto simp: q)
    moreover have "\<forall>x \<in> set rs \<union> set ys. sha256hex c (hashed_text x) \<noteq> zero_hash"
      using snoc.prems(5) q by auto
    ultimately show ?thesis using snoc.IH[OF r(1) y(1)] same q by simp
  qed
qed

text \<open>A forged log is found out: two logs that both verify and end in the same tip hold, record by
  record, the same hashed texts, as long as the hash has no collision among them, has 64 digits and never gives the
  hash the chain starts with. So no record can be changed, dropped, added or moved under a known tip.\<close>

theorem forgery_detected:
  assumes "verify_chain c a" and "verify_chain c b"
    and "last_hash zero_hash (ul_rows a) = last_hash zero_hash (ul_rows b)"
    and "inj_on (sha256hex c) (hashed_text ` (set (ul_rows a) \<union> set (ul_rows b)))"
    and "\<forall>x. length (sha256hex c x) = 64"
    and "\<forall>r \<in> set (ul_rows a) \<union> set (ul_rows b). sha256hex c (hashed_text r) \<noteq> zero_hash"
  shows "map hashed_text (ul_rows a) = map hashed_text (ul_rows b)"
  using same_texts[OF assms(5)] assms by (simp add: verify_chain_def)

end
