(* ===== verification/Admin_Facts.thy ===== *)
theory Admin_Facts
  imports Admin_Contracts
begin

section \<open>Configuration, wizards and catalog of the administration service\<close>

text \<open>
  What the configuration pipeline, the wizards and the walk over the catalog promise, over all their calls.
\<close>

subsection \<open>Configuration\<close>

lemma valid_price:
  assumes "valid_config ''price'' content"
  shows "\<exists>buyer seller. int_of_value (get_or content ''buyer_bps'' (PyInt (- 1))) = Some buyer \<and>
    int_of_value (get_or content ''seller_max_bps'' (PyInt 0)) = Some seller \<and> 0 \<le> seller \<and> seller \<le> buyer \<and> buyer \<le> 10000"
  using assms by (auto simp: valid_config_def simulate_ok_def split: if_splits option.splits)

lemma valid_route: "valid_config ''route'' content \<Longrightarrow> ''weights'' \<in> set (map fst content)"
  by (auto simp: valid_config_def simulate_ok_def split: if_splits)

text \<open>C31 (invariant). Every configuration that is or was active passed its simulation: a price has a buyer
  multiplier between the seller maximum and 10000 basis points, a route has weights. The active one is a version of
  the history, and the history of a kind is only appended to.\<close>

theorem active_config_simulated:
  assumes "ops_reach c new_ops s" and "ops_reach c s t"
  shows "(\<forall>k past. dict_get (pp_history (os_config t)) k = Some past \<longrightarrow> (\<forall>x \<in> set past. valid_config k (ac_payload x))) \<and>
    (\<forall>k x. dict_get (pp_active (os_config t)) k = Some x \<longrightarrow> (\<exists>past. dict_get (pp_history (os_config t)) k = Some past \<and> x \<in> set past)) \<and>
    (\<forall>k past. dict_get (pp_history (os_config s)) k = Some past \<longrightarrow>
       (\<exists>more. dict_get (pp_history (os_config t)) k = Some (past @ more))) \<and>
    (\<forall>x. dict_get (pp_active (os_config t)) ''price'' = Some x \<longrightarrow> (\<exists>buyer seller.
       int_of_value (get_or (ac_payload x) ''buyer_bps'' (PyInt (- 1))) = Some buyer \<and>
       int_of_value (get_or (ac_payload x) ''seller_max_bps'' (PyInt 0)) = Some seller \<and>
       0 \<le> seller \<and> seller \<le> buyer \<and> buyer \<le> 10000)) \<and>
    (\<forall>x. dict_get (pp_active (os_config t)) ''route'' = Some x \<longrightarrow> ''weights'' \<in> set (map fst (ac_payload x)))"
proof -
  have le: "config_le (os_config s) (os_config t)"
    using ops_reach_le[OF assms(2)] by (simp add: ops_le_def)
  with reached_le[OF assms(1)] have ok: "config_ok (os_config t)" by (simp add: config_le_def)
  have old: "\<forall>k past. dict_get (pp_history (os_config s)) k = Some past \<longrightarrow>
      (\<exists>more. dict_get (pp_history (os_config t)) k = Some (past @ more))"
    using le reached_le[OF assms(1)] by (simp add: config_le_def)
  have hist: "dict_get (pp_history (os_config t)) k = Some past \<Longrightarrow> x \<in> set past \<Longrightarrow> valid_config k (ac_payload x)" for k past x
    using ok by (simp add: config_ok_def)
  have act: "dict_get (pp_active (os_config t)) k = Some x \<Longrightarrow>
      \<exists>past. dict_get (pp_history (os_config t)) k = Some past \<and> x \<in> set past" for k x
    using ok by (simp add: config_ok_def)
  have "valid_config k (ac_payload x)" if "dict_get (pp_active (os_config t)) k = Some x" for k x
    using act[OF that] hist by blast
  note valid_price[OF this] valid_route[OF this]
  with old hist act show ?thesis by blast
qed

subsection \<open>Wizards\<close>

lemma require_action_run:
  assumes "require_action token cookie a s = (Inr acc, t)"
  shows "t = s \<and> logged_as token cookie (os_admin s) acc"
proof -
  from assms obtain u where u: "on_admin (resolve_admin token cookie) s = (Inr acc, u)" "t = u"
    by (auto simp: require_action_def op_success)
  then have "resolve_admin token cookie (os_admin s) = (Inr acc, os_admin u)" "u = s\<lparr>os_admin := os_admin u\<rparr>"
    by (simp_all add: on_admin_run)
  with resolve_admin_run[OF this(1)] u(2) show ?thesis by auto
qed

lemma got_unchanged:
  "get_wizard now i s = (Inr w, t) \<Longrightarrow> os_admin t = os_admin s \<and> os_config t = os_config s \<and> os_next t = os_next s"
  by (auto elim!: wizard_got simp: put_wizard_def)

lemma got_same_wizard: "get_wizard now i s = (Inr w, t) \<Longrightarrow> wizards_ok s \<Longrightarrow> wz_id w = i"
  by (erule wizard_got) (auto simp: wizards_ok_def expire_if_due_def dest!: all_storedD)

lemma got_pending:
  assumes "get_wizard now i s = (Inr w, t)" and "wz_status w = Wz_pending"
  shows "wizard_of s i = Some w \<and> now \<le> wz_expires_at w"
  using assms by (elim wizard_got) (auto simp: expire_if_due_def split: if_splits)

text \<open>A confirmation that succeeds: what it was given, what it checked, and what it left.\<close>

lemma confirmed:
  assumes "confirm_wizard_h c now token cookie i rq reason s = (Inr x, t)" and "wizards_ok s"
  obtains w acc a ev where "wizard_of s i = Some w" "wz_status w = Wz_pending" "now \<le> wz_expires_at w"
    "wizard_action (wz_kind w) = Some a"
    "execute c now token cookie \<lparr>al_action = a, al_target = wz_target w,
       al_reason = (if reason = [] then wz_reason w else reason), al_request = rq, al_source = ''127.0.0.1''\<rparr> None None
       (os_admin s) = (Inr (ev, None), os_admin t)"
    "x = w\<lparr>wz_status := Wz_confirmed, wz_request := Some rq\<rparr>" "wizard_of t i = Some x"
proof -
  from assms(1) obtain w1 u1 a1 u2 v1 where
    g1: "get_wizard now i s = (Inr w1, u1)" and ra: "require_action token cookie a1 u1 = (Inr u2, v1)"
    and cw: "confirm_wizard c now i token cookie rq reason v1 = (Inr x, t)"
    by (auto simp: confirm_wizard_h_def wizard_h_def action_for_wizard_def op_success)
  have v1: "v1 = u1" using require_action_run[OF ra] by simp
  from cw obtain w u a ev bg v where
    g2: "get_wizard now i u1 = (Inr w, u)" and p: "wz_status w = Wz_pending" and a: "wizard_action (wz_kind w) = Some a"
    and ex: "on_admin (execute c now token cookie \<lparr>al_action = a, al_target = wz_target w,
       al_reason = (if reason = [] then wz_reason w else reason), al_request = rq, al_source = ''127.0.0.1''\<rparr> None None) u = (Inr (ev, bg), v)"
    and x: "x = w\<lparr>wz_status := Wz_confirmed, wz_request := Some rq\<rparr>" and t: "t = put_wizard (wz_id x) x v"
    by (auto simp: v1 confirm_wizard_def action_for_wizard_def save_wizard_def put_wizard_def op_success Let_def)
  have "wz_id w1 = i" by (rule got_same_wizard[OF g1 assms(2)])
  with got_stored[OF g1] got_pending[OF g2 p] have w1: "w1 = w" by simp
  with \<open>wz_id w1 = i\<close> have "wz_id x = i" by (simp add: x)
  then have t_i: "wizard_of t i = Some x" "os_admin t = os_admin v"
    by (simp_all add: t wizard_store.get_put) (simp add: put_wizard_def)
  from ex got_unchanged[OF g1] got_unchanged[OF g2] have "execute c now token cookie \<lparr>al_action = a, al_target = wz_target w,
       al_reason = (if reason = [] then wz_reason w else reason), al_request = rq, al_source = ''127.0.0.1''\<rparr> None None
     (os_admin s) = (Inr (ev, bg), os_admin t)"
    by (simp add: on_admin_run t_i)
  moreover from execute_run[OF this] a have "bg = None" by (auto simp: wizard_action_def split: if_splits)
  moreover have "wizard_of s i = Some w" "now \<le> wz_expires_at w" using got_pending[OF g1] p w1 by simp_all
  ultimately show ?thesis using that p a x t_i(1) by blast
qed

lemma dict_set_same: "dict_get d k = Some v \<Longrightarrow> dict_set k v d = d"
  by (induction d) (auto simp: dict_set_def split: if_splits)

lemma require_action_same: "require_action token cookie a s = (r, t) \<Longrightarrow> t = s"
  by (cases "on_admin (resolve_admin token cookie) s")
    (auto simp: require_action_def run on_admin_run split: sum.splits dest!: resolve_admin_run)

lemma confirm_refused:
  assumes "confirm_wizard_h c now token cookie i rq reason s = (r, t)" and "wizard_of s i = Some w"
    and "wz_status w \<noteq> Wz_pending" and "wz_id w = i"
  shows "(\<exists>e. r = Inl e) \<and> os_admin t = os_admin s"
proof -
  have got: "get_wizard now i u = (Inr w, u)" if "wizard_of u i = Some w" for u
    using that assms(3,4) by (auto simp: get_wizard_def save_wizard_def wizard_of_def expire_if_due_def run dict_set_same)
  obtain q u where q: "require_action token cookie (the (wizard_action (wz_kind w))) s = (q, u)" by fastforce
  with require_action_same have "u = s" by blast
  with assms(1,3) q got[OF assms(2)] show ?thesis
    by (auto simp: confirm_wizard_h_def wizard_h_def action_for_wizard_def confirm_wizard_def run split: option.splits sum.splits)
qed

text \<open>A wizard is confirmed only while it is pending and within five minutes of its start, by an
  administrator cleared for its action, with one audit record of that action on its target. Afterwards it never
  changes, and every further confirmation is refused and does nothing.\<close>

theorem wizard_confirmed_once:
  assumes "ops_reach c new_ops s" and "confirm_wizard_h c now token cookie i rq reason s = (Inr x, t)"
    and "ops_reach c t u" and "confirm_wizard_h c now' token' cookie' i rq' reason' u = (r, v)"
  shows "(\<exists>w acc a ev. wizard_of s i = Some w \<and> wz_status w = Wz_pending \<and> now \<le> wz_created_at w + minutes 5 \<and>
      wizard_action (wz_kind w) = Some a \<and> a \<in> set high_risk \<and>
      (let call = \<lparr>al_action = a, al_target = wz_target w, al_reason = (if reason = [] then wz_reason w else reason),
                   al_request = rq, al_source = ''127.0.0.1''\<rparr> in
       logged_as token cookie (os_admin s) acc \<and> cleared now token call (os_admin s) acc \<and>
       records now acc call ''ok'' None None ev (os_admin s) (os_admin t))) \<and>
    wz_status x = Wz_confirmed \<and> wizard_of u i = Some x \<and> (\<exists>e. r = Inl e) \<and> os_admin v = os_admin u"
proof -
  have ok: "wizards_ok s" using reached_le[OF assms(1)] by simp
  from confirmed[OF assms(2) ok] obtain w a ev where
    w: "wizard_of s i = Some w" "wz_status w = Wz_pending" "now \<le> wz_expires_at w" "wizard_action (wz_kind w) = Some a"
    and ex: "execute c now token cookie \<lparr>al_action = a, al_target = wz_target w,
       al_reason = (if reason = [] then wz_reason w else reason), al_request = rq, al_source = ''127.0.0.1''\<rparr> None None
       (os_admin s) = (Inr (ev, None), os_admin t)"
    and x: "x = w\<lparr>wz_status := Wz_confirmed, wz_request := Some rq\<rparr>" "wizard_of t i = Some x" by metis
  have "ops_le c s t" by (rule evolvesD[OF wizard_handlers_le(3) assms(2)])
  then have "wizards_ok t" using ok by (simp add: ops_le_def wizards_le_def)
  with ops_reach_le[OF assms(3)] x(2) obtain y where y: "wizard_of u i = Some y" "wizard_becomes x y"
    by (auto simp: ops_le_def wizards_le_def dest: entries_growD)
  then have same: "y = x" by (simp add: wizard_becomes_def x(1))
  have "wz_id w = i" "now \<le> wz_created_at w + minutes 5"
    using ok w(1,3) by (auto simp: wizards_ok_def wizard_ttl_def dest: all_storedD)
  moreover have "(\<exists>e. r = Inl e) \<and> os_admin v = os_admin u"
    using \<open>wz_id w = i\<close> by (intro confirm_refused[OF assms(4) y(1)[unfolded same]]) (simp_all add: x(1))
  moreover have "a \<in> set high_risk" using w(4) by (auto simp: wizard_action_def high_risk_def split: if_splits)
  moreover from execute_run[OF ex] obtain acc where
    "logged_as token cookie (os_admin s) acc \<and> cleared now token \<lparr>al_action = a, al_target = wz_target w,
       al_reason = (if reason = [] then wz_reason w else reason), al_request = rq, al_source = ''127.0.0.1''\<rparr> (os_admin s) acc \<and>
     records now acc \<lparr>al_action = a, al_target = wz_target w, al_reason = (if reason = [] then wz_reason w else reason),
       al_request = rq, al_source = ''127.0.0.1''\<rparr> ''ok'' None None ev (os_admin s) (os_admin t)"
    unfolding sum.case prod.case by blast
  moreover have "wz_status x = Wz_confirmed" by (simp add: x(1))
  ultimately show ?thesis using w(1,2,4) y(1) same unfolding Let_def by blast
qed

subsection \<open>The catalog\<close>

text \<open>A client that follows the cursors, at most \<open>n\<close> pages.\<close>

fun walk :: "nat \<Rightarrow> admin_lib \<Rightarrow> instant \<Rightarrow> ops_catalog \<Rightarrow> string \<Rightarrow> int \<Rightarrow> string \<Rightarrow> pyval list option" where
  "walk 0 c now cat kind limit cursor = None"
| "walk (Suc n) c now cat kind limit cursor = (case list_page c now cat kind cursor limit [] of
     Inl e \<Rightarrow> None
   | Inr pg \<Rightarrow> (case og_next pg of
       None \<Rightarrow> Some (og_items pg)
     | Some nxt \<Rightarrow> map_option ((@) (og_items pg)) (walk n c now cat kind limit nxt)))"

lemma digit_code:
  assumes "d < (10::nat)"
  shows "digit_value (char_of (48 + d)) = Some d" "\<not> py_isspace (char_of (48 + d))"
  using assms by (auto simp: digit_value_def py_isspace_def Let_def)

lemma int_digits_app:
  "list_all (\<lambda>ch. digit_value ch \<noteq> None) s \<Longrightarrow> digit_value ch = Some d \<Longrightarrow>
     int_digits n (s @ [ch]) = map_option (\<lambda>m. 10 * m + d) (int_digits n s)"
  by (induction s arbitrary: n) auto

lemma nat_str_reads:
  "nat_str n \<noteq> [] \<and> list_all (\<lambda>ch. digit_value ch \<noteq> None \<and> \<not> py_isspace ch) (nat_str n) \<and> int_digits 0 (nat_str n) = Some n"
proof (induction n rule: nat_str.induct)
  case (1 n)
  show ?case
  proof (cases "n < 10")
    case True
    then show ?thesis using digit_code[of n] by (subst (1 2 3) nat_str.simps) simp
  next
    case False
    have "n mod 10 < 10" by simp
    note d = digit_code[OF this]
    from 1[OF False] have "int_digits 0 (nat_str (n div 10) @ [char_of (48 + n mod 10)]) = Some n"
      using int_digits_app[OF _ d(1)] by (simp add: list_all_iff)
    with 1[OF False] d False show ?thesis by (subst (1 2 3) nat_str.simps) (simp add: list_all_iff)
  qed
qed

abbreviation digits_only :: "string \<Rightarrow> bool" where
  "digits_only s \<equiv> list_all (\<lambda>ch. digit_value ch \<noteq> None \<and> \<not> py_isspace ch) s"

lemma py_strip_digits:
  assumes "digits_only s"
  shows "py_strip s = s"
proof -
  have "\<And>x. x \<in> set s \<Longrightarrow> \<not> py_isspace x" using assms by (simp add: list_all_iff)
  with hd_in_set[of s] hd_in_set[of "rev s"] have "dropWhile py_isspace s = s" "dropWhile py_isspace (rev s) = rev s"
    by (auto intro!: dropWhile_none)
  then show ?thesis by (simp add: py_strip_def)
qed

lemma int_of_digits:
  assumes "digits_only s" "s \<noteq> []"
  shows "int_of_text s = map_option int (int_digits 0 s)"
proof -
  have "digit_value (hd s) \<noteq> None" using assms by (cases s) auto
  moreover have "digit_value (CHR ''-'') = None" "digit_value (CHR ''+'') = None" by code_simp+
  ultimately have "hd s \<noteq> CHR ''-''" "hd s \<noteq> CHR ''+''" "digit_value (hd s) \<noteq> None" by auto
  with assms show ?thesis by (auto simp: int_of_text_def py_strip_digits unsigned_def)
qed

lemma cursor_reads: "0 \<le> n \<Longrightarrow> cursor_offset (int_str n) = Inr n"
  using nat_str_reads[of "nat n"] by (simp add: cursor_offset_def int_str_def int_of_digits)

lemma zeros_read: "int_digits 0 (replicate k (CHR ''0'') @ s) = int_digits 0 s"
proof (induction k)
  case (Suc k)
  have "digit_value (CHR ''0'') = Some 0" by code_simp
  with Suc show ?case by simp
qed simp

lemma item_id_reads:
  assumes "0 \<le> n" "n < total_of kind"
  shows "parse_index kind (item_id kind n) = Inr n"
proof -
  have "digit_value (CHR ''0'') \<noteq> None" "\<not> py_isspace (CHR ''0'')" by code_simp+
  then have "digits_only (replicate k (CHR ''0'') @ nat_str (nat n))" for k
    using nat_str_reads[of "nat n"] by (auto simp: list_all_iff set_replicate_conv_if)
  then have "int_of_text (replicate k (CHR ''0'') @ nat_str (nat n)) = Some n" for k
    using nat_str_reads[of "nat n"] assms(1) by (simp add: int_of_digits zeros_read)
  then show ?thesis using assms
    by (simp add: parse_index_def item_id_def starts_with_def Let_def)
qed

lemma walk_from:
  assumes "map_of kind_action kind \<noteq> None" and "0 \<le> start" and "start < total_of kind"
    and "nat (total_of kind - start) \<le> n"
    and "cursor_offset cursor = Inr start"
  shows "walk n c now cat kind limit cursor = Some (map (catalog_item c now cat kind) [start..total_of kind - 1])"
  using assms(2-5)
proof (induction n arbitrary: start cursor)
  case (Suc n)
  let ?stop = "min (start + page_size limit) (total_of kind)"
  have size: "1 \<le> page_size limit" by (simp add: page_size_def)
  obtain pg where pg: "list_page c now cat kind cursor limit [] = Inr pg"
    "og_items pg = map (catalog_item c now cat kind) [start..?stop - 1]"
    "og_next pg = (if ?stop < total_of kind then Some (int_str ?stop) else None)"
    using assms(1) Suc.prems by (auto simp: list_page_def py_strip_def Let_def)
  show ?case
  proof (cases "?stop < total_of kind")
    case True
    have "walk n c now cat kind limit (int_str ?stop) = Some (map (catalog_item c now cat kind) [?stop..total_of kind - 1])"
      using Suc.prems size True by (intro Suc.IH cursor_reads) auto
    moreover have "[start..total_of kind - 1] = [start..?stop - 1] @ [?stop..total_of kind - 1]"
      using Suc.prems size True by (intro upto_split1[of start ?stop, simplified]) auto
    ultimately show ?thesis using pg True by simp
  next
    case False
    then have "?stop = total_of kind" using Suc.prems by simp
    with pg False show ?thesis by simp
  qed
qed simp

text \<open>A client that starts without a cursor and follows the ones it is given sees every item of a
  catalog kind exactly once, in order, whatever page size it asks for, and comes to the end; and the identifier shown
  for an item leads back to that item.\<close>

theorem catalog_walk_complete:
  assumes "kind \<in> set catalog_kinds" and "nat (total_of kind) \<le> n"
  shows "walk n c now cat kind limit [] = Some (map (catalog_item c now cat kind) [0..total_of kind - 1]) \<and>
    (\<forall>i \<in> {0..<total_of kind}. parse_index kind (item_id kind i) = Inr i \<and>
       search c now cat kind (item_id kind i) = [catalog_item c now cat kind i])"
proof -
  have "map_of kind_action kind \<noteq> None" "0 < total_of kind"
    using assms(1) by (auto simp: catalog_kinds_def kind_action_def total_of_def catalog_totals_def)
  then have "walk n c now cat kind limit [] = Some (map (catalog_item c now cat kind) [0..total_of kind - 1])"
    using assms(2) by (intro walk_from) (simp_all add: cursor_offset_def)
  moreover have "starts_with (item_id kind i) (prefix_of kind @ ''-'')" for i
    by (simp add: item_id_def starts_with_def Let_def)
  ultimately show ?thesis by (simp add: item_id_reads search_def)
qed

end
