(* ===== verification/Admin_Evidence.thy ===== *)
theory Admin_Evidence
  imports Admin_Facts
begin

section \<open>The administration service on concrete calls\<close>

text \<open>
  Two administrators log in and step up, one publishes a price, the other ends a user's sessions through a
  wizard: the inputs on which the properties of the service are evaluated. The hash of the sample keeps the last
  64 characters of its text. At the end, what the runs show of the code: a publication that is not recorded, and a
  version number given twice.
\<close>

definition console_lib :: admin_lib where
  "console_lib = \<lparr>pbkdf2 = (\<lambda>x y. x @ ''/'' @ y), sha256hex = (\<lambda>x. take 64 (rev x @ replicate 64 (CHR ''x'')))\<rparr>"

definition after :: "(ops_state, admin_error, 'a) op \<Rightarrow> ops_state \<Rightarrow> ops_state" where
  "after m s = snd (m s)"

lemma answers: "m s = (fst (m s), after m s)"
  by (simp add: after_def)

definition sample_payload :: "int \<Rightarrow> payload" where
  "sample_payload n = [(''buyer_bps'', PyInt n), (''seller_max_bps'', PyInt 8000)]"

definition console_in :: ops_state where
  "console_in = after (on_admin (step_up 10 ''t2'' mfa_ok)) (after (on_admin (step_up 10 ''t1'' mfa_ok))
    (after (on_admin (admin_login console_lib 0 ''t2'' ''bob'' ''pw'' mfa_ok None))
    (after (on_admin (admin_login console_lib 0 ''t1'' ''ann'' ''pw'' mfa_ok None))
    (after (on_admin (seed_admin console_lib ''s2'' ''bob'' ''pw'' ''support'' False True))
    (after (on_admin (seed_admin console_lib ''s1'' ''ann'' ''pw'' ''pricing'' False True)) new_ops)))))"

definition prepare :: "uuid \<Rightarrow> int \<Rightarrow> ops_state \<Rightarrow> ops_state" where
  "prepare i n s = after (approve_h (Some ''t1'') None i) (after (simulate_h (Some ''t1'') None i)
    (after (create_draft_h (Some ''t1'') None ''price'' (sample_payload n)) s))"

definition console_published :: ops_state where
  "console_published = after (publish_draft_h console_lib 20 21 (Some ''t1'') None 0 ''cut'' ''r1'') (prepare 0 9000 console_in)"

definition console_waiting :: ops_state where
  "console_waiting = after (start_wizard_h 30 (Some ''t2'') None ''force_logout'' ''u9'' ''fraud'') console_published"

definition console_done :: ops_state where
  "console_done = after (confirm_wizard_h console_lib 40 (Some ''t2'') None 0 ''r2'' '''') console_waiting"

lemma reached_after:
  "ops_reach c r s \<Longrightarrow> ops_reach c r (after (on_admin (seed_admin c salt login password role readonly mfa)) s)"
  "ops_reach c r s \<Longrightarrow> ops_reach c r (after (on_admin (admin_login c now tok login password code cookie)) s)"
  "ops_reach c r s \<Longrightarrow> ops_reach c r (after (on_admin (step_up now tok mcode)) s)"
  "ops_reach c r s \<Longrightarrow> ops_reach c r (after (create_draft_h token cookie kind content) s)"
  "ops_reach c r s \<Longrightarrow> ops_reach c r (after (simulate_h token cookie i) s)"
  "ops_reach c r s \<Longrightarrow> ops_reach c r (after (approve_h token cookie i) s)"
  "ops_reach c r s \<Longrightarrow> ops_reach c r (after (publish_draft_h c t1 t2 token cookie i reason rq) s)"
  "ops_reach c r s \<Longrightarrow> ops_reach c r (after (start_wizard_h now token cookie kind target reason) s)"
  "ops_reach c r s \<Longrightarrow> ops_reach c r (after (confirm_wizard_h c now token cookie i rq reason) s)"
  by (erule ops_reach.step, rule ops_step.intros, rule answers)+

lemma console_waiting_reached: "ops_reach console_lib new_ops console_waiting"
  unfolding console_waiting_def console_published_def prepare_def console_in_def
  by (rule reached_after)+ (rule ops_reach.here)

lemma console_done_reached: "ops_reach console_lib console_waiting console_done"
  unfolding console_done_def by (rule reached_after) (rule ops_reach.here)

subsection \<open>Witnesses\<close>

definition logout_call :: admin_call where
  "logout_call = \<lparr>al_action = ''user.force_logout'', al_target = ''u9'', al_reason = ''fraud'', al_request = ''r3'', al_source = ''10.0.0.1''\<rparr>"

theorem high_risk_guarded_witness:
  "case execute console_lib 50 (Some ''t2'') None logout_call None None (os_admin console_in) of
     (Inr (event, opened), t) \<Rightarrow> event = 4 \<and> opened = None \<and>
       (\<exists>acc. logged_as (Some ''t2'') None (os_admin console_in) acc \<and> cleared 50 (Some ''t2'') logout_call (os_admin console_in) acc \<and>
          records 50 acc logout_call ''ok'' None None 4 (os_admin console_in) t)
   | (Inl e, t) \<Rightarrow> False"
proof -
  have "fst (execute console_lib 50 (Some ''t2'') None logout_call None None (os_admin console_in)) = Inr (4, None)"
    by code_simp
  then obtain t where run: "execute console_lib 50 (Some ''t2'') None logout_call None None (os_admin console_in) = (Inr (4, None), t)"
    by (metis prod.collapse)
  from high_risk_guarded[OF run] show ?thesis by (simp add: run)
qed

theorem audit_trail_intact_witness:
  "length (ul_rows (ms_audit (os_admin console_waiting))) = 1 \<and> length (ul_rows (ms_audit (os_admin console_done))) = 2 \<and>
   verify_chain console_lib (ms_audit (os_admin console_done)) \<and>
   (\<exists>new. ul_rows (ms_audit (os_admin console_done)) = ul_rows (ms_audit (os_admin console_waiting)) @ new)"
proof -
  have "length (ul_rows (ms_audit (os_admin console_waiting))) = 1" "length (ul_rows (ms_audit (os_admin console_done))) = 2"
    by code_simp+
  with audit_trail_intact[OF console_waiting_reached console_done_reached] show ?thesis by simp
qed

text \<open>The log of the run, and the same log with the times erased: the times are not part of what is hashed.\<close>

definition timeless :: "audit_log \<Rightarrow> audit_log" where
  "timeless log = log\<lparr>ul_rows := map (\<lambda>r. r\<lparr>ur_created_at := 0\<rparr>) (ul_rows log)\<rparr>"

lemma console_hash: "sha256hex console_lib (hashed_text r) \<noteq> zero_hash"
proof -
  have "hd (sha256hex console_lib (hashed_text r)) = CHR ''}''"
    by (simp add: console_lib_def hashed_text_def audit_payload_def hd_append)
  then show ?thesis by (auto simp: zero_hash_def)
qed

lemma timeless_same:
  "map hashed_text (ul_rows (timeless log)) = map hashed_text (ul_rows log)"
  "last_hash tip (ul_rows (timeless log)) = last_hash tip (ul_rows log)"
  "verify_chain c (timeless log) = verify_chain c log"
proof -
  have same: "hashed_text (r\<lparr>ur_created_at := 0\<rparr>) = hashed_text r" for r :: audit_record
    by (simp add: hashed_text_def audit_payload_def)
  show "map hashed_text (ul_rows (timeless log)) = map hashed_text (ul_rows log)"
    by (simp add: timeless_def same)
  have "last_hash tip (map (\<lambda>r. r\<lparr>ur_created_at := 0\<rparr>) rs) = last_hash tip rs" for rs :: "audit_record list" and tip
    by (induction rs arbitrary: tip) auto
  then show "last_hash tip (ul_rows (timeless log)) = last_hash tip (ul_rows log)" by (simp add: timeless_def)
  have "verify_from c tip (map (\<lambda>r. r\<lparr>ur_created_at := 0\<rparr>) rs) = verify_from c tip rs" for rs :: "audit_record list" and tip
    by (induction rs arbitrary: tip) (auto simp: record_digest_def audit_payload_def)
  then show "verify_chain c (timeless log) = verify_chain c log" by (simp add: verify_chain_def timeless_def)
qed

theorem forgery_detected_witness:
  "ul_rows (timeless (ms_audit (os_admin console_published))) \<noteq> ul_rows (ms_audit (os_admin console_published)) \<and>
   map hashed_text (ul_rows (timeless (ms_audit (os_admin console_published)))) =
     map hashed_text (ul_rows (ms_audit (os_admin console_published)))"
proof
  let ?b = "ms_audit (os_admin console_published)"
  have one: "map ur_created_at (ul_rows ?b) = [21]" and ok: "verify_chain console_lib ?b" by code_simp+
  then obtain r where r: "ul_rows ?b = [r]" "ur_created_at r = 21" by (cases "ul_rows ?b") auto
  then show "ul_rows (timeless ?b) \<noteq> ul_rows ?b" by (auto simp: timeless_def dest: arg_cong[of _ _ ur_created_at])
  have "hashed_text ` set (ul_rows (timeless ?b)) = set (map hashed_text (ul_rows (timeless ?b)))" by simp
  then have "hashed_text ` (set (ul_rows (timeless ?b)) \<union> set (ul_rows ?b)) = {hashed_text r}"
    unfolding timeless_same(1) by (simp add: image_Un r)
  then show "map hashed_text (ul_rows (timeless ?b)) = map hashed_text (ul_rows ?b)"
    using ok by (intro forgery_detected[of console_lib]) (simp_all add: timeless_same console_hash, auto simp: console_lib_def min_def)
qed

theorem active_config_simulated_witness:
  "dict_get (pp_active (os_config console_done)) ''price'' = Some \<lparr>ac_version = 2, ac_payload = sample_payload 9000\<rparr> \<and>
   (\<exists>past. dict_get (pp_history (os_config console_done)) ''price'' = Some past \<and>
      (\<forall>x \<in> set past. valid_config ''price'' (ac_payload x)) \<and> \<lparr>ac_version = 2, ac_payload = sample_payload 9000\<rparr> \<in> set past)"
proof -
  have now: "dict_get (pp_active (os_config console_done)) ''price'' = Some \<lparr>ac_version = 2, ac_payload = sample_payload 9000\<rparr>"
    by code_simp
  with active_config_simulated[OF console_waiting_reached console_done_reached] show ?thesis by blast
qed

theorem wizard_confirmed_once_witness:
  "(\<exists>x. fst (confirm_wizard_h console_lib 40 (Some ''t2'') None 0 ''r2'' '''' console_waiting) = Inr x \<and>
      wizard_of console_done 0 = Some x \<and> wz_request x = Some ''r2'') \<and>
   (\<exists>e. fst (confirm_wizard_h console_lib 41 (Some ''t2'') None 0 ''r2'' '''' console_done) = Inl e) \<and>
   length (ul_rows (ms_audit (os_admin console_done))) = 2"
proof -
  have "case fst (confirm_wizard_h console_lib 40 (Some ''t2'') None 0 ''r2'' '''' console_waiting) of
      Inr x \<Rightarrow> wz_request x = Some ''r2'' | Inl e \<Rightarrow> False"
    by code_simp
  then obtain x where x: "fst (confirm_wizard_h console_lib 40 (Some ''t2'') None 0 ''r2'' '''' console_waiting) = Inr x"
    "wz_request x = Some ''r2''" by (auto split: sum.splits)
  then have run: "confirm_wizard_h console_lib 40 (Some ''t2'') None 0 ''r2'' '''' console_waiting = (Inr x, console_done)"
    by (simp add: console_done_def after_def prod_eq_iff)
  note once = wizard_confirmed_once[OF console_waiting_reached run ops_reach.here
      answers[of "confirm_wizard_h console_lib 41 (Some ''t2'') None 0 ''r2'' ''''"]]
  have "length (ul_rows (ms_audit (os_admin console_done))) = 2" by code_simp
  with once x show ?thesis by blast
qed

theorem catalog_walk_complete_witness:
  "walk 200 console_lib 0 \<lparr>ct_stale_after = 1, ct_probes = [], ct_poison = []\<rparr> ''price'' 7 [] =
     Some (map (catalog_item console_lib 0 \<lparr>ct_stale_after = 1, ct_probes = [], ct_poison = []\<rparr> ''price'') [0..199])"
proof -
  have "''price'' \<in> set catalog_kinds" "nat (total_of ''price'') \<le> 200" "total_of ''price'' - 1 = 199"
    by (simp_all add: catalog_kinds_def total_of_def catalog_totals_def)
  with catalog_walk_complete[of "''price''" 200] show ?thesis by simp
qed

subsection \<open>Findings\<close>

text \<open>The step-up is checked before the publication and again when it is recorded. If it runs out in between, the
  configuration is published, the answer is an error, and nothing is recorded.\<close>

lemma published_without_record:
  "case publish_draft_h console_lib 20 (minutes 5 + 11) (Some ''t1'') None 0 ''cut'' ''r1'' (prepare 0 9000 console_in) of
     (r, t) \<Rightarrow> r = Inl (AdminError Ad_step_up_required 401) \<and> ul_rows (ms_audit (os_admin t)) = [] \<and>
       map_option ac_version (dict_get (pp_active (os_config t)) ''price'') = Some 2"
  by code_simp

text \<open>After a rollback the next publication gets the number of the version that was rolled back; going back to that
  number later restores the first of the two.\<close>

definition publish_sample :: "uuid \<Rightarrow> int \<Rightarrow> config_pipeline \<Rightarrow> config_pipeline" where
  "publish_sample i n p = snd (publish_config i (snd (approve_draft i (snd (simulate i
     (snd (create_draft ''price'' (sample_payload n) p)))))))"

definition published_again :: config_pipeline where
  "published_again = publish_sample 1 9500 (snd (rollback_config ''price'' 1 (publish_sample 0 9000 new_pipeline)))"

lemma version_number_reused:
  "map_option (map ac_version) (dict_get (pp_history published_again) ''price'') = Some [1, 2, 2] \<and>
   dict_get (pp_active published_again) ''price'' = Some \<lparr>ac_version = 2, ac_payload = sample_payload 9500\<rparr> \<and>
   fst (rollback_config ''price'' 2 published_again) = Inr \<lparr>ac_version = 2, ac_payload = sample_payload 9000\<rparr>"
  by (intro conjI; code_simp)

end
