(* ===== verification/Seller_Keys.thy ===== *)
theory Seller_Keys
  imports Proxy_Keys Credentials
begin

section \<open>Seller keys\<close>

text \<open>
  \<^verbatim>\<open>sellerkeys/service.py\<close> (onboarding), \<^verbatim>\<open>sellerkeys/lifecycle.py\<close>, \<^verbatim>\<open>sellerkeys/memory_store.py\<close> and the
  handlers of \<^verbatim>\<open>api/v1/internal.py\<close> that hand the keys to the gateway. The validation of a credential by the
  gateway is an argument, from platform, key and request to a validation_snapshot. Onboarding and resuming wait for it in a
  thread of their own, and other calls run meanwhile; so each has two halves, before and after the wait. The
  other calls run alone. The flag \<^verbatim>\<open>soft_deleted\<close> is never set in this store and is left out.
\<close>

subsection \<open>Rows and store\<close>

datatype seller_code =
    Sc_unsupported_platform | Sc_invalid_key | Sc_forbidden | Sc_zero_quota | Sc_rate_limited | Sc_temporary
  | Sc_duplicate | Sc_encryption | Sc_unauthorized | Sc_conflict | Sc_not_found | Sc_validation_failed
  | Sc_idempotency_conflict

datatype seller_error = OnboardingError seller_code int | Sk_value_error | Sk_key_error

datatype seller_key_state = Sk_active | Sk_paused | Sk_revoked

record seller_key =
  sk_id :: uuid
  sk_seller :: uuid
  sk_platform :: string
  sk_fingerprint :: string
  sk_hint :: string
  sk_ciphertext :: "bytes option"
  sk_nonce :: "bytes option"
  sk_tag :: "bytes option"
  sk_key_version :: string
  sk_quota :: "string option"
  sk_unit :: "string option"
  sk_state :: seller_key_state
  sk_health :: string
  sk_validated_at :: instant
  sk_request :: string
  sk_version :: "int option"

record seller_store =
  sl_by_fp :: "(string \<times> string, uuid) dict"
  sl_rows :: "(uuid, seller_key) dict"
  sl_idem :: "(uuid \<times> string, string \<times> uuid option) dict"
  sl_owners :: "(uuid, owner_state) dict"
  sl_next :: uuid

type_synonym 'a seller_op = "(seller_store, seller_error, 'a) op"

definition empty_sellers :: seller_store where
  "empty_sellers = \<lparr>sl_by_fp = [], sl_rows = [], sl_idem = [], sl_owners = [], sl_next = 0\<rparr>"

text \<open>\<^verbatim>\<open>set_owner\<close> takes what the user service knows of an account.\<close>

definition seller_set_owner :: "uuid \<Rightarrow> owner_state \<Rightarrow> unit seller_op" where
  "seller_set_owner u o' = modify (\<lambda>s. s\<lparr>sl_owners := dict_set u o' (sl_owners s)\<rparr>)"

definition find_by_fingerprint :: "string \<Rightarrow> string \<Rightarrow> uuid option seller_op" where
  "find_by_fingerprint platform fp = gets (\<lambda>s. dict_get (sl_by_fp s) (platform, fp))"

definition row_of :: "seller_store \<Rightarrow> uuid \<Rightarrow> seller_key option" where
  "row_of s kid = dict_get (sl_rows s) kid"

definition put_row :: "uuid \<Rightarrow> seller_key \<Rightarrow> seller_store \<Rightarrow> seller_store" where
  "put_row kid r s = s\<lparr>sl_rows := dict_set kid r (sl_rows s),
     sl_by_fp := dict_set (sk_platform r, sk_fingerprint r) kid (sl_by_fp s)\<rparr>"

definition seller_insert :: "seller_key \<Rightarrow> uuid seller_op" where
  "seller_insert r =
     bindE (gets (\<lambda>s. dict_get (sl_by_fp s) (sk_platform r, sk_fingerprint r))) (\<lambda>found.
     bindE (require (found = None) (OnboardingError Sc_duplicate 409)) (\<lambda>_.
     bindE (modify (put_row (sk_id r) r)) (\<lambda>_.
     bindE (modify (\<lambda>s. if dict_get (sl_owners s) (sk_seller r) = None
        then s\<lparr>sl_owners := dict_set (sk_seller r) \<lparr>os_status = ''active'', os_role = ''seller'', os_is_deleted = False\<rparr> (sl_owners s)\<rparr>
        else s)) (\<lambda>_.
     ret (sk_id r)))))"

definition seller_save :: "seller_key \<Rightarrow> unit seller_op" where
  "seller_save r = modify (put_row (sk_id r) r)"

definition version_or :: "int \<Rightarrow> seller_key \<Rightarrow> int" where
  "version_or n r = (case sk_version r of None \<Rightarrow> n | Some v \<Rightarrow> if v = 0 then n else v)"

definition save_if_unmodified :: "seller_key \<Rightarrow> int \<Rightarrow> bool seller_op" where
  "save_if_unmodified r expected =
     bindE (gets (\<lambda>s. row_of s (sk_id r))) (\<lambda>found. case found of
       None \<Rightarrow> ret False
     | Some old \<Rightarrow>
         if version_or 0 old \<noteq> expected then ret False
         else if sk_state old = Sk_revoked then ret False
         else bindE (modify (put_row (sk_id r) r)) (\<lambda>_. ret True))"

definition seller_apply_health :: "uuid \<Rightarrow> string \<Rightarrow> unit seller_op" where
  "seller_apply_health kid health = modify (\<lambda>s. case row_of s kid of
       None \<Rightarrow> s
     | Some r \<Rightarrow> s\<lparr>sl_rows := dict_set kid (r\<lparr>sk_health := health\<rparr>) (sl_rows s)\<rparr>)"

subsection \<open>\<^verbatim>\<open>float(text) > 0\<close>\<close>

text \<open>
  A decimal literal is read exactly, as \<open>mantissa * 10 ^ exponent\<close>. Rounding to a binary double makes it zero when
  it is at most \<open>2 ^ -1075\<close>. None: \<^verbatim>\<open>ValueError\<close>.
\<close>

definition digit_of :: "char \<Rightarrow> nat option" where
  "digit_of ch = (let n = of_char ch :: nat in if 48 \<le> n \<and> n \<le> 57 then Some (n - 48) else None)"

text \<open>A run of digits, underscores allowed between two of them: its value and its number of digits.\<close>

fun digit_run :: "nat \<times> nat \<Rightarrow> string \<Rightarrow> (nat \<times> nat) option" where
  "digit_run (n, k) [] = Some (n, k)"
| "digit_run (n, k) (ch # s) = (case digit_of ch of
       Some d \<Rightarrow> digit_run (10 * n + d, k + 1) s
     | None \<Rightarrow> if ch = CHR ''_'' \<and> 0 < k \<and> s \<noteq> [] \<and> digit_of (hd s) \<noteq> None then digit_run (n, k) s else None)"

fun split_at :: "(char \<Rightarrow> bool) \<Rightarrow> string \<Rightarrow> string \<times> string option" where
  "split_at P [] = ([], None)"
| "split_at P (ch # s) = (if P ch then ([], Some s) else (case split_at P s of (a, b) \<Rightarrow> (ch # a, b)))"

definition signed :: "string \<Rightarrow> bool \<times> string" where
  "signed s = (case s of
       ch # rest \<Rightarrow> if ch = CHR ''-'' then (True, rest) else if ch = CHR ''+'' then (False, rest) else (False, s)
     | [] \<Rightarrow> (False, s))"

definition exponent_of :: "string option \<Rightarrow> int option" where
  "exponent_of e = (case e of
       None \<Rightarrow> Some 0
     | Some text \<Rightarrow> (case signed text of (neg, digits) \<Rightarrow>
         if digits = [] then None
         else map_option (\<lambda>(n, k). if neg then - int n else int n) (digit_run (0, 0) digits)))"

definition mantissa_of :: "string \<Rightarrow> (nat \<times> nat) option" where
  "mantissa_of text = (case split_at (\<lambda>ch. ch = CHR ''.'') text of
       (whole, None) \<Rightarrow> if whole = [] then None else map_option (\<lambda>(n, k). (n, 0)) (digit_run (0, 0) whole)
     | (whole, Some frac) \<Rightarrow>
         (case (digit_run (0, 0) whole, digit_run (0, 0) frac) of
            (Some (n, k), Some (m, l)) \<Rightarrow> if k + l = 0 then None else Some (n * 10 ^ l + m, l)
          | _ \<Rightarrow> None))"

definition above_underflow :: "nat \<Rightarrow> int \<Rightarrow> bool" where
  "above_underflow m e = (if 0 \<le> e then 0 < m else 10 ^ nat (- e) < m * 2 ^ 1075)"

definition float_positive :: "string \<Rightarrow> bool option" where
  "float_positive text = (case signed (py_lower (py_strip text)) of (neg, body) \<Rightarrow>
     if body = ''inf'' \<or> body = ''infinity'' then Some (\<not> neg)
     else if body = ''nan'' then Some False
     else (case split_at (\<lambda>ch. ch = CHR ''e'') body of (m, e) \<Rightarrow>
       (case (mantissa_of m, exponent_of e) of
          (Some (n, l), Some x) \<Rightarrow> Some (\<not> neg \<and> above_underflow n (x - int l))
        | _ \<Rightarrow> None)))"

subsection \<open>Lifecycle rules\<close>

definition seller_allowed :: "(seller_key_state \<times> seller_key_state) list" where
  "seller_allowed = [(Sk_active, Sk_paused), (Sk_paused, Sk_active), (Sk_active, Sk_revoked), (Sk_paused, Sk_revoked)]"

definition seller_transition :: "seller_key_state \<Rightarrow> seller_key_state \<Rightarrow> seller_error + seller_key_state" where
  "seller_transition current target =
     (if current = Sk_revoked \<and> target = Sk_revoked then Inr Sk_revoked
      else if current = Sk_revoked then Inl (OnboardingError Sc_conflict 409)
      else if (current, target) \<notin> set seller_allowed then Inl (OnboardingError Sc_conflict 409)
      else Inr target)"

definition routable :: "seller_key_state \<Rightarrow> string \<Rightarrow> bool" where
  "routable st health \<longleftrightarrow> st = Sk_active \<and> health = ''healthy''"

definition has_positive_quota :: "string option \<Rightarrow> bool" where
  "has_positive_quota remaining = (case remaining of
       None \<Rightarrow> True
     | Some q \<Rightarrow> (let raw = py_strip q in
         if raw = [] then True else case float_positive raw of None \<Rightarrow> True | Some b \<Rightarrow> b))"

definition sealed_of :: "seller_key \<Rightarrow> sealed option" where
  "sealed_of r = (case (sk_nonce r, sk_ciphertext r, sk_tag r) of
       (Some n, Some ct, Some tag) \<Rightarrow> if n = [] \<or> ct = [] \<or> tag = [] then None else Some (n, ct, tag)
     | _ \<Rightarrow> None)"

definition routable_rows :: "seller_key list seller_op" where
  "routable_rows = gets (\<lambda>s. filter (\<lambda>r. routable (sk_state r) (sk_health r) \<and> has_positive_quota (sk_quota r) \<and>
     sk_ciphertext r \<noteq> None \<and> sk_ciphertext r \<noteq> Some [] \<and>
     owner_state_allows_seller (dict_get (sl_owners s) (sk_seller r))) (dict_values (sl_rows s)))"

subsection \<open>Onboarding\<close>

record seller_env =
  se_crypto :: cryptolib
  se_encryptor :: encryptor
  se_fp_secret :: bytes

record validation_snapshot =
  sn_category :: string
  sn_remaining :: "string option"
  sn_unit :: "string option"

definition mask_hint :: "string \<Rightarrow> string" where
  "mask_hint api_key = (let k = normalize_key api_key in
     if length k \<le> 8 then ''****'' else take 3 k @ ''****'' @ drop (length k - 4) k)"

definition onboard_digest :: "cryptolib \<Rightarrow> string \<Rightarrow> string \<Rightarrow> string" where
  "onboard_digest c platform api_key = hexdigest (sha256 c (utf8_encode (platform @ ''|'' @ normalize_key api_key)))"

definition reject_of :: "string \<Rightarrow> seller_error option" where
  "reject_of cat = map_of
     [(''invalid'', OnboardingError Sc_invalid_key 400), (''forbidden'', OnboardingError Sc_forbidden 403),
      (''zero_quota'', OnboardingError Sc_zero_quota 402), (''rate_limited'', OnboardingError Sc_rate_limited 429),
      (''temporary_unavailable'', OnboardingError Sc_temporary 503), (''timeout'', OnboardingError Sc_temporary 503),
      (''invalid_response'', OnboardingError Sc_temporary 503),
      (''unsupported_platform'', OnboardingError Sc_unsupported_platform 400)] cat"

record onboard_result =
  ob_id :: uuid
  ob_platform :: string
  ob_hint :: string
  ob_quota :: "string option"
  ob_unit :: "string option"
  ob_state :: seller_key_state
  ob_health :: string
  ob_validated_at :: instant
  ob_replayed :: bool

record onboard_request =
  oq_seller :: uuid
  oq_role :: string
  oq_platform :: string
  oq_api_key :: string
  oq_idem :: string
  oq_request :: string

definition seller_role :: "string \<Rightarrow> bool" where
  "seller_role role \<longleftrightarrow> role = ''seller'' \<or> role = ''both''"

text \<open>Up to the validation: a replay, or None and the credential is to be validated.\<close>

definition onboard_begin :: "seller_env \<Rightarrow> instant \<Rightarrow> onboard_request \<Rightarrow> onboard_result option seller_op" where
  "onboard_begin c now q =
     bindE (require (seller_role (oq_role q)) (OnboardingError Sc_unauthorized 403)) (\<lambda>_.
     bindE (require (oq_platform q = ''volcano'') (OnboardingError Sc_unsupported_platform 400)) (\<lambda>_.
     bindE (gets (\<lambda>s. dict_get (sl_idem s) (oq_seller q, oq_idem q))) (\<lambda>existing. case existing of
       None \<Rightarrow> ret None
     | Some (digest, prev) \<Rightarrow>
         bindE (require (digest = onboard_digest (se_crypto c) (oq_platform q) (normalize_key (oq_api_key q)))
           (OnboardingError Sc_idempotency_conflict 409)) (\<lambda>_.
         bindE (of_option (OnboardingError Sc_temporary 503) prev) (\<lambda>kid.
         ret (Some \<lparr>ob_id = kid, ob_platform = oq_platform q, ob_hint = ''********'', ob_quota = None, ob_unit = None,
           ob_state = Sk_active, ob_health = ''unknown'', ob_validated_at = now, ob_replayed = True\<rparr>))))))"

text \<open>What the validation_snapshot says: the health of the new key, or a refusal.\<close>

definition judged :: "validation_snapshot \<Rightarrow> seller_error + string" where
  "judged snap = (case reject_of (sn_category snap) of
       Some e \<Rightarrow> Inl e
     | None \<Rightarrow>
         if sn_category snap \<noteq> ''success'' \<and> sn_category snap \<noteq> ''quota_unavailable'' then Inl (OnboardingError Sc_temporary 503)
         else if sn_category snap = ''success''
         then (if \<not> truthy (sn_remaining snap) \<or> sn_remaining snap \<in> {Some ''0'', Some ''0.0''}
               then Inl (OnboardingError Sc_zero_quota 402) else Inr ''healthy'')
         else Inr ''unknown'')"

definition seller_fresh :: "uuid seller_op" where
  "seller_fresh = bindE (gets sl_next) (\<lambda>i. bindE (modify (\<lambda>s. s\<lparr>sl_next := i + 1\<rparr>)) (\<lambda>_. ret i))"

definition onboard_finish ::
  "seller_env \<Rightarrow> bytes \<Rightarrow> instant \<Rightarrow> onboard_request \<Rightarrow> validation_snapshot \<Rightarrow> onboard_result seller_op" where
  "onboard_finish c nonce now q snap =
     (let api_key = normalize_key (oq_api_key q); fp = fingerprint_key (se_crypto c) api_key (se_fp_secret c) (oq_platform q) in
     bindE (of_sum (judged snap)) (\<lambda>health.
     bindE (find_by_fingerprint (oq_platform q) fp) (\<lambda>dup.
     bindE (require (dup = None) (OnboardingError Sc_duplicate 409)) (\<lambda>_.
     bindE (case encrypt (se_crypto c) (se_encryptor c) nonce (utf8_encode api_key) of
         Inl e \<Rightarrow> throw (OnboardingError Sc_encryption 503) | Inr x \<Rightarrow> ret x) (\<lambda>(n, ct, tag).
     bindE seller_fresh (\<lambda>kid.
     bindE (seller_insert \<lparr>sk_id = kid, sk_seller = oq_seller q, sk_platform = oq_platform q, sk_fingerprint = fp,
         sk_hint = mask_hint api_key, sk_ciphertext = Some ct, sk_nonce = Some n, sk_tag = Some tag,
         sk_key_version = en_version (se_encryptor c), sk_quota = sn_remaining snap, sk_unit = sn_unit snap,
         sk_state = Sk_active, sk_health = health, sk_validated_at = now, sk_request = oq_request q, sk_version = None\<rparr>) (\<lambda>stored.
     bindE (modify (\<lambda>s. s\<lparr>sl_idem := dict_set (oq_seller q, oq_idem q)
         (onboard_digest (se_crypto c) (oq_platform q) api_key, Some stored) (sl_idem s)\<rparr>)) (\<lambda>_.
     ret \<lparr>ob_id = stored, ob_platform = oq_platform q, ob_hint = mask_hint api_key, ob_quota = sn_remaining snap,
       ob_unit = sn_unit snap, ob_state = Sk_active, ob_health = health, ob_validated_at = now, ob_replayed = False\<rparr>))))))))"

type_synonym validator = "string \<Rightarrow> string \<Rightarrow> string \<Rightarrow> validation_snapshot"

definition onboard ::
  "seller_env \<Rightarrow> validator \<Rightarrow> bytes \<Rightarrow> instant \<Rightarrow> onboard_request \<Rightarrow> onboard_result seller_op" where
  "onboard c validate nonce now q =
     bindE (onboard_begin c now q) (\<lambda>replay. case replay of
       Some res \<Rightarrow> ret res
     | None \<Rightarrow> onboard_finish c nonce now q (validate (oq_platform q) (normalize_key (oq_api_key q)) (oq_request q)))"

subsection \<open>Lifecycle\<close>

definition require_seller_role :: "string \<Rightarrow> unit seller_op" where
  "require_seller_role role = require (seller_role role) (OnboardingError Sc_unauthorized 403)"

definition owned_row :: "uuid \<Rightarrow> uuid \<Rightarrow> seller_key seller_op" where
  "owned_row kid seller =
     bindE (gets (\<lambda>s. row_of s kid)) (\<lambda>found.
     bindE (of_option (OnboardingError Sc_not_found 404) found) (\<lambda>r.
     bindE (require (sk_seller r = seller) (OnboardingError Sc_not_found 404)) (\<lambda>_. ret r)))"

text \<open>The public view of a key.\<close>

definition seller_key_view :: "seller_key \<Rightarrow> (string \<times> pyval) list" where
  "seller_key_view r = [(''key_id'', PyUuid (sk_id r)), (''platform'', PyStr (sk_platform r)), (''masked_hint'', PyStr (sk_hint r)),
     (''remaining_quota'', py_opt PyStr (sk_quota r)), (''quota_unit'', py_opt PyStr (sk_unit r)),
     (''administrative_state'', PyStr (case sk_state r of Sk_active \<Rightarrow> ''active'' | Sk_paused \<Rightarrow> ''paused'' | Sk_revoked \<Rightarrow> ''revoked'')),
     (''health_state'', PyStr (sk_health r)), (''last_validated_at'', PyTime (sk_validated_at r)),
     (''version'', py_opt PyInt (sk_version r))]"

definition get_seller_key :: "uuid \<Rightarrow> uuid \<Rightarrow> string \<Rightarrow> (string \<times> pyval) list seller_op" where
  "get_seller_key kid seller role =
     bindE (require_seller_role role) (\<lambda>_. bindE (owned_row kid seller) (\<lambda>r. ret (seller_key_view r)))"

definition list_seller_keys :: "uuid \<Rightarrow> string \<Rightarrow> (string \<times> pyval) list list seller_op" where
  "list_seller_keys seller role =
     bindE (require_seller_role role) (\<lambda>_.
     gets (\<lambda>s. map seller_key_view (filter (\<lambda>r. sk_seller r = seller) (dict_values (sl_rows s)))))"

definition pause_key :: "uuid \<Rightarrow> uuid \<Rightarrow> string \<Rightarrow> (string \<times> pyval) list seller_op" where
  "pause_key kid seller role =
     bindE (require_seller_role role) (\<lambda>_.
     bindE (owned_row kid seller) (\<lambda>r.
     bindE (of_sum (seller_transition (sk_state r) Sk_paused)) (\<lambda>st.
     let x = r\<lparr>sk_state := st, sk_version := Some (version_or 1 r + 1)\<rparr> in
     bindE (seller_save x) (\<lambda>_. ret (seller_key_view x)))))"

definition revoke_seller_key :: "uuid \<Rightarrow> uuid \<Rightarrow> string \<Rightarrow> (string \<times> pyval) list seller_op" where
  "revoke_seller_key kid seller role =
     bindE (require_seller_role role) (\<lambda>_.
     bindE (owned_row kid seller) (\<lambda>r.
     bindE (of_sum (seller_transition (sk_state r) Sk_revoked)) (\<lambda>st.
     let x = r\<lparr>sk_state := st, sk_ciphertext := None, sk_nonce := None, sk_tag := None,
               sk_version := Some (version_or 1 r + 1)\<rparr> in
     bindE (seller_save x) (\<lambda>_. ret (seller_key_view x)))))"

text \<open>What a resume knows when it waits for the validation: the version it read, the sealed secret it will
  store, and the secret to validate.\<close>

record resume_plan =
  rm_key :: uuid
  rm_seller :: uuid
  rm_expected :: int
  rm_sealed :: sealed
  rm_version :: string
  rm_platform :: string
  rm_secret :: string

definition resume_begin ::
  "seller_env \<Rightarrow> bytes \<Rightarrow> uuid \<Rightarrow> uuid \<Rightarrow> string \<Rightarrow> ((string \<times> pyval) list + resume_plan) seller_op" where
  "resume_begin c nonce kid seller role =
     bindE (require_seller_role role) (\<lambda>_.
     bindE (owned_row kid seller) (\<lambda>r.
     if sk_state r = Sk_active then ret (Inl (seller_key_view r))
     else bindE (of_option (OnboardingError Sc_not_found 404) (sealed_of r)) (\<lambda>old.
       bindE (case reencrypt (se_crypto c) (se_encryptor c) nonce old (Some (sk_key_version r)) of
           Inl e \<Rightarrow> throw (OnboardingError Sc_encryption 503) | Inr x \<Rightarrow> ret x) (\<lambda>(new, ver, rotated).
       bindE (case decrypt (se_crypto c) (se_encryptor c) new (Some ver) of
           Inl e \<Rightarrow> throw Sk_value_error | Inr plain \<Rightarrow> of_option Sk_value_error (utf8_decode plain)) (\<lambda>secret.
       ret (Inr \<lparr>rm_key = kid, rm_seller = seller, rm_expected = version_or 1 r, rm_sealed = new, rm_version = ver,
         rm_platform = sk_platform r, rm_secret = secret\<rparr>))))))"

definition resume_verdict :: "validation_snapshot \<Rightarrow> unit seller_op" where
  "resume_verdict snap =
     (if sn_category snap \<noteq> ''success'' \<or> \<not> truthy (sn_remaining snap) \<or> sn_remaining snap \<in> {Some ''0'', Some ''0.0''}
      then if sn_category snap = ''zero_quota'' \<or> sn_category snap = ''success''
           then throw (OnboardingError Sc_zero_quota 402)
           else throw (OnboardingError Sc_validation_failed 409)
      else ret ())"

definition resume_finish :: "instant \<Rightarrow> resume_plan \<Rightarrow> validation_snapshot \<Rightarrow> (string \<times> pyval) list seller_op" where
  "resume_finish now p snap =
     bindE (resume_verdict snap) (\<lambda>_.
     bindE (owned_row (rm_key p) (rm_seller p)) (\<lambda>r.
     bindE (require (sk_state r \<noteq> Sk_revoked) (OnboardingError Sc_conflict 409)) (\<lambda>_.
     bindE (require (version_or 1 r = rm_expected p) (OnboardingError Sc_conflict 409)) (\<lambda>_.
     bindE (of_sum (seller_transition (sk_state r) Sk_active)) (\<lambda>st.
     let (n, ct, tag) = rm_sealed p;
         x = r\<lparr>sk_state := st, sk_health := ''healthy'', sk_quota := sn_remaining snap, sk_unit := sn_unit snap,
               sk_validated_at := now, sk_ciphertext := Some ct, sk_nonce := Some n, sk_tag := Some tag,
               sk_key_version := rm_version p, sk_version := Some (rm_expected p + 1)\<rparr> in
     bindE (save_if_unmodified x (rm_expected p)) (\<lambda>saved.
     bindE (require saved (OnboardingError Sc_conflict 409)) (\<lambda>_.
     ret (seller_key_view x))))))))"

definition resume_key ::
  "seller_env \<Rightarrow> validator \<Rightarrow> bytes \<Rightarrow> instant \<Rightarrow> uuid \<Rightarrow> uuid \<Rightarrow> string \<Rightarrow> string \<Rightarrow> (string \<times> pyval) list seller_op" where
  "resume_key c validate nonce now kid seller role rq =
     bindE (resume_begin c nonce kid seller role) (\<lambda>step. case step of
       Inl view \<Rightarrow> ret view
     | Inr p \<Rightarrow> resume_finish now p (validate (rm_platform p) (rm_secret p) rq))"

subsection \<open>What the gateway gets\<close>

record routed_key =
  rk_id :: uuid
  rk_seller :: uuid
  rk_secret :: string
  rk_platform :: string
  rk_quota :: string

text \<open>\<^verbatim>\<open>_decrypt_row\<close>: the secret of a row, and the row with the newest sealing; None where it does not open.\<close>

definition decrypt_row :: "seller_env \<Rightarrow> bytes \<Rightarrow> seller_key \<Rightarrow> (string \<times> seller_key) option" where
  "decrypt_row c nonce r = (case sealed_of r of
       None \<Rightarrow> None
     | Some old \<Rightarrow> (case reencrypt (se_crypto c) (se_encryptor c) nonce old (Some (sk_key_version r)) of
         Inl e \<Rightarrow> None
       | Inr ((n, ct, tag), ver, rotated) \<Rightarrow> (case decrypt (se_crypto c) (se_encryptor c) (n, ct, tag) (Some ver) of
           Inl e \<Rightarrow> None
         | Inr plain \<Rightarrow> (case utf8_decode plain of
             None \<Rightarrow> None
           | Some secret \<Rightarrow> Some (secret,
               if rotated then r\<lparr>sk_nonce := Some n, sk_ciphertext := Some ct, sk_tag := Some tag, sk_key_version := ver\<rparr> else r)))))"

text \<open>The rows in turn, with a nonce for each; a row sealed anew is saved.\<close>

fun route_rows :: "seller_env \<Rightarrow> (uuid \<Rightarrow> bytes) \<Rightarrow> seller_key list \<Rightarrow> routed_key list seller_op" where
  "route_rows c nonces [] = ret []"
| "route_rows c nonces (r # rs) = (case decrypt_row c (nonces (sk_id r)) r of
       None \<Rightarrow> route_rows c nonces rs
     | Some (secret, x) \<Rightarrow>
         bindE (when_op (sk_key_version x \<noteq> sk_key_version r) (seller_save x)) (\<lambda>_.
         bindE (route_rows c nonces rs) (\<lambda>out.
         ret (\<lparr>rk_id = sk_id x, rk_seller = sk_seller x, rk_secret = secret,
               rk_platform = (if sk_platform x = [] then ''volcano'' else sk_platform x),
               rk_quota = or_str (sk_quota x) []\<rparr> # out))))"

definition routable_keys :: "seller_env \<Rightarrow> (uuid \<Rightarrow> bytes) \<Rightarrow> routed_key list seller_op" where
  "routable_keys c nonces = bindE routable_rows (route_rows c nonces)"

definition persisted_key_versions :: "seller_store \<Rightarrow> string set" where
  "persisted_key_versions s = {sk_key_version r | r. r \<in> set (dict_values (sl_rows s)) \<and> sk_key_version r \<noteq> []}"

end
