(* ===== verification/Seller_Key_Facts.thy ===== *)
theory Seller_Key_Facts
  imports Seller_Keys Interfaces
begin

section \<open>What the seller keys promise\<close>

text \<open>
  The invariant of the rows (\<open>row_ok\<close>), how a row may develop (\<open>row_becomes\<close>), runs of calls in which resumes wait for
  their validation while other calls run (\<open>seller_step\<close>), and what follows: revoked keys are dead, credentials are
  held once, and what the gateway gets is what the seller submitted.

  The process may be restarted with other keys in its ring. \<open>mat\<close> says which material a key version stands for; a
  configuration \<open>fits\<close> if its ring agrees with that.
\<close>

interpretation seller_rows: keyed_store row_of put_row
  by unfold_locales (simp add: row_of_def put_row_def)

type_synonym materials = "string \<Rightarrow> bytes option"

definition fits :: "cryptolib \<Rightarrow> bytes \<Rightarrow> materials \<Rightarrow> seller_env \<Rightarrow> bool" where
  "fits c fs mat v \<longleftrightarrow> se_crypto v = c \<and> se_fp_secret v = fs \<and> en_version (se_encryptor v) \<noteq> [] \<and>
     (\<forall>ver key. dict_get (en_keys (se_encryptor v)) ver = Some key \<longrightarrow> mat ver = Some key)"

text \<open>A sealed secret that opens to a credential with the fingerprint of the row.\<close>

definition opens_as :: "cryptolib \<Rightarrow> bytes \<Rightarrow> materials \<Rightarrow> sealed \<Rightarrow> string \<Rightarrow> seller_key \<Rightarrow> bool" where
  "opens_as c fs mat = (\<lambda>(n, ct, tag) ver r. ver \<noteq> [] \<and> (\<exists>key plain. mat ver = Some key \<and> tag = hmac256 c key (n @ ct) \<and>
     xor_bytes ct (shake256 c (key @ n) (length ct)) = utf8_encode plain \<and>
     fingerprint_key c plain fs (sk_platform r) = sk_fingerprint r))"

lemma opens_as_frame:
  "sk_platform b = sk_platform a \<Longrightarrow> sk_fingerprint b = sk_fingerprint a \<Longrightarrow> opens_as c fs mat x ver b = opens_as c fs mat x ver a"
  by (cases x) (simp add: opens_as_def)

definition row_ok :: "cryptolib \<Rightarrow> bytes \<Rightarrow> materials \<Rightarrow> seller_store \<Rightarrow> uuid \<Rightarrow> seller_key \<Rightarrow> bool" where
  "row_ok c fs mat s kid r \<longleftrightarrow> sk_id r = kid \<and> kid < sl_next s \<and> sk_platform r = ''volcano'' \<and>
     dict_get (sl_by_fp s) (sk_platform r, sk_fingerprint r) = Some kid \<and>
     (sk_state r = Sk_revoked \<longrightarrow> sk_ciphertext r = None) \<and>
     (\<forall>x. sealed_of r = Some x \<longrightarrow> opens_as c fs mat x (sk_key_version r) r)"

definition row_becomes :: "seller_key \<Rightarrow> seller_key \<Rightarrow> bool" where
  "row_becomes a b \<longleftrightarrow> sk_id b = sk_id a \<and> sk_seller b = sk_seller a \<and> sk_platform b = sk_platform a \<and>
     sk_fingerprint b = sk_fingerprint a \<and> sk_hint b = sk_hint a \<and> sk_request b = sk_request a \<and>
     (sk_state a = Sk_revoked \<longrightarrow> sk_state b = Sk_revoked)"

lemma row_becomes_order: "reflp row_becomes" "transp row_becomes"
  by (auto simp: reflp_def transp_def row_becomes_def)

definition sellers_ok :: "cryptolib \<Rightarrow> bytes \<Rightarrow> materials \<Rightarrow> seller_store \<Rightarrow> bool" where
  "sellers_ok c fs mat s \<longleftrightarrow> dict_ok (sl_rows s) \<and> all_stored row_of (row_ok c fs mat s) s"

definition sellers_le :: "cryptolib \<Rightarrow> bytes \<Rightarrow> materials \<Rightarrow> seller_store \<Rightarrow> seller_store \<Rightarrow> bool" where
  "sellers_le c fs mat s t \<longleftrightarrow> (sellers_ok c fs mat s \<longrightarrow> sellers_ok c fs mat t \<and> entries_grow row_of row_becomes s t)"

interpretation seller_growth: evolution "sellers_le c fs mat" for c fs mat
  by unfold_locales (auto simp: sellers_le_def intro: entries_grow_refl entries_grow_trans row_becomes_order)

lemma same_rows:
  assumes "sl_rows t = sl_rows s" "sl_by_fp t = sl_by_fp s" "sl_next s \<le> sl_next t"
  shows "sellers_le c fs mat s t"
proof -
  have "row_of t = row_of s" by (simp add: row_of_def fun_eq_iff assms(1))
  then show ?thesis
    using row_becomes_order(1) assms
    by (fastforce simp: sellers_le_def sellers_ok_def all_stored_def row_ok_def entries_grow_def reflp_def)
qed

text \<open>A row that was read is written back with the same identity.\<close>

lemma row_rewritten:
  assumes "row_of s kid = Some a" and "row_becomes a x"
    and "sellers_ok c fs mat s \<Longrightarrow> row_ok c fs mat s kid a \<Longrightarrow> row_ok c fs mat s kid x"
  shows "sellers_le c fs mat s (put_row (sk_id x) x s)"
  unfolding sellers_le_def
proof (intro impI conjI)
  assume ok: "sellers_ok c fs mat s"
  then have a: "row_ok c fs mat s kid a" using assms(1) by (auto simp: sellers_ok_def dest: all_storedD)
  with assms(3) ok have x: "row_ok c fs mat s kid x" by blast
  then have id: "sk_id x = kid" by (simp add: row_ok_def)
  have fp: "dict_get (sl_by_fp (put_row kid x s)) = dict_get (sl_by_fp s)" "sl_next (put_row kid x s) = sl_next s"
    using x by (auto simp: put_row_def row_ok_def fun_eq_iff)
  have same: "row_ok c fs mat (put_row kid x s) k r = row_ok c fs mat s k r" for k r
    unfolding row_ok_def fp by simp
  show "sellers_ok c fs mat (put_row (sk_id x) x s)"
    unfolding sellers_ok_def id same[abs_def] using ok x
    by (intro conjI seller_rows.all_stored_put) (simp_all add: sellers_ok_def, simp add: put_row_def)
  show "entries_grow row_of row_becomes s (put_row (sk_id x) x s)"
    using assms(1,2) by (intro seller_rows.entries_grow_put row_becomes_order) (simp add: id)
qed

lemma row_rewritten_goes:
  assumes "row_of s kid = Some a" and "row_becomes a x"
    and "sellers_ok c fs mat s \<Longrightarrow> row_ok c fs mat s kid a \<Longrightarrow> row_ok c fs mat s kid x"
  shows "goes (sellers_le c fs mat) (seller_save x) s"
  using row_rewritten[OF assms] by (simp add: goes_def seller_save_def run)

lemma owned_found: "owned_row kid seller s = (Inr r, t) \<Longrightarrow> t = s \<and> row_of s kid = Some r \<and> sk_seller r = seller"
  by (auto simp: owned_row_def op_success)

lemma owned_row_le: "evolves (sellers_le c fs mat) (owned_row kid seller)"
  unfolding owned_row_def by (intro seller_growth.rules)

lemma pause_key_le: "evolves (sellers_le c fs mat) (pause_key kid seller role)"
proof (rule goes_evolves)
  fix s
  show "goes (sellers_le c fs mat) (pause_key kid seller role) s"
    unfolding pause_key_def require_seller_role_def Let_def
  proof (rule seller_growth.goes_require, rule seller_growth.goes_bindE[OF evolves_goes[OF owned_row_le]],
      rule seller_growth.goes_of_sum, rule seller_growth.goes_then[OF _ seller_growth.ret])
    fix r t st
    assume "owned_row kid seller s = (Inr r, t)" and "seller_transition (sk_state r) Sk_paused = Inr st"
    then show "goes (sellers_le c fs mat) (seller_save (r\<lparr>sk_state := st, sk_version := Some (version_or 1 r + 1)\<rparr>)) t"
      by (intro row_rewritten_goes[of t kid r])
        (auto dest!: owned_found simp: row_becomes_def row_ok_def sealed_of_def opens_as_def seller_transition_def split: if_splits)
  qed
qed

lemma revoke_seller_key_le: "evolves (sellers_le c fs mat) (revoke_seller_key kid seller role)"
proof (rule goes_evolves)
  fix s
  show "goes (sellers_le c fs mat) (revoke_seller_key kid seller role) s"
    unfolding revoke_seller_key_def require_seller_role_def Let_def
  proof (rule seller_growth.goes_require, rule seller_growth.goes_bindE[OF evolves_goes[OF owned_row_le]],
      rule seller_growth.goes_of_sum, rule seller_growth.goes_then[OF _ seller_growth.ret])
    fix r t st
    assume "owned_row kid seller s = (Inr r, t)" and "seller_transition (sk_state r) Sk_revoked = Inr st"
    then show "goes (sellers_le c fs mat) (seller_save (r\<lparr>sk_state := st, sk_ciphertext := None, sk_nonce := None, sk_tag := None,
        sk_version := Some (version_or 1 r + 1)\<rparr>)) t"
      by (intro row_rewritten_goes[of t kid r])
        (auto dest!: owned_found simp: row_becomes_def row_ok_def sealed_of_def seller_transition_def split: if_splits)
  qed
qed

lemma reading_calls_le:
  "evolves (sellers_le c fs mat) (get_seller_key kid seller role)"
  "evolves (sellers_le c fs mat) (list_seller_keys seller role)"
  "evolves (sellers_le c fs mat) (onboard_begin v now q)"
  unfolding get_seller_key_def list_seller_keys_def onboard_begin_def require_seller_role_def
  by (intro seller_growth.rules owned_row_le evolve)+

lemma resume_begin_le: "evolves (sellers_le c fs mat) (resume_begin v nonce kid seller role)"
  unfolding resume_begin_def require_seller_role_def
  by (intro seller_growth.rules owned_row_le evolve) (auto intro: seller_growth.rules split: sum.split)

lemma owner_and_health_le:
  "evolves (sellers_le c fs mat) (seller_set_owner u w)"
  "evolves (sellers_le c fs mat) (seller_apply_health kid health)"
proof -
  show "evolves (sellers_le c fs mat) (seller_set_owner u w)"
    unfolding seller_set_owner_def by (rule seller_growth.modify) (simp add: same_rows)
  show "evolves (sellers_le c fs mat) (seller_apply_health kid health)"
    unfolding seller_apply_health_def
  proof (rule seller_growth.modify)
    fix s
    show "sellers_le c fs mat s (case row_of s kid of None \<Rightarrow> s | Some r \<Rightarrow> s\<lparr>sl_rows := dict_set kid (r\<lparr>sk_health := health\<rparr>) (sl_rows s)\<rparr>)"
    proof (cases "row_of s kid")
      case (Some r)
      let ?t = "s\<lparr>sl_rows := dict_set kid (r\<lparr>sk_health := health\<rparr>) (sl_rows s)\<rparr>"
      have rows: "row_of ?t k = (if k = kid then Some (r\<lparr>sk_health := health\<rparr>) else row_of s k)" for k
        by (simp add: row_of_def)
      have "row_ok c fs mat ?t k x = row_ok c fs mat s k x" for k x by (simp add: row_ok_def)
      moreover have "row_ok c fs mat s kid r \<Longrightarrow> row_ok c fs mat s kid (r\<lparr>sk_health := health\<rparr>)"
        by (auto simp: row_ok_def sealed_of_def opens_as_frame[of "r\<lparr>sk_health := health\<rparr>" r])
      ultimately show ?thesis using Some row_becomes_order(1)
        by (auto simp: sellers_le_def sellers_ok_def all_stored_def rows entries_grow_def reflp_def row_becomes_def)
    qed (simp add: seller_growth.refl)
  qed
qed

subsection \<open>Sealing\<close>

lemma fits_material:
  "fits c fs mat v \<Longrightarrow> key_material (se_encryptor v) (Some ver) = Inr key \<Longrightarrow> ver \<noteq> [] \<Longrightarrow> mat ver = Some key"
  by (auto simp: fits_def key_material_def or_str_def split: option.splits)

lemma sealed_opens:
  assumes "fits c fs mat v" "shake_ok c" "encrypt (se_crypto v) (se_encryptor v) nonce (utf8_encode plain) = Inr x"
    and "fingerprint_key c plain fs (sk_platform r) = sk_fingerprint r"
  shows "opens_as c fs mat x (en_version (se_encryptor v)) r"
proof -
  obtain n ct tag where x: "x = (n, ct, tag)" by (cases x)
  from assms(3) obtain key where key: "key_material (se_encryptor v) (Some (en_version (se_encryptor v))) = Inr key"
    and n: "n = nonce" and ct: "ct = xor_bytes (utf8_encode plain) (shake256 (se_crypto v) (key @ nonce) (length (utf8_encode plain)))"
    and tag: "tag = hmac256 (se_crypto v) key (nonce @ ct)"
    unfolding x by (rule encrypt_Inr)
  have v: "se_crypto v = c" "en_version (se_encryptor v) \<noteq> []" using assms(1) by (simp_all add: fits_def)
  have len: "length ct = length (utf8_encode plain)" using assms(2) by (simp add: ct v shake_ok_def)
  then have "xor_bytes ct (shake256 c (key @ n) (length ct)) = utf8_encode plain"
    using assms(2) by (simp add: ct n v xor_bytes_twice shake_ok_def)
  with fits_material[OF assms(1) key v(2)] v assms(4) show ?thesis
    by (auto simp: opens_as_def x tag n)
qed

text \<open>Decrypting gives the text the seal opens to.\<close>

lemma opened_secret:
  assumes "fits c fs mat v" "opens_as c fs mat x ver r"
    and "decrypt (se_crypto v) (se_encryptor v) x (Some ver) = Inr p"
  shows "\<exists>plain. p = utf8_encode plain \<and> fingerprint_key c plain fs (sk_platform r) = sk_fingerprint r"
proof -
  obtain n ct tag where x: "x = (n, ct, tag)" by (cases x)
  have v: "se_crypto v = c" "ver \<noteq> []" using assms(1,2) by (auto simp: fits_def opens_as_def x)
  from assms(3) obtain key where key: "key_material (se_encryptor v) (Some ver) = Inr key"
    and p: "p = xor_bytes ct (shake256 c (key @ n) (length ct))"
    by (auto simp: decrypt_def x v split: sum.splits if_splits)
  with fits_material[OF assms(1) key v(2)] assms(2) show ?thesis by (auto simp: opens_as_def x)
qed

text \<open>Sealing anew keeps what opens.\<close>

lemma resealed_opens:
  assumes "fits c fs mat v" "shake_ok c" "opens_as c fs mat x ver r"
    and "reencrypt (se_crypto v) (se_encryptor v) nonce x (Some ver) = Inr (y, ver', rotated)"
  shows "opens_as c fs mat y ver' r \<and> (\<not> rotated \<longrightarrow> y = x \<and> ver' = ver)"
proof -
  from assms(4) obtain p where p: "decrypt (se_crypto v) (se_encryptor v) x (Some ver) = Inr p"
    by (auto simp: reencrypt_def split: sum.splits)
  have "ver \<noteq> []" using assms(3) by (cases x) (simp add: opens_as_def)
  then have or: "or_str (Some ver) d = ver" for d by (simp add: or_str_def)
  from opened_secret[OF assms(1,3) p] obtain plain where plain: "p = utf8_encode plain"
    "fingerprint_key c plain fs (sk_platform r) = sk_fingerprint r" by blast
  show ?thesis
  proof (cases "ver = en_version (se_encryptor v)")
    case True
    with assms(3,4) p or show ?thesis by (auto simp: reencrypt_def)
  next
    case False
    then obtain z where z: "encrypt (se_crypto v) (se_encryptor v) nonce p = Inr z" "y = z" "ver' = en_version (se_encryptor v)" "rotated"
      using assms(4) p by (auto simp: reencrypt_def or split: sum.splits)
    with sealed_opens[OF assms(1,2) z(1)[unfolded plain(1)] plain(2)] show ?thesis by simp
  qed
qed

lemma sealed_stored: "row_ok c fs mat s kid r \<Longrightarrow> sealed_of r = Some x \<Longrightarrow> opens_as c fs mat x (sk_key_version r) r"
  by (simp add: row_ok_def)

subsection \<open>Onboarding\<close>

lemma row_inserted:
  assumes "sk_id x = sl_next s" "sk_platform x = ''volcano''" "sk_state x = Sk_active"
    and "\<And>y. sealed_of x = Some y \<Longrightarrow> opens_as c fs mat y (sk_key_version x) x"
    and "dict_get (sl_by_fp s) (sk_platform x, sk_fingerprint x) = None"
    and t: "\<And>k. row_of t k = (if k = sl_next s then Some x else row_of s k)" "sl_next t = sl_next s + 1"
      "sl_by_fp t = dict_set (sk_platform x, sk_fingerprint x) (sl_next s) (sl_by_fp s)" "dict_ok (sl_rows s) \<Longrightarrow> dict_ok (sl_rows t)"
  shows "sellers_le c fs mat s t"
  unfolding sellers_le_def
proof (intro impI conjI)
  assume ok: "sellers_ok c fs mat s"
  have old: "row_ok c fs mat s k r" if "row_of s k = Some r" for k r
    using ok that by (auto simp: sellers_ok_def dest: all_storedD)
  have "row_ok c fs mat t k r" if "row_of s k = Some r" for k r
    using old[OF that] assms(5) by (auto simp: row_ok_def t(2,3))
  moreover have "row_ok c fs mat t (sl_next s) x" using assms(1-4) by (auto simp: row_ok_def t(2,3))
  ultimately show "sellers_ok c fs mat t" using ok t(4) by (auto simp: sellers_ok_def all_stored_def t(1))
  have "row_of s k \<noteq> None \<Longrightarrow> k \<noteq> sl_next s" for k using old by (auto simp: row_ok_def)
  then show "entries_grow row_of row_becomes s t"
    using row_becomes_order(1) by (auto simp: entries_grow_def t(1) reflp_def)
qed

lemma onboard_finish_le:
  assumes "fits c fs mat v" "shake_ok c" "oq_platform q = ''volcano''"
  shows "evolves (sellers_le c fs mat) (onboard_finish v nonce now q snap)"
proof (rule evolvesI)
  fix s r t
  assume res: "onboard_finish v nonce now q snap s = (r, t)"
  let ?plain = "normalize_key (oq_api_key q)"
  let ?fp = "fingerprint_key (se_crypto v) ?plain (se_fp_secret v) (oq_platform q)"
  have v: "se_crypto v = c" "se_fp_secret v = fs" using assms(1) by (simp_all add: fits_def)
  show "sellers_le c fs mat s t"
  proof (cases "judged snap")
    case (Inl e)
    with res show ?thesis by (auto simp: onboard_finish_def run Let_def seller_growth.refl)
  next
    case health: (Inr health)
    show ?thesis
    proof (cases "dict_get (sl_by_fp s) (oq_platform q, ?fp)")
      case (Some k)
      with res health show ?thesis by (auto simp: onboard_finish_def find_by_fingerprint_def run Let_def seller_growth.refl)
    next
      case None
      show ?thesis
      proof (cases "encrypt (se_crypto v) (se_encryptor v) nonce (utf8_encode ?plain)")
        case (Inl e)
        with res health None show ?thesis by (auto simp: onboard_finish_def find_by_fingerprint_def run Let_def seller_growth.refl)
      next
        case (Inr x)
        obtain n ct tag where x: "x = (n, ct, tag)" by (cases x)
        define row where "row = \<lparr>sk_id = sl_next s, sk_seller = oq_seller q, sk_platform = oq_platform q, sk_fingerprint = ?fp,
         sk_hint = mask_hint ?plain, sk_ciphertext = Some ct, sk_nonce = Some n, sk_tag = Some tag,
         sk_key_version = en_version (se_encryptor v), sk_quota = sn_remaining snap, sk_unit = sn_unit snap,
         sk_state = Sk_active, sk_health = health, sk_validated_at = now, sk_request = oq_request q, sk_version = None\<rparr>"
        have "opens_as c fs mat x (en_version (se_encryptor v)) row"
          using sealed_opens[OF assms(1,2) Inr, of row] by (simp add: row_def v)
        then have "sealed_of row = Some y \<Longrightarrow> opens_as c fs mat y (sk_key_version row) row" for y
          by (auto simp: sealed_of_def row_def x split: if_splits)
        moreover have "sl_rows t = dict_set (sl_next s) row (sl_rows s)" "sl_next t = sl_next s + 1"
          "sl_by_fp t = dict_set (sk_platform row, sk_fingerprint row) (sl_next s) (sl_by_fp s)"
          using res health None Inr
          by (auto simp: onboard_finish_def find_by_fingerprint_def seller_fresh_def seller_insert_def put_row_def run Let_def x
              row_def split: if_splits)
        ultimately show ?thesis using None assms(3)
          by (intro row_inserted[of row]) (auto simp: row_def row_of_def)
      qed
    qed
  qed
qed

subsection \<open>Resuming\<close>

definition plan_ok :: "cryptolib \<Rightarrow> bytes \<Rightarrow> materials \<Rightarrow> seller_store \<Rightarrow> resume_plan \<Rightarrow> bool" where
  "plan_ok c fs mat s p \<longleftrightarrow> (\<exists>r. row_of s (rm_key p) = Some r \<and> opens_as c fs mat (rm_sealed p) (rm_version p) r)"

lemma plan_stays: "plan_ok c fs mat s p \<Longrightarrow> entries_grow row_of row_becomes s t \<Longrightarrow> plan_ok c fs mat t p"
proof -
  assume "plan_ok c fs mat s p" and "entries_grow row_of row_becomes s t"
  then obtain r x where "opens_as c fs mat (rm_sealed p) (rm_version p) r" "row_of t (rm_key p) = Some x" "row_becomes r x"
    unfolding plan_ok_def by (meson entries_growD)
  then show ?thesis using opens_as_frame[of x r] by (auto simp: plan_ok_def row_becomes_def)
qed

lemma or_throw_Inr:
  "(case z of Inl e \<Rightarrow> throw b | Inr x \<Rightarrow> f x) s = (Inr y, t) \<longleftrightarrow> (\<exists>x. z = Inr x \<and> f x s = (Inr y, t))"
  by (cases z) (simp_all add: throw_def)

lemma plan_made:
  assumes "fits c fs mat v" "shake_ok c" "sellers_ok c fs mat s" "resume_begin v nonce kid seller role s = (Inr (Inr p), t)"
  shows "t = s \<and> plan_ok c fs mat s p \<and> rm_key p = kid"
proof -
  from assms(4) obtain r old x ver rotated where r: "row_of s kid = Some r"
    and old: "sealed_of r = Some old" and t: "t = s" "rm_key p = kid"
    and x: "reencrypt (se_crypto v) (se_encryptor v) nonce old (Some (sk_key_version r)) = Inr (x, ver, rotated)"
      "rm_sealed p = x" "rm_version p = ver"
    by (auto simp: resume_begin_def require_seller_role_def op_success or_throw_Inr split: if_splits dest!: owned_found)
  from r assms(3) have row: "row_of s kid = Some r" "row_ok c fs mat s kid r"
    by (auto simp: sellers_ok_def dest: all_storedD)
  from resealed_opens[OF assms(1,2) sealed_stored[OF row(2) old] x(1)] row(1) x t show ?thesis
    by (auto simp: plan_ok_def)
qed

lemma save_if_unmodified_goes:
  assumes "row_of s kid = Some a" "row_becomes a x"
    and "sellers_ok c fs mat s \<Longrightarrow> row_ok c fs mat s kid a \<Longrightarrow> row_ok c fs mat s kid x"
  shows "goes (sellers_le c fs mat) (save_if_unmodified x n) s"
  using row_rewritten[OF assms]
  by (auto simp: goes_def save_if_unmodified_def run seller_growth.refl split: option.split)

lemma resume_finish_goes:
  assumes "plan_ok c fs mat s p"
  shows "goes (sellers_le c fs mat) (resume_finish now p snap) s"
  unfolding resume_finish_def Let_def
proof (rule seller_growth.goes_bindE, rule evolves_goes, unfold resume_verdict_def, intro seller_growth.rules evolve,
    rule seller_growth.goes_bindE[OF evolves_goes[OF owned_row_le]], rule seller_growth.goes_require,
    rule seller_growth.goes_require, rule seller_growth.goes_of_sum)
  fix d :: unit and u t r st
  assume u: "(if sn_category snap \<noteq> ''success'' \<or> \<not> truthy (sn_remaining snap) \<or> sn_remaining snap \<in> {Some ''0'', Some ''0.0''}
      then if sn_category snap = ''zero_quota'' \<or> sn_category snap = ''success''
           then throw (OnboardingError Sc_zero_quota 402) else throw (OnboardingError Sc_validation_failed 409)
      else ret ()) s = (Inr d, u)" and r: "owned_row (rm_key p) (rm_seller p) u = (Inr r, t)"
    and st: "seller_transition (sk_state r) Sk_active = Inr st"
  have t: "t = s" and row: "row_of s (rm_key p) = Some r"
    using u owned_found[OF r] by (auto simp: run split: if_splits)
  obtain n ct tag where x: "rm_sealed p = (n, ct, tag)" by (cases "rm_sealed p")
  have opens: "opens_as c fs mat (n, ct, tag) (rm_version p) r" using assms row x by (auto simp: plan_ok_def)
  have "st = Sk_active" "sk_state r \<noteq> Sk_revoked" using st by (auto simp: seller_transition_def split: if_splits)
  then show "goes (sellers_le c fs mat) (case rm_sealed p of (n, ct, tag) \<Rightarrow>
      bindE (save_if_unmodified (r\<lparr>sk_state := st, sk_health := ''healthy'', sk_quota := sn_remaining snap, sk_unit := sn_unit snap,
               sk_validated_at := now, sk_ciphertext := Some ct, sk_nonce := Some n, sk_tag := Some tag,
               sk_key_version := rm_version p, sk_version := Some (rm_expected p + 1)\<rparr>) (rm_expected p)) (\<lambda>saved.
      bindE (require saved (OnboardingError Sc_conflict 409)) (\<lambda>_. ret (seller_key_view
        (r\<lparr>sk_state := st, sk_health := ''healthy'', sk_quota := sn_remaining snap, sk_unit := sn_unit snap,
               sk_validated_at := now, sk_ciphertext := Some ct, sk_nonce := Some n, sk_tag := Some tag,
               sk_key_version := rm_version p, sk_version := Some (rm_expected p + 1)\<rparr>))))) t"
    unfolding x t prod.case
    by (intro seller_growth.goes_then[OF save_if_unmodified_goes[OF row]] seller_growth.rules)
      (use opens in \<open>auto simp: row_becomes_def row_ok_def sealed_of_def opens_as_def\<close>)
qed

subsection \<open>What the gateway gets\<close>

lemma decrypt_row_ok:
  assumes "fits c fs mat v" "shake_ok c" "row_ok c fs mat s kid r" "decrypt_row v nonce r = Some (secret, x)"
  shows "fingerprint_key c secret fs (sk_platform r) = sk_fingerprint r" "row_becomes r x" "row_ok c fs mat s kid x"
    "sk_id x = sk_id r" "sk_seller x = sk_seller r" "sk_state r \<noteq> Sk_revoked"
proof -
  from assms(4) obtain old n ct tag ver rotated plain where old: "sealed_of r = Some old"
    and re: "reencrypt (se_crypto v) (se_encryptor v) nonce old (Some (sk_key_version r)) = Inr ((n, ct, tag), ver, rotated)"
    and de: "decrypt (se_crypto v) (se_encryptor v) (n, ct, tag) (Some ver) = Inr plain" and utf: "utf8_decode plain = Some secret"
    and x: "x = (if rotated then r\<lparr>sk_nonce := Some n, sk_ciphertext := Some ct, sk_tag := Some tag, sk_key_version := ver\<rparr> else r)"
    by (auto simp: decrypt_row_def split: option.splits sum.splits)
  note opens = resealed_opens[OF assms(1,2) sealed_stored[OF assms(3) old] re]
  from opened_secret[OF assms(1) conjunct1[OF opens] de] utf
  show "fingerprint_key c secret fs (sk_platform r) = sk_fingerprint r" by (auto simp: utf8_roundtrip)
  have "sk_ciphertext r \<noteq> None" using old by (auto simp: sealed_of_def split: option.splits)
  then show "sk_state r \<noteq> Sk_revoked" using assms(3) by (auto simp: row_ok_def)
  then show "row_ok c fs mat s kid x"
    using opens assms(3) by (auto simp: x row_ok_def sealed_of_def opens_as_def)
  show "row_becomes r x" "sk_id x = sk_id r" "sk_seller x = sk_seller r" by (simp_all add: x row_becomes_def)
qed

definition genuine :: "cryptolib \<Rightarrow> bytes \<Rightarrow> seller_key \<Rightarrow> routed_key \<Rightarrow> bool" where
  "genuine c fs r k \<longleftrightarrow> rk_id k = sk_id r \<and> rk_seller k = sk_seller r \<and>
     fingerprint_key c (rk_secret k) fs (sk_platform r) = sk_fingerprint r"

lemma route_rows_run:
  assumes "fits c fs mat v" "shake_ok c"
  shows "sellers_ok c fs mat s \<Longrightarrow> \<forall>r \<in> set rs. row_of s (sk_id r) = Some r \<Longrightarrow> distinct (map sk_id rs) \<Longrightarrow>
    route_rows v nonces rs s = (res, t) \<Longrightarrow>
    sellers_le c fs mat s t \<and> (\<exists>out. res = Inr out \<and> (\<forall>k \<in> set out. \<exists>r \<in> set rs. genuine c fs r k))"
proof (induction rs arbitrary: s res t)
  case Nil
  then show ?case by (simp add: ret_def seller_growth.refl)
next
  case (Cons r rs)
  show ?case
  proof (cases "decrypt_row v (nonces (sk_id r)) r")
    case None
    with Cons.prems Cons.IH[of s res t] show ?thesis by auto
  next
    case (Some sx)
    then obtain secret x where sx: "decrypt_row v (nonces (sk_id r)) r = Some (secret, x)" by (cases sx) auto
    have row: "row_of s (sk_id r) = Some r" "row_ok c fs mat s (sk_id r) r"
      using Cons.prems(1,2) by (auto simp: sellers_ok_def dest: all_storedD)
    note known = decrypt_row_ok[OF assms row(2) sx]
    let ?u = "if sk_key_version x \<noteq> sk_key_version r then put_row (sk_id x) x s else s"
    have "route_rows v nonces (r # rs) s = bindE (route_rows v nonces rs) (\<lambda>out. ret (\<lparr>rk_id = sk_id x, rk_seller = sk_seller x,
        rk_secret = secret, rk_platform = (if sk_platform x = [] then ''volcano'' else sk_platform x),
        rk_quota = or_str (sk_quota x) []\<rparr> # out)) ?u"
      by (simp add: sx bindE_def[of "when_op _ _"] when_op_def seller_save_def modify_def)
    then obtain res' where rest: "route_rows v nonces rs ?u = (res', t)"
      and res: "res = (case res' of Inl e \<Rightarrow> Inl e | Inr out \<Rightarrow> Inr (\<lparr>rk_id = sk_id x, rk_seller = sk_seller x,
        rk_secret = secret, rk_platform = (if sk_platform x = [] then ''volcano'' else sk_platform x),
        rk_quota = or_str (sk_quota x) []\<rparr> # out))"
      using Cons.prems(4) by (cases "route_rows v nonces rs ?u") (auto simp: bindE_def ret_def split: sum.splits)
    have le: "sellers_le c fs mat s ?u" using row_rewritten[OF row(1) known(2)] known(3) by (simp add: seller_growth.refl)
    then have ok: "sellers_ok c fs mat ?u" using Cons.prems(1) by (simp add: sellers_le_def)
    have "\<forall>y \<in> set rs. row_of ?u (sk_id y) = Some y"
    proof
      fix y
      assume y: "y \<in> set rs"
      then have "sk_id y \<in> sk_id ` set rs" by (rule imageI)
      with Cons.prems(3) known(4) have "sk_id y \<noteq> sk_id x" by auto
      moreover have "row_of s (sk_id y) = Some y" using bspec[OF Cons.prems(2), of y] y by simp
      ultimately show "row_of ?u (sk_id y) = Some y" by (simp add: seller_rows.get_put_other)
    qed
    from Cons.IH[OF ok this _ rest] Cons.prems(3) obtain out where
      done_rest: "sellers_le c fs mat ?u t" "res' = Inr out" "\<forall>k \<in> set out. \<exists>r \<in> set rs. genuine c fs r k" by auto
    let ?item = "\<lparr>rk_id = sk_id x, rk_seller = sk_seller x, rk_secret = secret,
      rk_platform = (if sk_platform x = [] then ''volcano'' else sk_platform x), rk_quota = or_str (sk_quota x) []\<rparr>"
    have "genuine c fs r ?item" using known(1,4,5) by (simp add: genuine_def)
    then have "\<exists>r' \<in> set (r # rs). genuine c fs r' k" if "k \<in> set (?item # out)" for k
      using that done_rest(3) unfolding set_simps by blast
    moreover have "res = Inr (?item # out)" unfolding res done_rest(2) by simp
    ultimately have "\<exists>out. res = Inr out \<and> (\<forall>k \<in> set out. \<exists>r' \<in> set (r # rs). genuine c fs r' k)" by blast
    with seller_growth.trans[OF le done_rest(1)] show ?thesis by blast
  qed
qed

lemma routable_run:
  assumes "fits c fs mat v" "shake_ok c" "sellers_ok c fs mat s" "routable_keys v nonces s = (res, t)"
  shows "sellers_le c fs mat s t \<and> (\<exists>out. res = Inr out \<and> (\<forall>k \<in> set out. \<exists>r. row_of s (rk_id k) = Some r \<and>
     routable (sk_state r) (sk_health r) \<and> has_positive_quota (sk_quota r) \<and>
     owner_state_allows_seller (dict_get (sl_owners s) (sk_seller r)) \<and> genuine c fs r k))"
proof -
  let ?P = "\<lambda>r. routable (sk_state r) (sk_health r) \<and> has_positive_quota (sk_quota r) \<and> sk_ciphertext r \<noteq> None \<and>
    sk_ciphertext r \<noteq> Some [] \<and> owner_state_allows_seller (dict_get (sl_owners s) (sk_seller r))"
  have rows: "route_rows v nonces (filter ?P (dict_values (sl_rows s))) s = (res, t)"
    using assms(4) by (simp add: routable_keys_def routable_rows_def bindE_def gets_def)
  have ok: "dict_ok (sl_rows s)" "\<And>k r. row_of s k = Some r \<Longrightarrow> sk_id r = k"
    using assms(3) by (auto simp: sellers_ok_def row_ok_def dest: all_storedD)
  have id: "sk_id r = k" if "(k, r) \<in> set (sl_rows s)" for k r
    using ok that by (simp add: row_of_def dict_items_get)
  have "map sk_id (dict_values (sl_rows s)) = map fst (sl_rows s)"
    using id by (auto simp: dict_values_def)
  then have dist: "distinct (map sk_id (filter ?P (dict_values (sl_rows s))))"
    using ok(1) by (metis (no_types, lifting) dict_ok_def distinct_map_filter)
  have stored: "row_of s (sk_id r) = Some r" if "r \<in> set (dict_values (sl_rows s))" for r
    using dict_values_get[OF ok(1) that] ok(2) by (metis row_of_def)
  have "\<forall>r \<in> set (filter ?P (dict_values (sl_rows s))). row_of s (sk_id r) = Some r" using stored by simp
  note done_r = route_rows_run[OF assms(1-3) this dist rows]
  then obtain out where out: "res = Inr out" "\<forall>k \<in> set out. \<exists>r \<in> set (filter ?P (dict_values (sl_rows s))). genuine c fs r k" by blast
  have "\<exists>r. row_of s (rk_id k) = Some r \<and> routable (sk_state r) (sk_health r) \<and> has_positive_quota (sk_quota r) \<and>
     owner_state_allows_seller (dict_get (sl_owners s) (sk_seller r)) \<and> genuine c fs r k" if k: "k \<in> set out" for k
  proof -
    from out(2) k obtain r where r: "r \<in> set (dict_values (sl_rows s))" "?P r" "genuine c fs r k" by auto
    moreover have "rk_id k = sk_id r" using r(3) by (simp add: genuine_def)
    ultimately show ?thesis using stored[OF r(1)] by auto
  qed
  with done_r out(1) show ?thesis by blast
qed

subsection \<open>Runs\<close>

text \<open>The state of a run: the store, and the resumes that wait for a validation.\<close>

type_synonym seller_run = "seller_store \<times> resume_plan list"

inductive seller_step :: "cryptolib \<Rightarrow> bytes \<Rightarrow> materials \<Rightarrow> seller_run \<Rightarrow> seller_run \<Rightarrow> bool" for c fs mat where
  owner_set: "seller_set_owner u w s = (r, t) \<Longrightarrow> seller_step c fs mat (s, ps) (t, ps)"
| onboarded: "fits c fs mat v \<Longrightarrow> oq_platform q = ''volcano'' \<Longrightarrow> onboard_finish v nonce now q snap s = (r, t) \<Longrightarrow>
    seller_step c fs mat (s, ps) (t, ps)"
| paused: "pause_key kid seller role s = (r', t) \<Longrightarrow> seller_step c fs mat (s, ps) (t, ps)"
| revoked: "revoke_seller_key kid seller role s = (r', t) \<Longrightarrow> seller_step c fs mat (s, ps) (t, ps)"
| resuming: "fits c fs mat v \<Longrightarrow> resume_begin v nonce kid seller role s = (Inr (Inr p), t) \<Longrightarrow>
    seller_step c fs mat (s, ps) (t, p # ps)"
| resumed: "p \<in> set ps \<Longrightarrow> resume_finish now p snap s = (r', t) \<Longrightarrow> seller_step c fs mat (s, ps) (t, ps)"
| checked: "seller_apply_health kid health s = (r, t) \<Longrightarrow> seller_step c fs mat (s, ps) (t, ps)"
| routed: "fits c fs mat v \<Longrightarrow> routable_keys v nonces s = (out, t) \<Longrightarrow> seller_step c fs mat (s, ps) (t, ps)"

definition run_ok :: "cryptolib \<Rightarrow> bytes \<Rightarrow> materials \<Rightarrow> seller_run \<Rightarrow> bool" where
  "run_ok c fs mat x \<longleftrightarrow> sellers_ok c fs mat (fst x) \<and> (\<forall>p \<in> set (snd x). plan_ok c fs mat (fst x) p)"

lemma step_le:
  assumes "shake_ok c" "seller_step c fs mat x y" "run_ok c fs mat x"
  shows "sellers_le c fs mat (fst x) (fst y) \<and> (\<forall>p \<in> set (snd y). p \<in> set (snd x) \<or> plan_ok c fs mat (fst y) p)"
  using assms(2)
proof cases
  case (onboarded v q nonce now snap s r t ps)
  from evolvesD[OF onboard_finish_le[OF onboarded(3) assms(1) onboarded(4)] onboarded(5)] onboarded(1,2) show ?thesis by simp
next
  case (resuming v nonce kid seller role s p t ps)
  with plan_made[OF resuming(3) assms(1) _ resuming(4)] assms(3) show ?thesis by (auto simp: run_ok_def seller_growth.refl)
next
  case (resumed p ps now snap s r' t)
  then have "goes (sellers_le c fs mat) (resume_finish now p snap) s"
    using assms(3) by (intro resume_finish_goes) (auto simp: run_ok_def)
  with resumed show ?thesis by (auto simp: goes_def)
next
  case (routed v nonces s out t ps)
  with routable_run[OF routed(3) assms(1) _ routed(4)] assms(3) show ?thesis by (auto simp: run_ok_def)
qed (auto dest: owner_and_health_le[THEN evolvesD] pause_key_le[THEN evolvesD] revoke_seller_key_le[THEN evolvesD])

lemma steps_keep:
  assumes "shake_ok c" "(seller_step c fs mat)\<^sup>*\<^sup>* x y" "run_ok c fs mat x"
  shows "run_ok c fs mat y \<and> entries_grow row_of row_becomes (fst x) (fst y)"
  using assms(2)
proof (induction rule: rtranclp_induct)
  case base
  then show ?case using assms(3) by (simp add: entries_grow_refl row_becomes_order)
next
  case (step y z)
  then have ok: "run_ok c fs mat y" by simp
  with step_le[OF assms(1) step(2)] have grow: "sellers_ok c fs mat (fst z)" "entries_grow row_of row_becomes (fst y) (fst z)"
    and plans: "\<forall>p \<in> set (snd z). p \<in> set (snd y) \<or> plan_ok c fs mat (fst z) p"
    by (auto simp: sellers_le_def run_ok_def)
  then have "run_ok c fs mat z" using ok by (auto simp: run_ok_def intro: plan_stays)
  with grow step(3) show ?case by (auto intro: entries_grow_trans row_becomes_order)
qed

lemma empty_run_ok: "run_ok c fs mat (empty_sellers, [])"
  by (simp add: run_ok_def sellers_ok_def empty_sellers_def all_stored_def row_of_def)

text \<open>A credential is held once.\<close>

lemma credential_held_once:
  assumes "shake_ok c" "(seller_step c fs mat)\<^sup>*\<^sup>* (empty_sellers, []) (s, ps)"
    and "row_of s i = Some a" "row_of s j = Some b" "sk_fingerprint a = sk_fingerprint b"
  shows "i = j"
proof -
  have "sellers_ok c fs mat s" using steps_keep[OF assms(1,2) empty_run_ok] by (simp add: run_ok_def)
  with assms(3,4) have "row_ok c fs mat s i a" "row_ok c fs mat s j b" by (auto simp: sellers_ok_def dest: all_storedD)
  with assms(5) show ?thesis by (auto simp: row_ok_def)
qed

text \<open>C37 (safety). What the gateway is given are keys that are active, healthy, with quota left and of an active seller;
  each secret is the credential that was onboarded under that key (it has its fingerprint), whatever calls, pauses,
  resumes and changes of the sealing key came between; and no credential is held under two keys.\<close>

theorem routed_keys_genuine:
  assumes "shake_ok c" and "(seller_step c fs mat)\<^sup>*\<^sup>* (empty_sellers, []) (s, ps)"
    and "fits c fs mat v" and "routable_keys v nonces s = (res, t)"
  shows "(\<exists>out. res = Inr out \<and> (\<forall>k \<in> set out. \<exists>r. row_of s (rk_id k) = Some r \<and> sk_seller r = rk_seller k \<and>
      sk_state r = Sk_active \<and> sk_health r = ''healthy'' \<and> has_positive_quota (sk_quota r) \<and>
      owner_state_allows_seller (dict_get (sl_owners s) (sk_seller r)) \<and>
      fingerprint_key c (rk_secret k) fs (sk_platform r) = sk_fingerprint r)) \<and>
    (\<forall>i j a b. row_of s i = Some a \<and> row_of s j = Some b \<and> sk_fingerprint a = sk_fingerprint b \<longrightarrow> i = j)"
proof
  have "sellers_ok c fs mat s" using steps_keep[OF assms(1,2) empty_run_ok] by (simp add: run_ok_def)
  from routable_run[OF assms(3,1) this assms(4)] obtain out where out: "res = Inr out"
    "\<forall>k \<in> set out. \<exists>r. row_of s (rk_id k) = Some r \<and> routable (sk_state r) (sk_health r) \<and> has_positive_quota (sk_quota r) \<and>
     owner_state_allows_seller (dict_get (sl_owners s) (sk_seller r)) \<and> genuine c fs r k" by blast
  show "\<exists>out. res = Inr out \<and> (\<forall>k \<in> set out. \<exists>r. row_of s (rk_id k) = Some r \<and> sk_seller r = rk_seller k \<and>
      sk_state r = Sk_active \<and> sk_health r = ''healthy'' \<and> has_positive_quota (sk_quota r) \<and>
      owner_state_allows_seller (dict_get (sl_owners s) (sk_seller r)) \<and>
      fingerprint_key c (rk_secret k) fs (sk_platform r) = sk_fingerprint r)"
    using out unfolding routable_def genuine_def by metis
  show "\<forall>i j a b. row_of s i = Some a \<and> row_of s j = Some b \<and> sk_fingerprint a = sk_fingerprint b \<longrightarrow> i = j"
    using credential_held_once[OF assms(1,2)] by blast
qed

lemma revoked_finish_fails:
  "row_of s (rm_key p) = Some r \<Longrightarrow> sk_state r = Sk_revoked \<Longrightarrow> \<exists>e. resume_finish now p snap s = (Inl e, s)"
  by (auto simp: resume_finish_def resume_verdict_def owned_row_def run)

text \<open>C38 (safety). A revoked key stays revoked and its ciphertext stays erased, whatever is called afterwards; no resume
  that began before the revocation, or after it, brings it back, and the gateway is never given it again.\<close>

theorem revoked_seller_key_dead:
  assumes "shake_ok c" and "(seller_step c fs mat)\<^sup>*\<^sup>* (empty_sellers, []) (s, ps)"
    and "revoke_seller_key kid seller role s = (Inr view, t)" and "(seller_step c fs mat)\<^sup>*\<^sup>* (t, ps) (u, qs)"
    and "fits c fs mat v" and "routable_keys v nonces u = (Inr out, w)"
  shows "(\<exists>r. row_of u kid = Some r \<and> sk_state r = Sk_revoked \<and> sk_ciphertext r = None) \<and>
    (\<forall>p now snap. rm_key p = kid \<longrightarrow> (\<exists>e. resume_finish now p snap u = (Inl e, u))) \<and>
    (\<forall>k \<in> set out. rk_id k \<noteq> kid)"
proof -
  have s: "run_ok c fs mat (s, ps)" using steps_keep[OF assms(1,2) empty_run_ok] by simp
  have step: "seller_step c fs mat (s, ps) (t, ps)" using assms(3) by (rule seller_step.revoked)
  then have "(seller_step c fs mat)\<^sup>*\<^sup>* (s, ps) (t, ps)" by (rule r_into_rtranclp)
  from steps_keep[OF assms(1) this s] have t: "run_ok c fs mat (t, ps)" by simp
  from assms(3) obtain a where a: "row_of s kid = Some a" "row_of t (sk_id a) = Some (a\<lparr>sk_state := Sk_revoked, sk_ciphertext := None,
      sk_nonce := None, sk_tag := None, sk_version := Some (version_or 1 a + 1)\<rparr>)"
    by (auto simp: revoke_seller_key_def require_seller_role_def seller_save_def op_success Let_def seller_rows.get_put
        seller_transition_def split: if_splits dest!: owned_found)
  have "sk_id a = kid" using s a(1) by (auto simp: run_ok_def sellers_ok_def row_ok_def dest: all_storedD)
  with a(2) steps_keep[OF assms(1,4) t] obtain r where r: "row_of u kid = Some r" "sk_state r = Sk_revoked"
    by (fastforce simp: row_becomes_def dest: entries_growD)
  have u: "sellers_ok c fs mat u" using steps_keep[OF assms(1,4) t] by (simp add: run_ok_def)
  then have "sk_ciphertext r = None" using r by (auto simp: sellers_ok_def row_ok_def dest: all_storedD)
  moreover have "\<forall>k \<in> set out. rk_id k \<noteq> kid"
    using routable_run[OF assms(5,1) u assms(6)] r by (fastforce simp: routable_def)
  ultimately show ?thesis using r revoked_finish_fails by blast
qed

end
