(* ===== verification/Seller_Key_Evidence.thy ===== *)
theory Seller_Key_Evidence
  imports Seller_Key_Facts
begin

section \<open>A seller key at work\<close>

text \<open>
  A credential is onboarded, paused, resumed under a newer sealing key and revoked, while a second resume of it
  waits for its validation.
\<close>

definition vault_lib :: cryptolib where
  "vault_lib = \<lparr>shake256 = \<lambda>seed n. replicate n 3, hmac256 = \<lambda>k m. [hd k, last m], sha256 = \<lambda>m. take 1 m\<rparr>"

definition vault_ring :: "(string, bytes) dict" where
  "vault_ring = [(''v1'', [1]), (''v2'', [2])]"

definition vault :: "string \<Rightarrow> seller_env" where
  "vault ver = \<lparr>se_crypto = vault_lib, se_encryptor = \<lparr>en_keys = vault_ring, en_version = ver\<rparr>, se_fp_secret = [9]\<rparr>"

definition supply_request :: onboard_request where
  "supply_request = \<lparr>oq_seller = 5, oq_role = ''seller'', oq_platform = ''volcano'', oq_api_key = '' sk-1 '', oq_idem = ''i'',
     oq_request = ''q''\<rparr>"

definition good_snapshot :: validation_snapshot where
  "good_snapshot = \<lparr>sn_category = ''success'', sn_remaining = Some ''12'', sn_unit = None\<rparr>"

definition supply1 :: seller_store where
  "supply1 = snd (onboard_finish (vault ''v1'') [7] 10 supply_request good_snapshot empty_sellers)"

definition supply2 :: seller_store where
  "supply2 = snd (pause_key 0 5 ''seller'' supply1)"

definition supply_plan :: resume_plan where
  "supply_plan = (case fst (resume_begin (vault ''v2'') [8] 0 5 ''seller'' supply2) of Inr (Inr p) \<Rightarrow> p)"

definition supply3 :: seller_store where
  "supply3 = snd (resume_finish 20 supply_plan good_snapshot supply2)"

definition supply4 :: seller_store where
  "supply4 = snd (revoke_seller_key 0 5 ''seller'' supply3)"

abbreviation supplies :: "seller_run \<Rightarrow> seller_run \<Rightarrow> bool" where
  "supplies \<equiv> seller_step vault_lib [9] (dict_get vault_ring)"

lemma vault_fits: "shake_ok vault_lib" "ver \<noteq> [] \<Longrightarrow> fits vault_lib [9] (dict_get vault_ring) (vault ver)"
  by (auto simp: shake_ok_def vault_lib_def fits_def vault_def)

lemma plan_begun: "resume_begin (vault ''v2'') [8] 0 5 ''seller'' supply2 = (Inr (Inr supply_plan), supply2)"
  by code_simp

lemma supply_runs: "supplies\<^sup>*\<^sup>* (empty_sellers, []) (supply3, [supply_plan])"
proof -
  have "supplies (empty_sellers, []) (supply1, [])"
    unfolding supply1_def
    by (rule seller_step.onboarded[OF vault_fits(2) _ prod.collapse[symmetric]]) (simp_all add: supply_request_def)
  moreover have "supplies (supply1, []) (supply2, [])"
    unfolding supply2_def by (rule seller_step.paused[OF prod.collapse[symmetric]])
  moreover have "supplies (supply2, []) (supply2, [supply_plan])"
    by (rule seller_step.resuming[OF vault_fits(2) plan_begun]) simp
  moreover have "supplies (supply2, [supply_plan]) (supply3, [supply_plan])"
    unfolding supply3_def by (rule seller_step.resumed[OF _ prod.collapse[symmetric]]) simp
  ultimately show ?thesis by (meson converse_rtranclp_into_rtranclp rtranclp.rtrancl_refl)
qed

theorem routed_keys_genuine_witness:
  "\<exists>out. fst (routable_keys (vault ''v2'') (\<lambda>i. [6]) supply3) = Inr out \<and> map rk_secret out = [''sk-1''] \<and>
     (\<forall>k \<in> set out. \<exists>r. row_of supply3 (rk_id k) = Some r \<and> sk_state r = Sk_active \<and>
       fingerprint_key vault_lib (rk_secret k) [9] (sk_platform r) = sk_fingerprint r)"
proof -
  let ?res = "routable_keys (vault ''v2'') (\<lambda>i. [6]) supply3"
  have "map_sum id (map rk_secret) (fst ?res) = Inr [''sk-1'']" by code_simp
  then obtain out where out: "fst ?res = Inr out" "map rk_secret out = [''sk-1'']" by (cases "fst ?res") auto
  from routed_keys_genuine[OF vault_fits(1) supply_runs vault_fits(2) prod.collapse[symmetric], of "''v2''" "\<lambda>i. [6]"] out
  show ?thesis by fastforce
qed

theorem revoked_seller_key_dead_witness:
  "map_option (\<lambda>r. (sk_state r, sk_ciphertext r)) (row_of supply3 0) \<noteq> Some (Sk_revoked, None) \<and>
   (\<exists>r. row_of supply4 0 = Some r \<and> sk_state r = Sk_revoked \<and> sk_ciphertext r = None) \<and>
   (\<exists>e. resume_finish 30 supply_plan good_snapshot supply4 = (Inl e, supply4))"
proof -
  have "\<not> isl (fst (revoke_seller_key 0 5 ''seller'' supply3))" by code_simp
  then obtain view where "fst (revoke_seller_key 0 5 ''seller'' supply3) = Inr view"
    by (cases "fst (revoke_seller_key 0 5 ''seller'' supply3)") auto
  then have gone: "revoke_seller_key 0 5 ''seller'' supply3 = (Inr view, supply4)" by (simp add: supply4_def prod_eq_iff)
  have none: "fst (routable_keys (vault ''v2'') (\<lambda>i. [6]) supply4) = Inr []" by code_simp
  then have "routable_keys (vault ''v2'') (\<lambda>i. [6]) supply4 = (Inr [], snd (routable_keys (vault ''v2'') (\<lambda>i. [6]) supply4))"
    by (metis prod.collapse)
  from revoked_seller_key_dead[OF vault_fits(1) supply_runs gone rtranclp.rtrancl_refl vault_fits(2) this]
  have dead: "\<exists>r. row_of supply4 0 = Some r \<and> sk_state r = Sk_revoked \<and> sk_ciphertext r = None"
    "rm_key supply_plan = 0 \<longrightarrow> (\<exists>e. resume_finish 30 supply_plan good_snapshot supply4 = (Inl e, supply4))" by simp_all
  have "map_option (\<lambda>r. (sk_state r, sk_ciphertext r)) (row_of supply3 0) \<noteq> Some (Sk_revoked, None)" "rm_key supply_plan = 0"
    by code_simp+
  with dead show ?thesis by blast
qed

subsection \<open>A finding\<close>

text \<open>A replayed onboarding answers that the key is active and of unknown health, though the key has been revoked since.\<close>

lemma replay_calls_revoked_key_active:
  "map_sum id (map_option (\<lambda>x. (ob_id x, ob_state x, ob_health x, ob_replayed x)))
     (fst (onboard_begin (vault ''v2'') 40 supply_request supply4)) = Inr (Some (0, Sk_active, ''unknown'', True)) \<and>
   map_option sk_state (row_of supply4 0) = Some Sk_revoked"
  by (rule conjI; code_simp)

end
