(* ===== verification/Workbench.thy ===== *)
theory Workbench
  imports Prelude
begin

section \<open>Seller workbench\<close>

text \<open>
  \<^verbatim>\<open>workbench/service.py\<close>: the quotes of a seller for a connection, its declared capacity and earnings, and the card
  the seller sees. The monotonic clock of the rate limit is read as an \<open>instant\<close>.
\<close>

datatype bench_code =
    Wb_forbidden | Wb_out_of_bounds | Wb_negative_spread | Wb_invalid_capacity | Wb_invalid_earning | Wb_rate_limited
  | Wb_privacy

datatype bench_error = WorkbenchError bench_code int

record platform_bounds =
  pb_buyer :: int
  pb_min :: int
  pb_max :: int
  pb_version :: string

definition default_bounds :: platform_bounds where
  "default_bounds = \<lparr>pb_buyer = 12000, pb_min = 8000, pb_max = 11000, pb_version = ''rv-published''\<rparr>"

record quote_revision =
  qr_seq :: int
  qr_bps :: int
  qr_version :: string
  qr_created_at :: instant
  qr_actor :: string

record bench_event =
  be_actor :: string
  be_action :: string
  be_connection :: string
  be_before :: pyval
  be_after :: pyval
  be_created_at :: instant

record bench_earnings =
  bg_settled :: int
  bg_unresolved :: int
  bg_reasons :: "string list"
  bg_ready :: bool

record connection_card =
  cc_connection :: string
  cc_seller :: string
  cc_provider :: string
  cc_mode :: string
  cc_lifecycle :: string
  cc_health :: string
  cc_reason :: "string option"

record workbench =
  wk_bounds :: platform_bounds
  wk_limit :: int
  wk_window :: int
  wk_quotes :: "(string, quote_revision list) dict"
  wk_capacity :: "(string, int) dict"
  wk_audit :: "bench_event list"
  wk_earnings :: "(string, bench_earnings) dict"
  wk_times :: "(string, instant list) dict"

type_synonym 'a bench_op = "(workbench, bench_error, 'a) op"

definition new_workbench :: "platform_bounds \<Rightarrow> int \<Rightarrow> int \<Rightarrow> workbench" where
  "new_workbench b limit window = \<lparr>wk_bounds = b, wk_limit = limit, wk_window = window, wk_quotes = [], wk_capacity = [],
     wk_audit = [], wk_earnings = [], wk_times = []\<rparr>"

definition no_earnings :: bench_earnings where
  "no_earnings = \<lparr>bg_settled = 0, bg_unresolved = 0, bg_reasons = [], bg_ready = False\<rparr>"

definition get_list :: "('k, 'v list) dict \<Rightarrow> 'k \<Rightarrow> 'v list" where
  "get_list d k = (case dict_get d k of None \<Rightarrow> [] | Some xs \<Rightarrow> xs)"

text \<open>The window is cleared of what is too old before it is counted, also when the quote is then refused.\<close>

definition bench_rate_limit :: "instant \<Rightarrow> string \<Rightarrow> unit bench_op" where
  "bench_rate_limit now seller =
     bindE (modify (\<lambda>s. s\<lparr>wk_times := dict_set seller
        (filter (\<lambda>t. now - t < wk_window s) (get_list (wk_times s) seller)) (wk_times s)\<rparr>)) (\<lambda>_.
     bindE (gets (\<lambda>s. int (length (get_list (wk_times s) seller)) \<ge> wk_limit s)) (\<lambda>full.
     bindE (require (\<not> full) (WorkbenchError Wb_rate_limited 429)) (\<lambda>_.
     modify (\<lambda>s. s\<lparr>wk_times := dict_set seller (get_list (wk_times s) seller @ [now]) (wk_times s)\<rparr>))))"

definition quote_event :: "instant \<Rightarrow> string \<Rightarrow> string \<Rightarrow> quote_revision list \<Rightarrow> quote_revision \<Rightarrow> bench_event" where
  "quote_event now actor cid hist revision = \<lparr>be_actor = actor, be_action = ''quote'', be_connection = cid,
     be_before = PyDict [(''multiplier_bps'', if hist = [] then PyNone else PyInt (qr_bps (last hist)))],
     be_after = PyDict [(''multiplier_bps'', PyInt (qr_bps revision)), (''seq'', PyInt (qr_seq revision))], be_created_at = now\<rparr>"

definition submit_quote :: "instant \<Rightarrow> string \<Rightarrow> string \<Rightarrow> int \<Rightarrow> string \<Rightarrow> string \<Rightarrow> quote_revision bench_op" where
  "submit_quote now seller cid bps actor owner =
     bindE (require (owner = seller) (WorkbenchError Wb_forbidden 403)) (\<lambda>_.
     bindE (gets wk_bounds) (\<lambda>b.
     bindE (require (\<not> (bps < pb_min b \<or> bps > pb_max b)) (WorkbenchError Wb_out_of_bounds 400)) (\<lambda>_.
     bindE (require (\<not> bps > pb_buyer b) (WorkbenchError Wb_negative_spread 400)) (\<lambda>_.
     bindE (bench_rate_limit now seller) (\<lambda>_.
     bindE (gets (\<lambda>s. get_list (wk_quotes s) cid)) (\<lambda>hist.
     let revision = \<lparr>qr_seq = int (length hist) + 1, qr_bps = bps, qr_version = pb_version b, qr_created_at = now, qr_actor = actor\<rparr> in
     bindE (modify (\<lambda>s. s\<lparr>wk_quotes := dict_set cid (hist @ [revision]) (wk_quotes s),
       wk_audit := wk_audit s @ [quote_event now actor cid hist revision]\<rparr>)) (\<lambda>_. ret revision)))))))"

definition set_capacity :: "instant \<Rightarrow> string \<Rightarrow> string \<Rightarrow> int \<Rightarrow> string \<Rightarrow> string \<Rightarrow> int bench_op" where
  "set_capacity now seller cid declared actor owner =
     bindE (require (owner = seller) (WorkbenchError Wb_forbidden 403)) (\<lambda>_.
     bindE (require (\<not> declared < 0) (WorkbenchError Wb_invalid_capacity 400)) (\<lambda>_.
     bindE (modify (\<lambda>s. s\<lparr>wk_capacity := dict_set cid declared (wk_capacity s),
       wk_audit := wk_audit s @ [\<lparr>be_actor = actor, be_action = ''capacity'', be_connection = cid,
         be_before = PyDict [(''declared_capacity'', py_opt PyInt (dict_get (wk_capacity s) cid))],
         be_after = PyDict [(''declared_capacity'', PyInt declared)], be_created_at = now\<rparr>]\<rparr>)) (\<lambda>_.
     ret declared)))"

definition earnings_of :: "workbench \<Rightarrow> string \<Rightarrow> bench_earnings" where
  "earnings_of s cid = (case dict_get (wk_earnings s) cid of None \<Rightarrow> no_earnings | Some e \<Rightarrow> e)"

definition record_unresolved :: "string \<Rightarrow> string \<Rightarrow> unit bench_op" where
  "record_unresolved cid why = modify (\<lambda>s. let e = earnings_of s cid in
     s\<lparr>wk_earnings := dict_set cid (e\<lparr>bg_unresolved := bg_unresolved e + 1,
       bg_reasons := (if why \<in> set (bg_reasons e) then bg_reasons e else bg_reasons e @ [why])\<rparr>) (wk_earnings s)\<rparr>)"

definition record_settled :: "string \<Rightarrow> int \<Rightarrow> unit bench_op" where
  "record_settled cid minor =
     bindE (require (\<not> minor < 0) (WorkbenchError Wb_invalid_earning 400)) (\<lambda>_.
     modify (\<lambda>s. let e = earnings_of s cid in
       s\<lparr>wk_earnings := dict_set cid (e\<lparr>bg_settled := bg_settled e + minor, bg_ready := True\<rparr>) (wk_earnings s)\<rparr>))"

definition card_admits :: "string \<Rightarrow> int option \<Rightarrow> bool" where
  "card_admits lifecycle declared =
     (if lifecycle \<in> {''paused'', ''draining'', ''retired'', ''draft''} then False
      else if (case declared of None \<Rightarrow> False | Some n \<Rightarrow> n \<le> 0) then False
      else lifecycle \<in> {''listed'', ''bound'', ''verified''})"

subsection \<open>The privacy check of the card\<close>

text \<open>\<^verbatim>\<open>repr\<close> of the values a card holds. A string is quoted with apostrophes, unless it holds one and no quotation mark.\<close>

definition hex_low :: "nat \<Rightarrow> char" where
  "hex_low n = (if n < 10 then char_of (48 + n) else char_of (87 + n))"

definition repr_char :: "char \<Rightarrow> char \<Rightarrow> string" where
  "repr_char quote ch = (let n = of_char ch :: nat in
     if ch = quote \<or> n = 92 then [CHR 0x5C, ch]
     else if n = 9 then [CHR 0x5C, CHR ''t''] else if n = 10 then [CHR 0x5C, CHR ''n'']
     else if n = 13 then [CHR 0x5C, CHR ''r'']
     else if n < 32 \<or> 127 \<le> n \<and> n \<le> 160 \<or> n = 173 then [CHR 0x5C, CHR ''x'', hex_low (n div 16), hex_low (n mod 16)]
     else [ch])"

definition repr_str :: "string \<Rightarrow> string" where
  "repr_str s = (let quote = (if CHR 0x27 \<in> set s \<and> CHR 0x22 \<notin> set s then CHR 0x22 else CHR 0x27) in
     [quote] @ concat (map (repr_char quote) s) @ [quote])"

fun sep_by :: "string list \<Rightarrow> string" where
  "sep_by [] = []"
| "sep_by [x] = x"
| "sep_by (x # y # xs) = x @ '', '' @ sep_by (y # xs)"

fun py_repr :: "pyval \<Rightarrow> string" where
  "py_repr PyNone = ''None''"
| "py_repr (PyBool b) = (if b then ''True'' else ''False'')"
| "py_repr (PyInt n) = int_str n"
| "py_repr (PyStr s) = repr_str s"
| "py_repr (PyUuid u) = nat_str u"
| "py_repr (PyTime t) = int_str t"
| "py_repr (PyList vs) = ''['' @ sep_by (map py_repr vs) @ '']''"
| "py_repr (PyDict kvs) = ''{'' @ sep_by (map (\<lambda>(k, v). repr_str k @ '': '' @ py_repr v) kvs) @ ''}''"

fun part_of :: "string \<Rightarrow> string \<Rightarrow> bool" where
  "part_of part [] \<longleftrightarrow> part = []"
| "part_of part (ch # s) \<longleftrightarrow> starts_with (ch # s) part \<or> part_of part s"

definition banned_words :: "string list" where
  "banned_words = [''buyer_multiplier'', ''buyer_id'', ''raw_body'', ''spread'', ''platform_profit'']"

definition leaks :: "pyval \<Rightarrow> bool" where
  "leaks v \<longleftrightarrow> list_ex (\<lambda>w. part_of w (py_lower (py_repr v))) banned_words"

definition assert_private :: "pyval \<Rightarrow> unit bench_op" where
  "assert_private v = require (\<not> leaks v) (WorkbenchError Wb_privacy 500)"

definition card_view :: "workbench \<Rightarrow> connection_card \<Rightarrow> pyval" where
  "card_view s c = (let hist = get_list (wk_quotes s) (cc_connection c); cap = dict_get (wk_capacity s) (cc_connection c);
       e = earnings_of s (cc_connection c); b = wk_bounds s; admits = card_admits (cc_lifecycle c) cap in
     PyDict [(''connection_id'', PyStr (cc_connection c)), (''provider'', PyStr (cc_provider c)),
       (''supply_mode'', PyStr (cc_mode c)), (''lifecycle_state'', PyStr (cc_lifecycle c)),
       (''health_state'', PyStr (cc_health c)), (''health_reason'', py_opt PyStr (cc_reason c)),
       (''declared_capacity'', py_opt PyInt cap), (''admits_new'', PyBool admits),
       (''quote'', if hist = [] then PyNone else PyDict [(''seq'', PyInt (qr_seq (last hist))),
          (''multiplier_bps'', PyInt (qr_bps (last hist))), (''rate_version'', PyStr (qr_version (last hist)))]),
       (''quote_history_len'', PyInt (int (length hist))),
       (''bounds'', PyDict [(''seller_quote_min_bps'', PyInt (pb_min b)), (''seller_quote_max_bps'', PyInt (pb_max b)),
          (''rate_version'', PyStr (pb_version b))]),
       (''earnings'', PyDict [(''settled_minor'', PyInt (bg_settled e)), (''unresolved_count'', PyInt (bg_unresolved e)),
          (''unresolved_reasons'', PyList (map PyStr (bg_reasons e))), (''ledger_ready'', PyBool (bg_ready e))]),
       (''route_summary'', PyDict [(''admits_new'', PyBool admits),
          (''reason'', if admits then PyNone else PyStr ''paused_or_zero_capacity_or_lifecycle'')])])"

definition bench_card :: "connection_card \<Rightarrow> string \<Rightarrow> pyval bench_op" where
  "bench_card c seller =
     bindE (require (cc_seller c = seller) (WorkbenchError Wb_forbidden 403)) (\<lambda>_.
     bindE (gets (\<lambda>s. card_view s c)) (\<lambda>v. bindE (assert_private v) (\<lambda>_. ret v)))"

definition bench_history :: "string \<Rightarrow> string \<Rightarrow> string \<Rightarrow> pyval list bench_op" where
  "bench_history cid seller owner =
     bindE (require (owner = seller) (WorkbenchError Wb_forbidden 403)) (\<lambda>_.
     gets (\<lambda>s. map (\<lambda>r. PyDict [(''seq'', PyInt (qr_seq r)), (''multiplier_bps'', PyInt (qr_bps r)),
       (''rate_version'', PyStr (qr_version r)), (''created_at'', PyTime (qr_created_at r))]) (get_list (wk_quotes s) cid)))"

definition bench_audits :: "string \<Rightarrow> bench_event list bench_op" where
  "bench_audits cid = gets (\<lambda>s. filter (\<lambda>e. be_connection e = cid) (wk_audit s))"

subsection \<open>Runs\<close>

datatype bench_call =
    Quote string string int string string
  | Capacity string string int string string
  | Unresolved string string
  | Settled string int

definition bench_exec :: "instant \<Rightarrow> bench_call \<Rightarrow> workbench \<Rightarrow> bool \<times> workbench" where
  "bench_exec now call s = (case call of
       Quote seller cid bps actor owner \<Rightarrow> (case submit_quote now seller cid bps actor owner s of (r, t) \<Rightarrow> (\<not> isl r, t))
     | Capacity seller cid n actor owner \<Rightarrow> (case set_capacity now seller cid n actor owner s of (r, t) \<Rightarrow> (\<not> isl r, t))
     | Unresolved cid why \<Rightarrow> (case record_unresolved cid why s of (r, t) \<Rightarrow> (\<not> isl r, t))
     | Settled cid n \<Rightarrow> (case record_settled cid n s of (r, t) \<Rightarrow> (\<not> isl r, t)))"

end
