(* ===== verification/Workbench_Facts.thy ===== *)
theory Workbench_Facts
  imports Workbench
begin

section \<open>What the workbench promises\<close>

text \<open>
  Runs of the workbench: quotes stay within the bounds of the platform and the rate limit, their
  numbers have no gap, and every one is audited.
\<close>

fun bench_run :: "(instant \<times> bench_call) list \<Rightarrow> workbench \<Rightarrow> workbench" where
  "bench_run [] s = s"
| "bench_run ((now, call) # calls) s = bench_run calls (snd (bench_exec now call s))"

text \<open>The times at which a quote of the seller was accepted.\<close>

definition quote_by :: "string \<Rightarrow> bench_call \<Rightarrow> bool" where
  "quote_by seller call = (case call of Quote x cid bps actor owner \<Rightarrow> x = seller | _ \<Rightarrow> False)"

fun accepted_at :: "string \<Rightarrow> (instant \<times> bench_call) list \<Rightarrow> workbench \<Rightarrow> instant list" where
  "accepted_at seller [] s = []"
| "accepted_at seller ((now, call) # calls) s =
     (if quote_by seller call \<and> fst (bench_exec now call s) then [now] else []) @
     accepted_at seller calls (snd (bench_exec now call s))"

subsection \<open>The rate limit\<close>

definition sparse :: "int \<Rightarrow> int \<Rightarrow> instant list \<Rightarrow> bool" where
  "sparse limit w ts \<longleftrightarrow> (\<forall>x. int (length (filter (\<lambda>t. x - w < t \<and> t \<le> x) ts)) \<le> limit)"

lemma sparse_snoc:
  assumes "sparse limit w ts" and "\<forall>t \<in> set ts. t \<le> now" and "int (length (filter (\<lambda>t. now - t < w) ts)) < limit"
  shows "sparse limit w (ts @ [now])"
  unfolding sparse_def
proof
  fix x
  show "int (length (filter (\<lambda>t. x - w < t \<and> t \<le> x) (ts @ [now]))) \<le> limit"
  proof (cases "now \<le> x")
    case True
    have "filter (\<lambda>t. x - w < t \<and> t \<le> x) ts = filter (\<lambda>t. x - w < t \<and> t \<le> x) (filter (\<lambda>t. now - t < w) ts)"
      using True by (auto intro: filter_cong)
    then have "length (filter (\<lambda>t. x - w < t \<and> t \<le> x) ts) \<le> length (filter (\<lambda>t. now - t < w) ts)"
      by (metis length_filter_le)
    with assms(3) show ?thesis by simp
  next
    case False
    then show ?thesis using assms(1) by (simp add: sparse_def)
  qed
qed

definition tracks :: "int \<Rightarrow> instant \<Rightarrow> instant list \<Rightarrow> instant list \<Rightarrow> bool" where
  "tracks w now window past \<longleftrightarrow> (\<forall>t \<in> set past. t \<le> now) \<and>
     (\<forall>x. now \<le> x \<longrightarrow> filter (\<lambda>t. x - t < w) window = filter (\<lambda>t. x - t < w) past)"

lemma tracks_later: "tracks w a window past \<Longrightarrow> a \<le> b \<Longrightarrow> tracks w b window past"
  by (fastforce simp: tracks_def)

lemma tracks_pruned: "tracks w now window past \<Longrightarrow> tracks w now (filter (\<lambda>t. now - t < w) window) past"
  unfolding tracks_def filter_filter
proof (intro conjI allI impI)
  fix x
  assume tr: "(\<forall>t \<in> set past. t \<le> now) \<and> (\<forall>x\<ge>now. filter (\<lambda>t. x - t < w) window = filter (\<lambda>t. x - t < w) past)"
    and x: "now \<le> x"
  have "filter (\<lambda>t. x - t < w \<and> now - t < w) window = filter (\<lambda>t. x - t < w) window"
    using x by (intro filter_cong) auto
  with tr x show "filter (\<lambda>t. now - t < w \<and> x - t < w) window = filter (\<lambda>t. x - t < w) past" by (simp add: conj_commute)
qed auto

lemma tracks_snoc: "tracks w now window past \<Longrightarrow> tracks w now (window @ [now]) (past @ [now])"
  by (auto simp: tracks_def)

lemma get_list_set [simp]: "get_list (dict_set k v d) j = (if j = k then v else get_list d j)"
  by (simp add: get_list_def)

definition same_setup :: "workbench \<Rightarrow> workbench \<Rightarrow> bool" where
  "same_setup s t \<longleftrightarrow> wk_bounds t = wk_bounds s \<and> wk_limit t = wk_limit s \<and> wk_window t = wk_window s"

text \<open>What one call does to the times of a seller.\<close>

lemma exec_times:
  assumes "bench_exec now call s = (ok, t)"
  shows "same_setup s t \<and> (if quote_by seller call \<and> ok
    then get_list (wk_times t) seller = filter (\<lambda>t. now - t < wk_window s) (get_list (wk_times s) seller) @ [now] \<and>
      int (length (filter (\<lambda>t. now - t < wk_window s) (get_list (wk_times s) seller))) < wk_limit s
    else get_list (wk_times t) seller \<in> {get_list (wk_times s) seller, filter (\<lambda>t. now - t < wk_window s) (get_list (wk_times s) seller)})"
  using assms
  by (cases call) (auto simp: bench_exec_def submit_quote_def bench_rate_limit_def set_capacity_def record_unresolved_def
      record_settled_def run same_setup_def quote_by_def Let_def split: if_splits)

lemma rate_kept:
  assumes "tracks (wk_window s) now (get_list (wk_times s) seller) past" and "sparse (wk_limit s) (wk_window s) past"
    and "sorted (now # map fst calls)"
  shows "sparse (wk_limit s) (wk_window s) (past @ accepted_at seller calls s)"
  using assms
proof (induction calls arbitrary: s now past)
  case (Cons tc calls)
  obtain later call where tc: "tc = (later, call)" by (cases tc)
  obtain ok t where res: "bench_exec later call s = (ok, t)" by fastforce
  note did = exec_times[OF res, of seller]
  then have kept: "wk_limit t = wk_limit s" "wk_window t = wk_window s" by (simp_all add: same_setup_def)
  from Cons.prems(1,3) have tr: "tracks (wk_window s) later (get_list (wk_times s) seller) past"
    by (auto simp: tc intro: tracks_later)
  have srt: "sorted (later # map fst calls)" using Cons.prems(3) by (auto simp: tc)
  show ?case
  proof (cases "quote_by seller call \<and> ok")
    case True
    with did have new: "get_list (wk_times t) seller = filter (\<lambda>t. later - t < wk_window s) (get_list (wk_times s) seller) @ [later]"
      and few: "int (length (filter (\<lambda>t. later - t < wk_window s) (get_list (wk_times s) seller))) < wk_limit s" by auto
    have "tracks (wk_window t) later (get_list (wk_times t) seller) (past @ [later])"
      unfolding new kept using tracks_snoc[OF tracks_pruned[OF tr]] .
    moreover have "sparse (wk_limit t) (wk_window t) (past @ [later])"
      unfolding kept using Cons.prems(2) tr few by (intro sparse_snoc) (auto simp: tracks_def)
    ultimately have "sparse (wk_limit t) (wk_window t) ((past @ [later]) @ accepted_at seller calls t)"
      using srt by (rule Cons.IH)
    then show ?thesis using True by (simp add: tc res kept)
  next
    case False
    with did tr have "tracks (wk_window t) later (get_list (wk_times t) seller) past"
      by (auto simp: kept intro: tracks_pruned)
    from Cons.IH[OF this _ srt] Cons.prems(2) False show ?thesis by (auto simp: tc res kept)
  qed
qed simp

subsection \<open>The quotes\<close>

definition quotes_ok :: "workbench \<Rightarrow> bool" where
  "quotes_ok s \<longleftrightarrow> (\<forall>cid. let hist = get_list (wk_quotes s) cid in
     map qr_seq hist = map (\<lambda>n. int n + 1) [0..<length hist] \<and>
     (\<forall>r \<in> set hist. pb_min (wk_bounds s) \<le> qr_bps r \<and> qr_bps r \<le> pb_max (wk_bounds s) \<and> qr_bps r \<le> pb_buyer (wk_bounds s)) \<and>
     length (filter (\<lambda>e. be_action e = ''quote'' \<and> be_connection e = cid) (wk_audit s)) = length hist)"

definition quote_added :: "workbench \<Rightarrow> workbench \<Rightarrow> bool" where
  "quote_added s t \<longleftrightarrow> (\<exists>cid r e. let hist = get_list (wk_quotes s) cid in
     wk_quotes t = dict_set cid (hist @ [r]) (wk_quotes s) \<and> wk_audit t = wk_audit s @ [e] \<and>
     be_action e = ''quote'' \<and> be_connection e = cid \<and> qr_seq r = int (length hist) + 1 \<and>
     pb_min (wk_bounds s) \<le> qr_bps r \<and> qr_bps r \<le> pb_max (wk_bounds s) \<and> qr_bps r \<le> pb_buyer (wk_bounds s))"

lemma exec_quotes:
  assumes "bench_exec now call s = (ok, t)"
  shows "wk_quotes t = wk_quotes s \<and> filter (\<lambda>e. be_action e = ''quote'') (wk_audit t) = filter (\<lambda>e. be_action e = ''quote'') (wk_audit s) \<or>
    quote_added s t"
proof (cases call)
  case (Quote seller cid bps actor owner)
  let ?hist = "get_list (wk_quotes s) cid"
  let ?rev = "\<lparr>qr_seq = int (length ?hist) + 1, qr_bps = bps, qr_version = pb_version (wk_bounds s), qr_created_at = now, qr_actor = actor\<rparr>"
  from assms Quote have run_q: "snd (submit_quote now seller cid bps actor owner s) = t"
    by (auto simp: bench_exec_def split: prod.splits)
  have "wk_quotes t = wk_quotes s \<and> wk_audit t = wk_audit s \<or>
      wk_quotes t = dict_set cid (?hist @ [?rev]) (wk_quotes s) \<and> wk_audit t = wk_audit s @ [quote_event now actor cid ?hist ?rev] \<and>
      \<not> (bps < pb_min (wk_bounds s) \<or> bps > pb_max (wk_bounds s)) \<and> \<not> bps > pb_buyer (wk_bounds s)"
    unfolding run_q[symmetric]
    by (simp add: submit_quote_def bench_rate_limit_def run Let_def del: not_less)
  moreover have "quote_added s t" if "wk_quotes t = dict_set cid (?hist @ [?rev]) (wk_quotes s)"
      "wk_audit t = wk_audit s @ [quote_event now actor cid ?hist ?rev]"
      "\<not> (bps < pb_min (wk_bounds s) \<or> bps > pb_max (wk_bounds s))" "\<not> bps > pb_buyer (wk_bounds s)"
    using that unfolding quote_added_def Let_def
    by (intro exI[of _ cid] exI[of _ ?rev] exI[of _ "quote_event now actor cid ?hist ?rev"]) (simp add: quote_event_def)
  ultimately show ?thesis by metis
next
  case (Capacity seller cid n actor owner)
  with assms have "snd (set_capacity now seller cid n actor owner s) = t" by (auto simp: bench_exec_def split: prod.splits)
  then show ?thesis by (intro disjI1) (auto simp: set_capacity_def run)
next
  case (Unresolved cid why)
  with assms have "snd (record_unresolved cid why s) = t" by (auto simp: bench_exec_def split: prod.splits)
  then show ?thesis by (intro disjI1) (auto simp: record_unresolved_def run Let_def)
next
  case (Settled cid n)
  with assms have "snd (record_settled cid n s) = t" by (auto simp: bench_exec_def split: prod.splits)
  then show ?thesis by (intro disjI1) (auto simp: record_settled_def run Let_def)
qed

lemma filter_both: "filter (\<lambda>x. P x \<and> Q x) xs = filter Q (filter P xs)"
  by (induction xs) auto

lemma quotes_unchanged:
  assumes "quotes_ok s" and "wk_quotes t = wk_quotes s" and "wk_bounds t = wk_bounds s"
    and "filter (\<lambda>e. be_action e = ''quote'') (wk_audit t) = filter (\<lambda>e. be_action e = ''quote'') (wk_audit s)"
  shows "quotes_ok t"
  using assms(1) unfolding quotes_ok_def filter_both assms(2-4) .

lemma quote_appended:
  assumes "quotes_ok s" and "wk_bounds t = wk_bounds s" and "quote_added s t"
  shows "quotes_ok t"
proof -
  obtain cid r e where t: "wk_quotes t = dict_set cid (get_list (wk_quotes s) cid @ [r]) (wk_quotes s)" "wk_audit t = wk_audit s @ [e]"
    and e: "be_action e = ''quote''" "be_connection e = cid" "qr_seq r = int (length (get_list (wk_quotes s) cid)) + 1"
    "pb_min (wk_bounds s) \<le> qr_bps r" "qr_bps r \<le> pb_max (wk_bounds s)" "qr_bps r \<le> pb_buyer (wk_bounds s)"
    using assms(3) unfolding quote_added_def Let_def by blast
  have g: "get_list (wk_quotes t) k = (if k = cid then get_list (wk_quotes s) cid @ [r] else get_list (wk_quotes s) k)" for k
    by (simp add: t get_list_def)
  show ?thesis unfolding quotes_ok_def Let_def
  proof
    fix k
    show "map qr_seq (get_list (wk_quotes t) k) = map (\<lambda>n. int n + 1) [0..<length (get_list (wk_quotes t) k)] \<and>
       (\<forall>r \<in> set (get_list (wk_quotes t) k). pb_min (wk_bounds t) \<le> qr_bps r \<and> qr_bps r \<le> pb_max (wk_bounds t) \<and>
         qr_bps r \<le> pb_buyer (wk_bounds t)) \<and>
       length (filter (\<lambda>e. be_action e = ''quote'' \<and> be_connection e = k) (wk_audit t)) = length (get_list (wk_quotes t) k)"
      using assms(1)[unfolded quotes_ok_def Let_def, rule_format, of k] e
      by (cases "k = cid") (simp_all add: g t(2) assms(2))
  qed
qed

lemma quotes_kept:
  assumes "quotes_ok s" and "bench_exec now call s = (ok, t)"
  shows "quotes_ok t"
  using exec_quotes[OF assms(2)] exec_times[OF assms(2)]
    quotes_unchanged[OF assms(1)] quote_appended[OF assms(1)] by (auto simp: same_setup_def)

lemma run_kept: "quotes_ok s \<Longrightarrow> quotes_ok (bench_run calls s) \<and> same_setup s (bench_run calls s)"
proof (induction calls arbitrary: s)
  case (Cons tc calls)
  obtain later call where tc: "tc = (later, call)" by (cases tc)
  obtain ok t where res: "bench_exec later call s = (ok, t)" by fastforce
  from Cons.IH[OF quotes_kept[OF Cons.prems res]] exec_times[OF res] show ?case
    by (auto simp: tc res same_setup_def)
qed (simp add: same_setup_def)

text \<open>C39 (bounds). Whatever sellers ask for, in any order of calls on a clock that does not run backwards: no window of
  time holds more accepted quotes of a seller than the limit, every quote on record lies within the bounds of the
  platform and never above what the buyer pays, and the revisions of a connection are numbered without gaps, one
  audit event each.\<close>

theorem quotes_bounded:
  assumes "sorted (map fst calls)" and "0 \<le> limit"
  shows "(\<forall>x seller. int (length (filter (\<lambda>t. x - window < t \<and> t \<le> x)
        (accepted_at seller calls (new_workbench b limit window)))) \<le> limit) \<and>
    (\<forall>cid. let hist = get_list (wk_quotes (bench_run calls (new_workbench b limit window))) cid in
       map qr_seq hist = map (\<lambda>n. int n + 1) [0..<length hist] \<and>
       (\<forall>r \<in> set hist. pb_min b \<le> qr_bps r \<and> qr_bps r \<le> pb_max b \<and> qr_bps r \<le> pb_buyer b) \<and>
       length (filter (\<lambda>e. be_action e = ''quote'' \<and> be_connection e = cid)
         (wk_audit (bench_run calls (new_workbench b limit window)))) = length hist)"
proof
  let ?s = "new_workbench b limit window"
  have new: "wk_limit ?s = limit" "wk_window ?s = window" "get_list (wk_times ?s) seller = []" "wk_bounds ?s = b" for seller
    by (simp_all add: new_workbench_def get_list_def)
  have sp: "sparse limit window []" using assms(2) by (simp add: sparse_def)
  have "sparse limit window (accepted_at seller calls ?s)" for seller
  proof (cases calls)
    case (Cons c cs)
    with rate_kept[of ?s "fst c" seller "[]" calls] assms(1) sp show ?thesis by (simp add: new tracks_def)
  qed (simp add: sp)
  then show "\<forall>x seller. int (length (filter (\<lambda>t. x - window < t \<and> t \<le> x) (accepted_at seller calls ?s))) \<le> limit"
    by (simp add: sparse_def)
  have "quotes_ok ?s" by (simp add: quotes_ok_def new_workbench_def get_list_def)
  from run_kept[OF this] have "quotes_ok (bench_run calls ?s)" "wk_bounds (bench_run calls ?s) = b"
    by (simp_all add: same_setup_def new)
  then show "\<forall>cid. let hist = get_list (wk_quotes (bench_run calls ?s)) cid in
       map qr_seq hist = map (\<lambda>n. int n + 1) [0..<length hist] \<and>
       (\<forall>r \<in> set hist. pb_min b \<le> qr_bps r \<and> qr_bps r \<le> pb_max b \<and> qr_bps r \<le> pb_buyer b) \<and>
       length (filter (\<lambda>e. be_action e = ''quote'' \<and> be_connection e = cid) (wk_audit (bench_run calls ?s))) = length hist"
    by (simp add: quotes_ok_def)
qed

text \<open>Five quotes of a seller who may make two in ten microseconds; the third and fourth come too early.\<close>

definition bench_demo :: "(instant \<times> bench_call) list" where
  "bench_demo = map (\<lambda>(t, n). (t, Quote ''s'' ''c'' n ''s'' ''s'')) [(0, 9000), (5, 9100), (6, 9200), (9, 9300), (12, 9400)]"

theorem quotes_bounded_witness:
  "accepted_at ''s'' bench_demo (new_workbench default_bounds 2 10) = [0, 5, 12] \<and>
   int (length (filter (\<lambda>t. 12 - 10 < t \<and> t \<le> 12) (accepted_at ''s'' bench_demo (new_workbench default_bounds 2 10)))) \<le> 2 \<and>
   map qr_bps (get_list (wk_quotes (bench_run bench_demo (new_workbench default_bounds 2 10))) ''c'') = [9000, 9100, 9400]"
proof -
  have "sorted (map fst bench_demo)" by (simp add: bench_demo_def)
  from conjunct1[OF quotes_bounded[OF this, of 2 10 default_bounds]]
  have "\<forall>x seller. int (length (filter (\<lambda>t. x - 10 < t \<and> t \<le> x) (accepted_at seller bench_demo (new_workbench default_bounds 2 10)))) \<le> 2"
    by simp
  then
  have "int (length (filter (\<lambda>t. 12 - 10 < t \<and> t \<le> 12) (accepted_at ''s'' bench_demo (new_workbench default_bounds 2 10)))) \<le> 2"
    by blast
  moreover have "accepted_at ''s'' bench_demo (new_workbench default_bounds 2 10) = [0, 5, 12]" by code_simp
  moreover have "map qr_bps (get_list (wk_quotes (bench_run bench_demo (new_workbench default_bounds 2 10))) ''c'') = [9000, 9100, 9400]"
    by code_simp
  ultimately show ?thesis by blast
qed

end
