(* ===== verification/Usage.thy ===== *)
theory Usage
  imports Prelude
begin

section \<open>Usage observations\<close>

text \<open>
  \<^verbatim>\<open>usage/service.py\<close>: the record of what a request used, stored once per request; the handler of
  \<^verbatim>\<open>api/v1/internal.py\<close> that receives the observations of the gateway, and the retention of
  \<^verbatim>\<open>maintenance/usage_cleanup.py\<close>. Parsing an identifier is an argument. The list of the recorder
  and the store hold the same records.
\<close>

record usage_record =
  ug_request :: string
  ug_buyer :: "uuid option"
  ug_platform :: string
  ug_model :: string
  ug_prompt :: "int option"
  ug_completion :: "int option"
  ug_total :: "int option"
  ug_status :: string
  ug_source :: string
  ug_proxy_key :: "string option"
  ug_api_key :: "string option"
  ug_seller :: "uuid option"
  ug_partial :: bool
  ug_latency :: int
  ug_code :: int
  ug_end :: string
  ug_created_at :: "instant option"

record usage_store =
  us_by_id :: "(string, usage_record) dict"
  us_conflicts :: "(string \<times> string) list"
  us_rows :: "usage_record list"

datatype usage_error = Usage_conflict | Usage_value_error

type_synonym 'a usage_op = "(usage_store, usage_error, 'a) op"

definition empty_usage :: usage_store where
  "empty_usage = \<lparr>us_by_id = [], us_conflicts = [], us_rows = []\<rparr>"

definition usage_get :: "string \<Rightarrow> usage_record option usage_op" where
  "usage_get rq = gets (\<lambda>s. dict_get (us_by_id s) rq)"

definition dated :: "instant \<Rightarrow> usage_record \<Rightarrow> usage_record" where
  "dated now r = (if ug_created_at r = None then r\<lparr>ug_created_at := Some now\<rparr> else r)"

definition usage_insert :: "instant \<Rightarrow> usage_record \<Rightarrow> unit usage_op" where
  "usage_insert now r = modify (\<lambda>s. s\<lparr>us_by_id := dict_set (ug_request r) (dated now r) (us_by_id s)\<rparr>)"

definition add_conflict :: "string \<Rightarrow> string \<Rightarrow> unit usage_op" where
  "add_conflict rq why = modify (\<lambda>s. s\<lparr>us_conflicts := us_conflicts s @ [(rq, why)]\<rparr>)"

definition usage_conflict :: "usage_record \<Rightarrow> usage_record \<Rightarrow> bool" where
  "usage_conflict a b \<longleftrightarrow> ug_platform a \<noteq> ug_platform b \<or> ug_model a \<noteq> ug_model b \<or> ug_total a \<noteq> ug_total b \<or>
     ug_source a \<noteq> ug_source b"

text \<open>A missing observation counts nothing, and is not official.\<close>

definition normal_missing :: "usage_record \<Rightarrow> usage_record" where
  "normal_missing r = (if ug_status r = ''missing''
     then r\<lparr>ug_prompt := None, ug_completion := None, ug_total := None,
            ug_source := (if ug_source r \<noteq> ''official'' then ug_source r else ''not_available''), ug_created_at := None\<rparr>
     else r)"

definition record_usage :: "instant \<Rightarrow> usage_record \<Rightarrow> usage_record usage_op" where
  "record_usage now r0 =
     bindE (require (\<not> (ug_status r0 = ''missing'' \<and> ug_prompt r0 = Some 0 \<and> ug_completion r0 = Some 0 \<and> ug_total r0 = Some 0))
       Usage_value_error) (\<lambda>_.
     let r = normal_missing r0 in
     bindE (usage_get (ug_request r)) (\<lambda>existing. case existing of
       Some old \<Rightarrow>
         if usage_conflict old r
         then bindE (add_conflict (ug_request r) ''payload_mismatch'') (\<lambda>_. throw Usage_conflict)
         else ret old
     | None \<Rightarrow>
         bindE (usage_insert now (dated now r)) (\<lambda>_.
         bindE (modify (\<lambda>s. s\<lparr>us_rows := us_rows s @ [dated now r]\<rparr>)) (\<lambda>_. ret (dated now r)))))"

definition days :: "int \<Rightarrow> int" where
  "days n = hours (24 * n)"

definition purge_before :: "instant \<Rightarrow> int usage_op" where
  "purge_before cutoff =
     bindE (gets (\<lambda>s. filter (\<lambda>(k, v). case ug_created_at v of None \<Rightarrow> False | Some t \<Rightarrow> t < cutoff) (us_by_id s))) (\<lambda>dead.
     bindE (modify (\<lambda>s. s\<lparr>us_by_id := foldl (\<lambda>d (k, v). dict_del k d) (us_by_id s) dead\<rparr>)) (\<lambda>_.
     ret (int (length dead))))"

definition purge_expired :: "instant \<Rightarrow> int \<Rightarrow> int usage_op" where
  "purge_expired now retain =
     bindE (purge_before (now - days retain)) (\<lambda>n.
     bindE (modify (\<lambda>s. s\<lparr>us_rows := filter (\<lambda>r. case ug_created_at r of None \<Rightarrow> True | Some t \<Rightarrow> t \<ge> now - days retain) (us_rows s)\<rparr>)) (\<lambda>_.
     ret n))"

text \<open>\<^verbatim>\<open>run_cleanup\<close> on a given store.\<close>

definition usage_cleanup :: "instant \<Rightarrow> int \<Rightarrow> int usage_op" where
  "usage_cleanup now retain = bindE (require (\<not> retain < 1) Usage_value_error) (\<lambda>_. purge_expired now retain)"

subsection \<open>The handler\<close>

record usage_body =
  ub_record :: usage_record
  ub_buyer :: "string option"
  ub_seller :: "string option"

definition observed_status :: "string \<Rightarrow> bool \<Rightarrow> int \<Rightarrow> string" where
  "observed_status source partial code =
     (let status = (if source = ''official'' then ''complete'' else ''missing'');
          status = (if partial \<and> code < 400 then ''incomplete'' else status) in
      if code \<ge> 400 \<and> \<not> partial then ''failed'' else status)"

text \<open>The identifiers of buyer and seller; if one of them does not parse, both are dropped.\<close>

definition parties :: "(string \<Rightarrow> uuid option) \<Rightarrow> usage_body \<Rightarrow> uuid option \<times> uuid option" where
  "parties parse b =
     (let one = (\<lambda>v. if truthy v then map_option Some (parse (the v)) else Some None) in
      case (one (ub_buyer b), one (ub_seller b)) of
        (Some x, Some y) \<Rightarrow> (x, y)
      | _ \<Rightarrow> (None, None))"

text \<open>The answer: the request and its status with code 200, or code 409. A \<^verbatim>\<open>ValueError\<close> is not caught.\<close>

definition ingest_usage ::
  "(string \<Rightarrow> uuid option) \<Rightarrow> instant \<Rightarrow> string \<Rightarrow> string option \<Rightarrow> usage_body \<Rightarrow> (int \<times> string) usage_op" where
  "ingest_usage parse now internal token b =
     (if internal = [] \<or> \<not> truthy token \<or> token \<noteq> Some internal then ret (401, [])
      else (case parties parse b of (buyer, seller) \<Rightarrow>
        (let r = (ub_record b)\<lparr>ug_buyer := buyer, ug_seller := seller,
                   ug_status := observed_status (ug_source (ub_record b)) (ug_partial (ub_record b)) (ug_code (ub_record b)),
                   ug_created_at := None\<rparr> in
        catch_op (bindE (record_usage now r) (\<lambda>x. ret (200, ug_status x)))
          (\<lambda>e. if e = Usage_conflict then ret (409, []) else throw e))))"

subsection \<open>What the records promise\<close>

definition usage_of :: "usage_store \<Rightarrow> string \<Rightarrow> usage_record option" where
  "usage_of s rq = dict_get (us_by_id s) rq"

definition usage_row_ok :: "string \<Rightarrow> usage_record \<Rightarrow> bool" where
  "usage_row_ok rq r \<longleftrightarrow> ug_request r = rq \<and> ug_created_at r \<noteq> None \<and> (ug_status r = ''missing'' \<longrightarrow>
     ug_prompt r = None \<and> ug_completion r = None \<and> ug_total r = None \<and> ug_source r \<noteq> ''official'')"

definition usage_ok :: "usage_store \<Rightarrow> bool" where
  "usage_ok s \<longleftrightarrow> dict_ok (us_by_id s) \<and> (\<forall>rq r. usage_of s rq = Some r \<longrightarrow> usage_row_ok rq r)"

lemma record_usage_run:
  assumes "record_usage now r0 s = (r, t)"
  shows "let x = normal_missing r0 in
    (r = Inl Usage_value_error \<and> t = s \<and> ug_status r0 = ''missing'' \<and> ug_total r0 = Some 0) \<or>
    (\<exists>old. usage_of s (ug_request r0) = Some old \<and> usage_conflict old x \<and> r = Inl Usage_conflict \<and>
       t = s\<lparr>us_conflicts := us_conflicts s @ [(ug_request r0, ''payload_mismatch'')]\<rparr>) \<or>
    (\<exists>old. usage_of s (ug_request r0) = Some old \<and> \<not> usage_conflict old x \<and> r = Inr old \<and> t = s) \<or>
    (usage_of s (ug_request r0) = None \<and> r = Inr (dated now x) \<and>
       t = s\<lparr>us_by_id := dict_set (ug_request r0) (dated now x) (us_by_id s), us_rows := us_rows s @ [dated now x]\<rparr>)"
proof -
  have [simp]: "ug_request (normal_missing r0) = ug_request r0" by (simp add: normal_missing_def)
  have [simp]: "ug_request (dated now x) = ug_request x" "dated now (dated now x) = dated now x" for x
    by (simp_all add: dated_def)
  show ?thesis using assms
    by (auto simp: record_usage_def usage_get_def add_conflict_def usage_insert_def run usage_of_def Let_def split: if_splits option.splits)
qed

lemma record_usage_contract:
  assumes "record_usage now r0 s = (r, t)"
  shows "let x = normal_missing r0 in
      if ug_status r0 = ''missing'' \<and> ug_prompt r0 = Some 0 \<and> ug_completion r0 = Some 0 \<and> ug_total r0 = Some 0
      then r = Inl Usage_value_error \<and> t = s
      else (case usage_of s (ug_request r0) of
          None \<Rightarrow> r = Inr (dated now x) \<and> usage_of t = (usage_of s)(ug_request r0 \<mapsto> dated now x) \<and> us_conflicts t = us_conflicts s
        | Some old \<Rightarrow>
            if ug_platform old = ug_platform x \<and> ug_model old = ug_model x \<and> ug_total old = ug_total x \<and> ug_source old = ug_source x
            then r = Inr old \<and> t = s
            else r = Inl Usage_conflict \<and> usage_of t = usage_of s \<and>
              us_conflicts t = us_conflicts s @ [(ug_request r0, ''payload_mismatch'')])"
proof -
  have [simp]: "ug_request (normal_missing r0) = ug_request r0" by (simp add: normal_missing_def)
  have [simp]: "ug_request (dated now x) = ug_request x" "dated now (dated now x) = dated now x" for x
    by (simp_all add: dated_def)
  show ?thesis using assms
    by (auto simp: record_usage_def usage_get_def add_conflict_def usage_insert_def run usage_of_def Let_def usage_conflict_def
        fun_eq_iff split: if_splits option.splits)
qed

lemma normal_row_ok: "usage_row_ok (ug_request r) (dated now (normal_missing r))"
  by (auto simp: usage_row_ok_def dated_def normal_missing_def)

lemma dict_get_deleted:
  "dict_get (foldl (\<lambda>d (k, v). dict_del k d) d ks) j = (if j \<in> fst ` set ks then None else dict_get d j)"
  by (induction ks arbitrary: d) auto

lemma dict_ok_deleted: "dict_ok d \<Longrightarrow> dict_ok (foldl (\<lambda>d (k, v). dict_del k d) d ks)"
  by (induction ks arbitrary: d) auto

lemma purge_run:
  assumes "purge_expired now retain s = (r, t)" and "usage_ok s"
  shows "(\<exists>n. r = Inr n) \<and> usage_ok t \<and> us_conflicts t = us_conflicts s \<and> (\<forall>rq. usage_of t rq = (case usage_of s rq of
     None \<Rightarrow> None | Some x \<Rightarrow> if the (ug_created_at x) < now - days retain then None else Some x))"
proof -
  let ?dead = "filter (\<lambda>(k, v). case ug_created_at v of None \<Rightarrow> False | Some t \<Rightarrow> t < now - days retain) (us_by_id s)"
  have t: "us_by_id t = foldl (\<lambda>d (k, v). dict_del k d) (us_by_id s) ?dead" "us_conflicts t = us_conflicts s"
    and r: "\<exists>n. r = Inr n"
    using assms(1) by (auto simp: purge_expired_def purge_before_def run)
  have dead: "rq \<in> fst ` set ?dead \<longleftrightarrow> (\<exists>x at. usage_of s rq = Some x \<and> ug_created_at x = Some at \<and> at < now - days retain)" for rq
    using assms(2) by (force simp: usage_ok_def usage_of_def dict_items_get[symmetric] split: option.splits)
  have gone: "usage_of t rq = (case usage_of s rq of
     None \<Rightarrow> None | Some x \<Rightarrow> if the (ug_created_at x) < now - days retain then None else Some x)" for rq
    unfolding usage_of_def t(1) dict_get_deleted dead[unfolded usage_of_def]
    using assms(2) by (auto simp: usage_ok_def usage_of_def usage_row_ok_def split: option.splits)
  have "usage_ok t" unfolding usage_ok_def gone
    using assms(2) by (auto simp: usage_ok_def t(1) dict_ok_deleted split: option.splits if_splits)
  with t(2) r gone show ?thesis by blast
qed

inductive usage_step :: "usage_store \<Rightarrow> usage_store \<Rightarrow> bool" where
  recorded: "record_usage now r0 s = (r, t) \<Longrightarrow> usage_step s t"
| purged: "purge_expired now retain s = (n, t) \<Longrightarrow> usage_step s t"

lemma step_usage_ok: "usage_step s t \<Longrightarrow> usage_ok s \<Longrightarrow> usage_ok t"
proof (induction rule: usage_step.induct)
  case (recorded now r0 s r t)
  then show ?case using record_usage_run[OF recorded(1)] normal_row_ok[of r0 now]
    by (auto simp: Let_def usage_ok_def usage_of_def split: if_splits)
next
  case (purged now retain s n t)
  then show ?case using purge_run by blast
qed

lemma empty_usage_ok: "usage_ok empty_usage"
  by (simp add: usage_ok_def usage_of_def empty_usage_def)

lemma reached_usage_ok: "usage_step\<^sup>*\<^sup>* empty_usage s \<Longrightarrow> usage_ok s"
  by (induction rule: rtranclp_induct) (auto intro: step_usage_ok empty_usage_ok)

text \<open>C40 (functional). The first observation of a request is the one that stays. A later one for the same platform and model, with
  the same source and total, gets it back and changes nothing; one that differs in any of these is refused and noted as a
  conflict, and the records stay as they are. A missing observation with three zero counts is rejected, and otherwise stored
  without any count and never as official. Retention removes exactly the records that are too old.\<close>

theorem first_observation_stays:
  assumes "usage_step\<^sup>*\<^sup>* empty_usage s" and "record_usage now r0 s = (r, t)" and "purge_expired later retain t = (n, u)"
  shows "(let x = normal_missing r0 in
      if ug_status r0 = ''missing'' \<and> ug_prompt r0 = Some 0 \<and> ug_completion r0 = Some 0 \<and> ug_total r0 = Some 0
      then r = Inl Usage_value_error \<and> t = s
      else (case usage_of s (ug_request r0) of
          None \<Rightarrow> r = Inr (dated now x) \<and> usage_of t = (usage_of s)(ug_request r0 \<mapsto> dated now x) \<and> us_conflicts t = us_conflicts s
        | Some old \<Rightarrow>
            if ug_platform old = ug_platform x \<and> ug_model old = ug_model x \<and> ug_total old = ug_total x \<and> ug_source old = ug_source x
            then r = Inr old \<and> t = s
            else r = Inl Usage_conflict \<and> usage_of t = usage_of s \<and>
              us_conflicts t = us_conflicts s @ [(ug_request r0, ''payload_mismatch'')])) \<and>
    (\<forall>rq x. usage_of t rq = Some x \<longrightarrow> ug_status x = ''missing'' \<longrightarrow>
       ug_prompt x = None \<and> ug_completion x = None \<and> ug_total x = None \<and> ug_source x \<noteq> ''official'') \<and>
    (\<forall>rq. usage_of u rq = (case usage_of t rq of
       None \<Rightarrow> None | Some x \<Rightarrow> if the (ug_created_at x) < later - days retain then None else Some x))"
proof -
  have s: "usage_ok s" using assms(1) by (rule reached_usage_ok)
  have t: "usage_ok t" using step_usage_ok[OF usage_step.recorded[OF assms(2)] s] .
  have "\<forall>rq x. usage_of t rq = Some x \<longrightarrow> ug_status x = ''missing'' \<longrightarrow>
       ug_prompt x = None \<and> ug_completion x = None \<and> ug_total x = None \<and> ug_source x \<noteq> ''official''"
    using t by (auto simp: usage_ok_def usage_row_ok_def)
  then show ?thesis using record_usage_contract[OF assms(2)] purge_run[OF assms(3) t] by blast
qed

subsection \<open>Examples\<close>

definition sample_usage :: usage_record where
  "sample_usage = \<lparr>ug_request = ''r1'', ug_buyer = None, ug_platform = ''volcano'', ug_model = ''m'', ug_prompt = Some 3,
     ug_completion = Some 4, ug_total = Some 7, ug_status = ''complete'', ug_source = ''official'', ug_proxy_key = None,
     ug_api_key = None, ug_seller = None, ug_partial = False, ug_latency = 5, ug_code = 200, ug_end = ''stop'', ug_created_at = None\<rparr>"

definition usage_demo :: usage_store where
  "usage_demo = snd (record_usage 10 sample_usage empty_usage)"

theorem first_observation_stays_witness:
  "fst (record_usage 20 (sample_usage\<lparr>ug_total := Some 8\<rparr>) usage_demo) = Inl Usage_conflict \<and>
   us_conflicts (snd (record_usage 20 (sample_usage\<lparr>ug_total := Some 8\<rparr>) usage_demo)) = [(''r1'', ''payload_mismatch'')] \<and>
   record_usage 20 (sample_usage\<lparr>ug_prompt := Some 5\<rparr>) usage_demo = (Inr (sample_usage\<lparr>ug_created_at := Some 10\<rparr>), usage_demo)"
proof -
  have step: "usage_step\<^sup>*\<^sup>* empty_usage usage_demo"
    unfolding usage_demo_def by (rule r_into_rtranclp, rule usage_step.recorded[OF prod.collapse[symmetric]])
  have known: "usage_of usage_demo ''r1'' = Some (sample_usage\<lparr>ug_created_at := Some 10\<rparr>)" "us_conflicts usage_demo = []"
    by code_simp+
  from known first_observation_stays[OF step surjective_pairing surjective_pairing, of "sample_usage\<lparr>ug_total := Some 8\<rparr>" 20 30 1]
    first_observation_stays[OF step surjective_pairing surjective_pairing, of "sample_usage\<lparr>ug_prompt := Some 5\<rparr>" 20 30 1]
  show ?thesis by (simp add: normal_missing_def sample_usage_def prod_eq_iff Let_def)
qed

text \<open>A finding: three zero counts of a missing observation raise a \<^verbatim>\<open>ValueError\<close>, which the handler does not catch.\<close>

lemma zero_counts_not_answered:
  "fst (ingest_usage (\<lambda>v. None) 10 ''tok'' (Some ''tok'') \<lparr>ub_record = sample_usage\<lparr>ug_prompt := Some 0, ug_completion := Some 0,
     ug_total := Some 0, ug_source := ''not_available''\<rparr>, ub_buyer = None, ub_seller = None\<rparr> empty_usage) = Inl Usage_value_error"
  by code_simp

end
