(* ===== verification/Edge.thy ===== *)
theory Edge
  imports Auth_Crypto Egress
begin

section \<open>The edge of the API service\<close>

text \<open>
  What every request passes before a service sees it: \<^verbatim>\<open>security/trusted_proxy.py\<close> (the address of the client),
  \<^verbatim>\<open>rate_limit.py\<close> (the limits of registration), \<^verbatim>\<open>security/origin.py\<close> and \<^verbatim>\<open>api/v1/mutation_guard.py\<close> (who may
  write with a cookie); and what the process takes as its secrets at start-up, \<^verbatim>\<open>security/shared_secrets.py\<close>.
  \<^verbatim>\<open>ipaddress\<close> is the argument \<open>iplib\<close>, \<^verbatim>\<open>urllib\<close> the argument \<open>netlib\<close>.
\<close>

subsection \<open>Text\<close>

fun split_on :: "char \<Rightarrow> string \<Rightarrow> string list" where
  "split_on d [] = [[]]"
| "split_on d (ch # s) = (if ch = d then [] # split_on d s
     else (case split_on d s of p # ps \<Rightarrow> (ch # p) # ps | [] \<Rightarrow> [[ch]]))"

definition parse_csv :: "string \<Rightarrow> string list" where
  "parse_csv v = (if v = [] \<or> py_strip v = [] then []
     else filter (\<lambda>p. p \<noteq> []) (map py_strip (split_on (CHR '','') v)))"

subsection \<open>The address of the client\<close>

text \<open>An address in normal form, a network, and whether an address lies in a network; None where Python raises.\<close>

record iplib =
  il_address :: "string \<Rightarrow> string option"
  il_network :: "string \<Rightarrow> string option"
  il_within :: "string \<Rightarrow> string \<Rightarrow> bool"

definition parse_networks :: "iplib \<Rightarrow> string list \<Rightarrow> string list" where
  "parse_networks lib cidrs = List.map_filter (\<lambda>raw. let text = py_strip raw in
     if text = [] then None else il_network lib text) cidrs"

definition is_trusted :: "iplib \<Rightarrow> string list \<Rightarrow> string \<Rightarrow> bool" where
  "is_trusted lib networks address = (case il_address lib (py_strip address) of
       None \<Rightarrow> False
     | Some ip \<Rightarrow> list_ex (il_within lib ip) networks)"

text \<open>What stands before the last colon, where there is exactly one.\<close>

definition drop_port :: "string \<Rightarrow> string" where
  "drop_port text = (if length (filter (\<lambda>ch. ch = CHR '':'') text) = 1 \<and> CHR ''.'' \<in> set text
     then takeWhile (\<lambda>ch. ch \<noteq> CHR '':'') text else text)"

definition strip_brackets :: "string \<Rightarrow> string" where
  "strip_brackets text = (if text \<noteq> [] \<and> hd text = CHR ''['' \<and> last text = CHR '']'' then butlast (tl text) else text)"

definition normalize_ip :: "iplib \<Rightarrow> string \<Rightarrow> string option" where
  "normalize_ip lib value = (let text = py_strip value in
     if text = [] \<or> py_lower text \<in> {''unknown'', ''null'', ''-''} then None
     else il_address lib (drop_port (strip_brackets text)))"

text \<open>From the right: trusted hops are passed, the first other one is the client, a malformed one ends the search.\<close>

fun last_hop :: "iplib \<Rightarrow> string list \<Rightarrow> string \<Rightarrow> string list \<Rightarrow> string" where
  "last_hop lib networks chosen [] = chosen"
| "last_hop lib networks chosen (part # parts) = (case normalize_ip lib part of
       None \<Rightarrow> chosen
     | Some hop \<Rightarrow> if is_trusted lib networks hop then last_hop lib networks hop parts else hop)"

definition resolve_client_ip :: "iplib \<Rightarrow> string option \<Rightarrow> string option \<Rightarrow> string list \<Rightarrow> string" where
  "resolve_client_ip lib peer xff cidrs = (let networks = parse_networks lib cidrs in
     (case (if truthy peer then normalize_ip lib (the peer) else None) of
        None \<Rightarrow> ''unknown''
      | Some peer_ip \<Rightarrow>
          if networks = [] \<or> \<not> is_trusted lib networks peer_ip then peer_ip
          else if \<not> truthy xff \<or> py_strip (the xff) = [] then peer_ip
          else last_hop lib networks peer_ip (rev (map py_strip (split_on (CHR '','') (the xff))))))"

subsection \<open>The limits of registration\<close>

datatype reg_decision = Reg_allowed | Reg_limited string

record reg_limits =
  rg_ip_limit :: int
  rg_phone_limit :: int

record reg_counts =
  rg_ip :: "(string, int) dict"
  rg_phone :: "(string, int) dict"

definition default_reg_limits :: reg_limits where
  "default_reg_limits = \<lparr>rg_ip_limit = 20, rg_phone_limit = 5\<rparr>"

definition counted :: "(string, int) dict \<Rightarrow> string \<Rightarrow> int" where
  "counted d k = (case dict_get d k of None \<Rightarrow> 0 | Some n \<Rightarrow> n)"

definition memory_check :: "reg_limits \<Rightarrow> string \<Rightarrow> string option \<Rightarrow> reg_counts \<Rightarrow> reg_decision \<times> reg_counts" where
  "memory_check l ip phone s = (let s1 = s\<lparr>rg_ip := dict_set ip (counted (rg_ip s) ip + 1) (rg_ip s)\<rparr> in
     if counted (rg_ip s1) ip > rg_ip_limit l then (Reg_limited ''ip'', s1)
     else (case phone of
         None \<Rightarrow> (Reg_allowed, s1)
       | Some p \<Rightarrow> (let s2 = s1\<lparr>rg_phone := dict_set p (counted (rg_phone s1) p + 1) (rg_phone s1)\<rparr> in
           if counted (rg_phone s2) p > rg_phone_limit l then (Reg_limited ''phone'', s2) else (Reg_allowed, s2))))"

text \<open>
  The limiter of production. \<open>incr\<close> is the pipeline of \<^verbatim>\<open>INCR\<close> and \<^verbatim>\<open>EXPIRE NX\<close> on the store of Redis: the new
  count of a key, or None where the store fails.
\<close>

definition redis_check ::
  "('r \<Rightarrow> string \<Rightarrow> (int \<times> 'r) option) \<Rightarrow> reg_limits \<Rightarrow> string \<Rightarrow> string option \<Rightarrow> 'r \<Rightarrow> (reg_decision \<times> 'r) option" where
  "redis_check incr l ip phone s = (case incr s (''reg:rl:ip:'' @ ip) of
       None \<Rightarrow> None
     | Some (n, s1) \<Rightarrow>
         if n > rg_ip_limit l then Some (Reg_limited ''ip'', s1)
         else (case phone of
             None \<Rightarrow> Some (Reg_allowed, s1)
           | Some p \<Rightarrow> (case incr s1 (''reg:rl:phone:'' @ p) of
               None \<Rightarrow> None
             | Some (m, s2) \<Rightarrow> if m > rg_phone_limit l then Some (Reg_limited ''phone'', s2) else Some (Reg_allowed, s2))))"

fun memory_checks :: "reg_limits \<Rightarrow> (string \<times> string option) list \<Rightarrow> reg_counts \<Rightarrow> reg_decision list \<times> reg_counts" where
  "memory_checks l [] s = ([], s)"
| "memory_checks l ((ip, phone) # calls) s =
     (case memory_check l ip phone s of (d, s1) \<Rightarrow>
      (case memory_checks l calls s1 of (ds, s2) \<Rightarrow> (d # ds, s2)))"

fun redis_checks ::
  "('r \<Rightarrow> string \<Rightarrow> (int \<times> 'r) option) \<Rightarrow> reg_limits \<Rightarrow> (string \<times> string option) list \<Rightarrow> 'r \<Rightarrow> (reg_decision list \<times> 'r) option" where
  "redis_checks incr l [] s = Some ([], s)"
| "redis_checks incr l ((ip, phone) # calls) s =
     (case redis_check incr l ip phone s of
        None \<Rightarrow> None
      | Some (d, s1) \<Rightarrow> map_option (\<lambda>(ds, s2). (d # ds, s2)) (redis_checks incr l calls s1))"

subsection \<open>Origins\<close>

text \<open>\<^verbatim>\<open>parsed.port\<close> raises \<^verbatim>\<open>ValueError\<close> for a port that is no number up to 65535; nothing catches it.\<close>

definition normalize_origin :: "netlib \<Rightarrow> string \<Rightarrow> string option checked" where
  "normalize_origin lib origin = (let text = py_strip origin in
     if origin = [] \<or> text = [] \<or> py_lower text = ''null'' \<or> \<not> has_part text ''://'' then Inr None
     else (case nl_urlparse lib text of
         None \<Rightarrow> Inr None
       | Some parsed \<Rightarrow>
           if up_scheme parsed \<noteq> ''http'' \<and> up_scheme parsed \<noteq> ''https'' then Inr None
           else if \<not> truthy (up_hostname parsed) then Inr None
           else if CHR ''*'' \<in> set text \<or> truthy (up_username parsed) \<or> truthy (up_password parsed) then Inr None
           else (let host = py_lower (the (up_hostname parsed)) in
             case up_port parsed of
               None \<Rightarrow> Inl Auth_value_error
             | Some None \<Rightarrow> Inr (Some (up_scheme parsed @ ''://'' @ host))
             | Some (Some port) \<Rightarrow> Inr (Some (up_scheme parsed @ ''://'' @ host @ '':'' @ int_str port)))))"

fun normalize_origins :: "netlib \<Rightarrow> string list \<Rightarrow> string list checked" where
  "normalize_origins lib [] = Inr []"
| "normalize_origins lib (a # rest) =
     (if a = [] then normalize_origins lib rest
      else (case normalize_origin lib a of
          Inl e \<Rightarrow> Inl e
        | Inr None \<Rightarrow> normalize_origins lib rest
        | Inr (Some n) \<Rightarrow> map_sum id (Cons n) (normalize_origins lib rest)))"

definition origin_allowed :: "netlib \<Rightarrow> string option \<Rightarrow> string list \<Rightarrow> bool checked" where
  "origin_allowed lib origin allowed = (case normalize_origin lib (or_str origin []) of
       Inl e \<Rightarrow> Inl e
     | Inr None \<Rightarrow> Inr False
     | Inr (Some n) \<Rightarrow> map_sum id (\<lambda>ns. n \<in> set ns) (normalize_origins lib allowed))"

definition default_origins :: "string list" where
  "default_origins = [''http://127.0.0.1:5173'', ''http://localhost:5173'', ''https://127.0.0.1:5173'', ''https://localhost:5173'']"

definition allowed_origins :: "string \<Rightarrow> string list" where
  "allowed_origins browser_origins = (let origins = parse_csv browser_origins in
     if origins \<noteq> [] then origins else default_origins)"

subsection \<open>Writes with a cookie\<close>

record web_request =
  wq_content_type :: "string option"
  wq_cookie :: "string option"
  wq_origin :: "string option"
  wq_csrf :: "string option"

text \<open>A refusal has a status and a code.\<close>

type_synonym guard_result = "(int \<times> string) option"

definition form_types :: "string list" where
  "form_types = [''application/x-www-form-urlencoded'', ''multipart/form-data'']"

definition csrf_versions :: "hmac_keys \<Rightarrow> int list" where
  "csrf_versions mat = (if hk_previous mat \<noteq> None \<and> hk_version mat > 1 then [hk_version mat, hk_version mat - 1]
     else [hk_version mat])"

fun csrf_known :: "cryptolib \<Rightarrow> hmac_keys \<Rightarrow> uuid \<Rightarrow> string option \<Rightarrow> int list \<Rightarrow> bool checked" where
  "csrf_known c mat sid presented [] = Inr False"
| "csrf_known c mat sid presented (ver # rest) =
     (if resolve_key mat ver = None \<or> \<not> truthy presented then csrf_known c mat sid presented rest
      else (case verify_csrf_token c (the (resolve_key mat ver)) ver sid (the presented) of
          Inl e \<Rightarrow> Inl e
        | Inr ok \<Rightarrow> if ok then Inr True else csrf_known c mat sid presented rest))"

definition guard_cookie_mutation ::
  "netlib \<Rightarrow> cryptolib \<Rightarrow> hmac_keys \<Rightarrow> string \<Rightarrow> web_request \<Rightarrow> uuid option \<Rightarrow> guard_result checked" where
  "guard_cookie_mutation lib c mat browser_origins q session_id =
     (if list_ex (has_part (py_lower (or_str (wq_content_type q) []))) form_types then Inr (Some (415, ''INVALID_REQUEST''))
      else if \<not> truthy (wq_cookie q) then Inr None
      else (case origin_allowed lib (wq_origin q) (allowed_origins browser_origins) of
          Inl e \<Rightarrow> Inl e
        | Inr allowed \<Rightarrow>
            if \<not> allowed then Inr (Some (403, ''ORIGIN_REJECTED''))
            else (case session_id of
                None \<Rightarrow> Inr (Some (403, ''CSRF_INVALID''))
              | Some sid \<Rightarrow> map_sum id (\<lambda>ok. if ok then None else Some (403, ''CSRF_INVALID''))
                  (csrf_known c mat sid (wq_csrf q) (csrf_versions mat)))))"

subsection \<open>Secrets of the process\<close>

datatype secret_code =
    Secret_missing | Secret_malformed | Secret_undersized
  | Secret_version_missing | Secret_version_malformed | Secret_version_unknown

definition is_hex :: "char \<Rightarrow> bool" where
  "is_hex ch \<longleftrightarrow> (let n = of_char ch :: nat in 48 \<le> n \<and> n \<le> 57 \<or> 97 \<le> n \<and> n \<le> 102 \<or> 65 \<le> n \<and> n \<le> 70)"

definition hex_value :: "char \<Rightarrow> nat" where
  "hex_value ch = (let n = of_char ch :: nat in if n \<le> 57 then n - 48 else if n \<le> 70 then n - 55 else n - 87)"

fun from_hex :: "string \<Rightarrow> bytes" where
  "from_hex (a # b # s) = word_of_nat (16 * hex_value a + hex_value b) # from_hex s"
| "from_hex s = []"

definition min_secret_bytes :: nat where
  "min_secret_bytes = 32"

definition load_shared_secret_bytes :: "string option \<Rightarrow> secret_code + bytes" where
  "load_shared_secret_bytes raw = (let text = py_strip (or_str raw []) in
     if text = [] then Inl Secret_missing
     else if list_all is_hex text
       then if odd (length text) then Inl Secret_malformed
            else if length (from_hex text) < min_secret_bytes then Inl Secret_undersized
            else Inr (from_hex text)
     else if length (utf8_encode text) < min_secret_bytes then Inl Secret_undersized
     else Inr (utf8_encode text))"

definition version_char :: "char \<Rightarrow> bool" where
  "version_char ch \<longleftrightarrow> (let n = of_char ch :: nat in 48 \<le> n \<and> n \<le> 57 \<or> 65 \<le> n \<and> n \<le> 90 \<or> 97 \<le> n \<and> n \<le> 122 \<or>
     n \<in> {45, 46, 95})"

definition allowed_key_versions :: "string list" where
  "allowed_key_versions = [''v1'', ''v2'']"

definition load_seller_key_version :: "string option \<Rightarrow> secret_code + string" where
  "load_seller_key_version raw = (let text = py_strip (or_str raw []) in
     if text = [] then Inl Secret_version_missing
     else if \<not> (length text \<le> 32 \<and> list_all version_char text) then Inl Secret_version_malformed
     else if text \<notin> set allowed_key_versions then Inl Secret_version_unknown
     else Inr text)"

type_synonym environ = "(string, string) dict"

definition load_seller_previous_keys :: "environ \<Rightarrow> secret_code + (string, bytes) dict" where
  "load_seller_previous_keys env =
     (let prev_ver = py_strip (or_str (dict_get env ''SELLER_KEY_PREVIOUS_VERSION'') []);
          prev_raw = py_strip (or_str (dict_get env ''SELLER_KEY_MATERIAL_PREVIOUS'') []) in
      if prev_ver = [] \<and> prev_raw = [] then Inr []
      else if prev_ver = [] \<or> prev_raw = [] then Inl Secret_version_missing
      else (case load_seller_key_version (Some prev_ver) of
          Inl e \<Rightarrow> Inl e
        | Inr version \<Rightarrow> map_sum id (\<lambda>material. [(version, material)]) (load_shared_secret_bytes (Some prev_raw))))"

record process_secrets =
  ps_material :: bytes
  ps_fingerprint :: bytes
  ps_pepper :: bytes
  ps_version :: string
  ps_previous :: "(string, bytes) dict"

definition and_then :: "'e + 'a \<Rightarrow> ('a \<Rightarrow> 'e + 'b) \<Rightarrow> 'e + 'b" where
  "and_then r f = (case r of Inl e \<Rightarrow> Inl e | Inr x \<Rightarrow> f x)"

definition load_process_shared_secrets :: "environ \<Rightarrow> secret_code + process_secrets" where
  "load_process_shared_secrets env =
     and_then (load_shared_secret_bytes (dict_get env ''SELLER_KEY_MATERIAL'')) (\<lambda>material.
     and_then (load_shared_secret_bytes (dict_get env ''SELLER_KEY_FINGERPRINT_SECRET'')) (\<lambda>fp.
     and_then (load_shared_secret_bytes (dict_get env ''PROXY_AUTH_PEPPER'')) (\<lambda>pepper.
     and_then (load_seller_key_version (dict_get env ''SELLER_KEY_VERSION'')) (\<lambda>version.
     and_then (load_seller_previous_keys env) (\<lambda>previous.
     Inr \<lparr>ps_material = material, ps_fingerprint = fp, ps_pepper = pepper, ps_version = version,
          ps_previous = dict_del version previous\<rparr>)))))"

end
