(* ===== verification/Approval.thy ===== *)
theory Approval
  imports Edge Admin
begin

section \<open>Production approval\<close>

text \<open>
  \<^verbatim>\<open>tools/workflow/mode.py\<close> and \<^verbatim>\<open>tools/workflow/prod_approval.py\<close>: which environment a command works on, and the
  signed approval, bound to action, target, commit, run, manifest and images, that production needs. The
  texts of the errors are left out. An approval is a mapping of texts and a list of image digests, as the
  issuing functions write it. The state is the directory in which used nonces are marked.
\<close>

subsection \<open>Modes\<close>

datatype mode_code =
    Invalid_mode | Prod_approval_required | Prod_approval_invalid | Self_issued_approval | Self_approval_forbidden

text \<open>A \<^verbatim>\<open>ModeError\<close>, or an exception that is not one.\<close>

datatype mode_error = ModeError mode_code | Mode_type_error

record mode_selection =
  ms_mode :: string
  ms_origin :: string
  ms_approved :: bool
  ms_reference :: string

definition valid_modes :: "string list" where
  "valid_modes = [''local'', ''test'', ''prod'']"

definition validate_mode :: "string option \<Rightarrow> string \<Rightarrow> mode_error + mode_selection" where
  "validate_mode mode origin =
     (if \<not> truthy mode then Inr \<lparr>ms_mode = ''local'', ms_origin = ''omitted'', ms_approved = False, ms_reference = []\<rparr>
      else if the mode \<notin> set valid_modes then Inl (ModeError Invalid_mode)
      else if origin \<notin> {''command'', ''command line'', ''override''} \<and> the mode \<in> {''test'', ''prod''}
      then Inl (ModeError Invalid_mode)
      else Inr \<lparr>ms_mode = the mode, ms_origin = origin, ms_approved = False, ms_reference = []\<rparr>)"

subsection \<open>The text that is signed\<close>

record approval =
  ap_texts :: "(string, string) dict"
  ap_digests :: "string list option"

definition ap_text :: "approval \<Rightarrow> string \<Rightarrow> string" where
  "ap_text p k = or_str (dict_get (ap_texts p) k) []"

text \<open>The members of the object, in the order of their sorted names.\<close>

definition canonical_members :: "approval \<Rightarrow> (string \<times> pyval) list" where
  "canonical_members p =
     [(''action'', PyStr (ap_text p ''action'')), (''commit_sha'', PyStr (ap_text p ''commit_sha'')),
      (''environment'', PyStr (ap_text p ''environment'')), (''expires_at'', PyStr (ap_text p ''expires_at'')),
      (''image_digests'', PyList (map PyStr (case ap_digests p of None \<Rightarrow> [] | Some ds \<Rightarrow> ds))),
      (''issuer'', PyStr (ap_text p ''issuer'')), (''manifest_digest'', PyStr (ap_text p ''manifest_digest'')),
      (''nonce'', PyStr (ap_text p ''nonce'')), (''run_id'', PyStr (ap_text p ''run_id'')),
      (''subject'', PyStr (ap_text p ''subject'')), (''target'', PyStr (ap_text p ''target''))]"

definition json_members :: "(string \<times> pyval) list \<Rightarrow> string" where
  "json_members kvs = comma_sep (map (\<lambda>(k, v). json_string k @ '':'' @ json v) kvs)"

definition canonical :: "approval \<Rightarrow> string" where
  "canonical p = ''{'' @ json_members (canonical_members p) @ ''}''"

subsection \<open>The world of the verifying process\<close>

text \<open>
  Its environment variables, what reading a file gives (None: \<^verbatim>\<open>OSError\<close>), the signature scheme of \<^verbatim>\<open>openssl\<close>,
  its user, the reading of a time (None: \<^verbatim>\<open>ValueError\<close>), and whether a directory can be made and a file in it created.
\<close>

record approval_env =
  ae_environ :: environ
  ae_read :: "string \<Rightarrow> bytes option"
  ae_sign :: "bytes \<Rightarrow> bytes \<Rightarrow> bytes option"
  ae_verify :: "bytes \<Rightarrow> bytes \<Rightarrow> bytes \<Rightarrow> bool"
  ae_user :: string
  ae_crypto :: cryptolib
  ae_iso :: "string \<Rightarrow> instant option"
  ae_mkdir :: "string \<Rightarrow> bool"
  ae_create :: "string \<Rightarrow> string \<Rightarrow> bool"

definition env_text :: "approval_env \<Rightarrow> string \<Rightarrow> string" where
  "env_text v k = py_strip (or_str (dict_get (ae_environ v) k) [])"

definition approval_hmac_key :: "approval_env \<Rightarrow> string option \<Rightarrow> mode_error + bytes" where
  "approval_hmac_key v raw = (let text = py_strip (case raw of Some r \<Rightarrow> r | None \<Rightarrow> env_text v ''PROD_APPROVAL_HMAC_KEY'') in
     if length text < 32 then Inl (ModeError Prod_approval_required) else Inr (utf8_encode text))"

definition mint_variables :: "string list" where
  "mint_variables = [''PROD_APPROVAL_ISSUE_KEY'', ''PROD_APPROVAL_VERIFY_KEY'', ''PROD_APPROVAL_HMAC_KEY'',
     ''PROD_APPROVAL_ISSUE_PRIVATE_KEY'']"

definition refuse_hmac_mint_authority :: "approval_env \<Rightarrow> bytes option \<Rightarrow> mode_error + unit" where
  "refuse_hmac_mint_authority v hmac_key =
     (if hmac_key \<noteq> None then Inl (ModeError Self_issued_approval)
      else if list_ex (\<lambda>name. env_text v name \<noteq> []) mint_variables then Inl (ModeError Self_issued_approval)
      else Inr ())"

text \<open>\<^verbatim>\<open>raw.replace("\\n", "\n")\<close>: a backslash and an n become a line feed.\<close>

fun unescape_newlines :: "string \<Rightarrow> string" where
  "unescape_newlines (a # b # s) = (if a = CHR 0x5C \<and> b = CHR ''n'' then CHR 0x0A # unescape_newlines s
     else a # unescape_newlines (b # s))"
| "unescape_newlines s = s"

definition production_verify_pubkey :: "approval_env \<Rightarrow> mode_error + bytes" where
  "production_verify_pubkey v = (let raw = env_text v ''PROD_APPROVAL_VERIFY_PUBKEY'' in
     if raw = [] then Inl (ModeError Prod_approval_required)
     else if has_part raw ''BEGIN'' then Inr (utf8_encode (unescape_newlines raw))
     else (case ae_read v raw of None \<Rightarrow> Inl (ModeError Prod_approval_required) | Some pem \<Rightarrow> Inr pem))"

definition production_verify_key :: "approval_env \<Rightarrow> bytes option \<Rightarrow> mode_error + bytes" where
  "production_verify_key v hmac_key =
     and_then (refuse_hmac_mint_authority v hmac_key) (\<lambda>_. and_then (production_verify_pubkey v) (\<lambda>_. Inr []))"

definition issuer_allowlist :: "approval_env \<Rightarrow> string set" where
  "issuer_allowlist v = set (parse_csv (env_text v ''PROD_APPROVAL_ISSUER_ALLOWLIST''))"

subsection \<open>Issuing\<close>

record approval_terms =
  tm_issuer :: string
  tm_subject :: string
  tm_action :: string
  tm_environment :: string
  tm_target :: string
  tm_commit :: string
  tm_digests :: "string list"
  tm_nonce :: string
  tm_expires :: string
  tm_run :: string
  tm_manifest :: string

definition unsigned_approval :: "approval_terms \<Rightarrow> approval" where
  "unsigned_approval a = \<lparr>ap_texts = [(''action'', tm_action a), (''environment'', tm_environment a), (''target'', tm_target a),
     (''commit_sha'', tm_commit a), (''run_id'', tm_run a), (''manifest_digest'', tm_manifest a), (''nonce'', tm_nonce a),
     (''expires_at'', tm_expires a), (''issuer'', tm_issuer a), (''subject'', tm_subject a)], ap_digests = Some (tm_digests a)\<rparr>"

definition signed_with :: "string \<Rightarrow> approval \<Rightarrow> approval" where
  "signed_with s p = p\<lparr>ap_texts := dict_set ''signature'' s (ap_texts p)\<rparr>"

definition sign_approval :: "cryptolib \<Rightarrow> approval \<Rightarrow> bytes \<Rightarrow> string" where
  "sign_approval c p key = hexdigest (hmac256 c key (utf8_encode (canonical p)))"

definition sign_approval_ed25519 :: "approval_env \<Rightarrow> approval \<Rightarrow> bytes \<Rightarrow> mode_error + string" where
  "sign_approval_ed25519 v p private = (case ae_sign v private (utf8_encode (canonical p)) of
       None \<Rightarrow> Inl (ModeError Prod_approval_required)
     | Some sig \<Rightarrow> Inr (''ed25519:'' @ hexdigest sig))"

definition check_parties :: "approval_terms \<Rightarrow> mode_error + unit" where
  "check_parties a = (if py_strip (tm_issuer a) = [] \<or> py_strip (tm_subject a) = [] then Inl (ModeError Prod_approval_required)
     else if tm_issuer a = tm_subject a then Inl (ModeError Self_approval_forbidden) else Inr ())"

definition issue_approval :: "cryptolib \<Rightarrow> approval_terms \<Rightarrow> bytes \<Rightarrow> mode_error + approval" where
  "issue_approval c a key =
     and_then (check_parties a) (\<lambda>_. Inr (signed_with (sign_approval c (unsigned_approval a) key) (unsigned_approval a)))"

definition issue_asymmetric_approval :: "approval_env \<Rightarrow> approval_terms \<Rightarrow> bytes \<Rightarrow> mode_error + approval" where
  "issue_asymmetric_approval v a private =
     and_then (check_parties a) (\<lambda>_.
     and_then (sign_approval_ed25519 v (unsigned_approval a) private) (\<lambda>s. Inr (signed_with s (unsigned_approval a))))"

subsection \<open>Nonces\<close>

text \<open>The files that mark used nonces, and the set in memory where the caller gives one.\<close>

record nonce_state =
  ns_files :: "(string \<times> string) list"
  ns_seen :: "string list option"

type_synonym 'a approval_op = "(nonce_state, mode_error, 'a) op"

definition nonce_store_path :: "approval_env \<Rightarrow> mode_error + string" where
  "nonce_store_path v = (let raw = env_text v ''PROD_APPROVAL_NONCE_DIR'' in
     if raw = [] then Inl (ModeError Prod_approval_required) else Inr raw)"

definition nonce_file :: "approval_env \<Rightarrow> string \<Rightarrow> string" where
  "nonce_file v nonce = hexdigest (sha256 (ae_crypto v) (utf8_encode nonce))"

definition consume_nonce_durable :: "approval_env \<Rightarrow> string \<Rightarrow> string option \<Rightarrow> unit approval_op" where
  "consume_nonce_durable v nonce dir =
     bindE (require (\<not> (nonce = [] \<or> py_strip nonce = [])) (ModeError Prod_approval_invalid)) (\<lambda>_.
     bindE (of_sum (case dir of Some d \<Rightarrow> Inr d | None \<Rightarrow> nonce_store_path v)) (\<lambda>root.
     bindE (require (ae_mkdir v root) (ModeError Prod_approval_required)) (\<lambda>_.
     bindE (gets (\<lambda>s. (root, nonce_file v nonce) \<in> set (ns_files s))) (\<lambda>used.
     bindE (require (\<not> used) (ModeError Prod_approval_invalid)) (\<lambda>_.
     bindE (require (ae_create v root (nonce_file v nonce)) (ModeError Prod_approval_required)) (\<lambda>_.
     modify (\<lambda>s. s\<lparr>ns_files := (root, nonce_file v nonce) # ns_files s\<rparr>)))))))"

subsection \<open>Verifying\<close>

record approval_check =
  ck_operator :: string
  ck_action :: string
  ck_environment :: string
  ck_target :: string
  ck_digests :: "string list"
  ck_key :: bytes
  ck_commit :: "string option"
  ck_run :: "string option"
  ck_manifest :: "string option"
  ck_dirty :: bool
  ck_dir :: "string option"
  ck_allowlist :: bool
  ck_asymmetric :: bool
  ck_pubkey :: "bytes option"

definition required_fields :: "string list" where
  "required_fields = [''action'', ''environment'', ''target'', ''commit_sha'', ''image_digests'', ''nonce'', ''expires_at'',
     ''issuer'', ''subject'', ''signature'']"

definition has_field :: "approval \<Rightarrow> string \<Rightarrow> bool" where
  "has_field p k \<longleftrightarrow> (if k = ''image_digests'' then ap_digests p \<noteq> None else dict_get (ap_texts p) k \<noteq> None)"

text \<open>\<^verbatim>\<open>bytes.fromhex\<close>: pairs of digits, white space between them.\<close>

fun bytes_fromhex :: "string \<Rightarrow> bytes option" where
  "bytes_fromhex [] = Some []"
| "bytes_fromhex (a # s) = (if of_char a \<in> {9::nat, 10, 11, 12, 13, 32} then bytes_fromhex s
     else (case s of
         [] \<Rightarrow> None
       | b # r \<Rightarrow> if is_hex a \<and> is_hex b then map_option (Cons (word_of_nat (16 * hex_value a + hex_value b))) (bytes_fromhex r)
           else None))"

definition ed25519_prefix :: string where
  "ed25519_prefix = ''ed25519:''"

definition check_signature :: "approval_env \<Rightarrow> approval_check \<Rightarrow> approval \<Rightarrow> mode_error + unit" where
  "check_signature v k p = (let presented = ap_text p ''signature'' in
     if ck_asymmetric k then
       (if \<not> starts_with presented ed25519_prefix then Inl (ModeError Self_issued_approval)
        else and_then (case ck_pubkey k of Some pem \<Rightarrow> Inr pem | None \<Rightarrow> production_verify_pubkey v) (\<lambda>pub.
          (case bytes_fromhex (drop (length ed25519_prefix) presented) of
             None \<Rightarrow> Inl (ModeError Prod_approval_invalid)
           | Some sig \<Rightarrow> if ae_verify v pub (utf8_encode (canonical p)) sig then Inr ()
               else Inl (ModeError Prod_approval_invalid))))
     else if \<not> is_ascii presented then Inl Mode_type_error
     else if sign_approval (ae_crypto v) p (ck_key k) = presented then Inr () else Inl (ModeError Prod_approval_invalid))"

definition parse_expires :: "approval_env \<Rightarrow> string \<Rightarrow> instant option" where
  "parse_expires v value = (let text = py_strip value in
     ae_iso v (if text \<noteq> [] \<and> last text = CHR ''Z'' then butlast text @ ''+00:00'' else text))"

definition expected :: "string option \<Rightarrow> string \<Rightarrow> bool" where
  "expected want have = (case want of None \<Rightarrow> True | Some w \<Rightarrow> have = w)"

text \<open>What an approval is bound to.\<close>

definition bound_to :: "approval_check \<Rightarrow> approval \<Rightarrow> bool" where
  "bound_to k p \<longleftrightarrow> ap_text p ''action'' = ck_action k \<and> ap_text p ''environment'' = ck_environment k \<and>
     ap_text p ''target'' = ck_target k \<and> (case ap_digests p of None \<Rightarrow> [] | Some ds \<Rightarrow> ds) = ck_digests k \<and>
     expected (ck_commit k) (ap_text p ''commit_sha'') \<and> expected (ck_run k) (ap_text p ''run_id'') \<and>
     expected (ck_manifest k) (ap_text p ''manifest_digest'') \<and> \<not> ck_dirty k"

definition mark_seen :: "string \<Rightarrow> string list \<Rightarrow> unit approval_op" where
  "mark_seen nonce seen =
     bindE (require (nonce \<notin> set seen) (ModeError Prod_approval_invalid)) (\<lambda>_. modify (\<lambda>s. s\<lparr>ns_seen := Some (nonce # seen)\<rparr>))"

definition verify_approval :: "approval_env \<Rightarrow> instant \<Rightarrow> approval_check \<Rightarrow> approval \<Rightarrow> unit approval_op" where
  "verify_approval v now k p =
     bindE (require (list_all (has_field p) required_fields) (ModeError Prod_approval_required)) (\<lambda>_.
     bindE (require (\<not> (ap_text p ''issuer'' = ap_text p ''subject'' \<or> ap_text p ''subject'' \<noteq> ck_operator k))
       (ModeError Self_approval_forbidden)) (\<lambda>_.
     bindE (require (ck_allowlist k \<longrightarrow> ap_text p ''issuer'' \<in> issuer_allowlist v) (ModeError Self_issued_approval)) (\<lambda>_.
     bindE (of_sum (check_signature v k p)) (\<lambda>_.
     bindE (require (bound_to k p) (ModeError Prod_approval_invalid)) (\<lambda>_.
     bindE (of_option (ModeError Prod_approval_invalid) (parse_expires v (ap_text p ''expires_at''))) (\<lambda>expires.
     bindE (require (\<not> expires \<le> now) (ModeError Prod_approval_invalid)) (\<lambda>_.
     bindE (gets ns_seen) (\<lambda>seen. case seen of
       Some xs \<Rightarrow> mark_seen (ap_text p ''nonce'') xs
     | None \<Rightarrow> consume_nonce_durable v (ap_text p ''nonce'') (ck_dir k)))))))))"

subsection \<open>The gate of production\<close>

record production_request =
  pq_hmac_key :: "bytes option"
  pq_operator :: "string option"
  pq_action :: "string option"
  pq_target :: "string option"
  pq_digests :: "string list option"
  pq_commit :: "string option"
  pq_run :: "string option"
  pq_manifest :: "string option"
  pq_dirty :: bool
  pq_dir :: "string option"

definition production_check :: "production_request \<Rightarrow> string \<Rightarrow> approval \<Rightarrow> approval_check" where
  "production_check q who p = \<lparr>ck_operator = who,
     ck_action = (if truthy (pq_action q) then the (pq_action q) else or_str (dict_get (ap_texts p) ''action'') ''deploy''),
     ck_environment = ''prod'',
     ck_target = (case pq_target q of Some t \<Rightarrow> t | None \<Rightarrow> ap_text p ''target''),
     ck_digests = (case pq_digests q of Some ds \<Rightarrow> ds | None \<Rightarrow> (case ap_digests p of None \<Rightarrow> [] | Some ds \<Rightarrow> ds)),
     ck_key = [], ck_commit = pq_commit q, ck_run = pq_run q, ck_manifest = pq_manifest q, ck_dirty = pq_dirty q,
     ck_dir = pq_dir q, ck_allowlist = True, ck_asymmetric = True, ck_pubkey = None\<rparr>"

definition operator_of :: "approval_env \<Rightarrow> production_request \<Rightarrow> string" where
  "operator_of v q = or_str (pq_operator q) (or_str (dict_get (ae_environ v) ''TOKENMARKET_OPERATOR'') (ae_user v))"

definition require_production_approval ::
  "approval_env \<Rightarrow> instant \<Rightarrow> production_request \<Rightarrow> approval option \<Rightarrow> mode_selection \<Rightarrow> mode_selection approval_op" where
  "require_production_approval v now q proof selection =
     (if ms_mode selection \<noteq> ''prod'' then ret selection
      else bindE (require (\<not> (proof = None \<or> ap_texts (the proof) = [] \<and> ap_digests (the proof) = None))
          (ModeError Prod_approval_required)) (\<lambda>_.
        let p = the proof; who = operator_of v q in
        bindE (require (who \<noteq> []) (ModeError Prod_approval_required)) (\<lambda>_.
        bindE (of_sum (refuse_hmac_mint_authority v (pq_hmac_key q))) (\<lambda>_.
        bindE (of_sum (production_verify_key v (pq_hmac_key q))) (\<lambda>_.
        bindE (verify_approval v now (production_check q who p) p) (\<lambda>_.
        ret \<lparr>ms_mode = ''prod'', ms_origin = ms_origin selection, ms_approved = True,
              ms_reference = or_str (dict_get (ap_texts p) ''nonce'') (ap_text p ''signature'')\<rparr>))))))"

end
