(* ===== verification/Deploy.thy ===== *)
theory Deploy
  imports Approval Workbench Seller_Keys
begin

section \<open>Deployment\<close>

text \<open>
  \<^verbatim>\<open>tools/workflow/deploy_env/lifecycle.py\<close> and \<^verbatim>\<open>tools/workflow/image_pin.py\<close>: the checks before a deployment and what
  it then does. The state holds the marks of used approvals and the list of Docker commands that were run. The
  files, \<^verbatim>\<open>git\<close>, the answers of Docker, the parsing of JSON and whether the stack becomes ready in time belong to the
  world, an argument. JSON values are \<open>pyval\<close>s; texts of errors, printing, and commands that
  run out of time (which end a run with the code 1 as a failure does) are left out.
\<close>

datatype deploy_code =
    Dp_invalid_config | Dp_invalid_mode | Dp_image_unavailable | Dp_digest_mismatch | Dp_dirty_tree | Dp_approval_required
  | Dp_tool_missing | Dp_contract_drift | Dp_step_failed | Dp_not_ready
  | Au_self_signed | Au_signature_missing | Au_manifest_missing | Au_manifest_invalid | Au_companion_missing | Au_hash_mismatch
  | Au_evidence_missing | Au_evidence_invalid | Au_evidence_tampered | Au_digest_invalid | Au_digest_mismatch
  | Au_signature_invalid | Au_commit_mismatch | Au_activation_missing | Au_activation_invalid | Au_activation_tls | Au_activation_sms

datatype deploy_error = DeployError deploy_code | Deploy_mode mode_error | Deploy_other

subsection \<open>Images\<close>

text \<open>\<^verbatim>\<open>text.rsplit("@", 1)\<close> of a text that holds an at sign.\<close>

definition before_last_at :: "string \<Rightarrow> string" where
  "before_last_at text = rev (tl (dropWhile (\<lambda>ch. ch \<noteq> CHR ''@'') (rev text)))"

definition after_last_at :: "string \<Rightarrow> string" where
  "after_last_at text = rev (takeWhile (\<lambda>ch. ch \<noteq> CHR ''@'') (rev text))"

definition lower_hex :: "char \<Rightarrow> bool" where
  "lower_hex ch \<longleftrightarrow> (let n = of_char ch :: nat in 48 \<le> n \<and> n \<le> 57 \<or> 97 \<le> n \<and> n \<le> 102)"

definition is_digest_pinned :: "string \<Rightarrow> bool" where
  "is_digest_pinned ref = (let text = py_strip ref in
     if text = [] \<or> has_part (takeWhile (\<lambda>ch. ch \<noteq> CHR ''@'') text) '':latest'' then False
     else if \<not> has_part text ''@sha256:'' then False
     else (let name = before_last_at text; digest = after_last_at text in
       if \<not> starts_with digest ''sha256:'' \<or> length digest \<noteq> 71 then False
       else if \<not> list_all lower_hex (drop 7 digest) then False
       else name \<noteq> [] \<and> \<not> has_part name ''://''))"

definition require_digest_pinned_image :: "string \<Rightarrow> deploy_error + string" where
  "require_digest_pinned_image ref = (let text = py_strip ref in
     if is_digest_pinned text then Inr text else Inl (DeployError Dp_invalid_config))"

definition digest_from_ref :: "string \<Rightarrow> deploy_error + string" where
  "digest_from_ref ref = map_sum id after_last_at (require_digest_pinned_image ref)"

definition tagged_name :: "string \<Rightarrow> deploy_error + string" where
  "tagged_name ref = map_sum id before_last_at (require_digest_pinned_image ref)"

text \<open>\<^verbatim>\<open>text.split(":", 1)[-1]\<close>\<close>

definition after_colon :: "string \<Rightarrow> string" where
  "after_colon text = (if CHR '':'' \<in> set text then tl (dropWhile (\<lambda>ch. ch \<noteq> CHR '':'') text) else text)"

subsection \<open>The world\<close>

record deploy_world =
  dw_env :: approval_env
  dw_root :: string
  dw_clean :: "bool option"
  dw_head :: "string option"
  dw_loads :: "string \<Rightarrow> pyval option"
  dw_proof :: "string \<Rightarrow> approval option"
  dw_inspect :: "string \<Rightarrow> string option"
  dw_cli :: bool
  dw_docker :: bool
  dw_image :: "string \<Rightarrow> bool"
  dw_up :: bool
  dw_down :: bool
  dw_ready :: bool

datatype docker_command = Docker_info | Docker_inspect_id string | Docker_inspect string
  | Docker_compose string "string list"

record deploy_state =
  dy_nonces :: nonce_state
  dy_ran :: "docker_command list"

type_synonym 'a deploy_op = "(deploy_state, deploy_error, 'a) op"

definition docker_runs :: "docker_command \<Rightarrow> unit deploy_op" where
  "docker_runs cmd = modify (\<lambda>s. s\<lparr>dy_ran := dy_ran s @ [cmd]\<rparr>)"

definition read_text :: "deploy_world \<Rightarrow> string \<Rightarrow> deploy_error + string" where
  "read_text w path = (case ae_read (dw_env w) path of
       None \<Rightarrow> Inl Deploy_other
     | Some bs \<Rightarrow> (case utf8_decode bs of None \<Rightarrow> Inl Deploy_other | Some s \<Rightarrow> Inr s))"

definition is_file :: "deploy_world \<Rightarrow> string \<Rightarrow> bool" where
  "is_file w path \<longleftrightarrow> ae_read (dw_env w) path \<noteq> None"

definition sha256_file :: "deploy_world \<Rightarrow> string \<Rightarrow> string" where
  "sha256_file w path = hexdigest (sha256 (ae_crypto (dw_env w)) (the (ae_read (dw_env w) path)))"

definition sure :: "bool \<Rightarrow> deploy_code \<Rightarrow> deploy_error + unit" where
  "sure c e = (if c then Inr () else Inl (DeployError e))"

text \<open>The content of the image that carries the name of the approved one.\<close>

definition inspect_image_digest :: "deploy_world \<Rightarrow> string \<Rightarrow> string deploy_op" where
  "inspect_image_digest w ref =
     bindE (docker_runs (Docker_inspect_id ref)) (\<lambda>_.
     case dw_inspect w ref of
       None \<Rightarrow> throw (DeployError Dp_image_unavailable)
     | Some ident \<Rightarrow> if starts_with ident ''sha256:'' then ret ident else throw (DeployError Dp_digest_mismatch))"

definition verify_approved_digests :: "deploy_world \<Rightarrow> string list \<Rightarrow> unit deploy_op" where
  "verify_approved_digests w refs = for_each (\<lambda>ref.
     bindE (of_sum (digest_from_ref ref)) (\<lambda>wanted.
     bindE (of_sum (tagged_name ref)) (\<lambda>name.
     bindE (inspect_image_digest w name) (\<lambda>inspected.
     require (after_colon inspected = after_colon wanted) (DeployError Dp_digest_mismatch))))) refs"

subsection \<open>JSON values\<close>

fun py_truth :: "pyval \<Rightarrow> bool" where
  "py_truth PyNone = False"
| "py_truth (PyBool b) = b"
| "py_truth (PyInt n) = (n \<noteq> 0)"
| "py_truth (PyStr s) = (s \<noteq> [])"
| "py_truth (PyList vs) = (vs \<noteq> [])"
| "py_truth (PyDict kvs) = (kvs \<noteq> [])"
| "py_truth v = True"

definition py_str :: "pyval \<Rightarrow> string" where
  "py_str v = (case v of PyStr s \<Rightarrow> s | _ \<Rightarrow> py_repr v)"

definition member_at :: "(string \<times> pyval) list \<Rightarrow> string \<Rightarrow> pyval" where
  "member_at kvs k = (case dict_get kvs k of None \<Rightarrow> PyNone | Some v \<Rightarrow> v)"

text \<open>\<^verbatim>\<open>str(d.get(k) or "")\<close>\<close>

definition text_at :: "(string \<times> pyval) list \<Rightarrow> string \<Rightarrow> string" where
  "text_at kvs k = (if py_truth (member_at kvs k) then py_str (member_at kvs k) else [])"

text \<open>\<^verbatim>\<open>int(v)\<close>; None where it raises \<^verbatim>\<open>TypeError\<close> or \<^verbatim>\<open>ValueError\<close>.\<close>

definition int_of_py :: "pyval \<Rightarrow> int option" where
  "int_of_py v = (case v of PyInt n \<Rightarrow> Some n | PyBool b \<Rightarrow> Some (if b then 1 else 0)
     | PyStr s \<Rightarrow> exponent_of (Some (py_strip s)) | _ \<Rightarrow> None)"

subsection \<open>The release manifest of authentication\<close>

definition required_evidence :: "string list" where
  "required_evidence = [''api_performance'', ''backup_restore'', ''browser'', ''quality_gates'', ''quickstart'', ''traceability'']"

definition synthetic_sms :: "string list" where
  "synthetic_sms = ['''', ''synthetic'', ''fake'', ''mock'', ''null'', ''none'', ''disabled'']"

definition hex64 :: "string \<Rightarrow> bool" where
  "hex64 s \<longleftrightarrow> length s = 64 \<and> list_all is_hex s"

definition without_sha256 :: "string \<Rightarrow> string" where
  "without_sha256 s = (if starts_with s ''sha256:'' then drop 7 s else s)"

definition digest_value :: "pyval \<Rightarrow> bool" where
  "digest_value v = (case v of PyStr s \<Rightarrow> starts_with s ''sha256:'' \<and> hex64 (drop 7 s) | _ \<Rightarrow> False)"

definition auth_release_verify_key :: "approval_env \<Rightarrow> deploy_error + bytes" where
  "auth_release_verify_key v =
     and_then (sure (env_text v ''AUTH_RELEASE_ISSUE_KEY'' = []) Au_self_signed) (\<lambda>_.
     and_then (sure (\<not> length (env_text v ''AUTH_RELEASE_VERIFY_KEY'') < 32) Au_signature_missing) (\<lambda>_.
     Inr (utf8_encode (env_text v ''AUTH_RELEASE_VERIFY_KEY''))))"

definition sign_auth_release_payload :: "cryptolib \<Rightarrow> (string \<times> pyval) list \<Rightarrow> bytes \<Rightarrow> string" where
  "sign_auth_release_payload c payload key =
     hexdigest (hmac256 c key (utf8_encode (json (PyDict (filter (\<lambda>(k, v). k \<noteq> ''signature'') payload)))))"

definition absolute :: "string \<Rightarrow> bool" where
  "absolute path \<longleftrightarrow> starts_with path ''/''"

definition parent_of :: "string \<Rightarrow> string" where
  "parent_of path = rev (tl (dropWhile (\<lambda>ch. ch \<noteq> CHR ''/'') (rev path)))"

definition resolve_auth_release_manifest_path :: "deploy_world \<Rightarrow> string \<Rightarrow> string" where
  "resolve_auth_release_manifest_path w raw = (if absolute raw then raw else dw_root w @ ''/'' @ raw)"

definition auth_release_companion_path :: "string \<Rightarrow> string" where
  "auth_release_companion_path path = path @ ''.sha256''"

definition resolve_evidence_file :: "deploy_world \<Rightarrow> string \<Rightarrow> string \<Rightarrow> string" where
  "resolve_evidence_file w manifest rel =
     (if absolute rel then rel
      else if is_file w (dw_root w @ ''/'' @ rel) then dw_root w @ ''/'' @ rel
      else if is_file w (parent_of manifest @ ''/'' @ rel) then parent_of manifest @ ''/'' @ rel
      else dw_root w @ ''/'' @ rel)"

text \<open>What stands between the first and the second white space; None: there is nothing.\<close>

definition first_word :: "string \<Rightarrow> string option" where
  "first_word s = (let t = py_strip s in if t = [] then None else Some (takeWhile (\<lambda>ch. \<not> py_isspace ch) t))"

definition evidence_formed :: "(string \<times> pyval) list \<Rightarrow> string \<Rightarrow> deploy_error + unit" where
  "evidence_formed evidence key = (case member_at evidence key of
       PyDict entry \<Rightarrow> (let digest = py_strip (text_at entry ''sha256'') in
         and_then (sure (digest \<noteq> []) Au_evidence_invalid) (\<lambda>_. sure (hex64 (without_sha256 digest)) Au_evidence_invalid))
     | _ \<Rightarrow> Inl (DeployError Au_evidence_invalid))"

definition evidence_entry :: "(string \<times> pyval) list \<Rightarrow> string \<Rightarrow> (string \<times> pyval) list" where
  "evidence_entry evidence key = (case member_at evidence key of PyDict entry \<Rightarrow> entry | _ \<Rightarrow> [])"

definition evidence_rehashed :: "deploy_world \<Rightarrow> string \<Rightarrow> (string \<times> pyval) list \<Rightarrow> string \<Rightarrow> deploy_error + unit" where
  "evidence_rehashed w manifest evidence key =
     (let entry = evidence_entry evidence key; rel = py_strip (text_at entry ''path'');
          file = resolve_evidence_file w manifest rel in
      and_then (sure (rel \<noteq> []) Au_evidence_missing) (\<lambda>_.
      and_then (sure (is_file w file) Au_evidence_missing) (\<lambda>_.
      sure (py_lower (sha256_file w file) = py_lower (without_sha256 (py_strip (text_at entry ''sha256'')))) Au_evidence_tampered)))"

fun all_sure :: "('a \<Rightarrow> deploy_error + unit) \<Rightarrow> 'a list \<Rightarrow> deploy_error + unit" where
  "all_sure f [] = Inr ()"
| "all_sure f (x # xs) = and_then (f x) (\<lambda>_. all_sure f xs)"

definition nonempty_list :: "pyval \<Rightarrow> bool" where
  "nonempty_list v = (case v of PyList vs \<Rightarrow> vs \<noteq> [] | _ \<Rightarrow> False)"

definition verify_auth_activation :: "pyval \<Rightarrow> string \<Rightarrow> deploy_error + unit" where
  "verify_auth_activation activation mode = (case activation of
       PyDict a \<Rightarrow>
         and_then (sure (nonempty_list (member_at a ''browser_origins'')) Au_activation_invalid) (\<lambda>_.
         and_then (sure (nonempty_list (member_at a ''trusted_proxy_cidrs'')) Au_activation_invalid) (\<lambda>_.
         and_then (sure (py_truth (member_at a ''hmac_keys_configured'')) Au_activation_invalid) (\<lambda>_.
         and_then (sure (py_truth (member_at a ''dispatcher_enabled'')) Au_activation_invalid) (\<lambda>_.
         and_then (sure (py_strip (text_at a ''cleanup_schedule_cron'') = ''17 * * * *'') Au_activation_invalid) (\<lambda>_.
         and_then (sure (int_of_py (member_at a ''cleanup_batch_size'') = Some 500) Au_activation_invalid) (\<lambda>_.
         and_then (sure (int_of_py (member_at a ''cleanup_max_runtime_seconds'') = Some 900) Au_activation_invalid) (\<lambda>_.
         if py_lower (py_strip mode) \<in> {[], ''prod'', ''test''}
         then and_then (sure (py_truth (member_at a ''tls_ready'')) Au_activation_tls) (\<lambda>_.
           sure (py_lower (py_strip (text_at a ''sms_adapter'')) \<notin> set synthetic_sms) Au_activation_sms)
         else Inr ())))))))
     | _ \<Rightarrow> Inl (DeployError Au_activation_missing))"

definition manifest_kinds :: "string list" where
  "manifest_kinds = [''tokenmarket.auth_release_manifest'', ''tokenmarket.release_candidate'']"

text \<open>The parts of the manifest that are read before its signature is checked.\<close>

definition manifest_formed :: "(string \<times> pyval) list \<Rightarrow> deploy_error + unit" where
  "manifest_formed payload =
     and_then (sure (list_all (\<lambda>k. dict_get payload k \<noteq> None) [''schema_version'', ''kind'', ''increment'', ''commit_sha'', ''evidence''])
       Au_manifest_invalid) (\<lambda>_.
     and_then (sure (member_at payload ''kind'' \<in> set (map PyStr manifest_kinds)) Au_manifest_invalid) (\<lambda>_.
     case member_at payload ''evidence'' of
       PyDict evidence \<Rightarrow>
         and_then (sure (list_all (\<lambda>k. dict_get evidence k \<noteq> None) required_evidence) Au_evidence_missing) (\<lambda>_.
         and_then (all_sure (evidence_formed evidence) required_evidence) (\<lambda>_.
         and_then (case member_at payload ''image_digests'' of
             PyDict ds \<Rightarrow> sure (list_all (\<lambda>(k, v). digest_value v) ds) Au_digest_mismatch
           | v \<Rightarrow> sure (\<not> py_truth v) Au_digest_invalid) (\<lambda>_.
         sure (member_at payload ''frontend_digest'' = PyNone \<or> digest_value (member_at payload ''frontend_digest'')) Au_digest_mismatch)))
     | _ \<Rightarrow> Inl (DeployError Au_evidence_missing)))"

definition signature_matches :: "cryptolib \<Rightarrow> (string \<times> pyval) list \<Rightarrow> bytes \<Rightarrow> deploy_error + unit" where
  "signature_matches c payload key = (let presented = py_strip (text_at payload ''signature'') in
     if presented = [] then Inl (DeployError Au_signature_invalid)
     else if \<not> is_ascii presented then Inl Deploy_other
     else sure (sign_auth_release_payload c payload key = presented) Au_signature_invalid)"

record release_report =
  rr_sha256 :: string
  rr_commit :: pyval

text \<open>\<open>expected_commit\<close> is None where the caller does not ask for one; images are never asked for by the callers here.\<close>

definition verify_auth_release_manifest ::
  "deploy_world \<Rightarrow> string \<Rightarrow> string \<Rightarrow> string option \<Rightarrow> deploy_error + release_report" where
  "verify_auth_release_manifest w raw mode expected_commit =
     (let path = resolve_auth_release_manifest_path w raw; companion = auth_release_companion_path path in
      and_then (sure (is_file w path) Au_manifest_missing) (\<lambda>_.
      and_then (read_text w path) (\<lambda>body.
      and_then (case dw_loads w body of Some (PyDict p) \<Rightarrow> Inr p | _ \<Rightarrow> Inl (DeployError Au_manifest_invalid)) (\<lambda>payload.
      and_then (sure (is_file w companion) Au_companion_missing) (\<lambda>_.
      and_then (read_text w companion) (\<lambda>note.
      and_then (case first_word note of None \<Rightarrow> Inl Deploy_other | Some r \<Rightarrow> Inr r) (\<lambda>recorded.
      and_then (sure (recorded = sha256_file w path) Au_hash_mismatch) (\<lambda>_.
      and_then (manifest_formed payload) (\<lambda>_.
      and_then (auth_release_verify_key (dw_env w)) (\<lambda>key.
      and_then (signature_matches (ae_crypto (dw_env w)) payload key) (\<lambda>_.
      and_then (all_sure (evidence_rehashed w path (evidence_entry payload ''evidence'')) required_evidence) (\<lambda>_.
      and_then (sure (case expected_commit of None \<Rightarrow> True | Some c \<Rightarrow> text_at payload ''commit_sha'' = c) Au_commit_mismatch) (\<lambda>_.
      and_then (verify_auth_activation (member_at payload ''activation'') mode) (\<lambda>_.
      Inr \<lparr>rr_sha256 = sha256_file w path, rr_commit = member_at payload ''commit_sha''\<rparr>))))))))))))))"

definition auth_release_manifest_from_env :: "approval_env \<Rightarrow> string option" where
  "auth_release_manifest_from_env v =
     (if env_text v ''AUTH_RELEASE_MANIFEST'' \<noteq> [] then Some (env_text v ''AUTH_RELEASE_MANIFEST'')
      else if env_text v ''auth_release_manifest'' \<noteq> [] then Some (env_text v ''auth_release_manifest'')
      else None)"

end
