(* ===== verification/Deploy_Run.thy ===== *)
theory Deploy_Run
  imports Deploy
begin

section \<open>Deploy and take down\<close>

text \<open>The rest of \<^verbatim>\<open>deploy_env/lifecycle.py\<close>: the configuration of a stack, \<^verbatim>\<open>deploy_up\<close> and \<^verbatim>\<open>deploy_down\<close>.
  The queries while a stack becomes ready are not recorded.\<close>

subsection \<open>Configuration\<close>

definition config_file :: "string \<Rightarrow> string" where
  "config_file mode = (if mode = ''test'' then ''.env.test'' else ''.env.prod'')"

definition project_name :: "string \<Rightarrow> string" where
  "project_name mode = (if mode = ''test'' then ''tokenmarket-test'' else ''tokenmarket-prod'')"

record deploy_config =
  dc_mode :: string
  dc_project :: string
  dc_child_env :: "(string, string) dict"
  dc_images :: "string list"

text \<open>\<^verbatim>\<open>splitlines\<close> ends a line at these characters; a carriage return and a line feed together are one end.\<close>

definition line_end :: "char \<Rightarrow> bool" where
  "line_end ch \<longleftrightarrow> of_char ch \<in> {10::nat, 11, 12, 13, 28, 29, 30, 133}"

fun join_crlf :: "string \<Rightarrow> string" where
  "join_crlf (a # b # s) = (if a = CHR 0x0D \<and> b = CHR 0x0A then CHR 0x0A # join_crlf s else a # join_crlf (b # s))"
| "join_crlf s = s"

definition split_lines :: "string \<Rightarrow> string list" where
  "split_lines s = (let ls = split_on (CHR 0x0A) (map (\<lambda>ch. if line_end ch then CHR 0x0A else ch) (join_crlf s)) in
     if last ls = [] then butlast ls else ls)"

definition strip_char :: "char \<Rightarrow> string \<Rightarrow> string" where
  "strip_char q s = rev (dropWhile (\<lambda>ch. ch = q) (rev (dropWhile (\<lambda>ch. ch = q) s)))"

text \<open>One line of a dotenv file: a key and its value.\<close>

definition dotenv_line :: "string \<Rightarrow> (string \<times> string) option" where
  "dotenv_line raw = (let line = py_strip raw in
     if line = [] \<or> hd line = CHR ''#'' \<or> CHR ''='' \<notin> set line then None
     else (let key = py_strip (takeWhile (\<lambda>ch. ch \<noteq> CHR ''='') line);
               v = strip_char (CHR 0x22) (strip_char (CHR 0x27) (py_strip (tl (dropWhile (\<lambda>ch. ch \<noteq> CHR ''='') line)))) in
       if key = [] then None else Some (key, v)))"

definition parse_dotenv :: "deploy_world \<Rightarrow> string \<Rightarrow> deploy_error + (string, string) dict" where
  "parse_dotenv w path =
     and_then (sure (is_file w path) Dp_invalid_config) (\<lambda>_.
     and_then (read_text w path) (\<lambda>text.
     Inr (foldl (\<lambda>d (k, v). dict_set k v d) [] (List.map_filter dotenv_line (split_lines text)))))"

definition config_value :: "(string, string) dict \<Rightarrow> string \<Rightarrow> deploy_error + string" where
  "config_value cfg key = (let v = py_strip (or_str (dict_get cfg key) []) in
     and_then (sure (\<not> (v = [] \<or> starts_with v ''replace-me'')) Dp_invalid_config) (\<lambda>_. Inr v))"

definition secret_grammar :: "string \<Rightarrow> bool" where
  "secret_grammar v \<longleftrightarrow> starts_with v ''tm_local_'' \<and> (let rest = drop 9 v in 32 \<le> length rest \<and> length rest \<le> 96 \<and>
     list_all (\<lambda>ch. version_char ch \<and> ch \<noteq> CHR ''.'') rest)"

definition config_secret :: "(string, string) dict \<Rightarrow> string \<Rightarrow> deploy_error + string" where
  "config_secret cfg key = and_then (config_value cfg key) (\<lambda>v. and_then (sure (secret_grammar v) Dp_invalid_config) (\<lambda>_. Inr v))"

definition config_port :: "(string, string) dict \<Rightarrow> string \<Rightarrow> string \<Rightarrow> string" where
  "config_port cfg key preset = (let v = py_strip (case dict_get cfg key of None \<Rightarrow> preset | Some x \<Rightarrow> x) in
     if v = [] then preset else v)"

definition image_defaults :: "(string \<times> string \<times> string) list" where
  "image_defaults =
     [(''TOKENMARKET_DEPLOY_IMAGE_PROXY_GATEWAY'', ''IMAGE_PROXY_GATEWAY'', ''tokenmarket/proxy-gateway:0.1.0''),
      (''TOKENMARKET_DEPLOY_IMAGE_API_SERVICE'', ''IMAGE_API_SERVICE'', ''tokenmarket/api-service:0.1.0''),
      (''TOKENMARKET_DEPLOY_IMAGE_BILLING_SERVICE'', ''IMAGE_BILLING_SERVICE'', ''tokenmarket/billing-service:0.1.0''),
      (''TOKENMARKET_DEPLOY_IMAGE_ADMIN_SERVICE'', ''IMAGE_ADMIN_SERVICE'', ''tokenmarket/admin-service:0.1.0''),
      (''TOKENMARKET_DEPLOY_IMAGE_FRONTEND'', ''IMAGE_FRONTEND'', ''tokenmarket/frontend:0.1.0'')]"

definition config_image :: "string \<Rightarrow> (string, string) dict \<Rightarrow> string \<times> string \<times> string \<Rightarrow> deploy_error + (string \<times> string)" where
  "config_image mode cfg = (\<lambda>(key, var, preset). let image = (case dict_get cfg var of None \<Rightarrow> preset | Some x \<Rightarrow> x) in
     and_then (sure (\<not> (image = [] \<or> has_part image '':latest'')) Dp_invalid_config) (\<lambda>_.
     if mode = ''prod'' then map_sum id (\<lambda>i. (key, i)) (require_digest_pinned_image image) else Inr (key, image)))"

fun config_images :: "string \<Rightarrow> (string, string) dict \<Rightarrow> (string \<times> string \<times> string) list \<Rightarrow> deploy_error + (string \<times> string) list" where
  "config_images mode cfg [] = Inr []"
| "config_images mode cfg (d # ds) = and_then (config_image mode cfg d) (\<lambda>x. map_sum id (Cons x) (config_images mode cfg ds))"

definition auth_child_defaults :: "(string \<times> string \<times> string) list" where
  "auth_child_defaults =
     [(''TOKENMARKET_DEPLOY_AUTH_BROWSER_ORIGINS'', ''AUTH_BROWSER_ORIGINS'', ''''),
      (''TOKENMARKET_DEPLOY_AUTH_TRUSTED_PROXY_CIDRS'', ''AUTH_TRUSTED_PROXY_CIDRS'', ''''),
      (''TOKENMARKET_DEPLOY_AUTH_SMS_ADAPTER'', ''AUTH_SMS_ADAPTER'', ''''),
      (''TOKENMARKET_DEPLOY_AUTH_DISPATCHER_LEASE_SECONDS'', ''AUTH_DISPATCHER_LEASE_SECONDS'', ''30''),
      (''TOKENMARKET_DEPLOY_AUTH_DISPATCHER_DRAIN_SECONDS'', ''AUTH_DISPATCHER_DRAIN_SECONDS'', ''15''),
      (''TOKENMARKET_DEPLOY_AUTH_DISPATCHER_ENABLED'', ''AUTH_DISPATCHER_ENABLED'', ''1''),
      (''TOKENMARKET_DEPLOY_AUTH_CLEANUP_BATCH_SIZE'', ''AUTH_CLEANUP_BATCH_SIZE'', ''500''),
      (''TOKENMARKET_DEPLOY_AUTH_CLEANUP_MAX_RUNTIME_SECONDS'', ''AUTH_CLEANUP_MAX_RUNTIME_SECONDS'', ''900''),
      (''TOKENMARKET_DEPLOY_AUTH_TLS_READY'', ''AUTH_TLS_READY'', ''false'')]"

definition auth_deploy_child_env :: "(string, string) dict \<Rightarrow> (string \<times> string) list" where
  "auth_deploy_child_env raw = map (\<lambda>(child, var, preset).
     (child, case dict_get raw var of None \<Rightarrow> preset | Some v \<Rightarrow> py_strip v)) auth_child_defaults"

text \<open>\<^verbatim>\<open>quote(text, safe="")\<close>\<close>

definition upper_hex :: "nat \<Rightarrow> char" where
  "upper_hex n = (if n < 10 then char_of (48 + n) else char_of (55 + n))"

definition quote_byte :: "8 word \<Rightarrow> string" where
  "quote_byte b = (let n = unat b in
     if 48 \<le> n \<and> n \<le> 57 \<or> 65 \<le> n \<and> n \<le> 90 \<or> 97 \<le> n \<and> n \<le> 122 \<or> n \<in> {45, 46, 95, 126} then [char_of n]
     else [CHR ''%'', upper_hex (n div 16), upper_hex (n mod 16)])"

definition url_quote :: "string \<Rightarrow> string" where
  "url_quote s = concat (map quote_byte (utf8_encode s))"

definition app_database_url :: "string \<Rightarrow> string \<Rightarrow> string \<Rightarrow> string" where
  "app_database_url user password db =
     ''postgresql://'' @ url_quote user @ '':'' @ url_quote password @ ''@postgres:5432/'' @ db"

definition set_all :: "(string \<times> string) list \<Rightarrow> (string, string) dict \<Rightarrow> (string, string) dict" where
  "set_all kvs d = foldl (\<lambda>d (k, v). dict_set k v d) d kvs"

definition load_deploy_config :: "deploy_world \<Rightarrow> mode_selection \<Rightarrow> deploy_error + deploy_config" where
  "load_deploy_config w sel = (let mode = ms_mode sel in
     and_then (sure (mode \<in> {''test'', ''prod''}) Dp_invalid_mode) (\<lambda>_.
     and_then (parse_dotenv w (dw_root w @ ''/'' @ config_file mode)) (\<lambda>raw.
     let user = or_str (dict_get raw ''POSTGRES_USER'') ''tm_deploy''; db = or_str (dict_get raw ''POSTGRES_DB'') ''tokenmarket'' in
     and_then (config_secret raw ''POSTGRES_PASSWORD'') (\<lambda>password.
     and_then (config_secret raw ''REDIS_PASSWORD'') (\<lambda>redis.
     and_then (config_secret raw ''GRAFANA_ADMIN_PASSWORD'') (\<lambda>grafana.
     and_then (config_images mode raw image_defaults) (\<lambda>images.
     Inr \<lparr>dc_mode = mode, dc_project = project_name mode,
       dc_child_env = set_all ([(''TOKENMARKET_DEPLOY_ENVIRONMENT'', mode), (''TOKENMARKET_DEPLOY_POSTGRES_USER'', user),
         (''TOKENMARKET_DEPLOY_POSTGRES_DB'', db), (''TOKENMARKET_DEPLOY_POSTGRES_PASSWORD'', password),
         (''TOKENMARKET_DEPLOY_REDIS_CONFIG'', ''requirepass '' @ redis), (''TOKENMARKET_DEPLOY_GRAFANA_ADMIN_PASSWORD'', grafana),
         (''TOKENMARKET_DEPLOY_POSTGRES_HOST_PORT'', config_port raw ''POSTGRES_HOST_PORT'' ''5432''),
         (''TOKENMARKET_DEPLOY_REDIS_HOST_PORT'', config_port raw ''REDIS_HOST_PORT'' ''6379''),
         (''TOKENMARKET_DEPLOY_GRAFANA_HOST_PORT'', config_port raw ''GRAFANA_HOST_PORT'' ''3000''),
         (''TOKENMARKET_DEPLOY_GATEWAY_HOST_PORT'', config_port raw ''GATEWAY_HOST_PORT'' ''8080''),
         (''TOKENMARKET_DEPLOY_API_HOST_PORT'', config_port raw ''API_HOST_PORT'' ''8000''),
         (''TOKENMARKET_DEPLOY_BILLING_HOST_PORT'', config_port raw ''BILLING_HOST_PORT'' ''8001''),
         (''TOKENMARKET_DEPLOY_ADMIN_HOST_PORT'', config_port raw ''ADMIN_HOST_PORT'' ''8002''),
         (''TOKENMARKET_DEPLOY_FRONTEND_HOST_PORT'', config_port raw ''FRONTEND_HOST_PORT'' ''3080''),
         (''TOKENMARKET_DEPLOY_APP_DATABASE_URL'', app_database_url user password db)]
         @ images @ auth_deploy_child_env raw) (ae_environ (dw_env w)),
       dc_images = map snd images\<rparr>)))))))"

subsection \<open>Docker\<close>

definition compose_file :: "deploy_world \<Rightarrow> string" where
  "compose_file w = dw_root w @ ''/infra/docker/compose.deploy.yml''"

definition compose :: "deploy_world \<Rightarrow> string \<Rightarrow> string list \<Rightarrow> unit deploy_op" where
  "compose w project args =
     bindE (require (is_file w (compose_file w)) (DeployError Dp_contract_drift)) (\<lambda>_. docker_runs (Docker_compose project args))"

definition ensure_docker :: "deploy_world \<Rightarrow> unit deploy_op" where
  "ensure_docker w =
     bindE (require (dw_cli w) (DeployError Dp_tool_missing)) (\<lambda>_.
     bindE (docker_runs Docker_info) (\<lambda>_. require (dw_docker w) (DeployError Dp_tool_missing)))"

definition ensure_app_images :: "deploy_world \<Rightarrow> string list \<Rightarrow> unit deploy_op" where
  "ensure_app_images w images =
     bindE (for_each (\<lambda>i. docker_runs (Docker_inspect i)) images) (\<lambda>_.
     require (list_all (dw_image w) images) (DeployError Dp_image_unavailable))"

subsection \<open>Deploy\<close>

definition deploy_run_id :: "approval_env \<Rightarrow> string" where
  "deploy_run_id v = py_strip (or_str (dict_get (ae_environ v) ''TOKENMARKET_DEPLOY_RUN_ID'') (or_str (dict_get (ae_environ v) ''GITHUB_RUN_ID'') []))"

text \<open>Whether the tree is dirty, and the commit; None where \<^verbatim>\<open>git\<close> fails.\<close>

definition checkout :: "deploy_world \<Rightarrow> (bool \<times> string) option" where
  "checkout w = (case (dw_clean w, dw_head w) of (Some clean, Some head) \<Rightarrow> Some (\<not> clean, head) | _ \<Rightarrow> None)"

definition approving :: "'a approval_op \<Rightarrow> 'a deploy_op" where
  "approving m = (\<lambda>s. case m (dy_nonces s) of
       (Inl e, n) \<Rightarrow> (Inl (Deploy_mode e), s\<lparr>dy_nonces := n\<rparr>) | (Inr x, n) \<Rightarrow> (Inr x, s\<lparr>dy_nonces := n\<rparr>))"

definition production_ask :: "string \<Rightarrow> string \<Rightarrow> release_report option \<Rightarrow> bool \<Rightarrow> deploy_config \<Rightarrow> production_request" where
  "production_ask head run_id report dirty cfg = \<lparr>pq_hmac_key = None, pq_operator = None, pq_action = Some ''deploy'',
     pq_target = Some (dc_project cfg), pq_digests = Some (dc_images cfg), pq_commit = Some head,
     pq_run = (if run_id = [] then None else Some run_id), pq_manifest = map_option rr_sha256 report, pq_dirty = dirty,
     pq_dir = None\<rparr>"

text \<open>The checks of production: the configuration and the report on the release of authentication.\<close>

definition production_gate :: "deploy_world \<Rightarrow> instant \<Rightarrow> mode_selection \<Rightarrow> (deploy_config \<times> release_report option) deploy_op" where
  "production_gate w now sel =
     (case checkout w of
        None \<Rightarrow> throw (DeployError Dp_dirty_tree)
      | Some (dirty, head) \<Rightarrow>
        (let run_id = deploy_run_id (dw_env w) in
         bindE (require (\<not> dirty) (DeployError Dp_dirty_tree)) (\<lambda>_.
         bindE (require (run_id \<noteq> []) (DeployError Dp_approval_required)) (\<lambda>_.
         bindE (of_sum (load_deploy_config w sel)) (\<lambda>cfg.
         bindE (of_sum (case auth_release_manifest_from_env (dw_env w) of
             None \<Rightarrow> Inr None
           | Some m \<Rightarrow> map_sum id Some (verify_auth_release_manifest w m (ms_mode sel) (Some head)))) (\<lambda>report.
         let raw = or_str (dict_get (ae_environ (dw_env w)) ''TOKENMARKET_PROD_APPROVAL'') [] in
         bindE (of_sum (if raw = [] then Inr None
             else case dw_proof w raw of None \<Rightarrow> Inl Deploy_other | Some p \<Rightarrow> Inr (Some p))) (\<lambda>proof.
         bindE (approving (require_production_approval (dw_env w) now (production_ask head run_id report dirty cfg) proof sel)) (\<lambda>_.
         bindE (verify_approved_digests w (dc_images cfg)) (\<lambda>_.
         ret (cfg, report))))))))))"

text \<open>A configured manifest is verified here, if the checks of production have not done so.\<close>

definition manifest_gate :: "deploy_world \<Rightarrow> mode_selection \<Rightarrow> release_report option \<Rightarrow> deploy_error + unit" where
  "manifest_gate w sel report = (case auth_release_manifest_from_env (dw_env w) of
       Some m \<Rightarrow> if report = None then map_sum id (\<lambda>_. ()) (verify_auth_release_manifest w m (ms_mode sel) None) else Inr ()
     | None \<Rightarrow> Inr ())"

definition bring_up :: "deploy_world \<Rightarrow> mode_selection \<Rightarrow> deploy_config option \<Rightarrow> unit deploy_op" where
  "bring_up w sel ready =
     bindE (ensure_docker w) (\<lambda>_.
     bindE (of_sum (case ready of Some cfg \<Rightarrow> Inr cfg | None \<Rightarrow> load_deploy_config w sel)) (\<lambda>cfg.
     bindE (ensure_app_images w (dc_images cfg)) (\<lambda>_.
     bindE (compose w (dc_project cfg) [''pull'', ''postgres'', ''redis'', ''grafana'']) (\<lambda>_.
     bindE (compose w (dc_project cfg) [''up'', ''-d'', ''--remove-orphans'', ''--pull'', ''missing'']) (\<lambda>_.
     bindE (require (dw_up w) (DeployError Dp_step_failed)) (\<lambda>_.
     require (dw_ready w) (DeployError Dp_not_ready)))))))"

definition select_mode :: "string option \<Rightarrow> string \<Rightarrow> deploy_error + mode_selection" where
  "select_mode mode origin = (case validate_mode mode origin of Inl e \<Rightarrow> Inl (Deploy_mode e) | Inr x \<Rightarrow> Inr x)"

definition deploy_inner :: "deploy_world \<Rightarrow> instant \<Rightarrow> string option \<Rightarrow> string \<Rightarrow> unit deploy_op" where
  "deploy_inner w now mode origin =
     bindE (of_sum (select_mode mode origin)) (\<lambda>sel.
     bindE (require (\<not> (ms_mode sel = ''local'' \<or> \<not> truthy mode)) (DeployError Dp_invalid_mode)) (\<lambda>_.
     bindE (if ms_mode sel = ''prod'' then bindE (production_gate w now sel) (\<lambda>(cfg, report). ret (Some cfg, report))
            else ret (None, None)) (\<lambda>(ready, report).
     bindE (of_sum (manifest_gate w sel report)) (\<lambda>_.
     bring_up w sel ready))))"

text \<open>The exit code; other exceptions escape.\<close>

definition exit_code :: "unit deploy_op \<Rightarrow> int deploy_op" where
  "exit_code m = catch_op (bindE m (\<lambda>_. ret 0)) (\<lambda>e. case e of
       DeployError _ \<Rightarrow> ret 1 | Deploy_mode (ModeError _) \<Rightarrow> ret 1 | _ \<Rightarrow> throw e)"

definition deploy_up :: "deploy_world \<Rightarrow> instant \<Rightarrow> string option \<Rightarrow> string \<Rightarrow> int deploy_op" where
  "deploy_up w now mode origin = exit_code (deploy_inner w now mode origin)"

subsection \<open>Take down\<close>

definition no_request :: production_request where
  "no_request = \<lparr>pq_hmac_key = None, pq_operator = None, pq_action = None, pq_target = None, pq_digests = None, pq_commit = None,
     pq_run = None, pq_manifest = None, pq_dirty = False, pq_dir = None\<rparr>"

definition deploy_down :: "deploy_world \<Rightarrow> instant \<Rightarrow> string option \<Rightarrow> string \<Rightarrow> int deploy_op" where
  "deploy_down w now mode origin = exit_code
     (bindE (of_sum (select_mode mode origin)) (\<lambda>sel.
      bindE (require (ms_mode sel \<in> {''test'', ''prod''}) (DeployError Dp_invalid_mode)) (\<lambda>_.
      bindE (approving (require_production_approval (dw_env w) now no_request None sel)) (\<lambda>sel.
      bindE (ensure_docker w) (\<lambda>_.
      bindE (of_sum (case load_deploy_config w sel of
          Inr cfg \<Rightarrow> Inr (dc_project cfg) | Inl (DeployError _) \<Rightarrow> Inr (project_name (ms_mode sel)) | Inl e \<Rightarrow> Inl e)) (\<lambda>project.
      bindE (compose w project [''down'', ''--remove-orphans'']) (\<lambda>_.
      require (dw_down w) (DeployError Dp_step_failed))))))))"

end
