(* ===== verification/Edge_Facts.thy ===== *)
theory Edge_Facts
  imports Edge Auth_Samples
begin

section \<open>What the edge promises\<close>

text \<open>
  A client cannot forge its address, registrations are limited, a guarded write carries the CSRF token of its
  session, and the secrets of the process are well formed.
\<close>

subsection \<open>The address of the client\<close>

lemma split_on_nonempty: "split_on d s \<noteq> []"
  by (cases s) (auto split: list.split)

lemma split_on_append: "split_on d (a @ d # b) = split_on d a @ split_on d b"
proof (induction a)
  case (Cons ch a)
  obtain p ps where "split_on d a = p # ps" using split_on_nonempty by (cases "split_on d a") auto
  with Cons show ?case by simp
qed simp

text \<open>A hop at which the search from the right ends.\<close>

definition stops :: "iplib \<Rightarrow> string list \<Rightarrow> string \<Rightarrow> bool" where
  "stops lib networks part \<longleftrightarrow> (case normalize_ip lib (py_strip part) of None \<Rightarrow> True | Some hop \<Rightarrow> \<not> is_trusted lib networks hop)"

lemma last_hop_stops:
  "\<exists>p \<in> set ps. stops lib networks p \<Longrightarrow>
   last_hop lib networks chosen (map py_strip ps @ rest) = last_hop lib networks chosen (map py_strip ps)"
  by (induction ps arbitrary: chosen) (auto simp: stops_def split: option.splits)

lemma strip_blank: "py_strip s = [] \<longleftrightarrow> (\<forall>x \<in> set s. py_isspace x)"
proof
  assume "py_strip s = []"
  then have all: "\<forall>x \<in> set (dropWhile py_isspace s). py_isspace x" by (simp add: py_strip_def)
  have "dropWhile py_isspace s = []"
  proof (rule ccontr)
    assume "dropWhile py_isspace s \<noteq> []"
    then show False using all hd_dropWhile hd_in_set by metis
  qed
  then show "\<forall>x \<in> set s. py_isspace x" by simp
qed (auto simp: py_strip_def dest: set_dropWhileD)

lemma strip_comma: "py_strip (a @ CHR '','' # b) \<noteq> []"
proof -
  have "\<not> py_isspace (CHR '','')" by (simp add: py_isspace_def)
  then show ?thesis by (auto simp: strip_blank)
qed

text \<open>C5 (safety). The client cannot choose its address. Whoever connects without being a trusted proxy is known by the address
  of the connection, whatever the header says; and behind trusted proxies nothing that a client puts in front of the
  part of the header that the proxies wrote, up to the first hop that is no trusted proxy, has any influence.\<close>

theorem client_ip_not_forged:
  assumes "\<exists>p \<in> set (split_on (CHR '','') seen). stops lib (parse_networks lib cidrs) p"
  shows "resolve_client_ip lib peer (Some (forged @ '','' @ seen)) cidrs = resolve_client_ip lib peer (Some seen) cidrs \<and>
    (\<forall>ip. truthy peer \<longrightarrow> normalize_ip lib (the peer) = Some ip \<longrightarrow> \<not> is_trusted lib (parse_networks lib cidrs) ip \<longrightarrow>
      resolve_client_ip lib peer (Some forged) cidrs = ip)"
proof
  let ?n = "parse_networks lib cidrs" and ?hops = "\<lambda>s. rev (map py_strip (split_on (CHR '','') s))"
    and ?full = "forged @ CHR '','' # seen"
  have "\<exists>p \<in> set (rev (split_on (CHR '','') seen)). stops lib ?n p" using assms by simp
  from last_hop_stops[OF this]
  have same: "last_hop lib ?n ip (?hops ?full) = last_hop lib ?n ip (?hops seen)" for ip
    by (simp only: split_on_append map_append rev_append rev_map)
  have blank: "last_hop lib ?n ip (?hops seen) = ip" if "py_strip seen = []" for ip
  proof -
    have "\<not> py_isspace (CHR '','')" by (simp add: py_isspace_def)
    then have "CHR '','' \<notin> set seen" using that by (auto simp: strip_blank)
    then have "split_on (CHR '','') seen = [seen]" by (induction seen) auto
    moreover have "py_strip [] = []" by (simp add: py_strip_def)
    ultimately show ?thesis by (simp add: that normalize_ip_def)
  qed
  have full: "forged @ '','' @ seen = ?full" "seen = [] \<Longrightarrow> py_strip seen = []" by (simp_all add: py_strip_def)
  show "resolve_client_ip lib peer (Some (forged @ '','' @ seen)) cidrs = resolve_client_ip lib peer (Some seen) cidrs"
  proof (cases "if truthy peer then normalize_ip lib (the peer) else None")
    case (Some ip)
    show ?thesis unfolding full(1) resolve_client_ip_def Let_def Some
      using strip_comma[of forged seen] full(2) by (cases "py_strip seen = []") (auto simp: same blank simp del: last_hop.simps split_on.simps)
  next
    case None
    show ?thesis unfolding resolve_client_ip_def Let_def None by simp
  qed
  show "\<forall>ip. truthy peer \<longrightarrow> normalize_ip lib (the peer) = Some ip \<longrightarrow> \<not> is_trusted lib ?n ip \<longrightarrow>
      resolve_client_ip lib peer (Some forged) cidrs = ip"
    by (simp add: resolve_client_ip_def)
qed

subsection \<open>The limits of registration\<close>

definition allowed_count :: "(string \<times> string option \<Rightarrow> bool) \<Rightarrow> (string \<times> string option) list \<Rightarrow> reg_decision list \<Rightarrow> int" where
  "allowed_count P calls ds = int (length (filter (\<lambda>(c, d). P c \<and> d = Reg_allowed) (zip calls ds)))"

lemma counted_set [simp]: "counted (dict_set k v d) j = (if j = k then v else counted d j)"
  by (simp add: counted_def)

lemma allowed_within:
  assumes "memory_checks l calls s = (ds, t)"
  shows "allowed_count (\<lambda>c. fst c = ip) calls ds \<le> max 0 (rg_ip_limit l - counted (rg_ip s) ip) \<and>
    allowed_count (\<lambda>c. snd c = Some p) calls ds \<le> max 0 (rg_phone_limit l - counted (rg_phone s) p)"
  using assms
proof (induction calls arbitrary: s ds t)
  case (Cons c calls)
  obtain i ph where c: "c = (i, ph)" by (cases c)
  obtain d s1 where one: "memory_check l i ph s = (d, s1)" by fastforce
  obtain es where rest: "memory_checks l calls s1 = (es, t)" and ds: "ds = d # es"
    using Cons.prems by (auto simp: c one split: prod.splits)
  have step: "allowed_count P (c # calls) ds = (if P c \<and> d = Reg_allowed then 1 else 0) + allowed_count P calls es" for P
    by (simp add: allowed_count_def ds)
  from Cons.IH[OF rest] one show ?case unfolding step unfolding c
    by (auto simp: memory_check_def Let_def split: if_splits option.splits)
qed (simp add: allowed_count_def)

text \<open>The counts of Redis, read through its keys, as the dictionaries of the memory limiter.\<close>

definition counts_like :: "('r \<Rightarrow> string \<Rightarrow> int) \<Rightarrow> 'r \<Rightarrow> reg_counts \<Rightarrow> bool" where
  "counts_like at_key r s \<longleftrightarrow> (\<forall>ip. at_key r (''reg:rl:ip:'' @ ip) = counted (rg_ip s) ip) \<and>
     (\<forall>p. at_key r (''reg:rl:phone:'' @ p) = counted (rg_phone s) p)"

text \<open>Within the window, the counter of a key goes up by one and no other moves.\<close>

definition increments :: "('r \<Rightarrow> string \<Rightarrow> int) \<Rightarrow> ('r \<Rightarrow> string \<Rightarrow> (int \<times> 'r) option) \<Rightarrow> bool" where
  "increments at_key incr \<longleftrightarrow> (\<forall>r k. \<exists>r'. incr r k = Some (at_key r k + 1, r') \<and>
     (\<forall>j. at_key r' j = (if j = k then at_key r k + 1 else at_key r j)))"

lemma redis_check_like:
  assumes "increments at_key incr" "counts_like at_key r s"
  shows "\<exists>r'. redis_check incr l ip phone r = Some (fst (memory_check l ip phone s), r') \<and>
    counts_like at_key r' (snd (memory_check l ip phone s))"
proof -
  have inc: "\<exists>r'. incr r k = Some (at_key r k + 1, r') \<and> (\<forall>j. at_key r' j = (if j = k then at_key r k + 1 else at_key r j))" for r k
    using assms(1) by (simp add: increments_def)
  obtain r1 where r1: "incr r (''reg:rl:ip:'' @ ip) = Some (counted (rg_ip s) ip + 1, r1)"
    "counts_like at_key r1 (s\<lparr>rg_ip := dict_set ip (counted (rg_ip s) ip + 1) (rg_ip s)\<rparr>)"
    using inc[of r "''reg:rl:ip:'' @ ip"] assms(2) by (fastforce simp: counts_like_def)
  show ?thesis
  proof (cases phone)
    case None
    with r1 show ?thesis by (simp add: redis_check_def memory_check_def Let_def)
  next
    case (Some p)
    obtain r2 where "incr r1 (''reg:rl:phone:'' @ p) = Some (counted (rg_phone s) p + 1, r2)"
      "counts_like at_key r2 (s\<lparr>rg_ip := dict_set ip (counted (rg_ip s) ip + 1) (rg_ip s),
         rg_phone := dict_set p (counted (rg_phone s) p + 1) (rg_phone s)\<rparr>)"
      using inc[of r1 "''reg:rl:phone:'' @ p"] r1(2) by (fastforce simp: counts_like_def)
    with r1 Some show ?thesis by (simp add: redis_check_def memory_check_def Let_def)
  qed
qed

lemma redis_checks_like:
  "increments at_key incr \<Longrightarrow> counts_like at_key r s \<Longrightarrow>
   \<exists>r'. redis_checks incr l calls r = Some (fst (memory_checks l calls s), r')"
proof (induction calls arbitrary: r s)
  case (Cons c calls)
  obtain ip phone where c: "c = (ip, phone)" by (cases c)
  from redis_check_like[OF Cons.prems, of l ip phone] obtain r1 where
    r1: "redis_check incr l ip phone r = Some (fst (memory_check l ip phone s), r1)" "counts_like at_key r1 (snd (memory_check l ip phone s))"
    by blast
  from Cons.IH[OF Cons.prems(1) r1(2)] show ?case by (auto simp: c r1(1) split: prod.splits)
qed simp

text \<open>Within one window the limiter of production decides as the one in memory does, call by call,
  and both let an address through at most as often as its limit says, and a phone number likewise.\<close>

theorem registration_limited:
  assumes "increments at_key incr" and "counts_like at_key r \<lparr>rg_ip = [], rg_phone = []\<rparr>"
    and "0 \<le> rg_ip_limit l" and "0 \<le> rg_phone_limit l"
  shows "\<exists>ds r' t. redis_checks incr l calls r = Some (ds, r') \<and> memory_checks l calls \<lparr>rg_ip = [], rg_phone = []\<rparr> = (ds, t) \<and>
    (\<forall>ip. allowed_count (\<lambda>c. fst c = ip) calls ds \<le> rg_ip_limit l) \<and>
    (\<forall>p. allowed_count (\<lambda>c. snd c = Some p) calls ds \<le> rg_phone_limit l)"
proof -
  obtain ds t where m: "memory_checks l calls \<lparr>rg_ip = [], rg_phone = []\<rparr> = (ds, t)" by fastforce
  from redis_checks_like[OF assms(1,2)] m obtain r' where "redis_checks incr l calls r = Some (ds, r')" by (metis fst_conv)
  moreover have "allowed_count (\<lambda>c. fst c = ip) calls ds \<le> rg_ip_limit l \<and> allowed_count (\<lambda>c. snd c = Some p) calls ds \<le> rg_phone_limit l" for ip p
    using allowed_within[OF m, of ip p] assms(3,4) by (simp add: counted_def)
  ultimately show ?thesis using m by blast
qed

subsection \<open>Writes with a cookie\<close>

definition csrf_issued :: "cryptolib \<Rightarrow> hmac_keys \<Rightarrow> uuid \<Rightarrow> string option \<Rightarrow> bool" where
  "csrf_issued c mat sid presented \<longleftrightarrow> (\<exists>ver key tok. resolve_key mat ver = Some key \<and>
     issue_csrf_token c key ver sid = Inr tok \<and> presented = Some tok)"

lemma verified_csrf: "verify_csrf_token c key ver sid p = Inr True \<Longrightarrow> issue_csrf_token c key ver sid = Inr p"
  by (auto simp: verify_csrf_token_def split: option.splits sum.splits if_splits prod.splits)

lemma csrf_known_issued: "csrf_known c mat sid presented vs = Inr True \<Longrightarrow> csrf_issued c mat sid presented"
proof (induction vs)
  case (Cons v vs)
  show ?case
  proof (cases "resolve_key mat v = None \<or> \<not> truthy presented")
    case False
    then obtain key p where kp: "resolve_key mat v = Some key" "presented = Some p" by (cases presented) auto
    with Cons show ?thesis
      by (auto simp: csrf_issued_def split: sum.splits if_splits dest!: verified_csrf)
  qed (use Cons in auto)
qed simp

lemma guard_passed:
  assumes "guard_cookie_mutation lib c mat origins q session_id = Inr None"
  shows "(\<forall>form \<in> set form_types. \<not> has_part (py_lower (or_str (wq_content_type q) [])) form) \<and>
    (truthy (wq_cookie q) \<longrightarrow>
      (\<exists>n ns. normalize_origin lib (or_str (wq_origin q) []) = Inr (Some n) \<and>
         normalize_origins lib (allowed_origins origins) = Inr ns \<and> n \<in> set ns) \<and>
      (\<exists>sid. session_id = Some sid \<and> csrf_issued c mat sid (wq_csrf q)))"
proof -
  have json: "\<not> list_ex (has_part (py_lower (or_str (wq_content_type q) []))) form_types"
    using assms by (auto simp: guard_cookie_mutation_def split: if_splits)
  have "(\<exists>n ns. normalize_origin lib (or_str (wq_origin q) []) = Inr (Some n) \<and>
         normalize_origins lib (allowed_origins origins) = Inr ns \<and> n \<in> set ns) \<and>
      (\<exists>sid. session_id = Some sid \<and> csrf_issued c mat sid (wq_csrf q))" if cookie: "truthy (wq_cookie q)"
  proof -
    from assms json cookie obtain sid where ok: "origin_allowed lib (wq_origin q) (allowed_origins origins) = Inr True"
      and sid: "session_id = Some sid" "csrf_known c mat sid (wq_csrf q) (csrf_versions mat) = Inr True"
      by (auto simp: guard_cookie_mutation_def map_sum_def split: sum.splits if_splits option.splits)
    from ok have "\<exists>n ns. normalize_origin lib (or_str (wq_origin q) []) = Inr (Some n) \<and>
         normalize_origins lib (allowed_origins origins) = Inr ns \<and> n \<in> set ns"
      by (auto simp: origin_allowed_def map_sum_def split: sum.splits option.splits)
    with sid csrf_known_issued show ?thesis by blast
  qed
  then show ?thesis using json by (auto simp: list_ex_iff)
qed

text \<open>C3 (safety). A write with a session cookie passes the guard only from an origin on the list, in normal form, with the CSRF token
  that was issued for this very session under a key in use, and never as a form.\<close>

theorem guarded_write:
  assumes "guard_cookie_mutation lib c mat origins q session_id = Inr None"
  shows "(\<forall>form \<in> set form_types. \<not> has_part (py_lower (or_str (wq_content_type q) [])) form) \<and>
    (truthy (wq_cookie q) \<longrightarrow>
      (\<exists>n ns. normalize_origin lib (or_str (wq_origin q) []) = Inr (Some n) \<and>
         normalize_origins lib (allowed_origins origins) = Inr ns \<and> n \<in> set ns) \<and>
      (\<exists>sid. session_id = Some sid \<and> csrf_issued c mat sid (wq_csrf q)))"
  by (rule guard_passed[OF assms])

subsection \<open>Secrets of the process\<close>

lemma hex_digit_back: "n < 16 \<Longrightarrow> hex_value (hex_digit n) = n \<and> is_hex (hex_digit n) \<and> \<not> py_isspace (hex_digit n)"
  by (simp add: hex_value_def hex_digit_def is_hex_def py_isspace_def)

lemma byte_lt: "unat (x :: 8 word) < 256"
  using unsigned_less[of x] by simp

lemma from_hex_digest: "from_hex (hexdigest b) = b"
proof (induction b)
  case (Cons x b)
  have "unat x div 16 < 16" "unat x mod 16 < 16" using byte_lt[of x] by auto
  then show ?case using Cons by (simp add: hexdigest_def hex_digit_back)
qed (simp add: hexdigest_def)

lemma loaded_secret: "load_shared_secret_bytes raw = Inr b \<Longrightarrow> 32 \<le> length b"
  by (auto simp: load_shared_secret_bytes_def Let_def min_secret_bytes_def split: if_splits)

lemma loaded_version: "load_seller_key_version raw = Inr v \<Longrightarrow> v \<in> {''v1'', ''v2''}"
  by (auto simp: load_seller_key_version_def Let_def allowed_key_versions_def split: if_splits)

lemma loaded_previous:
  "load_seller_previous_keys env = Inr prev \<Longrightarrow> prev = [] \<or> (\<exists>v b. prev = [(v, b)] \<and> v \<in> {''v1'', ''v2''} \<and> 32 \<le> length b)"
  by (auto simp: load_seller_previous_keys_def Let_def map_sum_def split: if_splits sum.splits dest!: loaded_secret loaded_version)

lemma and_then_Inr: "and_then r f = Inr y \<longleftrightarrow> (\<exists>x. r = Inr x \<and> f x = Inr y)"
  by (auto simp: and_then_def split: sum.splits)

text \<open>C6 (type). What the process accepts as its secrets is well formed: no secret has fewer than 32 bytes, the current key version is known,
  the previous key, if any, has the other version; and the encryptor is built from them, holding exactly
  these keys and sealing with the current one.\<close>

theorem process_secrets_formed:
  assumes "load_process_shared_secrets env = Inr s"
  shows "32 \<le> length (ps_material s) \<and> 32 \<le> length (ps_fingerprint s) \<and> 32 \<le> length (ps_pepper s) \<and>
    ps_version s \<in> {''v1'', ''v2''} \<and>
    (\<forall>v b. (v, b) \<in> set (ps_previous s) \<longrightarrow> v \<in> {''v1'', ''v2''} - {ps_version s} \<and> 32 \<le> length b) \<and>
    (\<exists>e. new_encryptor (ps_material s) (ps_version s) (ps_previous s) = Inr e \<and> en_version e = ps_version s \<and>
       key_material e None = Inr (ps_material s) \<and> known_versions e = insert (ps_version s) (fst ` set (ps_previous s)))"
proof -
  from assms obtain prev where s: "32 \<le> length (ps_material s)" "32 \<le> length (ps_fingerprint s)" "32 \<le> length (ps_pepper s)"
    "ps_version s \<in> {''v1'', ''v2''}" "ps_previous s = dict_del (ps_version s) prev"
    and prev: "prev = [] \<or> (\<exists>v b. prev = [(v, b)] \<and> v \<in> {''v1'', ''v2''} \<and> 32 \<le> length b)"
    unfolding load_process_shared_secrets_def and_then_Inr
    by (auto dest!: loaded_secret loaded_version loaded_previous)
  then have "ps_previous s = [] \<or> (\<exists>v b. ps_previous s = [(v, b)] \<and> v \<in> {''v1'', ''v2''} - {ps_version s} \<and> 32 \<le> length b)"
    by (auto simp: dict_del_def)
  then show ?thesis
    using s(1-4) by (auto simp: new_encryptor_def key_material_def known_versions_def or_str_def dict_set_Cons dict_set_new)
qed

end
