(* ===== verification/Approval_Facts.thy ===== *)
theory Approval_Facts
  imports Approval Edge_Facts
begin

section \<open>What a production approval promises\<close>

text \<open>
  The canonical text of an approval determines what it says, a production check accepts only what was
  signed, once per nonce in a directory of marks, and an approval issued by the tool is accepted.
\<close>

subsection \<open>The signed text says what is approved\<close>

lemma hex_char_inj: "a < 16 \<Longrightarrow> b < 16 \<Longrightarrow> hex_char a = hex_char b \<Longrightarrow> a = b"
  by (auto simp: hex_char_def split: if_splits dest!: arg_cong[where f = "of_char :: char \<Rightarrow> nat"])

lemma char_number_eq: "(of_char c :: nat) = of_char d \<longleftrightarrow> c = d"
  by (rule of_char_eq_iff)

lemma escaped_inj:
  fixes c d :: char
  assumes "hex_char (of_char c div 16) = hex_char (of_char d div 16)" "hex_char (of_char c mod 16) = hex_char (of_char d mod 16)"
  shows "c = d"
proof -
  have "x < 256 \<Longrightarrow> x div 16 < 16" for x :: nat by presburger
  then have "(of_char c :: nat) div 16 < 16" "(of_char d :: nat) div 16 < 16" using nat_of_char_less_256 by auto
  with assms have "(of_char c :: nat) div 16 = of_char d div 16" "(of_char c :: nat) mod 16 = of_char d mod 16"
    by (auto intro: hex_char_inj)
  then have "(of_char c :: nat) = of_char d" by (metis div_mult_mod_eq)
  then show ?thesis by (simp add: char_number_eq)
qed

text \<open>The character an escape of two characters stands for.\<close>

definition unescaped :: "char \<Rightarrow> char" where
  "unescaped e = (if e = CHR ''n'' then CHR 0x0A else if e = CHR ''r'' then CHR 0x0D else if e = CHR ''t'' then CHR 0x09
     else if e = CHR ''b'' then CHR 0x08 else if e = CHR ''f'' then CHR 0x0C else e)"

lemma json_char_cases:
  obtains "json_char c = [c]" "c \<noteq> CHR 0x22" "c \<noteq> CHR 0x5C"
  | e where "json_char c = [CHR 0x5C, e]" "e \<noteq> CHR ''u''" "c = unescaped e"
  | "json_char c = [CHR 0x5C, CHR ''u'', CHR ''0'', CHR ''0'', hex_char (of_char c div 16), hex_char (of_char c mod 16)]"
proof -
  consider "c = CHR 0x22" | "c = CHR 0x5C" | "c = CHR 0x0A" | "c = CHR 0x0D" | "c = CHR 0x09" | "c = CHR 0x08" | "c = CHR 0x0C"
    | "c \<notin> {CHR 0x22, CHR 0x5C, CHR 0x0A, CHR 0x0D, CHR 0x09, CHR 0x08, CHR 0x0C}" by blast
  then show thesis
  proof cases
    case 1
    then show thesis by (intro that(2)[of "CHR 0x22"]) (simp_all add: json_char_def unescaped_def)
  next
    case 2
    then show thesis by (intro that(2)[of "CHR 0x5C"]) (simp_all add: json_char_def unescaped_def)
  next
    case 3
    then show thesis by (intro that(2)[of "CHR ''n''"]) (simp_all add: json_char_def unescaped_def)
  next
    case 4
    then show thesis by (intro that(2)[of "CHR ''r''"]) (simp_all add: json_char_def unescaped_def)
  next
    case 5
    then show thesis by (intro that(2)[of "CHR ''t''"]) (simp_all add: json_char_def unescaped_def)
  next
    case 6
    then show thesis by (intro that(2)[of "CHR ''b''"]) (simp_all add: json_char_def unescaped_def)
  next
    case 7
    then show thesis by (intro that(2)[of "CHR ''f''"]) (simp_all add: json_char_def unescaped_def)
  next
    case 8
    let ?n = "of_char c :: nat"
    have "?n \<notin> {34, 92, 10, 13, 9, 8, 12}" using 8 by (auto simp: char_number_eq[symmetric])
    with 8 that(1) that(3) show thesis by (cases "?n < 32 \<or> 126 < ?n") (auto simp: json_char_def Let_def)
  qed
qed

lemma json_char_prefix: "json_char c @ x = json_char d @ y \<Longrightarrow> c = d \<and> x = y"
  by (rule json_char_cases[of c]; rule json_char_cases[of d]) (auto dest: escaped_inj)

lemma json_char_quote: "json_char c @ x \<noteq> CHR 0x22 # y"
  by (rule json_char_cases[of c]) auto

lemma json_quoted_prefix:
  "concat (map json_char s) @ CHR 0x22 # x = concat (map json_char t) @ CHR 0x22 # y \<Longrightarrow> s = t \<and> x = y"
proof (induction s arbitrary: t)
  case Nil
  show ?case
  proof (cases t)
    case (Cons d u)
    with Nil.prems json_char_quote[of d "concat (map json_char u) @ CHR 0x22 # y" x] show ?thesis by simp
  qed (use Nil.prems in simp)
next
  case (Cons c s)
  show ?case
  proof (cases t)
    case Nil
    with Cons.prems json_char_quote[of c "concat (map json_char s) @ CHR 0x22 # x" y] show ?thesis by simp
  next
    case (Cons d u)
    with Cons.prems have "json_char c @ concat (map json_char s) @ CHR 0x22 # x = json_char d @ concat (map json_char u) @ CHR 0x22 # y"
      by simp
    from json_char_prefix[OF this] Cons.IH show ?thesis by (auto simp: Cons)
  qed
qed

lemma json_string_prefix: "json_string s @ x = json_string t @ y \<Longrightarrow> s = t \<and> x = y"
proof -
  assume "json_string s @ x = json_string t @ y"
  then have "concat (map json_char s) @ CHR 0x22 # x = concat (map json_char t) @ CHR 0x22 # y" by (simp add: json_string_def)
  then show ?thesis by (rule json_quoted_prefix)
qed

lemma json_string_inj: "json_string s = json_string t \<Longrightarrow> s = t"
  using json_string_prefix[of s "[]" t "[]"] by simp

lemma comma_sep_Cons: "comma_sep (x # xs) = x @ (if xs = [] then [] else CHR '','' # comma_sep xs)"
  by (cases xs) auto

lemma json_texts_prefix:
  "comma_sep (map json_string ds) @ CHR '']'' # x = comma_sep (map json_string es) @ CHR '']'' # y \<Longrightarrow> ds = es \<and> x = y"
proof (induction ds arbitrary: es)
  case Nil
  then show ?case by (cases es) (simp_all add: comma_sep_Cons json_string_def)
next
  case (Cons d ds)
  then obtain e fs where es: "es = e # fs" by (cases es) (simp_all add: comma_sep_Cons json_string_def)
  have "json_string d @ (if ds = [] then [] else CHR '','' # comma_sep (map json_string ds)) @ CHR '']'' # x =
      json_string e @ (if fs = [] then [] else CHR '','' # comma_sep (map json_string fs)) @ CHR '']'' # y"
    using Cons.prems by (simp add: es comma_sep_Cons)
  from json_string_prefix[OF this] have "d = e" "(if ds = [] then [] else CHR '','' # comma_sep (map json_string ds)) @ CHR '']'' # x =
      (if fs = [] then [] else CHR '','' # comma_sep (map json_string fs)) @ CHR '']'' # y" by auto
  with Cons.IH[of fs] show ?case by (auto simp: es split: if_splits)
qed

definition digests_of :: "approval \<Rightarrow> string list" where
  "digests_of p = (case ap_digests p of None \<Rightarrow> [] | Some ds \<Rightarrow> ds)"

definition bound_fields :: "string list" where
  "bound_fields = [''action'', ''environment'', ''target'', ''commit_sha'', ''run_id'', ''manifest_digest'', ''nonce'',
     ''expires_at'', ''issuer'', ''subject'']"

lemma canonical_says:
  assumes "canonical p = canonical q"
  shows "digests_of p = digests_of q \<and> (\<forall>k \<in> set bound_fields. ap_text p k = ap_text q k)"
proof -
  have [simp]: "json \<circ> PyStr = json_string" by (simp add: fun_eq_iff)
  show ?thesis
    using assms
    unfolding canonical_def canonical_members_def json_members_def digests_of_def[symmetric] bound_fields_def
    by (simp add: comma_sep_Cons) (auto dest!: json_string_prefix json_texts_prefix json_string_inj)
qed

subsection \<open>Approved once\<close>

lemma hex_read: "bytes_fromhex (hexdigest b) = Some b"
proof (induction b)
  case (Cons x b)
  have "unat x div 16 < 16" "unat x mod 16 < 16" using byte_lt[of x] by auto
  moreover have "of_char (hex_digit n) \<notin> {9::nat, 10, 11, 12, 13, 32}" if "n < 16" for n
    using that by (auto simp: hex_digit_def)
  ultimately show ?case using Cons by (simp add: hexdigest_def hex_digit_back)
qed (simp add: hexdigest_def)

text \<open>What a granted approval rests on.\<close>

definition approved :: "approval_env \<Rightarrow> instant \<Rightarrow> production_request \<Rightarrow> approval \<Rightarrow> bool" where
  "approved v now q p \<longleftrightarrow> ap_text p ''issuer'' \<noteq> operator_of v q \<and> ap_text p ''subject'' = operator_of v q \<and>
     ap_text p ''issuer'' \<in> issuer_allowlist v \<and>
     (\<exists>pub sig. production_verify_pubkey v = Inr pub \<and> starts_with (ap_text p ''signature'') ed25519_prefix \<and>
        bytes_fromhex (drop (length ed25519_prefix) (ap_text p ''signature'')) = Some sig \<and>
        ae_verify v pub (utf8_encode (canonical p)) sig) \<and>
     ap_text p ''environment'' = ''prod'' \<and> bound_to (production_check q (operator_of v q) p) p \<and>
     (\<exists>expires. parse_expires v (ap_text p ''expires_at'') = Some expires \<and> now < expires) \<and>
     pq_hmac_key q = None \<and> (\<forall>name \<in> set mint_variables. env_text v name = []) \<and> \<not> pq_dirty q"

text \<open>The file that marks the nonce of an approval.\<close>

definition mark_of :: "approval_env \<Rightarrow> production_request \<Rightarrow> approval \<Rightarrow> string \<times> string" where
  "mark_of v q p = (case pq_dir q of Some d \<Rightarrow> d | None \<Rightarrow> env_text v ''PROD_APPROVAL_NONCE_DIR'', nonce_file v (ap_text p ''nonce''))"

lemma consumed:
  assumes "consume_nonce_durable v nonce dir s = (Inr u, t)"
  shows "(case dir of Some d \<Rightarrow> d | None \<Rightarrow> env_text v ''PROD_APPROVAL_NONCE_DIR'', nonce_file v nonce) \<notin> set (ns_files s) \<and>
    t = s\<lparr>ns_files := (case dir of Some d \<Rightarrow> d | None \<Rightarrow> env_text v ''PROD_APPROVAL_NONCE_DIR'', nonce_file v nonce) # ns_files s\<rparr>"
  using assms by (auto simp: consume_nonce_durable_def op_success nonce_store_path_def Let_def split: option.splits if_splits)

lemma signature_checked:
  assumes "check_signature v (production_check q who p) p = Inr u"
  shows "\<exists>pub sig. production_verify_pubkey v = Inr pub \<and> starts_with (ap_text p ''signature'') ed25519_prefix \<and>
    bytes_fromhex (drop (length ed25519_prefix) (ap_text p ''signature'')) = Some sig \<and> ae_verify v pub (utf8_encode (canonical p)) sig"
  using assms by (auto simp: check_signature_def production_check_def and_then_def Let_def split: if_splits sum.splits option.splits)

lemma nothing_mints:
  assumes "refuse_hmac_mint_authority v key = Inr u"
  shows "key = None \<and> (\<forall>name \<in> set mint_variables. env_text v name = [])"
  using assms by (auto simp: refuse_hmac_mint_authority_def list_ex_iff split: if_splits)

lemma approval_granted:
  assumes "require_production_approval v now q given sel s = (Inr r, t)" and "ms_mode sel = ''prod''" and "ns_seen s = None"
  shows "\<exists>p. given = Some p \<and> approved v now q p \<and> mark_of v q p \<notin> set (ns_files s) \<and>
    t = s\<lparr>ns_files := mark_of v q p # ns_files s\<rparr> \<and> ms_approved r \<and> ms_mode r = ''prod''"
proof -
  from assms(1,2) obtain p u where p: "given = Some p" and mint: "refuse_hmac_mint_authority v (pq_hmac_key q) = Inr u"
    and ver: "verify_approval v now (production_check q (operator_of v q) p) p s = (Inr (), t)"
    and r: "ms_approved r" "ms_mode r = ''prod''"
    by (cases given) (auto simp: require_production_approval_def op_success Let_def)
  let ?k = "production_check q (operator_of v q) p"
  from ver assms(3) obtain w expires where own: "ap_text p ''issuer'' \<noteq> ap_text p ''subject''" "ap_text p ''subject'' = operator_of v q"
    and list: "ap_text p ''issuer'' \<in> issuer_allowlist v"
    and sig: "check_signature v ?k p = Inr w" and bound: "bound_to ?k p"
    and exp: "parse_expires v (ap_text p ''expires_at'') = Some expires" "now < expires"
    and used: "consume_nonce_durable v (ap_text p ''nonce'') (ck_dir ?k) s = (Inr (), t)"
    by (auto simp: verify_approval_def op_success production_check_def)
  from bound have "ap_text p ''environment'' = ''prod''" "\<not> pq_dirty q" by (simp_all add: bound_to_def production_check_def)
  with own list signature_checked[OF sig] bound exp nothing_mints[OF mint] have "approved v now q p"
    unfolding approved_def by metis
  moreover have "ck_dir ?k = pq_dir q" by (simp add: production_check_def)
  ultimately show ?thesis using consumed[OF used] p r by (simp add: mark_of_def)
qed

text \<open>A call that fails leaves the marks there are.\<close>

definition marks_kept :: "nonce_state \<Rightarrow> nonce_state \<Rightarrow> bool" where
  "marks_kept s t \<longleftrightarrow> set (ns_files s) \<subseteq> set (ns_files t) \<and> (ns_seen s = None \<longrightarrow> ns_seen t = None)"

interpretation marks: evolution marks_kept
  by unfold_locales (auto simp: marks_kept_def)

lemma approval_keeps_marks: "ns_seen s = None \<Longrightarrow> require_production_approval v now q given sel s = (r, t) \<Longrightarrow> marks_kept s t"
proof -
  have consume: "evolves marks_kept (consume_nonce_durable v nonce dir)" for nonce dir
    unfolding consume_nonce_durable_def by (intro marks.rules marks.modify) (auto simp: marks_kept_def)
  assume seen: "ns_seen s = None" and res: "require_production_approval v now q given sel s = (r, t)"
  have "goes marks_kept (verify_approval v now k p) s" for k p
    unfolding verify_approval_def
    by (intro marks.goes_require marks.goes_of_sum marks.goes_of_option goes_gets) (simp add: seen evolves_goes[OF consume])
  then have "goes marks_kept (require_production_approval v now q given sel) s"
    unfolding require_production_approval_def Let_def
    by (intro goes_if marks.goes_ret marks.goes_require marks.goes_of_sum marks.goes_then marks.ret)
  with res show "marks_kept s t" by (simp add: goes_def)
qed

record approval_call =
  ac_env :: approval_env
  ac_now :: instant
  ac_request :: production_request
  ac_proof :: "approval option"
  ac_selection :: mode_selection

definition approve_call :: "approval_call \<Rightarrow> mode_selection approval_op" where
  "approve_call c = require_production_approval (ac_env c) (ac_now c) (ac_request c) (ac_proof c) (ac_selection c)"

text \<open>A sequence of calls, with what each is granted: the mark of its nonce, for the calls that were let into production.\<close>

fun granted_marks :: "approval_call list \<Rightarrow> nonce_state \<Rightarrow> (approval_call \<times> (string \<times> string)) list" where
  "granted_marks [] s = []"
| "granted_marks (c # cs) s = (case approve_call c s of
       (Inr r, t) \<Rightarrow> (if ms_mode (ac_selection c) = ''prod''
          then [(c, mark_of (ac_env c) (ac_request c) (the (ac_proof c)))] else []) @ granted_marks cs t
     | (Inl e, t) \<Rightarrow> granted_marks cs t)"

lemma granted_marks_fresh:
  "ns_seen s = None \<Longrightarrow> distinct (map snd (granted_marks cs s)) \<and> set (map snd (granted_marks cs s)) \<inter> set (ns_files s) = {} \<and>
   (\<forall>(c, m) \<in> set (granted_marks cs s). ms_mode (ac_selection c) = ''prod'' \<and>
      (\<exists>p. ac_proof c = Some p \<and> m = mark_of (ac_env c) (ac_request c) p \<and> approved (ac_env c) (ac_now c) (ac_request c) p))"
proof (induction cs arbitrary: s)
  case (Cons c cs)
  obtain r t where res: "approve_call c s = (r, t)" by fastforce
  have kept: "marks_kept s t" using approval_keeps_marks[OF Cons.prems] res by (simp add: approve_call_def)
  then have t: "ns_seen t = None" "set (ns_files s) \<subseteq> set (ns_files t)" using Cons.prems by (auto simp: marks_kept_def)
  note rest = Cons.IH[OF t(1)]
  show ?case
  proof (cases r)
    case (Inl e)
    with rest t(2) show ?thesis by (auto simp: res)
  next
    case (Inr x)
    show ?thesis
    proof (cases "ms_mode (ac_selection c) = ''prod''")
      case True
      with approval_granted[of "ac_env c" "ac_now c" "ac_request c" "ac_proof c" "ac_selection c" s x t] Cons.prems res Inr
      obtain p where p: "ac_proof c = Some p" "approved (ac_env c) (ac_now c) (ac_request c) p"
        "mark_of (ac_env c) (ac_request c) p \<notin> set (ns_files s)"
        "ns_files t = mark_of (ac_env c) (ac_request c) p # ns_files s" by (auto simp: approve_call_def)
      with rest True Inr res show ?thesis by auto
    next
      case False
      with rest t(2) Inr show ?thesis by (auto simp: res)
    qed
  qed
qed simp

text \<open>What a call names, the approval says; \<open>production_check\<close> fills in the rest from the approval itself.\<close>

definition says_what_is_asked :: "production_request \<Rightarrow> approval \<Rightarrow> bool" where
  "says_what_is_asked q p \<longleftrightarrow> ap_text p ''environment'' = ''prod'' \<and>
     (\<forall>a. pq_action q = Some a \<and> a \<noteq> [] \<longrightarrow> ap_text p ''action'' = a) \<and>
     (\<forall>t. pq_target q = Some t \<longrightarrow> ap_text p ''target'' = t) \<and>
     (\<forall>ds. pq_digests q = Some ds \<longrightarrow> digests_of p = ds) \<and>
     (\<forall>c. pq_commit q = Some c \<longrightarrow> ap_text p ''commit_sha'' = c) \<and>
     (\<forall>r. pq_run q = Some r \<longrightarrow> ap_text p ''run_id'' = r) \<and>
     (\<forall>m. pq_manifest q = Some m \<longrightarrow> ap_text p ''manifest_digest'' = m)"

lemma approved_says: "approved v now q p \<Longrightarrow> says_what_is_asked q p"
  by (auto simp: approved_def bound_to_def production_check_def says_what_is_asked_def expected_def digests_of_def truthy_def)

text \<open>C1 (safety). Production is entered only with an approval that another, listed principal signed for this operator with a key the
  process does not hold, unexpired and from a clean tree, and the approval says what the call names: action, target,
  images, commit, run and manifest digest, each if the call names it. A call that names none of them is bound to none,
  \<open>Gate_Evidence.unnamed_call_unbound\<close>. Of all calls ever made no two that keep their markers in the
  same directory are let in on the same nonce.\<close>

theorem production_approved_once:
  assumes "ns_seen s = None"
  shows "distinct (map snd (granted_marks cs s)) \<and>
    (\<forall>(c, m) \<in> set (granted_marks cs s). \<exists>p. ac_proof c = Some p \<and> m = mark_of (ac_env c) (ac_request c) p \<and>
       approved (ac_env c) (ac_now c) (ac_request c) p \<and> says_what_is_asked (ac_request c) p)"
  using granted_marks_fresh[OF assms, of cs] approved_says by fast

text \<open>Two approvals have the same signed text exactly if they agree in everything an approval is bound to, so a
  signature for one action, target, commit, run, manifest, set of images, nonce, time, issuer or subject is
  none for another.\<close>

theorem canonical_binds:
  "canonical p = canonical q \<longleftrightarrow> digests_of p = digests_of q \<and> (\<forall>k \<in> set bound_fields. ap_text p k = ap_text q k)"
proof
  assume "digests_of p = digests_of q \<and> (\<forall>k \<in> set bound_fields. ap_text p k = ap_text q k)"
  then show "canonical p = canonical q"
    by (simp add: canonical_def canonical_members_def digests_of_def bound_fields_def)
qed (rule canonical_says)

text \<open>What the issuer grants, the operator can use: an approval issued for these terms by a listed issuer with the key whose public
  part the host has is accepted, once, before it expires.\<close>

theorem issued_approval_accepted:
  assumes "issue_asymmetric_approval v a private = Inr p"
    and "production_verify_pubkey v = Inr pub"
    and "\<And>m sig. ae_sign v private m = Some sig \<Longrightarrow> ae_verify v pub m sig"
    and "tm_issuer a \<in> issuer_allowlist v" and "bound_to k p" and "tm_subject a = ck_operator k"
    and "ck_asymmetric k" and "ck_pubkey k = None" and "ck_dir k = Some d"
    and "parse_expires v (tm_expires a) = Some expires" and "now < expires" and "py_strip (tm_nonce a) \<noteq> []"
    and "ae_mkdir v d" and "ae_create v d (nonce_file v (tm_nonce a))" and "(d, nonce_file v (tm_nonce a)) \<notin> set (ns_files s)"
    and "ns_seen s = None"
  shows "\<exists>t. verify_approval v now k p s = (Inr (), t) \<and> verify_approval v now k p t = (Inl (ModeError Prod_approval_invalid), t)"
proof -
  from assms(1) obtain sig where sig: "ae_sign v private (utf8_encode (canonical (unsigned_approval a))) = Some sig"
    and p: "p = signed_with (ed25519_prefix @ hexdigest sig) (unsigned_approval a)"
    and ids: "py_strip (tm_issuer a) \<noteq> []" "py_strip (tm_subject a) \<noteq> []" "tm_issuer a \<noteq> tm_subject a"
    by (auto simp: issue_asymmetric_approval_def and_then_Inr sign_approval_ed25519_def check_parties_def ed25519_prefix_def
        split: option.splits if_splits)
  have texts: "ap_text p ''issuer'' = tm_issuer a" "ap_text p ''subject'' = tm_subject a" "ap_text p ''nonce'' = tm_nonce a"
    "ap_text p ''expires_at'' = tm_expires a" "ap_text p ''signature'' = ed25519_prefix @ hexdigest sig"
    by (simp_all add: p signed_with_def unsigned_approval_def ap_text_def or_str_def)
  have fields: "list_all (has_field p) required_fields"
    by (simp add: p required_fields_def has_field_def signed_with_def unsigned_approval_def)
  have "canonical p = canonical (unsigned_approval a)"
    by (simp add: canonical_def canonical_members_def p signed_with_def ap_text_def)
  then have "ae_verify v pub (utf8_encode (canonical p)) sig" using assms(3)[OF sig] by simp
  moreover have "bytes_fromhex (hexdigest sig) = Some sig" by (rule hex_read)
  moreover have "starts_with (ed25519_prefix @ x) ed25519_prefix" for x by (simp add: starts_with_def)
  ultimately have "check_signature v k p = Inr ()"
    using assms(2,7,8) by (simp add: check_signature_def texts and_then_def Let_def)
  then have run_v: "verify_approval v now k p u = consume_nonce_durable v (tm_nonce a) (Some d) u" if "ns_seen u = None" for u
    using fields ids assms(4-6,9-11) that by (simp add: verify_approval_def run texts split: if_splits)
  have nonce: "tm_nonce a \<noteq> []" using assms(12) by (auto simp: py_strip_def)
  show ?thesis
    using assms(12-16) nonce by (simp add: run_v consume_nonce_durable_def run)
qed

end
