(* ===== verification/Deploy_Facts.thy ===== *)
theory Deploy_Facts
  imports Deploy_Run Approval_Facts
begin

section \<open>What a deployment promises\<close>

text \<open>
  Which stacks a run of \<open>deploy_up\<close> or \<open>deploy_down\<close> touches, and the checks that must have passed before.
\<close>

text \<open>The stacks that Docker was told to change.\<close>

definition stack_commands :: "docker_command list \<Rightarrow> (string \<times> string list) list" where
  "stack_commands cs = List.map_filter (\<lambda>c. case c of Docker_compose project args \<Rightarrow> Some (project, args) | _ \<Rightarrow> None) cs"

lemma stack_commands_simps [simp]:
  "stack_commands [] = []"
  "stack_commands (cs @ ds) = stack_commands cs @ stack_commands ds"
  "stack_commands [Docker_compose project args] = [(project, args)]"
  "stack_commands [Docker_info] = []" "stack_commands [Docker_inspect i] = []" "stack_commands [Docker_inspect_id i] = []"
  by (simp_all add: stack_commands_def map_filter_def)

text \<open>What ran is only added to, and the stacks of the new commands satisfy \<open>P\<close>.\<close>

definition adds :: "(string \<Rightarrow> bool) \<Rightarrow> deploy_state \<Rightarrow> deploy_state \<Rightarrow> bool" where
  "adds P s t \<longleftrightarrow> (\<exists>cs. dy_ran t = dy_ran s @ cs \<and> (\<forall>(project, args) \<in> set (stack_commands cs). P project))"

interpretation command_growth: evolution "adds P" for P
proof
  fix s t u
  assume "adds P s t" "adds P t u"
  then show "adds P s u" by (fastforce simp: adds_def)
qed (simp add: adds_def)

lemma adds_mono: "adds P s t \<Longrightarrow> (\<And>p. P p \<Longrightarrow> Q p) \<Longrightarrow> adds Q s t"
  by (fastforce simp: adds_def)

lemma quiet_commands:
  "evolves (adds P) (docker_runs Docker_info)" "evolves (adds P) (docker_runs (Docker_inspect i))"
  "evolves (adds P) (docker_runs (Docker_inspect_id i))"
  unfolding docker_runs_def by (rule command_growth.modify, simp add: adds_def)+

lemma approving_adds: "evolves (adds P) (approving m)"
  by (rule evolvesI) (auto simp: approving_def adds_def split: prod.splits sum.splits)

lemma checks_add:
  "evolves (adds P) (inspect_image_digest w ref)" "evolves (adds P) (verify_approved_digests w refs)"
  "evolves (adds P) (ensure_docker w)" "evolves (adds P) (ensure_app_images w images)"
  "evolves (adds P) (production_gate w now sel)"
proof -
  show 1: "evolves (adds P) (inspect_image_digest w ref)" for ref
    unfolding inspect_image_digest_def by (intro command_growth.rules quiet_commands evolve)
  show 2: "evolves (adds P) (verify_approved_digests w refs)" for refs
    unfolding verify_approved_digests_def by (intro command_growth.rules 1)
  show "evolves (adds P) (ensure_docker w)" "evolves (adds P) (ensure_app_images w images)"
    unfolding ensure_docker_def ensure_app_images_def by (intro command_growth.rules quiet_commands)+
  show "evolves (adds P) (production_gate w now sel)"
    unfolding production_gate_def Let_def by (intro command_growth.rules approving_adds 2 evolve)
qed

lemma compose_adds: "P project \<Longrightarrow> evolves (adds P) (compose w project args)"
  unfolding compose_def docker_runs_def by (intro command_growth.rules command_growth.modify) (simp add: adds_def)

subsection \<open>What the checks establish\<close>

lemma inspected_image:
  assumes "inspect_image_digest w ref s = (Inr ident, t)"
  shows "dw_inspect w ref = Some ident \<and> dy_nonces t = dy_nonces s"
  using assms by (auto simp: inspect_image_digest_def docker_runs_def run split: option.splits if_splits)

lemma digests_verified:
  "verify_approved_digests w refs s = (Inr u, t) \<Longrightarrow> \<forall>ref \<in> set refs. is_digest_pinned (py_strip ref) \<and>
     (\<exists>ident. dw_inspect w (before_last_at (py_strip ref)) = Some ident \<and>
       after_colon ident = after_colon (after_last_at (py_strip ref)))"
proof (induction refs arbitrary: s)
  case (Cons ref refs)
  from Cons.prems obtain wanted name ident s1 s2 where step: "digest_from_ref ref = Inr wanted" "tagged_name ref = Inr name"
    "inspect_image_digest w name s = (Inr ident, s1)" "after_colon ident = after_colon wanted"
    "verify_approved_digests w refs s2 = (Inr u, t)"
    by (auto simp: verify_approved_digests_def for_each_Inr_Cons op_success)
  then have "is_digest_pinned (py_strip ref)" "wanted = after_last_at (py_strip ref)" "name = before_last_at (py_strip ref)"
    by (auto simp: digest_from_ref_def tagged_name_def require_digest_pinned_image_def Let_def split: if_splits)
  with step(4) inspected_image[OF step(3)] Cons.IH[OF step(5)] show ?case by auto
qed simp

definition deployed_images_ok :: "deploy_world \<Rightarrow> string list \<Rightarrow> bool" where
  "deployed_images_ok w refs \<longleftrightarrow> (\<forall>ref \<in> set refs. is_digest_pinned (py_strip ref) \<and>
     (\<exists>ident. dw_inspect w (before_last_at (py_strip ref)) = Some ident \<and>
       after_colon ident = after_colon (after_last_at (py_strip ref))))"

text \<open>What lets a deployment into production.\<close>

definition production_cleared :: "deploy_world \<Rightarrow> instant \<Rightarrow> deploy_config \<Rightarrow> bool" where
  "production_cleared w now cfg \<longleftrightarrow> (\<exists>head p report. checkout w = Some (False, head) \<and>
     dw_proof w (or_str (dict_get (ae_environ (dw_env w)) ''TOKENMARKET_PROD_APPROVAL'') []) = Some p \<and>
     approved (dw_env w) now (production_ask head (deploy_run_id (dw_env w)) report False cfg) p \<and>
     deploy_run_id (dw_env w) \<noteq> [] \<and> deployed_images_ok w (dc_images cfg) \<and>
     (case auth_release_manifest_from_env (dw_env w) of
        None \<Rightarrow> report = None
      | Some m \<Rightarrow> \<exists>x. verify_auth_release_manifest w m ''prod'' (Some head) = Inr x \<and> report = Some x))"

lemma production_gate_passed:
  assumes "production_gate w now sel s = (Inr (cfg, report), t)" and "ms_mode sel = ''prod''" and "ns_seen (dy_nonces s) = None"
  shows "load_deploy_config w sel = Inr cfg \<and> production_cleared w now cfg \<and>
    (auth_release_manifest_from_env (dw_env w) \<noteq> None \<longrightarrow> report \<noteq> None)"
proof -
  from assms(1) obtain dirty head where co: "checkout w = Some (dirty, head)"
    by (cases "checkout w") (auto simp: production_gate_def run)
  let ?raw = "or_str (dict_get (ae_environ (dw_env w)) ''TOKENMARKET_PROD_APPROVAL'') []"
  from assms(1) co obtain given sel' s1 where clean: "\<not> dirty" "deploy_run_id (dw_env w) \<noteq> []"
    and cfg: "load_deploy_config w sel = Inr cfg"
    and report: "(case auth_release_manifest_from_env (dw_env w) of None \<Rightarrow> Inr None
       | Some m \<Rightarrow> map_sum id Some (verify_auth_release_manifest w m (ms_mode sel) (Some head))) = Inr report"
    and given: "(if ?raw = [] then Inr None else case dw_proof w ?raw of None \<Rightarrow> Inl Deploy_other | Some p \<Rightarrow> Inr (Some p)) = Inr given"
    and app: "approving (require_production_approval (dw_env w) now
       (production_ask head (deploy_run_id (dw_env w)) report dirty cfg) given sel) s = (Inr sel', s1)"
    and imgs: "verify_approved_digests w (dc_images cfg) s1 = (Inr (), t)"
    by (auto simp: production_gate_def op_success Let_def)
  from app obtain n where "require_production_approval (dw_env w) now
       (production_ask head (deploy_run_id (dw_env w)) report dirty cfg) given sel (dy_nonces s) = (Inr sel', n)"
    by (auto simp: approving_def split: prod.splits sum.splits)
  from approval_granted[OF this assms(2,3)] obtain p where p: "given = Some p"
    "approved (dw_env w) now (production_ask head (deploy_run_id (dw_env w)) report dirty cfg) p" by blast
  have "dw_proof w ?raw = Some p" using given p(1) by (auto split: if_splits option.splits)
  moreover have "case auth_release_manifest_from_env (dw_env w) of None \<Rightarrow> report = None
      | Some m \<Rightarrow> \<exists>x. verify_auth_release_manifest w m ''prod'' (Some head) = Inr x \<and> report = Some x"
    using report assms(2) by (auto simp: map_sum_def split: option.splits sum.splits)
  ultimately show ?thesis
    using co clean cfg p(2) digests_verified[OF imgs]
    by (auto simp: production_cleared_def deployed_images_ok_def split: option.splits)
qed

lemma valid_selection:
  assumes "validate_mode mode origin = Inr sel" and "ms_mode sel \<noteq> ''local''"
  shows "\<exists>m \<in> {''test'', ''prod''}. mode = Some m \<and> ms_mode sel = m \<and> origin \<in> {''command'', ''command line'', ''override''}"
proof -
  have named: "truthy mode" using assms by (cases "truthy mode") (simp_all add: validate_mode_def, force)
  then obtain m where m: "mode = Some m" by (cases mode) simp_all
  with assms(1) named have known: "m \<in> set valid_modes" and sel: "ms_mode sel = m"
    and line: "origin \<in> {''command'', ''command line'', ''override''} \<or> m \<notin> {''test'', ''prod''}"
    unfolding validate_mode_def by (simp_all only: m option.sel split: if_splits) force+
  have "m \<in> {''test'', ''prod''}" using known sel assms(2) by (simp add: valid_modes_def)
  with m sel line show ?thesis by blast
qed

definition clears :: "deploy_world \<Rightarrow> instant \<Rightarrow> string option \<Rightarrow> string \<Rightarrow> string \<Rightarrow> bool" where
  "clears w now mode origin project \<longleftrightarrow> (\<exists>m \<in> {''test'', ''prod''}. mode = Some m \<and> project = project_name m \<and>
     origin \<in> {''command'', ''command line'', ''override''} \<and>
     (\<forall>raw. auth_release_manifest_from_env (dw_env w) = Some raw \<longrightarrow>
        (\<exists>commit x. verify_auth_release_manifest w raw m commit = Inr x)) \<and>
     (m = ''prod'' \<longrightarrow> (\<exists>sel cfg. load_deploy_config w sel = Inr cfg \<and> dc_project cfg = project \<and> production_cleared w now cfg)))"

lemma config_project: "load_deploy_config w sel = Inr cfg \<Longrightarrow> dc_project cfg = project_name (ms_mode sel)"
  by (auto simp: load_deploy_config_def and_then_Inr Let_def)

lemma bring_up_adds:
  assumes "\<And>cfg. load_deploy_config w sel = Inr cfg \<Longrightarrow> P (dc_project cfg)" and "\<And>cfg. ready = Some cfg \<Longrightarrow> P (dc_project cfg)"
  shows "evolves (adds P) (bring_up w sel ready)"
  unfolding bring_up_def
proof (rule command_growth.bindE[OF checks_add(3)], rule goes_evolves, rule command_growth.goes_of_sum)
  fix s cfg
  assume "(case ready of Some cfg \<Rightarrow> Inr cfg | None \<Rightarrow> load_deploy_config w sel) = Inr cfg"
  then have "P (dc_project cfg)" using assms by (auto split: option.splits)
  then show "goes (adds P) (bindE (ensure_app_images w (dc_images cfg)) (\<lambda>_.
     bindE (compose w (dc_project cfg) [''pull'', ''postgres'', ''redis'', ''grafana'']) (\<lambda>_.
     bindE (compose w (dc_project cfg) [''up'', ''-d'', ''--remove-orphans'', ''--pull'', ''missing'']) (\<lambda>_.
     bindE (require (dw_up w) (DeployError Dp_step_failed)) (\<lambda>_.
     require (dw_ready w) (DeployError Dp_not_ready)))))) s"
    by (intro evolves_goes command_growth.rules checks_add compose_adds)
qed

text \<open>What has been established when the stack is brought up.\<close>

lemma gates_passed:
  assumes sel: "select_mode mode origin = Inr sel" "\<not> (ms_mode sel = ''local'' \<or> \<not> truthy mode)"
    and gate: "(if ms_mode sel = ''prod'' then bindE (production_gate w now sel) (\<lambda>(cfg, report). ret (Some cfg, report))
       else ret (None, None)) s = (Inr (ready, report), t)"
    and manifest: "manifest_gate w sel report = Inr u" and seen: "ns_seen (dy_nonces s) = None"
  shows "(load_deploy_config w sel = Inr cfg \<longrightarrow> clears w now mode origin (dc_project cfg)) \<and>
    (ready = Some cfg \<longrightarrow> clears w now mode origin (dc_project cfg))"
proof -
  have "validate_mode mode origin = Inr sel" using sel(1) by (auto simp: select_mode_def split: sum.splits)
  from valid_selection[OF this] sel(2) obtain m where m: "m \<in> {''test'', ''prod''}" "mode = Some m" "ms_mode sel = m"
    "origin \<in> {''command'', ''command line'', ''override''}" by blast
  have prod: "\<exists>cfg. ready = Some cfg \<and> load_deploy_config w sel = Inr cfg \<and> production_cleared w now cfg" if "m = ''prod''"
    using gate production_gate_passed[OF _ _ seen] m(3) that by (auto simp: op_success)
  have test: "ready = None \<and> report = None" if "m \<noteq> ''prod''"
    using gate that m(3) by (simp add: run)
  have known: "\<exists>commit x. verify_auth_release_manifest w raw m commit = Inr x" if "auth_release_manifest_from_env (dw_env w) = Some raw" for raw
  proof (cases "report = None")
    case True
    with manifest that m(3) show ?thesis by (auto simp: manifest_gate_def map_sum_def split: sum.splits)
  next
    case False
    with test prod that show ?thesis by (auto simp: production_cleared_def)
  qed
  have ok: "clears w now mode origin (dc_project cfg)" if "load_deploy_config w sel = Inr cfg" for cfg
  proof -
    have "dc_project cfg = project_name m" using config_project[OF that] m(3) by simp
    moreover have "m = ''prod'' \<Longrightarrow> production_cleared w now cfg" using prod that by auto
    ultimately have "m = ''prod'' \<longrightarrow> (\<exists>sel cfg'. load_deploy_config w sel = Inr cfg' \<and> dc_project cfg' = project_name m \<and>
        production_cleared w now cfg')" using that by blast
    with \<open>dc_project cfg = project_name m\<close> show ?thesis unfolding clears_def using m known by (intro bexI[OF _ m(1)]) simp
  qed
  with prod test show ?thesis by fastforce
qed

lemma gate_adds: "evolves (adds P) (if ms_mode sel = ''prod''
    then bindE (production_gate w now sel) (\<lambda>(cfg, report). ret (Some cfg, report)) else ret (None, None))"
  by (intro evolve command_growth.rules checks_add)

lemma deploy_inner_adds:
  assumes "ns_seen (dy_nonces s) = None"
  shows "goes (adds (clears w now mode origin)) (deploy_inner w now mode origin) s"
  unfolding deploy_inner_def
proof (rule command_growth.goes_of_sum, rule command_growth.goes_require)
  fix sel
  assume sel: "select_mode mode origin = Inr sel" "\<not> (ms_mode sel = ''local'' \<or> \<not> truthy mode)"
  show "goes (adds (clears w now mode origin))
     (bindE (if ms_mode sel = ''prod'' then bindE (production_gate w now sel) (\<lambda>(cfg, report). ret (Some cfg, report)) else ret (None, None))
       (\<lambda>(ready, report). bindE (of_sum (manifest_gate w sel report)) (\<lambda>_. bring_up w sel ready))) s"
  proof (rule command_growth.goes_bindE[OF evolves_goes[OF gate_adds]], clarify, rule command_growth.goes_of_sum, rule evolves_goes)
    fix ready report t u
    assume "(if ms_mode sel = ''prod'' then bindE (production_gate w now sel) (\<lambda>(cfg, report). ret (Some cfg, report))
       else ret (None, None)) s = (Inr (ready, report), t)" "manifest_gate w sel report = Inr u"
    from gates_passed[OF sel this assms] show "evolves (adds (clears w now mode origin)) (bring_up w sel ready)"
      by (intro bring_up_adds) simp_all
  qed
qed

lemma exit_code_goes: "goes (adds P) m s \<Longrightarrow> goes (adds P) (exit_code m) s"
  by (auto simp: goes_def exit_code_def catch_op_def bindE_def ret_def throw_def split: prod.splits sum.splits
      deploy_error.splits mode_error.splits)

text \<open>C4 (safety). No stack is touched unless the mode was named on the command line as test or prod, and only the stack of that mode;
  a configured release manifest of authentication was verified before; and for production the tree is clean, another
  principal approved just this commit, run, manifest and these images, and every image is
  pinned to a digest that the image of that name has.\<close>

theorem deployment_cleared:
  assumes "deploy_up w now mode origin s = (r, t)" and "ns_seen (dy_nonces s) = None"
  shows "\<exists>cs. dy_ran t = dy_ran s @ cs \<and> (\<forall>(project, args) \<in> set (stack_commands cs). clears w now mode origin project)"
  using exit_code_goes[OF deploy_inner_adds[OF assms(2)], of w now mode origin] assms(1)
  by (simp add: deploy_up_def goes_def adds_def)

text \<open>A finding: production can never be taken down, because the approval it asks for is never passed on.\<close>

lemma production_never_taken_down:
  assumes "validate_mode mode origin = Inr sel" and "ms_mode sel = ''prod''"
  shows "deploy_down w now mode origin s = (Inr 1, s)"
  using assms by (simp add: deploy_down_def select_mode_def exit_code_def catch_op_def run approving_def require_production_approval_def)

end
