(* ===== verification/Gate_Evidence.thy ===== *)
theory Gate_Evidence
  imports Deploy_Facts
begin

section \<open>The edge and the gates at work\<close>

text \<open>
  The properties of the edge, the approvals and the deployment evaluated on concrete inputs.
\<close>

subsection \<open>An address behind two proxies\<close>

definition sample_ips :: iplib where
  "sample_ips = \<lparr>il_address = Some, il_network = Some, il_within = \<lambda>ip net. starts_with ip ''10.''\<rparr>"

theorem client_ip_not_forged_witness:
  "resolve_client_ip sample_ips (Some ''10.0.0.1'') (Some (''10.9.9.9, 1.2.3.4'' @ '','' @ ''9.9.9.9, 10.0.0.2'')) [''10.0.0.0/8''] = ''9.9.9.9'' \<and>
   resolve_client_ip sample_ips (Some ''7.7.7.7'') (Some ''1.2.3.4'') [''10.0.0.0/8''] = ''7.7.7.7''"
proof -
  have stop: "\<exists>p \<in> set (split_on (CHR '','') ''9.9.9.9, 10.0.0.2''). stops sample_ips (parse_networks sample_ips [''10.0.0.0/8'']) p"
    by code_simp
  have "resolve_client_ip sample_ips (Some ''10.0.0.1'') (Some ''9.9.9.9, 10.0.0.2'') [''10.0.0.0/8''] = ''9.9.9.9''"
    "normalize_ip sample_ips ''7.7.7.7'' = Some ''7.7.7.7''"
    "\<not> is_trusted sample_ips (parse_networks sample_ips [''10.0.0.0/8'']) ''7.7.7.7''" by code_simp+
  with client_ip_not_forged[OF stop, of "Some ''10.0.0.1''" "''10.9.9.9, 1.2.3.4''"]
    client_ip_not_forged[OF stop, of "Some ''7.7.7.7''" "''1.2.3.4''"]
  show ?thesis by simp
qed

subsection \<open>Counting registrations\<close>

definition sample_incr :: "(string, int) dict \<Rightarrow> string \<Rightarrow> (int \<times> (string, int) dict) option" where
  "sample_incr d k = Some (counted d k + 1, dict_set k (counted d k + 1) d)"

lemma registration_limited_example:
  "fst (memory_checks \<lparr>rg_ip_limit = 2, rg_phone_limit = 1\<rparr> [(''a'', None), (''a'', Some ''p''), (''b'', Some ''p''), (''a'', None)]
     \<lparr>rg_ip = [], rg_phone = []\<rparr>) = [Reg_allowed, Reg_allowed, Reg_limited ''phone'', Reg_limited ''ip''] \<and>
   increments counted sample_incr"
  by (rule conjI, code_simp) (auto simp: increments_def sample_incr_def)

subsection \<open>A write with a cookie\<close>

text \<open>The origin \<^verbatim>\<open>https://a\<close>, and one with a port that is no number.\<close>

definition sample_urls :: netlib where
  "sample_urls = \<lparr>nl_urlparse = \<lambda>u. Some \<lparr>up_scheme = ''https'', up_username = None, up_password = None, up_hostname = Some ''A'',
     up_port = (if u = ''https://a:x'' then None else Some None)\<rparr>, nl_urljoin = \<lambda>a b. b, nl_ip_address = \<lambda>a. None\<rparr>"

definition csrf_of_seven :: string where
  "csrf_of_seven = (case issue_csrf_token auth_lib (hk_current auth_key) (hk_version auth_key) 7 of Inr t \<Rightarrow> t)"

definition sample_write :: web_request where
  "sample_write = \<lparr>wq_content_type = Some ''application/json'', wq_cookie = Some ''c'', wq_origin = Some ''https://a'',
     wq_csrf = Some csrf_of_seven\<rparr>"

theorem guarded_write_witness:
  "guard_cookie_mutation sample_urls auth_lib auth_key ''https://a, https://b'' sample_write (Some 7) = Inr None \<and>
   csrf_issued auth_lib auth_key 7 (wq_csrf sample_write) \<and>
   guard_cookie_mutation sample_urls auth_lib auth_key ''https://a'' sample_write (Some 8) = Inr (Some (403, ''CSRF_INVALID''))"
proof -
  have ok: "guard_cookie_mutation sample_urls auth_lib auth_key ''https://a, https://b'' sample_write (Some 7) = Inr None"
    and no: "guard_cookie_mutation sample_urls auth_lib auth_key ''https://a'' sample_write (Some 8) = Inr (Some (403, ''CSRF_INVALID''))"
    and "truthy (wq_cookie sample_write)" by code_simp+
  with guarded_write[OF ok] show ?thesis by auto
qed

text \<open>A finding: an origin whose port is no number is not refused but raises.\<close>

lemma origin_port_raises:
  "guard_cookie_mutation sample_urls auth_lib auth_key ''https://a'' (sample_write\<lparr>wq_origin := Some ''https://a:x''\<rparr>) (Some 7) =
   Inl Auth_value_error"
  by code_simp

subsection \<open>Secrets\<close>

definition sample_secrets :: environ where
  "sample_secrets = [(''SELLER_KEY_MATERIAL'', replicate 64 (CHR ''a'')), (''SELLER_KEY_FINGERPRINT_SECRET'', replicate 32 (CHR ''x'')),
     (''PROXY_AUTH_PEPPER'', replicate 40 (CHR ''y'')), (''SELLER_KEY_VERSION'', ''v2''), (''SELLER_KEY_PREVIOUS_VERSION'', ''v1''),
     (''SELLER_KEY_MATERIAL_PREVIOUS'', replicate 64 (CHR ''b''))]"

theorem process_secrets_formed_witness:
  "\<exists>s e. load_process_shared_secrets sample_secrets = Inr s \<and> ps_version s = ''v2'' \<and>
     new_encryptor (ps_material s) (ps_version s) (ps_previous s) = Inr e \<and> known_versions e = {''v2'', ''v1''} \<and>
     key_material e None = Inr (replicate 32 170)"
proof -
  have "map_sum id (\<lambda>s. (ps_version s, ps_material s, map fst (ps_previous s))) (load_process_shared_secrets sample_secrets) =
    Inr (''v2'', replicate 32 170, [''v1''])" by code_simp
  then obtain s where s: "load_process_shared_secrets sample_secrets = Inr s" "ps_version s = ''v2''" "ps_material s = replicate 32 170"
    "map fst (ps_previous s) = [''v1'']" by (cases "load_process_shared_secrets sample_secrets") auto
  then have "fst ` set (ps_previous s) = {''v1''}" by (metis list.set(1) list.set(2) set_map)
  with process_secrets_formed[OF s(1)] s show ?thesis by (intro exI[of _ s]) auto
qed

subsection \<open>An approval\<close>

definition gate_env :: approval_env where
  "gate_env = \<lparr>ae_environ = [(''PROD_APPROVAL_VERIFY_PUBKEY'', ''/k''), (''PROD_APPROVAL_ISSUER_ALLOWLIST'', ''eve, bob''),
       (''PROD_APPROVAL_NONCE_DIR'', ''/n''), (''TOKENMARKET_OPERATOR'', ''amy'')],
     ae_read = \<lambda>path. if path = ''/k'' then Some [9] else None,
     ae_sign = \<lambda>key m. if key = [5] then Some [word_of_nat (length m), hd m] else None,
     ae_verify = \<lambda>pub m sig. pub = [9] \<and> sig = [word_of_nat (length m), hd m],
     ae_user = ''root'', ae_crypto = auth_lib, ae_iso = \<lambda>t. Some 100, ae_mkdir = \<lambda>d. True, ae_create = \<lambda>d f. True\<rparr>"

definition gate_terms :: approval_terms where
  "gate_terms = \<lparr>tm_issuer = ''bob'', tm_subject = ''amy'', tm_action = ''deploy'', tm_environment = ''prod'', tm_target = ''t'',
     tm_commit = ''c'', tm_digests = [''d''], tm_nonce = ''n1'', tm_expires = ''later'', tm_run = ''r'', tm_manifest = ''''\<rparr>"

definition gate_proof :: approval where
  "gate_proof = (case issue_asymmetric_approval gate_env gate_terms [5] of Inr p \<Rightarrow> p)"

definition gate_request :: production_request where
  "gate_request = \<lparr>pq_hmac_key = None, pq_operator = None, pq_action = Some ''deploy'', pq_target = Some ''t'', pq_digests = Some [''d''],
     pq_commit = Some ''c'', pq_run = Some ''r'', pq_manifest = None, pq_dirty = False, pq_dir = None\<rparr>"

definition gate_call :: "instant \<Rightarrow> approval_call" where
  "gate_call now = \<lparr>ac_env = gate_env, ac_now = now, ac_request = gate_request, ac_proof = Some gate_proof,
     ac_selection = \<lparr>ms_mode = ''prod'', ms_origin = ''command'', ms_approved = False, ms_reference = []\<rparr>\<rparr>"

definition no_marks :: nonce_state where
  "no_marks = \<lparr>ns_files = [], ns_seen = None\<rparr>"

theorem production_approved_once_witness:
  "\<exists>m. granted_marks [gate_call 1, gate_call 2] no_marks = [(gate_call 1, m)] \<and>
     approved (ac_env (gate_call 1)) (ac_now (gate_call 1)) (ac_request (gate_call 1)) gate_proof \<and>
     says_what_is_asked gate_request gate_proof"
proof -
  have "case granted_marks [gate_call 1, gate_call 2] no_marks of [(c, m)] \<Rightarrow> ac_now c = 1 | _ \<Rightarrow> False" by code_simp
  moreover have "approve_call (gate_call 1) no_marks = (Inr r, t) \<Longrightarrow> fst (hd (granted_marks [gate_call 1, gate_call 2] no_marks)) = gate_call 1"
    for r t by (simp add: gate_call_def)
  moreover have "\<exists>r t. approve_call (gate_call 1) no_marks = (Inr r, t)"
  proof -
    have "case approve_call (gate_call 1) no_marks of (Inr r, t) \<Rightarrow> True | _ \<Rightarrow> False" by code_simp
    then show ?thesis by (auto split: prod.splits sum.splits)
  qed
  ultimately obtain m where "granted_marks [gate_call 1, gate_call 2] no_marks = [(gate_call 1, m)]"
    by (auto simp del: granted_marks.simps split: list.splits prod.splits)
  moreover have "ns_seen no_marks = None" by (simp add: no_marks_def)
  ultimately show ?thesis
    using production_approved_once[of no_marks "[gate_call 1, gate_call 2]"]
    by (auto simp del: granted_marks.simps simp add: gate_call_def)
qed

text \<open>A call that names nothing, as the offline check of migrations makes it, accepts the same approval and uses it up.\<close>

definition unnamed_call :: approval_call where
  "unnamed_call = (gate_call 1)\<lparr>ac_request := \<lparr>pq_hmac_key = None, pq_operator = None, pq_action = None, pq_target = None,
     pq_digests = None, pq_commit = None, pq_run = None, pq_manifest = None, pq_dirty = False, pq_dir = None\<rparr>\<rparr>"

lemma unnamed_call_unbound:
  "case approve_call unnamed_call no_marks of (Inr r, t) \<Rightarrow> ms_approved r \<and> \<not> isl (fst (approve_call (gate_call 1) no_marks)) \<and>
     isl (fst (approve_call (gate_call 1) t)) | (Inl e, t) \<Rightarrow> False"
  by code_simp

lemma canonical_binds_example:
  "canonical gate_proof = canonical (unsigned_approval gate_terms) \<and> canonical gate_proof \<noteq> canonical (unsigned_approval (gate_terms\<lparr>tm_target := ''u''\<rparr>))"
proof -
  have "digests_of gate_proof = digests_of (unsigned_approval gate_terms) \<and>
      (\<forall>k \<in> set bound_fields. ap_text gate_proof k = ap_text (unsigned_approval gate_terms) k)"
    "ap_text gate_proof ''target'' \<noteq> ap_text (unsigned_approval (gate_terms\<lparr>tm_target := ''u''\<rparr>)) ''target''"
    "''target'' \<in> set bound_fields" by code_simp+
  with canonical_binds[of gate_proof "unsigned_approval gate_terms"]
    canonical_binds[of gate_proof "unsigned_approval (gate_terms\<lparr>tm_target := ''u''\<rparr>)"] show ?thesis by blast
qed

subsection \<open>A deployment\<close>

text \<open>Production with five pinned images, approved by bob.\<close>

definition pinned :: "string \<Rightarrow> string" where
  "pinned name = name @ ''@sha256:'' @ replicate 64 (CHR ''a'')"

definition prod_settings :: "(string, string) dict" where
  "prod_settings = [(''POSTGRES_PASSWORD'', ''tm_local_'' @ replicate 32 (CHR ''p'')),
     (''REDIS_PASSWORD'', ''tm_local_'' @ replicate 32 (CHR ''r'')), (''GRAFANA_ADMIN_PASSWORD'', ''tm_local_'' @ replicate 32 (CHR ''g''))] @
     map (\<lambda>(key, var, preset). (var, pinned ''i'')) image_defaults"

definition prod_file :: string where
  "prod_file = concat (map (\<lambda>(k, v). k @ ''='' @ v @ [CHR 0x0A]) prod_settings)"

definition prod_env :: approval_env where
  "prod_env = gate_env\<lparr>ae_environ := ae_environ gate_env @ [(''TOKENMARKET_PROD_APPROVAL'', ''x''), (''TOKENMARKET_DEPLOY_RUN_ID'', ''r'')],
     ae_read := \<lambda>path. if path = ''/k'' then Some [9] else if path = ''/r/.env.prod'' then Some (utf8_encode prod_file)
        else if path = ''/r/infra/docker/compose.deploy.yml'' then Some [] else None\<rparr>"

definition prod_proof :: approval where
  "prod_proof = (case issue_asymmetric_approval gate_env
     (gate_terms\<lparr>tm_target := ''tokenmarket-prod'', tm_digests := replicate 5 (pinned ''i'')\<rparr>) [5] of Inr p \<Rightarrow> p)"

definition prod_world :: deploy_world where
  "prod_world = \<lparr>dw_env = prod_env, dw_root = ''/r'', dw_clean = Some True, dw_head = Some ''c'', dw_loads = \<lambda>s. None,
     dw_proof = \<lambda>raw. Some prod_proof, dw_inspect = \<lambda>i. Some (''sha256:'' @ replicate 64 (CHR ''a'')), dw_cli = True, dw_docker = True,
     dw_image = \<lambda>i. True, dw_up = True, dw_down = True, dw_ready = True\<rparr>"

definition nothing_run :: deploy_state where
  "nothing_run = \<lparr>dy_nonces = no_marks, dy_ran = []\<rparr>"

definition prod_selection :: mode_selection where
  "prod_selection = \<lparr>ms_mode = ''prod'', ms_origin = ''command'', ms_approved = False, ms_reference = []\<rparr>"

lemma prod_parsed: "parse_dotenv prod_world ''/r/.env.prod'' = Inr prod_settings"
proof -
  have "foldl (\<lambda>d (k, v). dict_set k v d) [] (List.map_filter dotenv_line (split_lines prod_file)) = prod_settings" by code_simp
  then show ?thesis
    by (simp add: parse_dotenv_def is_file_def read_text_def prod_world_def prod_env_def utf8_roundtrip and_then_def sure_def)
qed

lemma pinned_read: "require_digest_pinned_image (pinned ''i'') = Inr (pinned ''i'')" "has_part (pinned ''i'') '':latest'' = False"
  "digest_from_ref (pinned ''i'') = Inr (''sha256:'' @ replicate 64 (CHR ''a''))" "tagged_name (pinned ''i'') = Inr ''i''"
  by code_simp+

lemma prod_secrets:
  "isl (config_secret prod_settings ''POSTGRES_PASSWORD'') = False" "isl (config_secret prod_settings ''REDIS_PASSWORD'') = False"
  "isl (config_secret prod_settings ''GRAFANA_ADMIN_PASSWORD'') = False"
  by code_simp+

lemma prod_image: "d \<in> set image_defaults \<Longrightarrow> config_image ''prod'' prod_settings d = Inr (fst d, pinned ''i'')"
proof -
  assume d: "d \<in> set image_defaults"
  have "list_all (\<lambda>d. dict_get prod_settings (fst (snd d)) = Some (pinned ''i'')) image_defaults" by code_simp
  with d have "dict_get prod_settings (fst (snd d)) = Some (pinned ''i'')" by (simp add: list_all_iff)
  moreover have "pinned ''i'' \<noteq> []" by (simp add: pinned_def)
  ultimately show ?thesis by (cases d) (simp add: config_image_def pinned_read and_then_def sure_def)
qed

lemma prod_image_list: "set ds \<subseteq> set image_defaults \<Longrightarrow>
  config_images ''prod'' prod_settings ds = Inr (map (\<lambda>d. (fst d, pinned ''i'')) ds)"
  by (induction ds) (simp_all add: prod_image and_then_def)

lemma prod_loaded:
  "\<exists>cfg. load_deploy_config prod_world prod_selection = Inr cfg \<and> dc_project cfg = ''tokenmarket-prod'' \<and>
     dc_images cfg = replicate 5 (pinned ''i'')"
proof -
  obtain p r g where "config_secret prod_settings ''POSTGRES_PASSWORD'' = Inr p" "config_secret prod_settings ''REDIS_PASSWORD'' = Inr r"
    "config_secret prod_settings ''GRAFANA_ADMIN_PASSWORD'' = Inr g" using prod_secrets by (metis isl_def sum.exhaust)
  moreover have "map snd (map (\<lambda>d. (fst d, pinned ''i'')) image_defaults) = replicate 5 (pinned ''i'')"
    by (simp add: image_defaults_def numeral_eq_Suc)
  moreover have "dw_root prod_world @ ''/'' @ config_file ''prod'' = ''/r/.env.prod''" by (simp add: prod_world_def config_file_def)
  moreover have "ms_mode prod_selection = ''prod''" by (simp add: prod_selection_def)
  ultimately show ?thesis
    using prod_parsed by (simp add: load_deploy_config_def and_then_def sure_def project_name_def prod_image_list Let_def)
qed

definition prod_ask :: production_request where
  "prod_ask = \<lparr>pq_hmac_key = None, pq_operator = None, pq_action = Some ''deploy'', pq_target = Some ''tokenmarket-prod'',
     pq_digests = Some (replicate 5 (pinned ''i'')), pq_commit = Some ''c'', pq_run = Some ''r'', pq_manifest = None,
     pq_dirty = False, pq_dir = None\<rparr>"

lemma prod_approved:
  "\<exists>r n. require_production_approval prod_env 1 prod_ask (Some prod_proof) prod_selection no_marks = (Inr r, n)"
proof -
  have "case require_production_approval prod_env 1 prod_ask (Some prod_proof) prod_selection no_marks of (Inr r, n) \<Rightarrow> True | _ \<Rightarrow> False"
    by code_simp
  then show ?thesis by (auto split: prod.splits sum.splits)
qed

lemma prod_images: "\<exists>cs. verify_approved_digests prod_world (replicate n (pinned ''i'')) s = (Inr (), s\<lparr>dy_ran := dy_ran s @ cs\<rparr>) \<and> stack_commands cs = []"
proof (induction n arbitrary: s)
  case (Suc n)
  have "dw_inspect prod_world ''i'' = Some (''sha256:'' @ replicate 64 (CHR ''a''))" by (simp add: prod_world_def)
  moreover have "starts_with (''sha256:'' @ x) ''sha256:''" for x by (simp add: starts_with_def)
  moreover from Suc[of "s\<lparr>dy_ran := dy_ran s @ [Docker_inspect_id ''i'']\<rparr>"] obtain cs where
    "verify_approved_digests prod_world (replicate n (pinned ''i'')) (s\<lparr>dy_ran := dy_ran s @ [Docker_inspect_id ''i'']\<rparr>) =
       (Inr (), s\<lparr>dy_ran := dy_ran s @ Docker_inspect_id ''i'' # cs\<rparr>)" "stack_commands cs = []" by auto
  ultimately show ?case
    using stack_commands_simps(2)[of "[Docker_inspect_id ''i'']" cs]
    by (intro exI[of _ "Docker_inspect_id ''i'' # cs"])
      (simp add: verify_approved_digests_def pinned_read inspect_image_digest_def docker_runs_def run)
qed (rule exI[of _ "[]"], simp add: verify_approved_digests_def run)

lemma prod_gated:
  "\<exists>cfg t. production_gate prod_world 1 prod_selection nothing_run = (Inr (cfg, None), t) \<and> stack_commands (dy_ran t) = [] \<and>
     dc_project cfg = ''tokenmarket-prod'' \<and> dc_images cfg = replicate 5 (pinned ''i'')"
proof -
  obtain cfg where cfg: "load_deploy_config prod_world prod_selection = Inr cfg" "dc_project cfg = ''tokenmarket-prod''"
    "dc_images cfg = replicate 5 (pinned ''i'')" using prod_loaded by blast
  obtain r n where app: "require_production_approval prod_env 1 prod_ask (Some prod_proof) prod_selection no_marks = (Inr r, n)"
    using prod_approved by blast
  let ?s = "nothing_run\<lparr>dy_nonces := n\<rparr>"
  obtain cs where imgs: "verify_approved_digests prod_world (replicate 5 (pinned ''i'')) ?s = (Inr (), ?s\<lparr>dy_ran := dy_ran ?s @ cs\<rparr>)"
    "stack_commands cs = []" using prod_images by blast
  have w: "checkout prod_world = Some (False, ''c'')" "dw_env prod_world = prod_env" "dw_proof prod_world x = Some prod_proof" for x
    by (simp_all add: prod_world_def checkout_def)
  have v: "deploy_run_id prod_env = ''r''" "auth_release_manifest_from_env prod_env = None"
    "or_str (dict_get (ae_environ prod_env) ''TOKENMARKET_PROD_APPROVAL'') [] = ''x''" by code_simp+
  have ask: "production_ask ''c'' ''r'' None False cfg = prod_ask" by (simp add: production_ask_def prod_ask_def cfg)
  have s: "dy_nonces nothing_run = no_marks" "dy_ran nothing_run = []" by (simp_all add: nothing_run_def)
  show ?thesis
    using imgs by (simp add: production_gate_def w v cfg ask approving_def s app run Let_def)
qed

lemma images_looked_at:
  "for_each (\<lambda>i. docker_runs (Docker_inspect i)) is s = (Inr (), s\<lparr>dy_ran := dy_ran s @ map Docker_inspect is\<rparr>)"
  by (induction "is" arbitrary: s) (simp_all add: docker_runs_def run)

lemma looking_touches_nothing: "stack_commands (map Docker_inspect is) = []"
  by (induction "is") (simp_all add: stack_commands_def map_filter_def)

lemma prod_up:
  assumes "dc_project cfg = ''tokenmarket-prod''"
  shows "\<exists>u. bring_up prod_world sel (Some cfg) t = (Inr (), u) \<and>
    stack_commands (dy_ran u) = stack_commands (dy_ran t) @ [(''tokenmarket-prod'', [''pull'', ''postgres'', ''redis'', ''grafana'']),
      (''tokenmarket-prod'', [''up'', ''-d'', ''--remove-orphans'', ''--pull'', ''missing''])]"
proof -
  have "is_file prod_world (compose_file prod_world)" by code_simp
  moreover have "dw_cli prod_world" "dw_docker prod_world" "dw_image prod_world i" "dw_up prod_world" "dw_ready prod_world" for i
    by (simp_all add: prod_world_def)
  moreover have "stack_commands (Docker_info # xs) = stack_commands xs" "stack_commands (Docker_compose p a # xs) = (p, a) # stack_commands xs"
    for xs p a by (simp_all add: stack_commands_def map_filter_def)
  ultimately show ?thesis
    by (simp add: bring_up_def ensure_docker_def ensure_app_images_def compose_def docker_runs_def images_looked_at[unfolded docker_runs_def]
        looking_touches_nothing run list_all_iff assms)
qed

theorem deployment_cleared_witness:
  "\<exists>t. deploy_up prod_world 1 (Some ''prod'') ''command'' nothing_run = (Inr 0, t) \<and>
     map fst (stack_commands (dy_ran t)) = [''tokenmarket-prod'', ''tokenmarket-prod''] \<and>
     clears prod_world 1 (Some ''prod'') ''command'' ''tokenmarket-prod''"
proof -
  obtain cfg t where gate: "production_gate prod_world 1 prod_selection nothing_run = (Inr (cfg, None), t)"
    and t: "stack_commands (dy_ran t) = []" and cfg: "dc_project cfg = ''tokenmarket-prod''"
    using prod_gated by blast
  obtain u where u: "bring_up prod_world prod_selection (Some cfg) t = (Inr (), u)"
    "map fst (stack_commands (dy_ran u)) = [''tokenmarket-prod'', ''tokenmarket-prod'']" using prod_up[OF cfg] t by fastforce
  have "select_mode (Some ''prod'') ''command'' = Inr prod_selection" "ms_mode prod_selection = ''prod''"
    "auth_release_manifest_from_env (dw_env prod_world) = None" by code_simp+
  then have up: "deploy_up prod_world 1 (Some ''prod'') ''command'' nothing_run = (Inr 0, u)"
    using gate u(1) by (simp add: deploy_up_def exit_code_def deploy_inner_def manifest_gate_def run)
  have "ns_seen (dy_nonces nothing_run) = None" by (simp add: nothing_run_def no_marks_def)
  from deployment_cleared[OF up this] obtain cs where "dy_ran u = dy_ran nothing_run @ cs"
    "\<forall>(project, args) \<in> set (stack_commands cs). clears prod_world 1 (Some ''prod'') ''command'' project" by blast
  then have "\<forall>project \<in> set (map fst (stack_commands (dy_ran u))). clears prod_world 1 (Some ''prod'') ''command'' project"
    by (auto simp: nothing_run_def)
  with up u(2) show ?thesis by auto
qed

end
