(* ===== verification/Http.thy ===== *)
theory Http
  imports Edge Auth_Profiles
begin

section \<open>Authentication over HTTP\<close>

text \<open>
  \<^verbatim>\<open>api/v1/auth.py\<close>, the part of \<^verbatim>\<open>app/dependencies.py\<close> that resolves a caller, and \<^verbatim>\<open>api/v1/actors.py\<close>: what
  every route checks before it calls a service, and the status, the code, the data and the cookies of its
  response. A route works in a database session of its own (\<open>serve\<close>). The checks of request bodies by
  \<^verbatim>\<open>pydantic\<close>, readable messages, metrics and log events are left out; every response is marked
  \<^verbatim>\<open>no-store\<close> by the middleware.
\<close>

subsection \<open>Requests and responses\<close>

datatype cookie_change = Set_session string | Clear_session | Set_profile string | Clear_profile

text \<open>\<open>Fields_body\<close> names the fields that are wrong; \<open>Attempts_body\<close> how many attempts remain, or that a new code is needed.\<close>

datatype auth_body =
    No_body | Session_body session_summary | Challenge_body "challenge_view option" | Profile_body string
  | Attempts_body "int option" | Retry_body int | Logged_out_body bool | Security_body security_view
  | Fields_body "string list"

record auth_response =
  re_status :: int
  re_code :: string
  re_body :: auth_body
  re_cookies :: "cookie_change list"
  re_retry_after :: "int option"

definition success_response :: "int \<Rightarrow> auth_body \<Rightarrow> auth_response" where
  "success_response status body =
     \<lparr>re_status = status, re_code = ''0'', re_body = body, re_cookies = [], re_retry_after = None\<rparr>"

definition error_response :: "int \<Rightarrow> string \<Rightarrow> auth_body \<Rightarrow> auth_response" where
  "error_response status code body =
     \<lparr>re_status = status, re_code = code, re_body = body, re_cookies = [], re_retry_after = None\<rparr>"

definition with_cookies :: "cookie_change list \<Rightarrow> auth_response \<Rightarrow> auth_response" where
  "with_cookies cs r = r\<lparr>re_cookies := re_cookies r @ cs\<rparr>"

definition unavailable :: auth_response where
  "unavailable = error_response 503 ''SERVICE_UNAVAILABLE'' No_body"

definition unauthenticated :: "bool \<Rightarrow> auth_response" where
  "unauthenticated clear = with_cookies (if clear then [Clear_session] else []) (error_response 401 ''UNAUTHENTICATED'' No_body)"

definition csrf_invalid :: auth_response where
  "csrf_invalid = error_response 403 ''CSRF_INVALID'' No_body"

definition internal_error :: auth_response where
  "internal_error = error_response 500 ''INTERNAL_ERROR'' No_body"

record auth_request = web_request +
  wq_profile_cookie :: "string option"
  wq_peer :: "string option"
  wq_forwarded :: "string option"
  wq_idempotency :: "string option"
  wq_id :: string

text \<open>The settings and libraries of the process; \<open>hx_actor\<close> is the caller that tests put in place.\<close>

record actor =
  aw_user :: uuid
  aw_role :: string
  aw_session :: "uuid option"
  aw_workspace :: "string option"

record http_env =
  hx_auth :: auth_env
  hx_net :: netlib
  hx_ip :: iplib
  hx_origins :: string
  hx_proxies :: string
  hx_limits :: reg_limits
  hx_database :: bool
  hx_actor :: "actor option"

definition client_ip :: "http_env \<Rightarrow> auth_request \<Rightarrow> string" where
  "client_ip h q = resolve_client_ip (hx_ip h) (wq_peer q) (wq_forwarded q) (parse_csv (hx_proxies h))"

definition origin_rejected :: "http_env \<Rightarrow> string option \<Rightarrow> bool checked" where
  "origin_rejected h origin = map_sum id Not (origin_allowed (hx_net h) origin (allowed_origins (hx_origins h)))"

definition from_origin :: "http_env \<Rightarrow> auth_request \<Rightarrow> auth_response auth_op \<Rightarrow> auth_response auth_op" where
  "from_origin h q m = bindE (lift (origin_rejected h (wq_origin q))) (\<lambda>rejected.
     if rejected then ret (error_response 403 ''ORIGIN_REJECTED'' No_body) else m)"

text \<open>\<^verbatim>\<open>except Exception\<close> around the call of a service.\<close>

definition or_internal_error :: "auth_response auth_op \<Rightarrow> auth_response auth_op" where
  "or_internal_error m = catch_op m (\<lambda>e. ret internal_error)"

subsection \<open>Codes\<close>

definition challenge_result :: "request_result \<Rightarrow> int \<times> string \<times> auth_body" where
  "challenge_result r = (case r of
       Request_accepted view decoy \<Rightarrow> (202, ''0'', Challenge_body (Some view))
     | Request_replayed view \<Rightarrow> (202, ''0'', Challenge_body view)
     | Request_validation \<Rightarrow> (400, ''VALIDATION_ERROR'', Fields_body [''phone''])
     | Request_key_required \<Rightarrow> (400, ''IDEMPOTENCY_KEY_REQUIRED'', No_body)
     | Request_key_conflict \<Rightarrow> (409, ''IDEMPOTENCY_KEY_CONFLICT'', No_body)
     | Request_key_expired \<Rightarrow> (409, ''IDEMPOTENCY_KEY_EXPIRED'', No_body)
     | Request_delivery_unavailable \<Rightarrow> (503, ''DELIVERY_UNAVAILABLE'', No_body)
     | Request_unavailable \<Rightarrow> (503, ''SERVICE_UNAVAILABLE'', No_body)
     | Request_rate_limited n \<Rightarrow> (429, ''RATE_LIMITED'', Retry_body n)
     | Request_failed_before status code \<Rightarrow> (status, code, No_body))"

definition challenge_response :: "request_result \<Rightarrow> auth_response" where
  "challenge_response r = (case challenge_result r of (status, code, body) \<Rightarrow>
     if code = ''RATE_LIMITED''
     then (let n = (case body of Retry_body n \<Rightarrow> n | _ \<Rightarrow> 1); retry = max 1 (if n = 0 then 1 else n) in
       (error_response 429 code (case body of Retry_body n \<Rightarrow> body | _ \<Rightarrow> Retry_body retry))\<lparr>re_retry_after := Some retry\<rparr>)
     else if code = ''0'' then success_response status body else error_response status code body)"

definition request_verification_challenge ::
  "http_env \<Rightarrow> instant \<Rightarrow> auth_request \<Rightarrow> bytes \<Rightarrow> string \<Rightarrow> auth_response auth_op" where
  "request_verification_challenge h now q salt phone = from_origin h q (or_internal_error
     (bindE (request_challenge (hx_auth h) now salt phone (wq_idempotency q) (wq_id q) (client_ip h q)) (\<lambda>r.
      ret (challenge_response r))))"

subsection \<open>Sessions\<close>

definition issue_response :: "issue_result \<Rightarrow> auth_response" where
  "issue_response r = (case r of
       Issue_validation \<Rightarrow> error_response 400 ''VALIDATION_ERROR'' (Fields_body [''code''])
     | Issue_unavailable \<Rightarrow> unavailable
     | Issue_challenge_unavailable \<Rightarrow> error_response 409 ''CHALLENGE_UNAVAILABLE'' No_body
     | Issue_challenge_expired \<Rightarrow> error_response 410 ''CHALLENGE_EXPIRED'' No_body
     | Issue_failed left \<Rightarrow> error_response 401 ''VERIFICATION_FAILED'' (Attempts_body left)
     | Issue_profile masked cookie \<Rightarrow> with_cookies (if cookie = [] then [] else [Set_profile cookie])
         (error_response 200 ''PROFILE_COMPLETION_REQUIRED'' (Profile_body masked))
     | Issued summary cookie \<Rightarrow> with_cookies (if cookie = [] then [] else [Set_session cookie])
         (success_response 200 (Session_body summary)))"

definition create_authenticated_session ::
  "http_env \<Rightarrow> instant \<Rightarrow> auth_request \<Rightarrow> bytes \<Rightarrow> uuid \<Rightarrow> string \<Rightarrow> auth_response auth_op" where
  "create_authenticated_session h now q random cid code = from_origin h q (or_internal_error
     (bindE (create_session (hx_auth h) now random cid code (wq_id q) (Some (client_ip h q))) (\<lambda>r.
      ret (issue_response r))))"

definition bootstrap_response :: "bootstrap_result \<Rightarrow> auth_response" where
  "bootstrap_response r = (case r of
       Boot_ok summary \<Rightarrow> success_response 200 (Session_body summary)
     | Boot_unauthenticated reason clear \<Rightarrow> unauthenticated clear
     | Boot_unavailable reason \<Rightarrow> unavailable)"

definition get_current_session :: "http_env \<Rightarrow> instant \<Rightarrow> auth_request \<Rightarrow> auth_response auth_op" where
  "get_current_session h now q = or_internal_error
     (bindE (bootstrap_session (hx_auth h) now (wq_cookie q)) (\<lambda>r. ret (bootstrap_response r)))"

definition logout_response :: "logout_result \<Rightarrow> auth_response" where
  "logout_response r = (case r of
       Logout_csrf_invalid \<Rightarrow> csrf_invalid
     | Logout_unavailable \<Rightarrow> unavailable
     | _ \<Rightarrow> with_cookies [Clear_session] (success_response 200 (Logged_out_body (r = Logged_out_all))))"

definition delete_current_session :: "http_env \<Rightarrow> instant \<Rightarrow> auth_request \<Rightarrow> auth_response auth_op" where
  "delete_current_session h now q =
     (let m = or_internal_error (bindE (logout_session (hx_auth h) now (wq_cookie q) (wq_csrf q) (wq_id q)) (\<lambda>r.
            ret (logout_response r))) in
      if wq_origin q \<noteq> None \<or> truthy (wq_cookie q) then from_origin h q m else m)"

definition revoke_response :: "logout_result \<Rightarrow> auth_response" where
  "revoke_response r = (if r = Logout_unauthenticated then unauthenticated True else logout_response r)"

definition revoke_web_sessions :: "http_env \<Rightarrow> instant \<Rightarrow> auth_request \<Rightarrow> auth_response auth_op" where
  "revoke_web_sessions h now q = from_origin h q
     (bindE (revoke_all_sessions (hx_auth h) now (wq_cookie q) (wq_csrf q) (wq_id q)) (\<lambda>r. ret (revoke_response r)))"

definition get_security_summary :: "http_env \<Rightarrow> instant \<Rightarrow> auth_request \<Rightarrow> auth_response auth_op" where
  "get_security_summary h now q = bindE (security_summary (hx_auth h) now (wq_cookie q)) (\<lambda>r. ret (case r of
       Summary view \<Rightarrow> success_response 200 (Security_body view)
     | Summary_unauthenticated clear \<Rightarrow> unauthenticated clear
     | Summary_unavailable \<Rightarrow> unavailable))"

definition switch_response :: "switch_result \<Rightarrow> auth_response" where
  "switch_response r = (case r of
       Switched summary \<Rightarrow> success_response 200 (Session_body summary)
     | Switch_unauthenticated \<Rightarrow> unauthenticated False
     | Switch_forbidden \<Rightarrow> error_response 403 ''FORBIDDEN_ROLE'' No_body
     | Switch_csrf_invalid \<Rightarrow> csrf_invalid
     | Switch_unavailable \<Rightarrow> unavailable)"

definition switch_workspace_route :: "http_env \<Rightarrow> instant \<Rightarrow> auth_request \<Rightarrow> string \<Rightarrow> auth_response auth_op" where
  "switch_workspace_route h now q target = from_origin h q
     (bindE (switch_workspace (hx_auth h) now (wq_cookie q) (wq_csrf q) target (wq_id q)) (\<lambda>r. ret (switch_response r)))"

subsection \<open>Registration\<close>

definition register_response :: "register_result \<Rightarrow> auth_response" where
  "register_response r = (case r of
       Registered payload \<Rightarrow> success_response 200 No_body
     | Register_validation nick phone \<Rightarrow> error_response 400 ''VALIDATION_ERROR''
         (Fields_body ((if nick then [''nickname''] else []) @ (if phone then [''phone''] else [])))
     | Register_role_invalid \<Rightarrow> error_response 400 ''VALIDATION_ERROR'' (Fields_body [''role''])
     | Register_phone_taken \<Rightarrow> error_response 409 ''PHONE_ALREADY_REGISTERED'' No_body
     | Register_account_unavailable \<Rightarrow> error_response 409 ''ACCOUNT_UNAVAILABLE'' No_body
     | Register_key_conflict \<Rightarrow> error_response 409 ''IDEMPOTENCY_KEY_CONFLICT'' No_body
     | Register_key_expired \<Rightarrow> error_response 409 ''IDEMPOTENCY_KEY_EXPIRED'' No_body
     | Register_key_required \<Rightarrow> error_response 400 ''IDEMPOTENCY_KEY_REQUIRED'' No_body)"

definition profile_response :: "profile_result \<Rightarrow> auth_response" where
  "profile_response r = (case r of
       Profile_completed summary cookie \<Rightarrow>
         with_cookies ((if cookie = [] then [] else [Set_session cookie]) @ [Clear_profile]) (success_response 200 (Session_body summary))
     | Profile_unverified \<Rightarrow> error_response 401 ''AUTH_VERIFICATION_REQUIRED'' No_body
     | Profile_expired \<Rightarrow> error_response 401 ''PROFILE_EXPIRED'' No_body
     | Profile_refused x \<Rightarrow> register_response x
     | Profile_unavailable \<Rightarrow> unavailable
     | Profile_phone_taken \<Rightarrow> error_response 409 ''PHONE_ALREADY_REGISTERED'' No_body)"

text \<open>Public registration is refused.\<close>

definition register_user :: auth_response where
  "register_user = error_response 403 ''AUTH_VERIFICATION_REQUIRED'' No_body"

text \<open>The authentication tables and the counters of the registration limiter; None: the limiter is down.\<close>

record auth_site =
  as_auth :: auth_state
  as_counts :: "reg_counts option"

type_synonym 'a site_auth_op = "(auth_site, auth_error, 'a) op"

definition served :: "'a auth_op \<Rightarrow> 'a site_auth_op" where
  "served m = zoom as_auth (\<lambda>t s. s\<lparr>as_auth := t\<rparr>) id (serve m)"

definition count_registration :: "reg_limits \<Rightarrow> string \<Rightarrow> reg_decision option site_auth_op" where
  "count_registration l ip = (\<lambda>s. case as_counts s of
       None \<Rightarrow> (Inr None, s)
     | Some c \<Rightarrow> (case memory_check l ip None c of (d, c') \<Rightarrow> (Inr (Some d), s\<lparr>as_counts := Some c'\<rparr>)))"

definition complete_profile_route ::
  "http_env \<Rightarrow> instant \<Rightarrow> auth_request \<Rightarrow> bytes \<Rightarrow> string \<Rightarrow> string \<Rightarrow> auth_response site_auth_op" where
  "complete_profile_route h now q random nickname role =
     bindE (of_sum (origin_rejected h (wq_origin q))) (\<lambda>rejected.
     if rejected then ret (error_response 403 ''ORIGIN_REJECTED'' No_body)
     else bindE (count_registration (hx_limits h) (client_ip h q)) (\<lambda>decision. case decision of
       None \<Rightarrow> ret unavailable
     | Some (Reg_limited reason) \<Rightarrow> ret (error_response 429 ''RATE_LIMITED'' No_body)
     | Some Reg_allowed \<Rightarrow> served (bindE (complete_profile (hx_auth h) now random (wq_profile_cookie q) nickname role
           (wq_idempotency q) (wq_id q) (Some (client_ip h q))) (\<lambda>r. ret (profile_response r)))))"

datatype auth_route =
    Post_register | Post_profile bytes string string | Post_challenge bytes string | Post_session bytes uuid string
  | Get_session | Delete_session | Post_revocations | Get_security_summary | Post_workspace string

fun auth_http :: "http_env \<Rightarrow> instant \<Rightarrow> auth_request \<Rightarrow> auth_route \<Rightarrow> auth_response site_auth_op" where
  "auth_http h now q Post_register = ret register_user"
| "auth_http h now q (Post_profile random nickname role) = complete_profile_route h now q random nickname role"
| "auth_http h now q (Post_challenge salt phone) = served (request_verification_challenge h now q salt phone)"
| "auth_http h now q (Post_session random cid code) = served (create_authenticated_session h now q random cid code)"
| "auth_http h now q Get_session = served (get_current_session h now q)"
| "auth_http h now q Delete_session = served (delete_current_session h now q)"
| "auth_http h now q Post_revocations = served (revoke_web_sessions h now q)"
| "auth_http h now q Get_security_summary = served (get_security_summary h now q)"
| "auth_http h now q (Post_workspace target) = served (switch_workspace_route h now q target)"

subsection \<open>The caller\<close>

record identity =
  id_user :: uuid
  id_session :: "uuid option"
  id_workspace :: "string option"

text \<open>A refusal has a status and a code.\<close>

type_synonym 'a or_refused = "(int \<times> string) + 'a"

definition resolve_authenticated_identity :: "http_env \<Rightarrow> instant \<Rightarrow> string option \<Rightarrow> identity or_refused auth_op" where
  "resolve_authenticated_identity h now cookie =
     (let env = hx_auth h in
      bindE (bootstrap_session env now cookie) (\<lambda>boot. case boot of
        Boot_unavailable reason \<Rightarrow> ret (Inl (503, ''SERVICE_UNAVAILABLE''))
      | Boot_unauthenticated reason clear \<Rightarrow> ret (Inl (401, ''UNAUTHENTICATED''))
      | Boot_ok summary \<Rightarrow>
          let anonymous = \<lparr>id_user = ss_user summary, id_session = None, id_workspace = None\<rparr> in
          bindE (lift (parse_session_cookie cookie)) (\<lambda>parsed. case parsed of
            None \<Rightarrow> ret (Inr anonymous)
          | Some (version, opaque) \<Rightarrow> (case resolve_key (av_session env) version of
              None \<Rightarrow> ret (Inr anonymous)
            | Some key \<Rightarrow>
                bindE (lift (token_digest (av_crypto env) key opaque)) (\<lambda>digest.
                bindE (session_by_digest version digest) (\<lambda>row. ret (Inr (case row of
                  None \<Rightarrow> anonymous
                | Some s \<Rightarrow> anonymous\<lparr>id_session := Some (se_id s), id_workspace := Some (se_workspace s)\<rparr>))))))))"

definition load_actor :: "http_env \<Rightarrow> instant \<Rightarrow> string option \<Rightarrow> actor or_refused auth_op" where
  "load_actor h now cookie =
     bindE (resolve_authenticated_identity h now cookie) (\<lambda>r. case r of
       Inl e \<Rightarrow> ret (Inl e)
     | Inr i \<Rightarrow> bindE (user_by_id (id_user i)) (\<lambda>found. ret (case found of
           None \<Rightarrow> Inl (401, ''UNAUTHENTICATED'')
         | Some u \<Rightarrow> if us_status u \<noteq> Us_active \<or> us_is_deleted u then Inl (401, ''UNAUTHENTICATED'')
             else Inr \<lparr>aw_user = us_id u, aw_role = us_role u, aw_session = id_session i, aw_workspace = id_workspace i\<rparr>)))"

definition resolve_actor :: "http_env \<Rightarrow> instant \<Rightarrow> auth_request \<Rightarrow> actor or_refused auth_op" where
  "resolve_actor h now q = (case hx_actor h of
       Some a \<Rightarrow> ret (Inr a)
     | None \<Rightarrow> if \<not> hx_database h then ret (Inl (503, ''SERVICE_UNAVAILABLE'')) else serve (load_actor h now (wq_cookie q)))"

text \<open>The guard of the routes that write: the caller, or why not.\<close>

definition guard_write :: "http_env \<Rightarrow> instant \<Rightarrow> auth_request \<Rightarrow> actor or_refused auth_op" where
  "guard_write h now q = bindE (resolve_actor h now q) (\<lambda>r. case r of
       Inl e \<Rightarrow> ret (Inl e)
     | Inr a \<Rightarrow> bindE (lift (guard_cookie_mutation (hx_net h) (av_crypto (hx_auth h)) (av_csrf (hx_auth h)) (hx_origins h)
           (web_request.truncate q) (aw_session a))) (\<lambda>denied. ret (case denied of None \<Rightarrow> Inr a | Some e \<Rightarrow> Inl e)))"

end
