(* ===== verification/Api_State.thy ===== *)
theory Api_State
  imports Http Desk_Steps Deploy
begin

section \<open>The routes of the API service: state and responses\<close>

text \<open>
  The routes under \<^verbatim>\<open>api/v1/\<close> other than those of authentication. One record holds the state of all
  services. A route resolves its caller, guards a write with a cookie, calls a service as that caller and
  answers: with a status and data, with a refusal, or with the status of the exception that the route
  catches; other exceptions escape. The services are taken to be wired at start-up, as \<^verbatim>\<open>main.py\<close> does.
\<close>

record site =
  si_auth :: auth_state
  si_till :: till
  si_sellers :: seller_store
  si_bench :: workbench

datatype site_error = Auth_raised auth_error | Api_raised api_error | Seller_raised seller_error | Bench_raised bench_error

type_synonym 'a site_op = "(site, site_error, 'a) op"

datatype web_payload =
    Json pyval
  | Ticket_data ticket
  | Preview_data preview
  | Admission_data bool project_status
  | Overview_data budget_overview
  | Admitted_data int bool
  | Guide_data "(string \<times> bool) list"
  | Usage_data "usage_row list"
  | Verify_data "(string \<times> pyval) list" string "capability list" string
  | Snapshots_data "capability_snapshot list"
  | Health_data health_fact

datatype web_answer = Answer int web_payload | Refused int string | Failed int site_error

record site_env =
  sx_http :: http_env
  sx_api :: api_env
  sx_keys :: key_env
  sx_seller :: seller_env
  sx_validate :: validator
  sx_token :: string
  sx_token_env :: string

subsection \<open>Running services\<close>

definition in_auth :: "'a auth_op \<Rightarrow> 'a site_op" where
  "in_auth = zoom si_auth (\<lambda>t s. s\<lparr>si_auth := t\<rparr>) Auth_raised"

definition in_till :: "'a till_op \<Rightarrow> 'a site_op" where
  "in_till = zoom si_till (\<lambda>t s. s\<lparr>si_till := t\<rparr>) Api_raised"

definition in_desk :: "'a desk_op \<Rightarrow> 'a site_op" where
  "in_desk m = in_till (zoom tl_desk (\<lambda>d t. t\<lparr>tl_desk := d\<rparr>) id m)"

definition in_market :: "'a market_op \<Rightarrow> 'a site_op" where
  "in_market m = in_desk (on_market m)"

definition in_sellers :: "'a seller_op \<Rightarrow> 'a site_op" where
  "in_sellers = zoom si_sellers (\<lambda>t s. s\<lparr>si_sellers := t\<rparr>) Seller_raised"

definition in_bench :: "'a bench_op \<Rightarrow> 'a site_op" where
  "in_bench = zoom si_bench (\<lambda>t s. s\<lparr>si_bench := t\<rparr>) Bench_raised"

subsection \<open>Exceptions the routers catch, with their statuses\<close>

type_synonym catches = "site_error \<Rightarrow> int option"

definition project_errors :: catches where
  "project_errors e = (case e of Api_raised (ProjectError code n) \<Rightarrow> Some n | _ \<Rightarrow> None)"

definition binding_errors :: catches where
  "binding_errors e = (case e of Api_raised (BindingError code n) \<Rightarrow> Some n | _ \<Rightarrow> None)"

definition connection_errors :: catches where
  "connection_errors e = (case e of Api_raised (ConnectionError code n) \<Rightarrow> Some n | _ \<Rightarrow> None)"

definition budget_errors :: catches where
  "budget_errors e = (case e of Api_raised (BudgetError code n) \<Rightarrow> Some n | _ \<Rightarrow> None)"

definition key_errors :: catches where
  "key_errors e = (case e of Api_raised (ProxyKeyError code n) \<Rightarrow> Some n | _ \<Rightarrow> None)"

definition seller_errors :: catches where
  "seller_errors e = (case e of Seller_raised (OnboardingError code n) \<Rightarrow> Some n | _ \<Rightarrow> None)"

definition bench_errors :: catches where
  "bench_errors e = (case e of Bench_raised (WorkbenchError code n) \<Rightarrow> Some n | Api_raised (ConnectionError code n) \<Rightarrow> Some n | _ \<Rightarrow> None)"

definition catching :: "catches \<Rightarrow> web_answer site_op \<Rightarrow> web_answer site_op" where
  "catching caught m = catch_op m (\<lambda>e. case caught e of Some n \<Rightarrow> ret (Failed n e) | None \<Rightarrow> throw e)"

definition answering :: "catches \<Rightarrow> int \<Rightarrow> ('a \<Rightarrow> web_payload) \<Rightarrow> 'a site_op \<Rightarrow> web_answer site_op" where
  "answering caught status view m = catching caught (bindE m (\<lambda>x. ret (Answer status (view x))))"

subsection \<open>Callers\<close>

definition acting :: "site_env \<Rightarrow> instant \<Rightarrow> auth_request \<Rightarrow> (actor \<Rightarrow> web_answer site_op) \<Rightarrow> web_answer site_op" where
  "acting h now q f = bindE (in_auth (resolve_actor (sx_http h) now q)) (\<lambda>r. case r of
     Inl (status, code) \<Rightarrow> ret (Refused status code) | Inr a \<Rightarrow> f a)"

definition cookie_guard :: "site_env \<Rightarrow> auth_request \<Rightarrow> actor \<Rightarrow> web_answer site_op \<Rightarrow> web_answer site_op" where
  "cookie_guard h q a m = (let x = sx_http h in
     bindE (in_auth (lift (guard_cookie_mutation (hx_net x) (av_crypto (hx_auth x)) (av_csrf (hx_auth x)) (hx_origins x)
       (web_request.truncate q) (aw_session a)))) (\<lambda>denied. case denied of
       Some (status, code) \<Rightarrow> ret (Refused status code) | None \<Rightarrow> m))"

definition writing :: "site_env \<Rightarrow> instant \<Rightarrow> auth_request \<Rightarrow> (actor \<Rightarrow> web_answer site_op) \<Rightarrow> web_answer site_op" where
  "writing h now q f = acting h now q (\<lambda>a. cookie_guard h q a (f a))"

definition as_caller :: "actor \<Rightarrow> caller" where
  "as_caller a = \<lparr>ca_id = aw_user a, ca_role = aw_role a, ca_workspace = aw_workspace a\<rparr>"

text \<open>Calls of the gateway carry a token; without one in the settings all are refused.\<close>

definition internal :: "site_env \<Rightarrow> string option \<Rightarrow> web_answer site_op \<Rightarrow> web_answer site_op" where
  "internal h token m = (let known = (if sx_token h = [] then sx_token_env h else sx_token h) in
     if known = [] \<or> \<not> truthy token \<or> token \<noteq> Some known then ret (Refused 401 ''UNAUTHORIZED'') else m)"

subsection \<open>Views\<close>

definition project_payload :: "project \<Rightarrow> pyval" where
  "project_payload rec = PyDict
     [(''project_id'', PyUuid (pj_id rec)), (''owner_account_id'', PyUuid (pj_owner rec)),
      (''display_name'', PyStr (pj_display_name rec)), (''mode'', PyStr (pj_mode rec)),
      (''status'', PyStr (project_status_str (pj_status rec))),
      (''enabled_protocols'', PyList (map PyStr (enabled_protocol_names rec))),
      (''protocols'', PyList (map (\<lambda>p. PyDict [(''protocol'', PyStr (pt_protocol p)), (''enabled'', PyBool (pt_enabled p)),
         (''enabled_at'', py_opt PyTime (pt_enabled_at p)), (''disabled_at'', py_opt PyTime (pt_disabled_at p))]) (pj_protocols rec))),
      (''created_at'', PyTime (pj_created_at rec)), (''updated_at'', PyTime (pj_updated_at rec)),
      (''archived_at'', py_opt PyTime (pj_archived_at rec)), (''preview_opt_in'', PyBool (pj_preview_opt_in rec))]"

fun binding_status_name :: "binding_status \<Rightarrow> string" where
  "binding_status_name Bs_draft = ''draft''"
| "binding_status_name Bs_validated = ''validated''"
| "binding_status_name Bs_active = ''active''"
| "binding_status_name Bs_inactive = ''inactive''"
| "binding_status_name Bs_degraded = ''degraded''"

text \<open>An empty list stands for an absent one.\<close>

definition binding_payload :: "binding \<Rightarrow> pyval" where
  "binding_payload rec = PyDict
     [(''binding_id'', PyUuid (bd_id rec)), (''project_id'', PyUuid (bd_project rec)), (''protocol'', PyStr (bd_protocol rec)),
      (''supply_mode'', PyStr (bd_supply_mode rec)), (''status'', PyStr (binding_status_name (bd_status rec))),
      (''version'', PyInt (bd_version rec)), (''allowed_providers'', PyList (map PyStr (bd_allowed_providers rec))),
      (''allowed_models'', PyList (map PyStr (bd_allowed_models rec))), (''allowed_regions'', PyList (map PyStr (bd_allowed_regions rec))),
      (''connection_id'', py_opt PyUuid (bd_connection rec)), (''draining_connection_id'', py_opt PyUuid (bd_draining_connection rec)),
      (''published_at'', py_opt PyTime (bd_published_at rec)), (''created_at'', py_opt PyTime (bd_created_at rec))]"

fun key_status_name :: "key_status \<Rightarrow> string" where
  "key_status_name Ks_active = ''active''"
| "key_status_name Ks_disabled = ''disabled''"
| "key_status_name Ks_revoked = ''revoked''"

text \<open>The secret is shown once, where a key was issued or rotated.\<close>

definition project_key_payload :: "bool \<Rightarrow> issued_key \<Rightarrow> pyval" where
  "project_key_payload include_secret rec = PyDict
     ([(''key_id'', PyUuid (ik_id rec)), (''project_id'', py_opt PyUuid (ik_project rec)), (''name'', py_opt PyStr (ik_name rec)),
       (''status'', PyStr (key_status_name (ik_status rec))), (''masked_prefix'', PyStr (ik_masked_prefix rec)),
       (''masked_suffix'', PyStr (ik_masked_suffix rec)), (''protocols'', PyList (map PyStr (ik_protocols rec))),
       (''expires_at'', py_opt PyTime (ik_expires_at rec))] @
      (if include_secret \<and> truthy (ik_secret_once rec) then [(''secret'', PyStr (the (ik_secret_once rec)))] else []))"

definition proxy_base :: string where
  "proxy_base = ''/v1/proxy/volcano/chat/completions''"

definition issued_payload :: "issued_key \<Rightarrow> pyval" where
  "issued_payload rec = PyDict
     ([(''key_id'', PyUuid (ik_id rec)), (''platform'', PyStr (ik_platform rec)), (''status'', PyStr (key_status_name (ik_status rec))),
       (''masked_suffix'', PyStr (ik_masked_suffix rec)), (''base_url'', PyStr proxy_base), (''replayed'', PyBool (ik_replayed rec))] @
      (case ik_secret_once rec of None \<Rightarrow> [] | Some s \<Rightarrow> [(''secret'', PyStr s)]))"

definition listed_key_payload :: "issued_key \<Rightarrow> pyval" where
  "listed_key_payload rec = PyDict
     [(''key_id'', PyUuid (ik_id rec)), (''platform'', PyStr (ik_platform rec)), (''status'', PyStr (key_status_name (ik_status rec))),
      (''masked_suffix'', PyStr (ik_masked_suffix rec)), (''name'', py_opt PyStr (ik_name rec))]"

definition revoked_key_payload :: "issued_key \<Rightarrow> pyval" where
  "revoked_key_payload rec = PyDict [(''key_id'', PyUuid (ik_id rec)), (''status'', PyStr (key_status_name (ik_status rec)))]"

fun seller_state_str :: "seller_key_state \<Rightarrow> string" where
  "seller_state_str Sk_active = ''active''"
| "seller_state_str Sk_paused = ''paused''"
| "seller_state_str Sk_revoked = ''revoked''"

definition onboard_payload :: "onboard_result \<Rightarrow> pyval" where
  "onboard_payload out = PyDict
     [(''key_id'', PyUuid (ob_id out)), (''platform'', PyStr (ob_platform out)), (''masked_hint'', PyStr (ob_hint out)),
      (''remaining_quota'', py_opt PyStr (ob_quota out)), (''quota_unit'', py_opt PyStr (ob_unit out)),
      (''administrative_state'', PyStr (seller_state_str (ob_state out))),
      (''health_state'', PyStr (ob_health out)), (''last_validated_at'', PyTime (ob_validated_at out)),
      (''replayed'', PyBool (ob_replayed out))]"

definition items :: "pyval list \<Rightarrow> web_payload" where
  "items vs = Json (PyDict [(''items'', PyList vs)])"

end
