(* ===== verification/Api_Http.thy ===== *)
theory Api_Http
  imports Api_State
begin

section \<open>The routes of the API service\<close>

text \<open>
  \<^verbatim>\<open>api/v1/projects.py\<close>, \<^verbatim>\<open>bindings.py\<close> and \<^verbatim>\<open>connections.py\<close>. Random bytes, the jitter of health checks and the body
  of a request are arguments of a route.
\<close>

subsection \<open>Projects\<close>

abbreviation (input) project_data :: "project \<Rightarrow> web_payload" where
  "project_data p \<equiv> Json (project_payload p)"

definition create_project_route :: "site_env \<Rightarrow> instant \<Rightarrow> auth_request \<Rightarrow> project_form \<Rightarrow> web_answer site_op" where
  "create_project_route h now q f = writing h now q (\<lambda>a. answering project_errors 201 project_data
     (in_market (create_project (ce_crypto (he_conn (ae_health (sx_api h)))) now (as_caller a) f (wq_id q))))"

definition list_projects_route :: "site_env \<Rightarrow> instant \<Rightarrow> auth_request \<Rightarrow> web_answer site_op" where
  "list_projects_route h now q = acting h now q (\<lambda>a. answering project_errors 200 (\<lambda>ps. items (map project_payload ps))
     (in_market (list_my_projects (as_caller a))))"

definition get_project_route :: "site_env \<Rightarrow> instant \<Rightarrow> auth_request \<Rightarrow> uuid \<Rightarrow> web_answer site_op" where
  "get_project_route h now q pid = acting h now q (\<lambda>a. answering project_errors 200 project_data
     (in_market (get_project pid (as_caller a))))"

text \<open>The body is what \<^verbatim>\<open>request.json()\<close> gives; None where it raises.\<close>

definition patch_fields :: "(string \<times> pyval) list \<Rightarrow> bool" where
  "patch_fields raw \<longleftrightarrow> set (map fst raw) \<subseteq> {''display_name'', ''preview_opt_in''} \<and> raw \<noteq> []"

definition patch_project_route :: "site_env \<Rightarrow> instant \<Rightarrow> auth_request \<Rightarrow> uuid \<Rightarrow> pyval option \<Rightarrow> web_answer site_op" where
  "patch_project_route h now q pid body = writing h now q (\<lambda>a. case body of
       Some (PyDict raw) \<Rightarrow>
         if dict_get raw ''mode'' \<noteq> None then ret (Refused 400 ''MODE_IMMUTABLE'')
         else if \<not> patch_fields raw then ret (Refused 400 ''VALIDATION'')
         else answering project_errors 200 project_data
           (bindE (case dict_get raw ''display_name'' of
                None \<Rightarrow> ret None
              | Some v \<Rightarrow> bindE (in_market (rename_project now pid (as_caller a) (py_str v) (wq_id q))) (\<lambda>rec. ret (Some rec))) (\<lambda>renamed.
            case dict_get raw ''preview_opt_in'' of
              Some v \<Rightarrow> in_market (set_preview_opt_in now pid (as_caller a) (py_truth v) (wq_id q))
            | None \<Rightarrow> ret (the renamed)))
     | _ \<Rightarrow> ret (Refused 400 ''VALIDATION''))"

definition delete_project_route :: "site_env \<Rightarrow> instant \<Rightarrow> auth_request \<Rightarrow> uuid \<Rightarrow> web_answer site_op" where
  "delete_project_route h now q pid = writing h now q (\<lambda>a. answering project_errors 200
     (\<lambda>_. Json (PyDict [(''deleted'', PyBool True)])) (in_market (delete_project now pid (as_caller a) (wq_id q))))"

definition transition_route :: "site_env \<Rightarrow> instant \<Rightarrow> auth_request \<Rightarrow> uuid \<Rightarrow> string \<Rightarrow> web_answer site_op" where
  "transition_route h now q pid action = writing h now q (\<lambda>a. answering project_errors 200 project_data
     (in_market (transition_project now pid (as_caller a) action (wq_id q))))"

definition admission_route :: "site_env \<Rightarrow> instant \<Rightarrow> auth_request \<Rightarrow> uuid \<Rightarrow> web_answer site_op" where
  "admission_route h now q pid = acting h now q (\<lambda>a. answering project_errors 200 (\<lambda>(ok, st). Admission_data ok st)
     (in_market (admission pid (as_caller a))))"

definition protocol_route :: "site_env \<Rightarrow> instant \<Rightarrow> auth_request \<Rightarrow> uuid \<Rightarrow> string \<Rightarrow> bool \<Rightarrow> web_answer site_op" where
  "protocol_route h now q pid protocol enable = writing h now q (\<lambda>a. answering project_errors 200 project_data
     (in_market (if enable then enable_protocol now pid (as_caller a) protocol (wq_id q)
        else disable_protocol now pid (as_caller a) protocol (wq_id q))))"

subsection \<open>Bindings\<close>

abbreviation (input) binding_data :: "binding \<Rightarrow> web_payload" where
  "binding_data b \<equiv> Json (binding_payload b)"

definition list_bindings_route :: "site_env \<Rightarrow> instant \<Rightarrow> auth_request \<Rightarrow> uuid \<Rightarrow> web_answer site_op" where
  "list_bindings_route h now q pid = acting h now q (\<lambda>a. answering binding_errors 200 (\<lambda>bs. items (map binding_payload bs))
     (in_market (list_my_bindings pid (as_caller a))))"

definition create_binding_route :: "site_env \<Rightarrow> instant \<Rightarrow> auth_request \<Rightarrow> binding_form \<Rightarrow> web_answer site_op" where
  "create_binding_route h now q f = writing h now q (\<lambda>a. answering binding_errors 201 binding_data
     (in_market (create_binding now (as_caller a) f)))"

definition active_binding_route :: "site_env \<Rightarrow> instant \<Rightarrow> auth_request \<Rightarrow> uuid \<Rightarrow> string \<Rightarrow> web_answer site_op" where
  "active_binding_route h now q pid protocol = acting h now q (\<lambda>a. answering binding_errors 200 binding_data
     (in_market (active_binding pid protocol (as_caller a))))"

definition admit_binding_route ::
  "site_env \<Rightarrow> instant \<Rightarrow> auth_request \<Rightarrow> uuid \<Rightarrow> string \<Rightarrow> string \<Rightarrow> string option \<Rightarrow> web_answer site_op" where
  "admit_binding_route h now q pid protocol provider model = acting h now q (\<lambda>a. answering binding_errors 200 Ticket_data
     (in_market (admit pid protocol provider model (as_caller a))))"

text \<open>A binding of another project is not found.\<close>

definition of_project :: "uuid \<Rightarrow> binding \<Rightarrow> web_answer site_op \<Rightarrow> web_answer site_op" where
  "of_project pid rec m = (if bd_project rec \<noteq> pid then ret (Refused 404 ''NOT_FOUND'') else m)"

definition get_binding_route :: "site_env \<Rightarrow> instant \<Rightarrow> auth_request \<Rightarrow> uuid \<Rightarrow> uuid \<Rightarrow> web_answer site_op" where
  "get_binding_route h now q pid bid = acting h now q (\<lambda>a. catching binding_errors
     (bindE (in_market (get_binding bid (as_caller a))) (\<lambda>rec. of_project pid rec (ret (Answer 200 (binding_data rec))))))"

definition sdk_hint_route :: "site_env \<Rightarrow> instant \<Rightarrow> auth_request \<Rightarrow> uuid \<Rightarrow> web_answer site_op" where
  "sdk_hint_route h now q bid = acting h now q (\<lambda>a. answering binding_errors 200
     (\<lambda>hint. Json (PyDict (map (\<lambda>(k, v). (k, PyStr v)) hint))) (in_market (sdk_hint bid (as_caller a))))"

datatype binding_action = Do_validate | Do_publish | Do_deactivate

text \<open>The project of the path is compared after the action.\<close>

definition binding_action_route ::
  "site_env \<Rightarrow> instant \<Rightarrow> auth_request \<Rightarrow> uuid \<Rightarrow> uuid \<Rightarrow> binding_action \<Rightarrow> web_answer site_op" where
  "binding_action_route h now q pid bid action = writing h now q (\<lambda>a. catching binding_errors
     (bindE (in_market (case action of
          Do_validate \<Rightarrow> validate_binding (ae_prices (sx_api h)) now bid (as_caller a)
        | Do_publish \<Rightarrow> publish_binding (ae_prices (sx_api h)) now bid (as_caller a) (wq_id q)
        | Do_deactivate \<Rightarrow> deactivate_binding now bid (as_caller a) (wq_id q))) (\<lambda>rec.
      of_project pid rec (ret (Answer 200 (binding_data rec))))))"

definition preview_replace_route :: "site_env \<Rightarrow> instant \<Rightarrow> auth_request \<Rightarrow> uuid \<Rightarrow> uuid \<Rightarrow> web_answer site_op" where
  "preview_replace_route h now q pid bid = acting h now q (\<lambda>a. catching binding_errors
     (bindE (in_market (get_binding bid (as_caller a))) (\<lambda>rec. of_project pid rec
       (bindE (in_market (replace_preview bid (as_caller a))) (\<lambda>p. ret (Answer 200 (Preview_data p)))))))"

definition replace_binding_route ::
  "site_env \<Rightarrow> instant \<Rightarrow> auth_request \<Rightarrow> uuid \<Rightarrow> uuid \<Rightarrow> uuid \<Rightarrow> bool \<Rightarrow> string \<Rightarrow> bool \<Rightarrow> web_answer site_op" where
  "replace_binding_route h now q pid bid new confirmed reason stepped = writing h now q (\<lambda>a. catching binding_errors
     (bindE (in_market (get_binding bid (as_caller a))) (\<lambda>rec. of_project pid rec
       (bindE (in_market (replace_binding now bid (as_caller a) new confirmed reason stepped (wq_id q))) (\<lambda>rec.
        ret (Answer 200 (binding_data rec)))))))"

definition degrade_route :: "site_env \<Rightarrow> instant \<Rightarrow> auth_request \<Rightarrow> string option \<Rightarrow> uuid \<Rightarrow> web_answer site_op" where
  "degrade_route h now q token cid =
     (if sx_token h = [] \<or> token \<noteq> Some (sx_token h) then ret (Refused 401 ''UNAUTHORIZED'')
      else bindE (in_market (degrade_for_connection now cid (wq_id q))) (\<lambda>n.
        ret (Answer 200 (Json (PyDict [(''degraded'', PyInt n)])))))"

subsection \<open>Connections\<close>

abbreviation (input) connection_data :: "connection \<Rightarrow> web_payload" where
  "connection_data rec \<equiv> Json (PyDict (connection_public rec))"

definition api_conn :: "site_env \<Rightarrow> connection_env" where
  "api_conn h = he_conn (ae_health (sx_api h))"

text \<open>A new credential is checked at once; the response shows what the check left, and a failing check does not fail the route.\<close>

definition after_verify :: "site_env \<Rightarrow> instant \<Rightarrow> auth_request \<Rightarrow> actor \<Rightarrow> int \<Rightarrow> connection \<Rightarrow> connection site_op" where
  "after_verify h now q a jitter rec = catch_op
     (bindE (in_market (verify (ae_health (sx_api h)) now jitter (co_id rec) (as_caller a) True (wq_id q))) (\<lambda>_.
      in_market (get_connection (co_id rec) (as_caller a))))
     (\<lambda>e. if connection_errors e \<noteq> None then ret rec else throw e)"

definition create_connection_route ::
  "site_env \<Rightarrow> instant \<Rightarrow> auth_request \<Rightarrow> bytes \<Rightarrow> int \<Rightarrow> connection_form \<Rightarrow> web_answer site_op" where
  "create_connection_route h now q nonce jitter f = writing h now q (\<lambda>a. catching connection_errors
     (bindE (in_market (create_connection (api_conn h) now nonce (as_caller a) f (wq_id q))) (\<lambda>rec.
      bindE (after_verify h now q a jitter rec) (\<lambda>rec. ret (Answer 201 (connection_data rec))))))"

definition list_connections_route :: "site_env \<Rightarrow> instant \<Rightarrow> auth_request \<Rightarrow> web_answer site_op" where
  "list_connections_route h now q = acting h now q (\<lambda>a. answering connection_errors 200
     (\<lambda>cs. items (map (\<lambda>c. PyDict (connection_public c)) cs)) (in_market (list_my_connections (as_caller a))))"

definition get_connection_route :: "site_env \<Rightarrow> instant \<Rightarrow> auth_request \<Rightarrow> uuid \<Rightarrow> web_answer site_op" where
  "get_connection_route h now q cid = acting h now q (\<lambda>a. answering connection_errors 200 connection_data
     (in_market (get_connection cid (as_caller a))))"

definition replace_credential_route ::
  "site_env \<Rightarrow> instant \<Rightarrow> auth_request \<Rightarrow> bytes \<Rightarrow> int \<Rightarrow> uuid \<Rightarrow> string \<Rightarrow> int \<Rightarrow> string option \<Rightarrow> string option \<Rightarrow> web_answer site_op" where
  "replace_credential_route h now q nonce jitter cid secret version pn loc = writing h now q (\<lambda>a. catching connection_errors
     (bindE (in_market (replace_credential (api_conn h) now nonce cid (as_caller a) secret version pn loc (wq_id q))) (\<lambda>rec.
      bindE (after_verify h now q a jitter rec) (\<lambda>rec. ret (Answer 200 (connection_data rec))))))"

definition verify_route :: "site_env \<Rightarrow> instant \<Rightarrow> auth_request \<Rightarrow> int \<Rightarrow> uuid \<Rightarrow> web_answer site_op" where
  "verify_route h now q jitter cid = writing h now q (\<lambda>a. answering connection_errors 200
     (\<lambda>v. Verify_data (connection_public (vr_connection v)) (vr_category v) (vr_capabilities v) (vr_detail v))
     (in_market (verify (ae_health (sx_api h)) now jitter cid (as_caller a) True (wq_id q))))"

definition health_route :: "site_env \<Rightarrow> instant \<Rightarrow> auth_request \<Rightarrow> uuid \<Rightarrow> web_answer site_op" where
  "health_route h now q cid = acting h now q (\<lambda>a. answering connection_errors 200 (\<lambda>d. Json (PyDict d))
     (in_market (public_health cid (as_caller a))))"

definition capabilities_route :: "site_env \<Rightarrow> instant \<Rightarrow> auth_request \<Rightarrow> uuid \<Rightarrow> web_answer site_op" where
  "capabilities_route h now q cid = acting h now q (\<lambda>a. answering connection_errors 200 Snapshots_data
     (in_market (list_my_snapshots cid (as_caller a))))"

definition delete_connection_route :: "site_env \<Rightarrow> instant \<Rightarrow> auth_request \<Rightarrow> uuid \<Rightarrow> web_answer site_op" where
  "delete_connection_route h now q cid = writing h now q (\<lambda>a. answering connection_errors 200
     (\<lambda>fp. Json (PyDict [(''connection_id'', PyUuid cid), (''status'', PyStr ''deleted''), (''credential_fingerprint'', PyStr fp)]))
     (bindE (in_market (get_connection cid (as_caller a))) (\<lambda>rec.
      bindE (in_market (ensure_deletable cid)) (\<lambda>_.
      bindE (in_market (delete_connection now cid (as_caller a) (wq_id q))) (\<lambda>_. ret (co_fingerprint rec))))))"

datatype supply_action = Do_list | Do_pause | Do_resume | Do_drain | Do_retire

definition lifecycle_route :: "site_env \<Rightarrow> instant \<Rightarrow> auth_request \<Rightarrow> uuid \<Rightarrow> supply_action \<Rightarrow> web_answer site_op" where
  "lifecycle_route h now q cid action = writing h now q (\<lambda>a. answering connection_errors 200 connection_data
     (in_market (case action of
         Do_list \<Rightarrow> list_supply now cid (as_caller a) (wq_id q)
       | Do_pause \<Rightarrow> pause now cid (as_caller a) (wq_id q)
       | Do_resume \<Rightarrow> resume now cid (as_caller a) (wq_id q)
       | Do_drain \<Rightarrow> drain now cid (as_caller a) (wq_id q)
       | Do_retire \<Rightarrow> retire now cid (as_caller a) (wq_id q))))"

definition supply_mode_route :: "site_env \<Rightarrow> instant \<Rightarrow> auth_request \<Rightarrow> uuid \<Rightarrow> string \<Rightarrow> web_answer site_op" where
  "supply_mode_route h now q cid mode = writing h now q (\<lambda>a. answering connection_errors 200 connection_data
     (in_market (set_mode now cid (as_caller a) mode (wq_id q))))"

definition routable_connections_route :: "site_env \<Rightarrow> string option \<Rightarrow> string \<Rightarrow> web_answer site_op" where
  "routable_connections_route h token mode = internal h token
     (bindE (in_market (gets (list_routable mode))) (\<lambda>rs. ret (Answer 200 (items (map (\<lambda>r. PyDict
        [(''connection_id'', PyUuid (co_id r)), (''provider'', PyStr (co_provider r)), (''supply_mode'', PyStr (co_supply_mode r)),
         (''lifecycle_state'', PyStr (lifecycle_str (co_lifecycle_state r)))]) rs)))))"

definition unwrap_route :: "site_env \<Rightarrow> instant \<Rightarrow> auth_request \<Rightarrow> string option \<Rightarrow> uuid \<Rightarrow> string \<Rightarrow> web_answer site_op" where
  "unwrap_route h now q token cid purpose = internal h token (answering connection_errors 200
     (\<lambda>secret. Json (PyDict [(''secret'', PyStr secret), (''purpose'', PyStr purpose)]))
     (in_market (unwrap (api_conn h) now cid purpose (wq_id q) None)))"

definition internal_health_route :: "site_env \<Rightarrow> string option \<Rightarrow> uuid \<Rightarrow> web_answer site_op" where
  "internal_health_route h token cid = internal h token
     (bindE (in_market (gets (health_fact_of cid))) (\<lambda>found. ret (case found of
        None \<Rightarrow> Refused 404 ''NOT_FOUND'' | Some hf \<Rightarrow> Answer 200 (Health_data hf))))"

end
