(* ===== verification/Api_Keys_Http.thy ===== *)
theory Api_Keys_Http
  imports Api_Http
begin

section \<open>Routes of budgets, keys, the workbench and the gateway\<close>

text \<open>\<^verbatim>\<open>api/v1/budget.py\<close>, \<^verbatim>\<open>project_keys.py\<close>, \<^verbatim>\<open>proxy_keys.py\<close>, \<^verbatim>\<open>seller_keys.py\<close>, \<^verbatim>\<open>workbench.py\<close> and \<^verbatim>\<open>internal.py\<close>.\<close>

subsection \<open>Budgets\<close>

definition get_budget_route :: "site_env \<Rightarrow> instant \<Rightarrow> auth_request \<Rightarrow> uuid \<Rightarrow> web_answer site_op" where
  "get_budget_route h now q pid = acting h now q (\<lambda>a. answering budget_errors 200 Overview_data
     (in_till (overview pid (as_caller a) None)))"

definition put_budget_route ::
  "site_env \<Rightarrow> instant \<Rightarrow> auth_request \<Rightarrow> uuid \<Rightarrow> int \<Rightarrow> int \<Rightarrow> string option \<Rightarrow> web_answer site_op" where
  "put_budget_route h now q pid hard soft key = writing h now q (\<lambda>a. answering budget_errors 200
     (\<lambda>pol. Json (PyDict [(''hard_minor'', PyInt (bp_hard pol)), (''soft_minor'', PyInt (bp_soft pol)),
        (''key_id'', py_opt PyStr (bp_key pol))]))
     (in_till (put_policy pid (as_caller a) hard soft key)))"

text \<open>This route books an amount, but the guard of writes with a cookie is not asked.\<close>

definition admit_budget_route :: "site_env \<Rightarrow> instant \<Rightarrow> auth_request \<Rightarrow> uuid \<Rightarrow> int \<Rightarrow> string option \<Rightarrow> web_answer site_op" where
  "admit_budget_route h now q pid amount key = acting h now q (\<lambda>a. answering budget_errors 200
     (\<lambda>(n, warning). Admitted_data n warning) (in_till (budget_admit pid (as_caller a) amount key)))"

definition guide_route :: "site_env \<Rightarrow> instant \<Rightarrow> auth_request \<Rightarrow> uuid \<Rightarrow> web_answer site_op" where
  "guide_route h now q pid = acting h now q (\<lambda>a. answering budget_errors 200 Guide_data (in_till (guide pid (as_caller a))))"

definition usage_route ::
  "site_env \<Rightarrow> instant \<Rightarrow> auth_request \<Rightarrow> uuid \<Rightarrow> string option \<Rightarrow> string option \<Rightarrow> web_answer site_op" where
  "usage_route h now q pid key status = acting h now q (\<lambda>a. answering budget_errors 200 Usage_data
     (in_till (usage pid (as_caller a) key status)))"

subsection \<open>Keys of a project\<close>

definition list_project_keys_route :: "site_env \<Rightarrow> instant \<Rightarrow> auth_request \<Rightarrow> uuid \<Rightarrow> web_answer site_op" where
  "list_project_keys_route h now q pid = acting h now q (\<lambda>a. answering key_errors 200
     (\<lambda>ks. items (map (project_key_payload False) ks)) (in_desk (list_project_keys (aw_user a) pid (aw_role a))))"

definition issue_project_key_route ::
  "site_env \<Rightarrow> instant \<Rightarrow> auth_request \<Rightarrow> bytes \<Rightarrow> uuid \<Rightarrow> scope_form \<Rightarrow> string option \<Rightarrow> web_answer site_op" where
  "issue_project_key_route h now q random pid f key = writing h now q (\<lambda>a. answering key_errors 201
     (\<lambda>k. Json (project_key_payload True k))
     (in_desk (issue_for_project (sx_keys h) random (aw_user a) pid f (aw_role a) (aw_workspace a) key)))"

datatype key_action = Key_rotate bytes | Key_disable | Key_enable | Key_revoke

definition key_action_route :: "site_env \<Rightarrow> instant \<Rightarrow> auth_request \<Rightarrow> uuid \<Rightarrow> uuid \<Rightarrow> key_action \<Rightarrow> web_answer site_op" where
  "key_action_route h now q pid kid action = writing h now q (\<lambda>a. case action of
       Key_rotate random \<Rightarrow> answering key_errors 200 (\<lambda>k. Json (project_key_payload True k))
         (in_desk (rotate_key (sx_keys h) random kid (aw_user a) pid (aw_role a)))
     | Key_disable \<Rightarrow> answering key_errors 200 (\<lambda>k. Json (project_key_payload False k)) (in_desk (disable_key kid (aw_user a) pid))
     | Key_enable \<Rightarrow> answering key_errors 200 (\<lambda>k. Json (project_key_payload False k)) (in_desk (enable_key kid (aw_user a) pid))
     | Key_revoke \<Rightarrow> answering key_errors 200 (\<lambda>k. Json (project_key_payload False k)) (in_desk (revoke_project_key kid (aw_user a) pid)))"

subsection \<open>Keys of a platform\<close>

definition issue_key_route ::
  "site_env \<Rightarrow> instant \<Rightarrow> auth_request \<Rightarrow> bytes \<Rightarrow> string \<Rightarrow> string option \<Rightarrow> web_answer site_op" where
  "issue_key_route h now q random platform name = writing h now q (\<lambda>a. answering key_errors 200
     (\<lambda>k. Json (issued_payload k))
     (in_desk (issue (sx_keys h) random (aw_user a) platform name (aw_role a) (wq_idempotency q))))"

definition list_keys_route :: "site_env \<Rightarrow> instant \<Rightarrow> auth_request \<Rightarrow> web_answer site_op" where
  "list_keys_route h now q = acting h now q (\<lambda>a. answering key_errors 200 (\<lambda>ks. Json (PyList (map listed_key_payload ks)))
     (in_desk (list_mine_keys (aw_user a) (aw_role a))))"

definition revoke_key_route :: "site_env \<Rightarrow> instant \<Rightarrow> auth_request \<Rightarrow> uuid \<Rightarrow> web_answer site_op" where
  "revoke_key_route h now q kid = writing h now q (\<lambda>a. answering key_errors 200 (\<lambda>k. Json (revoked_key_payload k))
     (in_desk (revoke_key kid (aw_user a) (aw_role a))))"

subsection \<open>Keys of sellers\<close>

text \<open>The limit on concurrent validations is left out.\<close>

definition onboard_route :: "site_env \<Rightarrow> instant \<Rightarrow> auth_request \<Rightarrow> bytes \<Rightarrow> string \<Rightarrow> string \<Rightarrow> web_answer site_op" where
  "onboard_route h now q nonce platform api_key = writing h now q (\<lambda>a.
     if \<not> truthy (wq_idempotency q) then ret (Refused 400 ''INVALID_REQUEST'')
     else answering seller_errors 200 (\<lambda>out. Json (onboard_payload out))
       (in_sellers (onboard (sx_seller h) (sx_validate h) nonce now
         \<lparr>oq_seller = aw_user a, oq_role = aw_role a, oq_platform = platform, oq_api_key = api_key,
          oq_idem = the (wq_idempotency q), oq_request = wq_id q\<rparr>)))"

definition list_seller_keys_route :: "site_env \<Rightarrow> instant \<Rightarrow> auth_request \<Rightarrow> web_answer site_op" where
  "list_seller_keys_route h now q = acting h now q (\<lambda>a. answering seller_errors 200 (\<lambda>ks. Json (PyList (map PyDict ks)))
     (in_sellers (list_seller_keys (aw_user a) (aw_role a))))"

definition get_seller_key_route :: "site_env \<Rightarrow> instant \<Rightarrow> auth_request \<Rightarrow> uuid \<Rightarrow> web_answer site_op" where
  "get_seller_key_route h now q kid = acting h now q (\<lambda>a. answering seller_errors 200 (\<lambda>k. Json (PyDict k))
     (in_sellers (get_seller_key kid (aw_user a) (aw_role a))))"

datatype seller_action = Seller_pause | Seller_resume bytes | Seller_revoke

definition seller_action_route :: "site_env \<Rightarrow> instant \<Rightarrow> auth_request \<Rightarrow> uuid \<Rightarrow> seller_action \<Rightarrow> web_answer site_op" where
  "seller_action_route h now q kid action = writing h now q (\<lambda>a. answering seller_errors 200 (\<lambda>k. Json (PyDict k))
     (in_sellers (case action of
         Seller_pause \<Rightarrow> pause_key kid (aw_user a) (aw_role a)
       | Seller_resume nonce \<Rightarrow> resume_key (sx_seller h) (sx_validate h) nonce now kid (aw_user a) (aw_role a) (wq_id q)
       | Seller_revoke \<Rightarrow> revoke_seller_key kid (aw_user a) (aw_role a))))"

subsection \<open>The workbench\<close>

definition as_seller :: "(actor \<Rightarrow> web_answer site_op) \<Rightarrow> actor \<Rightarrow> web_answer site_op" where
  "as_seller f a =
     (if aw_workspace a \<noteq> Some ''seller'' \<and> aw_role a \<notin> {''seller'', ''both''} then ret (Refused 403 ''FORBIDDEN'')
      else if aw_workspace a = Some ''buyer'' then ret (Refused 403 ''FORBIDDEN'')
      else f a)"

definition card_of :: "connection \<Rightarrow> connection_card" where
  "card_of rec = \<lparr>cc_connection = nat_str (co_id rec), cc_seller = nat_str (co_seller rec), cc_provider = co_provider rec,
     cc_mode = co_supply_mode rec, cc_lifecycle = lifecycle_str (co_lifecycle_state rec),
     cc_health = health_str (co_health_state rec), cc_reason = co_health_reason rec\<rparr>"

fun bench_cards :: "string \<Rightarrow> connection list \<Rightarrow> pyval list bench_op" where
  "bench_cards seller [] = ret []"
| "bench_cards seller (c # cs) = bindE (bench_card (card_of c) seller) (\<lambda>v. bindE (bench_cards seller cs) (\<lambda>vs. ret (v # vs)))"

definition workbench_route :: "site_env \<Rightarrow> instant \<Rightarrow> auth_request \<Rightarrow> web_answer site_op" where
  "workbench_route h now q = acting h now q (as_seller (\<lambda>a. answering bench_errors 200 items
     (bindE (in_market (list_my_connections (as_caller a))) (\<lambda>rows. in_bench (bench_cards (nat_str (aw_user a)) rows)))))"

definition quote_route :: "site_env \<Rightarrow> instant \<Rightarrow> auth_request \<Rightarrow> uuid \<Rightarrow> int \<Rightarrow> web_answer site_op" where
  "quote_route h now q cid bps = acting h now q (as_seller (\<lambda>a. cookie_guard h q a (answering bench_errors 200
     (\<lambda>r. Json (PyDict [(''seq'', PyInt (qr_seq r)), (''multiplier_bps'', PyInt (qr_bps r)), (''rate_version'', PyStr (qr_version r))]))
     (bindE (in_market (get_connection cid (as_caller a))) (\<lambda>rec.
      in_bench (submit_quote now (nat_str (aw_user a)) (nat_str cid) bps (nat_str (aw_user a)) (nat_str (co_seller rec))))))))"

definition capacity_route :: "site_env \<Rightarrow> instant \<Rightarrow> auth_request \<Rightarrow> uuid \<Rightarrow> int \<Rightarrow> web_answer site_op" where
  "capacity_route h now q cid declared = acting h now q (as_seller (\<lambda>a. cookie_guard h q a (answering bench_errors 200
     (\<lambda>n. Json (PyDict [(''declared_capacity'', PyInt n)]))
     (bindE (in_market (get_connection cid (as_caller a))) (\<lambda>rec.
      in_bench (set_capacity now (nat_str (aw_user a)) (nat_str cid) declared (nat_str (aw_user a)) (nat_str (co_seller rec))))))))"

subsection \<open>The gateway\<close>

text \<open>A row of the store that is routed; nothing in the repository sets the concurrency of a row.\<close>

definition routed_payload :: "seller_store \<Rightarrow> routed_key \<Rightarrow> pyval" where
  "routed_payload s k = PyDict
     ([(''id'', PyUuid (rk_id k)), (''seller_id'', PyUuid (rk_seller k)), (''api_key'', PyStr (rk_secret k))] @
      (case dict_get (sl_rows s) (rk_id k) of
         None \<Rightarrow> []
       | Some r \<Rightarrow> [(''administrative_state'', PyStr (seller_state_str (sk_state r))), (''health_state'', PyStr (sk_health r))]) @
      [(''platform'', PyStr (rk_platform k)), (''remaining_quota'', PyStr (rk_quota k)), (''official_concurrency'', PyStr [])])"

definition routable_keys_route :: "site_env \<Rightarrow> string option \<Rightarrow> (uuid \<Rightarrow> bytes) \<Rightarrow> web_answer site_op" where
  "routable_keys_route h token nonces = internal h token
     (bindE (in_sellers (routable_keys (sx_seller h) nonces)) (\<lambda>ks.
      bindE (in_sellers (gets (\<lambda>s. map (routed_payload s) ks))) (\<lambda>vs. ret (Answer 200 (Json (PyList vs))))))"

definition patch_health_route :: "site_env \<Rightarrow> string option \<Rightarrow> uuid \<Rightarrow> string \<Rightarrow> web_answer site_op" where
  "patch_health_route h token kid health = internal h token
     (bindE (in_sellers (seller_apply_health kid health)) (\<lambda>_. ret (Answer 200 (Json (PyDict [(''id'', PyUuid kid)])))))"

text \<open>The key of a hash, with the mode of its project.\<close>

definition runtime_key :: "string \<Rightarrow> desk \<Rightarrow> pyval option" where
  "runtime_key hash d = (case lookup_runtime hash (dk_keys d) of
       None \<Rightarrow> None
     | Some rec \<Rightarrow>
         let project = (case ik_project rec of None \<Rightarrow> None | Some pid \<Rightarrow> the_project pid (dk_market d)) in
         Some (PyDict [(''key_id'', PyUuid (ik_id rec)), (''buyer_id'', PyUuid (ik_buyer rec)), (''platform'', PyStr (ik_platform rec)),
           (''status'', PyStr (key_status_name (ik_status rec))), (''project_id'', py_opt PyUuid (ik_project rec)),
           (''project_mode'', py_opt (\<lambda>p. PyStr (pj_mode p)) project),
           (''preview_opt_in'', PyBool (case project of None \<Rightarrow> False | Some p \<Rightarrow> pj_preview_opt_in p))]))"

definition key_by_hash_route :: "site_env \<Rightarrow> string option \<Rightarrow> string \<Rightarrow> web_answer site_op" where
  "key_by_hash_route h token hash = internal h token
     (bindE (in_desk (gets (runtime_key hash))) (\<lambda>found. ret (case found of
        None \<Rightarrow> Refused 404 ''NOT_FOUND'' | Some v \<Rightarrow> Answer 200 (Json v))))"

text \<open>A binding with its connection and the credential; a credential that does not open is an empty text.\<close>

definition snapshot_row :: "site_env \<Rightarrow> instant \<Rightarrow> string \<Rightarrow> binding \<Rightarrow> pyval option market_op" where
  "snapshot_row h now rq rec = (case bd_connection rec of
       None \<Rightarrow> ret None
     | Some cid \<Rightarrow>
         bindE (catch_op (unwrap (api_conn h) now cid ''proxy'' rq None) (\<lambda>e. ret [])) (\<lambda>secret.
         bindE (gets (the_connection cid)) (\<lambda>row.
         let provider = (case row of None \<Rightarrow> [] | Some r \<Rightarrow> co_provider r);
             protocol = (if bd_protocol rec = [] then provider else bd_protocol rec) in
         ret (Some (PyDict [(''connection_id'', PyUuid cid), (''provider'', PyStr (if provider = [] then protocol else provider)),
           (''protocol'', PyStr protocol), (''supply_mode'', PyStr (bd_supply_mode rec)),
           (''base_url'', PyStr (case row of None \<Rightarrow> [] | Some r \<Rightarrow> co_base_url r)), (''credential'', PyStr secret),
           (''seller_owner_id'', case row of None \<Rightarrow> PyStr [] | Some r \<Rightarrow> PyUuid (co_seller r)),
           (''health'', PyStr (case row of None \<Rightarrow> ''unknown'' | Some r \<Rightarrow> health_str (co_health_state r))),
           (''lifecycle'', PyStr (binding_status_name (bd_status rec)))])))))"

fun snapshot_rows :: "site_env \<Rightarrow> instant \<Rightarrow> string \<Rightarrow> binding list \<Rightarrow> pyval list market_op" where
  "snapshot_rows h now rq [] = ret []"
| "snapshot_rows h now rq (b # bs) = bindE (snapshot_row h now rq b) (\<lambda>v. bindE (snapshot_rows h now rq bs) (\<lambda>vs.
     ret (case v of None \<Rightarrow> vs | Some x \<Rightarrow> x # vs)))"

definition route_snapshot_route :: "site_env \<Rightarrow> instant \<Rightarrow> auth_request \<Rightarrow> string option \<Rightarrow> uuid \<Rightarrow> web_answer site_op" where
  "route_snapshot_route h now q token pid = internal h token
     (bindE (in_market (gets (the_project pid))) (\<lambda>found. case found of
        None \<Rightarrow> ret (Refused 404 ''NOT_FOUND'')
      | Some p \<Rightarrow>
          bindE (in_market (gets (\<lambda>m. binding_list_by_project pid (mk_bindings m)))) (\<lambda>bs.
          bindE (in_market (snapshot_rows h now (wq_id q) bs)) (\<lambda>rows.
          ret (Answer 200 (Json (PyDict [(''project_id'', PyUuid (pj_id p)), (''mode'', PyStr (pj_mode p)),
            (''preview_opt_in'', PyBool (pj_preview_opt_in p)), (''buyer_owner_id'', PyUuid (pj_owner p)),
            (''connections'', PyList rows)])))))))"

section \<open>Requests to the API service\<close>

text \<open>
  The requests that the routes of \<^verbatim>\<open>Api_Http\<close> and \<^verbatim>\<open>Api_Keys_Http\<close> serve, those of browsers and those of the
  gateway, with the parameters of path and body, and the route that serves each. The token of a gateway's request comes
  in a header of its own.
\<close>

datatype web_call =
    Post_project project_form | List_projects | Get_project uuid | Patch_project uuid "pyval option" | Remove_project uuid
  | Move_project uuid string | Get_admission uuid | Switch_protocol uuid string bool
  | List_bindings uuid | Post_binding binding_form | Active_binding uuid string
  | Admit_binding uuid string string "string option" | Get_binding uuid uuid | Get_sdk_hint uuid
  | Act_on_binding uuid uuid binding_action | Get_replace uuid uuid | Post_replace uuid uuid uuid bool string bool
  | Post_connection bytes int connection_form | List_connections | Get_connection uuid
  | Put_credential bytes int uuid string int "string option" "string option" | Verify_connection int uuid
  | Get_health uuid | List_capabilities uuid | Remove_connection uuid | Act_on_connection uuid supply_action
  | Patch_supply_mode uuid string

datatype key_call =
    Get_budget uuid | Put_budget uuid int int "string option" | Admit_budget uuid int "string option" | Get_guide uuid
  | Get_usage uuid "string option" "string option"
  | List_project_keys uuid | Issue_project_key bytes uuid scope_form "string option" | Act_on_key uuid uuid key_action
  | Issue_key bytes string "string option" | List_keys | Revoke_key uuid
  | Onboard_key bytes string string | List_seller_keys | Get_seller_key uuid | Act_on_seller_key uuid seller_action
  | Get_workbench | Post_quote uuid int | Post_capacity uuid int

datatype gateway_call =
    Degrade uuid | Routable_connections string | Unwrap_connection uuid string | Connection_health uuid
  | Routable_keys "uuid \<Rightarrow> bytes" | Patch_health uuid string | Key_by_hash string | Route_snapshot uuid

datatype api_call = Web web_call | Keys key_call | Gateway "string option" gateway_call

fun web_http :: "site_env \<Rightarrow> instant \<Rightarrow> auth_request \<Rightarrow> web_call \<Rightarrow> web_answer site_op" where
  "web_http h now q (Post_project f) = create_project_route h now q f"
| "web_http h now q List_projects = list_projects_route h now q"
| "web_http h now q (Get_project pid) = get_project_route h now q pid"
| "web_http h now q (Patch_project pid body) = patch_project_route h now q pid body"
| "web_http h now q (Remove_project pid) = delete_project_route h now q pid"
| "web_http h now q (Move_project pid action) = transition_route h now q pid action"
| "web_http h now q (Get_admission pid) = admission_route h now q pid"
| "web_http h now q (Switch_protocol pid protocol enable) = protocol_route h now q pid protocol enable"
| "web_http h now q (List_bindings pid) = list_bindings_route h now q pid"
| "web_http h now q (Post_binding f) = create_binding_route h now q f"
| "web_http h now q (Active_binding pid protocol) = active_binding_route h now q pid protocol"
| "web_http h now q (Admit_binding pid protocol provider model) = admit_binding_route h now q pid protocol provider model"
| "web_http h now q (Get_binding pid bid) = get_binding_route h now q pid bid"
| "web_http h now q (Get_sdk_hint bid) = sdk_hint_route h now q bid"
| "web_http h now q (Act_on_binding pid bid action) = binding_action_route h now q pid bid action"
| "web_http h now q (Get_replace pid bid) = preview_replace_route h now q pid bid"
| "web_http h now q (Post_replace pid bid new confirmed reason stepped) =
     replace_binding_route h now q pid bid new confirmed reason stepped"
| "web_http h now q (Post_connection nonce jitter f) = create_connection_route h now q nonce jitter f"
| "web_http h now q List_connections = list_connections_route h now q"
| "web_http h now q (Get_connection cid) = get_connection_route h now q cid"
| "web_http h now q (Put_credential nonce jitter cid secret version pn loc) =
     replace_credential_route h now q nonce jitter cid secret version pn loc"
| "web_http h now q (Verify_connection jitter cid) = verify_route h now q jitter cid"
| "web_http h now q (Get_health cid) = health_route h now q cid"
| "web_http h now q (List_capabilities cid) = capabilities_route h now q cid"
| "web_http h now q (Remove_connection cid) = delete_connection_route h now q cid"
| "web_http h now q (Act_on_connection cid action) = lifecycle_route h now q cid action"
| "web_http h now q (Patch_supply_mode cid mode) = supply_mode_route h now q cid mode"

fun keys_http :: "site_env \<Rightarrow> instant \<Rightarrow> auth_request \<Rightarrow> key_call \<Rightarrow> web_answer site_op" where
  "keys_http h now q (Get_budget pid) = get_budget_route h now q pid"
| "keys_http h now q (Put_budget pid hard soft key) = put_budget_route h now q pid hard soft key"
| "keys_http h now q (Admit_budget pid amount key) = admit_budget_route h now q pid amount key"
| "keys_http h now q (Get_guide pid) = guide_route h now q pid"
| "keys_http h now q (Get_usage pid key status) = usage_route h now q pid key status"
| "keys_http h now q (List_project_keys pid) = list_project_keys_route h now q pid"
| "keys_http h now q (Issue_project_key random pid f key) = issue_project_key_route h now q random pid f key"
| "keys_http h now q (Act_on_key pid kid action) = key_action_route h now q pid kid action"
| "keys_http h now q (Issue_key random platform name) = issue_key_route h now q random platform name"
| "keys_http h now q List_keys = list_keys_route h now q"
| "keys_http h now q (Revoke_key kid) = revoke_key_route h now q kid"
| "keys_http h now q (Onboard_key nonce platform api_key) = onboard_route h now q nonce platform api_key"
| "keys_http h now q List_seller_keys = list_seller_keys_route h now q"
| "keys_http h now q (Get_seller_key kid) = get_seller_key_route h now q kid"
| "keys_http h now q (Act_on_seller_key kid action) = seller_action_route h now q kid action"
| "keys_http h now q Get_workbench = workbench_route h now q"
| "keys_http h now q (Post_quote cid bps) = quote_route h now q cid bps"
| "keys_http h now q (Post_capacity cid declared) = capacity_route h now q cid declared"

fun gateway_http :: "site_env \<Rightarrow> instant \<Rightarrow> auth_request \<Rightarrow> string option \<Rightarrow> gateway_call \<Rightarrow> web_answer site_op" where
  "gateway_http h now q token (Degrade cid) = degrade_route h now q token cid"
| "gateway_http h now q token (Routable_connections mode) = routable_connections_route h token mode"
| "gateway_http h now q token (Unwrap_connection cid purpose) = unwrap_route h now q token cid purpose"
| "gateway_http h now q token (Connection_health cid) = internal_health_route h token cid"
| "gateway_http h now q token (Routable_keys nonces) = routable_keys_route h token nonces"
| "gateway_http h now q token (Patch_health kid health) = patch_health_route h token kid health"
| "gateway_http h now q token (Key_by_hash hash) = key_by_hash_route h token hash"
| "gateway_http h now q token (Route_snapshot pid) = route_snapshot_route h now q token pid"

fun api_http :: "site_env \<Rightarrow> instant \<Rightarrow> auth_request \<Rightarrow> api_call \<Rightarrow> web_answer site_op" where
  "api_http h now q (Web c) = web_http h now q c"
| "api_http h now q (Keys c) = keys_http h now q c"
| "api_http h now q (Gateway token c) = gateway_http h now q token c"

end
