(* ===== verification/Api_Facts.thy ===== *)
theory Api_Facts
  imports Api_Keys_Http Auth_Logins Edge_Facts
begin

section \<open>Who changes the state of the services over HTTP\<close>

text \<open>
  Which operations of the services only read (\<open>evolution\<close> with equality), and that the routes change the services
  only after their guards: \<open>only_if\<close> says from which states of authentication an operation may change anything.
\<close>

subsection \<open>Operations that only read\<close>

interpretation reading: evolution "(=)"
  by unfold_locales auto

lemma zoom_reads: "evolves (=) m \<Longrightarrow> (\<And>s. upd (part s) s = s) \<Longrightarrow> evolves (=) (zoom part upd err m)"
  unfolding evolves_def zoom_def by (auto split: prod.splits sum.splits) (metis snd_conv)+

lemmas reading_rules = reading.rules evolve

lemma project_reads:
  "evolves (=) (get_project pid c)" "evolves (=) (list_my_projects c)" "evolves (=) (admission pid c)"
  unfolding admission_def get_project_def list_my_projects_def project_buyer_def require_buyer_def
    owned_project_def Let_def
  by (intro reading_rules)+

lemma binding_reads:
  "evolves (=) (list_my_bindings pid c)" "evolves (=) (active_binding pid protocol c)" "evolves (=) (get_binding bid c)"
  "evolves (=) (sdk_hint bid c)" "evolves (=) (replace_preview bid c)" "evolves (=) (admit pid protocol provider model c)"
  unfolding sdk_hint_def get_binding_def list_my_bindings_def active_binding_def replace_preview_def admit_def
    binding_buyer_def require_buyer_def binding_project_def owned_binding_def Let_def
  by (intro reading_rules)+

lemma connection_reads:
  "evolves (=) (list_my_connections c)" "evolves (=) (get_connection cid c)" "evolves (=) (public_health cid c)"
  "evolves (=) (list_my_snapshots cid c)"
  unfolding list_my_connections_def get_connection_def public_health_def list_my_snapshots_def require_seller_def
    owned_connection_def Let_def
  by (intro reading_rules)+

lemma till_reads:
  "evolves (=) (overview pid c key)" "evolves (=) (guide pid c)" "evolves (=) (usage pid c key status)"
  unfolding overview_def guide_def usage_def budget_buyer_def budget_owned_def Let_def
  by (intro reading_rules)+

lemma key_reads: "evolves (=) (list_mine_keys i role)" "evolves (=) (list_project_keys i pid role)"
  unfolding list_mine_keys_def list_project_keys_def key_role_def require_project_def Let_def
  by (intro reading_rules)+

lemma seller_reads: "evolves (=) (list_seller_keys i role)" "evolves (=) (get_seller_key kid i role)"
  unfolding list_seller_keys_def get_seller_key_def require_seller_role_def owned_row_def Let_def
  by (intro reading_rules)+

lemma bench_reads: "evolves (=) (bench_cards seller cs)"
proof (induction cs)
  case (Cons c cs)
  have "evolves (=) (bench_card (card_of c) seller)"
    unfolding bench_card_def assert_private_def by (intro reading_rules)
  with Cons show ?case by (simp add: reading.bindE reading.ret)
qed (simp add: reading.ret)

lemmas service_reads = project_reads binding_reads connection_reads till_reads key_reads seller_reads bench_reads

lemma part_reads:
  "evolves (=) a \<Longrightarrow> evolves (=) (in_till a)" "evolves (=) b \<Longrightarrow> evolves (=) (in_desk b)"
  "evolves (=) c \<Longrightarrow> evolves (=) (in_market c)" "evolves (=) d \<Longrightarrow> evolves (=) (in_sellers d)"
  "evolves (=) e \<Longrightarrow> evolves (=) (in_bench e)"
  unfolding in_till_def in_desk_def in_market_def on_market_def in_sellers_def in_bench_def by (simp_all add: zoom_reads)

lemma answer_reads:
  "evolves (=) m \<Longrightarrow> evolves (=) (catching caught m)" "evolves (=) n \<Longrightarrow> evolves (=) (answering caught status view n)"
  "evolves (=) p \<Longrightarrow> evolves (=) (of_project pid rec p)" "evolves (=) (f a) \<Longrightarrow> evolves (=) (as_seller f a)"
  unfolding answering_def catching_def of_project_def as_seller_def by (intro reading_rules | assumption)+

lemmas route_reads = answer_reads part_reads service_reads reading_rules

subsection \<open>Guarded operations\<close>

text \<open>What the routes can change besides the authentication tables.\<close>

definition same_services :: "site \<Rightarrow> site \<Rightarrow> bool" where
  "same_services s t \<longleftrightarrow> si_till t = si_till s \<and> si_sellers t = si_sellers s \<and> si_bench t = si_bench s"

text \<open>\<open>only_if G m\<close>: the operation changes the services only from states of authentication with \<open>G\<close>.\<close>

definition only_if :: "(auth_state \<Rightarrow> bool) \<Rightarrow> 'a site_op \<Rightarrow> bool" where
  "only_if G m \<longleftrightarrow> (\<forall>s. same_services s (snd (m s)) \<or> G (si_auth s))"

definition known_caller :: "site_env \<Rightarrow> instant \<Rightarrow> auth_request \<Rightarrow> auth_state \<Rightarrow> bool" where
  "known_caller h now q s \<longleftrightarrow> (\<exists>a. fst (resolve_actor (sx_http h) now q s) = Inr (Inr a))"

definition passes_guard :: "site_env \<Rightarrow> instant \<Rightarrow> auth_request \<Rightarrow> auth_state \<Rightarrow> bool" where
  "passes_guard h now q s \<longleftrightarrow> (\<exists>a. fst (guard_write (sx_http h) now q s) = Inr (Inr a))"

lemma in_auth_run: "in_auth m s = (case m (si_auth s) of (r, u) \<Rightarrow> (case r of Inl e \<Rightarrow> Inl (Auth_raised e) | Inr x \<Rightarrow> Inr x, s\<lparr>si_auth := u\<rparr>))"
  by (simp add: in_auth_def zoom_def split: prod.split sum.split)

lemma only_if_reads: "evolves (=) m \<Longrightarrow> only_if G m"
  by (simp add: evolves_def only_if_def same_services_def)

lemma only_if_acting:
  assumes "\<And>a. evolves (=) (f a)"
  shows "only_if G (acting h now q f)"
proof -
  have "snd (f a s) = s" for a s using assms[of a] by (simp add: evolves_def)
  then show ?thesis
    by (auto simp: only_if_def acting_def bindE_def in_auth_run same_services_def ret_def split: prod.splits sum.splits)
qed

lemma only_if_known: "only_if (known_caller h now q) (acting h now q f)"
  by (auto simp: only_if_def acting_def bindE_def in_auth_run same_services_def ret_def known_caller_def
      split: prod.splits sum.splits)

text \<open>The guard stands before everything but reads.\<close>

lemma only_if_writing:
  assumes "\<And>a. f a = cookie_guard h q a (g a) \<or> evolves (=) (f a)"
  shows "only_if (passes_guard h now q) (acting h now q f)"
  unfolding only_if_def
proof
  fix s :: site
  let ?x = "sx_http h"
  obtain r u where who: "resolve_actor ?x now q (si_auth s) = (r, u)" by fastforce
  show "same_services s (snd (acting h now q f s)) \<or> passes_guard h now q (si_auth s)"
  proof (cases "\<exists>a. r = Inr (Inr a)")
    case True
    then obtain a where r: "r = Inr (Inr a)" by blast
    let ?d = "guard_cookie_mutation (hx_net ?x) (av_crypto (hx_auth ?x)) (av_csrf (hx_auth ?x)) (hx_origins ?x)
       (web_request.truncate q) (aw_session a)"
    let ?s = "s\<lparr>si_auth := u\<rparr>"
    have run: "acting h now q f s = f a ?s" using who r by (simp add: acting_def bindE_def in_auth_run)
    from assms[of a] show ?thesis
    proof
      assume f: "f a = cookie_guard h q a (g a)"
      show ?thesis
      proof (cases "?d = Inr None")
        case True
        with who r show ?thesis
          by (simp add: passes_guard_def guard_write_def bindE_def lift_def of_sum_def ret_def)
      next
        case False
        then show ?thesis unfolding run f
          by (auto simp: cookie_guard_def Let_def bindE_def in_auth_run lift_def of_sum_def ret_def same_services_def
              split: sum.splits option.splits)
      qed
    next
      assume "evolves (=) (f a)"
      then have "snd (f a ?s) = ?s" by (simp add: evolves_def)
      with run show ?thesis by (simp add: same_services_def)
    qed
  next
    case False
    with who show ?thesis
      by (auto simp: acting_def bindE_def in_auth_run same_services_def ret_def split: sum.splits)
  qed
qed

lemma only_if_guarded: "only_if (passes_guard h now q) (writing h now q f)"
  unfolding writing_def by (rule only_if_writing[where g = f]) simp

lemma only_if_as_seller: "only_if (passes_guard h now q) (acting h now q (as_seller (\<lambda>a. cookie_guard h q a (g a))))"
  by (rule only_if_writing[where g = g]) (auto simp: as_seller_def reading.ret)

subsection \<open>The routes\<close>

lemma web_guarded: "only_if (passes_guard h now q) (web_http h now q c)"
  by (cases c; simp only: web_http.simps;
      unfold create_project_route_def list_projects_route_def get_project_route_def patch_project_route_def
        delete_project_route_def transition_route_def admission_route_def protocol_route_def list_bindings_route_def
        create_binding_route_def active_binding_route_def admit_binding_route_def get_binding_route_def sdk_hint_route_def
        binding_action_route_def preview_replace_route_def replace_binding_route_def create_connection_route_def
        list_connections_route_def get_connection_route_def replace_credential_route_def verify_route_def health_route_def
        capabilities_route_def delete_connection_route_def lifecycle_route_def supply_mode_route_def;
      (rule only_if_guarded | (rule only_if_acting; (intro route_reads)?)))

lemma keys_guarded:
  assumes "\<And>pid amount key. c \<noteq> Admit_budget pid amount key"
  shows "only_if (passes_guard h now q) (keys_http h now q c)"
proof (cases c)
  case (Admit_budget pid amount key)
  with assms show ?thesis by blast
qed (simp only: keys_http.simps get_budget_route_def put_budget_route_def guide_route_def usage_route_def
    list_project_keys_route_def issue_project_key_route_def key_action_route_def issue_key_route_def list_keys_route_def
    revoke_key_route_def onboard_route_def list_seller_keys_route_def get_seller_key_route_def seller_action_route_def
    workbench_route_def quote_route_def capacity_route_def;
    (rule only_if_guarded | rule only_if_as_seller | (rule only_if_acting; (intro route_reads)?)))+

lemma keys_known: "only_if (known_caller h now q) (keys_http h now q (Admit_budget pid amount key))"
  by (simp add: admit_budget_route_def only_if_known)

text \<open>The secret that the gateway must present.\<close>

definition gateway_token :: "site_env \<Rightarrow> string \<Rightarrow> bool" where
  "gateway_token h token \<longleftrightarrow> token \<noteq> [] \<and> token \<in> {sx_token h, sx_token_env h}"

lemma internal_guarded: "only_if (\<lambda>_. \<exists>t. token = Some t \<and> gateway_token h t) (internal h token m)"
  by (cases token)
    (auto simp: only_if_def internal_def Let_def same_services_def ret_def gateway_token_def truthy_def split: if_splits)

lemma gateway_guarded: "only_if (\<lambda>_. \<exists>t. token = Some t \<and> gateway_token h t) (gateway_http h now q token c)"
proof (cases c)
  case (Degrade cid)
  then show ?thesis
    by (auto simp: degrade_route_def only_if_def same_services_def ret_def gateway_token_def split: if_splits)
qed (simp_all add: routable_connections_route_def unwrap_route_def internal_health_route_def routable_keys_route_def
    patch_health_route_def key_by_hash_route_def route_snapshot_route_def internal_guarded)

end
