(* ===== verification/Api_Contracts.thy ===== *)
theory Api_Contracts
  imports Api_Facts Auth_Effects
begin

section \<open>What the routes promise\<close>

text \<open>
  Which requests change the tables of authentication, and that a login over HTTP sets a cookie that opens its
  session. The caller that a route resolves is the user of an accepted session, and a change of the services over HTTP is
  authorized: by the token of the gateway, or by a session with its CSRF token and an origin on the list.
\<close>

subsection \<open>Where changes come from\<close>

definition from_listed_origin :: "http_env \<Rightarrow> auth_request \<Rightarrow> bool" where
  "from_listed_origin h q \<longleftrightarrow> (\<exists>n ns. normalize_origin (hx_net h) (or_str (wq_origin q) []) = Inr (Some n) \<and>
     normalize_origins (hx_net h) (allowed_origins (hx_origins h)) = Inr ns \<and> n \<in> set ns)"

lemma origin_listed: "origin_rejected h (wq_origin q) = Inr False \<Longrightarrow> from_listed_origin h q"
  by (auto simp: origin_rejected_def origin_allowed_def from_listed_origin_def map_sum_def split: sum.splits option.splits)

lemma cookie_key_present: "cookie_key env cookie = Some k \<Longrightarrow> truthy cookie"
  by (cases cookie; cases "the cookie") (auto simp: cookie_key_def parse_session_cookie_def truthy_def)

lemma from_origin_saves:
  assumes "\<not> from_listed_origin h q"
  shows "evolves same_saved (from_origin h q m)"
proof -
  have "origin_rejected h (wq_origin q) \<noteq> Inr False" using origin_listed assms by blast
  then show ?thesis
    by (cases "origin_rejected h (wq_origin q)")
      (auto simp: from_origin_def evolves_def bindE_def lift_def of_sum_def ret_def same_saved_def)
qed

lemma db_error_saves: "evolves same_saved m \<Longrightarrow> evolves same_saved (on_db_error m x)"
  unfolding on_db_error_def
  by (intro saved_kept.catch_op | assumption | (auto split: auth_error.splits; intro saved_rules))+

lemma bootstrap_saves: "evolves same_saved (bootstrap_session env now cookie)"
  unfolding bootstrap_session_def bootstrap_inner_def session_with_user_def session_by_digest_def user_by_id_def csrf_of_def
  by (intro db_error_saves saved_rules | simp)+

lemma security_summary_saves: "evolves same_saved (security_summary env now cookie)"
  unfolding security_summary_def session_with_user_def session_by_digest_def user_by_id_def recent_events_def
  by (intro saved_rules bootstrap_saves evolves_case_boot)+

lemma or_internal_saves: "evolves same_saved m \<Longrightarrow> evolves same_saved (or_internal_error m)"
  unfolding or_internal_error_def by (intro saved_rules saved_kept.catch_op)

lemma reads_save:
  "evolves same_saved (get_current_session h now q)" "evolves same_saved (get_security_summary h now q)"
  unfolding get_current_session_def get_security_summary_def
  by (intro or_internal_saves saved_rules bootstrap_saves security_summary_saves)+

lemma logout_without_cookie:
  assumes "\<not> truthy cookie"
  shows "evolves same_saved (logout_session env now cookie presented rq)"
proof -
  have "parse_session_cookie cookie = Inr None"
    using assms by (cases cookie) (auto simp: parse_session_cookie_def truthy_def)
  then have "enter env cookie = ret (if \<not> current_usable (av_session env) \<or> \<not> current_usable (av_csrf env) then No_keys else No_cookie)"
    by (simp add: enter_def bindE_def lift_def of_sum_def fun_eq_iff ret_def)
  then have "logout_inner env now cookie presented rq =
      ret (if \<not> current_usable (av_session env) \<or> \<not> current_usable (av_csrf env) then Logout_unavailable else Logged_out)"
    by (simp add: logout_inner_def bindE_def fun_eq_iff ret_def)
  then show ?thesis unfolding logout_session_def by (simp add: db_error_saves saved_kept.ret)
qed

lemma delete_session_saves: "\<not> from_listed_origin h q \<Longrightarrow> evolves same_saved (delete_current_session h now q)"
  unfolding delete_current_session_def Let_def
  by (simp add: from_origin_saves or_internal_saves saved_kept.bindE saved_kept.ret logout_without_cookie)

lemma served_saves:
  assumes "evolves same_saved m"
  shows "at_saved (as_auth (snd (served m s))) = at_saved (as_auth s)"
proof -
  obtain r u where m: "m ((as_auth s)\<lparr>at_work := at_saved (as_auth s)\<rparr>) = (r, u)" by fastforce
  from evolvesD[OF assms this] m show ?thesis
    by (cases r) (simp_all add: served_def zoom_def serve_def same_saved_def)
qed

lemma profile_saves:
  assumes "\<not> from_listed_origin h q"
  shows "snd (complete_profile_route h now q random nickname role s) = s"
proof -
  have "origin_rejected h (wq_origin q) \<noteq> Inr False" using origin_listed assms by blast
  then show ?thesis
    by (cases "origin_rejected h (wq_origin q)") (auto simp: complete_profile_route_def bindE_def of_sum_def ret_def)
qed

text \<open>Accounts, sessions, codes and every other table of authentication change over HTTP only by requests
  from an origin on the list.\<close>

theorem auth_change_from_origin:
  assumes "auth_http h now q route s = (r, t)" "at_saved (as_auth t) \<noteq> at_saved (as_auth s)"
  shows "from_listed_origin h q"
proof (rule ccontr)
  assume foreign: "\<not> from_listed_origin h q"
  have "at_saved (as_auth (snd (auth_http h now q route s))) = at_saved (as_auth s)"
  proof (cases route)
    case Post_register
    then show ?thesis by (simp add: ret_def)
  next
    case (Post_profile random nickname role)
    with foreign show ?thesis by (simp add: profile_saves)
  qed (use foreign in \<open>simp_all add: served_saves reads_save delete_session_saves from_origin_saves
      request_verification_challenge_def create_authenticated_session_def revoke_web_sessions_def switch_workspace_route_def\<close>)
  with assms show False by simp
qed

subsection \<open>A login over HTTP\<close>

lemma served_run: "served m s = (r, t) \<longleftrightarrow> serve m (as_auth s) = (r, as_auth t) \<and> as_counts t = as_counts s"
  by (cases s; cases t) (auto simp: served_def zoom_def split: prod.splits sum.splits)

lemma login_route_cookie:
  assumes "create_authenticated_session h now q random cid code s = (Inr r, w)" "Set_session cookie \<in> set (re_cookies r)"
  obtains v where "from_listed_origin h q" "r = with_cookies [Set_session cookie] (success_response 200 (Session_body v))"
    "create_session (hx_auth h) now random cid code (wq_id q) (Some (client_ip h q)) s = (Inr (Issued v cookie), w)"
proof -
  have plain: "re_cookies (error_response status code' body) = []" "re_cookies (success_response status body) = []"
    "re_cookies internal_error = []" "re_cookies unavailable = []" for status code' body
    by (simp_all add: error_response_def success_response_def internal_error_def unavailable_def)
  have origin: "origin_rejected h (wq_origin q) = Inr False"
    using assms by (cases "origin_rejected h (wq_origin q)")
      (auto simp: create_authenticated_session_def from_origin_def bindE_def lift_def of_sum_def ret_def plain split: if_splits)
  let ?m = "create_session (hx_auth h) now random cid code (wq_id q) (Some (client_ip h q))"
  obtain x u where x: "?m s = (x, u)" by fastforce
  with assms origin obtain y where y: "x = Inr y" and r: "r = issue_response y" "u = w"
    by (cases x) (auto simp: create_authenticated_session_def from_origin_def or_internal_error_def bindE_def catch_op_def
        lift_def of_sum_def ret_def plain)
  from assms(2) r obtain v where "y = Issued v cookie"
    by (cases y) (auto simp: issue_response_def with_cookies_def plain split: if_splits)
  with r x y origin assms(2) that origin_listed show thesis
    by (auto simp: issue_response_def with_cookies_def plain split: if_splits)
qed

lemma session_route_opens:
  assumes "serve (bootstrap_session (hx_auth h) now (wq_cookie q)) (as_auth t) = (Inr (Boot_ok v), as_auth t)"
  shows "auth_http h now q Get_session t = (Inr (success_response 200 (Session_body v)), t)"
proof -
  from serve_run[OF assms] obtain u where "bootstrap_session (hx_auth h) now (wq_cookie q)
      ((as_auth t)\<lparr>at_work := at_saved (as_auth t)\<rparr>) = (Inr (Boot_ok v), u)" "as_auth t = u\<lparr>at_work := at_saved u\<rparr>" by blast
  then show ?thesis
    by (simp add: served_run serve_def get_current_session_def or_internal_error_def bindE_def catch_op_def ret_def
        bootstrap_response_def)
qed

text \<open>A login over HTTP comes from an origin on the list, and the cookie it sets opens the session: until it
  expires, a request with that cookie is answered with the very session that the login was answered with, and
  changes nothing.\<close>

theorem login_over_http:
  assumes "auth_reach (as_auth s)" "auth_http h now q (Post_session random cid code) s = (Inr r, t)"
    and "Set_session cookie \<in> set (re_cookies r)" "wq_cookie q' = Some cookie" "later < now + session_ttl"
  shows "from_listed_origin h q \<and> auth_http h later q' Get_session t = (Inr (success_response 200 (re_body r)), t)"
proof -
  from assms(2) have run: "serve (create_authenticated_session h now q random cid code) (as_auth s) = (Inr r, as_auth t)"
    by (simp add: served_run)
  from serve_run[OF run] obtain w where w: "create_authenticated_session h now q random cid code
      ((as_auth s)\<lparr>at_work := at_saved (as_auth s)\<rparr>) = (Inr r, w)" and t: "as_auth t = w\<lparr>at_work := at_saved w\<rparr>" by blast
  from login_route_cookie[OF w assms(3)] obtain v where listed: "from_listed_origin h q"
    and r: "r = with_cookies [Set_session cookie] (success_response 200 (Session_body v))"
    and login: "create_session (hx_auth h) now random cid code (wq_id q) (Some (client_ip h q))
      ((as_auth s)\<lparr>at_work := at_saved (as_auth s)\<rparr>) = (Inr (Issued v cookie), w)" .
  from login t have "serve (create_session (hx_auth h) now random cid code (wq_id q) (Some (client_ip h q))) (as_auth s)
      = (Inr (Issued v cookie), as_auth t)" by (simp add: serve_def)
  from cookie_opens[OF assms(1) this assms(5)] session_route_opens[of h later q' t v] assms(4) listed r
  show ?thesis by (simp add: with_cookies_def success_response_def)
qed

subsection \<open>The caller of a request\<close>

text \<open>The session and the user that the cookie of a request names, accepted at this moment.\<close>

definition signed_in_as :: "http_env \<Rightarrow> instant \<Rightarrow> auth_request \<Rightarrow> auth_state \<Rightarrow> auth_session \<Rightarrow> user \<Rightarrow> bool" where
  "signed_in_as h now q s x u \<longleftrightarrow> (\<exists>k. cookie_key (hx_auth h) (wq_cookie q) = Some k \<and> accepts (hx_auth h) now k (at_saved s) x u)"

lemma session_by_digest_named:
  "named_sessions (version, digest) (at_work s) = [x] \<Longrightarrow> session_by_digest version digest s = (Inr (Some x), s)"
  by (simp add: session_by_digest_def look_def named_sessions_def sole_def run)

lemma identity_of_cookie:
  assumes "resolve_authenticated_identity h now cookie s = (Inr (Inr i), t)"
  shows "\<exists>k x u. cookie_key (hx_auth h) cookie = Some k \<and> accepts (hx_auth h) now k (at_work s) x u \<and>
    i = \<lparr>id_user = us_id u, id_session = Some (se_id x), id_workspace = Some (se_workspace x)\<rparr> \<and> t = s"
proof -
  obtain b w where b: "bootstrap_session (hx_auth h) now cookie s = (b, w)" by fastforce
  with assms obtain v where "b = Inr (Boot_ok v)"
    by (cases b) (auto simp: resolve_authenticated_identity_def Let_def bindE_def ret_def split: bootstrap_result.splits)
  with b have boot: "bootstrap_session (hx_auth h) now cookie s = (Inr (Boot_ok v), w)" by simp
  then have "bootstrap_inner (hx_auth h) now cookie s = (Inr (Boot_ok v), w)"
    unfolding bootstrap_session_def by (auto dest: on_db_error_Inr)
  from bootstrap_inner_ok[OF this] obtain k x u where k: "cookie_key (hx_auth h) cookie = Some k"
    and ok: "accepts (hx_auth h) now k (at_work s) x u" and w: "w = s" and user: "ss_user v = us_id u"
    by (auto simp: session_summary_of_def) (metis session_summary.select_convs(1))
  obtain version opaque key digest where parts: "parse_session_cookie cookie = Inr (Some (version, opaque))"
      "resolve_key (av_session (hx_auth h)) version = Some key" "token_digest (av_crypto (hx_auth h)) key opaque = Inr digest"
      "k = (version, digest)"
    using k by (auto simp: cookie_key_def split: sum.splits option.splits prod.splits)
  have "session_by_digest version digest s = (Inr (Some x), s)"
    using ok parts(4) by (intro session_by_digest_named) (simp add: accepts_def)
  with assms boot w user parts
  have "i = \<lparr>id_user = us_id u, id_session = Some (se_id x), id_workspace = Some (se_workspace x)\<rparr> \<and> t = s"
    by (auto simp: resolve_authenticated_identity_def Let_def bindE_def lift_def of_sum_def ret_def)
  with k ok show ?thesis by blast
qed

lemma actor_of_cookie:
  assumes "resolve_actor h now q s = (Inr (Inr a), t)" "hx_actor h = None" "auth_inv s"
  shows "\<exists>x u. signed_in_as h now q s x u \<and>
    a = \<lparr>aw_user = us_id u, aw_role = us_role u, aw_session = Some (se_id x), aw_workspace = Some (se_workspace x)\<rparr>"
proof -
  let ?s = "s\<lparr>at_work := at_saved s\<rparr>"
  from assms(1,2) have "serve (load_actor h now (wq_cookie q)) s = (Inr (Inr a), t)"
    by (auto simp: resolve_actor_def ret_def split: if_splits)
  from serve_run[OF this] obtain w where load: "load_actor h now (wq_cookie q) ?s = (Inr (Inr a), w)" by blast
  obtain b v where b: "resolve_authenticated_identity h now (wq_cookie q) ?s = (b, v)" by fastforce
  with load obtain i where "b = Inr (Inr i)"
    by (cases b) (auto simp: load_actor_def bindE_def ret_def split: sum.splits)
  with b have who: "resolve_authenticated_identity h now (wq_cookie q) ?s = (Inr (Inr i), v)" by simp
  from identity_of_cookie[OF who] obtain k x u where k: "cookie_key (hx_auth h) (wq_cookie q) = Some k"
    and at: "accepts (hx_auth h) now k (at_work ?s) x u" and v: "v = ?s"
    and i: "i = \<lparr>id_user = us_id u, id_session = Some (se_id x), id_workspace = Some (se_workspace x)\<rparr>"
    by blast
  from at have ok: "accepts (hx_auth h) now k (at_saved s) x u" by simp
  have user: "user_of (at_saved s) (us_id u) = Some u"
    using accepted_generation(2,3)[OF assms(3) ok] by simp
  have "a = \<lparr>aw_user = us_id u, aw_role = us_role u, aw_session = Some (se_id x), aw_workspace = Some (se_workspace x)\<rparr>"
    using load who user
    by (auto simp: load_actor_def op_success v i user_by_id_def look_def user_of_def split: option.splits if_splits)
  with k ok show ?thesis by (auto simp: signed_in_as_def)
qed

subsection \<open>Changes are authorized\<close>

definition no_form :: "auth_request \<Rightarrow> bool" where
  "no_form q \<longleftrightarrow> \<not> list_ex (has_part (py_lower (or_str (wq_content_type q) []))) form_types"

lemma guard_of_cookie:
  assumes "guard_cookie_mutation (hx_net h) c mat (hx_origins h) (web_request.truncate q) (Some sid) = Inr None"
    and "truthy (wq_cookie q)"
  shows "no_form q \<and> from_listed_origin h q \<and> csrf_issued c mat sid (wq_csrf q)"
  using guard_passed[OF assms(1)] assms(2)
  by (auto simp: web_request.truncate_def no_form_def from_listed_origin_def list_ex_iff)

text \<open>What a change of the services over HTTP takes.\<close>

definition authorized :: "site_env \<Rightarrow> instant \<Rightarrow> auth_request \<Rightarrow> api_call \<Rightarrow> auth_state \<Rightarrow> bool" where
  "authorized h now q c s = (case c of
       Gateway token g \<Rightarrow> \<exists>t. token = Some t \<and> gateway_token h t
     | _ \<Rightarrow> \<exists>x u. signed_in_as (sx_http h) now q s x u \<and>
         ((\<exists>pid amount key. c = Keys (Admit_budget pid amount key)) \<or>
          no_form q \<and> from_listed_origin (sx_http h) q \<and>
          csrf_issued (av_crypto (hx_auth (sx_http h))) (av_csrf (hx_auth (sx_http h))) (se_id x) (wq_csrf q)))"

lemma guarded_caller:
  assumes "passes_guard h now q s" "hx_actor (sx_http h) = None" "auth_inv s"
  shows "\<exists>x u. signed_in_as (sx_http h) now q s x u \<and> no_form q \<and> from_listed_origin (sx_http h) q \<and>
    csrf_issued (av_crypto (hx_auth (sx_http h))) (av_csrf (hx_auth (sx_http h))) (se_id x) (wq_csrf q)"
proof -
  let ?x = "sx_http h"
  from assms(1) obtain a t where "guard_write ?x now q s = (Inr (Inr a), t)"
    unfolding passes_guard_def by (metis prod.collapse)
  then obtain w where who: "resolve_actor ?x now q s = (Inr (Inr a), w)"
    and pass: "guard_cookie_mutation (hx_net ?x) (av_crypto (hx_auth ?x)) (av_csrf (hx_auth ?x)) (hx_origins ?x)
           (web_request.truncate q) (aw_session a) = Inr None"
    by (auto simp: guard_write_def bindE_def lift_def of_sum_def ret_def split: prod.splits sum.splits option.splits)
  from actor_of_cookie[OF who assms(2,3)] obtain x u where who: "signed_in_as ?x now q s x u"
    and a: "aw_session a = Some (se_id x)" by auto
  then have "truthy (wq_cookie q)" by (auto simp: signed_in_as_def dest: cookie_key_present)
  with guard_of_cookie[OF pass[unfolded a]] who show ?thesis by blast
qed

text \<open>C20 (safety). No request changes projects, bindings, connections, keys, budgets or the workbench unauthorized:
  it comes from the gateway with its token, or its cookie opens an accepted session and, but for the admission of an
  amount against a budget, it comes from an origin on the list, is no form, and carries the
  CSRF token issued for that very session.\<close>

theorem site_change_authorized:
  assumes "auth_reach (si_auth s)" "hx_actor (sx_http h) = None" "api_http h now q c s = (r, t)"
    "\<not> same_services s t"
  shows "authorized h now q c (si_auth s)"
proof -
  note inv = auth_reach_inv[OF assms(1)]
  have changed: "G (si_auth s)" if "only_if G (api_http h now q c)" for G
    using that assms(3,4) by (auto simp: only_if_def) (metis snd_conv)
  have guarded: "authorized h now q c (si_auth s)" if "passes_guard h now q (si_auth s)" "\<And>token g. c \<noteq> Gateway token g"
    using guarded_caller[OF that(1) assms(2) inv] that(2) by (cases c) (auto simp: authorized_def)
  show ?thesis
  proof (cases c)
    case (Web w)
    with changed[of "passes_guard h now q"] web_guarded guarded show ?thesis by simp
  next
    case (Keys k)
    show ?thesis
    proof (cases "\<exists>pid amount key. k = Admit_budget pid amount key")
      case True
      with Keys changed[of "known_caller h now q"] keys_known have "known_caller h now q (si_auth s)" by auto
      then obtain a w where "resolve_actor (sx_http h) now q (si_auth s) = (Inr (Inr a), w)"
        unfolding known_caller_def by (metis prod.collapse)
      from actor_of_cookie[OF this assms(2) inv] True Keys show ?thesis by (auto simp: authorized_def)
    next
      case False
      with Keys changed[of "passes_guard h now q"] keys_guarded guarded show ?thesis by simp
    qed
  next
    case (Gateway token g)
    with changed[of "\<lambda>_. \<exists>t. token = Some t \<and> gateway_token h t"] gateway_guarded show ?thesis
      by (simp add: authorized_def)
  qed
qed

end
