(* ===== verification/Api_Evidence.thy ===== *)
theory Api_Evidence
  imports Api_Contracts Auth_Evidence Desk_Contracts Gate_Evidence Seller_Key_Evidence
begin

section \<open>Requests of a signed-in buyer\<close>

text \<open>
  A shop with one signed-in buyer: the property of \<^verbatim>\<open>Api_Contracts\<close> on a real request, and two findings.
\<close>

text \<open>The buyer with the session of \<^verbatim>\<open>Auth_Samples\<close> creates a project.\<close>

definition shop_http :: http_env where
  "shop_http = \<lparr>hx_auth = auth_demo, hx_net = sample_urls, hx_ip = sample_ips, hx_origins = ''https://a'', hx_proxies = [],
     hx_limits = \<lparr>rg_ip_limit = 2, rg_phone_limit = 1\<rparr>, hx_database = True, hx_actor = None\<rparr>"

definition shop_env :: site_env where
  "shop_env = \<lparr>sx_http = shop_http, sx_api = demo_env, sx_keys = demo_keys, sx_seller = vault ''v1'',
     sx_validate = \<lambda>platform key rq. good_snapshot, sx_token = ''t'', sx_token_env = []\<rparr>"

definition shop :: site where
  "shop = \<lparr>si_auth = signed_in,
     si_till = \<lparr>tl_desk = empty_desk,
       tl_views = [(0, \<lparr>qv_available = 100, qv_reserved = 0, qv_settled = 0, qv_unresolved = 0, qv_requests = []\<rparr>)],
       tl_policies = [], tl_pending = []\<rparr>,
     si_sellers = empty_sellers, si_bench = new_workbench default_bounds 5 60\<rparr>"

definition shop_request :: auth_request where
  "shop_request = \<lparr>wq_content_type = Some ''application/json'', wq_cookie = Some ''1.AQ'', wq_origin = Some ''https://a'',
     wq_csrf = Some ''1.Bw'', wq_profile_cookie = None, wq_peer = None, wq_forwarded = None, wq_idempotency = None, wq_id = ''r''\<rparr>"

definition open_shop :: site where
  "open_shop = snd (api_http shop_env (seconds 5) shop_request (Web (Post_project demo_project)) shop)"

definition shop_projects :: "site \<Rightarrow> string list" where
  "shop_projects s = map pj_display_name (project_list_by_owner 0 (mk_projects (dk_market (tl_desk (si_till s)))))"

lemma shop_opens: "shop_projects shop = [] \<and> shop_projects open_shop = [''p'']"
  by code_simp

theorem site_change_authorized_witness:
  "shop_projects open_shop = [''p''] \<and> authorized shop_env (seconds 5) shop_request (Web (Post_project demo_project)) signed_in"
proof -
  have shop: "si_auth shop = signed_in" "hx_actor (sx_http shop_env) = None"
    by (simp_all add: shop_def shop_env_def shop_http_def)
  have "\<not> same_services shop open_shop" using shop_opens by (auto simp: same_services_def shop_projects_def)
  from site_change_authorized[of shop shop_env "seconds 5" shop_request "Web (Post_project demo_project)",
      OF _ _ prod.collapse[symmetric]] this shop login_reach(2) shop_opens
  show ?thesis by (simp add: open_shop_def del: api_http.simps)
qed

subsection \<open>Two findings\<close>

text \<open>The admission of an amount is booked without the CSRF token that every other write with a cookie needs.\<close>

lemma budget_admission_unguarded:
  "tl_pending (si_till (snd (api_http shop_env (seconds 6) (shop_request\<lparr>wq_csrf := None\<rparr>) (Keys (Admit_budget 0 60 None)) open_shop)))
     = [(0, 60)] \<and>
   fst (api_http shop_env (seconds 6) (shop_request\<lparr>wq_csrf := None\<rparr>) (Keys (Put_budget 0 50 10 None)) open_shop) =
     Inr (Refused 403 ''CSRF_INVALID'')"
  by (rule conjI; code_simp)

text \<open>The buyer publishes binding 2 under the path of project 7: the answer is that nothing was found, but the binding is active.\<close>

definition owner_env :: site_env where
  "owner_env = shop_env\<lparr>sx_http := shop_http\<lparr>hx_actor := Some \<lparr>aw_user = 2, aw_role = ''buyer'', aw_session = None,
     aw_workspace = None\<rparr>\<rparr>\<rparr>"

definition owner_request :: auth_request where
  "owner_request = shop_request\<lparr>wq_cookie := None\<rparr>"

definition binding_now :: "site \<Rightarrow> binding_status option" where
  "binding_now s = map_option bd_status (the_binding 2 (dk_market (tl_desk (si_till s))))"

lemma published_elsewhere:
  "binding_now (shop\<lparr>si_till := demo_till\<rparr>) = Some Bs_draft \<and>
   (case api_http owner_env (seconds 6) owner_request (Web (Act_on_binding 7 2 Do_publish)) (shop\<lparr>si_till := demo_till\<rparr>) of
      (r, t) \<Rightarrow> r = Inr (Refused 404 ''NOT_FOUND'') \<and> binding_now t = Some Bs_active)"
  by (rule conjI; code_simp)

end
