(* ===== verification/Spec2Isabelle.thy ===== *)
theory Spec2Isabelle
  imports Registry Recon_Facts Market_Effects Desk_Contracts Auth_Evidence Authz_Facts Admin_Evidence
    Seller_Key_Evidence Workbench_Facts Usage Gate_Evidence Api_Evidence
begin

text \<open>
  TokenMarket is a marketplace for the use of large language models: sellers connect their provider accounts,
  buyers run projects on them through proxy keys, and every request is priced, reserved, settled and reconciled.
  This library models the Python services under \<^verbatim>\<open>src/services\<close>, and the tools that deploy them, and states what they promise. \<^verbatim>\<open>api\<close>,
  \<^verbatim>\<open>billing\<close> and \<^verbatim>\<open>admin\<close> stand below for \<^verbatim>\<open>services/api-service/app\<close>, \<^verbatim>\<open>services/billing-service/app\<close> and
  \<^verbatim>\<open>services/admin-service/app\<close>.

  \<^bold>\<open>How the code is translated.\<close> An operation is a function \<open>state \<Rightarrow> (error + value) \<times> state\<close>
  (\<^verbatim>\<open>Prelude\<close>): it keeps what it wrote before it raised, as Python does. A dictionary is an association list in the order
  of insertion, a dataclass a record, an enumeration a datatype, an exception a constructor of the error type of its
  package. Python integers are \<open>int\<close>, times are \<open>int\<close> in microseconds, bytes are \<open>8 word list\<close>. An operation reads
  the clock once: \<open>now\<close> is an argument. Identifiers (\<^verbatim>\<open>uuid4\<close>) come from a counter of the store, so they are new. A
  service call is one step, since the services hold their lock, or do not await, while they change the state;
  where the code does wait in between (the validation of a seller's credential) the call is two steps and others
  may come between them. Database transactions have a saved and a working copy, with \<open>commit\<close>, \<open>rollback\<close> and the
  constraints of the tables (\<^verbatim>\<open>Auth_Store\<close>, \<^verbatim>\<open>Authz\<close>).

  \<^bold>\<open>What is an argument.\<close> Code outside the repository is never defined here. Hash functions are a record \<open>cryptolib\<close>;
  the properties that need it suppose that SHAKE-256 gives as many bytes as it is asked for (\<open>shake_ok\<close>) or
  that a hash has no collision among the texts at hand. \<^verbatim>\<open>urllib\<close>, \<^verbatim>\<open>ipaddress\<close>, the resolver, the vendor probe, the
  validation of credentials, the SMS port, NFKC normalization, the parsing of identifiers, random bytes and
  which database calls fail are arguments too.

  \<^bold>\<open>Shared.\<close> \<^verbatim>\<open>Prelude\<close> has the values, dictionaries and operations, and the locale \<open>evolution\<close>: a reflexive and
  transitive relation that every primitive keeps is kept by every operation built from them. \<^verbatim>\<open>Interfaces\<close> has the
  locales \<open>keyed_store\<close> (a store returns what was last written under a key), \<open>cas_store\<close> (compare and
  set: of two writers one is refused) and \<open>status_machine\<close> (no way back, final states stay). Each component
  interprets them on its own stores and relations.

  \<^bold>\<open>Pricing\<close> (\<^verbatim>\<open>billing/domain/pricing\<close>). \<^verbatim>\<open>Pricing\<close>: rate rows and \<^verbatim>\<open>quote.py\<close>; a quote is unresolved, or its debit is
  earning and spread. \<^verbatim>\<open>Registry\<close>: \<^verbatim>\<open>registry.py\<close>; one version is published (if identifiers are not empty), it was validated,
  it keeps its content, and a price lock never changes.

  \<^bold>\<open>Ledger\<close> (\<^verbatim>\<open>billing/domain/ledger\<close>). \<^verbatim>\<open>Ledger_Store\<close> and \<^verbatim>\<open>Ledger\<close>: the store and every method of \<^verbatim>\<open>LedgerService\<close>.
  \<^verbatim>\<open>Ledger_Facts\<close> turns each operation into a sequence of postings, \<^verbatim>\<open>Ledger_Invariants\<close> and \<^verbatim>\<open>Ledger_Books\<close> carry
  the balances through them, \<^verbatim>\<open>Ledger_Contracts\<close> states what a caller relies on: reserved amounts are the open
  reservations, double entry (of a request whose corrections are one-sided), append-only, retries, and a call that raises changes nothing. \<^verbatim>\<open>Ledger_Samples\<close> is
  one request through the ledger.

  \<^bold>\<open>Reconciliation\<close> (\<^verbatim>\<open>billing/domain/recon\<close>). \<^verbatim>\<open>Recon\<close> drives the ledger by events and ticks, \<^verbatim>\<open>Recon_Facts\<close> shows that
  it only goes through the ledger's operations, that events count once, and what the previews of a reversal fix.

  \<^bold>\<open>Marketplace\<close> (\<^verbatim>\<open>api/domain\<close>: \<^verbatim>\<open>connections\<close>, \<^verbatim>\<open>bindings\<close>, \<^verbatim>\<open>projects\<close>, \<^verbatim>\<open>sellerkeys/crypto.py\<close>). \<^verbatim>\<open>Api_Base\<close>,
  \<^verbatim>\<open>Market_Stores\<close>, \<^verbatim>\<open>Credentials\<close>, \<^verbatim>\<open>Egress\<close>, \<^verbatim>\<open>Market\<close>, \<^verbatim>\<open>Connections\<close>, \<^verbatim>\<open>Lifecycle\<close>, \<^verbatim>\<open>Bindings\<close> and
  \<^verbatim>\<open>Projects\<close> are the code: all services over one state \<open>market\<close>, each looking into the stores of the others as
  \<^verbatim>\<open>main.py\<close> wires them. \<^verbatim>\<open>Market_Growth\<close> says how each record may develop, \<^verbatim>\<open>Market_Steps\<close> that every call keeps the
  invariant of all stores, \<^verbatim>\<open>Market_Contracts\<close> and \<^verbatim>\<open>Market_Effects\<close> what follows for reachable states and for the
  single calls, and at the end what the model shows the code to do against its intention.

  \<^bold>\<open>Keys and budgets\<close> (\<^verbatim>\<open>api/domain/proxykeys\<close>, \<^verbatim>\<open>budget\<close>). \<^verbatim>\<open>Proxy_Keys\<close>, \<^verbatim>\<open>Budget\<close>; \<^verbatim>\<open>Desk_Steps\<close> runs them beside the
  marketplace, \<^verbatim>\<open>Desk_Contracts\<close> says what an authorization rests on and that quotas hold.

  \<^bold>\<open>Authentication\<close> (\<^verbatim>\<open>api/security\<close>, \<^verbatim>\<open>api/domain/authentication\<close>, \<^verbatim>\<open>users\<close>, \<^verbatim>\<open>api/repositories\<close>). \<^verbatim>\<open>Auth_Crypto\<close>,
  \<^verbatim>\<open>Auth_Store\<close>, \<^verbatim>\<open>Auth_Sessions\<close>, \<^verbatim>\<open>Auth_Challenges\<close>, \<^verbatim>\<open>Auth_Profiles\<close> are the code. \<^verbatim>\<open>Auth_Growth\<close>,
  \<^verbatim>\<open>Auth_Steps\<close> and \<^verbatim>\<open>Auth_Runs\<close> carry the invariant of the tables through every call; \<^verbatim>\<open>Auth_Contracts\<close>,
  \<^verbatim>\<open>Auth_Logins\<close>, \<^verbatim>\<open>Auth_Guesses\<close>, \<^verbatim>\<open>Auth_Effects\<close>, \<^verbatim>\<open>Auth_Codes\<close>, \<^verbatim>\<open>Auth_Seats\<close> (an abstract specification and its
  refinement) and \<^verbatim>\<open>Auth_Retention\<close> state the properties, \<^verbatim>\<open>Auth_Samples\<close> and \<^verbatim>\<open>Auth_Evidence\<close> evaluate them. Fuel:
  the rejection sampling of a code tries 64 counters, as the code does (\<^verbatim>\<open>Auth_Codes\<close>: it takes the
  first candidate below the limit); the cleanup loop gets a bound on its
  rounds, and one more than the number of rows is shown to be enough. The cleanup is not among the calls of
  \<open>auth_step\<close>, as it deletes what the other calls only add to.

  \<^bold>\<open>Authorization\<close> (\<^verbatim>\<open>api/domain/authorization\<close>). \<^verbatim>\<open>Authz\<close> has the matrix, the tables and the service, \<^verbatim>\<open>Authz_Contracts\<close> its
  runs, \<^verbatim>\<open>Authz_Facts\<close> that only the entitled are allowed, that decisions are recorded or refused, and that
  what is missing and what is foreign look the same.

  \<^bold>\<open>Seller keys, workbench, usage\<close> (\<^verbatim>\<open>api/domain/sellerkeys\<close>, \<^verbatim>\<open>workbench\<close>, \<^verbatim>\<open>usage\<close>, \<^verbatim>\<open>api/api/v1/internal.py\<close>).
  \<^verbatim>\<open>Seller_Keys\<close> with \<^verbatim>\<open>Seller_Key_Facts\<close> and \<^verbatim>\<open>Seller_Key_Evidence\<close>: what the gateway is given is the credential that was
  onboarded, and a revoked key is dead. \<^verbatim>\<open>Workbench\<close> and \<^verbatim>\<open>Workbench_Facts\<close>: quotes within bounds and rate.
  \<^verbatim>\<open>Usage\<close>: the first observation of a request stays, a later one that disagrees in platform, model, total or source is a
  conflict.

  \<^bold>\<open>Administration\<close> (\<^verbatim>\<open>admin/domain\<close>, \<^verbatim>\<open>admin/api\<close>). \<^verbatim>\<open>Admin\<close>, \<^verbatim>\<open>Ops\<close>: accounts, step-up, the audit chain, the configuration
  pipeline, wizards, the catalog and the handlers of the console. \<^verbatim>\<open>Admin_Steps\<close>, \<^verbatim>\<open>Ops_Steps\<close>: runs.
  \<^verbatim>\<open>Admin_Contracts\<close>, \<^verbatim>\<open>Admin_Facts\<close>, \<^verbatim>\<open>Admin_Evidence\<close>: guarded actions, an intact audit chain, simulated
  configurations, wizards confirmed once. The walk over the catalog gets as much fuel as there are items.

  \<^bold>\<open>Edge of the API\<close> (\<^verbatim>\<open>api/security\<close>, \<^verbatim>\<open>api/rate_limit.py\<close>, \<^verbatim>\<open>api/api/v1/mutation_guard.py\<close>). \<^verbatim>\<open>Edge\<close> and \<^verbatim>\<open>Edge_Facts\<close>:
  the address of a client behind proxies, the limits of registration, the guard of writes with a cookie, the secrets of
  the process.

  \<^bold>\<open>HTTP\<close> (\<^verbatim>\<open>api/api/v1\<close>, \<^verbatim>\<open>api/dependencies.py\<close>). \<^verbatim>\<open>Http\<close>: the routes of authentication and the caller of a request.
  \<^verbatim>\<open>Api_State\<close> puts the states of all services into one record \<open>site\<close> and has the guards and the data of responses, \<^verbatim>\<open>Api_Http\<close> and \<^verbatim>\<open>Api_Keys_Http\<close> the other routes,
  with the requests and the route of each. \<^verbatim>\<open>Api_Facts\<close> separates the routes that only read from those that
  stand behind a guard, \<^verbatim>\<open>Api_Contracts\<close> says which requests change the tables of authentication and
  concludes that a change of the services is authorized, \<^verbatim>\<open>Api_Evidence\<close> evaluates requests and shows two routes that do what they should not. \<open>usage-observations\<close> is in \<^verbatim>\<open>Usage\<close>.

  \<^bold>\<open>Approval and deployment\<close> (\<^verbatim>\<open>tools/workflow\<close>: \<^verbatim>\<open>mode.py\<close>, \<^verbatim>\<open>prod_approval.py\<close>, \<^verbatim>\<open>image_pin.py\<close>, \<^verbatim>\<open>deploy_env/lifecycle.py\<close>).
  \<^verbatim>\<open>Approval\<close>: modes, the signed approval of production and the marks of used ones; \<^verbatim>\<open>Approval_Facts\<close>: the signature binds
  what it says, a check accepts it once per nonce, for what the call names. \<^verbatim>\<open>Deploy\<close>, \<^verbatim>\<open>Deploy_Run\<close>: the release
  manifest, the pinned images, \<open>deploy_up\<close> and \<open>deploy_down\<close>, with the commands given to Docker as a list;
  \<^verbatim>\<open>Deploy_Facts\<close>: no stack is touched before its checks have passed. \<^verbatim>\<open>Gate_Evidence\<close> evaluates edge, approval and
  deployment.

  \<^bold>\<open>Not modelled.\<close> The SQL stores and the migrations (the services are modelled over the in-memory stores of the same
  interfaces, except authentication and authorization, whose tables and queries are modelled); processes,
  files, containers and the network, which is most of the rest of \<^verbatim>\<open>src/tools/workflow\<close>; the routes of
  \<^verbatim>\<open>api/v1/authorization.py\<close>, whose service is modelled; the checks of request bodies by \<^verbatim>\<open>pydantic\<close> and readable
  messages; health checks, metrics, logs and tracing; the floating-point service levels; the gateway and the front
  end, which are not Python.
\<close>

end
